(* ===== verification/Prelude.thy ===== *)
theory Prelude
  imports Complex_Main "HOL-Library.Multiset"
begin

text \<open>
  What every component of the model shares: the numeric conventions of the Python code
  (\<open>int\<close>, \<open>round\<close>, \<open>numpy.clip\<close>, \<open>numpy.interp\<close>), the unit conversions of
  \<open>common/constants.py\<close>, the loop periods of \<open>common/realtime.py\<close>, the sorted insertion
  of the standard library's \<open>bisect\<close>, the formatting of numbers in f-strings, and the
  lemma collections the component theories extend.

  Python's floats are modelled by exact reals: rounding of binary64 is not modelled.
  Python's ints are \<open>int\<close>. A raised exception is a value \<open>Inl e\<close> of a sum type.
\<close>

named_theorems frame_simps \<open>which parts of a state an operation leaves alone\<close>
named_theorems step_simps \<open>the functional behaviour of single steps\<close>

section \<open>Errors\<close>

datatype py_error = KeyError int | NotImplementedError | ZeroDivisionError | IndexError | ValueError | AssertionError | AttributeError | EOFError | TypeError

type_synonym 'a result = "py_error + 'a"

definition bind_result :: "'a result \<Rightarrow> ('a \<Rightarrow> 'b result) \<Rightarrow> 'b result" where
  "bind_result m f = (case m of Inl e \<Rightarrow> Inl e | Inr a \<Rightarrow> f a)"

lemma bind_result_simps [simp]:
  "bind_result (Inl e) f = Inl e"
  "bind_result (Inr a) f = f a"
  by (simp_all add: bind_result_def)

text \<open>\<open>xs[n]\<close> of a list raises past the end.\<close>

definition py_nth :: "'a list \<Rightarrow> nat \<Rightarrow> 'a result" where
  "py_nth xs n = (if n < length xs then Inr (xs ! n) else Inl IndexError)"

lemma bind_result_Inr_iff:
  "bind_result m f = Inr b \<longleftrightarrow> (\<exists>a. m = Inr a \<and> f a = Inr b)"
  by (cases m) auto

text \<open>
  A block of statements on a state, each of which may raise: the block stops at the first
  statement that raises.
\<close>

fun run_block :: "('s \<Rightarrow> 's result) list \<Rightarrow> 's \<Rightarrow> 's result" where
  "run_block [] s = Inr s"
| "run_block (f # fs) s = bind_result (f s) (run_block fs)"

definition if_do :: "('s \<Rightarrow> bool) \<Rightarrow> ('s \<Rightarrow> 's result) \<Rightarrow> ('s \<Rightarrow> 's result) \<Rightarrow> 's \<Rightarrow> 's result" where
  "if_do c f g s = (if c s then f s else g s)"

definition when_do :: "('s \<Rightarrow> bool) \<Rightarrow> ('s \<Rightarrow> 's result) \<Rightarrow> 's \<Rightarrow> 's result" where
  "when_do c f s = (if c s then f s else Inr s)"

definition pure_do :: "('s \<Rightarrow> 's) \<Rightarrow> 's \<Rightarrow> 's result" where
  "pure_do f s = Inr (f s)"

text \<open>\<open>keeps P f\<close>: from a state with \<open>P\<close> the statement does not raise and \<open>P\<close> holds after it.\<close>

definition keeps :: "('s \<Rightarrow> bool) \<Rightarrow> ('s \<Rightarrow> 's result) \<Rightarrow> bool" where
  "keeps P f \<longleftrightarrow> (\<forall>s. P s \<longrightarrow> (\<exists>s'. f s = Inr s' \<and> P s'))"

lemma keepsI [intro?]: "(\<And>s. P s \<Longrightarrow> \<exists>s'. f s = Inr s' \<and> P s') \<Longrightarrow> keeps P f"
  by (simp add: keeps_def)

lemma keepsD: "keeps P f \<Longrightarrow> P s \<Longrightarrow> \<exists>s'. f s = Inr s' \<and> P s'"
  by (simp add: keeps_def)

lemma run_block_step: "f s = Inr s' \<Longrightarrow> run_block (f # fs) s = run_block fs s'"
  by simp

lemma run_block_append: "run_block (fs @ gs) s = bind_result (run_block fs s) (run_block gs)"
  by (induction fs arbitrary: s) (auto simp: bind_result_def split: sum.splits)

lemma keeps_Nil [simp]: "keeps P (run_block [])"
  by (simp add: keeps_def)

lemma keeps_Cons: "keeps P f \<Longrightarrow> keeps P (run_block fs) \<Longrightarrow> keeps P (run_block (f # fs))"
  unfolding keeps_def by fastforce

lemma keeps_block: "(\<And>f. f \<in> set fs \<Longrightarrow> keeps P f) \<Longrightarrow> keeps P (run_block fs)"
  by (induction fs) (auto intro: keeps_Cons)

lemma keeps_if: "keeps P f \<Longrightarrow> keeps P g \<Longrightarrow> keeps P (if_do c f g)"
  by (simp add: keeps_def if_do_def)

lemma keeps_when: "keeps P f \<Longrightarrow> keeps P (when_do c f)"
  by (simp add: keeps_def when_do_def)

lemma keeps_pure: "(\<And>s. P s \<Longrightarrow> P (f s)) \<Longrightarrow> keeps P (pure_do f)"
  by (simp add: keeps_def pure_do_def)

lemmas do_defs = if_do_def when_do_def pure_do_def

section \<open>Numbers\<close>

text \<open>\<open>int(x)\<close>: truncation towards zero.\<close>

definition py_int :: "real \<Rightarrow> int" where
  "py_int x = (if x < 0 then \<lceil>x\<rceil> else \<lfloor>x\<rfloor>)"

text \<open>\<open>round(x)\<close>: to the nearest integer, ties to the even one.\<close>

definition py_round :: "real \<Rightarrow> int" where
  "py_round x = (let f = \<lfloor>x\<rfloor>; d = x - of_int f in
     if d < 1/2 then f else if d > 1/2 then f + 1 else if even f then f else f + 1)"

text \<open>\<open>round(x, 1)\<close>.\<close>

definition py_round1 :: "real \<Rightarrow> real" where
  "py_round1 x = of_int (py_round (10 * x)) / 10"

text \<open>\<open>numpy.clip(x, lo, hi)\<close>, which is \<open>minimum(maximum(x, lo), hi)\<close>.\<close>

definition clip :: "'a::linorder \<Rightarrow> 'a \<Rightarrow> 'a \<Rightarrow> 'a" where
  "clip x lo hi = min (max x lo) hi"

text \<open>
  \<open>numpy.interp(x, xp, fp)\<close> on breakpoints given as a list of pairs: constant outside the
  breakpoints, linear between two neighbours.
\<close>

fun interp_from :: "real \<Rightarrow> real \<times> real \<Rightarrow> (real \<times> real) list \<Rightarrow> real" where
  "interp_from x (x0, y0) [] = y0"
| "interp_from x (x0, y0) ((x1, y1) # ps) =
     (if x < x1 then (y1 - y0) / (x1 - x0) * (x - x0) + y0 else interp_from x (x1, y1) ps)"

definition interp :: "real \<Rightarrow> (real \<times> real) list \<Rightarrow> real" where
  "interp x ps = (case ps of [] \<Rightarrow> 0
     | (x0, y0) # qs \<Rightarrow> if x \<le> x0 then y0 else interp_from x (x0, y0) qs)"

lemma py_int_of_int [simp]: "py_int (of_int k) = k"
  by (simp add: py_int_def)

lemma py_int_numeral [simp]:
  "py_int (numeral k) = numeral k" "py_int 0 = 0" "py_int 1 = 1"
  using py_int_of_int [of "numeral k"] py_int_of_int [of 0] py_int_of_int [of 1] by simp_all

lemma py_round_of_int [simp]: "py_round (of_int k) = k"
  by (simp add: py_round_def Let_def)

lemma py_round_bounds:
  "x - 1/2 \<le> of_int (py_round x)" "of_int (py_round x) \<le> x + 1/2"
  unfolding py_round_def Let_def by (auto; linarith)+

lemma floor_le_py_round: "\<lfloor>x\<rfloor> \<le> py_round x"
  by (auto simp: py_round_def Let_def)

lemma py_round_le_Suc_floor: "py_round x \<le> \<lfloor>x\<rfloor> + 1"
  by (auto simp: py_round_def Let_def)

lemma py_round_mono: assumes "x \<le> y" shows "py_round x \<le> py_round y"
proof (cases "\<lfloor>x\<rfloor> = \<lfloor>y\<rfloor>")
  case True
  with assms show ?thesis by (simp add: py_round_def Let_def)
next
  case False
  then have "\<lfloor>x\<rfloor> + 1 \<le> \<lfloor>y\<rfloor>" using floor_mono [OF assms] by linarith
  then show ?thesis using py_round_le_Suc_floor [of x] floor_le_py_round [of y] by linarith
qed

lemma py_round_le_int: "x \<le> of_int k \<Longrightarrow> py_round x \<le> k"
  using py_round_mono [of x "of_int k"] by simp

lemma py_round_ge_int: "of_int k \<le> x \<Longrightarrow> k \<le> py_round x"
  using py_round_mono [of "of_int k" x] by simp

lemma py_round1_bounds:
  "of_int k \<le> x \<Longrightarrow> of_int k \<le> py_round1 x"
  "x \<le> of_int k \<Longrightarrow> py_round1 x \<le> of_int k"
proof -
  show "of_int k \<le> py_round1 x" if "of_int k \<le> x"
  proof -
    have "10 * k \<le> py_round (10 * x)" using that by (intro py_round_ge_int) simp
    then have "of_int (10 * k) \<le> (of_int (py_round (10 * x)) :: real)" by (simp only: of_int_le_iff)
    then show ?thesis by (simp add: py_round1_def)
  qed
  show "py_round1 x \<le> of_int k" if "x \<le> of_int k"
  proof -
    have "py_round (10 * x) \<le> 10 * k" using that by (intro py_round_le_int) simp
    then have "(of_int (py_round (10 * x)) :: real) \<le> of_int (10 * k)" by (simp only: of_int_le_iff)
    then show ?thesis by (simp add: py_round1_def)
  qed
qed

lemma clip_bounds: "lo \<le> hi \<Longrightarrow> lo \<le> clip x lo hi" "clip x lo hi \<le> hi"
  by (auto simp: clip_def)

lemma clip_id: "lo \<le> x \<Longrightarrow> x \<le> hi \<Longrightarrow> clip x lo hi = x"
  by (simp add: clip_def)

lemma interp_from_between:
  assumes "\<forall>p\<in>set ps. lo \<le> snd p \<and> snd p \<le> hi" "lo \<le> snd p0" "snd p0 \<le> hi"
    and "sorted (map fst (p0 # ps))" and "fst p0 \<le> x"
  shows "lo \<le> interp_from x p0 ps \<and> interp_from x p0 ps \<le> hi"
  using assms
proof (induction x p0 ps rule: interp_from.induct)
  case (1 x x0 y0)
  then show ?case by simp
next
  case (2 x x0 y0 x1 y1 ps)
  show ?case
  proof (cases "x < x1")
    case False
    with 2 show ?thesis by simp
  next
    case True
    with "2.prems" have pos: "0 < x1 - x0" and x: "0 \<le> x - x0" "x - x0 \<le> x1 - x0" by auto
    define t where "t = (x - x0) / (x1 - x0)"
    have t: "0 \<le> t" "t \<le> 1" using pos x by (simp_all add: t_def)
    have eq: "interp_from x (x0, y0) ((x1, y1) # ps) = (1 - t) * y0 + t * y1"
    proof -
      have "(y1 - y0) / (x1 - x0) * (x - x0) = (y1 - y0) * t" by (simp add: t_def)
      with True show ?thesis by (simp add: algebra_simps)
    qed
    have y: "lo \<le> y0" "y0 \<le> hi" "lo \<le> y1" "y1 \<le> hi" using "2.prems" by auto
    have a: "(1 - t) * lo \<le> (1 - t) * y0" "(1 - t) * y0 \<le> (1 - t) * hi"
      using t y by (auto intro!: mult_left_mono)
    have b: "t * lo \<le> t * y1" "t * y1 \<le> t * hi"
      using t y by (auto intro!: mult_left_mono)
    have c: "(1 - t) * lo + t * lo = lo" "(1 - t) * hi + t * hi = hi" by (simp_all add: algebra_simps)
    show ?thesis unfolding eq using a b c by linarith
  qed
qed

text \<open>Interpolation never leaves the range of the table's values.\<close>

lemma interp_between:
  assumes "\<forall>p\<in>set ps. lo \<le> snd p \<and> snd p \<le> hi" "sorted (map fst ps)" "ps \<noteq> []"
  shows "lo \<le> interp x ps \<and> interp x ps \<le> hi"
proof (cases ps)
  case Nil
  with assms show ?thesis by simp
next
  case (Cons p qs)
  then show ?thesis
    using assms interp_from_between [of qs lo hi p x] by (cases p) (auto simp: interp_def)
qed

lemma sum_list_list_update:
  "i < length xs \<Longrightarrow> sum_list (xs[i := v]) = sum_list xs + v - (xs ! i :: real)"
  by (induction xs arbitrary: i) (auto simp: nth_Cons split: nat.splits)

section \<open>Constants\<close>

definition DT_CTRL :: real where "DT_CTRL = 1/100"
definition DT_MDL :: real where "DT_MDL = 5/100"
definition DT_DMON :: real where "DT_DMON = 5/100"

definition MPH_TO_KPH :: real where "MPH_TO_KPH = 1609344 / 1000000"
definition KPH_TO_MPH :: real where "KPH_TO_MPH = 1 / MPH_TO_KPH"
definition MS_TO_KPH :: real where "MS_TO_KPH = 36 / 10"
definition KPH_TO_MS :: real where "KPH_TO_MS = 1 / MS_TO_KPH"
definition MS_TO_MPH :: real where "MS_TO_MPH = MS_TO_KPH * KPH_TO_MPH"
definition MPH_TO_MS :: real where "MPH_TO_MS = MPH_TO_KPH * KPH_TO_MS"
definition ACCELERATION_DUE_TO_GRAVITY :: real where "ACCELERATION_DUE_TO_GRAVITY = 981 / 100"

lemmas constant_defs =
  DT_CTRL_def DT_MDL_def DT_DMON_def MPH_TO_KPH_def KPH_TO_MPH_def MS_TO_KPH_def KPH_TO_MS_def
  MS_TO_MPH_def MPH_TO_MS_def ACCELERATION_DUE_TO_GRAVITY_def

section \<open>Sorted insertion\<close>

text \<open>
  \<open>bisect.bisect_right\<close> of the standard library: the loop over \<open>lo\<close> and \<open>hi\<close>, and
  \<open>bisect.insort\<close>, which inserts where it ends.
\<close>

function bisect_right :: "'a::linorder list \<Rightarrow> 'a \<Rightarrow> nat \<Rightarrow> nat \<Rightarrow> nat" where
  "bisect_right xs x lo hi =
     (if lo < hi then
        let mid = (lo + hi) div 2 in
        if x < xs ! mid then bisect_right xs x lo mid else bisect_right xs x (mid + 1) hi
      else lo)"
  by pat_completeness auto
termination
  by (relation "measure (\<lambda>(xs, x, lo, hi). hi - lo)") auto

declare bisect_right.simps [simp del]

definition insort_right :: "'a::linorder \<Rightarrow> 'a list \<Rightarrow> 'a list" where
  "insort_right x xs =
     (let i = bisect_right xs x 0 (length xs) in take i xs @ x # drop i xs)"

lemma bisect_right_correct:
  assumes "sorted xs" "lo \<le> hi" "hi \<le> length xs"
    and "\<forall>i<lo. xs ! i \<le> x" "\<forall>i. hi \<le> i \<and> i < length xs \<longrightarrow> x < xs ! i"
  shows "bisect_right xs x lo hi \<le> length xs
    \<and> (\<forall>i < bisect_right xs x lo hi. xs ! i \<le> x)
    \<and> (\<forall>i. bisect_right xs x lo hi \<le> i \<and> i < length xs \<longrightarrow> x < xs ! i)"
  using assms
proof (induction xs x lo hi rule: bisect_right.induct)
  case (1 xs x lo hi)
  show ?case
  proof (cases "lo < hi")
    case False
    with "1.prems" show ?thesis by (subst (1 2 3) bisect_right.simps) auto
  next
    case True
    define mid where "mid = (lo + hi) div 2"
    have mid: "lo \<le> mid" "mid < hi" "mid < length xs" using True "1.prems" by (auto simp: mid_def)
    have mono: "\<And>i j. i \<le> j \<Longrightarrow> j < length xs \<Longrightarrow> xs ! i \<le> xs ! j"
      using "1.prems"(1) by (simp add: sorted_iff_nth_mono)
    show ?thesis
    proof (cases "x < xs ! mid")
      case less: True
      have "\<forall>i. mid \<le> i \<and> i < length xs \<longrightarrow> x < xs ! i" using less mono by fastforce
      with "1.IH"(1) [OF True mid_def less] "1.prems" mid True less show ?thesis
        by (simp add: bisect_right.simps [of xs x lo hi] mid_def [symmetric] Let_def)
    next
      case ge: False
      have "\<forall>i<mid+1. xs ! i \<le> x" using ge mono mid by (metis Suc_eq_plus1 less_Suc_eq_le linorder_not_less order_trans)
      with "1.IH"(2) [OF True mid_def ge] "1.prems" mid True ge show ?thesis
        by (simp add: bisect_right.simps [of xs x lo hi] mid_def [symmetric] Let_def)
    qed
  qed
qed

lemma insort_right_split:
  assumes "sorted xs"
  obtains i where "insort_right x xs = take i xs @ x # drop i xs"
    and "\<forall>y\<in>set (take i xs). y \<le> x" and "\<forall>y\<in>set (drop i xs). x < y"
proof
  let ?i = "bisect_right xs x 0 (length xs)"
  have c: "?i \<le> length xs \<and> (\<forall>i < ?i. xs ! i \<le> x)
    \<and> (\<forall>i. ?i \<le> i \<and> i < length xs \<longrightarrow> x < xs ! i)"
    using assms by (intro bisect_right_correct) auto
  show "insort_right x xs = take ?i xs @ x # drop ?i xs" by (simp add: insort_right_def Let_def)
  show "\<forall>y\<in>set (take ?i xs). y \<le> x" using c by (auto simp: in_set_conv_nth)
  show "\<forall>y\<in>set (drop ?i xs). x < y" using c by (auto simp: in_set_conv_nth)
qed

lemma set_insort_right [simp]: "set (insort_right x xs) = insert x (set xs)"
proof -
  have "set (take i xs) \<union> set (drop i xs) = set xs" for i
    by (metis append_take_drop_id set_append)
  then show ?thesis by (simp add: insort_right_def Let_def)
qed

lemma sorted_insort_right [simp]: "sorted xs \<Longrightarrow> sorted (insort_right x xs)"
  by (rule insort_right_split [of xs x])
     (auto simp: sorted_append sorted_wrt_take sorted_wrt_drop dest: order_le_less_trans less_imp_le)

lemma length_insort_right [simp]: "length (insort_right x xs) = Suc (length xs)"
  by (simp add: insort_right_def Let_def min_def)

lemma count_list_insort_right:
  "count_list (insort_right x xs) y = count_list xs y + (if x = y then 1 else 0)"
proof -
  have "count_list (take i xs) y + count_list (drop i xs) y = count_list xs y" for i
    by (metis append_take_drop_id count_list_append)
  then show ?thesis by (simp add: insort_right_def Let_def)
qed

text \<open>On a sorted list the bisection is the library's \<open>insort\<close>.\<close>

lemma mset_insort_right [simp]: "mset (insort_right x xs) = add_mset x (mset xs)"
proof -
  have "mset (take i xs) + mset (drop i xs) = mset xs" for i
    by (metis append_take_drop_id mset_append)
  then show ?thesis by (simp add: insort_right_def Let_def)
qed

lemma insort_right_eq_insort:
  assumes "sorted xs"
  shows "insort_right x xs = insort x xs"
proof -
  have "mset (insort_right x xs) = mset (insort x xs)" by simp
  with assms show ?thesis
    by (metis sorted_insort_right sorted_insort properties_for_sort)
qed

section \<open>Numbers in f-strings\<close>

definition digit_char :: "nat \<Rightarrow> char" where
  "digit_char d = char_of (48 + d)"

fun show_nat :: "nat \<Rightarrow> string" where
  "show_nat n = (if n < 10 then [digit_char n] else show_nat (n div 10) @ [digit_char (n mod 10)])"

declare show_nat.simps [simp del]

definition show_int :: "int \<Rightarrow> string" where
  "show_int k = (if k < 0 then ''-'' @ show_nat (nat (- k)) else show_nat (nat k))"

text \<open>\<open>{x:.1f}\<close>: one decimal, ties to even; the sign of a negative number is kept.\<close>

definition show_fixed1 :: "real \<Rightarrow> string" where
  "show_fixed1 x = (let k = nat (py_round (10 * \<bar>x\<bar>)) in
     (if x < 0 then ''-'' else '''') @ show_nat (k div 10) @ ''.'' @ show_nat (k mod 10))"

text \<open>\<open>{x:.0f}\<close>.\<close>

definition show_fixed0 :: "real \<Rightarrow> string" where
  "show_fixed0 x = (if x < 0 then ''-'' else '''') @ show_nat (nat (py_round \<bar>x\<bar>))"

text \<open>\<open>', '.join(xs)\<close>.\<close>

fun join_comma :: "string list \<Rightarrow> string" where
  "join_comma [] = ''''"
| "join_comma [x] = x"
| "join_comma (x # xs) = x @ '', '' @ join_comma xs"

text \<open>\<open>sub in s\<close> for strings.\<close>

fun is_substring :: "string \<Rightarrow> string \<Rightarrow> bool" where
  "is_substring p [] = (p = [])"
| "is_substring p (c # cs) = (take (length p) (c # cs) = p \<or> is_substring p cs)"

section \<open>Extremal elements\<close>

text \<open>Python's \<open>max\<close> and \<open>min\<close> with a key return the first of the extremal elements.\<close>

fun max_by :: "('a \<Rightarrow> real) \<Rightarrow> 'a \<Rightarrow> 'a list \<Rightarrow> 'a" where
  "max_by f m [] = m"
| "max_by f m (x # xs) = max_by f (if f x > f m then x else m) xs"

abbreviation min_by :: "('a \<Rightarrow> real) \<Rightarrow> 'a \<Rightarrow> 'a list \<Rightarrow> 'a" where
  "min_by f \<equiv> max_by (\<lambda>x. - f x)"

lemma max_by_in: "max_by f m xs \<in> set (m # xs)"
proof (induction xs arbitrary: m)
  case (Cons x xs)
  show ?case using Cons [of "if f x > f m then x else m"] by (auto split: if_split_asm)
qed simp

lemma max_by_start: "f m \<le> f (max_by f m xs)"
proof (induction xs arbitrary: m)
  case (Cons x xs)
  show ?case using Cons [of x] Cons [of m] by (auto intro: order_trans [of "f m" "f x"])
qed simp

lemma max_by_ge: "y \<in> set (m # xs) \<Longrightarrow> f y \<le> f (max_by f m xs)"
proof (induction xs arbitrary: m)
  case (Cons x xs)
  let ?n = "if f x > f m then x else m"
  show ?case
  proof (cases "y \<in> set xs")
    case True
    then show ?thesis using Cons.IH [of ?n] by simp
  next
    case False
    with Cons.prems have "f y \<le> f ?n" by auto
    also have "\<dots> \<le> f (max_by f ?n xs)" by (rule max_by_start)
    finally show ?thesis by simp
  qed
qed simp

end
