(* ===== verification/Car_Types.thy ===== *)
theory Car_Types
  imports Prelude
begin

text \<open>
  The message structures the components read, as records with the fields the code uses. The
  enumerations of \<open>cereal/log.capnp\<close> and \<open>cereal/custom.capnp\<close> are complete. The schema of
  the car interface (\<open>CarState\<close>, \<open>CarParams\<close>, button types, gears, safety models) belongs to
  the opendbc package, which is not part of this repository: of its enumerations we name the
  members the code names, and one constructor stands for all others. Values the code takes
  from opendbc (flag bits, per-car gear lists, the speed bound of the interfaces) are the
  record \<open>opendbc\<close>, an argument of the definitions that use them.
\<close>

section \<open>Car interface\<close>

datatype button_type = BT_accelCruise | BT_decelCruise | BT_setCruise | BT_resumeCruise
  | BT_cancel | BT_mainCruise | BT_lkas | BT_gapAdjustCruise | BT_other int

record button_event =
  be_type :: button_type
  be_pressed :: bool

datatype gear_shifter = Gear_park | Gear_drive | Gear_reverse | Gear_low | Gear_other int

record cruise_state =
  cr_available :: bool
  cr_enabled :: bool
  cr_standstill :: bool
  cr_nonAdaptive :: bool
  cr_speed :: real
  cr_speedCluster :: real

record car_state =
  cs_vEgo :: real
  cs_aEgo :: real
  cs_vCruise :: real
  cs_vCruiseCluster :: real
  cs_standstill :: bool
  cs_gasPressed :: bool
  cs_brakePressed :: bool
  cs_brake :: real
  cs_regenBraking :: bool
  cs_brakeHoldActive :: bool
  cs_parkingBrake :: bool
  cs_steeringPressed :: bool
  cs_steeringTorque :: real
  cs_steeringAngleDeg :: real
  cs_steeringRateDeg :: real
  cs_steeringDisengage :: bool
  cs_steerFaultTemporary :: bool
  cs_steerFaultPermanent :: bool
  cs_doorOpen :: bool
  cs_seatbeltUnlatched :: bool
  cs_gearShifter :: gear_shifter
  cs_espDisabled :: bool
  cs_espActive :: bool
  cs_stockFcw :: bool
  cs_stockAeb :: bool
  cs_stockLkas :: bool
  cs_accFaulted :: bool
  cs_vehicleSensorsInvalid :: bool
  cs_invalidLkasSetting :: bool
  cs_lowSpeedAlert :: bool
  cs_buttonEnable :: bool
  cs_blockPcmEnable :: bool
  cs_leftBlinker :: bool
  cs_rightBlinker :: bool
  cs_leftBlindspot :: bool
  cs_rightBlindspot :: bool
  cs_canValid :: bool
  cs_canTimeout :: bool
  cs_buttonEvents :: "button_event list"
  cs_cruiseState :: cruise_state

datatype safety_model = SM_silent | SM_noOutput | SM_other int

record safety_config =
  sc_safetyModel :: safety_model
  sc_safetyParam :: int

datatype network_location = NL_fwdCamera | NL_other int

datatype steer_control_type = SCT_angle | SCT_other int

record torque_tuning =
  tt_latAccelFactor :: real
  tt_latAccelOffset :: real
  tt_friction :: real
  tt_steeringAngleDeadzoneDeg :: real

datatype lateral_tuning = LT_pid "(real \<times> real) list" "(real \<times> real) list" real
  | LT_torque torque_tuning | LT_other

record car_params =
  cp_brand :: string
  cp_flags :: int
  cp_carFingerprint :: string
  cp_passive :: bool
  cp_notCar :: bool
  cp_pcmCruise :: bool
  cp_openpilotLongitudinalControl :: bool
  cp_minSteerSpeed :: real
  cp_minEnableSpeed :: real
  cp_networkLocation :: network_location
  cp_safetyConfigs :: "safety_config list"
  cp_alternativeExperience :: int
  cp_secOcRequired :: bool
  cp_secOcKeyAvailable :: bool
  cp_alphaLongitudinalAvailable :: bool
  cp_steerAtStandstill :: bool
  cp_steerLimitTimer :: real
  cp_startingState :: bool
  cp_vEgoStarting :: real
  cp_vEgoStopping :: real
  cp_startAccel :: real
  cp_stopAccel :: real
  cp_stoppingDecelRate :: real
  cp_long_kp :: "(real \<times> real) list"
  cp_long_ki :: "(real \<times> real) list"
  cp_radarUnavailable :: bool
  cp_radarDelay :: real
  cp_steerRatio :: real
  cp_wheelbase :: real
  cp_longitudinalActuatorDelay :: real
  cp_steerActuatorDelay :: real
  cp_steerControlType :: steer_control_type
  cp_lateralTuning :: lateral_tuning

record car_params_sp =
  cpsp_flags :: int
  cpsp_safetyParam :: int
  cpsp_pcmCruiseSpeed :: bool
  cpsp_enableGasInterceptor :: bool

record car_control =
  cc_enabled :: bool
  cc_latActive :: bool
  cc_longActive :: bool
  cc_cruise_override :: bool
  cc_cruise_cancel :: bool
  cc_cruise_resume :: bool
  cc_accel :: real
  cc_torque :: real

text \<open>What the code takes from the opendbc package.\<close>

record opendbc =
  odb_MAX_CTRL_SPEED :: real
  odb_TOYOTA_HYBRID :: int
  odb_HYUNDAI_LDA_OR_CANFD :: int
  odb_HYUNDAI_SP_MAIN_CRUISE_TOGGLEABLE :: int
  odb_HYUNDAI_SAFETY_MAIN_CRUISE_TOGGLEABLE :: int
  odb_TESLA_HAS_VEHICLE_BUS :: int
  odb_ALT_EXP_ENABLE_MADS :: int
  odb_ALT_EXP_DISENGAGE_ON_BRAKE :: int
  odb_ALT_EXP_PAUSE_ON_BRAKE :: int
  odb_RAM_DT :: "string list"
  odb_DRIVABLE_GEARS :: "string \<Rightarrow> gear_shifter list"
  odb_ACCEL_MIN :: real
  odb_ACCEL_MAX :: real
  odb_ISO_LATERAL_ACCEL :: real
  odb_GRAVITY :: real
  odb_HYUNDAI_SP_ENHANCED_SCC :: int
  odb_HYUNDAI_CAMERA_SCC_FLAGS :: int

section \<open>Enumerations of log.capnp and custom.capnp\<close>

datatype openpilot_state = OP_disabled | OP_preEnabled | OP_enabled | OP_softDisabling | OP_overriding

datatype mads_state = MADS_disabled | MADS_paused | MADS_enabled | MADS_softDisabling | MADS_overriding

datatype alert_status = AS_normal | AS_userPrompt | AS_critical

datatype alert_size = SZ_none | SZ_small | SZ_mid | SZ_full

datatype lane_change_state = LC_off | LC_preLaneChange | LC_laneChangeStarting | LC_laneChangeFinishing

datatype lane_change_direction = LCD_none | LCD_left | LCD_right

datatype turn_direction = TD_none | TD_turnLeft | TD_turnRight

datatype desire = Desire_none | Desire_turnLeft | Desire_turnRight | Desire_laneChangeLeft
  | Desire_laneChangeRight | Desire_keepLeft | Desire_keepRight

datatype cal_status = Cal_uncalibrated | Cal_calibrated | Cal_invalid | Cal_recalibrating

text \<open>\<open>LONGITUDINAL_PERSONALITY_MAP\<close>: the enumerant's name.\<close>

definition personality_name :: "int \<Rightarrow> string result" where
  "personality_name p = (if p = 0 then Inr ''aggressive'' else if p = 1 then Inr ''standard''
     else if p = 2 then Inr ''relaxed'' else Inl (KeyError p))"

text \<open>Some messages to evaluate the model on.\<close>

definition default_cruise :: cruise_state where
  "default_cruise = \<lparr>cr_available = False, cr_enabled = False, cr_standstill = False,
     cr_nonAdaptive = False, cr_speed = 0, cr_speedCluster = 0\<rparr>"

definition default_cs :: car_state where
  "default_cs = \<lparr>cs_vEgo = 0, cs_aEgo = 0, cs_vCruise = 0, cs_vCruiseCluster = 0, cs_standstill = False,
     cs_gasPressed = False, cs_brakePressed = False, cs_brake = 0, cs_regenBraking = False,
     cs_brakeHoldActive = False, cs_parkingBrake = False, cs_steeringPressed = False,
     cs_steeringTorque = 0, cs_steeringAngleDeg = 0, cs_steeringRateDeg = 0, cs_steeringDisengage = False, cs_steerFaultTemporary = False,
     cs_steerFaultPermanent = False, cs_doorOpen = False, cs_seatbeltUnlatched = False,
     cs_gearShifter = Gear_other 0, cs_espDisabled = False, cs_espActive = False,
     cs_stockFcw = False, cs_stockAeb = False, cs_stockLkas = False, cs_accFaulted = False,
     cs_vehicleSensorsInvalid = False, cs_invalidLkasSetting = False, cs_lowSpeedAlert = False,
     cs_buttonEnable = False, cs_blockPcmEnable = False, cs_leftBlinker = False,
     cs_rightBlinker = False, cs_leftBlindspot = False, cs_rightBlindspot = False,
     cs_canValid = False, cs_canTimeout = False, cs_buttonEvents = [],
     cs_cruiseState = default_cruise\<rparr>"

definition default_cp :: car_params where
  "default_cp = \<lparr>cp_brand = '''', cp_flags = 0, cp_carFingerprint = '''', cp_passive = False,
     cp_notCar = False, cp_pcmCruise = False, cp_openpilotLongitudinalControl = False,
     cp_minSteerSpeed = 0, cp_minEnableSpeed = 0, cp_networkLocation = NL_other 0,
     cp_safetyConfigs = [], cp_alternativeExperience = 0, cp_secOcRequired = False,
     cp_secOcKeyAvailable = False, cp_alphaLongitudinalAvailable = False, cp_steerAtStandstill = False,
     cp_steerLimitTimer = 1, cp_startingState = False, cp_vEgoStarting = 1/2, cp_vEgoStopping = 1/2,
     cp_startAccel = 0, cp_stopAccel = -2, cp_stoppingDecelRate = 8/10, cp_long_kp = [(0, 1)],
     cp_long_ki = [(0, 1)], cp_radarUnavailable = False, cp_radarDelay = 1/10, cp_steerRatio = 15,
     cp_wheelbase = 27/10, cp_longitudinalActuatorDelay = 15/100, cp_steerActuatorDelay = 1/10, cp_steerControlType = SCT_other 0,
     cp_lateralTuning = LT_pid [(0, 1)] [(0, 1)] 1\<rparr>"

definition default_cp_sp :: car_params_sp where
  "default_cp_sp = \<lparr>cpsp_flags = 0, cpsp_safetyParam = 0, cpsp_pcmCruiseSpeed = True,
     cpsp_enableGasInterceptor = False\<rparr>"

definition test_opendbc :: opendbc where
  "test_opendbc = \<lparr>odb_MAX_CTRL_SPEED = 45, odb_TOYOTA_HYBRID = 1, odb_HYUNDAI_LDA_OR_CANFD = 3,
     odb_HYUNDAI_SP_MAIN_CRUISE_TOGGLEABLE = 1, odb_HYUNDAI_SAFETY_MAIN_CRUISE_TOGGLEABLE = 1,
     odb_TESLA_HAS_VEHICLE_BUS = 1, odb_ALT_EXP_ENABLE_MADS = 1024, odb_ALT_EXP_DISENGAGE_ON_BRAKE = 2048,
     odb_ALT_EXP_PAUSE_ON_BRAKE = 4096, odb_RAM_DT = [], odb_DRIVABLE_GEARS = (\<lambda>_. []),
     odb_ACCEL_MIN = -4, odb_ACCEL_MAX = 2, odb_ISO_LATERAL_ACCEL = 3, odb_GRAVITY = 9,
     odb_HYUNDAI_SP_ENHANCED_SCC = 2, odb_HYUNDAI_CAMERA_SCC_FLAGS = 4\<rparr>"

lemmas default_msg_defs = default_cruise_def default_cs_def default_cp_def default_cp_sp_def

end
