(* ===== verification/Event_Names.thy ===== *)
theory Event_Names
  imports Prelude
begin

text \<open>
  The enumerations \<open>EventName\<close> of \<open>cereal/log.capnp\<close> and of \<open>OnroadEventSP\<close> in
  \<open>cereal/custom.capnp\<close>. The Python code handles an event by its raw enumerant, an int, and
  keeps event lists sorted by it; so do we: an event name abbreviates its number. The prefix is
  \<open>ev\<close> for \<open>EventName\<close> and \<open>evsp\<close> for \<open>EventNameSP\<close>. \<open>EVENT_NAME\<close> is the reverse
  dictionary from number to name.
\<close>

type_synonym event_id = int

section \<open>EventName\<close>

abbreviation (input) ev_canError :: event_id where "ev_canError \<equiv> 0"
abbreviation (input) ev_steerUnavailable :: event_id where "ev_steerUnavailable \<equiv> 1"
abbreviation (input) ev_wrongGear :: event_id where "ev_wrongGear \<equiv> 2"
abbreviation (input) ev_doorOpen :: event_id where "ev_doorOpen \<equiv> 3"
abbreviation (input) ev_seatbeltNotLatched :: event_id where "ev_seatbeltNotLatched \<equiv> 4"
abbreviation (input) ev_espDisabled :: event_id where "ev_espDisabled \<equiv> 5"
abbreviation (input) ev_wrongCarMode :: event_id where "ev_wrongCarMode \<equiv> 6"
abbreviation (input) ev_steerTempUnavailable :: event_id where "ev_steerTempUnavailable \<equiv> 7"
abbreviation (input) ev_reverseGear :: event_id where "ev_reverseGear \<equiv> 8"
abbreviation (input) ev_buttonCancel :: event_id where "ev_buttonCancel \<equiv> 9"
abbreviation (input) ev_buttonEnable :: event_id where "ev_buttonEnable \<equiv> 10"
abbreviation (input) ev_pedalPressed :: event_id where "ev_pedalPressed \<equiv> 11"
abbreviation (input) ev_preEnableStandstill :: event_id where "ev_preEnableStandstill \<equiv> 12"
abbreviation (input) ev_gasPressedOverride :: event_id where "ev_gasPressedOverride \<equiv> 13"
abbreviation (input) ev_steerOverride :: event_id where "ev_steerOverride \<equiv> 14"
abbreviation (input) ev_cruiseDisabled :: event_id where "ev_cruiseDisabled \<equiv> 15"
abbreviation (input) ev_speedTooLow :: event_id where "ev_speedTooLow \<equiv> 16"
abbreviation (input) ev_outOfSpace :: event_id where "ev_outOfSpace \<equiv> 17"
abbreviation (input) ev_overheat :: event_id where "ev_overheat \<equiv> 18"
abbreviation (input) ev_calibrationIncomplete :: event_id where "ev_calibrationIncomplete \<equiv> 19"
abbreviation (input) ev_calibrationInvalid :: event_id where "ev_calibrationInvalid \<equiv> 20"
abbreviation (input) ev_calibrationRecalibrating :: event_id where "ev_calibrationRecalibrating \<equiv> 21"
abbreviation (input) ev_controlsMismatch :: event_id where "ev_controlsMismatch \<equiv> 22"
abbreviation (input) ev_pcmEnable :: event_id where "ev_pcmEnable \<equiv> 23"
abbreviation (input) ev_pcmDisable :: event_id where "ev_pcmDisable \<equiv> 24"
abbreviation (input) ev_radarFault :: event_id where "ev_radarFault \<equiv> 25"
abbreviation (input) ev_brakeHold :: event_id where "ev_brakeHold \<equiv> 26"
abbreviation (input) ev_parkBrake :: event_id where "ev_parkBrake \<equiv> 27"
abbreviation (input) ev_manualRestart :: event_id where "ev_manualRestart \<equiv> 28"
abbreviation (input) ev_joystickDebug :: event_id where "ev_joystickDebug \<equiv> 29"
abbreviation (input) ev_longitudinalManeuver :: event_id where "ev_longitudinalManeuver \<equiv> 30"
abbreviation (input) ev_steerTempUnavailableSilent :: event_id where "ev_steerTempUnavailableSilent \<equiv> 31"
abbreviation (input) ev_resumeRequired :: event_id where "ev_resumeRequired \<equiv> 32"
abbreviation (input) ev_preDriverDistracted :: event_id where "ev_preDriverDistracted \<equiv> 33"
abbreviation (input) ev_promptDriverDistracted :: event_id where "ev_promptDriverDistracted \<equiv> 34"
abbreviation (input) ev_driverDistracted :: event_id where "ev_driverDistracted \<equiv> 35"
abbreviation (input) ev_preDriverUnresponsive :: event_id where "ev_preDriverUnresponsive \<equiv> 36"
abbreviation (input) ev_promptDriverUnresponsive :: event_id where "ev_promptDriverUnresponsive \<equiv> 37"
abbreviation (input) ev_driverUnresponsive :: event_id where "ev_driverUnresponsive \<equiv> 38"
abbreviation (input) ev_belowSteerSpeed :: event_id where "ev_belowSteerSpeed \<equiv> 39"
abbreviation (input) ev_lowBattery :: event_id where "ev_lowBattery \<equiv> 40"
abbreviation (input) ev_accFaulted :: event_id where "ev_accFaulted \<equiv> 41"
abbreviation (input) ev_sensorDataInvalid :: event_id where "ev_sensorDataInvalid \<equiv> 42"
abbreviation (input) ev_commIssue :: event_id where "ev_commIssue \<equiv> 43"
abbreviation (input) ev_commIssueAvgFreq :: event_id where "ev_commIssueAvgFreq \<equiv> 44"
abbreviation (input) ev_tooDistracted :: event_id where "ev_tooDistracted \<equiv> 45"
abbreviation (input) ev_posenetInvalid :: event_id where "ev_posenetInvalid \<equiv> 46"
abbreviation (input) ev_soundsUnavailableDEPRECATED :: event_id where "ev_soundsUnavailableDEPRECATED \<equiv> 47"
abbreviation (input) ev_preLaneChangeLeft :: event_id where "ev_preLaneChangeLeft \<equiv> 48"
abbreviation (input) ev_preLaneChangeRight :: event_id where "ev_preLaneChangeRight \<equiv> 49"
abbreviation (input) ev_laneChange :: event_id where "ev_laneChange \<equiv> 50"
abbreviation (input) ev_lowMemory :: event_id where "ev_lowMemory \<equiv> 51"
abbreviation (input) ev_stockAeb :: event_id where "ev_stockAeb \<equiv> 52"
abbreviation (input) ev_ldw :: event_id where "ev_ldw \<equiv> 53"
abbreviation (input) ev_carUnrecognized :: event_id where "ev_carUnrecognized \<equiv> 54"
abbreviation (input) ev_invalidLkasSetting :: event_id where "ev_invalidLkasSetting \<equiv> 55"
abbreviation (input) ev_speedTooHigh :: event_id where "ev_speedTooHigh \<equiv> 56"
abbreviation (input) ev_laneChangeBlocked :: event_id where "ev_laneChangeBlocked \<equiv> 57"
abbreviation (input) ev_relayMalfunction :: event_id where "ev_relayMalfunction \<equiv> 58"
abbreviation (input) ev_stockFcw :: event_id where "ev_stockFcw \<equiv> 59"
abbreviation (input) ev_startup :: event_id where "ev_startup \<equiv> 60"
abbreviation (input) ev_startupNoCar :: event_id where "ev_startupNoCar \<equiv> 61"
abbreviation (input) ev_startupNoControl :: event_id where "ev_startupNoControl \<equiv> 62"
abbreviation (input) ev_startupNoSecOcKey :: event_id where "ev_startupNoSecOcKey \<equiv> 63"
abbreviation (input) ev_startupMaster :: event_id where "ev_startupMaster \<equiv> 64"
abbreviation (input) ev_fcw :: event_id where "ev_fcw \<equiv> 65"
abbreviation (input) ev_steerSaturated :: event_id where "ev_steerSaturated \<equiv> 66"
abbreviation (input) ev_belowEngageSpeed :: event_id where "ev_belowEngageSpeed \<equiv> 67"
abbreviation (input) ev_noGps :: event_id where "ev_noGps \<equiv> 68"
abbreviation (input) ev_wrongCruiseMode :: event_id where "ev_wrongCruiseMode \<equiv> 69"
abbreviation (input) ev_modeldLagging :: event_id where "ev_modeldLagging \<equiv> 70"
abbreviation (input) ev_deviceFalling :: event_id where "ev_deviceFalling \<equiv> 71"
abbreviation (input) ev_fanMalfunction :: event_id where "ev_fanMalfunction \<equiv> 72"
abbreviation (input) ev_cameraMalfunction :: event_id where "ev_cameraMalfunction \<equiv> 73"
abbreviation (input) ev_cameraFrameRate :: event_id where "ev_cameraFrameRate \<equiv> 74"
abbreviation (input) ev_processNotRunning :: event_id where "ev_processNotRunning \<equiv> 75"
abbreviation (input) ev_dashcamMode :: event_id where "ev_dashcamMode \<equiv> 76"
abbreviation (input) ev_selfdriveInitializing :: event_id where "ev_selfdriveInitializing \<equiv> 77"
abbreviation (input) ev_usbError :: event_id where "ev_usbError \<equiv> 78"
abbreviation (input) ev_cruiseMismatch :: event_id where "ev_cruiseMismatch \<equiv> 79"
abbreviation (input) ev_canBusMissing :: event_id where "ev_canBusMissing \<equiv> 80"
abbreviation (input) ev_selfdrivedLagging :: event_id where "ev_selfdrivedLagging \<equiv> 81"
abbreviation (input) ev_resumeBlocked :: event_id where "ev_resumeBlocked \<equiv> 82"
abbreviation (input) ev_steerTimeLimit :: event_id where "ev_steerTimeLimit \<equiv> 83"
abbreviation (input) ev_vehicleSensorsInvalid :: event_id where "ev_vehicleSensorsInvalid \<equiv> 84"
abbreviation (input) ev_locationdTemporaryError :: event_id where "ev_locationdTemporaryError \<equiv> 85"
abbreviation (input) ev_locationdPermanentError :: event_id where "ev_locationdPermanentError \<equiv> 86"
abbreviation (input) ev_paramsdTemporaryError :: event_id where "ev_paramsdTemporaryError \<equiv> 87"
abbreviation (input) ev_paramsdPermanentError :: event_id where "ev_paramsdPermanentError \<equiv> 88"
abbreviation (input) ev_actuatorsApiUnavailable :: event_id where "ev_actuatorsApiUnavailable \<equiv> 89"
abbreviation (input) ev_espActive :: event_id where "ev_espActive \<equiv> 90"
abbreviation (input) ev_personalityChanged :: event_id where "ev_personalityChanged \<equiv> 91"
abbreviation (input) ev_aeb :: event_id where "ev_aeb \<equiv> 92"
abbreviation (input) ev_radarTempUnavailable :: event_id where "ev_radarTempUnavailable \<equiv> 93"
abbreviation (input) ev_steerDisengage :: event_id where "ev_steerDisengage \<equiv> 94"
abbreviation (input) ev_userBookmark :: event_id where "ev_userBookmark \<equiv> 95"
abbreviation (input) ev_excessiveActuation :: event_id where "ev_excessiveActuation \<equiv> 96"
abbreviation (input) ev_audioFeedback :: event_id where "ev_audioFeedback \<equiv> 97"
abbreviation (input) ev_stockLkas :: event_id where "ev_stockLkas \<equiv> 98"

section \<open>EventNameSP\<close>

abbreviation (input) evsp_lkasEnable :: event_id where "evsp_lkasEnable \<equiv> 0"
abbreviation (input) evsp_lkasDisable :: event_id where "evsp_lkasDisable \<equiv> 1"
abbreviation (input) evsp_manualSteeringRequired :: event_id where "evsp_manualSteeringRequired \<equiv> 2"
abbreviation (input) evsp_manualLongitudinalRequired :: event_id where "evsp_manualLongitudinalRequired \<equiv> 3"
abbreviation (input) evsp_silentLkasEnable :: event_id where "evsp_silentLkasEnable \<equiv> 4"
abbreviation (input) evsp_silentLkasDisable :: event_id where "evsp_silentLkasDisable \<equiv> 5"
abbreviation (input) evsp_silentBrakeHold :: event_id where "evsp_silentBrakeHold \<equiv> 6"
abbreviation (input) evsp_silentWrongGear :: event_id where "evsp_silentWrongGear \<equiv> 7"
abbreviation (input) evsp_silentReverseGear :: event_id where "evsp_silentReverseGear \<equiv> 8"
abbreviation (input) evsp_silentDoorOpen :: event_id where "evsp_silentDoorOpen \<equiv> 9"
abbreviation (input) evsp_silentSeatbeltNotLatched :: event_id where "evsp_silentSeatbeltNotLatched \<equiv> 10"
abbreviation (input) evsp_silentParkBrake :: event_id where "evsp_silentParkBrake \<equiv> 11"
abbreviation (input) evsp_controlsMismatchLateral :: event_id where "evsp_controlsMismatchLateral \<equiv> 12"
abbreviation (input) evsp_hyundaiRadarTracksConfirmed :: event_id where "evsp_hyundaiRadarTracksConfirmed \<equiv> 13"
abbreviation (input) evsp_experimentalModeSwitched :: event_id where "evsp_experimentalModeSwitched \<equiv> 14"
abbreviation (input) evsp_wrongCarModeAlertOnly :: event_id where "evsp_wrongCarModeAlertOnly \<equiv> 15"
abbreviation (input) evsp_pedalPressedAlertOnly :: event_id where "evsp_pedalPressedAlertOnly \<equiv> 16"
abbreviation (input) evsp_laneTurnLeft :: event_id where "evsp_laneTurnLeft \<equiv> 17"
abbreviation (input) evsp_laneTurnRight :: event_id where "evsp_laneTurnRight \<equiv> 18"
abbreviation (input) evsp_speedLimitPreActive :: event_id where "evsp_speedLimitPreActive \<equiv> 19"
abbreviation (input) evsp_speedLimitActive :: event_id where "evsp_speedLimitActive \<equiv> 20"
abbreviation (input) evsp_speedLimitChanged :: event_id where "evsp_speedLimitChanged \<equiv> 21"
abbreviation (input) evsp_speedLimitPending :: event_id where "evsp_speedLimitPending \<equiv> 22"
abbreviation (input) evsp_e2eChime :: event_id where "evsp_e2eChime \<equiv> 23"

section \<open>The names\<close>

definition event_name_list :: "string list" where
  "event_name_list = [
    ''canError'', ''steerUnavailable'', ''wrongGear'', ''doorOpen'', ''seatbeltNotLatched'',
    ''espDisabled'', ''wrongCarMode'', ''steerTempUnavailable'', ''reverseGear'', ''buttonCancel'',
    ''buttonEnable'', ''pedalPressed'', ''preEnableStandstill'', ''gasPressedOverride'',
    ''steerOverride'', ''cruiseDisabled'', ''speedTooLow'', ''outOfSpace'', ''overheat'',
    ''calibrationIncomplete'', ''calibrationInvalid'', ''calibrationRecalibrating'',
    ''controlsMismatch'', ''pcmEnable'', ''pcmDisable'', ''radarFault'', ''brakeHold'',
    ''parkBrake'', ''manualRestart'', ''joystickDebug'', ''longitudinalManeuver'',
    ''steerTempUnavailableSilent'', ''resumeRequired'', ''preDriverDistracted'',
    ''promptDriverDistracted'', ''driverDistracted'', ''preDriverUnresponsive'',
    ''promptDriverUnresponsive'', ''driverUnresponsive'', ''belowSteerSpeed'', ''lowBattery'',
    ''accFaulted'', ''sensorDataInvalid'', ''commIssue'', ''commIssueAvgFreq'', ''tooDistracted'',
    ''posenetInvalid'', ''soundsUnavailableDEPRECATED'', ''preLaneChangeLeft'',
    ''preLaneChangeRight'', ''laneChange'', ''lowMemory'', ''stockAeb'', ''ldw'',
    ''carUnrecognized'', ''invalidLkasSetting'', ''speedTooHigh'', ''laneChangeBlocked'',
    ''relayMalfunction'', ''stockFcw'', ''startup'', ''startupNoCar'', ''startupNoControl'',
    ''startupNoSecOcKey'', ''startupMaster'', ''fcw'', ''steerSaturated'', ''belowEngageSpeed'',
    ''noGps'', ''wrongCruiseMode'', ''modeldLagging'', ''deviceFalling'', ''fanMalfunction'',
    ''cameraMalfunction'', ''cameraFrameRate'', ''processNotRunning'', ''dashcamMode'',
    ''selfdriveInitializing'', ''usbError'', ''cruiseMismatch'', ''canBusMissing'',
    ''selfdrivedLagging'', ''resumeBlocked'', ''steerTimeLimit'', ''vehicleSensorsInvalid'',
    ''locationdTemporaryError'', ''locationdPermanentError'', ''paramsdTemporaryError'',
    ''paramsdPermanentError'', ''actuatorsApiUnavailable'', ''espActive'', ''personalityChanged'',
    ''aeb'', ''radarTempUnavailable'', ''steerDisengage'', ''userBookmark'',
    ''excessiveActuation'', ''audioFeedback'', ''stockLkas'']"

definition event_name_sp_list :: "string list" where
  "event_name_sp_list = [
    ''lkasEnable'', ''lkasDisable'', ''manualSteeringRequired'', ''manualLongitudinalRequired'',
    ''silentLkasEnable'', ''silentLkasDisable'', ''silentBrakeHold'', ''silentWrongGear'',
    ''silentReverseGear'', ''silentDoorOpen'', ''silentSeatbeltNotLatched'', ''silentParkBrake'',
    ''controlsMismatchLateral'', ''hyundaiRadarTracksConfirmed'', ''experimentalModeSwitched'',
    ''wrongCarModeAlertOnly'', ''pedalPressedAlertOnly'', ''laneTurnLeft'', ''laneTurnRight'',
    ''speedLimitPreActive'', ''speedLimitActive'', ''speedLimitChanged'', ''speedLimitPending'',
    ''e2eChime'']"

text \<open>\<open>EVENT_NAME[event]\<close> and \<open>EVENT_NAME_SP[event]\<close>, which raise on an unknown number.\<close>

definition lookup_name :: "string list \<Rightarrow> event_id \<Rightarrow> string result" where
  "lookup_name names e =
     (if 0 \<le> e \<and> e < int (length names) then Inr (names ! nat e) else Inl (KeyError e))"

definition EVENT_NAME :: "event_id \<Rightarrow> string result" where
  "EVENT_NAME = lookup_name event_name_list"

definition EVENT_NAME_SP :: "event_id \<Rightarrow> string result" where
  "EVENT_NAME_SP = lookup_name event_name_sp_list"

lemma length_event_names: "length event_name_list = 99" "length event_name_sp_list = 24"
  by (simp_all add: event_name_list_def event_name_sp_list_def)

end
