(* ===== verification/Windows.thy ===== *)
theory Windows
  imports Prelude
begin

text \<open>
  Bounded histories. Several components keep the last values they were given, each in a
  representation of its own: the ring buffer of \<open>MovingAverage\<close>, the array of \<open>NPQueue\<close>, the
  list of \<open>SmoothKalmanFilter\<close>, the \<open>deque\<close> of \<open>RadarD\<close>. The locale states what they promise,
  as a refinement of the list of the last values; the components interpret it.
\<close>

definition lastn :: "nat \<Rightarrow> 'a list \<Rightarrow> 'a list" where
  "lastn n xs = drop (length xs - n) xs"

lemma length_lastn [simp]: "length (lastn n xs) = min (length xs) n"
  by (simp add: lastn_def)

lemma lastn_all: "length xs \<le> n \<Longrightarrow> lastn n xs = xs"
  by (simp add: lastn_def)

lemma lastn_Nil [simp]: "lastn n [] = []"
  by (simp add: lastn_def)

lemma lastn_lastn_append: "lastn n (lastn n xs @ ys) = lastn n (xs @ ys)"
proof (cases "length xs \<le> n")
  case True
  then show ?thesis by (simp add: lastn_all)
next
  case False
  then have "length xs - n + (length (drop (length xs - n) xs @ ys) - n) = length (xs @ ys) - n" by simp
  then have "drop (length (drop (length xs - n) xs @ ys) - n) (drop (length xs - n) (xs @ ys)) = drop (length (xs @ ys) - n) (xs @ ys)"
    by (simp only: drop_drop add.commute)
  moreover have "drop (length xs - n) (xs @ ys) = drop (length xs - n) xs @ ys" by simp
  ultimately show ?thesis by (simp add: lastn_def)
qed

lemma lastn_full: "length xs = n \<Longrightarrow> 0 < n \<Longrightarrow> lastn n (xs @ [x]) = tl xs @ [x]"
  by (cases xs) (simp_all add: lastn_def)

text \<open>Values fed to a history one after the other.\<close>

fun feed :: "('s \<Rightarrow> 'v \<Rightarrow> 's result) \<Rightarrow> 's \<Rightarrow> 'v list \<Rightarrow> 's result" where
  "feed add s [] = Inr s"
| "feed add s (v # vs) = bind_result (add s v) (\<lambda>s'. feed add s' vs)"

locale bounded_history =
  fixes add :: "'s \<Rightarrow> 'v \<Rightarrow> 's result"
    and values_of :: "'s \<Rightarrow> 'v list"
    and inv :: "'s \<Rightarrow> bool"
    and cap :: "'s \<Rightarrow> nat"
  assumes add_refines: "inv s \<Longrightarrow> \<exists>s'. add s v = Inr s' \<and> inv s' \<and> cap s' = cap s \<and> values_of s' = lastn (cap s) (values_of s @ [v])"
    and values_bounded: "inv s \<Longrightarrow> length (values_of s) \<le> cap s"
begin

text \<open>Feeding never raises, and what the history holds are the last values.\<close>

lemma feed_refines:
  "inv s \<Longrightarrow> \<exists>s'. feed add s vs = Inr s' \<and> inv s' \<and> cap s' = cap s \<and> values_of s' = lastn (cap s) (values_of s @ vs)"
proof (induction vs arbitrary: s)
  case Nil
  then show ?case using values_bounded by (simp add: lastn_all)
next
  case (Cons v vs)
  from add_refines [OF Cons.prems] obtain s1 where
    s1: "add s v = Inr s1" "inv s1" "cap s1 = cap s" "values_of s1 = lastn (cap s) (values_of s @ [v])" by blast
  from Cons.IH [OF s1(2)] obtain s2 where "feed add s1 vs = Inr s2" "inv s2" "cap s2 = cap s1"
    "values_of s2 = lastn (cap s1) (values_of s1 @ vs)" by blast
  with s1 show ?case by (simp add: lastn_lastn_append)
qed

lemma newest_kept: "inv s \<Longrightarrow> 0 < cap s \<Longrightarrow> add s v = Inr s' \<Longrightarrow> last (values_of s') = v \<and> values_of s' \<noteq> []"
  using add_refines [of s v] by (auto simp: lastn_def)

end

end
