(* ===== verification/Messaging.thy ===== *)
theory Messaging
  imports Windows
begin

text \<open>
  The receiving side of \<open>cereal/messaging/__init__.py\<close>: the ring buffer \<open>MovingAverage\<close>
  of \<open>common/utils.py\<close>, the \<open>FrequencyTracker\<close> of one service and the health bookkeeping
  of \<open>SubMaster\<close> (frame counter, alive, frequency and validity flags, and the
  \<open>all_checks\<close> family the rest of the system gates on). The sockets and the decoding of a
  message are msgq and capnp, outside the repository; a received message is the record
  \<open>recv_msg\<close> with the fields \<open>update_msgs\<close> reads, and its payload is a type parameter.
\<close>

section \<open>MovingAverage\<close>

record moving_average =
  ma_window :: nat
  ma_buffer :: "real list"
  ma_index :: nat
  ma_count :: nat
  ma_sum :: real

definition ma_init :: "nat \<Rightarrow> moving_average" where
  "ma_init w = \<lparr>ma_window = w, ma_buffer = replicate w 0, ma_index = 0, ma_count = 0, ma_sum = 0\<rparr>"

text \<open>\<open>add_value\<close>; with an empty window the first buffer access raises.\<close>

definition ma_add_value :: "moving_average \<Rightarrow> real \<Rightarrow> moving_average result" where
  "ma_add_value m v =
     (if ma_index m < length (ma_buffer m) then
        Inr (m\<lparr>ma_sum := ma_sum m - ma_buffer m ! ma_index m + v,
               ma_buffer := (ma_buffer m)[ma_index m := v],
               ma_index := (ma_index m + 1) mod ma_window m,
               ma_count := min (ma_count m + 1) (ma_window m)\<rparr>)
      else Inl IndexError)"

text \<open>\<open>get_average\<close>; \<open>None\<close> is the float NaN it returns for no values.\<close>

definition ma_get_average :: "moving_average \<Rightarrow> real option" where
  "ma_get_average m = (if ma_count m = 0 then None else Some (ma_sum m / real (ma_count m)))"

text \<open>
  The invariant: the buffer has the window's length, the index is inside it, the running sum is
  the sum of the buffer, and before the buffer has wrapped the slots from the index on are zero.
\<close>

definition ma_wf :: "moving_average \<Rightarrow> bool" where
  "ma_wf m \<longleftrightarrow> 0 < ma_window m \<and> length (ma_buffer m) = ma_window m \<and> ma_index m < ma_window m
     \<and> ma_sum m = sum_list (ma_buffer m) \<and> ma_count m \<le> ma_window m
     \<and> (ma_count m < ma_window m \<longrightarrow> ma_index m = ma_count m
          \<and> (\<forall>i. ma_count m \<le> i \<and> i < ma_window m \<longrightarrow> ma_buffer m ! i = 0))"

lemma ma_wf_init: "0 < w \<Longrightarrow> ma_wf (ma_init w)"
  by (simp add: ma_wf_def ma_init_def sum_list_replicate)

lemma ma_add_value_wf:
  assumes "ma_wf m"
  shows "\<exists>m'. ma_add_value m v = Inr m' \<and> ma_wf m' \<and> ma_window m' = ma_window m
    \<and> ma_count m' = min (ma_count m + 1) (ma_window m)
    \<and> ma_buffer m' = (ma_buffer m)[ma_index m := v]
    \<and> ma_index m' = (ma_index m + 1) mod ma_window m"
proof -
  note wf = assms [unfolded ma_wf_def]
  have s: "sum_list ((ma_buffer m)[ma_index m := v]) = sum_list (ma_buffer m) + v - ma_buffer m ! ma_index m"
    using wf by (simp add: sum_list_list_update)
  show ?thesis
    using wf s by (auto simp: ma_add_value_def ma_wf_def min_def nth_list_update)
qed

text \<open>
  Abstractly the buffer is the list of the last values, oldest first: a slot is free before the
  buffer has wrapped, and the oldest value is at the index after.
\<close>

definition ma_values :: "moving_average \<Rightarrow> real list" where
  "ma_values m = (if ma_count m < ma_window m then take (ma_count m) (ma_buffer m)
     else drop (ma_index m) (ma_buffer m) @ take (ma_index m) (ma_buffer m))"

lemma take_Suc_update: "i < length xs \<Longrightarrow> take (Suc i) (xs[i := v]) = take i xs @ [v]"
  by (simp add: take_Suc_conv_app_nth)

lemma ma_values_length: "ma_wf m \<Longrightarrow> length (ma_values m) = ma_count m"
  by (auto simp: ma_values_def ma_wf_def)

lemma sum_list_zeros: "\<forall>x\<in>set xs. x = 0 \<Longrightarrow> sum_list xs = (0::real)"
  by (induction xs) simp_all

lemma ma_values_sum:
  assumes "ma_wf m" shows "ma_sum m = sum_list (ma_values m)"
proof (cases "ma_count m < ma_window m")
  case True
  have "\<forall>x\<in>set (drop (ma_count m) (ma_buffer m)). x = 0"
    using assms True by (auto simp: ma_wf_def in_set_conv_nth)
  then have "sum_list (drop (ma_count m) (ma_buffer m)) = 0" by (simp add: sum_list_zeros)
  then have "sum_list (take (ma_count m) (ma_buffer m) @ drop (ma_count m) (ma_buffer m)) = sum_list (take (ma_count m) (ma_buffer m))"
    unfolding sum_list_append by simp
  with assms True show ?thesis by (simp add: ma_values_def ma_wf_def)
next
  case False
  have "sum_list (take (ma_index m) (ma_buffer m) @ drop (ma_index m) (ma_buffer m)) = sum_list (ma_values m)"
    using False unfolding sum_list_append by (simp add: ma_values_def)
  with assms show ?thesis by (simp add: ma_wf_def)
qed

lemma ma_values_add:
  assumes "ma_wf m" "ma_add_value m v = Inr m'"
  shows "ma_values m' = lastn (ma_window m) (ma_values m @ [v])"
proof -
  note wf = assms(1) [unfolded ma_wf_def]
  from ma_add_value_wf [OF assms(1), of v] assms(2) have m':
    "ma_window m' = ma_window m" "ma_count m' = min (ma_count m + 1) (ma_window m)"
    "ma_buffer m' = (ma_buffer m)[ma_index m := v]" "ma_index m' = (ma_index m + 1) mod ma_window m" by auto
  have up: "take (Suc (ma_index m)) ((ma_buffer m)[ma_index m := v]) = take (ma_index m) (ma_buffer m) @ [v]"
    using wf by (intro take_Suc_update) simp
  consider (room) "ma_count m < ma_window m" | (full) "ma_count m = ma_window m" using wf by linarith
  then show ?thesis
  proof cases
    case room
    then have i: "ma_index m = ma_count m" using wf by simp
    have "ma_values m' = take (ma_index m) (ma_buffer m) @ [v]"
      using wf room i up by (cases "Suc (ma_count m) = ma_window m") (auto simp: ma_values_def m')
    with room i wf show ?thesis by (simp add: ma_values_def lastn_all)
  next
    case full
    have "ma_values m' = drop (Suc (ma_index m)) (ma_buffer m) @ take (ma_index m) (ma_buffer m) @ [v]"
      using wf full up by (cases "Suc (ma_index m) = ma_window m") (auto simp: ma_values_def m')
    moreover have "lastn (ma_window m) (ma_values m @ [v]) = tl (ma_values m) @ [v]"
      using wf full ma_values_length [OF assms(1)] by (intro lastn_full) simp_all
    moreover have "ma_values m = ma_buffer m ! ma_index m # drop (Suc (ma_index m)) (ma_buffer m) @ take (ma_index m) (ma_buffer m)"
      using wf full by (simp add: ma_values_def Cons_nth_drop_Suc)
    ultimately show ?thesis by simp
  qed
qed

interpretation ma: bounded_history ma_add_value ma_values ma_wf ma_window
proof
  show "\<exists>m'. ma_add_value m v = Inr m' \<and> ma_wf m' \<and> ma_window m' = ma_window m \<and> ma_values m' = lastn (ma_window m) (ma_values m @ [v])"
    if "ma_wf m" for m v
    using ma_add_value_wf [OF that, of v] ma_values_add [OF that, of v] by blast
  show "length (ma_values m) \<le> ma_window m" if "ma_wf m" for m
    using ma_values_length [OF that] that by (simp add: ma_wf_def)
qed

section \<open>FrequencyTracker\<close>

record freq_tracker =
  ft_min_freq :: real
  ft_max_freq :: real
  ft_avg_dt :: moving_average
  ft_recent_avg_dt :: moving_average
  ft_prev_time :: real

definition ft_init :: "real \<Rightarrow> real \<Rightarrow> bool \<Rightarrow> freq_tracker" where
  "ft_init service_freq update_freq is_poll =
     (let freq = max (min service_freq update_freq) 1;
          max_freq = (if is_poll then freq else min freq update_freq);
          min_freq = (if is_poll then freq
                      else if service_freq \<ge> 2 * update_freq then update_freq
                      else if update_freq \<ge> 2 * service_freq then freq
                      else min freq (freq / 2))
      in \<lparr>ft_min_freq = min_freq * (8/10), ft_max_freq = max_freq * (12/10),
          ft_avg_dt = ma_init (nat (py_int (10 * freq))), ft_recent_avg_dt = ma_init (nat (py_int freq)),
          ft_prev_time = 0\<rparr>)"

definition ft_record_recv_time :: "freq_tracker \<Rightarrow> real \<Rightarrow> freq_tracker result" where
  "ft_record_recv_time t cur_time =
     (if ft_prev_time t > 1 / 100000 then
        (let dt = cur_time - ft_prev_time t in
         bind_result (ma_add_value (ft_avg_dt t) dt) (\<lambda>a.
         bind_result (ma_add_value (ft_recent_avg_dt t) dt) (\<lambda>r.
         Inr (t\<lparr>ft_avg_dt := a, ft_recent_avg_dt := r, ft_prev_time := cur_time\<rparr>))))
      else Inr (t\<lparr>ft_prev_time := cur_time\<rparr>))"

text \<open>
  The property \<open>valid\<close>. A mean of zero raises \<open>ZeroDivisionError\<close>; comparisons with NaN
  (the recent average of no values) are false.
\<close>

definition freq_within :: "freq_tracker \<Rightarrow> moving_average \<Rightarrow> bool result" where
  "freq_within t m = (case ma_get_average m of
       None \<Rightarrow> Inr False
     | Some a \<Rightarrow> if a = 0 then Inl ZeroDivisionError
                 else Inr (ft_min_freq t \<le> 1 / a \<and> 1 / a \<le> ft_max_freq t))"

definition ft_valid :: "freq_tracker \<Rightarrow> bool result" where
  "ft_valid t =
     (if ma_count (ft_avg_dt t) = 0 then Inr False
      else bind_result (freq_within t (ft_avg_dt t)) (\<lambda>ok.
        if ok then Inr True else freq_within t (ft_recent_avg_dt t)))"

definition ft_wf :: "freq_tracker \<Rightarrow> bool" where
  "ft_wf t \<longleftrightarrow> ma_wf (ft_avg_dt t) \<and> ma_wf (ft_recent_avg_dt t)"

lemma py_int_pos: "1 \<le> x \<Longrightarrow> 0 < py_int x"
  by (simp add: py_int_def)

lemma ft_init_wf: "ft_wf (ft_init sf uf p)"
proof -
  define freq where "freq = max (min sf uf) 1"
  have f: "1 \<le> freq" by (simp add: freq_def)
  then have "0 < nat (py_int (10 * freq))" "0 < nat (py_int freq)"
    by (auto intro!: py_int_pos)
  then show ?thesis
    by (simp add: ft_wf_def ft_init_def Let_def ma_wf_init freq_def [symmetric])
qed

lemma ft_record_wf:
  assumes "ft_wf t"
  shows "\<exists>t'. ft_record_recv_time t c = Inr t' \<and> ft_wf t' \<and> ft_prev_time t' = c
    \<and> ft_min_freq t' = ft_min_freq t \<and> ft_max_freq t' = ft_max_freq t"
proof -
  obtain a r where "ma_add_value (ft_avg_dt t) (c - ft_prev_time t) = Inr a" "ma_wf a"
    and "ma_add_value (ft_recent_avg_dt t) (c - ft_prev_time t) = Inr r" "ma_wf r"
    using assms ma_add_value_wf unfolding ft_wf_def by metis
  with assms show ?thesis by (auto simp: ft_record_recv_time_def ft_wf_def Let_def)
qed

section \<open>SubMaster\<close>

record 'd recv_msg =
  rm_which :: string
  rm_data :: 'd
  rm_logMonoTime :: int
  rm_valid :: bool

record 'd sub_master =
  sm_frame :: int
  sm_services :: "string list"
  sm_seen :: "string \<Rightarrow> bool"
  sm_updated :: "string \<Rightarrow> bool"
  sm_recv_time :: "string \<Rightarrow> real"
  sm_recv_frame :: "string \<Rightarrow> int"
  sm_data :: "string \<Rightarrow> 'd"
  sm_logMonoTime :: "string \<Rightarrow> int"
  sm_alive :: "string \<Rightarrow> bool"
  sm_freq_ok :: "string \<Rightarrow> bool"
  sm_valid :: "string \<Rightarrow> bool"
  sm_tracker :: "string \<Rightarrow> freq_tracker"
  sm_ignore_average_freq :: "string list"
  sm_ignore_alive :: "string list"
  sm_ignore_valid :: "string list"
  sm_frequency :: "string \<Rightarrow> real"
  sm_simulation :: bool

text \<open>
  The constructor: \<open>frequency\<close> is the column of \<open>SERVICE_LIST\<close>, \<open>dflt\<close> the empty message
  of each service, \<open>poll\<close> the polled service if one is given.
\<close>

definition sm_init :: "string list \<Rightarrow> string option \<Rightarrow> string list \<Rightarrow> string list \<Rightarrow> string list
    \<Rightarrow> real option \<Rightarrow> (string \<Rightarrow> real) \<Rightarrow> (string \<Rightarrow> 'd) \<Rightarrow> bool \<Rightarrow> 'd sub_master" where
  "sm_init services poll ign_alive ign_freq ign_valid frequency freq_of dflt simulation =
     (let on_demand = (\<lambda>s. freq_of s \<le> 1 / 100000);
          polled = (case poll of Some p \<Rightarrow> [p] | None \<Rightarrow> services);
          fmax = (case polled of [] \<Rightarrow> 0 | s # ss \<Rightarrow> foldl max (freq_of s) (map freq_of ss));
          update_freq = (case frequency of Some f \<Rightarrow> if f = 0 then fmax else f | None \<Rightarrow> fmax)
      in \<lparr>sm_frame = -1, sm_services = services, sm_seen = (\<lambda>_. False), sm_updated = (\<lambda>_. False),
          sm_recv_time = (\<lambda>_. 0), sm_recv_frame = (\<lambda>_. 0), sm_data = dflt,
          sm_logMonoTime = (\<lambda>_. 0), sm_alive = on_demand, sm_freq_ok = on_demand, sm_valid = on_demand,
          sm_tracker = (\<lambda>s. ft_init (freq_of s) update_freq (poll = Some s)),
          sm_ignore_average_freq = ign_freq, sm_ignore_alive = ign_alive, sm_ignore_valid = ign_valid,
          sm_frequency = freq_of, sm_simulation = simulation\<rparr>)"

definition check_avg_freq :: "('d, 'a) sub_master_scheme \<Rightarrow> string \<Rightarrow> bool" where
  "check_avg_freq sm s \<longleftrightarrow> sm_frequency sm s > 99/100 \<and> s \<notin> set (sm_ignore_average_freq sm)
     \<and> s \<notin> set (sm_ignore_alive sm)"

text \<open>The body of the loop over the received messages.\<close>

definition sm_receive :: "real \<Rightarrow> ('d, 'a) sub_master_scheme \<Rightarrow> 'd recv_msg \<Rightarrow> ('d, 'a) sub_master_scheme result" where
  "sm_receive cur_time sm m =
     (let s = rm_which m in
      bind_result (ft_record_recv_time (sm_tracker sm s) cur_time) (\<lambda>t.
      Inr (sm\<lparr>sm_seen := (sm_seen sm)(s := True), sm_updated := (sm_updated sm)(s := True),
              sm_tracker := (sm_tracker sm)(s := t), sm_recv_time := (sm_recv_time sm)(s := cur_time),
              sm_recv_frame := (sm_recv_frame sm)(s := sm_frame sm),
              sm_data := (sm_data sm)(s := rm_data m),
              sm_logMonoTime := (sm_logMonoTime sm)(s := rm_logMonoTime m),
              sm_valid := (sm_valid sm)(s := rm_valid m)\<rparr>)))"

fun sm_receive_all :: "real \<Rightarrow> ('d, 'a) sub_master_scheme \<Rightarrow> 'd recv_msg option list
    \<Rightarrow> ('d, 'a) sub_master_scheme result" where
  "sm_receive_all cur_time sm [] = Inr sm"
| "sm_receive_all cur_time sm (None # ms) = sm_receive_all cur_time sm ms"
| "sm_receive_all cur_time sm (Some m # ms) =
     bind_result (sm_receive cur_time sm m) (\<lambda>sm'. sm_receive_all cur_time sm' ms)"

text \<open>The loop over the services with a fixed frequency, which refreshes the flags.\<close>

definition sm_refresh :: "real \<Rightarrow> ('d, 'a) sub_master_scheme \<Rightarrow> string \<Rightarrow> ('d, 'a) sub_master_scheme result" where
  "sm_refresh cur_time sm s =
     bind_result (ft_valid (sm_tracker sm s)) (\<lambda>ok.
     Inr (sm\<lparr>sm_alive := (sm_alive sm)(s :=
               cur_time - sm_recv_time sm s < 10 / sm_frequency sm s \<or> (sm_seen sm s \<and> sm_simulation sm)),
             sm_freq_ok := (sm_freq_ok sm)(s := ok \<or> sm_simulation sm)\<rparr>))"

fun sm_refresh_all :: "real \<Rightarrow> ('d, 'a) sub_master_scheme \<Rightarrow> string list \<Rightarrow> ('d, 'a) sub_master_scheme result" where
  "sm_refresh_all cur_time sm [] = Inr sm"
| "sm_refresh_all cur_time sm (s # ss) =
     bind_result (sm_refresh cur_time sm s) (\<lambda>sm'. sm_refresh_all cur_time sm' ss)"

definition static_freq_services :: "('d, 'a) sub_master_scheme \<Rightarrow> string list" where
  "static_freq_services sm = filter (\<lambda>s. \<not> sm_frequency sm s \<le> 1 / 100000) (sm_services sm)"

definition sm_update_msgs :: "real \<Rightarrow> ('d, 'a) sub_master_scheme \<Rightarrow> 'd recv_msg option list
    \<Rightarrow> ('d, 'a) sub_master_scheme result" where
  "sm_update_msgs cur_time sm msgs =
     bind_result (sm_receive_all cur_time (sm\<lparr>sm_frame := sm_frame sm + 1, sm_updated := (\<lambda>_. False)\<rparr>) msgs)
       (\<lambda>sm'. sm_refresh_all cur_time sm' (static_freq_services sm'))"

text \<open>An empty list argument falls back to all services, as \<open>service_list or self.services\<close> does.\<close>

definition services_or_all :: "('d, 'a) sub_master_scheme \<Rightarrow> string list \<Rightarrow> string list" where
  "services_or_all sm l = (if l = [] then sm_services sm else l)"

definition all_alive :: "('d, 'a) sub_master_scheme \<Rightarrow> string list \<Rightarrow> bool" where
  "all_alive sm l = list_all (\<lambda>s. s \<in> set (sm_ignore_alive sm) \<or> sm_alive sm s) (services_or_all sm l)"

definition all_freq_ok :: "('d, 'a) sub_master_scheme \<Rightarrow> string list \<Rightarrow> bool" where
  "all_freq_ok sm l = list_all (\<lambda>s. \<not> check_avg_freq sm s \<or> sm_freq_ok sm s) (services_or_all sm l)"

definition all_valid :: "('d, 'a) sub_master_scheme \<Rightarrow> string list \<Rightarrow> bool" where
  "all_valid sm l = list_all (\<lambda>s. s \<in> set (sm_ignore_valid sm) \<or> sm_valid sm s) (services_or_all sm l)"

definition all_checks :: "('d, 'a) sub_master_scheme \<Rightarrow> string list \<Rightarrow> bool" where
  "all_checks sm l \<longleftrightarrow> all_alive sm l \<and> all_freq_ok sm l \<and> all_valid sm l"

section \<open>Health checks never raise on a monotone clock\<close>

text \<open>
  The only exception \<open>update_msgs\<close> can meet is the division by a zero mean. It cannot happen
  while every recorded interval is positive.
\<close>

definition ma_pos :: "moving_average \<Rightarrow> bool" where
  "ma_pos m \<longleftrightarrow> ma_wf m \<and> (\<forall>x\<in>set (ma_buffer m). 0 \<le> x) \<and> (0 < ma_count m \<longrightarrow> 0 < ma_sum m)"

definition ft_ok :: "freq_tracker \<Rightarrow> bool" where
  "ft_ok t \<longleftrightarrow> ma_pos (ft_avg_dt t) \<and> ma_pos (ft_recent_avg_dt t)"

lemma ma_pos_init: "0 < w \<Longrightarrow> ma_pos (ma_init w)"
  using ma_wf_init by (simp add: ma_pos_def ma_init_def)

lemma sum_list_update_ge:
  assumes "i < length xs" "\<forall>x\<in>set xs. 0 \<le> x" shows "v \<le> sum_list (xs[i := v :: real])"
proof -
  have "0 \<le> sum_list (take i xs)" "0 \<le> sum_list (drop (Suc i) xs)"
    using assms by (auto intro!: sum_list_nonneg dest: in_set_takeD in_set_dropD)
  with assms show ?thesis by (simp add: upd_conv_take_nth_drop)
qed

lemma ma_pos_add:
  assumes "ma_pos m" "0 < v" "ma_add_value m v = Inr m'" shows "ma_pos m'"
proof -
  from assms obtain "ma_wf m'" and b: "ma_buffer m' = (ma_buffer m)[ma_index m := v]"
    using ma_add_value_wf [of m v] by (auto simp: ma_pos_def)
  have "v \<le> sum_list ((ma_buffer m)[ma_index m := v])"
    using assms by (intro sum_list_update_ge) (auto simp: ma_pos_def ma_wf_def)
  moreover have "set (ma_buffer m') \<subseteq> insert v (set (ma_buffer m))"
    using b by (simp add: set_update_subset_insert)
  ultimately show ?thesis using \<open>ma_wf m'\<close> assms b by (auto simp: ma_pos_def ma_wf_def)
qed

lemma ft_ok_wf: "ft_ok t \<Longrightarrow> ft_wf t"
  by (simp add: ft_ok_def ft_wf_def ma_pos_def)

lemma ft_ok_init: "ft_ok (ft_init sf uf p)"
  using ft_init_wf [of sf uf p]
  by (auto simp: ft_ok_def ft_wf_def ft_init_def Let_def ma_wf_def ma_init_def ma_pos_def)

lemma ft_ok_record:
  assumes "ft_ok t" "ft_prev_time t < c"
  shows "\<exists>t'. ft_record_recv_time t c = Inr t' \<and> ft_ok t' \<and> ft_prev_time t' = c"
proof -
  let ?dt = "c - ft_prev_time t"
  have wf: "ma_wf (ft_avg_dt t)" "ma_wf (ft_recent_avg_dt t)" using assms by (auto simp: ft_ok_def ma_pos_def)
  obtain a r where ar: "ma_add_value (ft_avg_dt t) ?dt = Inr a" "ma_add_value (ft_recent_avg_dt t) ?dt = Inr r"
    using ma_add_value_wf [OF wf(1), of ?dt] ma_add_value_wf [OF wf(2), of ?dt] by blast
  moreover have "ma_pos a" "ma_pos r"
    using assms ar ma_pos_add [of "ft_avg_dt t" ?dt a] ma_pos_add [of "ft_recent_avg_dt t" ?dt r]
    by (auto simp: ft_ok_def)
  ultimately show ?thesis using assms by (auto simp: ft_record_recv_time_def ft_ok_def Let_def)
qed

lemma freq_within_total: "ma_pos m \<Longrightarrow> \<exists>b. freq_within t m = Inr b"
  by (auto simp: freq_within_def ma_get_average_def ma_pos_def)

lemma ft_ok_valid: "ft_ok t \<Longrightarrow> \<exists>b. ft_valid t = Inr b"
  using freq_within_total [of "ft_avg_dt t" t] freq_within_total [of "ft_recent_avg_dt t" t]
  by (auto simp: ft_valid_def ft_ok_def)

text \<open>The whole \<open>SubMaster\<close>: every tracker is good and was last fed before \<open>now\<close>.\<close>

definition sm_ok :: "real \<Rightarrow> ('d, 'a) sub_master_scheme \<Rightarrow> bool" where
  "sm_ok now sm \<longleftrightarrow> (\<forall>s. ft_ok (sm_tracker sm s) \<and> ft_prev_time (sm_tracker sm s) < now)"

definition msg_services :: "'d recv_msg option list \<Rightarrow> string list" where
  "msg_services msgs = map rm_which (map the (filter (\<lambda>m. m \<noteq> None) msgs))"

lemma msg_services_simps [simp]:
  "msg_services [] = []"
  "msg_services (None # ms) = msg_services ms"
  "msg_services (Some m # ms) = rm_which m # msg_services ms"
  by (simp_all add: msg_services_def)

lemma sm_receive_all_spec:
  assumes "\<forall>s. ft_ok (sm_tracker sm s)" "\<forall>s\<in>set (msg_services ms). ft_prev_time (sm_tracker sm s) < now"
    and "distinct (msg_services ms)"
  shows "\<exists>sm'. sm_receive_all now sm ms = Inr sm' \<and> (\<forall>s. ft_ok (sm_tracker sm' s))
    \<and> (\<forall>s. ft_prev_time (sm_tracker sm' s) =
          (if s \<in> set (msg_services ms) then now else ft_prev_time (sm_tracker sm s)))
    \<and> sm_frame sm' = sm_frame sm \<and> sm_services sm' = sm_services sm
    \<and> sm_frequency sm' = sm_frequency sm \<and> sm_simulation sm' = sm_simulation sm
    \<and> sm_ignore_alive sm' = sm_ignore_alive sm
    \<and> (\<forall>s. sm_updated sm' s = (s \<in> set (msg_services ms) \<or> sm_updated sm s))
    \<and> (\<forall>s. sm_recv_frame sm' s = (if s \<in> set (msg_services ms) then sm_frame sm else sm_recv_frame sm s))
    \<and> (\<forall>s. sm_recv_time sm' s = (if s \<in> set (msg_services ms) then now else sm_recv_time sm s))
    \<and> (\<forall>s. sm_seen sm' s = (s \<in> set (msg_services ms) \<or> sm_seen sm s))"
  using assms
proof (induction ms arbitrary: sm)
  case Nil
  then show ?case by simp
next
  case (Cons om ms)
  show ?case
  proof (cases om)
    case None
    with Cons show ?thesis by simp
  next
    case (Some m)
    let ?s = "rm_which m"
    from Cons.prems Some obtain t where t: "ft_record_recv_time (sm_tracker sm ?s) now = Inr t" "ft_ok t"
      "ft_prev_time t = now" using ft_ok_record [of "sm_tracker sm ?s" now] by auto
    define sm1 where "sm1 = sm\<lparr>sm_seen := (sm_seen sm)(?s := True), sm_updated := (sm_updated sm)(?s := True),
              sm_tracker := (sm_tracker sm)(?s := t), sm_recv_time := (sm_recv_time sm)(?s := now),
              sm_recv_frame := (sm_recv_frame sm)(?s := sm_frame sm),
              sm_data := (sm_data sm)(?s := rm_data m),
              sm_logMonoTime := (sm_logMonoTime sm)(?s := rm_logMonoTime m),
              sm_valid := (sm_valid sm)(?s := rm_valid m)\<rparr>"
    have r: "sm_receive now sm m = Inr sm1" using t by (simp add: sm_receive_def sm1_def Let_def)
    have "\<forall>s. ft_ok (sm_tracker sm1 s)" "\<forall>s\<in>set (msg_services ms). ft_prev_time (sm_tracker sm1 s) < now"
      "distinct (msg_services ms)" using Cons.prems Some t by (auto simp: sm1_def)
    from Cons.IH [OF this] show ?thesis
      using Cons.prems(3) Some r t by (auto simp: sm1_def)
  qed
qed

lemma sm_refresh_all_spec:
  assumes "\<forall>s. ft_ok (sm_tracker sm s)"
  shows "\<exists>sm'. sm_refresh_all now sm ss = Inr sm' \<and> sm_tracker sm' = sm_tracker sm
    \<and> sm_frame sm' = sm_frame sm \<and> sm_services sm' = sm_services sm
    \<and> sm_updated sm' = sm_updated sm \<and> sm_recv_frame sm' = sm_recv_frame sm
    \<and> sm_recv_time sm' = sm_recv_time sm \<and> sm_ignore_alive sm' = sm_ignore_alive sm
    \<and> sm_seen sm' = sm_seen sm
    \<and> (\<forall>s. sm_alive sm' s = (if s \<in> set ss then now - sm_recv_time sm s < 10 / sm_frequency sm s
          \<or> (sm_seen sm s \<and> sm_simulation sm) else sm_alive sm s))"
  using assms
proof (induction ss arbitrary: sm)
  case Nil
  then show ?case by simp
next
  case (Cons s ss)
  from Cons.prems obtain b where b: "ft_valid (sm_tracker sm s) = Inr b" using ft_ok_valid by blast
  define sm1 where "sm1 = sm\<lparr>sm_alive := (sm_alive sm)(s :=
               now - sm_recv_time sm s < 10 / sm_frequency sm s \<or> (sm_seen sm s \<and> sm_simulation sm)),
             sm_freq_ok := (sm_freq_ok sm)(s := b \<or> sm_simulation sm)\<rparr>"
  have r: "sm_refresh now sm s = Inr sm1" using b by (simp add: sm_refresh_def sm1_def)
  have "\<forall>s. ft_ok (sm_tracker sm1 s)" using Cons.prems by (simp add: sm1_def)
  from Cons.IH [OF this] show ?case using r by (auto simp: sm1_def)
qed

section \<open>Properties\<close>

text \<open>
  C18. The ring buffer refines the list of the last \<open>w\<close> values it was given: after any sequence of
  values it holds those, oldest first, and its average is their mean, none before the first.
\<close>

theorem moving_average_of_last:
  assumes "0 < w"
  shows "\<exists>m. feed ma_add_value (ma_init w) vs = Inr m \<and> ma_values m = lastn w vs
    \<and> ma_get_average m = (if vs = [] then None else Some (sum_list (lastn w vs) / real (length (lastn w vs))))"
proof -
  from ma.feed_refines [OF ma_wf_init [OF assms], of vs] obtain m where
    m: "feed ma_add_value (ma_init w) vs = Inr m" "ma_wf m" "ma_values m = lastn w (ma_values (ma_init w) @ vs)"
    by (auto simp: ma_init_def)
  have "ma_values (ma_init w) = []" using assms by (simp add: ma_values_def ma_init_def)
  with m have v: "ma_values m = lastn w vs" by simp
  have "ma_count m = length (lastn w vs)" using ma_values_length [OF m(2)] v by simp
  then have "ma_get_average m = (if vs = [] then None else Some (sum_list (lastn w vs) / real (length (lastn w vs))))"
    using assms ma_values_sum [OF m(2)] v by (cases vs) (simp_all add: ma_get_average_def)
  with m v show ?thesis by blast
qed

theorem moving_average_of_last_witness:
  "\<exists>m. feed ma_add_value (ma_init 2) [1, 2, 4] = Inr m \<and> ma_values m = lastn 2 [1, 2, 4]
    \<and> ma_get_average m = (if [1, 2, 4 :: real] = [] then None else Some (sum_list (lastn 2 [1, 2, 4]) / real (length (lastn 2 [1, 2, 4 :: real]))))"
  by (rule moving_average_of_last) simp

text \<open>
  \<open>SubMaster.update_msgs\<close> does not raise when the clock has advanced since every
  tracker's last message and a service comes at most once: afterwards \<open>updated\<close> are exactly
  the services received, their frame is the current one, and a service with a static rate is
  alive exactly if it was received within ten periods.
\<close>

theorem submaster_update_returns:
  assumes "\<forall>s. ft_ok (sm_tracker sm s) \<and> ft_prev_time (sm_tracker sm s) < now" "distinct (msg_services ms)"
  shows "\<exists>sm'. sm_update_msgs now sm ms = Inr sm' \<and> sm_frame sm' = sm_frame sm + 1
    \<and> (\<forall>s. ft_ok (sm_tracker sm' s))
    \<and> (\<forall>s. sm_updated sm' s = (s \<in> set (msg_services ms)))
    \<and> (\<forall>s. sm_recv_frame sm' s = (if s \<in> set (msg_services ms) then sm_frame sm + 1 else sm_recv_frame sm s))
    \<and> (\<forall>s\<in>set (static_freq_services sm). sm_alive sm' s =
         (now - sm_recv_time sm' s < 10 / sm_frequency sm s \<or> sm_seen sm' s \<and> sm_simulation sm))"
proof -
  let ?sm = "sm\<lparr>sm_frame := sm_frame sm + 1, sm_updated := (\<lambda>_. False)\<rparr>"
  have "\<forall>s. ft_ok (sm_tracker ?sm s)" "\<forall>s\<in>set (msg_services ms). ft_prev_time (sm_tracker ?sm s) < now"
    using assms(1) by simp_all
  from sm_receive_all_spec [OF this assms(2)] obtain sm1 where
    r: "sm_receive_all now ?sm ms = Inr sm1" "\<forall>s. ft_ok (sm_tracker sm1 s)" "sm_frame sm1 = sm_frame sm + 1"
      "sm_services sm1 = sm_services sm" "sm_frequency sm1 = sm_frequency sm" "sm_simulation sm1 = sm_simulation sm"
      "\<forall>s. sm_updated sm1 s = (s \<in> set (msg_services ms))"
      "\<forall>s. sm_recv_frame sm1 s = (if s \<in> set (msg_services ms) then sm_frame sm + 1 else sm_recv_frame sm s)"
    by auto
  have st: "static_freq_services sm1 = static_freq_services sm"
    using r by (simp add: static_freq_services_def)
  from sm_refresh_all_spec [OF r(2), of now "static_freq_services sm1"] obtain sm2 where
    f: "sm_refresh_all now sm1 (static_freq_services sm1) = Inr sm2" "sm_tracker sm2 = sm_tracker sm1"
      "sm_frame sm2 = sm_frame sm1" "sm_updated sm2 = sm_updated sm1" "sm_recv_frame sm2 = sm_recv_frame sm1"
      "sm_recv_time sm2 = sm_recv_time sm1" "sm_seen sm2 = sm_seen sm1"
      "\<forall>s. sm_alive sm2 s = (if s \<in> set (static_freq_services sm1) then now - sm_recv_time sm1 s < 10 / sm_frequency sm1 s
          \<or> (sm_seen sm1 s \<and> sm_simulation sm1) else sm_alive sm1 s)" by auto
  have "sm_update_msgs now sm ms = Inr sm2" using r(1) f(1) by (simp add: sm_update_msgs_def)
  with r f st show ?thesis by auto
qed

definition test_sub_master :: "unit sub_master" where
  "test_sub_master = sm_init [''carState''] None [] [] [] (Some 100) (\<lambda>_. 100) (\<lambda>_. ()) False"

definition test_message :: "unit recv_msg" where
  "test_message = \<lparr>rm_which = ''carState'', rm_data = (), rm_logMonoTime = 0, rm_valid = True\<rparr>"

theorem submaster_update_returns_witness:
  "\<exists>sm'. sm_update_msgs 1 test_sub_master [Some test_message] = Inr sm'
    \<and> sm_frame sm' = sm_frame test_sub_master + 1
    \<and> (\<forall>s. ft_ok (sm_tracker sm' s))
    \<and> (\<forall>s. sm_updated sm' s = (s \<in> set (msg_services [Some test_message])))
    \<and> (\<forall>s. sm_recv_frame sm' s = (if s \<in> set (msg_services [Some test_message])
          then sm_frame test_sub_master + 1 else sm_recv_frame test_sub_master s))
    \<and> (\<forall>s\<in>set (static_freq_services test_sub_master). sm_alive sm' s =
         (1 - sm_recv_time sm' s < 10 / sm_frequency test_sub_master s \<or> sm_seen sm' s \<and> sm_simulation test_sub_master))"
  by (rule submaster_update_returns)
    (simp_all add: test_sub_master_def sm_init_def Let_def ft_ok_init test_message_def, simp add: ft_init_def Let_def)

end
