(* ===== verification/Transformations.thy ===== *)
theory Transformations
  imports Prelude
begin

text \<open>
  \<open>common/transformations/transformations.py\<close>: Euler angles, quaternions and rotation
  matrices, and the conversions between geodetic, ECEF and local NED coordinates. A numpy
  vector of length 3 is a triple of reals, a 3x3 matrix the triple of its rows; the check of
  \<open>geodetic2ecef_single\<close> for the length of its argument is the type. \<open>cos\<close>, \<open>sin\<close>, \<open>sqrt\<close>,
  \<open>root 3\<close>, \<open>arcsin\<close> and \<open>arctan\<close> are those of HOL, on exact reals.
\<close>

type_synonym vec3 = "real \<times> real \<times> real"
type_synonym mat3 = "vec3 \<times> vec3 \<times> vec3"
type_synonym quat = "real \<times> real \<times> real \<times> real"

section \<open>Vectors and matrices\<close>

fun dot3 :: "vec3 \<Rightarrow> vec3 \<Rightarrow> real" where
  "dot3 (a, b, c) (x, y, z) = a * x + b * y + c * z"

fun add3 :: "vec3 \<Rightarrow> vec3 \<Rightarrow> vec3" where
  "add3 (a, b, c) (x, y, z) = (a + x, b + y, c + z)"

fun sub3 :: "vec3 \<Rightarrow> vec3 \<Rightarrow> vec3" where
  "sub3 (a, b, c) (x, y, z) = (a - x, b - y, c - z)"

fun mat_vec :: "mat3 \<Rightarrow> vec3 \<Rightarrow> vec3" where
  "mat_vec (r0, r1, r2) v = (dot3 r0 v, dot3 r1 v, dot3 r2 v)"

fun transpose3 :: "mat3 \<Rightarrow> mat3" where
  "transpose3 ((a, b, c), (d, e, f), (g, h, i)) = ((a, d, g), (b, e, h), (c, f, i))"

fun mat_mul :: "mat3 \<Rightarrow> mat3 \<Rightarrow> mat3" where
  "mat_mul (r0, r1, r2) m =
     (mat_vec (transpose3 m) r0, mat_vec (transpose3 m) r1, mat_vec (transpose3 m) r2)"

definition eye3 :: mat3 where "eye3 = ((1, 0, 0), (0, 1, 0), (0, 0, 1))"

text \<open>\<open>numpy.arctan2\<close>, without the distinction of signed zeros.\<close>

definition arctan2 :: "real \<Rightarrow> real \<Rightarrow> real" where
  "arctan2 y x = (if x > 0 then arctan (y / x)
     else if x < 0 then (if y \<ge> 0 then arctan (y / x) + pi else arctan (y / x) - pi)
     else if y > 0 then pi / 2 else if y < 0 then - (pi / 2) else 0)"

definition radians :: "real \<Rightarrow> real" where "radians d = d * pi / 180"
definition degrees :: "real \<Rightarrow> real" where "degrees r = r * 180 / pi"

section \<open>Quaternions, rotations and Euler angles\<close>

fun positive_w :: "quat \<Rightarrow> quat" where
  "positive_w (w, x, y, z) = (if w < 0 then (-w, -x, -y, -z) else (w, x, y, z))"

fun euler2quat_single :: "vec3 \<Rightarrow> quat" where
  "euler2quat_single (phi, theta, psi) =
     (let c_phi = cos (phi / 2); s_phi = sin (phi / 2);
          c_theta = cos (theta / 2); s_theta = sin (theta / 2);
          c_psi = cos (psi / 2); s_psi = sin (psi / 2)
      in positive_w (c_phi * c_theta * c_psi + s_phi * s_theta * s_psi,
                     s_phi * c_theta * c_psi - c_phi * s_theta * s_psi,
                     c_phi * s_theta * c_psi + s_phi * c_theta * s_psi,
                     c_phi * c_theta * s_psi - s_phi * s_theta * c_psi))"

fun quat2euler_single :: "quat \<Rightarrow> vec3" where
  "quat2euler_single (w, x, y, z) =
     (arctan2 (2 * (w * x + y * z)) (1 - 2 * (x^2 + y^2)),
      arcsin (clip (2 * (w * y - z * x)) (-1) 1),
      arctan2 (2 * (w * z + x * y)) (1 - 2 * (y^2 + z^2)))"

fun quat2rot_single :: "quat \<Rightarrow> mat3" where
  "quat2rot_single (w, x, y, z) =
     (let xx = x * x; yy = y * y; zz = z * z; xy = x * y; xz = x * z; yz = y * z;
          wx = w * x; wy = w * y; wz = w * z
      in ((1 - 2 * (yy + zz), 2 * (xy - wz), 2 * (xz + wy)),
          (2 * (xy + wz), 1 - 2 * (xx + zz), 2 * (yz - wx)),
          (2 * (xz - wy), 2 * (yz + wx), 1 - 2 * (xx + yy))))"

fun rot2quat_single :: "mat3 \<Rightarrow> quat" where
  "rot2quat_single ((r00, r01, r02), (r10, r11, r12), (r20, r21, r22)) =
     (let trace = r00 + r11 + r22 in
      positive_w
       (if trace > 0 then
          let s = (1/2) / sqrt (trace + 1) in ((1/4) / s, (r21 - r12) * s, (r02 - r20) * s, (r10 - r01) * s)
        else if r00 > r11 \<and> r00 > r22 then
          let s = 2 * sqrt (1 + r00 - r11 - r22) in ((r21 - r12) / s, (1/4) * s, (r01 + r10) / s, (r02 + r20) / s)
        else if r11 > r22 then
          let s = 2 * sqrt (1 + r11 - r00 - r22) in ((r02 - r20) / s, (r01 + r10) / s, (1/4) * s, (r12 + r21) / s)
        else
          let s = 2 * sqrt (1 + r22 - r00 - r11) in ((r10 - r01) / s, (r02 + r20) / s, (r12 + r21) / s, (1/4) * s)))"

fun euler2rot_single :: "vec3 \<Rightarrow> mat3" where
  "euler2rot_single (phi, theta, psi) =
     (let cx = cos phi; sx = sin phi; cy = cos theta; sy = sin theta; cz = cos psi; sz = sin psi;
          Rx = ((1, 0, 0), (0, cx, - sx), (0, sx, cx));
          Ry = ((cy, 0, sy), (0, 1, 0), (- sy, 0, cy));
          Rz = ((cz, - sz, 0), (sz, cz, 0), (0, 0, 1))
      in mat_mul (mat_mul Rz Ry) Rx)"

definition rot2euler_single :: "mat3 \<Rightarrow> vec3" where
  "rot2euler_single rot = quat2euler_single (rot2quat_single rot)"

definition rot_matrix :: "real \<Rightarrow> real \<Rightarrow> real \<Rightarrow> mat3" where
  "rot_matrix roll pitch yaw = euler2rot_single (roll, pitch, yaw)"

fun axis_angle_to_rot :: "vec3 \<Rightarrow> real \<Rightarrow> mat3" where
  "axis_angle_to_rot (a0, a1, a2) angle =
     (let c = cos (angle / 2); s = sin (angle / 2) in quat2rot_single (c, s * a0, s * a1, s * a2))"

section \<open>Coordinates\<close>

definition earth_a :: real where "earth_a = 6378137"
definition earth_b :: real where "earth_b = 63567523142 / 10000"
definition earth_esq :: real where "earth_esq = (669437999014 / 100000000000) / 1000"
definition earth_e1sq :: real where "earth_e1sq = (673949674228 / 100000000000) / 1000"

fun geodetic2ecef_single :: "vec3 \<Rightarrow> vec3" where
  "geodetic2ecef_single (lat_deg, lon_deg, alt) =
     (let lat = radians lat_deg; lon = radians lon_deg;
          xi = sqrt (1 - earth_esq * (sin lat)^2)
      in ((earth_a / xi + alt) * cos lat * cos lon,
          (earth_a / xi + alt) * cos lat * sin lon,
          (earth_a / xi * (1 - earth_esq) + alt) * sin lat))"

definition ecef2geodetic_single :: "vec3 \<Rightarrow> vec3" where
  "ecef2geodetic_single e =
     (let (x, y, z) = e; a = earth_a; b = earth_b; esq = earth_esq;
          r = sqrt (x^2 + y^2);
          Esq = a^2 - b^2;
          F = 54 * b^2 * z^2;
          G = r^2 + (1 - esq) * z^2 - esq * Esq;
          C = (esq^2 * F * r^2) / (G^3);
          S = root 3 (1 + C + sqrt (C^2 + 2 * C));
          P = F / (3 * (S + 1 / S + 1)^2 * G^2);
          Q = sqrt (1 + 2 * esq^2 * P);
          r_0 = - (P * esq * r) / (1 + Q)
            + sqrt ((1/2) * a^2 * (1 + 1 / Q) - P * (1 - esq) * z^2 / (Q * (1 + Q)) - (1/2) * P * r^2);
          U = sqrt ((r - esq * r_0)^2 + z^2);
          V = sqrt ((r - esq * r_0)^2 + (1 - esq) * z^2);
          Z_0 = b^2 * z / (a * V);
          h = U * (1 - b^2 / (a * V));
          lat = arctan ((z + earth_e1sq * Z_0) / r);
          lon = arctan2 y x
      in (degrees lat, degrees lon, h))"

record local_coord =
  lc_init_ecef :: vec3
  lc_ned2ecef_matrix :: mat3
  lc_ecef2ned_matrix :: mat3

definition local_coord_at :: "vec3 \<Rightarrow> real \<Rightarrow> real \<Rightarrow> local_coord" where
  "local_coord_at init_ecef lat_deg lon_deg =
     (let lat = radians lat_deg; lon = radians lon_deg;
          m = ((- sin lat * cos lon, - sin lon, - cos lat * cos lon),
               (- sin lat * sin lon, cos lon, - cos lat * sin lon),
               (cos lat, 0, - sin lat))
      in \<lparr>lc_init_ecef = init_ecef, lc_ned2ecef_matrix = m, lc_ecef2ned_matrix = transpose3 m\<rparr>)"

fun from_geodetic :: "vec3 \<Rightarrow> local_coord" where
  "from_geodetic (lat, lon, alt) = local_coord_at (geodetic2ecef_single (lat, lon, alt)) lat lon"

definition from_ecef :: "vec3 \<Rightarrow> local_coord" where
  "from_ecef e = (let (lat, lon, alt) = ecef2geodetic_single e in local_coord_at e lat lon)"

definition ecef2ned_single :: "local_coord \<Rightarrow> vec3 \<Rightarrow> vec3" where
  "ecef2ned_single c ecef = mat_vec (lc_ecef2ned_matrix c) (sub3 ecef (lc_init_ecef c))"

definition ned2ecef_single :: "local_coord \<Rightarrow> vec3 \<Rightarrow> vec3" where
  "ned2ecef_single c ned = add3 (mat_vec (lc_ned2ecef_matrix c) ned) (lc_init_ecef c)"

definition geodetic2ned_single :: "local_coord \<Rightarrow> vec3 \<Rightarrow> vec3" where
  "geodetic2ned_single c g = ecef2ned_single c (geodetic2ecef_single g)"

definition ned2geodetic_single :: "local_coord \<Rightarrow> vec3 \<Rightarrow> vec3" where
  "ned2geodetic_single c n = ecef2geodetic_single (ned2ecef_single c n)"

text \<open>The three successive turns of a frame, which both conversions of poses share.\<close>

definition turn_frame :: "vec3 \<Rightarrow> vec3 \<Rightarrow> vec3 \<Rightarrow> vec3 \<Rightarrow> vec3 \<times> vec3" where
  "turn_frame angles x0 y0 z0 =
     (let (phi, theta, psi) = angles;
          x1 = mat_vec (axis_angle_to_rot z0 psi) x0;
          y1 = mat_vec (axis_angle_to_rot z0 psi) y0;
          x2 = mat_vec (axis_angle_to_rot y1 theta) x1;
          y2 = mat_vec (axis_angle_to_rot y1 theta) y1
      in (mat_vec (axis_angle_to_rot x2 phi) x2, mat_vec (axis_angle_to_rot x2 phi) y2))"

text \<open>The angles of a turned frame against the axes \<open>x0\<close>, \<open>y0\<close>, \<open>z0\<close>.\<close>

definition frame_angles :: "vec3 \<Rightarrow> vec3 \<Rightarrow> vec3 \<Rightarrow> vec3 \<Rightarrow> vec3 \<Rightarrow> vec3" where
  "frame_angles x3 y3 x0 y0 z0 =
     (let psi = arctan2 (dot3 x3 y0) (dot3 x3 x0);
          theta = arctan2 (- dot3 x3 z0) (sqrt ((dot3 x3 x0)^2 + (dot3 x3 y0)^2));
          y2 = mat_vec (axis_angle_to_rot z0 psi) y0;
          z2 = mat_vec (axis_angle_to_rot y2 theta) z0;
          phi = arctan2 (dot3 y3 z2) (dot3 y3 y2)
      in (phi, theta, psi))"

definition ned_axes :: "vec3 \<Rightarrow> vec3 \<times> vec3 \<times> vec3" where
  "ned_axes ecef_init =
     (let c = from_ecef ecef_init; axis = (\<lambda>n. sub3 (ned2ecef_single c n) ecef_init)
      in (axis (1, 0, 0), axis (0, 1, 0), axis (0, 0, 1)))"

definition ecef_euler_from_ned_single :: "vec3 \<Rightarrow> vec3 \<Rightarrow> vec3" where
  "ecef_euler_from_ned_single ecef_init ned_pose =
     (let (x0, y0, z0) = ned_axes ecef_init;
          (x3, y3) = turn_frame ned_pose x0 y0 z0
      in frame_angles x3 y3 (1, 0, 0) (0, 1, 0) (0, 0, 1))"

definition ned_euler_from_ecef_single :: "vec3 \<Rightarrow> vec3 \<Rightarrow> vec3" where
  "ned_euler_from_ecef_single ecef_init ecef_pose =
     (let (x3, y3) = turn_frame ecef_pose (1, 0, 0) (0, 1, 0) (0, 0, 1);
          (x0, y0, z0) = ned_axes ecef_init
      in frame_angles x3 y3 x0 y0 z0)"

section \<open>Facts\<close>

lemma quat2rot_uminus [simp]: "quat2rot_single (-w, -x, -y, -z) = quat2rot_single (w, x, y, z)"
  by (simp add: Let_def)

lemma quat2rot_positive_w [simp]: "quat2rot_single (positive_w q) = quat2rot_single q"
  by (cases q) (auto simp del: quat2rot_single.simps)

lemma sin_cos_half:
  "sin x = 2 * sin (x / 2) * cos (x / 2)" "cos x = (cos (x / 2))^2 - (sin (x / 2))^2" for x :: real
  using sin_double [of "x / 2"] cos_double [of "x / 2"] by simp_all

lemma cos_sin_sq: "(cos x)^2 = 1 - (sin x)^2" for x :: real
  by (simp add: cos_squared_eq)

definition unit_quat :: "quat \<Rightarrow> bool" where
  "unit_quat q = (let (w, x, y, z) = q in w^2 + x^2 + y^2 + z^2 = 1)"

lemma unit_positive_w [simp]: "unit_quat (positive_w q) = unit_quat q"
  by (cases q) (simp add: unit_quat_def)

lemma euler2quat_unit: "unit_quat (euler2quat_single e)"
proof -
  have alg: "(c1*c2*c3 + s1*s2*s3)^2 + (s1*c2*c3 - c1*s2*s3)^2 + (c1*s2*c3 + s1*c2*s3)^2 + (c1*c2*s3 - s1*s2*c3)^2
    = (c1^2 + s1^2) * (c2^2 + s2^2) * (c3^2 + s3^2)" for c1 c2 c3 s1 s2 s3 :: real
    by algebra
  obtain a b c where e: "e = (a, b, c)" by (cases e)
  show ?thesis using alg [of "cos (a/2)" "cos (b/2)" "cos (c/2)" "sin (a/2)" "sin (b/2)" "sin (c/2)"]
    by (simp add: e Let_def del: positive_w.simps) (simp add: unit_quat_def)
qed

lemma euler_entries:
  fixes c1 c2 c3 s1 s2 s3 :: real
  assumes u: "c1^2 + s1^2 = 1" "c2^2 + s2^2 = 1" "c3^2 + s3^2 = 1"
  defines "w \<equiv> c1*c2*c3 + s1*s2*s3" and "x \<equiv> s1*c2*c3 - c1*s2*s3"
    and "y \<equiv> c1*s2*c3 + s1*c2*s3" and "z \<equiv> c1*c2*s3 - s1*s2*c3"
  shows "1 - 2 * (y*y + z*z) = (c2^2 - s2^2) * (c3^2 - s3^2)"
    "2 * (x*y - w*z) = 2*s1*c1 * (2*s2*c2) * (c3^2 - s3^2) - (c1^2 - s1^2) * (2*s3*c3)"
    "2 * (x*z + w*y) = (c1^2 - s1^2) * (2*s2*c2) * (c3^2 - s3^2) + 2*s1*c1 * (2*s3*c3)"
    "2 * (x*y + w*z) = (c2^2 - s2^2) * (2*s3*c3)"
    "1 - 2 * (x*x + z*z) = 2*s1*c1 * (2*s2*c2) * (2*s3*c3) + (c1^2 - s1^2) * (c3^2 - s3^2)"
    "2 * (y*z - w*x) = (c1^2 - s1^2) * (2*s2*c2) * (2*s3*c3) - 2*s1*c1 * (c3^2 - s3^2)"
    "2 * (x*z - w*y) = - (2*s2*c2)"
    "2 * (y*z + w*x) = 2*s1*c1 * (c2^2 - s2^2)"
    "1 - 2 * (x*x + y*y) = (c1^2 - s1^2) * (c2^2 - s2^2)"
  unfolding w_def x_def y_def z_def using u by algebra+

text \<open>
  A rotation matrix gives back the quaternion it came from, up to the sign that makes its first
  component positive.
\<close>

lemma rot2quat_quat2rot:
  assumes "unit_quat (w, x, y, z)"
  shows "rot2quat_single (quat2rot_single (w, x, y, z)) \<in> {(w, x, y, z), (-w, -x, -y, -z)}
    \<and> (0 < w \<longrightarrow> rot2quat_single (quat2rot_single (w, x, y, z)) = (w, x, y, z))"
proof -
  have u: "w * w + x * x + y * y + z * z = 1" using assms by (simp add: unit_quat_def power2_eq_square)
  define r00 where "r00 = 1 - 2 * (y * y + z * z)"
  define r11 where "r11 = 1 - 2 * (x * x + z * z)"
  define r22 where "r22 = 1 - 2 * (x * x + y * y)"
  have rot: "quat2rot_single (w, x, y, z) = ((r00, 2 * (x * y - w * z), 2 * (x * z + w * y)),
      (2 * (x * y + w * z), r11, 2 * (y * z - w * x)), (2 * (x * z - w * y), 2 * (y * z + w * x), r22))"
    by (simp add: r00_def r11_def r22_def Let_def)
  have sq: "sqrt (4 * (v * v)) = 2 * \<bar>v\<bar>" for v :: real
    using real_sqrt_abs [of "2 * v"] by (simp add: power2_eq_square abs_mult)
  have tr: "r00 + r11 + r22 + 1 = 4 * (w * w)" "1 + r00 - r11 - r22 = 4 * (x * x)"
    "1 + r11 - r00 - r22 = 4 * (y * y)" "1 + r22 - r00 - r11 = 4 * (z * z)"
    using u by (simp_all add: r00_def r11_def r22_def)
  consider (w) "r00 + r11 + r22 > 0" | (x) "\<not> r00 + r11 + r22 > 0" "r00 > r11 \<and> r00 > r22"
    | (y) "\<not> r00 + r11 + r22 > 0" "\<not> (r00 > r11 \<and> r00 > r22)" "r11 > r22"
    | (z) "\<not> r00 + r11 + r22 > 0" "\<not> (r00 > r11 \<and> r00 > r22)" "\<not> r11 > r22" by blast
  then show ?thesis
  proof cases
    case w
    then have "w \<noteq> 0" using tr(1) by auto
    with w tr(1) sq [of w] show ?thesis
      unfolding rot by (auto simp: Let_def abs_if field_simps mult_less_0_iff split: if_splits)
  next
    case x
    then have "x \<noteq> 0" by (auto simp: r00_def r11_def)
    with x tr(2) sq [of x] show ?thesis
      unfolding rot by (auto simp: Let_def abs_if field_simps mult_less_0_iff split: if_splits)
  next
    case y
    then have "y \<noteq> 0" by (auto simp: r11_def r22_def)
    with y tr(3) sq [of y] show ?thesis
      unfolding rot by (auto simp: Let_def abs_if field_simps mult_less_0_iff split: if_splits)
  next
    case z
    have "z \<noteq> 0"
    proof
      assume z0: "z = 0"
      with z(3) have "y * y \<le> 0" by (simp add: r11_def r22_def)
      then have y0: "y = 0" by (auto simp: mult_le_0_iff)
      with z(2) z0 have "x * x \<le> 0" by (auto simp: r00_def r11_def r22_def)
      then have "x = 0" by (auto simp: mult_le_0_iff)
      with z(1) z0 y0 show False by (simp add: r00_def r11_def r22_def)
    qed
    with z tr(4) sq [of z] show ?thesis
      unfolding rot by (auto simp: Let_def abs_if field_simps mult_less_0_iff split: if_splits)
  qed
qed

lemma arctan2_polar:
  assumes "0 < c" "- pi < p" "p \<le> pi" shows "arctan2 (c * sin p) (c * cos p) = p"
proof -
  have q: "c * sin p / (c * cos p) = tan p" using assms(1) by (simp add: tan_def)
  consider (a) "p < - (pi / 2)" | (b) "p = - (pi / 2)" | (c) "- (pi / 2) < p" "p < pi / 2" | (d) "p = pi / 2" | (e) "pi / 2 < p"
    by linarith
  then show ?thesis
  proof cases
    case a
    have c: "0 < cos (p + pi)" using a assms by (intro cos_gt_zero_pi) auto
    have s: "0 < sin (p + pi)" using a assms by (intro sin_gt_zero) auto
    have "arctan (tan (p + pi)) = p + pi" using a assms by (intro arctan_tan) auto
    with c s assms(1) show ?thesis
      unfolding arctan2_def q by (simp add: mult_less_0_iff zero_less_mult_iff zero_le_mult_iff)
  next
    case b
    have "sin p = -1" "cos p = 0" unfolding b by simp_all
    with assms(1) show ?thesis by (simp add: arctan2_def b)
  next
    case c
    then have "0 < cos p" by (rule cos_gt_zero_pi)
    with c assms(1) show ?thesis unfolding arctan2_def q by (simp add: arctan_tan zero_less_mult_iff)
  next
    case d
    have "sin p = 1" "cos p = 0" unfolding d by simp_all
    with assms(1) show ?thesis by (simp add: arctan2_def d)
  next
    case e
    have c: "0 < cos (p - pi)" using e assms by (intro cos_gt_zero_pi) auto
    have s: "0 \<le> sin p" using e assms by (intro sin_ge_zero) auto
    have "arctan (tan (p - pi)) = p - pi" using e assms by (intro arctan_tan) auto
    moreover have "tan (p - pi) = tan p" using tan_periodic_pi [of "p - pi"] by simp
    ultimately show ?thesis using c s assms(1)
      unfolding arctan2_def q by (simp add: mult_less_0_iff zero_less_mult_iff zero_le_mult_iff)
  qed
qed

lemma euler2rot_entries:
  "euler2rot_single (p, t, q) =
    ((cos q * cos t, cos q * sin t * sin p - sin q * cos p, cos q * sin t * cos p + sin q * sin p),
     (sin q * cos t, sin q * sin t * sin p + cos q * cos p, sin q * sin t * cos p - cos q * sin p),
     (- sin t, cos t * sin p, cos t * cos p))"
  by (simp add: Let_def algebra_simps)

lemma quat2rot_half_angles:
  assumes "c1^2 + s1^2 = 1" "c2^2 + s2^2 = 1" "c3^2 + s3^2 = 1"
  shows "quat2rot_single (c1*c2*c3 + s1*s2*s3, s1*c2*c3 - c1*s2*s3, c1*s2*c3 + s1*c2*s3, c1*c2*s3 - s1*s2*c3) =
    (((c2^2 - s2^2) * (c3^2 - s3^2), 2*s1*c1 * (2*s2*c2) * (c3^2 - s3^2) - (c1^2 - s1^2) * (2*s3*c3),
      (c1^2 - s1^2) * (2*s2*c2) * (c3^2 - s3^2) + 2*s1*c1 * (2*s3*c3)),
     ((c2^2 - s2^2) * (2*s3*c3), 2*s1*c1 * (2*s2*c2) * (2*s3*c3) + (c1^2 - s1^2) * (c3^2 - s3^2),
      (c1^2 - s1^2) * (2*s2*c2) * (2*s3*c3) - 2*s1*c1 * (c3^2 - s3^2)),
     (- (2*s2*c2), 2*s1*c1 * (c2^2 - s2^2), (c1^2 - s1^2) * (c2^2 - s2^2)))"
  by (simp only: quat2rot_single.simps Let_def euler_entries [OF assms])

lemma quat2rot_euler2quat: "quat2rot_single (euler2quat_single e) = euler2rot_single e"
proof -
  obtain p t q where e: "e = (p, t, q)" by (cases e)
  have "quat2rot_single (euler2quat_single e) = ((cos t * cos q, sin p * sin t * cos q - cos p * sin q, cos p * sin t * cos q + sin p * sin q),
     (cos t * sin q, sin p * sin t * sin q + cos p * cos q, cos p * sin t * sin q - sin p * cos q),
     (- sin t, sin p * cos t, cos p * cos t))"
    unfolding e euler2quat_single.simps Let_def quat2rot_positive_w
      quat2rot_half_angles [OF sin_cos_squared_add2 sin_cos_squared_add2 sin_cos_squared_add2, of "p/2" "t/2" "q/2"]
      sin_cos_half [of p] sin_cos_half [of t] sin_cos_half [of q] by (rule refl)
  also have "\<dots> = euler2rot_single e" unfolding e euler2rot_entries by (simp add: mult.commute mult.left_commute)
  finally show ?thesis .
qed

text \<open>The angles of a quaternion, read off its rotation matrix.\<close>

lemma quat2euler_rot:
  "quat2euler_single q = (case quat2rot_single q of ((r00, r01, r02), (r10, r11, r12), (r20, r21, r22)) \<Rightarrow>
     (arctan2 r21 r22, arcsin (clip (- r20) (-1) 1), arctan2 r10 r00))"
  by (cases q) (simp add: Let_def power2_eq_square algebra_simps)

lemma quat2rot_rot2quat:
  assumes "unit_quat q" shows "quat2rot_single (rot2quat_single (quat2rot_single q)) = quat2rot_single q"
proof -
  obtain w x y z where q: "q = (w, x, y, z)" by (cases q)
  from rot2quat_quat2rot [of w x y z] assms
  consider "rot2quat_single (quat2rot_single q) = (w, x, y, z)" | "rot2quat_single (quat2rot_single q) = (-w, -x, -y, -z)"
    unfolding q by blast
  then show ?thesis by cases (simp_all only: q quat2rot_uminus)
qed

text \<open>The angles read off the matrix of angles in the principal range are those angles.\<close>

lemma rot_angles:
  assumes "- pi < phi" "phi \<le> pi" "- (pi / 2) < theta" "theta < pi / 2" "- pi < psi" "psi \<le> pi"
  shows "(case euler2rot_single (phi, theta, psi) of ((r00, r01, r02), (r10, r11, r12), (r20, r21, r22)) \<Rightarrow>
     (arctan2 r21 r22, arcsin (clip (- r20) (-1) 1), arctan2 r10 r00)) = (phi, theta, psi)"
proof -
  have "0 < cos theta" using assms by (intro cos_gt_zero_pi) auto
  then have "arctan2 (cos theta * sin phi) (cos theta * cos phi) = phi"
    "arctan2 (sin psi * cos theta) (cos psi * cos theta) = psi"
    using arctan2_polar [of "cos theta"] assms by (simp_all add: mult.commute)
  moreover have "clip (sin theta) (-1) 1 = sin theta" by (intro clip_id) simp_all
  moreover have "arcsin (sin theta) = theta" using assms by (intro arcsin_sin) auto
  ultimately show ?thesis unfolding euler2rot_entries by simp
qed

lemma rot2euler_euler2rot: "rot2euler_single (euler2rot_single e) = quat2euler_single (euler2quat_single e)"
  using quat2rot_rot2quat [OF euler2quat_unit, of e] by (simp only: rot2euler_single_def quat2euler_rot quat2rot_euler2quat)

lemma ned_entries:
  fixes ca sa cb sb x y z :: real
  assumes "ca^2 + sa^2 = 1" "cb^2 + sb^2 = 1"
  defines "m \<equiv> ((- sa * cb, - sb, - ca * cb), (- sa * sb, cb, - ca * sb), (ca, 0, - sa))"
  shows "mat_vec m (mat_vec (transpose3 m) (x, y, z)) = (x, y, z)"
    "mat_vec (transpose3 m) (mat_vec m (x, y, z)) = (x, y, z)"
  using assms(1,2) unfolding m_def by (simp_all, (intro conjI; algebra)+)

lemma ned_matrix_orthogonal:
  "mat_vec (lc_ned2ecef_matrix (local_coord_at p a b)) (mat_vec (lc_ecef2ned_matrix (local_coord_at p a b)) v) = v"
  "mat_vec (lc_ecef2ned_matrix (local_coord_at p a b)) (mat_vec (lc_ned2ecef_matrix (local_coord_at p a b)) v) = v"
  using ned_entries [of "cos (radians a)" "sin (radians a)" "cos (radians b)" "sin (radians b)"]
  by (cases v; simp add: local_coord_at_def Let_def)+

section \<open>Properties\<close>

text \<open>
  C24. The two ways from Euler angles to a rotation matrix agree: the product of the three
  elementary rotations is the matrix of the quaternion, which is a unit quaternion.
\<close>

theorem euler2rot_is_quat2rot:
  "quat2rot_single (euler2quat_single e) = euler2rot_single e \<and> unit_quat (euler2quat_single e)"
  using quat2rot_euler2quat euler2quat_unit by blast

text \<open>
  C25. Euler angles survive the way through the quaternion, and the way through the rotation matrix
  and the quaternion computed from that, for every roll and yaw in the principal range and every
  pitch short of the gimbal lock.
\<close>

theorem euler_roundtrip:
  assumes "- pi < phi" "phi \<le> pi" "- (pi / 2) < theta" "theta < pi / 2" "- pi < psi" "psi \<le> pi"
  shows "quat2euler_single (euler2quat_single (phi, theta, psi)) = (phi, theta, psi)
    \<and> rot2euler_single (euler2rot_single (phi, theta, psi)) = (phi, theta, psi)"
  using rot_angles [OF assms] rot2euler_euler2rot [of "(phi, theta, psi)"]
  by (simp only: quat2euler_rot quat2rot_euler2quat simp_thms)

theorem euler_roundtrip_witness:
  "quat2euler_single (euler2quat_single (pi, 1/2, -1)) = (pi, 1/2, -1) \<and> rot2euler_single (euler2rot_single (pi, 1/2, -1)) = (pi, 1/2, -1)"
  by (rule euler_roundtrip) (use pi_ge_two in auto)

text \<open>
  The local frame and the ECEF frame are inverse to each other, at whatever origin: points
  survive both ways.
\<close>

theorem ned_ecef_roundtrip:
  "ned2ecef_single (local_coord_at p lat lon) (ecef2ned_single (local_coord_at p lat lon) v) = v
   \<and> ecef2ned_single (local_coord_at p lat lon) (ned2ecef_single (local_coord_at p lat lon) v) = v"
proof -
  have "add3 (sub3 a b) b = a" "sub3 (add3 a b) b = a" for a b by (cases a; cases b; simp)+
  then show ?thesis by (simp add: ned2ecef_single_def ecef2ned_single_def ned_matrix_orthogonal)
qed

end
