(* ===== verification/Sd_Messages.thy ===== *)
theory Sd_Messages
  imports Car_Types Event_Names Messaging Transformations
begin

text \<open>
  The messages \<open>selfdrived\<close> subscribes to, as the fields \<open>selfdrived.py\<close> and the alert
  callbacks read: \<open>sm['deviceState'].freeSpacePercent\<close> is \<open>ds_freeSpacePercent\<close> of the
  record \<open>sd_msgs\<close>, and so on. The flags of the \<open>SubMaster\<close> (\<open>sm.updated\<close>, \<open>sm.valid\<close>,
  \<open>sm.recv_frame\<close>, \<open>sm.all_checks\<close>) are those of the theory Messaging; \<open>sd_sm\<close> joins both.
\<close>

record process_state =
  ps_name :: string
  ps_running :: bool
  ps_shouldBeRunning :: bool

record panda_state =
  pa_safetyModel :: safety_model
  pa_safetyParam :: int
  pa_alternativeExperience :: int
  pa_safetyRxChecksInvalid :: bool
  pa_relayMalfunction :: bool
  pa_controlsAllowed :: bool

record xyz_measurement =
  xm_xyz :: vec3
  xm_std :: vec3

record sd_msgs =
  lc_calStatus :: cal_status
  lc_calPerc :: int
  lc_rpyCalib :: "real list"
  af_blockNum :: int
  ds_thermalStatus :: int
  ds_freeSpacePercent :: real
  ds_memoryUsagePercent :: int
  ds_cpuTempC :: "real list"
  ds_gpuTempC :: "real list"
  ds_memoryTempC :: real
  ds_cpuUsagePercent :: "int list"
  ds_fanSpeedPercentDesired :: int
  pe_pandaTypeKnown :: bool
  pe_fanSpeedRpm :: int
  mv_velocity_x :: "real list"
  mv_frameDropPerc :: real
  mv_laneChangeState :: lane_change_state
  mv_laneChangeDirection :: lane_change_direction
  mv_hardBrakePredicted :: bool
  mv_desiredCurvature :: real
  md_laneTurnDirection :: turn_direction
  mg_processes :: "process_state list"
  lp_angleOffsetValid :: bool
  lp_angleOffsetDeg :: real
  lp_steerRatioValid :: bool
  lp_steerRatio :: real
  lp_stiffnessFactorValid :: bool
  lp_stiffnessFactor :: real
  lp_valid :: bool
  lp_roll :: real
  ad_alertText1 :: string
  ad_alertText2 :: string
  sl_speedLimit :: real
  sl_speedLimitFinalLast :: real
  lpsp_vTarget :: real
  lpsp_events :: "event_id list"
  dm_events :: "event_id list"
  da_leftLaneDeparture :: bool
  da_rightLaneDeparture :: bool
  lv_orientationNED :: xyz_measurement
  lv_velocityDevice :: xyz_measurement
  lv_accelerationDevice :: xyz_measurement
  lv_angularVelocityDevice :: xyz_measurement
  lv_posenetOK :: bool
  lv_inputsOK :: bool
  pa_states :: "panda_state list"
  ra_canError :: bool
  ra_radarUnavailableTemporary :: bool
  ra_otherError :: bool
  co_debugState :: bool
  co_lac_active :: bool
  co_lac_saturated :: bool
  co_curvature :: real
  lo_fcw :: bool
  sd_carControl :: car_control

record sd_sm =
  sd_health :: "unit sub_master"
  sd_msg :: sd_msgs

text \<open>Messages to evaluate the model on.\<close>

definition default_cc :: car_control where
  "default_cc = \<lparr>cc_enabled = False, cc_latActive = False, cc_longActive = False, cc_cruise_override = False,
     cc_cruise_cancel = False, cc_cruise_resume = False, cc_accel = 0, cc_torque = 0\<rparr>"

definition zero_measurement :: xyz_measurement where
  "zero_measurement = \<lparr>xm_xyz = (0, 0, 0), xm_std = (0, 0, 0)\<rparr>"

definition default_sd_msgs :: sd_msgs where
  "default_sd_msgs = \<lparr>lc_calStatus = Cal_calibrated, lc_calPerc = 0, lc_rpyCalib = [], af_blockNum = 0,
     ds_thermalStatus = 0, ds_freeSpacePercent = 0, ds_memoryUsagePercent = 0, ds_cpuTempC = [],
     ds_gpuTempC = [], ds_memoryTempC = 0, ds_cpuUsagePercent = [],
     ds_fanSpeedPercentDesired = 0, pe_pandaTypeKnown = False, pe_fanSpeedRpm = 0,
     mv_velocity_x = [], mv_frameDropPerc = 0, mv_laneChangeState = LC_off,
     mv_laneChangeDirection = LCD_none, mv_hardBrakePredicted = False, mv_desiredCurvature = 0,
     md_laneTurnDirection = TD_none, mg_processes = [], lp_angleOffsetValid = False,
     lp_angleOffsetDeg = 0, lp_steerRatioValid = False, lp_steerRatio = 0,
     lp_stiffnessFactorValid = False, lp_stiffnessFactor = 0, lp_valid = False, lp_roll = 0,
     ad_alertText1 = '''', ad_alertText2 = '''', sl_speedLimit = 0, sl_speedLimitFinalLast = 0,
     lpsp_vTarget = 0, lpsp_events = [], dm_events = [], da_leftLaneDeparture = False,
     da_rightLaneDeparture = False, lv_orientationNED = zero_measurement, lv_velocityDevice = zero_measurement,
     lv_accelerationDevice = zero_measurement, lv_angularVelocityDevice = zero_measurement, lv_posenetOK = False, lv_inputsOK = False, pa_states = [],
     ra_canError = False, ra_radarUnavailableTemporary = False, ra_otherError = False,
     co_debugState = False, co_lac_active = False, co_lac_saturated = False, co_curvature = 0,
     lo_fcw = False, sd_carControl = default_cc\<rparr>"

end
