(* ===== verification/Events_Base.thy ===== *)
theory Events_Base
  imports Sd_Messages
begin

text \<open>
  \<open>sunnypilot/selfdrive/selfdrived/events_base.py\<close>: event types, alerts and their
  subclasses, and the class \<open>EventsBase\<close>. The abstract methods \<open>get_events_mapping\<close> and
  \<open>get_event_name\<close> are the interface \<open>event_source\<close>; the two tables of the program
  (theories Events_Table and Events_SP_Table) interpret it.
\<close>

section \<open>Priorities, event types, alerts\<close>

datatype priority = LOWEST | LOWER | LOW | MID | HIGH | HIGHEST

fun priority_value :: "priority \<Rightarrow> int" where
  "priority_value LOWEST = 0"
| "priority_value LOWER = 1"
| "priority_value LOW = 2"
| "priority_value MID = 3"
| "priority_value HIGH = 4"
| "priority_value HIGHEST = 5"

lemma priority_value_inj: "priority_value p = priority_value q \<longleftrightarrow> p = q"
  by (cases p; cases q) simp_all

text \<open>\<open>Priority\<close> is an \<open>IntEnum\<close>: its members are ordered by value.\<close>

instantiation priority :: linorder
begin

definition less_eq_priority :: "priority \<Rightarrow> priority \<Rightarrow> bool" where
  "less_eq_priority p q \<longleftrightarrow> priority_value p \<le> priority_value q"

definition less_priority :: "priority \<Rightarrow> priority \<Rightarrow> bool" where
  "less_priority p q \<longleftrightarrow> priority_value p < priority_value q"

instance
  by standard (auto simp: less_eq_priority_def less_priority_def priority_value_inj)

end

datatype et = ENABLE | PRE_ENABLE | OVERRIDE_LATERAL | OVERRIDE_LONGITUDINAL | NO_ENTRY
  | WARNING | USER_DISABLE | SOFT_DISABLE | IMMEDIATE_DISABLE | PERMANENT

fun et_name :: "et \<Rightarrow> string" where
  "et_name ENABLE = ''enable''"
| "et_name PRE_ENABLE = ''preEnable''"
| "et_name OVERRIDE_LATERAL = ''overrideLateral''"
| "et_name OVERRIDE_LONGITUDINAL = ''overrideLongitudinal''"
| "et_name NO_ENTRY = ''noEntry''"
| "et_name WARNING = ''warning''"
| "et_name USER_DISABLE = ''userDisable''"
| "et_name SOFT_DISABLE = ''softDisable''"
| "et_name IMMEDIATE_DISABLE = ''immediateDisable''"
| "et_name PERMANENT = ''permanent''"

datatype visual_alert = VA_none | VA_fcw | VA_steerRequired | VA_brakePressed | VA_ldw

datatype audible_alert = AA_none | AA_engage | AA_disengage | AA_refuse | AA_warningSoft
  | AA_warningImmediate | AA_prompt | AA_promptRepeat | AA_promptDistracted
  | AASP_promptSingleLow | AASP_promptSingleHigh

record alert =
  alert_text_1 :: string
  alert_text_2 :: string
  alert_status :: alert_status
  alert_size :: alert_size
  priority :: priority
  visual_alert :: visual_alert
  audible_alert :: audible_alert
  duration :: int
  creation_delay :: real
  alert_type :: string
  event_type :: "et option"

text \<open>The constructor: the duration in seconds becomes a number of control frames.\<close>

definition Alert :: "string \<Rightarrow> string \<Rightarrow> alert_status \<Rightarrow> alert_size \<Rightarrow> priority \<Rightarrow> visual_alert
    \<Rightarrow> audible_alert \<Rightarrow> real \<Rightarrow> real \<Rightarrow> alert" where
  "Alert t1 t2 status sz prio visual audible dur delay =
     \<lparr>alert_text_1 = t1, alert_text_2 = t2, alert_status = status, alert_size = sz,
      priority = prio, visual_alert = visual, audible_alert = audible,
      duration = py_int (dur / DT_CTRL), creation_delay = delay, alert_type = '''',
      event_type = None\<rparr>"

definition alert_gt :: "alert \<Rightarrow> alert \<Rightarrow> bool" where
  "alert_gt a b \<longleftrightarrow> priority a > priority b"

definition EmptyAlert :: alert where
  "EmptyAlert = Alert '''' '''' AS_normal SZ_none LOWEST VA_none AA_none 0 0"

text \<open>\<open>mici\<close> is \<open>HARDWARE.get_device_type() == 'mici'\<close>.\<close>

definition NoEntryAlert :: "bool \<Rightarrow> string \<Rightarrow> string \<Rightarrow> visual_alert \<Rightarrow> alert" where
  "NoEntryAlert mici t2 t1 visual =
     (let (u1, u2) = (if mici then (t2, t1) else (t1, t2))
      in Alert u1 u2 AS_normal SZ_mid LOW visual AA_refuse 3 0)"

definition default_no_entry :: string where
  "default_no_entry = ''openpilot Unavailable''"

definition SoftDisableAlert :: "string \<Rightarrow> alert" where
  "SoftDisableAlert t2 = Alert ''TAKE CONTROL IMMEDIATELY'' t2 AS_userPrompt SZ_full MID
     VA_steerRequired AA_warningSoft 2 0"

definition UserSoftDisableAlert :: "string \<Rightarrow> alert" where
  "UserSoftDisableAlert t2 = (SoftDisableAlert t2)\<lparr>alert_text_1 := ''openpilot will disengage''\<rparr>"

definition ImmediateDisableAlert :: "string \<Rightarrow> alert" where
  "ImmediateDisableAlert t2 = Alert ''TAKE CONTROL IMMEDIATELY'' t2 AS_critical SZ_full HIGHEST
     VA_steerRequired AA_warningImmediate 4 0"

definition EngagementAlert :: "audible_alert \<Rightarrow> alert" where
  "EngagementAlert audible = Alert '''' '''' AS_normal SZ_none MID VA_none audible (2/10) 0"

definition NormalPermanentAlert :: "string \<Rightarrow> string \<Rightarrow> real \<Rightarrow> priority \<Rightarrow> real \<Rightarrow> alert" where
  "NormalPermanentAlert t1 t2 dur prio delay =
     Alert t1 t2 AS_normal (if length t2 \<noteq> 0 then SZ_mid else SZ_small) prio VA_none AA_none dur delay"

definition default_startup_text :: string where
  "default_startup_text = ''Always keep hands on wheel and eyes on road''"

definition StartupAlert :: "bool \<Rightarrow> string \<Rightarrow> string \<Rightarrow> alert_status \<Rightarrow> alert" where
  "StartupAlert mici t1 t2 status =
     (let u2 = (if mici \<and> t2 = default_startup_text then '''' else t2);
          sz = (if mici then SZ_small else SZ_mid)
      in Alert t1 u2 status sz LOWER VA_none AA_none 5 0)"

lemmas alert_class_defs =
  Alert_def EmptyAlert_def NoEntryAlert_def SoftDisableAlert_def UserSoftDisableAlert_def
  ImmediateDisableAlert_def EngagementAlert_def NormalPermanentAlert_def StartupAlert_def

text \<open>
  The value of an event type in the table: a fixed alert, or a callback of the car
  parameters, the car state, the messages, the metric flag, the soft disable timer and the
  personality's name.
\<close>

type_synonym callback = "car_params \<Rightarrow> car_state \<Rightarrow> sd_sm \<Rightarrow> bool \<Rightarrow> int \<Rightarrow> string \<Rightarrow> alert"

datatype alert_src = Fixed alert | Callback callback

record callback_args =
  cb_CP :: car_params
  cb_CS :: car_state
  cb_sm :: sd_sm
  cb_metric :: bool
  cb_soft_disable_time :: int
  cb_personality :: string

fun make_alert :: "alert_src \<Rightarrow> callback_args \<Rightarrow> alert" where
  "make_alert (Fixed a) args = a"
| "make_alert (Callback f) args =
     f (cb_CP args) (cb_CS args) (cb_sm args) (cb_metric args) (cb_soft_disable_time args)
       (cb_personality args)"

definition wrong_car_mode_alert :: "bool \<Rightarrow> callback" where
  "wrong_car_mode_alert mici CP CS sm metric soft_disable_time personality =
     NoEntryAlert mici
       (if cp_brand CP = ''honda'' then ''Enable Main Switch to Engage''
        else ''Enable Adaptive Cruise to Engage'') default_no_entry VA_none"

section \<open>EventsBase\<close>

type_synonym event_dict = "(et \<times> alert_src) list"
type_synonym event_map = "event_id \<Rightarrow> event_dict option"

record events =
  ev_events :: "event_id list"
  ev_static_events :: "event_id list"
  ev_counters :: "event_id \<Rightarrow> int option"

text \<open>\<open>__init__\<close> of the subclasses: a zero counter for every key of the table.\<close>

definition events_init :: "event_map \<Rightarrow> events" where
  "events_init mp = \<lparr>ev_events = [], ev_static_events = [],
     ev_counters = (\<lambda>e. if mp e = None then None else Some 0)\<rparr>"

definition ev_add :: "event_id \<Rightarrow> events \<Rightarrow> events" where
  "ev_add e s = s\<lparr>ev_events := insort_right e (ev_events s)\<rparr>"

definition ev_add_static :: "event_id \<Rightarrow> events \<Rightarrow> events" where
  "ev_add_static e s = ev_add e (s\<lparr>ev_static_events := insort_right e (ev_static_events s)\<rparr>)"

definition ev_len :: "events \<Rightarrow> nat" where
  "ev_len s = length (ev_events s)"

definition ev_clear :: "events \<Rightarrow> events" where
  "ev_clear s = s\<lparr>ev_counters := (\<lambda>k. map_option (\<lambda>v. if k \<in> set (ev_events s) then v + 1 else 0) (ev_counters s k)),
                  ev_events := ev_static_events s\<rparr>"

text \<open>
  \<open>contains\<close> looks its argument up among the keys of each event's dictionary. The keys are
  event types; a call that passes an event number instead (\<open>mads.py\<close> has one) compares an int
  with strings and finds nothing.
\<close>

datatype dict_key = ET_key et | Int_key event_id

fun key_in :: "dict_key \<Rightarrow> event_dict \<Rightarrow> bool" where
  "key_in (ET_key t) d = (t \<in> set (map fst d))"
| "key_in (Int_key i) d = False"

definition ev_contains_key :: "event_map \<Rightarrow> dict_key \<Rightarrow> events \<Rightarrow> bool" where
  "ev_contains_key mp k s =
     list_ex (\<lambda>e. key_in k (case mp e of None \<Rightarrow> [] | Some d \<Rightarrow> d)) (ev_events s)"

definition ev_contains :: "event_map \<Rightarrow> et \<Rightarrow> events \<Rightarrow> bool" where
  "ev_contains mp t s = ev_contains_key mp (ET_key t) s"

definition ev_has :: "event_id \<Rightarrow> events \<Rightarrow> bool" where
  "ev_has e s = (e \<in> set (ev_events s))"

definition ev_contains_in_list :: "event_id list \<Rightarrow> events \<Rightarrow> bool" where
  "ev_contains_in_list l s = list_ex (\<lambda>e. e \<in> set (ev_events s)) l"

fun ev_add_from_msg :: "event_id list \<Rightarrow> events \<Rightarrow> events" where
  "ev_add_from_msg [] s = s"
| "ev_add_from_msg (e # es) s = ev_add_from_msg es (s\<lparr>ev_events := insort_right e (ev_events s)\<rparr>)"

text \<open>\<open>to_msg\<close>: the events with the flags that are set on each.\<close>

definition ev_to_msg :: "event_map \<Rightarrow> events \<Rightarrow> (event_id \<times> et list) list" where
  "ev_to_msg mp s =
     map (\<lambda>e. (e, map fst (case mp e of None \<Rightarrow> [] | Some d \<Rightarrow> d))) (ev_events s)"

definition ev_remove_gen :: "bool \<Rightarrow> event_id \<Rightarrow> events \<Rightarrow> events result" where
  "ev_remove_gen static e s0 =
     (let s = (if static \<and> e \<in> set (ev_static_events s0)
               then s0\<lparr>ev_static_events := remove1 e (ev_static_events s0)\<rparr> else s0) in
      if e \<in> set (ev_events s) then
        case ev_counters s e of
          None \<Rightarrow> Inl (KeyError e)
        | Some c \<Rightarrow> Inr (s\<lparr>ev_counters := (ev_counters s)(e \<mapsto> c + 1), ev_events := remove1 e (ev_events s)\<rparr>)
      else Inr s)"

text \<open>\<open>remove(event)\<close> with the default \<open>static=False\<close>, the only form the components call.\<close>

definition ev_remove :: "event_id \<Rightarrow> events \<Rightarrow> events result" where
  "ev_remove e s = ev_remove_gen False e s"

text \<open>
  \<open>create_alerts\<close>: for each event in order, for each requested type in order, the alert of
  the table once the event has lasted as long as the alert's creation delay.
\<close>

definition alert_of_type :: "(event_id \<Rightarrow> string result) \<Rightarrow> callback_args \<Rightarrow> events \<Rightarrow> event_id
    \<Rightarrow> et \<Rightarrow> alert_src \<Rightarrow> alert list result" where
  "alert_of_type names args s e t src =
     (let a = make_alert src args in
      case ev_counters s e of
        None \<Rightarrow> Inl (KeyError e)
      | Some c \<Rightarrow>
          if DT_CTRL * (of_int c + 1) \<ge> creation_delay a then
            bind_result (names e) (\<lambda>n.
              Inr [a\<lparr>alert_type := n @ ''/'' @ et_name t, event_type := Some t\<rparr>])
          else Inr [])"

fun alerts_of_event :: "(event_id \<Rightarrow> string result) \<Rightarrow> callback_args \<Rightarrow> events \<Rightarrow> event_id
    \<Rightarrow> event_dict \<Rightarrow> et list \<Rightarrow> alert list result" where
  "alerts_of_event names args s e d [] = Inr []"
| "alerts_of_event names args s e d (t # ts) =
     bind_result (case map_of d t of None \<Rightarrow> Inr [] | Some src \<Rightarrow> alert_of_type names args s e t src)
       (\<lambda>as. bind_result (alerts_of_event names args s e d ts) (\<lambda>bs. Inr (as @ bs)))"

fun alerts_of_events :: "event_map \<Rightarrow> (event_id \<Rightarrow> string result) \<Rightarrow> callback_args \<Rightarrow> events
    \<Rightarrow> et list \<Rightarrow> event_id list \<Rightarrow> alert list result" where
  "alerts_of_events mp names args s ts [] = Inr []"
| "alerts_of_events mp names args s ts (e # es) =
     (case mp e of
        None \<Rightarrow> Inl (KeyError e)
      | Some d \<Rightarrow> bind_result (alerts_of_event names args s e d ts) (\<lambda>as.
                    bind_result (alerts_of_events mp names args s ts es) (\<lambda>bs. Inr (as @ bs))))"

definition create_alerts :: "event_map \<Rightarrow> (event_id \<Rightarrow> string result) \<Rightarrow> et list \<Rightarrow> callback_args
    \<Rightarrow> events \<Rightarrow> alert list result" where
  "create_alerts mp names ts args s = alerts_of_events mp names args s ts (ev_events s)"

section \<open>Facts about event lists\<close>

definition types_of :: "event_map \<Rightarrow> event_id \<Rightarrow> et list" where
  "types_of mp e = (case mp e of None \<Rightarrow> [] | Some d \<Rightarrow> map fst d)"

lemma ev_contains_iff: "ev_contains mp t s \<longleftrightarrow> (\<exists>e\<in>set (ev_events s). t \<in> set (types_of mp e))"
  by (auto simp: ev_contains_def ev_contains_key_def list_ex_iff types_of_def split: option.splits)

text \<open>Asking for an event number never succeeds.\<close>

lemma ev_contains_Int_key [simp]: "ev_contains_key mp (Int_key i) s = False"
  by (simp add: ev_contains_key_def list_ex_iff)

lemma ev_add_simps [simp]:
  "ev_static_events (ev_add e s) = ev_static_events s"
  "ev_counters (ev_add e s) = ev_counters s"
  "ev_has e' (ev_add e s) \<longleftrightarrow> e' = e \<or> ev_has e' s"
  "set (ev_events (ev_add e s)) = insert e (set (ev_events s))"
  by (auto simp: ev_add_def ev_has_def)

lemma ev_contains_add:
  "ev_contains mp t (ev_add e s) \<longleftrightarrow> t \<in> set (types_of mp e) \<or> ev_contains mp t s"
  by (auto simp: ev_contains_iff)

lemma ev_has_iff: "ev_has e s \<longleftrightarrow> e \<in> set (ev_events s)"
  by (simp add: ev_has_def)

lemma set_add_from_msg [simp]: "set (ev_events (ev_add_from_msg es s)) = set es \<union> set (ev_events s)"
  by (induction es s rule: ev_add_from_msg.induct) auto

lemma add_from_msg_frame [simp]:
  "ev_counters (ev_add_from_msg es s) = ev_counters s"
  "ev_static_events (ev_add_from_msg es s) = ev_static_events s"
  by (induction es s rule: ev_add_from_msg.induct) auto

lemma ev_clear_simps [simp]:
  "ev_events (ev_clear s) = ev_static_events s"
  "ev_static_events (ev_clear s) = ev_static_events s"
  "ev_counters (ev_clear s) e = map_option (\<lambda>v. if e \<in> set (ev_events s) then v + 1 else 0) (ev_counters s e)"
  by (simp_all add: ev_clear_def)

text \<open>Removing an event twice from a list in which it occurs once leaves nothing to find.\<close>

lemma ev_remove_cases:
  assumes "ev_remove e s = Inr s'"
  shows "ev_events s' = remove1 e (ev_events s) \<and> ev_static_events s' = ev_static_events s
    \<and> (\<forall>k. k \<noteq> e \<longrightarrow> ev_counters s' k = ev_counters s k)"
  using assms
  by (auto simp: ev_remove_def ev_remove_gen_def Let_def remove1_idem split: if_splits option.splits)

lemma ev_remove_absent [simp]: "e \<notin> set (ev_events s) \<Longrightarrow> ev_remove e s = Inr s"
  by (simp add: ev_remove_def ev_remove_gen_def Let_def)

section \<open>Well-formed event lists\<close>

text \<open>
  Event lists are sorted (the bisection relies on it) and there is a non-negative counter for
  exactly the events of the table.
\<close>

definition ev_wf :: "event_map \<Rightarrow> events \<Rightarrow> bool" where
  "ev_wf mp s \<longleftrightarrow> sorted (ev_events s) \<and> sorted (ev_static_events s)
     \<and> (\<forall>e. ev_counters s e = None \<longleftrightarrow> mp e = None) \<and> (\<forall>e c. ev_counters s e = Some c \<longrightarrow> 0 \<le> c)"

lemma ev_wf_init [intro]: "ev_wf mp (events_init mp)"
  by (auto simp: ev_wf_def events_init_def split: if_splits)

lemma ev_wf_add [intro]: "ev_wf mp s \<Longrightarrow> ev_wf mp (ev_add e s)"
  by (auto simp: ev_wf_def ev_add_def)

lemma ev_wf_add_static [intro]: "ev_wf mp s \<Longrightarrow> ev_wf mp (ev_add_static e s)"
  by (auto simp: ev_wf_def ev_add_static_def ev_add_def)

lemma ev_wf_clear [intro]: "ev_wf mp s \<Longrightarrow> ev_wf mp (ev_clear s)"
  by (fastforce simp: ev_wf_def split: if_splits)

lemma ev_wf_add_from_msg [intro]: "ev_wf mp s \<Longrightarrow> ev_wf mp (ev_add_from_msg es s)"
proof (induction es s rule: ev_add_from_msg.induct)
  case (2 e es s)
  then have "ev_wf mp (ev_add e s)" by blast
  with 2 show ?case by (simp add: ev_add_def)
qed simp

lemma ev_remove_total:
  assumes "ev_wf mp s" "mp e \<noteq> None" shows "\<exists>s'. ev_remove e s = Inr s'"
proof -
  from assms(1) have "ev_counters s e = None \<longleftrightarrow> mp e = None" by (simp add: ev_wf_def)
  with assms(2) have "ev_counters s e \<noteq> None" by simp
  then show ?thesis by (auto simp: ev_remove_def ev_remove_gen_def Let_def)
qed

lemma ev_wf_remove [intro]:
  assumes wf: "ev_wf mp s" and r: "ev_remove e s = Inr s'" shows "ev_wf mp s'"
proof (cases "e \<in> set (ev_events s)")
  case False
  with assms show ?thesis by simp
next
  case True
  with r obtain c where c: "ev_counters s e = Some c"
    and s': "s' = s\<lparr>ev_counters := (ev_counters s)(e \<mapsto> c + 1), ev_events := remove1 e (ev_events s)\<rparr>"
    by (auto simp: ev_remove_def ev_remove_gen_def Let_def split: option.splits)
  have "mp e \<noteq> None" "0 \<le> c" using wf c unfolding ev_wf_def by (metis option.distinct(1))+
  with wf show ?thesis by (auto simp: ev_wf_def s' sorted_remove1)
qed

section \<open>Cycles and creation delays\<close>

text \<open>One control cycle of an event list: \<open>clear\<close>, then the events of the cycle.\<close>

definition ev_cycle :: "event_id list \<Rightarrow> events \<Rightarrow> events" where
  "ev_cycle es s = foldl (\<lambda>s e. ev_add e s) (ev_clear s) es"

definition ev_cycles :: "event_id list list \<Rightarrow> events \<Rightarrow> events" where
  "ev_cycles ess s = foldl (\<lambda>s es. ev_cycle es s) s ess"

lemma foldl_ev_add:
  "ev_counters (foldl (\<lambda>s e. ev_add e s) s es) = ev_counters s"
  "set (ev_events (foldl (\<lambda>s e. ev_add e s) s es)) = set es \<union> set (ev_events s)"
  by (induction es arbitrary: s) auto

lemma ev_cycle_spec:
  "ev_counters (ev_cycle es s) e = map_option (\<lambda>v. if e \<in> set (ev_events s) then v + 1 else 0) (ev_counters s e)"
  "set (ev_events (ev_cycle es s)) = set es \<union> set (ev_static_events s)"
  by (simp_all add: ev_cycle_def foldl_ev_add)

text \<open>The counter of an event that is present in every one of \<open>n\<close> cycles in a row.\<close>

lemma ev_cycles_present:
  assumes "\<forall>es\<in>set ess. e \<in> set es" "e \<in> set (ev_events s)" "ev_counters s e = Some c"
  shows "ev_counters (ev_cycles ess s) e = Some (c + int (length ess))
    \<and> e \<in> set (ev_events (ev_cycles ess s))"
  using assms
proof (induction ess arbitrary: s c)
  case Nil
  then show ?case by (simp add: ev_cycles_def)
next
  case (Cons es ess)
  have "ev_counters (ev_cycle es s) e = Some (c + 1)" "e \<in> set (ev_events (ev_cycle es s))"
    using Cons.prems by (auto simp: ev_cycle_spec)
  with Cons.IH [of "ev_cycle es s" "c + 1"] Cons.prems show ?case
    by (simp add: ev_cycles_def)
qed

text \<open>
  Event \<open>e\<close> raises alert \<open>a\<close> for type \<open>t\<close>: the table has an entry, and the event has lasted
  for the entry's creation delay.
\<close>

definition alert_raised :: "event_map \<Rightarrow> (event_id \<Rightarrow> string result) \<Rightarrow> callback_args \<Rightarrow> events
    \<Rightarrow> event_id \<Rightarrow> et \<Rightarrow> alert \<Rightarrow> bool" where
  "alert_raised mp names args s e t a \<longleftrightarrow> (\<exists>d src c n. mp e = Some d \<and> map_of d t = Some src
     \<and> ev_counters s e = Some c \<and> names e = Inr n
     \<and> creation_delay (make_alert src args) \<le> DT_CTRL * (of_int c + 1)
     \<and> a = (make_alert src args)\<lparr>alert_type := n @ ''/'' @ et_name t, event_type := Some t\<rparr>)"

section \<open>The interface of an event table\<close>

text \<open>
  What \<open>create_alerts\<close> relies on: every event of the table has a name, and a dictionary has
  each event type once.
\<close>

locale event_source =
  fixes mp :: event_map and names :: "event_id \<Rightarrow> string result"
  assumes named: "mp e = Some d \<Longrightarrow> \<exists>n. names e = Inr n"
    and distinct_types: "mp e = Some d \<Longrightarrow> distinct (map fst d)"
begin

lemma alerts_of_event_spec:
  assumes "mp e = Some d" "ev_counters s e = Some c"
  shows "\<exists>as. alerts_of_event names args s e d ts = Inr as
    \<and> (\<forall>a. a \<in> set as \<longleftrightarrow> (\<exists>t\<in>set ts. alert_raised mp names args s e t a))"
proof (induction ts)
  case Nil
  show ?case by simp
next
  case (Cons t ts)
  obtain n where n: "names e = Inr n" using named [OF assms(1)] by blast
  have "\<exists>as. (case map_of d t of None \<Rightarrow> Inr [] | Some src \<Rightarrow> alert_of_type names args s e t src) = Inr as
      \<and> (\<forall>a. a \<in> set as \<longleftrightarrow> alert_raised mp names args s e t a)"
    using assms n by (auto simp: alert_raised_def alert_of_type_def Let_def split: option.splits)
  with Cons show ?case by auto
qed

lemma alerts_of_events_spec:
  assumes "\<forall>e\<in>set es. mp e \<noteq> None \<and> ev_counters s e \<noteq> None"
  shows "\<exists>as. alerts_of_events mp names args s ts es = Inr as
    \<and> (\<forall>a. a \<in> set as \<longleftrightarrow> (\<exists>e\<in>set es. \<exists>t\<in>set ts. alert_raised mp names args s e t a))"
  using assms
proof (induction es)
  case Nil
  show ?case by simp
next
  case (Cons e es)
  then obtain d c where dc: "mp e = Some d" "ev_counters s e = Some c" by auto
  from Cons alerts_of_event_spec [OF dc, of args ts] show ?case
    by (fastforce simp: dc)
qed

text \<open>On a well-formed list of known events \<open>create_alerts\<close> returns exactly the raised alerts.\<close>

lemma create_alerts_spec:
  assumes "ev_wf mp s" "\<forall>e\<in>set (ev_events s). mp e \<noteq> None"
  shows "\<exists>as. create_alerts mp names ts args s = Inr as
    \<and> (\<forall>a. a \<in> set as \<longleftrightarrow> (\<exists>e\<in>set (ev_events s). \<exists>t\<in>set ts. alert_raised mp names args s e t a))"
  unfolding create_alerts_def using assms
  by (intro alerts_of_events_spec) (auto simp: ev_wf_def)

text \<open>An event outside the table makes \<open>create_alerts\<close> raise \<open>KeyError\<close>.\<close>

lemma create_alerts_unknown:
  assumes "ev_wf mp s" "e \<in> set (ev_events s)" "mp e = None"
  shows "\<exists>k. create_alerts mp names ts args s = Inl (KeyError k) \<and> k \<in> set (ev_events s) \<and> mp k = None"
proof -
  have "\<exists>k. alerts_of_events mp names args s ts es = Inl (KeyError k) \<and> k \<in> set es \<and> mp k = None"
    if "e \<in> set es" for es
    using that
  proof (induction es)
    case (Cons x es)
    show ?case
    proof (cases "mp x")
      case (Some d)
      moreover obtain c where "ev_counters s x = Some c" using assms(1) Some by (cases "ev_counters s x") (auto simp: ev_wf_def)
      ultimately have "\<exists>as. alerts_of_event names args s x d ts = Inr as" using alerts_of_event_spec by blast
      moreover have "e \<in> set es" using Cons.prems Some assms(3) by auto
      ultimately show ?thesis using Cons.IH Some by auto
    qed simp
  qed simp
  with assms show ?thesis by (auto simp: create_alerts_def)
qed

end

end
