(* ===== verification/Alert_Manager.thy ===== *)
theory Alert_Manager
  imports Events_Base
begin

text \<open>
  \<open>selfdrive/selfdrived/alertmanager.py\<close>: the class \<open>AlertManager\<close>, which keeps every
  alert for its duration and selects the one that is shown. The \<open>defaultdict\<close> of entries is
  a list of pairs in insertion order, the order \<open>process_alerts\<close> visits. The offroad alerts
  are entries of the parameter store, a map from keys to the stored text.
\<close>

section \<open>Offroad alerts\<close>

record offroad_alert =
  oa_text :: string
  oa_severity :: int
  oa_extra :: string

text \<open>\<open>OFFROAD_ALERTS\<close>, the contents of a JSON file, is an argument.\<close>

definition set_offroad_alert :: "(string \<rightharpoonup> offroad_alert) \<Rightarrow> string \<Rightarrow> bool \<Rightarrow> string option
    \<Rightarrow> (string \<rightharpoonup> offroad_alert) \<Rightarrow> (string \<rightharpoonup> offroad_alert) result" where
  "set_offroad_alert offroad a show_alert extra_text params =
     (if show_alert then
        case offroad a of
          None \<Rightarrow> Inl (KeyError 0)
        | Some v \<Rightarrow> Inr (params(a \<mapsto> v\<lparr>oa_extra := (case extra_text of None \<Rightarrow> '''' | Some t \<Rightarrow> t)\<rparr>))
      else Inr (params(a := None)))"

section \<open>Entries\<close>

record alert_entry =
  ae_alert :: "alert option"
  ae_start_frame :: int
  ae_end_frame :: int
  ae_added_frame :: int

definition AlertEntry :: alert_entry where
  "AlertEntry = \<lparr>ae_alert = None, ae_start_frame = -1, ae_end_frame = -1, ae_added_frame = -1\<rparr>"

definition ae_active :: "int \<Rightarrow> alert_entry \<Rightarrow> bool" where
  "ae_active frame v \<longleftrightarrow> frame \<le> ae_end_frame v"

definition ae_just_added :: "int \<Rightarrow> alert_entry \<Rightarrow> bool" where
  "ae_just_added frame v \<longleftrightarrow> ae_active frame v \<and> frame = ae_added_frame v + 1"

record alert_manager =
  am_alerts :: "(string \<times> alert_entry) list"
  am_current_alert :: alert

definition AlertManager_init :: alert_manager where
  "AlertManager_init = \<lparr>am_alerts = [], am_current_alert = EmptyAlert\<rparr>"

section \<open>Adding\<close>

definition entry_add :: "int \<Rightarrow> alert \<Rightarrow> alert_entry \<Rightarrow> alert_entry" where
  "entry_add frame a v =
     (let start = (if ae_just_added frame v then ae_start_frame v else frame)
      in \<lparr>ae_alert = Some a, ae_start_frame = start,
          ae_end_frame = max (frame + 1) (start + duration a), ae_added_frame = frame\<rparr>)"

text \<open>\<open>self.alerts[key]\<close>: a missing key is added at the end with the default entry.\<close>

fun update_entry :: "string \<Rightarrow> (alert_entry \<Rightarrow> alert_entry) \<Rightarrow> (string \<times> alert_entry) list
    \<Rightarrow> (string \<times> alert_entry) list" where
  "update_entry k f [] = [(k, f AlertEntry)]"
| "update_entry k f ((k', v) # ps) = (if k' = k then (k', f v) # ps else (k', v) # update_entry k f ps)"

fun add_many :: "int \<Rightarrow> alert list \<Rightarrow> alert_manager \<Rightarrow> alert_manager" where
  "add_many frame [] m = m"
| "add_many frame (a # as) m =
     add_many frame as (m\<lparr>am_alerts := update_entry (alert_type a) (entry_add frame a) (am_alerts m)\<rparr>)"

section \<open>Selecting\<close>

definition clear_entry :: "et list \<Rightarrow> alert_entry \<Rightarrow> alert_entry" where
  "clear_entry cl v = (case ae_alert v of None \<Rightarrow> v
     | Some a \<Rightarrow> (case event_type a of None \<Rightarrow> v
         | Some t \<Rightarrow> if t \<in> set cl then v\<lparr>ae_end_frame := -1\<rparr> else v))"

text \<open>\<open>(priority, start_frame)\<close> of \<open>v\<close> is greater than that of \<open>w\<close>, as tuples.\<close>

definition entry_greater :: "alert_entry \<Rightarrow> alert_entry \<Rightarrow> bool" where
  "entry_greater v w = (case (ae_alert v, ae_alert w) of
       (_, None) \<Rightarrow> True
     | (None, Some _) \<Rightarrow> False
     | (Some a, Some b) \<Rightarrow> priority a > priority b
         \<or> (priority a = priority b \<and> ae_start_frame v > ae_start_frame w))"

fun select_entry :: "int \<Rightarrow> alert_entry list \<Rightarrow> alert_entry \<Rightarrow> alert_entry" where
  "select_entry frame [] ae = ae"
| "select_entry frame (v # vs) ae =
     select_entry frame vs
       (if ae_alert v \<noteq> None \<and> ae_active frame v \<and> entry_greater v ae then v else ae)"

definition process_alerts :: "int \<Rightarrow> et list \<Rightarrow> alert_manager \<Rightarrow> alert_manager" where
  "process_alerts frame cl m =
     (let entries = map (\<lambda>(k, v). (k, clear_entry cl v)) (am_alerts m);
          ae = select_entry frame (map snd entries) AlertEntry
      in \<lparr>am_alerts = entries,
          am_current_alert = (case ae_alert ae of None \<Rightarrow> EmptyAlert | Some a \<Rightarrow> a)\<rparr>)"

section \<open>Lookups after updates\<close>

definition entry_of :: "alert_manager \<Rightarrow> string \<Rightarrow> alert_entry" where
  "entry_of m k = (case map_of (am_alerts m) k of None \<Rightarrow> AlertEntry | Some v \<Rightarrow> v)"

lemma map_of_update_entry:
  "map_of (update_entry k f ps) k' =
     (if k' = k then Some (f (case map_of ps k of None \<Rightarrow> AlertEntry | Some v \<Rightarrow> v)) else map_of ps k')"
  by (induction k f ps rule: update_entry.induct) auto

lemma fst_update_entry:
  "map fst (update_entry k f ps) = (if k \<in> fst ` set ps then map fst ps else map fst ps @ [k])"
  by (induction k f ps rule: update_entry.induct) auto

lemma entry_of_add_many_other:
  "k \<notin> alert_type ` set as \<Longrightarrow> entry_of (add_many frame as m) k = entry_of m k"
proof (induction as arbitrary: m)
  case (Cons a as)
  then have "entry_of (add_many frame (a # as) m) k
      = entry_of (m\<lparr>am_alerts := update_entry (alert_type a) (entry_add frame a) (am_alerts m)\<rparr>) k"
    by simp
  also have "\<dots> = entry_of m k" using Cons.prems by (simp add: entry_of_def map_of_update_entry)
  finally show ?case .
qed simp

lemma entry_of_add_many_step:
  "entry_of (add_many frame (a # as) m) k
     = entry_of (add_many frame as (m\<lparr>am_alerts := update_entry (alert_type a) (entry_add frame a) (am_alerts m)\<rparr>)) k"
  by simp

lemma entry_of_add_many:
  assumes "distinct (map alert_type as)" "a \<in> set as"
  shows "entry_of (add_many frame as m) (alert_type a) = entry_add frame a (entry_of m (alert_type a))"
  using assms
proof (induction as arbitrary: m)
  case (Cons b as)
  let ?m = "m\<lparr>am_alerts := update_entry (alert_type b) (entry_add frame b) (am_alerts m)\<rparr>"
  show ?case
  proof (cases "b = a")
    case True
    with Cons.prems have "alert_type a \<notin> alert_type ` set as" by simp
    then have "entry_of (add_many frame (b # as) m) (alert_type a) = entry_of ?m (alert_type a)"
      by (simp add: entry_of_add_many_other)
    then show ?thesis by (simp add: True entry_of_def map_of_update_entry)
  next
    case False
    with Cons.prems have a: "a \<in> set as" by simp
    then have "alert_type a \<in> alert_type ` set as" by simp
    with Cons.prems have "alert_type a \<noteq> alert_type b" by auto
    with a Cons.IH [of ?m] Cons.prems show ?thesis by (simp add: entry_of_def map_of_update_entry)
  qed
qed simp

definition am_wf :: "alert_manager \<Rightarrow> bool" where
  "am_wf m \<longleftrightarrow> distinct (map fst (am_alerts m))"

lemma am_wf_init [simp]: "am_wf AlertManager_init"
  by (simp add: am_wf_def AlertManager_init_def)

lemma am_wf_add_many [simp]: "am_wf m \<Longrightarrow> am_wf (add_many frame as m)"
proof (induction frame as m rule: add_many.induct)
  case (2 frame a as m)
  then show ?case by (force simp: am_wf_def fst_update_entry)
qed simp

lemma am_wf_process [simp]: "am_wf m \<Longrightarrow> am_wf (process_alerts frame cl m)"
  by (simp add: am_wf_def process_alerts_def Let_def comp_def split_def)

section \<open>The selected entry\<close>

definition candidate :: "int \<Rightarrow> alert_entry \<Rightarrow> bool" where
  "candidate frame v \<longleftrightarrow> ae_alert v \<noteq> None \<and> ae_active frame v"

lemma not_greater_iff:
  "ae_alert v = Some a \<Longrightarrow> ae_alert w = Some b \<Longrightarrow> \<not> entry_greater v w \<longleftrightarrow>
     priority_value (priority a) < priority_value (priority b)
     \<or> (priority_value (priority a) = priority_value (priority b) \<and> ae_start_frame v \<le> ae_start_frame w)"
  by (auto simp: entry_greater_def less_priority_def priority_value_inj)

lemma not_greater_trans:
  assumes "\<not> entry_greater u v" "\<not> entry_greater v w"
    "ae_alert u \<noteq> None" "ae_alert v \<noteq> None" "ae_alert w \<noteq> None"
  shows "\<not> entry_greater u w"
proof -
  from assms obtain a b c where "ae_alert u = Some a" "ae_alert v = Some b" "ae_alert w = Some c" by auto
  note iffs = not_greater_iff [OF this(1,2)] not_greater_iff [OF this(2,3)] not_greater_iff [OF this(1,3)]
  from assms(1,2) show ?thesis unfolding iffs by linarith
qed

lemma entry_greater_irrefl: "ae_alert v \<noteq> None \<Longrightarrow> \<not> entry_greater v v"
  by (auto simp: entry_greater_def)

lemma entry_greater_asym:
  "entry_greater v w \<Longrightarrow> ae_alert v \<noteq> None \<Longrightarrow> ae_alert w \<noteq> None \<Longrightarrow> \<not> entry_greater w v"
  by (auto simp: entry_greater_def)

lemma select_entry_ge:
  assumes "ae_alert ae \<noteq> None"
  shows "ae_alert (select_entry frame vs ae) \<noteq> None
    \<and> (select_entry frame vs ae = ae \<or> select_entry frame vs ae \<in> set vs \<and> candidate frame (select_entry frame vs ae))
    \<and> \<not> entry_greater ae (select_entry frame vs ae)
    \<and> (\<forall>v\<in>set vs. candidate frame v \<longrightarrow> \<not> entry_greater v (select_entry frame vs ae))"
  using assms
proof (induction vs arbitrary: ae)
  case Nil
  then show ?case by (simp add: entry_greater_irrefl)
next
  case (Cons v vs)
  show ?case
  proof (cases "candidate frame v \<and> entry_greater v ae")
    case True
    then have v: "ae_alert v \<noteq> None" and eq: "select_entry frame (v # vs) ae = select_entry frame vs v"
      by (auto simp: candidate_def)
    note IH = Cons.IH [OF v]
    have "\<not> entry_greater ae v" using True v Cons.prems entry_greater_asym by blast
    then have "\<not> entry_greater ae (select_entry frame vs v)"
      using IH v Cons.prems not_greater_trans by blast
    with IH True show ?thesis unfolding eq by auto
  next
    case False
    then have eq: "select_entry frame (v # vs) ae = select_entry frame vs ae"
      by (auto simp: candidate_def)
    note IH = Cons.IH [OF Cons.prems]
    have "candidate frame v \<longrightarrow> \<not> entry_greater v (select_entry frame vs ae)"
      using IH False Cons.prems not_greater_trans unfolding candidate_def by blast
    with IH show ?thesis unfolding eq by auto
  qed
qed

lemma select_entry_start:
  assumes "ae_alert ae = None" "\<exists>v\<in>set vs. candidate frame v"
  shows "select_entry frame vs ae \<in> set vs \<and> candidate frame (select_entry frame vs ae)
    \<and> (\<forall>v\<in>set vs. candidate frame v \<longrightarrow> \<not> entry_greater v (select_entry frame vs ae))"
  using assms
proof (induction vs arbitrary: ae)
  case (Cons v vs)
  show ?case
  proof (cases "candidate frame v")
    case True
    then have v: "ae_alert v \<noteq> None" by (simp add: candidate_def)
    have eq: "select_entry frame (v # vs) ae = select_entry frame vs v"
      using True Cons.prems(1) by (simp add: candidate_def entry_greater_def split: option.splits)
    from select_entry_ge [OF v, of frame vs] True show ?thesis unfolding eq by auto
  next
    case False
    then have eq: "select_entry frame (v # vs) ae = select_entry frame vs ae"
      by (auto simp: candidate_def)
    from Cons.IH [OF Cons.prems(1)] Cons.prems False show ?thesis unfolding eq by auto
  qed
qed simp

lemma select_entry_none:
  "\<not> (\<exists>v\<in>set vs. candidate frame v) \<Longrightarrow> select_entry frame vs ae = ae"
  by (induction vs arbitrary: ae) (auto simp: candidate_def)

text \<open>The entries of a manager that compete for the display.\<close>

definition candidates :: "int \<Rightarrow> alert_manager \<Rightarrow> alert_entry set" where
  "candidates frame m = {v \<in> snd ` set (am_alerts m). candidate frame v}"

lemma process_alerts_current:
  "if candidates frame (process_alerts frame cl m) = {} then am_current_alert (process_alerts frame cl m) = EmptyAlert
   else \<exists>v\<in>candidates frame (process_alerts frame cl m).
     ae_alert v = Some (am_current_alert (process_alerts frame cl m))
     \<and> (\<forall>w\<in>candidates frame (process_alerts frame cl m). \<not> entry_greater w v)"
proof -
  define vs where "vs = map snd (map (\<lambda>(k, v). (k, clear_entry cl v)) (am_alerts m))"
  have c: "candidates frame (process_alerts frame cl m) = {v \<in> set vs. candidate frame v}"
    by (auto simp: candidates_def process_alerts_def Let_def vs_def image_image split_def)
  have cur: "am_current_alert (process_alerts frame cl m)
      = (case ae_alert (select_entry frame vs AlertEntry) of None \<Rightarrow> EmptyAlert | Some a \<Rightarrow> a)"
    by (simp add: process_alerts_def Let_def vs_def)
  have none: "ae_alert AlertEntry = None" by (simp add: AlertEntry_def)
  show ?thesis
  proof (cases "\<exists>v\<in>set vs. candidate frame v")
    case True
    with select_entry_start [OF none True] show ?thesis
      unfolding c cur by (auto simp: candidate_def)
  next
    case False
    with select_entry_none [OF False] none show ?thesis unfolding c cur by auto
  qed
qed

lemma clear_entry_simps [simp]:
  "ae_alert (clear_entry cl v) = ae_alert v"
  "ae_start_frame (clear_entry cl v) = ae_start_frame v"
  by (auto simp: clear_entry_def split: option.splits)

text \<open>Nothing of a cleared type competes.\<close>

lemma process_alerts_cleared:
  assumes "0 \<le> frame" "v \<in> candidates frame (process_alerts frame cl m)" "ae_alert v = Some a" "event_type a = Some t"
  shows "t \<notin> set cl"
  using assms
  by (auto simp: candidates_def process_alerts_def Let_def candidate_def ae_active_def clear_entry_def
      split: option.splits if_splits)

lemma entry_of_process:
  "entry_of (process_alerts frame cl m) k = (if map_of (am_alerts m) k = None then AlertEntry else clear_entry cl (entry_of m k))"
proof -
  have "map_of (map (\<lambda>(k, v). (k, clear_entry cl v)) ps) k = map_option (clear_entry cl) (map_of ps k)" for ps
    by (induction ps) auto
  then show ?thesis by (simp add: entry_of_def process_alerts_def Let_def split: option.splits)
qed

lemma entry_of_Some:
  assumes "entry_of m k = v" "ae_alert v = Some a" shows "map_of (am_alerts m) k = Some v"
proof (cases "map_of (am_alerts m) k")
  case None
  with assms(1) have "v = AlertEntry" by (simp add: entry_of_def)
  with assms(2) show ?thesis by (simp add: AlertEntry_def)
next
  case (Some w)
  with assms show ?thesis by (simp add: entry_of_def)
qed

text \<open>
  An alert that has been added competes until its duration is over, at least for the frame
  after it was added, unless its type is cleared: what is shown has at least its priority.
\<close>

lemma added_alert_shown:
  assumes wf: "distinct (map alert_type as)" "a \<in> set as" and fr: "0 \<le> g" "g \<le> ae_end_frame (entry_add frame a (entry_of m (alert_type a)))"
    and cl: "\<forall>t. event_type a = Some t \<longrightarrow> t \<notin> set cl"
  shows "priority a \<le> priority (am_current_alert (process_alerts g cl (add_many frame as m)))"
proof -
  let ?m = "add_many frame as m" and ?m' = "process_alerts g cl (add_many frame as m)"
  let ?v = "entry_add frame a (entry_of m (alert_type a))"
  have e: "entry_of ?m (alert_type a) = ?v" by (rule entry_of_add_many [OF wf])
  have al: "ae_alert ?v = Some a" by (simp add: entry_add_def Let_def)
  with entry_of_Some [OF e] have some: "map_of (am_alerts ?m) (alert_type a) \<noteq> None" by simp
  have "clear_entry cl ?v = ?v" using cl al by (simp add: clear_entry_def split: option.splits)
  then have "entry_of ?m' (alert_type a) = ?v" by (simp only: entry_of_process e if_not_P [OF some])
  then have "map_of (am_alerts ?m') (alert_type a) = Some ?v" by (rule entry_of_Some [OF _ al])
  then have "?v \<in> snd ` set (am_alerts ?m')" by (force dest: map_of_SomeD)
  with al fr have "?v \<in> candidates g ?m'" by (simp add: candidates_def candidate_def ae_active_def)
  with process_alerts_current [of g cl ?m] obtain w
    where w: "ae_alert w = Some (am_current_alert ?m')" "\<not> entry_greater ?v w"
    by (auto split: if_splits)
  then show ?thesis by (auto simp: not_greater_iff [OF al w(1)] less_eq_priority_def)
qed

section \<open>Properties\<close>

text \<open>
  C17. What is shown: the empty alert when no entry is active after the cleared types have been
  ended, and otherwise the alert of an active entry that no active entry beats by priority and
  then by start frame.
\<close>

theorem shown_alert_is_top:
  "if candidates frame (process_alerts frame cl m) = {}
   then am_current_alert (process_alerts frame cl m) = EmptyAlert
   else \<exists>v\<in>candidates frame (process_alerts frame cl m).
     ae_alert v = Some (am_current_alert (process_alerts frame cl m))
     \<and> (\<forall>w\<in>candidates frame (process_alerts frame cl m). \<not> entry_greater w v)"
  by (rule process_alerts_current)

definition test_alert :: "priority \<Rightarrow> string \<Rightarrow> alert" where
  "test_alert p k = (Alert ''text'' '''' AS_normal SZ_small p VA_none AA_none 1 0)\<lparr>alert_type := k, event_type := Some WARNING\<rparr>"

definition test_manager :: alert_manager where
  "test_manager = add_many 5 [test_alert LOW ''a/warning'', test_alert HIGH ''b/warning''] AlertManager_init"

theorem shown_alert_is_top_witness:
  "if candidates 6 (process_alerts 6 [] test_manager) = {}
   then am_current_alert (process_alerts 6 [] test_manager) = EmptyAlert
   else \<exists>v\<in>candidates 6 (process_alerts 6 [] test_manager).
     ae_alert v = Some (am_current_alert (process_alerts 6 [] test_manager))
     \<and> (\<forall>w\<in>candidates 6 (process_alerts 6 [] test_manager). \<not> entry_greater w v)"
  by (rule shown_alert_is_top)

text \<open>
  An alert that was added is shown, or outranked by an alert of at least its priority, at
  every frame up to the end of its duration counted from the start of the entry, and at least at
  the next frame, unless its type is cleared.
\<close>

theorem added_alert_is_shown:
  assumes "distinct (map alert_type as)" "a \<in> set as" "0 \<le> g"
    "g \<le> ae_end_frame (entry_add frame a (entry_of m (alert_type a)))"
    "\<forall>t. event_type a = Some t \<longrightarrow> t \<notin> set cl"
  shows "priority a \<le> priority (am_current_alert (process_alerts g cl (add_many frame as m)))"
  using assms by (rule added_alert_shown)

theorem added_alert_is_shown_witness:
  "priority (test_alert HIGH ''b'') \<le> priority (am_current_alert
     (process_alerts 105 [NO_ENTRY] (add_many 5 [test_alert LOW ''a'', test_alert HIGH ''b''] AlertManager_init)))"
  by (rule added_alert_is_shown)
    (simp_all add: test_alert_def Alert_def entry_add_def Let_def entry_of_def AlertManager_init_def
      AlertEntry_def ae_just_added_def ae_active_def DT_CTRL_def)

end
