(* ===== verification/Selfdrive_State.thy ===== *)
theory Selfdrive_State
  imports Events_Base
begin

text \<open>
  \<open>selfdrive/selfdrived/state.py\<close>: the state machine of openpilot, and the interface
  \<open>engagement\<close> it shares with the state machine of MADS. \<open>update\<close> asks its event list only
  which event types it contains, so the step takes the predicate \<open>contains\<close>.
\<close>

section \<open>The state machine\<close>

record state_machine =
  current_alert_types :: "et list"
  sm_state :: openpilot_state
  soft_disable_timer :: int

definition SOFT_DISABLE_TIME :: real where
  "SOFT_DISABLE_TIME = 3"

fun is_active :: "openpilot_state \<Rightarrow> bool" where
  "is_active OP_enabled = True"
| "is_active OP_softDisabling = True"
| "is_active OP_overriding = True"
| "is_active _ = False"

fun is_enabled :: "openpilot_state \<Rightarrow> bool" where
  "is_enabled OP_preEnabled = True"
| "is_enabled st = is_active st"

definition StateMachine_init :: state_machine where
  "StateMachine_init = \<lparr>current_alert_types = [PERMANENT], sm_state = OP_disabled, soft_disable_timer = 0\<rparr>"

definition sm_goto :: "openpilot_state \<Rightarrow> et list \<Rightarrow> state_machine \<Rightarrow> state_machine" where
  "sm_goto st ts m = m\<lparr>sm_state := st, current_alert_types := current_alert_types m @ ts\<rparr>"

definition sm_soft_disable :: "state_machine \<Rightarrow> state_machine" where
  "sm_soft_disable m = sm_goto OP_softDisabling [SOFT_DISABLE]
     (m\<lparr>soft_disable_timer := py_int (SOFT_DISABLE_TIME / DT_CTRL)\<rparr>)"

text \<open>The transition, after the timer and the alert types have been reset for the cycle.\<close>

definition sm_transition :: "(et \<Rightarrow> bool) \<Rightarrow> state_machine \<Rightarrow> state_machine" where
  "sm_transition contains m =
     (let overriding = contains OVERRIDE_LATERAL \<or> contains OVERRIDE_LONGITUDINAL in
      if sm_state m \<noteq> OP_disabled then
        if contains USER_DISABLE then sm_goto OP_disabled [USER_DISABLE] m
        else if contains IMMEDIATE_DISABLE then sm_goto OP_disabled [IMMEDIATE_DISABLE] m
        else (case sm_state m of
            OP_enabled \<Rightarrow>
              if contains SOFT_DISABLE then sm_soft_disable m
              else if overriding then sm_goto OP_overriding [OVERRIDE_LATERAL, OVERRIDE_LONGITUDINAL] m
              else m
          | OP_softDisabling \<Rightarrow>
              if \<not> contains SOFT_DISABLE then sm_goto OP_enabled [] m
              else if soft_disable_timer m > 0 then sm_goto OP_softDisabling [SOFT_DISABLE] m
              else sm_goto OP_disabled [] m
          | OP_preEnabled \<Rightarrow>
              if \<not> contains PRE_ENABLE then sm_goto OP_enabled [] m
              else sm_goto OP_preEnabled [PRE_ENABLE] m
          | OP_overriding \<Rightarrow>
              if contains SOFT_DISABLE then sm_soft_disable m
              else if \<not> overriding then sm_goto OP_enabled [] m
              else sm_goto OP_overriding [OVERRIDE_LATERAL, OVERRIDE_LONGITUDINAL] m
          | OP_disabled \<Rightarrow> m)
      else if contains ENABLE then
        if contains NO_ENTRY then sm_goto OP_disabled [NO_ENTRY] m
        else sm_goto (if contains PRE_ENABLE then OP_preEnabled
                      else if overriding then OP_overriding else OP_enabled) [ENABLE] m
      else m)"

definition sm_update :: "(et \<Rightarrow> bool) \<Rightarrow> state_machine \<Rightarrow> state_machine \<times> bool \<times> bool" where
  "sm_update contains m0 =
     (let m1 = m0\<lparr>soft_disable_timer := max 0 (soft_disable_timer m0 - 1),
                  current_alert_types := [PERMANENT]\<rparr>;
          m = sm_transition contains m1;
          enabled = is_enabled (sm_state m);
          active = is_active (sm_state m)
      in (if active then m\<lparr>current_alert_types := current_alert_types m @ [WARNING]\<rparr> else m, enabled, active))"

definition sm_run :: "(et \<Rightarrow> bool) list \<Rightarrow> state_machine \<Rightarrow> state_machine" where
  "sm_run cs m = foldl (\<lambda>m c. fst (sm_update c m)) m cs"

section \<open>The interface of an engagement state machine\<close>

text \<open>
  What openpilot's state machine and that of MADS have in common. \<open>inp t i\<close> tells whether
  input \<open>i\<close> contains event type \<open>t\<close>; a machine is engaged when it controls actuators or will
  do so without a further request by the driver.
\<close>

locale engagement =
  fixes step :: "'i \<Rightarrow> 's \<Rightarrow> 's" and engaged :: "'s \<Rightarrow> bool" and active :: "'s \<Rightarrow> bool"
    and inp :: "et \<Rightarrow> 'i \<Rightarrow> bool"
  assumes active_engaged: "active s \<Longrightarrow> engaged s"
    and engage_needs_request: "\<not> engaged s \<Longrightarrow> engaged (step i s) \<Longrightarrow> inp ENABLE i \<and> \<not> inp NO_ENTRY i"
    and disable_disengages: "engaged s \<Longrightarrow> inp USER_DISABLE i \<or> inp IMMEDIATE_DISABLE i \<Longrightarrow> \<not> engaged (step i s)"
begin

definition run :: "'i list \<Rightarrow> 's \<Rightarrow> 's" where
  "run is s = foldl (\<lambda>s i. step i s) s is"

lemma run_simps [simp]: "run [] s = s" "run (i # is) s = run is (step i s)" "run (is @ js) s = run js (run is s)"
  by (simp_all add: run_def)

text \<open>
  A machine that is engaged after a run and was not before has been asked for by an input
  with \<open>ENABLE\<close> and without \<open>NO_ENTRY\<close>, and nothing after it asked to disable.
\<close>

lemma engaged_trace:
  assumes "\<not> engaged s" "engaged (run is s)"
  shows "\<exists>xs i ys. is = xs @ i # ys \<and> \<not> engaged (run xs s) \<and> inp ENABLE i \<and> \<not> inp NO_ENTRY i
    \<and> (\<forall>y\<in>set ys. \<not> inp USER_DISABLE y \<and> \<not> inp IMMEDIATE_DISABLE y)"
  using assms
proof (induction "is" rule: rev_induct)
  case (snoc j js)
  show ?case
  proof (cases "engaged (run js s)")
    case True
    with snoc obtain xs i ys where split: "js = xs @ i # ys" "\<not> engaged (run xs s)" "inp ENABLE i" "\<not> inp NO_ENTRY i"
      "\<forall>y\<in>set ys. \<not> inp USER_DISABLE y \<and> \<not> inp IMMEDIATE_DISABLE y" by auto
    have "\<not> inp USER_DISABLE j \<and> \<not> inp IMMEDIATE_DISABLE j"
      using True snoc.prems(2) disable_disengages by auto
    with split show ?thesis by (intro exI [of _ xs] exI [of _ i] exI [of _ "ys @ [j]"]) auto
  next
    case False
    with snoc.prems(2) engage_needs_request have "inp ENABLE j \<and> \<not> inp NO_ENTRY j" by simp
    with False show ?thesis by (intro exI [of _ js] exI [of _ j] exI [of _ "[]"]) simp
  qed
qed simp

lemma stays_disengaged:
  assumes "\<not> engaged s" "\<forall>i\<in>set is. inp ENABLE i \<longrightarrow> inp NO_ENTRY i"
  shows "\<not> active (run is s)"
proof
  assume "active (run is s)"
  with active_engaged have "engaged (run is s)" by blast
  from engaged_trace [OF assms(1) this] assms(2) show False by auto
qed

end

section \<open>Facts about the machine\<close>

lemmas sm_step_defs = sm_update_def sm_transition_def sm_goto_def sm_soft_disable_def Let_def

lemma soft_disable_frames [simp]: "py_int (SOFT_DISABLE_TIME / DT_CTRL) = 300"
  by (simp add: SOFT_DISABLE_TIME_def DT_CTRL_def)

lemma sm_update_flags:
  "fst (snd (sm_update c m)) = is_enabled (sm_state (fst (sm_update c m)))"
  "snd (snd (sm_update c m)) = is_active (sm_state (fst (sm_update c m)))"
  by (simp_all add: sm_update_def Let_def)

interpretation op: engagement "\<lambda>c m. fst (sm_update c m)" "\<lambda>m. sm_state m \<noteq> OP_disabled"
  "\<lambda>m. is_active (sm_state m)" "\<lambda>t c. c t"
proof unfold_locales
  fix s :: state_machine and i :: "et \<Rightarrow> bool"
  show "is_active (sm_state s) \<Longrightarrow> sm_state s \<noteq> OP_disabled" by auto
  show "\<not> sm_state s \<noteq> OP_disabled \<Longrightarrow> sm_state (fst (sm_update i s)) \<noteq> OP_disabled \<Longrightarrow> i ENABLE \<and> \<not> i NO_ENTRY"
    by (auto simp: sm_step_defs split: if_splits)
  show "sm_state s \<noteq> OP_disabled \<Longrightarrow> i USER_DISABLE \<or> i IMMEDIATE_DISABLE \<Longrightarrow> \<not> sm_state (fst (sm_update i s)) \<noteq> OP_disabled"
    by (auto simp: sm_step_defs split: if_splits)
qed

lemma sm_run_eq: "sm_run cs m = op.run cs m"
  by (simp add: sm_run_def op.run_def)

lemma sm_run_simps [simp]:
  "sm_run [] m = m" "sm_run (c # cs) m = sm_run cs (fst (sm_update c m))"
  "sm_run (cs @ ds) m = sm_run ds (sm_run cs m)"
  by (simp_all add: sm_run_def)

definition state_machine_ok :: "state_machine \<Rightarrow> bool" where
  "state_machine_ok m \<longleftrightarrow> 0 \<le> soft_disable_timer m \<and> soft_disable_timer m \<le> 300 \<and> PERMANENT \<in> set (current_alert_types m)"

lemma state_machine_ok_update: "state_machine_ok m \<Longrightarrow> state_machine_ok (fst (sm_update c m))"
  by (auto simp: state_machine_ok_def sm_step_defs split: openpilot_state.splits if_splits)

text \<open>A soft disable counts down: \<open>t\<close> cycles from timer \<open>t\<close>, then the machine is disabled.\<close>

definition soft_disabling :: "(et \<Rightarrow> bool) \<Rightarrow> bool" where
  "soft_disabling c \<longleftrightarrow> c SOFT_DISABLE \<and> \<not> c USER_DISABLE \<and> \<not> c IMMEDIATE_DISABLE"

lemma soft_disabling_step:
  assumes "soft_disabling c" "sm_state m = OP_softDisabling"
  shows "sm_state (fst (sm_update c m)) = (if soft_disable_timer m > 1 then OP_softDisabling else OP_disabled)"
    "soft_disable_timer (fst (sm_update c m)) = max 0 (soft_disable_timer m - 1)"
  using assms by (auto simp: sm_step_defs soft_disabling_def split: if_splits)

lemma soft_disabling_run:
  assumes "\<forall>c\<in>set cs. soft_disabling c" "sm_state m = OP_softDisabling" "int (length cs) < soft_disable_timer m"
  shows "sm_state (sm_run cs m) = OP_softDisabling
    \<and> soft_disable_timer (sm_run cs m) = soft_disable_timer m - int (length cs)"
  using assms by (induction cs arbitrary: m) (auto simp: soft_disabling_step)

lemma soft_disabling_start:
  assumes "soft_disabling c" "sm_state m = OP_enabled \<or> sm_state m = OP_overriding"
  shows "sm_state (fst (sm_update c m)) = OP_softDisabling \<and> soft_disable_timer (fst (sm_update c m)) = 300"
  using assms by (auto simp: sm_step_defs soft_disabling_def)

section \<open>Properties\<close>

text \<open>
  C13. openpilot that is engaged after a run of its state machine and was not before was asked
  to by an event of type \<open>ENABLE\<close> in a cycle without a \<open>NO_ENTRY\<close> event, and no event of
  type \<open>USER_DISABLE\<close> or \<open>IMMEDIATE_DISABLE\<close> has come since.
\<close>

theorem engaged_by_request:
  assumes "sm_state m = OP_disabled" "sm_state (sm_run cs m) \<noteq> OP_disabled"
  shows "\<exists>xs c ys. cs = xs @ c # ys \<and> c ENABLE \<and> \<not> c NO_ENTRY
    \<and> (\<forall>y\<in>set ys. \<not> y USER_DISABLE \<and> \<not> y IMMEDIATE_DISABLE)"
  using op.engaged_trace [of m cs] assms unfolding sm_run_eq by auto

theorem engaged_by_request_witness:
  "\<exists>xs c ys. [\<lambda>t. t = ENABLE, \<lambda>t. t = SOFT_DISABLE] = xs @ c # ys \<and> c ENABLE \<and> \<not> c NO_ENTRY
    \<and> (\<forall>y\<in>set ys. \<not> y USER_DISABLE \<and> \<not> y IMMEDIATE_DISABLE)"
  by (rule engaged_by_request [of StateMachine_init]) (simp_all add: StateMachine_init_def sm_step_defs)

text \<open>
  C14. A soft disable gives the driver three seconds: with its condition present in every cycle
  the machine stays in the soft disabling state for 300 cycles and is disabled in the next.
\<close>

theorem soft_disable_timeout:
  assumes "sm_state m = OP_enabled \<or> sm_state m = OP_overriding" "soft_disabling c" "\<forall>d\<in>set cs. soft_disabling d"
    "length cs \<le> 300"
  shows "sm_state (sm_run (c # cs) m) = (if length cs < 300 then OP_softDisabling else OP_disabled)"
proof -
  let ?m = "fst (sm_update c m)"
  have m: "sm_state ?m = OP_softDisabling" "soft_disable_timer ?m = 300"
    using soft_disabling_start [OF assms(2,1)] by simp_all
  show ?thesis
  proof (cases "length cs < 300")
    case True
    with soft_disabling_run [OF assms(3) m(1)] m(2) show ?thesis by simp
  next
    case False
    with assms(4) obtain ds d where cs: "cs = ds @ [d]" "length ds = 299" by (cases cs rule: rev_cases) auto
    with soft_disabling_run [of ds ?m] m assms(3)
    have "sm_state (sm_run ds ?m) = OP_softDisabling" "soft_disable_timer (sm_run ds ?m) = 1" by auto
    with soft_disabling_step(1) [of d "sm_run ds ?m"] assms(3) cs False show ?thesis by simp
  qed
qed

theorem soft_disable_timeout_witness:
  "sm_state (sm_run ((\<lambda>t. t = SOFT_DISABLE) # replicate 300 (\<lambda>t. t = SOFT_DISABLE)) (StateMachine_init\<lparr>sm_state := OP_enabled\<rparr>))
     = (if length (replicate 300 (\<lambda>t. t = SOFT_DISABLE)) < 300 then OP_softDisabling else OP_disabled)"
  by (rule soft_disable_timeout) (auto simp: soft_disabling_def)

end
