(* ===== verification/Mads_State.thy ===== *)
theory Mads_State
  imports Selfdrive_State
begin

text \<open>
  \<open>sunnypilot/mads/state.py\<close>: the state machine of the Modular Assistive Driving System. It
  shares the alert types and the soft disable timer with openpilot's state machine, which it
  changes in place, so the step maps a pair of its own state and that machine. What it asks
  of the two event lists and of \<open>selfdrive\<close> is the record \<open>mads_inputs\<close>.
\<close>

section \<open>The state machine\<close>

record mads_inputs =
  mi_contains :: "et \<Rightarrow> bool"
  mi_contains_in_list :: bool
  mi_silent_disable :: bool
  mi_selfdrive_enabled :: bool

fun mads_is_active :: "mads_state \<Rightarrow> bool" where
  "mads_is_active MADS_enabled = True"
| "mads_is_active MADS_softDisabling = True"
| "mads_is_active MADS_overriding = True"
| "mads_is_active _ = False"

fun mads_is_enabled :: "mads_state \<Rightarrow> bool" where
  "mads_is_enabled MADS_paused = True"
| "mads_is_enabled st = mads_is_active st"

definition append_alert_type :: "et \<Rightarrow> state_machine \<Rightarrow> state_machine" where
  "append_alert_type t m = m\<lparr>current_alert_types := current_alert_types m @ [t]\<rparr>"

definition add_current_alert_types :: "mads_inputs \<Rightarrow> et \<Rightarrow> state_machine \<Rightarrow> state_machine" where
  "add_current_alert_types i t m = (if \<not> mi_selfdrive_enabled i then append_alert_type t m else m)"

definition mads_soft_disable :: "mads_inputs \<Rightarrow> state_machine \<Rightarrow> mads_state \<times> state_machine" where
  "mads_soft_disable i m = (MADS_softDisabling,
     if \<not> mi_selfdrive_enabled i
     then append_alert_type SOFT_DISABLE (m\<lparr>soft_disable_timer := py_int (SOFT_DISABLE_TIME / DT_CTRL)\<rparr>)
     else m)"

definition mads_transition :: "mads_inputs \<Rightarrow> mads_state \<times> state_machine \<Rightarrow> mads_state \<times> state_machine" where
  "mads_transition i sm =
     (let (st, m) = sm; c = mi_contains i in
      if st \<noteq> MADS_disabled then
        if c USER_DISABLE then
          (if mi_silent_disable i then MADS_paused else MADS_disabled, append_alert_type USER_DISABLE m)
        else if c IMMEDIATE_DISABLE then (MADS_disabled, add_current_alert_types i IMMEDIATE_DISABLE m)
        else (case st of
            MADS_enabled \<Rightarrow>
              if c SOFT_DISABLE then mads_soft_disable i m
              else if c OVERRIDE_LATERAL then (MADS_overriding, add_current_alert_types i OVERRIDE_LATERAL m)
              else (MADS_enabled, m)
          | MADS_softDisabling \<Rightarrow>
              if \<not> c SOFT_DISABLE then (MADS_enabled, m)
              else if soft_disable_timer m > 0 then (MADS_softDisabling, add_current_alert_types i SOFT_DISABLE m)
              else (MADS_disabled, m)
          | MADS_paused \<Rightarrow>
              if c ENABLE then
                if c NO_ENTRY then (MADS_paused, add_current_alert_types i NO_ENTRY m)
                else (if c OVERRIDE_LATERAL then MADS_overriding else MADS_enabled,
                      add_current_alert_types i ENABLE m)
              else (MADS_paused, m)
          | MADS_overriding \<Rightarrow>
              if c SOFT_DISABLE then mads_soft_disable i m
              else if \<not> c OVERRIDE_LATERAL then (MADS_enabled, m)
              else (MADS_overriding, append_alert_type OVERRIDE_LATERAL m)
          | MADS_disabled \<Rightarrow> (st, m))
      else if c ENABLE then
        if c NO_ENTRY then
          (if mi_contains_in_list i then MADS_paused else MADS_disabled, add_current_alert_types i NO_ENTRY m)
        else (if c OVERRIDE_LATERAL then MADS_overriding else MADS_enabled, add_current_alert_types i ENABLE m)
      else (MADS_disabled, m))"

definition mads_sm_update :: "mads_inputs \<Rightarrow> mads_state \<times> state_machine \<Rightarrow> (mads_state \<times> state_machine) \<times> bool \<times> bool" where
  "mads_sm_update i sm =
     (let (st, m) = mads_transition i sm; enabled = mads_is_enabled st; active = mads_is_active st
      in ((st, if active then add_current_alert_types i WARNING m else m), enabled, active))"

section \<open>Facts about the machine\<close>

lemmas mads_step_defs = mads_sm_update_def mads_transition_def mads_soft_disable_def Let_def

lemma append_alert_type_simps [simp]:
  "sm_state (append_alert_type t m) = sm_state m"
  "soft_disable_timer (append_alert_type t m) = soft_disable_timer m"
  "current_alert_types (append_alert_type t m) = current_alert_types m @ [t]"
  by (simp_all add: append_alert_type_def)

lemma add_current_alert_types_simps [simp]:
  "sm_state (add_current_alert_types i t m) = sm_state m"
  "soft_disable_timer (add_current_alert_types i t m) = soft_disable_timer m"
  "current_alert_types (add_current_alert_types i t m) =
     current_alert_types m @ (if mi_selfdrive_enabled i then [] else [t])"
  by (simp_all add: add_current_alert_types_def)

lemma mads_is_active_not_disabled: "mads_is_active st \<Longrightarrow> st \<noteq> MADS_disabled \<and> st \<noteq> MADS_paused"
  by auto

lemma mads_flags:
  "fst (snd (mads_sm_update i sm)) = mads_is_enabled (fst (fst (mads_sm_update i sm)))"
  "snd (snd (mads_sm_update i sm)) = mads_is_active (fst (fst (mads_sm_update i sm)))"
  by (simp_all add: mads_sm_update_def Let_def split_def)

text \<open>The state of openpilot's machine is read but never changed; its timer only restarts.\<close>

lemma mads_frame:
  "sm_state (snd (fst (mads_sm_update i (st, m)))) = sm_state m"
  "soft_disable_timer (snd (fst (mads_sm_update i (st, m)))) \<in> {soft_disable_timer m, 300}"
  "mi_selfdrive_enabled i \<Longrightarrow> soft_disable_timer (snd (fst (mads_sm_update i (st, m)))) = soft_disable_timer m"
  "\<exists>ts. current_alert_types (snd (fst (mads_sm_update i (st, m)))) = current_alert_types m @ ts"
  by (cases st; auto simp: mads_step_defs)+

interpretation mads: engagement "\<lambda>i s. fst (mads_sm_update i s)" "\<lambda>s. mads_is_active (fst s)"
  "\<lambda>s. mads_is_active (fst s)" "\<lambda>t i. mi_contains i t"
proof unfold_locales
  fix s :: "mads_state \<times> state_machine" and i :: mads_inputs
  obtain st m where s: "s = (st, m)" by (cases s)
  show "mads_is_active (fst s) \<Longrightarrow> mads_is_active (fst s)" .
  show "\<not> mads_is_active (fst s) \<Longrightarrow> mads_is_active (fst (fst (mads_sm_update i s))) \<Longrightarrow> mi_contains i ENABLE \<and> \<not> mi_contains i NO_ENTRY"
    unfolding s by (cases st) (auto simp: mads_step_defs split: if_splits)
  show "mads_is_active (fst s) \<Longrightarrow> mi_contains i USER_DISABLE \<or> mi_contains i IMMEDIATE_DISABLE
      \<Longrightarrow> \<not> mads_is_active (fst (fst (mads_sm_update i s)))"
    unfolding s by (cases st) (auto simp: mads_step_defs split: if_splits)
qed

lemma mads_user_disable:
  assumes "mi_contains i USER_DISABLE" "st \<noteq> MADS_disabled"
  shows "fst (fst (mads_sm_update i (st, m))) = (if mi_silent_disable i then MADS_paused else MADS_disabled)"
  using assms by (auto simp: mads_step_defs)

lemma mads_immediate_disable:
  assumes "mi_contains i IMMEDIATE_DISABLE" "\<not> mi_contains i USER_DISABLE" "st \<noteq> MADS_disabled"
  shows "fst (fst (mads_sm_update i (st, m))) = MADS_disabled"
  using assms by (auto simp: mads_step_defs)

lemma mads_no_enable:
  assumes "\<not> mi_contains i ENABLE" "\<not> mads_is_active st"
  shows "\<not> mads_is_active (fst (fst (mads_sm_update i (st, m))))"
  using assms by (cases st) (auto simp: mads_step_defs)

end
