(* ===== verification/Params.thy ===== *)
theory Params
  imports Prelude
begin

text \<open>
  The parameter store as the components use it (\<open>common/params_pyx.pyx\<close> over
  \<open>common/params.h\<close>): a map from keys to values. \<open>get_bool\<close> of a missing key is \<open>False\<close>;
  \<open>get(key, return_default=True)\<close> of a missing key is the key's default, which belongs to
  the table of keys and is the argument \<open>dflt\<close>. Also \<open>get_sanitize_int_param\<close> of
  \<open>sunnypilot/__init__.py\<close>.
\<close>

datatype param_value = PBool bool | PInt int | PFloat real | PString string

type_synonym params = "string \<rightharpoonup> param_value"

definition get_bool :: "params \<Rightarrow> string \<Rightarrow> bool" where
  "get_bool p k = (p k = Some (PBool True))"

definition get_int :: "(string \<Rightarrow> int) \<Rightarrow> params \<Rightarrow> string \<Rightarrow> int" where
  "get_int dflt p k = (case p k of Some (PInt v) \<Rightarrow> v | _ \<Rightarrow> dflt k)"

definition get_float :: "(string \<Rightarrow> real) \<Rightarrow> params \<Rightarrow> string \<Rightarrow> real" where
  "get_float dflt p k = (case p k of Some (PFloat v) \<Rightarrow> v | _ \<Rightarrow> dflt k)"

definition get_sanitize_int_param :: "(string \<Rightarrow> int) \<Rightarrow> string \<Rightarrow> int \<Rightarrow> int \<Rightarrow> params \<Rightarrow> int \<times> params" where
  "get_sanitize_int_param dflt key min_val max_val p =
     (let val = get_int dflt p key; clipped_val = max min_val (min max_val val)
      in (clipped_val, if clipped_val \<noteq> val then p(key \<mapsto> PInt clipped_val) else p))"

lemma get_bool_upd [simp]:
  "get_bool (p(k \<mapsto> PBool b)) k' = (if k' = k then b else get_bool p k')"
  "get_bool (p(k := None)) k' = (k' \<noteq> k \<and> get_bool p k')"
  by (auto simp: get_bool_def)

lemma get_int_upd [simp]:
  "get_int dflt (p(k \<mapsto> PInt v)) k' = (if k' = k then v else get_int dflt p k')"
  by (simp add: get_int_def)

text \<open>A sanitized parameter is in range, and reading it again gives the same value and no write.\<close>

lemma sanitize_bounds:
  assumes "lo \<le> hi" shows "lo \<le> fst (get_sanitize_int_param dflt k lo hi p)" "fst (get_sanitize_int_param dflt k lo hi p) \<le> hi"
  using assms by (auto simp: get_sanitize_int_param_def Let_def)

lemma sanitize_idem:
  assumes "lo \<le> hi"
  shows "get_sanitize_int_param dflt k lo hi (snd (get_sanitize_int_param dflt k lo hi p))
    = (fst (get_sanitize_int_param dflt k lo hi p), snd (get_sanitize_int_param dflt k lo hi p))"
  using assms by (auto simp: get_sanitize_int_param_def Let_def max_def min_def)

end
