(* ===== verification/Events_Table.thy ===== *)
theory Events_Table
  imports Events_Base
begin

text \<open>
  \<open>selfdrive/selfdrived/events.py\<close>: the alert callbacks and the table \<open>EVENTS\<close>. The table
  is split into lists that follow the file from top to bottom; \<open>EVENTS\<close> joins them, with the
  overrides of the \<open>mici\<close> device in front, which is what \<open>EVENTS.update\<close> does. The device
  type, the short branch name and the presence of \<open>REPLAY\<close> in the process environment are the
  record \<open>alert_env\<close>.
\<close>

record alert_env =
  env_mici :: bool
  env_short_branch :: string
  env_REPLAY :: bool

section \<open>Alert callbacks\<close>

definition get_display_speed :: "real \<Rightarrow> bool \<Rightarrow> string" where
  "get_display_speed speed_ms metric =
     show_int (py_round (speed_ms * (if metric then MS_TO_KPH else MS_TO_MPH))) @ '' ''
       @ (if metric then ''km/h'' else ''mph'')"

definition MIN_SPEED_FILTER :: real where "MIN_SPEED_FILTER = 15 * MPH_TO_MS"
definition FEEDBACK_MAX_DURATION :: real where "FEEDBACK_MAX_DURATION = 10"
definition SAMPLE_RATE :: real where "SAMPLE_RATE = 16000"
definition SAMPLE_BUFFER :: real where "SAMPLE_BUFFER = 800"

definition soft_disable_alert :: "string \<Rightarrow> callback" where
  "soft_disable_alert t2 CP CS sm metric soft_disable_time personality =
     (if soft_disable_time < py_int ((1/2) / DT_CTRL) then ImmediateDisableAlert t2
      else SoftDisableAlert t2)"

definition user_soft_disable_alert :: "string \<Rightarrow> callback" where
  "user_soft_disable_alert t2 CP CS sm metric soft_disable_time personality =
     (if soft_disable_time < py_int ((1/2) / DT_CTRL) then ImmediateDisableAlert t2
      else UserSoftDisableAlert t2)"

definition startup_master_alert :: "alert_env \<Rightarrow> callback" where
  "startup_master_alert env CP CS sm metric soft_disable_time personality =
     StartupAlert (env_mici env) ''WARNING: This branch is not tested''
       (if env_REPLAY env then ''replay'' else env_short_branch env) AS_userPrompt"

definition below_engage_speed_alert :: "bool \<Rightarrow> callback" where
  "below_engage_speed_alert mici CP CS sm metric soft_disable_time personality =
     NoEntryAlert mici (''Drive above '' @ get_display_speed (cp_minEnableSpeed CP) metric @ '' to engage'')
       default_no_entry VA_none"

definition below_steer_speed_alert :: callback where
  "below_steer_speed_alert CP CS sm metric soft_disable_time personality =
     Alert (''Steer Assist Unavailable Below '' @ get_display_speed (cp_minSteerSpeed CP) metric) ''''
       AS_userPrompt SZ_small LOW VA_none AA_prompt (4/10) 0"

definition calibration_incomplete_alert :: callback where
  "calibration_incomplete_alert CP CS sm metric soft_disable_time personality =
     (let first_word = (if lc_calStatus (sd_msg sm) = Cal_recalibrating then ''Recalibrating''
                        else ''Calibrating'')
      in Alert (first_word @ '': '' @ show_int (lc_calPerc (sd_msg sm)) @ ''%'')
           (''Drive Above '' @ get_display_speed MIN_SPEED_FILTER metric)
           AS_normal SZ_mid LOWEST VA_none AA_none (2/10) 0)"

definition audio_feedback_alert :: callback where
  "audio_feedback_alert CP CS sm metric soft_disable_time personality =
     (let dur = FEEDBACK_MAX_DURATION - ((of_int (af_blockNum (sd_msg sm)) + 1) * SAMPLE_BUFFER / SAMPLE_RATE)
      in NormalPermanentAlert ''Recording Audio Feedback''
           (show_int (py_round dur) @ '' second'' @ (if py_round dur \<noteq> 1 then ''s'' else '''')
             @ '' remaining. Press again to save early.'') (2/10) LOW 0)"

definition out_of_space_alert :: callback where
  "out_of_space_alert CP CS sm metric soft_disable_time personality =
     NormalPermanentAlert ''Out of Storage''
       (show_int (py_round (100 - ds_freeSpacePercent (sd_msg sm))) @ ''% full'') (2/10) LOWER 0"

text \<open>With no model output the predicted speed is NaN and so is the error that is printed.\<close>

definition posenet_invalid_alert :: "bool \<Rightarrow> callback" where
  "posenet_invalid_alert mici CP CS sm metric soft_disable_time personality =
     (let err = (case mv_velocity_x (sd_msg sm) of [] \<Rightarrow> ''nan'' | v # _ \<Rightarrow> show_fixed1 (cs_vEgo CS - v))
      in NoEntryAlert mici (''Speed Error: '' @ err @ '' m/s'') ''Posenet Speed Invalid'' VA_none)"

definition process_not_running_alert :: "bool \<Rightarrow> callback" where
  "process_not_running_alert mici CP CS sm metric soft_disable_time personality =
     (let not_running = map ps_name (filter (\<lambda>p. \<not> ps_running p \<and> ps_shouldBeRunning p) (mg_processes (sd_msg sm)))
      in NoEntryAlert mici (join_comma not_running) ''Process Not Running'' VA_none)"

definition comm_issue_alert :: "bool \<Rightarrow> callback" where
  "comm_issue_alert mici CP CS sm metric soft_disable_time personality =
     (let bs = filter (\<lambda>s. \<not> all_checks (sd_health sm) [s]) (sm_services (sd_health sm))
      in NoEntryAlert mici (join_comma (take 4 bs)) ''Communication Issue Between Processes'' VA_none)"

text \<open>\<open>all_cams\<close>, each with its name after \<open>replace('State', '')\<close>.\<close>

definition all_cams :: "(string \<times> string) list" where
  "all_cams = [(''roadCameraState'', ''roadCamera''), (''driverCameraState'', ''driverCamera''),
     (''wideRoadCameraState'', ''wideRoadCamera'')]"

definition camera_malfunction_alert :: callback where
  "camera_malfunction_alert CP CS sm metric soft_disable_time personality =
     (let bad_cams = map snd (filter (\<lambda>(s, _). s \<in> set (sm_services (sd_health sm))
                        \<and> \<not> all_checks (sd_health sm) [s]) all_cams)
      in NormalPermanentAlert ''Camera Malfunction'' (join_comma bad_cams) (2/10) LOWER 0)"

definition show_degrees1 :: "real \<Rightarrow> string" where
  "show_degrees1 x = show_fixed1 (x * 180 / pi)"

definition calibration_invalid_alert :: callback where
  "calibration_invalid_alert CP CS sm metric soft_disable_time personality =
     (let rpy = lc_rpyCalib (sd_msg sm);
          yaw = (if length rpy = 3 then show_degrees1 (rpy ! 2) else ''nan'');
          pitch = (if length rpy = 3 then show_degrees1 (rpy ! 1) else ''nan'')
      in NormalPermanentAlert ''Calibration Invalid''
           (''Remount Device (Pitch: '' @ pitch @ [CHR 0xB0] @ '', Yaw: '' @ yaw @ [CHR 0xB0] @ '')'')
           (2/10) LOWER 0)"

definition paramsd_invalid_alert :: "bool \<Rightarrow> callback" where
  "paramsd_invalid_alert mici CP CS sm metric soft_disable_time personality =
     (let m = sd_msg sm in
      if \<not> lp_angleOffsetValid m then
        NoEntryAlert mici (''Angle offset too high (Offset: '' @ show_fixed1 (lp_angleOffsetDeg m) @ [CHR 0xB0] @ '')'')
          ''Steering misalignment detected'' VA_none
      else if \<not> lp_steerRatioValid m then
        NoEntryAlert mici (''Steering rack geometry may be off (Ratio: '' @ show_fixed1 (lp_steerRatio m) @ '')'')
          ''Steer ratio mismatch'' VA_none
      else if \<not> lp_stiffnessFactorValid m then
        NoEntryAlert mici (''Check tires, pressure, or alignment (Factor: '' @ show_fixed1 (lp_stiffnessFactor m) @ '')'')
          ''Abnormal tire stiffness'' VA_none
      else NoEntryAlert mici ''paramsd Temporary Error'' default_no_entry VA_none)"

text \<open>\<open>max(xs, default=d)\<close>.\<close>

definition max_default :: "'a::linorder \<Rightarrow> 'a list \<Rightarrow> 'a" where
  "max_default d xs = (case xs of [] \<Rightarrow> d | y # ys \<Rightarrow> foldl max y ys)"

definition overheat_alert :: callback where
  "overheat_alert CP CS sm metric soft_disable_time personality =
     (let cpu = max_default 0 (ds_cpuTempC (sd_msg sm));
          gpu = max_default 0 (ds_gpuTempC (sd_msg sm));
          temp = max (max cpu gpu) (ds_memoryTempC (sd_msg sm))
      in NormalPermanentAlert ''System Overheated'' (show_fixed0 temp @ '' '' @ [CHR 0xB0] @ ''C'') (2/10) LOWER 0)"

definition low_memory_alert :: callback where
  "low_memory_alert CP CS sm metric soft_disable_time personality =
     NormalPermanentAlert ''Low Memory'' (show_int (ds_memoryUsagePercent (sd_msg sm)) @ ''% used'') (2/10) LOWER 0"

text \<open>The default of the maximum is the float \<open>0.\<close>, which prints with its decimal.\<close>

definition high_cpu_usage_alert :: callback where
  "high_cpu_usage_alert CP CS sm metric soft_disable_time personality =
     (let x = (case ds_cpuUsagePercent (sd_msg sm) of [] \<Rightarrow> ''0.0'' | y # ys \<Rightarrow> show_int (foldl max y ys))
      in NormalPermanentAlert ''High CPU Usage'' (x @ ''% used'') (2/10) LOWER 0)"

definition modeld_lagging_alert :: callback where
  "modeld_lagging_alert CP CS sm metric soft_disable_time personality =
     NormalPermanentAlert ''Driving Model Lagging'' (show_fixed1 (mv_frameDropPerc (sd_msg sm)) @ ''% frames dropped'')
       (2/10) LOWER 0"

definition joystick_alert :: callback where
  "joystick_alert CP CS sm metric soft_disable_time personality =
     (let gb = cc_accel (sd_carControl (sd_msg sm)) / 4;
          steer = cc_torque (sd_carControl (sd_msg sm))
      in NormalPermanentAlert ''Joystick Mode''
           (''Gas: '' @ show_int (py_round (gb * 100)) @ ''%, Steer: '' @ show_int (py_round (steer * 100)) @ ''%'')
           (2/10) LOWER 0)"

definition longitudinal_maneuver_alert :: callback where
  "longitudinal_maneuver_alert CP CS sm metric soft_disable_time personality =
     (let t1 = ad_alertText1 (sd_msg sm); t2 = ad_alertText2 (sd_msg sm); act = is_substring ''Active'' t1
      in Alert t1 t2 (if act then AS_userPrompt else AS_normal) (if t2 \<noteq> '''' then SZ_mid else SZ_small)
           LOW VA_none (if act then AA_prompt else AA_none) (2/10) 0)"

text \<open>\<open>str.title()\<close> on the personality's name, which is one lower-case word.\<close>

definition title_word :: "string \<Rightarrow> string" where
  "title_word w = (case w of [] \<Rightarrow> []
     | c # cs \<Rightarrow> (let n = (of_char c :: nat) in if 97 \<le> n \<and> n \<le> 122 then char_of (n - 32) else c) # cs)"

definition personality_changed_alert :: callback where
  "personality_changed_alert CP CS sm metric soft_disable_time personality =
     NormalPermanentAlert (''Driving Personality: '' @ title_word personality) '''' (3/2) LOWER 0"

definition invalid_lkas_setting_alert :: callback where
  "invalid_lkas_setting_alert CP CS sm metric soft_disable_time personality =
     NormalPermanentAlert ''Invalid LKAS setting''
       (if cp_brand CP = ''tesla'' then ''Switch to Traffic-Aware Cruise Control to engage''
        else if cp_brand CP = ''mazda'' then ''Enable your car's LKAS to engage''
        else if cp_brand CP = ''nissan'' then ''Disable your car's stock LKAS to engage''
        else ''Toggle stock LKAS on or off to engage'') (2/10) LOWER 0"

section \<open>The table\<close>

definition events_no_alerts :: "alert_env \<Rightarrow> (event_id \<times> event_dict) list" where
  "events_no_alerts env = [
    (ev_stockFcw, []),
    (ev_actuatorsApiUnavailable, [])]"

definition events_all_states :: "alert_env \<Rightarrow> (event_id \<times> event_dict) list" where
  "events_all_states env = [
    (ev_joystickDebug, [(WARNING, Callback joystick_alert),
      (PERMANENT, Fixed (NormalPermanentAlert ''Joystick Mode'' '''' (2/10) LOWER 0))]),
    (ev_longitudinalManeuver, [(WARNING, Callback longitudinal_maneuver_alert),
      (PERMANENT, Fixed (NormalPermanentAlert ''Longitudinal Maneuver Mode'' ''Ensure road ahead is clear'' (2/10) LOWER 0))]),
    (ev_selfdriveInitializing, [(NO_ENTRY, Fixed (NoEntryAlert (env_mici env) ''System Initializing'' default_no_entry VA_none))]),
    (ev_startup, [(PERMANENT, Fixed (StartupAlert (env_mici env) ''Be ready to take over at any time'' default_startup_text AS_normal))]),
    (ev_startupMaster, [(PERMANENT, Callback (startup_master_alert env))]),
    (ev_startupNoControl, [(PERMANENT, Fixed (StartupAlert (env_mici env) ''Dashcam mode'' default_startup_text AS_normal)),
      (NO_ENTRY, Fixed (NoEntryAlert (env_mici env) ''Dashcam mode'' default_no_entry VA_none))]),
    (ev_startupNoCar, [(PERMANENT, Fixed (StartupAlert (env_mici env) ''Dashcam mode for unsupported car'' default_startup_text AS_normal))]),
    (ev_startupNoSecOcKey, [(PERMANENT, Fixed (NormalPermanentAlert ''Dashcam Mode'' ''Security Key Not Available'' (2/10) HIGH 0))]),
    (ev_dashcamMode, [(PERMANENT, Fixed (NormalPermanentAlert ''Dashcam Mode'' '''' (2/10) LOWEST 0))]),
    (ev_invalidLkasSetting, [(PERMANENT, Callback invalid_lkas_setting_alert),
      (NO_ENTRY, Fixed (NoEntryAlert (env_mici env) ''Invalid LKAS setting'' default_no_entry VA_none))]),
    (ev_cruiseMismatch, []),
    (ev_carUnrecognized, [(PERMANENT, Fixed (NormalPermanentAlert ''Dashcam Mode'' ''Car Unrecognized'' (2/10) LOWEST 0))]),
    (ev_aeb, [(PERMANENT, Fixed (Alert ''BRAKE!'' ''Emergency Braking: Risk of Collision'' AS_critical SZ_full HIGHEST VA_fcw AA_none 2 0)),
      (NO_ENTRY, Fixed (NoEntryAlert (env_mici env) ''AEB: Risk of Collision'' default_no_entry VA_none))]),
    (ev_stockAeb, [(PERMANENT, Fixed (Alert ''BRAKE!'' ''Stock AEB: Risk of Collision'' AS_critical SZ_full HIGHEST VA_fcw AA_none 2 0)),
      (NO_ENTRY, Fixed (NoEntryAlert (env_mici env) ''Stock AEB: Risk of Collision'' default_no_entry VA_none))]),
    (ev_stockLkas, [(NO_ENTRY, Fixed (NoEntryAlert (env_mici env) ''Stock LKAS: Lane Departure Detected'' default_no_entry VA_none))]),
    (ev_fcw, [(PERMANENT, Fixed (Alert ''BRAKE!'' ''Risk of Collision'' AS_critical SZ_full HIGHEST VA_fcw AA_warningSoft 2 0))]),
    (ev_ldw, [(PERMANENT, Fixed (Alert ''Lane Departure Detected'' '''' AS_userPrompt SZ_small LOW VA_ldw AA_prompt 3 0))])]"

definition events_while_engaged :: "alert_env \<Rightarrow> (event_id \<times> event_dict) list" where
  "events_while_engaged env = [
    (ev_steerTempUnavailableSilent, [(WARNING, Fixed (Alert ''Steering Assist Temporarily Unavailable'' '''' AS_userPrompt SZ_small LOW VA_steerRequired AA_prompt (9/5) 0))]),
    (ev_preDriverDistracted, [(PERMANENT, Fixed (Alert ''Pay Attention'' '''' AS_normal SZ_small LOW VA_none AA_none (1/10) 0))]),
    (ev_promptDriverDistracted, [(PERMANENT, Fixed (Alert ''Pay Attention'' ''Driver Distracted'' AS_userPrompt SZ_mid MID VA_steerRequired AA_promptDistracted (1/10) 0))]),
    (ev_driverDistracted, [(PERMANENT, Fixed (Alert ''DISENGAGE IMMEDIATELY'' ''Driver Distracted'' AS_critical SZ_full HIGH VA_steerRequired AA_warningImmediate (1/10) 0))]),
    (ev_preDriverUnresponsive, [(PERMANENT, Fixed (Alert ''Touch Steering Wheel: No Face Detected'' '''' AS_normal SZ_small LOW VA_steerRequired AA_none (1/10) 0))]),
    (ev_promptDriverUnresponsive, [(PERMANENT, Fixed (Alert ''Touch Steering Wheel'' ''Driver Unresponsive'' AS_userPrompt SZ_mid MID VA_steerRequired AA_promptDistracted (1/10) 0))]),
    (ev_driverUnresponsive, [(PERMANENT, Fixed (Alert ''DISENGAGE IMMEDIATELY'' ''Driver Unresponsive'' AS_critical SZ_full HIGH VA_steerRequired AA_warningImmediate (1/10) 0))]),
    (ev_manualRestart, [(WARNING, Fixed (Alert ''TAKE CONTROL'' ''Resume Driving Manually'' AS_userPrompt SZ_mid LOW VA_none AA_none (1/5) 0))]),
    (ev_resumeRequired, [(WARNING, Fixed (Alert ''Press Resume to Exit Standstill'' '''' AS_userPrompt SZ_small LOW VA_none AA_none (1/5) 0))]),
    (ev_belowSteerSpeed, [(WARNING, Callback below_steer_speed_alert)]),
    (ev_preLaneChangeLeft, [(WARNING, Fixed (Alert ''Steer Left to Start Lane Change Once Safe'' '''' AS_normal SZ_small LOW VA_none AA_none (1/10) 0))]),
    (ev_preLaneChangeRight, [(WARNING, Fixed (Alert ''Steer Right to Start Lane Change Once Safe'' '''' AS_normal SZ_small LOW VA_none AA_none (1/10) 0))]),
    (ev_laneChangeBlocked, [(WARNING, Fixed (Alert ''Car Detected in Blindspot'' '''' AS_userPrompt SZ_small LOW VA_none AA_prompt (1/10) 0))]),
    (ev_laneChange, [(WARNING, Fixed (Alert ''Changing Lanes'' '''' AS_normal SZ_small LOW VA_none AA_none (1/10) 0))]),
    (ev_steerSaturated, [(WARNING, Fixed (Alert ''Take Control'' ''Turn Exceeds Steering Limit'' AS_userPrompt SZ_mid LOW VA_steerRequired AA_promptRepeat 2 0))])]"

definition events_calibration_errors :: "alert_env \<Rightarrow> (event_id \<times> event_dict) list" where
  "events_calibration_errors env = [
    (ev_fanMalfunction, [(PERMANENT, Fixed (NormalPermanentAlert ''Fan Malfunction'' ''Likely Hardware Issue'' (2/10) LOWER 0))]),
    (ev_cameraMalfunction, [(PERMANENT, Callback camera_malfunction_alert),
      (SOFT_DISABLE, Callback (soft_disable_alert ''Camera Malfunction'')),
      (NO_ENTRY, Fixed (NoEntryAlert (env_mici env) ''Camera Malfunction: Reboot Your Device'' default_no_entry VA_none))]),
    (ev_cameraFrameRate, [(PERMANENT, Fixed (NormalPermanentAlert ''Camera Frame Rate Low'' ''Reboot your Device'' (2/10) LOWER 0)),
      (SOFT_DISABLE, Callback (soft_disable_alert ''Camera Frame Rate Low'')),
      (NO_ENTRY, Fixed (NoEntryAlert (env_mici env) ''Camera Frame Rate Low: Reboot Your Device'' default_no_entry VA_none))]),
    (ev_locationdTemporaryError, [(NO_ENTRY, Fixed (NoEntryAlert (env_mici env) ''locationd Temporary Error'' default_no_entry VA_none)),
      (SOFT_DISABLE, Callback (soft_disable_alert ''locationd Temporary Error''))]),
    (ev_locationdPermanentError, [(NO_ENTRY, Fixed (NoEntryAlert (env_mici env) ''locationd Permanent Error'' default_no_entry VA_none)),
      (IMMEDIATE_DISABLE, Fixed (ImmediateDisableAlert ''locationd Permanent Error'')),
      (PERMANENT, Fixed (NormalPermanentAlert ''locationd Permanent Error'' '''' (2/10) LOWER 0))]),
    (ev_paramsdTemporaryError, [(NO_ENTRY, Callback (paramsd_invalid_alert (env_mici env))),
      (SOFT_DISABLE, Callback (soft_disable_alert ''paramsd Temporary Error''))]),
    (ev_paramsdPermanentError, [(NO_ENTRY, Fixed (NoEntryAlert (env_mici env) ''paramsd Permanent Error'' default_no_entry VA_none)),
      (IMMEDIATE_DISABLE, Fixed (ImmediateDisableAlert ''paramsd Permanent Error'')),
      (PERMANENT, Fixed (NormalPermanentAlert ''paramsd Permanent Error'' '''' (2/10) LOWER 0))])]"

definition events_transitions :: "alert_env \<Rightarrow> (event_id \<times> event_dict) list" where
  "events_transitions env = [
    (ev_pcmEnable, [(ENABLE, Fixed (EngagementAlert AA_engage))]),
    (ev_buttonEnable, [(ENABLE, Fixed (EngagementAlert AA_engage))]),
    (ev_pcmDisable, [(USER_DISABLE, Fixed (EngagementAlert AA_disengage))]),
    (ev_buttonCancel, [(USER_DISABLE, Fixed (EngagementAlert AA_disengage)),
      (NO_ENTRY, Fixed (NoEntryAlert (env_mici env) ''Cancel Pressed'' default_no_entry VA_none))]),
    (ev_brakeHold, [(WARNING, Fixed (Alert ''Press Resume to Exit Brake Hold'' '''' AS_userPrompt SZ_small LOW VA_none AA_none (1/5) 0))]),
    (ev_parkBrake, [(USER_DISABLE, Fixed (EngagementAlert AA_disengage)),
      (NO_ENTRY, Fixed (NoEntryAlert (env_mici env) ''Parking Brake Engaged'' default_no_entry VA_none))]),
    (ev_pedalPressed, [(USER_DISABLE, Fixed (EngagementAlert AA_disengage)),
      (NO_ENTRY, Fixed (NoEntryAlert (env_mici env) ''Pedal Pressed'' default_no_entry VA_brakePressed))]),
    (ev_steerDisengage, [(USER_DISABLE, Fixed (EngagementAlert AA_disengage)),
      (NO_ENTRY, Fixed (NoEntryAlert (env_mici env) ''Steering Pressed'' default_no_entry VA_none))]),
    (ev_preEnableStandstill, [(PRE_ENABLE, Fixed (Alert ''Release Brake to Engage'' '''' AS_normal SZ_small LOWEST VA_none AA_none (1/10) 1))]),
    (ev_gasPressedOverride, [(OVERRIDE_LONGITUDINAL, Fixed (Alert '''' '''' AS_normal SZ_none LOWEST VA_none AA_none (1/10) 0))]),
    (ev_steerOverride, [(OVERRIDE_LATERAL, Fixed (Alert '''' '''' AS_normal SZ_none LOWEST VA_none AA_none (1/10) 0))]),
    (ev_wrongCarMode, [(USER_DISABLE, Fixed (EngagementAlert AA_disengage)),
      (NO_ENTRY, Callback (wrong_car_mode_alert (env_mici env)))]),
    (ev_resumeBlocked, [(NO_ENTRY, Fixed (NoEntryAlert (env_mici env) ''Press Set to Engage'' default_no_entry VA_none))]),
    (ev_wrongCruiseMode, [(USER_DISABLE, Fixed (EngagementAlert AA_disengage)),
      (NO_ENTRY, Fixed (NoEntryAlert (env_mici env) ''Adaptive Cruise Disabled'' default_no_entry VA_none))]),
    (ev_steerTempUnavailable, [(SOFT_DISABLE, Callback (soft_disable_alert ''Steering Assist Temporarily Unavailable'')),
      (NO_ENTRY, Fixed (NoEntryAlert (env_mici env) ''Steering Temporarily Unavailable'' default_no_entry VA_none))]),
    (ev_steerTimeLimit, [(SOFT_DISABLE, Callback (soft_disable_alert ''Vehicle Steering Time Limit'')),
      (NO_ENTRY, Fixed (NoEntryAlert (env_mici env) ''Vehicle Steering Time Limit'' default_no_entry VA_none))]),
    (ev_outOfSpace, [(PERMANENT, Callback out_of_space_alert),
      (NO_ENTRY, Fixed (NoEntryAlert (env_mici env) ''Out of Storage'' default_no_entry VA_none))]),
    (ev_belowEngageSpeed, [(NO_ENTRY, Callback (below_engage_speed_alert (env_mici env)))]),
    (ev_sensorDataInvalid, [(PERMANENT, Fixed (Alert ''Sensor Data Invalid'' ''Possible Hardware Issue'' AS_normal SZ_mid LOWER VA_none AA_none (1/5) 1)),
      (NO_ENTRY, Fixed (NoEntryAlert (env_mici env) ''Sensor Data Invalid'' default_no_entry VA_none)),
      (SOFT_DISABLE, Callback (soft_disable_alert ''Sensor Data Invalid''))]),
    (ev_noGps, [])]"

definition events_soft_disable_1 :: "alert_env \<Rightarrow> (event_id \<times> event_dict) list" where
  "events_soft_disable_1 env = [
    (ev_tooDistracted, [(NO_ENTRY, Fixed (NoEntryAlert (env_mici env) ''Distraction Level Too High'' default_no_entry VA_none))]),
    (ev_excessiveActuation, [(SOFT_DISABLE, Callback (soft_disable_alert ''Excessive Actuation'')),
      (NO_ENTRY, Fixed (NoEntryAlert (env_mici env) ''Excessive Actuation'' default_no_entry VA_none))]),
    (ev_overheat, [(PERMANENT, Callback overheat_alert),
      (SOFT_DISABLE, Callback (soft_disable_alert ''System Overheated'')),
      (NO_ENTRY, Fixed (NoEntryAlert (env_mici env) ''System Overheated'' default_no_entry VA_none))]),
    (ev_wrongGear, [(SOFT_DISABLE, Callback (user_soft_disable_alert ''Gear not D'')),
      (NO_ENTRY, Fixed (NoEntryAlert (env_mici env) ''Gear not D'' default_no_entry VA_none))]),
    (ev_calibrationInvalid, [(PERMANENT, Callback calibration_invalid_alert),
      (SOFT_DISABLE, Callback (soft_disable_alert ''Calibration Invalid: Remount Device & Recalibrate'')),
      (NO_ENTRY, Fixed (NoEntryAlert (env_mici env) ''Calibration Invalid: Remount Device & Recalibrate'' default_no_entry VA_none))]),
    (ev_calibrationIncomplete, [(PERMANENT, Callback calibration_incomplete_alert),
      (SOFT_DISABLE, Callback (soft_disable_alert ''Calibration Incomplete'')),
      (NO_ENTRY, Fixed (NoEntryAlert (env_mici env) ''Calibration in Progress'' default_no_entry VA_none))]),
    (ev_calibrationRecalibrating, [(PERMANENT, Callback calibration_incomplete_alert),
      (SOFT_DISABLE, Callback (soft_disable_alert ''Device Remount Detected: Recalibrating'')),
      (NO_ENTRY, Fixed (NoEntryAlert (env_mici env) ''Remount Detected: Recalibrating'' default_no_entry VA_none))]),
    (ev_doorOpen, [(SOFT_DISABLE, Callback (user_soft_disable_alert ''Door Open'')),
      (NO_ENTRY, Fixed (NoEntryAlert (env_mici env) ''Door Open'' default_no_entry VA_none))]),
    (ev_seatbeltNotLatched, [(SOFT_DISABLE, Callback (user_soft_disable_alert ''Seatbelt Unlatched'')),
      (NO_ENTRY, Fixed (NoEntryAlert (env_mici env) ''Seatbelt Unlatched'' default_no_entry VA_none))]),
    (ev_espDisabled, [(SOFT_DISABLE, Callback (soft_disable_alert ''Electronic Stability Control Disabled'')),
      (NO_ENTRY, Fixed (NoEntryAlert (env_mici env) ''Electronic Stability Control Disabled'' default_no_entry VA_none))]),
    (ev_lowBattery, [(SOFT_DISABLE, Callback (soft_disable_alert ''Low Battery'')),
      (NO_ENTRY, Fixed (NoEntryAlert (env_mici env) ''Low Battery'' default_no_entry VA_none))]),
    (ev_commIssue, [(SOFT_DISABLE, Callback (soft_disable_alert ''Communication Issue Between Processes'')),
      (NO_ENTRY, Callback (comm_issue_alert (env_mici env)))]),
    (ev_commIssueAvgFreq, [(SOFT_DISABLE, Callback (soft_disable_alert ''Low Communication Rate Between Processes'')),
      (NO_ENTRY, Fixed (NoEntryAlert (env_mici env) ''Low Communication Rate Between Processes'' default_no_entry VA_none))]),
    (ev_selfdrivedLagging, [(SOFT_DISABLE, Callback (soft_disable_alert ''System Lagging'')),
      (NO_ENTRY, Fixed (NoEntryAlert (env_mici env) ''Selfdrive Process Lagging: Reboot Your Device'' default_no_entry VA_none))]),
    (ev_processNotRunning, [(NO_ENTRY, Callback (process_not_running_alert (env_mici env))),
      (SOFT_DISABLE, Callback (soft_disable_alert ''Process Not Running''))]),
    (ev_radarFault, [(SOFT_DISABLE, Callback (soft_disable_alert ''Radar Error: Restart the Car'')),
      (NO_ENTRY, Fixed (NoEntryAlert (env_mici env) ''Radar Error: Restart the Car'' default_no_entry VA_none))]),
    (ev_radarTempUnavailable, [(SOFT_DISABLE, Callback (soft_disable_alert ''Radar Temporarily Unavailable'')),
      (NO_ENTRY, Fixed (NoEntryAlert (env_mici env) ''Radar Temporarily Unavailable'' default_no_entry VA_none))])]"

definition events_soft_disable_2 :: "alert_env \<Rightarrow> (event_id \<times> event_dict) list" where
  "events_soft_disable_2 env = [
    (ev_modeldLagging, [(SOFT_DISABLE, Callback (soft_disable_alert ''Driving Model Lagging'')),
      (NO_ENTRY, Fixed (NoEntryAlert (env_mici env) ''Driving Model Lagging'' default_no_entry VA_none)),
      (PERMANENT, Callback modeld_lagging_alert)]),
    (ev_posenetInvalid, [(SOFT_DISABLE, Callback (soft_disable_alert ''Posenet Speed Invalid'')),
      (NO_ENTRY, Callback (posenet_invalid_alert (env_mici env)))]),
    (ev_deviceFalling, [(SOFT_DISABLE, Callback (soft_disable_alert ''Device Fell Off Mount'')),
      (NO_ENTRY, Fixed (NoEntryAlert (env_mici env) ''Device Fell Off Mount'' default_no_entry VA_none))]),
    (ev_lowMemory, [(SOFT_DISABLE, Callback (soft_disable_alert ''Low Memory: Reboot Your Device'')),
      (PERMANENT, Callback low_memory_alert),
      (NO_ENTRY, Fixed (NoEntryAlert (env_mici env) ''Low Memory: Reboot Your Device'' default_no_entry VA_none))]),
    (ev_accFaulted, [(IMMEDIATE_DISABLE, Fixed (ImmediateDisableAlert ''Cruise Fault: Restart the Car'')),
      (PERMANENT, Fixed (NormalPermanentAlert ''Cruise Fault: Restart the car to engage'' '''' (2/10) LOWER 0)),
      (NO_ENTRY, Fixed (NoEntryAlert (env_mici env) ''Cruise Fault: Restart the Car'' default_no_entry VA_none))]),
    (ev_espActive, [(SOFT_DISABLE, Callback (soft_disable_alert ''Electronic Stability Control Active'')),
      (NO_ENTRY, Fixed (NoEntryAlert (env_mici env) ''Electronic Stability Control Active'' default_no_entry VA_none))]),
    (ev_controlsMismatch, [(IMMEDIATE_DISABLE, Fixed (ImmediateDisableAlert ''Controls Mismatch'')),
      (NO_ENTRY, Fixed (NoEntryAlert (env_mici env) ''Controls Mismatch'' default_no_entry VA_none))]),
    (ev_usbError, [(SOFT_DISABLE, Callback (soft_disable_alert ''USB Error: Reboot Your Device'')),
      (PERMANENT, Fixed (NormalPermanentAlert ''USB Error: Reboot Your Device'' '''' (2/10) LOWER 0)),
      (NO_ENTRY, Fixed (NoEntryAlert (env_mici env) ''USB Error: Reboot Your Device'' default_no_entry VA_none))]),
    (ev_canError, [(IMMEDIATE_DISABLE, Fixed (ImmediateDisableAlert ''Unknown Vehicle Variant'')),
      (PERMANENT, Fixed (Alert ''Unknown Vehicle Variant'' '''' AS_normal SZ_small LOW VA_none AA_none 1 1)),
      (NO_ENTRY, Fixed (NoEntryAlert (env_mici env) ''Unknown Vehicle Variant'' default_no_entry VA_none))]),
    (ev_canBusMissing, [(IMMEDIATE_DISABLE, Fixed (ImmediateDisableAlert ''CAN Bus Disconnected'')),
      (PERMANENT, Fixed (Alert ''CAN Bus Disconnected: Likely Faulty Cable'' '''' AS_normal SZ_small LOW VA_none AA_none 1 1)),
      (NO_ENTRY, Fixed (NoEntryAlert (env_mici env) ''CAN Bus Disconnected: Check Connections'' default_no_entry VA_none))])]"

definition events_immediate_disable :: "alert_env \<Rightarrow> (event_id \<times> event_dict) list" where
  "events_immediate_disable env = [
    (ev_steerUnavailable, [(IMMEDIATE_DISABLE, Fixed (ImmediateDisableAlert ''LKAS Fault: Restart the Car'')),
      (PERMANENT, Fixed (NormalPermanentAlert ''LKAS Fault: Restart the car to engage'' '''' (2/10) LOWER 0)),
      (NO_ENTRY, Fixed (NoEntryAlert (env_mici env) ''LKAS Fault: Restart the Car'' default_no_entry VA_none))]),
    (ev_reverseGear, [(PERMANENT, Fixed (Alert (''Reverse'' @ [CHR 0x0A] @ ''Gear'') '''' AS_normal SZ_full LOWEST VA_none AA_none (1/5) (1/2))),
      (USER_DISABLE, Fixed (ImmediateDisableAlert ''Reverse Gear'')),
      (NO_ENTRY, Fixed (NoEntryAlert (env_mici env) ''Reverse Gear'' default_no_entry VA_none))]),
    (ev_cruiseDisabled, [(IMMEDIATE_DISABLE, Fixed (ImmediateDisableAlert ''Cruise Is Off''))]),
    (ev_relayMalfunction, [(IMMEDIATE_DISABLE, Fixed (ImmediateDisableAlert ''Harness Relay Malfunction'')),
      (PERMANENT, Fixed (NormalPermanentAlert ''Harness Relay Malfunction'' ''Check Hardware'' (2/10) LOWER 0)),
      (NO_ENTRY, Fixed (NoEntryAlert (env_mici env) ''Harness Relay Malfunction'' default_no_entry VA_none))]),
    (ev_speedTooLow, [(IMMEDIATE_DISABLE, Fixed (Alert ''openpilot Canceled'' ''Speed too low'' AS_normal SZ_mid HIGH VA_none AA_disengage 3 0))]),
    (ev_speedTooHigh, [(WARNING, Fixed (Alert ''Speed Too High'' ''Model uncertain at this speed'' AS_userPrompt SZ_mid HIGH VA_steerRequired AA_promptRepeat 4 0)),
      (NO_ENTRY, Fixed (NoEntryAlert (env_mici env) ''Slow down to engage'' default_no_entry VA_none))]),
    (ev_vehicleSensorsInvalid, [(IMMEDIATE_DISABLE, Fixed (ImmediateDisableAlert ''Vehicle Sensors Invalid'')),
      (PERMANENT, Fixed (NormalPermanentAlert ''Vehicle Sensors Calibrating'' ''Drive to Calibrate'' (2/10) LOWER 0)),
      (NO_ENTRY, Fixed (NoEntryAlert (env_mici env) ''Vehicle Sensors Calibrating'' default_no_entry VA_none))]),
    (ev_personalityChanged, [(WARNING, Callback personality_changed_alert)]),
    (ev_userBookmark, [(PERMANENT, Fixed (NormalPermanentAlert ''Bookmark Saved'' '''' (3/2) LOWER 0))]),
    (ev_audioFeedback, [(PERMANENT, Callback audio_feedback_alert)])]"

definition events_mici :: "alert_env \<Rightarrow> (event_id \<times> event_dict) list" where
  "events_mici env = [
    (ev_preDriverDistracted, [(PERMANENT, Fixed (Alert ''Pay Attention'' '''' AS_normal SZ_small LOW VA_none AA_none 2 0))]),
    (ev_promptDriverDistracted, [(PERMANENT, Fixed (Alert ''Pay Attention'' ''Driver Distracted'' AS_userPrompt SZ_mid MID VA_steerRequired AA_promptDistracted 1 0))]),
    (ev_resumeRequired, [(WARNING, Fixed (Alert ''Press Resume'' '''' AS_userPrompt SZ_small LOW VA_none AA_none (1/5) 0))]),
    (ev_preLaneChangeLeft, [(WARNING, Fixed (Alert ''Steer Left'' ''Confirm Lane Change'' AS_normal SZ_mid LOW VA_none AA_none (1/10) 0))]),
    (ev_preLaneChangeRight, [(WARNING, Fixed (Alert ''Steer Right'' ''Confirm Lane Change'' AS_normal SZ_mid LOW VA_none AA_none (1/10) 0))]),
    (ev_laneChangeBlocked, [(WARNING, Fixed (Alert ''Car in Blindspot'' '''' AS_userPrompt SZ_small LOW VA_none AA_prompt (1/10) 0))]),
    (ev_steerSaturated, [(WARNING, Fixed (Alert ''take control'' ''turn exceeds limit'' AS_userPrompt SZ_mid LOW VA_steerRequired AA_promptRepeat 2 0))]),
    (ev_calibrationIncomplete, [(PERMANENT, Callback calibration_incomplete_alert),
      (SOFT_DISABLE, Callback (soft_disable_alert ''Calibration Incomplete'')),
      (NO_ENTRY, Fixed (NoEntryAlert (env_mici env) ''Calibrating'' default_no_entry VA_none))]),
    (ev_reverseGear, [(PERMANENT, Fixed (Alert ''Reverse'' '''' AS_normal SZ_full LOWEST VA_none AA_none (1/5) (1/2))),
      (USER_DISABLE, Fixed (ImmediateDisableAlert ''Reverse'')),
      (NO_ENTRY, Fixed (NoEntryAlert (env_mici env) ''Reverse'' default_no_entry VA_none))])]"

definition EVENTS_list :: "alert_env \<Rightarrow> (event_id \<times> event_dict) list" where
  "EVENTS_list env = events_no_alerts env @ events_all_states env @ events_while_engaged env
     @ events_calibration_errors env @ events_transitions env @ events_soft_disable_1 env
     @ events_soft_disable_2 env @ events_immediate_disable env"

definition EVENTS :: "alert_env \<Rightarrow> event_map" where
  "EVENTS env = map_of ((if env_mici env then events_mici env else []) @ EVENTS_list env)"

lemmas EVENTS_table_defs =
  EVENTS_list_def events_no_alerts_def events_all_states_def events_while_engaged_def
  events_calibration_errors_def events_transitions_def events_soft_disable_1_def
  events_soft_disable_2_def events_immediate_disable_def events_mici_def

definition Events_init :: "alert_env \<Rightarrow> events" where
  "Events_init env = events_init (EVENTS env)"

end
