(* ===== verification/Events_SP_Table.thy ===== *)
theory Events_SP_Table
  imports Events_Table
begin

text \<open>
  \<open>sunnypilot/selfdrive/selfdrived/events.py\<close>: the callbacks of the speed limit alerts and
  the table \<open>EVENTS_SP\<close>, with the constants of
  \<open>sunnypilot/selfdrive/controls/lib/speed_limit/__init__.py\<close> they use.
\<close>

definition PCM_LONG_REQUIRED_MAX_SET_SPEED :: "bool \<Rightarrow> real \<times> real" where
  "PCM_LONG_REQUIRED_MAX_SET_SPEED metric =
     (if metric then (333333 / 10000, 361111 / 10000) else (312928 / 10000, 357632 / 10000))"

definition CONFIRM_SPEED_THRESHOLD :: "bool \<Rightarrow> int" where
  "CONFIRM_SPEED_THRESHOLD metric = (if metric then 30 else 20)"

definition speed_limit_adjust_alert :: callback where
  "speed_limit_adjust_alert CP CS sm metric soft_disable_time personality =
     (let speed = py_round (sl_speedLimit (sd_msg sm) * (if metric then MS_TO_KPH else MS_TO_MPH))
      in Alert (''Adjusting to '' @ show_int speed @ '' '' @ (if metric then ''km/h'' else ''mph'') @ '' speed limit'')
           '''' AS_normal SZ_small LOW VA_none AA_none 4 0)"

definition speed_limit_pre_active_alert :: callback where
  "speed_limit_pre_active_alert CP CS sm metric soft_disable_time personality =
     (let speed_conv = (if metric then MS_TO_KPH else MS_TO_MPH);
          final_last_conv = py_round (sl_speedLimitFinalLast (sd_msg sm) * speed_conv);
          (cst_low, cst_high) = PCM_LONG_REQUIRED_MAX_SET_SPEED metric;
          required_max = (if final_last_conv < CONFIRM_SPEED_THRESHOLD metric then cst_low else cst_high);
          required_max_conv = py_round (required_max * speed_conv);
          speed_unit = (if metric then ''km/h'' else ''mph'')
      in if cp_openpilotLongitudinalControl CP \<and> cp_pcmCruise CP then
           Alert ''Speed Limit Assist: Activation Required''
             (''Manually change set speed to '' @ show_int required_max_conv @ '' '' @ speed_unit @ '' to activate'')
             AS_normal SZ_mid LOW VA_none AASP_promptSingleLow (1/10) 0
         else Alert '''' '''' AS_normal SZ_none LOW VA_none AASP_promptSingleLow (1/10) 0)"

definition events_sp_mads :: "alert_env \<Rightarrow> (event_id \<times> event_dict) list" where
  "events_sp_mads env = [
    (evsp_lkasEnable, [(ENABLE, Fixed (EngagementAlert AA_engage))]),
    (evsp_lkasDisable, [(USER_DISABLE, Fixed (EngagementAlert AA_disengage))]),
    (evsp_manualSteeringRequired, [(USER_DISABLE, Fixed (Alert ''Automatic Lane Centering is OFF'' ''Manual Steering Required'' AS_normal SZ_mid LOW VA_none AA_disengage 1 0))]),
    (evsp_manualLongitudinalRequired, [(WARNING, Fixed (Alert ''Smart/Adaptive Cruise Control: OFF'' ''Manual Speed Control Required'' AS_normal SZ_mid LOW VA_none AA_none 1 0))]),
    (evsp_silentLkasEnable, [(ENABLE, Fixed (EngagementAlert AA_none))]),
    (evsp_silentLkasDisable, [(USER_DISABLE, Fixed (EngagementAlert AA_none))]),
    (evsp_silentBrakeHold, [(WARNING, Fixed (EngagementAlert AA_none)),
      (NO_ENTRY, Fixed (NoEntryAlert (env_mici env) ''Brake Hold Active'' default_no_entry VA_none))]),
    (evsp_silentWrongGear, [(WARNING, Fixed (Alert '''' '''' AS_normal SZ_none LOWEST VA_none AA_none 0 0)),
      (NO_ENTRY, Fixed (Alert ''Gear not D'' ''openpilot Unavailable'' AS_normal SZ_mid LOW VA_none AA_none 0 0))]),
    (evsp_silentReverseGear, [(PERMANENT, Fixed (Alert (''Reverse'' @ [CHR 0x0A] @ ''Gear'') '''' AS_normal SZ_full LOWEST VA_none AA_none (1/5) (1/2))),
      (NO_ENTRY, Fixed (NoEntryAlert (env_mici env) ''Reverse Gear'' default_no_entry VA_none))]),
    (evsp_silentDoorOpen, [(WARNING, Fixed (Alert '''' '''' AS_normal SZ_none LOWEST VA_none AA_none 0 0)),
      (NO_ENTRY, Fixed (NoEntryAlert (env_mici env) ''Door Open'' default_no_entry VA_none))]),
    (evsp_silentSeatbeltNotLatched, [(WARNING, Fixed (Alert '''' '''' AS_normal SZ_none LOWEST VA_none AA_none 0 0)),
      (NO_ENTRY, Fixed (NoEntryAlert (env_mici env) ''Seatbelt Unlatched'' default_no_entry VA_none))]),
    (evsp_silentParkBrake, [(WARNING, Fixed (Alert '''' '''' AS_normal SZ_none LOWEST VA_none AA_none 0 0)),
      (NO_ENTRY, Fixed (NoEntryAlert (env_mici env) ''Parking Brake Engaged'' default_no_entry VA_none))])]"

definition events_sp_speed :: "alert_env \<Rightarrow> (event_id \<times> event_dict) list" where
  "events_sp_speed env = [
    (evsp_controlsMismatchLateral, [(IMMEDIATE_DISABLE, Fixed (ImmediateDisableAlert ''Controls Mismatch: Lateral'')),
      (NO_ENTRY, Fixed (NoEntryAlert (env_mici env) ''Controls Mismatch: Lateral'' default_no_entry VA_none))]),
    (evsp_experimentalModeSwitched, [(WARNING, Fixed (NormalPermanentAlert ''Experimental Mode Switched'' '''' (3/2) LOWER 0))]),
    (evsp_wrongCarModeAlertOnly, [(WARNING, Callback (wrong_car_mode_alert (env_mici env)))]),
    (evsp_pedalPressedAlertOnly, [(WARNING, Fixed (NoEntryAlert (env_mici env) ''Pedal Pressed'' default_no_entry VA_none))]),
    (evsp_laneTurnLeft, [(WARNING, Fixed (Alert ''Turning Left'' '''' AS_normal SZ_small LOW VA_none AA_none 1 0))]),
    (evsp_laneTurnRight, [(WARNING, Fixed (Alert ''Turning Right'' '''' AS_normal SZ_small LOW VA_none AA_none 1 0))]),
    (evsp_speedLimitActive, [(WARNING, Fixed (Alert ''Automatically adjusting to the posted speed limit'' '''' AS_normal SZ_small LOW VA_none AASP_promptSingleHigh 5 0))]),
    (evsp_speedLimitChanged, [(WARNING, Fixed (Alert ''Set speed changed'' '''' AS_normal SZ_small LOW VA_none AASP_promptSingleHigh 5 0))]),
    (evsp_speedLimitPreActive, [(WARNING, Callback speed_limit_pre_active_alert)]),
    (evsp_speedLimitPending, [(WARNING, Fixed (Alert ''Automatically adjusting to the last speed limit'' '''' AS_normal SZ_small LOW VA_none AASP_promptSingleHigh 5 0))]),
    (evsp_e2eChime, [(PERMANENT, Fixed (Alert '''' '''' AS_normal SZ_none MID VA_none AA_prompt 3 0))])]"

definition EVENTS_SP_list :: "alert_env \<Rightarrow> (event_id \<times> event_dict) list" where
  "EVENTS_SP_list env = events_sp_mads env @ events_sp_speed env"

definition EVENTS_SP :: "alert_env \<Rightarrow> event_map" where
  "EVENTS_SP env = map_of (EVENTS_SP_list env)"

lemmas EVENTS_SP_table_defs = EVENTS_SP_list_def events_sp_mads_def events_sp_speed_def

definition EventsSP_init :: "alert_env \<Rightarrow> events" where
  "EventsSP_init env = events_init (EVENTS_SP env)"

end
