(* ===== verification/Mads.thy ===== *)
theory Mads
  imports Mads_State Params Events_Table Events_SP_Table
begin

text \<open>
  \<open>sunnypilot/mads/mads.py\<close> and \<open>sunnypilot/mads/helpers.py\<close>: the Modular Assistive Driving
  System, which engages lateral control on its own. The object holds references to
  \<open>selfdrive\<close>, to its two event lists and to its state machine; the record \<open>selfdrive\<close> has
  those fields of \<open>SelfdriveD\<close> and the object itself, and every method maps that record. The
  record of SelfdriveD (theory Selfdrived) extends it.
\<close>

section \<open>State\<close>

record mads_obj =
  ma_enabled :: bool
  ma_active :: bool
  ma_available :: bool
  ma_allow_always :: bool
  ma_no_main_cruise :: bool
  ma_state :: mads_state
  ma_disengage_on_accelerator :: bool
  ma_enabled_toggle :: bool
  ma_main_enabled_toggle :: bool
  ma_steering_mode_on_brake :: int
  ma_unified_engagement_mode :: bool

record selfdrive =
  sf_CP :: car_params
  sf_CP_SP :: car_params_sp
  sf_enabled :: bool
  sf_active :: bool
  sf_enabled_prev :: bool
  sf_initialized :: bool
  sf_CS_prev :: car_state
  sf_state_machine :: state_machine
  sf_events :: events
  sf_events_sp :: events
  sf_mads :: mads_obj

section \<open>helpers.py\<close>

definition MADS_NO_ACC_MAIN_BUTTON :: "string list" where
  "MADS_NO_ACC_MAIN_BUTTON = [''rivian'', ''tesla'']"

definition REMAIN_ACTIVE :: int where "REMAIN_ACTIVE = 0"
definition PAUSE :: int where "PAUSE = 1"
definition DISENGAGE :: int where "DISENGAGE = 2"

lemmas steering_mode_defs = REMAIN_ACTIVE_def PAUSE_def DISENGAGE_def

definition has_flag :: "int \<Rightarrow> int \<Rightarrow> bool" where
  "has_flag flags f \<longleftrightarrow> and flags f \<noteq> 0"

definition get_mads_limited_brands :: "opendbc \<Rightarrow> car_params \<Rightarrow> car_params_sp \<Rightarrow> bool" where
  "get_mads_limited_brands odb CP CP_SP =
     (if cp_brand CP = ''rivian'' then True
      else if cp_brand CP = ''tesla'' then \<not> has_flag (cpsp_flags CP_SP) (odb_TESLA_HAS_VEHICLE_BUS odb)
      else False)"

definition read_steering_mode_param :: "opendbc \<Rightarrow> (string \<Rightarrow> int) \<Rightarrow> car_params \<Rightarrow> car_params_sp \<Rightarrow> params \<Rightarrow> int" where
  "read_steering_mode_param odb dflt CP CP_SP p =
     (if get_mads_limited_brands odb CP CP_SP then DISENGAGE else get_int dflt p ''MadsSteeringMode'')"

definition set_alternative_experience :: "opendbc \<Rightarrow> (string \<Rightarrow> int) \<Rightarrow> car_params \<Rightarrow> car_params_sp \<Rightarrow> params \<Rightarrow> car_params" where
  "set_alternative_experience odb dflt CP CP_SP p =
     (let enabled = get_bool p ''Mads''; steering_mode = read_steering_mode_param odb dflt CP CP_SP p in
      if enabled then
        let a = or (cp_alternativeExperience CP) (odb_ALT_EXP_ENABLE_MADS odb);
            b = (if steering_mode = DISENGAGE then or a (odb_ALT_EXP_DISENGAGE_ON_BRAKE odb)
                 else if steering_mode = PAUSE then or a (odb_ALT_EXP_PAUSE_ON_BRAKE odb)
                 else a)
        in CP\<lparr>cp_alternativeExperience := b\<rparr>
      else CP)"

definition set_car_specific_params :: "opendbc \<Rightarrow> car_params \<Rightarrow> car_params_sp \<Rightarrow> params \<Rightarrow> car_params_sp \<times> params" where
  "set_car_specific_params odb CP CP_SP p =
     (let CP_SP' = (if cp_brand CP = ''hyundai''
            then CP_SP\<lparr>cpsp_flags := or (cpsp_flags CP_SP) (odb_HYUNDAI_SP_MAIN_CRUISE_TOGGLEABLE odb),
                       cpsp_safetyParam := or (cpsp_safetyParam CP_SP) (odb_HYUNDAI_SAFETY_MAIN_CRUISE_TOGGLEABLE odb)\<rparr>
            else CP_SP);
          p1 = (if get_mads_limited_brands odb CP CP_SP'
                then p(''MadsSteeringMode'' \<mapsto> PInt 2, ''MadsUnifiedEngagementMode'' \<mapsto> PBool True) else p);
          p2 = (if cp_brand CP \<in> set MADS_NO_ACC_MAIN_BUTTON then p1(''MadsMainCruiseAllowed'' := None) else p1)
      in (CP_SP', p2))"

section \<open>The constructor and the parameters\<close>

definition mads_init :: "opendbc \<Rightarrow> (string \<Rightarrow> int) \<Rightarrow> car_params \<Rightarrow> car_params_sp \<Rightarrow> params \<Rightarrow> mads_obj" where
  "mads_init odb dflt CP CP_SP p =
     \<lparr>ma_enabled = False, ma_active = False, ma_available = False,
      ma_allow_always =
        (cp_brand CP = ''hyundai'' \<and> has_flag (cp_flags CP) (odb_HYUNDAI_LDA_OR_CANFD odb)) \<or> cp_brand CP = ''tesla'',
      ma_no_main_cruise = (cp_brand CP \<in> set MADS_NO_ACC_MAIN_BUTTON),
      ma_state = MADS_disabled,
      ma_disengage_on_accelerator = get_bool p ''DisengageOnAccelerator'',
      ma_enabled_toggle = get_bool p ''Mads'',
      ma_main_enabled_toggle = get_bool p ''MadsMainCruiseAllowed'',
      ma_steering_mode_on_brake = read_steering_mode_param odb dflt CP CP_SP p,
      ma_unified_engagement_mode = get_bool p ''MadsUnifiedEngagementMode''\<rparr>"

definition mads_read_params :: "params \<Rightarrow> mads_obj \<Rightarrow> mads_obj" where
  "mads_read_params p o1 = o1\<lparr>ma_main_enabled_toggle := get_bool p ''MadsMainCruiseAllowed'',
     ma_unified_engagement_mode := get_bool p ''MadsUnifiedEngagementMode''\<rparr>"

section \<open>Statements on the event lists\<close>

definition add_event :: "event_id \<Rightarrow> 'a selfdrive_scheme \<Rightarrow> 'a selfdrive_scheme result" where
  "add_event e = pure_do (\<lambda>s. s\<lparr>sf_events := ev_add e (sf_events s)\<rparr>)"

definition add_event_sp :: "event_id \<Rightarrow> 'a selfdrive_scheme \<Rightarrow> 'a selfdrive_scheme result" where
  "add_event_sp e = pure_do (\<lambda>s. s\<lparr>sf_events_sp := ev_add e (sf_events_sp s)\<rparr>)"

definition remove_event :: "event_id \<Rightarrow> 'a selfdrive_scheme \<Rightarrow> 'a selfdrive_scheme result" where
  "remove_event e s = bind_result (ev_remove e (sf_events s)) (\<lambda>v. Inr (s\<lparr>sf_events := v\<rparr>))"

definition remove_event_sp :: "event_id \<Rightarrow> 'a selfdrive_scheme \<Rightarrow> 'a selfdrive_scheme result" where
  "remove_event_sp e s = bind_result (ev_remove e (sf_events_sp s)) (\<lambda>v. Inr (s\<lparr>sf_events_sp := v\<rparr>))"

definition sf_has :: "event_id \<Rightarrow> 'a selfdrive_scheme \<Rightarrow> bool" where
  "sf_has e s = ev_has e (sf_events s)"

section \<open>Methods\<close>

definition SET_SPEED_BUTTONS :: "button_type list" where
  "SET_SPEED_BUTTONS = [BT_accelCruise, BT_resumeCruise, BT_decelCruise, BT_setCruise]"

definition GEARS_ALLOW_PAUSED_SILENT :: "event_id list" where
  "GEARS_ALLOW_PAUSED_SILENT = [evsp_silentWrongGear, evsp_silentReverseGear, evsp_silentBrakeHold,
     evsp_silentDoorOpen, evsp_silentSeatbeltNotLatched, evsp_silentParkBrake]"

definition GEARS_ALLOW_PAUSED :: "event_id list" where
  "GEARS_ALLOW_PAUSED = [ev_wrongGear, ev_reverseGear, ev_brakeHold, ev_doorOpen,
     ev_seatbeltNotLatched, ev_parkBrake]"

definition pedal_pressed_non_gas_pressed :: "car_state \<Rightarrow> 'a selfdrive_scheme \<Rightarrow> bool" where
  "pedal_pressed_non_gas_pressed CS s \<longleftrightarrow>
     sf_has ev_pedalPressed s
     \<and> \<not> (cs_gasPressed CS \<and> \<not> cs_gasPressed (sf_CS_prev s) \<and> ma_disengage_on_accelerator (sf_mads s))"

definition should_silent_lkas_enable :: "car_state \<Rightarrow> 'a selfdrive_scheme \<Rightarrow> bool" where
  "should_silent_lkas_enable CS s =
     (if ma_steering_mode_on_brake (sf_mads s) = PAUSE \<and> pedal_pressed_non_gas_pressed CS s then False
      else if ev_contains_in_list GEARS_ALLOW_PAUSED_SILENT (sf_events_sp s) then False
      else True)"

definition block_unified_engagement_mode :: "'a selfdrive_scheme \<Rightarrow> bool" where
  "block_unified_engagement_mode s =
     (if \<not> ma_unified_engagement_mode (sf_mads s) then True
      else if ma_enabled (sf_mads s) then True
      else if sf_enabled s \<and> sf_enabled_prev s then True
      else False)"

definition replace_event :: "event_id \<Rightarrow> event_id \<Rightarrow> 'a selfdrive_scheme \<Rightarrow> 'a selfdrive_scheme result" where
  "replace_event old new = run_block [remove_event old, add_event_sp new]"

definition get_wrong_car_mode :: "bool \<Rightarrow> 'a selfdrive_scheme \<Rightarrow> 'a selfdrive_scheme result" where
  "get_wrong_car_mode alert_only =
     (if alert_only
      then when_do (sf_has ev_wrongCarMode) (replace_event ev_wrongCarMode evsp_wrongCarModeAlertOnly)
      else remove_event ev_wrongCarMode)"

definition transition_paused_state :: "'a selfdrive_scheme \<Rightarrow> 'a selfdrive_scheme result" where
  "transition_paused_state = when_do (\<lambda>s. ma_state (sf_mads s) \<noteq> MADS_paused) (add_event_sp evsp_silentLkasDisable)"

text \<open>An event that pauses MADS: it becomes a silent one.\<close>

definition silence_event :: "event_id \<Rightarrow> event_id \<Rightarrow> 'a selfdrive_scheme \<Rightarrow> 'a selfdrive_scheme result" where
  "silence_event old new = when_do (sf_has old) (run_block [replace_event old new, transition_paused_state])"

text \<open>The block for lateral control on its own (\<open>not self.selfdrive.enabled and self.enabled\<close>).\<close>

definition mads_lateral_only_events :: "car_state \<Rightarrow> 'a selfdrive_scheme \<Rightarrow> 'a selfdrive_scheme result" where
  "mads_lateral_only_events CS = run_block [
     when_do (\<lambda>s. cs_standstill CS) (run_block [
       silence_event ev_doorOpen evsp_silentDoorOpen,
       silence_event ev_seatbeltNotLatched evsp_silentSeatbeltNotLatched]),
     when_do (\<lambda>s. sf_has ev_wrongGear s \<and> (cs_vEgo CS < 5/2 \<or> cs_gearShifter CS = Gear_reverse))
       (run_block [replace_event ev_wrongGear evsp_silentWrongGear, transition_paused_state]),
     silence_event ev_reverseGear evsp_silentReverseGear,
     silence_event ev_brakeHold evsp_silentBrakeHold,
     silence_event ev_parkBrake evsp_silentParkBrake,
     when_do (\<lambda>s. ma_steering_mode_on_brake (sf_mads s) = PAUSE)
       (when_do (pedal_pressed_non_gas_pressed CS) transition_paused_state),
     remove_event ev_preEnableStandstill,
     remove_event ev_belowEngageSpeed,
     remove_event ev_speedTooLow,
     remove_event ev_cruiseDisabled,
     remove_event ev_manualRestart]"

definition selfdrive_enable_events :: "'a selfdrive_scheme \<Rightarrow> bool" where
  "selfdrive_enable_events s \<longleftrightarrow> sf_has ev_pcmEnable s \<or> sf_has ev_buttonEnable s"

definition mads_enable_events :: "car_state \<Rightarrow> 'a selfdrive_scheme \<Rightarrow> 'a selfdrive_scheme result" where
  "mads_enable_events CS s =
     (let enable = selfdrive_enable_events s;
          set_speed_btns = list_ex (\<lambda>be. be_type be \<in> set SET_SPEED_BUTTONS) (cs_buttonEvents CS)
      in run_block [
        get_wrong_car_mode (enable \<or> set_speed_btns),
        if enable then run_block [
          when_do (pedal_pressed_non_gas_pressed CS) (add_event_sp evsp_pedalPressedAlertOnly),
          when_do block_unified_engagement_mode
            (run_block [remove_event ev_pcmEnable, remove_event ev_buttonEnable])]
        else when_do (\<lambda>s. ma_main_enabled_toggle (sf_mads s))
          (when_do (\<lambda>s. cr_available (cs_cruiseState CS) \<and> \<not> cr_available (cs_cruiseState (sf_CS_prev s)))
            (add_event_sp evsp_lkasEnable))] s)"

definition mads_button_events :: "car_state \<Rightarrow> button_event \<Rightarrow> 'a selfdrive_scheme \<Rightarrow> 'a selfdrive_scheme result" where
  "mads_button_events CS be = run_block [
     when_do (\<lambda>s. be_type be = BT_cancel)
       (when_do (\<lambda>s. \<not> sf_enabled s \<and> sf_enabled_prev s) (add_event_sp evsp_manualLongitudinalRequired)),
     when_do (\<lambda>s. be_type be = BT_lkas \<and> be_pressed be
                  \<and> (cr_available (cs_cruiseState CS) \<or> ma_allow_always (sf_mads s)))
       (if_do (\<lambda>s. ma_enabled (sf_mads s))
          (if_do sf_enabled (add_event_sp evsp_manualSteeringRequired) (add_event_sp evsp_lkasDisable))
          (add_event_sp evsp_lkasEnable))]"

text \<open>
  \<open>self.events_sp.contains(EventNameSP.lkasEnable)\<close> looks an event number up among event
  types (\<open>ev_contains_key\<close> of an \<open>Int_key\<close>).
\<close>

definition mads_brake_events :: "alert_env \<Rightarrow> car_state \<Rightarrow> 'a selfdrive_scheme \<Rightarrow> 'a selfdrive_scheme result" where
  "mads_brake_events env CS = run_block [
     when_do (\<lambda>s. \<not> cr_available (cs_cruiseState CS) \<and> \<not> ma_no_main_cruise (sf_mads s)) (run_block [
       remove_event ev_buttonEnable,
       when_do (\<lambda>s. cr_available (cs_cruiseState (sf_CS_prev s))) (add_event_sp evsp_lkasDisable)]),
     when_do (\<lambda>s. ma_steering_mode_on_brake (sf_mads s) = DISENGAGE)
       (when_do (pedal_pressed_non_gas_pressed CS)
         (if_do (\<lambda>s. ma_enabled (sf_mads s)) (add_event_sp evsp_lkasDisable)
           (when_do (\<lambda>s. ev_contains_key (EVENTS_SP env) (Int_key evsp_lkasEnable) (sf_events_sp s))
             (run_block [remove_event_sp evsp_lkasEnable, add_event_sp evsp_pedalPressedAlertOnly])))),
     when_do (should_silent_lkas_enable CS)
       (when_do (\<lambda>s. ma_state (sf_mads s) = MADS_paused) (add_event_sp evsp_silentLkasEnable)),
     remove_event ev_pcmDisable,
     remove_event ev_buttonCancel,
     remove_event ev_pedalPressed,
     remove_event ev_wrongCruiseMode]"

definition mads_update_events :: "alert_env \<Rightarrow> car_state \<Rightarrow> 'a selfdrive_scheme \<Rightarrow> 'a selfdrive_scheme result" where
  "mads_update_events env CS = run_block [
     when_do (\<lambda>s. \<not> sf_enabled s \<and> ma_enabled (sf_mads s)) (mads_lateral_only_events CS),
     mads_enable_events CS,
     run_block (map (mads_button_events CS) (cs_buttonEvents CS)),
     mads_brake_events env CS]"

text \<open>What the state machine reads.\<close>

definition mads_inputs_of :: "alert_env \<Rightarrow> 'a selfdrive_scheme \<Rightarrow> mads_inputs" where
  "mads_inputs_of env s = \<lparr>
     mi_contains = (\<lambda>t. ev_contains (EVENTS env) t (sf_events s) \<or> ev_contains (EVENTS_SP env) t (sf_events_sp s)),
     mi_contains_in_list = (ev_contains_in_list GEARS_ALLOW_PAUSED (sf_events s)
       \<or> ev_contains_in_list GEARS_ALLOW_PAUSED_SILENT (sf_events_sp s)),
     mi_silent_disable = ev_has evsp_silentLkasDisable (sf_events_sp s),
     mi_selfdrive_enabled = sf_enabled s\<rparr>"

definition mads_state_update :: "alert_env \<Rightarrow> 'a selfdrive_scheme \<Rightarrow> 'a selfdrive_scheme" where
  "mads_state_update env s =
     (let ((st, m), en, ac) = mads_sm_update (mads_inputs_of env s) (ma_state (sf_mads s), sf_state_machine s)
      in s\<lparr>sf_state_machine := m, sf_mads := (sf_mads s)\<lparr>ma_state := st, ma_enabled := en, ma_active := ac\<rparr>\<rparr>)"

definition mads_update :: "alert_env \<Rightarrow> car_state \<Rightarrow> 'a selfdrive_scheme \<Rightarrow> 'a selfdrive_scheme result" where
  "mads_update env CS =
     when_do (\<lambda>s. ma_enabled_toggle (sf_mads s)) (run_block [
       mads_update_events env CS,
       when_do (\<lambda>s. \<not> cp_passive (sf_CP s) \<and> sf_initialized s) (pure_do (mads_state_update env)),
       pure_do (\<lambda>s. s\<lparr>sf_enabled_prev := sf_enabled s\<rparr>)])"

text \<open>A state to evaluate the model on.\<close>

definition test_env :: alert_env where
  "test_env = \<lparr>env_mici = False, env_short_branch = ''release'', env_REPLAY = False\<rparr>"

definition default_mads :: mads_obj where
  "default_mads = \<lparr>ma_enabled = False, ma_active = False, ma_available = False, ma_allow_always = False,
     ma_no_main_cruise = False, ma_state = MADS_disabled, ma_disengage_on_accelerator = False,
     ma_enabled_toggle = True, ma_main_enabled_toggle = False, ma_steering_mode_on_brake = DISENGAGE,
     ma_unified_engagement_mode = False\<rparr>"

definition default_selfdrive :: selfdrive where
  "default_selfdrive = \<lparr>sf_CP = default_cp, sf_CP_SP = default_cp_sp, sf_enabled = False, sf_active = False,
     sf_enabled_prev = False, sf_initialized = True, sf_CS_prev = default_cs,
     sf_state_machine = StateMachine_init, sf_events = Events_init test_env,
     sf_events_sp = EventsSP_init test_env, sf_mads = default_mads\<rparr>"

end
