(* ===== verification/Event_Facts.thy ===== *)
theory Event_Facts
  imports Events_Table Events_SP_Table
begin

text \<open>
  The two tables of events as interfaces \<open>event_source\<close>, and the event types of every event,
  which do not depend on the device.
\<close>

section \<open>Event types\<close>

type_synonym type_table = "(event_id \<times> et list) list"

definition dict_types :: "(event_id \<times> event_dict) list \<Rightarrow> type_table" where
  "dict_types l = map (\<lambda>(e, d). (e, map fst d)) l"

lemma dict_types_simps [simp]:
  "dict_types [] = []" "dict_types (p # ps) = (fst p, map fst (snd p)) # dict_types ps"
  "dict_types (ps @ qs) = dict_types ps @ dict_types qs"
  by (simp_all add: dict_types_def split_def)

lemma map_of_dict_types: "map_of (dict_types l) e = map_option (map fst) (map_of l e)"
  by (induction l) auto

definition ev_types :: type_table where
  "ev_types = 
[
    (ev_stockFcw, []), (ev_actuatorsApiUnavailable, []), (ev_joystickDebug, [WARNING, PERMANENT]),
    (ev_longitudinalManeuver, [WARNING, PERMANENT]), (ev_selfdriveInitializing, [NO_ENTRY]),
    (ev_startup, [PERMANENT]), (ev_startupMaster, [PERMANENT]),
    (ev_startupNoControl, [PERMANENT, NO_ENTRY]), (ev_startupNoCar, [PERMANENT]),
    (ev_startupNoSecOcKey, [PERMANENT]), (ev_dashcamMode, [PERMANENT]),
    (ev_invalidLkasSetting, [PERMANENT, NO_ENTRY]), (ev_cruiseMismatch, []),
    (ev_carUnrecognized, [PERMANENT]), (ev_aeb, [PERMANENT, NO_ENTRY]),
    (ev_stockAeb, [PERMANENT, NO_ENTRY]), (ev_stockLkas, [NO_ENTRY]), (ev_fcw, [PERMANENT]),
    (ev_ldw, [PERMANENT]), (ev_steerTempUnavailableSilent, [WARNING]),
    (ev_preDriverDistracted, [PERMANENT]), (ev_promptDriverDistracted, [PERMANENT]),
    (ev_driverDistracted, [PERMANENT]), (ev_preDriverUnresponsive, [PERMANENT]),
    (ev_promptDriverUnresponsive, [PERMANENT]), (ev_driverUnresponsive, [PERMANENT]),
    (ev_manualRestart, [WARNING]), (ev_resumeRequired, [WARNING]), (ev_belowSteerSpeed, [WARNING]),
    (ev_preLaneChangeLeft, [WARNING]), (ev_preLaneChangeRight, [WARNING]),
    (ev_laneChangeBlocked, [WARNING]), (ev_laneChange, [WARNING]), (ev_steerSaturated, [WARNING]),
    (ev_fanMalfunction, [PERMANENT]), (ev_cameraMalfunction, [PERMANENT, SOFT_DISABLE, NO_ENTRY]),
    (ev_cameraFrameRate, [PERMANENT, SOFT_DISABLE, NO_ENTRY]),
    (ev_locationdTemporaryError, [NO_ENTRY, SOFT_DISABLE]),
    (ev_locationdPermanentError, [NO_ENTRY, IMMEDIATE_DISABLE, PERMANENT]),
    (ev_paramsdTemporaryError, [NO_ENTRY, SOFT_DISABLE]),
    (ev_paramsdPermanentError, [NO_ENTRY, IMMEDIATE_DISABLE, PERMANENT]), (ev_pcmEnable, [ENABLE]),
    (ev_buttonEnable, [ENABLE]), (ev_pcmDisable, [USER_DISABLE]),
    (ev_buttonCancel, [USER_DISABLE, NO_ENTRY]), (ev_brakeHold, [WARNING]),
    (ev_parkBrake, [USER_DISABLE, NO_ENTRY]), (ev_pedalPressed, [USER_DISABLE, NO_ENTRY]),
    (ev_steerDisengage, [USER_DISABLE, NO_ENTRY]), (ev_preEnableStandstill, [PRE_ENABLE]),
    (ev_gasPressedOverride, [OVERRIDE_LONGITUDINAL]), (ev_steerOverride, [OVERRIDE_LATERAL]),
    (ev_wrongCarMode, [USER_DISABLE, NO_ENTRY]), (ev_resumeBlocked, [NO_ENTRY]),
    (ev_wrongCruiseMode, [USER_DISABLE, NO_ENTRY]),
    (ev_steerTempUnavailable, [SOFT_DISABLE, NO_ENTRY]),
    (ev_steerTimeLimit, [SOFT_DISABLE, NO_ENTRY]), (ev_outOfSpace, [PERMANENT, NO_ENTRY]),
    (ev_belowEngageSpeed, [NO_ENTRY]), (ev_sensorDataInvalid, [PERMANENT, NO_ENTRY, SOFT_DISABLE]),
    (ev_noGps, []), (ev_tooDistracted, [NO_ENTRY]),
    (ev_excessiveActuation, [SOFT_DISABLE, NO_ENTRY]),
    (ev_overheat, [PERMANENT, SOFT_DISABLE, NO_ENTRY]), (ev_wrongGear, [SOFT_DISABLE, NO_ENTRY]),
    (ev_calibrationInvalid, [PERMANENT, SOFT_DISABLE, NO_ENTRY]),
    (ev_calibrationIncomplete, [PERMANENT, SOFT_DISABLE, NO_ENTRY]),
    (ev_calibrationRecalibrating, [PERMANENT, SOFT_DISABLE, NO_ENTRY]),
    (ev_doorOpen, [SOFT_DISABLE, NO_ENTRY]), (ev_seatbeltNotLatched, [SOFT_DISABLE, NO_ENTRY]),
    (ev_espDisabled, [SOFT_DISABLE, NO_ENTRY]), (ev_lowBattery, [SOFT_DISABLE, NO_ENTRY]),
    (ev_commIssue, [SOFT_DISABLE, NO_ENTRY]), (ev_commIssueAvgFreq, [SOFT_DISABLE, NO_ENTRY]),
    (ev_selfdrivedLagging, [SOFT_DISABLE, NO_ENTRY]),
    (ev_processNotRunning, [NO_ENTRY, SOFT_DISABLE]), (ev_radarFault, [SOFT_DISABLE, NO_ENTRY]),
    (ev_radarTempUnavailable, [SOFT_DISABLE, NO_ENTRY]),
    (ev_modeldLagging, [SOFT_DISABLE, NO_ENTRY, PERMANENT]),
    (ev_posenetInvalid, [SOFT_DISABLE, NO_ENTRY]), (ev_deviceFalling, [SOFT_DISABLE, NO_ENTRY]),
    (ev_lowMemory, [SOFT_DISABLE, PERMANENT, NO_ENTRY]),
    (ev_accFaulted, [IMMEDIATE_DISABLE, PERMANENT, NO_ENTRY]),
    (ev_espActive, [SOFT_DISABLE, NO_ENTRY]), (ev_controlsMismatch, [IMMEDIATE_DISABLE, NO_ENTRY]),
    (ev_usbError, [SOFT_DISABLE, PERMANENT, NO_ENTRY]),
    (ev_canError, [IMMEDIATE_DISABLE, PERMANENT, NO_ENTRY]),
    (ev_canBusMissing, [IMMEDIATE_DISABLE, PERMANENT, NO_ENTRY]),
    (ev_steerUnavailable, [IMMEDIATE_DISABLE, PERMANENT, NO_ENTRY]),
    (ev_reverseGear, [PERMANENT, USER_DISABLE, NO_ENTRY]),
    (ev_cruiseDisabled, [IMMEDIATE_DISABLE]),
    (ev_relayMalfunction, [IMMEDIATE_DISABLE, PERMANENT, NO_ENTRY]),
    (ev_speedTooLow, [IMMEDIATE_DISABLE]), (ev_speedTooHigh, [WARNING, NO_ENTRY]),
    (ev_vehicleSensorsInvalid, [IMMEDIATE_DISABLE, PERMANENT, NO_ENTRY]),
    (ev_personalityChanged, [WARNING]), (ev_userBookmark, [PERMANENT]),
    (ev_audioFeedback, [PERMANENT])]"

definition ev_types_mici :: type_table where
  "ev_types_mici = 
[
    (ev_preDriverDistracted, [PERMANENT]), (ev_promptDriverDistracted, [PERMANENT]),
    (ev_resumeRequired, [WARNING]), (ev_preLaneChangeLeft, [WARNING]),
    (ev_preLaneChangeRight, [WARNING]), (ev_laneChangeBlocked, [WARNING]),
    (ev_steerSaturated, [WARNING]),
    (ev_calibrationIncomplete, [PERMANENT, SOFT_DISABLE, NO_ENTRY]),
    (ev_reverseGear, [PERMANENT, USER_DISABLE, NO_ENTRY])]"

definition evsp_types :: type_table where
  "evsp_types = 
[
    (evsp_lkasEnable, [ENABLE]), (evsp_lkasDisable, [USER_DISABLE]),
    (evsp_manualSteeringRequired, [USER_DISABLE]), (evsp_manualLongitudinalRequired, [WARNING]),
    (evsp_silentLkasEnable, [ENABLE]), (evsp_silentLkasDisable, [USER_DISABLE]),
    (evsp_silentBrakeHold, [WARNING, NO_ENTRY]), (evsp_silentWrongGear, [WARNING, NO_ENTRY]),
    (evsp_silentReverseGear, [PERMANENT, NO_ENTRY]), (evsp_silentDoorOpen, [WARNING, NO_ENTRY]),
    (evsp_silentSeatbeltNotLatched, [WARNING, NO_ENTRY]),
    (evsp_silentParkBrake, [WARNING, NO_ENTRY]),
    (evsp_controlsMismatchLateral, [IMMEDIATE_DISABLE, NO_ENTRY]),
    (evsp_experimentalModeSwitched, [WARNING]), (evsp_wrongCarModeAlertOnly, [WARNING]),
    (evsp_pedalPressedAlertOnly, [WARNING]), (evsp_laneTurnLeft, [WARNING]),
    (evsp_laneTurnRight, [WARNING]), (evsp_speedLimitActive, [WARNING]),
    (evsp_speedLimitChanged, [WARNING]), (evsp_speedLimitPreActive, [WARNING]),
    (evsp_speedLimitPending, [WARNING]), (evsp_e2eChime, [PERMANENT])]"

lemma dict_types_EVENTS: "dict_types (EVENTS_list env) = ev_types"
  by (simp add: EVENTS_table_defs ev_types_def)

lemma dict_types_mici: "dict_types (events_mici env) = ev_types_mici"
  by (simp add: events_mici_def ev_types_mici_def)

lemma dict_types_EVENTS_SP: "dict_types (EVENTS_SP_list env) = evsp_types"
  by (simp add: EVENTS_SP_table_defs evsp_types_def)

text \<open>The entries of the \<open>mici\<close> device override alerts, not event types.\<close>

lemma mici_types_agree: "map_of ev_types_mici e = Some ts \<Longrightarrow> map_of ev_types e = Some ts"
proof -
  have "list_all (\<lambda>(e, ts). map_of ev_types e = Some ts) ev_types_mici"
    by (simp add: ev_types_mici_def ev_types_def)
  moreover assume "map_of ev_types_mici e = Some ts"
  ultimately show ?thesis by (auto simp: list_all_iff dest!: map_of_SomeD)
qed

lemma EVENTS_types: "map_option (map fst) (EVENTS env e) = map_of ev_types e"
proof -
  have "map_option (map fst) (EVENTS env e)
      = map_of (dict_types ((if env_mici env then events_mici env else []) @ EVENTS_list env)) e"
    by (simp only: EVENTS_def map_of_dict_types)
  also have "\<dots> = map_of ((if env_mici env then ev_types_mici else []) @ ev_types) e"
    by (simp add: dict_types_EVENTS dict_types_mici)
  also have "\<dots> = map_of ev_types e"
    using mici_types_agree by (cases "map_of ev_types_mici e") (auto simp: map_add_def)
  finally show ?thesis .
qed

lemma EVENTS_SP_types: "map_option (map fst) (EVENTS_SP env e) = map_of evsp_types e"
  by (simp only: EVENTS_SP_def map_of_dict_types [symmetric] dict_types_EVENTS_SP)

lemma EVENTS_None: "EVENTS env e = None \<longleftrightarrow> map_of ev_types e = None"
  using EVENTS_types [of env e] by (metis option.map_disc_iff)

lemma EVENTS_SP_None: "EVENTS_SP env e = None \<longleftrightarrow> map_of evsp_types e = None"
  using EVENTS_SP_types [of env e] by (metis option.map_disc_iff)

text \<open>The events of each type.\<close>

definition ids_with :: "type_table \<Rightarrow> et \<Rightarrow> event_id list" where
  "ids_with tab t = map fst (filter (\<lambda>(e, ts). t \<in> set ts) tab)"

lemma ids_with_iff:
  assumes "distinct (map fst tab)"
  shows "(\<exists>ts. map_of tab e = Some ts \<and> t \<in> set ts) \<longleftrightarrow> e \<in> set (ids_with tab t)"
  using assms by (force simp: ids_with_def dest: map_of_SomeD intro: map_of_is_SomeI)

lemma distinct_types_keys: "distinct (map fst ev_types)" "distinct (map fst evsp_types)"
  by (simp_all add: ev_types_def evsp_types_def)

lemma types_of_eq: "types_of mp e = (case map_option (map fst) (mp e) of None \<Rightarrow> [] | Some ts \<Rightarrow> ts)"
  by (simp add: types_of_def split: option.splits)

lemma types_of_EVENTS: "t \<in> set (types_of (EVENTS env) e) \<longleftrightarrow> e \<in> set (ids_with ev_types t)"
  unfolding types_of_eq EVENTS_types
  using ids_with_iff [OF distinct_types_keys(1), of e t] by (auto split: option.splits)

lemma types_of_EVENTS_SP: "t \<in> set (types_of (EVENTS_SP env) e) \<longleftrightarrow> e \<in> set (ids_with evsp_types t)"
  unfolding types_of_eq EVENTS_SP_types
  using ids_with_iff [OF distinct_types_keys(2), of e t] by (auto split: option.splits)

text \<open>Which events the tables know: all but one of each enumeration.\<close>

lemma sort_keys:
  "sort (map fst ev_types) = [0..46] @ [48..98]"
  "sort (map fst evsp_types) = [0..12] @ [14..23]"
  by code_simp+

lemma known_EVENTS: "EVENTS env e \<noteq> None \<longleftrightarrow> 0 \<le> e \<and> e \<le> 98 \<and> e \<noteq> ev_soundsUnavailableDEPRECATED"
proof -
  have "EVENTS env e \<noteq> None \<longleftrightarrow> e \<in> set (sort (map fst ev_types))"
    by (simp add: EVENTS_None map_of_eq_None_iff)
  then show ?thesis
    by (simp only: sort_keys set_append set_upto Un_iff atLeastAtMost_iff) presburger
qed

lemma known_EVENTS_SP: "EVENTS_SP env e \<noteq> None \<longleftrightarrow> 0 \<le> e \<and> e \<le> 23 \<and> e \<noteq> evsp_hyundaiRadarTracksConfirmed"
proof -
  have "EVENTS_SP env e \<noteq> None \<longleftrightarrow> e \<in> set (sort (map fst evsp_types))"
    by (simp add: EVENTS_SP_None map_of_eq_None_iff)
  then show ?thesis
    by (simp only: sort_keys set_append set_upto Un_iff atLeastAtMost_iff) presburger
qed

text \<open>The short types, as lists of events.\<close>

lemma ids_with_types:
  "set (ids_with ev_types ENABLE) = {ev_pcmEnable, ev_buttonEnable}"
  "set (ids_with ev_types PRE_ENABLE) = {ev_preEnableStandstill}"
  "set (ids_with ev_types OVERRIDE_LATERAL) = {ev_steerOverride}"
  "set (ids_with ev_types OVERRIDE_LONGITUDINAL) = {ev_gasPressedOverride}"
  "set (ids_with ev_types USER_DISABLE) = {ev_pcmDisable, ev_buttonCancel, ev_parkBrake, ev_pedalPressed,
     ev_steerDisengage, ev_wrongCarMode, ev_wrongCruiseMode, ev_reverseGear}"
  by (auto simp: ids_with_def ev_types_def)

lemma ids_with_types_sp:
  "set (ids_with evsp_types ENABLE) = {evsp_lkasEnable, evsp_silentLkasEnable}"
  "set (ids_with evsp_types OVERRIDE_LATERAL) = {}"
  "set (ids_with evsp_types USER_DISABLE) = {evsp_lkasDisable, evsp_manualSteeringRequired, evsp_silentLkasDisable}"
  "set (ids_with evsp_types IMMEDIATE_DISABLE) = {evsp_controlsMismatchLateral}"
  "set (ids_with evsp_types SOFT_DISABLE) = {}"
  "set (ids_with evsp_types PRE_ENABLE) = {}"
  "set (ids_with evsp_types NO_ENTRY) = {evsp_silentBrakeHold, evsp_silentWrongGear, evsp_silentReverseGear,
     evsp_silentDoorOpen, evsp_silentSeatbeltNotLatched, evsp_silentParkBrake, evsp_controlsMismatchLateral}"
  by (auto simp: ids_with_def evsp_types_def)

lemma contains_EVENTS: "ev_contains (EVENTS env) t s \<longleftrightarrow> (\<exists>e\<in>set (ids_with ev_types t). ev_has e s)"
  by (auto simp: ev_contains_iff types_of_EVENTS ev_has_def)

lemma contains_EVENTS_SP: "ev_contains (EVENTS_SP env) t s \<longleftrightarrow> (\<exists>e\<in>set (ids_with evsp_types t). ev_has e s)"
  by (auto simp: ev_contains_iff types_of_EVENTS_SP ev_has_def)

lemmas contains_types = contains_EVENTS contains_EVENTS_SP ids_with_types ids_with_types_sp

section \<open>The tables are event sources\<close>

lemma distinct_type_lists:
  "map_of ev_types e = Some ts \<Longrightarrow> distinct ts" "map_of evsp_types e = Some ts \<Longrightarrow> distinct ts"
proof -
  have "list_all (\<lambda>(e, ts). distinct ts) ev_types" "list_all (\<lambda>(e, ts). distinct ts) evsp_types"
    by (simp_all add: ev_types_def evsp_types_def)
  then show "map_of ev_types e = Some ts \<Longrightarrow> distinct ts" "map_of evsp_types e = Some ts \<Longrightarrow> distinct ts"
    by (auto simp: list_all_iff dest!: map_of_SomeD)
qed

lemma lookup_name_known: "0 \<le> e \<Longrightarrow> e < int (length names) \<Longrightarrow> \<exists>n. lookup_name names e = Inr n"
  by (simp add: lookup_name_def)

interpretation events_table: event_source "EVENTS env" EVENT_NAME
proof unfold_locales
  fix e d assume d: "EVENTS env e = Some d"
  then have "0 \<le> e \<and> e < int (length event_name_list)" using known_EVENTS [of env e] by (simp add: length_event_names)
  then show "\<exists>n. EVENT_NAME e = Inr n" using lookup_name_known [of e event_name_list] by (simp add: EVENT_NAME_def)
  from d EVENTS_types [of env e] have "map_of ev_types e = Some (map fst d)" by simp
  then show "distinct (map fst d)" by (rule distinct_type_lists)
qed

interpretation events_sp_table: event_source "EVENTS_SP env" EVENT_NAME_SP
proof unfold_locales
  fix e d assume d: "EVENTS_SP env e = Some d"
  then have "0 \<le> e \<and> e < int (length event_name_sp_list)" using known_EVENTS_SP [of env e] by (simp add: length_event_names)
  then show "\<exists>n. EVENT_NAME_SP e = Inr n" using lookup_name_known [of e event_name_sp_list] by (simp add: EVENT_NAME_SP_def)
  from d EVENTS_SP_types [of env e] have "map_of evsp_types e = Some (map fst d)" by simp
  then show "distinct (map fst d)" by (rule distinct_type_lists)
qed

section \<open>Properties\<close>

text \<open>
  C16. \<open>create_alerts\<close> over the table of openpilot: on well-formed lists of known events it
  returns, and what it returns are exactly the alerts of the requested types whose event has
  lasted for the creation delay of its entry.
\<close>

theorem create_alerts_exact:
  assumes "ev_wf (EVENTS env) s" "\<forall>e\<in>set (ev_events s). 0 \<le> e \<and> e \<le> 98 \<and> e \<noteq> ev_soundsUnavailableDEPRECATED"
  shows "\<exists>as. create_alerts (EVENTS env) EVENT_NAME ts args s = Inr as
    \<and> (\<forall>a. a \<in> set as \<longleftrightarrow> (\<exists>e\<in>set (ev_events s). \<exists>t\<in>set ts. alert_raised (EVENTS env) EVENT_NAME args s e t a))"
  using assms by (intro events_table.create_alerts_spec) (simp_all only: known_EVENTS)

definition startup_events :: "alert_env \<Rightarrow> events" where
  "startup_events env = ev_add ev_startup (Events_init env)"

theorem create_alerts_exact_witness:
  "\<forall>env args. \<exists>as. create_alerts (EVENTS env) EVENT_NAME [PERMANENT] args (startup_events env) = Inr as
    \<and> (\<forall>a. a \<in> set as \<longleftrightarrow> (\<exists>e\<in>set (ev_events (startup_events env)).
        \<exists>t\<in>set [PERMANENT]. alert_raised (EVENTS env) EVENT_NAME args (startup_events env) e t a))"
  by (intro allI create_alerts_exact)
    (auto simp: startup_events_def Events_init_def events_init_def intro!: ev_wf_add ev_wf_init [unfolded events_init_def])

end
