(* ===== verification/Mads_Facts.thy ===== *)
theory Mads_Facts
  imports Mads Event_Facts
begin

text \<open>
  What the methods of MADS keep: they never raise, they change nothing but the two event
  lists (and, in the state update, the two state machines), and no event of the second list
  is ever withdrawn.
\<close>

section \<open>Invariants\<close>

definition sf_wf :: "alert_env \<Rightarrow> 'a selfdrive_scheme \<Rightarrow> bool" where
  "sf_wf env s \<longleftrightarrow> ev_wf (EVENTS env) (sf_events s) \<and> ev_wf (EVENTS_SP env) (sf_events_sp s)"

definition mads_flags_ok :: "'a selfdrive_scheme \<Rightarrow> bool" where
  "mads_flags_ok s \<longleftrightarrow> ma_enabled (sf_mads s) = mads_is_enabled (ma_state (sf_mads s))
     \<and> ma_active (sf_mads s) = mads_is_active (ma_state (sf_mads s))"

text \<open>\<open>s\<close> differs from \<open>s0\<close> in the event lists only, and the second list has grown.\<close>

definition strip_events :: "'a selfdrive_scheme \<Rightarrow> 'a selfdrive_scheme" where
  "strip_events s = s\<lparr>sf_events := events_init (\<lambda>_. None), sf_events_sp := events_init (\<lambda>_. None)\<rparr>"

lemma strip_events_upd [simp]:
  "strip_events (s\<lparr>sf_events := v\<rparr>) = strip_events s"
  "strip_events (s\<lparr>sf_events_sp := v\<rparr>) = strip_events s"
  by (simp_all add: strip_events_def)

definition lists_only :: "'a selfdrive_scheme \<Rightarrow> 'a selfdrive_scheme \<Rightarrow> bool" where
  "lists_only s0 s \<longleftrightarrow> strip_events s = strip_events s0
     \<and> set (ev_events (sf_events_sp s0)) \<subseteq> set (ev_events (sf_events_sp s))"

definition mads_inv :: "alert_env \<Rightarrow> 'a selfdrive_scheme \<Rightarrow> 'a selfdrive_scheme \<Rightarrow> bool" where
  "mads_inv env s0 s \<longleftrightarrow> sf_wf env s \<and> lists_only s0 s"

text \<open>The same, with event \<open>k\<close> of the first list as it was.\<close>

definition mads_inv_ev :: "alert_env \<Rightarrow> event_id \<Rightarrow> 'a selfdrive_scheme \<Rightarrow> 'a selfdrive_scheme \<Rightarrow> bool" where
  "mads_inv_ev env k s0 s \<longleftrightarrow> mads_inv env s0 s \<and> sf_has k s = sf_has k s0"

lemmas mads_inv_defs = mads_inv_ev_def mads_inv_def sf_wf_def lists_only_def sf_has_def ev_has_def

lemma mads_inv_refl [simp]: "mads_inv env s s = sf_wf env s" "mads_inv_ev env k s s = sf_wf env s"
  by (simp_all add: mads_inv_defs)

lemma lists_onlyD:
  assumes "lists_only s0 s"
  shows "sf_mads s = sf_mads s0" "sf_enabled s = sf_enabled s0" "sf_enabled_prev s = sf_enabled_prev s0"
    "sf_state_machine s = sf_state_machine s0" "sf_CP s = sf_CP s0" "sf_CS_prev s = sf_CS_prev s0"
    "sf_initialized s = sf_initialized s0" "sf_active s = sf_active s0" "sf_CP_SP s = sf_CP_SP s0"
    "selfdrive.more s = selfdrive.more s0"
proof -
  from assms have eq: "strip_events s = strip_events s0" by (simp add: lists_only_def)
  have strip: "sf_mads (strip_events t) = sf_mads t" "sf_enabled (strip_events t) = sf_enabled t"
    "sf_enabled_prev (strip_events t) = sf_enabled_prev t" "sf_state_machine (strip_events t) = sf_state_machine t"
    "sf_CP (strip_events t) = sf_CP t" "sf_CS_prev (strip_events t) = sf_CS_prev t"
    "sf_initialized (strip_events t) = sf_initialized t" "sf_active (strip_events t) = sf_active t"
    "sf_CP_SP (strip_events t) = sf_CP_SP t" "selfdrive.more (strip_events t) = selfdrive.more t"
    for t :: "'a selfdrive_scheme" by (simp_all add: strip_events_def)
  show "sf_mads s = sf_mads s0" "sf_enabled s = sf_enabled s0" "sf_enabled_prev s = sf_enabled_prev s0"
    "sf_state_machine s = sf_state_machine s0" "sf_CP s = sf_CP s0" "sf_CS_prev s = sf_CS_prev s0"
    "sf_initialized s = sf_initialized s0" "sf_active s = sf_active s0" "sf_CP_SP s = sf_CP_SP s0"
    "selfdrive.more s = selfdrive.more s0"
    using strip [of s] strip [of s0] unfolding eq by simp_all
qed

lemma lists_only_trans: "lists_only s0 s1 \<Longrightarrow> lists_only s1 s2 \<Longrightarrow> lists_only s0 s2"
  by (auto simp: lists_only_def)

text \<open>The numbers of the events in the table.\<close>

definition known_event :: "event_id \<Rightarrow> bool" where
  "known_event e \<longleftrightarrow> 0 \<le> e \<and> e \<le> 98 \<and> e \<noteq> ev_soundsUnavailableDEPRECATED"

section \<open>Statements\<close>

named_theorems keeps_mads \<open>statements that keep the invariants of MADS\<close>

declare keeps_if [keeps_mads] keeps_when [keeps_mads]

lemma remove_event_ok:
  assumes "sf_wf env s" "known_event e"
  shows "\<exists>v. remove_event e s = Inr (s\<lparr>sf_events := v\<rparr>) \<and> ev_wf (EVENTS env) v
    \<and> ev_events v = remove1 e (ev_events (sf_events s))"
proof -
  have "EVENTS env e \<noteq> None" using assms(2) unfolding known_EVENTS known_event_def .
  then obtain v where v: "ev_remove e (sf_events s) = Inr v"
    using assms(1) ev_remove_total unfolding sf_wf_def by blast
  with assms have "ev_wf (EVENTS env) v" by (auto simp: sf_wf_def)
  with v ev_remove_cases [OF v] show ?thesis unfolding remove_event_def by auto
qed

lemma keeps_remove [keeps_mads]: "known_event e \<Longrightarrow> keeps (mads_inv env s0) (remove_event e)"
proof
  fix s assume "known_event e" "mads_inv env s0 s"
  with remove_event_ok [of env s e] show "\<exists>s'. remove_event e s = Inr s' \<and> mads_inv env s0 s'"
    by (auto simp: mads_inv_defs)
qed

lemma keeps_remove_ev [keeps_mads]:
  "known_event e \<Longrightarrow> e \<noteq> k \<Longrightarrow> keeps (mads_inv_ev env k s0) (remove_event e)"
proof
  fix s assume "known_event e" "e \<noteq> k" "mads_inv_ev env k s0 s"
  with remove_event_ok [of env s e] show "\<exists>s'. remove_event e s = Inr s' \<and> mads_inv_ev env k s0 s'"
    by (auto simp: mads_inv_defs)
qed

lemma keeps_add_sp [keeps_mads]:
  "keeps (mads_inv env s0) (add_event_sp e)" "keeps (mads_inv_ev env k s0) (add_event_sp e)"
  unfolding add_event_sp_def by (rule keeps_pure; auto simp: mads_inv_defs)+

lemma keeps_Nil_block [keeps_mads]: "keeps P (run_block [])"
  by simp

declare keeps_Cons [keeps_mads]

lemma keeps_replace [keeps_mads]:
  "known_event old \<Longrightarrow> keeps (mads_inv env s0) (replace_event old new)"
  "known_event old \<Longrightarrow> old \<noteq> k \<Longrightarrow> keeps (mads_inv_ev env k s0) (replace_event old new)"
  unfolding replace_event_def by (intro keeps_mads; simp)+

lemma keeps_paused [keeps_mads]:
  "keeps (mads_inv env s0) transition_paused_state" "keeps (mads_inv_ev env k s0) transition_paused_state"
  unfolding transition_paused_state_def by (intro keeps_mads)+

lemma keeps_silence [keeps_mads]:
  "known_event old \<Longrightarrow> old \<noteq> k \<Longrightarrow> keeps (mads_inv_ev env k s0) (silence_event old new)"
  unfolding silence_event_def by (intro keeps_mads; simp)

lemma keeps_lateral_only: "keeps (mads_inv_ev env ev_pedalPressed s0) (mads_lateral_only_events CS)"
  unfolding mads_lateral_only_events_def
  by (intro keeps_mads; simp add: known_event_def)

lemma keeps_enable: "keeps (mads_inv_ev env ev_pedalPressed s0) (mads_enable_events CS)"
proof -
  have wrong: "keeps (mads_inv_ev env ev_pedalPressed s0) (get_wrong_car_mode b)" for b
    unfolding get_wrong_car_mode_def by (cases b; simp; intro keeps_mads; simp add: known_event_def)
  have "keeps (mads_inv_ev env ev_pedalPressed s0) (run_block [get_wrong_car_mode b,
      if c then run_block [when_do (pedal_pressed_non_gas_pressed CS) (add_event_sp evsp_pedalPressedAlertOnly),
          when_do block_unified_engagement_mode (run_block [remove_event ev_pcmEnable, remove_event ev_buttonEnable])]
      else when_do d (when_do e (add_event_sp evsp_lkasEnable))])" for b c d e
    by (cases c; simp only: if_True if_False; intro keeps_mads wrong; simp add: known_event_def)
  then show ?thesis by (simp add: keeps_def mads_enable_events_def Let_def)
qed

lemma keeps_buttons: "keeps (mads_inv_ev env ev_pedalPressed s0) (run_block (map (mads_button_events CS) bs))"
  by (rule keeps_block) (auto simp: mads_button_events_def intro!: keeps_mads)

text \<open>Looking an event number up among event types never succeeds, so this statement is skipped.\<close>

lemma dead_branch: "when_do (\<lambda>s. ev_contains_key mp (Int_key i) (g s)) f = Inr"
  by (rule ext) (simp add: when_do_def)

text \<open>
  A statement of a block that asks for the pause: what precedes it keeps the event that
  triggers it, what follows withdraws nothing.
\<close>

lemma pause_in_block:
  assumes wf: "sf_wf env s" and front: "keeps (mads_inv_ev env k s) (run_block front)"
    and trigger: "\<And>t. mads_inv_ev env k s t \<Longrightarrow> \<exists>t'. f t = Inr t' \<and> mads_inv env s t' \<and> ev_has evsp_silentLkasDisable (sf_events_sp t')"
    and rest: "\<And>t. keeps (mads_inv env t) (run_block rest)"
  shows "\<exists>s'. run_block (front @ f # rest) s = Inr s' \<and> mads_inv env s s' \<and> ev_has evsp_silentLkasDisable (sf_events_sp s')"
proof -
  from keepsD [OF front, of s] wf obtain t where t: "run_block front s = Inr t" "mads_inv_ev env k s t" by auto
  from trigger [OF t(2)] obtain u where u: "f t = Inr u" "mads_inv env s u" "ev_has evsp_silentLkasDisable (sf_events_sp u)" by blast
  then have "mads_inv env u u" by (simp add: mads_inv_def)
  from keepsD [OF rest this] obtain s' where s': "run_block rest u = Inr s'" "mads_inv env u s'" by blast
  have "mads_inv env s s'" using u(2) s'(2) lists_only_trans [of s u s'] by (simp add: mads_inv_def)
  moreover have "ev_has evsp_silentLkasDisable (sf_events_sp s')"
    using u(3) s'(2) by (auto simp: mads_inv_def lists_only_def ev_has_def)
  ultimately show ?thesis using t u s' by (simp add: run_block_append)
qed

text \<open>The statements that ask for the pause, where they are triggered.\<close>

lemma silence_triggered:
  assumes inv: "mads_inv_ev env old s t" and "known_event old" "sf_has old s" "ma_state (sf_mads s) \<noteq> MADS_paused"
  shows "\<exists>t'. silence_event old new t = Inr t' \<and> mads_inv env s t' \<and> ev_has evsp_silentLkasDisable (sf_events_sp t')"
proof -
  have t: "sf_has old t" "sf_wf env t" "sf_mads t = sf_mads s"
    using inv assms(3) by (auto simp: mads_inv_ev_def mads_inv_def lists_onlyD)
  from remove_event_ok [OF t(2) assms(2)] obtain v where
    v: "remove_event old t = Inr (t\<lparr>sf_events := v\<rparr>)" "ev_wf (EVENTS env) v" by blast
  let ?t' = "t\<lparr>sf_events := v, sf_events_sp := ev_add evsp_silentLkasDisable (ev_add new (sf_events_sp t))\<rparr>"
  have "silence_event old new t = Inr ?t'"
    using t v assms(4)
    by (simp add: silence_event_def do_defs replace_event_def add_event_sp_def transition_paused_state_def)
  moreover have "mads_inv env s ?t'"
    using inv v t by (auto simp: mads_inv_ev_def mads_inv_def lists_only_def sf_wf_def)
  moreover have "ev_has evsp_silentLkasDisable (sf_events_sp ?t')" by simp
  ultimately show ?thesis by blast
qed

lemma paused_triggered:
  assumes inv: "mads_inv_ev env k s t" and "ma_state (sf_mads s) \<noteq> MADS_paused"
  shows "\<exists>t'. transition_paused_state t = Inr t' \<and> mads_inv env s t' \<and> ev_has evsp_silentLkasDisable (sf_events_sp t')"
proof -
  have "sf_mads t = sf_mads s" using inv by (auto simp: mads_inv_ev_def mads_inv_def lists_onlyD)
  then show ?thesis using assms
    by (auto simp: transition_paused_state_def do_defs add_event_sp_def mads_inv_defs)
qed

text \<open>
  When MADS steers on its own, these conditions pause it: a pedal in the pause mode, the
  reverse gear, the brake hold, the park brake, an open door or seatbelt at standstill, a
  wrong gear at low speed or in reverse.
\<close>

definition pause_condition :: "car_state \<Rightarrow> 'a selfdrive_scheme \<Rightarrow> bool" where
  "pause_condition CS s \<longleftrightarrow>
     ma_steering_mode_on_brake (sf_mads s) = PAUSE \<and> pedal_pressed_non_gas_pressed CS s
     \<or> sf_has ev_reverseGear s \<or> sf_has ev_brakeHold s \<or> sf_has ev_parkBrake s
     \<or> cs_standstill CS \<and> (sf_has ev_doorOpen s \<or> sf_has ev_seatbeltNotLatched s)
     \<or> sf_has ev_wrongGear s \<and> (cs_vEgo CS < 5/2 \<or> cs_gearShifter CS = Gear_reverse)"

text \<open>The brake block, up to the withdrawal of the pedal event.\<close>

lemma brake_block:
  assumes "mads_inv_ev env ev_pedalPressed s0 s"
  shows "\<exists>s'. mads_brake_events env CS s = Inr s' \<and> mads_inv env s0 s'
    \<and> (ma_steering_mode_on_brake (sf_mads s0) = DISENGAGE \<and> pedal_pressed_non_gas_pressed CS s0 \<and> ma_enabled (sf_mads s0)
        \<longrightarrow> ev_has evsp_lkasDisable (sf_events_sp s'))"
proof -
  let ?b1 = "when_do (\<lambda>s. \<not> cr_available (cs_cruiseState CS) \<and> \<not> ma_no_main_cruise (sf_mads s)) (run_block [
       remove_event ev_buttonEnable,
       when_do (\<lambda>s. cr_available (cs_cruiseState (sf_CS_prev s))) (add_event_sp evsp_lkasDisable)])"
  let ?b2 = "when_do (\<lambda>s. ma_steering_mode_on_brake (sf_mads s) = DISENGAGE)
       (when_do (pedal_pressed_non_gas_pressed CS)
         (if_do (\<lambda>s. ma_enabled (sf_mads s)) (add_event_sp evsp_lkasDisable) Inr))"
  let ?rest = "run_block [when_do (should_silent_lkas_enable CS)
       (when_do (\<lambda>s. ma_state (sf_mads s) = MADS_paused) (add_event_sp evsp_silentLkasEnable)),
     remove_event ev_pcmDisable, remove_event ev_buttonCancel, remove_event ev_pedalPressed,
     remove_event ev_wrongCruiseMode]"
  have "keeps (mads_inv_ev env ev_pedalPressed s0) ?b1" by (intro keeps_mads; simp add: known_event_def)
  from keepsD [OF this assms] obtain s1 where s1: "?b1 s = Inr s1" "mads_inv_ev env ev_pedalPressed s0 s1" by blast
  have "keeps (mads_inv_ev env ev_pedalPressed s0) Inr" by (simp add: keeps_def)
  then have "keeps (mads_inv_ev env ev_pedalPressed s0) ?b2" by (intro keeps_mads)
  from keepsD [OF this s1(2)] obtain s2 where s2: "?b2 s1 = Inr s2" "mads_inv_ev env ev_pedalPressed s0 s2" by blast
  have ped: "pedal_pressed_non_gas_pressed CS s1 = pedal_pressed_non_gas_pressed CS s0"
    and m1: "sf_mads s1 = sf_mads s0"
    using s1(2) by (auto simp: pedal_pressed_non_gas_pressed_def mads_inv_ev_def mads_inv_def lists_onlyD)
  have dis: "ev_has evsp_lkasDisable (sf_events_sp s2)"
    if "ma_steering_mode_on_brake (sf_mads s0) = DISENGAGE" "pedal_pressed_non_gas_pressed CS s0" "ma_enabled (sf_mads s0)"
    using s2(1) that ped m1 by (auto simp: do_defs add_event_sp_def)
  have keep: "keeps (mads_inv env s2) ?rest" by (intro keeps_mads; simp add: known_event_def)
  have "mads_inv env s2 s2" using s2(2) by (simp add: mads_inv_ev_def mads_inv_def)
  from keepsD [OF keep this] obtain s3 where s3: "?rest s2 = Inr s3" "mads_inv env s2 s3" by blast
  have "mads_inv env s0 s3"
    using s2(2) s3(2) lists_only_trans [of s0 s2 s3] by (simp add: mads_inv_ev_def mads_inv_def)
  moreover have "ev_has evsp_lkasDisable (sf_events_sp s3)" if "ev_has evsp_lkasDisable (sf_events_sp s2)"
    using s3(2) that by (auto simp: mads_inv_def lists_only_def ev_has_def)
  moreover have "mads_brake_events env CS s = Inr s3"
    unfolding mads_brake_events_def dead_branch
    by (subst run_block_step, rule s1(1), subst run_block_step, rule s2(1), rule s3(1))
  ultimately show ?thesis using dis by blast
qed

section \<open>What pauses MADS\<close>

abbreviation pauses :: "alert_env \<Rightarrow> 'a selfdrive_scheme \<Rightarrow> ('a selfdrive_scheme \<Rightarrow> 'a selfdrive_scheme result) \<Rightarrow> 'a selfdrive_scheme \<Rightarrow> bool" where
  "pauses env s f t \<equiv> \<exists>t'. f t = Inr t' \<and> mads_inv env s t' \<and> ev_has evsp_silentLkasDisable (sf_events_sp t')"

lemma pause_at:
  assumes "n < length fs" "sf_wf env s" "keeps (mads_inv_ev env k s) (run_block (take n fs))"
    "\<And>t. mads_inv_ev env k s t \<Longrightarrow> pauses env s (fs ! n) t"
    "\<And>t. keeps (mads_inv env t) (run_block (drop (Suc n) fs))"
  shows "pauses env s (run_block fs) s"
  by (subst id_take_nth_drop [OF assms(1)], rule pause_in_block [OF assms(2,3,4,5)])

lemma pause_first:
  assumes "sf_wf env s" "pauses env s f s" "\<And>t. keeps (mads_inv env t) (run_block rest)"
  shows "pauses env s (run_block ([] @ f # rest)) s"
proof -
  from assms(2) obtain u where u: "f s = Inr u" "mads_inv env s u" "ev_has evsp_silentLkasDisable (sf_events_sp u)" by blast
  then have "mads_inv env u u" by (simp add: mads_inv_def)
  from keepsD [OF assms(3) this] obtain s' where s': "run_block rest u = Inr s'" "mads_inv env u s'" by blast
  have "mads_inv env s s'" using u(2) s'(2) lists_only_trans [of s u s'] by (simp add: mads_inv_def)
  moreover have "ev_has evsp_silentLkasDisable (sf_events_sp s')"
    using u(3) s'(2) by (auto simp: mads_inv_def lists_only_def ev_has_def)
  ultimately show ?thesis using u s' by simp
qed

lemma pauses_when: "c t \<Longrightarrow> pauses env s f t \<Longrightarrow> pauses env s (when_do c f) t"
  by (simp add: when_do_def)

lemma keeps_silence_weak [keeps_mads]:
  "known_event old \<Longrightarrow> keeps (mads_inv env s0) (silence_event old new)"
  unfolding silence_event_def by (intro keeps_mads; simp)

lemma standstill_pauses:
  assumes "sf_has ev_doorOpen s \<or> sf_has ev_seatbeltNotLatched s"
    "sf_wf env s" "ma_state (sf_mads s) \<noteq> MADS_paused"
  shows "pauses env s (run_block [
       silence_event ev_doorOpen evsp_silentDoorOpen,
       silence_event ev_seatbeltNotLatched evsp_silentSeatbeltNotLatched]) s"
  using assms(1)
proof
  assume "sf_has ev_doorOpen s"
  then show ?thesis
    by (intro pause_at [where n = 0 and k = ev_doorOpen]; simp; (intro keeps_mads silence_triggered assms)?;
        simp add: known_event_def assms)
next
  assume "sf_has ev_seatbeltNotLatched s"
  then show ?thesis
    by (intro pause_at [where n = 1 and k = ev_seatbeltNotLatched]; simp; (intro keeps_mads silence_triggered assms)?;
        simp add: known_event_def assms)
qed

lemma wrong_gear_pauses:
  assumes inv: "mads_inv_ev env ev_wrongGear s t" and "sf_has ev_wrongGear s" "ma_state (sf_mads s) \<noteq> MADS_paused"
  shows "pauses env s (run_block [replace_event ev_wrongGear evsp_silentWrongGear, transition_paused_state]) t"
  using silence_triggered [OF inv, of evsp_silentWrongGear] inv assms(2,3)
  by (simp add: silence_event_def when_do_def mads_inv_ev_def known_event_def)

lemma lateral_only_pauses:
  assumes c: "pause_condition CS s" and wf: "sf_wf env s" and np: "ma_state (sf_mads s) \<noteq> MADS_paused"
  shows "pauses env s (mads_lateral_only_events CS) s"
proof -
  have ped: "pedal_pressed_non_gas_pressed CS t = pedal_pressed_non_gas_pressed CS s \<and> sf_mads t = sf_mads s"
    if "mads_inv_ev env ev_pedalPressed s t" for t
    using that by (auto simp: pedal_pressed_non_gas_pressed_def mads_inv_ev_def mads_inv_def lists_onlyD)
  have gear: "sf_has ev_wrongGear t = sf_has ev_wrongGear s" if "mads_inv_ev env ev_wrongGear s t" for t
    using that by (simp add: mads_inv_ev_def)
  note tac = keeps_mads silence_triggered wf np
  from c consider (pedal) "ma_steering_mode_on_brake (sf_mads s) = PAUSE" "pedal_pressed_non_gas_pressed CS s"
    | (reverse) "sf_has ev_reverseGear s" | (hold) "sf_has ev_brakeHold s" | (park) "sf_has ev_parkBrake s"
    | (standstill) "cs_standstill CS" "sf_has ev_doorOpen s \<or> sf_has ev_seatbeltNotLatched s"
    | (wrong) "sf_has ev_wrongGear s" "cs_vEgo CS < 5/2 \<or> cs_gearShifter CS = Gear_reverse"
    by (auto simp: pause_condition_def)
  then show ?thesis
  proof cases
    case pedal
    show ?thesis unfolding mads_lateral_only_events_def
    proof (rule pause_at [where n = 5 and k = ev_pedalPressed], goal_cases)
      case (4 t)
      with pedal ped [OF 4] np show ?case by (simp add: pauses_when paused_triggered [OF 4])
    qed (simp add: wf; (intro tac)?; simp add: known_event_def)+
  next
    case reverse
    then show ?thesis unfolding mads_lateral_only_events_def
      by (intro pause_at [where n = 2 and k = ev_reverseGear]; simp; (intro tac)?; simp add: known_event_def)
  next
    case hold
    then show ?thesis unfolding mads_lateral_only_events_def
      by (intro pause_at [where n = 3 and k = ev_brakeHold]; simp; (intro tac)?; simp add: known_event_def)
  next
    case park
    then show ?thesis unfolding mads_lateral_only_events_def
      by (intro pause_at [where n = 4 and k = ev_parkBrake]; simp; (intro tac)?; simp add: known_event_def)
  next
    case standstill
    show ?thesis unfolding mads_lateral_only_events_def
    proof (subst append_Nil [symmetric], rule pause_first [OF wf], goal_cases)
      case 1
      show ?case by (rule pauses_when, rule standstill(1), rule standstill_pauses [OF standstill(2) wf np])
    qed (simp add: wf; (intro tac)?; simp add: known_event_def)
  next
    case wrong
    show ?thesis unfolding mads_lateral_only_events_def
    proof (rule pause_at [where n = 1 and k = ev_wrongGear], goal_cases)
      case (4 t)
      from wrong gear [OF 4] have c: "sf_has ev_wrongGear t \<and> (cs_vEgo CS < 5/2 \<or> cs_gearShifter CS = Gear_reverse)" by blast
      show ?case
        by (simp only: nth_Cons_Suc nth_Cons_0 One_nat_def, rule pauses_when, rule c, rule wrong_gear_pauses [OF 4 wrong(1) np])
    qed (simp add: wf; (intro tac)?; simp add: known_event_def)+
  qed
qed

section \<open>The methods of MADS\<close>

lemma keeps_weaken_blocks:
  "keeps (mads_inv env t) (mads_enable_events CS)"
  "keeps (mads_inv env t) (run_block (map (mads_button_events CS) bs))"
  "sf_wf env s \<Longrightarrow> \<exists>s'. mads_brake_events env CS s = Inr s' \<and> mads_inv env s s'"
proof -
  have weak: "keeps (mads_inv env t) f" if k: "\<And>s0. keeps (mads_inv_ev env ev_pedalPressed s0) f" for f
  proof
    fix s assume inv: "mads_inv env t s"
    then have "mads_inv_ev env ev_pedalPressed s s" by (simp add: mads_inv_def)
    from keepsD [OF k this] obtain s' where "f s = Inr s'" "mads_inv env s s'"
      by (auto simp: mads_inv_ev_def)
    with inv lists_only_trans [of t s s'] show "\<exists>s'. f s = Inr s' \<and> mads_inv env t s'"
      by (auto simp: mads_inv_def)
  qed
  show "keeps (mads_inv env t) (mads_enable_events CS)" by (rule weak [OF keeps_enable])
  show "keeps (mads_inv env t) (run_block (map (mads_button_events CS) bs))" by (rule weak [OF keeps_buttons])
  assume "sf_wf env s"
  then have "mads_inv_ev env ev_pedalPressed s s" by simp
  from brake_block [OF this, of CS] show "\<exists>s'. mads_brake_events env CS s = Inr s' \<and> mads_inv env s s'" by blast
qed

lemma mads_update_events_keeps:
  "\<exists>s'. mads_update_events env CS s = Inr s' \<and> mads_inv env s s'
    \<and> (ma_steering_mode_on_brake (sf_mads s) = DISENGAGE \<and> pedal_pressed_non_gas_pressed CS s \<and> ma_enabled (sf_mads s)
        \<longrightarrow> ev_has evsp_lkasDisable (sf_events_sp s'))"
  if wf: "sf_wf env s"
proof -
  have k: "keeps (mads_inv_ev env ev_pedalPressed s)
      (run_block [when_do (\<lambda>s. \<not> sf_enabled s \<and> ma_enabled (sf_mads s)) (mads_lateral_only_events CS),
        mads_enable_events CS, run_block (map (mads_button_events CS) (cs_buttonEvents CS))])"
    by (intro keeps_mads keeps_lateral_only keeps_enable keeps_buttons)
  have "mads_inv_ev env ev_pedalPressed s s" using wf by simp
  from keepsD [OF k this] obtain t where t: "run_block [when_do (\<lambda>s. \<not> sf_enabled s \<and> ma_enabled (sf_mads s)) (mads_lateral_only_events CS),
        mads_enable_events CS, run_block (map (mads_button_events CS) (cs_buttonEvents CS))] s = Inr t"
    "mads_inv_ev env ev_pedalPressed s t" by blast
  from brake_block [OF t(2), of CS] obtain s' where s': "mads_brake_events env CS t = Inr s'" "mads_inv env s s'"
    "ma_steering_mode_on_brake (sf_mads s) = DISENGAGE \<and> pedal_pressed_non_gas_pressed CS s \<and> ma_enabled (sf_mads s)
        \<longrightarrow> ev_has evsp_lkasDisable (sf_events_sp s')" by blast
  have "mads_update_events env CS s = bind_result (run_block [when_do (\<lambda>s. \<not> sf_enabled s \<and> ma_enabled (sf_mads s)) (mads_lateral_only_events CS),
        mads_enable_events CS, run_block (map (mads_button_events CS) (cs_buttonEvents CS))] s) (run_block [mads_brake_events env CS])"
    unfolding mads_update_events_def run_block_append [symmetric] by simp
  then have "mads_update_events env CS s = Inr s'" unfolding t(1) by (simp add: s'(1))
  with s' show ?thesis by blast
qed

lemma mads_update_events_pauses:
  assumes wf: "sf_wf env s" and lat: "\<not> sf_enabled s" "ma_enabled (sf_mads s)"
    and c: "pause_condition CS s" "ma_state (sf_mads s) \<noteq> MADS_paused"
  shows "pauses env s (mads_update_events env CS) s"
proof -
  have rest: "keeps (mads_inv env t) (run_block [mads_enable_events CS,
      run_block (map (mads_button_events CS) (cs_buttonEvents CS)), mads_brake_events env CS])" for t
  proof (intro keeps_mads keeps_weaken_blocks)
    show "keeps (mads_inv env t) (mads_brake_events env CS)"
    proof
      fix s assume "mads_inv env t s"
      with keeps_weaken_blocks(3) [of env s CS] lists_only_trans [of t s]
      show "\<exists>s'. mads_brake_events env CS s = Inr s' \<and> mads_inv env t s'" by (auto simp: mads_inv_def)
    qed
  qed
  show ?thesis unfolding mads_update_events_def
    by (subst append_Nil [symmetric], rule pause_first [OF wf _ rest], rule pauses_when)
      (use lat lateral_only_pauses [OF c(1) wf c(2)] in auto)
qed

lemma sf_wf_upd [simp]:
  "sf_wf env (s\<lparr>sf_enabled_prev := b\<rparr>) = sf_wf env s"
  "sf_wf env (mads_state_update env s) = sf_wf env s"
  by (simp_all add: sf_wf_def mads_state_update_def Let_def split_def)

lemma mads_state_update_simps:
  "sf_mads (mads_state_update env s) = (let r = mads_sm_update (mads_inputs_of env s) (ma_state (sf_mads s), sf_state_machine s) in
     (sf_mads s)\<lparr>ma_state := fst (fst r), ma_enabled := fst (snd r), ma_active := snd (snd r)\<rparr>)"
  "sf_state_machine (mads_state_update env s)
     = snd (fst (mads_sm_update (mads_inputs_of env s) (ma_state (sf_mads s), sf_state_machine s)))"
  "sf_enabled (mads_state_update env s) = sf_enabled s"
  "sf_events (mads_state_update env s) = sf_events s"
  "sf_events_sp (mads_state_update env s) = sf_events_sp s"
  by (simp_all add: mads_state_update_def Let_def split_def)

lemma mads_flags_ok_update: "mads_flags_ok (mads_state_update env s)"
  by (simp add: mads_flags_ok_def mads_state_update_simps Let_def mads_flags)

text \<open>\<open>update\<close> as one equation, for a system that is switched on.\<close>

lemma mads_update_eq:
  assumes "ma_enabled_toggle (sf_mads s)" "mads_update_events env CS s = Inr s'"
  shows "mads_update env CS s = Inr ((if \<not> cp_passive (sf_CP s') \<and> sf_initialized s' then mads_state_update env s' else s')
    \<lparr>sf_enabled_prev := sf_enabled s'\<rparr>)"
  using assms by (simp add: mads_update_def do_defs mads_state_update_simps)

lemma mads_update_total:
  assumes "sf_wf env s" "mads_flags_ok s"
  shows "\<exists>s'. mads_update env CS s = Inr s' \<and> sf_wf env s' \<and> mads_flags_ok s'
    \<and> sf_enabled s' = sf_enabled s \<and> sm_state (sf_state_machine s') = sm_state (sf_state_machine s)"
proof (cases "ma_enabled_toggle (sf_mads s)")
  case True
  from mads_update_events_keeps [OF assms(1), of CS] obtain t where t: "mads_update_events env CS s = Inr t" "mads_inv env s t" by blast
  then have "lists_only s t" "sf_wf env t" by (auto simp: mads_inv_def)
  note D = lists_onlyD [OF this(1)]
  let ?u = "(if \<not> cp_passive (sf_CP t) \<and> sf_initialized t then mads_state_update env t else t)\<lparr>sf_enabled_prev := sf_enabled t\<rparr>"
  have "mads_flags_ok ?u"
    using assms(2) D mads_flags_ok_update [of env t] by (auto simp: mads_flags_ok_def)
  moreover have "sf_wf env ?u" using \<open>sf_wf env t\<close> by simp
  moreover have "sf_enabled ?u = sf_enabled s \<and> sm_state (sf_state_machine ?u) = sm_state (sf_state_machine s)"
    using D by (simp add: mads_state_update_simps mads_frame)
  ultimately show ?thesis using mads_update_eq [OF True t(1)] by blast
next
  case False
  with assms show ?thesis by (simp add: mads_update_def when_do_def)
qed

lemma contains_user_disable_sp:
  "ev_has evsp_lkasDisable (sf_events_sp s) \<or> ev_has evsp_silentLkasDisable (sf_events_sp s)
     \<Longrightarrow> mi_contains (mads_inputs_of env s) USER_DISABLE"
  by (auto simp: mads_inputs_of_def contains_types)

lemma mads_brake_step:
  assumes wf: "sf_wf env s" "mads_flags_ok s" and on: "ma_enabled_toggle (sf_mads s)" "\<not> cp_passive (sf_CP s)" "sf_initialized s"
    and act: "ma_active (sf_mads s)" and brake: "pedal_pressed_non_gas_pressed CS s"
    and mode: "ma_steering_mode_on_brake (sf_mads s) = DISENGAGE"
  shows "\<exists>s'. mads_update env CS s = Inr s' \<and> \<not> ma_active (sf_mads s')"
proof -
  have st: "mads_is_active (ma_state (sf_mads s))" "ma_enabled (sf_mads s)"
    using wf(2) act by (auto simp: mads_flags_ok_def) (cases "ma_state (sf_mads s)"; simp)
  from mads_update_events_keeps [OF wf(1), of CS] mode brake st obtain t
    where t: "mads_update_events env CS s = Inr t" "mads_inv env s t" "ev_has evsp_lkasDisable (sf_events_sp t)" by blast
  from t(2) have "lists_only s t" by (simp add: mads_inv_def)
  note D = lists_onlyD [OF this]
  have "mi_contains (mads_inputs_of env t) USER_DISABLE" using t(3) contains_user_disable_sp by blast
  from mads_user_disable [OF this] mads_is_active_not_disabled [OF st(1)]
  have "\<not> ma_active (sf_mads (mads_state_update env t))"
    by (simp add: mads_state_update_simps Let_def mads_flags D)
  with mads_update_eq [OF on(1) t(1)] on(2,3) D show ?thesis by auto
qed

section \<open>Properties\<close>

lemma default_wf: "sf_wf test_env default_selfdrive"
  by (auto simp: sf_wf_def default_selfdrive_def Events_init_def EventsSP_init_def)

definition engaged_selfdrive :: "int \<Rightarrow> selfdrive" where
  "engaged_selfdrive mode = default_selfdrive\<lparr>sf_events := ev_add ev_pedalPressed (Events_init test_env),
     sf_mads := default_mads\<lparr>ma_enabled := True, ma_active := True, ma_state := MADS_enabled,
       ma_steering_mode_on_brake := mode\<rparr>\<rparr>"

lemma engaged_selfdrive_ok:
  "sf_wf test_env (engaged_selfdrive m)" "mads_flags_ok (engaged_selfdrive m)"
  "ma_enabled_toggle (sf_mads (engaged_selfdrive m))" "\<not> cp_passive (sf_CP (engaged_selfdrive m))"
  "sf_initialized (engaged_selfdrive m)" "\<not> sf_enabled (engaged_selfdrive m)" "ma_active (sf_mads (engaged_selfdrive m))"
  "pedal_pressed_non_gas_pressed default_cs (engaged_selfdrive m)"
  "ma_steering_mode_on_brake (sf_mads (engaged_selfdrive m)) = m"
  by (auto simp: sf_wf_def mads_flags_ok_def engaged_selfdrive_def default_selfdrive_def Events_init_def
      EventsSP_init_def default_mads_def default_msg_defs pedal_pressed_non_gas_pressed_def sf_has_def)

text \<open>
  MADS never raises: from well-formed event lists a whole cycle of \<open>update\<close> returns, the
  lists stay well formed, the flags agree with the state, and openpilot's own engagement is
  untouched.
\<close>

theorem mads_update_returns:
  assumes "sf_wf env s" "mads_flags_ok s"
  shows "\<exists>s'. mads_update env CS s = Inr s' \<and> sf_wf env s' \<and> mads_flags_ok s'
    \<and> sf_enabled s' = sf_enabled s \<and> sm_state (sf_state_machine s') = sm_state (sf_state_machine s)"
  using assms by (rule mads_update_total)

theorem mads_update_returns_witness:
  "\<exists>s'. mads_update test_env default_cs (engaged_selfdrive PAUSE) = Inr s' \<and> sf_wf test_env s' \<and> mads_flags_ok s'
    \<and> sf_enabled s' = sf_enabled (engaged_selfdrive PAUSE)
    \<and> sm_state (sf_state_machine s') = sm_state (sf_state_machine (engaged_selfdrive PAUSE))"
  by (rule mads_update_returns) (rule engaged_selfdrive_ok)+

text \<open>
  Pressing the brake while MADS is engaged: in the disengage mode MADS stops steering,
  whatever else happens in the cycle.
\<close>

theorem mads_brake_disengages:
  assumes wf: "sf_wf env s" "mads_flags_ok s" and on: "ma_enabled_toggle (sf_mads s)" "\<not> cp_passive (sf_CP s)" "sf_initialized s"
    and act: "ma_active (sf_mads s)" and brake: "pedal_pressed_non_gas_pressed CS s"
    and mode: "ma_steering_mode_on_brake (sf_mads s) = DISENGAGE"
  shows "\<exists>s'. mads_update env CS s = Inr s' \<and> \<not> ma_active (sf_mads s')"
  using assms by (rule mads_brake_step)

theorem mads_brake_disengages_witness:
  "\<exists>s'. mads_update test_env default_cs (engaged_selfdrive DISENGAGE) = Inr s' \<and> \<not> ma_active (sf_mads s')"
  by (rule mads_brake_disengages) (rule engaged_selfdrive_ok)+

text \<open>
  C12. While MADS steers on its own, a brake press in the pause mode, the reverse gear, brake
  hold, the park brake, an open door or unlatched seatbelt at standstill, or a wrong gear at low
  speed puts it in the paused state in the same cycle.
\<close>

theorem mads_pauses:
  assumes wf: "sf_wf env s" "mads_flags_ok s" and on: "ma_enabled_toggle (sf_mads s)" "\<not> cp_passive (sf_CP s)" "sf_initialized s"
    and lat: "\<not> sf_enabled s" "ma_active (sf_mads s)" and c: "pause_condition CS s"
  shows "\<exists>s'. mads_update env CS s = Inr s' \<and> ma_state (sf_mads s') = MADS_paused \<and> \<not> ma_active (sf_mads s')
    \<and> ma_enabled (sf_mads s')"
proof -
  have st: "mads_is_active (ma_state (sf_mads s))" "ma_enabled (sf_mads s)"
    using wf(2) lat(2) by (auto simp: mads_flags_ok_def) (cases "ma_state (sf_mads s)"; simp)
  note np = mads_is_active_not_disabled [OF st(1)]
  from mads_update_events_pauses [OF wf(1) lat(1) st(2) c] np obtain t
    where t: "mads_update_events env CS s = Inr t" "mads_inv env s t" "ev_has evsp_silentLkasDisable (sf_events_sp t)" by blast
  from t(2) have "lists_only s t" by (simp add: mads_inv_def)
  note D = lists_onlyD [OF this]
  have "mi_contains (mads_inputs_of env t) USER_DISABLE" using t(3) contains_user_disable_sp by blast
  from mads_user_disable [OF this] np t(3)
  have "ma_state (sf_mads (mads_state_update env t)) = MADS_paused"
    by (simp add: mads_state_update_simps Let_def D mads_inputs_of_def)
  moreover have "mads_flags_ok (mads_state_update env t)" by (rule mads_flags_ok_update)
  ultimately show ?thesis
    using mads_update_eq [OF on(1) t(1)] on(2,3) D by (auto simp: mads_flags_ok_def)
qed

theorem mads_pauses_witness:
  "\<exists>s'. mads_update test_env default_cs (engaged_selfdrive PAUSE) = Inr s' \<and> ma_state (sf_mads s') = MADS_paused
    \<and> \<not> ma_active (sf_mads s') \<and> ma_enabled (sf_mads s')"
  by (rule mads_pauses) (simp_all add: engaged_selfdrive_ok pause_condition_def)

text \<open>
  C15. MADS that is steering after a run of its state machine and was not before was asked to by
  an event of type \<open>ENABLE\<close> in a cycle without a \<open>NO_ENTRY\<close> event, and nothing asked it to
  disable since.
\<close>

theorem mads_engaged_by_request:
  assumes "\<not> mads_is_active st" "mads_is_active (fst (foldl (\<lambda>s i. fst (mads_sm_update i s)) (st, m) is))"
  shows "\<exists>xs i ys. is = xs @ i # ys \<and> mi_contains i ENABLE \<and> \<not> mi_contains i NO_ENTRY
    \<and> (\<forall>y\<in>set ys. \<not> mi_contains y USER_DISABLE \<and> \<not> mi_contains y IMMEDIATE_DISABLE)"
  using mads.engaged_trace [of "(st, m)" "is"] assms unfolding mads.run_def by auto

theorem mads_engaged_by_request_witness:
  "\<exists>xs i ys. [\<lparr>mi_contains = (\<lambda>t. t = ENABLE), mi_contains_in_list = False, mi_silent_disable = False, mi_selfdrive_enabled = False\<rparr>] = xs @ i # ys
    \<and> mi_contains i ENABLE \<and> \<not> mi_contains i NO_ENTRY
    \<and> (\<forall>y\<in>set ys. \<not> mi_contains y USER_DISABLE \<and> \<not> mi_contains y IMMEDIATE_DISABLE)"
  by (rule mads_engaged_by_request [of MADS_disabled StateMachine_init]) (simp_all add: mads_step_defs)

text \<open>
  A brake press does not keep MADS from engaging in the disengage mode: the check that
  should withdraw \<open>lkasEnable\<close> never succeeds, so the cycle with the pedal pressed and the LKAS
  button engages MADS.
\<close>

theorem mads_engages_under_brake:
  "\<exists>s'. mads_update test_env (default_cs\<lparr>cs_brakePressed := True,
       cs_buttonEvents := [\<lparr>be_type = BT_lkas, be_pressed = True\<rparr>],
       cs_cruiseState := default_cruise\<lparr>cr_available := True\<rparr>\<rparr>)
     (default_selfdrive\<lparr>sf_events := ev_add ev_pedalPressed (Events_init test_env)\<rparr>) = Inr s'
   \<and> ma_steering_mode_on_brake (sf_mads s') = DISENGAGE \<and> ma_active (sf_mads s')"
proof -
  have k: "EVENTS test_env ev_pedalPressed \<noteq> None" unfolding known_EVENTS by simp
  let ?ev = "ev_add ev_pedalPressed (Events_init test_env)"
  have ev: "set (ev_events ?ev) = {ev_pedalPressed}" "ev_counters ?ev ev_pedalPressed = Some 0"
    "ev_static_events ?ev = []" "ev_events (EventsSP_init test_env) = []"
    "ev_events (Events_init test_env) = []"
    using k by (simp_all add: Events_init_def EventsSP_init_def events_init_def)
  obtain v where v: "ev_remove ev_pedalPressed ?ev = Inr v" "ev_events v = []"
    using ev by (simp add: ev_remove_def ev_remove_gen_def Let_def Events_init_def events_init_def ev_add_def insort_right_eq_insort)
  show ?thesis
    by (simp add: mads_update_def mads_update_events_def mads_enable_events_def get_wrong_car_mode_def
        mads_button_events_def mads_brake_events_def dead_branch do_defs remove_event_def add_event_sp_def
        selfdrive_enable_events_def SET_SPEED_BUTTONS_def pedal_pressed_non_gas_pressed_def
        should_silent_lkas_enable_def sf_has_def ev_has_def ev v PAUSE_def DISENGAGE_def
        default_selfdrive_def default_mads_def default_msg_defs StateMachine_init_def
        mads_state_update_def mads_step_defs mads_inputs_of_def contains_types Let_def)
qed

end
