(* ===== verification/Cruise_Buttons.thy ===== *)
theory Cruise_Buttons
  imports Car_Types
begin

text \<open>
  Button timers of \<open>sunnypilot/selfdrive/car/cruise_ext.py\<close>, which \<open>VCruiseHelperSP\<close> and the
  intelligent cruise button management share, and the minimum set speed. A dict of timers is a
  list of pairs in the order of its keys. Each of the two classes lives in a process of its own,
  so the module's dict \<open>CRUISE_BUTTON_TIMER\<close> is not shared between them.
\<close>

type_synonym timers = "(button_type \<times> int) list"

definition CRUISE_BUTTON_TIMER :: timers where
  "CRUISE_BUTTON_TIMER = [(BT_decelCruise, 0), (BT_accelCruise, 0), (BT_setCruise, 0),
     (BT_resumeCruise, 0), (BT_cancel, 0), (BT_mainCruise, 0)]"

definition tick_timers :: "timers \<Rightarrow> timers" where
  "tick_timers ts = map (\<lambda>(k, n). (k, if n > 0 then n + 1 else n)) ts"

definition press_timer :: "timers \<Rightarrow> button_event \<Rightarrow> timers" where
  "press_timer ts b = map (\<lambda>(k, n). (k, if k = be_type b then (if be_pressed b then 1 else 0) else n)) ts"

definition update_manual_button_timers :: "car_state \<Rightarrow> timers \<Rightarrow> timers" where
  "update_manual_button_timers CS ts = foldl press_timer (tick_timers ts) (cs_buttonEvents CS)"

definition any_pressed :: "timers \<Rightarrow> bool" where
  "any_pressed ts = list_ex (\<lambda>(k, n). n > 0) ts"

definition timer_of :: "timers \<Rightarrow> button_type \<Rightarrow> int option" where
  "timer_of ts k = map_of ts k"

definition minimum_set_speed :: "bool \<Rightarrow> int" where
  "minimum_set_speed is_metric = (if is_metric then 30 else 20)"

lemma keys_press [simp]: "map fst (press_timer ts b) = map fst ts"
  by (simp add: press_timer_def split_def comp_def)

lemma keys_foldl_press [simp]: "map fst (foldl press_timer ts bs) = map fst ts"
  by (induction bs arbitrary: ts) simp_all

lemma keys_update_timers [simp]: "map fst (update_manual_button_timers CS ts) = map fst ts"
  by (simp add: update_manual_button_timers_def tick_timers_def split_def comp_def)

text \<open>A timer that runs counts the cycles since its press; a press starts it, a release stops it.\<close>

lemma map_of_map_pair: "map_of (map (\<lambda>(k, n). (k, f k n)) ts) k = map_option (f k) (map_of ts k)"
  by (induction ts) auto

lemma timer_press: "timer_of (press_timer ts b) k =
    map_option (\<lambda>n. if k = be_type b then (if be_pressed b then 1 else 0) else n) (timer_of ts k)"
  unfolding timer_of_def press_timer_def by (rule map_of_map_pair)

lemma timer_foldl_none:
  "\<forall>b\<in>set bs. be_type b \<noteq> k \<Longrightarrow> timer_of (foldl press_timer ts bs) k = timer_of ts k"
proof (induction bs arbitrary: ts)
  case (Cons b bs)
  then have "timer_of (foldl press_timer ts (b # bs)) k = timer_of (press_timer ts b) k" by simp
  also have "\<dots> = timer_of ts k" using Cons.prems by (cases "timer_of ts k") (auto simp: timer_press)
  finally show ?case .
qed simp

lemma timer_held:
  assumes "timer_of ts k = Some n" "0 < n" "\<forall>b\<in>set (cs_buttonEvents CS). be_type b \<noteq> k"
  shows "timer_of (update_manual_button_timers CS ts) k = Some (n + 1)"
  using assms timer_foldl_none [OF assms(3), of "tick_timers ts"]
  by (simp add: update_manual_button_timers_def) (simp add: timer_of_def tick_timers_def map_of_map_pair)

end
