(* ===== verification/Speed_Limit.thy ===== *)
theory Speed_Limit
  imports Params Events_SP_Table
begin

text \<open>
  \<open>sunnypilot/selfdrive/controls/lib/speed_limit\<close>: the constants and helpers of the speed
  limit feature (\<open>__init__.py\<close>, \<open>common.py\<close>, \<open>helpers.py\<close>). The members of the \<open>IntEnum\<close>s
  are their numbers.
\<close>

definition LIMIT_ADAPT_ACC :: real where "LIMIT_ADAPT_ACC = -1"
definition LIMIT_MAX_MAP_DATA_AGE :: real where "LIMIT_MAX_MAP_DATA_AGE = 10"

definition PARAMS_UPDATE_PERIOD :: real where "PARAMS_UPDATE_PERIOD = 3"

section \<open>common.py\<close>

definition Policy_car_state_only :: int where "Policy_car_state_only = 0"
definition Policy_map_data_only :: int where "Policy_map_data_only = 1"
definition Policy_car_state_priority :: int where "Policy_car_state_priority = 2"
definition Policy_map_data_priority :: int where "Policy_map_data_priority = 3"
definition Policy_combined :: int where "Policy_combined = 4"

definition OffsetType_off :: int where "OffsetType_off = 0"
definition OffsetType_fixed :: int where "OffsetType_fixed = 1"
definition OffsetType_percentage :: int where "OffsetType_percentage = 2"

definition Mode_off :: int where "Mode_off = 0"
definition Mode_information :: int where "Mode_information = 1"
definition Mode_warning :: int where "Mode_warning = 2"
definition Mode_assist :: int where "Mode_assist = 3"

lemmas policy_defs = Policy_car_state_only_def Policy_map_data_only_def Policy_car_state_priority_def
  Policy_map_data_priority_def Policy_combined_def
lemmas offset_type_defs = OffsetType_off_def OffsetType_fixed_def OffsetType_percentage_def
lemmas mode_defs = Mode_off_def Mode_information_def Mode_warning_def Mode_assist_def

section \<open>Enumerations of the plan\<close>

datatype sl_source = Source_none | Source_car | Source_map

datatype assist_state = SLA_disabled | SLA_inactive | SLA_preActive | SLA_pending | SLA_adapting | SLA_active

section \<open>helpers.py\<close>

definition speed_conv :: "bool \<Rightarrow> real" where
  "speed_conv is_metric = (if is_metric then MS_TO_KPH else MS_TO_MPH)"

definition compare_cluster_target :: "real \<Rightarrow> real \<Rightarrow> bool \<Rightarrow> bool \<times> bool" where
  "compare_cluster_target v_cruise_cluster target_set_speed is_metric =
     (let c = py_round (v_cruise_cluster * speed_conv is_metric);
          t = py_round (target_set_speed * speed_conv is_metric)
      in (c < t, c > t))"

definition set_speed_limit_assist_availability :: "(string \<Rightarrow> int) \<Rightarrow> car_params \<Rightarrow> car_params_sp \<Rightarrow> params \<Rightarrow> bool \<times> params" where
  "set_speed_limit_assist_availability dflt CP CP_SP p =
     (let is_release = get_bool p ''IsReleaseSpBranch'';
          disallow_in_release = (cp_brand CP = ''tesla'' \<and> is_release);
          always_disallow = (cp_brand CP = ''rivian'');
          allowed = (\<not> (disallow_in_release \<or> always_disallow)
                     \<and> \<not> (\<not> cp_openpilotLongitudinalControl CP \<and> cpsp_pcmCruiseSpeed CP_SP))
      in (allowed,
          if \<not> allowed \<and> get_int dflt p ''SpeedLimitMode'' = Mode_assist
          then p(''SpeedLimitMode'' \<mapsto> PInt Mode_warning) else p))"

text \<open>The feature is never in the assist mode where it is not allowed.\<close>

lemma availability_mode:
  assumes "\<not> fst (set_speed_limit_assist_availability dflt CP CP_SP p)"
  shows "get_int dflt (snd (set_speed_limit_assist_availability dflt CP CP_SP p)) ''SpeedLimitMode'' \<noteq> Mode_assist"
  using assms by (auto simp: set_speed_limit_assist_availability_def Let_def mode_defs)

lemma compare_cluster_target_exclusive: "\<not> (fst (compare_cluster_target c t m) \<and> snd (compare_cluster_target c t m))"
  by (simp add: compare_cluster_target_def Let_def)

end
