(* ===== verification/Speed_Limit_Assist.thy ===== *)
theory Speed_Limit_Assist
  imports Speed_Limit
begin

text \<open>
  \<open>speed_limit_assist.py\<close>: the class \<open>SpeedLimitAssist\<close>, with its two state machines, one
  for cars whose PCM drives openpilot's longitudinal control and one for all others. The value
  of \<open>time.monotonic()\<close> is an argument.
\<close>

section \<open>State\<close>

definition sla_is_active :: "assist_state \<Rightarrow> bool" where
  "sla_is_active st \<longleftrightarrow> st = SLA_active \<or> st = SLA_adapting"

definition sla_is_enabled :: "assist_state \<Rightarrow> bool" where
  "sla_is_enabled st \<longleftrightarrow> st = SLA_preActive \<or> st = SLA_pending \<or> sla_is_active st"

definition DISABLED_GUARD_PERIOD :: real where "DISABLED_GUARD_PERIOD = 1/2"

definition PRE_ACTIVE_GUARD_PERIOD :: "bool \<Rightarrow> real" where
  "PRE_ACTIVE_GUARD_PERIOD pcm = (if pcm then 15 else 5)"

definition LIMIT_SPEED_OFFSET_TH :: real where "LIMIT_SPEED_OFFSET_TH = -1"
definition SLA_V_CRUISE_UNSET :: real where "SLA_V_CRUISE_UNSET = 255"
definition CRUISE_BUTTON_CONFIRM_HOLD :: real where "CRUISE_BUTTON_CONFIRM_HOLD = 1/2"

definition CRUISE_BUTTONS_PLUS :: "button_type list" where
  "CRUISE_BUTTONS_PLUS = [BT_accelCruise, BT_resumeCruise]"

definition CRUISE_BUTTONS_MINUS :: "button_type list" where
  "CRUISE_BUTTONS_MINUS = [BT_decelCruise, BT_setCruise]"

text \<open>\<open>ModelConstants.T_IDXS[CONTROL_N]\<close>.\<close>

definition T_IDXS :: "nat \<Rightarrow> real" where
  "T_IDXS i = 10 * (real i / 32) ^ 2"

text \<open>The whole list.\<close>

definition MODEL_T_IDXS :: "real list" where "MODEL_T_IDXS = map T_IDXS [0..<33]"

definition CONTROL_N :: nat where "CONTROL_N = 17"

record sla =
  sa_CP :: car_params
  sa_CP_SP :: car_params_sp
  sa_frame :: int
  sa_long_engaged_timer :: int
  sa_pre_active_timer :: int
  sa_is_metric :: bool
  sa_enabled :: bool
  sa_long_enabled :: bool
  sa_long_enabled_prev :: bool
  sa_is_enabled :: bool
  sa_is_active :: bool
  sa_output_v_target :: real
  sa_output_a_target :: real
  sa_v_ego :: real
  sa_a_ego :: real
  sa_v_offset :: real
  sa_target_set_speed_conv :: int
  sa_prev_target_set_speed_conv :: int
  sa_v_cruise_cluster :: real
  sa_v_cruise_cluster_prev :: real
  sa_v_cruise_cluster_conv :: int
  sa_prev_v_cruise_cluster_conv :: int
  sa_has_speed_limit :: bool
  sa_speed_limit :: real
  sa_speed_limit_final_last :: real
  sa_speed_limit_prev :: real
  sa_speed_limit_final_last_conv :: int
  sa_prev_speed_limit_final_last_conv :: int
  sa_distance :: real
  sa_state :: assist_state
  sa_state_prev :: assist_state
  sa_pcm_op_long :: bool
  sa_plus_hold :: real
  sa_minus_hold :: real
  sa_last_carstate_ts :: real

definition sla_read_params :: "(string \<Rightarrow> int) \<Rightarrow> params \<Rightarrow> sla \<Rightarrow> sla \<times> params" where
  "sla_read_params dflt p s =
     (let p' = snd (set_speed_limit_assist_availability dflt (sa_CP s) (sa_CP_SP s) p)
      in (s\<lparr>sa_is_metric := get_bool p ''IsMetric'',
            sa_enabled := (get_int dflt p' ''SpeedLimitMode'' = Mode_assist)\<rparr>, p'))"

definition sla_init :: "(string \<Rightarrow> int) \<Rightarrow> car_params \<Rightarrow> car_params_sp \<Rightarrow> params \<Rightarrow> sla \<times> params" where
  "sla_init dflt CP CP_SP p = sla_read_params dflt p
     \<lparr>sa_CP = CP, sa_CP_SP = CP_SP, sa_frame = -1, sa_long_engaged_timer = 0, sa_pre_active_timer = 0,
      sa_is_metric = False, sa_enabled = False, sa_long_enabled = False, sa_long_enabled_prev = False,
      sa_is_enabled = False, sa_is_active = False, sa_output_v_target = SLA_V_CRUISE_UNSET,
      sa_output_a_target = 0, sa_v_ego = 0, sa_a_ego = 0, sa_v_offset = 0, sa_target_set_speed_conv = 0,
      sa_prev_target_set_speed_conv = 0, sa_v_cruise_cluster = 0, sa_v_cruise_cluster_prev = 0,
      sa_v_cruise_cluster_conv = 0, sa_prev_v_cruise_cluster_conv = 0, sa_has_speed_limit = False,
      sa_speed_limit = 0, sa_speed_limit_final_last = 0, sa_speed_limit_prev = 0,
      sa_speed_limit_final_last_conv = 0, sa_prev_speed_limit_final_last_conv = 0, sa_distance = 0,
      sa_state = SLA_disabled, sa_state_prev = SLA_disabled,
      sa_pcm_op_long = (cp_openpilotLongitudinalControl CP \<and> cp_pcmCruise CP),
      sa_plus_hold = 0, sa_minus_hold = 0, sa_last_carstate_ts = 0\<rparr>"

section \<open>Properties of the class\<close>

definition speed_limit_changed :: "sla \<Rightarrow> bool" where
  "speed_limit_changed s \<longleftrightarrow> sa_has_speed_limit s \<and> sa_speed_limit s \<noteq> sa_speed_limit_prev s"

definition v_cruise_cluster_changed :: "sla \<Rightarrow> bool" where
  "v_cruise_cluster_changed s \<longleftrightarrow> sa_v_cruise_cluster_conv s \<noteq> sa_prev_v_cruise_cluster_conv s"

definition target_set_speed_confirmed :: "sla \<Rightarrow> bool" where
  "target_set_speed_confirmed s \<longleftrightarrow> sa_v_cruise_cluster_conv s = sa_target_set_speed_conv s"

definition below_confirm_speed_threshold :: "sla \<Rightarrow> bool" where
  "below_confirm_speed_threshold s \<longleftrightarrow> sa_v_cruise_cluster_conv s < CONFIRM_SPEED_THRESHOLD (sa_is_metric s)"

definition apply_confirm_speed_threshold :: "sla \<Rightarrow> bool" where
  "apply_confirm_speed_threshold s =
     (if below_confirm_speed_threshold s then True
      else sa_speed_limit_final_last_conv s < CONFIRM_SPEED_THRESHOLD (sa_is_metric s))"

section \<open>Methods\<close>

definition update_active_event :: "sla \<Rightarrow> events \<Rightarrow> events" where
  "update_active_event s = ev_add (if below_confirm_speed_threshold s then evsp_speedLimitChanged else evsp_speedLimitActive)"

definition get_v_target_from_control :: "sla \<Rightarrow> real" where
  "get_v_target_from_control s =
     (if sa_has_speed_limit s \<and> sa_pcm_op_long s \<and> sa_is_enabled s then sa_speed_limit_final_last s
      else if sa_has_speed_limit s \<and> \<not> sa_pcm_op_long s \<and> sa_is_active s then sa_speed_limit_final_last s
      else SLA_V_CRUISE_UNSET)"

definition get_a_target_from_control :: "sla \<Rightarrow> real" where
  "get_a_target_from_control s = sa_a_ego s"

definition sla_update_params :: "(string \<Rightarrow> int) \<Rightarrow> params \<Rightarrow> sla \<Rightarrow> sla \<times> params" where
  "sla_update_params dflt p s =
     (if sa_frame s mod py_int (PARAMS_UPDATE_PERIOD / DT_MDL) = 0 then sla_read_params dflt p s else (s, p))"

definition sla_button_hold :: "real \<Rightarrow> sla \<Rightarrow> button_event \<Rightarrow> sla" where
  "sla_button_hold now s b =
     (if \<not> be_pressed b then
        if be_type b \<in> set CRUISE_BUTTONS_PLUS
        then s\<lparr>sa_plus_hold := max (sa_plus_hold s) (now + CRUISE_BUTTON_CONFIRM_HOLD)\<rparr>
        else if be_type b \<in> set CRUISE_BUTTONS_MINUS
        then s\<lparr>sa_minus_hold := max (sa_minus_hold s) (now + CRUISE_BUTTON_CONFIRM_HOLD)\<rparr>
        else s
      else s)"

definition sla_update_car_state :: "real \<Rightarrow> car_state \<Rightarrow> sla \<Rightarrow> sla" where
  "sla_update_car_state now CS s = foldl (sla_button_hold now) (s\<lparr>sa_last_carstate_ts := now\<rparr>) (cs_buttonEvents CS)"

definition get_button_release :: "real \<Rightarrow> bool \<Rightarrow> bool \<Rightarrow> sla \<Rightarrow> bool \<times> sla" where
  "get_button_release now req_plus req_minus s =
     (if req_plus \<and> now \<le> sa_plus_hold s then (True, s\<lparr>sa_plus_hold := 0\<rparr>)
      else if req_minus \<and> now \<le> sa_minus_hold s then (True, s\<lparr>sa_minus_hold := 0\<rparr>)
      else (False, s\<lparr>sa_plus_hold := (if now > sa_plus_hold s then 0 else sa_plus_hold s),
                     sa_minus_hold := (if now > sa_minus_hold s then 0 else sa_minus_hold s)\<rparr>))"

definition sla_update_calculations :: "real \<Rightarrow> sla \<Rightarrow> sla" where
  "sla_update_calculations v_cruise_cluster s =
     (let conv = speed_conv (sa_is_metric s);
          final_conv = py_round (sa_speed_limit_final_last s * conv);
          (cst_low, cst_high) = PCM_LONG_REQUIRED_MAX_SET_SPEED (sa_is_metric s);
          required_max = (if sa_has_speed_limit s \<and> final_conv < CONFIRM_SPEED_THRESHOLD (sa_is_metric s)
                          then cst_low else cst_high);
          required_max_conv = py_round (required_max * conv)
      in s\<lparr>sa_v_cruise_cluster := v_cruise_cluster,
           sa_v_offset := sa_speed_limit_final_last s - sa_v_ego s,
           sa_speed_limit_final_last_conv := final_conv,
           sa_v_cruise_cluster_conv := py_round (v_cruise_cluster * conv),
           sa_target_set_speed_conv := (if sa_pcm_op_long s then required_max_conv else final_conv)\<rparr>)"

definition get_current_acceleration_as_target :: "sla \<Rightarrow> real" where
  "get_current_acceleration_as_target s = sa_a_ego s"

definition get_active_state_target_acceleration :: "sla \<Rightarrow> real" where
  "get_active_state_target_acceleration s = sa_v_offset s / T_IDXS CONTROL_N"

definition get_adapting_state_target_acceleration :: "sla \<Rightarrow> real" where
  "get_adapting_state_target_acceleration s =
     (if sa_distance s > 0 then (sa_speed_limit_final_last s ^ 2 - sa_v_ego s ^ 2) / (2 * sa_distance s)
      else sa_v_offset s / T_IDXS CONTROL_N)"

definition update_confirmed_state :: "sla \<Rightarrow> sla" where
  "update_confirmed_state s =
     (if sa_has_speed_limit s then
        if \<not> sa_pcm_op_long s \<and> sa_v_offset s < LIMIT_SPEED_OFFSET_TH then s\<lparr>sa_state := SLA_adapting\<rparr>
        else s\<lparr>sa_state := SLA_active\<rparr>
      else s\<lparr>sa_state := SLA_pending\<rparr>)"

definition update_non_pcm_long_confirmed_state :: "real \<Rightarrow> sla \<Rightarrow> bool \<times> sla" where
  "update_non_pcm_long_confirmed_state now s =
     (if target_set_speed_confirmed s then (True, s)
      else if sa_state s \<noteq> SLA_preActive then (False, s)
      else let (req_plus, req_minus) =
             compare_cluster_target (sa_v_cruise_cluster s) (sa_speed_limit_final_last s) (sa_is_metric s)
           in get_button_release now req_plus req_minus s)"

definition to_pre_active :: "sla \<Rightarrow> sla" where
  "to_pre_active s = s\<lparr>sa_state := SLA_preActive,
     sa_pre_active_timer := py_int (PRE_ACTIVE_GUARD_PERIOD (sa_pcm_op_long s) / DT_MDL)\<rparr>"

definition sla_tick :: "sla \<Rightarrow> sla" where
  "sla_tick s = s\<lparr>sa_long_engaged_timer := max 0 (sa_long_engaged_timer s - 1),
     sa_pre_active_timer := max 0 (sa_pre_active_timer s - 1)\<rparr>"

definition restart_engaged_timer :: "sla \<Rightarrow> sla" where
  "restart_engaged_timer s = s\<lparr>sa_long_engaged_timer := py_int (DISABLED_GUARD_PERIOD / DT_MDL)\<rparr>"

definition state_machine_pcm_op_long :: "sla \<Rightarrow> sla" where
  "state_machine_pcm_op_long s0 =
     (let s = sla_tick s0 in
      if sa_state s \<noteq> SLA_disabled then
        if \<not> sa_long_enabled s \<or> \<not> sa_enabled s then s\<lparr>sa_state := SLA_disabled\<rparr>
        else (case sa_state s of
            SLA_active \<Rightarrow>
              if v_cruise_cluster_changed s then s\<lparr>sa_state := SLA_inactive\<rparr>
              else if speed_limit_changed s \<and> apply_confirm_speed_threshold s then to_pre_active s
              else s
          | SLA_adapting \<Rightarrow>
              if v_cruise_cluster_changed s then s\<lparr>sa_state := SLA_inactive\<rparr>
              else if speed_limit_changed s \<and> apply_confirm_speed_threshold s then to_pre_active s
              else if sa_v_offset s \<ge> LIMIT_SPEED_OFFSET_TH then s\<lparr>sa_state := SLA_active\<rparr>
              else s
          | SLA_pending \<Rightarrow>
              if target_set_speed_confirmed s then update_confirmed_state s
              else if speed_limit_changed s then to_pre_active s
              else s
          | SLA_preActive \<Rightarrow>
              if target_set_speed_confirmed s then update_confirmed_state s
              else if sa_pre_active_timer s \<le> 0 then s\<lparr>sa_state := SLA_inactive\<rparr>
              else s
          | _ \<Rightarrow> s)
      else if sa_long_enabled s \<and> sa_enabled s then
        if \<not> sa_long_enabled_prev s \<or> v_cruise_cluster_changed s then restart_engaged_timer s
        else if sa_long_engaged_timer s \<le> 0 then
          if target_set_speed_confirmed s then update_confirmed_state s
          else if sa_has_speed_limit s then to_pre_active s
          else s\<lparr>sa_state := SLA_pending\<rparr>
        else s
      else s)"

definition state_machine_non_pcm_long :: "real \<Rightarrow> sla \<Rightarrow> sla" where
  "state_machine_non_pcm_long now s0 =
     (let s = sla_tick s0 in
      if sa_state s \<noteq> SLA_disabled then
        if \<not> sa_long_enabled s \<or> \<not> sa_enabled s then s\<lparr>sa_state := SLA_disabled\<rparr>
        else (case sa_state s of
            SLA_active \<Rightarrow>
              if v_cruise_cluster_changed s then s\<lparr>sa_state := SLA_inactive\<rparr>
              else if speed_limit_changed s \<and> apply_confirm_speed_threshold s then to_pre_active s
              else s
          | SLA_preActive \<Rightarrow>
              (let (confirmed, s1) = update_non_pcm_long_confirmed_state now s in
               if confirmed then s1\<lparr>sa_state := SLA_active\<rparr>
               else if sa_pre_active_timer s1 \<le> 0 then s1\<lparr>sa_state := SLA_inactive\<rparr>
               else s1)
          | SLA_inactive \<Rightarrow>
              if speed_limit_changed s then to_pre_active s
              else (let (confirmed, s1) = update_non_pcm_long_confirmed_state now s in
                    if confirmed then s1\<lparr>sa_state := SLA_active\<rparr> else s1)
          | _ \<Rightarrow> s)
      else if sa_long_enabled s \<and> sa_enabled s then
        if \<not> sa_long_enabled_prev s \<or> v_cruise_cluster_changed s then restart_engaged_timer s
        else if sa_long_engaged_timer s \<le> 0 then
          (let (confirmed, s1) = update_non_pcm_long_confirmed_state now s in
           if confirmed then s1\<lparr>sa_state := SLA_active\<rparr>
           else if sa_has_speed_limit s1 then to_pre_active s1
           else s1\<lparr>sa_state := SLA_inactive\<rparr>)
        else s
      else s)"

definition sla_update_events :: "sla \<Rightarrow> events \<Rightarrow> events" where
  "sla_update_events s ev0 =
     (let ev1 = (if sa_state s = SLA_preActive then ev_add evsp_speedLimitPreActive ev0 else ev0);
          ev2 = (if sa_state s = SLA_pending \<and> sa_state_prev s \<noteq> SLA_pending
                 then ev_add evsp_speedLimitPending ev1 else ev1)
      in if sa_is_active s then
           if \<not> sla_is_active (sa_state_prev s) then update_active_event s ev2
           else if sa_speed_limit s \<noteq> sa_speed_limit_prev s then
             if sa_speed_limit_prev s \<le> 0 then update_active_event s ev2
             else if sa_speed_limit_prev s > 0 \<and> sa_speed_limit s > 0 then update_active_event s ev2
             else ev2
           else ev2
         else ev2)"

record sla_inputs =
  si_long_enabled :: bool
  si_v_ego :: real
  si_a_ego :: real
  si_v_cruise_cluster :: real
  si_speed_limit :: real
  si_speed_limit_final_last :: real
  si_has_speed_limit :: bool
  si_distance :: real
  si_now :: real

text \<open>The assignments at the start of \<open>update\<close>, up to the state machine.\<close>

definition sla_prepare :: "(string \<Rightarrow> int) \<Rightarrow> params \<Rightarrow> sla_inputs \<Rightarrow> sla \<Rightarrow> sla \<times> params" where
  "sla_prepare dflt p i s =
     (let s1 = s\<lparr>sa_long_enabled := si_long_enabled i, sa_v_ego := si_v_ego i, sa_a_ego := si_a_ego i,
                 sa_has_speed_limit := si_has_speed_limit i, sa_speed_limit := si_speed_limit i,
                 sa_speed_limit_final_last := si_speed_limit_final_last i, sa_distance := si_distance i\<rparr>;
          (s2, p') = sla_update_params dflt p s1;
          s3 = sla_update_calculations (si_v_cruise_cluster i) s2
      in (s3\<lparr>sa_state_prev := sa_state s3\<rparr>, p'))"

definition sla_step :: "real \<Rightarrow> sla \<Rightarrow> sla" where
  "sla_step now s =
     (let s1 = (if sa_pcm_op_long s then state_machine_pcm_op_long s else state_machine_non_pcm_long now s)
      in s1\<lparr>sa_is_enabled := sla_is_enabled (sa_state s1), sa_is_active := sla_is_active (sa_state s1)\<rparr>)"

definition sla_finish :: "sla \<Rightarrow> sla" where
  "sla_finish s = s\<lparr>sa_speed_limit_prev := sa_speed_limit s, sa_v_cruise_cluster_prev := sa_v_cruise_cluster s,
     sa_long_enabled_prev := sa_long_enabled s, sa_prev_target_set_speed_conv := sa_target_set_speed_conv s,
     sa_prev_v_cruise_cluster_conv := sa_v_cruise_cluster_conv s,
     sa_prev_speed_limit_final_last_conv := sa_speed_limit_final_last_conv s,
     sa_output_v_target := get_v_target_from_control s, sa_output_a_target := get_a_target_from_control s,
     sa_frame := sa_frame s + 1\<rparr>"

definition sla_update :: "(string \<Rightarrow> int) \<Rightarrow> params \<Rightarrow> sla_inputs \<Rightarrow> events \<Rightarrow> sla \<Rightarrow> sla \<times> events \<times> params" where
  "sla_update dflt p i ev s =
     (let (s1, p') = sla_prepare dflt p i s;
          s2 = sla_step (si_now i) s1
      in (sla_finish s2, sla_update_events s2 ev, p'))"

section \<open>Facts\<close>

lemmas sla_step_defs = state_machine_pcm_op_long_def state_machine_non_pcm_long_def sla_tick_def
  restart_engaged_timer_def to_pre_active_def update_confirmed_state_def
  update_non_pcm_long_confirmed_state_def get_button_release_def Let_def

lemma sla_step_flags:
  "sa_is_active (sla_step now s) = sla_is_active (sa_state (sla_step now s))"
  "sa_is_enabled (sla_step now s) = sla_is_enabled (sa_state (sla_step now s))"
  by (simp_all add: sla_step_def Let_def)

lemma pcm_frame:
  "sa_long_enabled (state_machine_pcm_op_long s) = sa_long_enabled s"
  "sa_enabled (state_machine_pcm_op_long s) = sa_enabled s"
  "sa_pcm_op_long (state_machine_pcm_op_long s) = sa_pcm_op_long s"
  "sa_has_speed_limit (state_machine_pcm_op_long s) = sa_has_speed_limit s"
  "sa_speed_limit_final_last (state_machine_pcm_op_long s) = sa_speed_limit_final_last s"
  "sa_v_cruise_cluster_conv (state_machine_pcm_op_long s) = sa_v_cruise_cluster_conv s"
  "sa_target_set_speed_conv (state_machine_pcm_op_long s) = sa_target_set_speed_conv s"
  "sa_v_cruise_cluster (state_machine_pcm_op_long s) = sa_v_cruise_cluster s"
  "sa_is_metric (state_machine_pcm_op_long s) = sa_is_metric s"
  by (cases "sa_state s"; simp add: sla_step_defs)+

lemma non_pcm_frame:
  "sa_long_enabled (state_machine_non_pcm_long now s) = sa_long_enabled s"
  "sa_enabled (state_machine_non_pcm_long now s) = sa_enabled s"
  "sa_pcm_op_long (state_machine_non_pcm_long now s) = sa_pcm_op_long s"
  "sa_has_speed_limit (state_machine_non_pcm_long now s) = sa_has_speed_limit s"
  "sa_speed_limit_final_last (state_machine_non_pcm_long now s) = sa_speed_limit_final_last s"
  "sa_v_cruise_cluster_conv (state_machine_non_pcm_long now s) = sa_v_cruise_cluster_conv s"
  "sa_target_set_speed_conv (state_machine_non_pcm_long now s) = sa_target_set_speed_conv s"
  "sa_v_cruise_cluster (state_machine_non_pcm_long now s) = sa_v_cruise_cluster s"
  "sa_is_metric (state_machine_non_pcm_long now s) = sa_is_metric s"
  by (cases "sa_state s"; auto simp: sla_step_defs split: prod.splits)+

lemma sla_step_frame:
  "sa_long_enabled (sla_step now s) = sa_long_enabled s"
  "sa_enabled (sla_step now s) = sa_enabled s"
  "sa_pcm_op_long (sla_step now s) = sa_pcm_op_long s"
  "sa_has_speed_limit (sla_step now s) = sa_has_speed_limit s"
  "sa_speed_limit_final_last (sla_step now s) = sa_speed_limit_final_last s"
  "sa_v_cruise_cluster_conv (sla_step now s) = sa_v_cruise_cluster_conv s"
  "sa_target_set_speed_conv (sla_step now s) = sa_target_set_speed_conv s"
  "sa_v_cruise_cluster (sla_step now s) = sa_v_cruise_cluster s"
  "sa_is_metric (sla_step now s) = sa_is_metric s"
  by (simp_all add: sla_step_def Let_def pcm_frame non_pcm_frame)

lemma sla_step_off:
  "\<not> sa_long_enabled s \<or> \<not> sa_enabled s \<Longrightarrow> sa_state (sla_step now s) = SLA_disabled"
  by (cases "sa_state s") (auto simp: sla_step_def sla_step_defs)

text \<open>A release of a button in the direction of the limit, within the half second it is held.\<close>

definition confirmed_by_button :: "real \<Rightarrow> sla \<Rightarrow> bool" where
  "confirmed_by_button now s \<longleftrightarrow>
     (let (req_plus, req_minus) = compare_cluster_target (sa_v_cruise_cluster s) (sa_speed_limit_final_last s) (sa_is_metric s)
      in req_plus \<and> now \<le> sa_plus_hold s \<or> req_minus \<and> now \<le> sa_minus_hold s)"

lemma non_pcm_confirm:
  "fst (update_non_pcm_long_confirmed_state now s) \<longleftrightarrow>
     target_set_speed_confirmed s \<or> sa_state s = SLA_preActive \<and> confirmed_by_button now s"
  by (auto simp: update_non_pcm_long_confirmed_state_def confirmed_by_button_def get_button_release_def split: prod.splits)

lemma tick_simps [simp]:
  "sa_state (sla_tick s) = sa_state s" "target_set_speed_confirmed (sla_tick s) = target_set_speed_confirmed s"
  "confirmed_by_button now (sla_tick s) = confirmed_by_button now s"
  "sa_long_enabled (sla_tick s) = sa_long_enabled s" "sa_enabled (sla_tick s) = sa_enabled s"
  by (simp_all add: sla_tick_def target_set_speed_confirmed_def confirmed_by_button_def)

lemma confirm_keeps_state [simp]:
  "sa_state (snd (update_non_pcm_long_confirmed_state now s)) = sa_state s"
  by (auto simp: update_non_pcm_long_confirmed_state_def get_button_release_def split: prod.splits)

lemma confirm_keeps_state_eq:
  "update_non_pcm_long_confirmed_state now s = (b, s') \<Longrightarrow> sa_state s' = sa_state s"
  using confirm_keeps_state [of now s] by simp

lemma sla_step_activates:
  assumes "\<not> sla_is_active (sa_state s)" "sla_is_active (sa_state (sla_step now s))"
  shows "target_set_speed_confirmed s \<or> sa_state s = SLA_preActive \<and> \<not> sa_pcm_op_long s \<and> confirmed_by_button now s"
proof (cases "sa_pcm_op_long s")
  case True
  with assms have "sla_is_active (sa_state (state_machine_pcm_op_long s))" by (simp add: sla_step_def Let_def)
  with assms(1) have "target_set_speed_confirmed (sla_tick s)"
    by (cases "sa_state s") (auto simp: state_machine_pcm_op_long_def sla_is_active_def Let_def
        to_pre_active_def restart_engaged_timer_def split: if_splits)
  then show ?thesis by simp
next
  case False
  with assms have "sla_is_active (sa_state (state_machine_non_pcm_long now s))" by (simp add: sla_step_def Let_def)
  with assms(1) have "fst (update_non_pcm_long_confirmed_state now (sla_tick s))"
    by (cases "sa_state s") (auto simp: state_machine_non_pcm_long_def sla_is_active_def Let_def
        to_pre_active_def restart_engaged_timer_def split: if_splits prod.splits dest!: confirm_keeps_state_eq)
  with False show ?thesis by (simp add: non_pcm_confirm)
qed

lemma sla_prepare_simps [simp]:
  "sa_state (fst (sla_prepare dflt p i s)) = sa_state s"
  "sa_long_enabled (fst (sla_prepare dflt p i s)) = si_long_enabled i"
  "sa_has_speed_limit (fst (sla_prepare dflt p i s)) = si_has_speed_limit i"
  "sa_speed_limit_final_last (fst (sla_prepare dflt p i s)) = si_speed_limit_final_last i"
  "sa_pcm_op_long (fst (sla_prepare dflt p i s)) = sa_pcm_op_long s"
  "sa_plus_hold (fst (sla_prepare dflt p i s)) = sa_plus_hold s"
  "sa_minus_hold (fst (sla_prepare dflt p i s)) = sa_minus_hold s"
  "sa_pre_active_timer (fst (sla_prepare dflt p i s)) = sa_pre_active_timer s"
  by (auto simp: sla_prepare_def Let_def split_def sla_update_params_def sla_read_params_def sla_update_calculations_def)

lemma sla_update_fst: "fst (sla_update dflt p i ev s) = sla_finish (sla_step (si_now i) (fst (sla_prepare dflt p i s)))"
  by (simp add: sla_update_def Let_def split_def)

lemma sla_finish_simps [simp]:
  "sa_state (sla_finish s) = sa_state s" "sa_is_active (sla_finish s) = sa_is_active s"
  "sa_is_enabled (sla_finish s) = sa_is_enabled s" "sa_long_enabled (sla_finish s) = sa_long_enabled s"
  "sa_enabled (sla_finish s) = sa_enabled s" "sa_output_v_target (sla_finish s) = get_v_target_from_control s"
  "target_set_speed_confirmed (sla_finish s) = target_set_speed_confirmed s"
  "sa_pcm_op_long (sla_finish s) = sa_pcm_op_long s"
  by (simp_all add: sla_finish_def target_set_speed_confirmed_def)

section \<open>Properties\<close>

text \<open>
  After every cycle the flags of the assist agree with its state, it is enabled only with
  longitudinal control engaged and the feature in the assist mode, and it asks for a speed only
  when there is a limit and it is active (enabled, for PCM cars): then for the last limit with
  its offset, otherwise for the unset value.
\<close>

theorem assist_output:
  "let s' = fst (sla_update dflt p i ev s) in
     sa_is_active s' = sla_is_active (sa_state s') \<and> sa_is_enabled s' = sla_is_enabled (sa_state s')
     \<and> (sa_is_enabled s' \<longrightarrow> si_long_enabled i \<and> sa_enabled s')
     \<and> sa_output_v_target s' = (if si_has_speed_limit i \<and> (if sa_pcm_op_long s then sa_is_enabled s' else sa_is_active s')
          then si_speed_limit_final_last i else SLA_V_CRUISE_UNSET)"
proof -
  let ?s1 = "fst (sla_prepare dflt p i s)"
  have "sla_is_enabled (sa_state (sla_step (si_now i) ?s1)) \<longrightarrow> sa_long_enabled ?s1 \<and> sa_enabled ?s1"
  proof (rule ccontr)
    assume n: "\<not> ?thesis"
    then have "sa_state (sla_step (si_now i) ?s1) = SLA_disabled" using sla_step_off [of ?s1 "si_now i"] by blast
    with n show False by (simp add: sla_is_enabled_def sla_is_active_def)
  qed
  then show ?thesis
    by (simp add: sla_update_fst Let_def sla_step_flags sla_step_frame get_v_target_from_control_def)
qed

text \<open>A driver at the speed of the limit who has just engaged the longitudinal control.\<close>

definition test_sla :: sla where
  "test_sla = (fst (sla_init (\<lambda>_. 0) default_cp default_cp_sp Map.empty))\<lparr>sa_frame := 1, sa_is_metric := True,
     sa_enabled := True, sa_long_enabled_prev := True, sa_prev_v_cruise_cluster_conv := 72\<rparr>"

definition test_sla_inputs :: sla_inputs where
  "test_sla_inputs = \<lparr>si_long_enabled = True, si_v_ego = 20, si_a_ego = 0, si_v_cruise_cluster = 20,
     si_speed_limit = 20, si_speed_limit_final_last = 20, si_has_speed_limit = True, si_distance = 0, si_now = 0\<rparr>"

theorem assist_output_witness:
  "let s' = fst (sla_update (\<lambda>_. 0) Map.empty test_sla_inputs (events_init (\<lambda>_. None)) test_sla) in
     sa_is_active s' = sla_is_active (sa_state s') \<and> sa_is_enabled s' = sla_is_enabled (sa_state s')
     \<and> (sa_is_enabled s' \<longrightarrow> si_long_enabled test_sla_inputs \<and> sa_enabled s')
     \<and> sa_output_v_target s' = (if si_has_speed_limit test_sla_inputs \<and> (if sa_pcm_op_long test_sla then sa_is_enabled s' else sa_is_active s')
          then si_speed_limit_final_last test_sla_inputs else SLA_V_CRUISE_UNSET)"
  by (rule assist_output)

text \<open>
  C21. The assist never takes over the set speed by itself: when it becomes active in a cycle,
  the driver's set speed is the required one, or (without PCM) a button in the direction of the
  limit was released within the last half second while the confirmation was being asked for.
\<close>

theorem assist_needs_confirmation:
  assumes "\<not> sla_is_active (sa_state s)" "sla_is_active (sa_state (fst (sla_update dflt p i ev s)))"
  shows "sa_v_cruise_cluster_conv (fst (sla_update dflt p i ev s)) = sa_target_set_speed_conv (fst (sla_update dflt p i ev s))
    \<or> sa_state s = SLA_preActive \<and> \<not> sa_pcm_op_long s
      \<and> (let (plus, minus) = compare_cluster_target (si_v_cruise_cluster i) (si_speed_limit_final_last i)
               (sa_is_metric (fst (sla_update dflt p i ev s)))
         in plus \<and> si_now i \<le> sa_plus_hold s \<or> minus \<and> si_now i \<le> sa_minus_hold s)"
proof -
  let ?s1 = "fst (sla_prepare dflt p i s)"
  have c: "sa_v_cruise_cluster ?s1 = si_v_cruise_cluster i"
    by (simp add: sla_prepare_def Let_def split_def sla_update_calculations_def)
  from sla_step_activates [of ?s1 "si_now i"] assms
  have "target_set_speed_confirmed ?s1 \<or> sa_state s = SLA_preActive \<and> \<not> sa_pcm_op_long s \<and> confirmed_by_button (si_now i) ?s1"
    by (simp add: sla_update_fst)
  then show ?thesis
    by (auto simp: sla_update_fst sla_finish_def target_set_speed_confirmed_def sla_step_frame confirmed_by_button_def c)
qed

lemma test_sla_activates:
  "\<not> sla_is_active (sa_state test_sla)"
  "sla_is_active (sa_state (fst (sla_update (\<lambda>_. 0) Map.empty test_sla_inputs (events_init (\<lambda>_. None)) test_sla)))"
proof -
  have r: "py_round (20 * speed_conv True) = 72"
    using py_round_of_int [of 72] by (simp add: speed_conv_def MS_TO_KPH_def)
  show "\<not> sla_is_active (sa_state test_sla)"
    by (simp add: test_sla_def sla_is_active_def sla_init_def sla_read_params_def Let_def)
  show "sla_is_active (sa_state (fst (sla_update (\<lambda>_. 0) Map.empty test_sla_inputs (events_init (\<lambda>_. None)) test_sla)))"
    by (simp add: test_sla_def test_sla_inputs_def sla_update_def sla_prepare_def sla_init_def sla_read_params_def
        sla_update_params_def PARAMS_UPDATE_PERIOD_def DT_MDL_def sla_update_calculations_def r Let_def split_def
        default_msg_defs sla_step_def state_machine_non_pcm_long_def sla_tick_def v_cruise_cluster_changed_def
        update_non_pcm_long_confirmed_state_def target_set_speed_confirmed_def sla_finish_def sla_is_active_def)
qed

theorem assist_needs_confirmation_witness:
  "let s' = fst (sla_update (\<lambda>_. 0) Map.empty test_sla_inputs (events_init (\<lambda>_. None)) test_sla) in
   sa_v_cruise_cluster_conv s' = sa_target_set_speed_conv s'
    \<or> sa_state test_sla = SLA_preActive \<and> \<not> sa_pcm_op_long test_sla
      \<and> (let (plus, minus) = compare_cluster_target (si_v_cruise_cluster test_sla_inputs)
               (si_speed_limit_final_last test_sla_inputs) (sa_is_metric s')
         in plus \<and> si_now test_sla_inputs \<le> sa_plus_hold test_sla \<or> minus \<and> si_now test_sla_inputs \<le> sa_minus_hold test_sla)"
  unfolding Let_def [of "fst _"] by (rule assist_needs_confirmation [OF test_sla_activates])

end
