(* ===== verification/Cruise.thy ===== *)
theory Cruise
  imports Cruise_Buttons Speed_Limit_Assist
begin

text \<open>
  \<open>selfdrive/car/cruise.py\<close> and \<open>sunnypilot/selfdrive/car/cruise_ext.py\<close>: the set speed of
  the cruise control. Speeds are in km/h; \<open>x % d\<close> on floats is \<open>py_fmod\<close> on reals.
\<close>

section \<open>Constants\<close>

definition V_CRUISE_MIN :: real where "V_CRUISE_MIN = 8"
definition V_CRUISE_MAX :: real where "V_CRUISE_MAX = 145"
definition V_CRUISE_UNSET :: real where "V_CRUISE_UNSET = 255"
definition V_CRUISE_INITIAL :: real where "V_CRUISE_INITIAL = 40"
definition V_CRUISE_INITIAL_EXPERIMENTAL_MODE :: real where "V_CRUISE_INITIAL_EXPERIMENTAL_MODE = 105"
definition IMPERIAL_INCREMENT :: real where "IMPERIAL_INCREMENT = py_round1 MPH_TO_KPH"
definition CRUISE_LONG_PRESS :: int where "CRUISE_LONG_PRESS = 50"

lemmas v_cruise_constants = V_CRUISE_MIN_def V_CRUISE_MAX_def V_CRUISE_UNSET_def V_CRUISE_INITIAL_def
  V_CRUISE_INITIAL_EXPERIMENTAL_MODE_def

definition py_fmod :: "real \<Rightarrow> real \<Rightarrow> real" where
  "py_fmod x d = x - d * of_int \<lfloor>x / d\<rfloor>"

text \<open>The two dicts over the buttons; only their two keys are looked up.\<close>

definition cruise_nearest :: "button_type \<Rightarrow> real \<Rightarrow> int" where
  "cruise_nearest b x = (if b = BT_accelCruise then \<lceil>x\<rceil> else \<lfloor>x\<rfloor>)"

definition cruise_interval_sign :: "button_type \<Rightarrow> real" where
  "cruise_interval_sign b = (if b = BT_accelCruise then 1 else -1)"

section \<open>State\<close>

record change_state =
  chg_standstill :: bool
  chg_enabled :: bool

record v_cruise =
  vc_CP :: car_params
  vc_CP_SP :: car_params_sp
  vc_kph :: real
  vc_cluster_kph :: real
  vc_kph_last :: real
  vc_button_timers :: timers
  vc_button_change_states :: "button_type \<Rightarrow> change_state"
  vc_min :: real
  vc_enabled_prev :: bool
  vc_custom_acc_enabled :: bool
  vc_short_increment :: int
  vc_long_increment :: int
  vc_enable_button_timers :: timers
  vc_sla_state :: assist_state
  vc_prev_sla_state :: assist_state
  vc_has_speed_limit :: bool
  vc_speed_limit_final_last :: real
  vc_speed_limit_final_last_kph :: real
  vc_prev_speed_limit_final_last_kph :: real
  vc_req_plus :: bool
  vc_req_minus :: bool

definition read_custom_set_speed_params :: "(string \<Rightarrow> int) \<Rightarrow> params \<Rightarrow> v_cruise \<Rightarrow> v_cruise" where
  "read_custom_set_speed_params dflt p s = s\<lparr>vc_custom_acc_enabled := get_bool p ''CustomAccIncrementsEnabled'',
     vc_short_increment := get_int dflt p ''CustomAccShortPressIncrement'',
     vc_long_increment := get_int dflt p ''CustomAccLongPressIncrement''\<rparr>"

definition v_cruise_init :: "(string \<Rightarrow> int) \<Rightarrow> car_params \<Rightarrow> car_params_sp \<Rightarrow> params \<Rightarrow> v_cruise" where
  "v_cruise_init dflt CP CP_SP p = read_custom_set_speed_params dflt p
     \<lparr>vc_CP = CP, vc_CP_SP = CP_SP, vc_kph = V_CRUISE_UNSET, vc_cluster_kph = V_CRUISE_UNSET, vc_kph_last = 0,
      vc_button_timers = [(BT_decelCruise, 0), (BT_accelCruise, 0)],
      vc_button_change_states = (\<lambda>_. \<lparr>chg_standstill = False, chg_enabled = False\<rparr>),
      vc_min = 0, vc_enabled_prev = False, vc_custom_acc_enabled = False, vc_short_increment = 0,
      vc_long_increment = 0, vc_enable_button_timers = CRUISE_BUTTON_TIMER,
      vc_sla_state = SLA_disabled, vc_prev_sla_state = SLA_disabled, vc_has_speed_limit = False,
      vc_speed_limit_final_last = 0, vc_speed_limit_final_last_kph = 0,
      vc_prev_speed_limit_final_last_kph = 0, vc_req_plus = False, vc_req_minus = False\<rparr>"

section \<open>cruise_ext.py\<close>

definition update_v_cruise_delta :: "v_cruise \<Rightarrow> bool \<Rightarrow> real \<Rightarrow> bool \<times> real" where
  "update_v_cruise_delta s long_press delta =
     (if \<not> vc_custom_acc_enabled s then (long_press, delta * (if long_press then 5 else 1))
      else
        let short = clip (vc_short_increment s) 1 10; long = clip (vc_long_increment s) 1 10;
            actual = (if long_press then long else short)
        in (actual = 5 \<or> actual = 10, delta * of_int actual))"

definition get_minimum_set_speed :: "bool \<Rightarrow> v_cruise \<Rightarrow> v_cruise" where
  "get_minimum_set_speed is_metric s =
     (if cpsp_pcmCruiseSpeed (vc_CP_SP s) then s\<lparr>vc_min := V_CRUISE_MIN\<rparr>
      else s\<lparr>vc_min := of_int (minimum_set_speed is_metric)\<rparr>)"

definition update_enabled_state :: "car_state \<Rightarrow> bool \<Rightarrow> v_cruise \<Rightarrow> bool \<times> v_cruise" where
  "update_enabled_state CS enabled s =
     (if \<not> cpsp_pcmCruiseSpeed (vc_CP_SP s) then
        let ts = update_manual_button_timers CS (vc_enable_button_timers s);
            s1 = s\<lparr>vc_enable_button_timers := ts\<rparr>; button_pressed = any_pressed ts in
        if enabled \<and> \<not> vc_enabled_prev s1 then (False, s1\<lparr>vc_enabled_prev := \<not> button_pressed\<rparr>)
        else if \<not> enabled then (False, s1\<lparr>vc_enabled_prev := enabled\<rparr>)
        else (enabled \<and> vc_enabled_prev s1, s1)
      else (enabled, s))"

record plan_sp =
  pl_speedLimitValid :: bool
  pl_speedLimitLastValid :: bool
  pl_speedLimitFinalLast :: real
  pl_assist_state :: assist_state

definition update_speed_limit_assist :: "bool \<Rightarrow> plan_sp \<Rightarrow> v_cruise \<Rightarrow> v_cruise" where
  "update_speed_limit_assist is_metric pl s =
     (let (plus, minus) = compare_cluster_target (vc_cluster_kph s * KPH_TO_MS) (pl_speedLimitFinalLast pl) is_metric
      in s\<lparr>vc_has_speed_limit := pl_speedLimitValid pl \<or> pl_speedLimitLastValid pl,
           vc_speed_limit_final_last := pl_speedLimitFinalLast pl,
           vc_speed_limit_final_last_kph := pl_speedLimitFinalLast pl * MS_TO_KPH,
           vc_sla_state := pl_assist_state pl, vc_req_plus := plus, vc_req_minus := minus\<rparr>)"

definition speed_limit_final_last_changed :: "v_cruise \<Rightarrow> bool" where
  "speed_limit_final_last_changed s \<longleftrightarrow> vc_has_speed_limit s
     \<and> vc_speed_limit_final_last_kph s \<noteq> vc_prev_speed_limit_final_last_kph s"

definition pre_active_confirmed :: "v_cruise \<Rightarrow> button_type \<Rightarrow> bool" where
  "pre_active_confirmed s b \<longleftrightarrow>
     (vc_sla_state s = SLA_preActive \<or> vc_prev_sla_state s = SLA_preActive)
     \<and> (b = BT_decelCruise \<and> vc_req_minus s \<or> b = BT_accelCruise \<and> vc_req_plus s)"

definition sla_v_cruise_non_pcm :: "v_cruise \<Rightarrow> v_cruise" where
  "sla_v_cruise_non_pcm s =
     (let s1 = (if sla_is_active (vc_sla_state s)
                   \<and> (\<not> sla_is_active (vc_prev_sla_state s) \<or> speed_limit_final_last_changed s)
                then s\<lparr>vc_kph := clip (py_round1 (vc_speed_limit_final_last_kph s)) (vc_min s) V_CRUISE_MAX\<rparr> else s)
      in s1\<lparr>vc_prev_sla_state := vc_sla_state s1,
            vc_prev_speed_limit_final_last_kph := vc_speed_limit_final_last_kph s1\<rparr>)"

section \<open>cruise.py\<close>

definition v_cruise_initialized :: "v_cruise \<Rightarrow> bool" where
  "v_cruise_initialized s \<longleftrightarrow> vc_kph s \<noteq> V_CRUISE_UNSET"

text \<open>
  Which button acts in this cycle: the first release of a speed button among the events, unless
  it ends a long press; without a release, a timer at a multiple of the long press.
\<close>

datatype button_action = No_action | Released button_type | Held button_type

fun find_release :: "timers \<Rightarrow> button_event list \<Rightarrow> button_event option" where
  "find_release ts [] = None"
| "find_release ts (b # bs) =
     (if timer_of ts (be_type b) \<noteq> None \<and> \<not> be_pressed b then Some b else find_release ts bs)"

fun find_held :: "timers \<Rightarrow> button_type option" where
  "find_held [] = None"
| "find_held ((k, n) # ts) = (if n \<noteq> 0 \<and> n mod CRUISE_LONG_PRESS = 0 then Some k else find_held ts)"

definition button_action :: "car_state \<Rightarrow> v_cruise \<Rightarrow> button_action" where
  "button_action CS s =
     (case find_release (vc_button_timers s) (cs_buttonEvents CS) of
        Some b \<Rightarrow>
          (case timer_of (vc_button_timers s) (be_type b) of
             Some n \<Rightarrow> if n > CRUISE_LONG_PRESS then No_action else Released (be_type b)
           | None \<Rightarrow> No_action)
      | None \<Rightarrow> (case find_held (vc_button_timers s) of None \<Rightarrow> No_action | Some k \<Rightarrow> Held k))"

text \<open>The change of the set speed, once the button and the kind of press are known.\<close>

definition apply_button :: "car_state \<Rightarrow> bool \<Rightarrow> bool \<Rightarrow> button_type \<Rightarrow> v_cruise \<Rightarrow> v_cruise" where
  "apply_button CS is_metric long_press0 b s =
     (let cruise_standstill = (chg_standstill (vc_button_change_states s b) \<or> cr_standstill (cs_cruiseState CS)) in
      if b = BT_accelCruise \<and> cruise_standstill then s
      else if \<not> chg_enabled (vc_button_change_states s b) then s
      else if pre_active_confirmed s b then s
      else
        let (long_press, delta) = update_v_cruise_delta s long_press0 (if is_metric then 1 else IMPERIAL_INCREMENT);
            v = (if long_press \<and> py_fmod (vc_kph s) delta \<noteq> 0
                 then of_int (cruise_nearest b (vc_kph s / delta)) * delta
                 else vc_kph s + delta * cruise_interval_sign b);
            v' = (if cs_gasPressed CS \<and> (b = BT_decelCruise \<or> b = BT_setCruise)
                  then max v (cs_vEgo CS * MS_TO_KPH) else v)
        in s\<lparr>vc_kph := clip (py_round1 v') (vc_min s) V_CRUISE_MAX\<rparr>)"

definition update_v_cruise_non_pcm :: "car_state \<Rightarrow> bool \<Rightarrow> bool \<Rightarrow> v_cruise \<Rightarrow> v_cruise" where
  "update_v_cruise_non_pcm CS enabled is_metric s =
     (if \<not> enabled then s
      else case button_action CS s of
        No_action \<Rightarrow> s
      | Released b \<Rightarrow> apply_button CS is_metric False b s
      | Held b \<Rightarrow> apply_button CS is_metric True b s)"

definition note_change :: "car_state \<Rightarrow> bool \<Rightarrow> v_cruise \<Rightarrow> button_event \<Rightarrow> v_cruise" where
  "note_change CS enabled s b =
     (if timer_of (vc_button_timers s) (be_type b) \<noteq> None then
        s\<lparr>vc_button_timers := press_timer (vc_button_timers s) b,
          vc_button_change_states := (vc_button_change_states s)(be_type b :=
            \<lparr>chg_standstill = cr_standstill (cs_cruiseState CS), chg_enabled = enabled\<rparr>)\<rparr>
      else s)"

definition update_button_timers :: "car_state \<Rightarrow> bool \<Rightarrow> v_cruise \<Rightarrow> v_cruise" where
  "update_button_timers CS enabled s =
     foldl (note_change CS enabled) (s\<lparr>vc_button_timers := tick_timers (vc_button_timers s)\<rparr>) (cs_buttonEvents CS)"

definition update_v_cruise :: "car_state \<Rightarrow> bool \<Rightarrow> bool \<Rightarrow> v_cruise \<Rightarrow> v_cruise" where
  "update_v_cruise CS enabled is_metric s =
     (let s1 = get_minimum_set_speed is_metric (s\<lparr>vc_kph_last := vc_kph s\<rparr>) in
      if cr_available (cs_cruiseState CS) then
        let (en, s2) = update_enabled_state CS enabled s1 in
        if \<not> cp_pcmCruise (vc_CP s2) \<or> (\<not> cpsp_pcmCruiseSpeed (vc_CP_SP s2) \<and> en) then
          let s3 = sla_v_cruise_non_pcm (update_v_cruise_non_pcm CS en is_metric s2)
          in update_button_timers CS enabled (s3\<lparr>vc_cluster_kph := vc_kph s3\<rparr>)
        else if cr_speed (cs_cruiseState CS) = 0 then s2\<lparr>vc_kph := V_CRUISE_UNSET, vc_cluster_kph := V_CRUISE_UNSET\<rparr>
        else if cr_speed (cs_cruiseState CS) = -1 then s2\<lparr>vc_kph := -1, vc_cluster_kph := -1\<rparr>
        else s2\<lparr>vc_kph := cr_speed (cs_cruiseState CS) * MS_TO_KPH,
                vc_cluster_kph := cr_speedCluster (cs_cruiseState CS) * MS_TO_KPH\<rparr>
      else s1\<lparr>vc_kph := V_CRUISE_UNSET, vc_cluster_kph := V_CRUISE_UNSET\<rparr>)"

definition initialize_v_cruise :: "car_state \<Rightarrow> bool \<Rightarrow> bool \<Rightarrow> v_cruise \<Rightarrow> v_cruise" where
  "initialize_v_cruise CS experimental_mode dynamic_experimental_control s =
     (if cp_pcmCruise (vc_CP s) then s
      else
        let initial = (if experimental_mode \<and> \<not> dynamic_experimental_control
                       then V_CRUISE_INITIAL_EXPERIMENTAL_MODE else V_CRUISE_INITIAL);
            resume = list_ex (\<lambda>b. be_type b \<in> {BT_accelCruise, BT_resumeCruise}) (cs_buttonEvents CS);
            v = (if resume \<and> v_cruise_initialized s then vc_kph_last s
                 else of_int (py_round (clip (cs_vEgo CS * MS_TO_KPH) initial V_CRUISE_MAX)))
        in s\<lparr>vc_kph := v, vc_cluster_kph := v\<rparr>)"

text \<open>\<open>Car.state_update\<close> in \<open>card.py\<close>: the cycle of the helper, which gives \<open>CS.vCruise\<close>.\<close>

record card_inputs =
  ki_CS :: car_state
  ki_CS_prev :: car_state
  ki_enabled :: bool
  ki_enabled_prev :: bool
  ki_is_metric :: bool
  ki_experimental_mode :: bool
  ki_dynamic_experimental_control :: bool
  ki_plan :: plan_sp

definition card_v_cruise :: "card_inputs \<Rightarrow> v_cruise \<Rightarrow> v_cruise" where
  "card_v_cruise i s =
     (let s1 = update_speed_limit_assist (ki_is_metric i) (ki_plan i) s;
          s2 = update_v_cruise (ki_CS i) (ki_enabled i) (ki_is_metric i) s1
      in if ki_enabled i \<and> \<not> ki_enabled_prev i
         then initialize_v_cruise (ki_CS_prev i) (ki_experimental_mode i) (ki_dynamic_experimental_control i) s2
         else s2)"

section \<open>Facts\<close>

definition valid_speed :: "real \<Rightarrow> bool" where
  "valid_speed v \<longleftrightarrow> v = V_CRUISE_UNSET \<or> V_CRUISE_MIN \<le> v \<and> v \<le> V_CRUISE_MAX"

lemma clip_valid: "V_CRUISE_MIN \<le> lo \<Longrightarrow> valid_speed (clip x lo V_CRUISE_MAX)"
  by (auto simp: valid_speed_def clip_def v_cruise_constants)

lemma min_speed_ok: "V_CRUISE_MIN \<le> vc_min (get_minimum_set_speed m s)"
  by (simp add: get_minimum_set_speed_def minimum_set_speed_def v_cruise_constants)

lemma vc_frame [simp]:
  "vc_CP (get_minimum_set_speed m s) = vc_CP s" "vc_kph (get_minimum_set_speed m s) = vc_kph s"
  "vc_kph_last (get_minimum_set_speed m s) = vc_kph_last s"
  "vc_CP (snd (update_enabled_state CS en s)) = vc_CP s" "vc_kph (snd (update_enabled_state CS en s)) = vc_kph s"
  "vc_kph_last (snd (update_enabled_state CS en s)) = vc_kph_last s" "vc_min (snd (update_enabled_state CS en s)) = vc_min s"
  "vc_CP (sla_v_cruise_non_pcm s) = vc_CP s" "vc_kph_last (sla_v_cruise_non_pcm s) = vc_kph_last s"
  "vc_min (sla_v_cruise_non_pcm s) = vc_min s"
  "vc_CP (apply_button CS m lp b s) = vc_CP s" "vc_kph_last (apply_button CS m lp b s) = vc_kph_last s"
  "vc_min (apply_button CS m lp b s) = vc_min s"
  "vc_CP (update_speed_limit_assist m pl s) = vc_CP s" "vc_kph (update_speed_limit_assist m pl s) = vc_kph s"
  by (simp_all add: get_minimum_set_speed_def update_enabled_state_def sla_v_cruise_non_pcm_def apply_button_def
      update_speed_limit_assist_def Let_def split_def)

lemma non_pcm_frame_v [simp]:
  "vc_CP (update_v_cruise_non_pcm CS en m s) = vc_CP s" "vc_kph_last (update_v_cruise_non_pcm CS en m s) = vc_kph_last s"
  "vc_min (update_v_cruise_non_pcm CS en m s) = vc_min s"
  by (simp_all add: update_v_cruise_non_pcm_def split: button_action.split)

lemma timers_frame [simp]:
  "vc_CP (update_button_timers CS en s) = vc_CP s" "vc_kph (update_button_timers CS en s) = vc_kph s"
  "vc_kph_last (update_button_timers CS en s) = vc_kph_last s" "vc_cluster_kph (update_button_timers CS en s) = vc_cluster_kph s"
proof -
  have "vc_CP (foldl (note_change CS en) t bs) = vc_CP t \<and> vc_kph (foldl (note_change CS en) t bs) = vc_kph t
    \<and> vc_kph_last (foldl (note_change CS en) t bs) = vc_kph_last t
    \<and> vc_cluster_kph (foldl (note_change CS en) t bs) = vc_cluster_kph t" for t bs
    by (induction bs arbitrary: t) (simp_all add: note_change_def)
  then show "vc_CP (update_button_timers CS en s) = vc_CP s" "vc_kph (update_button_timers CS en s) = vc_kph s"
    "vc_kph_last (update_button_timers CS en s) = vc_kph_last s" "vc_cluster_kph (update_button_timers CS en s) = vc_cluster_kph s"
    by (simp_all add: update_button_timers_def)
qed

lemma non_pcm_valid:
  assumes "valid_speed (vc_kph s)" "V_CRUISE_MIN \<le> vc_min s"
  shows "valid_speed (vc_kph (update_v_cruise_non_pcm CS en m s))"
proof -
  have "valid_speed (vc_kph (apply_button CS m lp b s))" for lp b
    using assms by (simp add: apply_button_def Let_def split_def clip_valid)
  with assms(1) show ?thesis by (simp add: update_v_cruise_non_pcm_def split: button_action.split)
qed

lemma sla_valid:
  "valid_speed (vc_kph s) \<Longrightarrow> V_CRUISE_MIN \<le> vc_min s \<Longrightarrow> valid_speed (vc_kph (sla_v_cruise_non_pcm s))"
  by (simp add: sla_v_cruise_non_pcm_def Let_def clip_valid)

lemma update_v_cruise_valid:
  assumes "\<not> cp_pcmCruise (vc_CP s)" "valid_speed (vc_kph s)"
  shows "valid_speed (vc_kph (update_v_cruise CS en m s)) \<and> vc_kph_last (update_v_cruise CS en m s) = vc_kph s
    \<and> vc_CP (update_v_cruise CS en m s) = vc_CP s"
proof -
  let ?s1 = "get_minimum_set_speed m (s\<lparr>vc_kph_last := vc_kph s\<rparr>)"
  let ?s2 = "snd (update_enabled_state CS en ?s1)" and ?en = "fst (update_enabled_state CS en ?s1)"
  have "V_CRUISE_MIN \<le> vc_min ?s2" "valid_speed (vc_kph ?s2)" using assms(2) by (simp_all add: min_speed_ok)
  then have "valid_speed (vc_kph (update_v_cruise_non_pcm CS ?en m ?s2))" by (rule non_pcm_valid [rotated])
  then have "valid_speed (vc_kph (sla_v_cruise_non_pcm (update_v_cruise_non_pcm CS ?en m ?s2)))"
    by (rule sla_valid) (simp add: min_speed_ok)
  moreover have "valid_speed V_CRUISE_UNSET" by (simp add: valid_speed_def)
  ultimately show ?thesis using assms(1) by (simp add: update_v_cruise_def Let_def split_def)
qed

lemma initialize_valid:
  assumes "valid_speed (vc_kph s)" "valid_speed (vc_kph_last s)"
  shows "valid_speed (vc_kph (initialize_v_cruise CS x d s))"
proof -
  have "valid_speed (of_int (py_round (clip v lo V_CRUISE_MAX)))" if "lo = 40 \<or> lo = 105" for v lo
  proof -
    have "(40::real) \<le> clip v lo V_CRUISE_MAX" "clip v lo V_CRUISE_MAX \<le> 145"
      using that by (auto simp: clip_def v_cruise_constants)
    then have "40 \<le> py_round (clip v lo V_CRUISE_MAX)" "py_round (clip v lo V_CRUISE_MAX) \<le> 145"
      using py_round_ge_int [of 40] py_round_le_int [of _ 145] by auto
    then show ?thesis by (simp add: valid_speed_def v_cruise_constants)
  qed
  with assms show ?thesis
    by (simp add: initialize_v_cruise_def Let_def V_CRUISE_INITIAL_def V_CRUISE_INITIAL_EXPERIMENTAL_MODE_def)
qed

lemma initialize_frame [simp]: "vc_CP (initialize_v_cruise CS x d s) = vc_CP s"
  by (simp add: initialize_v_cruise_def Let_def)

lemma py_fmod_int: "0 < d \<Longrightarrow> py_fmod (of_int k) (of_int d) = of_int (k mod d)"
  by (simp add: py_fmod_def floor_divide_of_int_eq minus_div_mult_eq_mod [symmetric] algebra_simps flip: of_int_mult of_int_diff)

lemma py_round1_int [simp]: "py_round1 (of_int k) = of_int k"
  using py_round_of_int [of "10 * k"] by (simp add: py_round1_def)

section \<open>Properties\<close>

text \<open>
  C19. Without PCM cruise the set speed of \<open>card\<close> is, in every cycle and whatever the buttons,
  the speed limit assist and the custom increments, unset or between 8 and 145 km/h.
\<close>

theorem set_speed_in_range:
  assumes "\<not> cp_pcmCruise (vc_CP s)" "valid_speed (vc_kph s)"
  shows "valid_speed (vc_kph (foldl (\<lambda>s i. card_v_cruise i s) s is))"
proof -
  have step: "valid_speed (vc_kph (card_v_cruise i s)) \<and> vc_CP (card_v_cruise i s) = vc_CP s"
    if "\<not> cp_pcmCruise (vc_CP s)" "valid_speed (vc_kph s)" for i s
  proof -
    let ?s2 = "update_v_cruise (ki_CS i) (ki_enabled i) (ki_is_metric i)
      (update_speed_limit_assist (ki_is_metric i) (ki_plan i) s)"
    have "valid_speed (vc_kph ?s2) \<and> vc_kph_last ?s2 = vc_kph s \<and> vc_CP ?s2 = vc_CP s"
      using update_v_cruise_valid [of "update_speed_limit_assist (ki_is_metric i) (ki_plan i) s"] that by simp
    with that(2) show ?thesis by (cases "ki_enabled i") (simp_all add: card_v_cruise_def Let_def initialize_valid)
  qed
  show ?thesis using assms by (induction "is" arbitrary: s) (simp_all add: step)
qed

theorem set_speed_in_range_witness:
  "valid_speed (vc_kph (foldl (\<lambda>s i. card_v_cruise i s) (v_cruise_init (\<lambda>_. 1) default_cp default_cp_sp Map.empty)
     (replicate 3 \<lparr>ki_CS = default_cs, ki_CS_prev = default_cs, ki_enabled = True, ki_enabled_prev = False,
        ki_is_metric = True, ki_experimental_mode = False, ki_dynamic_experimental_control = False,
        ki_plan = \<lparr>pl_speedLimitValid = False, pl_speedLimitLastValid = False, pl_speedLimitFinalLast = 0,
          pl_assist_state = SLA_disabled\<rparr>\<rparr>)))"
  by (rule set_speed_in_range)
    (simp_all add: v_cruise_init_def read_custom_set_speed_params_def default_msg_defs valid_speed_def)

text \<open>
  The buttons in metric units without custom increments: a short press changes an integral
  set speed by one, a hold goes to the next multiple of five in the direction of the button,
  within the range of set speeds.
\<close>

theorem button_changes_speed:
  assumes "vc_kph s = of_int k" "\<not> vc_custom_acc_enabled s" "chg_enabled (vc_button_change_states s b)"
    "b = BT_accelCruise \<or> b = BT_decelCruise" "\<not> pre_active_confirmed s b" "\<not> cs_gasPressed CS"
    "b = BT_accelCruise \<longrightarrow> \<not> chg_standstill (vc_button_change_states s b) \<and> \<not> cr_standstill (cs_cruiseState CS)"
    "button_action CS s = Released b \<or> button_action CS s = Held b"
  shows "vc_kph (update_v_cruise_non_pcm CS True True s) = clip (of_int
    (if button_action CS s = Released b then (if b = BT_accelCruise then k + 1 else k - 1)
     else if b = BT_accelCruise then 5 * (k div 5 + 1) else 5 * ((k - 1) div 5))) (vc_min s) V_CRUISE_MAX"
proof -
  have fm: "py_fmod (of_int k) 5 = of_int (k mod 5)" using py_fmod_int [of 5 k] by simp
  have fl: "\<lfloor>real_of_int k / 5\<rfloor> = k div 5" using floor_divide_of_int_eq [where 'a = real, of k 5] by simp
  have ce: "\<lceil>real_of_int k / 5\<rceil> = k div 5 + 1" if "k mod 5 \<noteq> 0"
  proof -
    have "real_of_int k / 5 \<noteq> of_int (k div 5)"
    proof
      assume "real_of_int k / 5 = of_int (k div 5)"
      then have "real_of_int k = of_int (5 * (k div 5))" by simp
      then have "k = 5 * (k div 5)" using of_int_eq_iff by blast
      with that show False by presburger
    qed
    then show ?thesis by (simp add: ceiling_altdef fl)
  qed
  have short: "vc_kph (apply_button CS True False b s) = clip (of_int (if b = BT_accelCruise then k + 1 else k - 1)) (vc_min s) V_CRUISE_MAX"
    using assms py_round1_int [of "k + 1"] py_round1_int [of "k - 1"]
    by (auto simp: apply_button_def Let_def update_v_cruise_delta_def cruise_interval_sign_def)
  have long: "vc_kph (apply_button CS True True b s) = clip (of_int (if b = BT_accelCruise then 5 * (k div 5 + 1) else 5 * ((k - 1) div 5))) (vc_min s) V_CRUISE_MAX"
  proof (cases "k mod 5 = 0")
    case True
    then have "5 * (k div 5 + 1) = k + 5" "5 * ((k - 1) div 5) = k - 5" by presburger+
    with True assms fm py_round1_int [of "k + 5"] py_round1_int [of "k - 5"] show ?thesis
      by (auto simp: apply_button_def Let_def update_v_cruise_delta_def cruise_interval_sign_def)
  next
    case False
    then have "(k - 1) div 5 = k div 5" by presburger
    with False assms fm fl ce [OF False] py_round1_int [of "5 * (k div 5 + 1)"] py_round1_int [of "5 * (k div 5)"]
    show ?thesis
      by (auto simp: apply_button_def Let_def update_v_cruise_delta_def cruise_nearest_def mult.commute)
  qed
  show ?thesis using assms(8) short long by (auto simp: update_v_cruise_non_pcm_def)
qed

theorem button_changes_speed_witness:
  "let s = (v_cruise_init (\<lambda>_. 1) default_cp default_cp_sp Map.empty)
     \<lparr>vc_kph := of_int 42, vc_min := 8, vc_button_timers := [(BT_decelCruise, 0), (BT_accelCruise, 50)],
      vc_button_change_states := (\<lambda>_. \<lparr>chg_standstill = False, chg_enabled = True\<rparr>)\<rparr>
   in vc_kph (update_v_cruise_non_pcm default_cs True True s) = 45"
proof -
  define s where "s = (v_cruise_init (\<lambda>_. 1) default_cp default_cp_sp Map.empty)
     \<lparr>vc_kph := of_int 42, vc_min := 8, vc_button_timers := [(BT_decelCruise, 0), (BT_accelCruise, 50)],
      vc_button_change_states := (\<lambda>_. \<lparr>chg_standstill = False, chg_enabled = True\<rparr>)\<rparr>"
  have ac: "button_action default_cs s = Held BT_accelCruise"
    by (simp add: s_def button_action_def default_msg_defs CRUISE_LONG_PRESS_def)
  have "vc_kph (update_v_cruise_non_pcm default_cs True True s) = clip (of_int
    (if button_action default_cs s = Released BT_accelCruise then (if BT_accelCruise = BT_accelCruise then 42 + 1 else 42 - 1)
     else if BT_accelCruise = BT_accelCruise then 5 * (42 div 5 + 1) else 5 * ((42 - 1) div 5))) (vc_min s) V_CRUISE_MAX"
    by (rule button_changes_speed)
      (simp_all add: ac, simp_all add: s_def v_cruise_init_def read_custom_set_speed_params_def get_bool_def
        pre_active_confirmed_def default_msg_defs)
  then show ?thesis
    unfolding Let_def s_def [symmetric] ac by (simp add: s_def clip_def V_CRUISE_MAX_def)
qed

end
