(* ===== verification/Icbm.thy ===== *)
theory Icbm
  imports Cruise_Buttons
begin

text \<open>
  \<open>sunnypilot/selfdrive/car/intelligent_cruise_button_management/controller.py\<close>: on cars
  without openpilot longitudinal control the set speed of the stock cruise control is brought to
  a target by sending button presses. \<open>apply_hysteresis\<close> belongs to opendbc and is an argument.
\<close>

datatype icbm_state = ICBM_inactive | ICBM_preActive | ICBM_increasing | ICBM_decreasing | ICBM_holding

datatype send_button = Send_none | Send_increase | Send_decrease

definition HYST_GAP :: real where "HYST_GAP = 0"
definition INACTIVE_TIMER :: real where "INACTIVE_TIMER = 4/10"

fun send_buttons :: "icbm_state \<Rightarrow> send_button" where
  "send_buttons ICBM_increasing = Send_increase"
| "send_buttons ICBM_decreasing = Send_decrease"
| "send_buttons _ = Send_none"

record icbm =
  ic_v_target :: int
  ic_v_cruise_cluster :: int
  ic_v_cruise_min :: int
  ic_cruise_button :: send_button
  ic_state :: icbm_state
  ic_pre_active_timer :: int
  ic_is_ready :: bool
  ic_is_ready_prev :: bool
  ic_v_target_ms_last :: real
  ic_is_metric :: bool
  ic_button_timers :: timers

definition icbm_init :: icbm where
  "icbm_init = \<lparr>ic_v_target = 0, ic_v_cruise_cluster = 0, ic_v_cruise_min = 0, ic_cruise_button = Send_none,
     ic_state = ICBM_inactive, ic_pre_active_timer = 0, ic_is_ready = False, ic_is_ready_prev = False,
     ic_v_target_ms_last = 0, ic_is_metric = False, ic_button_timers = CRUISE_BUTTON_TIMER\<rparr>"

definition v_cruise_equal :: "icbm \<Rightarrow> bool" where
  "v_cruise_equal s \<longleftrightarrow> ic_v_target s = ic_v_cruise_cluster s"

definition icbm_calculations :: "(real \<Rightarrow> real \<Rightarrow> real \<Rightarrow> real) \<Rightarrow> car_state \<Rightarrow> real \<Rightarrow> icbm \<Rightarrow> icbm" where
  "icbm_calculations apply_hysteresis CS vTarget s =
     (let speed_conv = (if ic_is_metric s then MS_TO_KPH else MS_TO_MPH);
          ms_conv = (if ic_is_metric s then KPH_TO_MS else MPH_TO_MS);
          last = apply_hysteresis vTarget (ic_v_target_ms_last s) (HYST_GAP * ms_conv)
      in s\<lparr>ic_v_target_ms_last := last, ic_v_target := py_round (last * speed_conv),
           ic_v_cruise_min := minimum_set_speed (ic_is_metric s),
           ic_v_cruise_cluster := py_round (cr_speedCluster (cs_cruiseState CS) * speed_conv)\<rparr>)"

definition icbm_transition :: "icbm \<Rightarrow> icbm" where
  "icbm_transition s0 =
     (let s = s0\<lparr>ic_pre_active_timer := max 0 (ic_pre_active_timer s0 - 1)\<rparr> in
      if ic_state s \<noteq> ICBM_inactive then
        if \<not> ic_is_ready s then s\<lparr>ic_state := ICBM_inactive\<rparr>
        else (case ic_state s of
            ICBM_preActive \<Rightarrow>
              if ic_pre_active_timer s \<le> 0 then
                if v_cruise_equal s then s\<lparr>ic_state := ICBM_holding\<rparr>
                else if ic_v_target s > ic_v_cruise_cluster s then s\<lparr>ic_state := ICBM_increasing\<rparr>
                else if ic_v_target s < ic_v_cruise_cluster s \<and> ic_v_cruise_cluster s > ic_v_cruise_min s
                then s\<lparr>ic_state := ICBM_decreasing\<rparr>
                else s
              else s
          | ICBM_holding \<Rightarrow> if \<not> v_cruise_equal s then s\<lparr>ic_state := ICBM_preActive\<rparr> else s
          | ICBM_increasing \<Rightarrow>
              if ic_v_target s \<le> ic_v_cruise_cluster s then s\<lparr>ic_state := ICBM_holding\<rparr> else s
          | ICBM_decreasing \<Rightarrow>
              if ic_v_target s \<ge> ic_v_cruise_cluster s \<or> ic_v_cruise_cluster s \<le> ic_v_cruise_min s
              then s\<lparr>ic_state := ICBM_holding\<rparr> else s
          | ICBM_inactive \<Rightarrow> s)
      else if ic_is_ready s \<and> \<not> ic_is_ready_prev s then
        s\<lparr>ic_pre_active_timer := py_int (INACTIVE_TIMER / DT_CTRL), ic_state := ICBM_preActive\<rparr>
      else s)"

definition icbm_readiness :: "car_state \<Rightarrow> car_control \<Rightarrow> icbm \<Rightarrow> icbm" where
  "icbm_readiness CS CC s =
     (let ts = update_manual_button_timers CS (ic_button_timers s);
          ready = (cc_enabled CC \<and> \<not> cc_cruise_override CC \<and> \<not> cc_cruise_cancel CC \<and> \<not> cc_cruise_resume CC)
      in s\<lparr>ic_button_timers := ts, ic_is_ready := ready \<and> \<not> any_pressed ts\<rparr>)"

definition icbm_run :: "(real \<Rightarrow> real \<Rightarrow> real \<Rightarrow> real) \<Rightarrow> car_params_sp \<Rightarrow> car_state \<Rightarrow> car_control \<Rightarrow> real \<Rightarrow> bool \<Rightarrow> icbm \<Rightarrow> icbm" where
  "icbm_run apply_hysteresis CP_SP CS CC vTarget is_metric s =
     (if cpsp_pcmCruiseSpeed CP_SP then s
      else
        let s1 = icbm_readiness CS CC (icbm_calculations apply_hysteresis CS vTarget (s\<lparr>ic_is_metric := is_metric\<rparr>));
            s2 = icbm_transition s1
        in s2\<lparr>ic_cruise_button := send_buttons (ic_state s2), ic_is_ready_prev := ic_is_ready s2\<rparr>)"

section \<open>Facts\<close>

lemma transition_frame:
  "ic_v_target (icbm_transition s) = ic_v_target s" "ic_v_cruise_cluster (icbm_transition s) = ic_v_cruise_cluster s"
  "ic_v_cruise_min (icbm_transition s) = ic_v_cruise_min s" "ic_is_ready (icbm_transition s) = ic_is_ready s"
  "ic_button_timers (icbm_transition s) = ic_button_timers s"
  by (cases "ic_state s"; simp add: icbm_transition_def Let_def)+

lemma transition_increasing:
  "ic_state (icbm_transition s) = ICBM_increasing \<Longrightarrow> ic_is_ready s \<and> ic_v_target s > ic_v_cruise_cluster s"
  by (cases "ic_state s") (auto simp: icbm_transition_def Let_def split: if_splits)

lemma transition_decreasing:
  "ic_state (icbm_transition s) = ICBM_decreasing \<Longrightarrow>
     ic_is_ready s \<and> ic_v_target s < ic_v_cruise_cluster s \<and> ic_v_cruise_cluster s > ic_v_cruise_min s"
  by (cases "ic_state s") (auto simp: icbm_transition_def Let_def split: if_splits)

lemma send_buttons_iff:
  "send_buttons st = Send_increase \<longleftrightarrow> st = ICBM_increasing" "send_buttons st = Send_decrease \<longleftrightarrow> st = ICBM_decreasing"
  by (cases st; simp)+

section \<open>Properties\<close>

text \<open>
  C20. A button press that is sent moves the set speed towards the target, never below the
  minimum set speed, and is sent only while cruise control is engaged without override, cancel
  or resume and the driver holds no cruise button.
\<close>

theorem icbm_button_safe:
  assumes "\<not> cpsp_pcmCruiseSpeed CP_SP"
  shows "let s' = icbm_run hyst CP_SP CS CC vTarget is_metric s in
    (ic_cruise_button s' = Send_increase \<longrightarrow> ic_v_target s' > ic_v_cruise_cluster s')
    \<and> (ic_cruise_button s' = Send_decrease \<longrightarrow> ic_v_target s' < ic_v_cruise_cluster s'
         \<and> ic_v_cruise_cluster s' > minimum_set_speed is_metric)
    \<and> (ic_cruise_button s' \<noteq> Send_none \<longrightarrow> cc_enabled CC \<and> \<not> cc_cruise_override CC \<and> \<not> cc_cruise_cancel CC
         \<and> \<not> cc_cruise_resume CC \<and> \<not> any_pressed (ic_button_timers s'))"
proof -
  let ?s1 = "icbm_readiness CS CC (icbm_calculations hyst CS vTarget (s\<lparr>ic_is_metric := is_metric\<rparr>))"
  have min: "ic_v_cruise_min ?s1 = minimum_set_speed is_metric"
    by (simp add: icbm_readiness_def icbm_calculations_def Let_def)
  have ready: "ic_is_ready ?s1 \<longleftrightarrow> cc_enabled CC \<and> \<not> cc_cruise_override CC \<and> \<not> cc_cruise_cancel CC
      \<and> \<not> cc_cruise_resume CC \<and> \<not> any_pressed (ic_button_timers ?s1)"
    by (simp add: icbm_readiness_def icbm_calculations_def Let_def)
  have none: "send_buttons st \<noteq> Send_none \<Longrightarrow> st = ICBM_increasing \<or> st = ICBM_decreasing" for st
    by (cases st) simp_all
  show ?thesis using assms transition_increasing [of ?s1] transition_decreasing [of ?s1]
      none [of "ic_state (icbm_transition ?s1)"]
    by (auto simp: icbm_run_def Let_def send_buttons_iff transition_frame min ready)
qed

theorem icbm_button_safe_witness:
  "let CP_SP = default_cp_sp\<lparr>cpsp_pcmCruiseSpeed := False\<rparr>;
       CC = \<lparr>cc_enabled = True, cc_latActive = True, cc_longActive = True, cc_cruise_override = False,
         cc_cruise_cancel = False, cc_cruise_resume = False, cc_accel = 0, cc_torque = 0\<rparr>;
       s' = icbm_run (\<lambda>v l g. v) CP_SP default_cs CC 20 True icbm_init in
    (ic_cruise_button s' = Send_increase \<longrightarrow> ic_v_target s' > ic_v_cruise_cluster s')
    \<and> (ic_cruise_button s' = Send_decrease \<longrightarrow> ic_v_target s' < ic_v_cruise_cluster s'
         \<and> ic_v_cruise_cluster s' > minimum_set_speed True)
    \<and> (ic_cruise_button s' \<noteq> Send_none \<longrightarrow> cc_enabled CC \<and> \<not> cc_cruise_override CC \<and> \<not> cc_cruise_cancel CC
         \<and> \<not> cc_cruise_resume CC \<and> \<not> any_pressed (ic_button_timers s'))"
  using icbm_button_safe [of "default_cp_sp\<lparr>cpsp_pcmCruiseSpeed := False\<rparr>" "\<lambda>v l g. v" default_cs
      "\<lparr>cc_enabled = True, cc_latActive = True, cc_longActive = True, cc_cruise_override = False,
         cc_cruise_cancel = False, cc_cruise_resume = False, cc_accel = 0, cc_torque = 0\<rparr>" 20 True icbm_init]
  unfolding Let_def by simp

end
