(* ===== verification/Cruise_Helper.thy ===== *)
theory Cruise_Helper
  imports Params Events_Base
begin

text \<open>
  \<open>sunnypilot/selfdrive/car/cruise_helpers.py\<close>: the distance button toggles the experimental
  mode when it is held, and the hand-over with selfdrived, which changes the personality on its
  release.
\<close>

definition DISTANCE_LONG_PRESS :: int where "DISTANCE_LONG_PRESS = 50"

record cruise_helper =
  ch_gap_frames :: int
  ch_experimental_mode :: bool
  ch_experimental_mode_switched :: bool

definition cruise_helper_init :: cruise_helper where
  "cruise_helper_init = \<lparr>ch_gap_frames = 0, ch_experimental_mode = False, ch_experimental_mode_switched = False\<rparr>"

text \<open>\<open>button_frame_counts\<close> has the one key \<open>gapAdjustCruise\<close>.\<close>

definition update_button_frame_counts :: "car_state \<Rightarrow> cruise_helper \<Rightarrow> cruise_helper" where
  "update_button_frame_counts CS h =
     (let n = (if ch_gap_frames h > 0 then ch_gap_frames h + 1 else ch_gap_frames h)
      in h\<lparr>ch_gap_frames := foldl (\<lambda>n b. if be_type b = BT_gapAdjustCruise then (if be_pressed b then 1 else 0) else n)
             n (cs_buttonEvents CS)\<rparr>)"

definition update_experimental_mode :: "bool \<Rightarrow> cruise_helper \<times> events \<times> params \<Rightarrow> cruise_helper \<times> events \<times> params" where
  "update_experimental_mode experimental_mode s =
     (let (h, ev, p) = s in
      if ch_gap_frames h \<ge> DISTANCE_LONG_PRESS \<and> \<not> ch_experimental_mode_switched h then
        (h\<lparr>ch_experimental_mode := \<not> experimental_mode, ch_experimental_mode_switched := True\<rparr>,
         ev_add evsp_experimentalModeSwitched ev, p(''ExperimentalMode'' \<mapsto> PBool (\<not> experimental_mode)))
      else (h, ev, p))"

definition cruise_helper_update :: "car_params \<Rightarrow> car_state \<Rightarrow> bool \<Rightarrow> cruise_helper \<times> events \<times> params
    \<Rightarrow> cruise_helper \<times> events \<times> params" where
  "cruise_helper_update CP CS experimental_mode s =
     (if cp_openpilotLongitudinalControl CP \<and> cr_available (cs_cruiseState CS) then
        let (h, ev, p) = s
        in update_experimental_mode experimental_mode (update_button_frame_counts CS h, ev, p)
      else s)"

lemma cruise_helper_events:
  "fst (snd (cruise_helper_update CP CS x (h, ev, p))) \<in> {ev, ev_add evsp_experimentalModeSwitched ev}"
  by (simp add: cruise_helper_update_def update_experimental_mode_def Let_def)

text \<open>The mode is toggled once per press: a second long press needs the flag to be reset.\<close>

lemma experimental_mode_once:
  assumes "ch_experimental_mode_switched h"
  shows "cruise_helper_update CP CS x (h, ev, p) =
    (if cp_openpilotLongitudinalControl CP \<and> cr_available (cs_cruiseState CS) then update_button_frame_counts CS h else h, ev, p)"
  using assms by (simp add: cruise_helper_update_def update_experimental_mode_def update_button_frame_counts_def Let_def)

end
