(* ===== verification/Car_Events.thy ===== *)
theory Car_Events
  imports Event_Facts Mads
begin

text \<open>
  \<open>selfdrive/car/car_specific.py\<close> and \<open>sunnypilot/selfdrive/car/car_specific.py\<close>: the events
  computed from the state of the car, common ones and ones of a brand. The result is a fresh
  event list; its \<open>to_msg\<close> form is what selfdrived adds to its own list.
\<close>

section \<open>State\<close>

record car_events =
  ce_steering_unpressed :: int
  ce_low_speed_alert :: bool
  ce_no_steer_warning :: bool
  ce_silent_steer_warning :: bool

definition car_events_init :: car_events where
  "car_events_init = \<lparr>ce_steering_unpressed = 0, ce_low_speed_alert = False, ce_no_steer_warning = False,
     ce_silent_steer_warning = True\<rparr>"

text \<open>Adding the events whose condition holds, in order.\<close>

definition add_when :: "(bool \<times> event_id) list \<Rightarrow> events \<Rightarrow> events" where
  "add_when l ev = foldl (\<lambda>s (c, e). if c then ev_add e s else s) ev l"

section \<open>create_common_events\<close>

definition common_events :: "opendbc \<Rightarrow> car_params \<Rightarrow> car_state \<Rightarrow> car_state \<Rightarrow> (bool \<times> event_id) list" where
  "common_events odb CP CS CS_prev = [
     (cs_doorOpen CS, ev_doorOpen),
     (cs_seatbeltUnlatched CS, ev_seatbeltNotLatched),
     (cs_gearShifter CS \<noteq> Gear_drive \<and> cs_gearShifter CS \<notin> set (odb_DRIVABLE_GEARS odb (cp_carFingerprint CP)), ev_wrongGear),
     (cs_gearShifter CS = Gear_reverse, ev_reverseGear),
     (\<not> cr_available (cs_cruiseState CS), ev_wrongCarMode),
     (cs_espDisabled CS, ev_espDisabled),
     (cs_espActive CS, ev_espActive),
     (cs_stockFcw CS, ev_stockFcw),
     (cs_stockAeb CS, ev_stockAeb),
     (cs_stockLkas CS, ev_stockLkas),
     (cs_vEgo CS > odb_MAX_CTRL_SPEED odb, ev_speedTooHigh),
     (cr_nonAdaptive (cs_cruiseState CS), ev_wrongCruiseMode),
     (cs_brakeHoldActive CS \<and> cp_openpilotLongitudinalControl CP, ev_brakeHold),
     (cs_parkingBrake CS, ev_parkBrake),
     (cs_accFaulted CS, ev_accFaulted),
     (cs_steeringPressed CS, ev_steerOverride),
     (cs_steeringDisengage CS \<and> \<not> cs_steeringDisengage CS_prev, ev_steerDisengage),
     (cs_brakePressed CS \<and> cs_standstill CS, ev_preEnableStandstill),
     (cs_gasPressed CS, ev_gasPressedOverride),
     (cs_vehicleSensorsInvalid CS, ev_vehicleSensorsInvalid),
     (cs_invalidLkasSetting CS, ev_invalidLkasSetting),
     (cs_lowSpeedAlert CS, ev_belowSteerSpeed),
     (cs_buttonEnable CS, ev_buttonEnable)]"

definition cancel_events :: "car_params \<Rightarrow> car_state \<Rightarrow> (bool \<times> event_id) list" where
  "cancel_events CP CS =
     (let allow_button_cancel = (cp_brand CP \<noteq> ''hyundai'')
      in map (\<lambda>b. (be_type b = BT_cancel \<and> (allow_button_cancel \<or> \<not> cp_pcmCruise CP), ev_buttonCancel)) (cs_buttonEvents CS))"

text \<open>The steering faults: an event and the next state.\<close>

definition steer_fault :: "car_state \<Rightarrow> car_state \<Rightarrow> car_events \<Rightarrow> event_id list \<times> car_events" where
  "steer_fault CS CS_prev c =
     (let unpressed = (if cs_steeringPressed CS then 0 else ce_steering_unpressed c + 1);
          c1 = c\<lparr>ce_steering_unpressed := unpressed\<rparr> in
      if cs_steerFaultTemporary CS then
        if cs_steeringPressed CS \<and> (\<not> cs_steerFaultTemporary CS_prev \<or> ce_no_steer_warning c1) then
          ([], c1\<lparr>ce_no_steer_warning := True\<rparr>)
        else
          let c2 = c1\<lparr>ce_no_steer_warning := False\<rparr> in
          if ce_silent_steer_warning c2 \<or> cs_standstill CS \<or> unpressed < py_int ((3/2) / DT_CTRL) then
            ([ev_steerTempUnavailableSilent], c2\<lparr>ce_silent_steer_warning := True\<rparr>)
          else ([ev_steerTempUnavailable], c2)
      else ([], c1\<lparr>ce_no_steer_warning := False, ce_silent_steer_warning := False\<rparr>))"

definition pcm_events :: "car_params \<Rightarrow> car_state \<Rightarrow> car_state \<Rightarrow> (bool \<times> event_id) list" where
  "pcm_events CP CS CS_prev =
     (let en = cr_enabled (cs_cruiseState CS); rising = (en \<and> \<not> cr_enabled (cs_cruiseState CS_prev) \<and> \<not> cs_blockPcmEnable CS)
      in if cp_pcmCruise CP \<and> cp_brand CP \<noteq> ''honda''
         then [(rising, ev_pcmEnable), (\<not> rising \<and> \<not> en, ev_pcmDisable)] else [])"

definition create_common_events :: "alert_env \<Rightarrow> opendbc \<Rightarrow> car_params \<Rightarrow> car_state \<Rightarrow> car_state
    \<Rightarrow> car_events \<Rightarrow> events \<times> car_events" where
  "create_common_events env odb CP CS CS_prev c =
     (let ev1 = add_when (cancel_events CP CS) (add_when (common_events odb CP CS CS_prev) (Events_init env));
          (fault, c') = steer_fault CS CS_prev c;
          ev2 = foldl (\<lambda>s e. ev_add e s) ev1 fault;
          ev3 = add_when [(cs_steerFaultPermanent CS, ev_steerUnavailable)] ev2
      in (add_when (pcm_events CP CS CS_prev) ev3, c'))"

section \<open>update\<close>

definition chrysler_events :: "car_params \<Rightarrow> car_state \<Rightarrow> car_events \<Rightarrow> (bool \<times> event_id) list \<times> car_events" where
  "chrysler_events CP CS c =
     (let low = (if cp_minSteerSpeed CP > 0 \<and> cs_vEgo CS < cp_minSteerSpeed CP + 1/2 then True
                 else if cs_vEgo CS > cp_minSteerSpeed CP + 1 then False else ce_low_speed_alert c)
      in ([(low, ev_belowSteerSpeed)], c\<lparr>ce_low_speed_alert := low\<rparr>))"

definition honda_events :: "car_params \<Rightarrow> car_state \<Rightarrow> car_state \<Rightarrow> car_control \<Rightarrow> (bool \<times> event_id) list" where
  "honda_events CP CS CS_prev CC =
     (let en = cr_enabled (cs_cruiseState CS); rising = (en \<and> \<not> cr_enabled (cs_cruiseState CS_prev));
          dropped = (\<not> rising \<and> \<not> en \<and> (cc_accel CC \<ge> 0 \<or> \<not> cp_openpilotLongitudinalControl CP));
          slow = (cs_vEgo CS < cp_minEnableSpeed CP + 2)
      in [(cp_pcmCruise CP \<and> cs_vEgo CS < cp_minEnableSpeed CP, ev_belowEngageSpeed),
          (cp_pcmCruise CP \<and> rising, ev_pcmEnable),
          (cp_pcmCruise CP \<and> dropped \<and> slow, ev_speedTooLow),
          (cp_pcmCruise CP \<and> dropped \<and> \<not> slow, ev_cruiseDisabled),
          (cp_minEnableSpeed CP > 0 \<and> cs_vEgo CS < 1/1000, ev_manualRestart)])"

definition toyota_events :: "opendbc \<Rightarrow> car_params \<Rightarrow> car_state \<Rightarrow> car_control \<Rightarrow> (bool \<times> event_id) list" where
  "toyota_events odb CP CS CC =
     (let long = cp_openpilotLongitudinalControl CP; slow = (long \<and> cs_vEgo CS < cp_minEnableSpeed CP)
      in [(long \<and> cr_standstill (cs_cruiseState CS) \<and> \<not> cs_brakePressed CS
             \<and> (cc_cruise_resume CC \<or> has_flag (cp_flags CP) (odb_TOYOTA_HYBRID odb)), ev_resumeRequired),
          (slow, ev_belowEngageSpeed),
          (slow \<and> cc_accel CC > 3/10, ev_speedTooLow),
          (slow \<and> cs_vEgo CS < 1/1000, ev_manualRestart)])"

definition gm_events :: "car_params \<Rightarrow> car_state \<Rightarrow> (bool \<times> event_id) list" where
  "gm_events CP CS = [
     (cs_vEgo CS < cp_minEnableSpeed CP
        \<and> \<not> (cs_standstill CS \<and> cs_brake CS \<ge> 20 \<and> cp_networkLocation CP = NL_fwdCamera), ev_belowEngageSpeed),
     (cr_standstill (cs_cruiseState CS), ev_resumeRequired)]"

definition volkswagen_events :: "car_params \<Rightarrow> car_state \<Rightarrow> car_control \<Rightarrow> (bool \<times> event_id) list" where
  "volkswagen_events CP CS CC =
     (let long = cp_openpilotLongitudinalControl CP
      in [(long \<and> cs_vEgo CS < cp_minEnableSpeed CP + 1/2, ev_belowEngageSpeed),
          (long \<and> cc_enabled CC \<and> cs_vEgo CS < cp_minEnableSpeed CP, ev_speedTooLow)])"

definition car_events_update :: "alert_env \<Rightarrow> opendbc \<Rightarrow> car_params \<Rightarrow> car_state \<Rightarrow> car_state \<Rightarrow> car_control
    \<Rightarrow> car_events \<Rightarrow> events \<times> car_events" where
  "car_events_update env odb CP CS CS_prev CC c =
     (if cp_brand CP \<in> {''body'', ''mock''} then (Events_init env, c)
      else
        let (ev, c1) = create_common_events env odb CP CS CS_prev c in
        if cp_brand CP = ''chrysler'' then
          (let (l, c2) = chrysler_events CP CS c1 in (add_when l ev, c2))
        else if cp_brand CP = ''honda'' then (add_when (honda_events CP CS CS_prev CC) ev, c1)
        else if cp_brand CP = ''toyota'' then (add_when (toyota_events odb CP CS CC) ev, c1)
        else if cp_brand CP = ''gm'' then (add_when (gm_events CP CS) ev, c1)
        else if cp_brand CP = ''volkswagen'' then (add_when (volkswagen_events CP CS CC) ev, c1)
        else (ev, c1))"

section \<open>The sunnypilot part\<close>

text \<open>
  \<open>update\<close> changes the list of selfdrived in place and returns a fresh list of sunnypilot
  events, which stays empty.
\<close>

definition car_events_sp_update :: "alert_env \<Rightarrow> opendbc \<Rightarrow> car_params \<Rightarrow> car_params_sp \<Rightarrow> car_state
    \<Rightarrow> bool \<Rightarrow> events \<Rightarrow> (events \<times> bool \<times> events) result" where
  "car_events_sp_update env odb CP CP_SP CS low0 ev =
     (let ret = (\<lambda>low v. Inr (v, low, EventsSP_init env)) in
      if cp_brand CP = ''chrysler'' then
        bind_result (if cp_carFingerprint CP \<in> set (odb_RAM_DT odb)
                     then (if ev_has ev_belowSteerSpeed ev then ev_remove ev_belowSteerSpeed ev else Inr ev)
                     else Inr ev) (\<lambda>ev1.
          let ram = (cp_carFingerprint CP \<in> set (odb_RAM_DT odb));
              low1 = (if ram \<and> cs_vEgo CS \<ge> cp_minEnableSpeed CP then False else low0);
              low2 = (if ram \<and> cp_minEnableSpeed CP \<ge> 29/2 \<and> cs_gearShifter CS \<noteq> Gear_drive then True else low1)
          in ret low2 (if low2 then ev_add ev_belowSteerSpeed ev1 else ev1))
      else if cp_brand CP = ''toyota'' then
        bind_result (if cp_openpilotLongitudinalControl CP \<and> cr_standstill (cs_cruiseState CS) \<and> \<not> cs_brakePressed CS
                        \<and> cpsp_enableGasInterceptor CP_SP \<and> ev_has ev_resumeRequired ev
                     then ev_remove ev_resumeRequired ev else Inr ev) (ret low0)
      else ret low0 ev)"

section \<open>Facts\<close>

lemma set_add_when: "set (ev_events (add_when l ev)) = {e. (True, e) \<in> set l} \<union> set (ev_events ev)"
  unfolding add_when_def by (induction l arbitrary: ev) (auto split: if_splits)

lemma add_when_wf: "ev_wf mp ev \<Longrightarrow> ev_wf mp (add_when l ev)"
  unfolding add_when_def by (induction l arbitrary: ev) (auto simp: ev_wf_add)

lemma foldl_add_wf: "ev_wf mp ev \<Longrightarrow> ev_wf mp (foldl (\<lambda>s e. ev_add e s) ev es)"
  by (induction es arbitrary: ev) (auto simp: ev_wf_add)

lemma create_common_events_wf: "ev_wf (EVENTS env) (fst (create_common_events env odb CP CS CS_prev c))"
  by (simp add: create_common_events_def Let_def split_def)
    (intro add_when_wf foldl_add_wf, simp add: Events_init_def ev_wf_init)

lemma car_events_wf: "ev_wf (EVENTS env) (fst (car_events_update env odb CP CS CS_prev CC c))"
  using create_common_events_wf [of env odb CP CS CS_prev c]
  by (auto simp: car_events_update_def Let_def split_def Events_init_def intro: add_when_wf)

lemma car_events_sp_total:
  assumes "ev_wf (EVENTS env) ev"
  shows "\<exists>ev' low. car_events_sp_update env odb CP CP_SP CS low0 ev = Inr (ev', low, EventsSP_init env) \<and> ev_wf (EVENTS env) ev'"
proof -
  have k: "EVENTS env ev_belowSteerSpeed \<noteq> None" "EVENTS env ev_resumeRequired \<noteq> None"
    unfolding known_EVENTS by simp_all
  from ev_remove_total [OF assms k(1)] obtain v where v: "ev_remove ev_belowSteerSpeed ev = Inr v" by blast
  from ev_remove_total [OF assms k(2)] obtain w where w: "ev_remove ev_resumeRequired ev = Inr w" by blast
  have "ev_wf (EVENTS env) v" "ev_wf (EVENTS env) w" using v w assms by auto
  with v w assms show ?thesis by (auto simp: car_events_sp_update_def Let_def)
qed

text \<open>The events that ask openpilot to engage, as the car's state gives them.\<close>

lemma in_common_events:
  "(True, e) \<in> set (common_events odb CP CS CS_prev) \<Longrightarrow> e \<noteq> ev_pcmEnable"
  "(True, ev_buttonEnable) \<in> set (common_events odb CP CS CS_prev) \<longleftrightarrow> cs_buttonEnable CS"
  by (auto simp: common_events_def)

lemma steer_fault_events: "set (fst (steer_fault CS CS_prev c)) \<subseteq> {ev_steerTempUnavailableSilent, ev_steerTempUnavailable}"
  by (auto simp: steer_fault_def Let_def)

end
