(* ===== verification/Speed_Limit_Resolver.thy ===== *)
theory Speed_Limit_Resolver
  imports Speed_Limit
begin

text \<open>
  \<open>speed_limit_resolver.py\<close>: the class \<open>SpeedLimitResolver\<close>, which picks a speed limit from
  the car and the map according to a policy. The subscribed messages are the record
  \<open>resolver_inputs\<close>; \<open>ri_now\<close> is \<open>time.monotonic()\<close>, read twice in a cycle, once for the age
  of the fix and once for the distance driven since.
\<close>

section \<open>State\<close>

record resolver_inputs =
  ri_car_speedLimit :: real
  ri_gps_unixTimestampMillis :: int
  ri_map_speedLimit :: real
  ri_map_speedLimitValid :: bool
  ri_map_speedLimitAhead :: real
  ri_map_speedLimitAheadValid :: bool
  ri_map_speedLimitAheadDistance :: real
  ri_now :: real
  ri_now_2 :: real

record resolver =
  rs_frame :: int
  rs_limit_solutions :: "sl_source \<Rightarrow> real"
  rs_distance_solutions :: "sl_source \<Rightarrow> real"
  rs_policy :: int
  rs_source :: sl_source
  rs_is_metric :: bool
  rs_offset_type :: int
  rs_offset_value :: int
  rs_speed_limit :: real
  rs_speed_limit_last :: real
  rs_speed_limit_final :: real
  rs_speed_limit_final_last :: real
  rs_speed_limit_offset :: real
  rs_distance :: real
  rs_v_ego :: real

definition resolver_init :: "(string \<Rightarrow> int) \<Rightarrow> params \<Rightarrow> resolver \<times> params" where
  "resolver_init dflt p =
     (let (policy, p1) = get_sanitize_int_param dflt ''SpeedLimitPolicy'' Policy_car_state_only Policy_combined p;
          (offset_type, p2) = get_sanitize_int_param dflt ''SpeedLimitOffsetType'' OffsetType_off OffsetType_percentage p1
      in (\<lparr>rs_frame = -1, rs_limit_solutions = (\<lambda>_. 0), rs_distance_solutions = (\<lambda>_. 0),
           rs_policy = policy, rs_source = Source_none, rs_is_metric = get_bool p1 ''IsMetric'',
           rs_offset_type = offset_type, rs_offset_value = get_int dflt p2 ''SpeedLimitValueOffset'',
           rs_speed_limit = 0, rs_speed_limit_last = 0, rs_speed_limit_final = 0,
           rs_speed_limit_final_last = 0, rs_speed_limit_offset = 0, rs_distance = 0, rs_v_ego = 0\<rparr>, p2))"

section \<open>Methods\<close>

definition update_speed_limit_states :: "resolver \<Rightarrow> resolver" where
  "update_speed_limit_states r =
     (let r1 = r\<lparr>rs_speed_limit_final := rs_speed_limit r + rs_speed_limit_offset r\<rparr> in
      if rs_speed_limit r1 > 0
      then r1\<lparr>rs_speed_limit_last := rs_speed_limit r1, rs_speed_limit_final_last := rs_speed_limit_final r1\<rparr>
      else r1)"

definition speed_limit_valid :: "resolver \<Rightarrow> bool" where
  "speed_limit_valid r \<longleftrightarrow> rs_speed_limit r > 0"

definition speed_limit_last_valid :: "resolver \<Rightarrow> bool" where
  "speed_limit_last_valid r \<longleftrightarrow> rs_speed_limit_last r > 0"

definition resolver_update_params :: "(string \<Rightarrow> int) \<Rightarrow> params \<Rightarrow> resolver \<Rightarrow> resolver" where
  "resolver_update_params dflt p r =
     (if rs_frame r mod py_int (PARAMS_UPDATE_PERIOD / DT_MDL) = 0
      then r\<lparr>rs_policy := get_int dflt p ''SpeedLimitPolicy'', rs_is_metric := get_bool p ''IsMetric'',
             rs_offset_type := get_int dflt p ''SpeedLimitOffsetType'',
             rs_offset_value := get_int dflt p ''SpeedLimitValueOffset''\<rparr>
      else r)"

definition get_speed_limit_offset :: "resolver \<Rightarrow> real result" where
  "get_speed_limit_offset r =
     (if rs_offset_type r = OffsetType_off then Inr 0
      else if rs_offset_type r = OffsetType_fixed then
        Inr (of_int (rs_offset_value r) * (if rs_is_metric r then KPH_TO_MS else MPH_TO_MS))
      else if rs_offset_type r = OffsetType_percentage then
        Inr (of_int (rs_offset_value r) * (1/100) * rs_speed_limit r)
      else Inl NotImplementedError)"

definition set_solution :: "sl_source \<Rightarrow> real \<Rightarrow> real \<Rightarrow> resolver \<Rightarrow> resolver" where
  "set_solution s limit distance r = r\<lparr>rs_limit_solutions := (rs_limit_solutions r)(s := limit),
     rs_distance_solutions := (rs_distance_solutions r)(s := distance)\<rparr>"

definition reset_limit_sources :: "sl_source \<Rightarrow> resolver \<Rightarrow> resolver" where
  "reset_limit_sources s r = set_solution s 0 0 r"

definition get_from_car_state :: "resolver_inputs \<Rightarrow> resolver \<Rightarrow> resolver" where
  "get_from_car_state i r = set_solution Source_car (ri_car_speedLimit i) 0 (reset_limit_sources Source_car r)"

definition gps_fix_time :: "resolver_inputs \<Rightarrow> real" where
  "gps_fix_time i = of_int (ri_gps_unixTimestampMillis i) * (1/1000)"

definition calculate_map_data_limits :: "resolver_inputs \<Rightarrow> real \<Rightarrow> real \<Rightarrow> resolver \<Rightarrow> resolver" where
  "calculate_map_data_limits i speed_limit next_speed_limit r =
     (let distance_since_fix = rs_v_ego r * (ri_now_2 i - gps_fix_time i);
          distance_ahead = max 0 (ri_map_speedLimitAheadDistance i - distance_since_fix);
          r1 = set_solution Source_map speed_limit 0 r in
      if 0 < next_speed_limit \<and> next_speed_limit < speed_limit then
        let adapt_time = (next_speed_limit - rs_v_ego r) / LIMIT_ADAPT_ACC;
            adapt_distance = rs_v_ego r * adapt_time + (1/2) * LIMIT_ADAPT_ACC * adapt_time ^ 2
        in if distance_ahead \<le> adapt_distance then set_solution Source_map next_speed_limit distance_ahead r1 else r1
      else if 0 < speed_limit \<and> speed_limit < next_speed_limit then
        if distance_ahead \<le> 50 then set_solution Source_map next_speed_limit distance_ahead r1 else r1
      else r1)"

definition process_map_data :: "resolver_inputs \<Rightarrow> resolver \<Rightarrow> resolver" where
  "process_map_data i r =
     (let gps_fix_age = ri_now i - gps_fix_time i in
      if gps_fix_age > LIMIT_MAX_MAP_DATA_AGE then r
      else calculate_map_data_limits i
             (if ri_map_speedLimitValid i then ri_map_speedLimit i else 0)
             (if ri_map_speedLimitAheadValid i then ri_map_speedLimitAhead i else 0) r)"

definition get_from_map_data :: "resolver_inputs \<Rightarrow> resolver \<Rightarrow> resolver" where
  "get_from_map_data i r = process_map_data i (reset_limit_sources Source_map r)"

definition policy_sources :: "int \<Rightarrow> sl_source list result" where
  "policy_sources p =
     (if p = Policy_car_state_only then Inr [Source_car]
      else if p = Policy_map_data_only then Inr [Source_map]
      else if p = Policy_car_state_priority then Inr [Source_car, Source_map]
      else if p = Policy_map_data_priority then Inr [Source_map, Source_car]
      else if p = Policy_combined then Inr [Source_car, Source_map]
      else Inl (KeyError p))"

text \<open>\<open>min(xs, key=...)\<close>: the first of the smallest.\<close>

fun min_by_limit :: "(sl_source \<times> real) \<Rightarrow> (sl_source \<times> real) list \<Rightarrow> sl_source \<times> real" where
  "min_by_limit x [] = x"
| "min_by_limit x (y # ys) = min_by_limit (if snd y < snd x then y else x) ys"

fun first_positive :: "(sl_source \<Rightarrow> real) \<Rightarrow> sl_source list \<Rightarrow> sl_source" where
  "first_positive f [] = Source_none"
| "first_positive f (s # ss) = (if f s > 0 then s else first_positive f ss)"

definition source_according_to_policy :: "resolver \<Rightarrow> sl_source result" where
  "source_according_to_policy r =
     bind_result (policy_sources (rs_policy r)) (\<lambda>sources.
       if rs_policy r \<noteq> Policy_combined then Inr (first_positive (rs_limit_solutions r) sources)
       else (case filter (\<lambda>(s, limit). limit > 0) (map (\<lambda>s. (s, rs_limit_solutions r s)) sources) of
           [] \<Rightarrow> Inr Source_none
         | x # xs \<Rightarrow> Inr (fst (min_by_limit x xs))))"

definition resolve_limit_sources :: "resolver_inputs \<Rightarrow> resolver \<Rightarrow> (resolver \<times> real \<times> real \<times> sl_source) result" where
  "resolve_limit_sources i r =
     (let r1 = get_from_map_data i (get_from_car_state i r) in
      bind_result (source_according_to_policy r1) (\<lambda>source.
        Inr (r1, if source \<noteq> Source_none then rs_limit_solutions r1 source else 0,
             if source \<noteq> Source_none then rs_distance_solutions r1 source else 0, source)))"

definition resolver_update :: "(string \<Rightarrow> int) \<Rightarrow> params \<Rightarrow> real \<Rightarrow> resolver_inputs \<Rightarrow> resolver \<Rightarrow> resolver result" where
  "resolver_update dflt p v_ego i r =
     (let r0 = resolver_update_params dflt p (r\<lparr>rs_v_ego := v_ego\<rparr>) in
      bind_result (resolve_limit_sources i r0) (\<lambda>(r1, limit, distance, source).
        let r2 = r1\<lparr>rs_speed_limit := limit, rs_distance := distance, rs_source := source\<rparr> in
        bind_result (get_speed_limit_offset r2) (\<lambda>offset.
          let r3 = update_speed_limit_states (r2\<lparr>rs_speed_limit_offset := offset\<rparr>)
          in Inr (r3\<lparr>rs_frame := rs_frame r3 + 1\<rparr>))))"

section \<open>Facts\<close>

lemma policy_sources_defined: "(\<exists>ss. policy_sources p = Inr ss) \<longleftrightarrow> 0 \<le> p \<and> p \<le> 4"
  by (auto simp: policy_sources_def policy_defs)

lemma offset_defined:
  assumes "0 \<le> rs_offset_type r" "rs_offset_type r \<le> 2" shows "\<exists>x. get_speed_limit_offset r = Inr x"
proof (cases "get_speed_limit_offset r")
  case (Inl e)
  with assms show ?thesis by (auto simp: get_speed_limit_offset_def offset_type_defs split: if_splits)
qed blast

lemma first_positive_spec:
  "if \<exists>s\<in>set ss. f s > 0
   then \<exists>us vs. ss = us @ first_positive f ss # vs \<and> f (first_positive f ss) > 0 \<and> (\<forall>u\<in>set us. f u \<le> 0)
   else first_positive f ss = Source_none"
proof (induction ss)
  case (Cons s ss)
  show ?case
  proof (cases "f s > 0")
    case True
    then show ?thesis by (auto intro: exI [of _ "[]"])
  next
    case False
    show ?thesis
    proof (cases "\<exists>s\<in>set ss. f s > 0")
      case True
      with Cons.IH obtain us vs where "ss = us @ first_positive f ss # vs" "f (first_positive f ss) > 0" "\<forall>u\<in>set us. f u \<le> 0" by auto
      with False have "s # ss = (s # us) @ first_positive f (s # ss) # vs" "f (first_positive f (s # ss)) > 0" "\<forall>u\<in>set (s # us). f u \<le> 0" by auto
      with True show ?thesis by (metis list.set_intros(2))
    qed (use Cons.IH False in auto)
  qed
qed simp

lemma min_by_limit_spec:
  "min_by_limit x ys \<in> set (x # ys) \<and> (\<forall>y\<in>set (x # ys). snd (min_by_limit x ys) \<le> snd y)"
proof (induction ys arbitrary: x)
  case (Cons y ys)
  from Cons.IH [of x] Cons.IH [of y] show ?case by (cases "snd y < snd x") auto
qed simp

text \<open>What a policy chooses among the limits \<open>f\<close> of the sources.\<close>

definition policy_choice :: "int \<Rightarrow> (sl_source \<Rightarrow> real) \<Rightarrow> sl_source \<Rightarrow> bool" where
  "policy_choice p f s \<longleftrightarrow> (\<exists>ss. policy_sources p = Inr ss \<and>
     (if \<forall>u\<in>set ss. f u \<le> 0 then s = Source_none
      else s \<in> set ss \<and> f s > 0 \<and>
        (if p = Policy_combined then \<forall>u\<in>set ss. f u > 0 \<longrightarrow> f s \<le> f u
         else \<exists>us vs. ss = us @ s # vs \<and> (\<forall>u\<in>set us. f u \<le> 0))))"

lemma source_according_to_policy_spec:
  assumes "0 \<le> rs_policy r" "rs_policy r \<le> 4"
  shows "\<exists>s. source_according_to_policy r = Inr s \<and> policy_choice (rs_policy r) (rs_limit_solutions r) s"
proof -
  let ?f = "rs_limit_solutions r"
  obtain ss where ss: "policy_sources (rs_policy r) = Inr ss" using assms policy_sources_defined by blast
  show ?thesis
  proof (cases "rs_policy r = Policy_combined")
    case False
    have "policy_choice (rs_policy r) ?f (first_positive ?f ss)"
      using first_positive_spec [of ss ?f] ss False
      by (auto simp: policy_choice_def not_le split: if_splits) (metis in_set_conv_decomp)+
    with ss False show ?thesis by (simp add: source_according_to_policy_def)
  next
    case True
    let ?l = "filter (\<lambda>(s, limit). limit > 0) (map (\<lambda>s. (s, ?f s)) ss)"
    show ?thesis
    proof (cases ?l)
      case Nil
      then have "\<forall>u\<in>set ss. ?f u \<le> 0" by (auto simp: filter_empty_conv not_less)
      with ss True Nil show ?thesis by (auto simp: source_according_to_policy_def policy_choice_def)
    next
      case (Cons x xs)
      let ?m = "min_by_limit x xs"
      have m: "?m \<in> set ?l" "\<forall>y\<in>set ?l. snd ?m \<le> snd y" using min_by_limit_spec [of x xs] Cons by auto
      then have s: "fst ?m \<in> set ss" "snd ?m = ?f (fst ?m)" "?f (fst ?m) > 0" by auto
      have "\<forall>u\<in>set ss. ?f u > 0 \<longrightarrow> ?f (fst ?m) \<le> ?f u" using m(2) s(2) by auto
      with s ss True have "policy_choice (rs_policy r) ?f (fst ?m)" by (auto simp: policy_choice_def)
      with ss True Cons show ?thesis by (simp add: source_according_to_policy_def)
    qed
  qed
qed

lemma solution_frames:
  "rs_policy (get_from_map_data i (get_from_car_state i r)) = rs_policy r"
  "rs_offset_type (get_from_map_data i (get_from_car_state i r)) = rs_offset_type r"
  "rs_speed_limit_last (get_from_map_data i (get_from_car_state i r)) = rs_speed_limit_last r"
  "rs_speed_limit_final_last (get_from_map_data i (get_from_car_state i r)) = rs_speed_limit_final_last r"
  "rs_frame (get_from_map_data i (get_from_car_state i r)) = rs_frame r"
  by (auto simp: get_from_map_data_def get_from_car_state_def process_map_data_def calculate_map_data_limits_def
      reset_limit_sources_def set_solution_def Let_def)

lemma car_solution [simp]:
  "rs_limit_solutions (get_from_map_data i (get_from_car_state i r)) Source_car = ri_car_speedLimit i"
  by (auto simp: get_from_map_data_def get_from_car_state_def process_map_data_def calculate_map_data_limits_def
      reset_limit_sources_def set_solution_def Let_def)

text \<open>
  What the map says at a speed: nothing once its fix is too old; the limit ahead, with the distance
  to it, when it is lower and closer than the way braking at 1 m/s^2 takes, or higher and at most
  50 m away; otherwise the limit here, at no distance.
\<close>

definition map_limit :: "real \<Rightarrow> resolver_inputs \<Rightarrow> real \<times> real" where
  "map_limit v i =
     (let here = (if ri_map_speedLimitValid i then ri_map_speedLimit i else 0);
          ahead = (if ri_map_speedLimitAheadValid i then ri_map_speedLimitAhead i else 0);
          distance = max 0 (ri_map_speedLimitAheadDistance i - v * (ri_now_2 i - gps_fix_time i))
      in if ri_now i - gps_fix_time i > 10 then (0, 0)
         else if 0 < ahead \<and> ahead < here \<and> distance \<le> (v^2 - ahead^2) / 2 \<or> 0 < here \<and> here < ahead \<and> distance \<le> 50
         then (ahead, distance) else (here, 0))"

lemma braking_distance:
  "v * ((n - v) / LIMIT_ADAPT_ACC) + (1/2) * LIMIT_ADAPT_ACC * ((n - v) / LIMIT_ADAPT_ACC) ^ 2 = (v^2 - n^2) / 2" for v n :: real
  by (simp add: LIMIT_ADAPT_ACC_def power2_eq_square) algebra

lemma map_solution:
  "rs_limit_solutions (get_from_map_data i r) Source_map = fst (map_limit (rs_v_ego r) i)"
  "rs_distance_solutions (get_from_map_data i r) Source_map = snd (map_limit (rs_v_ego r) i)"
proof -
  let ?r = "reset_limit_sources Source_map r"
  define here where "here = (if ri_map_speedLimitValid i then ri_map_speedLimit i else 0)"
  define ahead where "ahead = (if ri_map_speedLimitAheadValid i then ri_map_speedLimitAhead i else 0)"
  define d where "d = max 0 (ri_map_speedLimitAheadDistance i - rs_v_ego r * (ri_now_2 i - gps_fix_time i))"
  have v: "rs_v_ego ?r = rs_v_ego r" by (simp add: reset_limit_sources_def set_solution_def)
  have "get_from_map_data i r = (if ri_now i - gps_fix_time i > 10 then ?r else
      if 0 < ahead \<and> ahead < here then
        (if d \<le> ((rs_v_ego r)^2 - ahead^2) / 2 then set_solution Source_map ahead d (set_solution Source_map here 0 ?r)
         else set_solution Source_map here 0 ?r)
      else if 0 < here \<and> here < ahead then
        (if d \<le> 50 then set_solution Source_map ahead d (set_solution Source_map here 0 ?r) else set_solution Source_map here 0 ?r)
      else set_solution Source_map here 0 ?r)"
    unfolding get_from_map_data_def process_map_data_def calculate_map_data_limits_def Let_def braking_distance v
      LIMIT_MAX_MAP_DATA_AGE_def here_def [symmetric] ahead_def [symmetric] d_def [symmetric] by (rule refl)
  moreover have "map_limit (rs_v_ego r) i = (if ri_now i - gps_fix_time i > 10 then (0, 0)
      else if 0 < ahead \<and> ahead < here \<and> d \<le> ((rs_v_ego r)^2 - ahead^2) / 2 \<or> 0 < here \<and> here < ahead \<and> d \<le> 50
      then (ahead, d) else (here, 0))"
    unfolding map_limit_def Let_def here_def [symmetric] ahead_def [symmetric] d_def [symmetric] by (rule refl)
  ultimately show "rs_limit_solutions (get_from_map_data i r) Source_map = fst (map_limit (rs_v_ego r) i)"
    "rs_distance_solutions (get_from_map_data i r) Source_map = snd (map_limit (rs_v_ego r) i)"
    by (simp_all add: reset_limit_sources_def set_solution_def)
qed

lemma car_distance [simp]:
  "rs_distance_solutions (get_from_map_data i (get_from_car_state i r)) Source_car = 0" "rs_v_ego (get_from_car_state i r) = rs_v_ego r"
  by (auto simp: get_from_map_data_def get_from_car_state_def process_map_data_def calculate_map_data_limits_def
      reset_limit_sources_def set_solution_def Let_def)

text \<open>The parameters in force in a cycle.\<close>

definition params_in_range :: "(string \<Rightarrow> int) \<Rightarrow> params \<Rightarrow> resolver \<Rightarrow> bool" where
  "params_in_range dflt p r \<longleftrightarrow> (let r0 = resolver_update_params dflt p r in
     0 \<le> rs_policy r0 \<and> rs_policy r0 \<le> 4 \<and> 0 \<le> rs_offset_type r0 \<and> rs_offset_type r0 \<le> 2)"

lemma resolver_init_in_range: "params_in_range dflt p (fst (resolver_init dflt p'))"
  using sanitize_bounds [of Policy_car_state_only Policy_combined dflt "''SpeedLimitPolicy''" p']
    sanitize_bounds [of OffsetType_off OffsetType_percentage dflt "''SpeedLimitOffsetType''"
      "snd (get_sanitize_int_param dflt ''SpeedLimitPolicy'' Policy_car_state_only Policy_combined p')"]
  by (simp add: params_in_range_def resolver_update_params_def resolver_init_def Let_def split_def
      PARAMS_UPDATE_PERIOD_def DT_MDL_def policy_defs offset_type_defs)

text \<open>A cycle of the resolver, from the policy's choice on.\<close>

lemma resolver_update_result:
  assumes "params_in_range dflt p (r\<lparr>rs_v_ego := v_ego\<rparr>)"
  shows "\<exists>r'. resolver_update dflt p v_ego i r = Inr r'
    \<and> policy_choice (rs_policy r') (rs_limit_solutions r') (rs_source r')
    \<and> rs_limit_solutions r' Source_car = ri_car_speedLimit i
    \<and> rs_speed_limit r' = (if rs_source r' = Source_none then 0 else rs_limit_solutions r' (rs_source r'))
    \<and> rs_distance r' = (if rs_source r' = Source_none then 0 else rs_distance_solutions r' (rs_source r'))
    \<and> rs_distance_solutions r' Source_car = 0
    \<and> (rs_limit_solutions r' Source_map, rs_distance_solutions r' Source_map) = map_limit v_ego i
    \<and> rs_policy r' = rs_policy (resolver_update_params dflt p r)
    \<and> get_speed_limit_offset r' = Inr (rs_speed_limit_offset r')
    \<and> rs_speed_limit_final r' = rs_speed_limit r' + rs_speed_limit_offset r'
    \<and> (if rs_speed_limit r' > 0
       then rs_speed_limit_last r' = rs_speed_limit r' \<and> rs_speed_limit_final_last r' = rs_speed_limit_final r'
       else rs_speed_limit_last r' = rs_speed_limit_last r \<and> rs_speed_limit_final_last r' = rs_speed_limit_final_last r)
    \<and> rs_frame r' = rs_frame r + 1"
proof -
  define r0 where "r0 = resolver_update_params dflt p (r\<lparr>rs_v_ego := v_ego\<rparr>)"
  define r1 where "r1 = get_from_map_data i (get_from_car_state i r0)"
  have rng: "0 \<le> rs_policy r1" "rs_policy r1 \<le> 4" "0 \<le> rs_offset_type r1" "rs_offset_type r1 \<le> 2"
    using assms by (auto simp: params_in_range_def Let_def r0_def [symmetric] r1_def solution_frames)
  have frame: "rs_speed_limit_last r1 = rs_speed_limit_last r" "rs_speed_limit_final_last r1 = rs_speed_limit_final_last r"
    "rs_frame r1 = rs_frame r" "rs_limit_solutions r1 Source_car = ri_car_speedLimit i"
    "rs_policy r1 = rs_policy (resolver_update_params dflt p r)"
    by (simp_all add: r1_def solution_frames r0_def resolver_update_params_def)
  have v: "rs_v_ego r0 = v_ego" by (simp add: r0_def resolver_update_params_def)
  have sol: "rs_distance_solutions r1 Source_car = 0" "(rs_limit_solutions r1 Source_map, rs_distance_solutions r1 Source_map) = map_limit v_ego i"
    unfolding r1_def by (simp_all add: map_solution v)
  from source_according_to_policy_spec [OF rng(1,2)] obtain s where
    s: "source_according_to_policy r1 = Inr s" "policy_choice (rs_policy r1) (rs_limit_solutions r1) s" by blast
  define r2 where "r2 = r1\<lparr>rs_speed_limit := (if s \<noteq> Source_none then rs_limit_solutions r1 s else 0),
    rs_distance := (if s \<noteq> Source_none then rs_distance_solutions r1 s else 0), rs_source := s\<rparr>"
  have "0 \<le> rs_offset_type r2" "rs_offset_type r2 \<le> 2" using rng by (simp_all add: r2_def)
  then obtain off where off: "get_speed_limit_offset r2 = Inr off" using offset_defined [of r2] by blast
  define r3 where "r3 = update_speed_limit_states (r2\<lparr>rs_speed_limit_offset := off\<rparr>)"
  have resolve: "resolve_limit_sources i r0 = Inr (r1, if s \<noteq> Source_none then rs_limit_solutions r1 s else 0,
      if s \<noteq> Source_none then rs_distance_solutions r1 s else 0, s)"
    using s(1) by (simp add: resolve_limit_sources_def Let_def r1_def [symmetric])
  have "resolver_update dflt p v_ego i r = Inr (r3\<lparr>rs_frame := rs_frame r3 + 1\<rparr>)"
    by (simp only: resolver_update_def Let_def r0_def [symmetric] resolve bind_result_simps prod.case
        r2_def [symmetric] off r3_def [symmetric])
  moreover have "get_speed_limit_offset (r3\<lparr>rs_frame := rs_frame r3 + 1\<rparr>) = get_speed_limit_offset r2"
    by (simp add: r3_def update_speed_limit_states_def get_speed_limit_offset_def Let_def)
  ultimately show ?thesis using s(2) frame sol off
    by (auto simp: r3_def update_speed_limit_states_def r2_def Let_def)
qed

section \<open>Properties\<close>

text \<open>
  C22. A cycle of the resolver with a known policy and offset type returns; the car's limit is that
  of its message, at no distance, the map's limit and distance are those of \<open>map_limit\<close> at the
  present speed, the source is the choice of the policy in force among the two, limit and distance
  are those of that source, or zero without one, the offset is that of its type, and the last valid
  limit and its offset are kept while no source has one.
\<close>

theorem resolver_update_spec:
  assumes "params_in_range dflt p (r\<lparr>rs_v_ego := v_ego\<rparr>)"
  shows "\<exists>r'. resolver_update dflt p v_ego i r = Inr r'
    \<and> policy_choice (rs_policy r') (rs_limit_solutions r') (rs_source r')
    \<and> rs_limit_solutions r' Source_car = ri_car_speedLimit i
    \<and> rs_speed_limit r' = (if rs_source r' = Source_none then 0 else rs_limit_solutions r' (rs_source r'))
    \<and> rs_distance r' = (if rs_source r' = Source_none then 0 else rs_distance_solutions r' (rs_source r'))
    \<and> rs_distance_solutions r' Source_car = 0
    \<and> (rs_limit_solutions r' Source_map, rs_distance_solutions r' Source_map) = map_limit v_ego i
    \<and> rs_policy r' = rs_policy (resolver_update_params dflt p r)
    \<and> get_speed_limit_offset r' = Inr (rs_speed_limit_offset r')
    \<and> rs_speed_limit_final r' = rs_speed_limit r' + rs_speed_limit_offset r'
    \<and> (if rs_speed_limit r' > 0
       then rs_speed_limit_last r' = rs_speed_limit r' \<and> rs_speed_limit_final_last r' = rs_speed_limit_final r'
       else rs_speed_limit_last r' = rs_speed_limit_last r \<and> rs_speed_limit_final_last r' = rs_speed_limit_final_last r)
    \<and> rs_frame r' = rs_frame r + 1"
  using assms by (rule resolver_update_result)

definition test_resolver_inputs :: resolver_inputs where
  "test_resolver_inputs = \<lparr>ri_car_speedLimit = 25, ri_gps_unixTimestampMillis = 1700000000000,
     ri_map_speedLimit = 20, ri_map_speedLimitValid = True, ri_map_speedLimitAhead = 10,
     ri_map_speedLimitAheadValid = True, ri_map_speedLimitAheadDistance = 5, ri_now = 100, ri_now_2 = 100\<rparr>"

definition map_policy :: params where
  "map_policy = Map.empty(''SpeedLimitPolicy'' \<mapsto> PInt 1)"

theorem resolver_update_spec_witness:
  "\<exists>r'. resolver_update (\<lambda>_. 0) map_policy 15 (test_resolver_inputs\<lparr>ri_now := 1700000000, ri_now_2 := 1700000000\<rparr>)
      (fst (resolver_init (\<lambda>_. 0) map_policy)) = Inr r'
    \<and> rs_source r' = Source_map \<and> rs_speed_limit r' = 10 \<and> rs_distance r' = 5"
proof -
  let ?i = "test_resolver_inputs\<lparr>ri_now := 1700000000, ri_now_2 := 1700000000\<rparr>" and ?r = "fst (resolver_init (\<lambda>_. 0) map_policy)"
  have r: "rs_frame ?r = -1" "rs_policy ?r = 1"
    by (simp_all add: resolver_init_def Let_def split_def get_sanitize_int_param_def get_int_def map_policy_def policy_defs)
  then have rng: "params_in_range (\<lambda>_. 0) map_policy (?r\<lparr>rs_v_ego := 15\<rparr>)" "rs_policy (resolver_update_params (\<lambda>_. 0) map_policy ?r) = 1"
    using resolver_init_in_range [of "\<lambda>_. 0" map_policy map_policy]
    by (simp_all add: params_in_range_def resolver_update_params_def Let_def PARAMS_UPDATE_PERIOD_def DT_MDL_def)
  have "map_limit 15 ?i = (10, 5)"
    by (simp add: map_limit_def test_resolver_inputs_def gps_fix_time_def Let_def power2_eq_square)
  then show ?thesis using resolver_update_spec [OF rng(1), of ?i] rng(2)
    by (auto simp: policy_choice_def policy_sources_def policy_defs)
qed

text \<open>
  The age of the fix is a difference of two clocks: monotonic time since boot and Unix time
  in milliseconds. With any fix dated after 2001 and less than 30 years of uptime, map data is
  never too old, and at any speed between 1 and 100 m/s the limit ahead is never taken early:
  the map's limit is the current one.
\<close>

theorem map_lookahead_never_taken:
  assumes "1000000000 \<le> gps_fix_time i" "ri_now i \<le> 950000000" "ri_now_2 i \<le> 950000000"
    "1 \<le> rs_v_ego r" "rs_v_ego r \<le> 100" "0 \<le> ri_map_speedLimitAheadDistance i"
  shows "rs_limit_solutions (get_from_map_data i r) Source_map
    = (if ri_map_speedLimitValid i then ri_map_speedLimit i else 0)"
proof -
  have "50000000 * 1 \<le> (gps_fix_time i - ri_now_2 i) * rs_v_ego r"
    using assms by (intro mult_mono) auto
  then have far: "50000000 \<le> ri_map_speedLimitAheadDistance i - rs_v_ego r * (ri_now_2 i - gps_fix_time i)"
    using assms(6) by (simp add: algebra_simps)
  have adapt: "rs_v_ego r * ((n - rs_v_ego r) / - 1) - (1/2) * ((n - rs_v_ego r) / - 1) ^ 2 \<le> 10000" if "0 < n" for n
  proof -
    have "rs_v_ego r * ((n - rs_v_ego r) / - 1) \<le> 100 * 100"
    proof (cases "rs_v_ego r \<le> n")
      case True
      then have "rs_v_ego r * ((n - rs_v_ego r) / - 1) \<le> 0" using assms(4) by (simp add: mult_nonneg_nonpos)
      then show ?thesis by simp
    next
      case False
      then show ?thesis using assms(4,5) that by (intro mult_mono) auto
    qed
    moreover have "0 \<le> ((n - rs_v_ego r) / - 1) ^ 2" by simp
    ultimately show ?thesis by linarith
  qed
  show ?thesis using assms far adapt [of "ri_map_speedLimitAhead i"]
    by (auto simp: get_from_map_data_def process_map_data_def LIMIT_MAX_MAP_DATA_AGE_def calculate_map_data_limits_def
        Let_def set_solution_def reset_limit_sources_def LIMIT_ADAPT_ACC_def)
qed

theorem map_lookahead_never_taken_witness:
  "rs_limit_solutions (get_from_map_data test_resolver_inputs ((fst (resolver_init (\<lambda>_. 0) Map.empty))\<lparr>rs_v_ego := 15\<rparr>)) Source_map
    = (if ri_map_speedLimitValid test_resolver_inputs then ri_map_speedLimit test_resolver_inputs else 0)"
  by (rule map_lookahead_never_taken) (simp_all add: test_resolver_inputs_def gps_fix_time_def)

end
