(* ===== verification/Locationd_Helpers.thy ===== *)
theory Locationd_Helpers
  imports Sd_Messages Windows
begin

text \<open>
  The parts of \<open>selfdrive/locationd/helpers.py\<close> the control loop uses: poses and the
  calibrator that turns a pose of the device into one of the car, and the bounded queues and
  buckets of the parameter estimators. A standard deviation that is all \<open>nan\<close> is \<open>None\<close>.
\<close>

section \<open>Poses\<close>

record measurement =
  me_xyz :: vec3
  me_xyz_std :: "vec3 option"

definition from_measurement_xyz :: "xyz_measurement \<Rightarrow> measurement" where
  "from_measurement_xyz m = \<lparr>me_xyz = xm_xyz m, me_xyz_std = Some (xm_std m)\<rparr>"

record pose =
  po_orientation :: measurement
  po_velocity :: measurement
  po_acceleration :: measurement
  po_angular_velocity :: measurement

text \<open>The properties \<open>x\<close> and \<open>yaw\<close> of a measurement.\<close>

definition po_acceleration_x :: "pose \<Rightarrow> real" where
  "po_acceleration_x p = fst (me_xyz (po_acceleration p))"

definition po_angular_velocity_yaw :: "pose \<Rightarrow> real" where
  "po_angular_velocity_yaw p = snd (snd (me_xyz (po_angular_velocity p)))"

definition from_live_pose :: "sd_msgs \<Rightarrow> pose" where
  "from_live_pose m = \<lparr>po_orientation = from_measurement_xyz (lv_orientationNED m),
     po_velocity = from_measurement_xyz (lv_velocityDevice m),
     po_acceleration = from_measurement_xyz (lv_accelerationDevice m),
     po_angular_velocity = from_measurement_xyz (lv_angularVelocityDevice m)\<rparr>"

fun diag3 :: "vec3 \<Rightarrow> mat3" where
  "diag3 (a, b, c) = ((a, 0, 0), (0, b, 0), (0, 0, c))"

fun diagonal3 :: "mat3 \<Rightarrow> vec3" where
  "diagonal3 ((a, _, _), (_, b, _), (_, _, c)) = (a, b, c)"

fun map3 :: "(real \<Rightarrow> real) \<Rightarrow> vec3 \<Rightarrow> vec3" where
  "map3 f (a, b, c) = (f a, f b, f c)"

definition rotate_cov :: "mat3 \<Rightarrow> mat3 \<Rightarrow> mat3" where
  "rotate_cov rot cov = mat_mul (mat_mul rot cov) (transpose3 rot)"

definition rotate_std :: "mat3 \<Rightarrow> vec3 \<Rightarrow> vec3" where
  "rotate_std rot std = map3 sqrt (diagonal3 (rotate_cov rot (diag3 (map3 (\<lambda>x. x^2) std))))"

record pose_calibrator =
  pc_calib_valid :: bool
  pc_calib_from_device :: mat3

definition pose_calibrator_init :: pose_calibrator where
  "pose_calibrator_init = \<lparr>pc_calib_valid = False, pc_calib_from_device = eye3\<rparr>"

definition transform_calib_from_device :: "pose_calibrator \<Rightarrow> measurement \<Rightarrow> measurement" where
  "transform_calib_from_device c m = \<lparr>me_xyz = mat_vec (pc_calib_from_device c) (me_xyz m),
     me_xyz_std = map_option (rotate_std (pc_calib_from_device c)) (me_xyz_std m)\<rparr>"

definition ned_from_calib :: "pose_calibrator \<Rightarrow> measurement \<Rightarrow> measurement" where
  "ned_from_calib c orientation =
     (let ned_from_device = euler2rot_single (me_xyz orientation)
      in \<lparr>me_xyz = rot2euler_single (mat_mul ned_from_device (transpose3 (pc_calib_from_device c))),
          me_xyz_std = None\<rparr>)"

definition build_calibrated_pose :: "pose_calibrator \<Rightarrow> pose \<Rightarrow> pose" where
  "build_calibrated_pose c p = \<lparr>po_orientation = ned_from_calib c (po_orientation p),
     po_velocity = transform_calib_from_device c (po_velocity p),
     po_acceleration = transform_calib_from_device c (po_acceleration p),
     po_angular_velocity = transform_calib_from_device c (po_angular_velocity p)\<rparr>"

text \<open>The conversion to Euler angles raises unless the message has three of them.\<close>

definition feed_live_calib :: "sd_msgs \<Rightarrow> pose_calibrator \<Rightarrow> pose_calibrator result" where
  "feed_live_calib m c = (case lc_rpyCalib m of
       [r, p, y] \<Rightarrow> Inr (c\<lparr>pc_calib_from_device := transpose3 (euler2rot_single (r, p, y)),
                          pc_calib_valid := (lc_calStatus m = Cal_calibrated)\<rparr>)
     | _ \<Rightarrow> Inl ValueError)"

section \<open>Queues and buckets of points\<close>

record 'p np_queue =
  nq_maxlen :: nat
  nq_arr :: "'p list"

definition nq_init :: "nat \<Rightarrow> 'p np_queue" where
  "nq_init maxlen = \<lparr>nq_maxlen = maxlen, nq_arr = []\<rparr>"

text \<open>With \<open>maxlen = 0\<close> the assignment to the last row raises.\<close>

definition nq_append :: "'p \<Rightarrow> 'p np_queue \<Rightarrow> 'p np_queue result" where
  "nq_append pt q =
     (if length (nq_arr q) < nq_maxlen q then Inr (q\<lparr>nq_arr := nq_arr q @ [pt]\<rparr>)
      else if nq_arr q = [] then Inl IndexError
      else Inr (q\<lparr>nq_arr := tl (nq_arr q) @ [pt]\<rparr>))"

record 'p point_buckets =
  pb_buckets :: "((real \<times> real) \<times> 'p np_queue) list"
  pb_min_points :: "real list"
  pb_min_points_total :: nat

definition pb_init :: "(real \<times> real) list \<Rightarrow> real list \<Rightarrow> nat \<Rightarrow> nat \<Rightarrow> 'p point_buckets result" where
  "pb_init x_bounds min_points min_points_total points_per_bucket =
     (if length x_bounds = length min_points
      then Inr \<lparr>pb_buckets = map (\<lambda>b. (b, nq_init points_per_bucket)) x_bounds, pb_min_points = min_points,
                pb_min_points_total = min_points_total\<rparr>
      else Inl ValueError)"

definition pb_len :: "'p point_buckets \<Rightarrow> nat" where
  "pb_len b = sum_list (map (\<lambda>(_, q). length (nq_arr q)) (pb_buckets b))"

definition pb_is_valid :: "'p point_buckets \<Rightarrow> bool" where
  "pb_is_valid b \<longleftrightarrow> list_all2 (\<lambda>(_, q) m. real (length (nq_arr q)) \<ge> m) (pb_buckets b) (pb_min_points b)
     \<and> pb_len b \<ge> pb_min_points_total b"

definition pb_is_calculable :: "'p point_buckets \<Rightarrow> bool" where
  "pb_is_calculable b \<longleftrightarrow> list_all (\<lambda>(_, q). length (nq_arr q) > 0) (pb_buckets b)"

definition pb_get_points :: "'p point_buckets \<Rightarrow> 'p list" where
  "pb_get_points b = concat (map (\<lambda>(_, q). nq_arr q) (pb_buckets b))"

section \<open>Facts\<close>

text \<open>The calibration only turns vectors: it keeps their length.\<close>

lemma euler2rot_orthogonal:
  "mat_vec (euler2rot_single e) (mat_vec (transpose3 (euler2rot_single e)) v) = v"
proof -
  obtain p t q where e: "e = (p, t, q)" by (cases e)
  obtain x y z where v: "v = (x, y, z)" by (cases v)
  have alg: "cp^2 + sp^2 = 1 \<Longrightarrow> ct^2 + st^2 = 1 \<Longrightarrow> cq^2 + sq^2 = 1 \<Longrightarrow>
    mat_vec ((cq * ct, cq * st * sp - sq * cp, cq * st * cp + sq * sp),
      (sq * ct, sq * st * sp + cq * cp, sq * st * cp - cq * sp), (- st, ct * sp, ct * cp))
     (mat_vec ((cq * ct, sq * ct, - st), (cq * st * sp - sq * cp, sq * st * sp + cq * cp, ct * sp),
       (cq * st * cp + sq * sp, sq * st * cp - cq * sp, ct * cp)) (x, y, z)) = (x, y, z)"
    for cp sp ct st cq sq :: real
    by (simp, intro conjI; algebra)
  show ?thesis unfolding e v euler2rot_entries transpose3.simps by (rule alg) simp_all
qed

text \<open>The queue holds the last \<open>maxlen\<close> points.\<close>

interpretation nq: bounded_history "\<lambda>q pt. nq_append pt q" nq_arr "\<lambda>q. 0 < nq_maxlen q \<and> length (nq_arr q) \<le> nq_maxlen q" nq_maxlen
proof
  fix q :: "'p np_queue" and pt
  assume q: "0 < nq_maxlen q \<and> length (nq_arr q) \<le> nq_maxlen q"
  consider "length (nq_arr q) < nq_maxlen q" | "length (nq_arr q) = nq_maxlen q" "nq_arr q \<noteq> []" using q by fastforce
  then show "\<exists>q'. nq_append pt q = Inr q' \<and> (0 < nq_maxlen q' \<and> length (nq_arr q') \<le> nq_maxlen q') \<and> nq_maxlen q' = nq_maxlen q
    \<and> nq_arr q' = lastn (nq_maxlen q) (nq_arr q @ [pt])"
    using q by cases (simp_all add: nq_append_def lastn_all lastn_full)
qed simp

lemma nq_append_bounded:
  "length (nq_arr q) \<le> nq_maxlen q \<Longrightarrow> nq_append pt q = Inr q' \<Longrightarrow> length (nq_arr q') \<le> nq_maxlen q'
     \<and> nq_maxlen q' = nq_maxlen q"
  by (cases "nq_arr q") (auto simp: nq_append_def split: if_splits)

text \<open>A pose at rest but for its acceleration along the car, to evaluate the model on.\<close>

definition level_pose :: "real \<Rightarrow> pose" where
  "level_pose a = (let zero = \<lparr>me_xyz = (0, 0, 0), me_xyz_std = None\<rparr>
     in \<lparr>po_orientation = zero, po_velocity = zero, po_acceleration = zero\<lparr>me_xyz := (a, 0, 0)\<rparr>,
         po_angular_velocity = zero\<rparr>)"

lemma level_pose_simps [simp]:
  "po_acceleration_x (level_pose a) = a" "po_angular_velocity_yaw (level_pose a) = 0"
  by (simp_all add: level_pose_def po_acceleration_x_def po_angular_velocity_yaw_def Let_def)

end
