(* ===== verification/Excessive_Actuation.thy ===== *)
theory Excessive_Actuation
  imports Locationd_Helpers
begin

text \<open>
  \<open>selfdrive/selfdrived/helpers.py\<close>: the check that cuts openpilot off after a quarter of a
  second of actuation beyond twice the limits. The limits and the gravity constant belong to
  opendbc.
\<close>

datatype excessive_type = LONGITUDINAL | LATERAL

definition MIN_EXCESSIVE_ACTUATION_COUNT :: int where
  "MIN_EXCESSIVE_ACTUATION_COUNT = py_int ((1/4) / DT_CTRL)"

definition MIN_LATERAL_ENGAGE_BUFFER :: int where
  "MIN_LATERAL_ENGAGE_BUFFER = py_int (1 / DT_CTRL)"

record excessive_check =
  xc_excessive_counter :: int
  xc_engaged_counter :: int

definition excessive_init :: excessive_check where
  "excessive_init = \<lparr>xc_excessive_counter = 0, xc_engaged_counter = 0\<rparr>"

definition excessive_long :: "opendbc \<Rightarrow> sd_msgs \<Rightarrow> pose \<Rightarrow> bool" where
  "excessive_long odb m pose \<longleftrightarrow> cc_longActive (sd_carControl m)
     \<and> (po_acceleration_x pose > odb_ACCEL_MAX odb * 2 \<or> po_acceleration_x pose < odb_ACCEL_MIN odb * 2)"

definition roll_compensated_lateral_accel :: "opendbc \<Rightarrow> sd_msgs \<Rightarrow> car_state \<Rightarrow> pose \<Rightarrow> real" where
  "roll_compensated_lateral_accel odb m CS pose =
     cs_vEgo CS * po_angular_velocity_yaw pose - sin (lp_roll m) * odb_GRAVITY odb"

definition excessive_update :: "opendbc \<Rightarrow> sd_msgs \<Rightarrow> car_state \<Rightarrow> pose \<Rightarrow> excessive_check
    \<Rightarrow> excessive_check \<times> excessive_type option" where
  "excessive_update odb m CS pose c =
     (let long = excessive_long odb m pose;
          engaged = (if cc_latActive (sd_carControl m) \<and> \<not> cs_steeringPressed CS then xc_engaged_counter c + 1 else 0);
          lat = (engaged > MIN_LATERAL_ENGAGE_BUFFER
                 \<and> \<bar>roll_compensated_lateral_accel odb m CS pose\<bar> > odb_ISO_LATERAL_ACCEL odb * 2);
          livepose_valid = (\<bar>cs_aEgo CS - po_acceleration_x pose\<bar> < 2);
          excessive = (if livepose_valid \<and> (long \<or> lat) then xc_excessive_counter c + 1 else 0)
      in (\<lparr>xc_excessive_counter = excessive, xc_engaged_counter = engaged\<rparr>,
          if excessive > MIN_EXCESSIVE_ACTUATION_COUNT then Some (if long then LONGITUDINAL else LATERAL)
          else None))"

section \<open>Runs\<close>

record excessive_inputs =
  xi_msgs :: sd_msgs
  xi_CS :: car_state
  xi_pose :: pose

definition excessive_step :: "opendbc \<Rightarrow> excessive_inputs \<Rightarrow> excessive_check \<Rightarrow> excessive_check \<times> excessive_type option" where
  "excessive_step odb i = excessive_update odb (xi_msgs i) (xi_CS i) (xi_pose i)"

definition excessive_run :: "opendbc \<Rightarrow> excessive_inputs list \<Rightarrow> excessive_check \<Rightarrow> excessive_check" where
  "excessive_run odb is c = foldl (\<lambda>c i. fst (excessive_step odb i c)) c is"

lemma excessive_run_simps [simp]:
  "excessive_run odb [] c = c" "excessive_run odb (i # is) c = excessive_run odb is (fst (excessive_step odb i c))"
  "excessive_run odb (is @ js) c = excessive_run odb js (excessive_run odb is c)"
  by (simp_all add: excessive_run_def)

lemma excessive_constants [simp]:
  "MIN_EXCESSIVE_ACTUATION_COUNT = 25" "MIN_LATERAL_ENGAGE_BUFFER = 100"
  by (simp_all add: MIN_EXCESSIVE_ACTUATION_COUNT_def MIN_LATERAL_ENGAGE_BUFFER_def DT_CTRL_def)

text \<open>The two conditions that have to hold in a cycle for the counter to go up.\<close>

definition plausible_pose :: "excessive_inputs \<Rightarrow> bool" where
  "plausible_pose i \<longleftrightarrow> \<bar>cs_aEgo (xi_CS i) - po_acceleration_x (xi_pose i)\<bar> < 2"

definition beyond_limits :: "opendbc \<Rightarrow> excessive_inputs \<Rightarrow> bool" where
  "beyond_limits odb i \<longleftrightarrow> excessive_long odb (xi_msgs i) (xi_pose i)
     \<or> \<bar>roll_compensated_lateral_accel odb (xi_msgs i) (xi_CS i) (xi_pose i)\<bar> > odb_ISO_LATERAL_ACCEL odb * 2
       \<and> cc_latActive (sd_carControl (xi_msgs i)) \<and> \<not> cs_steeringPressed (xi_CS i)"

lemma counter_step:
  "xc_excessive_counter (fst (excessive_step odb i c)) \<noteq> 0 \<Longrightarrow>
     xc_excessive_counter (fst (excessive_step odb i c)) = xc_excessive_counter c + 1
     \<and> plausible_pose i \<and> beyond_limits odb i"
  by (auto simp: excessive_step_def excessive_update_def Let_def plausible_pose_def beyond_limits_def split: if_splits)

lemma counter_run:
  assumes "xc_excessive_counter (excessive_run odb is c) = int n" "xc_excessive_counter c = 0"
  shows "\<exists>xs ys. is = xs @ ys \<and> length ys = n \<and> (\<forall>y\<in>set ys. plausible_pose y \<and> beyond_limits odb y)"
  using assms
proof (induction "is" arbitrary: n rule: rev_induct)
  case Nil
  then show ?case by simp
next
  case (snoc i js)
  show ?case
  proof (cases n)
    case 0
    then show ?thesis by (intro exI [of _ "js @ [i]"] exI [of _ "[]"]) simp
  next
    case (Suc k)
    let ?c = "excessive_run odb js c"
    have "xc_excessive_counter (fst (excessive_step odb i ?c)) = int (Suc k)" using snoc.prems Suc by simp
    with counter_step [of odb i ?c] have k: "xc_excessive_counter ?c = int k" "plausible_pose i" "beyond_limits odb i" by auto
    from snoc.IH [OF k(1) snoc.prems(2)] obtain xs ys where
      "js = xs @ ys" "length ys = k" "\<forall>y\<in>set ys. plausible_pose y \<and> beyond_limits odb y" by blast
    with k Suc show ?thesis by (intro exI [of _ xs] exI [of _ "ys @ [i]"]) auto
  qed
qed

lemma counter_nonneg: "0 \<le> xc_excessive_counter c \<Longrightarrow> 0 \<le> xc_excessive_counter (excessive_run odb is c)"
proof (induction "is" rule: rev_induct)
  case (snoc i js)
  then show ?case by (auto simp: excessive_step_def excessive_update_def Let_def)
qed simp

lemma counter_long:
  assumes "\<forall>i\<in>set is. plausible_pose i \<and> excessive_long odb (xi_msgs i) (xi_pose i)"
  shows "xc_excessive_counter (excessive_run odb is c) = xc_excessive_counter c + int (length is)"
  using assms
proof (induction "is" rule: rev_induct)
  case (snoc i js)
  then show ?case by (auto simp: excessive_step_def excessive_update_def Let_def plausible_pose_def)
qed simp

section \<open>Properties\<close>

text \<open>
  C23. The check reports only after more than a quarter of a second: the last 26 cycles all had
  a plausible pose and an actuation beyond the limits while it was active.
\<close>

theorem excessive_report_sound:
  assumes "xc_excessive_counter c = 0"
    and "snd (excessive_step odb i (excessive_run odb is c)) = Some t"
  shows "\<exists>xs ys. is @ [i] = xs @ ys \<and> length ys = 26 \<and> (\<forall>y\<in>set ys. plausible_pose y \<and> beyond_limits odb y)"
proof -
  let ?n = "xc_excessive_counter (fst (excessive_step odb i (excessive_run odb is c)))"
  have n: "?n > 25" using assms(2) by (auto simp: excessive_step_def excessive_update_def Let_def split: if_splits)
  have "xc_excessive_counter (excessive_run odb (is @ [i]) c) = int (nat ?n)" using n by simp
  from counter_run [OF this assms(1)] obtain xs ys where
    s: "is @ [i] = xs @ ys" "length ys = nat ?n" "\<forall>y\<in>set ys. plausible_pose y \<and> beyond_limits odb y" by blast
  let ?d = "length ys - 26"
  have "is @ [i] = (xs @ take ?d ys) @ drop ?d ys" using s(1) by simp
  moreover have "length (drop ?d ys) = 26" using s(2) n by simp
  moreover have "\<forall>y\<in>set (drop ?d ys). plausible_pose y \<and> beyond_limits odb y" using s(3) by (meson in_set_dropD)
  ultimately show ?thesis by blast
qed

definition test_excessive_inputs :: excessive_inputs where
  "test_excessive_inputs = \<lparr>xi_msgs = default_sd_msgs\<lparr>sd_carControl := default_cc\<lparr>cc_longActive := True\<rparr>\<rparr>,
     xi_CS = default_cs\<lparr>cs_aEgo := 5\<rparr>, xi_pose = level_pose 5\<rparr>"

lemma test_excessive_inputs_ok:
  "plausible_pose test_excessive_inputs"
  "excessive_long test_opendbc (xi_msgs test_excessive_inputs) (xi_pose test_excessive_inputs)"
  by (simp_all add: plausible_pose_def test_excessive_inputs_def default_msg_defs default_sd_msgs_def
      default_cc_def excessive_long_def test_opendbc_def)

lemma test_excessive_reported:
  "snd (excessive_step test_opendbc test_excessive_inputs
     (excessive_run test_opendbc (replicate 25 test_excessive_inputs) excessive_init)) = Some LONGITUDINAL"
  using counter_long [of "replicate 25 test_excessive_inputs" test_opendbc excessive_init] test_excessive_inputs_ok
  by (auto simp: excessive_step_def excessive_update_def Let_def plausible_pose_def excessive_init_def)

theorem excessive_report_sound_witness:
  "\<exists>xs ys. replicate 25 test_excessive_inputs @ [test_excessive_inputs] = xs @ ys \<and> length ys = 26
    \<and> (\<forall>y\<in>set ys. plausible_pose y \<and> beyond_limits test_opendbc y)"
  by (rule excessive_report_sound [OF _ test_excessive_reported]) (simp add: excessive_init_def)

text \<open>
  Longitudinal actuation beyond the limits in 26 consecutive cycles with a plausible pose is
  reported in the last of them.
\<close>

theorem excessive_report_complete:
  assumes "\<forall>i\<in>set is. plausible_pose i \<and> excessive_long odb (xi_msgs i) (xi_pose i)" "length is = 25"
    "plausible_pose i" "excessive_long odb (xi_msgs i) (xi_pose i)" "0 \<le> xc_excessive_counter c"
  shows "snd (excessive_step odb i (excessive_run odb is c)) = Some LONGITUDINAL"
  using counter_long [OF assms(1), of c] assms(2-)
  by (auto simp: excessive_step_def excessive_update_def Let_def plausible_pose_def)

theorem excessive_report_complete_witness:
  "snd (excessive_step test_opendbc test_excessive_inputs
     (excessive_run test_opendbc (replicate 25 test_excessive_inputs) excessive_init)) = Some LONGITUDINAL"
  by (rule excessive_report_complete) (simp_all add: test_excessive_inputs_ok excessive_init_def)

end
