(* ===== verification/Selfdrived.thy ===== *)
theory Selfdrived
  imports Mads_Facts Car_Events Cruise_Helper Icbm Excessive_Actuation Alert_Manager
begin

text \<open>
  \<open>selfdrive/selfdrived/selfdrived.py\<close>: the control loop that turns the state of the car and
  the messages of all other processes into events, drives the two state machines, and selects
  the alert. The record \<open>selfdrived\<close> extends \<open>selfdrive\<close> by the other attributes of
  \<open>SelfdriveD\<close>; the two attributes that only serve the log are left out. One call of \<open>step\<close>
  takes what arrives from outside as a record of inputs. Every statement of \<open>update_events\<close> is
  one statement of the block of the same name here, in the same order.
\<close>

section \<open>State\<close>

text \<open>What does not change while the process runs: the environment and code outside the repository.\<close>

record sd_config =
  cf_env :: alert_env
  cf_SIMULATION :: bool
  cf_TESTING_CLOSET :: bool
  cf_gps_location_service :: string
  cf_odb :: opendbc
  cf_OFFROAD_ALERTS :: "string \<rightharpoonup> offroad_alert"
  cf_apply_hysteresis :: "real \<Rightarrow> real \<Rightarrow> real \<Rightarrow> real"
  cf_param_default :: "string \<Rightarrow> int"

record selfdrived = selfdrive +
  sv_sm :: sd_sm
  sv_params :: params
  sv_offroad_alerts :: "string \<rightharpoonup> offroad_alert"
  sv_car_events :: car_events
  sv_car_events_sp_low_speed_alert :: bool
  sv_pose_calibrator :: pose_calibrator
  sv_calibrated_pose :: "pose option"
  sv_excessive_actuation_check :: excessive_check
  sv_excessive_actuation :: bool
  sv_is_metric :: bool
  sv_is_ldw_enabled :: bool
  sv_disengage_on_accelerator :: bool
  sv_AM :: alert_manager
  sv_mismatch_counter :: int
  sv_cruise_mismatch_counter :: int
  sv_last_steering_pressed_frame :: int
  sv_distance_traveled :: real
  sv_last_functional_fan_frame :: int
  sv_events_prev :: "event_id list"
  sv_events_sp_prev :: "event_id list"
  sv_experimental_mode :: bool
  sv_personality :: int
  sv_recalibrating_seen :: bool
  sv_startup_event :: "event_id option"
  sv_icbm :: icbm
  sv_cruise_helper :: cruise_helper

definition sensor_packets :: "string list" where
  "sensor_packets = [''accelerometer'', ''gyroscope'']"

definition camera_packets :: "string list" where
  "camera_packets = [''roadCameraState'', ''driverCameraState'', ''wideRoadCameraState'']"

definition ignored_processes :: "string list" where
  "ignored_processes = [''mapd'']"

definition IGNORED_SAFETY_MODES :: "safety_model list" where
  "IGNORED_SAFETY_MODES = [SM_silent, SM_noOutput]"

text \<open>Abbreviations of attribute accesses: \<open>self.sm.frame\<close> and \<open>self.sm[...]\<close>.\<close>

abbreviation (input) sv_frame :: "('a selfdrived_scheme) \<Rightarrow> int" where
  "sv_frame s \<equiv> sm_frame (sd_health (sv_sm s))"

abbreviation (input) sv_msg :: "('a selfdrived_scheme) \<Rightarrow> sd_msgs" where
  "sv_msg s \<equiv> sd_msg (sv_sm s)"

section \<open>Statements\<close>

definition check :: "('a selfdrived_scheme \<Rightarrow> bool) \<Rightarrow> event_id \<Rightarrow> 'a selfdrived_scheme \<Rightarrow> 'a selfdrived_scheme result" where
  "check c e = when_do c (add_event e)"

definition check_sp :: "('a selfdrived_scheme \<Rightarrow> bool) \<Rightarrow> event_id \<Rightarrow> 'a selfdrived_scheme \<Rightarrow> 'a selfdrived_scheme result" where
  "check_sp c e = when_do c (add_event_sp e)"

definition raise_offroad_alert :: "sd_config \<Rightarrow> string \<Rightarrow> string option \<Rightarrow> 'a selfdrived_scheme \<Rightarrow> 'a selfdrived_scheme result" where
  "raise_offroad_alert cf a extra s =
     bind_result (set_offroad_alert (cf_OFFROAD_ALERTS cf) a True extra (sv_offroad_alerts s))
       (\<lambda>p. Inr (s\<lparr>sv_offroad_alerts := p\<rparr>))"

section \<open>update_events\<close>

definition clear_events :: "'a selfdrived_scheme \<Rightarrow> 'a selfdrived_scheme result" where
  "clear_events = pure_do (\<lambda>s. s\<lparr>sf_events := ev_clear (sf_events s), sf_events_sp := ev_clear (sf_events_sp s)\<rparr>)"

definition no_startup :: "'a selfdrived_scheme \<Rightarrow> 'a selfdrived_scheme result" where
  "no_startup = pure_do (\<lambda>s. s\<lparr>sv_startup_event := None\<rparr>)"

definition startup_statement :: "'a selfdrived_scheme \<Rightarrow> 'a selfdrived_scheme result" where
  "startup_statement s = (case sv_startup_event s of None \<Rightarrow> Inr s
     | Some e \<Rightarrow> run_block [add_event e, no_startup] s)"

definition startup_block :: "('a selfdrived_scheme \<Rightarrow> 'a selfdrived_scheme result) list" where
  "startup_block = [
     clear_events,
     when_do (\<lambda>s. co_debugState (sv_msg s)) (run_block [add_event ev_joystickDebug, no_startup]),
     when_do (\<lambda>s. sm_recv_frame (sd_health (sv_sm s)) ''alertDebug'' > 0)
       (run_block [add_event ev_longitudinalManeuver, no_startup]),
     startup_statement]"

definition bookmark_block :: "('a selfdrived_scheme \<Rightarrow> 'a selfdrived_scheme result) list" where
  "bookmark_block = [
     check (\<lambda>s. sm_updated (sd_health (sv_sm s)) ''userBookmark'') ev_userBookmark,
     check (\<lambda>s. sm_updated (sd_health (sv_sm s)) ''audioFeedback'') ev_audioFeedback]"

definition message_block :: "car_state \<Rightarrow> ('a selfdrived_scheme \<Rightarrow> 'a selfdrived_scheme result) list" where
  "message_block CS = [
     check (\<lambda>s. \<not> cp_pcmCruise (sf_CP s) \<and> cs_vCruise CS > 250
         \<and> list_ex (\<lambda>be. be_type be \<in> {BT_accelCruise, BT_resumeCruise}) (cs_buttonEvents CS)) ev_resumeBlocked,
     when_do (\<lambda>s. \<not> cp_notCar (sf_CP s)) (pure_do (\<lambda>s.
       s\<lparr>sf_events := ev_add_from_msg (dm_events (sv_msg s)) (sf_events s),
         sf_events_sp := ev_add_from_msg (lpsp_events (sv_msg s)) (sf_events_sp s)\<rparr>))]"

definition car_events_statement :: "sd_config \<Rightarrow> car_state \<Rightarrow> 'a selfdrived_scheme \<Rightarrow> 'a selfdrived_scheme result" where
  "car_events_statement cf CS = pure_do (\<lambda>s.
     (let (ev, c) = car_events_update (cf_env cf) (cf_odb cf) (sf_CP s) CS (sf_CS_prev s)
                      (sd_carControl (sv_msg s)) (sv_car_events s)
      in s\<lparr>sv_car_events := c,
           sf_events := ev_add_from_msg (map fst (ev_to_msg (EVENTS (cf_env cf)) ev)) (sf_events s)\<rparr>))"

definition car_events_sp_statement :: "sd_config \<Rightarrow> car_state \<Rightarrow> 'a selfdrived_scheme \<Rightarrow> 'a selfdrived_scheme result" where
  "car_events_sp_statement cf CS s =
     bind_result (car_events_sp_update (cf_env cf) (cf_odb cf) (sf_CP s) (sf_CP_SP s) CS
                    (sv_car_events_sp_low_speed_alert s) (sf_events s))
       (\<lambda>(ev, low, sp). Inr (s\<lparr>sf_events := ev, sv_car_events_sp_low_speed_alert := low,
          sf_events_sp := ev_add_from_msg (map fst (ev_to_msg (EVENTS_SP (cf_env cf)) sp)) (sf_events_sp s)\<rparr>))"

definition pedal_event :: "car_state \<Rightarrow> 'a selfdrived_scheme \<Rightarrow> bool" where
  "pedal_event CS s \<longleftrightarrow>
     (cs_gasPressed CS \<and> \<not> cs_gasPressed (sf_CS_prev s) \<and> sv_disengage_on_accelerator s)
     \<or> (cs_brakePressed CS \<and> (\<not> cs_brakePressed (sf_CS_prev s) \<or> \<not> cs_standstill CS))
     \<or> (cs_regenBraking CS \<and> (\<not> cs_regenBraking (sf_CS_prev s) \<or> \<not> cs_standstill CS))"

definition car_block :: "sd_config \<Rightarrow> car_state \<Rightarrow> ('a selfdrived_scheme \<Rightarrow> 'a selfdrived_scheme result) list" where
  "car_block cf CS = [when_do (\<lambda>s. cs_canValid CS) (run_block [
     car_events_statement cf CS,
     car_events_sp_statement cf CS,
     check (\<lambda>s. cp_notCar (sf_CP s) \<and> sv_frame s > py_int (5 / DT_CTRL) \<and> sf_initialized s) ev_pcmEnable,
     check (pedal_event CS) ev_pedalPressed])]"

text \<open>\<open>ThermalStatus.red\<close> is 2.\<close>

definition device_block :: "sd_config \<Rightarrow> ('a selfdrived_scheme \<Rightarrow> 'a selfdrived_scheme result) list" where
  "device_block cf = [
     check (\<lambda>s. ds_thermalStatus (sv_msg s) \<ge> 2) ev_overheat,
     check (\<lambda>s. ds_freeSpacePercent (sv_msg s) < 7 \<and> \<not> cf_SIMULATION cf) ev_outOfSpace,
     check (\<lambda>s. ds_memoryUsagePercent (sv_msg s) > 90 \<and> \<not> cf_SIMULATION cf) ev_lowMemory,
     when_do (\<lambda>s. pe_pandaTypeKnown (sv_msg s))
       (if_do (\<lambda>s. pe_fanSpeedRpm (sv_msg s) < 500 \<and> ds_fanSpeedPercentDesired (sv_msg s) > 50)
         (check (\<lambda>s. of_int (sv_frame s - sv_last_functional_fan_frame s) * DT_CTRL > 15) ev_fanMalfunction)
         (pure_do (\<lambda>s. s\<lparr>sv_last_functional_fan_frame := sv_frame s\<rparr>)))]"

definition calibration_block :: "sd_config \<Rightarrow> ('a selfdrived_scheme \<Rightarrow> 'a selfdrived_scheme result) list" where
  "calibration_block cf = [
     when_do (\<lambda>s. lc_calStatus (sv_msg s) \<noteq> Cal_calibrated)
       (if_do (\<lambda>s. lc_calStatus (sv_msg s) = Cal_uncalibrated) (add_event ev_calibrationIncomplete)
         (if_do (\<lambda>s. lc_calStatus (sv_msg s) = Cal_recalibrating)
           (run_block [
             when_do (\<lambda>s. \<not> sv_recalibrating_seen s) (raise_offroad_alert cf ''Offroad_Recalibration'' None),
             pure_do (\<lambda>s. s\<lparr>sv_recalibrating_seen := True\<rparr>),
             add_event ev_calibrationRecalibrating])
           (add_event ev_calibrationInvalid)))]"

definition ldw_block :: "('a selfdrived_scheme \<Rightarrow> 'a selfdrived_scheme result) list" where
  "ldw_block = [check (\<lambda>s. sv_is_ldw_enabled s \<and> sm_valid (sd_health (sv_sm s)) ''driverAssistance''
     \<and> (da_leftLaneDeparture (sv_msg s) \<or> da_rightLaneDeparture (sv_msg s))) ev_ldw]"

definition excessive_name :: "excessive_type \<Rightarrow> string" where
  "excessive_name t = (case t of LONGITUDINAL \<Rightarrow> ''longitudinal'' | LATERAL \<Rightarrow> ''lateral'')"

definition feed_calibration :: "'a selfdrived_scheme \<Rightarrow> 'a selfdrived_scheme result" where
  "feed_calibration s = bind_result (feed_live_calib (sv_msg s) (sv_pose_calibrator s))
     (\<lambda>c. Inr (s\<lparr>sv_pose_calibrator := c\<rparr>))"

definition excessive_statement :: "sd_config \<Rightarrow> car_state \<Rightarrow> 'a selfdrived_scheme \<Rightarrow> 'a selfdrived_scheme result" where
  "excessive_statement cf CS s = (case sv_calibrated_pose s of None \<Rightarrow> Inr s
     | Some p \<Rightarrow>
         (let (c, r) = excessive_update (cf_odb cf) (sv_msg s) CS p (sv_excessive_actuation_check s);
              s1 = s\<lparr>sv_excessive_actuation_check := c\<rparr>
          in case r of None \<Rightarrow> Inr s1
             | Some t \<Rightarrow> when_do (\<lambda>s. \<not> sv_excessive_actuation s)
                 (run_block [raise_offroad_alert cf ''Offroad_ExcessiveActuation'' (Some (excessive_name t)),
                    pure_do (\<lambda>s. s\<lparr>sv_excessive_actuation := True\<rparr>)]) s1))"

definition excessive_block :: "sd_config \<Rightarrow> car_state \<Rightarrow> ('a selfdrived_scheme \<Rightarrow> 'a selfdrived_scheme result) list" where
  "excessive_block cf CS = [
     when_do (\<lambda>s. sm_updated (sd_health (sv_sm s)) ''liveCalibration'') feed_calibration,
     when_do (\<lambda>s. sm_updated (sd_health (sv_sm s)) ''livePose'') (pure_do (\<lambda>s.
       s\<lparr>sv_calibrated_pose := Some (build_calibrated_pose (sv_pose_calibrator s) (from_live_pose (sv_msg s)))\<rparr>)),
     excessive_statement cf CS,
     check sv_excessive_actuation ev_excessiveActuation]"

definition lane_block :: "car_state \<Rightarrow> ('a selfdrived_scheme \<Rightarrow> 'a selfdrived_scheme result) list" where
  "lane_block CS = [
     if_do (\<lambda>s. mv_laneChangeState (sv_msg s) = LC_preLaneChange)
       (if_do (\<lambda>s. cs_leftBlindspot CS \<and> mv_laneChangeDirection (sv_msg s) = LCD_left
                 \<or> cs_rightBlindspot CS \<and> mv_laneChangeDirection (sv_msg s) = LCD_right)
         (add_event ev_laneChangeBlocked)
         (if_do (\<lambda>s. mv_laneChangeDirection (sv_msg s) = LCD_left)
           (add_event ev_preLaneChangeLeft) (add_event ev_preLaneChangeRight)))
       (check (\<lambda>s. mv_laneChangeState (sv_msg s) \<in> {LC_laneChangeStarting, LC_laneChangeFinishing}) ev_laneChange),
     if_do (\<lambda>s. md_laneTurnDirection (sv_msg s) = TD_turnLeft) (add_event_sp evsp_laneTurnLeft)
       (check_sp (\<lambda>s. md_laneTurnDirection (sv_msg s) = TD_turnRight) evsp_laneTurnRight)]"

definition safety_mismatch :: "car_params \<Rightarrow> nat \<Rightarrow> panda_state \<Rightarrow> bool" where
  "safety_mismatch CP i p =
     (if i < length (cp_safetyConfigs CP)
      then pa_safetyModel p \<noteq> sc_safetyModel (cp_safetyConfigs CP ! i)
         \<or> pa_safetyParam p \<noteq> sc_safetyParam (cp_safetyConfigs CP ! i)
         \<or> pa_alternativeExperience p \<noteq> cp_alternativeExperience CP
      else pa_safetyModel p \<notin> set IGNORED_SAFETY_MODES)"

definition panda_statement :: "nat \<times> panda_state \<Rightarrow> 'a selfdrived_scheme \<Rightarrow> 'a selfdrived_scheme result" where
  "panda_statement ip = (let (i, p) = ip in run_block [
     check (\<lambda>s. safety_mismatch (sf_CP s) i p \<and> of_int (sv_frame s) * DT_CTRL > 10
              \<or> pa_safetyRxChecksInvalid p \<or> sv_mismatch_counter s \<ge> 200) ev_controlsMismatch,
     check (\<lambda>s. pa_relayMalfunction p) ev_relayMalfunction])"

definition panda_block :: "('a selfdrived_scheme \<Rightarrow> 'a selfdrived_scheme result) list" where
  "panda_block = [\<lambda>s. run_block (map panda_statement (enumerate 0 (pa_states (sv_msg s)))) s]"

definition not_running :: "sd_msgs \<Rightarrow> string list" where
  "not_running m = map ps_name (filter (\<lambda>p. \<not> ps_running p \<and> ps_shouldBeRunning p) (mg_processes m))"

text \<open>The checks of the other processes; \<open>lagging\<close> is \<open>self.rk.lagging\<close>.\<close>

definition system_block :: "sd_config \<Rightarrow> bool \<Rightarrow> car_state \<Rightarrow> ('a selfdrived_scheme \<Rightarrow> 'a selfdrived_scheme result) list" where
  "system_block cf lagging CS = [
     if_do (\<lambda>s. sm_recv_frame (sd_health (sv_sm s)) ''managerState'' \<noteq> 0
              \<and> filter (\<lambda>p. p \<notin> set ignored_processes) (not_running (sv_msg s)) \<noteq> [])
       (add_event ev_processNotRunning)
       (when_do (\<lambda>s. \<not> cf_SIMULATION cf \<and> \<not> lagging)
         (if_do (\<lambda>s. \<not> all_alive (sd_health (sv_sm s)) camera_packets) (add_event ev_cameraMalfunction)
           (check (\<lambda>s. \<not> all_freq_ok (sd_health (sv_sm s)) camera_packets) ev_cameraFrameRate))),
     check (\<lambda>s. \<not> env_REPLAY (cf_env cf) \<and> lagging) ev_selfdrivedLagging,
     if_do (\<lambda>s. ra_canError (sv_msg s)) (add_event ev_canError)
       (if_do (\<lambda>s. ra_radarUnavailableTemporary (sv_msg s)) (add_event ev_radarTempUnavailable)
         (check (\<lambda>s. ra_otherError (sv_msg s)) ev_radarFault)),
     check (\<lambda>s. \<not> sm_valid (sd_health (sv_sm s)) ''pandaStates'') ev_usbError,
     if_do (\<lambda>s. cs_canTimeout CS) (add_event ev_canBusMissing)
       (check (\<lambda>s. \<not> cs_canValid CS) ev_canError)]"

definition comm_issue_statement :: "sd_config \<Rightarrow> nat \<Rightarrow> 'a selfdrived_scheme \<Rightarrow> 'a selfdrived_scheme result" where
  "comm_issue_statement cf num_events s =
     (let has = (\<lambda>t. ev_contains (EVENTS (cf_env cf)) t (sf_events s));
          has_disable_events = (has NO_ENTRY \<and> (has SOFT_DISABLE \<or> has IMMEDIATE_DISABLE));
          no_system_errors = (\<not> has_disable_events \<or> ev_len (sf_events s) = num_events)
      in when_do (\<lambda>s. \<not> all_checks (sd_health (sv_sm s)) [] \<and> no_system_errors)
           (if_do (\<lambda>s. \<not> all_alive (sd_health (sv_sm s)) []) (add_event ev_commIssue)
             (if_do (\<lambda>s. \<not> all_freq_ok (sd_health (sv_sm s)) []) (add_event ev_commIssueAvgFreq)
               (add_event ev_commIssue))) s)"

definition hw_malfunctions :: "sd_config \<Rightarrow> bool \<Rightarrow> car_state \<Rightarrow> 'a selfdrived_scheme \<Rightarrow> 'a selfdrived_scheme result" where
  "hw_malfunctions cf lagging CS s =
     (let num_events = ev_len (sf_events s)
      in run_block (system_block cf lagging CS @ [comm_issue_statement cf num_events]) s)"

definition localizer_block :: "sd_config \<Rightarrow> ('a selfdrived_scheme \<Rightarrow> 'a selfdrived_scheme result) list" where
  "localizer_block cf = [
     when_do (\<lambda>s. \<not> cp_notCar (sf_CP s)) (run_block [
       check (\<lambda>s. \<not> lv_posenetOK (sv_msg s)) ev_posenetInvalid,
       check (\<lambda>s. \<not> lv_inputsOK (sv_msg s)) ev_locationdTemporaryError,
       check (\<lambda>s. \<not> lp_valid (sv_msg s) \<and> lc_calStatus (sv_msg s) = Cal_calibrated \<and> \<not> cf_TESTING_CLOSET cf
                \<and> (\<not> cf_SIMULATION cf \<or> env_REPLAY (cf_env cf))) ev_paramsdTemporaryError]),
     check (\<lambda>s. list_ex (\<lambda>p. of_int (sv_frame s - sm_recv_frame (sd_health (sv_sm s)) p) * DT_CTRL > 10) sensor_packets)
       ev_sensorDataInvalid]"

definition cruise_mismatch_block :: "sd_config \<Rightarrow> car_state \<Rightarrow> ('a selfdrived_scheme \<Rightarrow> 'a selfdrived_scheme result) list" where
  "cruise_mismatch_block cf CS = [when_do (\<lambda>s. \<not> env_REPLAY (cf_env cf)) (run_block [
     pure_do (\<lambda>s. s\<lparr>sv_cruise_mismatch_counter :=
       (if cr_enabled (cs_cruiseState CS) \<and> (\<not> sf_enabled s \<or> \<not> cp_pcmCruise (sf_CP s))
        then sv_cruise_mismatch_counter s + 1 else 0)\<rparr>),
     check (\<lambda>s. sv_cruise_mismatch_counter s > py_int (6 / DT_CTRL)) ev_cruiseMismatch])]"

text \<open>The steering saturation; the division raises when the car's own lateral acceleration is \<open>-1e-3\<close>.\<close>

definition saturation_statement :: "car_state \<Rightarrow> 'a selfdrived_scheme \<Rightarrow> 'a selfdrived_scheme result" where
  "saturation_statement CS s =
     (let m = sv_msg s;
          recent_steer_pressed = (of_int (sv_frame s - sv_last_steering_pressed_frame s) * DT_CTRL < 2)
      in if co_lac_active m \<and> \<not> recent_steer_pressed \<and> \<not> cp_notCar (sf_CP s) then
           let clipped_speed = max (cs_vEgo CS) (3/10);
               actual_lateral_accel = co_curvature m * clipped_speed^2;
               desired_lateral_accel = mv_desiredCurvature m * clipped_speed^2
           in if \<bar>1/1000 + actual_lateral_accel\<bar> = 0 then Inl ZeroDivisionError
              else
                let undershooting = (\<bar>desired_lateral_accel\<bar> / \<bar>1/1000 + actual_lateral_accel\<bar> > 12/10);
                    turning = (\<bar>desired_lateral_accel\<bar> > 1)
                in check (\<lambda>s. undershooting \<and> turning \<and> co_lac_saturated m) ev_steerSaturated s
         else Inr s)"

definition saturation_block :: "car_state \<Rightarrow> ('a selfdrived_scheme \<Rightarrow> 'a selfdrived_scheme result) list" where
  "saturation_block CS = [
     when_do (\<lambda>s. cs_steeringPressed CS) (pure_do (\<lambda>s. s\<lparr>sv_last_steering_pressed_frame := sv_frame s\<rparr>)),
     saturation_statement CS]"

definition fcw_block :: "car_state \<Rightarrow> ('a selfdrived_scheme \<Rightarrow> 'a selfdrived_scheme result) list" where
  "fcw_block CS = [check (\<lambda>s.
     (let stock_long_is_braking = (sf_enabled s \<and> \<not> cp_openpilotLongitudinalControl (sf_CP s) \<and> cs_aEgo CS < - (5/4));
          model_fcw = (mv_hardBrakePredicted (sv_msg s) \<and> \<not> cs_brakePressed CS \<and> \<not> stock_long_is_braking);
          planner_fcw = (lo_fcw (sv_msg s) \<and> sf_enabled s)
      in (planner_fcw \<or> model_fcw) \<and> \<not> cp_notCar (sf_CP s))) ev_fcw]"

definition gps_ok :: "sd_config \<Rightarrow> 'a selfdrived_scheme \<Rightarrow> bool" where
  "gps_ok cf s \<longleftrightarrow> (let r = sm_recv_frame (sd_health (sv_sm s)) (cf_gps_location_service cf)
     in r > 0 \<and> of_int (sv_frame s - r) * DT_CTRL < 2)"

definition gps_block :: "sd_config \<Rightarrow> car_state \<Rightarrow> ('a selfdrived_scheme \<Rightarrow> 'a selfdrived_scheme result) list" where
  "gps_block cf CS = [
     check (\<lambda>s. \<not> gps_ok cf s \<and> lv_inputsOK (sv_msg s) \<and> sv_distance_traveled s > 1500) ev_noGps,
     when_do (gps_ok cf) (pure_do (\<lambda>s. s\<lparr>sv_distance_traveled := 0\<rparr>)),
     pure_do (\<lambda>s. s\<lparr>sv_distance_traveled := sv_distance_traveled s + \<bar>cs_vEgo CS\<bar> * DT_CTRL\<rparr>)]"

definition model_block :: "sd_config \<Rightarrow> car_state \<Rightarrow> ('a selfdrived_scheme \<Rightarrow> 'a selfdrived_scheme result) list" where
  "model_block cf CS = [
     check (\<lambda>s. (\<not> cf_SIMULATION cf \<or> env_REPLAY (cf_env cf)) \<and> mv_frameDropPerc (sv_msg s) > 20) ev_modeldLagging,
     when_do (\<lambda>s. cs_gearShifter CS = Gear_park \<and> ma_enabled (sf_mads s)) (remove_event ev_canBusMissing)]"

definition cruise_helper_statement :: "car_state \<Rightarrow> 'a selfdrived_scheme \<Rightarrow> 'a selfdrived_scheme result" where
  "cruise_helper_statement CS = pure_do (\<lambda>s.
     (let (h, ev, p) = cruise_helper_update (sf_CP s) CS (sv_experimental_mode s)
                         (sv_cruise_helper s, sf_events_sp s, sv_params s)
      in s\<lparr>sv_cruise_helper := h, sf_events_sp := ev, sv_params := p\<rparr>))"

definition personality_statement :: "car_state \<Rightarrow> 'a selfdrived_scheme \<Rightarrow> 'a selfdrived_scheme result" where
  "personality_statement CS =
     when_do (\<lambda>s. cp_openpilotLongitudinalControl (sf_CP s)
         \<and> list_ex (\<lambda>be. \<not> be_pressed be \<and> be_type be = BT_gapAdjustCruise) (cs_buttonEvents CS))
       (run_block [
         when_do (\<lambda>s. \<not> ch_experimental_mode_switched (sv_cruise_helper s)) (run_block [
           pure_do (\<lambda>s. let p = (sv_personality s - 1) mod 3 in
             s\<lparr>sv_personality := p, sv_params := (sv_params s)(''LongitudinalPersonality'' \<mapsto> PInt p)\<rparr>),
           add_event ev_personalityChanged]),
         pure_do (\<lambda>s. s\<lparr>sv_cruise_helper := (sv_cruise_helper s)\<lparr>ch_experimental_mode_switched := False\<rparr>\<rparr>)])"

definition icbm_statement :: "sd_config \<Rightarrow> car_state \<Rightarrow> 'a selfdrived_scheme \<Rightarrow> 'a selfdrived_scheme result" where
  "icbm_statement cf CS = pure_do (\<lambda>s. s\<lparr>sv_icbm := icbm_run (cf_apply_hysteresis cf) (sf_CP_SP s) CS
     (sd_carControl (sv_msg s)) (lpsp_vTarget (sv_msg s)) (sv_is_metric s) (sv_icbm s)\<rparr>)"

definition button_block :: "sd_config \<Rightarrow> car_state \<Rightarrow> ('a selfdrived_scheme \<Rightarrow> 'a selfdrived_scheme result) list" where
  "button_block cf CS = [cruise_helper_statement CS, personality_statement CS, icbm_statement cf CS]"

text \<open>The events of a car that drives, after the two early returns.\<close>

definition driving_events :: "sd_config \<Rightarrow> bool \<Rightarrow> car_state \<Rightarrow> 'a selfdrived_scheme \<Rightarrow> 'a selfdrived_scheme result" where
  "driving_events cf lagging CS = run_block [
     run_block (message_block CS), run_block (car_block cf CS), run_block (device_block cf),
     run_block (calibration_block cf), run_block ldw_block, run_block (excessive_block cf CS),
     run_block (lane_block CS), run_block panda_block, hw_malfunctions cf lagging CS,
     run_block (localizer_block cf), run_block (cruise_mismatch_block cf CS), run_block (saturation_block CS),
     run_block (fcw_block CS), run_block (gps_block cf CS), run_block (model_block cf CS), run_block (button_block cf CS)]"

definition sd_update_events :: "sd_config \<Rightarrow> bool \<Rightarrow> car_state \<Rightarrow> 'a selfdrived_scheme \<Rightarrow> 'a selfdrived_scheme result" where
  "sd_update_events cf lagging CS = run_block [
     run_block startup_block,
     if_do (\<lambda>s. \<not> sf_initialized s) (add_event ev_selfdriveInitializing)
       (run_block [run_block bookmark_block,
          when_do (\<lambda>s. \<not> cp_passive (sf_CP s)) (driving_events cf lagging CS)])]"

section \<open>data_sample\<close>

text \<open>
  What arrives in one cycle: the car state, if one does within the timeout, the messages of
  the other processes, the clock, the camera streams that exist, and the lag of the loop.
\<close>

record sd_inputs =
  si_carState :: "car_state option"
  si_received :: "unit recv_msg option list"
  si_data :: sd_msgs
  si_monotonic :: real
  si_road_stream :: bool
  si_wide_stream :: bool
  si_lagging :: bool

definition sm_update_statement :: "sd_inputs \<Rightarrow> 'a selfdrived_scheme \<Rightarrow> 'a selfdrived_scheme result" where
  "sm_update_statement i s = bind_result (sm_update_msgs (si_monotonic i) (sd_health (sv_sm s)) (si_received i))
     (\<lambda>h. Inr (s\<lparr>sv_sm := \<lparr>sd_health = h, sd_msg = si_data i\<rparr>\<rparr>))"

definition ignore_service :: "string \<Rightarrow> 'a selfdrived_scheme \<Rightarrow> 'a selfdrived_scheme" where
  "ignore_service k s = (let h = sd_health (sv_sm s) in
     s\<lparr>sv_sm := (sv_sm s)\<lparr>sd_health := h\<lparr>sm_ignore_alive := sm_ignore_alive h @ [k],
                                             sm_ignore_valid := sm_ignore_valid h @ [k]\<rparr>\<rparr>\<rparr>)"

definition initialize_statement :: "sd_config \<Rightarrow> sd_inputs \<Rightarrow> car_state \<Rightarrow> 'a selfdrived_scheme \<Rightarrow> 'a selfdrived_scheme result" where
  "initialize_statement cf i CS = when_do
     (\<lambda>s. \<not> sf_initialized s \<and>
        ((cs_canValid CS \<and> all_checks (sd_health (sv_sm s)) []) \<or> of_int (sv_frame s) * DT_CTRL > 6
          \<or> (cf_SIMULATION cf \<and> \<not> env_REPLAY (cf_env cf))))
     (run_block [
       when_do (\<lambda>s. \<not> si_road_stream i) (pure_do (ignore_service ''roadCameraState'')),
       when_do (\<lambda>s. \<not> si_wide_stream i) (pure_do (ignore_service ''wideRoadCameraState'')),
       when_do (\<lambda>s. env_REPLAY (cf_env cf) \<and> list_ex pa_controlsAllowed (pa_states (sv_msg s)))
         (pure_do (\<lambda>s. s\<lparr>sf_state_machine := (sf_state_machine s)\<lparr>sm_state := OP_enabled\<rparr>\<rparr>)),
       pure_do (\<lambda>s. s\<lparr>sf_initialized := True\<rparr>)])"

definition controls_disallowed :: "sd_msgs \<Rightarrow> bool" where
  "controls_disallowed m \<longleftrightarrow>
     list_ex (\<lambda>p. pa_safetyModel p \<notin> set IGNORED_SAFETY_MODES \<and> \<not> pa_controlsAllowed p) (pa_states m)"

definition mismatch_statement :: "'a selfdrived_scheme \<Rightarrow> 'a selfdrived_scheme result" where
  "mismatch_statement = run_block [
     when_do (\<lambda>s. \<not> sf_enabled s) (pure_do (\<lambda>s. s\<lparr>sv_mismatch_counter := 0\<rparr>)),
     when_do (\<lambda>s. sf_enabled s \<and> controls_disallowed (sv_msg s))
       (pure_do (\<lambda>s. s\<lparr>sv_mismatch_counter := sv_mismatch_counter s + 1\<rparr>))]"

definition sampled_car_state :: "sd_inputs \<Rightarrow> 'a selfdrived_scheme \<Rightarrow> car_state" where
  "sampled_car_state i s = (case si_carState i of Some CS \<Rightarrow> CS | None \<Rightarrow> sf_CS_prev s)"

definition data_sample :: "sd_config \<Rightarrow> sd_inputs \<Rightarrow> car_state \<Rightarrow> 'a selfdrived_scheme \<Rightarrow> 'a selfdrived_scheme result" where
  "data_sample cf i CS = run_block [sm_update_statement i, initialize_statement cf i CS, mismatch_statement]"

section \<open>The rest of a cycle\<close>

definition state_machine_statement :: "sd_config \<Rightarrow> 'a selfdrived_scheme \<Rightarrow> 'a selfdrived_scheme result" where
  "state_machine_statement cf = when_do (\<lambda>s. \<not> cp_passive (sf_CP s) \<and> sf_initialized s) (pure_do (\<lambda>s.
     (let (m, en, ac) = sm_update (\<lambda>t. ev_contains (EVENTS (cf_env cf)) t (sf_events s)) (sf_state_machine s)
      in s\<lparr>sf_state_machine := m, sf_enabled := en, sf_active := ac\<rparr>)))"

definition clear_event_types :: "'a selfdrived_scheme \<Rightarrow> et list" where
  "clear_event_types s = (if WARNING \<notin> set (current_alert_types (sf_state_machine s)) then [WARNING] else [])
     @ (if sf_enabled s then [NO_ENTRY] else [])"

definition sd_callback_args :: "car_state \<Rightarrow> string \<Rightarrow> 'a selfdrived_scheme \<Rightarrow> callback_args" where
  "sd_callback_args CS pers s = \<lparr>cb_CP = sf_CP s, cb_CS = CS, cb_sm = sv_sm s, cb_metric = sv_is_metric s,
     cb_soft_disable_time = soft_disable_timer (sf_state_machine s), cb_personality = pers\<rparr>"

definition update_alerts :: "sd_config \<Rightarrow> car_state \<Rightarrow> 'a selfdrived_scheme \<Rightarrow> 'a selfdrived_scheme result" where
  "update_alerts cf CS s =
     bind_result (personality_name (sv_personality s)) (\<lambda>pers.
     (let args = sd_callback_args CS pers s; types = current_alert_types (sf_state_machine s) in
      bind_result (create_alerts (EVENTS (cf_env cf)) EVENT_NAME types args (sf_events s)) (\<lambda>alerts.
      bind_result (create_alerts (EVENTS_SP (cf_env cf)) EVENT_NAME_SP types args (sf_events_sp s)) (\<lambda>alerts_sp.
      Inr (s\<lparr>sv_AM := process_alerts (sv_frame s) (clear_event_types s)
                         (add_many (sv_frame s) (alerts @ alerts_sp) (sv_AM s))\<rparr>)))))"

text \<open>The messages a cycle publishes; the lists of events only every second or when they change.\<close>

record selfdrive_state_msg =
  ss_enabled :: bool
  ss_active :: bool
  ss_state :: openpilot_state
  ss_engageable :: bool
  ss_experimentalMode :: bool
  ss_personality :: int
  ss_alert :: alert
  ss_mads_state :: mads_state
  ss_mads_enabled :: bool
  ss_mads_active :: bool
  ss_mads_available :: bool
  ss_icbm_state :: icbm_state
  ss_icbm_sendButton :: send_button
  ss_icbm_vTarget :: int

record published =
  pm_selfdriveState :: selfdrive_state_msg
  pm_onroadEvents :: "(event_id \<times> et list) list option"
  pm_onroadEventsSP :: "(event_id \<times> et list) list option"

definition selfdrive_state_of :: "sd_config \<Rightarrow> 'a selfdrived_scheme \<Rightarrow> selfdrive_state_msg" where
  "selfdrive_state_of cf s = \<lparr>ss_enabled = sf_enabled s, ss_active = sf_active s, ss_state = sm_state (sf_state_machine s),
     ss_engageable = (\<not> ev_contains (EVENTS (cf_env cf)) NO_ENTRY (sf_events s)),
     ss_experimentalMode = sv_experimental_mode s, ss_personality = sv_personality s,
     ss_alert = am_current_alert (sv_AM s), ss_mads_state = ma_state (sf_mads s),
     ss_mads_enabled = ma_enabled (sf_mads s), ss_mads_active = ma_active (sf_mads s),
     ss_mads_available = ma_enabled_toggle (sf_mads s), ss_icbm_state = ic_state (sv_icbm s),
     ss_icbm_sendButton = ic_cruise_button (sv_icbm s), ss_icbm_vTarget = ic_v_target (sv_icbm s)\<rparr>"

definition publish_selfdriveState :: "sd_config \<Rightarrow> 'a selfdrived_scheme \<Rightarrow> published \<times> 'a selfdrived_scheme" where
  "publish_selfdriveState cf s =
     (let each_second = (sv_frame s mod py_int (1 / DT_CTRL) = 0) in
      (\<lparr>pm_selfdriveState = selfdrive_state_of cf s,
        pm_onroadEvents = (if each_second \<or> ev_events (sf_events s) \<noteq> sv_events_prev s
          then Some (ev_to_msg (EVENTS (cf_env cf)) (sf_events s)) else None),
        pm_onroadEventsSP = (if each_second \<or> ev_events (sf_events_sp s) \<noteq> sv_events_sp_prev s
          then Some (ev_to_msg (EVENTS_SP (cf_env cf)) (sf_events_sp s)) else None)\<rparr>,
       s\<lparr>sv_events_prev := ev_events (sf_events s), sv_events_sp_prev := ev_events (sf_events_sp s)\<rparr>))"

definition sd_compute :: "sd_config \<Rightarrow> sd_inputs \<Rightarrow> 'a selfdrived_scheme \<Rightarrow> 'a selfdrived_scheme result" where
  "sd_compute cf i s =
     (let CS = sampled_car_state i s in
      run_block [
        data_sample cf i CS,
        sd_update_events cf (si_lagging i) CS,
        state_machine_statement cf,
        when_do (\<lambda>s. \<not> cp_notCar (sf_CP s)) (mads_update (cf_env cf) CS),
        update_alerts cf CS] s)"

definition sd_step :: "sd_config \<Rightarrow> sd_inputs \<Rightarrow> 'a selfdrived_scheme \<Rightarrow> (published \<times> 'a selfdrived_scheme) result" where
  "sd_step cf i s =
     bind_result (sd_compute cf i s) (\<lambda>s1.
       let (p, s2) = publish_selfdriveState cf s1
       in Inr (p, s2\<lparr>sf_CS_prev := sampled_car_state i s\<rparr>))"

text \<open>
  One round of \<open>params_thread\<close>. Both threads share the object; a round is taken between two
  steps.
\<close>

definition params_thread_round :: "sd_config \<Rightarrow> 'a selfdrived_scheme \<Rightarrow> 'a selfdrived_scheme" where
  "params_thread_round cf s = (let p = sv_params s in
     s\<lparr>sv_is_metric := get_bool p ''IsMetric'', sv_is_ldw_enabled := get_bool p ''IsLdwEnabled'',
       sv_disengage_on_accelerator := get_bool p ''DisengageOnAccelerator'',
       sv_experimental_mode := get_bool p ''ExperimentalMode'' \<and> cp_openpilotLongitudinalControl (sf_CP s),
       sv_personality := get_int (cf_param_default cf) p ''LongitudinalPersonality'',
       sf_mads := mads_read_params p (sf_mads s)\<rparr>)"

section \<open>The constructor\<close>

definition startup_event_of :: "sd_config \<Rightarrow> car_params \<Rightarrow> bool \<Rightarrow> bool \<Rightarrow> event_id option" where
  "startup_event_of cf CP is_remote tested_channel =
     (if cp_brand CP = ''mock'' then Some ev_startupNoCar
      else if cp_passive CP then Some ev_startupNoControl
      else if cp_secOcRequired CP \<and> \<not> cp_secOcKeyAvailable CP then Some ev_startupNoSecOcKey
      else if env_mici (cf_env cf) then None
      else if is_remote \<and> tested_channel then Some ev_startup else Some ev_startupMaster)"

definition cleanup_params :: "car_params \<Rightarrow> params \<Rightarrow> params" where
  "cleanup_params CP p =
     (let p1 = (if \<not> cp_alphaLongitudinalAvailable CP then p(''AlphaLongitudinalEnabled'' := None) else p)
      in if \<not> cp_openpilotLongitudinalControl CP then p1(''ExperimentalMode'' := None) else p1)"

definition SelfdriveD_init :: "sd_config \<Rightarrow> car_params \<Rightarrow> car_params_sp \<Rightarrow> sd_sm \<Rightarrow> car_state \<Rightarrow> params
    \<Rightarrow> (string \<rightharpoonup> offroad_alert) \<Rightarrow> bool \<Rightarrow> bool \<Rightarrow> selfdrived result" where
  "SelfdriveD_init cf CP CP_SP sm empty_CS p0 offroad is_remote tested_channel =
     (let dflt = cf_param_default cf;
          (personality, p) = get_sanitize_int_param dflt ''LongitudinalPersonality'' 0 2 (cleanup_params CP p0);
          unrecognized = (cp_brand CP = ''mock'');
          ev = Events_init (cf_env cf);
          ev1 = (if unrecognized then ev_add_static ev_carUnrecognized ev
                 else if cp_passive CP then ev_add_static ev_dashcamMode ev else ev)
      in bind_result (if unrecognized then set_offroad_alert (cf_OFFROAD_ALERTS cf) ''Offroad_CarUnrecognized'' True None offroad
                      else Inr offroad) (\<lambda>offroad'.
       Inr \<lparr>sf_CP = CP, sf_CP_SP = CP_SP, sf_enabled = False, sf_active = False, sf_enabled_prev = False,
         sf_initialized = False, sf_CS_prev = empty_CS, sf_state_machine = StateMachine_init, sf_events = ev1,
         sf_events_sp = EventsSP_init (cf_env cf), sf_mads = mads_init (cf_odb cf) dflt CP CP_SP p,
         sv_sm = sm, sv_params = p, sv_offroad_alerts = offroad', sv_car_events = car_events_init,
         sv_car_events_sp_low_speed_alert = False, sv_pose_calibrator = pose_calibrator_init,
         sv_calibrated_pose = None, sv_excessive_actuation_check = excessive_init,
         sv_excessive_actuation = (offroad ''Offroad_ExcessiveActuation'' \<noteq> None),
         sv_is_metric = get_bool p ''IsMetric'', sv_is_ldw_enabled = get_bool p ''IsLdwEnabled'',
         sv_disengage_on_accelerator = get_bool p ''DisengageOnAccelerator'', sv_AM = AlertManager_init,
         sv_mismatch_counter = 0, sv_cruise_mismatch_counter = 0, sv_last_steering_pressed_frame = 0,
         sv_distance_traveled = 0, sv_last_functional_fan_frame = 0, sv_events_prev = [], sv_events_sp_prev = [],
         sv_experimental_mode = False, sv_personality = personality, sv_recalibrating_seen = False,
         sv_startup_event = startup_event_of cf CP is_remote tested_channel, sv_icbm = icbm_init,
         sv_cruise_helper = cruise_helper_init\<rparr>))"

end
