(* ===== verification/Selfdrived_Facts.thy ===== *)
theory Selfdrived_Facts
  imports Selfdrived
begin

text \<open>
  What a cycle of selfdrived keeps: it never raises on messages that are in order, the lists
  hold events of the tables only, and which events are sure to be, or sure not to be, in the
  list when the state machine looks at it.
\<close>

section \<open>Events of the tables\<close>

definition known_sp :: "event_id \<Rightarrow> bool" where
  "known_sp e \<longleftrightarrow> 0 \<le> e \<and> e \<le> 23 \<and> e \<noteq> evsp_hyundaiRadarTracksConfirmed"

definition lists_known :: "'a selfdrive_scheme \<Rightarrow> bool" where
  "lists_known s \<longleftrightarrow> (\<forall>e\<in>set (ev_events (sf_events s)) \<union> set (ev_static_events (sf_events s)). known_event e)
     \<and> (\<forall>e\<in>set (ev_events (sf_events_sp s)) \<union> set (ev_static_events (sf_events_sp s)). known_sp e)"

lemma known_eventI [simp]: "known_event (numeral n) \<longleftrightarrow> (numeral n :: int) \<le> 98 \<and> (numeral n :: int) \<noteq> 47"
  "known_event 0" "known_event 1"
  by (simp_all add: known_event_def)

lemma known_spI [simp]: "known_sp (numeral n) \<longleftrightarrow> (numeral n :: int) \<le> 23 \<and> (numeral n :: int) \<noteq> 13"
  "known_sp 0" "known_sp 1"
  by (simp_all add: known_sp_def)

text \<open>The driver asks the car to engage: the engage button, or cruise control switched on.\<close>

definition engage_request :: "car_state \<Rightarrow> car_state \<Rightarrow> bool" where
  "engage_request CS CS_prev \<longleftrightarrow> cs_buttonEnable CS
     \<or> cr_enabled (cs_cruiseState CS) \<and> \<not> cr_enabled (cs_cruiseState CS_prev)"

definition car_event_ok :: "car_state \<Rightarrow> car_state \<Rightarrow> event_id \<Rightarrow> bool" where
  "car_event_ok CS CS_prev e \<longleftrightarrow> known_event e
     \<and> (e = ev_pcmEnable \<or> e = ev_buttonEnable \<longrightarrow> engage_request CS CS_prev)"

definition car_list_ok :: "car_state \<Rightarrow> car_state \<Rightarrow> (bool \<times> event_id) list \<Rightarrow> bool" where
  "car_list_ok CS CS_prev l \<longleftrightarrow> (\<forall>e. (True, e) \<in> set l \<longrightarrow> car_event_ok CS CS_prev e)"

lemma car_lists_ok:
  "car_list_ok CS CS_prev (common_events odb CP CS CS_prev)" "car_list_ok CS CS_prev (cancel_events CP CS)"
  "car_list_ok CS CS_prev (pcm_events CP CS CS_prev)" "car_list_ok CS CS_prev (fst (chrysler_events CP CS c))"
  "car_list_ok CS CS_prev (honda_events CP CS CS_prev CC)" "car_list_ok CS CS_prev (toyota_events odb CP CS CC)"
  "car_list_ok CS CS_prev (gm_events CP CS)" "car_list_ok CS CS_prev (volkswagen_events CP CS CC)"
  by (auto simp: car_list_ok_def car_event_ok_def engage_request_def common_events_def cancel_events_def pcm_events_def
      chrysler_events_def honda_events_def toyota_events_def gm_events_def volkswagen_events_def Let_def split: if_splits)

definition ev_list_ok :: "car_state \<Rightarrow> car_state \<Rightarrow> events \<Rightarrow> bool" where
  "ev_list_ok CS CS_prev ev \<longleftrightarrow> (\<forall>e\<in>set (ev_events ev). car_event_ok CS CS_prev e)"

lemma add_when_ok: "car_list_ok CS CS_prev l \<Longrightarrow> ev_list_ok CS CS_prev ev \<Longrightarrow> ev_list_ok CS CS_prev (add_when l ev)"
  by (auto simp: set_add_when car_list_ok_def ev_list_ok_def)

lemma Events_init_ok: "ev_list_ok CS CS_prev (Events_init env)"
  by (simp add: ev_list_ok_def Events_init_def events_init_def)

lemma create_common_ok: "ev_list_ok CS CS_prev (fst (create_common_events env odb CP CS CS_prev c))"
proof -
  have fault: "ev_list_ok CS CS_prev ev \<Longrightarrow> ev_list_ok CS CS_prev (foldl (\<lambda>s e. ev_add e s) ev (fst (steer_fault CS CS_prev c)))" for ev
    using steer_fault_events [of CS CS_prev c] by (auto simp: ev_list_ok_def car_event_ok_def foldl_ev_add)
  have unavailable: "car_list_ok CS CS_prev [(b, ev_steerUnavailable)]" for b
    by (simp add: car_list_ok_def car_event_ok_def)
  show ?thesis unfolding create_common_events_def Let_def split_def fst_conv
    by (intro add_when_ok car_lists_ok unavailable fault Events_init_ok)
qed

lemma car_events_ok: "ev_list_ok CS CS_prev (fst (car_events_update env odb CP CS CS_prev CC c))"
  by (simp add: car_events_update_def Let_def split_def Events_init_ok add_when_ok car_lists_ok create_common_ok)

lemma ev_remove_if:
  assumes "ev_wf (EVENTS env) ev" "known_event e"
  shows "\<exists>v. (if c then ev_remove e ev else Inr ev) = Inr v \<and> ev_wf (EVENTS env) v
    \<and> ev_static_events v = ev_static_events ev \<and> set (ev_events v) \<subseteq> set (ev_events ev)
    \<and> set (ev_events ev) - {e} \<subseteq> set (ev_events v)"
proof (cases c)
  case True
  have "EVENTS env e \<noteq> None" using assms(2) unfolding known_EVENTS known_event_def .
  with assms(1) ev_remove_total obtain v where v: "ev_remove e ev = Inr v" by blast
  have "set (ev_events ev) - {e} \<subseteq> set (remove1 e (ev_events ev))"
    by (metis DiffD1 DiffD2 in_set_remove1 singletonI subsetI)
  with True v assms(1) ev_remove_cases [OF v] set_remove1_subset [of e "ev_events ev"] show ?thesis by auto
qed (use assms in auto)

lemma car_events_sp_spec:
  assumes wf: "ev_wf (EVENTS env) ev"
  shows "\<exists>ev' low. car_events_sp_update env odb CP CP_SP CS low0 ev = Inr (ev', low, EventsSP_init env)
    \<and> ev_wf (EVENTS env) ev' \<and> ev_static_events ev' = ev_static_events ev
    \<and> set (ev_events ev') \<subseteq> insert ev_belowSteerSpeed (set (ev_events ev))
    \<and> set (ev_events ev) - {ev_belowSteerSpeed, ev_resumeRequired} \<subseteq> set (ev_events ev')"
proof -
  let ?ram = "cp_carFingerprint CP \<in> set (odb_RAM_DT odb) \<and> ev_has ev_belowSteerSpeed ev"
  let ?res = "cp_openpilotLongitudinalControl CP \<and> cr_standstill (cs_cruiseState CS) \<and> \<not> cs_brakePressed CS
    \<and> cpsp_enableGasInterceptor CP_SP \<and> ev_has ev_resumeRequired ev"
  from ev_remove_if [OF wf, of ev_belowSteerSpeed ?ram] obtain v where
    v: "(if ?ram then ev_remove ev_belowSteerSpeed ev else Inr ev) = Inr v" "ev_wf (EVENTS env) v"
      "ev_static_events v = ev_static_events ev" "set (ev_events v) \<subseteq> set (ev_events ev)"
      "set (ev_events ev) - {ev_belowSteerSpeed} \<subseteq> set (ev_events v)" by auto
  from ev_remove_if [OF wf, of ev_resumeRequired ?res] obtain w where
    w: "(if ?res then ev_remove ev_resumeRequired ev else Inr ev) = Inr w" "ev_wf (EVENTS env) w"
      "ev_static_events w = ev_static_events ev" "set (ev_events w) \<subseteq> set (ev_events ev)"
      "set (ev_events ev) - {ev_resumeRequired} \<subseteq> set (ev_events w)" by auto
  have v1: "(if cp_carFingerprint CP \<in> set (odb_RAM_DT odb)
      then (if ev_has ev_belowSteerSpeed ev then ev_remove ev_belowSteerSpeed ev else Inr ev) else Inr ev) = Inr v"
    using v(1) by (auto split: if_splits)
  have add: "ev_wf (EVENTS env) (ev_add ev_belowSteerSpeed v)" using v(2) by blast
  show ?thesis
    unfolding car_events_sp_update_def Let_def v1 w(1)
    using v w add wf by auto
qed

section \<open>The invariant of a cycle\<close>

definition sd_good :: "sd_config \<Rightarrow> 'a selfdrived_scheme \<Rightarrow> bool" where
  "sd_good cf s \<longleftrightarrow> sf_wf (cf_env cf) s \<and> lists_known s \<and> 0 \<le> sv_personality s \<and> sv_personality s \<le> 2
     \<and> (\<forall>e. sv_startup_event s = Some e \<longrightarrow> known_event e \<and> e \<noteq> ev_pcmEnable \<and> e \<noteq> ev_buttonEnable)
     \<and> ev_pcmEnable \<notin> set (ev_static_events (sf_events s)) \<and> ev_buttonEnable \<notin> set (ev_static_events (sf_events s))"

definition sd_frame :: "'a selfdrived_scheme \<Rightarrow> 'a selfdrived_scheme \<Rightarrow> bool" where
  "sd_frame s0 s \<longleftrightarrow> sf_enabled s = sf_enabled s0 \<and> sf_active s = sf_active s0 \<and> sf_CP s = sf_CP s0
     \<and> sf_CP_SP s = sf_CP_SP s0 \<and> sf_enabled_prev s = sf_enabled_prev s0 \<and> sf_initialized s = sf_initialized s0
     \<and> sf_CS_prev s = sf_CS_prev s0 \<and> sf_state_machine s = sf_state_machine s0 \<and> sf_mads s = sf_mads s0
     \<and> sv_sm s = sv_sm s0 \<and> sv_AM s = sv_AM s0 \<and> sv_mismatch_counter s = sv_mismatch_counter s0
     \<and> sv_disengage_on_accelerator s = sv_disengage_on_accelerator s0"

text \<open>
  Between \<open>s0\<close>, the state when \<open>update_events\<close> is entered, and \<open>s\<close>: the events \<open>K\<close> are in the
  list and the events \<open>N\<close> are not.
\<close>

definition sd_inv :: "sd_config \<Rightarrow> event_id set \<Rightarrow> event_id set \<Rightarrow> 'a selfdrived_scheme \<Rightarrow> 'a selfdrived_scheme \<Rightarrow> bool" where
  "sd_inv cf K N s0 s \<longleftrightarrow> sd_good cf s \<and> sd_frame s0 s
     \<and> K \<subseteq> set (ev_events (sf_events s)) \<and> N \<inter> set (ev_events (sf_events s)) = {}"

lemmas sd_inv_defs = sd_inv_def sd_good_def sd_frame_def sf_wf_def lists_known_def

lemma sd_frame_refl [simp]: "sd_frame s s"
  by (simp add: sd_frame_def)

lemma sd_inv_weaken: "sd_inv cf K N s0 s \<Longrightarrow> K' \<subseteq> K \<Longrightarrow> N' \<subseteq> N \<Longrightarrow> sd_inv cf K' N' s0 s"
  by (auto simp: sd_inv_def)

text \<open>Assignments to attributes the invariant does not read, and new event lists.\<close>

lemma sd_inv_upd [simp]:
  "sd_inv cf K N s0 (s\<lparr>sv_car_events := x1\<rparr>) = sd_inv cf K N s0 s"
  "sd_inv cf K N s0 (s\<lparr>sv_car_events_sp_low_speed_alert := x2\<rparr>) = sd_inv cf K N s0 s"
  "sd_inv cf K N s0 (s\<lparr>sv_pose_calibrator := x3\<rparr>) = sd_inv cf K N s0 s"
  "sd_inv cf K N s0 (s\<lparr>sv_calibrated_pose := x4\<rparr>) = sd_inv cf K N s0 s"
  "sd_inv cf K N s0 (s\<lparr>sv_excessive_actuation_check := x5\<rparr>) = sd_inv cf K N s0 s"
  "sd_inv cf K N s0 (s\<lparr>sv_excessive_actuation := x6\<rparr>) = sd_inv cf K N s0 s"
  "sd_inv cf K N s0 (s\<lparr>sv_last_functional_fan_frame := x7\<rparr>) = sd_inv cf K N s0 s"
  "sd_inv cf K N s0 (s\<lparr>sv_recalibrating_seen := x8\<rparr>) = sd_inv cf K N s0 s"
  "sd_inv cf K N s0 (s\<lparr>sv_cruise_mismatch_counter := x9\<rparr>) = sd_inv cf K N s0 s"
  "sd_inv cf K N s0 (s\<lparr>sv_last_steering_pressed_frame := x10\<rparr>) = sd_inv cf K N s0 s"
  "sd_inv cf K N s0 (s\<lparr>sv_distance_traveled := x11\<rparr>) = sd_inv cf K N s0 s"
  "sd_inv cf K N s0 (s\<lparr>sv_offroad_alerts := x12\<rparr>) = sd_inv cf K N s0 s"
  "sd_inv cf K N s0 (s\<lparr>sv_params := x13\<rparr>) = sd_inv cf K N s0 s"
  "sd_inv cf K N s0 (s\<lparr>sv_cruise_helper := x14\<rparr>) = sd_inv cf K N s0 s"
  "sd_inv cf K N s0 (s\<lparr>sv_icbm := x15\<rparr>) = sd_inv cf K N s0 s"
  by (simp_all add: sd_inv_defs)

lemma sd_inv_lists:
  "sd_inv cf K N s0 s \<Longrightarrow> ev_wf (EVENTS (cf_env cf)) v \<Longrightarrow> ev_static_events v = ev_static_events (sf_events s)
    \<Longrightarrow> \<forall>e\<in>set (ev_events v). known_event e \<and> e \<notin> N \<Longrightarrow> K \<subseteq> set (ev_events v) \<Longrightarrow> sd_inv cf K N s0 (s\<lparr>sf_events := v\<rparr>)"
  "sd_inv cf K N s0 s \<Longrightarrow> ev_wf (EVENTS_SP (cf_env cf)) w \<Longrightarrow> ev_static_events w = ev_static_events (sf_events_sp s)
    \<Longrightarrow> \<forall>e\<in>set (ev_events w). known_sp e \<Longrightarrow> sd_inv cf K N s0 (s\<lparr>sf_events_sp := w\<rparr>)"
  by (auto simp: sd_inv_defs)

lemma sd_inv_add_from_msg:
  assumes "sd_inv cf K N s0 s" "\<forall>e\<in>set es. known_event e \<and> e \<notin> N" "\<forall>e\<in>set fs. known_sp e"
  shows "sd_inv cf K N s0 (s\<lparr>sf_events := ev_add_from_msg es (sf_events s)\<rparr>)"
    "sd_inv cf K N s0 (s\<lparr>sf_events_sp := ev_add_from_msg fs (sf_events_sp s)\<rparr>)"
proof -
  have "ev_wf (EVENTS (cf_env cf)) (ev_add_from_msg es (sf_events s))"
    "ev_wf (EVENTS_SP (cf_env cf)) (ev_add_from_msg fs (sf_events_sp s))"
    using assms(1) by (auto simp: sd_inv_defs intro!: ev_wf_add_from_msg)
  moreover have "\<forall>e\<in>set (ev_events (sf_events s)). known_event e \<and> e \<notin> N" "\<forall>e\<in>set (ev_events (sf_events_sp s)). known_sp e"
    "K \<subseteq> set (ev_events (sf_events s))" using assms(1) by (auto simp: sd_inv_defs)
  ultimately show "sd_inv cf K N s0 (s\<lparr>sf_events := ev_add_from_msg es (sf_events s)\<rparr>)"
    "sd_inv cf K N s0 (s\<lparr>sf_events_sp := ev_add_from_msg fs (sf_events_sp s)\<rparr>)"
    using assms by (auto intro!: sd_inv_lists)
qed

named_theorems keeps_sd \<open>statements that keep the invariant of a cycle\<close>

declare keeps_if [keeps_sd] keeps_when [keeps_sd] keeps_Cons [keeps_sd] keeps_Nil_block [keeps_sd]

text \<open>A statement whose parts depend on the state.\<close>

lemma keeps_dep: "(\<And>x. keeps P (f x)) \<Longrightarrow> keeps P (\<lambda>s. f (g s) s)"
  by (simp add: keeps_def)

text \<open>In a state with the invariant the messages are those the cycle started with.\<close>

lemma keeps_given: "(\<And>s. P s \<Longrightarrow> Q s) \<Longrightarrow> (\<And>s. Q s \<Longrightarrow> \<exists>s'. f s = Inr s' \<and> (P s \<longrightarrow> P s')) \<Longrightarrow> keeps P f"
  unfolding keeps_def by blast

lemma keeps_add_event [keeps_sd]:
  "known_event e \<Longrightarrow> e \<notin> N \<Longrightarrow> keeps (sd_inv cf K N s0) (add_event e)"
  unfolding add_event_def by (rule keeps_pure) (auto simp: sd_inv_defs)

lemma keeps_add_event_sp [keeps_sd]: "known_sp e \<Longrightarrow> keeps (sd_inv cf K N s0) (add_event_sp e)"
  unfolding add_event_sp_def by (rule keeps_pure) (auto simp: sd_inv_defs)

lemma keeps_check [keeps_sd]:
  "known_event e \<Longrightarrow> e \<notin> N \<Longrightarrow> keeps (sd_inv cf K N s0) (check c e)"
  "known_sp e \<Longrightarrow> keeps (sd_inv cf K N s0) (check_sp c e)"
  unfolding check_def check_sp_def by (intro keeps_sd; simp)+

text \<open>A check whose event is already ruled out by its condition.\<close>

lemma keeps_check_false:
  "(\<And>s. sd_inv cf K N s0 s \<Longrightarrow> \<not> c s) \<Longrightarrow> keeps (sd_inv cf K N s0) (check c e)"
  by (auto simp: keeps_def check_def when_do_def)

lemma keeps_offroad [keeps_sd]:
  assumes "cf_OFFROAD_ALERTS cf a \<noteq> None" shows "keeps (sd_inv cf K N s0) (raise_offroad_alert cf a x)"
proof
  fix s :: "'a selfdrived_scheme" assume "sd_inv cf K N s0 s"
  with assms show "\<exists>s'. raise_offroad_alert cf a x s = Inr s' \<and> sd_inv cf K N s0 s'"
    by (auto simp: raise_offroad_alert_def set_offroad_alert_def sd_inv_defs)
qed

lemma keeps_remove_event:
  assumes "known_event e" "e \<notin> K" shows "keeps (sd_inv cf K N s0) (remove_event e)"
proof
  fix s :: "'a selfdrived_scheme" assume inv: "sd_inv cf K N s0 s"
  then have "sf_wf (cf_env cf) s" by (simp add: sd_inv_def sd_good_def)
  from remove_event_ok [OF this assms(1)] obtain v where
    v: "remove_event e s = Inr (s\<lparr>sf_events := v\<rparr>)" "ev_wf (EVENTS (cf_env cf)) v" "ev_events v = remove1 e (ev_events (sf_events s))" by blast
  from v(1) have "ev_remove e (sf_events s) = Inr v"
    by (auto simp: remove_event_def bind_result_Inr_iff dest: arg_cong [where f = sf_events])
  then have st: "ev_static_events v = ev_static_events (sf_events s)" by (simp add: ev_remove_cases)
  have "set (ev_events v) \<subseteq> set (ev_events (sf_events s))" using v(3) set_remove1_subset by metis
  moreover have "K \<subseteq> set (ev_events v)"
  proof
    fix k assume k: "k \<in> K"
    with assms(2) have "k \<noteq> e" by auto
    with k inv show "k \<in> set (ev_events v)" unfolding v(3) by (auto simp: sd_inv_def in_set_remove1)
  qed
  ultimately show "\<exists>s'. remove_event e s = Inr s' \<and> sd_inv cf K N s0 s'"
    using v inv st by (auto simp: sd_inv_defs)
qed

section \<open>The blocks of update_events\<close>

text \<open>
  Messages that are in order: events of the tables, three calibration angles, and while a lateral
  controller is active not the one lateral acceleration, -0.001 m/s^2, for which the check of the
  steering saturation divides by zero (line 417 of \<open>selfdrived.py\<close>).
\<close>

definition sd_msgs_ok :: "sd_sm \<Rightarrow> car_state \<Rightarrow> bool" where
  "sd_msgs_ok sm CS \<longleftrightarrow>
     (\<forall>e\<in>set (dm_events (sd_msg sm)). known_event e \<and> e \<noteq> ev_pcmEnable \<and> e \<noteq> ev_buttonEnable)
     \<and> (\<forall>e\<in>set (lpsp_events (sd_msg sm)). known_sp e)
     \<and> (sm_updated (sd_health sm) ''liveCalibration'' \<longrightarrow> length (lc_rpyCalib (sd_msg sm)) = 3)
     \<and> (co_lac_active (sd_msg sm) \<longrightarrow> co_curvature (sd_msg sm) * (max (cs_vEgo CS) (3/10))^2 \<noteq> - (1/1000))"

definition offroad_table_ok :: "sd_config \<Rightarrow> bool" where
  "offroad_table_ok cf \<longleftrightarrow> cf_OFFROAD_ALERTS cf ''Offroad_Recalibration'' \<noteq> None
     \<and> cf_OFFROAD_ALERTS cf ''Offroad_ExcessiveActuation'' \<noteq> None"

text \<open>The events that may be ruled out: those of type \<open>ENABLE\<close>.\<close>

definition enable_events :: "event_id set" where
  "enable_events = {ev_pcmEnable, ev_buttonEnable}"

lemma not_enable:
  "N \<subseteq> enable_events \<Longrightarrow> e \<noteq> ev_pcmEnable \<Longrightarrow> e \<noteq> ev_buttonEnable \<Longrightarrow> e \<notin> N"
  by (auto simp: enable_events_def)

text \<open>An assignment to attributes the invariant does not read.\<close>

lemma keeps_assign:
  assumes "\<And>s. sd_inv cf K N s0 s \<Longrightarrow> sd_inv cf K N s0 (f s)" shows "keeps (sd_inv cf K N s0) (pure_do f)"
  using assms by (rule keeps_pure)

lemma keeps_startup_block:
  assumes "N \<subseteq> enable_events" shows "sd_good cf s0 \<Longrightarrow> N \<inter> set (ev_static_events (sf_events s0)) = {} \<Longrightarrow>
    \<exists>s. run_block startup_block s0 = Inr s \<and> sd_inv cf {} N s0 s"
proof -
  assume good: "sd_good cf s0" and st: "N \<inter> set (ev_static_events (sf_events s0)) = {}"
  obtain s1 where s1: "clear_events s0 = Inr s1" "sd_inv cf {} N s0 s1"
    using good st by (auto simp: clear_events_def pure_do_def sd_inv_defs intro!: ev_wf_clear)
  have none: "keeps (sd_inv cf {} N s0) no_startup"
    unfolding no_startup_def by (rule keeps_assign) (simp add: sd_inv_defs)
  have "keeps (sd_inv cf {} N s0) startup_statement"
  proof
    fix s assume inv: "sd_inv cf {} N s0 s"
    show "\<exists>s'. startup_statement s = Inr s' \<and> sd_inv cf {} N s0 s'"
    proof (cases "sv_startup_event s")
      case (Some e)
      then have "known_event e" "e \<notin> N" using inv not_enable [OF assms] by (auto simp: sd_inv_defs)
      then have "keeps (sd_inv cf {} N s0) (run_block [add_event e, no_startup])" by (intro keeps_sd none)
      from keepsD [OF this inv] show ?thesis by (simp only: startup_statement_def Some option.case)
    qed (use inv in \<open>simp add: startup_statement_def\<close>)
  qed
  then have "keeps (sd_inv cf {} N s0) (run_block (tl startup_block))"
    unfolding startup_block_def list.sel
    by (intro keeps_sd none; simp add: not_enable [OF assms])
  from keepsD [OF this s1(2)] s1(1) show ?thesis by (simp add: startup_block_def)
qed

lemma keeps_bookmark: "N \<subseteq> enable_events \<Longrightarrow> keeps (sd_inv cf K N s0) (run_block bookmark_block)"
  unfolding bookmark_block_def by (intro keeps_sd; simp add: not_enable)

lemma keeps_device: "N \<subseteq> enable_events \<Longrightarrow> keeps (sd_inv cf K N s0) (run_block (device_block cf))"
  unfolding device_block_def by (intro keeps_sd keeps_assign; simp add: not_enable)

lemma keeps_calibration:
  "N \<subseteq> enable_events \<Longrightarrow> offroad_table_ok cf \<Longrightarrow> keeps (sd_inv cf K N s0) (run_block (calibration_block cf))"
  unfolding calibration_block_def by (intro keeps_sd keeps_assign; simp add: not_enable offroad_table_ok_def)

lemma keeps_ldw: "N \<subseteq> enable_events \<Longrightarrow> keeps (sd_inv cf K N s0) (run_block ldw_block)"
  unfolding ldw_block_def by (intro keeps_sd; simp add: not_enable)

lemma keeps_lane: "N \<subseteq> enable_events \<Longrightarrow> keeps (sd_inv cf K N s0) (run_block (lane_block CS))"
  unfolding lane_block_def by (intro keeps_sd; simp add: not_enable)

lemma keeps_system: "N \<subseteq> enable_events \<Longrightarrow> keeps (sd_inv cf K N s0) (run_block (system_block cf lagging CS))"
  unfolding system_block_def by (intro keeps_sd; simp add: not_enable)

lemma keeps_localizer: "N \<subseteq> enable_events \<Longrightarrow> keeps (sd_inv cf K N s0) (run_block (localizer_block cf))"
  unfolding localizer_block_def by (intro keeps_sd; simp add: not_enable)

lemma keeps_cruise_mismatch: "N \<subseteq> enable_events \<Longrightarrow> keeps (sd_inv cf K N s0) (run_block (cruise_mismatch_block cf CS))"
  unfolding cruise_mismatch_block_def by (intro keeps_sd keeps_assign; simp add: not_enable)

lemma keeps_fcw: "N \<subseteq> enable_events \<Longrightarrow> keeps (sd_inv cf K N s0) (run_block (fcw_block CS))"
  unfolding fcw_block_def by (intro keeps_sd; simp add: not_enable)

lemma keeps_gps: "N \<subseteq> enable_events \<Longrightarrow> keeps (sd_inv cf K N s0) (run_block (gps_block cf CS))"
  unfolding gps_block_def by (intro keeps_sd keeps_assign; simp add: not_enable)

lemma map_fst_to_msg [simp]: "map fst (ev_to_msg mp ev) = ev_events ev"
  by (simp add: ev_to_msg_def comp_def)

lemma keeps_message:
  assumes N: "N \<subseteq> enable_events" and ok: "sd_msgs_ok (sv_sm s0) CS"
  shows "keeps (sd_inv cf K N s0) (run_block (message_block CS))"
proof -
  have "sd_inv cf K N s0 (s\<lparr>sf_events := ev_add_from_msg (dm_events (sv_msg s)) (sf_events s),
      sf_events_sp := ev_add_from_msg (lpsp_events (sv_msg s)) (sf_events_sp s)\<rparr>)" if inv: "sd_inv cf K N s0 s" for s
  proof -
    have "sv_sm s = sv_sm s0" using inv by (simp add: sd_inv_def sd_frame_def)
    then have es: "\<forall>e\<in>set (dm_events (sv_msg s)). known_event e \<and> e \<notin> N" and fs: "\<forall>e\<in>set (lpsp_events (sv_msg s)). known_sp e"
      using ok not_enable [OF N] by (auto simp: sd_msgs_ok_def)
    from sd_inv_add_from_msg(2) [OF sd_inv_add_from_msg(1) [OF inv es fs] es fs] show ?thesis by simp
  qed
  then have "keeps (sd_inv cf K N s0) (pure_do (\<lambda>s. s\<lparr>sf_events := ev_add_from_msg (dm_events (sv_msg s)) (sf_events s),
      sf_events_sp := ev_add_from_msg (lpsp_events (sv_msg s)) (sf_events_sp s)\<rparr>))" by (rule keeps_assign)
  then show ?thesis unfolding message_block_def by (intro keeps_sd; simp add: not_enable [OF N])
qed

lemma keeps_car_events:
  assumes N: "N \<subseteq> enable_events" "N = {} \<or> \<not> engage_request CS (sf_CS_prev s0)"
  shows "keeps (sd_inv cf K N s0) (car_events_statement cf CS)"
  unfolding car_events_statement_def
proof (rule keeps_assign)
  fix s assume inv: "sd_inv cf K N s0 s"
  let ?r = "car_events_update (cf_env cf) (cf_odb cf) (sf_CP s) CS (sf_CS_prev s) (sd_carControl (sv_msg s)) (sv_car_events s)"
  have prev: "sf_CS_prev s = sf_CS_prev s0" using inv by (simp add: sd_inv_def sd_frame_def)
  have es: "\<forall>e\<in>set (ev_events (fst ?r)). known_event e \<and> e \<notin> N"
  proof
    fix e assume "e \<in> set (ev_events (fst ?r))"
    then have "car_event_ok CS (sf_CS_prev s0) e"
      using car_events_ok unfolding prev ev_list_ok_def by blast
    with N show "known_event e \<and> e \<notin> N" by (auto simp: car_event_ok_def enable_events_def)
  qed
  have "sd_inv cf K N s0 (s\<lparr>sv_car_events := snd ?r\<rparr>)" using inv by simp
  from sd_inv_add_from_msg(1) [OF this es, of "[]"] show "sd_inv cf K N s0 (let (ev, c) = ?r in
      s\<lparr>sv_car_events := c, sf_events := ev_add_from_msg (map fst (ev_to_msg (EVENTS (cf_env cf)) ev)) (sf_events s)\<rparr>)"
    by (simp add: Let_def split_def)
qed

lemma keeps_car_events_sp:
  assumes N: "N \<subseteq> enable_events" and K: "ev_belowSteerSpeed \<notin> K" "ev_resumeRequired \<notin> K"
  shows "keeps (sd_inv cf K N s0) (car_events_sp_statement cf CS)"
proof
  fix s assume inv: "sd_inv cf K N s0 s"
  then have "ev_wf (EVENTS (cf_env cf)) (sf_events s)" by (simp add: sd_inv_defs)
  from car_events_sp_spec [OF this] obtain ev' low where r:
    "car_events_sp_update (cf_env cf) (cf_odb cf) (sf_CP s) (sf_CP_SP s) CS (sv_car_events_sp_low_speed_alert s) (sf_events s)
       = Inr (ev', low, EventsSP_init (cf_env cf))" and
    spec: "ev_wf (EVENTS (cf_env cf)) ev'" "ev_static_events ev' = ev_static_events (sf_events s)"
      "set (ev_events ev') \<subseteq> insert ev_belowSteerSpeed (set (ev_events (sf_events s)))"
      "set (ev_events (sf_events s)) - {ev_belowSteerSpeed, ev_resumeRequired} \<subseteq> set (ev_events ev')" by blast
  have sub: "K \<subseteq> set (ev_events ev')" using inv K spec(4) unfolding sd_inv_def by blast
  have "\<forall>e\<in>set (ev_events (sf_events s)). known_event e \<and> e \<notin> N" using inv by (auto simp: sd_inv_defs)
  then have kn: "\<forall>e\<in>set (ev_events ev'). known_event e \<and> e \<notin> N"
    using spec(3) not_enable [OF N, of ev_belowSteerSpeed] by auto
  from sd_inv_lists(1) [OF inv spec(1) _ kn sub] spec(2)
  show "\<exists>s'. car_events_sp_statement cf CS s = Inr s' \<and> sd_inv cf K N s0 s'"
    unfolding car_events_sp_statement_def r by (simp add: EventsSP_init_def events_init_def)
qed

lemma keeps_excessive:
  assumes N: "N \<subseteq> enable_events" and off: "offroad_table_ok cf" and ok: "sd_msgs_ok (sv_sm s0) CS"
  shows "keeps (sd_inv cf K N s0) (run_block (excessive_block cf CS))"
proof -
  have feed: "keeps (sd_inv cf K N s0) (when_do (\<lambda>s. sm_updated (sd_health (sv_sm s)) ''liveCalibration'') feed_calibration)"
  proof
    fix s assume inv: "sd_inv cf K N s0 s"
    then have sm: "sv_sm s = sv_sm s0" by (simp add: sd_inv_def sd_frame_def)
    show "\<exists>s'. when_do (\<lambda>s. sm_updated (sd_health (sv_sm s)) ''liveCalibration'') feed_calibration s = Inr s' \<and> sd_inv cf K N s0 s'"
    proof (cases "sm_updated (sd_health (sv_sm s)) ''liveCalibration''")
      case True
      with ok sm have "length (lc_rpyCalib (sv_msg s)) = 3" by (simp add: sd_msgs_ok_def)
      then obtain a b c where "lc_rpyCalib (sv_msg s) = [a, b, c]" by (auto simp: length_Suc_conv numeral_3_eq_3)
      with inv show ?thesis by (simp add: when_do_def feed_calibration_def feed_live_calib_def)
    qed (use inv in \<open>simp add: when_do_def\<close>)
  qed
  have "keeps (sd_inv cf K N s0) (excessive_statement cf CS)"
  proof
    fix s assume inv: "sd_inv cf K N s0 s"
    have upd: "sd_inv cf K N s0 (s\<lparr>sv_excessive_actuation_check := c\<rparr>)" for c using inv by simp
    have rep: "keeps (sd_inv cf K N s0) (when_do (\<lambda>s. \<not> sv_excessive_actuation s)
        (run_block [raise_offroad_alert cf ''Offroad_ExcessiveActuation'' (Some n), pure_do (\<lambda>s. s\<lparr>sv_excessive_actuation := True\<rparr>)]))" for n
      using off by (intro keeps_sd keeps_assign) (simp_all add: offroad_table_ok_def)
    show "\<exists>s'. excessive_statement cf CS s = Inr s' \<and> sd_inv cf K N s0 s'"
      unfolding excessive_statement_def
      using inv upd keepsD [OF rep upd] by (cases "sv_calibrated_pose s") (auto simp: Let_def split_def split: option.split)
  qed
  then show ?thesis unfolding excessive_block_def
    by (intro keeps_sd keeps_assign feed; simp add: not_enable [OF N])
qed

lemma keeps_panda:
  assumes N: "N \<subseteq> enable_events" shows "keeps (sd_inv cf K N s0) (run_block panda_block)"
proof -
  have one: "keeps (sd_inv cf K N s0) (panda_statement ip)" for ip
    by (cases ip; simp add: panda_statement_def; intro keeps_sd; simp add: not_enable [OF N])
  have "keeps (sd_inv cf K N s0) (run_block (map panda_statement l))" for l
    by (rule keeps_block) (auto simp: one)
  then have "keeps (sd_inv cf K N s0) (\<lambda>s. run_block (map panda_statement (enumerate 0 (pa_states (sv_msg s)))) s)"
    by (rule keeps_dep [where f = "\<lambda>l. run_block (map panda_statement l)"])
  then show ?thesis unfolding panda_block_def by (intro keeps_sd)
qed

lemma keeps_comm: 
  assumes N: "N \<subseteq> enable_events" shows "keeps (sd_inv cf K N s0) (comm_issue_statement cf n)"
  unfolding keeps_def comm_issue_statement_def Let_def
proof (intro allI impI)
  fix s assume inv: "sd_inv cf K N s0 s"
  have "keeps (sd_inv cf K N s0) (when_do (\<lambda>s. \<not> all_checks (sd_health (sv_sm s)) [] \<and> b)
      (if_do (\<lambda>s. \<not> all_alive (sd_health (sv_sm s)) []) (add_event ev_commIssue)
        (if_do (\<lambda>s. \<not> all_freq_ok (sd_health (sv_sm s)) []) (add_event ev_commIssueAvgFreq) (add_event ev_commIssue))))" for b
    by (intro keeps_sd; simp add: not_enable [OF N])
  from keepsD [OF this inv] show "\<exists>s'. when_do (\<lambda>s'. \<not> all_checks (sd_health (sv_sm s')) [] \<and>
      (\<not> (ev_contains (EVENTS (cf_env cf)) NO_ENTRY (sf_events s) \<and>
           (ev_contains (EVENTS (cf_env cf)) SOFT_DISABLE (sf_events s) \<or> ev_contains (EVENTS (cf_env cf)) IMMEDIATE_DISABLE (sf_events s)))
       \<or> ev_len (sf_events s) = n))
      (if_do (\<lambda>s. \<not> all_alive (sd_health (sv_sm s)) []) (add_event ev_commIssue)
        (if_do (\<lambda>s. \<not> all_freq_ok (sd_health (sv_sm s)) []) (add_event ev_commIssueAvgFreq) (add_event ev_commIssue))) s = Inr s'
      \<and> sd_inv cf K N s0 s'" .
qed

lemma keeps_hw:
  assumes N: "N \<subseteq> enable_events" shows "keeps (sd_inv cf K N s0) (hw_malfunctions cf lagging CS)"
proof -
  have "keeps (sd_inv cf K N s0) (run_block (system_block cf lagging CS @ [comm_issue_statement cf n]))" for n
  proof
    fix s assume "sd_inv cf K N s0 s"
    from keepsD [OF keeps_system [OF N] this] obtain t where
      t: "run_block (system_block cf lagging CS) s = Inr t" "sd_inv cf K N s0 t" by blast
    from keepsD [OF keeps_comm [OF N] t(2), of n] obtain u where
      "comm_issue_statement cf n t = Inr u" "sd_inv cf K N s0 u" by blast
    with t(1) show "\<exists>s'. run_block (system_block cf lagging CS @ [comm_issue_statement cf n]) s = Inr s' \<and> sd_inv cf K N s0 s'"
      by (auto simp: run_block_append)
  qed
  then show ?thesis unfolding hw_malfunctions_def Let_def
    by (rule keeps_dep [where f = "\<lambda>n. run_block (system_block cf lagging CS @ [comm_issue_statement cf n])"])
qed

text \<open>The check raises for that acceleration, and for no other.\<close>

lemma saturation_raises:
  "saturation_statement CS s = Inl e \<longleftrightarrow> e = ZeroDivisionError \<and> co_lac_active (sv_msg s) \<and> \<not> cp_notCar (sf_CP s)
     \<and> of_int (sv_frame s - sv_last_steering_pressed_frame s) * DT_CTRL \<ge> 2
     \<and> co_curvature (sv_msg s) * (max (cs_vEgo CS) (3/10))^2 = - (1/1000)"
  by (auto simp: saturation_statement_def Let_def do_defs check_def add_event_def)

lemma keeps_saturation:
  assumes N: "N \<subseteq> enable_events" and ok: "sd_msgs_ok (sv_sm s0) CS"
  shows "keeps (sd_inv cf K N s0) (run_block (saturation_block CS))"
proof -
  have "keeps (sd_inv cf K N s0) (saturation_statement CS)"
  proof
    fix s assume inv: "sd_inv cf K N s0 s"
    then have "sv_sm s = sv_sm s0" by (simp add: sd_inv_def sd_frame_def)
    with ok have nz: "co_lac_active (sv_msg s) \<Longrightarrow> \<bar>1/1000 + co_curvature (sv_msg s) * (max (cs_vEgo CS) (3/10))^2\<bar> \<noteq> 0"
      by (simp add: sd_msgs_ok_def)
    have "keeps (sd_inv cf K N s0) (check c ev_steerSaturated)" for c by (intro keeps_sd; simp add: not_enable [OF N])
    from keepsD [OF this inv] inv nz show "\<exists>s'. saturation_statement CS s = Inr s' \<and> sd_inv cf K N s0 s'"
      unfolding saturation_statement_def Let_def by (simp only: if_False simp_thms split: if_split) blast
  qed
  then show ?thesis unfolding saturation_block_def by (intro keeps_sd keeps_assign; simp)
qed

lemma keeps_personality:
  assumes N: "N \<subseteq> enable_events" shows "keeps (sd_inv cf K N s0) (personality_statement CS)"
proof -
  have p: "keeps (sd_inv cf K N s0) (pure_do (\<lambda>s. let p = (sv_personality s - 1) mod 3 in
      s\<lparr>sv_personality := p, sv_params := (sv_params s)(''LongitudinalPersonality'' \<mapsto> PInt p)\<rparr>))"
  proof (rule keeps_assign)
    fix s assume "sd_inv cf K N s0 s"
    moreover have "0 \<le> (sv_personality s - 1) mod 3" "(sv_personality s - 1) mod 3 \<le> 2" by presburger+
    ultimately show "sd_inv cf K N s0 (let p = (sv_personality s - 1) mod 3 in
        s\<lparr>sv_personality := p, sv_params := (sv_params s)(''LongitudinalPersonality'' \<mapsto> PInt p)\<rparr>)"
      by (simp add: Let_def) (simp add: sd_inv_defs)
  qed
  have "keeps (sd_inv cf K N s0)
      (pure_do (\<lambda>s. s\<lparr>sv_cruise_helper := (sv_cruise_helper s)\<lparr>ch_experimental_mode_switched := False\<rparr>\<rparr>))"
    by (rule keeps_assign) simp
  then show ?thesis unfolding personality_statement_def
    by (intro keeps_sd p; simp add: not_enable [OF N])
qed

lemma keeps_cruise_helper: "keeps (sd_inv cf K N s0) (cruise_helper_statement CS)"
  unfolding cruise_helper_statement_def
proof (rule keeps_assign)
  fix s assume inv: "sd_inv cf K N s0 s"
  obtain h ev p where r: "cruise_helper_update (sf_CP s) CS (sv_experimental_mode s) (sv_cruise_helper s, sf_events_sp s, sv_params s) = (h, ev, p)"
    by (metis prod_cases3)
  then have "ev = sf_events_sp s \<or> ev = ev_add evsp_experimentalModeSwitched (sf_events_sp s)"
    using cruise_helper_events [of "sf_CP s" CS "sv_experimental_mode s" "sv_cruise_helper s" "sf_events_sp s" "sv_params s"] by auto
  moreover have "ev_wf (EVENTS_SP (cf_env cf)) (sf_events_sp s)" "\<forall>e\<in>set (ev_events (sf_events_sp s)). known_sp e"
    using inv by (auto simp: sd_inv_defs)
  ultimately have "ev_wf (EVENTS_SP (cf_env cf)) ev"
    "ev_static_events ev = ev_static_events (sf_events_sp (s\<lparr>sv_cruise_helper := h\<rparr>))"
    "\<forall>e\<in>set (ev_events ev). known_sp e" by auto
  moreover have "sd_inv cf K N s0 (s\<lparr>sv_cruise_helper := h\<rparr>)" using inv by simp
  ultimately show "sd_inv cf K N s0 (let (h, ev, p) =
      cruise_helper_update (sf_CP s) CS (sv_experimental_mode s) (sv_cruise_helper s, sf_events_sp s, sv_params s)
      in s\<lparr>sv_cruise_helper := h, sf_events_sp := ev, sv_params := p\<rparr>)"
    unfolding r Let_def prod.case sd_inv_upd by (intro sd_inv_lists(2)) simp_all
qed

lemma keeps_button: "N \<subseteq> enable_events \<Longrightarrow> keeps (sd_inv cf K N s0) (run_block (button_block cf CS))"
  unfolding button_block_def icbm_statement_def
  by (intro keeps_sd keeps_cruise_helper keeps_personality keeps_assign; simp)

text \<open>The false alarm of a parked car is withdrawn; otherwise the bus error stays.\<close>

lemma keeps_model:
  assumes N: "N \<subseteq> enable_events"
    and K: "ev_canBusMissing \<notin> K \<or> \<not> (cs_gearShifter CS = Gear_park \<and> ma_enabled (sf_mads s0))"
  shows "keeps (sd_inv cf K N s0) (run_block (model_block cf CS))"
proof -
  have park: "keeps (sd_inv cf K N s0) (when_do (\<lambda>s. cs_gearShifter CS = Gear_park \<and> ma_enabled (sf_mads s)) (remove_event ev_canBusMissing))"
  proof (cases "ev_canBusMissing \<in> K")
    case False
    then show ?thesis by (intro keeps_when keeps_remove_event) simp_all
  next
    case True
    with K show ?thesis by (auto simp: keeps_def when_do_def sd_inv_def sd_frame_def)
  qed
  show ?thesis unfolding model_block_def by (intro park keeps_Cons keeps_Nil_block keeps_check; simp add: not_enable [OF N])
qed

section \<open>update_events\<close>

text \<open>A block: a front that keeps one invariant, a statement that moves to another, a rest that keeps it.\<close>

lemma block_trigger:
  assumes front: "keeps P (run_block front)" and trigger: "\<And>t. P t \<Longrightarrow> \<exists>t'. f t = Inr t' \<and> Q t'"
    and rest: "keeps Q (run_block rest)" and P: "P s"
  shows "\<exists>s'. run_block (front @ f # rest) s = Inr s' \<and> Q s'"
proof -
  from keepsD [OF front P] obtain t where t: "run_block front s = Inr t" "P t" by blast
  from trigger [OF t(2)] obtain u where u: "f t = Inr u" "Q u" by blast
  from keepsD [OF rest u(2)] t u show ?thesis by (auto simp: run_block_append)
qed

text \<open>A check whose condition holds puts its event into the list.\<close>

lemma check_trigger:
  assumes "known_event e" "e \<notin> N" "\<And>t. sd_inv cf K N s0 t \<Longrightarrow> c t" "sd_inv cf K N s0 t"
  shows "\<exists>t'. check c e t = Inr t' \<and> sd_inv cf (insert e K) N s0 t'"
proof -
  have "c t" using assms by blast
  then have "check c e t = Inr (t\<lparr>sf_events := ev_add e (sf_events t)\<rparr>)"
    by (simp add: check_def when_do_def add_event_def pure_do_def)
  moreover have "sd_inv cf (insert e K) N s0 (t\<lparr>sf_events := ev_add e (sf_events t)\<rparr>)"
    using assms by (auto simp: sd_inv_defs)
  ultimately show ?thesis by blast
qed

text \<open>
  The blocks after the car's events keep any set of events but \<open>canBusMissing\<close> of a parked car.
\<close>

definition keepable :: "car_state \<Rightarrow> 'a selfdrived_scheme \<Rightarrow> event_id set \<Rightarrow> bool" where
  "keepable CS s0 K \<longleftrightarrow> ev_belowSteerSpeed \<notin> K \<and> ev_resumeRequired \<notin> K
     \<and> (ev_canBusMissing \<notin> K \<or> \<not> (cs_gearShifter CS = Gear_park \<and> ma_enabled (sf_mads s0)))"

lemma keepable_empty [simp]: "keepable CS s0 {}"
  by (simp add: keepable_def)

text \<open>What the blocks need of the cycle's inputs.\<close>

definition cycle_ok :: "sd_config \<Rightarrow> car_state \<Rightarrow> event_id set \<Rightarrow> 'a selfdrived_scheme \<Rightarrow> bool" where
  "cycle_ok cf CS N s0 \<longleftrightarrow> offroad_table_ok cf \<and> sd_msgs_ok (sv_sm s0) CS \<and> N \<subseteq> enable_events
     \<and> (N = {} \<or> \<not> cs_canValid CS \<or> \<not> engage_request CS (sf_CS_prev s0) \<and> \<not> cp_notCar (sf_CP s0))"

lemma keeps_not_car:
  "N \<subseteq> enable_events \<Longrightarrow> N = {} \<or> \<not> cp_notCar (sf_CP s0) \<Longrightarrow>
    keeps (sd_inv cf K N s0) (check (\<lambda>s. cp_notCar (sf_CP s) \<and> sv_frame s > py_int (5 / DT_CTRL) \<and> sf_initialized s) ev_pcmEnable)"
proof (cases "cp_notCar (sf_CP s0)")
  case False
  then show ?thesis by (intro keeps_check_false) (simp add: sd_inv_def sd_frame_def)
qed (auto intro!: keeps_check)

lemma keeps_car_block:
  assumes "cycle_ok cf CS N s0" "keepable CS s0 K"
  shows "keeps (sd_inv cf K N s0) (run_block (car_block cf CS))"
proof (cases "cs_canValid CS")
  case True
  have N: "N \<subseteq> enable_events" "N = {} \<or> \<not> engage_request CS (sf_CS_prev s0)" "N = {} \<or> \<not> cp_notCar (sf_CP s0)"
    using assms(1) True by (auto simp: cycle_ok_def)
  have K: "ev_belowSteerSpeed \<notin> K" "ev_resumeRequired \<notin> K" using assms(2) by (simp_all add: keepable_def)
  show ?thesis unfolding car_block_def
    by (intro keeps_Cons keeps_Nil_block keeps_when keeps_car_events keeps_car_events_sp keeps_not_car keeps_check N K)
      (simp_all add: not_enable [OF N(1)])
next
  case False
  then show ?thesis by (simp add: car_block_def when_do_def keeps_def)
qed

lemma keeps_rest:
  assumes "cycle_ok cf CS N s0" "keepable CS s0 K"
  shows "keeps (sd_inv cf K N s0) (run_block (message_block CS))"
    "keeps (sd_inv cf K N s0) (run_block (device_block cf))"
    "keeps (sd_inv cf K N s0) (run_block (calibration_block cf))"
    "keeps (sd_inv cf K N s0) (run_block ldw_block)"
    "keeps (sd_inv cf K N s0) (run_block (excessive_block cf CS))"
    "keeps (sd_inv cf K N s0) (run_block (lane_block CS))"
    "keeps (sd_inv cf K N s0) (run_block panda_block)"
    "keeps (sd_inv cf K N s0) (hw_malfunctions cf lagging CS)"
    "keeps (sd_inv cf K N s0) (run_block (localizer_block cf))"
    "keeps (sd_inv cf K N s0) (run_block (cruise_mismatch_block cf CS))"
    "keeps (sd_inv cf K N s0) (run_block (saturation_block CS))"
    "keeps (sd_inv cf K N s0) (run_block (fcw_block CS))"
    "keeps (sd_inv cf K N s0) (run_block (gps_block cf CS))"
    "keeps (sd_inv cf K N s0) (run_block (model_block cf CS))"
    "keeps (sd_inv cf K N s0) (run_block (button_block cf CS))"
  using assms unfolding cycle_ok_def
  by (auto simp: keepable_def intro: keeps_message keeps_device keeps_calibration keeps_ldw keeps_excessive
      keeps_lane keeps_panda keeps_hw keeps_localizer keeps_cruise_mismatch keeps_saturation keeps_fcw keeps_gps keeps_model keeps_button)

lemma keeps_driving:
  assumes "cycle_ok cf CS N s0" "keepable CS s0 K"
  shows "keeps (sd_inv cf K N s0) (driving_events cf lagging CS)"
  unfolding driving_events_def by (intro keeps_Cons keeps_Nil_block keeps_rest [OF assms] keeps_car_block [OF assms])

text \<open>The whole of \<open>update_events\<close>: it returns, and rules out what the inputs do not ask for.\<close>

lemma update_events_inv:
  assumes good: "sd_good cf s0" and ok: "cycle_ok cf CS N s0" and st: "N \<inter> set (ev_static_events (sf_events s0)) = {}"
  shows "\<exists>s. sd_update_events cf lagging CS s0 = Inr s \<and> sd_inv cf {} N s0 s"
proof -
  have N: "N \<subseteq> enable_events" using ok by (simp add: cycle_ok_def)
  from keeps_startup_block [OF N good st] obtain t where t: "run_block startup_block s0 = Inr t" "sd_inv cf {} N s0 t" by blast
  have "keeps (sd_inv cf {} N s0) (run_block [if_do (\<lambda>s. \<not> sf_initialized s) (add_event ev_selfdriveInitializing)
      (run_block [run_block bookmark_block, when_do (\<lambda>s. \<not> cp_passive (sf_CP s)) (driving_events cf lagging CS)])])"
    by (intro keeps_sd keeps_bookmark N keeps_driving [OF ok]; simp add: not_enable [OF N])
  from keepsD [OF this t(2)] t(1) show ?thesis by (simp add: sd_update_events_def)
qed

section \<open>What stops openpilot\<close>

text \<open>
  A cause in the inputs of a cycle and the event it puts into the list: a pedal, read from a valid
  bus only, a panda that has refused the controls for two seconds or whose safety checks fail, a
  relay malfunction, an error of the car's bus or of the radar's. A bus that is missing altogether
  is no cause in park with MADS enabled, where the code removes the event again
  (\<open>selfdrived.py\<close>, lines 443 to 445).
\<close>

definition stop_cause :: "sd_msgs \<Rightarrow> car_state \<Rightarrow> 'a selfdrived_scheme \<Rightarrow> event_id \<Rightarrow> bool" where
  "stop_cause m CS s e \<longleftrightarrow>
     e = ev_pedalPressed \<and> cs_canValid CS \<and> pedal_event CS s
     \<or> e = ev_controlsMismatch \<and> (\<exists>p\<in>set (pa_states m). pa_safetyRxChecksInvalid p \<or> sv_mismatch_counter s \<ge> 200)
     \<or> e = ev_relayMalfunction \<and> (\<exists>p\<in>set (pa_states m). pa_relayMalfunction p)
     \<or> e = ev_canError \<and> (ra_canError m \<or> \<not> cs_canValid CS \<and> \<not> cs_canTimeout CS)
     \<or> e = ev_canBusMissing \<and> cs_canTimeout CS \<and> \<not> (cs_gearShifter CS = Gear_park \<and> ma_enabled (sf_mads s))"

lemma sd_invD:
  assumes "sd_inv cf K N s0 s"
  shows "sf_CS_prev s = sf_CS_prev s0" "sv_sm s = sv_sm s0" "sv_mismatch_counter s = sv_mismatch_counter s0"
    "sv_disengage_on_accelerator s = sv_disengage_on_accelerator s0" "sf_CP s = sf_CP s0" "sf_mads s = sf_mads s0"
    "sf_initialized s = sf_initialized s0" "sf_enabled s = sf_enabled s0" "sf_state_machine s = sf_state_machine s0"
    "sv_AM s = sv_AM s0"
  using assms by (simp_all add: sd_inv_def sd_frame_def)

lemma pedal_trigger:
  assumes ok: "cycle_ok cf CS {} s0" and c: "cs_canValid CS" "pedal_event CS s0" and t: "sd_inv cf {} {} s0 t"
  shows "\<exists>t'. run_block (car_block cf CS) t = Inr t' \<and> sd_inv cf {ev_pedalPressed} {} s0 t'"
proof -
  let ?front = "[car_events_statement cf CS, car_events_sp_statement cf CS,
     check (\<lambda>s. cp_notCar (sf_CP s) \<and> sv_frame s > py_int (5 / DT_CTRL) \<and> sf_initialized s) ev_pcmEnable]"
  have front: "keeps (sd_inv cf {} {} s0) (run_block ?front)"
    by (intro keeps_Cons keeps_Nil_block keeps_car_events keeps_car_events_sp keeps_check) simp_all
  have trig: "\<exists>t'. check (pedal_event CS) ev_pedalPressed u = Inr t' \<and> sd_inv cf {ev_pedalPressed} {} s0 t'"
    if "sd_inv cf {} {} s0 u" for u
    using check_trigger [OF _ _ _ that, of ev_pedalPressed "pedal_event CS"] c(2)
    by (simp add: pedal_event_def sd_invD)
  have "\<exists>t'. run_block (?front @ check (pedal_event CS) ev_pedalPressed # []) t = Inr t' \<and> sd_inv cf {ev_pedalPressed} {} s0 t'"
    by (rule block_trigger [OF front trig _ t]) simp_all
  then show ?thesis using c(1) unfolding car_block_def
    by (simp only: run_block.simps when_do_def if_True append.simps) (auto simp: bind_result_Inr_iff)
qed

lemma panda_trigger:
  assumes p: "p \<in> set (pa_states (sv_msg s0))" and t: "sd_inv cf {} {} s0 t"
    and c: "e = ev_controlsMismatch \<and> (pa_safetyRxChecksInvalid p \<or> sv_mismatch_counter s0 \<ge> 200)
      \<or> e = ev_relayMalfunction \<and> pa_relayMalfunction p"
  shows "\<exists>t'. run_block panda_block t = Inr t' \<and> sd_inv cf {e} {} s0 t'"
proof -
  from p obtain pre post where ps: "pa_states (sv_msg s0) = pre @ p # post" by (meson split_list)
  have one: "keeps (sd_inv cf K {} s0) (panda_statement ip)" for K ip
    by (cases ip; simp add: panda_statement_def; intro keeps_sd; simp)
  have all: "keeps (sd_inv cf K {} s0) (run_block (map panda_statement l))" for K l
    by (rule keeps_block) (auto simp: one)
  have trig: "\<exists>t'. panda_statement (i, p) u = Inr t' \<and> sd_inv cf {e} {} s0 t'" if u: "sd_inv cf {} {} s0 u" for i u
  proof -
    let ?a = "check (\<lambda>s. safety_mismatch (sf_CP s) i p \<and> of_int (sv_frame s) * DT_CTRL > 10
              \<or> pa_safetyRxChecksInvalid p \<or> sv_mismatch_counter s \<ge> 200) ev_controlsMismatch"
    let ?b = "check (\<lambda>s. pa_relayMalfunction p) ev_relayMalfunction"
    have keep: "keeps (sd_inv cf K {} s0) (run_block [?a])" "keeps (sd_inv cf K {} s0) (run_block [?b])" for K
      by (intro keeps_sd; simp)+
    show ?thesis
    proof (cases "e = ev_controlsMismatch")
      case True
      have "\<exists>t'. run_block ([] @ ?a # [?b]) u = Inr t' \<and> sd_inv cf {e} {} s0 t'"
      proof (rule block_trigger [where P = "sd_inv cf {} {} s0"])
        show "\<exists>t'. ?a v = Inr t' \<and> sd_inv cf {e} {} s0 t'" if "sd_inv cf {} {} s0 v" for v
          unfolding True by (rule check_trigger [OF _ _ _ that]) (use c True in \<open>simp_all add: sd_invD\<close>)
      qed (use keep u in simp_all)
      then show ?thesis by (simp add: panda_statement_def)
    next
      case False
      with c have e: "e = ev_relayMalfunction" "pa_relayMalfunction p" by auto
      have "\<exists>t'. run_block ([?a] @ ?b # []) u = Inr t' \<and> sd_inv cf {e} {} s0 t'"
      proof (rule block_trigger [where P = "sd_inv cf {} {} s0"])
        show "\<exists>t'. ?b v = Inr t' \<and> sd_inv cf {e} {} s0 t'" if "sd_inv cf {} {} s0 v" for v
          unfolding e(1) by (rule check_trigger [OF _ _ _ that]) (use e in simp_all)
      qed (use keep u in simp_all)
      then show ?thesis by (simp add: panda_statement_def)
    qed
  qed
  have "\<exists>t'. run_block (map panda_statement (enumerate 0 pre) @ panda_statement (length pre, p)
      # map panda_statement (enumerate (Suc (length pre)) post)) t = Inr t' \<and> sd_inv cf {e} {} s0 t'"
    by (rule block_trigger [OF all trig all t])
  then show ?thesis
    by (simp add: panda_block_def sd_invD(2) [OF t] ps enumerate_append_eq) (auto simp: bind_result_def)
qed

text \<open>The checks of the other processes, at the two statements that look at the car's bus.\<close>

lemma system_block_split:
  "\<exists>front f g rest. system_block cf lagging CS = front @ f # g # [rest]
    \<and> f = if_do (\<lambda>s. ra_canError (sv_msg s)) (add_event ev_canError)
         (if_do (\<lambda>s. ra_radarUnavailableTemporary (sv_msg s)) (add_event ev_radarTempUnavailable)
           (check (\<lambda>s. ra_otherError (sv_msg s)) ev_radarFault))
    \<and> rest = if_do (\<lambda>s. cs_canTimeout CS) (add_event ev_canBusMissing) (check (\<lambda>s. \<not> cs_canValid CS) ev_canError)
    \<and> (\<forall>K. keeps (sd_inv cf K {} s0) (run_block front)) \<and> (\<forall>K. keeps (sd_inv cf K {} s0) f)
    \<and> (\<forall>K. keeps (sd_inv cf K {} s0) g) \<and> (\<forall>K. keeps (sd_inv cf K {} s0) rest)"
  unfolding system_block_def
  by (intro exI [of _ "[_, _]"] exI conjI allI, simp, rule refl, rule refl; (intro keeps_sd; simp)?)

lemma add_event_trigger:
  "sd_inv cf {} {} s0 u \<Longrightarrow> known_event e \<Longrightarrow> \<exists>t'. add_event e u = Inr t' \<and> sd_inv cf {e} {} s0 t'"
  using check_trigger [of e "{}" cf "{}" s0 "\<lambda>_. True" u] by (simp add: check_def when_do_def)

lemma hw_trigger:
  assumes t: "sd_inv cf {} {} s0 t"
    and c: "e = ev_canError \<and> (ra_canError (sv_msg s0) \<or> \<not> cs_canValid CS \<and> \<not> cs_canTimeout CS)
      \<or> e = ev_canBusMissing \<and> cs_canTimeout CS"
  shows "\<exists>t'. hw_malfunctions cf lagging CS t = Inr t' \<and> sd_inv cf {e} {} s0 t'"
proof -
  let ?n = "ev_len (sf_events t)"
  from system_block_split [of cf lagging CS s0] obtain front f g rest where
    sys: "system_block cf lagging CS = front @ f # g # [rest]"
    and f: "f = if_do (\<lambda>s. ra_canError (sv_msg s)) (add_event ev_canError)
         (if_do (\<lambda>s. ra_radarUnavailableTemporary (sv_msg s)) (add_event ev_radarTempUnavailable)
           (check (\<lambda>s. ra_otherError (sv_msg s)) ev_radarFault))"
    and rest: "rest = if_do (\<lambda>s. cs_canTimeout CS) (add_event ev_canBusMissing) (check (\<lambda>s. \<not> cs_canValid CS) ev_canError)"
    and keep: "\<And>K. keeps (sd_inv cf K {} s0) (run_block front)" "\<And>K. keeps (sd_inv cf K {} s0) f"
      "\<And>K. keeps (sd_inv cf K {} s0) g" "\<And>K. keeps (sd_inv cf K {} s0) rest" by blast
  have comm: "keeps (sd_inv cf K {} s0) (comm_issue_statement cf ?n)" for K by (rule keeps_comm) simp
  have front3: "keeps (sd_inv cf {} {} s0) (run_block (front @ [f, g]))"
  proof
    fix s assume "sd_inv cf {} {} s0 s"
    from keepsD [OF keep(1) this] obtain u where u: "run_block front s = Inr u" "sd_inv cf {} {} s0 u" by blast
    have "keeps (sd_inv cf {} {} s0) (run_block [f, g])" by (intro keeps_Cons keeps_Nil_block keep)
    from keepsD [OF this u(2)] u(1) show "\<exists>s'. run_block (front @ [f, g]) s = Inr s' \<and> sd_inv cf {} {} s0 s'"
      by (simp add: run_block_append)
  qed
  have "\<exists>t'. run_block (system_block cf lagging CS @ [comm_issue_statement cf ?n]) t = Inr t' \<and> sd_inv cf {e} {} s0 t'"
  proof (cases "e = ev_canError \<and> ra_canError (sv_msg s0)")
    case True
    have "\<exists>t'. f u = Inr t' \<and> sd_inv cf {e} {} s0 t'" if "sd_inv cf {} {} s0 u" for u
      using add_event_trigger [OF that, of ev_canError] True by (simp add: f if_do_def sd_invD(2) [OF that])
    from block_trigger [OF keep(1) this _ t, where rest = "[g, rest, comm_issue_statement cf ?n]"] show ?thesis
      unfolding sys by (simp add: keeps_Cons keep comm)
  next
    case False
    with c have "e = ev_canError \<and> \<not> cs_canValid CS \<and> \<not> cs_canTimeout CS \<or> e = ev_canBusMissing \<and> cs_canTimeout CS" by blast
    then have "\<exists>t'. rest u = Inr t' \<and> sd_inv cf {e} {} s0 t'" if "sd_inv cf {} {} s0 u" for u
      using add_event_trigger [OF that, of ev_canError] add_event_trigger [OF that, of ev_canBusMissing]
      by (auto simp: rest if_do_def check_def when_do_def)
    from block_trigger [OF front3 this _ t, where rest = "[comm_issue_statement cf ?n]"] show ?thesis
      unfolding sys by (simp add: keeps_Cons comm)
  qed
  then show ?thesis by (simp add: hw_malfunctions_def Let_def)
qed

lemma stop_cause_keepable: "stop_cause m CS s e \<Longrightarrow> keepable CS s {e}"
  by (auto simp: stop_cause_def keepable_def)

lemma driving_trigger:
  assumes ok: "cycle_ok cf CS {} s0" and cause: "stop_cause (sv_msg s0) CS s0 e" and t: "sd_inv cf {} {} s0 t"
  shows "\<exists>t'. driving_events cf lagging CS t = Inr t' \<and> sd_inv cf {e} {} s0 t'"
proof -
  note keep0 = keeps_rest [OF ok keepable_empty] keeps_car_block [OF ok keepable_empty]
  note keep1 = keeps_rest [OF ok stop_cause_keepable [OF cause]] keeps_car_block [OF ok stop_cause_keepable [OF cause]]
  have go: "\<exists>t'. driving_events cf lagging CS t = Inr t' \<and> sd_inv cf {e} {} s0 t'"
    if "driving_events cf lagging CS = run_block (front @ f # rest)" "keeps (sd_inv cf {} {} s0) (run_block front)"
      "\<And>u. sd_inv cf {} {} s0 u \<Longrightarrow> \<exists>t'. f u = Inr t' \<and> sd_inv cf {e} {} s0 t'" "keeps (sd_inv cf {e} {} s0) (run_block rest)"
    for front f rest unfolding that(1) by (rule block_trigger [OF that(2,3,4) t])
  consider (pedal) "e = ev_pedalPressed" "cs_canValid CS" "pedal_event CS s0"
    | (panda) p where "p \<in> set (pa_states (sv_msg s0))"
        "e = ev_controlsMismatch \<and> (pa_safetyRxChecksInvalid p \<or> sv_mismatch_counter s0 \<ge> 200)
          \<or> e = ev_relayMalfunction \<and> pa_relayMalfunction p"
    | (hw) "e = ev_canError \<and> (ra_canError (sv_msg s0) \<or> \<not> cs_canValid CS \<and> \<not> cs_canTimeout CS)
          \<or> e = ev_canBusMissing \<and> cs_canTimeout CS"
    using cause unfolding stop_cause_def by blast
  then show ?thesis
  proof cases
    case pedal
    show ?thesis
    proof (rule go [where f = "run_block (car_block cf CS)" and front = "[run_block (message_block CS)]"
       and rest = "[run_block (device_block cf), run_block (calibration_block cf),
         run_block ldw_block, run_block (excessive_block cf CS),
         run_block (lane_block CS), run_block panda_block,
         hw_malfunctions cf lagging CS, run_block (localizer_block cf),
         run_block (cruise_mismatch_block cf CS), run_block (saturation_block CS),
         run_block (fcw_block CS), run_block (gps_block cf CS),
         run_block (model_block cf CS), run_block (button_block cf CS)]"])
      show "\<exists>t'. run_block (car_block cf CS) u = Inr t' \<and> sd_inv cf {e} {} s0 t'" if "sd_inv cf {} {} s0 u" for u
        unfolding pedal(1) by (rule pedal_trigger [OF ok pedal(2,3) that])
    qed (simp add: driving_events_def, (intro keeps_Cons keeps_Nil_block keep0 keep1)+)
  next
    case panda
    show ?thesis
    proof (rule go [where f = "run_block panda_block" and front = "[run_block (message_block CS), run_block (car_block cf CS),
         run_block (device_block cf), run_block (calibration_block cf),
         run_block ldw_block, run_block (excessive_block cf CS),
         run_block (lane_block CS)]"
       and rest = "[hw_malfunctions cf lagging CS, run_block (localizer_block cf),
         run_block (cruise_mismatch_block cf CS), run_block (saturation_block CS),
         run_block (fcw_block CS), run_block (gps_block cf CS),
         run_block (model_block cf CS), run_block (button_block cf CS)]"])
      show "\<exists>t'. run_block panda_block u = Inr t' \<and> sd_inv cf {e} {} s0 t'" if "sd_inv cf {} {} s0 u" for u
        by (rule panda_trigger [OF panda(1) that panda(2)])
    qed (simp add: driving_events_def, (intro keeps_Cons keeps_Nil_block keep0 keep1)+)
  next
    case hw
    show ?thesis
    proof (rule go [where f = "hw_malfunctions cf lagging CS" and front = "[run_block (message_block CS), run_block (car_block cf CS),
         run_block (device_block cf), run_block (calibration_block cf),
         run_block ldw_block, run_block (excessive_block cf CS),
         run_block (lane_block CS), run_block panda_block]"
       and rest = "[run_block (localizer_block cf), run_block (cruise_mismatch_block cf CS),
         run_block (saturation_block CS), run_block (fcw_block CS),
         run_block (gps_block cf CS), run_block (model_block cf CS),
         run_block (button_block cf CS)]"])
      show "\<exists>t'. hw_malfunctions cf lagging CS u = Inr t' \<and> sd_inv cf {e} {} s0 t'" if "sd_inv cf {} {} s0 u" for u
        by (rule hw_trigger [OF that hw])
    qed (simp add: driving_events_def, (intro keeps_Cons keeps_Nil_block keep0 keep1)+)
  qed
qed

lemma update_events_trigger:
  assumes good: "sd_good cf s0" and ok: "cycle_ok cf CS {} s0" and cause: "stop_cause (sv_msg s0) CS s0 e"
    and on: "sf_initialized s0" "\<not> cp_passive (sf_CP s0)"
  shows "\<exists>s. sd_update_events cf lagging CS s0 = Inr s \<and> sd_inv cf {e} {} s0 s"
proof -
  from keeps_startup_block [of "{}", OF _ good] obtain t where t: "run_block startup_block s0 = Inr t" "sd_inv cf {} {} s0 t" by auto
  from keepsD [OF keeps_bookmark t(2)] obtain u where u: "run_block bookmark_block t = Inr u" "sd_inv cf {} {} s0 u" by auto
  from driving_trigger [OF ok cause u(2), of lagging] obtain v where
    v: "driving_events cf lagging CS u = Inr v" "sd_inv cf {e} {} s0 v" by blast
  have "sf_initialized t" "\<not> cp_passive (sf_CP u)" using on sd_invD [OF t(2)] sd_invD [OF u(2)] by simp_all
  with t(1) u(1) v show ?thesis by (simp add: sd_update_events_def if_do_def when_do_def)
qed

end
