(* ===== verification/Selfdrived_Safety.thy ===== *)
theory Selfdrived_Safety
  imports Selfdrived_Facts
begin

text \<open>
  A whole cycle of selfdrived, from the messages it samples to the state it publishes, and runs
  of cycles interleaved with rounds of the parameter thread.
\<close>

section \<open>MADS in the cycle\<close>

lemma keeps_remove_sp [keeps_sd]:
  assumes "known_sp e" shows "keeps (sd_inv cf K N s0) (remove_event_sp e)"
proof
  fix s :: "'a selfdrived_scheme" assume inv: "sd_inv cf K N s0 s"
  then have wf: "ev_wf (EVENTS_SP (cf_env cf)) (sf_events_sp s)" by (simp add: sd_inv_defs)
  have "EVENTS_SP (cf_env cf) e \<noteq> None" using assms unfolding known_EVENTS_SP known_sp_def .
  with wf ev_remove_total obtain v where v: "ev_remove e (sf_events_sp s) = Inr v" by blast
  have "sd_inv cf K N s0 (s\<lparr>sf_events_sp := v\<rparr>)"
  proof (rule sd_inv_lists(2) [OF inv])
    show "ev_wf (EVENTS_SP (cf_env cf)) v" using wf v by blast
    show "ev_static_events v = ev_static_events (sf_events_sp s)" using v ev_remove_cases by blast
    have "ev_events v = remove1 e (ev_events (sf_events_sp s))" using ev_remove_cases [OF v] by simp
    then show "\<forall>e\<in>set (ev_events v). known_sp e"
      using inv set_remove1_subset [of e "ev_events (sf_events_sp s)"] by (auto simp: sd_inv_defs)
  qed
  with v show "\<exists>s'. remove_event_sp e s = Inr s' \<and> sd_inv cf K N s0 s'" by (simp add: remove_event_sp_def)
qed

lemmas keeps_md = keeps_sd keeps_remove_event

lemma keeps_mads_parts:
  "known_event e \<Longrightarrow> known_sp d \<Longrightarrow> keeps (sd_inv cf {} N s0) (replace_event e d)"
  "keeps (sd_inv cf {} N s0) transition_paused_state"
  "known_event e \<Longrightarrow> known_sp d \<Longrightarrow> keeps (sd_inv cf {} N s0) (silence_event e d)"
  unfolding silence_event_def replace_event_def transition_paused_state_def by (intro keeps_md; simp)+

lemma keeps_mads_events:
  "keeps (sd_inv cf {} N s0) (mads_lateral_only_events CS)"
  "keeps (sd_inv cf {} N s0) (mads_enable_events CS)"
  "keeps (sd_inv cf {} N s0) (mads_button_events CS be)"
  "keeps (sd_inv cf {} N s0) (mads_brake_events env CS)"
proof -
  show "keeps (sd_inv cf {} N s0) (mads_lateral_only_events CS)"
    unfolding mads_lateral_only_events_def by (intro keeps_md keeps_mads_parts; simp)
  have wrong: "keeps (sd_inv cf {} N s0) (get_wrong_car_mode b)" for b
    unfolding get_wrong_car_mode_def by (cases b; simp; intro keeps_md keeps_mads_parts; simp)
  let ?f = "\<lambda>c. run_block [get_wrong_car_mode (c \<or> list_ex (\<lambda>be. be_type be \<in> set SET_SPEED_BUTTONS) (cs_buttonEvents CS)),
        if c then run_block [
          when_do (pedal_pressed_non_gas_pressed CS) (add_event_sp evsp_pedalPressedAlertOnly),
          when_do block_unified_engagement_mode
            (run_block [remove_event ev_pcmEnable, remove_event ev_buttonEnable])]
        else when_do (\<lambda>s. ma_main_enabled_toggle (sf_mads s))
          (when_do (\<lambda>s. cr_available (cs_cruiseState CS) \<and> \<not> cr_available (cs_cruiseState (sf_CS_prev s)))
            (add_event_sp evsp_lkasEnable))]"
  have f: "keeps (sd_inv cf {} N s0) (?f c)" for c
    by (cases c; simp only: if_True if_False; intro keeps_md wrong; simp)
  show "keeps (sd_inv cf {} N s0) (mads_enable_events CS)"
  proof
    fix s assume "sd_inv cf {} N s0 s"
    from keepsD [OF f [of "selfdrive_enable_events s"] this]
    show "\<exists>s'. mads_enable_events CS s = Inr s' \<and> sd_inv cf {} N s0 s'"
      by (simp only: mads_enable_events_def Let_def)
  qed
  show "keeps (sd_inv cf {} N s0) (mads_button_events CS be)"
    unfolding mads_button_events_def by (intro keeps_md; simp)
  show "keeps (sd_inv cf {} N s0) (mads_brake_events env CS)"
    unfolding mads_brake_events_def by (intro keeps_md; simp)
qed

lemma keeps_mads_update_events: "keeps (sd_inv cf {} N s0) (mads_update_events env CS)"
  unfolding mads_update_events_def
  by (intro keeps_Cons keeps_Nil_block keeps_when keeps_mads_events keeps_block) (auto simp: keeps_mads_events)

text \<open>MADS changes the state machine's alert types, its own attributes and the lists.\<close>

definition mads_frame :: "'a selfdrived_scheme \<Rightarrow> 'a selfdrived_scheme \<Rightarrow> bool" where
  "mads_frame s s' \<longleftrightarrow> sf_enabled s' = sf_enabled s \<and> sf_active s' = sf_active s \<and> sf_CP s' = sf_CP s
     \<and> sf_initialized s' = sf_initialized s \<and> sv_sm s' = sv_sm s
     \<and> sm_state (sf_state_machine s') = sm_state (sf_state_machine s) \<and> ma_enabled_toggle (sf_mads s') = ma_enabled_toggle (sf_mads s)"

lemma sd_good_upd [simp]:
  "sd_good cf (s\<lparr>sf_enabled_prev := b\<rparr>) = sd_good cf s"
  "sd_good cf (s\<lparr>sf_enabled := b\<rparr>) = sd_good cf s"
  "sd_good cf (s\<lparr>sf_active := b\<rparr>) = sd_good cf s"
  "sd_good cf (s\<lparr>sf_initialized := b\<rparr>) = sd_good cf s"
  "sd_good cf (s\<lparr>sf_CS_prev := c\<rparr>) = sd_good cf s"
  "sd_good cf (s\<lparr>sf_state_machine := m\<rparr>) = sd_good cf s"
  "sd_good cf (s\<lparr>sf_mads := o1\<rparr>) = sd_good cf s"
  "sd_good cf (s\<lparr>sv_sm := sm\<rparr>) = sd_good cf s"
  "sd_good cf (s\<lparr>sv_AM := am\<rparr>) = sd_good cf s"
  "sd_good cf (s\<lparr>sv_mismatch_counter := n\<rparr>) = sd_good cf s"
  "sd_good cf (s\<lparr>sv_events_prev := l\<rparr>) = sd_good cf s"
  "sd_good cf (s\<lparr>sv_events_sp_prev := l\<rparr>) = sd_good cf s"
  by (simp_all add: sd_good_def sf_wf_def lists_known_def)

lemma sd_good_state_update [simp]: "sd_good cf (mads_state_update env s) = sd_good cf s"
  by (simp add: mads_state_update_def Let_def split_def)

lemma mads_part:
  assumes good: "sd_good cf s"
  shows "\<exists>s'. mads_update (cf_env cf) CS s = Inr s' \<and> sd_good cf s' \<and> mads_frame s s' \<and> (mads_flags_ok s \<longrightarrow> mads_flags_ok s')"
proof (cases "ma_enabled_toggle (sf_mads s)")
  case True
  have "sd_inv cf {} {} s s" using good by (simp add: sd_inv_def)
  from keepsD [OF keeps_mads_update_events this] obtain t where
    t: "mads_update_events (cf_env cf) CS s = Inr t" "sd_inv cf {} {} s t" by blast
  let ?u = "(if \<not> cp_passive (sf_CP t) \<and> sf_initialized t then mads_state_update (cf_env cf) t else t)\<lparr>sf_enabled_prev := sf_enabled t\<rparr>"
  have m: "mads_update (cf_env cf) CS s = Inr ?u" by (rule mads_update_eq [OF True t(1)])
  have "sd_good cf ?u" using t(2) by (simp add: sd_inv_def)
  moreover have "mads_frame s ?u"
    using t(2) by (auto simp: mads_frame_def sd_inv_def sd_frame_def mads_state_update_def Let_def split_def mads_frame)
  moreover have "mads_flags_ok ?u" if "mads_flags_ok s"
    using that t(2) mads_flags_ok_update [of "cf_env cf" t] by (auto simp: mads_flags_ok_def sd_inv_def sd_frame_def)
  ultimately show ?thesis using m by blast
next
  case False
  with good show ?thesis by (simp add: mads_update_def when_do_def mads_frame_def)
qed

section \<open>The subscriber in the cycle\<close>

definition health_ok :: "real \<Rightarrow> unit sub_master \<Rightarrow> bool" where
  "health_ok t h \<longleftrightarrow> (\<forall>s. ft_ok (sm_tracker h s) \<and> ft_prev_time (sm_tracker h s) \<le> t)"

lemma sm_update_total:
  assumes "health_ok t h" "t < now" "distinct (msg_services ms)"
  shows "\<exists>h'. sm_update_msgs now h ms = Inr h' \<and> health_ok now h' \<and> (\<forall>s. sm_updated h' s = (s \<in> set (msg_services ms)))"
proof -
  let ?h = "h\<lparr>sm_frame := sm_frame h + 1, sm_updated := (\<lambda>_. False)\<rparr>"
  have "\<forall>s. ft_ok (sm_tracker ?h s)" "\<forall>s\<in>set (msg_services ms). ft_prev_time (sm_tracker ?h s) < now"
    using assms(1,2) by (auto simp: health_ok_def intro: le_less_trans)
  from sm_receive_all_spec [OF this assms(3)] obtain h1 where
    r: "sm_receive_all now ?h ms = Inr h1" "\<forall>s. ft_ok (sm_tracker h1 s)"
      "\<forall>s. ft_prev_time (sm_tracker h1 s) = (if s \<in> set (msg_services ms) then now else ft_prev_time (sm_tracker h s))"
      "\<forall>s. sm_updated h1 s = (s \<in> set (msg_services ms))" by auto
  from sm_refresh_all_spec [OF r(2), of now "static_freq_services h1"] obtain h2 where
    f: "sm_refresh_all now h1 (static_freq_services h1) = Inr h2" "sm_tracker h2 = sm_tracker h1"
      "sm_updated h2 = sm_updated h1" by blast
  have "sm_update_msgs now h ms = Inr h2" using r(1) f(1) by (simp add: sm_update_msgs_def)
  moreover have "health_ok now h2" using r f assms(1,2) by (auto simp: health_ok_def intro: order_trans less_imp_le)
  ultimately show ?thesis using r(4) f(3) by auto
qed

text \<open>
  What a cycle takes for granted of its inputs: one message per service, events of the tables and
  none of the driver monitoring's that engages, three angles of calibration, and, while a lateral
  controller is active, a lateral acceleration that is not -0.001 m/s^2. For that one value
  \<open>update_events\<close> divides by zero, see \<open>saturation_raises\<close>.
\<close>

definition inputs_ok :: "sd_config \<Rightarrow> sd_inputs \<Rightarrow> 'a selfdrived_scheme \<Rightarrow> bool" where
  "inputs_ok cf i s \<longleftrightarrow> distinct (msg_services (si_received i))
     \<and> (\<forall>e\<in>set (dm_events (si_data i)). known_event e \<and> e \<noteq> ev_pcmEnable \<and> e \<noteq> ev_buttonEnable)
     \<and> (\<forall>e\<in>set (lpsp_events (si_data i)). known_sp e)
     \<and> (''liveCalibration'' \<in> set (msg_services (si_received i)) \<longrightarrow> length (lc_rpyCalib (si_data i)) = 3)
     \<and> (co_lac_active (si_data i) \<longrightarrow>
          co_curvature (si_data i) * (max (cs_vEgo (sampled_car_state i s)) (3/10))^2 \<noteq> - (1/1000))"

text \<open>The state of the object between two cycles.\<close>

definition sd_ok :: "sd_config \<Rightarrow> real \<Rightarrow> 'a selfdrived_scheme \<Rightarrow> bool" where
  "sd_ok cf t s \<longleftrightarrow> sd_good cf s \<and> mads_flags_ok s \<and> health_ok t (sd_health (sv_sm s)) \<and> offroad_table_ok cf"

text \<open>What \<open>data_sample\<close> does, but for the replay of a recording.\<close>

definition sampled :: "sd_inputs \<Rightarrow> 'a selfdrived_scheme \<Rightarrow> 'a selfdrived_scheme \<Rightarrow> bool" where
  "sampled i s s' \<longleftrightarrow> sd_msg (sv_sm s') = si_data i
     \<and> sv_mismatch_counter s' = (if sf_enabled s then sv_mismatch_counter s + (if controls_disallowed (si_data i) then 1 else 0) else 0)
     \<and> sf_enabled s' = sf_enabled s \<and> sf_active s' = sf_active s \<and> sf_CP s' = sf_CP s \<and> sf_mads s' = sf_mads s
     \<and> sf_CS_prev s' = sf_CS_prev s \<and> sf_events s' = sf_events s \<and> sf_events_sp s' = sf_events_sp s
     \<and> sv_disengage_on_accelerator s' = sv_disengage_on_accelerator s \<and> (sf_initialized s \<longrightarrow> sf_initialized s')"

lemma ignore_service_simps [simp]:
  "health_ok t (sd_health (sv_sm (ignore_service k s))) = health_ok t (sd_health (sv_sm s))"
  "sm_updated (sd_health (sv_sm (ignore_service k s))) = sm_updated (sd_health (sv_sm s))"
  "sd_msg (sv_sm (ignore_service k s)) = sd_msg (sv_sm s)"
  "sd_good cf (ignore_service k s) = sd_good cf s"
  by (simp_all add: ignore_service_def Let_def health_ok_def)

text \<open>Sampled after the subscriber has been updated, before the counter is.\<close>

definition received :: "real \<Rightarrow> sd_inputs \<Rightarrow> 'a selfdrived_scheme \<Rightarrow> 'a selfdrived_scheme \<Rightarrow> bool" where
  "received now i s s' \<longleftrightarrow> sd_msg (sv_sm s') = si_data i \<and> health_ok now (sd_health (sv_sm s'))
     \<and> sm_updated (sd_health (sv_sm s')) = (\<lambda>x. x \<in> set (msg_services (si_received i)))
     \<and> sf_enabled s' = sf_enabled s \<and> sf_active s' = sf_active s \<and> sf_CP s' = sf_CP s \<and> sf_mads s' = sf_mads s
     \<and> sf_CS_prev s' = sf_CS_prev s \<and> sf_events s' = sf_events s \<and> sf_events_sp s' = sf_events_sp s
     \<and> sv_disengage_on_accelerator s' = sv_disengage_on_accelerator s \<and> (sf_initialized s \<longrightarrow> sf_initialized s')
     \<and> sv_mismatch_counter s' = sv_mismatch_counter s"

lemma keeps_initialize:
  "keeps (\<lambda>s'. sd_good cf s' \<and> received now i s s' \<and> (\<not> env_REPLAY (cf_env cf) \<longrightarrow> sf_state_machine s' = sf_state_machine s))
     (initialize_statement cf i CS)"
  unfolding initialize_statement_def
proof (rule keeps_when, intro keeps_Cons keeps_Nil_block)
  let ?P = "\<lambda>s'. sd_good cf s' \<and> received now i s s' \<and> (\<not> env_REPLAY (cf_env cf) \<longrightarrow> sf_state_machine s' = sf_state_machine s)"
  have ign: "?P (ignore_service k s')" if "?P s'" for k s'
  proof -
    have "received now i s (ignore_service k s')" using that
      unfolding received_def ignore_service_simps by (simp add: ignore_service_def Let_def)
    with that show ?thesis by (simp add: ignore_service_def Let_def)
  qed
  show "keeps ?P (when_do (\<lambda>s. \<not> si_road_stream i) (pure_do (ignore_service ''roadCameraState'')))"
    by (intro keeps_when keeps_pure ign)
  show "keeps ?P (when_do (\<lambda>s. \<not> si_wide_stream i) (pure_do (ignore_service ''wideRoadCameraState'')))"
    by (intro keeps_when keeps_pure ign)
  show "keeps ?P (when_do (\<lambda>s. env_REPLAY (cf_env cf) \<and> list_ex pa_controlsAllowed (pa_states (sv_msg s)))
         (pure_do (\<lambda>s. s\<lparr>sf_state_machine := (sf_state_machine s)\<lparr>sm_state := OP_enabled\<rparr>\<rparr>)))"
    by (auto simp: keeps_def when_do_def pure_do_def received_def)
  show "keeps ?P (pure_do (\<lambda>s. s\<lparr>sf_initialized := True\<rparr>))"
    by (rule keeps_pure) (simp add: received_def)
qed

lemma data_sample_spec:
  assumes ok: "sd_ok cf t s" and now: "t < si_monotonic i" and inp: "inputs_ok cf i s"
  shows "\<exists>s'. data_sample cf i CS s = Inr s' \<and> sampled i s s' \<and> sd_good cf s' \<and> sd_msgs_ok (sv_sm s') (sampled_car_state i s)
    \<and> health_ok (si_monotonic i) (sd_health (sv_sm s')) \<and> (\<not> env_REPLAY (cf_env cf) \<longrightarrow> sf_state_machine s' = sf_state_machine s)"
proof -
  let ?P = "\<lambda>s'. sd_good cf s' \<and> received (si_monotonic i) i s s' \<and> (\<not> env_REPLAY (cf_env cf) \<longrightarrow> sf_state_machine s' = sf_state_machine s)"
  from sm_update_total [of t "sd_health (sv_sm s)" "si_monotonic i" "si_received i"] ok now inp obtain h where
    h: "sm_update_msgs (si_monotonic i) (sd_health (sv_sm s)) (si_received i) = Inr h" "health_ok (si_monotonic i) h"
      "sm_updated h = (\<lambda>x. x \<in> set (msg_services (si_received i)))" by (auto simp: sd_ok_def inputs_ok_def)
  let ?s1 = "s\<lparr>sv_sm := \<lparr>sd_health = h, sd_msg = si_data i\<rparr>\<rparr>"
  have s1: "sm_update_statement i s = Inr ?s1" using h by (simp add: sm_update_statement_def)
  have "?P ?s1" using ok h by (simp add: received_def sd_ok_def)
  from keepsD [OF keeps_initialize this] obtain s2 where
    s2: "initialize_statement cf i CS ?s1 = Inr s2" "?P s2" by blast
  let ?n = "if sf_enabled s2 then sv_mismatch_counter s2 + (if controls_disallowed (sv_msg s2) then 1 else 0) else 0"
  let ?s3 = "s2\<lparr>sv_mismatch_counter := ?n\<rparr>"
  have s3: "mismatch_statement s2 = Inr ?s3" by (simp add: mismatch_statement_def do_defs)
  have msgs: "sd_msgs_ok (sv_sm ?s3) (sampled_car_state i s)"
    using inp s2(2) by (simp add: sd_msgs_ok_def inputs_ok_def received_def)
  have "sampled i s ?s3" using s2(2) by (auto simp: sampled_def received_def)
  with s2(2) msgs s1 s2(1) s3 show ?thesis by (auto simp: data_sample_def received_def)
qed

section \<open>The rest of the cycle\<close>

lemma update_alerts_total:
  assumes good: "sd_good cf s" shows "\<exists>am. update_alerts cf CS s = Inr (s\<lparr>sv_AM := am\<rparr>)"
proof -
  have "sv_personality s \<in> {0, 1, 2}" using good by (auto simp: sd_good_def)
  then obtain pers where pers: "personality_name (sv_personality s) = Inr pers" by (auto simp: personality_name_def)
  let ?args = "sd_callback_args CS pers s" and ?types = "current_alert_types (sf_state_machine s)"
  have "\<forall>e\<in>set (ev_events (sf_events s)). EVENTS (cf_env cf) e \<noteq> None" "\<forall>e\<in>set (ev_events (sf_events_sp s)). EVENTS_SP (cf_env cf) e \<noteq> None"
    using good unfolding known_EVENTS known_EVENTS_SP sd_good_def lists_known_def known_event_def known_sp_def by blast+
  moreover have "ev_wf (EVENTS (cf_env cf)) (sf_events s)" "ev_wf (EVENTS_SP (cf_env cf)) (sf_events_sp s)"
    using good by (simp_all add: sd_good_def sf_wf_def)
  ultimately obtain a b where "create_alerts (EVENTS (cf_env cf)) EVENT_NAME ?types ?args (sf_events s) = Inr a"
    "create_alerts (EVENTS_SP (cf_env cf)) EVENT_NAME_SP ?types ?args (sf_events_sp s) = Inr b"
    using events_table.create_alerts_spec [of "cf_env cf" "sf_events s" ?types ?args]
      events_sp_table.create_alerts_spec [of "cf_env cf" "sf_events_sp s" ?types ?args] by blast
  with pers show ?thesis by (auto simp: update_alerts_def Let_def)
qed

text \<open>The state machine's step on the list that \<open>update_events\<close> has filled.\<close>

definition next_machine :: "sd_config \<Rightarrow> 'a selfdrived_scheme \<Rightarrow> state_machine" where
  "next_machine cf s = fst (sm_update (\<lambda>t. ev_contains (EVENTS (cf_env cf)) t (sf_events s)) (sf_state_machine s))"

definition machine_on :: "'a selfdrived_scheme \<Rightarrow> bool" where
  "machine_on s \<longleftrightarrow> \<not> cp_passive (sf_CP s) \<and> sf_initialized s"

lemma machine_statement:
  "state_machine_statement cf s = Inr (if machine_on s
     then s\<lparr>sf_state_machine := next_machine cf s, sf_enabled := is_enabled (sm_state (next_machine cf s)),
            sf_active := is_active (sm_state (next_machine cf s))\<rparr> else s)"
  by (simp add: state_machine_statement_def do_defs machine_on_def next_machine_def Let_def split_def sm_update_flags)

text \<open>The driver brakes while MADS steers in the disengage mode.\<close>

definition mads_brake :: "car_state \<Rightarrow> 'a selfdrived_scheme \<Rightarrow> bool" where
  "mads_brake CS s \<longleftrightarrow> \<not> cp_notCar (sf_CP s) \<and> machine_on s \<and> mads_flags_ok s \<and> ma_active (sf_mads s)
     \<and> ma_enabled_toggle (sf_mads s) \<and> ma_steering_mode_on_brake (sf_mads s) = DISENGAGE
     \<and> pedal_pressed_non_gas_pressed CS s"

definition finished :: "sd_config \<Rightarrow> car_state \<Rightarrow> 'a selfdrived_scheme \<Rightarrow> 'a selfdrived_scheme \<Rightarrow> bool" where
  "finished cf CS s s' \<longleftrightarrow> (mads_brake CS s \<longrightarrow> \<not> ma_active (sf_mads s')) \<and> sd_good cf s' \<and> (mads_flags_ok s \<longrightarrow> mads_flags_ok s') \<and> sv_sm s' = sv_sm s
     \<and> sm_state (sf_state_machine s') = sm_state (if machine_on s then next_machine cf s else sf_state_machine s)
     \<and> sf_enabled s' = (if machine_on s then is_enabled (sm_state (next_machine cf s)) else sf_enabled s)
     \<and> sf_active s' = (if machine_on s then is_active (sm_state (next_machine cf s)) else sf_active s)"

lemma finish_cycle:
  assumes good: "sd_good cf s"
  shows "\<exists>s'. run_block [state_machine_statement cf, when_do (\<lambda>s. \<not> cp_notCar (sf_CP s)) (mads_update (cf_env cf) CS), update_alerts cf CS] s = Inr s'
    \<and> finished cf CS s s'"
proof -
  let ?s1 = "if machine_on s then s\<lparr>sf_state_machine := next_machine cf s, sf_enabled := is_enabled (sm_state (next_machine cf s)),
            sf_active := is_active (sm_state (next_machine cf s))\<rparr> else s"
  have g1: "sd_good cf ?s1" and m1: "mads_flags_ok ?s1 = mads_flags_ok s" using good by (simp_all add: mads_flags_ok_def)
  obtain s2 where s2: "when_do (\<lambda>s. \<not> cp_notCar (sf_CP s)) (mads_update (cf_env cf) CS) ?s1 = Inr s2" "sd_good cf s2"
    "mads_frame ?s1 s2" "mads_flags_ok ?s1 \<longrightarrow> mads_flags_ok s2" "mads_brake CS s \<longrightarrow> \<not> ma_active (sf_mads s2)"
  proof (cases "cp_notCar (sf_CP ?s1)")
    case True
    then show ?thesis using that [of ?s1] g1 by (simp add: when_do_def mads_frame_def mads_brake_def split: if_splits)
  next
    case False
    from mads_part [OF g1, of CS] obtain u where u: "mads_update (cf_env cf) CS ?s1 = Inr u" "sd_good cf u"
      "mads_frame ?s1 u" "mads_flags_ok ?s1 \<longrightarrow> mads_flags_ok u" by blast
    have "\<not> ma_active (sf_mads u)" if b: "mads_brake CS s"
    proof -
      have "sf_wf (cf_env cf) ?s1" using g1 unfolding sd_good_def by blast
      moreover have "mads_flags_ok ?s1" using b m1 by (simp add: mads_brake_def)
      ultimately have "\<exists>v. mads_update (cf_env cf) CS ?s1 = Inr v \<and> \<not> ma_active (sf_mads v)"
        using b by (intro mads_brake_step) (auto simp: mads_brake_def machine_on_def pedal_pressed_non_gas_pressed_def sf_has_def)
      with u(1) show ?thesis by simp
    qed
    with False u that show ?thesis by (simp add: when_do_def)
  qed
  from update_alerts_total [OF s2(2)] obtain am where am: "update_alerts cf CS s2 = Inr (s2\<lparr>sv_AM := am\<rparr>)" by blast
  have "finished cf CS s (s2\<lparr>sv_AM := am\<rparr>)"
    using s2 m1 by (simp add: finished_def mads_frame_def mads_flags_ok_def)
  with s2(1) am show ?thesis by (simp add: machine_statement)
qed

text \<open>The publication and the last assignment.\<close>

lemma step_eq:
  assumes "sd_compute cf i s = Inr s1"
  shows "sd_step cf i s = Inr (fst (publish_selfdriveState cf s1),
    s1\<lparr>sv_events_prev := ev_events (sf_events s1), sv_events_sp_prev := ev_events (sf_events_sp s1),
       sf_CS_prev := sampled_car_state i s\<rparr>)"
  using assms by (simp add: sd_step_def publish_selfdriveState_def Let_def)

definition stepped :: "sd_config \<Rightarrow> sd_inputs \<Rightarrow> 'a selfdrived_scheme \<Rightarrow> 'a selfdrived_scheme \<Rightarrow> 'a selfdrived_scheme \<Rightarrow> published \<Rightarrow> 'a selfdrived_scheme \<Rightarrow> bool" where
  "stepped cf i s s1 s2 p s' \<longleftrightarrow> sd_step cf i s = Inr (p, s') \<and> sd_ok cf (si_monotonic i) s' \<and> sampled i s s1
     \<and> (\<not> env_REPLAY (cf_env cf) \<longrightarrow> sf_state_machine s1 = sf_state_machine s)
     \<and> machine_on s2 = machine_on s1 \<and> sf_state_machine s2 = sf_state_machine s1 \<and> sf_enabled s2 = sf_enabled s
     \<and> sm_state (sf_state_machine s') = sm_state (if machine_on s2 then next_machine cf s2 else sf_state_machine s2)
     \<and> sf_enabled s' = (if machine_on s2 then is_enabled (sm_state (next_machine cf s2)) else sf_enabled s)
     \<and> sf_active s' = (if machine_on s2 then is_active (sm_state (next_machine cf s2)) else sf_active s)
     \<and> ss_enabled (pm_selfdriveState p) = sf_enabled s' \<and> ss_active (pm_selfdriveState p) = sf_active s'
     \<and> ss_mads_active (pm_selfdriveState p) = ma_active (sf_mads s')
     \<and> (mads_brake (sampled_car_state i s) s2 \<longrightarrow> \<not> ma_active (sf_mads s'))
     \<and> sf_CS_prev s' = sampled_car_state i s"

lemma step_from:
  assumes ok: "sd_ok cf t s" and ds: "data_sample cf i (sampled_car_state i s) s = Inr s1" "sampled i s s1"
      "\<not> env_REPLAY (cf_env cf) \<longrightarrow> sf_state_machine s1 = sf_state_machine s" "health_ok (si_monotonic i) (sd_health (sv_sm s1))"
    and up: "sd_update_events cf (si_lagging i) (sampled_car_state i s) s1 = Inr s2" "sd_inv cf K N s1 s2"
  shows "\<exists>p s'. stepped cf i s s1 s2 p s'"
proof -
  let ?CS = "sampled_car_state i s"
  have good: "sd_good cf s2" using up(2) by (simp add: sd_inv_def)
  from finish_cycle [OF good, of ?CS] obtain s5 where
    s5: "run_block [state_machine_statement cf, when_do (\<lambda>s. \<not> cp_notCar (sf_CP s)) (mads_update (cf_env cf) ?CS), update_alerts cf ?CS] s2 = Inr s5"
      "finished cf ?CS s2 s5" by blast
  have "sd_compute cf i s = Inr s5" using ds(1) up(1) s5(1) by (simp add: sd_compute_def Let_def)
  note st = step_eq [OF this]
  let ?s' = "s5\<lparr>sv_events_prev := ev_events (sf_events s5), sv_events_sp_prev := ev_events (sf_events_sp s5), sf_CS_prev := ?CS\<rparr>"
  have frame: "sf_mads s2 = sf_mads s" "sv_sm s2 = sv_sm s1" "sf_enabled s2 = sf_enabled s" "sf_active s2 = sf_active s"
    "machine_on s2 = machine_on s1" "sf_state_machine s2 = sf_state_machine s1"
    using up(2) ds(2) by (simp_all add: sd_inv_def sd_frame_def sampled_def machine_on_def)
  have "sd_ok cf (si_monotonic i) ?s'"
    using s5(2) ok ds(4) frame by (simp add: sd_ok_def finished_def mads_flags_ok_def)
  with st s5(2) ds frame have "stepped cf i s s1 s2 (fst (publish_selfdriveState cf s5)) ?s'"
    by (simp add: stepped_def finished_def publish_selfdriveState_def selfdrive_state_of_def Let_def)
  then show ?thesis by blast
qed

section \<open>What the list decides\<close>

lemma stop_event_ids:
  "list_all (\<lambda>e. e \<in> set (ids_with ev_types NO_ENTRY)
      \<and> (e \<in> set (ids_with ev_types USER_DISABLE) \<or> e \<in> set (ids_with ev_types IMMEDIATE_DISABLE)))
    [ev_pedalPressed, ev_controlsMismatch, ev_relayMalfunction, ev_canError, ev_canBusMissing]"
  by code_simp

lemma stop_events_disable:
  assumes "e \<in> {ev_pedalPressed, ev_controlsMismatch, ev_relayMalfunction, ev_canError, ev_canBusMissing}"
    and "e \<in> set (ev_events v)"
  shows "(ev_contains (EVENTS env) USER_DISABLE v \<or> ev_contains (EVENTS env) IMMEDIATE_DISABLE v) \<and> ev_contains (EVENTS env) NO_ENTRY v"
proof -
  have "e \<in> set (ids_with ev_types NO_ENTRY)"
    "e \<in> set (ids_with ev_types USER_DISABLE) \<or> e \<in> set (ids_with ev_types IMMEDIATE_DISABLE)"
    using stop_event_ids assms(1) by (auto simp: list_all_iff)
  with assms(2) show ?thesis unfolding contains_EVENTS ev_has_def by blast
qed

lemma machine_disabled:
  assumes "c USER_DISABLE \<or> c IMMEDIATE_DISABLE" "c NO_ENTRY"
  shows "sm_state (fst (sm_update c m)) = OP_disabled"
  using assms by (auto simp: sm_step_defs)

lemma no_enable_event:
  assumes "enable_events \<inter> set (ev_events v) = {}" shows "\<not> ev_contains (EVENTS env) ENABLE v"
  using assms by (auto simp: contains_types ev_has_def enable_events_def)

lemma machine_stays_disabled:
  assumes "\<not> c ENABLE" "sm_state m = OP_disabled" shows "sm_state (fst (sm_update c m)) = OP_disabled"
  using assms by (auto simp: sm_step_defs)

lemma cycle_ok_sampled:
  assumes "sd_ok cf t s" "sd_msgs_ok (sv_sm s1) CS" "sampled i s s1" "N \<subseteq> enable_events"
    "N = {} \<or> \<not> cs_canValid CS \<or> \<not> engage_request CS (sf_CS_prev s) \<and> \<not> cp_notCar (sf_CP s)"
  shows "cycle_ok cf CS N s1"
  using assms by (simp add: cycle_ok_def sd_ok_def sampled_def)

lemma step_spec:
  assumes ok: "sd_ok cf t s" "t < si_monotonic i" "inputs_ok cf i s"
  shows "\<exists>s1 s2 p s'. stepped cf i s s1 s2 p s' \<and> sd_inv cf {} {} s1 s2"
proof -
  from data_sample_spec [OF ok] obtain s1 where s1: "data_sample cf i (sampled_car_state i s) s = Inr s1"
    "sampled i s s1" "sd_good cf s1" "sd_msgs_ok (sv_sm s1) (sampled_car_state i s)"
    "health_ok (si_monotonic i) (sd_health (sv_sm s1))" "\<not> env_REPLAY (cf_env cf) \<longrightarrow> sf_state_machine s1 = sf_state_machine s" by blast
  have "cycle_ok cf (sampled_car_state i s) {} s1" by (rule cycle_ok_sampled [OF ok(1) s1(4,2)]) simp_all
  from update_events_inv [OF s1(3) this] obtain s2 where
    "sd_update_events cf (si_lagging i) (sampled_car_state i s) s1 = Inr s2" "sd_inv cf {} {} s1 s2" by auto
  with step_from [OF ok(1) s1(1,2,6,5) this] show ?thesis by blast
qed

text \<open>A cause to stop before the sample is one after it, while openpilot is enabled.\<close>

lemma stop_cause_sampled:
  assumes "stop_cause (si_data i) CS s e" "sampled i s s1" "sf_enabled s"
  shows "stop_cause (sv_msg s1) CS s1 e"
proof -
  have eqs: "sv_msg s1 = si_data i" "pedal_event CS s1 = pedal_event CS s" "sf_mads s1 = sf_mads s"
    "sv_mismatch_counter s \<ge> 200 \<Longrightarrow> sv_mismatch_counter s1 \<ge> 200"
    using assms(2,3) by (simp_all add: sampled_def pedal_event_def)
  show ?thesis using assms(1) eqs(4) unfolding stop_cause_def eqs(1-3) by blast
qed

lemma step_trigger:
  assumes ok: "sd_ok cf t s" "t < si_monotonic i" "inputs_ok cf i s"
    and on: "sf_initialized s" "\<not> cp_passive (sf_CP s)"
    and cause: "\<And>s1. sampled i s s1 \<Longrightarrow> stop_cause (sv_msg s1) (sampled_car_state i s) s1 e"
  shows "\<exists>s1 s2 p s'. stepped cf i s s1 s2 p s' \<and> sd_inv cf {e} {} s1 s2 \<and> machine_on s2"
proof -
  from data_sample_spec [OF ok] obtain s1 where s1: "data_sample cf i (sampled_car_state i s) s = Inr s1"
    "sampled i s s1" "sd_good cf s1" "sd_msgs_ok (sv_sm s1) (sampled_car_state i s)"
    "health_ok (si_monotonic i) (sd_health (sv_sm s1))" "\<not> env_REPLAY (cf_env cf) \<longrightarrow> sf_state_machine s1 = sf_state_machine s" by blast
  have ck: "cycle_ok cf (sampled_car_state i s) {} s1" by (rule cycle_ok_sampled [OF ok(1) s1(4,2)]) simp_all
  have on1: "sf_initialized s1" "\<not> cp_passive (sf_CP s1)" using on s1(2) by (simp_all add: sampled_def)
  from update_events_trigger [OF s1(3) ck cause [OF s1(2)] on1] obtain s2 where
    s2: "sd_update_events cf (si_lagging i) (sampled_car_state i s) s1 = Inr s2" "sd_inv cf {e} {} s1 s2" by blast
  have "machine_on s2" using s2(2) on1 by (simp add: sd_inv_def sd_frame_def machine_on_def)
  with step_from [OF ok(1) s1(1,2,6,5) s2] s2(2) show ?thesis by blast
qed

section \<open>Runs\<close>

text \<open>
  A cycle of the control thread, or a round of the parameter thread that finds the store as
  \<open>p\<close>: other processes may have written to it.
\<close>

datatype sd_action = Cycle sd_inputs | Params_round params

fun sd_act :: "sd_config \<Rightarrow> sd_action \<Rightarrow> 'a selfdrived_scheme \<Rightarrow> 'a selfdrived_scheme result" where
  "sd_act cf (Cycle i) s = bind_result (sd_step cf i s) (\<lambda>r. Inr (snd r))"
| "sd_act cf (Params_round p) s = Inr (params_thread_round cf (s\<lparr>sv_params := p\<rparr>))"

fun sd_run :: "sd_config \<Rightarrow> sd_action list \<Rightarrow> 'a selfdrived_scheme \<Rightarrow> 'a selfdrived_scheme result" where
  "sd_run cf [] s = Inr s"
| "sd_run cf (a # as) s = bind_result (sd_act cf a s) (sd_run cf as)"

fun action_ok :: "sd_config \<Rightarrow> real \<Rightarrow> 'a selfdrived_scheme \<Rightarrow> sd_action \<Rightarrow> bool" where
  "action_ok cf t s (Cycle i) \<longleftrightarrow> t < si_monotonic i \<and> inputs_ok cf i s"
| "action_ok cf t s (Params_round p) \<longleftrightarrow>
     0 \<le> get_int (cf_param_default cf) p ''LongitudinalPersonality'' \<and> get_int (cf_param_default cf) p ''LongitudinalPersonality'' \<le> 2"

fun action_time :: "real \<Rightarrow> sd_action \<Rightarrow> real" where
  "action_time t (Cycle i) = si_monotonic i"
| "action_time t (Params_round p) = t"

fun actions_ok :: "sd_config \<Rightarrow> real \<Rightarrow> 'a selfdrived_scheme \<Rightarrow> sd_action list \<Rightarrow> bool" where
  "actions_ok cf t s [] \<longleftrightarrow> True"
| "actions_ok cf t s (a # as) \<longleftrightarrow> action_ok cf t s a
     \<and> (case sd_act cf a s of Inl e \<Rightarrow> True | Inr s' \<Rightarrow> actions_ok cf (action_time t a) s' as)"

lemma act_ok:
  assumes ok: "sd_ok cf t s" and a: "action_ok cf t s a"
  shows "\<exists>s'. sd_act cf a s = Inr s' \<and> sd_ok cf (action_time t a) s'"
proof (cases a)
  case (Cycle i)
  with a have "t < si_monotonic i" "inputs_ok cf i s" by simp_all
  from step_spec [OF ok this] Cycle show ?thesis by (auto simp: stepped_def)
next
  case (Params_round p)
  have "mads_flags_ok (params_thread_round cf (s\<lparr>sv_params := p\<rparr>)) = mads_flags_ok s"
    by (simp add: params_thread_round_def Let_def mads_flags_ok_def mads_read_params_def)
  with Params_round ok a show ?thesis
    by (simp add: sd_ok_def sd_good_def sf_wf_def lists_known_def params_thread_round_def Let_def)
qed

lemma run_ok: "sd_ok cf t s \<Longrightarrow> actions_ok cf t s as \<Longrightarrow> \<exists>s' t'. sd_run cf as s = Inr s' \<and> sd_ok cf t' s'"
proof (induction "as" arbitrary: s t)
  case (Cons a as)
  from Cons.prems act_ok obtain s1 where s1: "sd_act cf a s = Inr s1" "sd_ok cf (action_time t a) s1" by fastforce
  with Cons.prems Cons.IH [OF s1(2)] show ?case by simp
qed auto

text \<open>The constructor establishes the invariant.\<close>

lemma startup_event_known:
  "startup_event_of cf CP r c = Some e \<Longrightarrow> known_event e \<and> e \<noteq> ev_pcmEnable \<and> e \<noteq> ev_buttonEnable"
  by (auto simp: startup_event_of_def split: if_splits)

lemma init_ok:
  assumes tab: "offroad_table_ok cf" "cf_OFFROAD_ALERTS cf ''Offroad_CarUnrecognized'' \<noteq> None"
    and health: "health_ok t (sd_health sm)"
  shows "\<exists>s. SelfdriveD_init cf CP CP_SP sm CS p off r c = Inr s \<and> sd_ok cf t s
    \<and> \<not> sf_enabled s \<and> sm_state (sf_state_machine s) = OP_disabled \<and> ma_state (sf_mads s) = MADS_disabled"
proof -
  let ?get = "get_sanitize_int_param (cf_param_default cf) ''LongitudinalPersonality'' 0 2 (cleanup_params CP p)"
  obtain P pp where pp: "?get = (P, pp)" by (metis prod.collapse)
  have pers: "0 \<le> P" "P \<le> 2"
    using pp sanitize_bounds [of 0 2 "cf_param_default cf" "''LongitudinalPersonality''" "cleanup_params CP p"] by simp_all
  have off: "\<exists>o2. (if cp_brand CP = ''mock'' then set_offroad_alert (cf_OFFROAD_ALERTS cf) ''Offroad_CarUnrecognized'' True None off
      else Inr off) = Inr o2"
    using tab(2) by (auto simp: set_offroad_alert_def)
  let ?ev = "if cp_brand CP = ''mock'' then ev_add_static ev_carUnrecognized (Events_init (cf_env cf))
       else if cp_passive CP then ev_add_static ev_dashcamMode (Events_init (cf_env cf)) else Events_init (cf_env cf)"
  have ev: "ev_wf (EVENTS (cf_env cf)) ?ev"
    by (auto simp: Events_init_def)
  have known: "\<forall>e\<in>set (ev_events ?ev) \<union> set (ev_static_events ?ev). known_event e"
    and static: "ev_pcmEnable \<notin> set (ev_static_events ?ev)" "ev_buttonEnable \<notin> set (ev_static_events ?ev)"
    by (auto simp: Events_init_def ev_add_static_def events_init_def)
  have sp: "ev_wf (EVENTS_SP (cf_env cf)) (EventsSP_init (cf_env cf))" "ev_events (EventsSP_init (cf_env cf)) = []" "ev_static_events (EventsSP_init (cf_env cf)) = []"
    by (auto simp: EventsSP_init_def events_init_def intro: ev_wf_init [unfolded events_init_def])
  from off obtain o2 where o2: "(if cp_brand CP = ''mock'' then set_offroad_alert (cf_OFFROAD_ALERTS cf) ''Offroad_CarUnrecognized'' True None off
      else Inr off) = Inr o2" by blast
  show ?thesis
    unfolding SelfdriveD_init_def Let_def pp prod.case o2 bind_result_simps
    using pers ev known static sp health tab startup_event_known
    by (simp add: sd_ok_def sd_good_def sf_wf_def lists_known_def mads_flags_ok_def mads_init_def StateMachine_init_def)
qed

section \<open>A state to evaluate the cycle on\<close>

definition test_config :: sd_config where
  "test_config = \<lparr>cf_env = test_env, cf_SIMULATION = False, cf_TESTING_CLOSET = False,
     cf_gps_location_service = ''gpsLocation'', cf_odb = test_opendbc,
     cf_OFFROAD_ALERTS = (\<lambda>_. Some \<lparr>oa_text = ''text'', oa_severity = 1, oa_extra = ''''\<rparr>),
     cf_apply_hysteresis = (\<lambda>v s g. v), cf_param_default = (\<lambda>_. 0)\<rparr>"

definition test_sd_sm :: sd_sm where
  "test_sd_sm = \<lparr>sd_health = test_sub_master, sd_msg = default_sd_msgs\<rparr>"

definition test_params :: params where
  "test_params = [''Mads'' \<mapsto> PBool True, ''MadsSteeringMode'' \<mapsto> PInt 2]"

definition test_start :: "selfdrived result" where
  "test_start = SelfdriveD_init test_config default_cp default_cp_sp test_sd_sm default_cs test_params (\<lambda>_. None) True True"

text \<open>The object after its start, as a state that drives with openpilot and MADS engaged.\<close>

definition driving_state :: "bool \<Rightarrow> selfdrived" where
  "driving_state on = (case test_start of
      Inr s \<Rightarrow> s\<lparr>sf_initialized := True, sf_enabled := on, sf_active := on,
                 sf_state_machine := StateMachine_init\<lparr>sm_state := (if on then OP_enabled else OP_disabled)\<rparr>,
                 sf_mads := default_mads\<lparr>ma_state := MADS_enabled, ma_enabled := True, ma_active := True\<rparr>\<rparr>)"

definition test_inputs :: "car_state \<Rightarrow> sd_inputs" where
  "test_inputs CS = \<lparr>si_carState = Some CS, si_received = [Some test_message], si_data = default_sd_msgs,
     si_monotonic = 1, si_road_stream = True, si_wide_stream = True, si_lagging = False\<rparr>"

definition braking_cs :: car_state where
  "braking_cs = default_cs\<lparr>cs_canValid := True, cs_brakePressed := True\<rparr>"

lemma test_tables: "offroad_table_ok test_config" "cf_OFFROAD_ALERTS test_config k \<noteq> None" "\<not> env_REPLAY (cf_env test_config)"
  by (simp_all add: offroad_table_ok_def test_config_def test_env_def)

lemma test_personality: "get_int (cf_param_default test_config) test_params ''LongitudinalPersonality'' = 0"
  by (simp add: get_int_def test_config_def test_params_def)

lemma test_health: "health_ok 0 test_sub_master"
  by (simp add: health_ok_def test_sub_master_def sm_init_def Let_def ft_ok_init) (simp add: ft_init_def Let_def)

lemma test_started:
  "\<exists>s. test_start = Inr s \<and> sd_ok test_config 0 s \<and> \<not> sf_enabled s \<and> sm_state (sf_state_machine s) = OP_disabled
    \<and> sf_CP s = default_cp \<and> sf_CS_prev s = default_cs"
proof -
  from init_ok [OF test_tables(1,2), of 0 test_sd_sm default_cp default_cp_sp default_cs test_params "\<lambda>_. None" True True]
  obtain s where s: "test_start = Inr s" "sd_ok test_config 0 s" "\<not> sf_enabled s" "sm_state (sf_state_machine s) = OP_disabled"
    by (auto simp: test_start_def test_sd_sm_def test_health)
  moreover have "sf_CP s = default_cp \<and> sf_CS_prev s = default_cs"
    using s(1) by (auto simp: test_start_def SelfdriveD_init_def Let_def split_def bind_result_Inr_iff)
  ultimately show ?thesis by blast
qed

lemma driving_state_ok:
  "sd_ok test_config 0 (driving_state on)" "sf_initialized (driving_state on)" "sf_enabled (driving_state on) = on"
  "sf_CP (driving_state on) = default_cp" "sf_CS_prev (driving_state on) = default_cs"
  "sf_state_machine (driving_state on) = StateMachine_init\<lparr>sm_state := (if on then OP_enabled else OP_disabled)\<rparr>"
  "sf_mads (driving_state on) = default_mads\<lparr>ma_state := MADS_enabled, ma_enabled := True, ma_active := True\<rparr>"
proof -
  from test_started obtain s where s: "test_start = Inr s" "sd_ok test_config 0 s" "sf_CP s = default_cp" "sf_CS_prev s = default_cs" by blast
  have eq: "driving_state on = s\<lparr>sf_initialized := True, sf_enabled := on, sf_active := on,
                 sf_state_machine := StateMachine_init\<lparr>sm_state := (if on then OP_enabled else OP_disabled)\<rparr>,
                 sf_mads := default_mads\<lparr>ma_state := MADS_enabled, ma_enabled := True, ma_active := True\<rparr>\<rparr>"
    unfolding driving_state_def s(1) by simp
  show "sd_ok test_config 0 (driving_state on)" "sf_initialized (driving_state on)" "sf_enabled (driving_state on) = on"
    "sf_CP (driving_state on) = default_cp" "sf_CS_prev (driving_state on) = default_cs"
    "sf_state_machine (driving_state on) = StateMachine_init\<lparr>sm_state := (if on then OP_enabled else OP_disabled)\<rparr>"
    "sf_mads (driving_state on) = default_mads\<lparr>ma_state := MADS_enabled, ma_enabled := True, ma_active := True\<rparr>"
    unfolding eq using s(2-4) by (simp_all add: sd_ok_def mads_flags_ok_def)
qed

lemma test_inputs_ok: "0 < si_monotonic (test_inputs CS)" "inputs_ok cf (test_inputs CS) s"
  "sampled_car_state (test_inputs CS) s = CS"
  by (simp_all add: test_inputs_def inputs_ok_def sampled_car_state_def test_message_def default_sd_msgs_def)

section \<open>Properties\<close>

text \<open>
  C4. From its constructor on, selfdrived does not raise but for one division: any sequence of
  cycles and rounds of the parameter thread returns, as long as the clock advances, each service
  has one message, the messages carry events of the tables (the driver monitoring's none that
  engages) and a calibration has three angles, the stored personality is in range, and the lateral
  acceleration of an active controller, its curvature times the square of the speed or of 0.3 m/s,
  is not exactly -0.001 m/s^2: there the check of the steering saturation, line 417 of
  \<open>selfdrived.py\<close>, divides by zero (\<open>saturation_raises\<close>). The invariant, with the lists
  well-formed, the alerts' counters defined and MADS's flags those of its state, holds after it.
\<close>

theorem selfdrived_never_raises:
  assumes "offroad_table_ok cf" "cf_OFFROAD_ALERTS cf ''Offroad_CarUnrecognized'' \<noteq> None" "health_ok t (sd_health sm)"
  shows "\<exists>s0. SelfdriveD_init cf CP CP_SP sm CS p off r c = Inr s0
    \<and> (\<forall>as. actions_ok cf t s0 as \<longrightarrow> (\<exists>s t'. sd_run cf as s0 = Inr s \<and> sd_ok cf t' s))"
  using init_ok [OF assms] run_ok by meson

theorem selfdrived_never_raises_witness:
  "\<exists>s0. SelfdriveD_init test_config default_cp default_cp_sp test_sd_sm default_cs test_params (\<lambda>_. None) True True = Inr s0
    \<and> (\<exists>s t'. sd_run test_config [Params_round test_params, Cycle (test_inputs braking_cs)] s0 = Inr s \<and> sd_ok test_config t' s)"
proof -
  let ?as = "[Params_round test_params, Cycle (test_inputs braking_cs)]"
  have "health_ok 0 (sd_health test_sd_sm)" by (simp add: test_sd_sm_def test_health)
  from selfdrived_never_raises [OF test_tables(1,2) this, of default_cp default_cp_sp default_cs test_params "\<lambda>_. None" True True]
  obtain s0 where s0: "SelfdriveD_init test_config default_cp default_cp_sp test_sd_sm default_cs test_params (\<lambda>_. None) True True = Inr s0"
    "\<And>as. actions_ok test_config 0 s0 as \<Longrightarrow> \<exists>s t'. sd_run test_config as s0 = Inr s \<and> sd_ok test_config t' s" by blast
  have "actions_ok test_config 0 s0 ?as"
    by (simp add: test_inputs_ok test_personality split: sum.split)
  with s0 show ?thesis by blast
qed

text \<open>
  C2. Openpilot, once initialized and not a dashcam, stops in the cycle that sees the reason: on a
  valid bus, a brake or regenerative brake pressed anew or while the car moves, or the accelerator
  pressed anew when the setting DisengageOnAccelerator is on; a panda with invalid safety checks or
  200 cycles of refused controls; a relay malfunction; a bus error of the radar; an invalid bus
  that has not timed out; a bus that has timed out, except in park with MADS enabled, where the
  code mutes the event. The cycle publishes \<open>enabled\<close> and \<open>active\<close> as false.
\<close>

theorem stop_cause_disengages:
  assumes ok: "sd_ok cf t s" "t < si_monotonic i" "inputs_ok cf i s"
    and on: "sf_initialized s" "\<not> cp_passive (sf_CP s)" "sf_enabled s"
    and cause: "stop_cause (si_data i) (sampled_car_state i s) s e"
  shows "\<exists>p s'. sd_step cf i s = Inr (p, s') \<and> \<not> ss_enabled (pm_selfdriveState p) \<and> \<not> ss_active (pm_selfdriveState p)
    \<and> sm_state (sf_state_machine s') = OP_disabled"
proof -
  from step_trigger [OF ok on(1,2) stop_cause_sampled [OF cause _ on(3)]] obtain s1 s2 p s' where
    st: "stepped cf i s s1 s2 p s'" "sd_inv cf {e} {} s1 s2" "machine_on s2" by blast
  have e: "e \<in> {ev_pedalPressed, ev_controlsMismatch, ev_relayMalfunction, ev_canError, ev_canBusMissing}"
    using cause by (auto simp: stop_cause_def)
  have "e \<in> set (ev_events (sf_events s2))" using st(2) by (simp add: sd_inv_def)
  from stop_events_disable [OF e this] have "sm_state (next_machine cf s2) = OP_disabled"
    unfolding next_machine_def by (intro machine_disabled) blast+
  with st show ?thesis by (auto simp: stepped_def)
qed

theorem stop_cause_disengages_witness:
  "\<exists>p s'. sd_step test_config (test_inputs braking_cs) (driving_state True) = Inr (p, s')
    \<and> \<not> ss_enabled (pm_selfdriveState p) \<and> \<not> ss_active (pm_selfdriveState p) \<and> sm_state (sf_state_machine s') = OP_disabled"
proof (rule stop_cause_disengages [where e = ev_pedalPressed and t = 0])
  show "stop_cause (si_data (test_inputs braking_cs)) (sampled_car_state (test_inputs braking_cs) (driving_state True)) (driving_state True) ev_pedalPressed"
    by (simp add: stop_cause_def test_inputs_ok braking_cs_def pedal_event_def driving_state_ok default_cs_def)
qed (simp_all add: driving_state_ok test_inputs_ok default_cp_def)

text \<open>A brake that ends MADS in the disengage mode ends openpilot as well.\<close>

lemma brake_cycle:
  assumes ok: "sd_ok cf t s" "t < si_monotonic i" "inputs_ok cf i s" and CS: "CS = sampled_car_state i s"
    and on: "sf_initialized s" "\<not> cp_passive (sf_CP s)" "\<not> cp_notCar (sf_CP s)"
    and mads: "ma_active (sf_mads s)" "ma_enabled_toggle (sf_mads s)" "ma_steering_mode_on_brake (sf_mads s) = DISENGAGE"
    and brake: "cs_canValid CS" "cs_brakePressed CS" "\<not> cs_brakePressed (sf_CS_prev s) \<or> \<not> cs_standstill CS"
    and gas: "\<not> (cs_gasPressed CS \<and> \<not> cs_gasPressed (sf_CS_prev s) \<and> ma_disengage_on_accelerator (sf_mads s))"
  shows "\<exists>p s'. sd_step cf i s = Inr (p, s') \<and> \<not> ss_mads_active (pm_selfdriveState p)
    \<and> \<not> ss_enabled (pm_selfdriveState p) \<and> \<not> ss_active (pm_selfdriveState p)"
proof -
  have cause: "stop_cause (sv_msg s1) (sampled_car_state i s) s1 ev_pedalPressed" if "sampled i s s1" for s1
    using that brake by (auto simp: stop_cause_def CS [symmetric] sampled_def pedal_event_def)
  from step_trigger [OF ok on(1,2) cause] obtain s1 s2 p s' where
    st: "stepped cf i s s1 s2 p s'" "sd_inv cf {ev_pedalPressed} {} s1 s2" "machine_on s2" by blast
  have frame: "sf_mads s2 = sf_mads s" "sf_CS_prev s2 = sf_CS_prev s" "sf_CP s2 = sf_CP s"
    using st(1,2) by (simp_all add: stepped_def sampled_def sd_inv_def sd_frame_def)
  have "mads_flags_ok s2" using ok(1) frame by (simp add: sd_ok_def mads_flags_ok_def)
  moreover have "pedal_pressed_non_gas_pressed CS s2"
    using st(2) gas frame by (simp add: pedal_pressed_non_gas_pressed_def sf_has_def ev_has_def sd_inv_def)
  ultimately have "mads_brake CS s2" using mads on(3) st(3) frame by (simp add: mads_brake_def)
  with st(1) have mads: "\<not> ss_mads_active (pm_selfdriveState p)" by (simp add: stepped_def CS)
  have "ev_pedalPressed \<in> set (ev_events (sf_events s2))" using st(2) by (simp add: sd_inv_def)
  with stop_events_disable [of ev_pedalPressed] have "sm_state (next_machine cf s2) = OP_disabled"
    unfolding next_machine_def by (intro machine_disabled) blast+
  with st mads show ?thesis by (auto simp: stepped_def)
qed

text \<open>
  MADS in the whole cycle: with steering engaged on its own or with openpilot, a newly
  pressed brake (or a held one while the car moves) ends it in the same cycle when the mode on
  brake is to disengage, unless the accelerator has just been pressed as well and disengages.
\<close>

theorem brake_stops_steering:
  assumes ok: "sd_ok cf t s" "t < si_monotonic i" "inputs_ok cf i s" and CS: "CS = sampled_car_state i s"
    and on: "sf_initialized s" "\<not> cp_passive (sf_CP s)" "\<not> cp_notCar (sf_CP s)"
    and mads: "ma_active (sf_mads s)" "ma_enabled_toggle (sf_mads s)" "ma_steering_mode_on_brake (sf_mads s) = DISENGAGE"
    and brake: "cs_canValid CS" "cs_brakePressed CS" "\<not> cs_brakePressed (sf_CS_prev s) \<or> \<not> cs_standstill CS"
    and gas: "\<not> (cs_gasPressed CS \<and> \<not> cs_gasPressed (sf_CS_prev s) \<and> ma_disengage_on_accelerator (sf_mads s))"
  shows "\<exists>p s'. sd_step cf i s = Inr (p, s') \<and> \<not> ss_mads_active (pm_selfdriveState p)"
  using brake_cycle [OF assms] by blast

theorem brake_stops_steering_witness:
  "\<exists>p s'. sd_step test_config (test_inputs braking_cs) (driving_state False) = Inr (p, s') \<and> \<not> ss_mads_active (pm_selfdriveState p)"
  by (rule brake_stops_steering [where t = 0 and CS = braking_cs])
    (simp_all add: driving_state_ok test_inputs_ok default_cp_def braking_cs_def default_cs_def default_mads_def)

text \<open>
  C8. Openpilot does not engage by itself: without a press of the engage button and without
  cruise control having just been switched on, a cycle leaves a disabled openpilot disabled,
  whatever the messages, unless the car is a robot or a recording is replayed.
\<close>

theorem engages_only_on_request:
  assumes ok: "sd_ok cf t s" "t < si_monotonic i" "inputs_ok cf i s"
    and off: "sm_state (sf_state_machine s) = OP_disabled" "\<not> sf_enabled s" and real: "\<not> env_REPLAY (cf_env cf)" "\<not> cp_notCar (sf_CP s)"
    and none: "\<not> engage_request (sampled_car_state i s) (sf_CS_prev s)"
  shows "\<exists>p s'. sd_step cf i s = Inr (p, s') \<and> \<not> ss_enabled (pm_selfdriveState p) \<and> sm_state (sf_state_machine s') = OP_disabled"
proof -
  from data_sample_spec [OF ok] obtain s1 where s1: "data_sample cf i (sampled_car_state i s) s = Inr s1"
    "sampled i s s1" "sd_good cf s1" "sd_msgs_ok (sv_sm s1) (sampled_car_state i s)"
    "health_ok (si_monotonic i) (sd_health (sv_sm s1))" "\<not> env_REPLAY (cf_env cf) \<longrightarrow> sf_state_machine s1 = sf_state_machine s" by blast
  have ck: "cycle_ok cf (sampled_car_state i s) enable_events s1"
    by (rule cycle_ok_sampled [OF ok(1) s1(4,2)]) (use none real in simp_all)
  have "enable_events \<inter> set (ev_static_events (sf_events s1)) = {}"
    using s1(3) by (simp add: sd_good_def enable_events_def)
  from update_events_inv [OF s1(3) ck this] obtain s2 where
    s2: "sd_update_events cf (si_lagging i) (sampled_car_state i s) s1 = Inr s2" "sd_inv cf {} enable_events s1 s2" by blast
  from step_from [OF ok(1) s1(1,2,6,5) s2] obtain p s' where st: "stepped cf i s s1 s2 p s'" by blast
  have "sm_state (sf_state_machine s2) = OP_disabled" using st s1(6) real off by (simp add: stepped_def)
  with no_enable_event [of "sf_events s2"] s2(2) have "sm_state (next_machine cf s2) = OP_disabled"
    unfolding next_machine_def by (intro machine_stays_disabled) (auto simp: sd_inv_def)
  with st off s1(6) real show ?thesis by (auto simp: stepped_def)
qed

theorem engages_only_on_request_witness:
  "\<exists>p s'. sd_step test_config (test_inputs braking_cs) (driving_state False) = Inr (p, s')
    \<and> \<not> ss_enabled (pm_selfdriveState p) \<and> sm_state (sf_state_machine s') = OP_disabled"
  by (rule engages_only_on_request [where t = 0])
    (simp_all add: driving_state_ok test_inputs_ok test_tables default_cp_def braking_cs_def default_cs_def engage_request_def default_cruise_def)

text \<open>
  The parameter thread reads the personality without the clamp the constructor applies:
  a stored value outside 0 to 2 makes the next call of \<open>update_alerts\<close> raise \<open>KeyError\<close>.
\<close>

theorem unsanitized_personality_raises:
  assumes "get_int (cf_param_default cf) p ''LongitudinalPersonality'' \<notin> {0, 1, 2}"
  shows "update_alerts cf CS (params_thread_round cf (s\<lparr>sv_params := p\<rparr>))
    = Inl (KeyError (get_int (cf_param_default cf) p ''LongitudinalPersonality''))"
  using assms by (simp add: update_alerts_def params_thread_round_def Let_def personality_name_def)

theorem unsanitized_personality_raises_witness:
  "update_alerts test_config default_cs (params_thread_round test_config (driving_state True\<lparr>sv_params := [''LongitudinalPersonality'' \<mapsto> PInt 3]\<rparr>))
    = Inl (KeyError (get_int (cf_param_default test_config) [''LongitudinalPersonality'' \<mapsto> PInt 3] ''LongitudinalPersonality''))"
  by (rule unsanitized_personality_raises) (simp add: get_int_def)

end
