(* ===== verification/Filters.thy ===== *)
theory Filters
  imports Prelude
begin

text \<open>
  \<open>common/filter_simple.py\<close>, \<open>common/stat_live.py\<close> and \<open>common/pid.py\<close>: the low-pass filters,
  the running statistics and the PID controller that the control and monitoring code is built
  from. Filters are made with positive time constants or periods, so \<open>rc + dt\<close> is not zero.
\<close>

section \<open>Low-pass filters\<close>

record fof =
  ff_x :: real
  ff_dt :: real
  ff_alpha :: real
  ff_initialized :: bool

definition fof_update_alpha :: "real \<Rightarrow> fof \<Rightarrow> fof" where
  "fof_update_alpha rc f = f\<lparr>ff_alpha := ff_dt f / (rc + ff_dt f)\<rparr>"

definition fof_init :: "real \<Rightarrow> real \<Rightarrow> real \<Rightarrow> bool \<Rightarrow> fof" where
  "fof_init x0 rc dt initialized =
     fof_update_alpha rc \<lparr>ff_x = x0, ff_dt = dt, ff_alpha = 0, ff_initialized = initialized\<rparr>"

definition fof_update :: "real \<Rightarrow> fof \<Rightarrow> fof" where
  "fof_update x f = (if ff_initialized f then f\<lparr>ff_x := (1 - ff_alpha f) * ff_x f + ff_alpha f * x\<rparr>
                     else f\<lparr>ff_initialized := True, ff_x := x\<rparr>)"

text \<open>\<open>BounceFilter\<close>: a filter with a second one as its velocity.\<close>

record bounce_filter =
  bf_filter :: fof
  bf_velocity :: fof
  bf_bounce :: real

definition bounce_init :: "real \<Rightarrow> real \<Rightarrow> real \<Rightarrow> bool \<Rightarrow> real \<Rightarrow> bounce_filter" where
  "bounce_init x0 rc dt initialized bounce = \<lparr>bf_filter = fof_init x0 rc dt initialized,
     bf_velocity = fof_init 0 (15/100) dt True, bf_bounce = bounce\<rparr>"

definition bounce_update :: "real \<Rightarrow> bounce_filter \<Rightarrow> bounce_filter" where
  "bounce_update x b =
     (let f = fof_update x (bf_filter b);
          scale = ff_dt f / (1 / 60);
          v1 = (bf_velocity b)\<lparr>ff_x := ff_x (bf_velocity b) + (x - ff_x f) * bf_bounce b * scale * ff_dt f\<rparr>;
          v2 = fof_update 0 v1;
          v3 = (if \<bar>ff_x v2\<bar> < 1 / 100000 then v2\<lparr>ff_x := 0\<rparr> else v2)
      in b\<lparr>bf_filter := f\<lparr>ff_x := ff_x f + ff_x v3\<rparr>, bf_velocity := v3\<rparr>)"

section \<open>Running statistics\<close>

record running_stat =
  rs_max_trackable :: int
  rs_M :: real
  rs_S :: real
  rs_n :: int
  rs_M_last :: real
  rs_S_last :: real

definition rs_reset :: "running_stat \<Rightarrow> running_stat" where
  "rs_reset r = r\<lparr>rs_M := 0, rs_S := 0, rs_M_last := 0, rs_S_last := 0, rs_n := 0\<rparr>"

definition rs_init :: "(real \<times> real \<times> int) option \<Rightarrow> int \<Rightarrow> running_stat" where
  "rs_init priors max_trackable = (case priors of
       Some (M, S, n) \<Rightarrow> \<lparr>rs_max_trackable = max_trackable, rs_M = M, rs_S = S, rs_n = n, rs_M_last = M, rs_S_last = S\<rparr>
     | None \<Rightarrow> rs_reset \<lparr>rs_max_trackable = max_trackable, rs_M = 0, rs_S = 0, rs_n = 0, rs_M_last = 0, rs_S_last = 0\<rparr>)"

definition rs_push_data :: "real \<Rightarrow> running_stat \<Rightarrow> running_stat" where
  "rs_push_data x r0 =
     (let r = (if rs_max_trackable r0 < 0 \<or> rs_n r0 < rs_max_trackable r0 then r0\<lparr>rs_n := rs_n r0 + 1\<rparr> else r0) in
      if rs_n r = 0 then r\<lparr>rs_M_last := x, rs_M := x, rs_S_last := 0\<rparr>
      else let M = rs_M_last r + (x - rs_M_last r) / of_int (rs_n r);
               S = rs_S_last r + (x - rs_M_last r) * (x - M)
           in r\<lparr>rs_M := M, rs_S := S, rs_M_last := M, rs_S_last := S\<rparr>)"

definition rs_mean :: "running_stat \<Rightarrow> real" where "rs_mean r = rs_M r"

definition rs_variance :: "running_stat \<Rightarrow> real" where
  "rs_variance r = (if rs_n r \<ge> 2 then rs_S r / (of_int (rs_n r) - 1) else 0)"

definition rs_std :: "running_stat \<Rightarrow> real" where "rs_std r = sqrt (rs_variance r)"

definition rs_params_to_save :: "running_stat \<Rightarrow> real \<times> real \<times> int" where
  "rs_params_to_save r = (rs_M r, rs_S r, rs_n r)"

record running_stat_filter =
  rf_raw :: running_stat
  rf_filtered :: running_stat

definition rf_init :: "(real \<times> real \<times> int) option \<Rightarrow> (real \<times> real \<times> int) option \<Rightarrow> int \<Rightarrow> running_stat_filter" where
  "rf_init raw_priors filtered_priors max_trackable =
     \<lparr>rf_raw = rs_init raw_priors (-1), rf_filtered = rs_init filtered_priors max_trackable\<rparr>"

definition rf_reset :: "running_stat_filter \<Rightarrow> running_stat_filter" where
  "rf_reset f = \<lparr>rf_raw = rs_reset (rf_raw f), rf_filtered = rs_reset (rf_filtered f)\<rparr>"

text \<open>Data that raise the deviation of the raw statistics are not tracked.\<close>

definition rf_push :: "real \<Rightarrow> running_stat_filter \<Rightarrow> running_stat_filter" where
  "rf_push x f = (let raw = rs_push_data x (rf_raw f) in
     if rs_std raw - rs_std (rf_raw f) \<le> 0 then f\<lparr>rf_raw := raw, rf_filtered := rs_push_data x (rf_filtered f)\<rparr>
     else f\<lparr>rf_raw := raw\<rparr>)"

section \<open>The PID controller\<close>

text \<open>A gain is a table over the speed; a number stands for the table with one breakpoint at 0.\<close>

record pid =
  pid_kp :: "(real \<times> real) list"
  pid_ki :: "(real \<times> real) list"
  pid_kd :: "(real \<times> real) list"
  pid_pos_limit :: real
  pid_neg_limit :: real
  pid_i_dt :: real
  pid_speed :: real
  pid_p :: real
  pid_i :: real
  pid_d :: real
  pid_f :: real
  pid_control :: real

definition const_gain :: "real \<Rightarrow> (real \<times> real) list" where
  "const_gain k = [(0, k)]"

definition k_p :: "pid \<Rightarrow> real" where "k_p c = interp (pid_speed c) (pid_kp c)"
definition k_i :: "pid \<Rightarrow> real" where "k_i c = interp (pid_speed c) (pid_ki c)"
definition k_d :: "pid \<Rightarrow> real" where "k_d c = interp (pid_speed c) (pid_kd c)"

definition pid_reset :: "pid \<Rightarrow> pid" where
  "pid_reset c = c\<lparr>pid_p := 0, pid_i := 0, pid_d := 0, pid_f := 0, pid_control := 0\<rparr>"

definition set_limits :: "real \<Rightarrow> real \<Rightarrow> pid \<Rightarrow> pid" where
  "set_limits pos neg c = c\<lparr>pid_pos_limit := pos, pid_neg_limit := neg\<rparr>"

definition pid_init :: "(real \<times> real) list \<Rightarrow> (real \<times> real) list \<Rightarrow> (real \<times> real) list \<Rightarrow> real \<Rightarrow> real \<Rightarrow> real \<Rightarrow> pid" where
  "pid_init kp ki kd pos neg rate = pid_reset
     \<lparr>pid_kp = kp, pid_ki = ki, pid_kd = kd, pid_pos_limit = pos, pid_neg_limit = neg, pid_i_dt = 1 / rate,
      pid_speed = 0, pid_p = 0, pid_i = 0, pid_d = 0, pid_f = 0, pid_control = 0\<rparr>"

text \<open>What one update is given.\<close>

record pid_in =
  pi_error :: real
  pi_error_rate :: real
  pi_speed :: real
  pi_feedforward :: real
  pi_freeze :: bool

definition pid_terms :: "pid_in \<Rightarrow> pid \<Rightarrow> pid" where
  "pid_terms a c0 = (let c = c0\<lparr>pid_speed := pi_speed a\<rparr> in
     c\<lparr>pid_p := k_p c * pi_error a, pid_d := k_d c * pi_error_rate a, pid_f := pi_feedforward a\<rparr>)"

definition pid_integrate :: "pid_in \<Rightarrow> pid \<Rightarrow> pid" where
  "pid_integrate a c =
     (let i = pid_i c + k_i c * pid_i_dt c * pi_error a;
          test_control = pid_p c + i + pid_d c + pid_f c;
          upper = (if test_control > pid_pos_limit c then pid_i c else pid_pos_limit c);
          lower = (if test_control < pid_neg_limit c then pid_i c else pid_neg_limit c)
      in c\<lparr>pid_i := clip i lower upper\<rparr>)"

definition pid_update :: "pid_in \<Rightarrow> pid \<Rightarrow> pid" where
  "pid_update a c0 =
     (let c1 = pid_terms a c0;
          c = (if \<not> pi_freeze a then pid_integrate a c1 else c1)
      in c\<lparr>pid_control := clip (pid_p c + pid_i c + pid_d c + pid_f c) (pid_neg_limit c) (pid_pos_limit c)\<rparr>)"

definition pid_run :: "pid_in list \<Rightarrow> pid \<Rightarrow> pid" where
  "pid_run as c = foldl (\<lambda>c a. pid_update a c) c as"

section \<open>Facts\<close>

text \<open>A filter's value stays within any interval that holds its start and its inputs.\<close>

lemma fof_between:
  assumes "0 \<le> ff_alpha f" "ff_alpha f \<le> 1" "lo \<le> ff_x f" "ff_x f \<le> hi" "lo \<le> x" "x \<le> hi"
  shows "lo \<le> ff_x (fof_update x f)" "ff_x (fof_update x f) \<le> hi"
proof -
  have "(1 - ff_alpha f) * lo + ff_alpha f * lo = lo" "(1 - ff_alpha f) * hi + ff_alpha f * hi = hi" by (simp_all add: algebra_simps)
  moreover have "(1 - ff_alpha f) * lo \<le> (1 - ff_alpha f) * ff_x f" "ff_alpha f * lo \<le> ff_alpha f * x"
    "(1 - ff_alpha f) * ff_x f \<le> (1 - ff_alpha f) * hi" "ff_alpha f * x \<le> ff_alpha f * hi"
    using assms by (auto intro: mult_left_mono)
  ultimately show "lo \<le> ff_x (fof_update x f)" "ff_x (fof_update x f) \<le> hi"
    using assms by (auto simp: fof_update_def)
qed

lemma fof_simps [simp]:
  "ff_alpha (fof_update x f) = ff_alpha f" "ff_initialized (fof_update x f)" "ff_dt (fof_update x f) = ff_dt f"
  by (simp_all add: fof_update_def)

text \<open>The integral and the output of a PID controller stay within its limits.\<close>

definition pid_bounded :: "pid \<Rightarrow> bool" where
  "pid_bounded c \<longleftrightarrow> pid_neg_limit c \<le> pid_i c \<and> pid_i c \<le> pid_pos_limit c
     \<and> pid_neg_limit c \<le> pid_control c \<and> pid_control c \<le> pid_pos_limit c"

lemma pid_terms_simps [simp]:
  "pid_i (pid_terms a c) = pid_i c" "pid_pos_limit (pid_terms a c) = pid_pos_limit c" "pid_neg_limit (pid_terms a c) = pid_neg_limit c"
  by (simp_all add: pid_terms_def Let_def)

lemma pid_integrate_simps [simp]:
  "pid_pos_limit (pid_integrate a c) = pid_pos_limit c" "pid_neg_limit (pid_integrate a c) = pid_neg_limit c"
  by (simp_all add: pid_integrate_def Let_def)

lemma pid_integrate_bounded:
  "pid_neg_limit c \<le> pid_i c \<Longrightarrow> pid_i c \<le> pid_pos_limit c \<Longrightarrow>
    pid_neg_limit c \<le> pid_i (pid_integrate a c) \<and> pid_i (pid_integrate a c) \<le> pid_pos_limit c"
  by (auto simp: pid_integrate_def Let_def clip_def)

lemma pid_update_limits [simp]:
  "pid_pos_limit (pid_update a c) = pid_pos_limit c" "pid_neg_limit (pid_update a c) = pid_neg_limit c"
  by (simp_all add: pid_update_def Let_def)

lemma pid_update_bounded:
  assumes "pid_neg_limit c \<le> pid_i c" "pid_i c \<le> pid_pos_limit c" shows "pid_bounded (pid_update a c)"
  using assms pid_integrate_bounded [of "pid_terms a c" a] clip_bounds(1) [of "pid_neg_limit c" "pid_pos_limit c"] clip_bounds(2) [where hi = "pid_pos_limit c"]
  by (auto simp: pid_bounded_def pid_update_def Let_def)

lemma pid_run_bounded:
  "pid_bounded c \<Longrightarrow> pid_bounded (pid_run as c) \<and> pid_pos_limit (pid_run as c) = pid_pos_limit c
    \<and> pid_neg_limit (pid_run as c) = pid_neg_limit c"
proof (induction "as" arbitrary: c)
  case (Cons a as)
  then have "pid_bounded (pid_update a c)" by (intro pid_update_bounded) (auto simp: pid_bounded_def)
  from Cons.IH [OF this] show ?case by (simp add: pid_run_def)
qed (simp add: pid_run_def)

text \<open>
  Welford's recurrence: a statistic that forgets nothing holds the mean of its data and the sum
  of the squared deviations from it.
\<close>

definition rs_run :: "real list \<Rightarrow> running_stat \<Rightarrow> running_stat" where
  "rs_run xs r = foldl (\<lambda>r x. rs_push_data x r) r xs"

definition sq_dev :: "real list \<Rightarrow> real \<Rightarrow> real" where
  "sq_dev xs m = sum_list (map (\<lambda>x. (x - m)^2) xs)"

lemma sq_dev_shift: "sq_dev xs m = sum_list (map (\<lambda>x. x^2) xs) - 2 * m * sum_list xs + real (length xs) * m^2"
  by (induction xs) (simp_all add: sq_dev_def power2_eq_square algebra_simps)

lemma rs_run_welford:
  assumes "xs \<noteq> []"
  shows "\<exists>r. rs_run xs (rs_init None (-1)) = r \<and> rs_max_trackable r = -1 \<and> rs_n r = int (length xs)
    \<and> rs_M r = sum_list xs / real (length xs) \<and> rs_M_last r = rs_M r \<and> rs_S_last r = rs_S r
    \<and> rs_S r = sq_dev xs (sum_list xs / real (length xs))"
  using assms
proof (induction xs rule: rev_induct)
  case (snoc x xs)
  show ?case
  proof (cases "xs = []")
    case True
    then show ?thesis by (simp add: rs_run_def rs_init_def rs_reset_def rs_push_data_def sq_dev_def)
  next
    case False
    let ?n = "real (length xs)" and ?s = "sum_list xs"
    from snoc False obtain r where r: "rs_run xs (rs_init None (-1)) = r" "rs_max_trackable r = -1" "rs_n r = int (length xs)"
      "rs_M_last r = ?s / ?n" "rs_S_last r = sq_dev xs (?s / ?n)" by auto
    have n: "0 < ?n" using False by simp
    let ?M = "?s / ?n + (x - ?s / ?n) / (?n + 1)"
    have M: "?M = (?s + x) / (?n + 1)"
      using n by (simp add: divide_simps) (simp add: algebra_simps)
    have S: "sq_dev xs (?s / ?n) + (x - ?s / ?n) * (x - ?M) = sq_dev (xs @ [x]) ?M"
      unfolding M sq_dev_shift using n by (simp add: divide_simps power2_eq_square) (simp add: algebra_simps)
    have "rs_run (xs @ [x]) (rs_init None (-1)) = rs_push_data x r" using r(1) by (simp add: rs_run_def)
    with r n S M show ?thesis
      by (simp add: rs_push_data_def Let_def add.commute)
  qed
qed simp

section \<open>Properties\<close>

text \<open>
  Over any sequence of updates, with whatever errors, gains and feedforwards, the output of
  a PID controller and its integral stay within the limits once they are there; the limits do
  not change.
\<close>

theorem pid_stays_in_limits:
  assumes "pid_neg_limit c \<le> pid_i c" "pid_i c \<le> pid_pos_limit c" "as \<noteq> []"
  shows "pid_neg_limit c \<le> pid_control (pid_run as c) \<and> pid_control (pid_run as c) \<le> pid_pos_limit c
    \<and> pid_neg_limit c \<le> pid_i (pid_run as c) \<and> pid_i (pid_run as c) \<le> pid_pos_limit c"
proof -
  from assms(3) obtain b bs where bs: "as = b # bs" by (cases "as") auto
  from pid_run_bounded [OF pid_update_bounded [OF assms(1,2), of b], of bs] show ?thesis
    by (simp add: bs pid_run_def pid_bounded_def)
qed

theorem pid_stays_in_limits_witness:
  "let c = pid_init (const_gain 1) (const_gain (1/10)) (const_gain 0) 2 (-2) 100;
       r = pid_run [\<lparr>pi_error = 50, pi_error_rate = 0, pi_speed = 3, pi_feedforward = 0, pi_freeze = False\<rparr>] c
   in -2 \<le> pid_control r \<and> pid_control r \<le> 2 \<and> -2 \<le> pid_i r \<and> pid_i r \<le> 2"
  using pid_stays_in_limits [of "pid_init (const_gain 1) (const_gain (1/10)) (const_gain 0) 2 (-2) 100"
      "[\<lparr>pi_error = 50, pi_error_rate = 0, pi_speed = 3, pi_feedforward = 0, pi_freeze = False\<rparr>]"]
  by (simp add: pid_init_def pid_reset_def)

text \<open>
  The recurrence of the running statistics computes the textbook mean and variance: after
  the data \<open>xs\<close> the mean is their sum over their number, the variance the sum of the squared
  deviations over the number less one.
\<close>

theorem running_stat_exact:
  assumes "2 \<le> length xs"
  shows "rs_mean (rs_run xs (rs_init None (-1))) = sum_list xs / real (length xs)
    \<and> rs_variance (rs_run xs (rs_init None (-1))) = sq_dev xs (sum_list xs / real (length xs)) / (real (length xs) - 1)"
  using rs_run_welford [of xs] assms by (cases "xs = []") (auto simp: rs_mean_def rs_variance_def)

theorem running_stat_exact_witness:
  "rs_mean (rs_run [1, 2, 6] (rs_init None (-1))) = sum_list [1, 2, 6 :: real] / real (length [1, 2, 6 :: real])
    \<and> rs_variance (rs_run [1, 2, 6] (rs_init None (-1)))
      = sq_dev [1, 2, 6] (sum_list [1, 2, 6] / real (length [1, 2, 6 :: real])) / (real (length [1, 2, 6 :: real]) - 1)"
  by (rule running_stat_exact) simp

end
