(* ===== verification/Driver_Monitoring.thy ===== *)
theory Driver_Monitoring
  imports Filters Transformations Params Alert_Manager Events_Table
begin

text \<open>
  \<open>selfdrive/monitoring/helpers.py\<close> and the loop of \<open>selfdrive/monitoring/dmonitoringd.py\<close>:
  driver monitoring. Its inputs are the output of the monitoring model (\<open>driver_state\<close>), the
  state of the car and of openpilot; its outputs the events and the packet it publishes. The
  constructor's \<open>settings\<close> are those of the device; lists of a wrong length raise.
\<close>

section \<open>DRIVER\_MONITOR\_SETTINGS\<close>

definition AWARENESS_TIME :: real where "AWARENESS_TIME = 30"
definition AWARENESS_PRE_TIME :: real where "AWARENESS_PRE_TIME = 15"
definition AWARENESS_PROMPT_TIME :: real where "AWARENESS_PROMPT_TIME = 6"
definition DISTRACTED_TIME :: real where "DISTRACTED_TIME = 11"
definition DISTRACTED_PRE_TIME :: real where "DISTRACTED_PRE_TIME = 8"
definition DISTRACTED_PROMPT_TIME :: real where "DISTRACTED_PROMPT_TIME = 6"
definition FACE_THRESHOLD :: real where "FACE_THRESHOLD = 7/10"
definition EYE_THRESHOLD :: real where "EYE_THRESHOLD = 65/100"
definition SG_THRESHOLD :: real where "SG_THRESHOLD = 9/10"
definition BLINK_THRESHOLD :: real where "BLINK_THRESHOLD = 865/1000"
definition PHONE_THRESH :: "bool \<Rightarrow> real" where "PHONE_THRESH mici = (if mici then 75/100 else 4/10)"
definition PHONE_THRESH2 :: real where "PHONE_THRESH2 = 15"
definition PHONE_MAX_OFFSET :: real where "PHONE_MAX_OFFSET = 6/100"
definition PHONE_MIN_OFFSET :: real where "PHONE_MIN_OFFSET = 25/1000"
definition PHONE_DATA_AVG :: real where "PHONE_DATA_AVG = 5/100"
definition PHONE_DATA_VAR :: real where "PHONE_DATA_VAR = 3 * (5/1000)"
definition PHONE_MAX_COUNT :: int where "PHONE_MAX_COUNT = py_int (360 / DT_DMON)"
definition POSE_PITCH_THRESHOLD :: real where "POSE_PITCH_THRESHOLD = 3133/10000"
definition POSE_PITCH_THRESHOLD_SLACK :: real where "POSE_PITCH_THRESHOLD_SLACK = 3237/10000"
definition POSE_PITCH_THRESHOLD_STRICT :: real where "POSE_PITCH_THRESHOLD_STRICT = POSE_PITCH_THRESHOLD"
definition POSE_YAW_THRESHOLD :: real where "POSE_YAW_THRESHOLD = 4020/10000"
definition POSE_YAW_THRESHOLD_SLACK :: real where "POSE_YAW_THRESHOLD_SLACK = 5042/10000"
definition POSE_YAW_THRESHOLD_STRICT :: real where "POSE_YAW_THRESHOLD_STRICT = POSE_YAW_THRESHOLD"
definition PITCH_NATURAL_OFFSET :: real where "PITCH_NATURAL_OFFSET = 11/1000"
definition PITCH_NATURAL_THRESHOLD :: real where "PITCH_NATURAL_THRESHOLD = 449/1000"
definition YAW_NATURAL_OFFSET :: real where "YAW_NATURAL_OFFSET = 75/1000"
definition PITCH_NATURAL_VAR :: real where "PITCH_NATURAL_VAR = 3 * (1/100)"
definition YAW_NATURAL_VAR :: real where "YAW_NATURAL_VAR = 3 * (5/100)"
definition PITCH_MAX_OFFSET :: real where "PITCH_MAX_OFFSET = 124/1000"
definition PITCH_MIN_OFFSET :: real where "PITCH_MIN_OFFSET = - 881/10000"
definition YAW_MAX_OFFSET :: real where "YAW_MAX_OFFSET = 289/1000"
definition YAW_MIN_OFFSET :: real where "YAW_MIN_OFFSET = - 246/10000"
definition DCAM_UNCERTAIN_ALERT_THRESHOLD :: real where "DCAM_UNCERTAIN_ALERT_THRESHOLD = 1/10"
definition DCAM_UNCERTAIN_ALERT_COUNT :: int where "DCAM_UNCERTAIN_ALERT_COUNT = py_int (60 / DT_DMON)"
definition DCAM_UNCERTAIN_RESET_COUNT :: int where "DCAM_UNCERTAIN_RESET_COUNT = py_int (20 / DT_DMON)"
definition POSESTD_THRESHOLD :: real where "POSESTD_THRESHOLD = 3/10"
definition HI_STD_FALLBACK_TIME :: int where "HI_STD_FALLBACK_TIME = py_int (10 / DT_DMON)"
definition DISTRACTED_FILTER_TS :: real where "DISTRACTED_FILTER_TS = 25/100"
definition ALWAYS_ON_ALERT_MIN_SPEED :: real where "ALWAYS_ON_ALERT_MIN_SPEED = 11"
definition POSE_CALIB_MIN_SPEED :: real where "POSE_CALIB_MIN_SPEED = 13"
definition POSE_OFFSET_MIN_COUNT :: int where "POSE_OFFSET_MIN_COUNT = py_int (60 / DT_DMON)"
definition POSE_OFFSET_MAX_COUNT :: int where "POSE_OFFSET_MAX_COUNT = py_int (360 / DT_DMON)"
definition WHEELPOS_CALIB_MIN_SPEED :: real where "WHEELPOS_CALIB_MIN_SPEED = 11"
definition WHEELPOS_THRESHOLD :: real where "WHEELPOS_THRESHOLD = 5/10"
definition WHEELPOS_FILTER_MIN_COUNT :: int where "WHEELPOS_FILTER_MIN_COUNT = py_int (15 / DT_DMON)"
definition WHEELPOS_DATA_AVG :: real where "WHEELPOS_DATA_AVG = 3/100"
definition WHEELPOS_DATA_VAR :: real where "WHEELPOS_DATA_VAR = 3 * (55/1000000)"
definition WHEELPOS_MAX_COUNT :: int where "WHEELPOS_MAX_COUNT = -1"
definition RECOVERY_FACTOR_MAX :: real where "RECOVERY_FACTOR_MAX = 5"
definition RECOVERY_FACTOR_MIN :: real where "RECOVERY_FACTOR_MIN = 125/100"
definition MAX_TERMINAL_ALERTS :: int where "MAX_TERMINAL_ALERTS = 3"
definition MAX_TERMINAL_DURATION :: int where "MAX_TERMINAL_DURATION = py_int (30 / DT_DMON)"

section \<open>State\<close>

definition NOT_DISTRACTED :: int where "NOT_DISTRACTED = 0"
definition DISTRACTED_POSE :: int where "DISTRACTED_POSE = 1"
definition DISTRACTED_BLINK :: int where "DISTRACTED_BLINK = 2"
definition DISTRACTED_PHONE :: int where "DISTRACTED_PHONE = 4"

record driver_pose =
  dp_yaw :: real
  dp_pitch :: real
  dp_roll :: real
  dp_yaw_std :: real
  dp_pitch_std :: real
  dp_roll_std :: real
  dp_pitch_offseter :: running_stat_filter
  dp_yaw_offseter :: running_stat_filter
  dp_calibrated :: bool
  dp_low_std :: bool
  dp_cfactor_pitch :: real
  dp_cfactor_yaw :: real

definition DriverPose_init :: driver_pose where
  "DriverPose_init = \<lparr>dp_yaw = 0, dp_pitch = 0, dp_roll = 0, dp_yaw_std = 0, dp_pitch_std = 0, dp_roll_std = 0,
     dp_pitch_offseter = rf_init (Some (PITCH_NATURAL_OFFSET, PITCH_NATURAL_VAR, 2)) None POSE_OFFSET_MAX_COUNT,
     dp_yaw_offseter = rf_init (Some (YAW_NATURAL_OFFSET, YAW_NATURAL_VAR, 2)) None POSE_OFFSET_MAX_COUNT,
     dp_calibrated = False, dp_low_std = True, dp_cfactor_pitch = 1, dp_cfactor_yaw = 1\<rparr>"

record driver_prob =
  pr_prob :: real
  pr_offseter :: running_stat_filter
  pr_calibrated :: bool

definition DriverProb_init :: "real \<times> real \<times> int \<Rightarrow> int \<Rightarrow> driver_prob" where
  "DriverProb_init raw_priors max_trackable =
     \<lparr>pr_prob = 0, pr_offseter = rf_init (Some raw_priors) None max_trackable, pr_calibrated = False\<rparr>"

record driver_blink =
  bl_left :: real
  bl_right :: real

definition DriverBlink_init :: driver_blink where
  "DriverBlink_init = \<lparr>bl_left = 0, bl_right = 0\<rparr>"

text \<open>The environment of the process: the device and the table of offroad alerts.\<close>

record dm_config =
  dc_env :: alert_env
  dc_OFFROAD_ALERTS :: "string \<rightharpoonup> offroad_alert"

record dm =
  dm_wheelpos :: driver_prob
  dm_phone :: driver_prob
  dm_pose :: driver_pose
  dm_blink :: driver_blink
  dm_always_on :: bool
  dm_distracted_types :: "int list"
  dm_driver_distracted :: bool
  dm_filter :: fof
  dm_wheel_on_right :: bool
  dm_wheel_on_right_last :: "bool option"
  dm_wheel_on_right_default :: bool
  dm_face_detected :: bool
  dm_terminal_alert_cnt :: int
  dm_terminal_time :: int
  dm_step_change :: real
  dm_active_mode :: bool
  dm_is_model_uncertain :: bool
  dm_hi_stds :: int
  dm_threshold_pre :: real
  dm_threshold_prompt :: real
  dm_dcam_uncertain_cnt :: int
  dm_dcam_uncertain_alerted :: bool
  dm_dcam_reset_cnt :: int
  dm_params :: params
  dm_offroad :: "string \<rightharpoonup> offroad_alert"
  dm_too_distracted :: bool
  dm_awareness :: real
  dm_awareness_active :: real
  dm_awareness_passive :: real
  dm_events :: events

definition reset_awareness :: "dm \<Rightarrow> dm" where
  "reset_awareness d = d\<lparr>dm_awareness := 1, dm_awareness_active := 1, dm_awareness_passive := 1\<rparr>"

definition dm_reset_events :: "dm_config \<Rightarrow> dm \<Rightarrow> dm" where
  "dm_reset_events cf d = d\<lparr>dm_events := Events_init (dc_env cf)\<rparr>"

definition active_timers :: "dm \<Rightarrow> dm" where
  "active_timers d0 =
     (let d = (if \<not> dm_active_mode d0 then d0\<lparr>dm_awareness_passive := dm_awareness d0, dm_awareness := dm_awareness_active d0\<rparr> else d0)
      in d\<lparr>dm_threshold_pre := DISTRACTED_PRE_TIME / DISTRACTED_TIME,
           dm_threshold_prompt := DISTRACTED_PROMPT_TIME / DISTRACTED_TIME,
           dm_step_change := DT_DMON / DISTRACTED_TIME, dm_active_mode := True\<rparr>)"

definition passive_timers :: "dm \<Rightarrow> dm" where
  "passive_timers d0 =
     (let d = (if dm_active_mode d0 then d0\<lparr>dm_awareness_active := dm_awareness d0, dm_awareness := dm_awareness_passive d0\<rparr> else d0)
      in d\<lparr>dm_threshold_pre := AWARENESS_PRE_TIME / AWARENESS_TIME,
           dm_threshold_prompt := AWARENESS_PROMPT_TIME / AWARENESS_TIME,
           dm_step_change := DT_DMON / AWARENESS_TIME, dm_active_mode := False\<rparr>)"

definition set_timers :: "bool \<Rightarrow> dm \<Rightarrow> dm" where
  "set_timers active_monitoring d =
     (if dm_active_mode d \<and> dm_awareness d \<le> dm_threshold_prompt d
      then d\<lparr>dm_step_change := (if active_monitoring then DT_DMON / DISTRACTED_TIME else 0)\<rparr>
      else if dm_awareness d \<le> 0 then d
      else if active_monitoring then active_timers d else passive_timers d)"

definition DriverMonitoring_init :: "dm_config \<Rightarrow> bool \<Rightarrow> bool \<Rightarrow> params \<Rightarrow> (string \<rightharpoonup> offroad_alert) \<Rightarrow> dm" where
  "DriverMonitoring_init cf rhd_saved always_on p offroad =
     dm_reset_events cf (set_timers True (reset_awareness
       \<lparr>dm_wheelpos = DriverProb_init (WHEELPOS_DATA_AVG, WHEELPOS_DATA_VAR, 2) WHEELPOS_MAX_COUNT,
        dm_phone = DriverProb_init (PHONE_DATA_AVG, PHONE_DATA_VAR, 2) PHONE_MAX_COUNT,
        dm_pose = DriverPose_init, dm_blink = DriverBlink_init, dm_always_on = always_on, dm_distracted_types = [],
        dm_driver_distracted = False, dm_filter = fof_init 0 DISTRACTED_FILTER_TS DT_DMON True,
        dm_wheel_on_right = False, dm_wheel_on_right_last = None, dm_wheel_on_right_default = rhd_saved,
        dm_face_detected = False, dm_terminal_alert_cnt = 0, dm_terminal_time = 0, dm_step_change = 0,
        dm_active_mode = True, dm_is_model_uncertain = False, dm_hi_stds = 0,
        dm_threshold_pre = DISTRACTED_PRE_TIME / DISTRACTED_TIME,
        dm_threshold_prompt = DISTRACTED_PROMPT_TIME / DISTRACTED_TIME, dm_dcam_uncertain_cnt = 0,
        dm_dcam_uncertain_alerted = False, dm_dcam_reset_cnt = 0, dm_params = p, dm_offroad = offroad,
        dm_too_distracted = get_bool p ''DriverTooDistracted'', dm_awareness = 0, dm_awareness_active = 0,
        dm_awareness_passive = 0, dm_events = Events_init (dc_env cf)\<rparr>))"

section \<open>Policy and distraction\<close>

definition set_policy :: "real \<Rightarrow> real \<Rightarrow> dm \<Rightarrow> dm" where
  "set_policy brake_disengage_prob car_speed d =
     (let k1 = max (- (156/100000) * (car_speed - 16)^2 + 6/10) (2/10);
          bp_normal = max (min (brake_disengage_prob / k1) (5/10)) 0
      in d\<lparr>dm_pose := (dm_pose d)\<lparr>
           dp_cfactor_pitch := interp bp_normal [(0, POSE_PITCH_THRESHOLD_SLACK), (5/10, POSE_PITCH_THRESHOLD_STRICT)] / POSE_PITCH_THRESHOLD,
           dp_cfactor_yaw := interp bp_normal [(0, POSE_YAW_THRESHOLD_SLACK), (5/10, POSE_YAW_THRESHOLD_STRICT)] / POSE_YAW_THRESHOLD\<rparr>\<rparr>)"

definition pose_distracted :: "driver_pose \<Rightarrow> bool" where
  "pose_distracted p =
     (let pitch0 = (if \<not> dp_calibrated p then dp_pitch p - PITCH_NATURAL_OFFSET
            else dp_pitch p - min (max (rs_mean (rf_filtered (dp_pitch_offseter p))) PITCH_MIN_OFFSET) PITCH_MAX_OFFSET);
          yaw0 = (if \<not> dp_calibrated p then dp_yaw p - YAW_NATURAL_OFFSET
            else dp_yaw p - min (max (rs_mean (rf_filtered (dp_yaw_offseter p))) YAW_MIN_OFFSET) YAW_MAX_OFFSET);
          pitch_error = (if pitch0 > 0 then 0 else \<bar>pitch0\<bar>);
          yaw_error = \<bar>yaw0\<bar>;
          pitch_threshold = (if dp_calibrated p then POSE_PITCH_THRESHOLD * dp_cfactor_pitch p else PITCH_NATURAL_THRESHOLD);
          yaw_threshold = POSE_YAW_THRESHOLD * dp_cfactor_yaw p
      in pitch_error > pitch_threshold \<or> yaw_error > yaw_threshold)"

definition using_phone :: "bool \<Rightarrow> driver_prob \<Rightarrow> bool" where
  "using_phone mici p =
     (if pr_calibrated p
      then pr_prob p > max (min (rs_M (rf_filtered (pr_offseter p))) PHONE_MAX_OFFSET) PHONE_MIN_OFFSET * PHONE_THRESH2
      else pr_prob p > PHONE_THRESH mici)"

definition get_distracted_types :: "dm_config \<Rightarrow> dm \<Rightarrow> int list" where
  "get_distracted_types cf d =
     (if pose_distracted (dm_pose d) then [DISTRACTED_POSE] else [])
     @ (if (bl_left (dm_blink d) + bl_right (dm_blink d)) * (5/10) > BLINK_THRESHOLD then [DISTRACTED_BLINK] else [])
     @ (if using_phone (env_mici (dc_env cf)) (dm_phone d) then [DISTRACTED_PHONE] else [])"

section \<open>The output of the monitoring model\<close>

record driver_data =
  dd_faceOrientation :: "real list"
  dd_facePosition :: "real list"
  dd_faceOrientationStd :: "real list"
  dd_facePositionStd :: "real list"
  dd_faceProb :: real
  dd_leftEyeProb :: real
  dd_rightEyeProb :: real
  dd_leftBlinkProb :: real
  dd_rightBlinkProb :: real
  dd_sunglassesProb :: real
  dd_phoneProb :: real

record driver_state =
  dv_wheelOnRightProb :: real
  dv_leftDriverData :: driver_data
  dv_rightDriverData :: driver_data

definition EFL :: real where "EFL = 598"
definition DCAM_W :: int where "DCAM_W = 1928"
definition DCAM_H :: int where "DCAM_H = 1208"

text \<open>A list's element as Python reads it.\<close>

definition face_orientation_from_net :: "real list \<Rightarrow> real list \<Rightarrow> real list \<Rightarrow> (real \<times> real \<times> real) result" where
  "face_orientation_from_net angles_desc pos_desc rpy_calib =
     (case angles_desc of [pitch_net, yaw_net, roll_net] \<Rightarrow>
        bind_result (py_nth pos_desc 0) (\<lambda>p0. bind_result (py_nth pos_desc 1) (\<lambda>p1.
        let yaw_focal_angle = arctan2 ((p0 + 5/10) * of_int DCAM_W - of_int (DCAM_W div 2)) EFL;
            pitch_focal_angle = arctan2 ((p1 + 5/10) * of_int DCAM_H - of_int (DCAM_H div 2)) EFL;
            pitch = pitch_net + pitch_focal_angle;
            yaw = - yaw_net + yaw_focal_angle
        in bind_result (py_nth rpy_calib 1) (\<lambda>c1. bind_result (py_nth rpy_calib 2) (\<lambda>c2.
           Inr (roll_net, pitch - c1, yaw - c2)))))
      | _ \<Rightarrow> Inl ValueError)"

section \<open>\_update\_states\<close>

record dm_update =
  du_driver_state :: driver_state
  du_cal_rpy :: "real list"
  du_car_speed :: real
  du_op_engaged :: bool
  du_standstill :: bool
  du_demo_mode :: bool

text \<open>Which side the wheel is on.\<close>

definition update_wheelpos :: "dm_update \<Rightarrow> dm \<Rightarrow> dm" where
  "update_wheelpos u d0 =
     (let st = du_driver_state u;
          w0 = dm_wheelpos d0;
          w1 = (if du_car_speed u > WHEELPOS_CALIB_MIN_SPEED
                  \<and> (dd_faceProb (dv_leftDriverData st) > FACE_THRESHOLD \<or> dd_faceProb (dv_rightDriverData st) > FACE_THRESHOLD)
                then w0\<lparr>pr_offseter := rf_push (dv_wheelOnRightProb st) (pr_offseter w0)\<rparr> else w0);
          w = w1\<lparr>pr_calibrated := rs_n (rf_filtered (pr_offseter w1)) > WHEELPOS_FILTER_MIN_COUNT\<rparr>;
          right0 = (if pr_calibrated w \<or> du_demo_mode u then rs_M (rf_filtered (pr_offseter w)) > WHEELPOS_THRESHOLD
                    else dm_wheel_on_right_default d0);
          right = (case dm_wheel_on_right_last d0 of
                     Some l \<Rightarrow> if du_op_engaged u \<and> l \<noteq> right0 \<and> \<not> du_demo_mode u then l else right0
                   | None \<Rightarrow> right0)
      in d0\<lparr>dm_wheelpos := w, dm_wheel_on_right := right\<rparr>)"

definition driver_data_of :: "dm_update \<Rightarrow> dm \<Rightarrow> driver_data" where
  "driver_data_of u d = (if dm_wheel_on_right d then dv_rightDriverData (du_driver_state u) else dv_leftDriverData (du_driver_state u))"

definition data_complete :: "driver_data \<Rightarrow> bool" where
  "data_complete x \<longleftrightarrow> dd_faceOrientation x \<noteq> [] \<and> dd_facePosition x \<noteq> [] \<and> dd_faceOrientationStd x \<noteq> [] \<and> dd_facePositionStd x \<noteq> []"

text \<open>Pose, blinks and phone as the model sees them.\<close>

definition eye_blink :: "real \<Rightarrow> real \<Rightarrow> driver_data \<Rightarrow> real" where
  "eye_blink blink_prob eye_prob x = blink_prob * of_bool (eye_prob > EYE_THRESHOLD) * of_bool (dd_sunglassesProb x < SG_THRESHOLD)"

definition update_face :: "dm_update \<Rightarrow> driver_data \<Rightarrow> dm \<Rightarrow> dm result" where
  "update_face u x d0 =
     (let d = d0\<lparr>dm_face_detected := dd_faceProb x > FACE_THRESHOLD\<rparr> in
      bind_result (face_orientation_from_net (dd_faceOrientation x) (dd_facePosition x) (du_cal_rpy u)) (\<lambda>(roll, pitch, yaw).
      bind_result (py_nth (dd_faceOrientationStd x) 0) (\<lambda>pitch_std.
      bind_result (py_nth (dd_faceOrientationStd x) 1) (\<lambda>yaw_std.
      Inr (d\<lparr>dm_wheel_on_right_last := Some (dm_wheel_on_right d),
             dm_pose := (dm_pose d)\<lparr>dp_roll := roll, dp_pitch := pitch, dp_yaw := (if dm_wheel_on_right d then - yaw else yaw),
               dp_pitch_std := pitch_std, dp_yaw_std := yaw_std, dp_low_std := max pitch_std yaw_std < POSESTD_THRESHOLD\<rparr>,
             dm_blink := \<lparr>bl_left = eye_blink (dd_leftBlinkProb x) (dd_leftEyeProb x) x,
                          bl_right = eye_blink (dd_rightBlinkProb x) (dd_rightEyeProb x) x\<rparr>,
             dm_phone := (dm_phone d)\<lparr>pr_prob := dd_phoneProb x\<rparr>\<rparr>)))))"

definition update_distraction :: "dm_config \<Rightarrow> driver_data \<Rightarrow> dm \<Rightarrow> dm" where
  "update_distraction cf x d =
     (let types = get_distracted_types cf d;
          distracted = (DISTRACTED_PHONE \<in> set types \<or> DISTRACTED_POSE \<in> set types \<or> DISTRACTED_BLINK \<in> set types)
                       \<and> dd_faceProb x > FACE_THRESHOLD \<and> dp_low_std (dm_pose d)
      in d\<lparr>dm_distracted_types := types, dm_driver_distracted := distracted,
           dm_filter := fof_update (of_bool distracted) (dm_filter d)\<rparr>)"

text \<open>The learned offsets.\<close>

definition update_offsets :: "dm_update \<Rightarrow> dm \<Rightarrow> dm" where
  "update_offsets u d0 =
     (let learn = (dm_face_detected d0 \<and> du_car_speed u > POSE_CALIB_MIN_SPEED \<and> dp_low_std (dm_pose d0)
                   \<and> (\<not> du_op_engaged u \<or> \<not> dm_driver_distracted d0));
          p = dm_pose d0; ph = dm_phone d0;
          p1 = (if learn then p\<lparr>dp_pitch_offseter := rf_push (dp_pitch p) (dp_pitch_offseter p),
                                dp_yaw_offseter := rf_push (dp_yaw p) (dp_yaw_offseter p)\<rparr> else p);
          ph1 = (if learn then ph\<lparr>pr_offseter := rf_push (pr_prob ph) (pr_offseter ph)\<rparr> else ph)
      in d0\<lparr>dm_pose := p1\<lparr>dp_calibrated := rs_n (rf_filtered (dp_pitch_offseter p1)) > POSE_OFFSET_MIN_COUNT
                            \<and> rs_n (rf_filtered (dp_yaw_offseter p1)) > POSE_OFFSET_MIN_COUNT\<rparr>,
            dm_phone := ph1\<lparr>pr_calibrated := rs_n (rf_filtered (pr_offseter ph1)) > POSE_OFFSET_MIN_COUNT\<rparr>\<rparr>)"

text \<open>The counts of uncertain frames.\<close>

definition update_dcam_counts :: "dm_update \<Rightarrow> dm \<Rightarrow> dm" where
  "update_dcam_counts u d =
     (if dm_face_detected d \<and> \<not> dm_driver_distracted d then
        if max (dp_pitch_std (dm_pose d)) (dp_yaw_std (dm_pose d)) > DCAM_UNCERTAIN_ALERT_THRESHOLD then
          if \<not> du_standstill u then d\<lparr>dm_dcam_uncertain_cnt := dm_dcam_uncertain_cnt d + 1, dm_dcam_reset_cnt := 0\<rparr> else d
        else let c = dm_dcam_reset_cnt d + 1; d1 = d\<lparr>dm_dcam_reset_cnt := c\<rparr> in
          if c > DCAM_UNCERTAIN_RESET_COUNT then d1\<lparr>dm_dcam_uncertain_cnt := 0\<rparr> else d1
      else d)"

definition update_monitoring_mode :: "dm \<Rightarrow> dm" where
  "update_monitoring_mode d0 =
     (let unsure = (dm_hi_stds d0 > HI_STD_FALLBACK_TIME);
          d = set_timers (dm_face_detected d0 \<and> \<not> unsure) (d0\<lparr>dm_is_model_uncertain := unsure\<rparr>)
      in if dm_face_detected d \<and> \<not> dp_low_std (dm_pose d) \<and> \<not> dm_driver_distracted d then d\<lparr>dm_hi_stds := dm_hi_stds d + 1\<rparr>
         else if dm_face_detected d \<and> dp_low_std (dm_pose d) then d\<lparr>dm_hi_stds := 0\<rparr> else d)"

definition update_states :: "dm_config \<Rightarrow> dm_update \<Rightarrow> dm \<Rightarrow> dm result" where
  "update_states cf u d0 =
     (let d = update_wheelpos u d0; x = driver_data_of u d in
      if \<not> data_complete x then Inr d
      else bind_result (update_face u x d) (\<lambda>d1.
        Inr (update_monitoring_mode (update_dcam_counts u (update_offsets u (update_distraction cf x d1))))))"

section \<open>\_update\_events\<close>

record dm_event_in =
  de_driver_engaged :: bool
  de_op_engaged :: bool
  de_standstill :: bool
  de_wrong_gear :: bool
  de_car_speed :: real

definition add_dm_event :: "event_id \<Rightarrow> dm \<Rightarrow> dm" where
  "add_dm_event e d = d\<lparr>dm_events := ev_add e (dm_events d)\<rparr>"

text \<open>The lockout until the next ignition cycle, or while the driver is distracted with always-on monitoring.\<close>

definition update_lockout :: "dm \<Rightarrow> dm" where
  "update_lockout d0 =
     (let d = (if dm_terminal_alert_cnt d0 \<ge> MAX_TERMINAL_ALERTS \<or> dm_terminal_time d0 \<ge> MAX_TERMINAL_DURATION
               then (if \<not> dm_too_distracted d0 then d0\<lparr>dm_params := (dm_params d0)(''DriverTooDistracted'' \<mapsto> PBool True)\<rparr> else d0)
                    \<lparr>dm_too_distracted := True\<rparr>
               else d0)
      in if dm_too_distracted d \<or> (dm_always_on d \<and> dm_awareness d \<le> dm_threshold_prompt d)
         then add_dm_event ev_tooDistracted d else d)"

definition always_on_valid :: "dm_event_in \<Rightarrow> dm \<Rightarrow> bool" where
  "always_on_valid a d \<longleftrightarrow> dm_always_on d \<and> \<not> de_wrong_gear a"

definition awareness_resets :: "dm_event_in \<Rightarrow> dm \<Rightarrow> bool" where
  "awareness_resets a d \<longleftrightarrow> (de_driver_engaged a \<and> dm_awareness d > 0 \<and> \<not> dm_active_mode d)
     \<or> (\<not> always_on_valid a d \<and> \<not> de_op_engaged a)
     \<or> (always_on_valid a d \<and> \<not> de_op_engaged a \<and> dm_awareness d \<le> 0)"

definition recover_awareness :: "dm \<Rightarrow> dm" where
  "recover_awareness d0 =
     (let d = d0\<lparr>dm_awareness := min (dm_awareness d0 + ((RECOVERY_FACTOR_MAX - RECOVERY_FACTOR_MIN) * (1 - dm_awareness d0)
                                       + RECOVERY_FACTOR_MIN) * dm_step_change d0) 1\<rparr>
      in if dm_awareness d = 1 then d\<lparr>dm_awareness_passive := min (dm_awareness_passive d + dm_step_change d) 1\<rparr> else d)"

definition attentive :: "dm \<Rightarrow> bool" where
  "attentive d \<longleftrightarrow> ff_x (dm_filter d) < 37/100 \<and> dm_face_detected d \<and> dp_low_std (dm_pose d) \<and> dm_awareness d > 0"

definition reaching_audible :: "dm \<Rightarrow> bool" where
  "reaching_audible d \<longleftrightarrow> dm_awareness d - dm_step_change d \<le> dm_threshold_prompt d"

definition always_on_lowspeed :: "dm_event_in \<Rightarrow> dm \<Rightarrow> bool" where
  "always_on_lowspeed a d \<longleftrightarrow> always_on_valid a d \<and> \<not> de_op_engaged a \<and> de_car_speed a < ALWAYS_ON_ALERT_MIN_SPEED"

definition counts_distraction :: "dm_event_in \<Rightarrow> dm \<Rightarrow> bool" where
  "counts_distraction a d \<longleftrightarrow>
     (let standstill_orange_exemption = de_standstill a \<and> reaching_audible d;
          always_on_red_exemption = always_on_valid a d \<and> \<not> de_op_engaged a \<and> dm_awareness d - dm_step_change d \<le> 0;
          certainly_distracted = ff_x (dm_filter d) > 63/100 \<and> dm_driver_distracted d \<and> dm_face_detected d;
          maybe_distracted = dm_hi_stds d > HI_STD_FALLBACK_TIME \<or> \<not> dm_face_detected d
      in (certainly_distracted \<or> maybe_distracted)
         \<and> \<not> (standstill_orange_exemption \<or> always_on_red_exemption \<or> (always_on_lowspeed a d \<and> reaching_audible d)))"

definition count_distraction :: "dm_event_in \<Rightarrow> dm \<Rightarrow> dm" where
  "count_distraction a d = (if counts_distraction a d
     then d\<lparr>dm_awareness := max (dm_awareness d - dm_step_change d) (-1/10)\<rparr> else d)"

definition dm_alert :: "bool \<Rightarrow> dm \<Rightarrow> event_id option" where
  "dm_alert lowspeed d =
     (if dm_awareness d \<le> 0 then Some (if dm_active_mode d then ev_driverDistracted else ev_driverUnresponsive)
      else if dm_awareness d \<le> dm_threshold_prompt d
        then Some (if dm_active_mode d then ev_promptDriverDistracted else ev_promptDriverUnresponsive)
      else if dm_awareness d \<le> dm_threshold_pre d \<and> \<not> lowspeed
        then Some (if dm_active_mode d then ev_preDriverDistracted else ev_preDriverUnresponsive)
      else None)"

definition count_terminal :: "real \<Rightarrow> dm \<Rightarrow> dm" where
  "count_terminal awareness_prev d =
     (if dm_awareness d \<le> 0 then
        let d1 = d\<lparr>dm_terminal_time := dm_terminal_time d + 1\<rparr> in
        if awareness_prev > 0 then d1\<lparr>dm_terminal_alert_cnt := dm_terminal_alert_cnt d1 + 1\<rparr> else d1
      else d)"

definition report_uncertain :: "dm_config \<Rightarrow> dm \<Rightarrow> dm result" where
  "report_uncertain cf d =
     (if dm_dcam_uncertain_cnt d > DCAM_UNCERTAIN_ALERT_COUNT \<and> \<not> dm_dcam_uncertain_alerted d then
        bind_result (set_offroad_alert (dc_OFFROAD_ALERTS cf) ''Offroad_DriverMonitoringUncertain'' True None (dm_offroad d)) (\<lambda>o1.
        Inr (d\<lparr>dm_offroad := o1, dm_dcam_uncertain_alerted := True\<rparr>))
      else Inr d)"

text \<open>From the count of the awareness to the end of the method.\<close>

definition count_and_alert :: "dm_config \<Rightarrow> dm_event_in \<Rightarrow> real \<Rightarrow> dm \<Rightarrow> dm result" where
  "count_and_alert cf a awareness_prev d0 =
     (let lowspeed = always_on_lowspeed a d0;
          d1 = count_terminal awareness_prev (count_distraction a d0);
          d2 = (case dm_alert lowspeed d1 of None \<Rightarrow> d1 | Some e \<Rightarrow> add_dm_event e d1)
      in report_uncertain cf d2)"

definition dm_update_events :: "dm_config \<Rightarrow> dm_event_in \<Rightarrow> dm \<Rightarrow> dm result" where
  "dm_update_events cf a d0 =
     (let d = update_lockout (dm_reset_events cf d0) in
      if awareness_resets a d then Inr (reset_awareness d)
      else if attentive d then
        if de_driver_engaged a then Inr (reset_awareness d)
        else let d1 = recover_awareness d in
          if dm_awareness d1 > dm_threshold_prompt d1 then Inr d1 else count_and_alert cf a (dm_awareness d) d1
      else count_and_alert cf a (dm_awareness d) d)"

section \<open>run\_step and the packet\<close>

record dm_messages =
  me_vEgo :: real
  me_enabled :: bool
  me_latActive :: bool
  me_gearShifter :: gear_shifter
  me_standstill :: bool
  me_steeringPressed :: bool
  me_gasPressed :: bool
  me_brakeDisengageProbs :: "real list"
  me_rpyCalib :: "real list"
  me_driverState :: driver_state

definition dm_update_of :: "bool \<Rightarrow> dm_messages \<Rightarrow> dm_update" where
  "dm_update_of demo m = (if demo
     then \<lparr>du_driver_state = me_driverState m, du_cal_rpy = [0, 0, 0], du_car_speed = 30, du_op_engaged = True,
           du_standstill = False, du_demo_mode = True\<rparr>
     else \<lparr>du_driver_state = me_driverState m, du_cal_rpy = me_rpyCalib m, du_car_speed = me_vEgo m,
           du_op_engaged = (me_enabled m \<or> me_latActive m), du_standstill = me_standstill m, du_demo_mode = False\<rparr>)"

definition dm_event_in_of :: "bool \<Rightarrow> dm_messages \<Rightarrow> dm_event_in" where
  "dm_event_in_of demo m = (if demo
     then \<lparr>de_driver_engaged = False, de_op_engaged = True, de_standstill = False, de_wrong_gear = False, de_car_speed = 30\<rparr>
     else \<lparr>de_driver_engaged = (me_steeringPressed m \<or> me_gasPressed m), de_op_engaged = (me_enabled m \<or> me_latActive m),
           de_standstill = me_standstill m, de_wrong_gear = (me_gearShifter m \<notin> {Gear_drive, Gear_low}), de_car_speed = me_vEgo m\<rparr>)"

definition dm_run_step :: "dm_config \<Rightarrow> bool \<Rightarrow> dm_messages \<Rightarrow> dm \<Rightarrow> dm result" where
  "dm_run_step cf demo m d =
     bind_result (if demo then Inr 1 else py_nth (me_brakeDisengageProbs m) 0) (\<lambda>prob.
     bind_result (update_states cf (dm_update_of demo m) (set_policy prob (if demo then 30 else me_vEgo m) d))
       (dm_update_events cf (dm_event_in_of demo m)))"

record dm_packet =
  dk_valid :: bool
  dk_events :: "(event_id \<times> et list) list"
  dk_faceDetected :: bool
  dk_isDistracted :: bool
  dk_distractedType :: int
  dk_awarenessStatus :: real
  dk_posePitchOffset :: real
  dk_posePitchValidCount :: int
  dk_poseYawOffset :: real
  dk_poseYawValidCount :: int
  dk_phoneProbOffset :: real
  dk_phoneProbValidCount :: int
  dk_stepChange :: real
  dk_awarenessActive :: real
  dk_awarenessPassive :: real
  dk_isLowStd :: bool
  dk_hiStdCount :: int
  dk_isActiveMode :: bool
  dk_isRHD :: bool
  dk_uncertainCount :: int

definition get_state_packet :: "dm_config \<Rightarrow> bool \<Rightarrow> dm \<Rightarrow> dm_packet" where
  "get_state_packet cf valid d =
     (let pitch = rf_filtered (dp_pitch_offseter (dm_pose d)); yaw = rf_filtered (dp_yaw_offseter (dm_pose d));
          phone = rf_filtered (pr_offseter (dm_phone d))
      in \<lparr>dk_valid = valid, dk_events = ev_to_msg (EVENTS (dc_env cf)) (dm_events d), dk_faceDetected = dm_face_detected d,
          dk_isDistracted = dm_driver_distracted d, dk_distractedType = sum_list (dm_distracted_types d),
          dk_awarenessStatus = dm_awareness d, dk_posePitchOffset = rs_mean pitch, dk_posePitchValidCount = rs_n pitch,
          dk_poseYawOffset = rs_mean yaw, dk_poseYawValidCount = rs_n yaw, dk_phoneProbOffset = rs_mean phone,
          dk_phoneProbValidCount = rs_n phone, dk_stepChange = dm_step_change d, dk_awarenessActive = dm_awareness_active d,
          dk_awarenessPassive = dm_awareness_passive d, dk_isLowStd = dp_low_std (dm_pose d), dk_hiStdCount = dm_hi_stds d,
          dk_isActiveMode = dm_active_mode d, dk_isRHD = dm_wheel_on_right d, dk_uncertainCount = dm_dcam_uncertain_cnt d\<rparr>)"

section \<open>dmonitoringd\<close>

text \<open>
  A round of the loop that found a new output of the model: the packet it sends and the toggles
  it reads. \<open>all_checks\<close> and \<open>sm.valid\<close> are those of the SubMaster.
\<close>

record dm_round =
  dr_all_checks :: bool
  dr_valid :: bool
  dr_messages :: dm_messages
  dr_frameId :: int
  dr_AlwaysOnDM :: bool
  dr_IsDriverViewEnabled :: bool

definition rhd_to_save :: "dm_round \<Rightarrow> bool \<Rightarrow> dm \<Rightarrow> bool" where
  "rhd_to_save r demo d \<longleftrightarrow> dr_frameId r mod 6000 = 0 \<and> \<not> demo
     \<and> rs_n (rf_filtered (pr_offseter (dm_wheelpos d))) > WHEELPOS_FILTER_MIN_COUNT
     \<and> dm_wheel_on_right d = (rs_M (rf_filtered (pr_offseter (dm_wheelpos d))) > WHEELPOS_THRESHOLD)"

definition dmonitoringd_round :: "dm_config \<Rightarrow> dm_round \<Rightarrow> dm \<times> bool \<Rightarrow> (dm_packet \<times> dm \<times> bool) result" where
  "dmonitoringd_round cf r s =
     (let (d0, demo) = s in
      bind_result (if demo \<and> dr_valid r \<or> dr_all_checks r then dm_run_step cf demo (dr_messages r) d0 else Inr d0) (\<lambda>d1.
      let packet = get_state_packet cf (dr_all_checks r) d1;
          toggles = (dr_frameId r mod 40 = 1);
          d2 = (if toggles then d1\<lparr>dm_always_on := dr_AlwaysOnDM r\<rparr> else d1);
          demo2 = (if toggles then dr_IsDriverViewEnabled r else demo);
          d3 = (if rhd_to_save r demo2 d2
                then d2\<lparr>dm_params := (dm_params d2)(''IsRhdDetected'' \<mapsto> PBool (dm_wheel_on_right d2))\<rparr> else d2)
      in Inr (packet, d3, demo2)))"

end
