(* ===== verification/Driver_Monitoring_Facts.thy ===== *)
theory Driver_Monitoring_Facts
  imports Driver_Monitoring Event_Facts
begin

text \<open>
  What driver monitoring guarantees: its awareness stays in range, a driver with closed eyes gets
  the terminal alert in time whatever the steering wheel and the pedals report, and the lockout
  is permanent.
\<close>

section \<open>The settings as numbers\<close>

lemma dm_settings [simp]:
  "DT_DMON / DISTRACTED_TIME = 1/220" "DT_DMON / AWARENESS_TIME = 1/600"
  "DISTRACTED_PRE_TIME / DISTRACTED_TIME = 8/11" "DISTRACTED_PROMPT_TIME / DISTRACTED_TIME = 6/11"
  "AWARENESS_PRE_TIME / AWARENESS_TIME = 1/2" "AWARENESS_PROMPT_TIME / AWARENESS_TIME = 1/5"
  "HI_STD_FALLBACK_TIME = 200" "MAX_TERMINAL_DURATION = 600" "MAX_TERMINAL_ALERTS = 3"
  by (simp_all add: DT_DMON_def DISTRACTED_TIME_def AWARENESS_TIME_def DISTRACTED_PRE_TIME_def DISTRACTED_PROMPT_TIME_def
      AWARENESS_PRE_TIME_def AWARENESS_PROMPT_TIME_def HI_STD_FALLBACK_TIME_def MAX_TERMINAL_DURATION_def MAX_TERMINAL_ALERTS_def)

lemma dm_filter_alpha: "ff_alpha (fof_init 0 DISTRACTED_FILTER_TS DT_DMON True) = 1/6"
  by (simp add: fof_init_def fof_update_alpha_def DISTRACTED_FILTER_TS_def DT_DMON_def)

section \<open>Ranges\<close>

definition in_range :: "real \<Rightarrow> bool" where
  "in_range a \<longleftrightarrow> - (1/10) \<le> a \<and> a \<le> 1"

lemma in_range_one [simp]: "in_range 1"
  by (simp add: in_range_def)

text \<open>
  The step of the count is that of the mode: a 220th in the active mode, or nothing while an alert
  is shown and the face is not, and a 600th in the passive mode.
\<close>

definition mode_steps :: "bool \<Rightarrow> real set" where
  "mode_steps active = (if active then {0, 1/220} else {1/600})"

lemma mode_steps_simps [simp]: "mode_steps True = {0, 1/220}" "mode_steps False = {1/600}"
  by (simp_all add: mode_steps_def)

lemma mode_steps_nonneg: "x \<in> mode_steps a \<Longrightarrow> 0 \<le> x"
  by (cases a) auto

definition dm_ok :: "dm \<Rightarrow> bool" where
  "dm_ok d \<longleftrightarrow> in_range (dm_awareness d) \<and> in_range (dm_awareness_active d) \<and> in_range (dm_awareness_passive d)
     \<and> dm_step_change d \<in> mode_steps (dm_active_mode d)
     \<and> dm_threshold_prompt d = (if dm_active_mode d then 6/11 else 1/5)
     \<and> dm_threshold_pre d = (if dm_active_mode d then 8/11 else 1/2)
     \<and> ff_alpha (dm_filter d) = 1/6 \<and> ff_initialized (dm_filter d) \<and> 0 \<le> ff_x (dm_filter d) \<and> ff_x (dm_filter d) \<le> 1"

lemma reset_awareness_ok: "dm_ok d \<Longrightarrow> dm_ok (reset_awareness d)"
  by (simp add: dm_ok_def reset_awareness_def)

lemma set_timers_ok: "dm_ok d \<Longrightarrow> dm_ok (set_timers b d)"
  by (auto simp: dm_ok_def set_timers_def active_timers_def passive_timers_def Let_def)

text \<open>Operations on other attributes.\<close>

lemma dm_ok_upd [simp]:
  "dm_ok (d\<lparr>dm_wheelpos := x1\<rparr>) = dm_ok d" "dm_ok (d\<lparr>dm_phone := x2\<rparr>) = dm_ok d" "dm_ok (d\<lparr>dm_pose := x3\<rparr>) = dm_ok d"
  "dm_ok (d\<lparr>dm_blink := x4\<rparr>) = dm_ok d" "dm_ok (d\<lparr>dm_distracted_types := x5\<rparr>) = dm_ok d" "dm_ok (d\<lparr>dm_driver_distracted := x6\<rparr>) = dm_ok d"
  "dm_ok (d\<lparr>dm_wheel_on_right := x7\<rparr>) = dm_ok d" "dm_ok (d\<lparr>dm_wheel_on_right_last := x8\<rparr>) = dm_ok d" "dm_ok (d\<lparr>dm_face_detected := x9\<rparr>) = dm_ok d"
  "dm_ok (d\<lparr>dm_terminal_alert_cnt := y1\<rparr>) = dm_ok d" "dm_ok (d\<lparr>dm_terminal_time := y2\<rparr>) = dm_ok d" "dm_ok (d\<lparr>dm_is_model_uncertain := y3\<rparr>) = dm_ok d"
  "dm_ok (d\<lparr>dm_hi_stds := y4\<rparr>) = dm_ok d" "dm_ok (d\<lparr>dm_dcam_uncertain_cnt := y5\<rparr>) = dm_ok d" "dm_ok (d\<lparr>dm_dcam_uncertain_alerted := y6\<rparr>) = dm_ok d"
  "dm_ok (d\<lparr>dm_dcam_reset_cnt := y7\<rparr>) = dm_ok d" "dm_ok (d\<lparr>dm_params := y8\<rparr>) = dm_ok d" "dm_ok (d\<lparr>dm_offroad := y9\<rparr>) = dm_ok d"
  "dm_ok (d\<lparr>dm_too_distracted := z1\<rparr>) = dm_ok d" "dm_ok (d\<lparr>dm_events := z2\<rparr>) = dm_ok d" "dm_ok (d\<lparr>dm_always_on := z3\<rparr>) = dm_ok d"
  by (simp_all add: dm_ok_def)

lemma update_distraction_ok: "dm_ok d \<Longrightarrow> dm_ok (update_distraction cf x d)"
  using fof_between [of "dm_filter d" 0 1 1] fof_between [of "dm_filter d" 0 1 0]
  by (auto simp: dm_ok_def update_distraction_def Let_def)

lemma recover_ok: "dm_ok d \<Longrightarrow> 0 < dm_awareness d \<Longrightarrow> dm_ok (recover_awareness d)"
proof -
  assume ok: "dm_ok d" and pos: "0 < dm_awareness d"
  let ?a = "min (dm_awareness d + ((RECOVERY_FACTOR_MAX - RECOVERY_FACTOR_MIN) * (1 - dm_awareness d) + RECOVERY_FACTOR_MIN) * dm_step_change d) 1"
  have step: "0 \<le> dm_step_change d" "dm_awareness d \<le> 1" using ok by (auto simp: dm_ok_def in_range_def dest: mode_steps_nonneg)
  then have "0 \<le> ((RECOVERY_FACTOR_MAX - RECOVERY_FACTOR_MIN) * (1 - dm_awareness d) + RECOVERY_FACTOR_MIN) * dm_step_change d"
    by (auto simp: RECOVERY_FACTOR_MAX_def RECOVERY_FACTOR_MIN_def)
  with pos have "in_range ?a" by (auto simp: in_range_def)
  moreover have "in_range (min (dm_awareness_passive d + dm_step_change d) 1)"
    using ok step by (auto simp: dm_ok_def in_range_def)
  ultimately show ?thesis using ok by (auto simp: dm_ok_def recover_awareness_def Let_def)
qed

lemma count_distraction_ok: "dm_ok d \<Longrightarrow> dm_ok (count_distraction a d)"
  by (auto simp: dm_ok_def count_distraction_def in_range_def dest: mode_steps_nonneg)

lemma simple_ok [simp]:
  "dm_ok (set_policy p v d) = dm_ok d" "dm_ok (update_wheelpos u d) = dm_ok d" "dm_ok (update_offsets u d) = dm_ok d"
  "dm_ok (update_dcam_counts u d) = dm_ok d" "dm_ok (add_dm_event e d) = dm_ok d" "dm_ok (dm_reset_events cf d) = dm_ok d"
  "dm_ok (update_lockout d) = dm_ok d" "dm_ok (count_terminal w d) = dm_ok d"
  by (simp_all add: set_policy_def update_wheelpos_def update_offsets_def update_dcam_counts_def add_dm_event_def
      dm_reset_events_def update_lockout_def count_terminal_def Let_def)

lemma update_monitoring_mode_ok: "dm_ok d \<Longrightarrow> dm_ok (update_monitoring_mode d)"
  by (simp add: update_monitoring_mode_def Let_def set_timers_ok)

section \<open>No step raises on messages in order\<close>

definition data_ok :: "driver_data \<Rightarrow> bool" where
  "data_ok x \<longleftrightarrow> data_complete x \<longrightarrow> length (dd_faceOrientation x) = 3 \<and> length (dd_facePosition x) \<ge> 2 \<and> length (dd_faceOrientationStd x) \<ge> 2"

definition msg_ok :: "dm_messages \<Rightarrow> bool" where
  "msg_ok m \<longleftrightarrow> me_brakeDisengageProbs m \<noteq> [] \<and> length (me_rpyCalib m) \<ge> 3
     \<and> data_ok (dv_leftDriverData (me_driverState m)) \<and> data_ok (dv_rightDriverData (me_driverState m))"

lemma py_nth_ok: "n < length xs \<Longrightarrow> py_nth xs n = Inr (xs ! n)"
  by (simp add: py_nth_def)

lemma face_orientation_total:
  assumes "length angles = 3" "length pos \<ge> 2" "length rpy \<ge> 3"
  shows "\<exists>r. face_orientation_from_net angles pos rpy = Inr r"
proof -
  from assms(1) obtain a b c where "angles = [a, b, c]" by (auto simp: numeral_3_eq_3 length_Suc_conv)
  moreover have "py_nth pos 0 = Inr (pos ! 0)" "py_nth pos 1 = Inr (pos ! 1)" "py_nth rpy 1 = Inr (rpy ! 1)" "py_nth rpy 2 = Inr (rpy ! 2)"
    using assms(2,3) by (auto intro!: py_nth_ok)
  ultimately show ?thesis by (simp add: face_orientation_from_net_def Let_def)
qed

text \<open>What the face part of an update leaves and sets.\<close>

lemma update_face_spec:
  assumes "data_complete x" "data_ok x" "length (du_cal_rpy u) \<ge> 3"
  shows "\<exists>d1. update_face u x d = Inr d1 \<and> (dm_ok d \<longrightarrow> dm_ok d1)
    \<and> dm_face_detected d1 = (dd_faceProb x > FACE_THRESHOLD)
    \<and> dp_low_std (dm_pose d1) = (max (dd_faceOrientationStd x ! 0) (dd_faceOrientationStd x ! 1) < POSESTD_THRESHOLD)
    \<and> bl_left (dm_blink d1) = eye_blink (dd_leftBlinkProb x) (dd_leftEyeProb x) x
    \<and> bl_right (dm_blink d1) = eye_blink (dd_rightBlinkProb x) (dd_rightEyeProb x) x
    \<and> dm_filter d1 = dm_filter d \<and> dm_hi_stds d1 = dm_hi_stds d \<and> dm_active_mode d1 = dm_active_mode d
    \<and> dm_awareness d1 = dm_awareness d \<and> dm_awareness_active d1 = dm_awareness_active d
    \<and> dm_too_distracted d1 = dm_too_distracted d \<and> dm_terminal_alert_cnt d1 = dm_terminal_alert_cnt d
    \<and> dm_terminal_time d1 = dm_terminal_time d"
proof -
  from assms have len: "length (dd_faceOrientation x) = 3" "length (dd_facePosition x) \<ge> 2" "length (dd_faceOrientationStd x) \<ge> 2"
    by (auto simp: data_ok_def)
  from face_orientation_total [OF len(1,2) assms(3)] obtain roll pitch yaw where
    "face_orientation_from_net (dd_faceOrientation x) (dd_facePosition x) (du_cal_rpy u) = Inr (roll, pitch, yaw)" by auto
  moreover have "py_nth (dd_faceOrientationStd x) 0 = Inr (dd_faceOrientationStd x ! 0)"
    "py_nth (dd_faceOrientationStd x) 1 = Inr (dd_faceOrientationStd x ! 1)"
    using len(3) by (auto intro!: py_nth_ok)
  ultimately show ?thesis by (simp add: update_face_def Let_def)
qed

text \<open>The parts of an update of the states, after the face part.\<close>

definition after_face :: "dm_config \<Rightarrow> dm_update \<Rightarrow> driver_data \<Rightarrow> dm \<Rightarrow> dm" where
  "after_face cf u x d = update_monitoring_mode (update_dcam_counts u (update_offsets u (update_distraction cf x d)))"

lemma after_face_ok: "dm_ok d \<Longrightarrow> dm_ok (after_face cf u x d)"
  by (simp add: after_face_def update_monitoring_mode_ok update_distraction_ok)

lemma update_states_total:
  assumes "data_ok (dv_leftDriverData (du_driver_state u))" "data_ok (dv_rightDriverData (du_driver_state u))" "length (du_cal_rpy u) \<ge> 3"
  shows "\<exists>d1. update_states cf u d = Inr d1 \<and> (dm_ok d \<longrightarrow> dm_ok d1)"
proof (cases "data_complete (driver_data_of u (update_wheelpos u d))")
  case True
  have "data_ok (driver_data_of u (update_wheelpos u d))" using assms by (simp add: driver_data_of_def)
  from update_face_spec [OF True this assms(3)] obtain d1 where
    "update_face u (driver_data_of u (update_wheelpos u d)) (update_wheelpos u d) = Inr d1" "dm_ok (update_wheelpos u d) \<longrightarrow> dm_ok d1" by blast
  with True show ?thesis by (simp add: update_states_def Let_def after_face_def [symmetric] after_face_ok)
qed (simp add: update_states_def Let_def)

definition dm_table_ok :: "dm_config \<Rightarrow> bool" where
  "dm_table_ok cf \<longleftrightarrow> dc_OFFROAD_ALERTS cf ''Offroad_DriverMonitoringUncertain'' \<noteq> None"

lemma report_uncertain_total:
  assumes "dm_table_ok cf"
  shows "\<exists>b o1. report_uncertain cf d = Inr (if b then d\<lparr>dm_offroad := o1, dm_dcam_uncertain_alerted := True\<rparr> else d)"
proof (cases "dm_dcam_uncertain_cnt d > DCAM_UNCERTAIN_ALERT_COUNT \<and> \<not> dm_dcam_uncertain_alerted d")
  case True
  from assms obtain o1 where "set_offroad_alert (dc_OFFROAD_ALERTS cf) ''Offroad_DriverMonitoringUncertain'' True None (dm_offroad d) = Inr o1"
    by (auto simp: dm_table_ok_def set_offroad_alert_def)
  with True show ?thesis by (intro exI [of _ True] exI [of _ o1]) (simp add: report_uncertain_def)
next
  case False
  then show ?thesis by (intro exI [of _ False]) (auto simp: report_uncertain_def)
qed

text \<open>The state before the report of an uncertain camera.\<close>

definition alerted :: "dm_event_in \<Rightarrow> real \<Rightarrow> dm \<Rightarrow> dm" where
  "alerted a prev d0 =
     (let d1 = count_terminal prev (count_distraction a d0) in
      case dm_alert (always_on_lowspeed a d0) d1 of None \<Rightarrow> d1 | Some e \<Rightarrow> add_dm_event e d1)"

lemma count_and_alert_total:
  assumes "dm_table_ok cf"
  shows "\<exists>b o1. count_and_alert cf a prev d = Inr (if b then (alerted a prev d)\<lparr>dm_offroad := o1, dm_dcam_uncertain_alerted := True\<rparr>
    else alerted a prev d)"
  using report_uncertain_total [OF assms, of "alerted a prev d"]
  by (simp add: count_and_alert_def alerted_def Let_def)

lemma alerted_ok: "dm_ok d \<Longrightarrow> dm_ok (alerted a prev d)"
  by (auto simp: alerted_def Let_def count_distraction_ok split: option.splits)

lemma update_events_total:
  assumes tab: "dm_table_ok cf"
  shows "\<exists>d1. dm_update_events cf a d = Inr d1 \<and> (dm_ok d \<longrightarrow> dm_ok d1)"
proof -
  let ?d = "update_lockout (dm_reset_events cf d)"
  have ca: "\<exists>d1. count_and_alert cf a w e = Inr d1 \<and> (dm_ok e \<longrightarrow> dm_ok d1)" for e w
    using count_and_alert_total [OF tab, of a w e] alerted_ok [of e a w] by (auto split: if_splits)
  have rec: "dm_ok (recover_awareness ?d)" if "dm_ok d" "attentive ?d"
    using that by (intro recover_ok) (auto simp: attentive_def)
  show ?thesis
    using ca [of "dm_awareness ?d" ?d] ca [of "dm_awareness ?d" "recover_awareness ?d"] rec reset_awareness_ok [of ?d]
    by (auto simp: dm_update_events_def Let_def)
qed

lemma dm_run_step_total:
  assumes "dm_table_ok cf" "msg_ok m"
  shows "\<exists>d1. dm_run_step cf demo m d = Inr d1 \<and> (dm_ok d \<longrightarrow> dm_ok d1)"
proof -
  let ?u = "dm_update_of demo m"
  obtain p where p: "(if demo then Inr 1 else py_nth (me_brakeDisengageProbs m) 0) = Inr p"
    using assms(2) py_nth_ok [of 0 "me_brakeDisengageProbs m"] by (cases demo) (auto simp: msg_ok_def)
  have u: "data_ok (dv_leftDriverData (du_driver_state ?u))" "data_ok (dv_rightDriverData (du_driver_state ?u))" "length (du_cal_rpy ?u) \<ge> 3"
    using assms(2) by (auto simp: msg_ok_def dm_update_of_def)
  from update_states_total [OF u, of cf "set_policy p (if demo then 30 else me_vEgo m) d"] obtain d1 where
    d1: "update_states cf ?u (set_policy p (if demo then 30 else me_vEgo m) d) = Inr d1" "dm_ok d \<longrightarrow> dm_ok d1" by auto
  with update_events_total [OF assms(1), of "dm_event_in_of demo m" d1] p show ?thesis by (auto simp: dm_run_step_def)
qed

text \<open>Consecutive steps.\<close>

fun dm_run :: "dm_config \<Rightarrow> bool \<Rightarrow> dm_messages list \<Rightarrow> dm \<Rightarrow> dm result" where
  "dm_run cf demo [] d = Inr d"
| "dm_run cf demo (m # ms) d = bind_result (dm_run_step cf demo m d) (dm_run cf demo ms)"

lemma dm_run_append: "dm_run cf demo (ms @ ns) d = bind_result (dm_run cf demo ms d) (dm_run cf demo ns)"
  by (induction ms arbitrary: d) (auto simp: bind_result_def split: sum.splits)

lemma dm_run_total:
  assumes "dm_table_ok cf" "\<forall>m\<in>set ms. msg_ok m"
  shows "\<exists>d1. dm_run cf demo ms d = Inr d1 \<and> (dm_ok d \<longrightarrow> dm_ok d1)"
  using assms(2)
proof (induction ms arbitrary: d)
  case (Cons m ms)
  from dm_run_step_total [OF assms(1), of m demo d] Cons.prems obtain d1 where
    "dm_run_step cf demo m d = Inr d1" "dm_ok d \<longrightarrow> dm_ok d1" by auto
  with Cons.IH [of d1] Cons.prems show ?case by auto
qed simp

section \<open>A driver with closed eyes\<close>

definition closed_data :: "driver_data \<Rightarrow> bool" where
  "closed_data x \<longleftrightarrow> data_complete x \<and> data_ok x \<and> dd_faceProb x > FACE_THRESHOLD
     \<and> dd_faceOrientationStd x ! 0 < POSESTD_THRESHOLD \<and> dd_faceOrientationStd x ! 1 < POSESTD_THRESHOLD
     \<and> dd_leftEyeProb x > EYE_THRESHOLD \<and> dd_rightEyeProb x > EYE_THRESHOLD \<and> dd_sunglassesProb x < SG_THRESHOLD
     \<and> (dd_leftBlinkProb x + dd_rightBlinkProb x) * (5/10) > BLINK_THRESHOLD"

text \<open>The seat of the driver as the code decides it from the state and the message, and what the model saw there.\<close>

definition seat_right :: "dm_messages \<Rightarrow> dm \<Rightarrow> bool" where
  "seat_right m d = dm_wheel_on_right (update_wheelpos (dm_update_of False m) d)"

definition seat_data :: "dm_messages \<Rightarrow> dm \<Rightarrow> driver_data" where
  "seat_data m d = (if seat_right m d then dv_rightDriverData (me_driverState m) else dv_leftDriverData (me_driverState m))"

text \<open>A driver with closed eyes in that seat, engaged and moving; the other seat does not matter.\<close>

definition engaged_moving :: "dm_messages \<Rightarrow> bool" where
  "engaged_moving m \<longleftrightarrow> me_brakeDisengageProbs m \<noteq> [] \<and> length (me_rpyCalib m) \<ge> 3 \<and> (me_enabled m \<or> me_latActive m) \<and> \<not> me_standstill m"

definition eyes_closed :: "dm_messages \<Rightarrow> dm \<Rightarrow> bool" where
  "eyes_closed m d \<longleftrightarrow> engaged_moving m \<and> closed_data (seat_data m d)"

text \<open>Such messages one after the other, each judged in the state it meets.\<close>

fun closed_run :: "dm_config \<Rightarrow> dm_messages list \<Rightarrow> dm \<Rightarrow> bool" where
  "closed_run cf [] d \<longleftrightarrow> True"
| "closed_run cf (m # ms) d \<longleftrightarrow> eyes_closed m d \<and> (case dm_run_step cf False m d of Inl e \<Rightarrow> True | Inr d1 \<Rightarrow> closed_run cf ms d1)"

lemma closed_run_append:
  "closed_run cf (ms @ ns) d \<longleftrightarrow> closed_run cf ms d \<and> (case dm_run cf False ms d of Inl e \<Rightarrow> True | Inr d1 \<Rightarrow> closed_run cf ns d1)"
  by (induction ms arbitrary: d) (auto simp: bind_result_def split: sum.splits)

text \<open>The policy is not part of that decision.\<close>

lemma wheel_policy: "dm_wheel_on_right (update_wheelpos u (set_policy p v d)) = dm_wheel_on_right (update_wheelpos u d)"
proof -
  have frame: "dm_wheelpos (set_policy p v d) = dm_wheelpos d" "dm_wheel_on_right_default (set_policy p v d) = dm_wheel_on_right_default d"
    "dm_wheel_on_right_last (set_policy p v d) = dm_wheel_on_right_last d"
    by (simp_all add: set_policy_def Let_def)
  show ?thesis unfolding update_wheelpos_def Let_def frame by (simp split del: if_split)
qed

lemma seat_policy: "driver_data_of (dm_update_of False m) (update_wheelpos (dm_update_of False m) (set_policy p v d)) = seat_data m d"
  by (simp add: seat_data_def seat_right_def driver_data_of_def wheel_policy dm_update_of_def)

text \<open>The parts before the timers see the distraction and start the filter.\<close>

definition before_timers :: "dm_config \<Rightarrow> dm_update \<Rightarrow> driver_data \<Rightarrow> dm \<Rightarrow> dm" where
  "before_timers cf u x d = update_dcam_counts u (update_offsets u (update_distraction cf x d))"

lemma before_timers_frame [simp]:
  "dm_face_detected (before_timers cf u x d) = dm_face_detected d" "dm_hi_stds (before_timers cf u x d) = dm_hi_stds d"
  "dm_active_mode (before_timers cf u x d) = dm_active_mode d" "dm_awareness (before_timers cf u x d) = dm_awareness d"
  "dm_awareness_active (before_timers cf u x d) = dm_awareness_active d"
  "dp_low_std (dm_pose (before_timers cf u x d)) = dp_low_std (dm_pose d)"
  by (simp_all add: before_timers_def update_dcam_counts_def update_offsets_def update_distraction_def Let_def)

lemma before_timers_closed:
  assumes "closed_data x" "dp_low_std (dm_pose d)"
    "bl_left (dm_blink d) = eye_blink (dd_leftBlinkProb x) (dd_leftEyeProb x) x"
    "bl_right (dm_blink d) = eye_blink (dd_rightBlinkProb x) (dd_rightEyeProb x) x"
  shows "dm_driver_distracted (before_timers cf u x d)" "dm_filter (before_timers cf u x d) = fof_update 1 (dm_filter d)"
proof -
  have blink: "DISTRACTED_BLINK \<in> set (get_distracted_types cf d)"
    using assms by (simp add: get_distracted_types_def closed_data_def eye_blink_def)
  have "dm_driver_distracted (update_distraction cf x d)" "dm_filter (update_distraction cf x d) = fof_update 1 (dm_filter d)"
    using assms blink by (simp_all add: update_distraction_def Let_def closed_data_def)
  then show "dm_driver_distracted (before_timers cf u x d)" "dm_filter (before_timers cf u x d) = fof_update 1 (dm_filter d)"
    by (simp_all add: before_timers_def update_dcam_counts_def update_offsets_def Let_def)
qed

lemma before_timers_ok: "dm_ok d \<Longrightarrow> dm_ok (before_timers cf u x d)"
  by (simp add: before_timers_def update_distraction_ok)

lemma set_timers_frame [simp]:
  "dm_face_detected (set_timers b d) = dm_face_detected d" "dm_driver_distracted (set_timers b d) = dm_driver_distracted d"
  "dm_pose (set_timers b d) = dm_pose d" "dm_filter (set_timers b d) = dm_filter d" "dm_hi_stds (set_timers b d) = dm_hi_stds d"
  by (simp_all add: set_timers_def active_timers_def passive_timers_def Let_def)

text \<open>The monitoring mode when the face is seen well.\<close>

lemma monitoring_mode_seen:
  assumes "dm_face_detected d" "dp_low_std (dm_pose d)" "dm_ok d"
  shows "dm_hi_stds (update_monitoring_mode d) = 0" "dm_filter (update_monitoring_mode d) = dm_filter d"
    "dm_face_detected (update_monitoring_mode d)" "dm_driver_distracted (update_monitoring_mode d) = dm_driver_distracted d"
    "dm_hi_stds d \<le> 200 \<Longrightarrow> dm_active_mode (update_monitoring_mode d) \<or> dm_awareness (update_monitoring_mode d) \<le> 0"
    "dm_hi_stds d \<le> 200 \<Longrightarrow> dm_active_mode (update_monitoring_mode d) \<Longrightarrow> dm_step_change (update_monitoring_mode d) = 1/220"
    "dm_hi_stds d \<le> 200 \<Longrightarrow> dm_active_mode d \<or> dm_awareness d \<le> 0 \<Longrightarrow>
      dm_awareness (update_monitoring_mode d) = dm_awareness d \<and> dm_active_mode (update_monitoring_mode d) = dm_active_mode d"
  using assms by (auto simp: update_monitoring_mode_def Let_def set_timers_def active_timers_def passive_timers_def dm_ok_def)

lemma closed_states:
  assumes x: "closed_data (driver_data_of u (update_wheelpos u d))" and len: "length (du_cal_rpy u) \<ge> 3" and ok: "dm_ok d"
  shows "\<exists>e. update_states cf u d = Inr e \<and> dm_ok e \<and> dm_hi_stds e = 0 \<and> dm_face_detected e \<and> dm_driver_distracted e
    \<and> dm_filter e = fof_update 1 (dm_filter d)
    \<and> (dm_hi_stds d \<le> 200 \<longrightarrow> (dm_active_mode e \<or> dm_awareness e \<le> 0) \<and> (dm_active_mode e \<longrightarrow> dm_step_change e = 1/220)
        \<and> (dm_active_mode d \<or> dm_awareness d \<le> 0 \<longrightarrow> dm_awareness e = dm_awareness d \<and> dm_active_mode e = dm_active_mode d))"
proof -
  let ?d0 = "update_wheelpos u d"
  let ?x = "driver_data_of u ?d0"
  from x have "data_complete ?x" "data_ok ?x" by (simp_all add: closed_data_def)
  from update_face_spec [OF this len] obtain d1 where
    d1: "update_face u ?x ?d0 = Inr d1" "dm_ok ?d0 \<longrightarrow> dm_ok d1" "dm_face_detected d1 = (dd_faceProb ?x > FACE_THRESHOLD)"
      "dp_low_std (dm_pose d1) = (max (dd_faceOrientationStd ?x ! 0) (dd_faceOrientationStd ?x ! 1) < POSESTD_THRESHOLD)"
      "bl_left (dm_blink d1) = eye_blink (dd_leftBlinkProb ?x) (dd_leftEyeProb ?x) ?x"
      "bl_right (dm_blink d1) = eye_blink (dd_rightBlinkProb ?x) (dd_rightEyeProb ?x) ?x"
      "dm_filter d1 = dm_filter ?d0" "dm_hi_stds d1 = dm_hi_stds ?d0" "dm_active_mode d1 = dm_active_mode ?d0"
      "dm_awareness d1 = dm_awareness ?d0" by blast
  have frame: "dm_filter ?d0 = dm_filter d" "dm_hi_stds ?d0 = dm_hi_stds d" "dm_active_mode ?d0 = dm_active_mode d" "dm_awareness ?d0 = dm_awareness d"
    by (simp_all add: update_wheelpos_def Let_def)
  have seen: "dm_face_detected d1" "dp_low_std (dm_pose d1)" using x d1(3,4) by (simp_all add: closed_data_def)
  let ?b = "before_timers cf u ?x d1"
  have b: "dm_driver_distracted ?b" "dm_filter ?b = fof_update 1 (dm_filter d)" "dm_ok ?b"
    using before_timers_closed [OF x seen(2) d1(5,6)] d1(2,7) frame ok before_timers_ok by simp_all
  have seen_b: "dm_face_detected ?b" "dp_low_std (dm_pose ?b)" using seen by simp_all
  note m = monitoring_mode_seen [OF seen_b b(3)]
  have "update_states cf u d = Inr (update_monitoring_mode ?b)"
    using x d1(1) by (simp add: update_states_def Let_def closed_data_def before_timers_def)
  moreover have "dm_ok (update_monitoring_mode ?b)" using b(3) by (rule update_monitoring_mode_ok)
  ultimately show ?thesis using m b d1(8-10) frame by auto
qed

lemma events_parts_frame [simp]:
  "dm_filter (update_lockout d) = dm_filter d" "dm_hi_stds (update_lockout d) = dm_hi_stds d" "dm_active_mode (update_lockout d) = dm_active_mode d"
  "dm_awareness (update_lockout d) = dm_awareness d" "dm_step_change (update_lockout d) = dm_step_change d"
  "dm_face_detected (update_lockout d) = dm_face_detected d" "dm_driver_distracted (update_lockout d) = dm_driver_distracted d"
  "dm_filter (dm_reset_events cf d) = dm_filter d" "dm_hi_stds (dm_reset_events cf d) = dm_hi_stds d" "dm_active_mode (dm_reset_events cf d) = dm_active_mode d"
  "dm_awareness (dm_reset_events cf d) = dm_awareness d" "dm_step_change (dm_reset_events cf d) = dm_step_change d"
  "dm_face_detected (dm_reset_events cf d) = dm_face_detected d" "dm_driver_distracted (dm_reset_events cf d) = dm_driver_distracted d"
  "dm_filter (reset_awareness d) = dm_filter d" "dm_hi_stds (reset_awareness d) = dm_hi_stds d" "dm_active_mode (reset_awareness d) = dm_active_mode d"
  "dm_filter (recover_awareness d) = dm_filter d" "dm_hi_stds (recover_awareness d) = dm_hi_stds d" "dm_active_mode (recover_awareness d) = dm_active_mode d"
  by (simp_all add: update_lockout_def dm_reset_events_def reset_awareness_def recover_awareness_def add_dm_event_def Let_def)

lemma alerted_frame [simp]:
  "dm_filter (alerted a w d) = dm_filter d" "dm_hi_stds (alerted a w d) = dm_hi_stds d" "dm_active_mode (alerted a w d) = dm_active_mode d"
  "dm_awareness (alerted a w d) = dm_awareness (count_distraction a d)"
  by (simp_all add: alerted_def count_terminal_def count_distraction_def add_dm_event_def Let_def split: option.splits)

definition red_alert :: "dm \<Rightarrow> bool" where
  "red_alert d \<longleftrightarrow> ev_has ev_driverDistracted (dm_events d) \<or> ev_has ev_driverUnresponsive (dm_events d)"

lemma alerted_red: "dm_awareness (count_distraction a d) \<le> 0 \<Longrightarrow> red_alert (alerted a w d)"
  by (auto simp: alerted_def Let_def dm_alert_def count_terminal_def red_alert_def add_dm_event_def)

lemma count_and_alert_frame:
  assumes "dm_table_ok cf"
  shows "\<exists>d1. count_and_alert cf a w d = Inr d1 \<and> dm_filter d1 = dm_filter d \<and> dm_hi_stds d1 = dm_hi_stds d
    \<and> dm_active_mode d1 = dm_active_mode d \<and> dm_awareness d1 = dm_awareness (count_distraction a d)
    \<and> (dm_awareness d1 \<le> 0 \<longrightarrow> red_alert d1)"
  using count_and_alert_total [OF assms, of a w d] alerted_red [of a d w] by (auto simp: red_alert_def split: if_splits)

lemma update_events_frame:
  assumes tab: "dm_table_ok cf"
  shows "\<exists>d1. dm_update_events cf a d = Inr d1 \<and> (dm_ok d \<longrightarrow> dm_ok d1) \<and> dm_filter d1 = dm_filter d \<and> dm_hi_stds d1 = dm_hi_stds d
    \<and> dm_active_mode d1 = dm_active_mode d"
proof -
  let ?d = "update_lockout (dm_reset_events cf d)"
  from update_events_total [OF tab, of a d] obtain d1 where d1: "dm_update_events cf a d = Inr d1" "dm_ok d \<longrightarrow> dm_ok d1" by blast
  have "dm_filter d1 = dm_filter d \<and> dm_hi_stds d1 = dm_hi_stds d \<and> dm_active_mode d1 = dm_active_mode d"
    using d1(1) count_and_alert_frame [OF tab, of a "dm_awareness ?d" ?d] count_and_alert_frame [OF tab, of a "dm_awareness ?d" "recover_awareness ?d"]
    by (auto simp: dm_update_events_def Let_def split: if_splits)
  with d1 show ?thesis by blast
qed

lemma closed_events:
  assumes tab: "dm_table_ok cf" and seen: "dm_face_detected e" "dm_driver_distracted e" and x: "63/100 < ff_x (dm_filter e)"
    and mode: "dm_active_mode e \<or> dm_awareness e \<le> 0" and a: "de_op_engaged a" "\<not> de_standstill a"
  shows "\<exists>d1. dm_update_events cf a e = Inr d1 \<and> dm_awareness d1 = max (dm_awareness e - dm_step_change e) (-1/10)
    \<and> (dm_awareness d1 \<le> 0 \<longrightarrow> red_alert d1)"
proof -
  let ?d = "update_lockout (dm_reset_events cf e)"
  have "\<not> awareness_resets a ?d" using mode a by (auto simp: awareness_resets_def always_on_valid_def)
  moreover have "\<not> attentive ?d" using x by (simp add: attentive_def)
  ultimately have eq: "dm_update_events cf a e = count_and_alert cf a (dm_awareness ?d) ?d" by (simp add: dm_update_events_def Let_def)
  have "counts_distraction a ?d" using seen x a
    by (simp add: counts_distraction_def Let_def always_on_lowspeed_def)
  then have "dm_awareness (count_distraction a ?d) = max (dm_awareness e - dm_step_change e) (-1/10)"
    by (simp add: count_distraction_def)
  with count_and_alert_frame [OF tab, of a "dm_awareness ?d" ?d] eq show ?thesis by auto
qed

section \<open>The count down\<close>

lemma filter_closed: "dm_ok d \<Longrightarrow> ff_x (fof_update 1 (dm_filter d)) = 5/6 * ff_x (dm_filter d) + 1/6"
proof -
  assume "dm_ok d"
  then have "ff_alpha (dm_filter d) = 1/6" "ff_initialized (dm_filter d)" unfolding dm_ok_def by blast+
  then show ?thesis by (simp only: fof_update_def if_True fof.simps) simp
qed

lemma closed_step:
  assumes tab: "dm_table_ok cf" and m: "eyes_closed m d" and ok: "dm_ok d"
  shows "\<exists>d1. dm_run_step cf False m d = Inr d1 \<and> dm_ok d1 \<and> dm_hi_stds d1 = 0 \<and> dm_filter d1 = fof_update 1 (dm_filter d)
    \<and> (dm_hi_stds d \<le> 200 \<and> 56/100 \<le> ff_x (dm_filter d) \<longrightarrow>
        (dm_active_mode d1 \<and> dm_awareness d1 \<le> 219/220 \<or> dm_awareness d1 \<le> 0)
        \<and> (dm_active_mode d \<and> 0 < dm_awareness d \<longrightarrow> dm_active_mode d1 \<and> dm_awareness d1 \<le> max (dm_awareness d - 1/220) (-1/10))
        \<and> (dm_awareness d \<le> 0 \<longrightarrow> dm_awareness d1 \<le> 0)
        \<and> (dm_awareness d1 \<le> 0 \<longrightarrow> red_alert d1))"
proof -
  let ?u = "dm_update_of False m" and ?a = "dm_event_in_of False m"
  let ?p = "set_policy (me_brakeDisengageProbs m ! 0) (me_vEgo m) d"
  have u: "closed_data (driver_data_of ?u (update_wheelpos ?u ?p))" "length (du_cal_rpy ?u) \<ge> 3"
    and a: "de_op_engaged ?a" "\<not> de_standstill ?a" and b: "me_brakeDisengageProbs m \<noteq> []"
    using m unfolding seat_policy by (auto simp: eyes_closed_def engaged_moving_def dm_update_of_def dm_event_in_of_def)
  have frame: "dm_hi_stds ?p = dm_hi_stds d" "dm_filter ?p = dm_filter d" "dm_awareness ?p = dm_awareness d"
    "dm_active_mode ?p = dm_active_mode d" by (simp_all add: set_policy_def Let_def)
  from closed_states [OF u, of cf] ok frame obtain e where
    e: "update_states cf ?u ?p = Inr e" "dm_ok e" "dm_hi_stds e = 0" "dm_face_detected e" "dm_driver_distracted e" "dm_filter e = fof_update 1 (dm_filter d)"
      "dm_hi_stds d \<le> 200 \<longrightarrow> (dm_active_mode e \<or> dm_awareness e \<le> 0) \<and> (dm_active_mode e \<longrightarrow> dm_step_change e = 1/220)
        \<and> (dm_active_mode d \<or> dm_awareness d \<le> 0 \<longrightarrow> dm_awareness e = dm_awareness d \<and> dm_active_mode e = dm_active_mode d)" by auto
  from update_events_frame [OF tab, of ?a e] e(2,3,6) obtain d1 where
    d1: "dm_update_events cf ?a e = Inr d1" "dm_ok d1" "dm_hi_stds d1 = 0" "dm_filter d1 = fof_update 1 (dm_filter d)" "dm_active_mode d1 = dm_active_mode e" by auto
  have step: "dm_run_step cf False m d = Inr d1"
    using e(1) d1(1) b by (simp add: dm_run_step_def py_nth_ok)
  moreover have "(dm_active_mode d1 \<and> dm_awareness d1 \<le> 219/220 \<or> dm_awareness d1 \<le> 0)
        \<and> (dm_active_mode d \<and> 0 < dm_awareness d \<longrightarrow> dm_active_mode d1 \<and> dm_awareness d1 \<le> max (dm_awareness d - 1/220) (-1/10))
        \<and> (dm_awareness d \<le> 0 \<longrightarrow> dm_awareness d1 \<le> 0) \<and> (dm_awareness d1 \<le> 0 \<longrightarrow> red_alert d1)"
    if h: "dm_hi_stds d \<le> 200" "56/100 \<le> ff_x (dm_filter d)"
  proof -
    have "63/100 < ff_x (dm_filter e)" using h(2) filter_closed [OF ok] by (simp add: e(6))
    from closed_events [OF tab e(4,5) this _ a] e(7) h(1) d1(1)
    have aw: "dm_awareness d1 = max (dm_awareness e - dm_step_change e) (-1/10)" "dm_awareness d1 \<le> 0 \<longrightarrow> red_alert d1" by auto
    have "0 \<le> dm_step_change e" "dm_awareness e \<le> 1" using e(2) by (auto simp: dm_ok_def in_range_def dest: mode_steps_nonneg)
    with aw e(7) h(1) d1(5) show ?thesis by auto
  qed
  ultimately show ?thesis using d1 by blast
qed

text \<open>Five cycles bring the filter beyond the threshold whatever its value was.\<close>

lemma closed_filter:
  assumes tab: "dm_table_ok cf" and "closed_run cf ms d" "dm_ok d"
  shows "\<exists>d1. dm_run cf False ms d = Inr d1 \<and> dm_ok d1 \<and> (ms \<noteq> [] \<longrightarrow> dm_hi_stds d1 = 0) \<and> 1 - ff_x (dm_filter d1) \<le> (5/6) ^ length ms"
  using assms(2,3)
proof (induction ms rule: rev_induct)
  case Nil
  then show ?case by (simp add: dm_ok_def)
next
  case (snoc m ms)
  then obtain d1 where d1: "dm_run cf False ms d = Inr d1" "dm_ok d1" "1 - ff_x (dm_filter d1) \<le> (5/6) ^ length ms"
    by (auto simp: closed_run_append)
  from closed_step [OF tab _ d1(2), of m] snoc.prems d1(1) obtain d2 where
    d2: "dm_run_step cf False m d1 = Inr d2" "dm_ok d2" "dm_hi_stds d2 = 0" "dm_filter d2 = fof_update 1 (dm_filter d1)"
    by (auto simp: closed_run_append)
  have "1 - ff_x (dm_filter d2) = 5/6 * (1 - ff_x (dm_filter d1))" using filter_closed [OF d1(2)] d2(4) by simp
  also have "\<dots> \<le> 5/6 * (5/6) ^ length ms" using d1(3) by (intro mult_left_mono) simp_all
  finally show ?case using d1(1) d2 by (simp add: dm_run_append)
qed

definition counting :: "nat \<Rightarrow> dm \<Rightarrow> bool" where
  "counting n d \<longleftrightarrow> dm_ok d \<and> dm_hi_stds d = 0 \<and> 56/100 \<le> ff_x (dm_filter d)
     \<and> (dm_active_mode d \<and> 0 < dm_awareness d \<and> dm_awareness d \<le> 1 - real n / 220 \<or> dm_awareness d \<le> 0 \<and> red_alert d)"

lemma counting_step:
  assumes tab: "dm_table_ok cf" and m: "eyes_closed m d" and ok: "dm_ok d" "dm_hi_stds d = 0" "56/100 \<le> ff_x (dm_filter d)"
    and n: "n = 0 \<or> counting n d"
  shows "\<exists>d1. dm_run_step cf False m d = Inr d1 \<and> counting (Suc n) d1"
proof -
  from closed_step [OF tab m ok(1)] ok obtain d1 where
    d1: "dm_run_step cf False m d = Inr d1" "dm_ok d1" "dm_hi_stds d1 = 0" "dm_filter d1 = fof_update 1 (dm_filter d)"
      "dm_active_mode d1 \<and> dm_awareness d1 \<le> 219/220 \<or> dm_awareness d1 \<le> 0"
      "dm_active_mode d \<and> 0 < dm_awareness d \<longrightarrow> dm_active_mode d1 \<and> dm_awareness d1 \<le> max (dm_awareness d - 1/220) (-1/10)"
      "dm_awareness d \<le> 0 \<longrightarrow> dm_awareness d1 \<le> 0" "dm_awareness d1 \<le> 0 \<longrightarrow> red_alert d1" by auto
  have x: "56/100 \<le> ff_x (dm_filter d1)" using filter_closed [OF ok(1)] ok(3) by (simp add: d1(4))
  have "dm_active_mode d1 \<and> dm_awareness d1 \<le> 1 - real (Suc n) / 220" if pos: "0 < dm_awareness d1"
  proof (cases "n = 0")
    case True
    with d1(5) pos show ?thesis by auto
  next
    case False
    with n have c: "counting n d" by simp
    with d1(7) pos have "dm_active_mode d" "0 < dm_awareness d" "dm_awareness d \<le> 1 - real n / 220" by (auto simp: counting_def)
    with d1(6) pos show ?thesis by (auto simp: field_simps)
  qed
  with d1 x have "counting (Suc n) d1" unfolding counting_def by (cases "0 < dm_awareness d1") auto
  with d1(1) show ?thesis by blast
qed

lemma counting_run:
  assumes tab: "dm_table_ok cf" and ok: "dm_ok d" "dm_hi_stds d = 0" "56/100 \<le> ff_x (dm_filter d)"
    and "closed_run cf ms d" "ms \<noteq> []"
  shows "\<exists>d1. dm_run cf False ms d = Inr d1 \<and> counting (length ms) d1"
  using assms(5,6)
proof (induction ms rule: rev_induct)
  case (snoc m ms)
  show ?case
  proof (cases "ms = []")
    case True
    with counting_step [OF tab _ ok, of m 0] snoc.prems show ?thesis by auto
  next
    case False
    with snoc obtain d1 where d1: "dm_run cf False ms d = Inr d1" "counting (length ms) d1" by (auto simp: closed_run_append)
    then have ok1: "dm_ok d1" "dm_hi_stds d1 = 0" "56/100 \<le> ff_x (dm_filter d1)" by (auto simp: counting_def)
    from counting_step [OF tab _ ok1, of m "length ms"] d1 snoc.prems show ?thesis by (auto simp: dm_run_append closed_run_append)
  qed
qed simp

lemma closed_red:
  assumes tab: "dm_table_ok cf" and ok: "dm_ok d" and closed: "closed_run cf ms d" and len: "225 \<le> length ms"
  shows "\<exists>d1. dm_run cf False ms d = Inr d1 \<and> red_alert d1"
proof -
  define as where "as = take 5 ms"
  define bs where "bs = drop 5 ms"
  have ms: "ms = as @ bs" and la: "length as = 5" and lb: "220 \<le> length bs" using len by (simp_all add: as_def bs_def)
  have ne: "as \<noteq> []" "bs \<noteq> []" using la lb by auto
  have "closed_run cf as d" using closed by (simp add: ms closed_run_append)
  from closed_filter [OF tab this ok] la ne(1) obtain d1 where
    d1: "dm_run cf False as d = Inr d1" "dm_ok d1" "dm_hi_stds d1 = 0" "1 - ff_x (dm_filter d1) \<le> (5/6) ^ 5" by auto
  from d1(4) have x: "56/100 \<le> ff_x (dm_filter d1)" by (simp add: eval_nat_numeral)
  have "closed_run cf bs d1" using closed d1(1) by (simp add: ms closed_run_append)
  from counting_run [OF tab d1(2,3) x this ne(2)] obtain d2 where
    d2: "dm_run cf False bs d1 = Inr d2" "counting (length bs) d2" by blast
  have "red_alert d2" using d2(2) lb by (auto simp: counting_def)
  with d1(1) d2(1) show ?thesis by (auto simp: ms dm_run_append)
qed

section \<open>The seat while engaged\<close>

text \<open>
  Once a driver has been seen in a seat, the seat is not changed while openpilot or MADS is
  engaged: then the messages need the closed eyes on that side only.
\<close>

lemma seat_kept:
  assumes "dm_wheel_on_right_last d = Some l" "me_enabled m \<or> me_latActive m" shows "seat_right m d = l"
  using assms by (auto simp: seat_right_def update_wheelpos_def dm_update_of_def Let_def)

lemma last_update_face: "update_face u x d = Inr e \<Longrightarrow> dm_wheel_on_right_last e = Some (dm_wheel_on_right d)"
  by (auto simp: update_face_def Let_def bind_result_Inr_iff split_def)

lemma last_frame [simp]:
  "dm_wheel_on_right_last (before_timers cf u x d) = dm_wheel_on_right_last d"
  "dm_wheel_on_right_last (update_monitoring_mode d) = dm_wheel_on_right_last d"
  "dm_wheel_on_right_last (update_lockout d) = dm_wheel_on_right_last d"
  "dm_wheel_on_right_last (dm_reset_events cf d) = dm_wheel_on_right_last d"
  "dm_wheel_on_right_last (reset_awareness d) = dm_wheel_on_right_last d"
  "dm_wheel_on_right_last (recover_awareness d) = dm_wheel_on_right_last d"
  by (simp_all add: before_timers_def update_dcam_counts_def update_offsets_def update_distraction_def update_monitoring_mode_def
      set_timers_def active_timers_def passive_timers_def update_lockout_def dm_reset_events_def reset_awareness_def
      recover_awareness_def add_dm_event_def Let_def)

lemma last_count_and_alert: "count_and_alert cf a w d = Inr e \<Longrightarrow> dm_wheel_on_right_last e = dm_wheel_on_right_last d"
  by (auto simp: count_and_alert_def report_uncertain_def count_terminal_def count_distraction_def add_dm_event_def
      bind_result_Inr_iff Let_def split: option.splits if_splits)

lemma last_events: "dm_update_events cf a d = Inr e \<Longrightarrow> dm_wheel_on_right_last e = dm_wheel_on_right_last d"
  by (auto simp: dm_update_events_def Let_def dest: last_count_and_alert split: if_splits)

lemma last_seat:
  assumes "dm_run_step cf False m d = Inr e" "data_complete (seat_data m d)"
  shows "dm_wheel_on_right_last e = Some (seat_right m d)"
proof -
  let ?u = "dm_update_of False m"
  from assms(1) obtain p f where f: "update_states cf ?u (set_policy p (me_vEgo m) d) = Inr f" "dm_update_events cf (dm_event_in_of False m) f = Inr e"
    by (auto simp: dm_run_step_def bind_result_Inr_iff)
  let ?d = "update_wheelpos ?u (set_policy p (me_vEgo m) d)"
  have "dm_wheel_on_right_last f = Some (dm_wheel_on_right ?d)"
    using f(1) assms(2) unfolding update_states_def Let_def seat_policy before_timers_def [symmetric]
    by (auto simp: bind_result_Inr_iff dest: last_update_face)
  moreover have "dm_wheel_on_right ?d = seat_right m d" by (simp add: seat_right_def wheel_policy)
  ultimately show ?thesis using last_events [OF f(2)] by simp
qed

definition closed_on :: "bool \<Rightarrow> dm_messages \<Rightarrow> bool" where
  "closed_on right m \<longleftrightarrow> engaged_moving m
     \<and> closed_data (if right then dv_rightDriverData (me_driverState m) else dv_leftDriverData (me_driverState m))"

lemma closed_run_seat:
  assumes "\<forall>m\<in>set ms. closed_on r m" "\<forall>m\<in>set ms. seat_right m d = r"
  shows "closed_run cf ms d"
  using assms
proof (induction ms arbitrary: d)
  case (Cons m ms)
  then have m: "eyes_closed m d" "closed_data (seat_data m d)" by (auto simp: eyes_closed_def closed_on_def seat_data_def)
  have "closed_run cf ms e" if e: "dm_run_step cf False m d = Inr e" for e
  proof (rule Cons.IH)
    from last_seat [OF e] m(2) Cons.prems(2) have "dm_wheel_on_right_last e = Some r" by (simp add: closed_data_def)
    with Cons.prems(1) show "\<forall>n\<in>set ms. seat_right n e = r" by (auto simp: closed_on_def engaged_moving_def intro!: seat_kept)
  qed (use Cons.prems in simp)
  with m(1) show ?case by (simp split: sum.split)
qed simp

section \<open>The lockout\<close>

definition locked :: "dm \<Rightarrow> bool" where
  "locked d \<longleftrightarrow> dm_too_distracted d \<or> dm_terminal_alert_cnt d \<ge> 3 \<or> dm_terminal_time d \<ge> 600"

lemma lock_frame:
  assumes "update_states cf u d = Inr e"
  shows "dm_too_distracted e = dm_too_distracted d" "dm_terminal_alert_cnt e = dm_terminal_alert_cnt d" "dm_terminal_time e = dm_terminal_time d"
proof -
  have parts: "dm_too_distracted (update_wheelpos u d) = dm_too_distracted d" "dm_terminal_alert_cnt (update_wheelpos u d) = dm_terminal_alert_cnt d"
    "dm_terminal_time (update_wheelpos u d) = dm_terminal_time d" for d by (simp_all add: update_wheelpos_def Let_def)
  have rest: "dm_too_distracted (before_timers cf u x f) = dm_too_distracted f" "dm_terminal_alert_cnt (before_timers cf u x f) = dm_terminal_alert_cnt f"
    "dm_terminal_time (before_timers cf u x f) = dm_terminal_time f" for x f
    by (simp_all add: before_timers_def update_dcam_counts_def update_offsets_def update_distraction_def Let_def)
  have mode: "dm_too_distracted (update_monitoring_mode f) = dm_too_distracted f" "dm_terminal_alert_cnt (update_monitoring_mode f) = dm_terminal_alert_cnt f"
    "dm_terminal_time (update_monitoring_mode f) = dm_terminal_time f" for f
    by (simp_all add: update_monitoring_mode_def set_timers_def active_timers_def passive_timers_def Let_def)
  have face: "dm_too_distracted f = dm_too_distracted g \<and> dm_terminal_alert_cnt f = dm_terminal_alert_cnt g \<and> dm_terminal_time f = dm_terminal_time g"
    if "update_face u x g = Inr f" for x f g
    using that by (auto simp: update_face_def Let_def bind_result_Inr_iff split_def)
  show "dm_too_distracted e = dm_too_distracted d" "dm_terminal_alert_cnt e = dm_terminal_alert_cnt d" "dm_terminal_time e = dm_terminal_time d"
    using assms face unfolding update_states_def Let_def before_timers_def [symmetric]
    by (auto simp: bind_result_Inr_iff parts rest mode split: if_splits)
qed

definition shows_lock :: "dm \<Rightarrow> bool" where
  "shows_lock d \<longleftrightarrow> dm_too_distracted d \<and> ev_has ev_tooDistracted (dm_events d)"

lemma shows_lock_parts:
  "locked d \<Longrightarrow> shows_lock (update_lockout (dm_reset_events cf d))"
  "shows_lock d \<Longrightarrow> shows_lock (reset_awareness d)" "shows_lock d \<Longrightarrow> shows_lock (recover_awareness d)"
  "shows_lock d \<Longrightarrow> shows_lock (alerted a w d)"
  by (auto simp: shows_lock_def locked_def update_lockout_def dm_reset_events_def reset_awareness_def recover_awareness_def
      alerted_def count_terminal_def count_distraction_def add_dm_event_def Let_def split: option.splits)

lemma lock_step:
  assumes tab: "dm_table_ok cf" and m: "msg_ok m" and l: "locked d"
  shows "\<exists>d1. dm_run_step cf demo m d = Inr d1 \<and> shows_lock d1"
proof -
  from dm_run_step_total [OF tab m, of demo d] obtain d1 where d1: "dm_run_step cf demo m d = Inr d1" by blast
  then obtain p e where e: "update_states cf (dm_update_of demo m) (set_policy p (if demo then 30 else me_vEgo m) d) = Inr e"
    "dm_update_events cf (dm_event_in_of demo m) e = Inr d1" by (auto simp: dm_run_step_def bind_result_Inr_iff)
  have "locked e" using l lock_frame [OF e(1)] by (simp add: locked_def set_policy_def Let_def)
  note s = shows_lock_parts(1) [OF this, of cf]
  let ?d = "update_lockout (dm_reset_events cf e)" and ?a = "dm_event_in_of demo m"
  have ca: "shows_lock f" if "shows_lock g" "count_and_alert cf ?a w g = Inr f" for f g w
    using that count_and_alert_total [OF tab, of ?a w g] shows_lock_parts(4) [OF that(1), of ?a w]
    by (auto simp: shows_lock_def split: if_splits)
  have "shows_lock d1"
    using e(2) s shows_lock_parts(2,3) [OF s] ca [of ?d] ca [of "recover_awareness ?d"]
    by (auto simp: dm_update_events_def Let_def split: if_splits)
  with d1 show ?thesis by blast
qed

lemma lock_run:
  assumes tab: "dm_table_ok cf" and ms: "\<forall>m\<in>set ms. msg_ok m" "ms \<noteq> []" and l: "locked d"
  shows "\<exists>d1. dm_run cf demo ms d = Inr d1 \<and> shows_lock d1"
  using ms l
proof (induction ms arbitrary: d)
  case (Cons m ms)
  from lock_step [OF tab, of m d demo] Cons.prems obtain d1 where d1: "dm_run_step cf demo m d = Inr d1" "shows_lock d1" by auto
  then have "locked d1" by (simp add: shows_lock_def locked_def)
  with Cons d1 show ?case by (cases "ms = []") auto
qed simp

section \<open>The start\<close>

lemma init_dm_ok: "dm_ok (DriverMonitoring_init cf rhd always_on p off)"
proof -
  have "ff_alpha (fof_init 0 DISTRACTED_FILTER_TS DT_DMON True) = 1/6" by (rule dm_filter_alpha)
  moreover have "ff_initialized (fof_init 0 DISTRACTED_FILTER_TS DT_DMON True)" "ff_x (fof_init 0 DISTRACTED_FILTER_TS DT_DMON True) = 0"
    by (simp_all add: fof_init_def fof_update_alpha_def)
  ultimately show ?thesis
    unfolding DriverMonitoring_init_def by (simp add: dm_ok_def set_timers_def active_timers_def reset_awareness_def dm_reset_events_def Let_def)
qed

section \<open>Properties\<close>

definition test_dm_config :: dm_config where
  "test_dm_config = \<lparr>dc_env = \<lparr>env_mici = False, env_short_branch = ''release'', env_REPLAY = False\<rparr>,
     dc_OFFROAD_ALERTS = (\<lambda>_. Some \<lparr>oa_text = '''', oa_severity = 0, oa_extra = ''''\<rparr>)\<rparr>"

definition face_data :: "real \<Rightarrow> driver_data" where
  "face_data blink = \<lparr>dd_faceOrientation = [0, 0, 0], dd_facePosition = [0, 0], dd_faceOrientationStd = [0, 0, 0], dd_facePositionStd = [0, 0],
     dd_faceProb = 1, dd_leftEyeProb = 1, dd_rightEyeProb = 1, dd_leftBlinkProb = blink, dd_rightBlinkProb = blink, dd_sunglassesProb = 0, dd_phoneProb = 0\<rparr>"

definition test_dm_message :: "real \<Rightarrow> dm_messages" where
  "test_dm_message blink = \<lparr>me_vEgo = 20, me_enabled = True, me_latActive = True, me_gearShifter = Gear_drive, me_standstill = False,
     me_steeringPressed = True, me_gasPressed = False, me_brakeDisengageProbs = [0], me_rpyCalib = [0, 0, 0],
     me_driverState = \<lparr>dv_wheelOnRightProb = 0, dv_leftDriverData = face_data blink,
       dv_rightDriverData = (face_data 0)\<lparr>dd_faceOrientation := [], dd_faceProb := 0\<rparr>\<rparr>\<rparr>"

lemma test_dm_ok: "dm_table_ok test_dm_config" "msg_ok (test_dm_message b)" "closed_on False (test_dm_message 1)"
  by (simp_all add: dm_table_ok_def test_dm_config_def msg_ok_def test_dm_message_def data_ok_def face_data_def closed_on_def engaged_moving_def
      closed_data_def data_complete_def FACE_THRESHOLD_def POSESTD_THRESHOLD_def EYE_THRESHOLD_def SG_THRESHOLD_def BLINK_THRESHOLD_def)

text \<open>
  C26. Driver monitoring started and run on any messages in order returns, its awareness values
  stay between -0.1 and 1, and its step and thresholds are those of the mode it is in: 1/220 or,
  when it pauses, 0 a cycle in the active mode, 1/600 in the passive mode.
\<close>

theorem monitoring_in_range:
  assumes "dm_table_ok cf" "\<forall>m\<in>set ms. msg_ok m"
  shows "\<exists>d. dm_run cf demo ms (DriverMonitoring_init cf rhd always_on p off) = Inr d \<and> dm_ok d"
  using dm_run_total [OF assms] init_dm_ok by meson

theorem monitoring_in_range_witness:
  "\<exists>d. dm_run test_dm_config False [test_dm_message 0, test_dm_message 1]
      (DriverMonitoring_init test_dm_config False False (\<lambda>_. None) (\<lambda>_. None)) = Inr d \<and> dm_ok d"
  by (rule monitoring_in_range) (simp_all add: test_dm_ok)

text \<open>
  C10. Closed eyes are not tolerated: from any state that monitoring reaches, 225 cycles, eleven
  and a quarter seconds, in which the model sees a complete face with closed eyes, no sunglasses
  and a certain pose in the seat that the code takes for the driver's, while openpilot or MADS is
  engaged and the car moves, end with the terminal alert, even if the driver holds the wheel or
  presses the accelerator. What is in the other seat, a passenger or nobody, does not matter; and
  by \<open>closed_run_seat\<close> the seat stays the one in which the driver was first seen.
\<close>

theorem closed_eyes_red_alert:
  assumes "dm_table_ok cf" "\<forall>m\<in>set ms. msg_ok m"
  shows "\<exists>d. dm_run cf False ms (DriverMonitoring_init cf rhd always_on p off) = Inr d
    \<and> (\<forall>cs. closed_run cf cs d \<and> 225 \<le> length cs \<longrightarrow>
         (\<exists>d1. dm_run cf False cs d = Inr d1 \<and> (ev_has ev_driverDistracted (dm_events d1) \<or> ev_has ev_driverUnresponsive (dm_events d1))))"
proof -
  from dm_run_total [OF assms] init_dm_ok obtain d where
    d: "dm_run cf False ms (DriverMonitoring_init cf rhd always_on p off) = Inr d" "dm_ok d" by meson
  from closed_red [OF assms(1) d(2)] d(1) show ?thesis unfolding red_alert_def by blast
qed

text \<open>A driver on the left who looks once, then closes the eyes, with nobody on the right.\<close>

definition test_monitoring :: dm where
  "test_monitoring = DriverMonitoring_init test_dm_config False False (\<lambda>_. None) (\<lambda>_. None)"

lemma test_seat: "\<not> seat_right (test_dm_message b) test_monitoring"
  by (simp add: seat_right_def update_wheelpos_def dm_update_of_def test_dm_message_def test_monitoring_def DriverMonitoring_init_def
      dm_reset_events_def set_timers_def active_timers_def reset_awareness_def DriverProb_init_def rf_init_def rf_push_def
      rs_init_def rs_reset_def rs_push_data_def WHEELPOS_MAX_COUNT_def WHEELPOS_FILTER_MIN_COUNT_def DT_DMON_def Let_def)

theorem closed_eyes_red_alert_witness:
  "\<exists>d d1. dm_run test_dm_config False [test_dm_message 0] test_monitoring = Inr d
    \<and> dm_run test_dm_config False (replicate 225 (test_dm_message 1)) d = Inr d1
    \<and> (ev_has ev_driverDistracted (dm_events d1) \<or> ev_has ev_driverUnresponsive (dm_events d1))"
proof -
  from closed_eyes_red_alert [OF test_dm_ok(1), of "[test_dm_message 0]" False False "\<lambda>_. None" "\<lambda>_. None"] obtain d where
    d: "dm_run test_dm_config False [test_dm_message 0] test_monitoring = Inr d" and
    red: "\<And>cs. closed_run test_dm_config cs d \<and> 225 \<le> length cs \<Longrightarrow> \<exists>d1. dm_run test_dm_config False cs d = Inr d1
      \<and> (ev_has ev_driverDistracted (dm_events d1) \<or> ev_has ev_driverUnresponsive (dm_events d1))"
    unfolding test_monitoring_def by (auto simp: test_dm_ok simp del: dm_run.simps)
  have "data_complete (seat_data (test_dm_message 0) test_monitoring)"
    using test_seat by (simp add: seat_data_def test_dm_message_def face_data_def data_complete_def)
  with d have "dm_wheel_on_right_last d = Some False"
    using last_seat [of test_dm_config "test_dm_message 0" test_monitoring d] test_seat by (auto simp: bind_result_Inr_iff)
  then have "seat_right (test_dm_message 1) d = False" by (rule seat_kept) (simp add: test_dm_message_def)
  then have "closed_run test_dm_config (replicate 225 (test_dm_message 1)) d"
    by (intro closed_run_seat [where r = False]) (simp_all add: test_dm_ok)
  with red [of "replicate 225 (test_dm_message 1)"] d show ?thesis by auto
qed

text \<open>
  C11. The lockout is permanent: after three terminal alerts, or thirty seconds of them, or when
  the stored parameter says so, every later cycle carries the event that forbids engaging.
\<close>

theorem lockout_is_permanent:
  assumes "dm_table_ok cf" "\<forall>m\<in>set ms. msg_ok m" "ms \<noteq> []"
    and "dm_too_distracted d \<or> dm_terminal_alert_cnt d \<ge> 3 \<or> dm_terminal_time d \<ge> 600"
  shows "\<exists>d1. dm_run cf demo ms d = Inr d1 \<and> ev_has ev_tooDistracted (dm_events d1)"
proof -
  have "locked d" using assms(4) by (simp add: locked_def)
  from lock_run [OF assms(1-3) this, of demo] show ?thesis by (auto simp: shows_lock_def)
qed

theorem lockout_is_permanent_witness:
  "\<exists>d1. dm_run test_dm_config False (replicate 7 (test_dm_message 0))
      ((DriverMonitoring_init test_dm_config False False (\<lambda>_. None) (\<lambda>_. None))\<lparr>dm_terminal_alert_cnt := 3\<rparr>) = Inr d1
    \<and> ev_has ev_tooDistracted (dm_events d1)"
  by (rule lockout_is_permanent) (simp_all add: test_dm_ok)

end
