(* ===== verification/Drive_Helpers.thy ===== *)
theory Drive_Helpers
  imports Prelude Car_Types Params
begin

text \<open>
  \<open>selfdrive/controls/lib/drive_helpers.py\<close>, the saturation check of \<open>latcontrol.py\<close>, the lane
  departure warning of \<open>ldw.py\<close> and sunnypilot's \<open>blinker_pause_lateral.py\<close>: the parts of
  lateral control that limit and gate what the controllers ask for.
\<close>

section \<open>drive\_helpers.py\<close>

definition MIN_SPEED :: real where "MIN_SPEED = 1"
definition CAR_ROTATION_RADIUS :: real where "CAR_ROTATION_RADIUS = 0"
definition MAX_CURVATURE :: real where "MAX_CURVATURE = 2/10"
definition MAX_VEL_ERR :: real where "MAX_VEL_ERR = 5"
definition MAX_LATERAL_JERK :: real where "MAX_LATERAL_JERK = 5"
definition MAX_LATERAL_ACCEL_NO_ROLL :: real where "MAX_LATERAL_ACCEL_NO_ROLL = 3"

definition clamp :: "real \<Rightarrow> real \<Rightarrow> real \<Rightarrow> real \<times> bool" where
  "clamp v lo hi = (let c = clip v lo hi in (c, c \<noteq> v))"

definition smooth_value :: "real \<Rightarrow> real \<Rightarrow> real \<Rightarrow> real \<Rightarrow> real" where
  "smooth_value v prev tau dt = (let alpha = (if tau > 0 then 1 - exp (- dt / tau) else 1) in alpha * v + (1 - alpha) * prev)"

definition clip_curvature :: "real \<Rightarrow> real \<Rightarrow> real \<Rightarrow> real \<Rightarrow> real \<times> bool" where
  "clip_curvature v_ego0 prev_curvature new_curvature roll =
     (let v_ego = max v_ego0 MIN_SPEED;
          max_curvature_rate = MAX_LATERAL_JERK / v_ego ^ 2;
          c1 = clip new_curvature (prev_curvature - max_curvature_rate * DT_CTRL) (prev_curvature + max_curvature_rate * DT_CTRL);
          roll_compensation = roll * ACCELERATION_DUE_TO_GRAVITY;
          max_lat_accel = MAX_LATERAL_ACCEL_NO_ROLL + roll_compensation;
          min_lat_accel = - MAX_LATERAL_ACCEL_NO_ROLL + roll_compensation;
          (c2, limited_accel) = clamp c1 (min_lat_accel / v_ego ^ 2) (max_lat_accel / v_ego ^ 2);
          (c3, limited_max_curv) = clamp c2 (- MAX_CURVATURE) MAX_CURVATURE
      in (c3, limited_accel \<or> limited_max_curv))"

text \<open>
  The plan is given at the times \<open>t_idxs\<close>. A list without a first element raises; interpolation
  over lists of different lengths does as well. \<open>action_t\<close> is positive.
\<close>

definition np_interp_lists :: "real \<Rightarrow> real list \<Rightarrow> real list \<Rightarrow> real result" where
  "np_interp_lists x xp fp = (if length xp = length fp \<and> xp \<noteq> [] then Inr (interp x (zip xp fp)) else Inl ValueError)"

definition get_accel_from_plan :: "real list \<Rightarrow> real list \<Rightarrow> real list \<Rightarrow> real \<Rightarrow> real \<Rightarrow> (real \<times> bool) result" where
  "get_accel_from_plan speeds accels t_idxs action_t vEgoStopping =
     bind_result
       (if length speeds = length t_idxs then
          if speeds = [] \<or> accels = [] then Inl IndexError
          else bind_result (np_interp_lists action_t t_idxs speeds) (\<lambda>v_target.
               bind_result (np_interp_lists (action_t + 1) t_idxs speeds) (\<lambda>v_target_1sec.
               Inr (v_target, v_target_1sec, 2 * (v_target - hd speeds) / action_t - hd accels)))
        else Inr (0, 0, 0))
       (\<lambda>(v_target, v_target_1sec, a_target). Inr (a_target, v_target < vEgoStopping \<and> v_target_1sec < vEgoStopping))"

definition curv_from_psis :: "real \<Rightarrow> real \<Rightarrow> real \<Rightarrow> real \<Rightarrow> real" where
  "curv_from_psis psi_target psi_rate vego0 action_t =
     (let vego = max vego0 MIN_SPEED in 2 * (psi_target / (vego * action_t)) - psi_rate / vego)"

definition get_curvature_from_plan :: "real list \<Rightarrow> real list \<Rightarrow> real list \<Rightarrow> real \<Rightarrow> real \<Rightarrow> real result" where
  "get_curvature_from_plan yaws yaw_rates t_idxs vego action_t =
     bind_result (np_interp_lists action_t t_idxs yaws) (\<lambda>psi_target.
     if yaw_rates = [] then Inl IndexError else Inr (curv_from_psis psi_target (hd yaw_rates) vego action_t))"

section \<open>The saturation check\<close>

record lat_control =
  lt_dt :: real
  lt_sat_limit :: real
  lt_sat_time :: real
  lt_sat_check_min_speed :: real
  lt_steer_max :: real

definition lat_control_init :: "car_params \<Rightarrow> real \<Rightarrow> lat_control" where
  "lat_control_init CP dt = \<lparr>lt_dt = dt, lt_sat_limit = cp_steerLimitTimer CP, lt_sat_time = 0, lt_sat_check_min_speed = 10, lt_steer_max = 1\<rparr>"

definition lat_control_reset :: "lat_control \<Rightarrow> lat_control" where
  "lat_control_reset c = c\<lparr>lt_sat_time := 0\<rparr>"

definition check_saturation :: "bool \<Rightarrow> car_state \<Rightarrow> bool \<Rightarrow> bool \<Rightarrow> lat_control \<Rightarrow> bool \<times> lat_control" where
  "check_saturation saturated CS steer_limited_by_safety curvature_limited c =
     (let t = (if (saturated \<or> curvature_limited) \<and> cs_vEgo CS > lt_sat_check_min_speed c \<and> \<not> steer_limited_by_safety
                  \<and> \<not> cs_steeringPressed CS then lt_sat_time c + lt_dt c else lt_sat_time c - lt_dt c);
          t1 = clip t 0 (lt_sat_limit c)
      in (t1 > lt_sat_limit c - 1/1000, c\<lparr>lt_sat_time := t1\<rparr>))"

section \<open>The lane departure warning\<close>

definition CAMERA_OFFSET :: real where "CAMERA_OFFSET = 4/100"
definition LDW_MIN_SPEED :: real where "LDW_MIN_SPEED = 31 * MPH_TO_MS"
definition LANE_DEPARTURE_THRESHOLD :: real where "LANE_DEPARTURE_THRESHOLD = 1/10"

record ldw =
  ld_left :: bool
  ld_right :: bool
  ld_last_blinker_frame :: int

definition ldw_init :: ldw where
  "ldw_init = \<lparr>ld_left = False, ld_right = False, ld_last_blinker_frame = 0\<rparr>"

text \<open>
  What it reads of \<open>modelV2\<close>: the probabilities of the desires and of the lane lines, the lane
  lines' first lateral positions. The model gives four lane lines, and a prediction for
  every desire or for none.
\<close>

record ldw_model =
  lm_desirePrediction :: "(desire \<Rightarrow> real) option"
  lm_laneLineProbs :: "real \<times> real \<times> real \<times> real"
  lm_laneLine_left_y :: real
  lm_laneLine_right_y :: real

definition ldw_update :: "int \<Rightarrow> ldw_model \<Rightarrow> car_state \<Rightarrow> car_control \<Rightarrow> ldw \<Rightarrow> ldw" where
  "ldw_update frame m CS CC l0 =
     (let l = (if cs_leftBlinker CS \<or> cs_rightBlinker CS then l0\<lparr>ld_last_blinker_frame := frame\<rparr> else l0);
          recent_blinker = (of_int (frame - ld_last_blinker_frame l) * DT_CTRL < 5);
          ldw_allowed = (cs_vEgo CS > LDW_MIN_SPEED \<and> \<not> recent_blinker \<and> \<not> cc_latActive CC);
          (_, prob_left, prob_right, _) = lm_laneLineProbs m
      in case lm_desirePrediction m of
           Some p \<Rightarrow> if ldw_allowed then
               let l_lane_close = (prob_left > 5/10 \<and> lm_laneLine_left_y m > - (108/100 + CAMERA_OFFSET));
                   r_lane_close = (prob_right > 5/10 \<and> lm_laneLine_right_y m < 108/100 - CAMERA_OFFSET)
               in l\<lparr>ld_left := p Desire_laneChangeLeft > LANE_DEPARTURE_THRESHOLD \<and> l_lane_close,
                    ld_right := p Desire_laneChangeRight > LANE_DEPARTURE_THRESHOLD \<and> r_lane_close\<rparr>
             else l\<lparr>ld_left := False, ld_right := False\<rparr>
         | None \<Rightarrow> l\<lparr>ld_left := False, ld_right := False\<rparr>)"

definition ldw_warning :: "ldw \<Rightarrow> bool" where
  "ldw_warning l \<longleftrightarrow> ld_left l \<or> ld_right l"

section \<open>Pausing lateral control at a blinker\<close>

record blinker_pause =
  bp_enabled :: bool
  bp_is_metric :: bool
  bp_min_speed :: int
  bp_reengage_delay :: int
  bp_blinker_off_timer :: real

definition blinker_pause_init :: "params \<Rightarrow> blinker_pause" where
  "blinker_pause_init p = \<lparr>bp_enabled = get_bool p ''BlinkerPauseLateralControl'', bp_is_metric = get_bool p ''IsMetric'',
     bp_min_speed = 0, bp_reengage_delay = 0, bp_blinker_off_timer = 0\<rparr>"

definition blinker_get_params :: "(string \<Rightarrow> int) \<Rightarrow> params \<Rightarrow> blinker_pause \<Rightarrow> blinker_pause" where
  "blinker_get_params dflt p b = b\<lparr>bp_enabled := get_bool p ''BlinkerPauseLateralControl'', bp_is_metric := get_bool p ''IsMetric'',
     bp_min_speed := get_int dflt p ''BlinkerMinLateralControlSpeed'', bp_reengage_delay := get_int dflt p ''BlinkerLateralReengageDelay''\<rparr>"

definition blinker_pause_update :: "car_state \<Rightarrow> real \<Rightarrow> blinker_pause \<Rightarrow> bool \<times> blinker_pause" where
  "blinker_pause_update CS dt b0 =
     (if \<not> bp_enabled b0 then (False, b0)
      else let one_blinker = (cs_leftBlinker CS \<noteq> cs_rightBlinker CS);
               speed_factor = (if bp_is_metric b0 then KPH_TO_MS else MPH_TO_MS);
               below_speed = (cs_vEgo CS < of_int (bp_min_speed b0) * speed_factor);
               b = (if one_blinker \<and> below_speed then b0\<lparr>bp_blinker_off_timer := of_int (bp_reengage_delay b0)\<rparr>
                    else if bp_blinker_off_timer b0 > 0 then b0\<lparr>bp_blinker_off_timer := bp_blinker_off_timer b0 - dt\<rparr> else b0)
           in ((one_blinker \<and> below_speed) \<or> bp_blinker_off_timer b > 0, b))"

section \<open>Facts\<close>

text \<open>Clipping towards an interval that holds \<open>p\<close> brings a value no farther from \<open>p\<close>.\<close>

lemma clip_towards:
  assumes "lo \<le> p" "p \<le> hi" shows "\<bar>clip x lo hi - p\<bar> \<le> \<bar>x - (p :: real)\<bar>"
  using assms by (auto simp: clip_def)

lemma clip_near: "0 \<le> r \<Longrightarrow> \<bar>clip x (p - r) (p + r) - (p :: real)\<bar> \<le> r"
  by (auto simp: clip_def)

lemma clip_keeps_upper: "x \<le> u \<Longrightarrow> lo \<le> u \<Longrightarrow> clip x lo hi \<le> (u :: real)"
  and clip_keeps_lower: "l \<le> x \<Longrightarrow> l \<le> hi \<Longrightarrow> l \<le> clip x lo (hi :: real)"
  by (auto simp: clip_def)

text \<open>The allowed curvatures at a speed and a roll: the maximum and the lateral acceleration.\<close>

definition lat_accel_ok :: "real \<Rightarrow> real \<Rightarrow> real \<Rightarrow> bool" where
  "lat_accel_ok v roll c \<longleftrightarrow> \<bar>c * (max v 1)^2 - roll * ACCELERATION_DUE_TO_GRAVITY\<bar> \<le> 3"

lemma lat_accel_iff:
  "lat_accel_ok v roll c \<longleftrightarrow> (- 3 + roll * ACCELERATION_DUE_TO_GRAVITY) / (max v 1)^2 \<le> c
    \<and> c \<le> (3 + roll * ACCELERATION_DUE_TO_GRAVITY) / (max v 1)^2"
proof -
  have "0 < (max v 1)^2" by (simp add: zero_less_power2)
  then show ?thesis unfolding lat_accel_ok_def by (auto simp: field_simps abs_le_iff)
qed

lemma clip_curvature_eq:
  "fst (clip_curvature v prev c roll) = clip (clip (clip c (prev - 5 / (max v 1)^2 * (1/100)) (prev + 5 / (max v 1)^2 * (1/100)))
     ((- 3 + roll * ACCELERATION_DUE_TO_GRAVITY) / (max v 1)^2) ((3 + roll * ACCELERATION_DUE_TO_GRAVITY) / (max v 1)^2)) (- (2/10)) (2/10)"
  by (simp add: clip_curvature_def clamp_def Let_def MIN_SPEED_def MAX_LATERAL_JERK_def DT_CTRL_def
      MAX_LATERAL_ACCEL_NO_ROLL_def MAX_CURVATURE_def)

section \<open>Properties\<close>

text \<open>
  Whatever curvature is asked for, the result is within the maximum; if the last curvature
  was allowed at the current speed and roll, so is the new one, with a lateral acceleration of
  at most 3 m/s^2 beside the roll's, and in one cycle it changes by a lateral jerk of at most
  5 m/s^3.
\<close>

theorem clip_curvature_limits:
  assumes "\<bar>prev\<bar> \<le> 2/10" "lat_accel_ok v roll prev"
  shows "\<bar>fst (clip_curvature v prev c roll)\<bar> \<le> 2/10 \<and> lat_accel_ok v roll (fst (clip_curvature v prev c roll))
    \<and> \<bar>fst (clip_curvature v prev c roll) - prev\<bar> * (max v 1)^2 \<le> 5 * (1/100)"
proof -
  let ?w = "(max v 1)^2" and ?g = "roll * ACCELERATION_DUE_TO_GRAVITY"
  let ?r = "5 / ?w * (1/100)" and ?lo = "(- 3 + ?g) / ?w" and ?hi = "(3 + ?g) / ?w"
  define c1 where "c1 = clip c (prev - ?r) (prev + ?r)"
  define c2 where "c2 = clip c1 ?lo ?hi"
  define c3 where "c3 = clip c2 (- (2/10)) (2/10)"
  have w: "0 < ?w" by (simp add: zero_less_power2)
  have eq: "fst (clip_curvature v prev c roll) = c3" unfolding clip_curvature_eq c1_def c2_def c3_def ..
  have prev: "?lo \<le> prev" "prev \<le> ?hi" "- (2/10) \<le> prev" "prev \<le> 2/10" using assms by (auto simp: lat_accel_iff)
  have "\<bar>c1 - prev\<bar> \<le> ?r" unfolding c1_def using w by (intro clip_near) simp
  moreover have "\<bar>c2 - prev\<bar> \<le> \<bar>c1 - prev\<bar>" unfolding c2_def by (rule clip_towards [OF prev(1,2)])
  moreover have "\<bar>c3 - prev\<bar> \<le> \<bar>c2 - prev\<bar>" unfolding c3_def by (rule clip_towards [OF prev(3,4)])
  ultimately have "\<bar>c3 - prev\<bar> \<le> ?r" by linarith
  then have jerk: "\<bar>c3 - prev\<bar> * ?w \<le> 5 * (1/100)" using w by (simp add: field_simps)
  have c2: "?lo \<le> c2" "c2 \<le> ?hi" using clip_bounds(1) [of ?lo ?hi c1] prev(1,2) by (simp_all add: c2_def clip_bounds(2))
  have "c3 \<le> ?hi" unfolding c3_def using c2(2) prev by (intro clip_keeps_upper) linarith+
  moreover have "?lo \<le> c3" unfolding c3_def using c2(1) prev by (intro clip_keeps_lower) linarith+
  moreover have "\<bar>c3\<bar> \<le> 2/10" using clip_bounds(1) [of "- (2/10)" "2/10" c2] clip_bounds(2) [of c2 "- (2/10)" "2/10"] unfolding c3_def by (simp add: abs_le_iff)
  ultimately show ?thesis using jerk by (simp add: eq lat_accel_iff)
qed

theorem clip_curvature_limits_witness:
  "\<bar>fst (clip_curvature 20 0 1 0)\<bar> \<le> 2/10 \<and> lat_accel_ok 20 0 (fst (clip_curvature 20 0 1 0))
    \<and> \<bar>fst (clip_curvature 20 0 1 0) - 0\<bar> * (max 20 1)^2 \<le> 5 * (1/100)"
  by (rule clip_curvature_limits) (simp_all add: lat_accel_ok_def)

text \<open>
  From any previous curvature the limiter stays within 0.2, and as long as driving straight is
  allowed at the present roll, within the lateral acceleration.
\<close>

lemma clip_curvature_bounded: "\<bar>fst (clip_curvature v prev c roll)\<bar> \<le> 2/10"
proof -
  have "\<bar>clip x (- (2/10)) (2/10)\<bar> \<le> 2/10" for x :: real
    using clip_bounds(1) [of "- (2/10)" "2/10" x] clip_bounds(2) [of x "- (2/10)" "2/10"] by (simp add: abs_le_iff)
  then show ?thesis unfolding clip_curvature_eq .
qed

lemma clip_curvature_lat_accel:
  assumes "lat_accel_ok v roll 0"
  shows "lat_accel_ok v roll (fst (clip_curvature v prev c roll))"
proof -
  let ?lo = "(- 3 + roll * ACCELERATION_DUE_TO_GRAVITY) / (max v 1)^2" and ?hi = "(3 + roll * ACCELERATION_DUE_TO_GRAVITY) / (max v 1)^2"
  have z: "?lo \<le> 0" "0 \<le> ?hi" using assms by (simp_all only: lat_accel_iff)
  have "?lo \<le> clip (clip x ?lo ?hi) (- (2/10)) (2/10) \<and> clip (clip x ?lo ?hi) (- (2/10)) (2/10) \<le> ?hi" for x
  proof
    have c: "?lo \<le> clip x ?lo ?hi" "clip x ?lo ?hi \<le> ?hi" using z clip_bounds(1) [of ?lo ?hi x] by (simp_all add: clip_bounds(2))
    show "?lo \<le> clip (clip x ?lo ?hi) (- (2/10)) (2/10)" by (rule clip_keeps_lower [OF c(1)]) (use z(1) in linarith)
    show "clip (clip x ?lo ?hi) (- (2/10)) (2/10) \<le> ?hi" by (rule clip_keeps_upper [OF c(2)]) (use z(2) in linarith)
  qed
  then show ?thesis unfolding clip_curvature_eq lat_accel_iff by blast
qed

end
