(* ===== verification/Desire_Helper.thy ===== *)
theory Desire_Helper
  imports Car_Types Params
begin

text \<open>
  \<open>selfdrive/controls/lib/desire_helper.py\<close> with sunnypilot's \<open>auto_lane_change.py\<close> and
  \<open>lane_turn_desire.py\<close>: from blinkers, torque, blind spots and speed to the desire the driving
  model is given. \<open>AutoLaneChangeController\<close> and \<open>LaneTurnController\<close> hold a reference to the
  helper; the methods that read it take the attributes they read.
\<close>

section \<open>AutoLaneChangeController\<close>

definition ALC_OFF :: int where "ALC_OFF = -1"
definition ALC_NUDGE :: int where "ALC_NUDGE = 0"
definition ALC_NUDGELESS :: int where "ALC_NUDGELESS = 1"
definition ALC_HALF_SECOND :: int where "ALC_HALF_SECOND = 2"
definition ALC_ONE_SECOND :: int where "ALC_ONE_SECOND = 3"
definition ALC_TWO_SECONDS :: int where "ALC_TWO_SECONDS = 4"
definition ALC_THREE_SECONDS :: int where "ALC_THREE_SECONDS = 5"

lemmas alc_modes = ALC_OFF_def ALC_NUDGE_def ALC_NUDGELESS_def ALC_HALF_SECOND_def ALC_ONE_SECOND_def
  ALC_TWO_SECONDS_def ALC_THREE_SECONDS_def

definition AUTO_LANE_CHANGE_TIMER :: "int \<rightharpoonup> real" where
  "AUTO_LANE_CHANGE_TIMER = map_of [(ALC_OFF, 0), (ALC_NUDGE, 0), (ALC_NUDGELESS, 5/100), (ALC_HALF_SECOND, 5/10),
     (ALC_ONE_SECOND, 1), (ALC_TWO_SECONDS, 2), (ALC_THREE_SECONDS, 3)]"

definition ONE_SECOND_DELAY :: real where "ONE_SECOND_DELAY = -1"

record alc =
  al_wait_timer :: real
  al_param_read_counter :: int
  al_delay :: real
  al_set_timer :: int
  al_bsm_delay :: bool
  al_prev_brake_pressed :: bool
  al_allowed :: bool
  al_prev_lane_change :: bool

definition alc_read_params :: "(string \<Rightarrow> int) \<Rightarrow> params \<Rightarrow> alc \<Rightarrow> alc" where
  "alc_read_params dflt p a = a\<lparr>al_bsm_delay := get_bool p ''AutoLaneChangeBsmDelay'',
     al_set_timer := get_int dflt p ''AutoLaneChangeTimer''\<rparr>"

definition alc_init :: "(string \<Rightarrow> int) \<Rightarrow> params \<Rightarrow> alc" where
  "alc_init dflt p = alc_read_params dflt p \<lparr>al_wait_timer = 0, al_param_read_counter = 0, al_delay = 0,
     al_set_timer = get_int dflt p ''AutoLaneChangeTimer'', al_bsm_delay = False, al_prev_brake_pressed = False,
     al_allowed = False, al_prev_lane_change = False\<rparr>"

definition alc_reset :: "lane_change_state \<Rightarrow> lane_change_direction \<Rightarrow> alc \<Rightarrow> alc" where
  "alc_reset st dir a = (if st = LC_off \<and> dir = LCD_none
     then a\<lparr>al_wait_timer := 0, al_prev_brake_pressed := False, al_prev_lane_change := False\<rparr> else a)"

definition alc_update_params :: "(string \<Rightarrow> int) \<Rightarrow> params \<Rightarrow> alc \<Rightarrow> alc" where
  "alc_update_params dflt p a0 =
     (let a = (if al_param_read_counter a0 mod 50 = 0 then alc_read_params dflt p a0 else a0)
      in a\<lparr>al_param_read_counter := al_param_read_counter a + 1\<rparr>)"

definition alc_update_timers :: "bool \<Rightarrow> alc \<Rightarrow> alc" where
  "alc_update_timers blindspot a =
     (let delay = (case AUTO_LANE_CHANGE_TIMER (al_set_timer a) of Some t \<Rightarrow> t | None \<Rightarrow> the (AUTO_LANE_CHANGE_TIMER ALC_NUDGE));
          wait = (if al_bsm_delay a \<and> blindspot \<and> delay > 0 then
                    if delay = the (AUTO_LANE_CHANGE_TIMER ALC_NUDGELESS) then ONE_SECOND_DELAY else delay + ONE_SECOND_DELAY
                  else al_wait_timer a + DT_MDL)
      in a\<lparr>al_delay := delay, al_wait_timer := wait\<rparr>)"

definition alc_update_allowed :: "alc \<Rightarrow> bool" where
  "alc_update_allowed a =
     (if al_set_timer a = ALC_OFF \<or> al_set_timer a = ALC_NUDGE then False
      else if al_prev_brake_pressed a then False
      else if al_prev_lane_change a then False
      else al_wait_timer a > al_delay a)"

definition alc_update_lane_change :: "bool \<Rightarrow> bool \<Rightarrow> alc \<Rightarrow> alc" where
  "alc_update_lane_change blindspot brake_pressed a0 =
     (let a1 = (if brake_pressed \<and> \<not> al_prev_brake_pressed a0 then a0\<lparr>al_prev_brake_pressed := brake_pressed\<rparr> else a0);
          a2 = alc_update_timers blindspot a1
      in a2\<lparr>al_allowed := alc_update_allowed a2\<rparr>)"

definition alc_update_state :: "lane_change_state \<Rightarrow> lane_change_direction \<Rightarrow> alc \<Rightarrow> alc" where
  "alc_update_state st dir a = alc_reset st dir (if st = LC_laneChangeStarting then a\<lparr>al_prev_lane_change := True\<rparr> else a)"

section \<open>LaneTurnController\<close>

definition LANE_CHANGE_SPEED_MIN :: real where "LANE_CHANGE_SPEED_MIN = 20 * MPH_TO_MS"

record lane_turn =
  tu_turn_direction :: turn_direction
  tu_lane_turn_value :: real
  tu_param_read_counter :: int
  tu_enabled :: bool

definition lane_turn_init :: "(string \<Rightarrow> real) \<Rightarrow> params \<Rightarrow> lane_turn" where
  "lane_turn_init dflt p = \<lparr>tu_turn_direction = TD_none, tu_lane_turn_value = get_float dflt p ''LaneTurnValue'' * MPH_TO_MS,
     tu_param_read_counter = 0, tu_enabled = get_bool p ''LaneTurnDesire''\<rparr>"

definition lane_turn_read_params :: "(string \<Rightarrow> real) \<Rightarrow> params \<Rightarrow> lane_turn \<Rightarrow> lane_turn" where
  "lane_turn_read_params dflt p t = t\<lparr>tu_enabled := get_bool p ''LaneTurnDesire'',
     tu_lane_turn_value := min LANE_CHANGE_SPEED_MIN (get_float dflt p ''LaneTurnValue'' * MPH_TO_MS)\<rparr>"

definition lane_turn_update_params :: "(string \<Rightarrow> real) \<Rightarrow> params \<Rightarrow> lane_turn \<Rightarrow> lane_turn" where
  "lane_turn_update_params dflt p t0 =
     (let t = (if tu_param_read_counter t0 mod 50 = 0 then lane_turn_read_params dflt p t0 else t0)
      in t\<lparr>tu_param_read_counter := tu_param_read_counter t + 1\<rparr>)"

definition update_lane_turn :: "car_state \<Rightarrow> lane_turn \<Rightarrow> lane_turn" where
  "update_lane_turn CS t = t\<lparr>tu_turn_direction :=
     (if cs_leftBlinker CS \<and> \<not> cs_rightBlinker CS \<and> cs_vEgo CS < tu_lane_turn_value t \<and> \<not> cs_leftBlindspot CS then TD_turnLeft
      else if cs_rightBlinker CS \<and> \<not> cs_leftBlinker CS \<and> cs_vEgo CS < tu_lane_turn_value t \<and> \<not> cs_rightBlindspot CS then TD_turnRight
      else TD_none)\<rparr>"

definition get_turn_direction :: "lane_turn \<Rightarrow> turn_direction" where
  "get_turn_direction t = (if \<not> tu_enabled t then TD_none else tu_turn_direction t)"

section \<open>DesireHelper\<close>

definition LANE_CHANGE_TIME_MAX :: real where "LANE_CHANGE_TIME_MAX = 10"

fun DESIRES :: "lane_change_direction \<Rightarrow> lane_change_state \<Rightarrow> desire" where
  "DESIRES LCD_left LC_laneChangeStarting = Desire_laneChangeLeft"
| "DESIRES LCD_left LC_laneChangeFinishing = Desire_laneChangeLeft"
| "DESIRES LCD_right LC_laneChangeStarting = Desire_laneChangeRight"
| "DESIRES LCD_right LC_laneChangeFinishing = Desire_laneChangeRight"
| "DESIRES _ _ = Desire_none"

fun TURN_DESIRES :: "turn_direction \<Rightarrow> desire" where
  "TURN_DESIRES TD_none = Desire_none"
| "TURN_DESIRES TD_turnLeft = Desire_turnLeft"
| "TURN_DESIRES TD_turnRight = Desire_turnRight"

record desire_helper =
  dh_state :: lane_change_state
  dh_direction :: lane_change_direction
  dh_timer :: real
  dh_ll_prob :: real
  dh_keep_pulse_timer :: real
  dh_prev_one_blinker :: bool
  dh_desire :: desire
  dh_alc :: alc
  dh_lane_turn :: lane_turn
  dh_turn_direction :: turn_direction

text \<open>What one update reads: the arguments and the parameter store with its defaults.\<close>

record desire_in =
  di_CS :: car_state
  di_lateral_active :: bool
  di_lane_change_prob :: real
  di_params :: params
  di_int_default :: "string \<Rightarrow> int"
  di_float_default :: "string \<Rightarrow> real"

definition desire_init :: "(string \<Rightarrow> int) \<Rightarrow> (string \<Rightarrow> real) \<Rightarrow> params \<Rightarrow> desire_helper" where
  "desire_init dflt fdflt p = \<lparr>dh_state = LC_off, dh_direction = LCD_none, dh_timer = 0, dh_ll_prob = 1,
     dh_keep_pulse_timer = 0, dh_prev_one_blinker = False, dh_desire = Desire_none, dh_alc = alc_init dflt p,
     dh_lane_turn = lane_turn_init fdflt p, dh_turn_direction = TD_none\<rparr>"

definition get_lane_change_direction :: "car_state \<Rightarrow> lane_change_direction" where
  "get_lane_change_direction CS = (if cs_leftBlinker CS then LCD_left else LCD_right)"

definition one_blinker :: "car_state \<Rightarrow> bool" where
  "one_blinker CS \<longleftrightarrow> cs_leftBlinker CS \<noteq> cs_rightBlinker CS"

definition below_lane_change_speed :: "car_state \<Rightarrow> bool" where
  "below_lane_change_speed CS \<longleftrightarrow> cs_vEgo CS < LANE_CHANGE_SPEED_MIN"

definition torque_applied :: "car_state \<Rightarrow> lane_change_direction \<Rightarrow> bool" where
  "torque_applied CS dir \<longleftrightarrow> cs_steeringPressed CS \<and>
     ((cs_steeringTorque CS > 0 \<and> dir = LCD_left) \<or> (cs_steeringTorque CS < 0 \<and> dir = LCD_right))"

definition blindspot_detected :: "car_state \<Rightarrow> lane_change_direction \<Rightarrow> bool" where
  "blindspot_detected CS dir \<longleftrightarrow> (cs_leftBlindspot CS \<and> dir = LCD_left) \<or> (cs_rightBlindspot CS \<and> dir = LCD_right)"

definition desire_pre :: "car_state \<Rightarrow> desire_helper \<Rightarrow> desire_helper" where
  "desire_pre CS d =
     (let dir = get_lane_change_direction CS;
          blind = blindspot_detected CS dir;
          a = alc_update_lane_change blind (cs_brakePressed CS) (dh_alc d);
          d1 = d\<lparr>dh_direction := dir, dh_alc := a\<rparr>
      in if \<not> one_blinker CS \<or> below_lane_change_speed CS then d1\<lparr>dh_state := LC_off, dh_direction := LCD_none\<rparr>
         else if (torque_applied CS dir \<or> al_allowed a) \<and> \<not> blind then d1\<lparr>dh_state := LC_laneChangeStarting\<rparr>
         else d1)"

definition desire_starting :: "real \<Rightarrow> desire_helper \<Rightarrow> desire_helper" where
  "desire_starting lane_change_prob d =
     (let p = max (dh_ll_prob d - 2 * DT_MDL) 0; d1 = d\<lparr>dh_ll_prob := p\<rparr> in
      if lane_change_prob < 2/100 \<and> p < 1/100 then d1\<lparr>dh_state := LC_laneChangeFinishing\<rparr> else d1)"

definition desire_finishing :: "car_state \<Rightarrow> desire_helper \<Rightarrow> desire_helper" where
  "desire_finishing CS d =
     (let p = min (dh_ll_prob d + DT_MDL) 1; d1 = d\<lparr>dh_ll_prob := p\<rparr> in
      if p > 99/100 then d1\<lparr>dh_direction := LCD_none, dh_state := (if one_blinker CS then LC_preLaneChange else LC_off)\<rparr> else d1)"

definition desire_state_machine :: "desire_in \<Rightarrow> desire_helper \<Rightarrow> desire_helper" where
  "desire_state_machine i d =
     (let CS = di_CS i in
      if \<not> di_lateral_active i \<or> dh_timer d > LANE_CHANGE_TIME_MAX \<or> al_set_timer (dh_alc d) = ALC_OFF
      then d\<lparr>dh_state := LC_off, dh_direction := LCD_none\<rparr>
      else (case dh_state d of
          LC_off \<Rightarrow>
            if one_blinker CS \<and> \<not> dh_prev_one_blinker d \<and> \<not> below_lane_change_speed CS
            then d\<lparr>dh_state := LC_preLaneChange, dh_ll_prob := 1, dh_direction := get_lane_change_direction CS\<rparr>
            else d
        | LC_preLaneChange \<Rightarrow> desire_pre CS d
        | LC_laneChangeStarting \<Rightarrow> desire_starting (di_lane_change_prob i) d
        | LC_laneChangeFinishing \<Rightarrow> desire_finishing CS d))"

definition desire_timer :: "desire_helper \<Rightarrow> desire_helper" where
  "desire_timer d = d\<lparr>dh_timer := (if dh_state d = LC_off \<or> dh_state d = LC_preLaneChange then 0 else dh_timer d + DT_MDL)\<rparr>"

definition desire_keep_pulse :: "desire_helper \<Rightarrow> desire_helper" where
  "desire_keep_pulse d =
     (if dh_state d = LC_off \<or> dh_state d = LC_laneChangeStarting then d\<lparr>dh_keep_pulse_timer := 0\<rparr>
      else if dh_state d = LC_preLaneChange then
        let t = dh_keep_pulse_timer d + DT_MDL; d1 = d\<lparr>dh_keep_pulse_timer := t\<rparr> in
        if t > 1 then d1\<lparr>dh_keep_pulse_timer := 0\<rparr>
        else if dh_desire d1 = Desire_keepLeft \<or> dh_desire d1 = Desire_keepRight then d1\<lparr>dh_desire := Desire_none\<rparr> else d1
      else d)"

definition desire_update :: "desire_in \<Rightarrow> desire_helper \<Rightarrow> desire_helper" where
  "desire_update i d0 =
     (let CS = di_CS i;
          t = update_lane_turn CS (lane_turn_update_params (di_float_default i) (di_params i) (dh_lane_turn d0));
          d1 = d0\<lparr>dh_alc := alc_update_params (di_int_default i) (di_params i) (dh_alc d0), dh_lane_turn := t,
                  dh_turn_direction := get_turn_direction t\<rparr>;
          d2 = desire_timer (desire_state_machine i d1);
          d3 = d2\<lparr>dh_prev_one_blinker := one_blinker CS,
                  dh_desire := (if dh_turn_direction d2 \<noteq> TD_none then TURN_DESIRES (dh_turn_direction d2)
                                else DESIRES (dh_direction d2) (dh_state d2))\<rparr>;
          d4 = desire_keep_pulse d3
      in d4\<lparr>dh_alc := alc_update_state (dh_state d4) (dh_direction d4) (dh_alc d4)\<rparr>)"

definition desire_run :: "desire_in list \<Rightarrow> desire_helper \<Rightarrow> desire_helper" where
  "desire_run is d = foldl (\<lambda>d i. desire_update i d) d is"

section \<open>Facts\<close>

lemma alc_frames [simp]:
  "al_set_timer (alc_update_timers b a) = al_set_timer a" "al_prev_brake_pressed (alc_update_timers b a) = al_prev_brake_pressed a"
  "al_prev_lane_change (alc_update_timers b a) = al_prev_lane_change a"
  "al_prev_brake_pressed (alc_update_params dflt p a) = al_prev_brake_pressed a"
  "al_prev_lane_change (alc_update_params dflt p a) = al_prev_lane_change a"
  by (simp_all add: alc_update_timers_def alc_update_params_def alc_read_params_def Let_def)

lemma alc_allowed:
  assumes "al_allowed (alc_update_lane_change blind brake a)"
  shows "al_set_timer a \<noteq> ALC_OFF \<and> al_set_timer a \<noteq> ALC_NUDGE \<and> \<not> brake \<and> \<not> al_prev_brake_pressed a \<and> \<not> al_prev_lane_change a"
  using assms by (auto simp: alc_update_lane_change_def Let_def alc_update_allowed_def split: if_splits)

lemma desire_keep_pulse_frame [simp]:
  "dh_state (desire_keep_pulse d) = dh_state d" "dh_direction (desire_keep_pulse d) = dh_direction d"
  "dh_timer (desire_keep_pulse d) = dh_timer d" "dh_alc (desire_keep_pulse d) = dh_alc d"
  by (simp_all add: desire_keep_pulse_def Let_def)

lemma desire_pre_direction: "dh_state (desire_pre CS d) = LC_laneChangeStarting \<Longrightarrow> dh_direction (desire_pre CS d) = get_lane_change_direction CS"
  by (auto simp: desire_pre_def Let_def split: if_splits)

text \<open>The state that the state machine starts from in an update.\<close>

definition desire_prepared :: "desire_in \<Rightarrow> desire_helper \<Rightarrow> desire_helper" where
  "desire_prepared i d = (let t = update_lane_turn (di_CS i) (lane_turn_update_params (di_float_default i) (di_params i) (dh_lane_turn d)) in
     d\<lparr>dh_alc := alc_update_params (di_int_default i) (di_params i) (dh_alc d), dh_lane_turn := t, dh_turn_direction := get_turn_direction t\<rparr>)"

lemma desire_update_state:
  "dh_state (desire_update i d) = dh_state (desire_state_machine i (desire_prepared i d))"
  "dh_direction (desire_update i d) = dh_direction (desire_state_machine i (desire_prepared i d))"
  "dh_timer (desire_update i d) = dh_timer (desire_timer (desire_state_machine i (desire_prepared i d)))"
  by (simp_all add: desire_update_def desire_prepared_def Let_def desire_timer_def)

lemma desire_prepared_frame [simp]:
  "dh_state (desire_prepared i d) = dh_state d" "dh_direction (desire_prepared i d) = dh_direction d" "dh_timer (desire_prepared i d) = dh_timer d"
  "dh_alc (desire_prepared i d) = alc_update_params (di_int_default i) (di_params i) (dh_alc d)"
  "dh_prev_one_blinker (desire_prepared i d) = dh_prev_one_blinker d"
  by (simp_all add: desire_prepared_def Let_def)

definition changing_lane :: "desire_helper \<Rightarrow> bool" where
  "changing_lane d \<longleftrightarrow> dh_state d = LC_laneChangeStarting \<or> dh_state d = LC_laneChangeFinishing"

lemma desire_pre_starts:
  assumes "dh_state (desire_pre CS d) = LC_laneChangeStarting" "dh_state d = LC_preLaneChange"
  shows "one_blinker CS \<and> \<not> below_lane_change_speed CS \<and> \<not> blindspot_detected CS (get_lane_change_direction CS)
    \<and> (torque_applied CS (get_lane_change_direction CS)
       \<or> al_allowed (alc_update_lane_change (blindspot_detected CS (get_lane_change_direction CS)) (cs_brakePressed CS) (dh_alc d)))"
  using assms by (auto simp: desire_pre_def Let_def split: if_splits)

lemma machine_starts:
  assumes "dh_state (desire_state_machine i d) = LC_laneChangeStarting" "dh_state d \<noteq> LC_laneChangeStarting"
  shows "dh_state d = LC_preLaneChange \<and> di_lateral_active i \<and> desire_state_machine i d = desire_pre (di_CS i) d"
proof (cases "\<not> di_lateral_active i \<or> dh_timer d > LANE_CHANGE_TIME_MAX \<or> al_set_timer (dh_alc d) = ALC_OFF")
  case True
  with assms show ?thesis by (simp add: desire_state_machine_def Let_def)
next
  case False
  with assms show ?thesis
    by (cases "dh_state d") (auto simp: desire_state_machine_def Let_def desire_finishing_def split: if_splits)
qed

text \<open>The timer counts the cycles of a change and stops it.\<close>

lemma changing_timer:
  assumes "changing_lane (desire_update i d)"
  shows "dh_timer d \<le> 10" "dh_timer (desire_update i d) = dh_timer d + 5/100"
proof -
  have c: "dh_state (desire_state_machine i (desire_prepared i d)) \<noteq> LC_off" "dh_state (desire_state_machine i (desire_prepared i d)) \<noteq> LC_preLaneChange"
    using assms by (auto simp: changing_lane_def desire_update_state)
  show le: "dh_timer d \<le> 10"
  proof (rule ccontr)
    assume "\<not> dh_timer d \<le> 10"
    with c(1) show False by (simp add: desire_state_machine_def Let_def LANE_CHANGE_TIME_MAX_def)
  qed
  have pre: "dh_timer (desire_pre CS e) = dh_timer e" for CS e by (simp add: desire_pre_def Let_def)
  have "dh_timer (desire_state_machine i (desire_prepared i d)) = dh_timer d"
    by (cases "dh_state d") (simp_all add: desire_state_machine_def Let_def pre desire_starting_def desire_finishing_def)
  with c show "dh_timer (desire_update i d) = dh_timer d + 5/100"
    by (simp add: desire_update_state desire_timer_def DT_MDL_def)
qed

lemma desire_run_snoc: "desire_run (is @ [i]) d = desire_update i (desire_run is d)"
  by (simp add: desire_run_def)

lemma changing_run_timer:
  assumes "\<forall>k\<in>{1..length is}. changing_lane (desire_run (take k is) d)"
  shows "dh_timer (desire_run is d) = dh_timer d + real (length is) * (5/100)"
  using assms
proof (induction "is" rule: rev_induct)
  case (snoc i "is")
  have "\<forall>k\<in>{1..length is}. changing_lane (desire_run (take k is) d)"
  proof
    fix k assume "k \<in> {1..length is}"
    with bspec [OF snoc.prems, of k] show "changing_lane (desire_run (take k is) d)" by simp
  qed
  with snoc.IH have t: "dh_timer (desire_run is d) = dh_timer d + real (length is) * (5/100)" .
  have "changing_lane (desire_update i (desire_run is d))"
    using bspec [OF snoc.prems, of "length (is @ [i])"] by (simp add: desire_run_snoc)
  from changing_timer(2) [OF this] t show ?case by (simp add: desire_run_snoc algebra_simps)
qed (simp add: desire_run_def)

section \<open>Properties\<close>

text \<open>
  C27. A lane change starts only out of \<open>preLaneChange\<close>, with lateral control active, one blinker
  on, at 20 mph or more and no vehicle in the blind spot of that side; and either the driver
  turns the wheel to that side, or the automatic mode is chosen, the brake has not been pressed
  since the blinker was set and no change has been made since.
\<close>

theorem lane_change_start_safe:
  assumes "dh_state d \<noteq> LC_laneChangeStarting" "dh_state (desire_update i d) = LC_laneChangeStarting"
  shows "let CS = di_CS i; dir = dh_direction (desire_update i d); a = alc_update_params (di_int_default i) (di_params i) (dh_alc d) in
    dh_state d = LC_preLaneChange \<and> di_lateral_active i \<and> cs_leftBlinker CS \<noteq> cs_rightBlinker CS
    \<and> dir = (if cs_leftBlinker CS then LCD_left else LCD_right)
    \<and> 20 * MPH_TO_MS \<le> cs_vEgo CS \<and> \<not> (if cs_leftBlinker CS then cs_leftBlindspot CS else cs_rightBlindspot CS)
    \<and> (torque_applied CS dir
       \<or> al_set_timer a \<noteq> ALC_OFF \<and> al_set_timer a \<noteq> ALC_NUDGE \<and> \<not> cs_brakePressed CS
         \<and> \<not> al_prev_brake_pressed (dh_alc d) \<and> \<not> al_prev_lane_change (dh_alc d))"
proof -
  let ?p = "desire_prepared i d" and ?CS = "di_CS i"
  have "dh_state (desire_state_machine i ?p) = LC_laneChangeStarting" using assms(2) by (simp add: desire_update_state)
  from machine_starts [OF this] assms(1) have m: "dh_state d = LC_preLaneChange" "di_lateral_active i" "desire_state_machine i ?p = desire_pre ?CS ?p" by simp_all
  have st: "dh_state (desire_pre ?CS ?p) = LC_laneChangeStarting" using assms(2) m(3) by (simp add: desire_update_state)
  have dir: "dh_direction (desire_update i d) = get_lane_change_direction ?CS"
    using desire_pre_direction [OF st] m(3) by (simp add: desire_update_state)
  from desire_pre_starts [OF st] m(1) have s: "one_blinker ?CS" "\<not> below_lane_change_speed ?CS" "\<not> blindspot_detected ?CS (get_lane_change_direction ?CS)"
    "torque_applied ?CS (get_lane_change_direction ?CS)
       \<or> al_allowed (alc_update_lane_change (blindspot_detected ?CS (get_lane_change_direction ?CS)) (cs_brakePressed ?CS) (dh_alc ?p))" by auto
  from s(4) alc_allowed [of "blindspot_detected ?CS (get_lane_change_direction ?CS)" "cs_brakePressed ?CS" "dh_alc ?p"]
  show ?thesis using m s(1-3) dir
    by (auto simp: Let_def one_blinker_def below_lane_change_speed_def LANE_CHANGE_SPEED_MIN_def blindspot_detected_def get_lane_change_direction_def)
qed

definition test_desire_in :: desire_in where
  "test_desire_in = \<lparr>di_CS = default_cs\<lparr>cs_vEgo := 20, cs_leftBlinker := True, cs_steeringPressed := True, cs_steeringTorque := 1\<rparr>,
     di_lateral_active = True, di_lane_change_prob = 1, di_params = (\<lambda>_. None), di_int_default = (\<lambda>_. 0), di_float_default = (\<lambda>_. 19)\<rparr>"

definition test_desire :: "lane_change_state \<Rightarrow> desire_helper" where
  "test_desire st = (desire_init (\<lambda>_. 0) (\<lambda>_. 19) (\<lambda>_. None))\<lparr>dh_state := st, dh_direction := LCD_left\<rparr>"

theorem lane_change_start_safe_witness:
  "let i = test_desire_in; d = test_desire LC_preLaneChange; CS = di_CS i; dir = dh_direction (desire_update i d);
       a = alc_update_params (di_int_default i) (di_params i) (dh_alc d) in
    dh_state d = LC_preLaneChange \<and> di_lateral_active i \<and> cs_leftBlinker CS \<noteq> cs_rightBlinker CS
    \<and> dir = (if cs_leftBlinker CS then LCD_left else LCD_right)
    \<and> 20 * MPH_TO_MS \<le> cs_vEgo CS \<and> \<not> (if cs_leftBlinker CS then cs_leftBlindspot CS else cs_rightBlindspot CS)
    \<and> (torque_applied CS dir
       \<or> al_set_timer a \<noteq> ALC_OFF \<and> al_set_timer a \<noteq> ALC_NUDGE \<and> \<not> cs_brakePressed CS
         \<and> \<not> al_prev_brake_pressed (dh_alc d) \<and> \<not> al_prev_lane_change (dh_alc d))"
  unfolding Let_def
  by (rule lane_change_start_safe [unfolded Let_def])
    (simp_all add: test_desire_def test_desire_in_def desire_update_def desire_state_machine_def desire_pre_def Let_def desire_init_def
      default_cs_def one_blinker_def below_lane_change_speed_def LANE_CHANGE_SPEED_MIN_def MPH_TO_MS_def MPH_TO_KPH_def KPH_TO_MS_def MS_TO_KPH_def
      torque_applied_def blindspot_detected_def get_lane_change_direction_def LANE_CHANGE_TIME_MAX_def alc_init_def alc_read_params_def
      alc_update_params_def get_int_def get_bool_def alc_modes desire_timer_def)

text \<open>
  C28. No lane change lasts longer than 201 cycles, ten seconds: whatever the inputs, within 202
  cycles the helper is in \<open>off\<close> or \<open>preLaneChange\<close>.
\<close>

theorem lane_change_ends:
  assumes "0 \<le> dh_timer d" "202 \<le> length is"
  shows "\<exists>k\<in>{1..202}. dh_state (desire_run (take k is) d) \<in> {LC_off, LC_preLaneChange}"
proof (rule ccontr)
  assume "\<not> ?thesis"
  then have c: "changing_lane (desire_run (take k is) d)" if "k \<in> {1..202}" for k
    using that by (cases "dh_state (desire_run (take k is) d)") (auto simp: changing_lane_def)
  have "\<forall>k\<in>{1..length (take 201 is)}. changing_lane (desire_run (take k (take 201 is)) d)"
    using c assms(2) by (auto simp: min_def)
  from changing_run_timer [OF this] assms have t: "10 < dh_timer (desire_run (take 201 is) d)" by (simp add: min_def)
  have "take 202 is = take 201 is @ [is ! 201]" using assms(2) take_Suc_conv_app_nth [of 201 "is"] by simp
  then have "changing_lane (desire_update (is ! 201) (desire_run (take 201 is) d))"
    using c [of 202] by (simp add: desire_run_snoc)
  from changing_timer(1) [OF this] t show False by simp
qed

theorem lane_change_ends_witness:
  "\<exists>k\<in>{1..202}. dh_state (desire_run (take k (replicate 202 test_desire_in)) (test_desire LC_laneChangeStarting)) \<in> {LC_off, LC_preLaneChange}"
  by (rule lane_change_ends) (simp_all add: test_desire_def desire_init_def)

end
