(* ===== verification/Fft_Size.thy ===== *)
theory Fft_Size
  imports Main "HOL-Library.Monad_Syntax"
begin

text \<open>
  \<open>fft_next_good_size\<close> of \<open>selfdrive/locationd/helpers.py\<close>: five nested loops that multiply by 2,
  3, 5, 7 and 11. A loop is a partial function of the option monad, \<open>None\<close> if it did not end;
  that it ends is a theorem.
\<close>

section \<open>The loops\<close>

text \<open>\<open>while f < best: <body>; f *= p\<close>, where the body may lower \<open>best\<close>.\<close>

partial_function (option) mul_loop :: "int \<Rightarrow> (int \<Rightarrow> int \<Rightarrow> int option) \<Rightarrow> int \<Rightarrow> int \<Rightarrow> int option" where
  "mul_loop p body f best = (if f < best then Option.bind (body f best) (\<lambda>b. mul_loop p body (f * p) b) else Some best)"

definition best_body :: "int \<Rightarrow> int \<Rightarrow> int \<Rightarrow> int option" where
  "best_body n f best = Some (if f \<ge> n then f else best)"

definition loop_11 :: "int \<Rightarrow> int \<Rightarrow> int \<Rightarrow> int option" where "loop_11 n = mul_loop 11 (best_body n)"
definition loop_7 :: "int \<Rightarrow> int \<Rightarrow> int \<Rightarrow> int option" where "loop_7 n = mul_loop 7 (loop_11 n)"
definition loop_5 :: "int \<Rightarrow> int \<Rightarrow> int \<Rightarrow> int option" where "loop_5 n = mul_loop 5 (loop_7 n)"
definition loop_3 :: "int \<Rightarrow> int \<Rightarrow> int \<Rightarrow> int option" where "loop_3 n = mul_loop 3 (loop_5 n)"
definition loop_2 :: "int \<Rightarrow> int \<Rightarrow> int \<Rightarrow> int option" where "loop_2 n = mul_loop 2 (loop_3 n)"

definition fft_next_good_size :: "int \<Rightarrow> int option" where
  "fft_next_good_size n = (if n \<le> 6 then Some n else loop_2 n 1 (2 * n))"

section \<open>What a loop computes\<close>

text \<open>
  A body that, from \<open>f\<close> below \<open>best\<close>, ends and finds the least multiple \<open>f * s\<close> that is at least
  \<open>n\<close>, with \<open>s\<close> from a set of factors, or keeps \<open>best\<close> if that is less.
\<close>

definition finds_least :: "int \<Rightarrow> int set \<Rightarrow> (int \<Rightarrow> int \<Rightarrow> int option) \<Rightarrow> bool" where
  "finds_least n S body \<longleftrightarrow> (\<forall>f best. 1 \<le> f \<longrightarrow> f < best \<longrightarrow>
     (\<exists>r. body f best = Some r \<and> r \<le> best \<and> (r = best \<or> n \<le> r \<and> (\<exists>s\<in>S. r = f * s)) \<and> (\<forall>s\<in>S. n \<le> f * s \<longrightarrow> r \<le> f * s)))"

lemma best_body_finds: "finds_least n {1} (best_body n)"
  by (auto simp: finds_least_def best_body_def)

lemma mul_loop_finds:
  assumes body: "finds_least n S body" and S: "\<forall>s\<in>S. 1 \<le> s" and p: "2 \<le> p" and f: "1 \<le> f"
  shows "\<exists>r. mul_loop p body f best = Some r \<and> r \<le> best \<and> (r = best \<or> n \<le> r \<and> (\<exists>k. \<exists>s\<in>S. r = f * (p ^ k * s)))
    \<and> (\<forall>k. \<forall>s\<in>S. n \<le> f * (p ^ k * s) \<longrightarrow> r \<le> f * (p ^ k * s))"
  using f
proof (induction "nat (best - f)" arbitrary: f best rule: less_induct)
  case less
  show ?case
  proof (cases "f < best")
    case False
    have "best \<le> f * (p ^ k * s)" if "s \<in> S" for k s
    proof -
      have "1 \<le> p ^ k * s" using p S that by (simp add: int_one_le_iff_zero_less)
      then have "f * 1 \<le> f * (p ^ k * s)" using less.prems by (intro mult_left_mono) simp_all
      with False show ?thesis by simp
    qed
    with False show ?thesis by (subst mul_loop.simps) auto
  next
    case True
    from body less.prems True obtain b where
      b: "body f best = Some b" "b \<le> best" "b = best \<or> n \<le> b \<and> (\<exists>s\<in>S. b = f * s)" "\<forall>s\<in>S. n \<le> f * s \<longrightarrow> b \<le> f * s"
      unfolding finds_least_def by blast
    have fp: "f < f * p" "1 \<le> f * p" using less.prems p by (simp_all add: int_one_le_iff_zero_less)
    then have "nat (b - f * p) < nat (best - f)" using b(2) True by simp
    from less.hyps [OF this fp(2)] obtain r where
      r: "mul_loop p body (f * p) b = Some r" "r \<le> b" "r = b \<or> n \<le> r \<and> (\<exists>k. \<exists>s\<in>S. r = f * p * (p ^ k * s))"
        "\<forall>k. \<forall>s\<in>S. n \<le> f * p * (p ^ k * s) \<longrightarrow> r \<le> f * p * (p ^ k * s)" by blast
    have step: "f * p * (p ^ k * s) = f * (p ^ Suc k * s)" for k s by simp
    have "r = best \<or> n \<le> r \<and> (\<exists>k. \<exists>s\<in>S. r = f * (p ^ k * s))"
      using r(3) b(3) unfolding step by (metis mult_1 power_0)
    moreover have "r \<le> f * (p ^ k * s)" if "s \<in> S" "n \<le> f * (p ^ k * s)" for k s
      using that r(2,4) b(4) unfolding step by (cases k) fastforce+
    ultimately show ?thesis using True b(1,2) r(1,2) by (subst mul_loop.simps) auto
  qed
qed

definition with_powers :: "int \<Rightarrow> int set \<Rightarrow> int set" where
  "with_powers p S = {p ^ k * s | k s. s \<in> S}"

lemma with_powers_pos: "\<forall>s\<in>S. 1 \<le> s \<Longrightarrow> 2 \<le> p \<Longrightarrow> \<forall>s\<in>with_powers p S. 1 \<le> s"
  by (auto simp: with_powers_def int_one_le_iff_zero_less)

lemma mul_loop_least:
  assumes "finds_least n S body" "\<forall>s\<in>S. 1 \<le> s" "2 \<le> p" shows "finds_least n (with_powers p S) (mul_loop p body)"
  unfolding finds_least_def
proof (intro allI impI)
  fix f best :: int assume "1 \<le> f"
  from mul_loop_finds [OF assms this, of best]
  show "\<exists>r. mul_loop p body f best = Some r \<and> r \<le> best \<and> (r = best \<or> n \<le> r \<and> (\<exists>s\<in>with_powers p S. r = f * s))
    \<and> (\<forall>s\<in>with_powers p S. n \<le> f * s \<longrightarrow> r \<le> f * s)"
    unfolding with_powers_def by blast
qed

definition smooth :: "int \<Rightarrow> bool" where
  "smooth m \<longleftrightarrow> (\<exists>a b c d e. m = 2 ^ a * (3 ^ b * (5 ^ c * (7 ^ d * 11 ^ e))))"

definition smooth_set :: "int set" where
  "smooth_set = with_powers 2 (with_powers 3 (with_powers 5 (with_powers 7 (with_powers 11 {1}))))"

lemma smooth_set_iff: "m \<in> smooth_set \<longleftrightarrow> smooth m"
  by (auto simp: smooth_set_def smooth_def with_powers_def) metis+

lemma loop_2_least: "finds_least n smooth_set (loop_2 n)"
  unfolding loop_2_def loop_3_def loop_5_def loop_7_def loop_11_def smooth_set_def
  by (intro mul_loop_least best_body_finds with_powers_pos) simp_all

text \<open>There is a power of two between \<open>n\<close> and \<open>2 * n\<close>, so the start value is never returned.\<close>

lemma power_of_two_between:
  assumes "1 \<le> (n :: int)" shows "\<exists>k. n \<le> 2 ^ k \<and> 2 ^ k < 2 * n"
  using assms
proof (induction n rule: int_ge_induct)
  case base
  show ?case by (intro exI [of _ 0]) simp
next
  case (step i)
  then obtain k where k: "i \<le> 2 ^ k" "2 ^ k < 2 * i" by blast
  show ?case
  proof (cases "i + 1 \<le> 2 ^ k")
    case True
    with k show ?thesis by (intro exI [of _ k]) simp
  next
    case False
    with k step.hyps show ?thesis by (intro exI [of _ "Suc k"]) simp
  qed
qed

lemma smooth_power: "smooth (2 ^ k)"
  unfolding smooth_def by (intro exI [of _ k] exI [of _ 0]) simp

lemma smooth_small: assumes "1 \<le> n" "n \<le> 6" shows "smooth n"
proof -
  from assms consider "n = 2 ^ 0" | "n = 2 ^ 1" | "n = 3" | "n = 2 ^ 2" | "n = 5" | "n = 6" by fastforce
  then show ?thesis
  proof cases
    case 3
    then show ?thesis unfolding smooth_def by (intro exI [of _ 0] exI [of _ 1]) simp
  next
    case 5
    show ?thesis unfolding smooth_def 5 by (rule exI [of _ 0], rule exI [of _ 0], rule exI [of _ 1], rule exI [of _ 0], rule exI [of _ 0]) simp
  next
    case 6
    show ?thesis unfolding smooth_def 6 by (rule exI [of _ 1], rule exI [of _ 1], rule exI [of _ 0], rule exI [of _ 0], rule exI [of _ 0]) simp
  qed (simp_all only: smooth_power)
qed

section \<open>Properties\<close>

text \<open>
  C29. The nested loops end, and \<open>fft_next_good_size n\<close> is the smallest number from \<open>n\<close> on with no
  prime factor but 2, 3, 5, 7 and 11.
\<close>

theorem fft_size_least:
  assumes "1 \<le> n"
  shows "\<exists>r. fft_next_good_size n = Some r \<and> n \<le> r \<and> smooth r \<and> (\<forall>m. smooth m \<and> n \<le> m \<longrightarrow> r \<le> m)"
proof (cases "n \<le> 6")
  case True
  with assms show ?thesis by (auto simp: fft_next_good_size_def smooth_small)
next
  case False
  then have "1 < 2 * n" by simp
  with loop_2_least [of n] obtain r where
    r: "loop_2 n 1 (2 * n) = Some r" "r = 2 * n \<or> n \<le> r \<and> smooth r" "\<forall>m. smooth m \<and> n \<le> m \<longrightarrow> r \<le> m"
    unfolding finds_least_def by (force simp: smooth_set_iff)
  obtain k where "n \<le> 2 ^ k" "2 ^ k < 2 * n" using power_of_two_between [OF assms] by blast
  with r(3) smooth_power [of k] have "r < 2 * n" by fastforce
  with r False show ?thesis by (auto simp: fft_next_good_size_def)
qed

theorem fft_size_least_witness:
  "\<exists>r. fft_next_good_size 13 = Some r \<and> 13 \<le> r \<and> smooth r \<and> (\<forall>m. smooth m \<and> 13 \<le> m \<longrightarrow> r \<le> m)"
  by (rule fft_size_least) simp

end
