(* ===== verification/Dec.thy ===== *)
theory Dec
  imports Params Car_Types Windows
begin

text \<open>
  Dynamic experimental control, \<open>sunnypilot/selfdrive/controls/lib/dec/dec.py\<close> and
  \<open>constants.py\<close>: a smoothed filter per signal, the manager of transitions between the modes
  with its hysteresis, and the controller that chooses between adaptive cruise and the blended
  (end to end) mode. The crash count of the planner's MPC is an argument.
\<close>

section \<open>Constants\<close>

definition TRAJECTORY_SIZE :: nat where "TRAJECTORY_SIZE = 33"
definition SET_MODE_TIMEOUT :: int where "SET_MODE_TIMEOUT = 15"
definition LEAD_PROB :: real where "LEAD_PROB = 45/100"
definition SLOW_DOWN_PROB :: real where "SLOW_DOWN_PROB = 3/10"
definition SLOW_DOWN_CURVE :: "(real \<times> real) list" where
  "SLOW_DOWN_CURVE = zip [0, 10, 20, 30, 40, 50, 55, 60] [32, 46, 64, 86, 108, 130, 145, 165]"
definition SLOWNESS_PROB :: real where "SLOWNESS_PROB = 55/100"
definition SLOWNESS_CRUISE_OFFSET :: real where "SLOWNESS_CRUISE_OFFSET = 1025/1000"

section \<open>The filter\<close>

record skf =
  kf_x :: real
  kf_P :: real
  kf_R :: real
  kf_Q :: real
  kf_alpha :: real
  kf_smoothing_factor :: real
  kf_initialized :: bool
  kf_history :: "real list"
  kf_max_history :: nat
  kf_confidence :: real

definition skf_init :: "real \<Rightarrow> real \<Rightarrow> real \<Rightarrow> real \<Rightarrow> skf" where
  "skf_init measurement_noise process_noise alpha smoothing_factor =
     \<lparr>kf_x = 0, kf_P = 1, kf_R = measurement_noise, kf_Q = process_noise, kf_alpha = alpha,
      kf_smoothing_factor = smoothing_factor, kf_initialized = False, kf_history = [], kf_max_history = 10,
      kf_confidence = 0\<rparr>"

definition skf_remember :: "real \<Rightarrow> skf \<Rightarrow> skf" where
  "skf_remember m f = f\<lparr>kf_history := (if length (kf_history f) \<ge> kf_max_history f then tl (kf_history f) else kf_history f) @ [m]\<rparr>"

definition skf_gain :: "skf \<Rightarrow> real \<Rightarrow> real" where
  "skf_gain f P = (let K = P / (P + kf_R f)
     in K * (1 - kf_smoothing_factor f) + kf_smoothing_factor f * (1/10))"

definition skf_correct :: "real \<Rightarrow> skf \<Rightarrow> skf" where
  "skf_correct m f =
     (let P = kf_alpha f * kf_P f + kf_Q f;
          K = skf_gain f P;
          innovation = m - kf_x f
      in f\<lparr>kf_x := kf_x f + K * innovation, kf_P := (1 - K) * P,
           kf_confidence := (if \<bar>innovation\<bar> < 1/10 then min 1 (kf_confidence f + 5/100)
                             else max (1/10) (kf_confidence f - 2/100))\<rparr>)"

definition skf_add_data :: "real \<Rightarrow> skf \<Rightarrow> skf" where
  "skf_add_data m f0 =
     (let f = skf_remember m f0
      in if \<not> kf_initialized f then f\<lparr>kf_x := m, kf_initialized := True, kf_confidence := 1/10\<rparr>
         else skf_correct m f)"

definition skf_get_value :: "skf \<Rightarrow> real option" where
  "skf_get_value f = (if kf_initialized f then Some (kf_x f) else None)"

definition skf_get_confidence :: "skf \<Rightarrow> real" where
  "skf_get_confidence f = kf_confidence f"

definition skf_reset_data :: "skf \<Rightarrow> skf" where
  "skf_reset_data f = f\<lparr>kf_initialized := False, kf_history := [], kf_confidence := 0\<rparr>"

text \<open>\<open>get_value() or 0.0\<close>.\<close>

definition value_or_0 :: "skf \<Rightarrow> real" where
  "value_or_0 f = (case skf_get_value f of Some x \<Rightarrow> x | None \<Rightarrow> 0)"

section \<open>Transitions between the modes\<close>

datatype dec_mode = Mode_acc | Mode_blended

record mode_manager =
  mm_current_mode :: dec_mode
  mm_confidence :: "dec_mode \<Rightarrow> real"
  mm_transition_timeout :: int
  mm_min_mode_duration :: int
  mm_mode_duration :: int
  mm_emergency_override :: bool

definition mm_init :: mode_manager where
  "mm_init = \<lparr>mm_current_mode = Mode_acc, mm_confidence = (\<lambda>m. case m of Mode_acc \<Rightarrow> 1 | Mode_blended \<Rightarrow> 0),
     mm_transition_timeout = 0, mm_min_mode_duration = 10, mm_mode_duration = 0, mm_emergency_override = False\<rparr>"

definition mm_emergency :: "dec_mode \<Rightarrow> mode_manager \<Rightarrow> mode_manager" where
  "mm_emergency m s = s\<lparr>mm_emergency_override := True, mm_current_mode := m,
     mm_transition_timeout := SET_MODE_TIMEOUT, mm_mode_duration := 0\<rparr>"

definition mm_shift_confidence :: "dec_mode \<Rightarrow> real \<Rightarrow> mode_manager \<Rightarrow> mode_manager" where
  "mm_shift_confidence mode confidence s = s\<lparr>mm_confidence := (\<lambda>m.
     if m = mode then min 1 (mm_confidence s m + 1/10 * confidence) else max 0 (mm_confidence s m - 5/100))\<rparr>"

definition mm_request_mode :: "dec_mode \<Rightarrow> real \<Rightarrow> bool \<Rightarrow> mode_manager \<Rightarrow> mode_manager" where
  "mm_request_mode mode confidence emergency s0 =
     (if emergency then mm_emergency mode s0
      else
        let s = mm_shift_confidence mode confidence s0;
            threshold = (if mode \<noteq> mm_current_mode s then 6/10 else 3/10)
        in if mm_mode_duration s < mm_min_mode_duration s \<and> \<not> mm_emergency_override s then s
           else if mm_confidence s mode > threshold then
             if mode \<noteq> mm_current_mode s \<and> mm_transition_timeout s = 0
             then s\<lparr>mm_transition_timeout := SET_MODE_TIMEOUT, mm_current_mode := mode, mm_mode_duration := 0\<rparr>
             else s
           else s)"

definition mm_update :: "mode_manager \<Rightarrow> mode_manager" where
  "mm_update s =
     (let duration = mm_mode_duration s + 1
      in s\<lparr>mm_transition_timeout := (if mm_transition_timeout s > 0 then mm_transition_timeout s - 1 else mm_transition_timeout s),
           mm_mode_duration := duration,
           mm_emergency_override := (if mm_emergency_override s \<and> duration > 20 then False else mm_emergency_override s),
           mm_confidence := (\<lambda>m. mm_confidence s m * (98/100))\<rparr>)"

section \<open>The controller\<close>

text \<open>
  The endpoint and the expected distance are kept for debugging; \<open>None\<close> is the infinite
  endpoint. What one update reads of the messages is a record of its own.
\<close>

record dec_in =
  dx_CS :: car_state
  dx_lead_status :: bool
  dx_position_x :: "real list"
  dx_orientation_x :: "real list"
  dx_experimental_mode :: bool
  dx_crash_cnt :: int
  dx_params :: params

record dec =
  dc_CP :: car_params
  dc_enabled :: bool
  dc_active :: bool
  dc_frame :: int
  dc_urgency :: real
  dc_mode_manager :: mode_manager
  dc_lead_filter :: skf
  dc_slow_down_filter :: skf
  dc_slowness_filter :: skf
  dc_mpc_fcw_filter :: skf
  dc_has_lead_filtered :: bool
  dc_has_slow_down :: bool
  dc_has_slowness :: bool
  dc_has_mpc_fcw :: bool
  dc_v_ego_kph :: real
  dc_v_cruise_kph :: real
  dc_has_standstill :: bool
  dc_mpc_fcw_crash_cnt :: int
  dc_standstill_count :: int
  dc_endpoint_x :: "real option"
  dc_expected_distance :: real
  dc_trajectory_valid :: bool

definition dec_init :: "car_params \<Rightarrow> params \<Rightarrow> dec" where
  "dec_init CP p = \<lparr>dc_CP = CP, dc_enabled = get_bool p ''DynamicExperimentalControl'', dc_active = False,
     dc_frame = 0, dc_urgency = 0, dc_mode_manager = mm_init,
     dc_lead_filter = skf_init (15/100) (5/100) (102/100) (8/10),
     dc_slow_down_filter = skf_init (1/10) (1/10) (105/100) (7/10),
     dc_slowness_filter = skf_init (1/10) (6/100) (1015/1000) (92/100),
     dc_mpc_fcw_filter = skf_init (2/10) (1/10) (11/10) (5/10),
     dc_has_lead_filtered = False, dc_has_slow_down = False, dc_has_slowness = False, dc_has_mpc_fcw = False,
     dc_v_ego_kph = 0, dc_v_cruise_kph = 0, dc_has_standstill = False, dc_mpc_fcw_crash_cnt = 0,
     dc_standstill_count = 0, dc_endpoint_x = None, dc_expected_distance = 0, dc_trajectory_valid = False\<rparr>"

definition dec_read_params :: "params \<Rightarrow> dec \<Rightarrow> dec" where
  "dec_read_params p d = (if dc_frame d mod py_int (1 / DT_MDL) = 0
     then d\<lparr>dc_enabled := get_bool p ''DynamicExperimentalControl''\<rparr> else d)"

definition set_mpc_fcw_crash_cnt :: "int \<Rightarrow> dec \<Rightarrow> dec" where
  "set_mpc_fcw_crash_cnt n d = d\<lparr>dc_mpc_fcw_crash_cnt := n\<rparr>"

definition bool_val :: "bool \<Rightarrow> real" where "bool_val b = (if b then 1 else 0)"

definition dec_car_state :: "car_state \<Rightarrow> dec \<Rightarrow> dec" where
  "dec_car_state CS d = d\<lparr>dc_v_ego_kph := cs_vEgo CS * (36/10), dc_v_cruise_kph := cs_vCruise CS,
     dc_has_standstill := cs_standstill CS,
     dc_standstill_count := (if cs_standstill CS then min 20 (dc_standstill_count d + 1) else max 0 (dc_standstill_count d - 1))\<rparr>"

definition dec_lead :: "bool \<Rightarrow> dec \<Rightarrow> dec" where
  "dec_lead status d = (let f = skf_add_data (bool_val status) (dc_lead_filter d)
     in d\<lparr>dc_lead_filter := f, dc_has_lead_filtered := value_or_0 f > LEAD_PROB\<rparr>)"

text \<open>The value of the crash filter is read before the new count is added.\<close>

definition dec_fcw :: "dec \<Rightarrow> dec" where
  "dec_fcw d = d\<lparr>dc_mpc_fcw_filter := skf_add_data (bool_val (dc_mpc_fcw_crash_cnt d > 0)) (dc_mpc_fcw_filter d),
     dc_has_mpc_fcw := value_or_0 (dc_mpc_fcw_filter d) > 5/10\<rparr>"

definition trajectory_urgency :: "real \<Rightarrow> real \<Rightarrow> real \<Rightarrow> real" where
  "trajectory_urgency v_ego_kph expected_distance endpoint_x =
     (if endpoint_x < expected_distance then
        let shortage_ratio = (expected_distance - endpoint_x) / expected_distance;
            u1 = min 1 (shortage_ratio * 2);
            u2 = (if endpoint_x < expected_distance * (3/10) then min 1 (u1 * 2) else u1)
        in if v_ego_kph > 25 then min 1 (u2 * (1 + (v_ego_kph - 25) / 80)) else u2
      else 0)"

definition dec_add_urgency :: "real \<Rightarrow> real \<Rightarrow> dec \<Rightarrow> dec" where
  "dec_add_urgency urgency threshold d =
     (let f = skf_add_data urgency (dc_slow_down_filter d)
      in d\<lparr>dc_slow_down_filter := f, dc_has_slow_down := value_or_0 f > threshold, dc_urgency := value_or_0 f\<rparr>)"

definition calculate_slow_down :: "real list \<Rightarrow> real list \<Rightarrow> dec \<Rightarrow> dec" where
  "calculate_slow_down position_x orientation_x d0 =
     (let d = d0\<lparr>dc_endpoint_x := None, dc_trajectory_valid := False\<rparr>
      in if \<not> (length position_x = TRAJECTORY_SIZE \<and> length orientation_x = TRAJECTORY_SIZE)
         then dec_add_urgency (if dc_v_ego_kph d > 20 then 3/10 else 0) SLOW_DOWN_PROB d
         else
           let endpoint_x = position_x ! (TRAJECTORY_SIZE - 1);
               expected_distance = interp (dc_v_ego_kph d) SLOW_DOWN_CURVE
           in dec_add_urgency (trajectory_urgency (dc_v_ego_kph d) expected_distance endpoint_x) (SLOW_DOWN_PROB * (8/10))
                (d\<lparr>dc_trajectory_valid := True, dc_endpoint_x := Some endpoint_x, dc_expected_distance := expected_distance\<rparr>))"

definition dec_slowness :: "dec \<Rightarrow> dec" where
  "dec_slowness d =
     (if \<not> dc_standstill_count d > 5 \<and> \<not> dc_has_slow_down d then
        let f = skf_add_data (bool_val (dc_v_ego_kph d \<le> dc_v_cruise_kph d * SLOWNESS_CRUISE_OFFSET)) (dc_slowness_filter d);
            threshold = SLOWNESS_PROB * (if dc_has_slowness d then 8/10 else 11/10)
        in d\<lparr>dc_slowness_filter := f, dc_has_slowness := value_or_0 f > threshold\<rparr>
      else d)"

definition dec_calculations :: "dec_in \<Rightarrow> dec \<Rightarrow> dec" where
  "dec_calculations a d = dec_slowness (calculate_slow_down (dx_position_x a) (dx_orientation_x a)
     (dec_fcw (dec_lead (dx_lead_status a) (dec_car_state (dx_CS a) d))))"

text \<open>The mode a cycle asks for, its confidence, and whether it is an emergency.\<close>

type_synonym mode_request = "dec_mode \<times> real \<times> bool"

definition slow_down_request :: "real \<Rightarrow> real \<Rightarrow> mode_request" where
  "slow_down_request factor urgency =
     (if urgency > 7/10 then (Mode_blended, 1, True) else (Mode_blended, min 1 (urgency * factor), False))"

definition radarless_mode :: "dec \<Rightarrow> mode_request" where
  "radarless_mode d =
     (if dc_has_mpc_fcw d then (Mode_blended, 1, True)
      else if dc_standstill_count d > 3 then (Mode_blended, 9/10, False)
      else if dc_has_slow_down d then slow_down_request (15/10) (dc_urgency d)
      else if dc_has_slowness d \<and> \<not> dc_has_slow_down d then (Mode_acc, 8/10, False)
      else (Mode_acc, 7/10, False))"

definition radar_mode :: "dec \<Rightarrow> mode_request" where
  "radar_mode d =
     (if dc_has_mpc_fcw d then (Mode_blended, 1, True)
      else if dc_has_lead_filtered d \<and> \<not> dc_standstill_count d > 3 then (Mode_acc, 1, False)
      else if dc_has_slow_down d then slow_down_request (13/10) (dc_urgency d)
      else if dc_standstill_count d > 3 then (Mode_blended, 9/10, False)
      else if dc_has_slowness d \<and> \<not> dc_has_slow_down d then (Mode_acc, 8/10, False)
      else (Mode_acc, 7/10, False))"

definition dec_request :: "dec \<Rightarrow> dec" where
  "dec_request d = (let (mode, confidence, emergency) = (if cp_radarUnavailable (dc_CP d) then radarless_mode d else radar_mode d)
     in d\<lparr>dc_mode_manager := mm_update (mm_request_mode mode confidence emergency (dc_mode_manager d))\<rparr>)"

definition dec_update :: "dec_in \<Rightarrow> dec \<Rightarrow> dec" where
  "dec_update a d0 =
     (let d = dec_request (dec_calculations a (set_mpc_fcw_crash_cnt (dx_crash_cnt a) (dec_read_params (dx_params a) d0)))
      in d\<lparr>dc_active := dx_experimental_mode a \<and> dc_enabled d, dc_frame := dc_frame d + 1\<rparr>)"

definition dec_get_mode :: "dec \<Rightarrow> dec_mode" where
  "dec_get_mode d = mm_current_mode (dc_mode_manager d)"

definition dec_run :: "dec_in list \<Rightarrow> dec \<Rightarrow> dec" where
  "dec_run as d = foldl (\<lambda>d a. dec_update a d) d as"

section \<open>Facts about the filter\<close>

text \<open>A filter of values between 0 and 1: its variance stays positive and its value in that interval.\<close>

definition skf_ok :: "skf \<Rightarrow> bool" where
  "skf_ok f \<longleftrightarrow> 0 < kf_P f \<and> 0 < kf_R f \<and> 0 \<le> kf_Q f \<and> 0 < kf_alpha f \<and> 0 \<le> kf_smoothing_factor f \<and> kf_smoothing_factor f \<le> 1
     \<and> (kf_initialized f \<longrightarrow> 0 \<le> kf_x f \<and> kf_x f \<le> 1)"

lemma skf_gain_bounds:
  assumes "0 < P" "0 < kf_R f" "0 \<le> kf_smoothing_factor f" "kf_smoothing_factor f \<le> 1"
  shows "kf_smoothing_factor f / 10 \<le> skf_gain f P" "skf_gain f P < 1"
proof -
  let ?K = "P / (P + kf_R f)" and ?s = "kf_smoothing_factor f"
  have K: "0 < ?K" "?K < 1" using assms by (simp_all add: field_simps)
  have "0 \<le> ?K * (1 - ?s)" using K assms by (intro mult_nonneg_nonneg) simp_all
  then show "?s / 10 \<le> skf_gain f P" by (simp add: skf_gain_def)
  show "skf_gain f P < 1"
  proof (cases "?s = 1")
    case False
    then have "?K * (1 - ?s) < 1 * (1 - ?s)" using K assms by (intro mult_strict_right_mono) simp_all
    with assms show ?thesis by (simp add: skf_gain_def)
  qed (simp add: skf_gain_def)
qed

lemma convex_bounds:
  fixes K :: real
  assumes "0 \<le> K" "K \<le> 1" "0 \<le> x" "x \<le> 1" "0 \<le> m" "m \<le> 1"
  shows "0 \<le> x + K * (m - x)" "x + K * (m - x) \<le> 1"
proof -
  have eq: "x + K * (m - x) = (1 - K) * x + K * m" by (simp add: algebra_simps)
  show "0 \<le> x + K * (m - x)" unfolding eq using assms by simp
  have "(1 - K) * x + K * m \<le> (1 - K) * 1 + K * 1" using assms by (intro add_mono mult_left_mono) simp_all
  then show "x + K * (m - x) \<le> 1" unfolding eq by simp
qed

lemma skf_remember_simps [simp]:
  "kf_x (skf_remember m f) = kf_x f" "kf_P (skf_remember m f) = kf_P f" "kf_R (skf_remember m f) = kf_R f"
  "kf_Q (skf_remember m f) = kf_Q f" "kf_alpha (skf_remember m f) = kf_alpha f"
  "kf_smoothing_factor (skf_remember m f) = kf_smoothing_factor f" "kf_initialized (skf_remember m f) = kf_initialized f"
  "skf_gain (skf_remember m f) P = skf_gain f P"
  by (simp_all add: skf_remember_def skf_gain_def)

lemma skf_add_data_simps [simp]:
  "kf_R (skf_add_data m f) = kf_R f" "kf_Q (skf_add_data m f) = kf_Q f" "kf_alpha (skf_add_data m f) = kf_alpha f"
  "kf_smoothing_factor (skf_add_data m f) = kf_smoothing_factor f" "kf_initialized (skf_add_data m f)"
  by (simp_all add: skf_add_data_def skf_correct_def Let_def)

text \<open>The history of a filter holds its last measurements.\<close>

interpretation skf_hist: bounded_history "\<lambda>f m. Inr (skf_add_data m f)" kf_history
    "\<lambda>f. 0 < kf_max_history f \<and> length (kf_history f) \<le> kf_max_history f" kf_max_history
proof
  fix f :: skf and m :: real
  assume f: "0 < kf_max_history f \<and> length (kf_history f) \<le> kf_max_history f"
  have same: "kf_history (skf_add_data m f) = kf_history (skf_remember m f)" "kf_max_history (skf_add_data m f) = kf_max_history f"
    by (simp_all add: skf_add_data_def skf_correct_def skf_remember_def Let_def)
  consider "length (kf_history f) < kf_max_history f" | "length (kf_history f) = kf_max_history f" using f by linarith
  then have "kf_history (skf_remember m f) = lastn (kf_max_history f) (kf_history f @ [m])"
    using f by cases (simp_all add: skf_remember_def lastn_all lastn_full)
  then show "\<exists>f'. Inr (skf_add_data m f) = Inr f' \<and> (0 < kf_max_history f' \<and> length (kf_history f') \<le> kf_max_history f')
    \<and> kf_max_history f' = kf_max_history f \<and> kf_history f' = lastn (kf_max_history f) (kf_history f @ [m])"
    using f by (simp add: same)
qed simp

lemma skf_next_P: "skf_ok f \<Longrightarrow> 0 < kf_alpha f * kf_P f + kf_Q f"
  by (simp add: skf_ok_def add_pos_nonneg)

lemma skf_add_data_x:
  "kf_x (skf_add_data m f) = (if kf_initialized f then kf_x f + skf_gain f (kf_alpha f * kf_P f + kf_Q f) * (m - kf_x f) else m)"
  by (simp add: skf_add_data_def skf_correct_def Let_def)

lemma skf_add_data_ok [intro]:
  assumes "skf_ok f" "0 \<le> m" "m \<le> 1" shows "skf_ok (skf_add_data m f)"
proof -
  let ?P = "kf_alpha f * kf_P f + kf_Q f"
  have K: "0 \<le> skf_gain f ?P" "skf_gain f ?P < 1"
    using skf_gain_bounds [OF skf_next_P [OF assms(1)], of f] assms(1) by (auto simp: skf_ok_def)
  have "0 < kf_P (skf_add_data m f)"
    using assms(1) K skf_next_P [OF assms(1)] by (simp add: skf_add_data_def skf_correct_def Let_def skf_ok_def)
  moreover have "0 \<le> kf_x (skf_add_data m f) \<and> kf_x (skf_add_data m f) \<le> 1"
    using assms K convex_bounds [of "skf_gain f ?P" "kf_x f" m] by (auto simp: skf_add_data_x skf_ok_def)
  ultimately show ?thesis using assms(1) by (simp add: skf_ok_def)
qed

text \<open>The distance of the value from 1, of a filter without data 1: each datum 1 shrinks it.\<close>

definition skf_gap :: "skf \<Rightarrow> real" where
  "skf_gap f = (if kf_initialized f then 1 - kf_x f else 1)"

lemma skf_gap_shrinks:
  assumes "skf_ok f"
  shows "0 \<le> skf_gap f" "skf_gap (skf_add_data 1 f) \<le> (1 - kf_smoothing_factor f / 10) * skf_gap f"
proof -
  let ?K = "skf_gain f (kf_alpha f * kf_P f + kf_Q f)"
  show gap: "0 \<le> skf_gap f" using assms by (auto simp: skf_ok_def skf_gap_def)
  have "kf_smoothing_factor f / 10 \<le> ?K"
    using skf_gain_bounds(1) [OF skf_next_P [OF assms(1)], of f] assms(1) by (auto simp: skf_ok_def)
  then have "(1 - ?K) * skf_gap f \<le> (1 - kf_smoothing_factor f / 10) * skf_gap f"
    using gap by (intro mult_right_mono) simp_all
  moreover have "skf_gap (skf_add_data 1 f) \<le> (1 - ?K) * skf_gap f \<or> \<not> kf_initialized f"
    by (simp add: skf_gap_def skf_add_data_x algebra_simps)
  moreover have "kf_smoothing_factor f \<le> 1" using assms by (simp add: skf_ok_def)
  ultimately show "skf_gap (skf_add_data 1 f) \<le> (1 - kf_smoothing_factor f / 10) * skf_gap f"
    by (auto simp: skf_gap_def skf_add_data_x)
qed

lemma value_or_0_gap: "kf_initialized f \<Longrightarrow> value_or_0 f = 1 - skf_gap f"
  by (simp add: value_or_0_def skf_get_value_def skf_gap_def)

section \<open>Facts about the transitions\<close>

text \<open>The blended mode is locked for \<open>k\<close> cycles.\<close>

definition locked :: "nat \<Rightarrow> mode_manager \<Rightarrow> bool" where
  "locked k m \<longleftrightarrow> mm_current_mode m = Mode_blended \<and> int k \<le> mm_transition_timeout m \<and> mm_transition_timeout m \<le> SET_MODE_TIMEOUT"

definition mm_cycle :: "mode_request \<Rightarrow> mode_manager \<Rightarrow> mode_manager" where
  "mm_cycle r m = (let (mode, confidence, emergency) = r in mm_update (mm_request_mode mode confidence emergency m))"

abbreviation request_ok :: "mode_request \<Rightarrow> bool" where
  "request_ok r \<equiv> fst r = Mode_acc \<longrightarrow> \<not> snd (snd r)"

lemma requests_ok: "request_ok (radarless_mode d)" "request_ok (radar_mode d)"
  by (auto simp: radarless_mode_def radar_mode_def slow_down_request_def)

lemma mm_emergency_blends: "mm_cycle (Mode_blended, c, True) m = mm_update (mm_emergency Mode_blended m)"
  by (simp add: mm_cycle_def mm_request_mode_def)

lemma mm_cycle_locked:
  assumes "locked (Suc k) m" "request_ok r" shows "locked k (mm_cycle r m)"
proof -
  obtain mode c e where r: "r = (mode, c, e)" by (cases r)
  from assms show ?thesis
    by (cases mode; cases e) (auto simp: r mm_cycle_def locked_def mm_request_mode_def mm_emergency_def mm_shift_confidence_def
        mm_update_def Let_def SET_MODE_TIMEOUT_def)
qed

lemma mm_switch_locks:
  assumes "mm_current_mode m = Mode_acc" "mm_current_mode (mm_cycle r m) = Mode_blended"
  shows "locked 14 (mm_cycle r m)"
proof -
  obtain mode c e where r: "r = (mode, c, e)" by (cases r)
  from assms show ?thesis
    by (cases mode; cases e) (auto simp: r mm_cycle_def locked_def mm_request_mode_def mm_emergency_def mm_shift_confidence_def
        mm_update_def Let_def SET_MODE_TIMEOUT_def split: if_splits)
qed

section \<open>Facts about a cycle\<close>

lemma calculations_frame [simp]:
  "dc_mode_manager (dec_calculations a d) = dc_mode_manager d" "dc_CP (dec_calculations a d) = dc_CP d"
  "dc_mode_manager (dec_read_params p d) = dc_mode_manager d" "dc_mpc_fcw_filter (dec_read_params p d) = dc_mpc_fcw_filter d"
  "dc_mode_manager (set_mpc_fcw_crash_cnt n d) = dc_mode_manager d" "dc_mpc_fcw_filter (set_mpc_fcw_crash_cnt n d) = dc_mpc_fcw_filter d"
  "dc_mpc_fcw_crash_cnt (set_mpc_fcw_crash_cnt n d) = n"
  by (simp_all add: dec_calculations_def dec_slowness_def calculate_slow_down_def dec_add_urgency_def dec_fcw_def dec_lead_def
      dec_car_state_def dec_read_params_def set_mpc_fcw_crash_cnt_def Let_def)

lemma calculations_fcw [simp]:
  "dc_has_mpc_fcw (dec_calculations a d) = (value_or_0 (dc_mpc_fcw_filter d) > 1/2)"
  "dc_mpc_fcw_filter (dec_calculations a d) = skf_add_data (bool_val (dc_mpc_fcw_crash_cnt d > 0)) (dc_mpc_fcw_filter d)"
  by (simp_all add: dec_calculations_def dec_slowness_def calculate_slow_down_def dec_add_urgency_def dec_fcw_def dec_lead_def
      dec_car_state_def Let_def)

lemma dec_update_cycle:
  "\<exists>r. request_ok r \<and> dc_mode_manager (dec_update a d) = mm_cycle r (dc_mode_manager d)
    \<and> (value_or_0 (dc_mpc_fcw_filter d) > 1/2 \<longrightarrow> r = (Mode_blended, 1, True))"
proof -
  let ?d = "dec_calculations a (set_mpc_fcw_crash_cnt (dx_crash_cnt a) (dec_read_params (dx_params a) d))"
  let ?r = "if cp_radarUnavailable (dc_CP ?d) then radarless_mode ?d else radar_mode ?d"
  have "request_ok ?r" using requests_ok by simp
  moreover have "dc_mode_manager (dec_update a d) = mm_cycle ?r (dc_mode_manager d)"
    by (simp add: dec_update_def dec_request_def mm_cycle_def Let_def split: prod.split)
  moreover have "?r = (Mode_blended, 1, True)" if "value_or_0 (dc_mpc_fcw_filter d) > 1/2"
    using that by (simp add: radarless_mode_def radar_mode_def)
  ultimately show ?thesis by blast
qed

lemma dec_update_fcw_filter [simp]:
  "dc_mpc_fcw_filter (dec_update a d) = skf_add_data (bool_val (dx_crash_cnt a > 0)) (dc_mpc_fcw_filter d)"
  by (simp add: dec_update_def dec_request_def Let_def split: prod.split)

lemma dec_run_simps [simp]: "dec_run [] d = d" "dec_run (a # as) d = dec_run as (dec_update a d)"
  "dec_run (as @ bs) d = dec_run bs (dec_run as d)"
  by (simp_all add: dec_run_def)

lemma dec_run_locked: "locked k (dc_mode_manager d) \<Longrightarrow> length as \<le> k \<Longrightarrow> dec_get_mode (dec_run as d) = Mode_blended"
proof (induction "as" arbitrary: d k)
  case (Cons a as)
  then obtain j where k: "k = Suc j" by (cases k) auto
  from dec_update_cycle [of a d] obtain r where "request_ok r" "dc_mode_manager (dec_update a d) = mm_cycle r (dc_mode_manager d)" by blast
  with mm_cycle_locked [of j "dc_mode_manager d" r] Cons.prems have "locked j (dc_mode_manager (dec_update a d))" by (simp add: k)
  from Cons.IH [OF this] Cons.prems show ?case by (simp add: k)
qed (simp add: locked_def dec_get_mode_def)

abbreviation warning_filter_ok :: "dec \<Rightarrow> bool" where
  "warning_filter_ok d \<equiv> skf_ok (dc_mpc_fcw_filter d) \<and> kf_smoothing_factor (dc_mpc_fcw_filter d) = 1/2"

lemma dec_run_filter_ok: "warning_filter_ok d \<Longrightarrow> warning_filter_ok (dec_run as d)"
proof (induction "as" arbitrary: d)
  case (Cons a as)
  then have "warning_filter_ok (dec_update a d)" by (auto simp: bool_val_def)
  from Cons.IH [OF this] show ?case by simp
qed simp

lemma dec_init_filter_ok: "warning_filter_ok (dec_init CP p)"
  by (simp add: dec_init_def skf_init_def skf_ok_def)

lemma dec_run_gap:
  assumes "warning_filter_ok d" "\<forall>a\<in>set as. dx_crash_cnt a > 0" "skf_gap (dc_mpc_fcw_filter d) \<le> g" "0 \<le> g"
  shows "skf_gap (dc_mpc_fcw_filter (dec_run as d)) \<le> (19/20) ^ length as * g"
  using assms
proof (induction "as" arbitrary: d g)
  case (Cons a as)
  let ?f = "dc_mpc_fcw_filter d"
  have "skf_gap (skf_add_data 1 ?f) \<le> (19/20) * skf_gap ?f" using skf_gap_shrinks(2) [of ?f] Cons.prems(1) by simp
  then have "skf_gap (skf_add_data 1 ?f) \<le> (19/20) * g" using Cons.prems(3) by simp
  with Cons.IH [of "dec_update a d" "19/20 * g"] Cons.prems show ?case by (simp add: bool_val_def skf_add_data_ok algebra_simps)
qed simp

lemma dec_run_initialized: "as \<noteq> [] \<Longrightarrow> kf_initialized (dc_mpc_fcw_filter (dec_run as d))"
  by (cases "as" rule: rev_cases) simp_all

text \<open>
  An incomplete trajectory never counts as slowing down: its urgency is at most 0.3, the threshold
  is above 0.3, and a filter stays below what it is given.
\<close>

definition incomplete :: "dec_in \<Rightarrow> bool" where
  "incomplete a \<longleftrightarrow> length (dx_position_x a) \<noteq> TRAJECTORY_SIZE \<or> length (dx_orientation_x a) \<noteq> TRAJECTORY_SIZE"

definition slow_filter_low :: "dec \<Rightarrow> bool" where
  "slow_filter_low d \<longleftrightarrow> skf_ok (dc_slow_down_filter d) \<and> value_or_0 (dc_slow_down_filter d) \<le> 3/10"

lemma skf_stays_below:
  assumes "skf_ok f" "value_or_0 f \<le> u" "m \<le> u" shows "value_or_0 (skf_add_data m f) \<le> u"
proof (cases "kf_initialized f")
  case True
  let ?K = "skf_gain f (kf_alpha f * kf_P f + kf_Q f)"
  have K: "0 \<le> ?K" "?K < 1"
    using skf_gain_bounds [OF skf_next_P [OF assms(1)], of f] assms(1) by (auto simp: skf_ok_def)
  have "(1 - ?K) * kf_x f + ?K * m \<le> (1 - ?K) * u + ?K * u"
    using assms True K by (intro add_mono mult_left_mono) (simp_all add: value_or_0_def skf_get_value_def)
  then show ?thesis using True by (simp add: value_or_0_def skf_get_value_def skf_add_data_x algebra_simps)
next
  case False
  then show ?thesis using assms(3) by (simp add: value_or_0_def skf_get_value_def skf_add_data_x)
qed

lemma update_slow_down:
  "dc_slow_down_filter (dec_update a d) = dc_slow_down_filter (calculate_slow_down (dx_position_x a) (dx_orientation_x a)
     (dec_fcw (dec_lead (dx_lead_status a) (dec_car_state (dx_CS a) (set_mpc_fcw_crash_cnt (dx_crash_cnt a) (dec_read_params (dx_params a) d))))))"
  "dc_has_slow_down (dec_update a d) = dc_has_slow_down (calculate_slow_down (dx_position_x a) (dx_orientation_x a)
     (dec_fcw (dec_lead (dx_lead_status a) (dec_car_state (dx_CS a) (set_mpc_fcw_crash_cnt (dx_crash_cnt a) (dec_read_params (dx_params a) d))))))"
  by (simp_all add: dec_update_def dec_request_def dec_calculations_def dec_slowness_def Let_def split: prod.split)

lemma slow_filter_frame [simp]:
  "dc_slow_down_filter (dec_fcw d) = dc_slow_down_filter d" "dc_slow_down_filter (dec_lead b d) = dc_slow_down_filter d"
  "dc_slow_down_filter (dec_car_state CS d) = dc_slow_down_filter d" "dc_slow_down_filter (set_mpc_fcw_crash_cnt n d) = dc_slow_down_filter d"
  "dc_slow_down_filter (dec_read_params p d) = dc_slow_down_filter d"
  by (simp_all add: dec_fcw_def dec_lead_def dec_car_state_def set_mpc_fcw_crash_cnt_def dec_read_params_def Let_def)

lemma incomplete_update:
  assumes "incomplete a" "slow_filter_low d" shows "slow_filter_low (dec_update a d)" "\<not> dc_has_slow_down (dec_update a d)"
proof -
  let ?e = "dec_fcw (dec_lead (dx_lead_status a) (dec_car_state (dx_CS a) (set_mpc_fcw_crash_cnt (dx_crash_cnt a) (dec_read_params (dx_params a) d))))"
  let ?u = "if dc_v_ego_kph ?e > 20 then 3/10 else 0 :: real"
  have f: "dc_slow_down_filter (dec_update a d) = skf_add_data ?u (dc_slow_down_filter d)"
    using assms(1) by (simp add: update_slow_down calculate_slow_down_def dec_add_urgency_def incomplete_def Let_def)
  have h: "dc_has_slow_down (dec_update a d) = (value_or_0 (skf_add_data ?u (dc_slow_down_filter d)) > SLOW_DOWN_PROB)"
    using assms(1) by (simp add: update_slow_down calculate_slow_down_def dec_add_urgency_def incomplete_def Let_def)
  have low: "value_or_0 (skf_add_data ?u (dc_slow_down_filter d)) \<le> 3/10"
    using assms(2) by (intro skf_stays_below) (simp_all add: slow_filter_low_def)
  then show "slow_filter_low (dec_update a d)" using assms(2) unfolding slow_filter_low_def f by auto
  show "\<not> dc_has_slow_down (dec_update a d)" unfolding h using low by (simp add: SLOW_DOWN_PROB_def)
qed

lemma incomplete_run: "\<forall>a\<in>set as. incomplete a \<Longrightarrow> slow_filter_low d \<Longrightarrow> \<not> dc_has_slow_down d \<Longrightarrow> \<not> dc_has_slow_down (dec_run as d)"
  by (induction "as" arbitrary: d) (simp_all add: incomplete_update)

lemma incomplete_trajectories_never_slow:
  "\<forall>a\<in>set as. incomplete a \<Longrightarrow> \<not> dc_has_slow_down (dec_run as (dec_init CP p))"
  by (rule incomplete_run) (simp_all add: slow_filter_low_def dec_init_def skf_init_def skf_ok_def value_or_0_def skf_get_value_def)

section \<open>Properties\<close>

text \<open>
  C33. No flapping: a change from adaptive cruise to the blended mode, in an emergency or not,
  lasts at least fifteen cycles, whatever the inputs of the next fourteen.
\<close>

theorem dec_no_flapping:
  assumes "dec_get_mode d = Mode_acc" "dec_get_mode (dec_update a d) = Mode_blended" "length as \<le> 14"
  shows "dec_get_mode (dec_run as (dec_update a d)) = Mode_blended"
proof -
  from dec_update_cycle [of a d] obtain r where "dc_mode_manager (dec_update a d) = mm_cycle r (dc_mode_manager d)" by blast
  with mm_switch_locks [of "dc_mode_manager d" r] assms have "locked 14 (dc_mode_manager (dec_update a d))"
    by (simp add: dec_get_mode_def)
  with assms(3) show ?thesis by (rule dec_run_locked [rotated])
qed

text \<open>
  A collision warning reaches the driving mode: when the MPC has counted crashes for fifteen
  cycles, whatever happened before since the start, and with or without a radar, a lead, or a
  standstill, the mode is the blended one, and it stays so while the warning lasts.
\<close>

theorem crash_warning_blends:
  assumes "\<forall>a\<in>set as. dx_crash_cnt a > 0" "15 \<le> length as"
  shows "dec_get_mode (dec_run (bs @ as) (dec_init CP p)) = Mode_blended"
proof -
  let ?d = "dec_run bs (dec_init CP p)"
  from assms(2) obtain cs c where as: "as = cs @ [c]" by (cases "as" rule: rev_cases) auto
  let ?e = "dec_run cs ?d" and ?f = "dc_mpc_fcw_filter (dec_run cs ?d)"
  have ok: "warning_filter_ok ?d" by (rule dec_run_filter_ok [OF dec_init_filter_ok])
  have g: "skf_gap (dc_mpc_fcw_filter ?d) \<le> 1" using ok by (auto simp: skf_gap_def skf_ok_def)
  from dec_run_gap [OF ok _ g] assms(1) have "skf_gap ?f \<le> (19/20) ^ length cs" by (simp add: as)
  moreover have "(19/20 :: real) ^ length cs \<le> (19/20) ^ 14" using assms(2) by (intro power_decreasing) (simp_all add: as)
  ultimately have "skf_gap ?f \<le> (19/20) ^ 14" by linarith
  moreover have "(19/20 :: real) ^ 14 < 1/2" by (simp add: power_divide)
  ultimately have "skf_gap ?f < 1/2" by linarith
  moreover have "kf_initialized ?f" using assms(2) by (intro dec_run_initialized) (auto simp: as)
  ultimately have "value_or_0 ?f > 1/2" by (simp add: value_or_0_gap)
  with dec_update_cycle [of c ?e] have "dc_mode_manager (dec_update c ?e) = mm_cycle (Mode_blended, 1, True) (dc_mode_manager ?e)" by blast
  then show ?thesis by (simp add: as dec_get_mode_def mm_emergency_blends mm_update_def mm_emergency_def Let_def)
qed

definition test_dec_in :: "int \<Rightarrow> dec_in" where
  "test_dec_in n = \<lparr>dx_CS = default_cs\<lparr>cs_vEgo := 20\<rparr>, dx_lead_status = True, dx_position_x = [], dx_orientation_x = [],
     dx_experimental_mode = True, dx_crash_cnt = n, dx_params = Map.empty\<rparr>"

theorem crash_warning_blends_witness:
  "dec_get_mode (dec_run ([test_dec_in 0] @ replicate 15 (test_dec_in 3)) (dec_init default_cp Map.empty)) = Mode_blended"
  by (rule crash_warning_blends) (simp_all add: test_dec_in_def)

text \<open>A state in which the filter of the warnings has seen one.\<close>

definition warned_dec :: dec where
  "warned_dec = (let d = dec_init default_cp Map.empty in
     d\<lparr>dc_mpc_fcw_filter := (dc_mpc_fcw_filter d)\<lparr>kf_initialized := True, kf_x := 1\<rparr>\<rparr>)"

theorem dec_no_flapping_witness:
  "dec_get_mode (dec_run (replicate 14 (test_dec_in 0)) (dec_update (test_dec_in 0) warned_dec)) = Mode_blended"
proof (rule dec_no_flapping)
  show "dec_get_mode warned_dec = Mode_acc" by (simp add: warned_dec_def dec_init_def mm_init_def dec_get_mode_def)
  have "value_or_0 (dc_mpc_fcw_filter warned_dec) > 1/2"
    by (simp add: warned_dec_def dec_init_def skf_init_def value_or_0_def skf_get_value_def)
  with dec_update_cycle [of "test_dec_in 0" warned_dec] show "dec_get_mode (dec_update (test_dec_in 0) warned_dec) = Mode_blended"
    by (auto simp: dec_get_mode_def mm_emergency_blends mm_update_def mm_emergency_def Let_def)
qed simp

end
