(* ===== verification/Scc.thy ===== *)
theory Scc
  imports Cruise Transformations
begin

text \<open>
  Smart cruise control (\<open>sunnypilot/selfdrive/controls/lib/smart_cruise_control/\<close>): the target
  speed in curves the camera sees (\<open>vision_controller.py\<close>) and in curves of the map
  (\<open>map_controller.py\<close>). The path of the map, a JSON text of the parameter store, is given as
  the list it decodes to.
\<close>

definition MIN_V :: real where "MIN_V = 20 * KPH_TO_MS"

section \<open>Floats that may be infinite or not a number\<close>

text \<open>
  The camera's target speed is \<open>(2 / curvature) ** 0.5\<close> of numpy floats, which is infinite on a
  straight road and not a number if the curvature is negative. Comparisons with NaN are false.
\<close>

datatype flt = Fin real | PInf | NaN

fun flt_less :: "flt \<Rightarrow> flt \<Rightarrow> bool" where
  "flt_less (Fin x) (Fin y) = (x < y)"
| "flt_less (Fin x) PInf = True"
| "flt_less _ _ = False"

fun flt_add :: "flt \<Rightarrow> real \<Rightarrow> flt" where
  "flt_add (Fin x) y = Fin (x + y)"
| "flt_add PInf y = PInf"
| "flt_add NaN y = NaN"

text \<open>Python's \<open>max(a, b)\<close> keeps its first argument unless the second is greater.\<close>

definition flt_max :: "flt \<Rightarrow> flt \<Rightarrow> flt" where
  "flt_max a b = (if flt_less a b then b else a)"

text \<open>\<open>(c / x) ** 0.5\<close> for a positive \<open>c\<close>.\<close>

definition flt_sqrt_quotient :: "real \<Rightarrow> real \<Rightarrow> flt" where
  "flt_sqrt_quotient c x = (if x = 0 then PInf else if c / x < 0 then NaN else Fin (sqrt (c / x)))"

text \<open>
  \<open>numpy.percentile(xs, 97)\<close>: linear interpolation between the two neighbours in the sorted
  list. It raises on an empty one.
\<close>

definition percentile97 :: "real list \<Rightarrow> real result" where
  "percentile97 xs =
     (if xs = [] then Inl IndexError
      else let ys = sort xs; h = real (length xs - 1) * (97/100); lo = nat \<lfloor>h\<rfloor>; x = ys ! lo
           in Inr (x + (ys ! min (lo + 1) (length xs - 1) - x) * (h - of_int \<lfloor>h\<rfloor>)))"

text \<open>The product of two numpy vectors: one of length one is repeated, other lengths have to agree.\<close>

definition np_mult :: "real list \<Rightarrow> real list \<Rightarrow> real list result" where
  "np_mult xs ys =
     (if length xs = length ys then Inr (map2 (*) xs ys)
      else if length xs = 1 then Inr (map ((*) (hd xs)) ys)
      else if length ys = 1 then Inr (map (\<lambda>x. x * hd ys) xs)
      else Inl ValueError)"

section \<open>The vision controller\<close>

datatype vision_state = VS_disabled | VS_enabled | VS_entering | VS_turning | VS_leaving | VS_overriding

definition vision_active :: "vision_state \<Rightarrow> bool" where
  "vision_active s \<longleftrightarrow> s \<in> {VS_entering, VS_turning, VS_leaving}"

definition vision_enabled :: "vision_state \<Rightarrow> bool" where
  "vision_enabled s \<longleftrightarrow> s \<in> {VS_enabled, VS_overriding} \<or> vision_active s"

definition ENTERING_PRED_LAT_ACC_TH :: real where "ENTERING_PRED_LAT_ACC_TH = 13/10"
definition ABORT_ENTERING_PRED_LAT_ACC_TH :: real where "ABORT_ENTERING_PRED_LAT_ACC_TH = 11/10"
definition TURNING_LAT_ACC_TH :: real where "TURNING_LAT_ACC_TH = 16/10"
definition LEAVING_LAT_ACC_TH :: real where "LEAVING_LAT_ACC_TH = 13/10"
definition FINISH_LAT_ACC_TH :: real where "FINISH_LAT_ACC_TH = 11/10"
definition A_LAT_REG_MAX :: real where "A_LAT_REG_MAX = 2"
definition NO_OVERSHOOT_TIME_HORIZON :: real where "NO_OVERSHOOT_TIME_HORIZON = 4"
definition ENTERING_SMOOTH_DECEL :: "(real \<times> real) list" where "ENTERING_SMOOTH_DECEL = [(13/10, -2/10), (3, -1)]"
definition TURNING_ACC :: "(real \<times> real) list" where "TURNING_ACC = [(15/10, 5/10), (23/10, 0), (3, -4/10)]"
definition LEAVING_ACC :: real where "LEAVING_ACC = 5/10"

record scc_vision =
  vi_v_target :: flt
  vi_a_target :: real
  vi_v_ego :: real
  vi_a_ego :: real
  vi_output_v_target :: flt
  vi_output_a_target :: real
  vi_frame :: int
  vi_long_enabled :: bool
  vi_long_override :: bool
  vi_is_enabled :: bool
  vi_is_active :: bool
  vi_enabled :: bool
  vi_v_cruise_setpoint :: real
  vi_state :: vision_state
  vi_current_lat_acc :: real
  vi_max_pred_lat_acc :: real

definition vision_init :: "params \<Rightarrow> scc_vision" where
  "vision_init p = \<lparr>vi_v_target = Fin 0, vi_a_target = 0, vi_v_ego = 0, vi_a_ego = 0,
     vi_output_v_target = Fin V_CRUISE_UNSET, vi_output_a_target = 0, vi_frame = -1, vi_long_enabled = False,
     vi_long_override = False, vi_is_enabled = False, vi_is_active = False,
     vi_enabled = get_bool p ''SmartCruiseControlVision'', vi_v_cruise_setpoint = 0, vi_state = VS_disabled,
     vi_current_lat_acc = 0, vi_max_pred_lat_acc = 0\<rparr>"

definition vision_v_target_from_control :: "scc_vision \<Rightarrow> flt" where
  "vision_v_target_from_control s =
     (if vi_is_active s then flt_add (flt_max (vi_v_target s) (Fin MIN_V)) (vi_a_target s * NO_OVERSHOOT_TIME_HORIZON)
      else Fin V_CRUISE_UNSET)"

definition vision_a_target_from_control :: "scc_vision \<Rightarrow> real" where
  "vision_a_target_from_control s = vi_a_target s"

definition vision_update_params :: "params \<Rightarrow> scc_vision \<Rightarrow> scc_vision" where
  "vision_update_params p s = (if vi_frame s mod py_int (PARAMS_UPDATE_PERIOD / DT_MDL) = 0
     then s\<lparr>vi_enabled := get_bool p ''SmartCruiseControlVision''\<rparr> else s)"

text \<open>What the controllers read of the messages.\<close>

record scc_in =
  sc_orientationRate_z :: "real list"
  sc_velocity_x :: "real list"
  sc_curvature :: real
  sc_last_position :: "(real \<times> real) option"
  sc_target_velocities :: "(real \<times> real \<times> real) list option"

definition vision_calculations :: "scc_in \<Rightarrow> scc_vision \<Rightarrow> scc_vision result" where
  "vision_calculations i s =
     (if \<not> vi_long_enabled s then Inr s
      else bind_result (np_mult (map abs (sc_orientationRate_z i)) (sc_velocity_x i)) (\<lambda>accels.
        bind_result (percentile97 accels) (\<lambda>m.
          let max_curve = m / (max (vi_v_ego s) (1/10))\<^sup>2
          in Inr (s\<lparr>vi_current_lat_acc := (vi_v_ego s)\<^sup>2 * \<bar>sc_curvature i\<bar>, vi_max_pred_lat_acc := m,
                   vi_v_target := flt_sqrt_quotient A_LAT_REG_MAX max_curve\<rparr>))))"

definition vision_transition :: "scc_vision \<Rightarrow> vision_state" where
  "vision_transition s =
     (if vi_state s \<noteq> VS_disabled then
        if \<not> vi_long_enabled s \<or> \<not> vi_enabled s then VS_disabled
        else if vi_long_override s then VS_overriding
        else (case vi_state s of
            VS_enabled \<Rightarrow> if vi_v_ego s \<le> MIN_V then VS_enabled
              else if vi_max_pred_lat_acc s \<ge> ENTERING_PRED_LAT_ACC_TH then VS_entering else VS_enabled
          | VS_overriding \<Rightarrow> if \<not> vi_long_override s then VS_enabled else VS_overriding
          | VS_entering \<Rightarrow> if vi_current_lat_acc s \<ge> TURNING_LAT_ACC_TH then VS_turning
              else if vi_max_pred_lat_acc s < ABORT_ENTERING_PRED_LAT_ACC_TH then VS_enabled else VS_entering
          | VS_turning \<Rightarrow> if vi_current_lat_acc s \<le> LEAVING_LAT_ACC_TH then VS_leaving else VS_turning
          | VS_leaving \<Rightarrow> if vi_current_lat_acc s \<ge> TURNING_LAT_ACC_TH then VS_turning
              else if vi_current_lat_acc s < FINISH_LAT_ACC_TH then VS_enabled else VS_leaving
          | VS_disabled \<Rightarrow> VS_disabled)
      else if vi_long_enabled s \<and> vi_enabled s then if vi_long_override s then VS_overriding else VS_enabled
      else VS_disabled)"

definition vision_state_machine :: "scc_vision \<Rightarrow> scc_vision" where
  "vision_state_machine s = (let st = vision_transition s
     in s\<lparr>vi_state := st, vi_is_enabled := vision_enabled st, vi_is_active := vision_active st\<rparr>)"

text \<open>The branches are complete: the code's \<open>NotImplementedError\<close> cannot be reached.\<close>

definition vision_solution :: "scc_vision \<Rightarrow> real" where
  "vision_solution s =
     (if \<not> vision_active (vi_state s) then vi_a_ego s
      else if vi_state s = VS_entering then interp (vi_max_pred_lat_acc s) ENTERING_SMOOTH_DECEL
      else if vi_state s = VS_turning then interp (vi_current_lat_acc s) TURNING_ACC
      else LEAVING_ACC)"

text \<open>The arguments of an update of either controller.\<close>

record scc_args =
  sg_long_enabled :: bool
  sg_long_override :: bool
  sg_v_ego :: real
  sg_a_ego :: real
  sg_v_cruise :: real

definition vision_finish :: "scc_vision \<Rightarrow> scc_vision" where
  "vision_finish s0 =
     (let s1 = vision_state_machine s0; s = s1\<lparr>vi_a_target := vision_solution s1\<rparr>
      in s\<lparr>vi_output_v_target := vision_v_target_from_control s, vi_output_a_target := vision_a_target_from_control s,
           vi_frame := vi_frame s + 1\<rparr>)"

definition vision_update :: "params \<Rightarrow> scc_in \<Rightarrow> scc_args \<Rightarrow> scc_vision \<Rightarrow> scc_vision result" where
  "vision_update p i g s0 =
     (let s = vision_update_params p (s0\<lparr>vi_long_enabled := sg_long_enabled g, vi_long_override := sg_long_override g,
                vi_v_ego := sg_v_ego g, vi_a_ego := sg_a_ego g, vi_v_cruise_setpoint := sg_v_cruise g\<rparr>)
      in bind_result (vision_calculations i s) (\<lambda>s. Inr (vision_finish s)))"

section \<open>The map controller\<close>

datatype map_state = MS_disabled | MS_enabled | MS_turning | MS_overriding

definition map_active :: "map_state \<Rightarrow> bool" where "map_active s \<longleftrightarrow> s = MS_turning"
definition map_enabled :: "map_state \<Rightarrow> bool" where "map_enabled s \<longleftrightarrow> s \<in> {MS_enabled, MS_overriding} \<or> map_active s"

definition EARTH_R :: real where "EARTH_R = 6373000"
definition TO_RADIANS :: real where "TO_RADIANS = pi / 180"
definition TARGET_JERK :: real where "TARGET_JERK = -6/10"
definition TARGET_ACCEL :: real where "TARGET_ACCEL = -12/10"
definition TARGET_OFFSET :: real where "TARGET_OFFSET = 1"

definition calculate_accel :: "real \<Rightarrow> real \<Rightarrow> real \<Rightarrow> real" where
  "calculate_accel t target_jerk a_ego = a_ego + target_jerk * t"

definition calculate_velocity :: "real \<Rightarrow> real \<Rightarrow> real \<Rightarrow> real \<Rightarrow> real" where
  "calculate_velocity t target_jerk a_ego v_ego = v_ego + a_ego * t + target_jerk / 2 * t\<^sup>2"

definition calculate_distance :: "real \<Rightarrow> real \<Rightarrow> real \<Rightarrow> real \<Rightarrow> real" where
  "calculate_distance t target_jerk a_ego v_ego = t * v_ego + a_ego / 2 * t\<^sup>2 + target_jerk / 6 * t ^ 3"

text \<open>The haversine formula; its square roots are of numbers between 0 and 1.\<close>

definition haversine :: "real \<Rightarrow> real \<Rightarrow> real \<Rightarrow> real \<Rightarrow> real" where
  "haversine ax ay bx by = sin ((bx - ax) / 2) * sin ((bx - ax) / 2)
     + cos ax * cos bx * sin ((by - ay) / 2) * sin ((by - ay) / 2)"

definition distance_to_point :: "real \<Rightarrow> real \<Rightarrow> real \<Rightarrow> real \<Rightarrow> real" where
  "distance_to_point ax ay bx by = (let a = haversine ax ay bx by
     in EARTH_R * (2 * arctan2 (sqrt a) (sqrt (1 - a))))"

text \<open>A point of the path: latitude, longitude and target velocity.\<close>

type_synonym map_point = "real \<times> real \<times> real"

abbreviation pt_velocity :: "map_point \<Rightarrow> real" where "pt_velocity p \<equiv> snd (snd p)"

record scc_map =
  mp_v_target :: real
  mp_a_target :: real
  mp_v_ego :: real
  mp_a_ego :: real
  mp_output_v_target :: real
  mp_output_a_target :: real
  mp_enabled :: bool
  mp_long_enabled :: bool
  mp_long_override :: bool
  mp_is_enabled :: bool
  mp_is_active :: bool
  mp_state :: map_state
  mp_v_cruise :: real
  mp_target_lat :: real
  mp_target_lon :: real
  mp_frame :: int
  mp_last_position :: "real \<times> real"
  mp_target_velocities :: "map_point list"

definition or_default :: "'a option \<Rightarrow> 'a \<Rightarrow> 'a" where
  "or_default x d = (case x of Some v \<Rightarrow> v | None \<Rightarrow> d)"

definition map_init :: "params \<Rightarrow> scc_in \<Rightarrow> scc_map" where
  "map_init p i = \<lparr>mp_v_target = 0, mp_a_target = 0, mp_v_ego = 0, mp_a_ego = 0,
     mp_output_v_target = V_CRUISE_UNSET, mp_output_a_target = 0,
     mp_enabled = get_bool p ''SmartCruiseControlMap'', mp_long_enabled = False, mp_long_override = False,
     mp_is_enabled = False, mp_is_active = False, mp_state = MS_disabled, mp_v_cruise = 0, mp_target_lat = 0,
     mp_target_lon = 0, mp_frame = -1, mp_last_position = or_default (sc_last_position i) (0, 0),
     mp_target_velocities = or_default (sc_target_velocities i) []\<rparr>"

definition map_v_target_from_control :: "scc_map \<Rightarrow> real" where
  "map_v_target_from_control s = (if mp_is_active s then max (mp_v_target s) MIN_V else V_CRUISE_UNSET)"

definition map_a_target_from_control :: "scc_map \<Rightarrow> real" where
  "map_a_target_from_control s = mp_a_ego s"

definition map_update_params :: "params \<Rightarrow> scc_map \<Rightarrow> scc_map" where
  "map_update_params p s = (if mp_frame s mod py_int (PARAMS_UPDATE_PERIOD / DT_MDL) = 0
     then s\<lparr>mp_enabled := get_bool p ''SmartCruiseControlMap''\<rparr> else s)"

text \<open>The time to reach a velocity at the target jerk, as the code computes it; \<open>None\<close> is a complex number.\<close>

definition jerk_time :: "real \<Rightarrow> real \<Rightarrow> real \<Rightarrow> real option" where
  "jerk_time a_ego v_ego tv =
     (let a = 1/2 * TARGET_JERK; b = a_ego; c = v_ego - tv; disc = b\<^sup>2 - 4 * a * c
      in if disc < 0 then None
         else let t_a = -1 * (sqrt disc + b) / 2 * a; t_b = (sqrt disc - b) / 2 * a
              in Some (if t_a > 0 then t_a else t_b))"

definition accel_time :: "real \<Rightarrow> real" where
  "accel_time a_ego = \<bar>(a_ego - TARGET_ACCEL) / TARGET_JERK\<bar>"

definition braking_distance :: "real \<Rightarrow> real \<Rightarrow> real \<Rightarrow> real option" where
  "braking_distance a_ego v_ego tv =
     (let accel_t = accel_time a_ego; min_accel_v = calculate_velocity accel_t TARGET_JERK a_ego v_ego
      in if tv > min_accel_v then map_option (\<lambda>t. 0 + calculate_distance t TARGET_JERK a_ego v_ego) (jerk_time a_ego v_ego tv)
         else Some (calculate_distance accel_t TARGET_JERK a_ego v_ego
                + calculate_distance \<bar>(min_accel_v - tv) / TARGET_ACCEL\<bar> 0 TARGET_ACCEL min_accel_v))"

definition point_distance :: "real \<times> real \<Rightarrow> map_point \<Rightarrow> real" where
  "point_distance pos q = (case q of (tlat, tlon, tv) \<Rightarrow>
     distance_to_point (fst pos * TO_RADIANS) (snd pos * TO_RADIANS) (tlat * TO_RADIANS) (tlon * TO_RADIANS))"

text \<open>The index of the nearest point within a kilometre, 0 if there is none.\<close>

fun nearest_from :: "nat \<Rightarrow> real \<times> nat \<Rightarrow> real list \<Rightarrow> nat" where
  "nearest_from i (min_dist, min_idx) [] = min_idx"
| "nearest_from i (min_dist, min_idx) (d # ds) = nearest_from (i + 1) (if d < min_dist then (d, i) else (min_dist, min_idx)) ds"

definition needs_braking :: "real \<Rightarrow> real \<Rightarrow> map_point \<times> real \<Rightarrow> bool" where
  "needs_braking a_ego v_ego = (\<lambda>(q, d). \<not> pt_velocity q > v_ego
     \<and> (case braking_distance a_ego v_ego (pt_velocity q) of
          None \<Rightarrow> False | Some max_d \<Rightarrow> d < max_d + pt_velocity q * TARGET_OFFSET))"

text \<open>The slowest of the points, the first one of those below 100 m/s.\<close>

fun slowest_from :: "map_point \<Rightarrow> map_point list \<Rightarrow> map_point" where
  "slowest_from m [] = m"
| "slowest_from m (q # qs) = slowest_from (if pt_velocity q < pt_velocity m then q else m) qs"

text \<open>The point targeted before is still ahead and no faster than the car.\<close>

definition still_ahead :: "scc_map \<Rightarrow> map_point list \<Rightarrow> bool" where
  "still_ahead s qs \<longleftrightarrow> (\<exists>q\<in>set qs. \<not> pt_velocity q > mp_v_ego s \<and> q = (mp_target_lat s, mp_target_lon s, mp_v_target s))"

definition map_retarget :: "map_point list \<Rightarrow> map_point \<Rightarrow> scc_map \<Rightarrow> scc_map" where
  "map_retarget forward m s =
     (if mp_v_target s < pt_velocity m \<and> \<not> (mp_target_lat s = 0 \<and> mp_target_lon s = 0) \<and> still_ahead s forward then s
      else s\<lparr>mp_v_target := pt_velocity m, mp_target_lat := fst m, mp_target_lon := fst (snd m)\<rparr>)"

definition map_calculations :: "scc_in \<Rightarrow> scc_map \<Rightarrow> scc_map" where
  "map_calculations i s0 =
     (let s = s0\<lparr>mp_last_position := or_default (sc_last_position i) (0, 0),
                 mp_target_velocities := or_default (sc_target_velocities i) []\<rparr>;
          distances = map (point_distance (mp_last_position s)) (mp_target_velocities s);
          min_idx = nearest_from 0 (1000, 0) distances;
          forward = drop min_idx (mp_target_velocities s);
          valid = map fst (filter (needs_braking (mp_a_ego s) (mp_v_ego s)) (zip forward (drop min_idx distances)))
      in map_retarget forward (slowest_from (0, 0, 100) valid) s)"

definition map_curve_ahead :: "scc_map \<Rightarrow> bool" where
  "map_curve_ahead s \<longleftrightarrow> mp_v_cruise s > mp_v_target s \<and> mp_v_target s \<noteq> 0"

definition map_transition :: "scc_map \<Rightarrow> map_state" where
  "map_transition s =
     (if mp_state s \<noteq> MS_disabled then
        if \<not> mp_long_enabled s \<or> \<not> mp_enabled s then MS_disabled
        else if mp_long_override s then MS_overriding
        else (case mp_state s of
            MS_enabled \<Rightarrow> if map_curve_ahead s then MS_turning else MS_enabled
          | MS_turning \<Rightarrow> if mp_v_cruise s \<le> mp_v_target s \<or> mp_v_target s = 0 then MS_enabled else MS_turning
          | MS_overriding \<Rightarrow> if \<not> mp_long_override s then (if map_curve_ahead s then MS_turning else MS_enabled) else MS_overriding
          | MS_disabled \<Rightarrow> MS_disabled)
      else if mp_long_enabled s \<and> mp_enabled s then if mp_long_override s then MS_overriding else MS_enabled
      else MS_disabled)"

definition map_state_machine :: "scc_map \<Rightarrow> scc_map" where
  "map_state_machine s = (let st = map_transition s
     in s\<lparr>mp_state := st, mp_is_enabled := map_enabled st, mp_is_active := map_active st\<rparr>)"

definition map_update :: "params \<Rightarrow> scc_in \<Rightarrow> scc_args \<Rightarrow> scc_map \<Rightarrow> scc_map" where
  "map_update p i g s0 =
     (let s = map_state_machine (map_calculations i (map_update_params p (s0\<lparr>mp_long_enabled := sg_long_enabled g,
                mp_long_override := sg_long_override g, mp_v_ego := sg_v_ego g, mp_a_ego := sg_a_ego g, mp_v_cruise := sg_v_cruise g\<rparr>)))
      in s\<lparr>mp_output_v_target := map_v_target_from_control s, mp_output_a_target := map_a_target_from_control s,
           mp_frame := mp_frame s + 1\<rparr>)"

section \<open>Both\<close>

record scc =
  sc_vision :: scc_vision
  sc_map :: scc_map

definition scc_init :: "params \<Rightarrow> scc_in \<Rightarrow> scc" where
  "scc_init p i = \<lparr>sc_vision = vision_init p, sc_map = map_init p i\<rparr>"

definition scc_update :: "params \<Rightarrow> scc_in \<Rightarrow> scc_args \<Rightarrow> scc \<Rightarrow> scc result" where
  "scc_update p i g s = bind_result (vision_update p i g (sc_vision s)) (\<lambda>v.
     Inr (s\<lparr>sc_map := map_update p i g (sc_map s), sc_vision := v\<rparr>))"

section \<open>Facts\<close>

lemma haversine_range: "0 \<le> haversine ax ay bx by" "haversine ax ay bx by \<le> 1"
proof -
  define S where "S = (sin ((by - ay) / 2))\<^sup>2"
  have S: "0 \<le> S" "S \<le> 1" by (simp_all add: S_def power_le_one_iff abs_square_le_1)
  define u where "u = (bx - ax) / 2"
  have u: "bx - ax = 2 * u" by (simp add: u_def)
  have d: "(sin ((bx - ax) / 2))\<^sup>2 = (1 - cos (bx - ax)) / 2"
    unfolding u cos_double_sin by simp
  have c: "cos ax * cos bx = (cos (bx - ax) + cos (bx + ax)) / 2"
    by (simp add: cos_add cos_diff field_simps)
  have h: "haversine ax ay bx by = (1 - S) * ((1 - cos (bx - ax)) / 2) + S * ((1 + cos (bx + ax)) / 2)"
  proof -
    have "haversine ax ay bx by = (sin ((bx - ax) / 2))\<^sup>2 + cos ax * cos bx * S"
      by (simp add: haversine_def S_def power2_eq_square)
    then show ?thesis unfolding c d by (simp add: algebra_simps add_divide_distrib diff_divide_distrib)
  qed
  have half: "0 \<le> (1 - cos v) / 2" "(1 - cos v) / 2 \<le> 1" "0 \<le> (1 + cos v) / 2" "(1 + cos v) / 2 \<le> 1" for v :: real
  proof -
    have "0 \<le> 1 + cos v" using cos_ge_minus_one [of v] by linarith
    moreover have "0 \<le> 1 - cos v" using cos_le_one [of v] by linarith
    ultimately show "0 \<le> (1 - cos v) / 2" "(1 - cos v) / 2 \<le> 1" "0 \<le> (1 + cos v) / 2" "(1 + cos v) / 2 \<le> 1" by simp_all
  qed
  note p = half(1,2) [of "bx - ax"] half(3,4) [of "bx + ax"]
  show "0 \<le> haversine ax ay bx by" unfolding h using S p by simp
  have "(1 - S) * ((1 - cos (bx - ax)) / 2) + S * ((1 + cos (bx + ax)) / 2) \<le> (1 - S) * 1 + S * 1"
    using S p by (intro add_mono mult_left_mono) simp_all
  then show "haversine ax ay bx by \<le> 1" unfolding h by simp
qed

text \<open>
  The time in which the target velocity is reached at the target jerk is \<open>T\<close>; the code divides
  by \<open>2\<close> and multiplies by \<open>a\<close> where the formula divides by \<open>2 * a\<close>, so it takes \<open>a\<^sup>2 * T\<close>, 9 percent.
\<close>

lemma jerk_time_too_short:
  assumes "tv < v_ego"
  shows "\<exists>T>0. calculate_velocity T TARGET_JERK a_ego v_ego = tv \<and> jerk_time a_ego v_ego tv = Some (9/100 * T)"
proof -
  let ?D = "a_ego\<^sup>2 + 12/10 * (v_ego - tv)" and ?r = "sqrt (a_ego\<^sup>2 + 12/10 * (v_ego - tv))"
  let ?T = "(?r + a_ego) / (6/10)"
  have D: "a_ego\<^sup>2 < ?D" using assms by simp
  then have "\<bar>a_ego\<bar> < ?r" using real_sqrt_less_mono [OF D] by simp
  then have pos: "0 < ?r + a_ego" by linarith
  have D0: "0 \<le> ?D" using D zero_le_power2 [of a_ego] by linarith
  then have r2: "?r\<^sup>2 = ?D" by (rule real_sqrt_pow2)
  have "calculate_velocity ?T TARGET_JERK a_ego v_ego = v_ego - (?r\<^sup>2 - a_ego\<^sup>2) / (12/10)"
    by (simp add: calculate_velocity_def TARGET_JERK_def power2_eq_square field_simps)
  also have "\<dots> = tv" unfolding r2 by (simp add: field_simps)
  finally have "calculate_velocity ?T TARGET_JERK a_ego v_ego = tv" .
  moreover have "jerk_time a_ego v_ego tv = Some (9/100 * ?T)"
  proof -
    have a: "1/2 * TARGET_JERK = - 3/10" by (simp add: TARGET_JERK_def)
    have disc: "a_ego\<^sup>2 - 4 * (- 3/10) * (v_ego - tv) = ?D" by simp
    have ta: "-1 * (?r + a_ego) / 2 * (- 3/10) = 9/100 * ?T" by (simp add: field_simps)
    have "0 < 9/100 * ?T" "\<not> ?D < 0" using pos D0 by simp_all
    then show ?thesis unfolding jerk_time_def Let_def a disc ta by (simp only: if_True if_False)
  qed
  moreover have "0 < ?T" using pos by simp
  ultimately show ?thesis by blast
qed

lemma vision_solution_bounds:
  assumes "vision_active (vi_state s)" shows "-1 \<le> vision_solution s" "vision_solution s \<le> 1/2"
  using assms interp_between [of ENTERING_SMOOTH_DECEL "-1" "1/2" "vi_max_pred_lat_acc s"]
    interp_between [of TURNING_ACC "-1" "1/2" "vi_current_lat_acc s"]
  by (auto simp: vision_solution_def LEAVING_ACC_def ENTERING_SMOOTH_DECEL_def TURNING_ACC_def)

lemma flt_max_add_lower: "flt_add (flt_max a (Fin m)) y = Fin x \<Longrightarrow> m + y \<le> x"
  by (cases a) (auto simp: flt_max_def split: if_splits)

lemma vision_update_outputs:
  assumes "vision_update p i g s = Inr s'"
  shows "vi_is_active s' \<longleftrightarrow> vision_active (vi_state s')"
    and "\<not> vi_is_active s' \<Longrightarrow> vi_output_v_target s' = Fin V_CRUISE_UNSET \<and> vi_output_a_target s' = sg_a_ego g"
    and "vi_is_active s' \<Longrightarrow> - 1 \<le> vi_output_a_target s' \<and> vi_output_a_target s' \<le> 1/2"
    and "vi_is_active s' \<Longrightarrow> vi_output_v_target s' = Fin x \<Longrightarrow> MIN_V - 4 \<le> x"
    and "vi_is_active s' \<Longrightarrow> sg_long_enabled g \<and> \<not> sg_long_override g"
proof -
  from assms obtain t where t: "s' = vision_finish t" "vi_a_ego t = sg_a_ego g"
    "vi_long_enabled t = sg_long_enabled g" "vi_long_override t = sg_long_override g"
    by (auto simp: vision_update_def vision_update_params_def vision_calculations_def Let_def bind_result_Inr_iff split: if_splits)
  show "vi_is_active s' \<longleftrightarrow> vision_active (vi_state s')"
    by (simp add: t vision_finish_def vision_state_machine_def Let_def)
  have off: "\<not> vision_active (vision_transition t) \<Longrightarrow> vision_solution (vision_state_machine t) = vi_a_ego t"
    by (simp add: vision_solution_def vision_state_machine_def Let_def)
  then show "\<not> vi_is_active s' \<Longrightarrow> vi_output_v_target s' = Fin V_CRUISE_UNSET \<and> vi_output_a_target s' = sg_a_ego g"
    by (simp add: t vision_finish_def vision_state_machine_def vision_v_target_from_control_def vision_a_target_from_control_def Let_def)
  have b: "vision_active (vision_transition t) \<Longrightarrow> -1 \<le> vision_solution (vision_state_machine t) \<and> vision_solution (vision_state_machine t) \<le> 1/2"
    using vision_solution_bounds [of "vision_state_machine t"] by (simp add: vision_state_machine_def Let_def)
  then show "vi_is_active s' \<Longrightarrow> - 1 \<le> vi_output_a_target s' \<and> vi_output_a_target s' \<le> 1/2"
    by (simp add: t vision_finish_def vision_state_machine_def vision_a_target_from_control_def Let_def)
  show "vi_is_active s' \<Longrightarrow> vi_output_v_target s' = Fin x \<Longrightarrow> MIN_V - 4 \<le> x"
    using b by (auto simp: t vision_finish_def vision_state_machine_def vision_v_target_from_control_def NO_OVERSHOOT_TIME_HORIZON_def Let_def dest!: flt_max_add_lower)
  show "vi_is_active s' \<Longrightarrow> sg_long_enabled g \<and> \<not> sg_long_override g"
    by (cases "vi_state t") (auto simp: t vision_finish_def vision_state_machine_def vision_transition_def vision_active_def Let_def split: if_splits)
qed

lemma map_update_outputs:
  "mp_is_active (map_update p i g s) \<Longrightarrow> sg_long_enabled g \<and> \<not> sg_long_override g \<and> MIN_V \<le> mp_output_v_target (map_update p i g s)"
  "\<not> mp_is_active (map_update p i g s) \<Longrightarrow> mp_output_v_target (map_update p i g s) = V_CRUISE_UNSET"
  "mp_output_a_target (map_update p i g s) = sg_a_ego g"
proof -
  obtain t where t: "t = map_calculations i (map_update_params p (s\<lparr>mp_long_enabled := sg_long_enabled g,
                mp_long_override := sg_long_override g, mp_v_ego := sg_v_ego g, mp_a_ego := sg_a_ego g, mp_v_cruise := sg_v_cruise g\<rparr>))" by simp
  have f: "mp_long_enabled t = sg_long_enabled g" "mp_long_override t = sg_long_override g" "mp_a_ego t = sg_a_ego g"
    by (simp_all add: t map_calculations_def map_retarget_def map_update_params_def Let_def)
  have u: "map_update p i g s = (let s = map_state_machine t in s\<lparr>mp_output_v_target := map_v_target_from_control s,
     mp_output_a_target := map_a_target_from_control s, mp_frame := mp_frame s + 1\<rparr>)" by (simp only: map_update_def Let_def t)
  have active: "mp_is_active (map_update p i g s) = map_active (map_transition t)"
    by (simp add: u map_state_machine_def Let_def)
  show "mp_is_active (map_update p i g s) \<Longrightarrow> sg_long_enabled g \<and> \<not> sg_long_override g \<and> MIN_V \<le> mp_output_v_target (map_update p i g s)"
    unfolding active by (cases "mp_state t") (auto simp: u map_state_machine_def map_transition_def map_active_def map_v_target_from_control_def
        Let_def f [symmetric] split: if_splits)
  show "\<not> mp_is_active (map_update p i g s) \<Longrightarrow> mp_output_v_target (map_update p i g s) = V_CRUISE_UNSET"
    by (simp add: u map_v_target_from_control_def map_state_machine_def Let_def)
  show "mp_output_a_target (map_update p i g s) = sg_a_ego g"
    by (simp add: u map_a_target_from_control_def map_state_machine_def f Let_def)
qed

end
