(* ===== verification/E2e_Alerts.thy ===== *)
theory E2e_Alerts
  imports Events_Base Event_Names Params Car_Types Speed_Limit
begin

text \<open>
  The chimes for a green light and for a departing lead
  (\<open>sunnypilot/selfdrive/controls/lib/e2e_alerts_helper.py\<close>): when the conditions arm a chime,
  when it triggers, and its one-shot state machine.
\<close>

definition GREEN_LIGHT_X_THRESHOLD :: real where "GREEN_LIGHT_X_THRESHOLD = 30"
definition LEAD_DEPART_DIST_THRESHOLD :: real where "LEAD_DEPART_DIST_THRESHOLD = 1"
definition TRIGGER_TIMER_THRESHOLD :: real where "TRIGGER_TIMER_THRESHOLD = 3/10"

datatype e2e_state = E2E_INACTIVE | E2E_ARMED | E2E_CONSUMED

record e2e =
  ee_frame :: int
  ee_green_light_state :: e2e_state
  ee_prev_green_light_state :: e2e_state
  ee_lead_depart_state :: e2e_state
  ee_prev_lead_depart_state :: e2e_state
  ee_green_light_alert :: bool
  ee_green_light_alert_enabled :: bool
  ee_lead_depart_alert :: bool
  ee_lead_depart_alert_enabled :: bool
  ee_green_light_trigger_timer :: int
  ee_lead_depart_trigger_timer :: int
  ee_last_lead_distance :: real
  ee_last_moving_frame :: int
  ee_allowed :: bool
  ee_last_allowed :: bool
  ee_has_lead :: bool
  ee_lead_depart_arm_timer :: int
  ee_lead_depart_confirmed_lead :: bool
  ee_lead_depart_armed :: bool

definition e2e_init :: "params \<Rightarrow> e2e" where
  "e2e_init p = \<lparr>ee_frame = -1, ee_green_light_state = E2E_INACTIVE, ee_prev_green_light_state = E2E_INACTIVE,
     ee_lead_depart_state = E2E_INACTIVE, ee_prev_lead_depart_state = E2E_INACTIVE, ee_green_light_alert = False,
     ee_green_light_alert_enabled = get_bool p ''GreenLightAlert'', ee_lead_depart_alert = False,
     ee_lead_depart_alert_enabled = get_bool p ''LeadDepartAlert'', ee_green_light_trigger_timer = 0,
     ee_lead_depart_trigger_timer = 0, ee_last_lead_distance = -1, ee_last_moving_frame = -1, ee_allowed = False,
     ee_last_allowed = False, ee_has_lead = False, ee_lead_depart_arm_timer = 0,
     ee_lead_depart_confirmed_lead = False, ee_lead_depart_armed = False\<rparr>"

definition e2e_read_params :: "params \<Rightarrow> e2e \<Rightarrow> e2e" where
  "e2e_read_params p s = (if ee_frame s mod py_int (PARAMS_UPDATE_PERIOD / DT_MDL) = 0
     then s\<lparr>ee_green_light_alert_enabled := get_bool p ''GreenLightAlert'',
            ee_lead_depart_alert_enabled := get_bool p ''LeadDepartAlert''\<rparr> else s)"

text \<open>What an update reads of the messages.\<close>

record e2e_in =
  ei_CS :: car_state
  ei_CC_enabled :: bool
  ei_model_x :: "real list"
  ei_lead_status :: bool
  ei_lead_dRel :: real

definition e2e_moving :: "car_state \<Rightarrow> bool" where
  "e2e_moving CS \<longleftrightarrow> \<not> cs_standstill CS \<and> cs_vEgo CS > 1/10"

definition update_allowed :: "e2e_in \<Rightarrow> e2e \<Rightarrow> e2e" where
  "update_allowed i s0 =
     (let CS = ei_CS i;
          s = s0\<lparr>ee_has_lead := ei_lead_status i,
                 ee_last_moving_frame := (if e2e_moving CS then ee_frame s0 else ee_last_moving_frame s0)\<rparr>;
          recent_moving = (ee_last_moving_frame s = -1 \<or> of_int (ee_frame s - ee_last_moving_frame s) * DT_MDL < 2)
      in s\<lparr>ee_allowed := \<not> e2e_moving CS \<and> \<not> cs_gasPressed CS \<and> \<not> ei_CC_enabled i \<and> \<not> recent_moving\<rparr>)"

text \<open>\<open>model_x[max_idx]\<close> of an empty list raises, as its index is -1 and out of range.\<close>

definition green_light_timer :: "e2e_in \<Rightarrow> e2e \<Rightarrow> (bool \<times> e2e) result" where
  "green_light_timer i s =
     (if ee_green_light_state s = E2E_ARMED then
        if ei_model_x i = [] then Inl IndexError
        else let t = (if last (ei_model_x i) > GREEN_LIGHT_X_THRESHOLD then ee_green_light_trigger_timer s + 1 else 0)
             in Inr (of_int t * DT_MDL > TRIGGER_TIMER_THRESHOLD, s\<lparr>ee_green_light_trigger_timer := t\<rparr>)
      else Inr (False, s\<lparr>ee_green_light_trigger_timer := 0\<rparr>))"

definition lead_depart_arm :: "e2e_in \<Rightarrow> e2e \<Rightarrow> e2e" where
  "lead_depart_arm i s0 =
     (let close_lead_valid = (ee_has_lead s0 \<and> ei_lead_dRel i < 8);
          s = s0\<lparr>ee_lead_depart_confirmed_lead :=
                (if ee_allowed s0 \<and> \<not> ee_last_allowed s0 \<and> close_lead_valid then True
                 else if \<not> ee_allowed s0 then False else ee_lead_depart_confirmed_lead s0)\<rparr>
      in if ee_allowed s \<and> ee_lead_depart_confirmed_lead s \<and> close_lead_valid then
           s\<lparr>ee_lead_depart_arm_timer := ee_lead_depart_arm_timer s + 1,
             ee_lead_depart_armed := (if of_int (ee_lead_depart_arm_timer s + 1) * DT_MDL \<ge> 1 then True else ee_lead_depart_armed s)\<rparr>
         else s\<lparr>ee_lead_depart_arm_timer := 0, ee_lead_depart_armed := False\<rparr>)"

definition lead_depart_timer :: "e2e_in \<Rightarrow> e2e \<Rightarrow> bool \<times> e2e" where
  "lead_depart_timer i s =
     (if ee_lead_depart_state s = E2E_ARMED then
        let dRel = ei_lead_dRel i;
            d = (if ee_last_lead_distance s = -1 \<or> dRel < ee_last_lead_distance s then dRel else ee_last_lead_distance s);
            t = (if d \<noteq> -1 \<and> dRel - d > LEAD_DEPART_DIST_THRESHOLD then ee_lead_depart_trigger_timer s + 1 else 0)
        in (of_int t * DT_MDL > TRIGGER_TIMER_THRESHOLD, s\<lparr>ee_last_lead_distance := d, ee_lead_depart_trigger_timer := t\<rparr>)
      else (False, s\<lparr>ee_last_lead_distance := -1, ee_lead_depart_trigger_timer := 0\<rparr>))"

definition update_alert_trigger :: "e2e_in \<Rightarrow> e2e \<Rightarrow> (bool \<times> bool \<times> e2e) result" where
  "update_alert_trigger i s0 =
     bind_result (green_light_timer i (update_allowed i s0)) (\<lambda>(green, s1).
       let (depart, s) = lead_depart_timer i (lead_depart_arm i s1)
       in Inr (green, depart, s\<lparr>ee_last_allowed := ee_allowed s\<rparr>))"

definition e2e_state_machine :: "e2e_state \<Rightarrow> bool \<Rightarrow> bool \<Rightarrow> bool \<Rightarrow> e2e_state \<times> bool" where
  "e2e_state_machine state enabled allowed triggered =
     (if state \<noteq> E2E_INACTIVE then
        if \<not> allowed \<or> \<not> enabled then E2E_INACTIVE
        else if state = E2E_ARMED then (if triggered then E2E_CONSUMED else state)
        else state
      else if allowed \<and> enabled then E2E_ARMED else state, triggered)"

definition e2e_states :: "bool \<Rightarrow> bool \<Rightarrow> e2e \<Rightarrow> e2e" where
  "e2e_states green depart s =
     (let (gs, ga) = e2e_state_machine (ee_green_light_state s) (ee_green_light_alert_enabled s) (ee_allowed s \<and> \<not> ee_has_lead s) green;
          (ls, la) = e2e_state_machine (ee_lead_depart_state s) (ee_lead_depart_alert_enabled s) (ee_allowed s \<and> ee_lead_depart_armed s) depart
      in s\<lparr>ee_prev_green_light_state := ee_green_light_state s, ee_prev_lead_depart_state := ee_lead_depart_state s,
           ee_green_light_state := gs, ee_green_light_alert := ga, ee_lead_depart_state := ls, ee_lead_depart_alert := la\<rparr>)"

definition e2e_update :: "params \<Rightarrow> e2e_in \<Rightarrow> events \<Rightarrow> e2e \<Rightarrow> (e2e \<times> events) result" where
  "e2e_update p i ev s0 =
     bind_result (update_alert_trigger i (e2e_read_params p s0)) (\<lambda>(green, depart, s1).
       let s = e2e_states green depart s1
       in Inr (s\<lparr>ee_frame := ee_frame s + 1\<rparr>,
            if ee_green_light_alert s \<or> ee_lead_depart_alert s then ev_add evsp_e2eChime ev else ev))"

section \<open>Facts\<close>

text \<open>A green light chime comes out of the armed state, and the state after it is not armed.\<close>

lemma e2e_frame [simp]:
  "ee_green_light_state (update_allowed i s) = ee_green_light_state s" "ee_lead_depart_state (update_allowed i s) = ee_lead_depart_state s"
  "ee_green_light_state (lead_depart_arm i s) = ee_green_light_state s" "ee_lead_depart_state (lead_depart_arm i s) = ee_lead_depart_state s"
  by (simp_all add: update_allowed_def lead_depart_arm_def Let_def)

lemma green_light_timer_states:
  "green_light_timer i s = Inr (g, s') \<Longrightarrow> ee_green_light_state s' = ee_green_light_state s \<and> ee_lead_depart_state s' = ee_lead_depart_state s
    \<and> (g \<longrightarrow> ee_green_light_state s = E2E_ARMED)"
  by (auto simp: green_light_timer_def Let_def split: if_splits)

lemma lead_depart_timer_states:
  "lead_depart_timer i s = (g, s') \<Longrightarrow> ee_green_light_state s' = ee_green_light_state s \<and> ee_lead_depart_state s' = ee_lead_depart_state s
    \<and> (g \<longrightarrow> ee_lead_depart_state s = E2E_ARMED)"
  by (simp add: lead_depart_timer_def Let_def split: if_split_asm) auto

lemma trigger_states:
  assumes "update_alert_trigger i s = Inr (green, depart, s')"
  shows "ee_green_light_state s' = ee_green_light_state s" "green \<Longrightarrow> ee_green_light_state s = E2E_ARMED"
    "depart \<Longrightarrow> ee_lead_depart_state s = E2E_ARMED" "ee_lead_depart_state s' = ee_lead_depart_state s"
proof -
  from assms obtain u d v where u: "green_light_timer i (update_allowed i s) = Inr (green, u)"
    and v: "lead_depart_timer i (lead_depart_arm i u) = (d, v)" and s': "depart = d" "s' = v\<lparr>ee_last_allowed := ee_allowed v\<rparr>"
    unfolding update_alert_trigger_def bind_result_Inr_iff Let_def by (fastforce split: prod.splits)
  from green_light_timer_states [OF u] lead_depart_timer_states [OF v]
  show "ee_green_light_state s' = ee_green_light_state s" "green \<Longrightarrow> ee_green_light_state s = E2E_ARMED"
    "depart \<Longrightarrow> ee_lead_depart_state s = E2E_ARMED" "ee_lead_depart_state s' = ee_lead_depart_state s"
    by (simp_all add: s')
qed

lemma e2e_params_states [simp]:
  "ee_green_light_state (e2e_read_params p s) = ee_green_light_state s" "ee_lead_depart_state (e2e_read_params p s) = ee_lead_depart_state s"
  by (simp_all add: e2e_read_params_def)

lemma e2e_update_states:
  assumes "e2e_update p i ev s = Inr (s', ev')"
  shows "ee_green_light_alert s' \<Longrightarrow> ee_green_light_state s = E2E_ARMED \<and> ee_green_light_state s' \<noteq> E2E_ARMED"
    and "ee_lead_depart_alert s' \<Longrightarrow> ee_lead_depart_state s = E2E_ARMED \<and> ee_lead_depart_state s' \<noteq> E2E_ARMED"
    and "ee_green_light_state s = E2E_CONSUMED \<Longrightarrow> ee_green_light_state s' \<noteq> E2E_ARMED"
    and "ev' = (if ee_green_light_alert s' \<or> ee_lead_depart_alert s' then ev_add evsp_e2eChime ev else ev)"
proof -
  from assms obtain g d t where t: "update_alert_trigger i (e2e_read_params p s) = Inr (g, d, t)"
    and s': "s' = (e2e_states g d t)\<lparr>ee_frame := ee_frame (e2e_states g d t) + 1\<rparr>"
      "ev' = (if ee_green_light_alert (e2e_states g d t) \<or> ee_lead_depart_alert (e2e_states g d t) then ev_add evsp_e2eChime ev else ev)"
    by (auto simp: e2e_update_def bind_result_Inr_iff Let_def)
  note tr = trigger_states [OF t]
  show "ee_green_light_alert s' \<Longrightarrow> ee_green_light_state s = E2E_ARMED \<and> ee_green_light_state s' \<noteq> E2E_ARMED"
    "ee_lead_depart_alert s' \<Longrightarrow> ee_lead_depart_state s = E2E_ARMED \<and> ee_lead_depart_state s' \<noteq> E2E_ARMED"
    "ee_green_light_state s = E2E_CONSUMED \<Longrightarrow> ee_green_light_state s' \<noteq> E2E_ARMED"
    using tr by (simp_all add: s' e2e_states_def e2e_state_machine_def Let_def split: if_split_asm)
  show "ev' = (if ee_green_light_alert s' \<or> ee_lead_depart_alert s' then ev_add evsp_e2eChime ev else ev)"
    by (simp add: s')
qed

end
