(* ===== verification/Radard.thy ===== *)
theory Radard
  imports Filters Mads "HOL-Library.AList" Windows
begin

text \<open>
  The radar fusion, \<open>selfdrive/controls/radard.py\<close>, over the filter of
  \<open>common/simple_kalman.py\<close>: tracks of radar points, the match of the camera's lead with a
  track, and the two leads that are published. The dictionary of tracks is an association
  list in insertion order.
\<close>

section \<open>The filter\<close>

record kf1d =
  kd_x0 :: real
  kd_x1 :: real
  kd_A00 :: real
  kd_A01 :: real
  kd_A10 :: real
  kd_A11 :: real
  kd_C0 :: real
  kd_C1 :: real
  kd_K0 :: real
  kd_K1 :: real
  kd_AK0 :: real
  kd_AK1 :: real
  kd_AK2 :: real
  kd_AK3 :: real

text \<open>The matrices are given by their entries: \<open>A\<close> by rows, \<open>C\<close> and \<open>K\<close> as pairs.\<close>

definition KF1D_init :: "real \<times> real \<Rightarrow> (real \<times> real) \<times> (real \<times> real) \<Rightarrow> real \<times> real \<Rightarrow> real \<times> real \<Rightarrow> kf1d" where
  "KF1D_init x0 A C K = (let ((a00, a01), (a10, a11)) = A; (c0, c1) = C; (k0, k1) = K in
     \<lparr>kd_x0 = fst x0, kd_x1 = snd x0, kd_A00 = a00, kd_A01 = a01, kd_A10 = a10, kd_A11 = a11, kd_C0 = c0, kd_C1 = c1,
      kd_K0 = k0, kd_K1 = k1, kd_AK0 = a00 - k0 * c0, kd_AK1 = a01 - k0 * c1, kd_AK2 = a10 - k1 * c0, kd_AK3 = a11 - k1 * c1\<rparr>)"

definition kf1d_update :: "real \<Rightarrow> kf1d \<Rightarrow> kf1d" where
  "kf1d_update meas f = f\<lparr>kd_x0 := kd_AK0 f * kd_x0 f + kd_AK1 f * kd_x1 f + kd_K0 f * meas,
     kd_x1 := kd_AK2 f * kd_x0 f + kd_AK3 f * kd_x1 f + kd_K1 f * meas\<rparr>"

definition kf1d_x :: "kf1d \<Rightarrow> real \<times> real" where
  "kf1d_x f = (kd_x0 f, kd_x1 f)"

definition kf1d_set_x :: "real \<times> real \<Rightarrow> kf1d \<Rightarrow> kf1d" where
  "kf1d_set_x x f = f\<lparr>kd_x0 := fst x, kd_x1 := snd x\<rparr>"

section \<open>Tracks\<close>

definition LEAD_ACCEL_TAU :: real where "LEAD_ACCEL_TAU = 15/10"
definition V_EGO_STATIONARY :: real where "V_EGO_STATIONARY = 4"
definition RADAR_TO_CENTER :: real where "RADAR_TO_CENTER = 27/10"
definition RADAR_TO_CAMERA :: real where "RADAR_TO_CAMERA = 152/100"

record kalman_params =
  ka_A :: "(real \<times> real) \<times> (real \<times> real)"
  ka_C :: "real \<times> real"
  ka_K :: "real \<times> real"

definition kalman_dts :: "real list" where
  "kalman_dts = map (\<lambda>i. real i * (1/100)) [1..<21]"

definition kalman_K0 :: "real list" where
  "kalman_K0 = map (\<lambda>n. n / 100000000)
     [12287673, 14556536, 16522756, 18281627, 19886890, 21372394,
      22761098, 24069424, 25309600, 26491023, 27621103, 28705801,
      29750003, 30757767, 31732515, 32677158, 33594201, 34485814,
      35353899, 36200124]"

definition kalman_K1 :: "real list" where
  "kalman_K1 = map (\<lambda>n. n / 100000000)
     [29666309, 29330885, 29042818, 28787125, 28555364, 28342219,
      28144091, 27958406, 27783249, 27617149, 27458948, 27307714,
      27162685, 27023228, 26888809, 26758976, 26633338, 26511557,
      26393339, 26278425]"

definition KalmanParams :: "real \<Rightarrow> kalman_params result" where
  "KalmanParams dt =
     (if dt > 1/100 \<and> dt < 2/10
      then Inr \<lparr>ka_A = ((1, dt), (0, 1)), ka_C = (1, 0),
                ka_K = (interp dt (zip kalman_dts kalman_K0), interp dt (zip kalman_dts kalman_K1))\<rparr>
      else Inl AssertionError)"

record track =
  tr_identifier :: int
  tr_cnt :: int
  tr_aLeadTau :: fof
  tr_kf :: kf1d
  tr_dRel :: real
  tr_yRel :: real
  tr_vRel :: real
  tr_vLead :: real
  tr_measured :: bool
  tr_vLeadK :: real
  tr_aLeadK :: real

text \<open>The attributes an update sets are 0 in a new track, which the code updates at once.\<close>

definition Track_init :: "int \<Rightarrow> real \<Rightarrow> kalman_params \<Rightarrow> track" where
  "Track_init i v_lead kp = \<lparr>tr_identifier = i, tr_cnt = 0, tr_aLeadTau = fof_init LEAD_ACCEL_TAU (45/100) DT_MDL True,
     tr_kf = KF1D_init (v_lead, 0) (ka_A kp) (ka_C kp) (ka_K kp), tr_dRel = 0, tr_yRel = 0, tr_vRel = 0, tr_vLead = 0,
     tr_measured = False, tr_vLeadK = 0, tr_aLeadK = 0\<rparr>"

text \<open>A radar point.\<close>

record radar_point =
  rp_trackId :: int
  rp_dRel :: real
  rp_yRel :: real
  rp_vRel :: real
  rp_measured :: bool

definition track_measure :: "radar_point \<Rightarrow> real \<Rightarrow> track \<Rightarrow> track" where
  "track_measure p v_lead t = t\<lparr>tr_dRel := rp_dRel p, tr_yRel := rp_yRel p, tr_vRel := rp_vRel p, tr_vLead := v_lead,
     tr_measured := rp_measured p\<rparr>"

definition track_update :: "radar_point \<Rightarrow> real \<Rightarrow> track \<Rightarrow> track" where
  "track_update p v_lead t0 =
     (let t1 = track_measure p v_lead t0;
          t2 = (if tr_cnt t1 > 0 then t1\<lparr>tr_kf := kf1d_update (tr_vLead t1) (tr_kf t1)\<rparr> else t1);
          t3 = t2\<lparr>tr_vLeadK := fst (kf1d_x (tr_kf t2)), tr_aLeadK := snd (kf1d_x (tr_kf t2))\<rparr>
      in t3\<lparr>tr_aLeadTau := (if \<bar>tr_aLeadK t3\<bar> < 5/10 then (tr_aLeadTau t3)\<lparr>ff_x := LEAD_ACCEL_TAU\<rparr> else fof_update 0 (tr_aLeadTau t3)),
            tr_cnt := tr_cnt t3 + 1\<rparr>)"

section \<open>Leads\<close>

record lead_data =
  ld_dRel :: real
  ld_yRel :: real
  ld_vRel :: real
  ld_vLead :: real
  ld_vLeadK :: real
  ld_aLeadK :: real
  ld_aLeadTau :: real
  ld_status :: bool
  ld_fcw :: bool
  ld_modelProb :: real
  ld_radar :: bool
  ld_radarTrackId :: int

text \<open>\<open>{'status': False}\<close>: the other fields of the message have their default.\<close>

definition no_lead :: lead_data where
  "no_lead = \<lparr>ld_dRel = 0, ld_yRel = 0, ld_vRel = 0, ld_vLead = 0, ld_vLeadK = 0, ld_aLeadK = 0, ld_aLeadTau = 0,
     ld_status = False, ld_fcw = False, ld_modelProb = 0, ld_radar = False, ld_radarTrackId = -1\<rparr>"

definition is_potential_fcw :: "real \<Rightarrow> bool" where
  "is_potential_fcw model_prob \<longleftrightarrow> model_prob > 9/10"

definition get_RadarState :: "real \<Rightarrow> track \<Rightarrow> lead_data" where
  "get_RadarState model_prob t = \<lparr>ld_dRel = tr_dRel t, ld_yRel = tr_yRel t, ld_vRel = tr_vRel t, ld_vLead = tr_vLead t,
     ld_vLeadK = tr_vLeadK t, ld_aLeadK = tr_aLeadK t, ld_aLeadTau = ff_x (tr_aLeadTau t), ld_status = True,
     ld_fcw = is_potential_fcw model_prob, ld_modelProb = model_prob, ld_radar = True, ld_radarTrackId = tr_identifier t\<rparr>"

definition potential_low_speed_lead :: "real \<Rightarrow> track \<Rightarrow> bool" where
  "potential_low_speed_lead v_ego t \<longleftrightarrow> \<bar>tr_yRel t\<bar> < 1 \<and> v_ego < V_EGO_STATIONARY \<and> 75/100 < tr_dRel t \<and> tr_dRel t < 25"

definition laplacian_pdf :: "real \<Rightarrow> real \<Rightarrow> real \<Rightarrow> real" where
  "laplacian_pdf x mu b = exp (- \<bar>x - mu\<bar> / max b (1/10000))"

text \<open>The camera's lead: the first entries of its lists are the present ones.\<close>

record lead_msg =
  lm_prob :: real
  lm_x :: "real list"
  lm_y :: "real list"
  lm_v :: "real list"
  lm_a :: "real list"
  lm_xStd :: "real list"
  lm_yStd :: "real list"
  lm_vStd :: "real list"

definition lead_prob :: "real \<Rightarrow> lead_msg \<Rightarrow> track \<Rightarrow> real" where
  "lead_prob v_ego m t =
     laplacian_pdf (tr_dRel t) (hd (lm_x m) - RADAR_TO_CAMERA) (hd (lm_xStd m))
     * laplacian_pdf (tr_yRel t) (- hd (lm_y m)) (hd (lm_yStd m))
     * laplacian_pdf (tr_vRel t + v_ego) (hd (lm_v m)) (hd (lm_vStd m))"

definition lead_msg_complete :: "lead_msg \<Rightarrow> bool" where
  "lead_msg_complete m \<longleftrightarrow> lm_x m \<noteq> [] \<and> lm_y m \<noteq> [] \<and> lm_v m \<noteq> [] \<and> lm_a m \<noteq> [] \<and> lm_xStd m \<noteq> [] \<and> lm_yStd m \<noteq> [] \<and> lm_vStd m \<noteq> []"

text \<open>\<open>match_vision_to_track\<close> of at least one track; an index past the end raises.\<close>

definition match_vision_to_track :: "real \<Rightarrow> lead_msg \<Rightarrow> track list \<Rightarrow> track option result" where
  "match_vision_to_track v_ego m ts =
     (if lm_x m = [] \<or> lm_y m = [] \<or> lm_v m = [] \<or> lm_xStd m = [] \<or> lm_yStd m = [] \<or> lm_vStd m = [] then Inl IndexError
      else if ts = [] then Inl ValueError
      else
        let offset_vision_dist = hd (lm_x m) - RADAR_TO_CAMERA;
            t = max_by (lead_prob v_ego m) (hd ts) (tl ts);
            dist_sane = (\<bar>tr_dRel t - offset_vision_dist\<bar> < max (offset_vision_dist * (25/100)) 5);
            vel_sane = (\<bar>tr_vRel t + v_ego - hd (lm_v m)\<bar> < 10 \<or> v_ego + tr_vRel t > 3)
        in Inr (if dist_sane \<and> vel_sane then Some t else None))"

definition get_RadarState_from_vision :: "lead_msg \<Rightarrow> real \<Rightarrow> real \<Rightarrow> lead_data result" where
  "get_RadarState_from_vision m v_ego model_v_ego =
     bind_result (py_nth (lm_v m) 0) (\<lambda>v. bind_result (py_nth (lm_x m) 0) (\<lambda>x.
     bind_result (py_nth (lm_y m) 0) (\<lambda>y. bind_result (py_nth (lm_a m) 0) (\<lambda>a.
       let lead_v_rel_pred = v - model_v_ego
       in Inr \<lparr>ld_dRel = x - RADAR_TO_CAMERA, ld_yRel = - y, ld_vRel = lead_v_rel_pred, ld_vLead = v_ego + lead_v_rel_pred,
            ld_vLeadK = v_ego + lead_v_rel_pred, ld_aLeadK = a, ld_aLeadTau = 3/10, ld_status = True, ld_fcw = False,
            ld_modelProb = lm_prob m, ld_radar = False, ld_radarTrackId = -1\<rparr>))))"

definition get_custom_yrel :: "opendbc \<Rightarrow> car_params \<Rightarrow> car_params_sp \<Rightarrow> lead_data \<Rightarrow> lead_msg \<Rightarrow> lead_data result" where
  "get_custom_yrel odb CP CP_SP d m =
     (if cp_brand CP = ''hyundai'' \<and> (has_flag (cpsp_flags CP_SP) (odb_HYUNDAI_SP_ENHANCED_SCC odb)
           \<or> has_flag (cp_flags CP) (odb_HYUNDAI_CAMERA_SCC_FLAGS odb))
      then bind_result (py_nth (lm_y m) 0) (\<lambda>y. Inr (d\<lparr>ld_yRel := - y\<rparr>))
      else Inr d)"

definition low_speed_lead :: "real \<Rightarrow> track list \<Rightarrow> lead_data \<Rightarrow> lead_data" where
  "low_speed_lead v_ego ts d =
     (case filter (potential_low_speed_lead v_ego) ts of [] \<Rightarrow> d
      | c # cs \<Rightarrow> let t = min_by tr_dRel c cs
          in if \<not> ld_status d \<or> tr_dRel t < ld_dRel d then get_RadarState 0 t else d)"

record radar_car =
  rc_odb :: opendbc
  rc_CP :: car_params
  rc_CP_SP :: car_params_sp

definition get_lead :: "radar_car \<Rightarrow> real \<Rightarrow> bool \<Rightarrow> track list \<Rightarrow> lead_msg \<Rightarrow> real \<Rightarrow> bool \<Rightarrow> lead_data result" where
  "get_lead c v_ego ready ts m model_v_ego low_speed_override =
     bind_result (if length ts > 0 \<and> ready \<and> lm_prob m > 5/10 then match_vision_to_track v_ego m ts else Inr None) (\<lambda>track.
     bind_result (case track of
         Some t \<Rightarrow> get_custom_yrel (rc_odb c) (rc_CP c) (rc_CP_SP c) (get_RadarState (lm_prob m) t) m
       | None \<Rightarrow> if ready \<and> lm_prob m > 5/10 then get_RadarState_from_vision m v_ego model_v_ego else Inr no_lead) (\<lambda>d.
     Inr (if low_speed_override then low_speed_lead v_ego ts d else d)))"

section \<open>The process\<close>

record radard =
  ra_car :: radar_car
  ra_current_time :: real
  ra_tracks :: "(int \<times> track) list"
  ra_kalman_params :: kalman_params
  ra_v_ego :: real
  ra_v_ego_hist :: "real list"
  ra_hist_maxlen :: nat
  ra_last_v_ego_frame :: int
  ra_ready :: bool

definition RadarD_init :: "radar_car \<Rightarrow> real \<Rightarrow> radard result" where
  "RadarD_init c delay = bind_result (KalmanParams DT_MDL) (\<lambda>kp.
     Inr \<lparr>ra_car = c, ra_current_time = 0, ra_tracks = [], ra_kalman_params = kp, ra_v_ego = 0, ra_v_ego_hist = [0],
          ra_hist_maxlen = nat (py_round (delay / DT_MDL) + 1), ra_last_v_ego_frame = -1, ra_ready = False\<rparr>)"

text \<open>What an update reads of the messages; the radar's errors are the names of those that are set.\<close>

record radar_in =
  rm_seen_modelV2 :: bool
  rm_logMonoTimes :: "int list"
  rm_recv_frame_carState :: int
  rm_vEgo :: real
  rm_points :: "radar_point list"
  rm_errors :: "string list"
  rm_all_checks :: bool
  rm_velocity_x :: "real list"
  rm_leadsV3 :: "lead_msg list"

record radar_state =
  rt_valid :: bool
  rt_radarErrors :: "string list"
  rt_leadOne :: lead_data
  rt_leadTwo :: lead_data

definition deque_append :: "nat \<Rightarrow> 'a \<Rightarrow> 'a list \<Rightarrow> 'a list" where
  "deque_append maxlen x xs = (let ys = xs @ [x] in drop (length ys - maxlen) ys)"

definition radar_ego :: "radar_in \<Rightarrow> radard \<Rightarrow> radard" where
  "radar_ego i s0 =
     (let s = s0\<lparr>ra_ready := rm_seen_modelV2 i, ra_current_time := 1 / 10^9 * of_int (Max (set (rm_logMonoTimes i)))\<rparr>
      in if rm_recv_frame_carState i \<noteq> ra_last_v_ego_frame s
         then s\<lparr>ra_v_ego := rm_vEgo i, ra_v_ego_hist := deque_append (ra_hist_maxlen s) (rm_vEgo i) (ra_v_ego_hist s),
                ra_last_v_ego_frame := rm_recv_frame_carState i\<rparr>
         else s)"

text \<open>The dictionary of the points by track: of two points of one track the later one counts.\<close>

definition points_by_id :: "radar_point list \<Rightarrow> (int \<times> radar_point) list" where
  "points_by_id ps = foldl (\<lambda>d p. AList.update (rp_trackId p) p d) [] ps"

definition remove_missing :: "(int \<times> radar_point) list \<Rightarrow> (int \<times> track) list \<Rightarrow> (int \<times> track) list" where
  "remove_missing ar_pts ts = filter (\<lambda>(i, t). i \<in> fst ` set ar_pts) ts"

definition compute_track :: "real \<Rightarrow> kalman_params \<Rightarrow> (int \<times> track) list \<Rightarrow> int \<times> radar_point \<Rightarrow> (int \<times> track) list" where
  "compute_track v_ego_0 kp ts = (\<lambda>(i, p).
     let v_lead = rp_vRel p + v_ego_0;
         t = (case map_of ts i of Some t \<Rightarrow> t | None \<Rightarrow> Track_init i v_lead kp)
     in AList.update i (track_update p v_lead t) ts)"

definition update_tracks :: "radar_in \<Rightarrow> radard \<Rightarrow> radard" where
  "update_tracks i s =
     (let ar_pts = points_by_id (rm_points i)
      in s\<lparr>ra_tracks := foldl (compute_track (hd (ra_v_ego_hist s)) (ra_kalman_params s)) (remove_missing ar_pts (ra_tracks s)) ar_pts\<rparr>)"

definition radar_leads :: "radar_in \<Rightarrow> radard \<Rightarrow> (lead_data \<times> lead_data) result" where
  "radar_leads i s =
     (let model_v_ego = (if rm_velocity_x i \<noteq> [] then hd (rm_velocity_x i) else ra_v_ego s);
          lead = (\<lambda>m. get_lead (ra_car s) (ra_v_ego s) (ra_ready s) (map snd (ra_tracks s)) m model_v_ego)
      in case rm_leadsV3 i of
           m1 # m2 # _ \<Rightarrow> bind_result (lead m1 True) (\<lambda>d1. bind_result (lead m2 False) (\<lambda>d2. Inr (d1, d2)))
         | _ \<Rightarrow> Inr (no_lead, no_lead))"

definition radard_update :: "radar_in \<Rightarrow> radard \<Rightarrow> (radar_state \<times> radard) result" where
  "radard_update i s0 =
     (let s = update_tracks i (radar_ego i s0)
      in bind_result (radar_leads i s) (\<lambda>(d1, d2).
        Inr (\<lparr>rt_valid = rm_all_checks i, rt_radarErrors = rm_errors i, rt_leadOne = d1, rt_leadTwo = d2\<rparr>, s)))"

section \<open>Facts\<close>

text \<open>The queue of speeds keeps the last \<open>maxlen\<close> of them.\<close>

interpretation ego_hist: bounded_history "\<lambda>xs x. Inr (deque_append n x xs)" id "\<lambda>xs. length xs \<le> n" "\<lambda>_. n" for n
  by unfold_locales (simp_all add: deque_append_def lastn_def Let_def)

lemma points_by_id_snoc: "points_by_id (ps @ [p]) = AList.update (rp_trackId p) p (points_by_id ps)"
  by (simp add: points_by_id_def)

lemma points_by_id_keys: "fst ` set (points_by_id ps) = rp_trackId ` set ps"
  by (induction ps rule: rev_induct)
    (auto simp: points_by_id_snoc dom_map_of_conv_image_fst [symmetric] update_conv' points_by_id_def [of "[]"])

lemma points_by_id_distinct: "distinct (map fst (points_by_id ps))"
  by (induction ps rule: rev_induct) (simp_all add: points_by_id_snoc distinct_update points_by_id_def [of "[]"])

lemma map_of_points_by_id:
  "p \<in> set ps \<Longrightarrow> distinct (map rp_trackId ps) \<Longrightarrow> map_of (points_by_id ps) (rp_trackId p) = Some p"
proof (induction ps rule: rev_induct)
  case (snoc q ps)
  show ?case
  proof (cases "p = q")
    case False
    with snoc.prems have p: "p \<in> set ps" by simp
    then have "rp_trackId p \<in> rp_trackId ` set ps" by (rule imageI)
    with snoc.prems(2) have "rp_trackId p \<noteq> rp_trackId q" by auto
    with snoc p show ?thesis by (simp add: points_by_id_snoc update_conv')
  qed (simp add: points_by_id_snoc update_conv')
qed simp

lemma compute_track_map_of:
  "map_of (compute_track v kp ts (i, p)) j = (if j = i
     then Some (track_update p (rp_vRel p + v) (case map_of ts i of Some t \<Rightarrow> t | None \<Rightarrow> Track_init i (rp_vRel p + v) kp)) else map_of ts j)"
  by (simp add: compute_track_def update_conv' Let_def)

lemma track_update_measure [simp]:
  "tr_dRel (track_update p v t) = rp_dRel p" "tr_yRel (track_update p v t) = rp_yRel p" "tr_vRel (track_update p v t) = rp_vRel p"
  "tr_vLead (track_update p v t) = v" "tr_identifier (track_update p v t) = tr_identifier t" "tr_cnt (track_update p v t) = tr_cnt t + 1"
  by (simp_all add: track_update_def track_measure_def Let_def)

lemma fold_compute_track_dom:
  "dom (map_of (foldl (compute_track v kp) ts qs)) = dom (map_of ts) \<union> fst ` set qs"
proof (induction qs rule: rev_induct)
  case (snoc q qs)
  obtain i p where q: "q = (i, p)" by (cases q)
  have "dom (map_of (compute_track v kp us (i, p))) = insert i (dom (map_of us))" for us
    by (auto simp: dom_def compute_track_map_of)
  then show ?case by (simp add: q snoc)
qed simp

lemma fold_compute_track_point:
  "distinct (map fst qs) \<Longrightarrow> (i, p) \<in> set qs \<Longrightarrow>
    \<exists>t. map_of (foldl (compute_track v kp) ts qs) i = Some (track_update p (rp_vRel p + v) t)"
proof (induction qs rule: rev_induct)
  case (snoc q qs)
  obtain j r where q: "q = (j, r)" by (cases q)
  show ?case
  proof (cases "(i, p) = q")
    case False
    with snoc.prems have m: "(i, p) \<in> set qs" by simp
    then have "i \<in> fst ` set qs" by force
    with snoc.prems(1) have "i \<noteq> j" by (auto simp: q)
    moreover from snoc.IH snoc.prems(1) m obtain t where "map_of (foldl (compute_track v kp) ts qs) i = Some (track_update p (rp_vRel p + v) t)" by auto
    ultimately show ?thesis by (intro exI [of _ t]) (simp add: q compute_track_map_of)
  qed (auto simp: q compute_track_map_of)
qed simp

lemma compute_track_distinct: "distinct (map fst ts) \<Longrightarrow> distinct (map fst (compute_track v kp ts q))"
  by (simp add: compute_track_def distinct_update Let_def split: prod.split)

lemma fold_compute_track_distinct: "distinct (map fst ts) \<Longrightarrow> distinct (map fst (foldl (compute_track v kp) ts qs))"
  by (induction qs rule: rev_induct) (simp_all add: compute_track_distinct)

lemma remove_missing_props:
  "distinct (map fst ts) \<Longrightarrow> distinct (map fst (remove_missing qs ts))" "fst ` set (remove_missing qs ts) \<subseteq> fst ` set qs"
proof -
  show "distinct (map fst ts) \<Longrightarrow> distinct (map fst (remove_missing qs ts))" by (simp add: remove_missing_def distinct_map_filter)
  show "fst ` set (remove_missing qs ts) \<subseteq> fst ` set qs" by (force simp: remove_missing_def)
qed

text \<open>The tracks are exactly those of the points of the cycle, each with its point's measurements.\<close>

lemma update_tracks_keys:
  assumes "distinct (map fst (ra_tracks s))"
  shows "fst ` set (ra_tracks (update_tracks i s)) = rp_trackId ` set (rm_points i)" "distinct (map fst (ra_tracks (update_tracks i s)))"
proof -
  let ?q = "points_by_id (rm_points i)"
  show "distinct (map fst (ra_tracks (update_tracks i s)))"
    using assms by (simp add: update_tracks_def Let_def fold_compute_track_distinct remove_missing_props)
  have "fst ` set (ra_tracks (update_tracks i s)) = fst ` set (remove_missing ?q (ra_tracks s)) \<union> fst ` set ?q"
    by (simp add: update_tracks_def Let_def fold_compute_track_dom dom_map_of_conv_image_fst [symmetric])
  also have "\<dots> = fst ` set ?q" using remove_missing_props(2) by blast
  finally show "fst ` set (ra_tracks (update_tracks i s)) = rp_trackId ` set (rm_points i)" by (simp add: points_by_id_keys)
qed

lemma update_tracks_point:
  assumes "p \<in> set (rm_points i)" "distinct (map rp_trackId (rm_points i))"
  shows "\<exists>t\<in>set (map snd (ra_tracks (update_tracks i s))). tr_dRel t = rp_dRel p \<and> tr_yRel t = rp_yRel p \<and> tr_vRel t = rp_vRel p"
proof -
  have "(rp_trackId p, p) \<in> set (points_by_id (rm_points i))" using map_of_points_by_id [OF assms] by (rule map_of_SomeD)
  from fold_compute_track_point [OF points_by_id_distinct this, of "hd (ra_v_ego_hist s)" "ra_kalman_params s"
      "remove_missing (points_by_id (rm_points i)) (ra_tracks s)"]
  obtain t where "map_of (ra_tracks (update_tracks i s)) (rp_trackId p) = Some (track_update p (rp_vRel p + hd (ra_v_ego_hist s)) t)"
    by (auto simp: update_tracks_def Let_def)
  from map_of_SomeD [OF this] show ?thesis by force
qed

lemma low_speed_lead_close:
  assumes "t \<in> set ts" "potential_low_speed_lead v t"
  shows "ld_status (low_speed_lead v ts d)" "ld_dRel (low_speed_lead v ts d) \<le> tr_dRel t"
proof -
  from assms have t: "t \<in> set (filter (potential_low_speed_lead v) ts)" by simp
  then obtain c cs where f: "filter (potential_low_speed_lead v) ts = c # cs" by (cases "filter (potential_low_speed_lead v) ts") auto
  from max_by_ge [OF t [unfolded f], of "\<lambda>x. - tr_dRel x"] have "tr_dRel (min_by tr_dRel c cs) \<le> tr_dRel t" by simp
  then show "ld_status (low_speed_lead v ts d)" "ld_dRel (low_speed_lead v ts d) \<le> tr_dRel t"
    by (auto simp: low_speed_lead_def f(1) Let_def get_RadarState_def)
qed

lemma get_lead_returns:
  assumes "lead_msg_complete m"
  shows "\<exists>d. get_lead c v ready ts m mv False = Inr d
    \<and> get_lead c v ready ts m mv True = Inr (low_speed_lead v ts d)"
proof -
  from assms have ne: "lm_x m \<noteq> []" "lm_y m \<noteq> []" "lm_v m \<noteq> []" "lm_a m \<noteq> []" "lm_xStd m \<noteq> []" "lm_yStd m \<noteq> []" "lm_vStd m \<noteq> []"
    by (simp_all add: lead_msg_complete_def)
  have "\<exists>o1. (if length ts > 0 \<and> ready \<and> lm_prob m > 5/10 then match_vision_to_track v m ts else Inr None) = Inr o1"
    using ne by (simp add: match_vision_to_track_def Let_def)
  then obtain o1 where o1: "(if length ts > 0 \<and> ready \<and> lm_prob m > 5/10 then match_vision_to_track v m ts else Inr None) = Inr o1" ..
  have nth: "py_nth (lm_x m) 0 = Inr (lm_x m ! 0)" "py_nth (lm_y m) 0 = Inr (lm_y m ! 0)" "py_nth (lm_v m) 0 = Inr (lm_v m ! 0)" "py_nth (lm_a m) 0 = Inr (lm_a m ! 0)"
    using ne by (simp_all add: py_nth_def)
  have "\<exists>d. (case o1 of Some t \<Rightarrow> get_custom_yrel (rc_odb c) (rc_CP c) (rc_CP_SP c) (get_RadarState (lm_prob m) t) m
       | None \<Rightarrow> if ready \<and> lm_prob m > 5/10 then get_RadarState_from_vision m v mv else Inr no_lead) = Inr d"
    by (cases o1) (simp_all add: get_custom_yrel_def get_RadarState_from_vision_def nth Let_def)
  then obtain d where d: "(case o1 of Some t \<Rightarrow> get_custom_yrel (rc_odb c) (rc_CP c) (rc_CP_SP c) (get_RadarState (lm_prob m) t) m
       | None \<Rightarrow> if ready \<and> lm_prob m > 5/10 then get_RadarState_from_vision m v mv else Inr no_lead) = Inr d" ..
  show ?thesis unfolding get_lead_def o1 bind_result_simps d by simp
qed

lemma update_tracks_frame [simp]:
  "ra_v_ego (update_tracks i s) = ra_v_ego s" "ra_ready (update_tracks i s) = ra_ready s" "ra_car (update_tracks i s) = ra_car s"
  by (simp_all add: update_tracks_def Let_def)

text \<open>
  C31. With messages in order an update of the radar process does not raise, the tracks are
  afterwards exactly those of the radar's points, and no close object is overlooked at low
  speed: below 4 m/s every point less than a metre to the side and 0.75 to 25 metres ahead
  gives a first lead that is at most as far away, whether or not the camera sees it.
\<close>

theorem close_object_reported:
  assumes "rm_leadsV3 i = m1 # m2 # ms" "lead_msg_complete m1" "lead_msg_complete m2"
    and "distinct (map rp_trackId (rm_points i))" "distinct (map fst (ra_tracks s))"
  shows "\<exists>rs s'. radard_update i s = Inr (rs, s')
    \<and> fst ` set (ra_tracks s') = rp_trackId ` set (rm_points i) \<and> distinct (map fst (ra_tracks s'))
    \<and> (\<forall>p\<in>set (rm_points i). ra_v_ego s' < 4 \<and> \<bar>rp_yRel p\<bar> < 1 \<and> 75/100 < rp_dRel p \<and> rp_dRel p < 25
         \<longrightarrow> ld_status (rt_leadOne rs) \<and> ld_dRel (rt_leadOne rs) \<le> rp_dRel p)"
proof -
  let ?e = "radar_ego i s" let ?s = "update_tracks i ?e"
  let ?ts = "map snd (ra_tracks ?s)" and ?mv = "if rm_velocity_x i \<noteq> [] then hd (rm_velocity_x i) else ra_v_ego ?s"
  have e: "distinct (map fst (ra_tracks ?e))" using assms(5) by (simp add: radar_ego_def Let_def)
  from get_lead_returns [OF assms(2)] obtain d1 where
    d1: "get_lead (ra_car ?s) (ra_v_ego ?s) (ra_ready ?s) ?ts m1 ?mv True = Inr (low_speed_lead (ra_v_ego ?s) ?ts d1)" by blast
  from get_lead_returns [OF assms(3)] obtain d2 where
    d2: "get_lead (ra_car ?s) (ra_v_ego ?s) (ra_ready ?s) ?ts m2 ?mv False = Inr d2" by blast
  let ?rs = "\<lparr>rt_valid = rm_all_checks i, rt_radarErrors = rm_errors i, rt_leadOne = low_speed_lead (ra_v_ego ?s) ?ts d1, rt_leadTwo = d2\<rparr>"
  have "radar_leads i ?s = Inr (low_speed_lead (ra_v_ego ?s) ?ts d1, d2)"
    unfolding radar_leads_def Let_def assms(1) list.case d1 d2 bind_result_simps ..
  then have "radard_update i s = Inr (?rs, ?s)" by (simp add: radard_update_def Let_def)
  moreover have "ld_status (rt_leadOne ?rs) \<and> ld_dRel (rt_leadOne ?rs) \<le> rp_dRel p"
    if "p \<in> set (rm_points i)" "ra_v_ego ?s < 4 \<and> \<bar>rp_yRel p\<bar> < 1 \<and> 75/100 < rp_dRel p \<and> rp_dRel p < 25" for p
  proof -
    from update_tracks_point [OF that(1) assms(4)] obtain t where t: "t \<in> set ?ts" "tr_dRel t = rp_dRel p" "tr_yRel t = rp_yRel p" by blast
    with that(2) have "potential_low_speed_lead (ra_v_ego ?s) t" by (simp add: potential_low_speed_lead_def V_EGO_STATIONARY_def)
    from low_speed_lead_close [OF t(1) this, of d1] show ?thesis by (simp add: t)
  qed
  ultimately show ?thesis using update_tracks_keys [OF e] by blast
qed

definition test_lead_msg :: lead_msg where
  "test_lead_msg = \<lparr>lm_prob = 0, lm_x = [0], lm_y = [0], lm_v = [0], lm_a = [0], lm_xStd = [0], lm_yStd = [0], lm_vStd = [0]\<rparr>"

definition test_radar_in :: radar_in where
  "test_radar_in = \<lparr>rm_seen_modelV2 = True, rm_logMonoTimes = [0], rm_recv_frame_carState = 1, rm_vEgo = 1,
     rm_points = [\<lparr>rp_trackId = 7, rp_dRel = 5, rp_yRel = 0, rp_vRel = -1, rp_measured = True\<rparr>], rm_errors = [],
     rm_all_checks = True, rm_velocity_x = [], rm_leadsV3 = [test_lead_msg, test_lead_msg]\<rparr>"

definition test_radard :: radard where
  "test_radard = \<lparr>ra_car = \<lparr>rc_odb = test_opendbc, rc_CP = default_cp, rc_CP_SP = default_cp_sp\<rparr>, ra_current_time = 0, ra_tracks = [],
     ra_kalman_params = \<lparr>ka_A = ((1, 5/100), (0, 1)), ka_C = (1, 0), ka_K = (2/10, 3/10)\<rparr>, ra_v_ego = 0, ra_v_ego_hist = [0],
     ra_hist_maxlen = 1, ra_last_v_ego_frame = -1, ra_ready = False\<rparr>"

theorem close_object_reported_witness:
  "\<exists>rs s'. radard_update test_radar_in test_radard = Inr (rs, s') \<and> fst ` set (ra_tracks s') = {7}"
  using close_object_reported [of test_radar_in test_lead_msg test_lead_msg "[]" test_radard]
  by (auto simp: test_radar_in_def test_radard_def test_lead_msg_def lead_msg_complete_def)

end
