(* ===== verification/Planner_Sp.thy ===== *)
theory Planner_Sp
  imports Dec Scc E2e_Alerts Speed_Limit_Resolver Radard Events_SP_Table
begin

text \<open>
  The part of the longitudinal planner that sunnypilot adds
  (\<open>sunnypilot/selfdrive/controls/lib/longitudinal_planner.py\<close>): it composes the dynamic
  experimental control, smart cruise control, the speed limit resolver and assist and the
  chimes, and takes the lowest of their target speeds.
\<close>

datatype plan_source = PS_cruise | PS_sccVision | PS_sccMap | PS_speedLimitAssist

record planner_sp =
  ps_events_sp :: events
  ps_resolver :: resolver
  ps_dec :: dec
  ps_scc :: scc
  ps_sla :: sla
  ps_generation :: "int option"
  ps_source :: plan_source
  ps_e2e :: e2e
  ps_output_v_target :: real
  ps_output_a_target :: real

text \<open>What the planner reads of the messages of a cycle, and the parameters at that time.\<close>

record planner_in =
  pn_params :: params
  pn_now :: real
  pn_CS :: car_state
  pn_CC_enabled :: bool
  pn_CC_override :: bool
  pn_orientationNED :: "real list"
  pn_scc :: scc_in
  pn_resolver :: resolver_inputs
  pn_leadOne :: lead_data
  pn_leadTwo :: lead_data
  pn_position_x :: "real list"
  pn_velocity_x :: "real list"
  pn_acceleration_x :: "real list"
  pn_orientation_x :: "real list"
  pn_gasPressProbs :: "real list"
  pn_desiredAcceleration :: real
  pn_shouldStop :: bool
  pn_experimentalMode :: bool
  pn_personality :: int
  pn_sd_enabled :: bool
  pn_long_control_off :: bool
  pn_forceDecel :: bool
  pn_angleOffsetDeg :: real

text \<open>The constructor makes the resolver twice; the events are those of the table for \<open>env\<close>.\<close>

definition PlannerSP_init :: "alert_env \<Rightarrow> (string \<Rightarrow> int) \<Rightarrow> car_params \<Rightarrow> car_params_sp \<Rightarrow> int option \<Rightarrow> scc_in \<Rightarrow> params \<Rightarrow> planner_sp \<times> params" where
  "PlannerSP_init env dflt CP CP_SP generation i p0 =
     (let (r0, p1) = resolver_init dflt p0;
          (r, p2) = resolver_init dflt p1;
          (s, p3) = sla_init dflt CP CP_SP p2
      in (\<lparr>ps_events_sp = EventsSP_init env, ps_resolver = r, ps_dec = dec_init CP p1, ps_scc = scc_init p1 i, ps_sla = s,
           ps_generation = generation, ps_source = PS_cruise, ps_e2e = e2e_init p3, ps_output_v_target = 0, ps_output_a_target = 0\<rparr>, p3))"

definition is_e2e :: "planner_in \<Rightarrow> planner_sp \<Rightarrow> bool" where
  "is_e2e m s = (if \<not> dc_active (ps_dec s) then pn_experimentalMode m
     else pn_experimentalMode m \<and> dec_get_mode (ps_dec s) = Mode_blended)"

text \<open>
  \<open>min\<close> by target speed over the dictionary in its order: a later entry is taken if it is less.
  An infinite speed or NaN never is.
\<close>

type_synonym target = "plan_source \<times> real \<times> real"

definition pick_lower :: "target \<Rightarrow> plan_source \<times> flt \<times> real \<Rightarrow> target" where
  "pick_lower best cand = (case cand of
       (src, Fin v, a) \<Rightarrow> if v < fst (snd best) then (src, v, a) else best
     | _ \<Rightarrow> best)"

definition other_targets :: "planner_sp \<Rightarrow> (plan_source \<times> flt \<times> real) list" where
  "other_targets s =
     [(PS_sccVision, vi_output_v_target (sc_vision (ps_scc s)), vi_output_a_target (sc_vision (ps_scc s))),
      (PS_sccMap, Fin (mp_output_v_target (sc_map (ps_scc s))), mp_output_a_target (sc_map (ps_scc s))),
      (PS_speedLimitAssist, Fin (sa_output_v_target (ps_sla s)), sa_output_a_target (ps_sla s))]"

definition sla_inputs_of :: "planner_in \<Rightarrow> real \<Rightarrow> real \<Rightarrow> resolver \<Rightarrow> sla_inputs" where
  "sla_inputs_of m v_ego a_ego r =
     \<lparr>si_long_enabled = pn_CC_enabled m, si_v_ego = v_ego, si_a_ego = a_ego,
      si_v_cruise_cluster = min (cs_vCruiseCluster (pn_CS m)) V_CRUISE_MAX * KPH_TO_MS,
      si_speed_limit = rs_speed_limit r, si_speed_limit_final_last = rs_speed_limit_final_last r,
      si_has_speed_limit = (speed_limit_valid r \<or> speed_limit_last_valid r), si_distance = rs_distance r, si_now = pn_now m\<rparr>"

definition scc_args_of :: "planner_in \<Rightarrow> real \<Rightarrow> real \<Rightarrow> real \<Rightarrow> scc_args" where
  "scc_args_of m v_ego a_ego v_cruise = \<lparr>sg_long_enabled = pn_CC_enabled m, sg_long_override = pn_CC_override m,
     sg_v_ego = v_ego, sg_a_ego = a_ego, sg_v_cruise = v_cruise\<rparr>"

definition update_targets :: "(string \<Rightarrow> int) \<Rightarrow> planner_in \<Rightarrow> real \<Rightarrow> real \<Rightarrow> real \<Rightarrow> planner_sp \<Rightarrow> (real \<times> real \<times> planner_sp \<times> params) result" where
  "update_targets dflt m v_ego a_ego v_cruise s0 =
     bind_result (scc_update (pn_params m) (pn_scc m) (scc_args_of m v_ego a_ego v_cruise) (ps_scc s0)) (\<lambda>c.
     bind_result (resolver_update dflt (pn_params m) v_ego (pn_resolver m) (ps_resolver s0)) (\<lambda>r.
       let (a, ev, p) = sla_update dflt (pn_params m) (sla_inputs_of m v_ego a_ego r) (ps_events_sp s0) (ps_sla s0);
           s = s0\<lparr>ps_scc := c, ps_resolver := r, ps_sla := a, ps_events_sp := ev\<rparr>;
           (src, v_target, a_target) = foldl pick_lower (PS_cruise, v_cruise, a_ego) (other_targets s)
       in Inr (v_target, a_target, s\<lparr>ps_source := src, ps_output_v_target := v_target, ps_output_a_target := a_target\<rparr>, p)))"

definition dec_in_of :: "planner_in \<Rightarrow> int \<Rightarrow> dec_in" where
  "dec_in_of m crash_cnt = \<lparr>dx_CS = pn_CS m, dx_lead_status = ld_status (pn_leadOne m), dx_position_x = pn_position_x m,
     dx_orientation_x = pn_orientation_x m, dx_experimental_mode = pn_experimentalMode m, dx_crash_cnt = crash_cnt, dx_params = pn_params m\<rparr>"

definition e2e_in_of :: "planner_in \<Rightarrow> e2e_in" where
  "e2e_in_of m = \<lparr>ei_CS = pn_CS m, ei_CC_enabled = pn_CC_enabled m, ei_model_x = pn_position_x m,
     ei_lead_status = ld_status (pn_leadOne m), ei_lead_dRel = ld_dRel (pn_leadOne m)\<rparr>"

definition planner_sp_update :: "planner_in \<Rightarrow> int \<Rightarrow> planner_sp \<Rightarrow> planner_sp result" where
  "planner_sp_update m crash_cnt s0 =
     (let s = s0\<lparr>ps_events_sp := ev_clear (ps_events_sp s0), ps_dec := dec_update (dec_in_of m crash_cnt) (ps_dec s0)\<rparr>
      in bind_result (e2e_update (pn_params m) (e2e_in_of m) (ps_events_sp s) (ps_e2e s)) (\<lambda>(e, ev).
           Inr (s\<lparr>ps_e2e := e, ps_events_sp := ev\<rparr>)))"

section \<open>The published plan\<close>

record plan_sp =
  px_valid :: bool
  px_source :: plan_source
  px_vTarget :: real
  px_aTarget :: real
  px_events :: "(event_id \<times> et list) list"
  px_dec_state :: dec_mode
  px_dec_enabled :: bool
  px_dec_active :: bool
  px_vision_state :: vision_state
  px_vision_vTarget :: flt
  px_vision_aTarget :: real
  px_vision_currentLateralAccel :: real
  px_vision_maxPredictedLateralAccel :: real
  px_vision_enabled :: bool
  px_vision_active :: bool
  px_map_state :: map_state
  px_map_vTarget :: real
  px_map_aTarget :: real
  px_map_enabled :: bool
  px_map_active :: bool
  px_speedLimit :: real
  px_speedLimitLast :: real
  px_speedLimitFinal :: real
  px_speedLimitFinalLast :: real
  px_speedLimitValid :: bool
  px_speedLimitLastValid :: bool
  px_speedLimitOffset :: real
  px_distToSpeedLimit :: real
  px_speedLimit_source :: sl_source
  px_assist_state :: assist_state
  px_assist_enabled :: bool
  px_assist_active :: bool
  px_assist_vTarget :: real
  px_assist_aTarget :: real
  px_greenLightAlert :: bool
  px_leadDepartAlert :: bool

definition publish_longitudinal_plan_sp :: "event_map \<Rightarrow> bool \<Rightarrow> planner_sp \<Rightarrow> plan_sp" where
  "publish_longitudinal_plan_sp mp checks s =
     (let v = sc_vision (ps_scc s); m = sc_map (ps_scc s); r = ps_resolver s; a = ps_sla s
      in \<lparr>px_valid = checks, px_source = ps_source s, px_vTarget = ps_output_v_target s, px_aTarget = ps_output_a_target s,
          px_events = ev_to_msg mp (ps_events_sp s),
          px_dec_state = (if dec_get_mode (ps_dec s) = Mode_blended then Mode_blended else Mode_acc),
          px_dec_enabled = dc_enabled (ps_dec s), px_dec_active = dc_active (ps_dec s),
          px_vision_state = vi_state v, px_vision_vTarget = vi_output_v_target v, px_vision_aTarget = vi_output_a_target v,
          px_vision_currentLateralAccel = vi_current_lat_acc v, px_vision_maxPredictedLateralAccel = vi_max_pred_lat_acc v,
          px_vision_enabled = vi_is_enabled v, px_vision_active = vi_is_active v,
          px_map_state = mp_state m, px_map_vTarget = mp_output_v_target m, px_map_aTarget = mp_output_a_target m,
          px_map_enabled = mp_is_enabled m, px_map_active = mp_is_active m,
          px_speedLimit = rs_speed_limit r, px_speedLimitLast = rs_speed_limit_last r,
          px_speedLimitFinal = rs_speed_limit_final r, px_speedLimitFinalLast = rs_speed_limit_final_last r,
          px_speedLimitValid = speed_limit_valid r, px_speedLimitLastValid = speed_limit_last_valid r,
          px_speedLimitOffset = rs_speed_limit_offset r, px_distToSpeedLimit = rs_distance r, px_speedLimit_source = rs_source r,
          px_assist_state = sa_state a, px_assist_enabled = sa_is_enabled a, px_assist_active = sa_is_active a,
          px_assist_vTarget = sa_output_v_target a, px_assist_aTarget = sa_output_a_target a,
          px_greenLightAlert = ee_green_light_alert (ps_e2e s), px_leadDepartAlert = ee_lead_depart_alert (ps_e2e s)\<rparr>)"

section \<open>Facts\<close>

lemma pick_lower_le: "fst (snd (pick_lower b c)) \<le> fst (snd b)"
  by (auto simp: pick_lower_def split: prod.split flt.split)

lemma pick_lower_chosen: "snd c = (Fin v, a) \<Longrightarrow> fst (snd (pick_lower b c)) \<le> v"
  by (cases c) (auto simp: pick_lower_def)

lemma fold_pick_lower_le: "fst (snd (foldl pick_lower b cs)) \<le> fst (snd b)"
proof (induction cs arbitrary: b)
  case (Cons c cs)
  from Cons [of "pick_lower b c"] pick_lower_le [of b c] show ?case by simp
qed simp

lemma fold_pick_lower_each: "(src, Fin v, a) \<in> set cs \<Longrightarrow> fst (snd (foldl pick_lower b cs)) \<le> v"
proof (induction cs arbitrary: b)
  case (Cons c cs)
  show ?case
  proof (cases "c = (src, Fin v, a)")
    case True
    have "fst (snd (foldl pick_lower (pick_lower b c) cs)) \<le> fst (snd (pick_lower b c))" by (rule fold_pick_lower_le)
    also have "\<dots> \<le> v" using True by (intro pick_lower_chosen) simp
    finally show ?thesis by simp
  next
    case False
    with Cons show ?thesis by simp
  qed
qed simp

lemma fold_pick_lower_in:
  "foldl pick_lower b cs = b \<or> (\<exists>src v a. foldl pick_lower b cs = (src, v, a) \<and> (src, Fin v, a) \<in> set cs)"
proof (induction cs arbitrary: b)
  case (Cons c cs)
  have "pick_lower b c = b \<or> (\<exists>src v a. pick_lower b c = (src, v, a) \<and> c = (src, Fin v, a))"
    by (auto simp: pick_lower_def split: prod.split flt.split)
  with Cons [of "pick_lower b c"] show ?case by auto
qed simp

end
