(* ===== verification/Long_Mpc.thy ===== *)
theory Long_Mpc
  imports Radard
begin

text \<open>
  The longitudinal model predictive control
  (\<open>selfdrive/controls/lib/longitudinal_mpc_lib/long_mpc.py\<close>). The acados solver is generated
  from third-party code: it is an object with a state of its own and the six methods the
  class calls, an argument of the definitions. The costs and constraints of the problem the
  solver is generated for are given as functions.
\<close>

section \<open>Constants\<close>

definition X_EGO_OBSTACLE_COST :: real where "X_EGO_OBSTACLE_COST = 3"
definition X_EGO_COST :: real where "X_EGO_COST = 0"
definition V_EGO_COST :: real where "V_EGO_COST = 0"
definition A_EGO_COST :: real where "A_EGO_COST = 0"
definition J_EGO_COST :: real where "J_EGO_COST = 5"
definition A_CHANGE_COST :: real where "A_CHANGE_COST = 200"
definition DANGER_ZONE_COST :: real where "DANGER_ZONE_COST = 100"
definition CRASH_DISTANCE :: real where "CRASH_DISTANCE = 25/100"
definition LEAD_DANGER_FACTOR :: real where "LEAD_DANGER_FACTOR = 75/100"
definition LIMIT_COST :: real where "LIMIT_COST = 1000000"
definition COST_DIM :: nat where "COST_DIM = 6"
definition COST_E_DIM :: nat where "COST_E_DIM = 5"
definition X_DIM :: nat where "X_DIM = 3"
definition PARAM_DIM :: nat where "PARAM_DIM = 6"
definition MPC_N :: nat where "MPC_N = 12"
definition MAX_T :: real where "MAX_T = 10"
definition COMFORT_BRAKE :: real where "COMFORT_BRAKE = 25/10"
definition STOP_DISTANCE :: real where "STOP_DISTANCE = 6"
definition CRUISE_MIN_ACCEL :: real where "CRUISE_MIN_ACCEL = -12/10"
definition CRUISE_MAX_ACCEL :: real where "CRUISE_MAX_ACCEL = 16/10"
definition MIN_X_LEAD_FACTOR :: real where "MIN_X_LEAD_FACTOR = 5/10"

definition index_function :: "nat \<Rightarrow> real \<Rightarrow> nat \<Rightarrow> real" where
  "index_function idx max_val max_idx = max_val * (real idx / real max_idx)\<^sup>2"

definition T_IDXS_MPC :: "real list" where
  "T_IDXS_MPC = map (\<lambda>i. index_function i MAX_T MPC_N) [0..<MPC_N + 1]"

definition FCW_IDXS :: "bool list" where
  "FCW_IDXS = map (\<lambda>t. t < 5) T_IDXS_MPC"

text \<open>\<open>numpy.diff\<close> with 0 put before, and \<open>numpy.cumsum\<close>.\<close>

definition diffs_from_0 :: "real list \<Rightarrow> real list" where
  "diffs_from_0 xs = map2 (-) xs (0 # butlast xs)"

definition T_DIFFS :: "real list" where
  "T_DIFFS = diffs_from_0 T_IDXS_MPC"

fun cumsum_from :: "real \<Rightarrow> real list \<Rightarrow> real list" where
  "cumsum_from a [] = []"
| "cumsum_from a (x # xs) = (a + x) # cumsum_from (a + x) xs"

abbreviation cumsum :: "real list \<Rightarrow> real list" where "cumsum \<equiv> cumsum_from 0"

section \<open>Distances and personalities\<close>

definition get_jerk_factor :: "int \<Rightarrow> real result" where
  "get_jerk_factor personality = (if personality = 2 then Inr 1 else if personality = 1 then Inr 1
     else if personality = 0 then Inr (5/10) else Inl NotImplementedError)"

definition get_T_FOLLOW :: "int \<Rightarrow> real result" where
  "get_T_FOLLOW personality = (if personality = 2 then Inr (175/100) else if personality = 1 then Inr (145/100)
     else if personality = 0 then Inr (125/100) else Inl NotImplementedError)"

definition get_stopped_equivalence_factor :: "real \<Rightarrow> real" where
  "get_stopped_equivalence_factor v_lead = v_lead\<^sup>2 / (2 * COMFORT_BRAKE)"

definition get_safe_obstacle_distance :: "real \<Rightarrow> real \<Rightarrow> real" where
  "get_safe_obstacle_distance v_ego t_follow = v_ego\<^sup>2 / (2 * COMFORT_BRAKE) + t_follow * v_ego + STOP_DISTANCE"

text \<open>The terms of the cost and the constraints of the generated problem at one node.\<close>

record mpc_node =
  mn_x_ego :: real
  mn_v_ego :: real
  mn_a_ego :: real
  mn_j_ego :: real
  mn_a_min :: real
  mn_a_max :: real
  mn_x_obstacle :: real
  mn_a_prev :: real
  mn_lead_t_follow :: real
  mn_lead_danger_factor :: real

definition ocp_costs :: "mpc_node \<Rightarrow> real list" where
  "ocp_costs n =
     [((mn_x_obstacle n - mn_x_ego n) - get_safe_obstacle_distance (mn_v_ego n) (mn_lead_t_follow n)) / (mn_v_ego n + 10),
      mn_x_ego n, mn_v_ego n, mn_a_ego n, mn_a_ego n - mn_a_prev n, mn_j_ego n]"

definition ocp_constraints :: "mpc_node \<Rightarrow> real list" where
  "ocp_constraints n =
     [mn_v_ego n, mn_a_ego n - mn_a_min n, mn_a_max n - mn_a_ego n,
      ((mn_x_obstacle n - mn_x_ego n) - mn_lead_danger_factor n * get_safe_obstacle_distance (mn_v_ego n) (mn_lead_t_follow n)) / (mn_v_ego n + 10)]"

section \<open>The solver\<close>

text \<open>A vector is given to \<open>cost_set\<close> as a matrix of one row.\<close>

record 's solver =
  so_reset :: "'s \<Rightarrow> 's"
  so_cost_set :: "nat \<Rightarrow> string \<Rightarrow> real list list \<Rightarrow> 's \<Rightarrow> 's"
  so_set :: "nat \<Rightarrow> string \<Rightarrow> real list \<Rightarrow> 's \<Rightarrow> 's"
  so_constraints_set :: "nat \<Rightarrow> string \<Rightarrow> real list \<Rightarrow> 's \<Rightarrow> 's"
  so_solve :: "'s \<Rightarrow> int \<times> 's"
  so_get :: "nat \<Rightarrow> string \<Rightarrow> 's \<Rightarrow> real list"

text \<open>\<open>for i in range(n)\<close> over the solver's state.\<close>

definition for_range :: "nat \<Rightarrow> (nat \<Rightarrow> 's \<Rightarrow> 's) \<Rightarrow> 's \<Rightarrow> 's" where
  "for_range n f s = foldl (\<lambda>s i. f i s) s [0..<n]"

section \<open>The class\<close>

datatype mpc_source = Src_lead0 | Src_lead1 | Src_cruise | Src_e2e

record 's mpc =
  mc_dt :: real
  mc_solver :: 's
  mc_source :: mpc_source
  mc_x_sol :: "real list list"
  mc_u_sol :: "real list list"
  mc_v_solution :: "real list"
  mc_a_solution :: "real list"
  mc_j_solution :: "real list"
  mc_a_prev :: "real list"
  mc_yref :: "real list list"
  mc_params :: "real list list"
  mc_status :: bool
  mc_crash_cnt :: int
  mc_solution_status :: int
  mc_x0 :: "real \<times> real \<times> real"

definition zeros :: "nat \<Rightarrow> real list" where "zeros n = replicate n 0"
definition zeros2 :: "nat \<Rightarrow> nat \<Rightarrow> real list list" where "zeros2 m n = replicate m (zeros n)"

definition vec3 :: "real \<times> real \<times> real \<Rightarrow> real list" where
  "vec3 x = (case x of (a, b, c) \<Rightarrow> [a, b, c])"

text \<open>\<open>numpy.diag\<close>, with the entry at (4, 4) replaced.\<close>

definition cost_matrix :: "real list \<Rightarrow> real \<Rightarrow> real list list" where
  "cost_matrix ws w4 = map (\<lambda>i. map (\<lambda>j. if i = j then (if i = 4 then w4 else ws ! i) else 0) [0..<length ws]) [0..<length ws]"

definition a_change_weight :: "real list \<Rightarrow> nat \<Rightarrow> real" where
  "a_change_weight ws i = ws ! 4 * interp (T_IDXS_MPC ! i) [(0, 1), (1, 1), (2, 0)]"

definition set_cost_weights :: "'s solver \<Rightarrow> real list \<Rightarrow> real list \<Rightarrow> 's \<Rightarrow> 's" where
  "set_cost_weights so ws cs s0 =
     (let s1 = for_range MPC_N (\<lambda>i. so_cost_set so i ''W'' (cost_matrix ws (a_change_weight ws i))) s0;
          W = cost_matrix ws (a_change_weight ws (MPC_N - 1));
          s2 = so_cost_set so MPC_N ''W'' (map (take COST_E_DIM) (take COST_E_DIM W)) s1
      in for_range MPC_N (\<lambda>i. so_cost_set so i ''Zl'' [cs]) s2)"

definition set_weights :: "'s solver \<Rightarrow> bool \<Rightarrow> int \<Rightarrow> 's mpc \<Rightarrow> 's mpc result" where
  "set_weights so prev_accel_constraint personality m =
     bind_result (get_jerk_factor personality) (\<lambda>jerk_factor.
       let a_change_cost = (if prev_accel_constraint then A_CHANGE_COST else 0);
           ws = [X_EGO_OBSTACLE_COST, X_EGO_COST, V_EGO_COST, A_EGO_COST, jerk_factor * a_change_cost, jerk_factor * J_EGO_COST]
       in Inr (m\<lparr>mc_solver := set_cost_weights so ws [LIMIT_COST, LIMIT_COST, LIMIT_COST, DANGER_ZONE_COST] (mc_solver m)\<rparr>))"

definition set_yref :: "'s solver \<Rightarrow> (nat \<Rightarrow> string \<Rightarrow> real list \<Rightarrow> 's \<Rightarrow> 's) \<Rightarrow> real list list \<Rightarrow> 's \<Rightarrow> 's" where
  "set_yref so put yref s = put MPC_N ''yref'' (take COST_E_DIM (yref ! MPC_N)) (for_range MPC_N (\<lambda>i. put i ''yref'' (yref ! i)) s)"

text \<open>\<open>reset\<close>, which ends with the weights of the standard personality.\<close>

definition mpc_cleared :: "'s solver \<Rightarrow> 's mpc \<Rightarrow> 's mpc" where
  "mpc_cleared so m =
     (let yref = zeros2 (MPC_N + 1) COST_DIM;
          s1 = set_yref so (\<lambda>i f v. so_cost_set so i f [v]) yref (so_reset so (mc_solver m));
          s2 = for_range (MPC_N + 1) (\<lambda>i. so_set so i ''x'' (zeros X_DIM)) s1
      in m\<lparr>mc_solver := s2, mc_x_sol := zeros2 (MPC_N + 1) X_DIM, mc_u_sol := zeros2 MPC_N 1,
           mc_v_solution := zeros (MPC_N + 1), mc_a_solution := zeros (MPC_N + 1), mc_j_solution := zeros MPC_N,
           mc_a_prev := zeros (MPC_N + 1), mc_yref := yref, mc_params := zeros2 (MPC_N + 1) PARAM_DIM,
           mc_status := False, mc_crash_cnt := 0, mc_solution_status := 0, mc_x0 := (0, 0, 0)\<rparr>)"

definition mpc_reset :: "'s solver \<Rightarrow> 's mpc \<Rightarrow> 's mpc result" where
  "mpc_reset so m = set_weights so True 1 (mpc_cleared so m)"

definition LongitudinalMpc_init :: "'s solver \<Rightarrow> real \<Rightarrow> 's \<Rightarrow> 's mpc result" where
  "LongitudinalMpc_init so dt s =
     bind_result (mpc_reset so \<lparr>mc_dt = dt, mc_solver = s, mc_source = Src_cruise, mc_x_sol = [], mc_u_sol = [],
       mc_v_solution = [], mc_a_solution = [], mc_j_solution = [], mc_a_prev = [], mc_yref = [], mc_params = [],
       mc_status = False, mc_crash_cnt = 0, mc_solution_status = 0, mc_x0 = (0, 0, 0)\<rparr>) (\<lambda>m.
     Inr (m\<lparr>mc_source := Src_cruise\<rparr>))"

definition mpc_v_ego :: "'s mpc \<Rightarrow> real" where "mpc_v_ego m = fst (snd (mc_x0 m))"

definition set_cur_state :: "'s solver \<Rightarrow> real \<Rightarrow> real \<Rightarrow> 's mpc \<Rightarrow> 's mpc" where
  "set_cur_state so v a m0 =
     (let m = m0\<lparr>mc_x0 := (fst (mc_x0 m0), v, a)\<rparr>
      in if \<bar>mpc_v_ego m0 - v\<bar> > 2
         then m\<lparr>mc_solver := for_range (MPC_N + 1) (\<lambda>i. so_set so i ''x'' (vec3 (mc_x0 m))) (mc_solver m)\<rparr> else m)"

text \<open>The trajectory of a lead: its positions and its velocities at the nodes.\<close>

definition extrapolate_lead :: "real \<Rightarrow> real \<Rightarrow> real \<Rightarrow> real \<Rightarrow> real list \<times> real list" where
  "extrapolate_lead x_lead v_lead a_lead a_lead_tau =
     (let a_traj = map (\<lambda>t. a_lead * exp (- a_lead_tau * t\<^sup>2 / 2)) T_IDXS_MPC;
          v_traj = map (\<lambda>c. clip (v_lead + c) 0 (10^8)) (cumsum (map2 (*) T_DIFFS a_traj));
          x_traj = map (\<lambda>c. x_lead + c) (cumsum (map2 (*) T_DIFFS v_traj))
      in (x_traj, v_traj))"

definition process_lead :: "opendbc \<Rightarrow> lead_data \<Rightarrow> 's mpc \<Rightarrow> real list \<times> real list" where
  "process_lead odb lead m =
     (let v_ego = mpc_v_ego m;
          (x_lead, v_lead, a_lead, a_lead_tau) =
            (if ld_status lead then (ld_dRel lead, ld_vLead lead, ld_aLeadK lead, ld_aLeadTau lead)
             else (50, v_ego + 10, 0, LEAD_ACCEL_TAU));
          min_x_lead = MIN_X_LEAD_FACTOR * (v_ego + v_lead) * (v_ego - v_lead) / (- odb_ACCEL_MIN odb * 2)
      in extrapolate_lead (clip x_lead min_x_lead (10^8)) (clip v_lead 0 (10^8)) (clip a_lead (-10) 5) a_lead_tau)"

definition lead_obstacle :: "real list \<times> real list \<Rightarrow> real list" where
  "lead_obstacle xv = map2 (\<lambda>x v. x + get_stopped_equivalence_factor v) (fst xv) (snd xv)"

definition cruise_obstacle :: "real \<Rightarrow> real \<Rightarrow> real \<Rightarrow> real list" where
  "cruise_obstacle v_ego v_cruise t_follow =
     (let vs = map (\<lambda>t. clip v_cruise (v_ego + t * CRUISE_MIN_ACCEL * (105/100)) (v_ego + t * CRUISE_MAX_ACCEL * (105/100))) T_IDXS_MPC
      in map2 (+) (cumsum (map2 (*) T_DIFFS vs)) (map (\<lambda>v. get_safe_obstacle_distance v t_follow) vs))"

text \<open>\<open>MPC_SOURCES[argmin]\<close>: the first of the nearest obstacles.\<close>

definition nearest_source :: "real \<Rightarrow> real \<Rightarrow> real \<Rightarrow> mpc_source" where
  "nearest_source x0 x1 xc = (if x0 \<le> x1 \<and> x0 \<le> xc then Src_lead0 else if x1 \<le> xc then Src_lead1 else Src_cruise)"

fun min3 :: "real list \<Rightarrow> real list \<Rightarrow> real list \<Rightarrow> real list" where
  "min3 (x # xs) (y # ys) (z # zs) = min x (min y z) # min3 xs ys zs"
| "min3 _ _ _ = []"

text \<open>\<open>run\<close>: the solver's timers, which only serve the logs, are left out.\<close>

definition mpc_solve :: "'s solver \<Rightarrow> 's mpc \<Rightarrow> 's mpc" where
  "mpc_solve so m =
     (let s1 = for_range (MPC_N + 1) (\<lambda>i. so_set so i ''p'' (mc_params m ! i)) (mc_solver m);
          s2 = so_constraints_set so 0 ''ubx'' (vec3 (mc_x0 m)) (so_constraints_set so 0 ''lbx'' (vec3 (mc_x0 m)) s1);
          (status, s3) = so_solve so s2;
          x_sol = map (\<lambda>i. so_get so i ''x'' s3) [0..<MPC_N + 1];
          u_sol = map (\<lambda>i. so_get so i ''u'' s3) [0..<MPC_N]
      in m\<lparr>mc_solver := s3, mc_solution_status := status, mc_x_sol := x_sol, mc_u_sol := u_sol,
           mc_v_solution := map (\<lambda>x. x ! 1) x_sol, mc_a_solution := map (\<lambda>x. x ! 2) x_sol, mc_j_solution := map hd u_sol,
           mc_a_prev := map (\<lambda>t. interp (t + mc_dt m) (zip T_IDXS_MPC (map (\<lambda>x. x ! 2) x_sol))) T_IDXS_MPC\<rparr>)"

definition mpc_run :: "'s solver \<Rightarrow> 's mpc \<Rightarrow> 's mpc result" where
  "mpc_run so m0 = (let m = mpc_solve so m0 in if mc_solution_status m \<noteq> 0 then mpc_reset so m else Inr m)"

definition crash_predicted :: "real list \<Rightarrow> real list list \<Rightarrow> bool" where
  "crash_predicted lead_x x_sol \<longleftrightarrow> (\<exists>i\<in>set [0..<MPC_N + 1]. FCW_IDXS ! i \<and> lead_x ! i - x_sol ! i ! 0 < CRASH_DISTANCE)"

text \<open>The parameters of the nodes.\<close>

definition mpc_node_params :: "opendbc \<Rightarrow> real list \<Rightarrow> real list \<Rightarrow> real \<Rightarrow> real list list" where
  "mpc_node_params odb obstacles a_prev t_follow =
     map2 (\<lambda>x a. [odb_ACCEL_MIN odb, odb_ACCEL_MAX odb, x, a, t_follow, LEAD_DANGER_FACTOR]) obstacles a_prev"

definition mpc_prepare :: "'s solver \<Rightarrow> opendbc \<Rightarrow> lead_data \<times> lead_data \<Rightarrow> real \<Rightarrow> real \<Rightarrow> 's mpc \<Rightarrow> 's mpc" where
  "mpc_prepare so odb leads v_cruise t_follow m =
     (let obstacle_0 = lead_obstacle (process_lead odb (fst leads) m);
          obstacle_1 = lead_obstacle (process_lead odb (snd leads) m);
          obstacle_c = cruise_obstacle (mpc_v_ego m) v_cruise t_follow;
          yref = zeros2 (MPC_N + 1) COST_DIM
      in m\<lparr>mc_status := ld_status (fst leads) \<or> ld_status (snd leads),
           mc_source := nearest_source (hd obstacle_0) (hd obstacle_1) (hd obstacle_c),
           mc_yref := yref, mc_solver := set_yref so (so_set so) yref (mc_solver m),
           mc_params := mpc_node_params odb (min3 obstacle_0 obstacle_1 obstacle_c) (mc_a_prev m) t_follow\<rparr>)"

definition mpc_update :: "'s solver \<Rightarrow> opendbc \<Rightarrow> lead_data \<times> lead_data \<Rightarrow> real \<Rightarrow> int \<Rightarrow> 's mpc \<Rightarrow> 's mpc result" where
  "mpc_update so odb leads v_cruise personality m0 =
     bind_result (get_T_FOLLOW personality) (\<lambda>t_follow.
     bind_result (mpc_run so (mpc_prepare so odb leads v_cruise t_follow m0)) (\<lambda>m.
     Inr (m\<lparr>mc_crash_cnt := (if crash_predicted (fst (process_lead odb (fst leads) m0)) (mc_x_sol m) \<and> ld_modelProb (fst leads) > 9/10
            then mc_crash_cnt m + 1 else 0)\<rparr>)))"

section \<open>Facts\<close>

lemma length_T_IDXS [simp]: "length T_IDXS_MPC = 13"
  by (simp add: T_IDXS_MPC_def MPC_N_def)

lemma length_T_DIFFS [simp]: "length T_DIFFS = 13"
  by (simp add: T_DIFFS_def diffs_from_0_def)

lemma length_cumsum [simp]: "length (cumsum_from a xs) = length xs"
  by (induction xs arbitrary: a) simp_all

lemma length_min3 [simp]: "length (min3 xs ys zs) = min (length xs) (min (length ys) (length zs))"
  by (induction xs ys zs rule: min3.induct) simp_all

lemma min3_nth: "i < length xs \<Longrightarrow> i < length ys \<Longrightarrow> i < length zs \<Longrightarrow> min3 xs ys zs ! i = min (xs ! i) (min (ys ! i) (zs ! i))"
  by (induction xs ys zs arbitrary: i rule: min3.induct) (auto simp: nth_Cons split: nat.split)

lemma length_process_lead [simp]: "length (fst (process_lead odb lead m)) = 13" "length (snd (process_lead odb lead m)) = 13"
  by (simp_all add: process_lead_def extrapolate_lead_def Let_def split: prod.split)

lemma length_obstacles [simp]: "length (lead_obstacle (process_lead odb lead m)) = 13" "length (cruise_obstacle v w t) = 13"
  by (simp_all add: lead_obstacle_def cruise_obstacle_def Let_def)

text \<open>The nodes are in ascending order.\<close>

lemma T_IDXS_nth: "i < 13 \<Longrightarrow> T_IDXS_MPC ! i = 10 * (real i / 12)\<^sup>2"
  by (simp add: T_IDXS_MPC_def index_function_def MPC_N_def MAX_T_def del: upt_Suc)

lemma T_DIFFS_nonneg: "d \<in> set T_DIFFS \<Longrightarrow> 0 \<le> d"
proof -
  assume "d \<in> set T_DIFFS"
  then obtain i where i: "i < 13" "d = T_DIFFS ! i" using length_T_DIFFS by (metis in_set_conv_nth)
  have "(0 # butlast T_IDXS_MPC) ! i \<le> T_IDXS_MPC ! i"
  proof (cases i)
    case (Suc j)
    then have "(real j / 12)\<^sup>2 \<le> (real i / 12)\<^sup>2" by (intro power_mono) simp_all
    with Suc i show ?thesis by (simp add: nth_butlast T_IDXS_nth)
  qed (simp add: T_IDXS_nth)
  then show "0 \<le> d" using i by (simp add: T_DIFFS_def diffs_from_0_def)
qed

lemma cumsum_sorted: "\<forall>x\<in>set xs. 0 \<le> x \<Longrightarrow> sorted (cumsum_from a xs) \<and> (\<forall>y\<in>set (cumsum_from a xs). a \<le> y)"
proof (induction xs arbitrary: a)
  case (Cons x xs)
  then show ?case using Cons.IH [of "a + x"] by fastforce
qed simp

text \<open>A lead never drives backwards, however it brakes.\<close>

lemma extrapolated_lead:
  "\<forall>v\<in>set (snd (extrapolate_lead x v0 a tau)). 0 \<le> v" "sorted (fst (extrapolate_lead x v0 a tau))"
proof -
  have v: "\<forall>v\<in>set (snd (extrapolate_lead x v0 a tau)). 0 \<le> v"
    by (auto simp: extrapolate_lead_def Let_def intro: order_trans [OF _ clip_bounds(1)])
  then show "\<forall>v\<in>set (snd (extrapolate_lead x v0 a tau)). 0 \<le> v" .
  obtain vs where vs: "snd (extrapolate_lead x v0 a tau) = vs"
    and xs: "fst (extrapolate_lead x v0 a tau) = map (\<lambda>c. x + c) (cumsum (map2 (*) T_DIFFS vs))"
    by (simp add: extrapolate_lead_def Let_def)
  have "\<forall>d\<in>set (map2 (*) T_DIFFS vs). 0 \<le> d"
  proof
    fix d assume "d \<in> set (map2 (*) T_DIFFS vs)"
    then obtain t w where "(t, w) \<in> set (zip T_DIFFS vs)" "d = t * w" by auto
    moreover from this have "0 \<le> t" "w \<in> set vs" by (auto dest: set_zip_leftD set_zip_rightD intro: T_DIFFS_nonneg)
    ultimately show "0 \<le> d" using v vs by auto
  qed
  from cumsum_sorted [OF this] show "sorted (fst (extrapolate_lead x v0 a tau))"
    by (simp add: xs sorted_map sorted_wrt_mono_rel [of _ "(\<le>)"])
qed

text \<open>
  The obstacle a node of the solver sees is the nearest of both leads, each with the distance it
  needs to stop, and of the one that stands for the set speed.
\<close>

lemma prepared_obstacle:
  assumes "i \<le> MPC_N" "length (mc_a_prev m) = 13"
  shows "mc_params (mpc_prepare so odb leads vc tf m) ! i ! 2 = min (lead_obstacle (process_lead odb (fst leads) m) ! i)
    (min (lead_obstacle (process_lead odb (snd leads) m) ! i) (cruise_obstacle (mpc_v_ego m) vc tf ! i))"
  using assms by (simp add: mpc_prepare_def mpc_node_params_def Let_def MPC_N_def min3_nth)

definition mpc_ok :: "'s mpc \<Rightarrow> bool" where
  "mpc_ok m \<longleftrightarrow> length (mc_v_solution m) = 13 \<and> length (mc_a_solution m) = 13 \<and> length (mc_j_solution m) = 12
     \<and> length (mc_a_prev m) = 13 \<and> 0 \<le> mc_crash_cnt m"

lemma mpc_reset_ok:
  "\<exists>m'. mpc_reset so m = Inr m' \<and> mpc_ok m' \<and> mc_v_solution m' = zeros 13 \<and> mc_a_solution m' = zeros 13
    \<and> mc_dt m' = mc_dt m \<and> mc_source m' = mc_source m \<and> mc_crash_cnt m' = 0"
  by (simp add: mpc_reset_def set_weights_def get_jerk_factor_def mpc_cleared_def mpc_ok_def zeros_def MPC_N_def Let_def)

lemma mpc_solve_ok: "0 \<le> mc_crash_cnt m \<Longrightarrow> mpc_ok (mpc_solve so m)"
  by (simp add: mpc_solve_def mpc_ok_def MPC_N_def Let_def split: prod.split)

text \<open>The MPC does not raise on a known personality, whatever the solver does.\<close>

lemma mpc_update_ok:
  assumes "mpc_ok m" "personality \<in> {0, 1, 2}"
  shows "\<exists>m'. mpc_update so odb leads vc personality m = Inr m' \<and> mpc_ok m'"
proof -
  obtain tf where tf: "get_T_FOLLOW personality = Inr tf"
    using assms(2) by (cases "get_T_FOLLOW personality") (auto simp: get_T_FOLLOW_def split: if_splits)
  let ?p = "mpc_prepare so odb leads vc tf m"
  have "0 \<le> mc_crash_cnt ?p" using assms(1) by (simp add: mpc_prepare_def mpc_ok_def Let_def)
  from mpc_solve_ok [OF this] have "\<exists>r. mpc_run so ?p = Inr r \<and> mpc_ok r"
    using mpc_reset_ok [of so "mpc_solve so ?p"] by (auto simp: mpc_run_def Let_def)
  then obtain r where r: "mpc_run so ?p = Inr r" "mpc_ok r" by blast
  then show ?thesis by (simp add: mpc_update_def tf) (simp add: mpc_ok_def)
qed

lemma set_weights_ok:
  assumes "personality \<in> {0, 1, 2}"
  shows "\<exists>m'. set_weights so b personality m = Inr m' \<and> (mpc_ok m \<longrightarrow> mpc_ok m')"
  using assms by (auto simp: set_weights_def get_jerk_factor_def mpc_ok_def Let_def)

lemma set_cur_state_ok: "mpc_ok m \<Longrightarrow> mpc_ok (set_cur_state so v a m)"
  by (simp add: set_cur_state_def mpc_ok_def Let_def)

end
