(* ===== verification/Long_Planner.thy ===== *)
theory Long_Planner
  imports Planner_Sp Long_Mpc Drive_Helpers
begin

text \<open>
  The longitudinal planner, \<open>selfdrive/controls/lib/longitudinal_planner.py\<close>: limits of the
  acceleration, the target speed of \<open>Planner_Sp\<close>, the MPC, and the acceleration and stop request
  that are published; and a round of its process, \<open>selfdrive/controls/plannerd.py\<close>.
\<close>

section \<open>Tables and limits\<close>

definition A_CRUISE_MAX :: "(real \<times> real) list" where "A_CRUISE_MAX = [(0, 16/10), (10, 12/10), (25, 8/10), (40, 6/10)]"
definition ALLOW_THROTTLE_THRESHOLD :: real where "ALLOW_THROTTLE_THRESHOLD = 4/10"
definition MIN_ALLOW_THROTTLE_SPEED :: real where "MIN_ALLOW_THROTTLE_SPEED = 25/10"
definition A_TOTAL_MAX :: "(real \<times> real) list" where "A_TOTAL_MAX = [(20, 17/10), (40, 32/10)]"
definition DEG_TO_RAD :: real where "DEG_TO_RAD = pi / 180"

definition CONTROL_N_T_IDX :: "real list" where "CONTROL_N_T_IDX = take CONTROL_N MODEL_T_IDXS"

definition get_max_accel :: "real \<Rightarrow> real" where
  "get_max_accel v_ego = interp v_ego A_CRUISE_MAX"

definition get_coast_accel :: "real \<Rightarrow> real" where
  "get_coast_accel pitch = sin pitch * (- 565/100) - 3/10"

definition limit_accel_in_turns :: "real \<Rightarrow> real \<Rightarrow> real \<times> real \<Rightarrow> car_params \<Rightarrow> (real \<times> real) result" where
  "limit_accel_in_turns v_ego angle_steers a_target CP =
     (let a_total_max = interp v_ego A_TOTAL_MAX; d = cp_steerRatio CP * cp_wheelbase CP
      in if d = 0 then Inl ZeroDivisionError
         else let a_y = v_ego\<^sup>2 * angle_steers * DEG_TO_RAD / d;
                  a_x_allowed = sqrt (max (a_total_max\<^sup>2 - a_y\<^sup>2) 0)
              in Inr (fst a_target, min (snd a_target) a_x_allowed))"

section \<open>The planner\<close>

record 's long_planner =
  lp_CP :: car_params
  lp_mpc :: "'s mpc"
  lp_sp :: planner_sp
  lp_fcw :: bool
  lp_dt :: real
  lp_allow_throttle :: bool
  lp_a_desired :: real
  lp_v_desired_filter :: fof
  lp_prev_accel_clip :: "real \<times> real"
  lp_output_a_target :: real
  lp_output_should_stop :: bool
  lp_v_desired_trajectory :: "real list"
  lp_a_desired_trajectory :: "real list"
  lp_j_desired_trajectory :: "real list"

text \<open>What does not change: the limits of opendbc, the solver, the defaults of the parameters.\<close>

record 's planner_env =
  pe_odb :: opendbc
  pe_solver :: "'s solver"
  pe_dflt :: "string \<Rightarrow> int"

definition LongitudinalPlanner_init :: "'s planner_env \<Rightarrow> car_params \<Rightarrow> planner_sp \<Rightarrow> 's \<Rightarrow> real \<Rightarrow> real \<Rightarrow> real \<Rightarrow> 's long_planner result" where
  "LongitudinalPlanner_init env CP sp solver init_v init_a dt =
     bind_result (LongitudinalMpc_init (pe_solver env) dt solver) (\<lambda>mpc.
     Inr \<lparr>lp_CP = CP, lp_mpc = mpc, lp_sp = sp, lp_fcw = False, lp_dt = dt, lp_allow_throttle = True, lp_a_desired = init_a,
       lp_v_desired_filter = fof_init init_v 2 dt True, lp_prev_accel_clip = (odb_ACCEL_MIN (pe_odb env), odb_ACCEL_MAX (pe_odb env)),
       lp_output_a_target = 0, lp_output_should_stop = False, lp_v_desired_trajectory = zeros CONTROL_N,
       lp_a_desired_trajectory = zeros CONTROL_N, lp_j_desired_trajectory = zeros CONTROL_N\<rparr>)"

text \<open>The trajectories of the model at the nodes of the MPC, and the probability of the throttle.\<close>

definition parse_model :: "planner_in \<Rightarrow> real list \<times> real list \<times> real list \<times> real list \<times> real" where
  "parse_model m =
     (let resample = (\<lambda>xs. map (\<lambda>t. interp t (zip MODEL_T_IDXS xs)) T_IDXS_MPC); j = zeros (length T_IDXS_MPC);
          (x, v, a) = (if length (pn_position_x m) = 33 \<and> length (pn_velocity_x m) = 33 \<and> length (pn_acceleration_x m) = 33
             then (resample (pn_position_x m), resample (pn_velocity_x m), resample (pn_acceleration_x m)) else (j, j, j));
          throttle_prob = (if length (pn_gasPressProbs m) > 1 then pn_gasPressProbs m ! 1 else 1)
      in (x, v, a, j, throttle_prob))"

definition plan_reset :: "planner_in \<Rightarrow> car_params \<Rightarrow> bool" where
  "plan_reset m CP \<longleftrightarrow> (if cp_openpilotLongitudinalControl CP then pn_long_control_off m else \<not> pn_sd_enabled m)
     \<or> \<not> cs_vCruise (pn_CS m) \<noteq> V_CRUISE_UNSET"

definition accel_coast :: "opendbc \<Rightarrow> planner_in \<Rightarrow> real" where
  "accel_coast odb m = (if length (pn_orientationNED m) = 3 then get_coast_accel (pn_orientationNED m ! 1) else odb_ACCEL_MAX odb)"

definition turn_limits :: "opendbc \<Rightarrow> planner_in \<Rightarrow> car_params \<Rightarrow> (real \<times> real) result" where
  "turn_limits odb m CP = limit_accel_in_turns (cs_vEgo (pn_CS m)) (cs_steeringAngleDeg (pn_CS m) - pn_angleOffsetDeg m)
     (odb_ACCEL_MIN odb, get_max_accel (cs_vEgo (pn_CS m))) CP"

text \<open>The reset on disengagement, and the filter of the speed.\<close>

definition plan_speed :: "planner_in \<Rightarrow> real \<times> real \<Rightarrow> 's long_planner \<Rightarrow> 's long_planner" where
  "plan_speed m accel_clip s0 =
     (let v_ego = cs_vEgo (pn_CS m);
          s = (if plan_reset m (lp_CP s0)
               then s0\<lparr>lp_v_desired_filter := (lp_v_desired_filter s0)\<lparr>ff_x := v_ego\<rparr>,
                       lp_a_desired := clip (cs_aEgo (pn_CS m)) (fst accel_clip) (snd accel_clip)\<rparr> else s0);
          f = fof_update v_ego (lp_v_desired_filter s)
      in s\<lparr>lp_v_desired_filter := f\<lparr>ff_x := max 0 (ff_x f)\<rparr>\<rparr>)"

definition allow_throttle :: "planner_in \<Rightarrow> bool" where
  "allow_throttle m \<longleftrightarrow> snd (snd (snd (snd (parse_model m)))) > ALLOW_THROTTLE_THRESHOLD \<or> cs_vEgo (pn_CS m) \<le> MIN_ALLOW_THROTTLE_SPEED"

definition coast_limit :: "opendbc \<Rightarrow> planner_in \<Rightarrow> real \<times> real \<Rightarrow> real \<times> real" where
  "coast_limit odb m accel_clip =
     (if \<not> allow_throttle m then
        let clipped = max (accel_coast odb m) (fst accel_clip);
            clipped_interp = interp (cs_vEgo (pn_CS m)) [(MIN_ALLOW_THROTTLE_SPEED, snd accel_clip), (MIN_ALLOW_THROTTLE_SPEED * 2, clipped)]
        in (fst accel_clip, min (snd accel_clip) clipped_interp)
      else accel_clip)"

definition plan_targets :: "'s planner_env \<Rightarrow> planner_in \<Rightarrow> 's long_planner \<Rightarrow> (real \<times> 's long_planner \<times> params) result" where
  "plan_targets env m s =
     (let v_cruise = min (cs_vCruise (pn_CS m)) V_CRUISE_MAX * KPH_TO_MS
      in bind_result (update_targets (pe_dflt env) m (ff_x (lp_v_desired_filter s)) (lp_a_desired s) v_cruise (lp_sp s)) (\<lambda>(v, a, sp, p).
           Inr (if pn_forceDecel m then 0 else v, s\<lparr>lp_a_desired := a, lp_sp := sp\<rparr>, p)))"

definition plan_mpc :: "'s planner_env \<Rightarrow> planner_in \<Rightarrow> real \<Rightarrow> 's long_planner \<Rightarrow> 's long_planner result" where
  "plan_mpc env m v_cruise s =
     (let prev_accel_constraint = (\<not> (plan_reset m (lp_CP s) \<or> cs_standstill (pn_CS m)))
      in bind_result (set_weights (pe_solver env) prev_accel_constraint (pn_personality m) (lp_mpc s)) (\<lambda>m1.
         bind_result (mpc_update (pe_solver env) (pe_odb env) (pn_leadOne m, pn_leadTwo m) v_cruise (pn_personality m)
                        (set_cur_state (pe_solver env) (ff_x (lp_v_desired_filter s)) (lp_a_desired s) m1)) (\<lambda>m2.
         Inr (s\<lparr>lp_mpc := m2\<rparr>))))"

definition resample_plan :: "real list \<Rightarrow> real list \<Rightarrow> real list" where
  "resample_plan t_idxs xs = map (\<lambda>t. interp t (zip t_idxs xs)) CONTROL_N_T_IDX"

definition plan_trajectories :: "planner_in \<Rightarrow> 's long_planner \<Rightarrow> 's long_planner" where
  "plan_trajectories m s0 =
     (let s = s0\<lparr>lp_v_desired_trajectory := resample_plan T_IDXS_MPC (mc_v_solution (lp_mpc s0)),
                 lp_a_desired_trajectory := resample_plan T_IDXS_MPC (mc_a_solution (lp_mpc s0)),
                 lp_j_desired_trajectory := resample_plan (butlast T_IDXS_MPC) (mc_j_solution (lp_mpc s0)),
                 lp_fcw := mc_crash_cnt (lp_mpc s0) > 2 \<and> \<not> cs_standstill (pn_CS m)\<rparr>;
          a_prev = lp_a_desired s;
          a = interp (lp_dt s) (zip CONTROL_N_T_IDX (lp_a_desired_trajectory s))
      in s\<lparr>lp_a_desired := a,
           lp_v_desired_filter := (lp_v_desired_filter s)\<lparr>ff_x := ff_x (lp_v_desired_filter s) + lp_dt s * (a + a_prev) / 2\<rparr>\<rparr>)"

text \<open>The choice between the plan of the MPC and that of the model.\<close>

definition plan_output :: "planner_in \<Rightarrow> 's long_planner \<Rightarrow> (real \<times> 's long_planner) result" where
  "plan_output m s =
     bind_result (get_accel_from_plan (lp_v_desired_trajectory s) (lp_a_desired_trajectory s) CONTROL_N_T_IDX
                    (cp_longitudinalActuatorDelay (lp_CP s) + DT_MDL) (cp_vEgoStopping (lp_CP s))) (\<lambda>(a_mpc, stop_mpc).
     Inr (if is_e2e m (lp_sp s)
          then let a = min (pn_desiredAcceleration m) a_mpc
               in (a, s\<lparr>lp_output_should_stop := pn_shouldStop m \<or> stop_mpc,
                        lp_mpc := (if a < a_mpc then (lp_mpc s)\<lparr>mc_source := Src_e2e\<rparr> else lp_mpc s)\<rparr>)
          else (a_mpc, s\<lparr>lp_output_should_stop := stop_mpc\<rparr>)))"

definition smooth_limit :: "real \<Rightarrow> real \<Rightarrow> real" where
  "smooth_limit prev new = clip new (prev - 5/100) (prev + 5/100)"

definition plan_clip :: "real \<times> real \<Rightarrow> real \<Rightarrow> 's long_planner \<Rightarrow> 's long_planner" where
  "plan_clip accel_clip a s =
     (let lo = smooth_limit (fst (lp_prev_accel_clip s)) (fst accel_clip); hi = smooth_limit (snd (lp_prev_accel_clip s)) (snd accel_clip)
      in s\<lparr>lp_output_a_target := clip a lo hi, lp_prev_accel_clip := (lo, hi)\<rparr>)"

definition planner_update :: "'s planner_env \<Rightarrow> planner_in \<Rightarrow> 's long_planner \<Rightarrow> ('s long_planner \<times> params) result" where
  "planner_update env m s0 =
     bind_result (planner_sp_update m (mc_crash_cnt (lp_mpc s0)) (lp_sp s0)) (\<lambda>sp.
     bind_result (turn_limits (pe_odb env) m (lp_CP s0)) (\<lambda>turn.
       let s1 = (plan_speed m turn (s0\<lparr>lp_sp := sp\<rparr>))\<lparr>lp_allow_throttle := allow_throttle m\<rparr>;
           accel_clip = coast_limit (pe_odb env) m turn
       in bind_result (plan_targets env m s1) (\<lambda>(v_cruise, s2, p).
          bind_result (plan_mpc env m v_cruise s2) (\<lambda>s3.
          bind_result (plan_output m (plan_trajectories m s3)) (\<lambda>(a, s4).
          Inr (plan_clip accel_clip a s4, p))))))"

section \<open>The published plan and the process\<close>

record longitudinal_plan =
  pl_valid :: bool
  pl_speeds :: "real list"
  pl_accels :: "real list"
  pl_jerks :: "real list"
  pl_hasLead :: bool
  pl_source :: mpc_source
  pl_fcw :: bool
  pl_aTarget :: real
  pl_shouldStop :: bool
  pl_allowBrake :: bool
  pl_allowThrottle :: bool

definition planner_publish :: "event_map \<Rightarrow> bool \<Rightarrow> bool \<Rightarrow> planner_in \<Rightarrow> 's long_planner \<Rightarrow> longitudinal_plan \<times> plan_sp" where
  "planner_publish mp checks checks_sp m s = (\<lparr>pl_valid = checks, pl_speeds = lp_v_desired_trajectory s, pl_accels = lp_a_desired_trajectory s,
     pl_jerks = lp_j_desired_trajectory s, pl_hasLead = ld_status (pn_leadOne m), pl_source = mc_source (lp_mpc s), pl_fcw = lp_fcw s,
     pl_aTarget = lp_output_a_target s, pl_shouldStop = lp_output_should_stop s, pl_allowBrake = True,
     pl_allowThrottle = lp_allow_throttle s\<rparr>, publish_longitudinal_plan_sp mp checks_sp (lp_sp s))"

text \<open>A round: the buttons are seen in every one, the plan is made when the model has new output.\<close>

record plannerd_in =
  pd_in :: planner_in
  pd_model_updated :: bool
  pd_frame :: int
  pd_ldw_model :: ldw_model
  pd_CC :: car_control
  pd_plan_checks :: bool
  pd_plan_sp_checks :: bool
  pd_assistance_checks :: bool

record planner_msgs =
  pm_plan :: "longitudinal_plan \<times> plan_sp"
  pm_assistance_valid :: bool
  pm_leftLaneDeparture :: bool
  pm_rightLaneDeparture :: bool

definition plannerd_round :: "event_map \<Rightarrow> 's planner_env \<Rightarrow> plannerd_in \<Rightarrow> 's long_planner \<times> ldw \<Rightarrow> (planner_msgs option \<times> 's long_planner \<times> ldw) result" where
  "plannerd_round mp env i sl =
     (let (s0, l) = sl; m = pd_in i;
          s = s0\<lparr>lp_sp := (lp_sp s0)\<lparr>ps_sla := sla_update_car_state (pn_now m) (pn_CS m) (ps_sla (lp_sp s0))\<rparr>\<rparr>
      in if pd_model_updated i
         then bind_result (planner_update env m s) (\<lambda>(s1, p).
           let l1 = ldw_update (pd_frame i) (pd_ldw_model i) (pn_CS m) (pd_CC i) l
           in Inr (Some \<lparr>pm_plan = planner_publish mp (pd_plan_checks i) (pd_plan_sp_checks i) m s1,
                pm_assistance_valid = pd_assistance_checks i, pm_leftLaneDeparture = ld_left l1, pm_rightLaneDeparture = ld_right l1\<rparr>, s1, l1))
         else Inr (None, s, l))"

section \<open>Facts\<close>

text \<open>Messages in order: vectors of the expected shape, a known personality, parameters in their ranges.\<close>

definition resolver_params_ok :: "(string \<Rightarrow> int) \<Rightarrow> params \<Rightarrow> bool" where
  "resolver_params_ok dflt p \<longleftrightarrow> 0 \<le> get_int dflt p ''SpeedLimitPolicy'' \<and> get_int dflt p ''SpeedLimitPolicy'' \<le> 4
     \<and> 0 \<le> get_int dflt p ''SpeedLimitOffsetType'' \<and> get_int dflt p ''SpeedLimitOffsetType'' \<le> 2"

definition planner_in_ok :: "'s planner_env \<Rightarrow> planner_in \<Rightarrow> bool" where
  "planner_in_ok env m \<longleftrightarrow> pn_personality m \<in> {0, 1, 2} \<and> pn_position_x m \<noteq> []
     \<and> sc_velocity_x (pn_scc m) \<noteq> [] \<and> length (sc_orientationRate_z (pn_scc m)) = length (sc_velocity_x (pn_scc m))
     \<and> resolver_params_ok (pe_dflt env) (pn_params m)"

definition resolver_ok :: "resolver \<Rightarrow> bool" where
  "resolver_ok r \<longleftrightarrow> 0 \<le> rs_policy r \<and> rs_policy r \<le> 4 \<and> 0 \<le> rs_offset_type r \<and> rs_offset_type r \<le> 2"

lemma resolver_ok_in_range: "resolver_ok r \<Longrightarrow> resolver_params_ok dflt p \<Longrightarrow> params_in_range dflt p (r\<lparr>rs_v_ego := v\<rparr>)"
  by (auto simp: params_in_range_def resolver_update_params_def resolver_ok_def resolver_params_ok_def Let_def)

lemma speed_limit_states_frame [simp]:
  "rs_policy (update_speed_limit_states r) = rs_policy r" "rs_offset_type (update_speed_limit_states r) = rs_offset_type r"
  by (simp_all add: update_speed_limit_states_def Let_def)

lemma resolve_sources_frame:
  "resolve_limit_sources i r = Inr (r', x) \<Longrightarrow> rs_policy r' = rs_policy r \<and> rs_offset_type r' = rs_offset_type r"
  by (auto simp: resolve_limit_sources_def bind_result_Inr_iff Let_def solution_frames)

lemma resolver_update_ok:
  assumes "resolver_ok r" "resolver_params_ok dflt p"
  shows "\<exists>r'. resolver_update dflt p v i r = Inr r' \<and> resolver_ok r'"
proof -
  from resolver_update_result [OF resolver_ok_in_range [OF assms]] obtain r' where r': "resolver_update dflt p v i r = Inr r'" by blast
  have "resolver_ok (resolver_update_params dflt p (r\<lparr>rs_v_ego := v\<rparr>))"
    using assms by (auto simp: resolver_update_params_def resolver_ok_def resolver_params_ok_def)
  with r' have "resolver_ok r'"
    by (auto simp: resolver_update_def bind_result_Inr_iff resolver_ok_def Let_def split_def dest!: resolve_sources_frame)
  with r' show ?thesis by blast
qed

lemma percentile97_returns: "xs \<noteq> [] \<Longrightarrow> \<exists>m. percentile97 xs = Inr m"
  by (simp add: percentile97_def Let_def)

lemma scc_update_returns:
  assumes "sc_velocity_x i \<noteq> []" "length (sc_orientationRate_z i) = length (sc_velocity_x i)"
  shows "\<exists>c. scc_update p i g s = Inr c"
proof -
  let ?xs = "map2 (*) (map abs (sc_orientationRate_z i)) (sc_velocity_x i)"
  have "length ?xs = length (sc_velocity_x i)" using assms(2) by simp
  then have "?xs \<noteq> []" using assms(1) by (metis length_0_conv)
  then obtain m where "percentile97 ?xs = Inr m" using percentile97_returns by blast
  then show ?thesis
    using assms(2) by (simp add: scc_update_def vision_update_def vision_calculations_def np_mult_def Let_def)
qed

lemma e2e_update_returns:
  assumes "ei_model_x i \<noteq> []" shows "\<exists>s' ev'. e2e_update p i ev s = Inr (s', ev')"
proof -
  have "\<exists>g u. green_light_timer i (update_allowed i (e2e_read_params p s)) = Inr (g, u)"
    using assms by (auto simp: green_light_timer_def Let_def)
  then obtain g u where "green_light_timer i (update_allowed i (e2e_read_params p s)) = Inr (g, u)" by blast
  then show ?thesis by (simp add: e2e_update_def update_alert_trigger_def Let_def split: prod.split)
qed

lemma update_targets_result:
  assumes "sc_velocity_x (pn_scc m) \<noteq> []" "length (sc_orientationRate_z (pn_scc m)) = length (sc_velocity_x (pn_scc m))"
    and "resolver_params_ok dflt (pn_params m)" "resolver_ok (ps_resolver s)"
  shows "\<exists>v a s' p. update_targets dflt m v_ego a_ego v_cruise s = Inr (v, a, s', p) \<and> resolver_ok (ps_resolver s')
    \<and> ps_dec s' = ps_dec s"
proof -
  from scc_update_returns [OF assms(1,2)] obtain c where c: "scc_update (pn_params m) (pn_scc m) (scc_args_of m v_ego a_ego v_cruise) (ps_scc s) = Inr c" by blast
  from resolver_update_ok [OF assms(4,3)] obtain r where
    r: "resolver_update dflt (pn_params m) v_ego (pn_resolver m) (ps_resolver s) = Inr r" "resolver_ok r" by blast
  show ?thesis by (simp add: update_targets_def c r Let_def split: prod.split)
qed

lemma planner_sp_update_result:
  assumes "pn_position_x m \<noteq> []"
  shows "\<exists>s'. planner_sp_update m n s = Inr s' \<and> ps_resolver s' = ps_resolver s"
proof -
  let ?s = "s\<lparr>ps_events_sp := ev_clear (ps_events_sp s), ps_dec := dec_update (dec_in_of m n) (ps_dec s)\<rparr>"
  from e2e_update_returns [of "e2e_in_of m" "pn_params m" "ps_events_sp ?s" "ps_e2e ?s"] assms obtain e ev where
    "e2e_update (pn_params m) (e2e_in_of m) (ps_events_sp ?s) (ps_e2e ?s) = Inr (e, ev)" by (auto simp: e2e_in_of_def)
  then show ?thesis by (simp add: planner_sp_update_def Let_def)
qed

text \<open>The lowest of the targets is taken.\<close>

lemma update_targets_lowest:
  assumes "update_targets dflt m v_ego a_ego v_cruise s = Inr (v, a, s', p)"
  shows "v = ps_output_v_target s'" "a = ps_output_a_target s'" "v \<le> v_cruise"
    and "(src, Fin w, b) \<in> set (other_targets s') \<Longrightarrow> v \<le> w"
    and "ps_source s' = PS_cruise \<and> v = v_cruise \<and> a = a_ego \<or> (ps_source s', Fin v, a) \<in> set (other_targets s')"
proof -
  from assms obtain c r where eq: "(let (sl, ev, p) = sla_update dflt (pn_params m) (sla_inputs_of m v_ego a_ego r) (ps_events_sp s) (ps_sla s);
           t = s\<lparr>ps_scc := c, ps_resolver := r, ps_sla := sl, ps_events_sp := ev\<rparr>;
           (src, v_target, a_target) = foldl pick_lower (PS_cruise, v_cruise, a_ego) (other_targets t)
       in (Inr (v_target, a_target, t\<lparr>ps_source := src, ps_output_v_target := v_target, ps_output_a_target := a_target\<rparr>, p)
           :: (real \<times> real \<times> planner_sp \<times> params) result)) = Inr (v, a, s', p)"
    unfolding update_targets_def bind_result_Inr_iff by blast
  obtain sl ev p' where u: "sla_update dflt (pn_params m) (sla_inputs_of m v_ego a_ego r) (ps_events_sp s) (ps_sla s) = (sl, ev, p')" by (rule prod_cases3)
  define t where "t = s\<lparr>ps_scc := c, ps_resolver := r, ps_sla := sl, ps_events_sp := ev\<rparr>"
  obtain src0 v0 a0 where f: "foldl pick_lower (PS_cruise, v_cruise, a_ego) (other_targets t) = (src0, v0, a0)" by (rule prod_cases3)
  from eq have e: "v = v0" "a = a0" "s' = t\<lparr>ps_source := src0, ps_output_v_target := v0, ps_output_a_target := a0\<rparr>"
    by (auto simp: u f t_def [symmetric] Let_def)
  have "other_targets s' = other_targets t" by (simp add: e other_targets_def)
  with e f have s': "foldl pick_lower (PS_cruise, v_cruise, a_ego) (other_targets s') = (ps_source s', v, a)"
    "v = ps_output_v_target s'" "a = ps_output_a_target s'" by simp_all
  show "v = ps_output_v_target s'" "a = ps_output_a_target s'" by fact+
  show "v \<le> v_cruise" using fold_pick_lower_le [of "(PS_cruise, v_cruise, a_ego)" "other_targets s'"] s'(1) by simp
  show "(src, Fin w, b) \<in> set (other_targets s') \<Longrightarrow> v \<le> w"
    using fold_pick_lower_each [of src w b "other_targets s'" "(PS_cruise, v_cruise, a_ego)"] s'(1) by simp
  show "ps_source s' = PS_cruise \<and> v = v_cruise \<and> a = a_ego \<or> (ps_source s', Fin v, a) \<in> set (other_targets s')"
    using fold_pick_lower_in [of "(PS_cruise, v_cruise, a_ego)" "other_targets s'"] s'(1) by auto
qed

text \<open>The limits of the acceleration.\<close>

definition odb_limits_ok :: "opendbc \<Rightarrow> bool" where
  "odb_limits_ok odb \<longleftrightarrow> odb_ACCEL_MIN odb \<le> 0 \<and> 16/10 \<le> odb_ACCEL_MAX odb"

lemma get_max_accel_bounds: "0 \<le> get_max_accel v" "get_max_accel v \<le> 16/10"
  using interp_between [of A_CRUISE_MAX 0 "16/10" v] by (auto simp: get_max_accel_def A_CRUISE_MAX_def)

lemma turn_limits_result:
  assumes "cp_steerRatio CP * cp_wheelbase CP \<noteq> 0"
  shows "\<exists>hi. turn_limits odb m CP = Inr (odb_ACCEL_MIN odb, hi) \<and> 0 \<le> hi \<and> hi \<le> 16/10"
  using assms get_max_accel_bounds [of "cs_vEgo (pn_CS m)"]
  by (auto simp: turn_limits_def limit_accel_in_turns_def Let_def min_le_iff_disj)

lemma coast_limit_result:
  assumes "odb_ACCEL_MIN odb \<le> hi"
  shows "\<exists>hi'. coast_limit odb m (odb_ACCEL_MIN odb, hi) = (odb_ACCEL_MIN odb, hi') \<and> odb_ACCEL_MIN odb \<le> hi' \<and> hi' \<le> hi"
proof -
  let ?c = "max (accel_coast odb m) (odb_ACCEL_MIN odb)"
  have "odb_ACCEL_MIN odb \<le> interp (cs_vEgo (pn_CS m)) [(MIN_ALLOW_THROTTLE_SPEED, hi), (MIN_ALLOW_THROTTLE_SPEED * 2, ?c)]"
    using interp_between [of "[(MIN_ALLOW_THROTTLE_SPEED, hi), (MIN_ALLOW_THROTTLE_SPEED * 2, ?c)]" "odb_ACCEL_MIN odb" "max hi ?c" "cs_vEgo (pn_CS m)"] assms
    by (simp add: MIN_ALLOW_THROTTLE_SPEED_def)
  with assms show ?thesis by (simp add: coast_limit_def Let_def)
qed

lemma smooth_limit_bounds: "lo \<le> prev \<Longrightarrow> lo \<le> new \<Longrightarrow> lo \<le> smooth_limit prev new" "prev \<le> hi \<Longrightarrow> new \<le> hi \<Longrightarrow> smooth_limit prev new \<le> hi"
  "\<bar>smooth_limit prev new - prev\<bar> \<le> 5/100" "smooth_limit x x = x"
  unfolding smooth_limit_def clip_def min_def max_def abs_le_iff by auto

lemma plan_speed_frame [simp]:
  "lp_mpc (plan_speed m c s) = lp_mpc s" "lp_sp (plan_speed m c s) = lp_sp s" "lp_prev_accel_clip (plan_speed m c s) = lp_prev_accel_clip s"
  "lp_CP (plan_speed m c s) = lp_CP s" "lp_dt (plan_speed m c s) = lp_dt s"
  by (simp_all add: plan_speed_def Let_def)

lemma plan_trajectories_frame [simp]:
  "lp_mpc (plan_trajectories m s) = lp_mpc s" "lp_sp (plan_trajectories m s) = lp_sp s" "lp_prev_accel_clip (plan_trajectories m s) = lp_prev_accel_clip s"
  "lp_CP (plan_trajectories m s) = lp_CP s" "lp_dt (plan_trajectories m s) = lp_dt s"
  by (simp_all add: plan_trajectories_def Let_def)

lemma length_T_IDX [simp]: "length CONTROL_N_T_IDX = 17"
  by (simp add: CONTROL_N_T_IDX_def MODEL_T_IDXS_def CONTROL_N_def)

lemma length_resample [simp]: "length (resample_plan ts xs) = 17"
  by (simp add: resample_plan_def)

lemma plan_output_result:
  assumes "length (lp_v_desired_trajectory s) = 17" "length (lp_a_desired_trajectory s) = 17"
  shows "\<exists>a s'. plan_output m s = Inr (a, s') \<and> lp_sp s' = lp_sp s \<and> lp_prev_accel_clip s' = lp_prev_accel_clip s \<and> lp_CP s' = lp_CP s
    \<and> (mpc_ok (lp_mpc s) \<longrightarrow> mpc_ok (lp_mpc s'))"
proof -
  have ne: "lp_v_desired_trajectory s \<noteq> []" "lp_a_desired_trajectory s \<noteq> []" "CONTROL_N_T_IDX \<noteq> []"
    using assms length_T_IDX by (metis length_0_conv zero_neq_numeral)+
  have "\<exists>a b. get_accel_from_plan (lp_v_desired_trajectory s) (lp_a_desired_trajectory s) CONTROL_N_T_IDX x y = Inr (a, b)" for x y
    using assms ne by (simp add: get_accel_from_plan_def np_interp_lists_def)
  then obtain a b where "get_accel_from_plan (lp_v_desired_trajectory s) (lp_a_desired_trajectory s) CONTROL_N_T_IDX
      (cp_longitudinalActuatorDelay (lp_CP s) + DT_MDL) (cp_vEgoStopping (lp_CP s)) = Inr (a, b)" by blast
  then show ?thesis by (simp add: plan_output_def Let_def mpc_ok_def)
qed

lemma plan_mpc_result:
  assumes "mpc_ok (lp_mpc s)" "pn_personality m \<in> {0, 1, 2}"
  shows "\<exists>s'. plan_mpc env m v s = Inr s' \<and> mpc_ok (lp_mpc s') \<and> lp_sp s' = lp_sp s \<and> lp_prev_accel_clip s' = lp_prev_accel_clip s \<and> lp_CP s' = lp_CP s"
proof -
  let ?b = "\<not> (plan_reset m (lp_CP s) \<or> cs_standstill (pn_CS m))"
  from set_weights_ok [OF assms(2), of "pe_solver env" ?b "lp_mpc s"] assms(1) obtain m1 where
    m1: "set_weights (pe_solver env) ?b (pn_personality m) (lp_mpc s) = Inr m1" "mpc_ok m1" by blast
  from mpc_update_ok [OF set_cur_state_ok [OF m1(2)] assms(2)] obtain m2 where
    "mpc_update (pe_solver env) (pe_odb env) (pn_leadOne m, pn_leadTwo m) v (pn_personality m)
       (set_cur_state (pe_solver env) (ff_x (lp_v_desired_filter s)) (lp_a_desired s) m1) = Inr m2" "mpc_ok m2" by blast
  with m1(1) show ?thesis by (simp add: plan_mpc_def)
qed

lemma plan_targets_result:
  assumes "planner_in_ok env m" "resolver_ok (ps_resolver (lp_sp s))"
  shows "\<exists>v s' p. plan_targets env m s = Inr (v, s', p) \<and> resolver_ok (ps_resolver (lp_sp s')) \<and> lp_mpc s' = lp_mpc s
    \<and> lp_prev_accel_clip s' = lp_prev_accel_clip s \<and> lp_CP s' = lp_CP s
    \<and> ps_output_v_target (lp_sp s') \<le> min (cs_vCruise (pn_CS m)) V_CRUISE_MAX * KPH_TO_MS
    \<and> (\<forall>src w b. (src, Fin w, b) \<in> set (other_targets (lp_sp s')) \<longrightarrow> ps_output_v_target (lp_sp s') \<le> w)
    \<and> v = (if pn_forceDecel m then 0 else ps_output_v_target (lp_sp s'))"
proof -
  let ?vc = "min (cs_vCruise (pn_CS m)) V_CRUISE_MAX * KPH_TO_MS"
  from update_targets_result [of m "pe_dflt env" "lp_sp s" "ff_x (lp_v_desired_filter s)" "lp_a_desired s" ?vc] assms
  obtain v a sp p where u: "update_targets (pe_dflt env) m (ff_x (lp_v_desired_filter s)) (lp_a_desired s) ?vc (lp_sp s) = Inr (v, a, sp, p)"
    "resolver_ok (ps_resolver sp)" by (auto simp: planner_in_ok_def)
  from update_targets_lowest [OF u(1)] u show ?thesis by (auto simp: plan_targets_def Let_def)
qed

text \<open>The invariant of the planner.\<close>

definition planner_ok :: "opendbc \<Rightarrow> 's long_planner \<Rightarrow> bool" where
  "planner_ok odb s \<longleftrightarrow> mpc_ok (lp_mpc s) \<and> resolver_ok (ps_resolver (lp_sp s)) \<and> cp_steerRatio (lp_CP s) * cp_wheelbase (lp_CP s) \<noteq> 0
     \<and> fst (lp_prev_accel_clip s) = odb_ACCEL_MIN odb \<and> odb_ACCEL_MIN odb \<le> snd (lp_prev_accel_clip s) \<and> snd (lp_prev_accel_clip s) \<le> odb_ACCEL_MAX odb"

lemma plan_clip_result:
  assumes "planner_ok odb s" "odb_ACCEL_MIN odb \<le> hi" "hi \<le> 16/10" "odb_limits_ok odb"
  shows "planner_ok odb (plan_clip (odb_ACCEL_MIN odb, hi) a s)"
    "odb_ACCEL_MIN odb \<le> lp_output_a_target (plan_clip (odb_ACCEL_MIN odb, hi) a s)"
    "lp_output_a_target (plan_clip (odb_ACCEL_MIN odb, hi) a s) \<le> snd (lp_prev_accel_clip (plan_clip (odb_ACCEL_MIN odb, hi) a s))"
    "\<bar>snd (lp_prev_accel_clip (plan_clip (odb_ACCEL_MIN odb, hi) a s)) - snd (lp_prev_accel_clip s)\<bar> \<le> 5/100"
proof -
  let ?lo = "odb_ACCEL_MIN odb" and ?h = "smooth_limit (snd (lp_prev_accel_clip s)) hi"
  have h: "?lo \<le> ?h" "?h \<le> odb_ACCEL_MAX odb"
    using assms by (auto simp: planner_ok_def odb_limits_ok_def intro!: smooth_limit_bounds)
  have c: "plan_clip (?lo, hi) a s = s\<lparr>lp_output_a_target := clip a ?lo ?h, lp_prev_accel_clip := (?lo, ?h)\<rparr>"
    using assms(1) by (simp add: plan_clip_def planner_ok_def smooth_limit_bounds Let_def)
  show "planner_ok odb (plan_clip (?lo, hi) a s)" using assms(1) h by (simp add: c planner_ok_def)
  show "?lo \<le> lp_output_a_target (plan_clip (?lo, hi) a s)" "lp_output_a_target (plan_clip (?lo, hi) a s) \<le> snd (lp_prev_accel_clip (plan_clip (?lo, hi) a s))"
    using h by (simp_all add: c clip_bounds)
  show "\<bar>snd (lp_prev_accel_clip (plan_clip (?lo, hi) a s)) - snd (lp_prev_accel_clip s)\<bar> \<le> 5/100"
    using smooth_limit_bounds(3) by (simp add: c)
qed

lemma planner_update_result:
  assumes "planner_ok (pe_odb env) s" "planner_in_ok env m" "odb_limits_ok (pe_odb env)"
  shows "\<exists>s' p. planner_update env m s = Inr (s', p) \<and> planner_ok (pe_odb env) s'
    \<and> odb_ACCEL_MIN (pe_odb env) \<le> lp_output_a_target s' \<and> lp_output_a_target s' \<le> snd (lp_prev_accel_clip s')
    \<and> \<bar>snd (lp_prev_accel_clip s') - snd (lp_prev_accel_clip s)\<bar> \<le> 5/100
    \<and> ps_output_v_target (lp_sp s') \<le> min (cs_vCruise (pn_CS m)) V_CRUISE_MAX * KPH_TO_MS
    \<and> (\<forall>src w b. (src, Fin w, b) \<in> set (other_targets (lp_sp s')) \<longrightarrow> ps_output_v_target (lp_sp s') \<le> w)"
proof -
  let ?o = "pe_odb env"
  from planner_sp_update_result [of m "mc_crash_cnt (lp_mpc s)" "lp_sp s"] assms(2) obtain sp where
    sp: "planner_sp_update m (mc_crash_cnt (lp_mpc s)) (lp_sp s) = Inr sp" "ps_resolver sp = ps_resolver (lp_sp s)" by (auto simp: planner_in_ok_def)
  from turn_limits_result [of "lp_CP s" ?o m] assms(1) obtain hi where
    hi: "turn_limits ?o m (lp_CP s) = Inr (odb_ACCEL_MIN ?o, hi)" "0 \<le> hi" "hi \<le> 16/10" by (auto simp: planner_ok_def)
  let ?s1 = "(plan_speed m (odb_ACCEL_MIN ?o, hi) (s\<lparr>lp_sp := sp\<rparr>))\<lparr>lp_allow_throttle := allow_throttle m\<rparr>"
  from coast_limit_result [of ?o hi m] hi(2) assms(3) obtain hi' where
    hi': "coast_limit ?o m (odb_ACCEL_MIN ?o, hi) = (odb_ACCEL_MIN ?o, hi')" "odb_ACCEL_MIN ?o \<le> hi'" "hi' \<le> hi" by (auto simp: odb_limits_ok_def)
  from plan_targets_result [OF assms(2), of ?s1] sp(2) assms(1) obtain v s2 p where
    s2: "plan_targets env m ?s1 = Inr (v, s2, p)" "resolver_ok (ps_resolver (lp_sp s2))" "lp_mpc s2 = lp_mpc s"
      "lp_prev_accel_clip s2 = lp_prev_accel_clip s" "lp_CP s2 = lp_CP s"
      "ps_output_v_target (lp_sp s2) \<le> min (cs_vCruise (pn_CS m)) V_CRUISE_MAX * KPH_TO_MS"
      "\<forall>src w b. (src, Fin w, b) \<in> set (other_targets (lp_sp s2)) \<longrightarrow> ps_output_v_target (lp_sp s2) \<le> w"
    by (auto simp: planner_ok_def)
  from plan_mpc_result [of s2 m env v] s2(3) assms(1,2) obtain s3 where
    s3: "plan_mpc env m v s2 = Inr s3" "mpc_ok (lp_mpc s3)" "lp_sp s3 = lp_sp s2" "lp_prev_accel_clip s3 = lp_prev_accel_clip s" "lp_CP s3 = lp_CP s"
    by (auto simp: planner_ok_def planner_in_ok_def s2)
  have len: "length (lp_v_desired_trajectory (plan_trajectories m s3)) = 17" "length (lp_a_desired_trajectory (plan_trajectories m s3)) = 17"
    by (simp_all add: plan_trajectories_def Let_def)
  from plan_output_result [OF len, of m] s3 obtain a s4 where
    s4: "plan_output m (plan_trajectories m s3) = Inr (a, s4)" "lp_sp s4 = lp_sp s2" "lp_prev_accel_clip s4 = lp_prev_accel_clip s" "lp_CP s4 = lp_CP s" "mpc_ok (lp_mpc s4)"
    by auto
  have ok: "planner_ok ?o s4" using assms(1) s2(2) by (simp add: planner_ok_def s4)
  have u: "planner_update env m s = Inr (plan_clip (odb_ACCEL_MIN ?o, hi') a s4, p)"
    by (simp add: planner_update_def sp(1) hi(1) hi'(1) s2(1) s3(1) s4(1) Let_def)
  have "hi' \<le> 16/10" using hi hi' by linarith
  note clip = plan_clip_result [OF ok hi'(2) this assms(3), of a]
  have "lp_sp (plan_clip (odb_ACCEL_MIN ?o, hi') a s4) = lp_sp s2" by (simp add: plan_clip_def Let_def s4)
  with u clip s2(6,7) show ?thesis by (simp add: s4)
qed

fun planner_run :: "'s planner_env \<Rightarrow> planner_in list \<Rightarrow> 's long_planner \<Rightarrow> 's long_planner result" where
  "planner_run env [] s = Inr s"
| "planner_run env (m # ms) s = bind_result (planner_update env m s) (\<lambda>(s', p). planner_run env ms s')"

lemma planner_run_result:
  assumes "planner_ok (pe_odb env) s" "\<forall>m\<in>set ms. planner_in_ok env m" "odb_limits_ok (pe_odb env)"
  shows "\<exists>s'. planner_run env ms s = Inr s' \<and> planner_ok (pe_odb env) s'
    \<and> (ms \<noteq> [] \<longrightarrow> odb_ACCEL_MIN (pe_odb env) \<le> lp_output_a_target s' \<and> lp_output_a_target s' \<le> snd (lp_prev_accel_clip s'))"
  using assms(1,2)
proof (induction ms arbitrary: s)
  case (Cons m ms)
  from planner_update_result [OF Cons.prems(1) _ assms(3), of m] Cons.prems(2) obtain s1 p where
    s1: "planner_update env m s = Inr (s1, p)" "planner_ok (pe_odb env) s1" "odb_ACCEL_MIN (pe_odb env) \<le> lp_output_a_target s1"
      "lp_output_a_target s1 \<le> snd (lp_prev_accel_clip s1)" by auto
  from Cons.IH [OF s1(2)] Cons.prems(2) s1 show ?case by (cases ms) auto
qed simp

lemma LongitudinalMpc_init_ok: "\<exists>m. LongitudinalMpc_init so dt solver = Inr m \<and> mpc_ok m"
proof -
  from mpc_reset_ok [of so "\<lparr>mc_dt = dt, mc_solver = solver, mc_source = Src_cruise, mc_x_sol = [], mc_u_sol = [],
       mc_v_solution = [], mc_a_solution = [], mc_j_solution = [], mc_a_prev = [], mc_yref = [], mc_params = [],
       mc_status = False, mc_crash_cnt = 0, mc_solution_status = 0, mc_x0 = (0, 0, 0)\<rparr>"]
  obtain m where "mpc_reset so \<lparr>mc_dt = dt, mc_solver = solver, mc_source = Src_cruise, mc_x_sol = [], mc_u_sol = [],
       mc_v_solution = [], mc_a_solution = [], mc_j_solution = [], mc_a_prev = [], mc_yref = [], mc_params = [],
       mc_status = False, mc_crash_cnt = 0, mc_solution_status = 0, mc_x0 = (0, 0, 0)\<rparr> = Inr m" "mpc_ok m" by blast
  then show ?thesis by (simp add: LongitudinalMpc_init_def mpc_ok_def)
qed

lemma planner_init_result:
  assumes "cp_steerRatio CP * cp_wheelbase CP \<noteq> 0" "odb_limits_ok (pe_odb env)" "resolver_ok (ps_resolver sp)"
  shows "\<exists>s. LongitudinalPlanner_init env CP sp solver v a dt = Inr s \<and> planner_ok (pe_odb env) s"
proof -
  from LongitudinalMpc_init_ok [of "pe_solver env" dt solver] obtain m where
    m: "LongitudinalMpc_init (pe_solver env) dt solver = Inr m" "mpc_ok m" by blast
  then show ?thesis using assms
    by (simp add: LongitudinalPlanner_init_def planner_ok_def odb_limits_ok_def)
qed

lemma PlannerSP_init_resolver_ok: "resolver_ok (ps_resolver (fst (PlannerSP_init env dflt CP CP_SP g i p)))"
proof -
  have "resolver_ok (fst (resolver_init dflt q))" for q
    using sanitize_bounds [of Policy_car_state_only Policy_combined dflt "''SpeedLimitPolicy''" q]
      sanitize_bounds [of OffsetType_off OffsetType_percentage dflt "''SpeedLimitOffsetType''"
        "snd (get_sanitize_int_param dflt ''SpeedLimitPolicy'' Policy_car_state_only Policy_combined q)"]
    by (simp add: resolver_ok_def resolver_init_def Let_def split_def policy_defs offset_type_defs)
  then show ?thesis by (simp add: PlannerSP_init_def Let_def split_def)
qed

section \<open>Properties\<close>

text \<open>
  C7. The planner never raises on messages in order, from its constructor on, whatever the
  solver returns; the target acceleration it publishes is never below the minimum of the car
  interface nor above its maximum.
\<close>

theorem planner_in_limits:
  assumes "cp_steerRatio CP * cp_wheelbase CP \<noteq> 0" "odb_limits_ok (pe_odb env)"
    and "\<forall>m\<in>set ms. planner_in_ok env m" "ms \<noteq> []"
  shows "\<exists>s s'. LongitudinalPlanner_init env CP (fst (PlannerSP_init ae (pe_dflt env) CP CP_SP g i p)) solver v a dt = Inr s
    \<and> planner_run env ms s = Inr s'
    \<and> odb_ACCEL_MIN (pe_odb env) \<le> lp_output_a_target s' \<and> lp_output_a_target s' \<le> odb_ACCEL_MAX (pe_odb env)"
proof -
  from planner_init_result [OF assms(1,2) PlannerSP_init_resolver_ok] obtain s where
    s: "LongitudinalPlanner_init env CP (fst (PlannerSP_init ae (pe_dflt env) CP CP_SP g i p)) solver v a dt = Inr s" "planner_ok (pe_odb env) s" by blast
  from planner_run_result [OF s(2) assms(3,2)] assms(4) obtain s' where
    s': "planner_run env ms s = Inr s'" "planner_ok (pe_odb env) s'" "odb_ACCEL_MIN (pe_odb env) \<le> lp_output_a_target s'"
      "lp_output_a_target s' \<le> snd (lp_prev_accel_clip s')" by blast
  then have "lp_output_a_target s' \<le> odb_ACCEL_MAX (pe_odb env)" by (auto simp: planner_ok_def)
  with s s' show ?thesis by blast
qed

text \<open>
  C30. No source speeds the car up: in every cycle the target speed given to the MPC is at most
  the driver's set speed and at most the speed of the curve controllers and of the speed limit
  assist; the upper limit of the acceleration it keeps moves by at most 0.05 m/s^2 from the one it
  had, and the acceleration it asks for is at most that limit.
\<close>

theorem planner_takes_lowest_target:
  assumes "planner_ok (pe_odb env) s" "planner_in_ok env m" "odb_limits_ok (pe_odb env)"
  shows "\<exists>s' p. planner_update env m s = Inr (s', p)
    \<and> ps_output_v_target (lp_sp s') \<le> min (cs_vCruise (pn_CS m)) V_CRUISE_MAX * KPH_TO_MS
    \<and> ps_output_v_target (lp_sp s') \<le> mp_output_v_target (sc_map (ps_scc (lp_sp s')))
    \<and> ps_output_v_target (lp_sp s') \<le> sa_output_v_target (ps_sla (lp_sp s'))
    \<and> (\<forall>w. vi_output_v_target (sc_vision (ps_scc (lp_sp s'))) = Fin w \<longrightarrow> ps_output_v_target (lp_sp s') \<le> w)
    \<and> \<bar>snd (lp_prev_accel_clip s') - snd (lp_prev_accel_clip s)\<bar> \<le> 5/100
    \<and> lp_output_a_target s' \<le> snd (lp_prev_accel_clip s') \<and> lp_output_a_target s' \<le> snd (lp_prev_accel_clip s) + 5/100"
proof -
  from planner_update_result [OF assms] obtain s' p where u: "planner_update env m s = Inr (s', p)"
    "lp_output_a_target s' \<le> snd (lp_prev_accel_clip s')" "\<bar>snd (lp_prev_accel_clip s') - snd (lp_prev_accel_clip s)\<bar> \<le> 5/100"
    "ps_output_v_target (lp_sp s') \<le> min (cs_vCruise (pn_CS m)) V_CRUISE_MAX * KPH_TO_MS"
    "\<forall>src w b. (src, Fin w, b) \<in> set (other_targets (lp_sp s')) \<longrightarrow> ps_output_v_target (lp_sp s') \<le> w" by blast
  moreover from u(2,3) have "lp_output_a_target s' \<le> snd (lp_prev_accel_clip s) + 5/100" by linarith
  moreover have "ps_output_v_target (lp_sp s') \<le> w" if "(src, Fin w, b) \<in> set (other_targets (lp_sp s'))" for src w b
    using u(5) that by blast
  from this [of PS_sccMap] this [of PS_speedLimitAssist] this [of PS_sccVision]
  have "ps_output_v_target (lp_sp s') \<le> mp_output_v_target (sc_map (ps_scc (lp_sp s')))"
    "ps_output_v_target (lp_sp s') \<le> sa_output_v_target (ps_sla (lp_sp s'))"
    "\<forall>w. vi_output_v_target (sc_vision (ps_scc (lp_sp s'))) = Fin w \<longrightarrow> ps_output_v_target (lp_sp s') \<le> w"
    by (simp_all add: other_targets_def)
  ultimately show ?thesis by blast
qed

text \<open>A solver that always answers with a car at rest, and messages of a drive at 20 m/s.\<close>

definition test_planner_env :: "unit planner_env" where
  "test_planner_env = \<lparr>pe_odb = test_opendbc, pe_solver = \<lparr>so_reset = id, so_cost_set = (\<lambda>_ _ _. id), so_set = (\<lambda>_ _ _. id),
     so_constraints_set = (\<lambda>_ _ _. id), so_solve = (\<lambda>s. (0, s)), so_get = (\<lambda>_ _ _. [0, 0, 0])\<rparr>, pe_dflt = (\<lambda>_. 0)\<rparr>"

definition test_planner_in :: planner_in where
  "test_planner_in = \<lparr>pn_params = Map.empty, pn_now = 0, pn_CS = default_cs\<lparr>cs_vEgo := 20, cs_vCruise := 100\<rparr>, pn_CC_enabled = True,
     pn_CC_override = False, pn_orientationNED = [0, 0, 0],
     pn_scc = \<lparr>sc_orientationRate_z = [0], sc_velocity_x = [20], sc_curvature = 0, sc_last_position = None, sc_target_velocities = None\<rparr>,
     pn_resolver = test_resolver_inputs, pn_leadOne = no_lead, pn_leadTwo = no_lead, pn_position_x = [0], pn_velocity_x = [], pn_acceleration_x = [],
     pn_orientation_x = [], pn_gasPressProbs = [], pn_desiredAcceleration = 0, pn_shouldStop = False, pn_experimentalMode = False,
     pn_personality = 1, pn_sd_enabled = True, pn_long_control_off = False, pn_forceDecel = False, pn_angleOffsetDeg = 0\<rparr>"

lemma test_planner_ok:
  "planner_in_ok test_planner_env test_planner_in" "odb_limits_ok (pe_odb test_planner_env)" "cp_steerRatio default_cp * cp_wheelbase default_cp \<noteq> 0"
  by (simp_all add: planner_in_ok_def test_planner_in_def test_planner_env_def resolver_params_ok_def get_int_def odb_limits_ok_def
      test_opendbc_def default_cp_def)

theorem planner_in_limits_witness:
  "\<exists>s s'. LongitudinalPlanner_init test_planner_env default_cp
      (fst (PlannerSP_init test_env (pe_dflt test_planner_env) default_cp default_cp_sp None (pn_scc test_planner_in) Map.empty)) () 0 0 DT_MDL = Inr s
    \<and> planner_run test_planner_env [test_planner_in, test_planner_in] s = Inr s'
    \<and> odb_ACCEL_MIN (pe_odb test_planner_env) \<le> lp_output_a_target s' \<and> lp_output_a_target s' \<le> odb_ACCEL_MAX (pe_odb test_planner_env)"
  using test_planner_ok by (intro planner_in_limits) simp_all

theorem planner_takes_lowest_target_witness:
  "\<exists>s s' p. LongitudinalPlanner_init test_planner_env default_cp
      (fst (PlannerSP_init test_env (pe_dflt test_planner_env) default_cp default_cp_sp None (pn_scc test_planner_in) Map.empty)) () 0 0 DT_MDL = Inr s
    \<and> planner_update test_planner_env test_planner_in s = Inr (s', p)
    \<and> ps_output_v_target (lp_sp s') \<le> 100 * KPH_TO_MS"
proof -
  from planner_init_result [OF test_planner_ok(3,2) PlannerSP_init_resolver_ok] obtain s where
    s: "LongitudinalPlanner_init test_planner_env default_cp
      (fst (PlannerSP_init test_env (pe_dflt test_planner_env) default_cp default_cp_sp None (pn_scc test_planner_in) Map.empty)) () 0 0 DT_MDL = Inr s"
      "planner_ok (pe_odb test_planner_env) s" by blast
  from planner_takes_lowest_target [OF s(2) test_planner_ok(1,2)] obtain s' p where
    s': "planner_update test_planner_env test_planner_in s = Inr (s', p)"
      "ps_output_v_target (lp_sp s') \<le> min (cs_vCruise (pn_CS test_planner_in)) V_CRUISE_MAX * KPH_TO_MS" by blast
  have "min (cs_vCruise (pn_CS test_planner_in)) V_CRUISE_MAX = 100" by (simp add: test_planner_in_def V_CRUISE_MAX_def)
  with s s' show ?thesis by auto
qed

end
