(* ===== verification/Long_Control.thy ===== *)
theory Long_Control
  imports Filters Car_Types
begin

text \<open>
  The longitudinal controller, \<open>selfdrive/controls/lib/longcontrol.py\<close>: the state machine
  \<open>long_control_state_trans\<close> and the class \<open>LongControl\<close> over the PID controller of \<open>Filters\<close>.
  The limits of the acceleration come with every update.
\<close>

datatype long_ctrl_state = LC_state_off | LC_state_pid | LC_state_stopping | LC_state_starting

section \<open>The state machine\<close>

definition starting_condition :: "car_params_sp \<Rightarrow> bool \<Rightarrow> bool \<Rightarrow> bool \<Rightarrow> bool" where
  "starting_condition CP_SP should_stop brake_pressed cruise_standstill0 =
     (let cruise_standstill = (cruise_standstill0 \<and> \<not> cpsp_enableGasInterceptor CP_SP)
      in \<not> should_stop \<and> \<not> cruise_standstill \<and> \<not> brake_pressed)"

definition long_control_state_trans :: "car_params \<Rightarrow> car_params_sp \<Rightarrow> bool \<Rightarrow> long_ctrl_state \<Rightarrow> real \<Rightarrow> bool \<Rightarrow> bool \<Rightarrow> bool \<Rightarrow> long_ctrl_state" where
  "long_control_state_trans CP CP_SP active s v_ego should_stop brake_pressed cruise_standstill =
     (let stopping = should_stop;
          starting = starting_condition CP_SP should_stop brake_pressed cruise_standstill;
          started = v_ego > cp_vEgoStarting CP
      in if \<not> active then LC_state_off
         else (case s of
             LC_state_off \<Rightarrow>
               if \<not> starting then LC_state_stopping
               else if starting \<and> cp_startingState CP then LC_state_starting else LC_state_pid
           | LC_state_stopping \<Rightarrow>
               if starting \<and> cp_startingState CP then LC_state_starting
               else if starting then LC_state_pid else LC_state_stopping
           | _ \<Rightarrow>
               if stopping then LC_state_stopping else if started then LC_state_pid else s))"

section \<open>The controller\<close>

record long_control =
  lo_CP :: car_params
  lo_CP_SP :: car_params_sp
  lo_state :: long_ctrl_state
  lo_pid :: pid
  lo_last_output_accel :: real

definition long_init :: "car_params \<Rightarrow> car_params_sp \<Rightarrow> long_control" where
  "long_init CP CP_SP = \<lparr>lo_CP = CP, lo_CP_SP = CP_SP, lo_state = LC_state_off,
     lo_pid = pid_init (cp_long_kp CP) (cp_long_ki CP) (const_gain 0) (10^308) (- (10^308)) (1 / DT_CTRL),
     lo_last_output_accel = 0\<rparr>"

definition long_reset :: "long_control \<Rightarrow> long_control" where
  "long_reset s = s\<lparr>lo_pid := pid_reset (lo_pid s)\<rparr>"

text \<open>What one update is given.\<close>

record long_in =
  li_active :: bool
  li_CS :: car_state
  li_a_target :: real
  li_should_stop :: bool
  li_accel_min :: real
  li_accel_max :: real

definition long_next_state :: "long_in \<Rightarrow> long_control \<Rightarrow> long_ctrl_state" where
  "long_next_state a s = (let CS = li_CS a in
     long_control_state_trans (lo_CP s) (lo_CP_SP s) (li_active a) (lo_state s) (cs_vEgo CS)
       (li_should_stop a) (cs_brakePressed CS) (cr_standstill (cs_cruiseState CS)))"

definition stopping_accel :: "car_params \<Rightarrow> real \<Rightarrow> real" where
  "stopping_accel CP out = (if out > cp_stopAccel CP then min out 0 - cp_stoppingDecelRate CP * DT_CTRL else out)"

text \<open>\<open>error_rate\<close> and \<open>freeze_integrator\<close> keep their default values.\<close>

definition long_pid_in :: "long_in \<Rightarrow> pid_in" where
  "long_pid_in a = \<lparr>pi_error = li_a_target a - cs_aEgo (li_CS a), pi_error_rate = 0, pi_speed = cs_vEgo (li_CS a),
     pi_feedforward = li_a_target a, pi_freeze = False\<rparr>"

text \<open>The branch of the new state: the acceleration it asks for, and its effect on the PID controller.\<close>

definition long_output :: "long_in \<Rightarrow> long_control \<Rightarrow> real \<times> pid" where
  "long_output a s = (case lo_state s of
       LC_state_off \<Rightarrow> (0, pid_reset (lo_pid s))
     | LC_state_stopping \<Rightarrow> (stopping_accel (lo_CP s) (lo_last_output_accel s), pid_reset (lo_pid s))
     | LC_state_starting \<Rightarrow> (cp_startAccel (lo_CP s), pid_reset (lo_pid s))
     | LC_state_pid \<Rightarrow> (let c = pid_update (long_pid_in a) (lo_pid s) in (pid_control c, c)))"

definition long_update :: "long_in \<Rightarrow> long_control \<Rightarrow> long_control" where
  "long_update a s0 =
     (let s1 = s0\<lparr>lo_pid := (lo_pid s0)\<lparr>pid_neg_limit := li_accel_min a, pid_pos_limit := li_accel_max a\<rparr>\<rparr>;
          s2 = s1\<lparr>lo_state := long_next_state a s1\<rparr>;
          (out, c) = long_output a s2
      in s2\<lparr>lo_pid := c, lo_last_output_accel := clip out (li_accel_min a) (li_accel_max a)\<rparr>)"

definition long_run :: "long_in list \<Rightarrow> long_control \<Rightarrow> long_control" where
  "long_run as s = foldl (\<lambda>s a. long_update a s) s as"

section \<open>Facts\<close>

lemma long_update_simps [simp]:
  "lo_CP (long_update a s) = lo_CP s" "lo_CP_SP (long_update a s) = lo_CP_SP s"
  by (simp_all add: long_update_def Let_def split: prod.split)

lemma long_run_Cons [simp]: "long_run (a # as) s = long_run as (long_update a s)"
  by (simp add: long_run_def)

lemma long_run_Nil [simp]: "long_run [] s = s"
  by (simp add: long_run_def)

lemma long_state_update: "lo_state (long_update a s) = long_next_state a s"
  by (simp add: long_update_def long_next_state_def Let_def split: prod.split)

lemma should_stop_state:
  "li_active a \<Longrightarrow> li_should_stop a \<Longrightarrow> long_next_state a s = LC_state_stopping"
  by (cases "lo_state s") (simp_all add: long_next_state_def long_control_state_trans_def starting_condition_def Let_def)

lemma accel_in_limits:
  "li_accel_min a \<le> li_accel_max a \<Longrightarrow> li_accel_min a \<le> lo_last_output_accel (long_update a s)"
  "lo_last_output_accel (long_update a s) \<le> li_accel_max a"
  by (auto simp: long_update_def Let_def clip_bounds split: prod.split)

lemma stopping_output:
  assumes "long_next_state a s = LC_state_stopping"
  shows "lo_last_output_accel (long_update a s) = clip (stopping_accel (lo_CP s) (lo_last_output_accel s)) (li_accel_min a) (li_accel_max a)"
  using assms by (simp add: long_update_def long_output_def long_next_state_def Let_def)

lemma not_active_output:
  assumes "\<not> li_active a"
  shows "lo_state (long_update a s) = LC_state_off" "pid_i (lo_pid (long_update a s)) = 0"
    "lo_last_output_accel (long_update a s) = clip 0 (li_accel_min a) (li_accel_max a)"
  using assms by (simp_all add: long_update_def long_output_def long_next_state_def long_control_state_trans_def pid_reset_def Let_def)

text \<open>While stopping the acceleration falls by \<open>stoppingDecelRate * DT_CTRL\<close> a cycle, down to \<open>stopAccel\<close>.\<close>

definition braked :: "long_control \<Rightarrow> real \<Rightarrow> bool" where
  "braked s d \<longleftrightarrow> lo_last_output_accel s \<le> cp_stopAccel (lo_CP s) \<or> min (lo_last_output_accel s) 0 \<le> - d"

abbreviation decel_step :: "long_control \<Rightarrow> real" where
  "decel_step s \<equiv> cp_stoppingDecelRate (lo_CP s) * DT_CTRL"

definition asks_stop :: "real \<Rightarrow> long_in \<Rightarrow> bool" where
  "asks_stop stop a \<longleftrightarrow> li_active a \<and> li_should_stop a \<and> li_accel_min a \<le> stop"

lemma clip_le: "x \<le> u \<Longrightarrow> lo \<le> u \<Longrightarrow> clip x lo hi \<le> (u :: real)"
  by (simp add: clip_def)

lemma stopping_step:
  assumes "asks_stop (cp_stopAccel (lo_CP s)) a" "braked s d" "0 \<le> d + decel_step s"
  shows "lo_last_output_accel (long_update a s) \<le> cp_stopAccel (lo_CP s) \<or> lo_last_output_accel (long_update a s) \<le> - (d + decel_step s)"
proof -
  let ?o = "lo_last_output_accel s" and ?stop = "cp_stopAccel (lo_CP s)"
  have *: "lo_last_output_accel (long_update a s) = clip (stopping_accel (lo_CP s) ?o) (li_accel_min a) (li_accel_max a)"
    using assms(1) by (intro stopping_output should_stop_state) (simp_all add: asks_stop_def)
  have "stopping_accel (lo_CP s) ?o \<le> max ?stop (- (d + decel_step s))"
    using assms(2) by (auto simp: stopping_accel_def braked_def)
  then have "lo_last_output_accel (long_update a s) \<le> max ?stop (- (d + decel_step s))"
    unfolding * using assms(1) by (intro clip_le) (auto simp: asks_stop_def)
  then show ?thesis by linarith
qed

lemma stopping_run:
  assumes "\<forall>a\<in>set as. asks_stop (cp_stopAccel (lo_CP s)) a" "braked s d" "0 \<le> d" "0 \<le> decel_step s"
  shows "braked (long_run as s) (d + length as * decel_step s)"
  using assms
proof (induction "as" arbitrary: s d)
  case (Cons a as)
  from stopping_step [of s a d] Cons.prems have "braked (long_update a s) (d + decel_step s)"
    by (auto simp: braked_def)
  with Cons.IH [of "long_update a s" "d + decel_step s"] Cons.prems show ?case by (simp add: algebra_simps)
qed simp


definition test_stop :: long_in where
  "test_stop = \<lparr>li_active = True, li_CS = default_cs\<lparr>cs_vEgo := 10\<rparr>, li_a_target = 1, li_should_stop = True,
     li_accel_min = -3, li_accel_max = 2\<rparr>"


end
