(* ===== verification/Lat_Control.thy ===== *)
theory Lat_Control
  imports Filters Drive_Helpers Locationd_Helpers
begin

text \<open>
  The lateral controllers for cars that are steered by an angle
  (\<open>selfdrive/controls/lib/latcontrol_angle.py\<close>) and by a torque from the angle error
  (\<open>latcontrol_pid.py\<close>). The vehicle model and the functions of the car interface are opendbc
  code: they are the fields of a record every definition is given.
\<close>

section \<open>The interface of the car\<close>

text \<open>
  The vehicle model takes the two parameters \<open>update_params\<close> has set (the tire stiffness factor
  and the steer ratio), then angle or curvature, speed and roll.
\<close>

type_synonym vm_params = "real \<times> real"

record car_interface =
  ci_calc_curvature :: "vm_params \<Rightarrow> real \<Rightarrow> real \<Rightarrow> real \<Rightarrow> real"
  ci_get_steer_from_curvature :: "vm_params \<Rightarrow> real \<Rightarrow> real \<Rightarrow> real \<Rightarrow> real"
  ci_steer_feedforward :: "real \<Rightarrow> real \<Rightarrow> real"
  ci_torque_from_lateral_accel :: "real \<Rightarrow> torque_tuning \<Rightarrow> real"
  ci_lateral_accel_from_torque :: "real \<Rightarrow> torque_tuning \<Rightarrow> real"
  ci_get_friction :: "real \<Rightarrow> real \<Rightarrow> torque_tuning \<Rightarrow> real"
  ci_torque_in_torque_space :: "real \<times> real \<times> real \<times> real \<Rightarrow> torque_tuning \<Rightarrow> bool \<Rightarrow> real"
  ci_friction_in_torque_space :: "real \<Rightarrow> real \<Rightarrow> torque_tuning \<Rightarrow> real"
  ci_pid_accel_limits :: "real \<Rightarrow> real \<Rightarrow> real \<times> real"

text \<open>The live parameters of the car, and what an update of a lateral controller is given.\<close>

record live_params =
  pv_stiffnessFactor :: real
  pv_steerRatio :: real
  pv_angleOffsetDeg :: real
  pv_roll :: real

record lat_in =
  la_active :: bool
  la_CS :: car_state
  la_vm :: vm_params
  la_params :: live_params
  la_steer_limited :: bool
  la_desired_curvature :: real
  la_pose :: "pose option"
  la_curvature_limited :: bool
  la_lat_delay :: real

definition radians :: "real \<Rightarrow> real" where "radians x = x * (pi / 180)"
definition degrees :: "real \<Rightarrow> real" where "degrees x = x * (180 / pi)"

text \<open>The steering angle for the desired curvature, without the offset of the sensor.\<close>

definition steer_angle_no_offset :: "car_interface \<Rightarrow> lat_in \<Rightarrow> real" where
  "steer_angle_no_offset ci a =
     degrees (ci_get_steer_from_curvature ci (la_vm a) (- la_desired_curvature a) (cs_vEgo (la_CS a)) (pv_roll (la_params a)))"

section \<open>Angle control\<close>

definition STEER_ANGLE_SATURATION_THRESHOLD :: real where "STEER_ANGLE_SATURATION_THRESHOLD = 25/10"

record lat_angle =
  an_base :: lat_control
  an_use_steer_limited_by_safety :: bool

record angle_log =
  al_active :: bool
  al_saturated :: bool
  al_steeringAngleDeg :: real
  al_steeringAngleDesiredDeg :: real

definition lat_angle_init :: "car_params \<Rightarrow> real \<Rightarrow> lat_angle" where
  "lat_angle_init CP dt = \<lparr>an_base = (lat_control_init CP dt)\<lparr>lt_sat_check_min_speed := 5\<rparr>,
     an_use_steer_limited_by_safety = (cp_brand CP = ''tesla'')\<rparr>"

definition angle_steers_desired :: "car_interface \<Rightarrow> lat_in \<Rightarrow> real" where
  "angle_steers_desired ci a = (if \<not> la_active a then cs_steeringAngleDeg (la_CS a)
     else steer_angle_no_offset ci a + pv_angleOffsetDeg (la_params a))"

definition angle_control_saturated :: "lat_in \<Rightarrow> real \<Rightarrow> lat_angle \<Rightarrow> bool" where
  "angle_control_saturated a angle_steers_des s =
     (if an_use_steer_limited_by_safety s then la_steer_limited a
      else \<bar>angle_steers_des - cs_steeringAngleDeg (la_CS a)\<bar> > STEER_ANGLE_SATURATION_THRESHOLD)"

definition lat_angle_update :: "car_interface \<Rightarrow> lat_in \<Rightarrow> lat_angle \<Rightarrow> (real \<times> real \<times> angle_log) \<times> lat_angle" where
  "lat_angle_update ci a s =
     (let des = angle_steers_desired ci a;
          (sat, base) = check_saturation (angle_control_saturated a des s) (la_CS a) False (la_curvature_limited a) (an_base s)
      in ((0, des, \<lparr>al_active = la_active a, al_saturated = sat, al_steeringAngleDeg = cs_steeringAngleDeg (la_CS a),
             al_steeringAngleDesiredDeg = des\<rparr>), s\<lparr>an_base := base\<rparr>))"

section \<open>PID control\<close>

record lat_pid =
  lq_base :: lat_control
  lq_pid :: pid
  lq_ff_factor :: real

record pid_log =
  pg_active :: bool
  pg_steeringAngleDeg :: real
  pg_steeringRateDeg :: real
  pg_steeringAngleDesiredDeg :: real
  pg_angleError :: real
  pg_p :: real
  pg_i :: real
  pg_f :: real
  pg_output :: real
  pg_saturated :: bool

text \<open>\<open>kp\<close>, \<open>ki\<close> and \<open>kf\<close> are those of \<open>CP.lateralTuning.pid\<close>; the rate is the default one.\<close>

definition lat_pid_init :: "car_params \<Rightarrow> (real \<times> real) list \<Rightarrow> (real \<times> real) list \<Rightarrow> real \<Rightarrow> real \<Rightarrow> lat_pid" where
  "lat_pid_init CP kp ki kf dt =
     (let base = lat_control_init CP dt
      in \<lparr>lq_base = base, lq_pid = pid_init kp ki (const_gain 0) (lt_steer_max base) (- lt_steer_max base) 100, lq_ff_factor = kf\<rparr>)"

definition freeze_integrator :: "lat_in \<Rightarrow> bool" where
  "freeze_integrator a \<longleftrightarrow> la_steer_limited a \<or> cs_steeringPressed (la_CS a) \<or> cs_vEgo (la_CS a) < 5"

definition torque_saturated :: "lat_control \<Rightarrow> real \<Rightarrow> bool" where
  "torque_saturated base output_torque \<longleftrightarrow> lt_steer_max base - \<bar>output_torque\<bar> < 1/1000"

definition lat_pid_in :: "car_interface \<Rightarrow> lat_in \<Rightarrow> real \<Rightarrow> pid_log \<Rightarrow> lat_pid \<Rightarrow> pid_in" where
  "lat_pid_in ci a no_offset lg s = \<lparr>pi_error = pg_angleError lg, pi_error_rate = 0, pi_speed = cs_vEgo (la_CS a),
     pi_feedforward = lq_ff_factor s * ci_steer_feedforward ci no_offset (cs_vEgo (la_CS a)), pi_freeze = freeze_integrator a\<rparr>"

definition lat_pid_active :: "car_interface \<Rightarrow> lat_in \<Rightarrow> real \<Rightarrow> pid_log \<Rightarrow> lat_pid \<Rightarrow> (real \<times> pid_log) \<times> lat_pid" where
  "lat_pid_active ci a no_offset lg s =
     (let c = pid_update (lat_pid_in ci a no_offset lg s) (lq_pid s);
          out = pid_control c;
          (sat, base) = check_saturation (torque_saturated (lq_base s) out) (la_CS a) (la_steer_limited a) (la_curvature_limited a) (lq_base s)
      in ((out, lg\<lparr>pg_active := True, pg_p := pid_p c, pg_i := pid_i c, pg_f := pid_f c, pg_output := out, pg_saturated := sat\<rparr>),
          s\<lparr>lq_pid := c, lq_base := base\<rparr>))"

definition lat_pid_update :: "car_interface \<Rightarrow> lat_in \<Rightarrow> lat_pid \<Rightarrow> (real \<times> real \<times> pid_log) \<times> lat_pid" where
  "lat_pid_update ci a s =
     (let no_offset = steer_angle_no_offset ci a;
          des = no_offset + pv_angleOffsetDeg (la_params a);
          lg = \<lparr>pg_active = False, pg_steeringAngleDeg = cs_steeringAngleDeg (la_CS a), pg_steeringRateDeg = cs_steeringRateDeg (la_CS a),
                pg_steeringAngleDesiredDeg = des, pg_angleError = des - cs_steeringAngleDeg (la_CS a),
                pg_p = 0, pg_i = 0, pg_f = 0, pg_output = 0, pg_saturated = False\<rparr>
      in if \<not> la_active a then ((0, des, lg), s)
         else let ((out, lg'), s') = lat_pid_active ci a no_offset lg s in ((out, des, lg'), s'))"

section \<open>Facts\<close>

lemma check_saturation_frame:
  "check_saturation b CS l c s = (sat, s') \<Longrightarrow> lt_dt s' = lt_dt s \<and> lt_sat_limit s' = lt_sat_limit s
     \<and> lt_sat_check_min_speed s' = lt_sat_check_min_speed s \<and> lt_steer_max s' = lt_steer_max s"
  by (auto simp: check_saturation_def Let_def)

lemma check_saturation_time:
  "check_saturation b CS l c s = (sat, s') \<Longrightarrow> 0 \<le> lt_sat_limit s \<Longrightarrow> 0 \<le> lt_sat_time s' \<and> lt_sat_time s' \<le> lt_sat_limit s"
  by (auto simp: check_saturation_def Let_def clip_bounds)

text \<open>The angle of an inactive controller is the measured one, and it never asks for a torque.\<close>

lemma lat_angle_output:
  assumes "lat_angle_update ci a s = ((t, des, lg), s')"
  shows "t = 0" "\<not> la_active a \<Longrightarrow> des = cs_steeringAngleDeg (la_CS a)"
  using assms by (auto simp: lat_angle_update_def angle_steers_desired_def Let_def split: prod.splits)

lemma lat_pid_inactive: "\<not> la_active a \<Longrightarrow> fst (fst (lat_pid_update ci a s)) = 0 \<and> snd (lat_pid_update ci a s) = s"
  by (simp add: lat_pid_update_def Let_def)

text \<open>A PID controller within its limits stays so, and its torque is within them.\<close>

definition lat_pid_ok :: "lat_pid \<Rightarrow> bool" where
  "lat_pid_ok s \<longleftrightarrow> pid_bounded (lq_pid s) \<and> pid_pos_limit (lq_pid s) = lt_steer_max (lq_base s) \<and> pid_neg_limit (lq_pid s) = - lt_steer_max (lq_base s)
     \<and> lt_steer_max (lq_base s) = 1"

lemma lat_pid_init_ok: "lat_pid_ok (lat_pid_init CP kp ki kf dt)"
  by (simp add: lat_pid_ok_def lat_pid_init_def pid_init_def pid_reset_def pid_bounded_def lat_control_init_def Let_def)

lemma lat_pid_active_ok:
  assumes "lat_pid_ok s" "lat_pid_active ci a n lg s = ((t, lg'), s')"
  shows "lat_pid_ok s' \<and> \<bar>t\<bar> \<le> 1"
proof -
  let ?c = "pid_update (lat_pid_in ci a n lg s) (lq_pid s)"
  obtain sat base where base: "check_saturation (torque_saturated (lq_base s) (pid_control ?c)) (la_CS a) (la_steer_limited a) (la_curvature_limited a) (lq_base s)
    = (sat, base)" by (rule prod.exhaust)
  with assms(2) have eq: "t = pid_control ?c" "s' = s\<lparr>lq_pid := ?c, lq_base := base\<rparr>"
    by (simp_all add: lat_pid_active_def Let_def)
  have "pid_bounded ?c" using assms(1) by (intro pid_update_bounded) (simp_all add: lat_pid_ok_def pid_bounded_def)
  then show ?thesis using assms(1) check_saturation_frame [OF base] by (auto simp: eq lat_pid_ok_def pid_bounded_def)
qed

lemma lat_pid_update_ok:
  assumes "lat_pid_ok s" "lat_pid_update ci a s = ((t, des, lg), s')"
  shows "lat_pid_ok s'" "\<bar>t\<bar> \<le> 1"
proof -
  have "lat_pid_ok s' \<and> \<bar>t\<bar> \<le> 1"
    using assms lat_pid_active_ok [OF assms(1)] by (auto simp: lat_pid_update_def Let_def split: if_splits prod.splits)
  then show "lat_pid_ok s'" "\<bar>t\<bar> \<le> 1" by simp_all
qed

end
