(* ===== verification/Nn_Model.thy ===== *)
theory Nn_Model
  imports Prelude
begin

text \<open>
  The network of the neural lateral controller,
  \<open>sunnypilot/selfdrive/controls/lib/nnlc/model.py\<close>. The JSON file of a model is given decoded:
  a weight matrix is the list of the weights of each output, and the Greek letter that names the
  logistic function, which is no character of the model's strings, is given as \<open>sigmoid\<close>.
\<close>

section \<open>Layers\<close>

record nn_layer =
  ny_W :: "real list list"
  ny_b :: "real list"
  ny_activation :: string

record nn_params =
  np_input_size :: nat
  np_output_size :: nat
  np_input_mean :: "real list"
  np_input_std :: "real list"
  np_layers :: "nn_layer list"

definition safe_exp :: "real \<Rightarrow> real" where
  "safe_exp x = exp (min x 11)"

definition nn_sigmoid :: "real \<Rightarrow> real" where
  "nn_sigmoid x = 1 / (1 + safe_exp (- x))"

definition nn_identity :: "real \<Rightarrow> real" where
  "nn_identity x = x"

definition nn_activation :: "string \<Rightarrow> (real \<Rightarrow> real) option" where
  "nn_activation s = (if s = ''sigmoid'' then Some nn_sigmoid else if s = ''identity'' then Some nn_identity else None)"

definition nn_dot :: "real list \<Rightarrow> real list \<Rightarrow> real" where
  "nn_dot xs ws = sum_list (map2 (*) xs ws)"

text \<open>\<open>activation(x.dot(W) + b)\<close>: the shapes have to agree.\<close>

definition nn_layer_output :: "nn_layer \<Rightarrow> real list \<Rightarrow> real list result" where
  "nn_layer_output l xs =
     (if list_all (\<lambda>ws. length ws = length xs) (ny_W l) \<and> length (ny_b l) = length (ny_W l)
      then (case nn_activation (ny_activation l) of
          Some f \<Rightarrow> Inr (map2 (\<lambda>ws b. f (nn_dot xs ws + b)) (ny_W l) (ny_b l))
        | None \<Rightarrow> Inl ValueError)
      else Inl ValueError)"

fun nn_forward :: "nn_layer list \<Rightarrow> real list \<Rightarrow> real list result" where
  "nn_forward [] xs = Inr xs"
| "nn_forward (l # ls) xs = bind_result (nn_layer_output l xs) (nn_forward ls)"

section \<open>The model\<close>

record nn_model =
  nn_par :: nn_params
  nn_friction_override :: bool

text \<open>Inputs left out are 0; fewer than two are refused.\<close>

definition nn_pad :: "nat \<Rightarrow> real list \<Rightarrow> real list result" where
  "nn_pad n xs = (if length xs \<noteq> n then if 2 \<le> length xs then Inr (xs @ replicate (n - length xs) 0) else Inl ValueError
     else Inr xs)"

definition nn_scale :: "nn_params \<Rightarrow> real list \<Rightarrow> real list result" where
  "nn_scale m xs = (if length xs = length (np_input_mean m) \<and> length xs = length (np_input_std m)
     then Inr (map2 (\<lambda>x (mu, sd). (x - mu) / sd) xs (zip (np_input_mean m) (np_input_std m))) else Inl ValueError)"

definition nn_evaluate :: "nn_params \<Rightarrow> real list \<Rightarrow> real result" where
  "nn_evaluate m xs =
     bind_result (nn_pad (np_input_size m) xs) (\<lambda>ys.
     bind_result (nn_scale m ys) (\<lambda>zs.
     bind_result (nn_forward (np_layers m) zs) (\<lambda>out. py_nth out 0)))"

definition nn_zero_bias :: "nn_layer \<Rightarrow> nn_layer" where
  "nn_zero_bias l = l\<lparr>ny_b := map (\<lambda>_. 0) (ny_b l)\<rparr>"

text \<open>Any attribute of the class is an accepted name in the code; here the two functions are.\<close>

definition nn_validate_layers :: "nn_params \<Rightarrow> bool" where
  "nn_validate_layers m \<longleftrightarrow> list_all (\<lambda>l. nn_activation (ny_activation l) \<noteq> None) (np_layers m)"

definition nn_check_friction_override :: "nn_params \<Rightarrow> bool result" where
  "nn_check_friction_override m = bind_result (nn_evaluate m [10, 0, 2/10]) (\<lambda>y. Inr (y < 1/10))"

definition NNTorqueModel :: "nn_params \<Rightarrow> bool \<Rightarrow> nn_model result" where
  "NNTorqueModel file zero_bias =
     (let m = (if zero_bias then file\<lparr>np_layers := map nn_zero_bias (np_layers file)\<rparr> else file)
      in if \<not> nn_validate_layers m then Inl ValueError
         else bind_result (nn_check_friction_override m) (\<lambda>fo. Inr \<lparr>nn_par = m, nn_friction_override = fo\<rparr>))"

section \<open>Facts\<close>

text \<open>A network whose layers fit together; \<open>n\<close> is the number of inputs of the rest.\<close>

fun nn_layers_fit :: "nat \<Rightarrow> nn_layer list \<Rightarrow> bool" where
  "nn_layers_fit n [] = (0 < n)"
| "nn_layers_fit n (l # ls) = (list_all (\<lambda>ws. length ws = n) (ny_W l) \<and> length (ny_b l) = length (ny_W l)
     \<and> nn_activation (ny_activation l) \<noteq> None \<and> nn_layers_fit (length (ny_W l)) ls)"

definition nn_fits :: "nn_params \<Rightarrow> bool" where
  "nn_fits m \<longleftrightarrow> length (np_input_mean m) = np_input_size m \<and> length (np_input_std m) = np_input_size m
     \<and> nn_layers_fit (np_input_size m) (np_layers m)"

lemma nn_forward_returns: "nn_layers_fit (length xs) ls \<Longrightarrow> \<exists>ys. nn_forward ls xs = Inr ys \<and> ys \<noteq> []"
proof (induction ls arbitrary: xs)
  case Nil
  then show ?case by auto
next
  case (Cons l ls)
  from Cons.prems obtain f where f: "nn_activation (ny_activation l) = Some f" by auto
  let ?ys = "map2 (\<lambda>ws b. f (nn_dot xs ws + b)) (ny_W l) (ny_b l)"
  have "length ?ys = length (ny_W l)" using Cons.prems by simp
  with Cons.prems Cons.IH [of ?ys] f show ?case by (simp add: nn_layer_output_def)
qed

lemma nn_evaluate_returns:
  assumes "nn_fits m" "length xs = np_input_size m \<or> 2 \<le> length xs \<and> length xs \<le> np_input_size m"
  shows "\<exists>y. nn_evaluate m xs = Inr y"
proof -
  let ?ys = "xs @ replicate (np_input_size m - length xs) 0"
  have ys: "nn_pad (np_input_size m) xs = Inr ?ys" "length ?ys = np_input_size m"
    using assms(2) by (auto simp: nn_pad_def)
  let ?zs = "map2 (\<lambda>x (mu, sd). (x - mu) / sd) ?ys (zip (np_input_mean m) (np_input_std m))"
  have zs: "nn_scale m ?ys = Inr ?zs" "length ?zs = np_input_size m" using assms(1) ys(2) by (simp_all add: nn_scale_def nn_fits_def)
  from nn_forward_returns [of ?zs "np_layers m"] zs(2) assms(1) obtain out where
    "nn_forward (np_layers m) ?zs = Inr out" "out \<noteq> []" by (auto simp: nn_fits_def)
  then show ?thesis using ys zs by (simp add: nn_evaluate_def py_nth_def)
qed

text \<open>The logistic function stays strictly between 0 and 1, the clipping of its exponent included.\<close>

lemma nn_sigmoid_bounds: "0 < nn_sigmoid x" "nn_sigmoid x < 1"
  by (simp_all add: nn_sigmoid_def safe_exp_def add_pos_pos)

end
