(* ===== verification/Torque_Ext.thy ===== *)
theory Torque_Ext
  imports Nn_Model Lat_Control Speed_Limit_Assist Radard
begin

text \<open>
  What sunnypilot adds to the torque controller
  (\<open>sunnypilot/selfdrive/controls/lib/latcontrol_torque_ext_base.py\<close>, \<open>nnlc/nnlc.py\<close>,
  \<open>latcontrol_torque_ext_override.py\<close>, \<open>latcontrol_torque_ext.py\<close>): the lookahead of the lateral
  jerk, the neural lateral controller, and the override of the torque parameters. The attributes
  one update sets before it reads them are a record of the cycle; \<open>_pid\<close>, the controller's PID
  from the first active update on, is an argument, and a flag tells whether it is shared yet.
\<close>

section \<open>Lookahead\<close>

definition LAT_PLAN_MIN_IDX :: nat where "LAT_PLAN_MIN_IDX = 5"
definition LATERAL_LAG_MOD :: real where "LATERAL_LAG_MOD = 0"

fun diffs :: "real list \<Rightarrow> real list" where
  "diffs (x # y # xs) = (y - x) # diffs (y # xs)"
| "diffs _ = []"

definition t_diffs :: "real list" where "t_diffs = diffs MODEL_T_IDXS"

text \<open>The division of vectors of different lengths raises.\<close>

definition get_predicted_lateral_jerk :: "real list \<Rightarrow> real list \<Rightarrow> real list result" where
  "get_predicted_lateral_jerk lat_accels ts =
     (if length (diffs lat_accels) = length ts then Inr (map2 (/) (diffs lat_accels) ts) else Inl ValueError)"

definition py_sign :: "real \<Rightarrow> real" where
  "py_sign x = (if x > 0 then 1 else if x < 0 then -1 else 0)"

definition get_lookahead_value :: "real list \<Rightarrow> real \<Rightarrow> real" where
  "get_lookahead_value future_vals current_val =
     (if future_vals = [] then current_val
      else let same = filter (\<lambda>v. py_sign v = py_sign current_val) future_vals
           in if length same < length future_vals then 0
              else (case same @ [current_val] of [] \<Rightarrow> current_val | v # vs \<Rightarrow> min_by abs v vs))"

text \<open>\<open>numpy.interp\<close> over the times of the model raises unless the lengths agree.\<close>

definition model_interp :: "real \<Rightarrow> real list \<Rightarrow> real result" where
  "model_interp t ys = (if length ys = length MODEL_T_IDXS then Inr (interp t (zip MODEL_T_IDXS ys)) else Inl ValueError)"

record model_v2 =
  mw_orientation_x :: "real list"
  mw_orientation_y :: "real list"
  mw_acceleration_y :: "real list"

record torque_ext =
  tx_model :: "model_v2 option"
  tx_model_valid :: bool
  tx_actual_lateral_jerk :: real
  tx_lateral_jerk_setpoint :: real
  tx_lateral_jerk_measurement :: real
  tx_lookahead_lateral_jerk :: real
  tx_pid_shared :: bool
  tx_lat_jerk_friction_factor :: real
  tx_lat_accel_friction_factor :: real
  tx_desired_lat_jerk_time :: real
  tx_enabled :: bool
  tx_has_nn_model :: bool
  tx_nn :: nn_model
  tx_pitch :: fof
  tx_pitch_last :: real
  tx_nn_future_times :: "real list"
  tx_lateral_accel_deque :: "real list"
  tx_roll_deque :: "real list"
  tx_enforce_toggle :: bool
  tx_override_enabled :: bool
  tx_frame :: int

definition FRICTION_LOOK_AHEAD :: "(real \<times> real) list" where "FRICTION_LOOK_AHEAD = [(9, 14/10), (30, 2)]"

definition update_model_v2 :: "model_v2 \<Rightarrow> torque_ext \<Rightarrow> torque_ext" where
  "update_model_v2 mv x = x\<lparr>tx_model := Some mv, tx_model_valid := length (mw_orientation_x mv) \<ge> CONTROL_N\<rparr>"

definition update_friction_input :: "real \<Rightarrow> real \<Rightarrow> torque_ext \<Rightarrow> real" where
  "update_friction_input val_1 val_2 x =
     tx_lat_accel_friction_factor x * (val_1 - val_2) + tx_lat_jerk_friction_factor x * tx_lookahead_lateral_jerk x"

text \<open>The first index of the times past the lookahead.\<close>

definition friction_upper_idx :: "real \<Rightarrow> nat" where
  "friction_upper_idx lookahead = (case filter (\<lambda>i. MODEL_T_IDXS ! i > lookahead) [0..<length MODEL_T_IDXS] of i # _ \<Rightarrow> i | [] \<Rightarrow> 16)"

definition lookahead_jerk :: "car_state \<Rightarrow> real \<Rightarrow> model_v2 \<Rightarrow> real \<Rightarrow> real result" where
  "lookahead_jerk CS desired_lateral_accel mv jerk_time =
     bind_result (get_predicted_lateral_jerk (mw_acceleration_y mv) t_diffs) (\<lambda>predicted.
     bind_result (model_interp jerk_time (mw_acceleration_y mv)) (\<lambda>accel.
       let desired = (accel - desired_lateral_accel) / jerk_time;
           upper = friction_upper_idx (interp (cs_vEgo CS) FRICTION_LOOK_AHEAD)
       in Inr (get_lookahead_value (drop LAT_PLAN_MIN_IDX (take upper predicted)) desired)))"

text \<open>The jerk the car has, from the rate of the steering angle.\<close>

definition actual_jerk :: "car_interface \<Rightarrow> lat_in \<Rightarrow> real" where
  "actual_jerk ci a = - ci_calc_curvature ci (la_vm a) (radians (cs_steeringRateDeg (la_CS a))) (cs_vEgo (la_CS a)) 0 * cs_vEgo (la_CS a) ^ 2"

definition apply_lookahead :: "real \<Rightarrow> torque_ext \<Rightarrow> torque_ext" where
  "apply_lookahead j x0 =
     (let x1 = x0\<lparr>tx_lookahead_lateral_jerk := j\<rparr>;
          x = (if j = 0 then x1\<lparr>tx_actual_lateral_jerk := 0, tx_lat_accel_friction_factor := 1\<rparr> else x1)
      in x\<lparr>tx_lateral_jerk_setpoint := tx_lat_jerk_friction_factor x * tx_lookahead_lateral_jerk x,
           tx_lateral_jerk_measurement := tx_lat_jerk_friction_factor x * tx_actual_lateral_jerk x\<rparr>)"

definition update_calculations :: "car_interface \<Rightarrow> lat_in \<Rightarrow> real \<Rightarrow> torque_ext \<Rightarrow> torque_ext result" where
  "update_calculations ci a desired_lateral_accel x0 =
     (let x = x0\<lparr>tx_actual_lateral_jerk := actual_jerk ci a, tx_lateral_jerk_setpoint := 0, tx_lateral_jerk_measurement := 0,
                 tx_lookahead_lateral_jerk := 0\<rparr>
      in case tx_model x of
           Some mv \<Rightarrow> if tx_model_valid x
             then bind_result (lookahead_jerk (la_CS a) desired_lateral_accel mv (tx_desired_lat_jerk_time x)) (\<lambda>j. Inr (apply_lookahead j x))
             else Inr x
         | None \<Rightarrow> Inr x)"

section \<open>The neural lateral controller\<close>

definition LOW_SPEED :: "(real \<times> real) list" where "LOW_SPEED = [(0, 12), (10, 3), (20, 1), (30, 0)]"
definition FUTURE_TIMES :: "real list" where "FUTURE_TIMES = [3/10, 6/10, 1, 15/10]"
definition HISTORY_CHECK_FRAMES :: "nat list" where "HISTORY_CHECK_FRAMES = [30, 20, 10]"
definition HISTORY_FRAME_OFFSETS :: "nat list" where
  "HISTORY_FRAME_OFFSETS = map (\<lambda>i. hd HISTORY_CHECK_FRAMES - i) HISTORY_CHECK_FRAMES"
definition PAST_FUTURE_LEN :: nat where "PAST_FUTURE_LEN = length HISTORY_CHECK_FRAMES + length FUTURE_TIMES"

definition roll_pitch_adjust :: "real \<Rightarrow> real \<Rightarrow> real" where
  "roll_pitch_adjust roll pitch = roll * cos pitch"

definition nn_times :: "real \<Rightarrow> real list" where
  "nn_times jerk_time = map (\<lambda>t. t + jerk_time) FUTURE_TIMES"

definition torque_ext_init :: "car_params \<Rightarrow> params \<Rightarrow> bool \<Rightarrow> nn_model \<Rightarrow> torque_ext" where
  "torque_ext_init CP p has_nn_model nn =
     (let jerk_time = cp_steerActuatorDelay CP + LATERAL_LAG_MOD
      in \<lparr>tx_model = None, tx_model_valid = False, tx_actual_lateral_jerk = 0, tx_lateral_jerk_setpoint = 0,
          tx_lateral_jerk_measurement = 0, tx_lookahead_lateral_jerk = 0, tx_pid_shared = False,
          tx_lat_jerk_friction_factor = 4/10, tx_lat_accel_friction_factor = 7/10, tx_desired_lat_jerk_time = jerk_time,
          tx_enabled = get_bool p ''NeuralNetworkLateralControl'', tx_has_nn_model = has_nn_model, tx_nn = nn,
          tx_pitch = fof_init 0 (5/10) (1/100) True, tx_pitch_last = 0, tx_nn_future_times = nn_times jerk_time,
          tx_lateral_accel_deque = [], tx_roll_deque = [],
          tx_enforce_toggle = get_bool p ''EnforceTorqueControl'', tx_override_enabled = get_bool p ''TorqueParamsOverrideEnabled'',
          tx_frame = -1\<rparr>)"

definition nnlc_enabled :: "torque_ext \<Rightarrow> bool" where
  "nnlc_enabled x \<longleftrightarrow> tx_enabled x \<and> tx_model_valid x \<and> tx_has_nn_model x"

definition update_lateral_lag :: "real \<Rightarrow> torque_ext \<Rightarrow> torque_ext" where
  "update_lateral_lag lag x = (let t = max (1/100) lag + LATERAL_LAG_MOD
     in x\<lparr>tx_desired_lat_jerk_time := t, tx_nn_future_times := nn_times t\<rparr>)"

text \<open>The attributes of a cycle; the error is that of the log.\<close>

record ext_cycle =
  xc_ff :: real
  xc_error :: real
  xc_setpoint :: real
  xc_measurement :: real
  xc_roll_compensation :: real
  xc_lateral_accel_deadzone :: real
  xc_desired_lateral_accel :: real
  xc_actual_lateral_accel :: real
  xc_gravity_adjusted :: real
  xc_desired_curvature :: real
  xc_actual_curvature :: real
  xc_output_torque :: real

definition in_torque_space :: "car_interface \<Rightarrow> car_state \<Rightarrow> torque_tuning \<Rightarrow> ext_cycle \<Rightarrow> real \<Rightarrow> bool \<Rightarrow> real" where
  "in_torque_space ci CS tp c v gravity_adjusted =
     ci_torque_in_torque_space ci (v, xc_roll_compensation c, cs_vEgo CS, cs_aEgo CS) tp gravity_adjusted"

definition update_feedforward_torque_space :: "car_interface \<Rightarrow> car_state \<Rightarrow> torque_tuning \<Rightarrow> ext_cycle \<Rightarrow> ext_cycle" where
  "update_feedforward_torque_space ci CS tp c =
     c\<lparr>xc_error := in_torque_space ci CS tp c (xc_setpoint c) False - in_torque_space ci CS tp c (xc_measurement c) False,
       xc_ff := in_torque_space ci CS tp c (xc_gravity_adjusted c) True
         + ci_friction_in_torque_space ci (xc_desired_lateral_accel c - xc_actual_lateral_accel c) (xc_lateral_accel_deadzone c) tp\<rparr>"

definition low_speed_terms :: "car_state \<Rightarrow> ext_cycle \<Rightarrow> ext_cycle" where
  "low_speed_terms CS c = (let f = (interp (cs_vEgo CS) LOW_SPEED)\<^sup>2
     in c\<lparr>xc_setpoint := xc_desired_lateral_accel c + f * xc_desired_curvature c,
          xc_measurement := xc_actual_lateral_accel c + f * xc_actual_curvature c\<rparr>)"

text \<open>The roll seen along the road, and the histories.\<close>

definition update_roll :: "lat_in \<Rightarrow> torque_ext \<Rightarrow> real \<times> torque_ext" where
  "update_roll a x = (case la_pose a of
       Some p \<Rightarrow> let f = fof_update (fst (snd (me_xyz (po_orientation p)))) (tx_pitch x)
         in (roll_pitch_adjust (pv_roll (la_params a)) (ff_x f), x\<lparr>tx_pitch := f, tx_pitch_last := ff_x f\<rparr>)
     | None \<Rightarrow> (pv_roll (la_params a), x))"

definition update_histories :: "real \<Rightarrow> real \<Rightarrow> torque_ext \<Rightarrow> torque_ext" where
  "update_histories roll accel x = x\<lparr>tx_roll_deque := deque_append (hd HISTORY_CHECK_FRAMES) roll (tx_roll_deque x),
     tx_lateral_accel_deque := deque_append (hd HISTORY_CHECK_FRAMES) accel (tx_lateral_accel_deque x)\<rparr>"

definition past_values :: "real list \<Rightarrow> real list" where
  "past_values xs = map (\<lambda>i. xs ! min (length xs - 1) i) HISTORY_FRAME_OFFSETS"

definition adjusted_future_times :: "car_state \<Rightarrow> real list \<Rightarrow> real list" where
  "adjusted_future_times CS ts = map (\<lambda>t. t + 1/2 * cs_aEgo CS * (t / max (cs_vEgo CS) 1)) ts"

fun map_result :: "('a \<Rightarrow> 'b result) \<Rightarrow> 'a list \<Rightarrow> 'b list result" where
  "map_result f [] = Inr []"
| "map_result f (x # xs) = bind_result (f x) (\<lambda>y. bind_result (map_result f xs) (\<lambda>ys. Inr (y # ys)))"

definition future_roll :: "model_v2 \<Rightarrow> real \<Rightarrow> real \<Rightarrow> real \<Rightarrow> real result" where
  "future_roll mv roll pitch_last t =
     bind_result (model_interp t (mw_orientation_x mv)) (\<lambda>r.
     bind_result (model_interp t (mw_orientation_y mv)) (\<lambda>p. Inr (roll_pitch_adjust (r + roll) (p + pitch_last))))"

text \<open>What the network is shown of the past and of the plan.\<close>

record nn_view =
  nw_roll :: real
  nw_past_rolls :: "real list"
  nw_future_rolls :: "real list"
  nw_past_accels :: "real list"
  nw_future_accels :: "real list"

definition nn_view_of :: "car_state \<Rightarrow> model_v2 \<Rightarrow> real \<Rightarrow> torque_ext \<Rightarrow> nn_view result" where
  "nn_view_of CS mv roll x =
     (let ts = adjusted_future_times CS (tx_nn_future_times x)
      in bind_result (map_result (future_roll mv roll (tx_pitch_last x)) ts) (\<lambda>future_rolls.
         bind_result (map_result (\<lambda>t. model_interp t (mw_acceleration_y mv)) ts) (\<lambda>future_accels.
         Inr \<lparr>nw_roll = roll, nw_past_rolls = past_values (tx_roll_deque x), nw_future_rolls = future_rolls,
              nw_past_accels = past_values (tx_lateral_accel_deque x), nw_future_accels = future_accels\<rparr>)))"

definition nn_accel_input :: "car_state \<Rightarrow> real \<Rightarrow> real \<Rightarrow> nn_view \<Rightarrow> real list" where
  "nn_accel_input CS accel jerk w = [cs_vEgo CS, accel, jerk, nw_roll w] @ replicate PAST_FUTURE_LEN accel @ nw_past_rolls w @ nw_future_rolls w"

text \<open>A stronger error response is blended in at high lateral accelerations.\<close>

definition blend_error :: "real \<Rightarrow> real \<Rightarrow> real \<Rightarrow> real" where
  "blend_error factor torque_from_error err =
     (if py_sign err = py_sign torque_from_error \<and> \<bar>err\<bar> < \<bar>torque_from_error\<bar>
      then err * (1 - factor) + torque_from_error * factor else err)"

definition nn_error :: "car_state \<Rightarrow> nn_view \<Rightarrow> torque_ext \<Rightarrow> ext_cycle \<Rightarrow> real result" where
  "nn_error CS w x c =
     (let ev = nn_evaluate (nn_par (tx_nn x)); factor = interp \<bar>xc_desired_lateral_accel c\<bar> [(1, 0), (2, 1)]
      in bind_result (ev (nn_accel_input CS (xc_setpoint c) (tx_lateral_jerk_setpoint x) w)) (\<lambda>ts.
         bind_result (ev (nn_accel_input CS (xc_measurement c) (tx_lateral_jerk_measurement x) w)) (\<lambda>tm.
         if factor > 0
         then bind_result (ev [cs_vEgo CS, xc_setpoint c - xc_measurement c, tx_lateral_jerk_setpoint x - tx_lateral_jerk_measurement x, 0])
                (\<lambda>te. Inr (blend_error factor te (ts - tm)))
         else Inr (ts - tm))))"

definition nn_feedforward_input :: "car_state \<Rightarrow> real \<Rightarrow> nn_view \<Rightarrow> ext_cycle \<Rightarrow> real list" where
  "nn_feedforward_input CS friction_input w c =
     [cs_vEgo CS, xc_desired_lateral_accel c, friction_input, nw_roll w] @ nw_past_accels w @ nw_future_accels w @ nw_past_rolls w @ nw_future_rolls w"

definition nn_cycle :: "car_interface \<Rightarrow> car_state \<Rightarrow> torque_tuning \<Rightarrow> nn_view \<Rightarrow> torque_ext \<Rightarrow> ext_cycle \<Rightarrow> ext_cycle result" where
  "nn_cycle ci CS tp w x c =
     bind_result (nn_error CS w x c) (\<lambda>err.
       let friction_input = update_friction_input (xc_setpoint c) (xc_measurement c) x
       in bind_result (nn_evaluate (nn_par (tx_nn x)) (nn_feedforward_input CS friction_input w c)) (\<lambda>ff.
          Inr (c\<lparr>xc_error := (if nn_friction_override (tx_nn x)
                   then err + ci_get_friction ci friction_input (xc_lateral_accel_deadzone c) tp else err), xc_ff := ff\<rparr>)))"

definition update_output_torque :: "lat_in \<Rightarrow> ext_cycle \<Rightarrow> pid \<Rightarrow> ext_cycle \<times> pid" where
  "update_output_torque a c q0 =
     (let q = pid_update \<lparr>pi_error = xc_error c, pi_error_rate = 0, pi_speed = cs_vEgo (la_CS a), pi_feedforward = xc_ff c,
            pi_freeze = freeze_integrator a\<rparr> q0
      in (c\<lparr>xc_output_torque := pid_control q\<rparr>, q))"

definition update_neural_network_feedforward :: "car_interface \<Rightarrow> lat_in \<Rightarrow> torque_tuning \<Rightarrow> torque_ext \<Rightarrow> ext_cycle \<Rightarrow> pid \<Rightarrow> (ext_cycle \<times> pid \<times> torque_ext) result" where
  "update_neural_network_feedforward ci a tp x0 c0 q =
     (case tx_model x0 of
        None \<Rightarrow> Inr (c0, q, x0)
      | Some mv \<Rightarrow>
          if \<not> nnlc_enabled x0 then Inr (c0, q, x0)
          else
            let CS = la_CS a; c = low_speed_terms CS (update_feedforward_torque_space ci CS tp c0);
                (roll, x1) = update_roll a x0; x = update_histories roll (xc_desired_lateral_accel c) x1
            in bind_result (nn_view_of CS mv roll x) (\<lambda>w.
               bind_result (nn_cycle ci CS tp w x c) (\<lambda>c1.
               let (c2, q2) = update_output_torque a c1 q in Inr (c2, q2, x))))"

definition torque_ext_update :: "car_interface \<Rightarrow> lat_in \<Rightarrow> torque_tuning \<Rightarrow> ext_cycle \<Rightarrow> pid \<Rightarrow> torque_ext \<Rightarrow> (ext_cycle \<times> pid \<times> torque_ext) result" where
  "torque_ext_update ci a tp c q x =
     bind_result (update_calculations ci a (xc_desired_lateral_accel c) (x\<lparr>tx_pid_shared := True\<rparr>)) (\<lambda>x1.
       update_neural_network_feedforward ci a tp x1 c q)"

section \<open>The override of the parameters\<close>

definition update_override_torque_params :: "(string \<Rightarrow> real) \<Rightarrow> params \<Rightarrow> torque_tuning \<Rightarrow> torque_ext \<Rightarrow> bool \<times> torque_tuning \<times> torque_ext" where
  "update_override_torque_params dflt p tp x0 =
     (if \<not> tx_enforce_toggle x0 then (False, tp, x0)
      else let x1 = x0\<lparr>tx_frame := tx_frame x0 + 1\<rparr>
           in if tx_frame x1 mod 300 = 0
              then let x = x1\<lparr>tx_override_enabled := get_bool p ''TorqueParamsOverrideEnabled''\<rparr>
                   in if \<not> tx_override_enabled x then (False, tp, x)
                      else (True, tp\<lparr>tt_latAccelFactor := get_float dflt p ''TorqueParamsOverrideLatAccelFactor'',
                               tt_friction := get_float dflt p ''TorqueParamsOverrideFriction''\<rparr>, x)
              else (False, tp, x1))"

end
