(* ===== verification/Lat_Torque.thy ===== *)
theory Lat_Torque
  imports Torque_Ext
begin

text \<open>
  The lateral controller for cars that are steered by a torque proportional to the lateral
  acceleration (\<open>selfdrive/controls/lib/latcontrol_torque.py\<close>), with sunnypilot's extension.
\<close>

definition TORQUE_KP :: real where "TORQUE_KP = 8/10"
definition TORQUE_KI :: real where "TORQUE_KI = 15/100"
definition TORQUE_KP_CURVE :: "(real \<times> real) list" where
  "TORQUE_KP_CURVE = zip [1, 15/10, 2, 3, 5, 75/10, 10, 15, 30] [250, 120, 65, 30, 115/10, 55/10, 35/10, 2, TORQUE_KP]"
definition LP_FILTER_CUTOFF_HZ :: real where "LP_FILTER_CUTOFF_HZ = 12/10"
definition JERK_LOOKAHEAD_SECONDS :: real where "JERK_LOOKAHEAD_SECONDS = 19/100"
definition JERK_GAIN :: real where "JERK_GAIN = 3/10"
definition LAT_ACCEL_REQUEST_BUFFER_SECONDS :: real where "LAT_ACCEL_REQUEST_BUFFER_SECONDS = 1"

record lat_torque =
  to_base :: lat_control
  to_torque_params :: torque_tuning
  to_pid :: pid
  to_deadzone_deg :: real
  to_buffer_len :: nat
  to_buffer :: "real list"
  to_lookahead_frames :: int
  to_jerk_filter :: fof
  to_ext :: torque_ext

record torque_log =
  tg_active :: bool
  tg_error :: real
  tg_p :: real
  tg_i :: real
  tg_d :: real
  tg_f :: real
  tg_output :: real
  tg_actualLateralAccel :: real
  tg_desiredLateralAccel :: real
  tg_desiredLateralJerk :: real
  tg_saturated :: bool

definition torque_update_limits :: "car_interface \<Rightarrow> lat_torque \<Rightarrow> lat_torque" where
  "torque_update_limits ci s =
     s\<lparr>to_pid := set_limits (ci_lateral_accel_from_torque ci (lt_steer_max (to_base s)) (to_torque_params s))
        (ci_lateral_accel_from_torque ci (- lt_steer_max (to_base s)) (to_torque_params s)) (to_pid s)\<rparr>"

definition lat_torque_init :: "car_interface \<Rightarrow> car_params \<Rightarrow> torque_tuning \<Rightarrow> torque_ext \<Rightarrow> real \<Rightarrow> lat_torque" where
  "lat_torque_init ci CP tuning ext dt =
     (let len = nat (py_int (LAT_ACCEL_REQUEST_BUFFER_SECONDS / dt))
      in torque_update_limits ci
         \<lparr>to_base = lat_control_init CP dt, to_torque_params = tuning,
          to_pid = pid_init TORQUE_KP_CURVE (const_gain TORQUE_KI) (const_gain 0) (10^308) (- (10^308)) (1 / dt),
          to_deadzone_deg = tt_steeringAngleDeadzoneDeg tuning, to_buffer_len = len, to_buffer = replicate len 0,
          to_lookahead_frames = py_int (JERK_LOOKAHEAD_SECONDS / dt),
          to_jerk_filter = fof_init 0 (1 / (2 * pi * LP_FILTER_CUTOFF_HZ)) dt True, to_ext = ext\<rparr>)"

definition update_live_torque_params :: "car_interface \<Rightarrow> real \<Rightarrow> real \<Rightarrow> real \<Rightarrow> lat_torque \<Rightarrow> lat_torque" where
  "update_live_torque_params ci latAccelFactor latAccelOffset friction s =
     torque_update_limits ci (s\<lparr>to_torque_params := (to_torque_params s)\<lparr>tt_latAccelFactor := latAccelFactor,
        tt_latAccelOffset := latAccelOffset, tt_friction := friction\<rparr>\<rparr>)"

text \<open>
  \<open>update_limits\<close> of the extension: in effect once its PID is the controller's, as no other code
  sees the one it has before.
\<close>

definition ext_update_limits :: "lat_torque \<Rightarrow> lat_torque" where
  "ext_update_limits s =
     (if nnlc_enabled (to_ext s) \<and> tx_pid_shared (to_ext s)
      then s\<lparr>to_pid := set_limits (lt_steer_max (to_base s)) (- lt_steer_max (to_base s)) (to_pid s)\<rparr> else s)"

definition torque_override :: "car_interface \<Rightarrow> (string \<Rightarrow> real) \<Rightarrow> params \<Rightarrow> lat_torque \<Rightarrow> lat_torque" where
  "torque_override ci dflt p s =
     (let (changed, tp, x) = update_override_torque_params dflt p (to_torque_params s) (to_ext s);
          s1 = s\<lparr>to_torque_params := tp, to_ext := x\<rparr>
      in if changed then torque_update_limits ci s1 else s1)"

text \<open>\<open>request_buffer[-k]\<close>: the \<open>k\<close>-th value from the end.\<close>

definition from_end :: "'a list \<Rightarrow> int \<Rightarrow> 'a" where
  "from_end xs k = xs ! nat (int (length xs) - k)"

definition delay_frames :: "real \<Rightarrow> lat_torque \<Rightarrow> int" where
  "delay_frames lat_delay s = py_int (clip (lat_delay / lt_dt (to_base s) + 1) 1 (real (to_buffer_len s)))"

text \<open>The index from the end of the request the jerk is taken at: between 2 and the length less 1.\<close>

definition lookahead_idx :: "real \<Rightarrow> lat_torque \<Rightarrow> int" where
  "lookahead_idx lat_delay s =
     py_int (clip (of_int (- delay_frames lat_delay s + to_lookahead_frames s)) (- real (to_buffer_len s) + 1) (-2))"

definition request_jerk :: "real \<Rightarrow> lat_torque \<Rightarrow> real" where
  "request_jerk lat_delay s =
     (from_end (to_buffer s) (- (lookahead_idx lat_delay s + 1)) - from_end (to_buffer s) (- (lookahead_idx lat_delay s - 1))) / (2 * lt_dt (to_base s))"

text \<open>What an update computes before it branches.\<close>

record torque_calc =
  tk_measured_curvature :: real
  tk_measurement :: real
  tk_future_desired :: real
  tk_roll_compensation :: real
  tk_deadzone :: real
  tk_setpoint :: real
  tk_desired_jerk :: real
  tk_gravity_adjusted :: real
  tk_ff :: real

definition append_request :: "lat_in \<Rightarrow> lat_torque \<Rightarrow> lat_torque" where
  "append_request a s = s\<lparr>to_buffer := deque_append (to_buffer_len s) (la_desired_curvature a * (cs_vEgo (la_CS a))\<^sup>2) (to_buffer s)\<rparr>"

definition filter_jerk :: "lat_in \<Rightarrow> lat_torque \<Rightarrow> lat_torque" where
  "filter_jerk a s = s\<lparr>to_jerk_filter := fof_update (request_jerk (la_lat_delay a) s) (to_jerk_filter s)\<rparr>"

definition measured_curvature :: "car_interface \<Rightarrow> lat_in \<Rightarrow> real" where
  "measured_curvature ci a = - ci_calc_curvature ci (la_vm a)
     (radians (cs_steeringAngleDeg (la_CS a) - pv_angleOffsetDeg (la_params a))) (cs_vEgo (la_CS a)) (pv_roll (la_params a))"

definition torque_calculate :: "car_interface \<Rightarrow> lat_in \<Rightarrow> lat_torque \<Rightarrow> torque_calc" where
  "torque_calculate ci a s =
     (let v = cs_vEgo (la_CS a); mc = measured_curvature ci a;
          measurement = mc * v\<^sup>2; future = la_desired_curvature a * v\<^sup>2;
          roll_comp = pv_roll (la_params a) * ACCELERATION_DUE_TO_GRAVITY;
          deadzone = \<bar>ci_calc_curvature ci (la_vm a) (radians (to_deadzone_deg s)) v 0\<bar> * v\<^sup>2;
          setpoint = from_end (to_buffer s) (delay_frames (la_lat_delay a) s);
          jerk = ff_x (to_jerk_filter s); gravity = future - roll_comp
      in \<lparr>tk_measured_curvature = mc, tk_measurement = measurement, tk_future_desired = future, tk_roll_compensation = roll_comp,
          tk_deadzone = deadzone, tk_setpoint = setpoint, tk_desired_jerk = jerk, tk_gravity_adjusted = gravity,
          tk_ff = gravity - tt_latAccelOffset (to_torque_params s)
            + ci_get_friction ci (setpoint - measurement + JERK_GAIN * jerk) deadzone (to_torque_params s)\<rparr>)"

definition torque_pid_in :: "lat_in \<Rightarrow> torque_calc \<Rightarrow> pid_in" where
  "torque_pid_in a k = \<lparr>pi_error = tk_setpoint k - tk_measurement k, pi_error_rate = 0, pi_speed = cs_vEgo (la_CS a),
     pi_feedforward = tk_ff k, pi_freeze = freeze_integrator a\<rparr>"

definition ext_cycle_of :: "lat_in \<Rightarrow> torque_calc \<Rightarrow> real \<Rightarrow> ext_cycle" where
  "ext_cycle_of a k output_torque =
     \<lparr>xc_ff = tk_ff k, xc_error = tk_setpoint k - tk_measurement k, xc_setpoint = tk_setpoint k, xc_measurement = tk_measurement k,
      xc_roll_compensation = tk_roll_compensation k, xc_lateral_accel_deadzone = tk_deadzone k,
      xc_desired_lateral_accel = tk_future_desired k, xc_actual_lateral_accel = tk_measurement k,
      xc_gravity_adjusted = tk_gravity_adjusted k, xc_desired_curvature = la_desired_curvature a,
      xc_actual_curvature = tk_measured_curvature k, xc_output_torque = output_torque\<rparr>"

definition torque_log_of :: "torque_calc \<Rightarrow> ext_cycle \<Rightarrow> pid \<Rightarrow> bool \<Rightarrow> torque_log" where
  "torque_log_of k c q sat = \<lparr>tg_active = True, tg_error = xc_error c, tg_p = pid_p q, tg_i = pid_i q, tg_d = pid_d q, tg_f = pid_f q,
     tg_output = - xc_output_torque c, tg_actualLateralAccel = tk_measurement k, tg_desiredLateralAccel = tk_setpoint k,
     tg_desiredLateralJerk = tk_desired_jerk k, tg_saturated = sat\<rparr>"

definition empty_torque_log :: torque_log where
  "empty_torque_log = \<lparr>tg_active = False, tg_error = 0, tg_p = 0, tg_i = 0, tg_d = 0, tg_f = 0, tg_output = 0,
     tg_actualLateralAccel = 0, tg_desiredLateralAccel = 0, tg_desiredLateralJerk = 0, tg_saturated = False\<rparr>"

definition torque_active :: "car_interface \<Rightarrow> lat_in \<Rightarrow> torque_calc \<Rightarrow> lat_torque \<Rightarrow> ((real \<times> torque_log) \<times> lat_torque) result" where
  "torque_active ci a k s =
     (let q1 = pid_update (torque_pid_in a k) (to_pid s);
          torque = ci_torque_from_lateral_accel ci (pid_control q1) (to_torque_params s)
      in bind_result (torque_ext_update ci a (to_torque_params s) (ext_cycle_of a k torque) q1 (to_ext s)) (\<lambda>(c, q, x).
         let (sat, base) = check_saturation (torque_saturated (to_base s) (xc_output_torque c)) (la_CS a) (la_steer_limited a)
               (la_curvature_limited a) (to_base s)
         in Inr ((xc_output_torque c, torque_log_of k c q sat), s\<lparr>to_pid := q, to_ext := x, to_base := base\<rparr>)))"

text \<open>Left is positive: the torque is negated at the end.\<close>

definition lat_torque_update :: "car_interface \<Rightarrow> (string \<Rightarrow> real) \<Rightarrow> params \<Rightarrow> lat_in \<Rightarrow> lat_torque \<Rightarrow> ((real \<times> real \<times> torque_log) \<times> lat_torque) result" where
  "lat_torque_update ci dflt p a s0 =
     (let s = filter_jerk a (append_request a (torque_override ci dflt p s0));
          k = torque_calculate ci a s
      in if \<not> la_active a then Inr ((- 0, 0, empty_torque_log), s)
         else bind_result (torque_active ci a k s) (\<lambda>((torque, lg), s'). Inr ((- torque, 0, lg), s')))"

section \<open>Facts\<close>

text \<open>The buffer of requests is always full, and every index into it is in range.\<close>

definition buffer_ok :: "lat_torque \<Rightarrow> bool" where
  "buffer_ok s \<longleftrightarrow> length (to_buffer s) = to_buffer_len s \<and> 3 \<le> to_buffer_len s"

lemma delay_frames_range:
  assumes "3 \<le> to_buffer_len s" shows "1 \<le> delay_frames d s" "delay_frames d s \<le> int (to_buffer_len s)"
proof -
  let ?x = "clip (d / lt_dt (to_base s) + 1) 1 (real (to_buffer_len s))"
  have b: "1 \<le> ?x" "?x \<le> real (to_buffer_len s)" using clip_bounds(1) [of 1 "real (to_buffer_len s)"] clip_bounds(2) assms by auto
  then have i: "py_int ?x = \<lfloor>?x\<rfloor>" by (simp add: py_int_def)
  show "1 \<le> delay_frames d s" using b(1) by (simp add: delay_frames_def i le_floor_iff)
  show "delay_frames d s \<le> int (to_buffer_len s)" using floor_mono [OF b(2)] by (simp add: delay_frames_def i)
qed

lemma lookahead_idx_range:
  assumes "3 \<le> to_buffer_len s" shows "- int (to_buffer_len s) + 1 \<le> lookahead_idx d s" "lookahead_idx d s \<le> -2"
proof -
  let ?k = "- delay_frames d s + to_lookahead_frames s" and ?n = "int (to_buffer_len s)"
  have "clip (real_of_int ?k) (- real (to_buffer_len s) + 1) (-2) = real_of_int (max (- ?n + 1) (min ?k (-2)))"
    using assms by (auto simp: clip_def max_def min_def)
  then have "lookahead_idx d s = max (- ?n + 1) (min ?k (-2))"
    unfolding lookahead_idx_def by (simp only: py_int_of_int)
  then show "- int (to_buffer_len s) + 1 \<le> lookahead_idx d s" "lookahead_idx d s \<le> -2" using assms by auto
qed

text \<open>The buffer: full at the start, and after every update.\<close>

lemma deque_append_full: "length xs = n \<Longrightarrow> 0 < n \<Longrightarrow> length (deque_append n x xs) = n"
  by (simp add: deque_append_def)

lemma torque_update_limits_simps [simp]:
  "to_buffer (torque_update_limits ci s) = to_buffer s" "to_buffer_len (torque_update_limits ci s) = to_buffer_len s"
  "to_base (torque_update_limits ci s) = to_base s" "to_ext (torque_update_limits ci s) = to_ext s"
  "to_torque_params (torque_update_limits ci s) = to_torque_params s"
  by (simp_all add: torque_update_limits_def)

lemma torque_override_simps [simp]:
  "to_buffer (torque_override ci dflt p s) = to_buffer s" "to_buffer_len (torque_override ci dflt p s) = to_buffer_len s"
  "to_base (torque_override ci dflt p s) = to_base s"
  by (simp_all add: torque_override_def Let_def split: prod.split)

lemma buffer_simps [simp]:
  "to_buffer_len (append_request a s) = to_buffer_len s" "to_buffer (filter_jerk a s) = to_buffer s"
  "to_buffer_len (filter_jerk a s) = to_buffer_len s"
  by (simp_all add: append_request_def filter_jerk_def)

lemma lat_torque_init_buffer: "buffer_ok (lat_torque_init ci CP tuning ext DT_CTRL)"
  by (simp add: lat_torque_init_def Let_def buffer_ok_def LAT_ACCEL_REQUEST_BUFFER_SECONDS_def DT_CTRL_def py_int_def)

lemma torque_active_buffer:
  "torque_active ci a k s = Inr (r, s') \<Longrightarrow> to_buffer s' = to_buffer s \<and> to_buffer_len s' = to_buffer_len s"
  by (auto simp: torque_active_def Let_def bind_result_def split: sum.splits prod.splits)

lemma lat_torque_update_buffer:
  assumes "buffer_ok s" "lat_torque_update ci dflt p a s = Inr (r, s')" shows "buffer_ok s'"
proof -
  let ?s = "filter_jerk a (append_request a (torque_override ci dflt p s))"
  have ok: "buffer_ok ?s"
    using assms(1) by (simp add: buffer_ok_def) (simp add: append_request_def deque_append_full)
  have "to_buffer s' = to_buffer ?s \<and> to_buffer_len s' = to_buffer_len ?s"
    using assms(2) torque_active_buffer
    by (auto simp: lat_torque_update_def Let_def bind_result_def split: if_splits sum.splits prod.splits)
  with ok show ?thesis by (simp add: buffer_ok_def)
qed

text \<open>
  The functions of opendbc that map torque to lateral acceleration and back, as it documents them
  for a car with a positive factor: the one is inverse to the other and both grow.
\<close>

definition torque_laws :: "car_interface \<Rightarrow> bool" where
  "torque_laws ci \<longleftrightarrow> (\<forall>tp. tt_latAccelFactor tp > 0 \<longrightarrow>
     mono (\<lambda>x. ci_torque_from_lateral_accel ci x tp) \<and> mono (\<lambda>x. ci_lateral_accel_from_torque ci x tp)
     \<and> (\<forall>t. \<bar>t\<bar> \<le> 1 \<longrightarrow> ci_torque_from_lateral_accel ci (ci_lateral_accel_from_torque ci t tp) tp = t))"

text \<open>The limits of the PID are the lateral accelerations of the two extreme torques.\<close>

definition torque_ok :: "car_interface \<Rightarrow> lat_torque \<Rightarrow> bool" where
  "torque_ok ci s \<longleftrightarrow> lt_steer_max (to_base s) = 1 \<and> \<not> tx_enabled (to_ext s) \<and> tt_latAccelFactor (to_torque_params s) > 0
     \<and> pid_pos_limit (to_pid s) = ci_lateral_accel_from_torque ci 1 (to_torque_params s)
     \<and> pid_neg_limit (to_pid s) = ci_lateral_accel_from_torque ci (- 1) (to_torque_params s)"

lemma torque_update_limits_ok:
  "lt_steer_max (to_base s) = 1 \<Longrightarrow> \<not> tx_enabled (to_ext s) \<Longrightarrow> tt_latAccelFactor (to_torque_params s) > 0 \<Longrightarrow>
    torque_ok ci (torque_update_limits ci s)"
  by (simp add: torque_ok_def) (simp add: torque_update_limits_def set_limits_def)

lemma lat_torque_init_ok:
  "tt_latAccelFactor tuning > 0 \<Longrightarrow> \<not> tx_enabled ext \<Longrightarrow> torque_ok ci (lat_torque_init ci CP tuning ext dt)"
  unfolding lat_torque_init_def Let_def by (rule torque_update_limits_ok) (simp_all add: lat_control_init_def)

lemma update_live_torque_params_ok:
  "torque_ok ci s \<Longrightarrow> f > 0 \<Longrightarrow> torque_ok ci (update_live_torque_params ci f off fr s)"
  unfolding update_live_torque_params_def by (rule torque_update_limits_ok) (simp_all add: torque_ok_def)

lemma ext_update_limits_ok: "torque_ok ci s \<Longrightarrow> ext_update_limits s = s"
  by (simp add: ext_update_limits_def nnlc_enabled_def torque_ok_def)

lemma override_enabled [simp]:
  "update_override_torque_params dflt p tp x = (b, tp', x') \<Longrightarrow> tx_enabled x' = tx_enabled x"
  by (auto simp: update_override_torque_params_def Let_def split: if_splits)

lemma torque_override_ok:
  assumes "torque_ok ci s" "get_float dflt p ''TorqueParamsOverrideLatAccelFactor'' > 0"
  shows "torque_ok ci (torque_override ci dflt p s)"
proof -
  obtain b tp x where u: "update_override_torque_params dflt p (to_torque_params s) (to_ext s) = (b, tp, x)" by (rule prod_cases3)
  have en: "\<not> tx_enabled x" using assms(1) override_enabled [OF u] by (simp add: torque_ok_def)
  have tp: "if b then tt_latAccelFactor tp > 0 else tp = to_torque_params s"
    using u assms(2) by (auto simp: update_override_torque_params_def Let_def split: if_splits)
  show ?thesis
  proof (cases b)
    case True
    with u have "torque_override ci dflt p s = torque_update_limits ci (s\<lparr>to_torque_params := tp, to_ext := x\<rparr>)" by (simp add: torque_override_def)
    moreover have "torque_ok ci (torque_update_limits ci (s\<lparr>to_torque_params := tp, to_ext := x\<rparr>))"
      using en tp True assms(1) by (intro torque_update_limits_ok) (simp_all add: torque_ok_def)
    ultimately show ?thesis by simp
  next
    case False
    with u tp en assms(1) show ?thesis by (simp add: torque_override_def torque_ok_def)
  qed
qed

text \<open>Without the neural controller the extension changes nothing of the output.\<close>

lemma update_calculations_enabled:
  "update_calculations ci a d x = Inr x' \<Longrightarrow> tx_enabled x' = tx_enabled x"
  by (auto simp: update_calculations_def apply_lookahead_def Let_def bind_result_def split: option.splits if_splits sum.splits)

lemma torque_ext_update_off:
  assumes "\<not> tx_enabled x" "torque_ext_update ci a tp c q x = Inr (c', q', x')"
  shows "c' = c \<and> q' = q \<and> \<not> tx_enabled x'"
proof -
  obtain x1 where x1: "update_calculations ci a (xc_desired_lateral_accel c) (x\<lparr>tx_pid_shared := True\<rparr>) = Inr x1"
    using assms(2) by (auto simp: torque_ext_update_def bind_result_def split: sum.splits)
  have "\<not> tx_enabled x1" using update_calculations_enabled [OF x1] assms(1) by simp
  with x1 assms(2) show ?thesis
    by (auto simp: torque_ext_update_def update_neural_network_feedforward_def nnlc_enabled_def split: option.splits)
qed

lemma torque_of_limits:
  assumes "torque_laws ci" "tt_latAccelFactor tp > 0"
    "ci_lateral_accel_from_torque ci (- 1) tp \<le> x" "x \<le> ci_lateral_accel_from_torque ci 1 tp"
  shows "\<bar>ci_torque_from_lateral_accel ci x tp\<bar> \<le> 1"
proof -
  from assms(1,2) have m: "mono (\<lambda>x. ci_torque_from_lateral_accel ci x tp)"
    and inv: "\<And>t. \<bar>t\<bar> \<le> 1 \<Longrightarrow> ci_torque_from_lateral_accel ci (ci_lateral_accel_from_torque ci t tp) tp = t"
    by (auto simp: torque_laws_def)
  from monoD [OF m assms(3)] monoD [OF m assms(4)] inv [of 1] inv [of "- 1"] show ?thesis by simp
qed

lemma torque_active_ok:
  assumes "torque_laws ci" "torque_ok ci s" "torque_active ci a k s = Inr ((t, lg), s')"
  shows "torque_ok ci s' \<and> \<bar>t\<bar> \<le> 1"
proof -
  let ?q = "pid_update (torque_pid_in a k) (to_pid s)"
  let ?t = "ci_torque_from_lateral_accel ci (pid_control ?q) (to_torque_params s)"
  obtain c q x where ext: "torque_ext_update ci a (to_torque_params s) (ext_cycle_of a k ?t) ?q (to_ext s) = Inr (c, q, x)"
    using assms(3) by (auto simp: torque_active_def Let_def bind_result_def split: sum.splits prod.splits)
  from torque_ext_update_off [OF _ this] assms(2) have off: "c = ext_cycle_of a k ?t" "q = ?q" "\<not> tx_enabled x"
    by (simp_all add: torque_ok_def)
  have out: "xc_output_torque (ext_cycle_of a k ?t) = ?t" by (simp add: ext_cycle_of_def)
  obtain sat base where sat: "check_saturation (torque_saturated (to_base s) ?t) (la_CS a) (la_steer_limited a) (la_curvature_limited a) (to_base s) = (sat, base)"
    by (rule prod.exhaust)
  with assms(3) ext off out have eq: "t = ?t" "s' = s\<lparr>to_pid := ?q, to_ext := x, to_base := base\<rparr>"
    by (simp_all add: torque_active_def Let_def)
  have le: "pid_neg_limit (to_pid s) \<le> pid_pos_limit (to_pid s)"
    using assms(1,2) by (auto simp: torque_laws_def torque_ok_def mono_def)
  have "pid_neg_limit (to_pid s) \<le> pid_control ?q" "pid_control ?q \<le> pid_pos_limit (to_pid s)"
    using le by (simp_all add: pid_update_def Let_def clip_bounds)
  then have "\<bar>?t\<bar> \<le> 1" using assms(1,2) by (intro torque_of_limits) (simp_all add: torque_ok_def)
  then show ?thesis using assms(2) off(3) check_saturation_frame [OF sat] by (simp add: eq torque_ok_def)
qed

lemma request_ok [simp]: "torque_ok ci (filter_jerk a (append_request a s)) = torque_ok ci s"
  by (simp add: filter_jerk_def append_request_def torque_ok_def)

lemma lat_torque_update_ok:
  assumes "torque_laws ci" "torque_ok ci s" "get_float dflt p ''TorqueParamsOverrideLatAccelFactor'' > 0"
    "lat_torque_update ci dflt p a s = Inr ((t, des, lg), s')"
  shows "torque_ok ci s'" "\<bar>t\<bar> \<le> 1" "\<not> la_active a \<Longrightarrow> t = 0"
proof -
  let ?s = "filter_jerk a (append_request a (torque_override ci dflt p s))"
  have ok: "torque_ok ci ?s" using torque_override_ok [OF assms(2,3)] by simp
  have "torque_ok ci s' \<and> \<bar>t\<bar> \<le> 1 \<and> (\<not> la_active a \<longrightarrow> t = 0)"
  proof (cases "la_active a")
    case False
    with assms(4) ok show ?thesis by (auto simp: lat_torque_update_def Let_def)
  next
    case True
    with assms(4) obtain t' where "torque_active ci a (torque_calculate ci a ?s) ?s = Inr ((t', lg), s')" "t = - t'"
      by (auto simp: lat_torque_update_def Let_def bind_result_def split: sum.splits prod.splits)
    with torque_active_ok [OF assms(1) ok] True show ?thesis by auto
  qed
  then show "torque_ok ci s'" "\<bar>t\<bar> \<le> 1" "\<not> la_active a \<Longrightarrow> t = 0" by simp_all
qed

text \<open>The neural controller's factor for the acceleration error is left at 1 by one zero lookahead.\<close>

lemma lookahead_zero_sticks:
  assumes "update_calculations ci a d x = Inr x'"
  shows "tx_lat_accel_friction_factor x' = tx_lat_accel_friction_factor x \<or> tx_lat_accel_friction_factor x' = 1"
  using assms by (auto simp: update_calculations_def apply_lookahead_def Let_def bind_result_def split: option.splits if_splits sum.splits)

text \<open>Overridden parameters put the limits of the lateral acceleration back, whoever uses the PID.\<close>

lemma override_resets_limits:
  assumes "tx_enforce_toggle (to_ext s)" "(tx_frame (to_ext s) + 1) mod 300 = 0" "get_bool p ''TorqueParamsOverrideEnabled''"
  shows "pid_pos_limit (to_pid (torque_override ci dflt p s)) =
     ci_lateral_accel_from_torque ci (lt_steer_max (to_base s)) (to_torque_params (torque_override ci dflt p s))"
  using assms by (simp add: torque_override_def update_override_torque_params_def Let_def) (simp add: torque_update_limits_def set_limits_def)

text \<open>
  With the neural controller on, the PID advances twice in a cycle, the second time on the error
  in torque, and the torque is its second output: within the limits the PID has at that time,
  which are lateral accelerations unless live parameters have replaced them.
\<close>

lemma update_calculations_frame:
  "update_calculations ci a d x = Inr x' \<Longrightarrow> nnlc_enabled x' = nnlc_enabled x \<and> tx_model x' = tx_model x"
  by (auto simp: update_calculations_def apply_lookahead_def nnlc_enabled_def Let_def bind_result_def split: option.splits if_splits sum.splits)

lemma nnlc_advances_twice:
  assumes "torque_ext_update ci a tp c q x = Inr (c', q', x')" "nnlc_enabled x" "tx_model x = Some mv"
  shows "\<exists>c1 :: ext_cycle. q' = pid_update \<lparr>pi_error = xc_error c1, pi_error_rate = 0, pi_speed = cs_vEgo (la_CS a), pi_feedforward = xc_ff c1,
            pi_freeze = freeze_integrator a\<rparr> q \<and> xc_output_torque c' = pid_control q'"
proof -
  obtain x1 where x1: "update_calculations ci a (xc_desired_lateral_accel c) (x\<lparr>tx_pid_shared := True\<rparr>) = Inr x1"
    using assms(1) by (auto simp: torque_ext_update_def bind_result_def split: sum.splits)
  have "nnlc_enabled x1" "tx_model x1 = Some mv" using update_calculations_frame [OF x1] assms(2,3) by (simp_all add: nnlc_enabled_def)
  with x1 assms(1) have "\<exists>c1 r. (c', q', x') = (fst (update_output_torque a c1 q), snd (update_output_torque a c1 q), r)"
    by (auto simp: torque_ext_update_def update_neural_network_feedforward_def bind_result_def Let_def split_def split: sum.splits)
  then obtain c1 r where "(c', q', x') = (fst (update_output_torque a c1 q), snd (update_output_torque a c1 q), r)" by blast
  then have "q' = pid_update \<lparr>pi_error = xc_error c1, pi_error_rate = 0, pi_speed = cs_vEgo (la_CS a), pi_feedforward = xc_ff c1,
      pi_freeze = freeze_integrator a\<rparr> q \<and> xc_output_torque c' = pid_control q'"
    by (simp add: update_output_torque_def Let_def)
  then show ?thesis by blast
qed

end
