(* ===== verification/Controls.thy ===== *)
theory Controls
  imports Lat_Torque Long_Control Selfdrived_Safety
begin

text \<open>
  The process that turns plans into commands to the car: \<open>selfdrive/controls/controlsd.py\<close> with
  sunnypilot's part \<open>sunnypilot/selfdrive/controls/controlsd_ext.py\<close>. The state of openpilot and
  of MADS comes as the message \<open>Selfdrived\<close> publishes. Actuator values are reals, so that the
  check for infinite ones never replaces any.
\<close>

section \<open>Messages\<close>

record controls_in =
  cn_CS :: car_state
  cn_ss :: selfdrive_state_msg
  cn_onroadEvents :: "(event_id \<times> et list) list"
  cn_lp :: live_params
  cn_torque_checks :: bool
  cn_useParams :: bool
  cn_latAccelFactorFiltered :: real
  cn_latAccelOffsetFiltered :: real
  cn_frictionCoefficientFiltered :: real
  cn_model :: model_v2
  cn_desiredCurvature :: real
  cn_laneChangeState :: lane_change_state
  cn_laneChangeDirection :: lane_change_direction
  cn_aTarget :: real
  cn_shouldStop :: bool
  cn_hasLead :: bool
  cn_lateralDelay :: real
  cn_calib_updated :: bool
  cn_pose_updated :: bool
  cn_live :: sd_msgs
  cn_carOutput_angle :: real
  cn_carOutput_torque :: real
  cn_assistance_valid :: bool
  cn_awarenessStatus :: real
  cn_leads :: "lead_data \<times> lead_data"
  cn_params :: params
  cn_monotonic :: real

text \<open>The commands: the fields of \<open>CarControl\<close> other processes read, the other actuators and the display.\<close>

record hud_control =
  hd_setSpeed :: real
  hd_speedVisible :: bool
  hd_lanesVisible :: bool
  hd_leadVisible :: bool
  hd_leadDistanceBars :: int
  hd_visualAlert :: visual_alert
  hd_rightLaneVisible :: bool
  hd_leftLaneVisible :: bool
  hd_rightLaneDepart :: bool
  hd_leftLaneDepart :: bool

record car_command = car_control +
  cc_longControlState :: long_ctrl_state
  cc_curvature :: real
  cc_steeringAngleDeg :: real
  cc_leftBlinker :: bool
  cc_rightBlinker :: bool
  cc_currentCurvature :: real
  cc_orientationNED :: "vec3 option"
  cc_angularVelocity :: "vec3 option"
  cc_hud :: hud_control

datatype lat_log = Log_angle angle_log | Log_pid pid_log | Log_torque torque_log

record controls_state =
  ct_valid :: bool
  ct_curvature :: real
  ct_desiredCurvature :: real
  ct_longControlState :: long_ctrl_state
  ct_upAccelCmd :: real
  ct_uiAccelCmd :: real
  ct_ufAccelCmd :: real
  ct_forceDecel :: bool
  ct_lateralControlState :: lat_log

record car_control_sp =
  sx_valid :: bool
  sx_leadOne :: lead_data
  sx_leadTwo :: lead_data
  sx_mads_active :: bool
  sx_mads_enabled :: bool
  sx_mads_available :: bool
  sx_mads_state :: mads_state
  sx_icbm_state :: icbm_state
  sx_icbm_sendButton :: send_button
  sx_icbm_vTarget :: int

section \<open>The lateral controller\<close>

text \<open>A car with neither tuning nor angle control has no controller: its attribute is never set.\<close>

datatype lat_controller = LaC_angle lat_angle | LaC_pid lat_pid | LaC_torque lat_torque | LaC_unset

definition lat_controller_init :: "car_interface \<Rightarrow> car_params \<Rightarrow> torque_ext \<Rightarrow> lat_controller" where
  "lat_controller_init ci CP ext =
     (if cp_steerControlType CP = SCT_angle then LaC_angle (lat_angle_init CP DT_CTRL)
      else (case cp_lateralTuning CP of
          LT_pid kp ki kf \<Rightarrow> LaC_pid (lat_pid_init CP kp ki kf DT_CTRL)
        | LT_torque t \<Rightarrow> LaC_torque (lat_torque_init ci CP t ext DT_CTRL)
        | LT_other \<Rightarrow> LaC_unset))"

fun lat_controller_reset :: "lat_controller \<Rightarrow> lat_controller result" where
  "lat_controller_reset (LaC_angle s) = Inr (LaC_angle (s\<lparr>an_base := lat_control_reset (an_base s)\<rparr>))"
| "lat_controller_reset (LaC_pid s) = Inr (LaC_pid (s\<lparr>lq_base := lat_control_reset (lq_base s)\<rparr>))"
| "lat_controller_reset (LaC_torque s) = Inr (LaC_torque (s\<lparr>to_base := lat_control_reset (to_base s)\<rparr>))"
| "lat_controller_reset LaC_unset = Inl AttributeError"

fun lat_controller_update :: "car_interface \<Rightarrow> (string \<Rightarrow> real) \<Rightarrow> params \<Rightarrow> lat_in \<Rightarrow> lat_controller \<Rightarrow> ((real \<times> real \<times> lat_log) \<times> lat_controller) result" where
  "lat_controller_update ci dflt p a (LaC_angle s) =
     (let ((t, d, lg), s') = lat_angle_update ci a s in Inr ((t, d, Log_angle lg), LaC_angle s'))"
| "lat_controller_update ci dflt p a (LaC_pid s) =
     (let ((t, d, lg), s') = lat_pid_update ci a s in Inr ((t, d, Log_pid lg), LaC_pid s'))"
| "lat_controller_update ci dflt p a (LaC_torque s) =
     bind_result (lat_torque_update ci dflt p a s) (\<lambda>((t, d, lg), s'). Inr ((t, d, Log_torque lg), LaC_torque s'))"
| "lat_controller_update ci dflt p a LaC_unset = Inl AttributeError"

section \<open>The state of the process\<close>

record controls =
  co_CP :: car_params
  co_CP_SP :: car_params_sp
  co_param_update_time :: real
  co_lat_delay :: real
  co_blinker_pause :: blinker_pause
  co_steer_limited_by_safety :: bool
  co_curv :: real
  co_desired_curvature :: real
  co_pose_calibrator :: pose_calibrator
  co_calibrated_pose :: "pose option"
  co_LoC :: long_control
  co_LaC :: lat_controller

record controls_env =
  ce_ci :: car_interface
  ce_dflt :: "string \<Rightarrow> int"
  ce_fdflt :: "string \<Rightarrow> real"

definition Controls_init :: "controls_env \<Rightarrow> car_params \<Rightarrow> car_params_sp \<Rightarrow> params \<Rightarrow> bool \<Rightarrow> nn_model \<Rightarrow> controls" where
  "Controls_init env CP CP_SP p has_nn_model nn =
     \<lparr>co_CP = CP, co_CP_SP = CP_SP, co_param_update_time = 0, co_lat_delay = get_float (ce_fdflt env) p ''LagdValueCache'',
      co_blinker_pause = blinker_pause_init p, co_steer_limited_by_safety = False, co_curv = 0, co_desired_curvature = 0,
      co_pose_calibrator = pose_calibrator_init, co_calibrated_pose = None, co_LoC = long_init CP CP_SP,
      co_LaC = lat_controller_init (ce_ci env) CP (torque_ext_init CP p has_nn_model nn)\<rparr>"

definition controls_update :: "controls_in \<Rightarrow> controls \<Rightarrow> controls result" where
  "controls_update i s0 =
     bind_result (if cn_calib_updated i then bind_result (feed_live_calib (cn_live i) (co_pose_calibrator s0))
         (\<lambda>c. Inr (s0\<lparr>co_pose_calibrator := c\<rparr>)) else Inr s0) (\<lambda>s.
     Inr (if cn_pose_updated i
          then s\<lparr>co_calibrated_pose := Some (build_calibrated_pose (co_pose_calibrator s) (from_live_pose (cn_live i)))\<rparr> else s))"

section \<open>The cycle\<close>

definition LAT_SMOOTH_SECONDS :: real where "LAT_SMOOTH_SECONDS = 0"

definition vm_of :: "live_params \<Rightarrow> vm_params" where
  "vm_of lp = (max (pv_stiffnessFactor lp) (1/10), max (pv_steerRatio lp) (1/10))"

definition current_curvature :: "car_interface \<Rightarrow> controls_in \<Rightarrow> real" where
  "current_curvature ci i = - ci_calc_curvature ci (vm_of (cn_lp i))
     (radians (cs_steeringAngleDeg (cn_CS i) - pv_angleOffsetDeg (cn_lp i))) (cs_vEgo (cn_CS i)) (pv_roll (cn_lp i))"

text \<open>The live parameters, the plan and the lag for a torque controller; others have no extension.\<close>

definition update_torque_controller :: "car_interface \<Rightarrow> controls_in \<Rightarrow> real \<Rightarrow> lat_controller \<Rightarrow> lat_controller result" where
  "update_torque_controller ci i lat_delay L = (case L of
       LaC_torque s0 \<Rightarrow>
         let s1 = (if cn_torque_checks i \<and> cn_useParams i
               then ext_update_limits (update_live_torque_params ci (cn_latAccelFactorFiltered i) (cn_latAccelOffsetFiltered i)
                      (cn_frictionCoefficientFiltered i) s0) else s0)
         in Inr (LaC_torque (s1\<lparr>to_ext := update_lateral_lag lat_delay (update_model_v2 (cn_model i) (to_ext s1))\<rparr>))
     | _ \<Rightarrow> Inl AttributeError)"

definition is_torque_tuning :: "car_params \<Rightarrow> bool" where
  "is_torque_tuning CP \<longleftrightarrow> (case cp_lateralTuning CP of LT_torque t \<Rightarrow> True | _ \<Rightarrow> False)"

definition get_lat_active :: "controls_in \<Rightarrow> blinker_pause \<Rightarrow> bool \<times> blinker_pause" where
  "get_lat_active i b0 =
     (let (paused, b) = blinker_pause_update (cn_CS i) DT_CTRL b0
      in (if paused then False else if ss_mads_available (cn_ss i) then ss_mads_active (cn_ss i) else ss_active (cn_ss i), b))"

definition controls_standstill :: "car_params \<Rightarrow> car_state \<Rightarrow> bool" where
  "controls_standstill CP CS \<longleftrightarrow> \<bar>cs_vEgo CS\<bar> \<le> max (cp_minSteerSpeed CP) (3/10) \<or> cs_standstill CS"

definition lat_active :: "controls_in \<Rightarrow> bool \<Rightarrow> controls \<Rightarrow> bool" where
  "lat_active i active s \<longleftrightarrow> active \<and> \<not> cs_steerFaultTemporary (cn_CS i) \<and> \<not> cs_steerFaultPermanent (cn_CS i)
     \<and> (\<not> controls_standstill (co_CP s) (cn_CS i) \<or> cp_steerAtStandstill (co_CP s))"

definition sunny_or_op_long :: "controls \<Rightarrow> bool" where
  "sunny_or_op_long s \<longleftrightarrow> cp_openpilotLongitudinalControl (co_CP s) \<or> \<not> cpsp_pcmCruiseSpeed (co_CP_SP s)"

definition long_active :: "controls_in \<Rightarrow> controls \<Rightarrow> bool" where
  "long_active i s \<longleftrightarrow> ss_enabled (cn_ss i) \<and> \<not> (\<exists>e\<in>set (cn_onroadEvents i). OVERRIDE_LONGITUDINAL \<in> set (snd e)) \<and> sunny_or_op_long s"

definition long_in_of :: "car_interface \<Rightarrow> controls_in \<Rightarrow> bool \<Rightarrow> long_in" where
  "long_in_of ci i active =
     (let limits = ci_pid_accel_limits ci (cs_vEgo (cn_CS i)) (cs_vCruise (cn_CS i) * KPH_TO_MS)
      in \<lparr>li_active = active, li_CS = cn_CS i, li_a_target = cn_aTarget i, li_should_stop = cn_shouldStop i,
          li_accel_min = fst limits, li_accel_max = snd limits\<rparr>)"

definition lat_in_of :: "controls_in \<Rightarrow> bool \<Rightarrow> real \<Rightarrow> bool \<Rightarrow> controls \<Rightarrow> lat_in" where
  "lat_in_of i active desired limited s =
     \<lparr>la_active = active, la_CS = cn_CS i, la_vm = vm_of (cn_lp i), la_params = cn_lp i,
      la_steer_limited = co_steer_limited_by_safety s, la_desired_curvature = desired, la_pose = co_calibrated_pose s,
      la_curvature_limited = limited, la_lat_delay = cn_lateralDelay i + LAT_SMOOTH_SECONDS\<rparr>"

text \<open>The commands before they are published; fields set later have their default.\<close>

definition empty_hud :: hud_control where
  "empty_hud = \<lparr>hd_setSpeed = 0, hd_speedVisible = False, hd_lanesVisible = False, hd_leadVisible = False, hd_leadDistanceBars = 0,
     hd_visualAlert = VA_none, hd_rightLaneVisible = False, hd_leftLaneVisible = False, hd_rightLaneDepart = False, hd_leftLaneDepart = False\<rparr>"

definition car_command_of :: "controls_in \<Rightarrow> bool \<Rightarrow> bool \<Rightarrow> long_ctrl_state \<Rightarrow> real \<Rightarrow> real \<Rightarrow> real \<times> real \<Rightarrow> car_command" where
  "car_command_of i lat lng long_state accel curvature steer =
     (let changing = cn_laneChangeState i \<noteq> LC_off
      in \<lparr>cc_enabled = ss_enabled (cn_ss i), cc_latActive = lat, cc_longActive = lng, cc_cruise_override = False,
          cc_cruise_cancel = False, cc_cruise_resume = False, cc_accel = accel, cc_torque = fst steer,
          cc_longControlState = long_state, cc_curvature = curvature, cc_steeringAngleDeg = snd steer,
          cc_leftBlinker = (changing \<and> cn_laneChangeDirection i = LCD_left),
          cc_rightBlinker = (changing \<and> cn_laneChangeDirection i = LCD_right),
          cc_currentCurvature = 0, cc_orientationNED = None, cc_angularVelocity = None, cc_hud = empty_hud\<rparr>)"

text \<open>The longitudinal part: reset while inactive, then the update with the limits of the car.\<close>

definition run_long :: "car_interface \<Rightarrow> controls_in \<Rightarrow> bool \<Rightarrow> long_control \<Rightarrow> long_control" where
  "run_long ci i active l = long_update (long_in_of ci i active) (if active then l else long_reset l)"

text \<open>The lateral part: reset while inactive, the limited curvature, and the update.\<close>

definition next_curvature :: "controls_in \<Rightarrow> bool \<Rightarrow> controls \<Rightarrow> real \<times> bool" where
  "next_curvature i active s = clip_curvature (cs_vEgo (cn_CS i)) (co_desired_curvature s)
     (if active then cn_desiredCurvature i else co_curv s) (pv_roll (cn_lp i))"

definition run_lat :: "controls_env \<Rightarrow> controls_in \<Rightarrow> bool \<Rightarrow> controls \<Rightarrow> ((real \<times> real \<times> lat_log) \<times> controls) result" where
  "run_lat env i active s =
     bind_result (if active then Inr (co_LaC s) else lat_controller_reset (co_LaC s)) (\<lambda>L.
       let (desired, limited) = next_curvature i active s
       in bind_result (lat_controller_update (ce_ci env) (ce_fdflt env) (cn_params i) (lat_in_of i active desired limited s) L) (\<lambda>(out, L').
          Inr (out, s\<lparr>co_desired_curvature := desired, co_LaC := L'\<rparr>)))"

definition state_control :: "controls_env \<Rightarrow> controls_in \<Rightarrow> controls \<Rightarrow> ((car_command \<times> lat_log) \<times> controls) result" where
  "state_control env i s0 =
     (let s1 = s0\<lparr>co_curv := current_curvature (ce_ci env) i\<rparr>
      in bind_result (if is_torque_tuning (co_CP s1) then update_torque_controller (ce_ci env) i (co_lat_delay s1) (co_LaC s1) else Inr (co_LaC s1)) (\<lambda>L.
         let (active, b) = get_lat_active i (co_blinker_pause s1);
             s2 = s1\<lparr>co_LaC := L, co_blinker_pause := b\<rparr>;
             lat = lat_active i active s2; lng = long_active i s2; long_state = lo_state (co_LoC s2);
             l = run_long (ce_ci env) i lng (co_LoC s2)
         in bind_result (run_lat env i lat (s2\<lparr>co_LoC := l\<rparr>)) (\<lambda>((torque, angle, lg), s3).
            Inr ((car_command_of i lat lng long_state (lo_last_output_accel l) (co_desired_curvature s3) (torque, angle), lg), s3))))"

section \<open>Publishing\<close>

definition hud_of :: "controls_in \<Rightarrow> car_command \<Rightarrow> hud_control" where
  "hud_of i c = (let h = cc_hud c in h\<lparr>hd_setSpeed := cs_vCruiseCluster (cn_CS i) * KPH_TO_MS, hd_speedVisible := cc_enabled c,
     hd_lanesVisible := cc_enabled c, hd_leadVisible := cn_hasLead i, hd_leadDistanceBars := ss_personality (cn_ss i) + 1,
     hd_visualAlert := visual_alert (ss_alert (cn_ss i)), hd_rightLaneVisible := True, hd_leftLaneVisible := True,
     hd_leftLaneDepart := (if cn_assistance_valid i then da_leftLaneDeparture (cn_live i) else hd_leftLaneDepart h),
     hd_rightLaneDepart := (if cn_assistance_valid i then da_rightLaneDeparture (cn_live i) else hd_rightLaneDepart h)\<rparr>)"

definition complete_command :: "controls_in \<Rightarrow> controls \<Rightarrow> car_command \<Rightarrow> car_command" where
  "complete_command i s c = c\<lparr>cc_currentCurvature := co_curv s,
     cc_orientationNED := map_option (\<lambda>p. me_xyz (po_orientation p)) (co_calibrated_pose s),
     cc_angularVelocity := map_option (\<lambda>p. me_xyz (po_angular_velocity p)) (co_calibrated_pose s),
     cc_cruise_override := cc_enabled c \<and> \<not> cc_longActive c \<and> sunny_or_op_long s,
     cc_cruise_cancel := cr_enabled (cs_cruiseState (cn_CS i)) \<and> (\<not> cc_enabled c \<or> \<not> cp_pcmCruise (co_CP s)),
     cc_cruise_resume := cc_enabled c \<and> cr_standstill (cs_cruiseState (cn_CS i)) \<and> \<not> cn_shouldStop i, cc_hud := hud_of i c\<rparr>"

definition steer_limited :: "controls_in \<Rightarrow> car_command \<Rightarrow> controls \<Rightarrow> bool" where
  "steer_limited i c s =
     (if ss_active (cn_ss i)
      then if cp_steerControlType (co_CP s) = SCT_angle
           then \<bar>cc_steeringAngleDeg c - cn_carOutput_angle i\<bar> > STEER_ANGLE_SATURATION_THRESHOLD
           else \<bar>cc_torque c - cn_carOutput_torque i\<bar> > 1/100
      else co_steer_limited_by_safety s)"

definition controls_state_of :: "controls_in \<Rightarrow> lat_log \<Rightarrow> controls \<Rightarrow> controls_state" where
  "controls_state_of i lg s = \<lparr>ct_valid = cs_canValid (cn_CS i), ct_curvature = co_curv s, ct_desiredCurvature = co_desired_curvature s,
     ct_longControlState = lo_state (co_LoC s), ct_upAccelCmd = pid_p (lo_pid (co_LoC s)), ct_uiAccelCmd = pid_i (lo_pid (co_LoC s)),
     ct_ufAccelCmd = pid_f (lo_pid (co_LoC s)),
     ct_forceDecel = (cn_awarenessStatus i < 0 \<or> ss_state (cn_ss i) = OP_softDisabling), ct_lateralControlState = lg\<rparr>"

text \<open>The message \<open>carControl\<close> is valid when the car's messages are.\<close>

definition controls_publish :: "controls_in \<Rightarrow> car_command \<times> lat_log \<Rightarrow> controls \<Rightarrow> (controls_state \<times> bool \<times> car_command) \<times> controls" where
  "controls_publish i cl s0 =
     (let c = complete_command i s0 (fst cl); s = s0\<lparr>co_steer_limited_by_safety := steer_limited i c s0\<rparr>
      in ((controls_state_of i (snd cl) s, cs_canValid (cn_CS i), c), s))"

definition get_lat_delay :: "(string \<Rightarrow> real) \<Rightarrow> params \<Rightarrow> real \<Rightarrow> real" where
  "get_lat_delay dflt p stock_lat_delay = (if get_bool p ''LagdToggle'' then get_float dflt p ''LagdValueCache'' else stock_lat_delay)"

definition get_params_sp :: "controls_env \<Rightarrow> controls_in \<Rightarrow> controls \<Rightarrow> controls" where
  "get_params_sp env i s =
     (if cn_monotonic i - co_param_update_time s > PARAMS_UPDATE_PERIOD
      then s\<lparr>co_blinker_pause := blinker_get_params (ce_dflt env) (cn_params i) (co_blinker_pause s),
             co_lat_delay := (if is_torque_tuning (co_CP s) then get_lat_delay (ce_fdflt env) (cn_params i) (cn_lateralDelay i) else co_lat_delay s),
             co_param_update_time := cn_monotonic i\<rparr>
      else s)"

definition state_control_ext :: "controls_in \<Rightarrow> car_control_sp" where
  "state_control_ext i = \<lparr>sx_valid = cs_canValid (cn_CS i), sx_leadOne = fst (cn_leads i), sx_leadTwo = snd (cn_leads i),
     sx_mads_active = ss_mads_active (cn_ss i), sx_mads_enabled = ss_mads_enabled (cn_ss i), sx_mads_available = ss_mads_available (cn_ss i),
     sx_mads_state = ss_mads_state (cn_ss i), sx_icbm_state = ss_icbm_state (cn_ss i), sx_icbm_sendButton = ss_icbm_sendButton (cn_ss i),
     sx_icbm_vTarget = ss_icbm_vTarget (cn_ss i)\<rparr>"

record controls_msgs =
  ck_controlsState :: controls_state
  ck_valid :: bool
  ck_carControl :: car_command
  ck_carControlSP :: car_control_sp

definition controls_cycle :: "controls_env \<Rightarrow> controls_in \<Rightarrow> controls \<Rightarrow> (controls_msgs \<times> controls) result" where
  "controls_cycle env i s0 =
     bind_result (controls_update i s0) (\<lambda>s1.
     bind_result (state_control env i s1) (\<lambda>(cl, s2).
       let ((cs, valid, c), s3) = controls_publish i cl s2
       in Inr (\<lparr>ck_controlsState = cs, ck_valid = valid, ck_carControl = c, ck_carControlSP = state_control_ext i\<rparr>, get_params_sp env i s3)))"

section \<open>Facts\<close>

text \<open>The lateral controller is the one the car's tuning asks for, and within its limits.\<close>

fun controller_ok :: "car_interface \<Rightarrow> car_params \<Rightarrow> lat_controller \<Rightarrow> bool" where
  "controller_ok ci CP (LaC_angle s) = (\<not> is_torque_tuning CP)"
| "controller_ok ci CP (LaC_pid s) = (lat_pid_ok s \<and> \<not> is_torque_tuning CP)"
| "controller_ok ci CP (LaC_torque s) = (torque_ok ci s \<and> is_torque_tuning CP)"
| "controller_ok ci CP LaC_unset = False"

definition env_ok :: "controls_env \<Rightarrow> bool" where
  "env_ok env \<longleftrightarrow> torque_laws (ce_ci env) \<and> (\<forall>v w. fst (ci_pid_accel_limits (ce_ci env) v w) \<le> snd (ci_pid_accel_limits (ce_ci env) v w))"

definition controls_ok :: "controls_env \<Rightarrow> controls \<Rightarrow> bool" where
  "controls_ok env s \<longleftrightarrow> controller_ok (ce_ci env) (co_CP s) (co_LaC s)"

text \<open>
  Messages of the shapes their senders give them: three calibration angles, 33 accelerations of
  the plan, and positive factors of the lateral acceleration, live and overridden.
\<close>

definition controls_in_ok :: "controls_env \<Rightarrow> controls_in \<Rightarrow> bool" where
  "controls_in_ok env i \<longleftrightarrow> (cn_calib_updated i \<longrightarrow> length (lc_rpyCalib (cn_live i)) = 3) \<and> length (mw_acceleration_y (cn_model i)) = 33
     \<and> cn_latAccelFactorFiltered i > 0 \<and> get_float (ce_fdflt env) (cn_params i) ''TorqueParamsOverrideLatAccelFactor'' > 0"

lemma reset_ok:
  "controller_ok ci CP L \<Longrightarrow> \<exists>L'. lat_controller_reset L = Inr L' \<and> controller_ok ci CP L'"
  by (cases L) (auto simp: lat_pid_ok_def torque_ok_def lat_control_reset_def)

lemma length_diffs: "length (diffs xs) = length xs - 1"
  by (induction xs rule: diffs.induct) auto

lemma lookahead_jerk_returns:
  "length (mw_acceleration_y mv) = 33 \<Longrightarrow> \<exists>j. lookahead_jerk CS d mv t = Inr j"
  by (simp add: lookahead_jerk_def get_predicted_lateral_jerk_def model_interp_def length_diffs t_diffs_def MODEL_T_IDXS_def Let_def)

text \<open>The model the extension has, if any, is of the right shape.\<close>

fun model_ok :: "lat_controller \<Rightarrow> bool" where
  "model_ok (LaC_torque s) = (\<forall>mv. tx_model (to_ext s) = Some mv \<longrightarrow> length (mw_acceleration_y mv) = 33)"
| "model_ok _ = True"

lemma update_torque_controller_ok:
  assumes "controller_ok (ce_ci env) CP L" "is_torque_tuning CP" "controls_in_ok env i"
  shows "\<exists>L'. update_torque_controller (ce_ci env) i d L = Inr L' \<and> controller_ok (ce_ci env) CP L' \<and> model_ok L'"
proof -
  from assms(1,2) obtain s where L: "L = LaC_torque s" "torque_ok (ce_ci env) s" by (cases L) auto
  let ?s1 = "if cn_torque_checks i \<and> cn_useParams i then ext_update_limits (update_live_torque_params (ce_ci env)
    (cn_latAccelFactorFiltered i) (cn_latAccelOffsetFiltered i) (cn_frictionCoefficientFiltered i) s) else s"
  let ?s2 = "?s1\<lparr>to_ext := update_lateral_lag d (update_model_v2 (cn_model i) (to_ext ?s1))\<rparr>"
  have live: "torque_ok (ce_ci env) (update_live_torque_params (ce_ci env) (cn_latAccelFactorFiltered i)
      (cn_latAccelOffsetFiltered i) (cn_frictionCoefficientFiltered i) s)"
    using L(2) assms(3) by (intro update_live_torque_params_ok) (simp_all add: controls_in_ok_def)
  have "torque_ok (ce_ci env) ?s1" using live L(2) ext_update_limits_ok [OF live] by simp
  then have "torque_ok (ce_ci env) ?s2" by (simp add: torque_ok_def update_lateral_lag_def update_model_v2_def Let_def)
  moreover have "model_ok (LaC_torque ?s2)"
    using assms(3) by (simp add: update_lateral_lag_def update_model_v2_def Let_def controls_in_ok_def)
  ultimately show ?thesis using assms(2) by (simp add: L(1) update_torque_controller_def Let_def)
qed

lemma torque_ext_update_returns:
  assumes "\<not> tx_enabled x" "\<forall>mv. tx_model x = Some mv \<longrightarrow> length (mw_acceleration_y mv) = 33"
  shows "\<exists>r. torque_ext_update ci a tp c q x = Inr r"
proof -
  have "\<exists>x1. update_calculations ci a d (x\<lparr>tx_pid_shared := True\<rparr>) = Inr x1" for d
  proof (cases "tx_model x")
    case None
    then show ?thesis by (simp add: update_calculations_def Let_def)
  next
    case (Some mv)
    with assms(2) lookahead_jerk_returns obtain j where "lookahead_jerk (la_CS a) d mv (tx_desired_lat_jerk_time x) = Inr j" by blast
    with Some show ?thesis by (simp add: update_calculations_def Let_def)
  qed
  then obtain x1 where x1: "update_calculations ci a (xc_desired_lateral_accel c) (x\<lparr>tx_pid_shared := True\<rparr>) = Inr x1" by blast
  have "\<not> tx_enabled x1" using update_calculations_enabled [OF x1] assms(1) by simp
  then show ?thesis
    by (simp add: torque_ext_update_def x1 update_neural_network_feedforward_def nnlc_enabled_def split: option.split)
qed

lemma override_model:
  "update_override_torque_params dflt p tp x = (b, tp', x') \<Longrightarrow> tx_model x' = tx_model x"
  by (auto simp: update_override_torque_params_def Let_def split: if_splits)

lemma torque_override_model [simp]:
  "tx_model (to_ext (torque_override ci dflt p s)) = tx_model (to_ext s)"
  "tx_enabled (to_ext (torque_override ci dflt p s)) = tx_enabled (to_ext s)"
proof -
  obtain b tp x where u: "update_override_torque_params dflt p (to_torque_params s) (to_ext s) = (b, tp, x)" by (rule prod_cases3)
  from override_model [OF u] override_enabled [OF u]
  show "tx_model (to_ext (torque_override ci dflt p s)) = tx_model (to_ext s)"
    "tx_enabled (to_ext (torque_override ci dflt p s)) = tx_enabled (to_ext s)"
    by (simp_all add: torque_override_def u Let_def)
qed

lemma lat_torque_update_returns:
  assumes "torque_ok ci s" "model_ok (LaC_torque s)"
  shows "\<exists>r. lat_torque_update ci dflt p a s = Inr r"
proof (cases "la_active a")
  case True
  let ?s = "filter_jerk a (append_request a (torque_override ci dflt p s))"
  let ?k = "torque_calculate ci a ?s"
  let ?q = "pid_update (torque_pid_in a ?k) (to_pid ?s)"
  have "\<exists>r. torque_ext_update ci a (to_torque_params ?s)
      (ext_cycle_of a ?k (ci_torque_from_lateral_accel ci (pid_control ?q) (to_torque_params ?s))) ?q (to_ext ?s) = Inr r"
    by (rule torque_ext_update_returns) (use assms in \<open>simp_all add: torque_ok_def filter_jerk_def append_request_def\<close>)
  then have "\<exists>r. torque_active ci a ?k ?s = Inr r" by (auto simp: torque_active_def Let_def split: prod.split)
  with True show ?thesis by (auto simp: lat_torque_update_def Let_def split: prod.split)
qed (simp add: lat_torque_update_def Let_def)

text \<open>
  One update of whichever controller the car has: it returns, keeps the controller within its
  limits, and an inactive one asks for no torque and for the measured angle.
\<close>

lemma lat_controller_update_ok:
  assumes "torque_laws ci" "controller_ok ci CP L" "model_ok L" "get_float dflt p ''TorqueParamsOverrideLatAccelFactor'' > 0"
  shows "\<exists>t d lg L'. lat_controller_update ci dflt p a L = Inr ((t, d, lg), L') \<and> controller_ok ci CP L' \<and> \<bar>t\<bar> \<le> 1
    \<and> (\<not> la_active a \<longrightarrow> t = 0 \<and> (\<forall>s. L = LaC_angle s \<longrightarrow> d = cs_steeringAngleDeg (la_CS a)))"
proof (cases L)
  case (LaC_angle s)
  obtain t d lg s' where u: "lat_angle_update ci a s = ((t, d, lg), s')" by (metis prod.collapse)
  from lat_angle_output [OF u] LaC_angle u assms(2) show ?thesis by simp
next
  case (LaC_pid s)
  obtain t d lg s' where u: "lat_pid_update ci a s = ((t, d, lg), s')" by (metis prod.collapse)
  from lat_pid_update_ok [OF _ u] lat_pid_inactive [of a ci s] LaC_pid u assms(2) show ?thesis by simp
next
  case (LaC_torque s)
  have "torque_ok ci s" "model_ok (LaC_torque s)" using LaC_torque assms(2,3) by simp_all
  from lat_torque_update_returns [OF this] obtain r where "lat_torque_update ci dflt p a s = Inr r" by blast
  then obtain t d lg s' where u: "lat_torque_update ci dflt p a s = Inr ((t, d, lg), s')" by (cases r) (auto split: prod.splits)
  from lat_torque_update_ok [OF assms(1) _ assms(4) u] LaC_torque u assms(2) show ?thesis by simp
next
  case LaC_unset
  with assms(2) show ?thesis by simp
qed

text \<open>The lateral part of a cycle.\<close>

definition lat_result :: "controls_env \<Rightarrow> controls_in \<Rightarrow> bool \<Rightarrow> controls \<Rightarrow> real \<Rightarrow> real \<Rightarrow> controls \<Rightarrow> bool" where
  "lat_result env i active s t d s' \<longleftrightarrow> controls_ok env s' \<and> co_CP s' = co_CP s \<and> co_CP_SP s' = co_CP_SP s
     \<and> co_desired_curvature s' = fst (next_curvature i active s) \<and> \<bar>t\<bar> \<le> 1
     \<and> (\<not> active \<longrightarrow> t = 0 \<and> (\<forall>l. co_LaC s = LaC_angle l \<longrightarrow> d = cs_steeringAngleDeg (cn_CS i)))"

lemma lat_reset_angle: "lat_controller_reset L = Inr L' \<Longrightarrow> (\<exists>l. L' = LaC_angle l) = (\<exists>l. L = LaC_angle l)"
  by (cases L) auto

lemma lat_reset_model: "lat_controller_reset L = Inr L' \<Longrightarrow> model_ok L' = model_ok L"
  by (cases L) auto

lemma run_lat_ok:
  assumes "env_ok env" "controls_ok env s" "model_ok (co_LaC s)" "controls_in_ok env i"
  shows "\<exists>t d lg s'. run_lat env i active s = Inr ((t, d, lg), s') \<and> lat_result env i active s t d s'"
proof -
  obtain L where L: "(if active then Inr (co_LaC s) else lat_controller_reset (co_LaC s)) = Inr L"
    "controller_ok (ce_ci env) (co_CP s) L" "model_ok L" "(\<exists>l. L = LaC_angle l) = (\<exists>l. co_LaC s = LaC_angle l)"
    using reset_ok [of "ce_ci env" "co_CP s" "co_LaC s"] lat_reset_angle lat_reset_model assms(2,3)
    by (cases active) (auto simp: controls_ok_def)
  obtain desired limited where c: "next_curvature i active s = (desired, limited)" by (rule prod.exhaust)
  let ?a = "lat_in_of i active desired limited s"
  have laws: "torque_laws (ce_ci env)" "get_float (ce_fdflt env) (cn_params i) ''TorqueParamsOverrideLatAccelFactor'' > 0"
    using assms(1,4) by (simp_all add: env_ok_def controls_in_ok_def)
  from lat_controller_update_ok [OF laws(1) L(2,3) laws(2), of ?a] obtain t d lg L' where
    u: "lat_controller_update (ce_ci env) (ce_fdflt env) (cn_params i) ?a L = Inr ((t, d, lg), L')"
      "controller_ok (ce_ci env) (co_CP s) L'" "\<bar>t\<bar> \<le> 1"
      "\<not> active \<longrightarrow> t = 0 \<and> (\<forall>l. L = LaC_angle l \<longrightarrow> d = cs_steeringAngleDeg (cn_CS i))"
    by (auto simp: lat_in_of_def)
  have "run_lat env i active s = Inr ((t, d, lg), s\<lparr>co_desired_curvature := desired, co_LaC := L'\<rparr>)"
    unfolding run_lat_def L(1) by (simp add: c u(1))
  moreover have "lat_result env i active s t d (s\<lparr>co_desired_curvature := desired, co_LaC := L'\<rparr>)"
    using u L(4) c by (auto simp: lat_result_def controls_ok_def)
  ultimately show ?thesis by blast
qed

text \<open>The limits of the acceleration in a cycle, and the statement of what it may command.\<close>

definition accel_limits :: "controls_env \<Rightarrow> controls_in \<Rightarrow> real \<times> real" where
  "accel_limits env i = ci_pid_accel_limits (ce_ci env) (cs_vEgo (cn_CS i)) (cs_vCruise (cn_CS i) * KPH_TO_MS)"

definition commanded :: "controls_env \<Rightarrow> controls_in \<Rightarrow> controls \<Rightarrow> car_command \<Rightarrow> bool" where
  "commanded env i s c \<longleftrightarrow> \<bar>cc_torque c\<bar> \<le> 1
     \<and> fst (accel_limits env i) \<le> cc_accel c \<and> cc_accel c \<le> snd (accel_limits env i)
     \<and> (\<not> cc_latActive c \<longrightarrow> cc_torque c = 0 \<and> (\<forall>l. co_LaC s = LaC_angle l \<longrightarrow> cc_steeringAngleDeg c = cs_steeringAngleDeg (cn_CS i)))
     \<and> (\<not> cc_longActive c \<longrightarrow> cc_accel c = clip 0 (fst (accel_limits env i)) (snd (accel_limits env i)))"

lemma run_long_ok:
  assumes "env_ok env"
  shows "fst (accel_limits env i) \<le> lo_last_output_accel (run_long (ce_ci env) i active l)"
    "lo_last_output_accel (run_long (ce_ci env) i active l) \<le> snd (accel_limits env i)"
    "\<not> active \<Longrightarrow> lo_last_output_accel (run_long (ce_ci env) i active l) = clip 0 (fst (accel_limits env i)) (snd (accel_limits env i))"
proof -
  let ?a = "long_in_of (ce_ci env) i active"
  have a: "li_accel_min ?a = fst (accel_limits env i)" "li_accel_max ?a = snd (accel_limits env i)" "li_active ?a = active"
    by (simp_all add: long_in_of_def accel_limits_def Let_def)
  have le: "li_accel_min ?a \<le> li_accel_max ?a" using assms by (simp add: a env_ok_def) (simp add: accel_limits_def)
  show "fst (accel_limits env i) \<le> lo_last_output_accel (run_long (ce_ci env) i active l)"
    using accel_in_limits(1) [OF le] by (simp only: run_long_def a)
  show "lo_last_output_accel (run_long (ce_ci env) i active l) \<le> snd (accel_limits env i)"
    using accel_in_limits(2) [of ?a] by (simp only: run_long_def a)
  show "lo_last_output_accel (run_long (ce_ci env) i active l) = clip 0 (fst (accel_limits env i)) (snd (accel_limits env i))" if "\<not> active"
    using not_active_output(3) [of ?a] that unfolding run_long_def a by blast
qed

text \<open>One \<open>state_control\<close>: \<open>lat_now\<close> is what decides whether the car is steered.\<close>

definition lat_now :: "controls_in \<Rightarrow> controls \<Rightarrow> bool" where
  "lat_now i s \<longleftrightarrow> lat_active i (fst (get_lat_active i (co_blinker_pause s))) s"

lemma lat_long_frame [simp]:
  "lat_active i b (s\<lparr>co_curv := v\<rparr>) = lat_active i b s" "long_active i (s\<lparr>co_curv := v\<rparr>) = long_active i s"
  "lat_active i b (s\<lparr>co_LaC := L\<rparr>) = lat_active i b s" "long_active i (s\<lparr>co_LaC := L\<rparr>) = long_active i s"
  "lat_active i b (s\<lparr>co_blinker_pause := w\<rparr>) = lat_active i b s" "long_active i (s\<lparr>co_blinker_pause := w\<rparr>) = long_active i s"
  by (simp_all add: lat_active_def long_active_def sunny_or_op_long_def)

lemma state_control_ok:
  assumes "env_ok env" "controls_ok env s" "controls_in_ok env i"
  shows "\<exists>c lg s'. state_control env i s = Inr ((c, lg), s') \<and> controls_ok env s' \<and> commanded env i s c
    \<and> cc_latActive c = lat_now i s \<and> cc_longActive c = long_active i s \<and> cc_enabled c = ss_enabled (cn_ss i)
    \<and> cc_curvature c = co_desired_curvature s'
    \<and> co_desired_curvature s' = fst (clip_curvature (cs_vEgo (cn_CS i)) (co_desired_curvature s)
         (if lat_now i s then cn_desiredCurvature i else current_curvature (ce_ci env) i) (pv_roll (cn_lp i)))"
proof -
  let ?s1 = "s\<lparr>co_curv := current_curvature (ce_ci env) i\<rparr>"
  obtain L where L: "(if is_torque_tuning (co_CP ?s1) then update_torque_controller (ce_ci env) i (co_lat_delay ?s1) (co_LaC ?s1)
      else Inr (co_LaC ?s1)) = Inr L" "controller_ok (ce_ci env) (co_CP s) L" "model_ok L"
    "\<forall>l. co_LaC s = LaC_angle l \<longrightarrow> L = LaC_angle l"
  proof (cases "is_torque_tuning (co_CP s)")
    case True
    with update_torque_controller_ok [of env "co_CP s" "co_LaC s" i "co_lat_delay s"] assms(2,3) obtain L where
      "update_torque_controller (ce_ci env) i (co_lat_delay s) (co_LaC s) = Inr L" "controller_ok (ce_ci env) (co_CP s) L" "model_ok L"
      by (auto simp: controls_ok_def)
    moreover have "co_LaC s \<noteq> LaC_angle l" for l using True assms(2) by (auto simp: controls_ok_def)
    ultimately show ?thesis using True that [of L] by simp
  next
    case False
    with assms(2) have "model_ok (co_LaC s)" by (cases "co_LaC s") (auto simp: controls_ok_def)
    with False that [of "co_LaC s"] assms(2) show ?thesis by (simp add: controls_ok_def)
  qed
  obtain active b where lat: "get_lat_active i (co_blinker_pause s) = (active, b)" by (rule prod.exhaust)
  let ?s2 = "?s1\<lparr>co_LaC := L, co_blinker_pause := b\<rparr>"
  let ?l = "run_long (ce_ci env) i (long_active i s) (co_LoC s)"
  have now: "lat_now i s = lat_active i active s" by (simp add: lat_now_def lat)
  have "controls_ok env (?s2\<lparr>co_LoC := ?l\<rparr>)" using L(2) by (simp add: controls_ok_def)
  from run_lat_ok [OF assms(1) this _ assms(3), of "lat_now i s"] L(3) obtain t d lg s' where
    r: "run_lat env i (lat_now i s) (?s2\<lparr>co_LoC := ?l\<rparr>) = Inr ((t, d, lg), s')"
       "lat_result env i (lat_now i s) (?s2\<lparr>co_LoC := ?l\<rparr>) t d s'" by auto
  let ?c = "car_command_of i (lat_now i s) (long_active i s) (lo_state (co_LoC s)) (lo_last_output_accel ?l) (co_desired_curvature s') (t, d)"
  have "state_control env i s = Inr ((?c, lg), s')"
    using r(1) by (simp add: state_control_def L(1) [simplified] lat Let_def now)
  moreover have "commanded env i s ?c"
    using r(2) L(4) run_long_ok [OF assms(1), where i = i and active = "long_active i s" and l = "co_LoC s"]
    by (simp add: commanded_def lat_result_def car_command_of_def Let_def)
  moreover have "co_desired_curvature s' = fst (clip_curvature (cs_vEgo (cn_CS i)) (co_desired_curvature s)
         (if lat_now i s then cn_desiredCurvature i else current_curvature (ce_ci env) i) (pv_roll (cn_lp i)))" "controls_ok env s'"
    using r(2) by (simp_all add: lat_result_def next_curvature_def)
  ultimately show ?thesis by (auto simp: car_command_of_def Let_def)
qed

text \<open>The whole cycle.\<close>

lemma controls_update_ok:
  assumes "controls_in_ok env i"
  shows "\<exists>c p. controls_update i s = Inr (s\<lparr>co_pose_calibrator := c, co_calibrated_pose := p\<rparr>)"
proof -
  have "\<exists>c. (if cn_calib_updated i then bind_result (feed_live_calib (cn_live i) (co_pose_calibrator s))
         (\<lambda>c. Inr (s\<lparr>co_pose_calibrator := c\<rparr>)) else Inr s) = Inr (s\<lparr>co_pose_calibrator := c\<rparr>)"
  proof (cases "cn_calib_updated i")
    case True
    with assms obtain r p y where "lc_rpyCalib (cn_live i) = [r, p, y]"
      by (auto simp: controls_in_ok_def length_Suc_conv numeral_3_eq_3)
    with True show ?thesis by (auto simp: feed_live_calib_def)
  next
    case False
    then show ?thesis by (intro exI [of _ "co_pose_calibrator s"]) simp
  qed
  then obtain c where c: "(if cn_calib_updated i then bind_result (feed_live_calib (cn_live i) (co_pose_calibrator s))
         (\<lambda>c. Inr (s\<lparr>co_pose_calibrator := c\<rparr>)) else Inr s) = Inr (s\<lparr>co_pose_calibrator := c\<rparr>)" by blast
  show ?thesis
  proof (cases "cn_pose_updated i")
    case True
    then have "controls_update i s = Inr (s\<lparr>co_pose_calibrator := c,
        co_calibrated_pose := Some (build_calibrated_pose c (from_live_pose (cn_live i)))\<rparr>)"
      unfolding controls_update_def c by simp
    then show ?thesis by blast
  next
    case False
    then have "controls_update i s = Inr (s\<lparr>co_pose_calibrator := c, co_calibrated_pose := co_calibrated_pose s\<rparr>)"
      unfolding controls_update_def c by simp
    then show ?thesis by blast
  qed
qed

lemma pose_frame [simp]:
  "controls_ok env (s\<lparr>co_pose_calibrator := c, co_calibrated_pose := p\<rparr>) = controls_ok env s"
  "lat_now i (s\<lparr>co_pose_calibrator := c, co_calibrated_pose := p\<rparr>) = lat_now i s"
  "long_active i (s\<lparr>co_pose_calibrator := c, co_calibrated_pose := p\<rparr>) = long_active i s"
  "commanded env i (s\<lparr>co_pose_calibrator := c, co_calibrated_pose := p\<rparr>) = commanded env i s"
  by (simp_all add: controls_ok_def lat_now_def lat_active_def long_active_def sunny_or_op_long_def commanded_def fun_eq_iff)

lemma publish_frame:
  "controls_publish i (c, lg) s = ((cs, v, c'), s') \<Longrightarrow>
     co_LaC s' = co_LaC s \<and> co_CP s' = co_CP s \<and> co_desired_curvature s' = co_desired_curvature s
     \<and> commanded env i t c' = commanded env i t c \<and> cc_latActive c' = cc_latActive c
     \<and> cc_longActive c' = cc_longActive c \<and> cc_enabled c' = cc_enabled c \<and> cc_curvature c' = cc_curvature c"
  by (auto simp: controls_publish_def complete_command_def Let_def commanded_def)

lemma controls_cycle_ok:
  assumes "env_ok env" "controls_ok env s" "controls_in_ok env i"
  shows "\<exists>m s'. controls_cycle env i s = Inr (m, s') \<and> controls_ok env s' \<and> commanded env i s (ck_carControl m)
    \<and> cc_latActive (ck_carControl m) = lat_now i s \<and> cc_longActive (ck_carControl m) = long_active i s
    \<and> cc_enabled (ck_carControl m) = ss_enabled (cn_ss i) \<and> cc_curvature (ck_carControl m) = co_desired_curvature s'
    \<and> co_desired_curvature s' = fst (clip_curvature (cs_vEgo (cn_CS i)) (co_desired_curvature s)
         (if lat_now i s then cn_desiredCurvature i else current_curvature (ce_ci env) i) (pv_roll (cn_lp i)))"
proof -
  from controls_update_ok [OF assms(3)] obtain c p where
    u: "controls_update i s = Inr (s\<lparr>co_pose_calibrator := c, co_calibrated_pose := p\<rparr>)" by blast
  let ?s1 = "s\<lparr>co_pose_calibrator := c, co_calibrated_pose := p\<rparr>"
  have "controls_ok env ?s1" using assms(2) by simp
  from state_control_ok [OF assms(1) this assms(3)] obtain cmd lg s2 where
    st: "state_control env i ?s1 = Inr ((cmd, lg), s2)" "controls_ok env s2" "commanded env i s cmd"
      "cc_latActive cmd = lat_now i s" "cc_longActive cmd = long_active i s" "cc_enabled cmd = ss_enabled (cn_ss i)"
      "cc_curvature cmd = co_desired_curvature s2"
      "co_desired_curvature s2 = fst (clip_curvature (cs_vEgo (cn_CS i)) (co_desired_curvature s)
         (if lat_now i s then cn_desiredCurvature i else current_curvature (ce_ci env) i) (pv_roll (cn_lp i)))" by auto
  obtain cs v cmd' s3 where pb: "controls_publish i (cmd, lg) s2 = ((cs, v, cmd'), s3)" by (metis prod.collapse)
  from publish_frame [OF pb] st show ?thesis
    by (auto simp: controls_cycle_def u st(1) pb controls_ok_def get_params_sp_def)
qed

text \<open>
  The process starts within its limits when the car has a controller of its own, is not torque
  tuned and steered by angles at once, and the neural controller is off.
\<close>

definition car_tuning_ok :: "car_params \<Rightarrow> bool" where
  "car_tuning_ok CP \<longleftrightarrow> (if cp_steerControlType CP = SCT_angle then \<not> is_torque_tuning CP
     else (case cp_lateralTuning CP of LT_pid kp ki kf \<Rightarrow> True | LT_torque t \<Rightarrow> tt_latAccelFactor t > 0 | LT_other \<Rightarrow> False))"

lemma torque_ext_init_enabled [simp]:
  "tx_enabled (torque_ext_init CP p b nn) = get_bool p ''NeuralNetworkLateralControl''"
  by (simp add: torque_ext_init_def Let_def)

lemma Controls_init_ok:
  assumes "car_tuning_ok CP" "\<not> get_bool p ''NeuralNetworkLateralControl''"
  shows "controls_ok env (Controls_init env CP CP_SP p has_nn_model nn)"
  using assms lat_torque_init_ok [of _ "torque_ext_init CP p has_nn_model nn"]
  by (cases "cp_lateralTuning CP")
    (auto simp: controls_ok_def Controls_init_def lat_controller_init_def car_tuning_ok_def is_torque_tuning_def lat_pid_init_ok split: if_splits)

text \<open>
  C3. What the control loop sends to the car, with the neural lateral controller switched off (a
  part of \<open>controls_ok\<close>: with it on the torque can leave the scale). For every state whose
  controllers are within their limits, every message of the right shape and every plan, the cycle
  returns; the torque is within the steering scale of \<open>[-1, 1]\<close>, the acceleration within the
  limits of the car at its speed and the curvature within 0.2. On a road where driving straight is
  allowed at the present roll, the lateral acceleration is within its limits whatever was sent
  before; and from a curvature that is allowed at the present speed and roll, it is as well, and the
  curvature was reached with a lateral jerk of at most 5 m/s^3. A car that is not being steered gets
  no torque, and the measured angle if it is steered by angles. The state stays within the limits.
\<close>

theorem commands_in_limits:
  assumes ok: "env_ok env" "controls_ok env s" "controls_in_ok env i"
  shows "\<exists>m s'. controls_cycle env i s = Inr (m, s') \<and> controls_ok env s' \<and> \<bar>cc_torque (ck_carControl m)\<bar> \<le> 1
    \<and> fst (accel_limits env i) \<le> cc_accel (ck_carControl m) \<and> cc_accel (ck_carControl m) \<le> snd (accel_limits env i)
    \<and> \<bar>cc_curvature (ck_carControl m)\<bar> \<le> 2/10
    \<and> (lat_accel_ok (cs_vEgo (cn_CS i)) (pv_roll (cn_lp i)) 0 \<longrightarrow>
         lat_accel_ok (cs_vEgo (cn_CS i)) (pv_roll (cn_lp i)) (cc_curvature (ck_carControl m)))
    \<and> (\<bar>co_desired_curvature s\<bar> \<le> 2/10 \<and> lat_accel_ok (cs_vEgo (cn_CS i)) (pv_roll (cn_lp i)) (co_desired_curvature s) \<longrightarrow>
         lat_accel_ok (cs_vEgo (cn_CS i)) (pv_roll (cn_lp i)) (cc_curvature (ck_carControl m))
         \<and> \<bar>cc_curvature (ck_carControl m) - co_desired_curvature s\<bar> * (max (cs_vEgo (cn_CS i)) 1)\<^sup>2 \<le> 5 * (1/100))
    \<and> (\<not> cc_latActive (ck_carControl m) \<longrightarrow> cc_torque (ck_carControl m) = 0
         \<and> (\<forall>l. co_LaC s = LaC_angle l \<longrightarrow> cc_steeringAngleDeg (ck_carControl m) = cs_steeringAngleDeg (cn_CS i)))"
proof -
  from controls_cycle_ok [OF ok] obtain m s' where c: "controls_cycle env i s = Inr (m, s')" "controls_ok env s'"
    "commanded env i s (ck_carControl m)" "cc_curvature (ck_carControl m) = co_desired_curvature s'"
    "co_desired_curvature s' = fst (clip_curvature (cs_vEgo (cn_CS i)) (co_desired_curvature s)
         (if lat_now i s then cn_desiredCurvature i else current_curvature (ce_ci env) i) (pv_roll (cn_lp i)))" by blast
  then show ?thesis using clip_curvature_bounded clip_curvature_lat_accel clip_curvature_limits
    by (auto simp: commanded_def)
qed

text \<open>A car whose torque is the lateral acceleration over the factor, driving straight.\<close>

definition test_ci :: car_interface where
  "test_ci = \<lparr>ci_calc_curvature = (\<lambda>_ a _ _. a), ci_get_steer_from_curvature = (\<lambda>_ c _ _. c), ci_steer_feedforward = (\<lambda>a v. a * v ^ 2),
     ci_torque_from_lateral_accel = (\<lambda>x tp. x / tt_latAccelFactor tp), ci_lateral_accel_from_torque = (\<lambda>t tp. t * tt_latAccelFactor tp),
     ci_get_friction = (\<lambda>_ _ _. 0), ci_torque_in_torque_space = (\<lambda>(x, _, _, _) tp _. x / tt_latAccelFactor tp),
     ci_friction_in_torque_space = (\<lambda>_ _ _. 0), ci_pid_accel_limits = (\<lambda>_ _. (-3, 2))\<rparr>"

definition test_controls_env :: controls_env where
  "test_controls_env = \<lparr>ce_ci = test_ci, ce_dflt = (\<lambda>_. 0), ce_fdflt = (\<lambda>_. 1)\<rparr>"

definition torque_cp :: car_params where
  "torque_cp = default_cp\<lparr>cp_lateralTuning := LT_torque \<lparr>tt_latAccelFactor = 2, tt_latAccelOffset = 0, tt_friction = 1/10,
     tt_steeringAngleDeadzoneDeg = 0\<rparr>\<rparr>"

definition test_nn :: nn_model where
  "test_nn = \<lparr>nn_par = \<lparr>np_input_size = 0, np_output_size = 0, np_input_mean = [], np_input_std = [], np_layers = []\<rparr>,
     nn_friction_override = False\<rparr>"

definition test_controls :: controls where
  "test_controls = Controls_init test_controls_env torque_cp default_cp_sp Map.empty False test_nn"

definition test_published :: selfdrive_state_msg where
  "test_published = \<lparr>ss_enabled = True, ss_active = True, ss_state = OP_enabled, ss_engageable = True, ss_experimentalMode = False,
     ss_personality = 0, ss_alert = EmptyAlert, ss_mads_state = MADS_enabled, ss_mads_enabled = True,
     ss_mads_active = True, ss_mads_available = True, ss_icbm_state = ICBM_inactive, ss_icbm_sendButton = Send_none, ss_icbm_vTarget = 0\<rparr>"

definition test_controls_in :: controls_in where
  "test_controls_in = \<lparr>cn_CS = default_cs\<lparr>cs_vEgo := 20\<rparr>, cn_ss = test_published, cn_onroadEvents = [],
     cn_lp = \<lparr>pv_stiffnessFactor = 1, pv_steerRatio = 15, pv_angleOffsetDeg = 0, pv_roll = 0\<rparr>, cn_torque_checks = True, cn_useParams = True,
     cn_latAccelFactorFiltered = 2, cn_latAccelOffsetFiltered = 0, cn_frictionCoefficientFiltered = 1/10,
     cn_model = \<lparr>mw_orientation_x = replicate 33 0, mw_orientation_y = replicate 33 0, mw_acceleration_y = replicate 33 0\<rparr>,
     cn_desiredCurvature = 1, cn_laneChangeState = LC_off, cn_laneChangeDirection = LCD_none, cn_aTarget = 100, cn_shouldStop = False,
     cn_hasLead = False, cn_lateralDelay = 1/10, cn_calib_updated = False, cn_pose_updated = True, cn_live = default_sd_msgs,
     cn_carOutput_angle = 0, cn_carOutput_torque = 0, cn_assistance_valid = True, cn_awarenessStatus = 1,
     cn_leads = (no_lead, no_lead), cn_params = Map.empty, cn_monotonic = 1\<rparr>"

lemma test_controls_ok: "env_ok test_controls_env" "controls_ok test_controls_env test_controls" "controls_in_ok test_controls_env test_controls_in"
proof -
  show "env_ok test_controls_env"
    by (simp add: env_ok_def test_controls_env_def test_ci_def torque_laws_def mono_def divide_right_mono mult_right_mono)
  show "controls_ok test_controls_env test_controls"
    unfolding test_controls_def by (rule Controls_init_ok) (simp_all add: car_tuning_ok_def torque_cp_def default_cp_def get_bool_def)
  show "controls_in_ok test_controls_env test_controls_in"
    by (simp add: controls_in_ok_def test_controls_in_def test_controls_env_def get_float_def)
qed

theorem commands_in_limits_witness:
  "\<exists>m s'. controls_cycle test_controls_env test_controls_in test_controls = Inr (m, s') \<and> \<bar>cc_torque (ck_carControl m)\<bar> \<le> 1
    \<and> \<bar>cc_curvature (ck_carControl m)\<bar> \<le> 2/10 \<and> lat_accel_ok 20 0 (cc_curvature (ck_carControl m))
    \<and> \<bar>cc_curvature (ck_carControl m)\<bar> * 20\<^sup>2 \<le> 5 * (1/100)"
  using commands_in_limits [OF test_controls_ok]
  by (auto simp: test_controls_def Controls_init_def test_controls_in_def lat_accel_ok_def default_cs_def)

text \<open>Neither openpilot nor MADS active: the car is not steered, whether or not MADS is available.\<close>

lemma not_steered: "\<not> ss_mads_active (cn_ss i) \<Longrightarrow> \<not> ss_active (cn_ss i) \<Longrightarrow> \<not> lat_now i s"
  by (simp add: lat_now_def lat_active_def get_lat_active_def Let_def split_def)



end
