(* ===== verification/Ubx_Framer.thy ===== *)
theory Ubx_Framer
  imports Prelude "HOL-Library.Word" "HOL-Library.Sublist"
begin

text \<open>
  The framing of the stream of a u-blox receiver: class \<open>UbxFramer\<close> of
  \<open>system/ubloxd/ubloxd.py\<close>. A frame is two preamble bytes, class and id of the message, the
  length of the payload in little endian, the payload and two checksum bytes. Bytes are words of
  eight bits, so that the checksums wrap as the masks of the code make them.
\<close>

type_synonym bytes = "8 word list"

definition PREAMBLE1 :: "8 word" where "PREAMBLE1 = 0xB5"
definition PREAMBLE2 :: "8 word" where "PREAMBLE2 = 0x62"
definition HEADER_SIZE :: nat where "HEADER_SIZE = 6"
definition CHECKSUM_SIZE :: nat where "CHECKSUM_SIZE = 2"

record ubx_framer =
  uf_buf :: bytes
  uf_last_log_time :: real

definition framer_init :: ubx_framer where
  "framer_init = \<lparr>uf_buf = [], uf_last_log_time = 0\<rparr>"

definition framer_reset :: "ubx_framer \<Rightarrow> ubx_framer" where
  "framer_reset s = s\<lparr>uf_buf := []\<rparr>"

text \<open>The two running sums over the frame without its preamble and its checksum.\<close>

definition checksum :: "bytes \<Rightarrow> 8 word \<times> 8 word" where
  "checksum bs = foldl (\<lambda>(a, b) x. (a + x, b + (a + x))) (0, 0) bs"

definition checksum_ok :: "bytes \<Rightarrow> bool" where
  "checksum_ok frame \<longleftrightarrow> checksum (drop 2 (take (length frame - 2) frame)) = (frame ! (length frame - 2), frame ! (length frame - 1))"

text \<open>\<open>buf.find(b"\xb5\x62")\<close>.\<close>

fun find_preamble :: "bytes \<Rightarrow> nat option" where
  "find_preamble (x # y # bs) = (if x = PREAMBLE1 \<and> y = PREAMBLE2 then Some 0 else map_option Suc (find_preamble (y # bs)))"
| "find_preamble _ = None"

text \<open>The length of the frame the buffer starts with, from its header.\<close>

definition frame_length :: "bytes \<Rightarrow> nat" where
  "frame_length bs = HEADER_SIZE + (unat (bs ! 4) + 256 * unat (bs ! 5)) + CHECKSUM_SIZE"

lemma frame_length_pos [simp]: "0 < frame_length bs"
  by (simp add: frame_length_def HEADER_SIZE_def)

text \<open>The loop of \<open>add_data\<close>: the frames found and what stays in the buffer.\<close>

function frame_loop :: "bytes \<Rightarrow> bytes list \<times> bytes" where
  "frame_loop buf0 =
     (if length buf0 < 2 then ([], buf0)
      else case find_preamble buf0 of
          None \<Rightarrow> ([], [])
        | Some start \<Rightarrow>
            let buf = drop start buf0
            in if length buf < HEADER_SIZE then ([], buf)
               else if length buf < frame_length buf then ([], buf)
               else if checksum_ok (take (frame_length buf) buf)
                    then let (frames, rest) = frame_loop (drop (frame_length buf) buf) in (take (frame_length buf) buf # frames, rest)
                    else frame_loop (drop 1 buf))"
  by pat_completeness auto
termination
  by (relation "measure length") (auto simp: HEADER_SIZE_def frame_length_def)

declare frame_loop.simps [simp del]

definition add_data :: "real \<Rightarrow> bytes \<Rightarrow> ubx_framer \<Rightarrow> bytes list \<times> ubx_framer" where
  "add_data log_time incoming s0 =
     (let s = s0\<lparr>uf_last_log_time := log_time\<rparr>
      in if incoming = [] then ([], s)
         else let (out, buf) = frame_loop (uf_buf s @ incoming) in (out, s\<lparr>uf_buf := buf\<rparr>))"

text \<open>A receiver's messages one after the other, each with its log time.\<close>

fun add_all :: "(real \<times> bytes) list \<Rightarrow> ubx_framer \<Rightarrow> bytes list \<times> ubx_framer" where
  "add_all [] s = ([], s)"
| "add_all ((t, c) # cs) s = (let (out, s1) = add_data t c s; (outs, s2) = add_all cs s1 in (out @ outs, s2))"

section \<open>Facts\<close>

text \<open>What a frame is: the abstract specification the loop is held to.\<close>

definition valid_frame :: "bytes \<Rightarrow> bool" where
  "valid_frame f \<longleftrightarrow> HEADER_SIZE \<le> length f \<and> f ! 0 = PREAMBLE1 \<and> f ! 1 = PREAMBLE2 \<and> length f = frame_length f \<and> checksum_ok f"

lemma find_preamble_Some:
  "find_preamble bs = Some n \<Longrightarrow> n + 1 < length bs \<and> bs ! n = PREAMBLE1 \<and> bs ! (n + 1) = PREAMBLE2"
proof (induction bs arbitrary: n rule: find_preamble.induct)
  case (1 x y bs)
  show ?case
  proof (cases "x = PREAMBLE1 \<and> y = PREAMBLE2")
    case True
    with 1(2) show ?thesis by simp
  next
    case False
    with 1(2) obtain m where m: "n = Suc m" "find_preamble (y # bs) = Some m" by auto
    from 1(1) [OF False m(2)] m(1) show ?thesis by simp
  qed
qed simp_all

lemma find_preamble_start:
  "2 \<le> length bs \<Longrightarrow> bs ! 0 = PREAMBLE1 \<Longrightarrow> bs ! 1 = PREAMBLE2 \<Longrightarrow> find_preamble bs = Some 0"
  by (cases bs rule: find_preamble.cases) auto

lemma frame_length_cong: "length as > 5 \<Longrightarrow> frame_length (as @ bs) = frame_length as"
  by (simp add: frame_length_def nth_append)

lemma frame_length_take: "6 \<le> n \<Longrightarrow> n \<le> length bs \<Longrightarrow> frame_length (take n bs) = frame_length bs"
  by (simp add: frame_length_def)

lemma valid_frame_length: "valid_frame f \<Longrightarrow> 8 \<le> length f"
  by (simp add: valid_frame_def frame_length_def HEADER_SIZE_def CHECKSUM_SIZE_def)

text \<open>Every frame of the loop is valid, and the frames and the rest are a subsequence of the input.\<close>

lemma frame_loop_sound:
  "frame_loop buf = (fs, rest) \<Longrightarrow> (\<forall>f\<in>set fs. valid_frame f) \<and> subseq (concat fs @ rest) buf"
proof (induction buf arbitrary: fs rest rule: frame_loop.induct)
  case (1 buf0)
  show ?case
  proof (cases "find_preamble buf0")
    case None
    with 1(3) show ?thesis by (auto simp: frame_loop.simps [of buf0] split: if_splits)
  next
    case (Some start)
    let ?buf = "drop start buf0"
    note pre = find_preamble_Some [OF Some]
    have sub: "subseq xs buf0" if "subseq xs ?buf" for xs
      using that by (metis append_take_drop_id subseq_drop_many)
    consider (stop) "length buf0 < 2 \<or> length ?buf < HEADER_SIZE \<or> length ?buf < frame_length ?buf"
      | (hit) "\<not> length buf0 < 2" "\<not> length ?buf < HEADER_SIZE" "\<not> length ?buf < frame_length ?buf" "checksum_ok (take (frame_length ?buf) ?buf)"
      | (miss) "\<not> length buf0 < 2" "\<not> length ?buf < HEADER_SIZE" "\<not> length ?buf < frame_length ?buf" "\<not> checksum_ok (take (frame_length ?buf) ?buf)"
      by blast
    then show ?thesis
    proof cases
      case stop
      with 1(3) Some have "fs = []" "rest = buf0 \<or> rest = ?buf"
        by (auto simp: frame_loop.simps [of buf0] Let_def split: if_splits)
      with sub show ?thesis by auto
    next
      case hit
      let ?n = "frame_length ?buf"
      obtain gs r where g: "frame_loop (drop ?n ?buf) = (gs, r)" by (rule prod.exhaust)
      with 1(3) Some hit have eq: "fs = take ?n ?buf # gs" "rest = r"
        by (auto simp: frame_loop.simps [of buf0] Let_def)
      from 1(1) [OF hit(1) Some refl hit(2-4) g] have ih: "\<forall>f\<in>set gs. valid_frame f" "subseq (concat gs @ r) (drop ?n ?buf)" by auto
      have "6 \<le> ?n" by (simp add: frame_length_def HEADER_SIZE_def)
      then have "valid_frame (take ?n ?buf)" using hit pre
        by (simp add: valid_frame_def frame_length_take HEADER_SIZE_def)
      moreover have "subseq (take ?n ?buf @ concat gs @ r) (take ?n ?buf @ drop ?n ?buf)" using ih(2) by (intro list_emb_append_mono) simp_all
      then have "subseq (take ?n ?buf @ concat gs @ r) buf0" unfolding append_take_drop_id by (rule sub)
      ultimately show ?thesis using ih(1) eq by simp
    next
      case miss
      with 1(3) Some have "frame_loop (drop 1 ?buf) = (fs, rest)" by (simp add: frame_loop.simps [of buf0] Let_def)
      from 1(2) [OF miss(1) Some refl miss(2-4) this] have ih: "\<forall>f\<in>set fs. valid_frame f" "subseq (concat fs @ rest) (drop 1 ?buf)" by auto
      have "subseq (concat fs @ rest) ?buf" using ih(2) by (metis append_take_drop_id subseq_drop_many)
      with ih(1) sub show ?thesis by blast
    qed
  qed
qed

text \<open>What stays in the buffer is less than one frame of the largest length.\<close>

lemma frame_loop_bounded: "length (snd (frame_loop buf)) < 65543"
proof (induction buf rule: frame_loop.induct)
  case (1 buf0)
  show ?case
  proof (cases "find_preamble buf0")
    case None
    then show ?thesis by (simp add: frame_loop.simps [of buf0])
  next
    case (Some start)
    let ?buf = "drop start buf0"
    have byte: "unat w < 256" for w :: "8 word" using unsigned_less [of w, where 'a = nat] by simp
    from byte [of "?buf ! 4"] byte [of "?buf ! 5"] have "frame_length ?buf \<le> 65543" by (simp add: frame_length_def HEADER_SIZE_def CHECKSUM_SIZE_def)
    with 1 Some show ?thesis
      by (auto simp: frame_loop.simps [of buf0] Let_def HEADER_SIZE_def split_def)
  qed
qed

section \<open>The stream of a working receiver\<close>

text \<open>A buffer that is a proper prefix of a valid frame stays as it is.\<close>

lemma frame_loop_partial:
  assumes "valid_frame (p @ q)" "q \<noteq> []" shows "frame_loop p = ([], p)"
proof (cases "length p < 2")
  case True
  then show ?thesis by (simp add: frame_loop.simps)
next
  case False
  have "p ! 0 = PREAMBLE1" "p ! 1 = PREAMBLE2" using assms(1) False by (auto simp: valid_frame_def nth_append split: if_splits)
  with find_preamble_start [of p] False have "find_preamble p = Some 0" by simp
  moreover have "length p < frame_length p" if "\<not> length p < HEADER_SIZE"
  proof -
    have "frame_length (p @ q) = frame_length p" using that by (simp add: HEADER_SIZE_def frame_length_cong)
    moreover have "length p < length (p @ q)" using assms(2) by simp
    moreover have "length (p @ q) = frame_length (p @ q)" using assms(1) unfolding valid_frame_def by blast
    ultimately show ?thesis by linarith
  qed
  ultimately show ?thesis using False by (auto simp: frame_loop.simps)
qed

lemma frame_loop_frame:
  assumes "valid_frame f"
  shows "frame_loop (f @ bs) = (let (fs, rest) = frame_loop bs in (f # fs, rest))"
proof -
  have l: "8 \<le> length f" by (rule valid_frame_length [OF assms])
  have len: "frame_length (f @ bs) = length f" using assms l frame_length_cong [of f bs] by (simp add: valid_frame_def)
  have "find_preamble (f @ bs) = Some 0"
    using assms l by (intro find_preamble_start) (auto simp: valid_frame_def nth_append)
  with assms l show ?thesis
    by (subst frame_loop.simps) (simp add: len HEADER_SIZE_def valid_frame_def)
qed

text \<open>From any prefix of a stream of frames the loop takes the frames that are complete.\<close>

lemma frame_loop_stream:
  assumes "\<forall>f\<in>set fs. valid_frame f" "concat fs = p @ q"
  shows "\<exists>gs hs r. frame_loop p = (gs, r) \<and> fs = gs @ hs \<and> r @ q = concat hs \<and> (hs \<noteq> [] \<longrightarrow> length r < length (hd hs))"
  using assms
proof (induction fs arbitrary: p)
  case Nil
  then show ?case by (simp add: frame_loop.simps)
next
  case (Cons f fs)
  show ?case
  proof (cases "length p < length f")
    case True
    from Cons.prems(2) have "f @ concat fs = p @ q" by simp
    then obtain q' where "f = p @ q'" "q' \<noteq> []" using True by (metis append_eq_append_conv_if append_take_drop_id append.right_neutral less_irrefl order.strict_implies_order)
    with frame_loop_partial [of p q'] Cons.prems True show ?thesis
      by (intro exI [of _ "[]"] exI [of _ "f # fs"] exI [of _ p]) simp
  next
    case False
    from Cons.prems(2) have "f @ concat fs = p @ q" by simp
    then obtain p' where p': "p = f @ p'" "concat fs = p' @ q" using False by (auto simp: append_eq_append_conv2)
    from Cons.IH [OF _ p'(2)] Cons.prems(1) obtain gs hs r where
      "frame_loop p' = (gs, r)" "fs = gs @ hs" "r @ q = concat hs" "hs \<noteq> [] \<longrightarrow> length r < length (hd hs)" by auto
    then show ?thesis using frame_loop_frame [of f p'] Cons.prems(1) p'(1)
      by (intro exI [of _ "f # gs"] exI [of _ hs] exI [of _ r]) simp
  qed
qed

lemma add_data_stream:
  assumes "\<forall>f\<in>set fs. valid_frame f" "concat fs = uf_buf s @ c @ q" "fs = [] \<or> length (uf_buf s) < length (hd fs)"
  shows "\<exists>gs hs s'. add_data t c s = (gs, s') \<and> fs = gs @ hs \<and> uf_buf s' @ q = concat hs \<and> (hs = [] \<or> length (uf_buf s') < length (hd hs))"
proof (cases "c = []")
  case True
  with assms show ?thesis by (intro exI [of _ "[]"] exI [of _ fs]) (simp add: add_data_def Let_def)
next
  case False
  from frame_loop_stream [OF assms(1), of "uf_buf s @ c" q] assms(2) obtain gs hs r where
    "frame_loop (uf_buf s @ c) = (gs, r)" "fs = gs @ hs" "r @ q = concat hs" "hs \<noteq> [] \<longrightarrow> length r < length (hd hs)" by auto
  with False show ?thesis by (intro exI [of _ gs] exI [of _ hs]) (auto simp: add_data_def Let_def)
qed

text \<open>
  C34. Whatever the receiver sends comes back: a stream of valid frames, cut into messages at any
  bytes, is returned as the same frames in the same order, and the buffer ends empty.
\<close>

theorem framer_returns_frames:
  assumes "\<forall>f\<in>set fs. valid_frame f" "concat (map snd cs) = concat fs" "uf_buf s = []"
  shows "fst (add_all cs s) = fs \<and> uf_buf (snd (add_all cs s)) = []"
proof -
  have "fst (add_all cs s) = fs \<and> uf_buf (snd (add_all cs s)) = []"
    if "\<forall>f\<in>set fs. valid_frame f" "concat fs = uf_buf s @ concat (map snd cs)" "fs = [] \<or> length (uf_buf s) < length (hd fs)" for fs cs s
    using that
  proof (induction cs arbitrary: fs s)
    case Nil
    have "fs = []"
    proof (rule ccontr)
      assume "fs \<noteq> []"
      with Nil(3) have "length (uf_buf s) < length (hd fs)" by simp
      also have "\<dots> \<le> length (concat fs)" using \<open>fs \<noteq> []\<close> by (cases fs) simp_all
      finally show False using Nil(2) by simp
    qed
    with Nil show ?case by simp
  next
    case (Cons tc cs)
    obtain t c where tc: "tc = (t, c)" by (rule prod.exhaust)
    from add_data_stream [OF Cons.prems(1) _ Cons.prems(3), of c "concat (map snd cs)" t] Cons.prems(2) obtain gs hs s' where
      d: "add_data t c s = (gs, s')" "fs = gs @ hs" "uf_buf s' @ concat (map snd cs) = concat hs" "hs = [] \<or> length (uf_buf s') < length (hd hs)"
      by (auto simp: tc)
    with Cons.IH [of hs s'] Cons.prems(1) show ?case by (auto simp: tc split: prod.splits)
  qed
  from this [OF assms(1), of s cs] assms valid_frame_length show ?thesis by (cases fs) fastforce+
qed

text \<open>A poll of the version: no payload.\<close>

definition test_frame :: bytes where
  "test_frame = [0xB5, 0x62, 0x0A, 0x04, 0, 0, 0x0E, 0x34]"

lemma test_frame_valid: "valid_frame test_frame"
  by (simp add: valid_frame_def test_frame_def frame_length_def checksum_ok_def checksum_def HEADER_SIZE_def CHECKSUM_SIZE_def
      PREAMBLE1_def PREAMBLE2_def)

theorem framer_returns_frames_witness:
  "fst (add_all [(0, [0xB5]), (1, [0x62, 0x0A, 0x04, 0, 0, 0x0E, 0x34, 0xB5, 0x62]), (2, [0x0A, 0x04, 0, 0, 0x0E, 0x34])] framer_init)
    = [test_frame, test_frame]"
  using framer_returns_frames [of "[test_frame, test_frame]"
      "[(0, [0xB5]), (1, [0x62, 0x0A, 0x04, 0, 0, 0x0E, 0x34, 0xB5, 0x62]), (2, [0x0A, 0x04, 0, 0, 0x0E, 0x34])]" framer_init] test_frame_valid
  by (simp add: test_frame_def framer_init_def)

text \<open>
  After noise the cut matters: when the first byte of a preamble ends a message that holds no
  preamble, it is dropped with the noise, and the frame is lost; in one message it is found.
\<close>

lemma split_preamble_lost:
  "fst (add_all [(0, [0, 0xB5]), (1, tl test_frame)] framer_init) = []"
  "fst (add_all [(0, 0 # test_frame)] framer_init) = [test_frame]"
  by (simp_all add: add_data_def frame_loop.simps test_frame_def framer_init_def frame_length_def checksum_ok_def checksum_def HEADER_SIZE_def
      CHECKSUM_SIZE_def PREAMBLE1_def PREAMBLE2_def)

end
