(* ===== verification/Binary_Struct.thy ===== *)
theory Binary_Struct
  imports Ubx_Framer
begin

unbundle bit_operations_syntax

text \<open>
  The parser of binary messages of \<open>system/ubloxd/binary_struct.py\<close>: a reader of bytes and bits,
  and an interpreter of the schemas the message classes declare. A schema is a value of a
  datatype with the constructors of the code, a parsed object the list of its attributes with the
  name of its class. The bytes of an IEEE number are kept as they are: the code only copies them.
\<close>

section \<open>The reader\<close>

record reader =
  rd_data :: bytes
  rd_pos :: nat
  rd_bit_pos :: nat

definition reader_of :: "bytes \<Rightarrow> reader" where
  "reader_of data = \<lparr>rd_data = data, rd_pos = 0, rd_bit_pos = 0\<rparr>"

definition align_to_byte :: "reader \<Rightarrow> reader" where
  "align_to_byte r = (if rd_bit_pos r > 0 then r\<lparr>rd_bit_pos := 0, rd_pos := rd_pos r + 1\<rparr> else r)"

definition read_bytes :: "nat \<Rightarrow> reader \<Rightarrow> (bytes \<times> reader) result" where
  "read_bytes n r0 =
     (let r = align_to_byte r0
      in if rd_pos r + n > length (rd_data r) then Inl EOFError
         else Inr (take n (drop (rd_pos r) (rd_data r)), r\<lparr>rd_pos := rd_pos r + n\<rparr>))"

text \<open>
  The loop of \<open>read_bits_int_be\<close>: the bits left, the result so far and the reader. Were the bit
  position past the byte, a round would read nothing and reset it.
\<close>

function read_bits_loop :: "nat \<Rightarrow> nat \<Rightarrow> reader \<Rightarrow> (nat \<times> reader) result" where
  "read_bits_loop bits_remaining result r =
     (if bits_remaining = 0 then Inr (result, r)
      else if rd_pos r \<ge> length (rd_data r) then Inl EOFError
      else
        let bits_in_byte = 8 - rd_bit_pos r;
            bits_to_read = min bits_remaining bits_in_byte;
            byte_val = unat (rd_data r ! rd_pos r);
            shift = bits_in_byte - bits_to_read;
            mask = push_bit bits_to_read 1 - 1;
            extracted = drop_bit shift byte_val AND mask;
            result' = push_bit bits_to_read result OR extracted;
            bit_pos = rd_bit_pos r + bits_to_read
        in read_bits_loop (bits_remaining - bits_to_read) result'
             (if bit_pos \<ge> 8 then r\<lparr>rd_bit_pos := 0, rd_pos := rd_pos r + 1\<rparr> else r\<lparr>rd_bit_pos := bit_pos\<rparr>))"
  by pat_completeness auto
termination
  by (relation "measures [\<lambda>(n, _, _). n, \<lambda>(_, _, r). rd_bit_pos r]") auto

declare read_bits_loop.simps [simp del]

definition read_bits_int_be :: "nat \<Rightarrow> reader \<Rightarrow> (nat \<times> reader) result" where
  "read_bits_int_be n r = read_bits_loop n 0 r"

section \<open>Values and schemas\<close>

datatype bs_value = VInt int | VBool bool | VFloat bytes | VBytes bytes | VEnum int
  | VList "bs_value list" | VObj string "(string \<times> bs_value) list" | VNone

datatype field_type = IntType nat bool bool | FloatType nat | BitsType nat | BytesType nat
  | ArrayType field_type "string list" | SwitchType "string list" "(int \<times> field_type) list" "field_type option"
  | EnumType field_type "int list" | ConstType field_type bs_value | SubstreamType "string list" field_type
  | StructType string "(string \<times> field_type) list"

definition u8 :: field_type where "u8 = IntType 8 False False"
definition u16 :: field_type where "u16 = IntType 16 False False"
definition u32 :: field_type where "u32 = IntType 32 False False"
definition s8 :: field_type where "s8 = IntType 8 True False"
definition s16 :: field_type where "s16 = IntType 16 True False"
definition s32 :: field_type where "s32 = IntType 32 True False"
definition f32 :: field_type where "f32 = FloatType 32"
definition f64 :: field_type where "f64 = FloatType 64"
definition u16be :: field_type where "u16be = IntType 16 False True"
definition u32be :: field_type where "u32be = IntType 32 False True"
definition s16be :: field_type where "s16be = IntType 16 True True"
definition s32be :: field_type where "s32be = IntType 32 True True"

text \<open>\<open>getattr\<close>, and the path of attributes of a selector, split at its points.\<close>

definition attr :: "string \<Rightarrow> bs_value \<Rightarrow> bs_value result" where
  "attr name v = (case v of VObj cls fs \<Rightarrow> (case map_of fs name of Some x \<Rightarrow> Inr x | None \<Rightarrow> Inl AttributeError) | _ \<Rightarrow> Inl AttributeError)"

fun resolve_path :: "bs_value \<Rightarrow> string list \<Rightarrow> bs_value result" where
  "resolve_path v [] = Inr v"
| "resolve_path v (p # ps) = bind_result (attr p v) (\<lambda>x. resolve_path x ps)"

text \<open>The number a value is as a key or a count: truth values and members of an enumeration are numbers.\<close>

fun as_int :: "bs_value \<Rightarrow> int option" where
  "as_int (VInt k) = Some k"
| "as_int (VEnum k) = Some k"
| "as_int (VBool b) = Some (if b then 1 else 0)"
| "as_int _ = None"

definition int_value :: "bs_value \<Rightarrow> int result" where
  "int_value v = (case as_int v of Some k \<Rightarrow> Inr k | None \<Rightarrow> Inl TypeError)"

section \<open>Fields\<close>

definition le_nat :: "bytes \<Rightarrow> nat" where
  "le_nat bs = foldr (\<lambda>b a. unat b + 256 * a) bs 0"

definition to_signed :: "nat \<Rightarrow> nat \<Rightarrow> int" where
  "to_signed bits v = (if v < 2 ^ (bits - 1) then int v else int v - 2 ^ bits)"

definition read_int :: "nat \<Rightarrow> bool \<Rightarrow> bool \<Rightarrow> reader \<Rightarrow> (bs_value \<times> reader) result" where
  "read_int bits sg big_endian r =
     (if bits \<notin> {8, 16, 32} then Inl ValueError
      else bind_result (read_bytes (bits div 8) r) (\<lambda>(bs, r').
        let v = le_nat (if big_endian then rev bs else bs)
        in Inr (VInt (if sg then to_signed bits v else int v), r')))"

definition read_float :: "nat \<Rightarrow> reader \<Rightarrow> (bs_value \<times> reader) result" where
  "read_float bits r = (if bits \<notin> {32, 64} then Inl ValueError
     else bind_result (read_bytes (bits div 8) r) (\<lambda>(bs, r'). Inr (VFloat bs, r')))"

definition read_bits :: "nat \<Rightarrow> reader \<Rightarrow> (bs_value \<times> reader) result" where
  "read_bits n r = bind_result (read_bits_int_be n r) (\<lambda>(v, r'). Inr (if n = 1 then VBool (v \<noteq> 0) else VInt (int v), r'))"

fun repeat_parse :: "nat \<Rightarrow> (reader \<Rightarrow> (bs_value \<times> reader) result) \<Rightarrow> reader \<Rightarrow> (bs_value list \<times> reader) result" where
  "repeat_parse 0 f r = Inr ([], r)"
| "repeat_parse (Suc n) f r = bind_result (f r) (\<lambda>(v, r'). bind_result (repeat_parse n f r') (\<lambda>(vs, r''). Inr (v # vs, r'')))"

text \<open>
  \<open>_parse_field\<close>, and \<open>_read\<close> of a class, which parses the fields in their order into an object
  that holds the ones already parsed. A negative count or length reads nothing of the array.
\<close>

function (sequential) parse_field :: "field_type \<Rightarrow> bs_value \<Rightarrow> reader \<Rightarrow> (bs_value \<times> reader) result"
  and parse_cases :: "(int \<times> field_type) list \<Rightarrow> field_type option \<Rightarrow> int option \<Rightarrow> bs_value \<Rightarrow> reader \<Rightarrow> (bs_value \<times> reader) result"
  and parse_struct :: "string \<Rightarrow> (string \<times> field_type) list \<Rightarrow> (string \<times> bs_value) list \<Rightarrow> reader \<Rightarrow> (bs_value \<times> reader) result" where
  "parse_field (ConstType t expected) obj r =
     bind_result (parse_field t obj r) (\<lambda>(v, r'). if v \<noteq> expected then Inl ValueError else Inr (v, r'))"
| "parse_field (EnumType t members) obj r =
     bind_result (parse_field t obj r) (\<lambda>(v, r'). Inr (case as_int v of
         Some k \<Rightarrow> if k \<in> set members then VEnum k else v
       | None \<Rightarrow> v, r'))"
| "parse_field (SwitchType path cases dflt) obj r =
     bind_result (resolve_path obj path) (\<lambda>key. parse_cases cases dflt (as_int key) obj r)"
| "parse_field (ArrayType t path) obj r =
     bind_result (resolve_path obj path) (\<lambda>c. bind_result (int_value c) (\<lambda>n.
     bind_result (repeat_parse (nat n) (\<lambda>r'. parse_field t obj r') r) (\<lambda>(vs, r'). Inr (VList vs, r'))))"
| "parse_field (SubstreamType path t) obj r =
     bind_result (resolve_path obj path) (\<lambda>c. bind_result (int_value c) (\<lambda>n.
     bind_result (read_bytes (nat n) r) (\<lambda>(data, r'). bind_result (parse_field t obj (reader_of data)) (\<lambda>(v, _). Inr (v, r')))))"
| "parse_field (IntType bits sg be) obj r = read_int bits sg be r"
| "parse_field (FloatType bits) obj r = read_float bits r"
| "parse_field (BitsType n) obj r = read_bits n r"
| "parse_field (BytesType n) obj r = bind_result (read_bytes n r) (\<lambda>(bs, r'). Inr (VBytes bs, r'))"
| "parse_field (StructType cls fs) obj r = parse_struct cls fs [] r"
| "parse_cases [] None key obj r = Inr (VNone, r)"
| "parse_cases [] (Some d) key obj r = parse_field d obj r"
| "parse_cases ((k, t) # cs) d key obj r = (if key = Some k then parse_field t obj r else parse_cases cs d key obj r)"
| "parse_struct cls [] done r = Inr (VObj cls done, r)"
| "parse_struct cls ((name, t) # fs) done r =
     bind_result (parse_field t (VObj cls done) r) (\<lambda>(v, r'). parse_struct cls fs (done @ [(name, v)]) r')"
  by pat_completeness auto
termination
  by (relation "measure (\<lambda>x. case x of Inl (t, _) \<Rightarrow> size t
      | Inr (Inl (cs, d, _)) \<Rightarrow> size_list (size_prod (\<lambda>_. 0) size) cs + size_option size d
      | Inr (Inr (_, fs, _)) \<Rightarrow> size_list (size_prod (\<lambda>_. 0) size) fs)") auto

definition from_bytes :: "string \<Rightarrow> (string \<times> field_type) list \<Rightarrow> bytes \<Rightarrow> bs_value result" where
  "from_bytes cls fs data = bind_result (parse_struct cls fs [] (reader_of data)) (\<lambda>(v, _). Inr v)"

section \<open>Bits\<close>

text \<open>The bits of a message, most significant first, and the number a list of bits is.\<close>

definition byte_bits :: "8 word \<Rightarrow> bool list" where
  "byte_bits b = map (bit b) (rev [0..<8])"

definition data_bits :: "bytes \<Rightarrow> bool list" where
  "data_bits bs = concat (map byte_bits bs)"

definition bits_nat :: "bool list \<Rightarrow> nat" where
  "bits_nat bs = foldl (\<lambda>a b. 2 * a + of_bool b) 0 bs"

lemma bits_nat_from: "foldl (\<lambda>a b. 2 * a + of_bool b) a bs = a * 2 ^ length bs + bits_nat bs"
proof (induction bs arbitrary: a)
  case (Cons b bs)
  have "bits_nat (b # bs) = foldl (\<lambda>a b. 2 * a + of_bool b) (2 * 0 + of_bool b) bs" unfolding bits_nat_def by (simp only: foldl.simps)
  then have *: "bits_nat (b # bs) = of_bool b * 2 ^ length bs + bits_nat bs" unfolding Cons by simp
  have "foldl (\<lambda>a b. 2 * a + of_bool b) a (b # bs) = (2 * a + of_bool b) * 2 ^ length bs + bits_nat bs"
    unfolding foldl.simps by (rule Cons)
  then show ?case unfolding * by (simp add: algebra_simps)
qed (simp add: bits_nat_def)

lemma bits_nat_append: "bits_nat (as @ bs) = bits_nat as * 2 ^ length bs + bits_nat bs"
  unfolding bits_nat_def [of "as @ bs"] foldl_append bits_nat_from [of _ bs] by (simp only: bits_nat_def)

lemma bits_nat_less: "bits_nat bs < 2 ^ length bs"
proof (induction bs rule: rev_induct)
  case (snoc b bs)
  then show ?case by (simp add: bits_nat_append) (simp add: bits_nat_def)
qed (simp add: bits_nat_def)

lemma bits_nat_slice:
  assumes "i + k \<le> length bs"
  shows "bits_nat (take k (drop i bs)) = bits_nat bs div 2 ^ (length bs - i - k) mod 2 ^ k"
proof -
  let ?m = "take k (drop i bs)" and ?e = "drop (i + k) bs"
  have split: "bs = take i bs @ ?m @ ?e" by (metis append_take_drop_id drop_drop add.commute)
  have l: "length ?m = k" "length ?e = length bs - i - k" using assms by simp_all
  have "bits_nat bs = (bits_nat (take i bs) * 2 ^ k + bits_nat ?m) * 2 ^ (length bs - i - k) + bits_nat ?e"
    by (subst split) (simp only: bits_nat_append l length_append power_add add_mult_distrib mult.assoc add.assoc)
  moreover have "bits_nat ?e < 2 ^ (length bs - i - k)" using bits_nat_less [of ?e] l by simp
  ultimately have "bits_nat bs div 2 ^ (length bs - i - k) = bits_nat (take i bs) * 2 ^ k + bits_nat ?m" by simp
  moreover have "bits_nat ?m < 2 ^ k" using bits_nat_less [of ?m] l by simp
  ultimately show ?thesis by simp
qed

lemma length_byte_bits [simp]: "length (byte_bits b) = 8"
  by (simp add: byte_bits_def)

lemma length_data_bits [simp]: "length (data_bits bs) = 8 * length bs"
  by (induction bs) (simp_all add: data_bits_def)

lemma bits_nat_byte: "bits_nat (byte_bits b) = unat b"
proof -
  have "bits_nat (rev bs) = horner_sum of_bool 2 bs" for bs :: "bool list"
    by (induction bs) (simp_all add: bits_nat_append, simp_all add: bits_nat_def)
  then have "bits_nat (byte_bits b) = horner_sum of_bool 2 (map (bit b) [0..<8])" by (simp add: byte_bits_def rev_map [symmetric])
  also have "map (bit b) [0..<8] = map (bit (unat b)) [0..<8]" by (simp add: bit_unsigned_iff)
  also have "horner_sum of_bool 2 (map (bit (unat b)) [0..<8]) = take_bit 8 (unat b)" by (rule horner_sum_bit_eq_take_bit)
  also have "\<dots> = unat b" using unsigned_less [of b, where 'a = nat] by (simp add: take_bit_eq_mod)
  finally show ?thesis .
qed

lemma data_bits_byte:
  assumes "p < length bs" "i \<le> 8" shows "take k (drop (8 * p + i) (data_bits bs)) = take k (drop i (byte_bits (bs ! p)) @ drop (8 * Suc p) (data_bits bs))"
proof -
  have "data_bits bs = data_bits (take p bs) @ byte_bits (bs ! p) @ data_bits (drop (Suc p) bs)"
    by (subst id_take_nth_drop [OF assms(1)]) (simp add: data_bits_def)
  then have *: "drop (8 * p) (data_bits bs) = byte_bits (bs ! p) @ data_bits (drop (Suc p) bs)" using assms(1) by simp
  have "drop (8 * p + i) (data_bits bs) = drop i (drop (8 * p) (data_bits bs))" by (simp add: add.commute)
  moreover have "drop (8 * Suc p) (data_bits bs) = drop 8 (drop (8 * p) (data_bits bs))" by simp
  ultimately show ?thesis using assms(2) by (simp add: *)
qed

lemma join_bits: "e < 2 ^ m \<Longrightarrow> push_bit m a OR e = a * 2 ^ m + (e :: nat)"
proof -
  assume "e < 2 ^ m"
  then have "take_bit m e = e" by (simp add: take_bit_nat_eq_self)
  then have "\<not> bit (push_bit m a) n \<or> \<not> bit e n" for n by (metis bit_push_bit_iff bit_take_bit_iff not_le)
  from disjunctive_add [OF this] show ?thesis by (simp add: push_bit_eq_mult)
qed

lemma extract_bits: "drop_bit s v AND (push_bit k 1 - 1) = v div 2 ^ s mod (2 ^ k :: nat)"
proof -
  have "push_bit k 1 - 1 = (mask k :: nat)" by (simp add: mask_eq_exp_minus_1 push_bit_eq_mult)
  then have "drop_bit s v AND (push_bit k 1 - 1) = take_bit k (drop_bit s v)" by (simp only: take_bit_eq_mask)
  then show ?thesis by (simp add: take_bit_eq_mod drop_bit_eq_div)
qed

text \<open>Where the reader is, in bits.\<close>

definition bit_index :: "reader \<Rightarrow> nat" where
  "bit_index r = 8 * rd_pos r + rd_bit_pos r"

definition reads_slice :: "nat \<Rightarrow> nat \<Rightarrow> reader \<Rightarrow> reader \<Rightarrow> bool" where
  "reads_slice n a r r' \<longleftrightarrow> read_bits_loop n a r = Inr (a * 2 ^ n + bits_nat (take n (drop (bit_index r) (data_bits (rd_data r)))), r')
     \<and> rd_data r' = rd_data r \<and> rd_bit_pos r' < 8 \<and> bit_index r' = bit_index r + n"

text \<open>One round of the loop: \<open>m\<close> bits of the current byte.\<close>

definition skip_bits :: "nat \<Rightarrow> reader \<Rightarrow> reader" where
  "skip_bits m r = (if rd_bit_pos r + m \<ge> 8 then r\<lparr>rd_bit_pos := 0, rd_pos := rd_pos r + 1\<rparr> else r\<lparr>rd_bit_pos := rd_bit_pos r + m\<rparr>)"

lemma read_bits_round:
  assumes "n \<noteq> 0" "rd_pos r < length (rd_data r)" "rd_bit_pos r < 8" and m: "m = min n (8 - rd_bit_pos r)"
  shows "read_bits_loop n a r = read_bits_loop (n - m) (a * 2 ^ m + bits_nat (take m (drop (bit_index r) (data_bits (rd_data r))))) (skip_bits m r)"
proof -
  let ?v = "unat (rd_data r ! rd_pos r)" and ?i = "rd_bit_pos r"
  let ?e = "drop_bit (8 - ?i - m) ?v AND (push_bit m 1 - 1)"
  have im: "?i + m \<le> 8" using assms(3) m by simp
  have "take m (drop (bit_index r) (data_bits (rd_data r))) = take m (drop ?i (byte_bits (rd_data r ! rd_pos r)))"
    using data_bits_byte [OF assms(2), of ?i m] assms(3) im by (simp add: bit_index_def)
  also have "bits_nat \<dots> = ?v div 2 ^ (8 - ?i - m) mod 2 ^ m"
    using bits_nat_slice [of ?i m "byte_bits (rd_data r ! rd_pos r)"] im by (simp add: bits_nat_byte)
  finally have e: "bits_nat (take m (drop (bit_index r) (data_bits (rd_data r)))) = ?e" by (simp only: extract_bits)
  have "?e < 2 ^ m" by (simp only: extract_bits) simp
  from join_bits [OF this, of a] have "push_bit m a OR ?e = a * 2 ^ m + ?e" .
  with assms(1,2) show ?thesis unfolding e
    by (subst read_bits_loop.simps) (simp add: Let_def skip_bits_def flip: m)
qed

lemma skip_bits_index:
  assumes "rd_bit_pos r < 8" "m \<le> 8 - rd_bit_pos r"
  shows "rd_bit_pos (skip_bits m r) < 8" "bit_index (skip_bits m r) = bit_index r + m" "rd_data (skip_bits m r) = rd_data r"
  using assms by (auto simp: skip_bits_def bit_index_def)

lemma read_bits_loop_slice:
  assumes "rd_bit_pos r < 8" "bit_index r + n \<le> 8 * length (rd_data r)"
  shows "\<exists>r'. reads_slice n a r r'"
  using assms
proof (induction n arbitrary: a r rule: less_induct)
  case (less n)
  show ?case
  proof (cases "n = 0")
    case True
    with less.prems show ?thesis by (intro exI [of _ r]) (simp add: reads_slice_def read_bits_loop.simps bits_nat_def)
  next
    case False
    define m where "m = min n (8 - rd_bit_pos r)"
    have m: "0 < m" "m \<le> n" "m \<le> 8 - rd_bit_pos r" using False less.prems(1) by (simp_all add: m_def)
    have pos: "rd_pos r < length (rd_data r)" using False less.prems by (simp add: bit_index_def)
    let ?x = "data_bits (rd_data r)" and ?i = "bit_index r"
    note sk = skip_bits_index [OF less.prems(1) m(3)]
    let ?b = "bits_nat (take m (drop ?i ?x))"
    have "bit_index (skip_bits m r) + (n - m) \<le> 8 * length (rd_data (skip_bits m r))" using less.prems(2) m sk by simp
    from less.IH [OF _ sk(1) this, of "a * 2 ^ m + ?b"] m(1,2) obtain r' where r': "reads_slice (n - m) (a * 2 ^ m + ?b) (skip_bits m r) r'" by auto
    have "take n (drop ?i ?x) = take m (drop ?i ?x) @ take (n - m) (drop (?i + m) ?x)"
      using take_add [of m "n - m" "drop ?i ?x"] m(2) by (simp add: add.commute)
    moreover have "length (take (n - m) (drop (?i + m) ?x)) = n - m" using less.prems(2) m(2) by simp
    ultimately have "a * 2 ^ n + bits_nat (take n (drop ?i ?x)) = (a * 2 ^ m + ?b) * 2 ^ (n - m) + bits_nat (take (n - m) (drop (?i + m) ?x))"
      using m(2) by (simp add: bits_nat_append add_mult_distrib mult.assoc flip: power_add)
    with r' sk m(2) read_bits_round [OF False pos less.prems(1) m_def, of a] show ?thesis
      by (intro exI [of _ r']) (simp add: reads_slice_def)
  qed
qed

lemma read_bits_loop_eof:
  assumes "rd_bit_pos r < 8" "bit_index r + n > 8 * length (rd_data r)" "n \<noteq> 0"
  shows "read_bits_loop n a r = Inl EOFError"
  using assms
proof (induction n arbitrary: a r rule: less_induct)
  case (less n)
  show ?case
  proof (cases "rd_pos r < length (rd_data r)")
    case False
    with less.prems show ?thesis by (simp add: read_bits_loop.simps)
  next
    case True
    define m where "m = min n (8 - rd_bit_pos r)"
    have m: "0 < m" "m \<le> n" "m \<le> 8 - rd_bit_pos r" using less.prems(1,3) by (simp_all add: m_def)
    note sk = skip_bits_index [OF less.prems(1) m(3)]
    have "n \<noteq> m"
    proof
      assume "n = m"
      then have "rd_bit_pos r + n \<le> 8" using m(3) less.prems(1) by simp
      with True less.prems(2) show False by (simp add: bit_index_def)
    qed
    with less.IH [OF _ sk(1), of "n - m"] less.prems(2) m sk show ?thesis
      by (simp add: read_bits_round [OF less.prems(3) True less.prems(1) m_def])
  qed
qed

text \<open>
  C35. Reading bits is reading the message as one string of bits: at any position, in the middle
  of a byte or not, \<open>n\<close> bits give the number that the next \<open>n\<close> bits of the message are, most
  significant first, and the position moves by \<open>n\<close>; past the end of the message it raises.
\<close>

theorem read_bits_is_slice:
  assumes "rd_bit_pos r < 8" "n \<noteq> 0"
  shows "if bit_index r + n \<le> 8 * length (rd_data r)
    then \<exists>r'. read_bits_int_be n r = Inr (bits_nat (take n (drop (bit_index r) (data_bits (rd_data r)))), r')
           \<and> rd_data r' = rd_data r \<and> rd_bit_pos r' < 8 \<and> bit_index r' = bit_index r + n
    else read_bits_int_be n r = Inl EOFError"
  using read_bits_loop_slice [OF assms(1), of n 0] read_bits_loop_eof [OF assms(1) _ assms(2), of 0]
  by (auto simp: read_bits_int_be_def reads_slice_def)

theorem read_bits_is_slice_witness:
  "\<exists>r'. read_bits_int_be 6 \<lparr>rd_data = [0xA5, 0xC3], rd_pos = 0, rd_bit_pos = 5\<rparr> = Inr (0x2E, r') \<and> bit_index r' = 11"
proof -
  have "bits_nat (take 6 (drop 5 (data_bits [0xA5, 0xC3]))) = 0x2E" by code_simp
  with read_bits_is_slice [of "\<lparr>rd_data = [0xA5, 0xC3], rd_pos = 0, rd_bit_pos = 5\<rparr>" 6] show ?thesis
    by (auto simp: bit_index_def)
qed

end
