(* ===== verification/Gnss_Schemas.thy ===== *)
theory Gnss_Schemas
  imports Binary_Struct
begin

text \<open>
  The message classes of \<open>system/ubloxd/gps.py\<close>, \<open>glonass.py\<close> and \<open>ubx.py\<close>: each is the list of
  its fields with their types, and the computed attributes are functions of the parsed object.
\<close>

section \<open>GPS subframes\<close>

definition Tlm_fields :: "(string \<times> field_type) list" where
  "Tlm_fields =
     [(''preamble'', ConstType (BytesType 1) (VBytes [0x8b])), (''tlm'', BitsType 14), (''integrity_status'', BitsType 1), (''reserved'', BitsType 1)]"

definition How_fields :: "(string \<times> field_type) list" where
  "How_fields =
     [(''tow_count'', BitsType 17), (''alert'', BitsType 1), (''anti_spoof'', BitsType 1), (''subframe_id'', BitsType 3),
      (''reserved'', BitsType 2)]"

definition Subframe1_fields :: "(string \<times> field_type) list" where
  "Subframe1_fields =
     [(''week_no'', BitsType 10), (''code'', BitsType 2), (''sv_accuracy'', BitsType 4), (''sv_health'', BitsType 6),
      (''iodc_msb'', BitsType 2), (''l2_p_data_flag'', BitsType 1), (''reserved1'', BitsType 23),
      (''reserved2'', BitsType 24), (''reserved3'', BitsType 24), (''reserved4'', BitsType 16), (''t_gd'', s8),
      (''iodc_lsb'', u8), (''t_oc'', u16be), (''af_2'', s8), (''af_1'', s16be), (''af_0_sign'', BitsType 1),
      (''af_0_value'', BitsType 21), (''reserved5'', BitsType 2)]"

definition Subframe2_fields :: "(string \<times> field_type) list" where
  "Subframe2_fields =
     [(''iode'', u8), (''c_rs'', s16be), (''delta_n'', s16be), (''m_0'', s32be), (''c_uc'', s16be), (''e'', s32be),
      (''c_us'', s16be), (''sqrt_a'', u32be), (''t_oe'', u16be), (''fit_interval_flag'', BitsType 1),
      (''aoda'', BitsType 5), (''reserved'', BitsType 2)]"

definition Subframe3_fields :: "(string \<times> field_type) list" where
  "Subframe3_fields =
     [(''c_ic'', s16be), (''omega_0'', s32be), (''c_is'', s16be), (''i_0'', s32be), (''c_rc'', s16be), (''omega'', s32be),
      (''omega_dot_sign'', BitsType 1), (''omega_dot_value'', BitsType 23), (''iode'', u8), (''idot_sign'', BitsType 1),
      (''idot_value'', BitsType 13), (''reserved'', BitsType 2)]"

definition IonosphereData_fields :: "(string \<times> field_type) list" where
  "IonosphereData_fields =
     [(''a0'', s8), (''a1'', s8), (''a2'', s8), (''a3'', s8), (''b0'', s8), (''b1'', s8), (''b2'', s8), (''b3'', s8)]"

definition Subframe4_fields :: "(string \<times> field_type) list" where
  "Subframe4_fields =
     [(''data_id'', BitsType 2), (''page_id'', BitsType 6),
      (''body'', SwitchType [''page_id''] [(56, StructType ''IonosphereData'' IonosphereData_fields)] None)]"

definition Gps_fields :: "(string \<times> field_type) list" where
  "Gps_fields =
     [(''tlm'', StructType ''Tlm'' Tlm_fields), (''how'', StructType ''How'' How_fields),
      (''body'', SwitchType [''how'', ''subframe_id'']
         [(1, StructType ''Subframe1'' Subframe1_fields), (2, StructType ''Subframe2'' Subframe2_fields),
          (3, StructType ''Subframe3'' Subframe3_fields), (4, StructType ''Subframe4'' Subframe4_fields)] None)]"

section \<open>GLONASS strings\<close>

definition String1_fields :: "(string \<times> field_type) list" where
  "String1_fields =
     [(''not_used'', BitsType 2), (''p1'', BitsType 2), (''t_k'', BitsType 12), (''x_vel_sign'', BitsType 1),
      (''x_vel_value'', BitsType 23), (''x_accel_sign'', BitsType 1), (''x_accel_value'', BitsType 4),
      (''x_sign'', BitsType 1), (''x_value'', BitsType 26)]"

definition String2_fields :: "(string \<times> field_type) list" where
  "String2_fields =
     [(''b_n'', BitsType 3), (''p2'', BitsType 1), (''t_b'', BitsType 7), (''not_used'', BitsType 5),
      (''y_vel_sign'', BitsType 1), (''y_vel_value'', BitsType 23), (''y_accel_sign'', BitsType 1),
      (''y_accel_value'', BitsType 4), (''y_sign'', BitsType 1), (''y_value'', BitsType 26)]"

definition String3_fields :: "(string \<times> field_type) list" where
  "String3_fields =
     [(''p3'', BitsType 1), (''gamma_n_sign'', BitsType 1), (''gamma_n_value'', BitsType 10), (''not_used'', BitsType 1),
      (''p'', BitsType 2), (''l_n'', BitsType 1), (''z_vel_sign'', BitsType 1), (''z_vel_value'', BitsType 23),
      (''z_accel_sign'', BitsType 1), (''z_accel_value'', BitsType 4), (''z_sign'', BitsType 1), (''z_value'', BitsType 26)]"

definition String4_fields :: "(string \<times> field_type) list" where
  "String4_fields =
     [(''tau_n_sign'', BitsType 1), (''tau_n_value'', BitsType 21), (''delta_tau_n_sign'', BitsType 1),
      (''delta_tau_n_value'', BitsType 4), (''e_n'', BitsType 5), (''not_used_1'', BitsType 14), (''p4'', BitsType 1),
      (''f_t'', BitsType 4), (''not_used_2'', BitsType 3), (''n_t'', BitsType 11), (''n'', BitsType 5), (''m'', BitsType 2)]"

definition String5_fields :: "(string \<times> field_type) list" where
  "String5_fields =
     [(''n_a'', BitsType 11), (''tau_c'', BitsType 32), (''not_used'', BitsType 1), (''n_4'', BitsType 5),
      (''tau_gps'', BitsType 22), (''l_n'', BitsType 1)]"

definition StringNonImmediate_fields :: "(string \<times> field_type) list" where
  "StringNonImmediate_fields =
     [(''data_1'', BitsType 64), (''data_2'', BitsType 8)]"

definition Glonass_fields :: "(string \<times> field_type) list" where
  "Glonass_fields =
     [(''idle_chip'', BitsType 1), (''string_number'', BitsType 4),
      (''data'', SwitchType [''string_number'']
         [(1, StructType ''String1'' String1_fields), (2, StructType ''String2'' String2_fields), (3, StructType ''String3'' String3_fields),
          (4, StructType ''String4'' String4_fields), (5, StructType ''String5'' String5_fields)]
         (Some (StructType ''StringNonImmediate'' StringNonImmediate_fields))),
      (''hamming_code'', BitsType 8), (''pad_1'', BitsType 11), (''superframe_number'', BitsType 16), (''pad_2'', BitsType 8),
      (''frame_number'', BitsType 8)]"

section \<open>UBX messages\<close>

definition GnssType :: "int list" where "GnssType = [0, 1, 2, 3, 4, 5, 6]"
definition ConfigSource :: "int list" where "ConfigSource = [102, 111, 112, 113]"
definition AntennaStatus :: "int list" where "AntennaStatus = [0, 1, 2, 3, 4]"
definition AntennaPower :: "int list" where "AntennaPower = [0, 1, 2]"

definition Measurement_fields :: "(string \<times> field_type) list" where
  "Measurement_fields =
     [(''pr_mes'', f64), (''cp_mes'', f64), (''do_mes'', f32), (''gnss_id'', EnumType u8 GnssType), (''sv_id'', u8),
      (''reserved2'', BytesType 1), (''freq_id'', u8), (''lock_time'', u16), (''cno'', u8), (''pr_stdev'', u8),
      (''cp_stdev'', u8), (''do_stdev'', u8), (''trk_stat'', u8), (''reserved3'', BytesType 1)]"

definition RxmRawx_fields :: "(string \<times> field_type) list" where
  "RxmRawx_fields =
     [(''rcv_tow'', f64), (''week'', u16), (''leap_s'', s8), (''num_meas'', u8), (''rec_stat'', u8),
      (''reserved1'', BytesType 3), (''meas'', ArrayType (StructType ''Measurement'' Measurement_fields) [''num_meas''])]"

definition RxmSfrbx_fields :: "(string \<times> field_type) list" where
  "RxmSfrbx_fields =
     [(''gnss_id'', EnumType u8 GnssType), (''sv_id'', u8), (''reserved1'', BytesType 1), (''freq_id'', u8),
      (''num_words'', u8), (''reserved2'', BytesType 1), (''version'', u8), (''reserved3'', BytesType 1),
      (''body'', ArrayType u32 [''num_words''])]"

definition Nav_fields :: "(string \<times> field_type) list" where
  "Nav_fields =
     [(''gnss_id'', EnumType u8 GnssType), (''sv_id'', u8), (''cno'', u8), (''elev'', s8), (''azim'', s16),
      (''pr_res'', s16), (''flags'', u32)]"

definition NavSat_fields :: "(string \<times> field_type) list" where
  "NavSat_fields =
     [(''itow'', u32), (''version'', u8), (''num_svs'', u8), (''reserved'', BytesType 2),
      (''svs'', ArrayType (StructType ''Nav'' Nav_fields) [''num_svs''])]"

definition NavPvt_fields :: "(string \<times> field_type) list" where
  "NavPvt_fields =
     [(''i_tow'', u32), (''year'', u16), (''month'', u8), (''day'', u8), (''hour'', u8), (''min'', u8), (''sec'', u8),
      (''valid'', u8), (''t_acc'', u32), (''nano'', s32), (''fix_type'', u8), (''flags'', u8), (''flags2'', u8),
      (''num_sv'', u8), (''lon'', s32), (''lat'', s32), (''height'', s32), (''h_msl'', s32), (''h_acc'', u32),
      (''v_acc'', u32), (''vel_n'', s32), (''vel_e'', s32), (''vel_d'', s32), (''g_speed'', s32), (''head_mot'', s32),
      (''s_acc'', s32), (''head_acc'', u32), (''p_dop'', u16), (''flags3'', u8), (''reserved1'', BytesType 5),
      (''head_veh'', s32), (''mag_dec'', s16), (''mag_acc'', u16)]"

definition MonHw2_fields :: "(string \<times> field_type) list" where
  "MonHw2_fields =
     [(''ofs_i'', s8), (''mag_i'', u8), (''ofs_q'', s8), (''mag_q'', u8), (''cfg_source'', EnumType u8 ConfigSource),
      (''reserved1'', BytesType 3), (''low_lev_cfg'', u32), (''reserved2'', BytesType 8), (''post_status'', u32),
      (''reserved3'', BytesType 4)]"

definition MonHw_fields :: "(string \<times> field_type) list" where
  "MonHw_fields =
     [(''pin_sel'', u32), (''pin_bank'', u32), (''pin_dir'', u32), (''pin_val'', u32), (''noise_per_ms'', u16),
      (''agc_cnt'', u16), (''a_status'', EnumType u8 AntennaStatus), (''a_power'', EnumType u8 AntennaPower),
      (''flags'', u8), (''reserved1'', BytesType 1), (''used_mask'', u32), (''vp'', BytesType 17), (''jam_ind'', u8),
      (''reserved2'', BytesType 2), (''pin_irq'', u32), (''pull_h'', u32), (''pull_l'', u32)]"

text \<open>The class of a whole frame; the daemon takes the frame apart itself and uses the classes above.\<close>

definition Ubx_fields :: "(string \<times> field_type) list" where
  "Ubx_fields =
     [(''magic'', ConstType (BytesType 2) (VBytes [0xb5, 0x62])), (''msg_type'', u16be), (''length'', u16),
      (''body'', SubstreamType [''length''] (SwitchType [''msg_type'']
         [(0x0107, StructType ''NavPvt'' NavPvt_fields), (0x0213, StructType ''RxmSfrbx'' RxmSfrbx_fields),
          (0x0215, StructType ''RxmRawx'' RxmRawx_fields), (0x0A09, StructType ''MonHw'' MonHw_fields),
          (0x0A0B, StructType ''MonHw2'' MonHw2_fields), (0x0135, StructType ''NavSat'' NavSat_fields)] None)),
      (''checksum'', u16)]"

section \<open>Attributes\<close>

text \<open>
  An object of a class has an attribute for each field (\<open>parse_struct_names\<close> below), so that
  reading one is total here: the value of the attribute, and the number it is.
\<close>

definition get :: "string \<Rightarrow> bs_value \<Rightarrow> bs_value" where
  "get name v = (case attr name v of Inr x \<Rightarrow> x | Inl e \<Rightarrow> VNone)"

definition num :: "string \<Rightarrow> bs_value \<Rightarrow> int" where
  "num name v = (case as_int (get name v) of Some k \<Rightarrow> k | None \<Rightarrow> 0)"

definition flag :: "string \<Rightarrow> bs_value \<Rightarrow> bool" where
  "flag name v \<longleftrightarrow> num name v \<noteq> 0"

definition float_bytes :: "string \<Rightarrow> bs_value \<Rightarrow> bytes" where
  "float_bytes name v = (case get name v of VFloat bs \<Rightarrow> bs | _ \<Rightarrow> [])"

definition elements :: "string \<Rightarrow> bs_value \<Rightarrow> bs_value list" where
  "elements name v = (case get name v of VList vs \<Rightarrow> vs | _ \<Rightarrow> [])"

text \<open>\<open>isinstance\<close>, and the \<open>value\<close> of a member: a number outside the enumeration has none.\<close>

definition is_instance :: "string \<Rightarrow> bs_value \<Rightarrow> bool" where
  "is_instance cls v = (case v of VObj c fs \<Rightarrow> c = cls | _ \<Rightarrow> False)"

definition enum_value :: "string \<Rightarrow> bs_value \<Rightarrow> int result" where
  "enum_value name v = (case get name v of VEnum k \<Rightarrow> Inr k | _ \<Rightarrow> Inl AttributeError)"

text \<open>The signed attributes: two's complement of the sign bit and the rest for GPS, a sign for GLONASS.\<close>

definition twos_attr :: "nat \<Rightarrow> string \<Rightarrow> bs_value \<Rightarrow> int" where
  "twos_attr bits name v = (let x = num (name @ ''_value'') v in if flag (name @ ''_sign'') v then x - 2 ^ bits else x)"

definition sign_attr :: "string \<Rightarrow> bs_value \<Rightarrow> int" where
  "sign_attr name v = (let x = num (name @ ''_value'') v in if flag (name @ ''_sign'') v then x * -1 else x)"

definition af_0 :: "bs_value \<Rightarrow> int" where "af_0 = twos_attr 21 ''af_0''"
definition omega_dot :: "bs_value \<Rightarrow> int" where "omega_dot = twos_attr 23 ''omega_dot''"
definition idot :: "bs_value \<Rightarrow> int" where "idot = twos_attr 13 ''idot''"

section \<open>Facts\<close>

text \<open>A parsed object has the class and the attributes of its schema, in their order.\<close>

lemma parse_struct_names:
  "parse_struct cls fs done r = Inr (v, r') \<Longrightarrow> \<exists>vals. v = VObj cls (done @ vals) \<and> map fst vals = map fst fs"
proof (induction fs arbitrary: "done" r)
  case (Cons f fs)
  obtain name t where f: "f = (name, t)" by (rule prod.exhaust)
  with Cons.prems obtain x r1 where x: "parse_field t (VObj cls done) r = Inr (x, r1)" "parse_struct cls fs (done @ [(name, x)]) r1 = Inr (v, r')"
    by (auto simp: bind_result_Inr_iff)
  from Cons.IH [OF x(2)] obtain vals where "v = VObj cls ((done @ [(name, x)]) @ vals)" "map fst vals = map fst fs" by blast
  then show ?case by (intro exI [of _ "(name, x) # vals"]) (simp add: f)
qed simp

text \<open>What a GPS subframe and a GLONASS string are: the class of the body follows the id.\<close>

definition gps_id :: "bs_value \<Rightarrow> int" where "gps_id v = num ''subframe_id'' (get ''how'' v)"

lemma parse_cases_class:
  "parse_cases cs d (Some k) obj r = Inr (v, r') \<Longrightarrow> map_of cs k = Some (StructType cls fs) \<Longrightarrow> is_instance cls v"
proof (induction cs)
  case (Cons c cs)
  then show ?case using parse_struct_names [of cls fs "[]" r v r'] by (cases c) (auto simp: is_instance_def split: if_splits)
qed simp

end
