(* ===== verification/Ubloxd.thy ===== *)
theory Ubloxd
  imports Gnss_Schemas "HOL-Library.AList"
begin

text \<open>
  The daemon that turns the frames of a u-blox receiver into messages: class \<open>UbloxMsgParser\<close> and
  \<open>main\<close> of \<open>system/ubloxd/ubloxd.py\<close>. The caches of the subframes survive an exception, which
  \<open>main\<close> catches, so that an operation returns its result, a raised exception included, beside
  the caches. Dictionaries are association lists, the default of an outer one is the empty list.
\<close>

definition SECS_IN_MIN :: int where "SECS_IN_MIN = 60"
definition SECS_IN_HR :: int where "SECS_IN_HR = 60 * SECS_IN_MIN"
definition SECS_IN_DAY :: int where "SECS_IN_DAY = 24 * SECS_IN_HR"
definition SECS_IN_WEEK :: int where "SECS_IN_WEEK = 7 * SECS_IN_DAY"

definition test_bit :: "int \<Rightarrow> nat \<Rightarrow> bool" where
  "test_bit b shift \<longleftrightarrow> b AND push_bit shift 1 \<noteq> 0"

record eph_caches =
  ec_gps_subframes :: "int \<Rightarrow> (int \<times> bytes) list"
  ec_glonass_strings :: "int \<Rightarrow> (int \<times> bytes) list"
  ec_glonass_string_times :: "int \<Rightarrow> (int \<times> real) list"
  ec_glonass_string_superframes :: "int \<Rightarrow> (int \<times> int) list"

record msg_parser = eph_caches +
  mq_framer :: ubx_framer

definition msg_parser_init :: msg_parser where
  "msg_parser_init = \<lparr>ec_gps_subframes = (\<lambda>_. []), ec_glonass_strings = (\<lambda>_. []), ec_glonass_string_times = (\<lambda>_. []),
     ec_glonass_string_superframes = (\<lambda>_. []), mq_framer = framer_init\<rparr>"

definition gpsPi :: real where "gpsPi = 3.1415926535898"

definition glonass_URA_lookup :: "(int \<times> real) list" where
  "glonass_URA_lookup = [(0, 1), (1, 2), (2, 25/10), (3, 4), (4, 5), (5, 7), (6, 10), (7, 12), (8, 14), (9, 16), (10, 32), (11, 64),
     (12, 128), (13, 256), (14, 512), (15, 1024)]"

section \<open>Messages\<close>

record gps_location =
  gl_flags :: int
  gl_hasFix :: bool
  gl_latitude :: real
  gl_longitude :: real
  gl_altitude :: real
  gl_speed :: real
  gl_bearingDeg :: real
  gl_horizontalAccuracy :: real
  gl_satelliteCount :: int
  gl_unixTimestampMillis :: int
  gl_vNED :: "real list"
  gl_verticalAccuracy :: real
  gl_speedAccuracy :: real
  gl_bearingAccuracyDeg :: real

record gps_eph =
  ge_svId :: int
  ge_tgd :: real
  ge_toc :: real
  ge_af2 :: real
  ge_af1 :: real
  ge_af0 :: real
  ge_svHealth :: int
  ge_towCount :: int
  ge_crs :: real
  ge_deltaN :: real
  ge_m0 :: real
  ge_cuc :: real
  ge_ecc :: real
  ge_cus :: real
  ge_a :: real
  ge_toe :: real
  ge_cic :: real
  ge_omega0 :: real
  ge_cis :: real
  ge_i0 :: real
  ge_crc :: real
  ge_omega :: real
  ge_omegaDot :: real
  ge_iode :: int
  ge_iDot :: real
  ge_toeWeek :: int
  ge_tocWeek :: int

record glonass_eph =
  gn_svId :: int
  gn_freqNum :: int
  gn_p1 :: int
  gn_tk :: int
  gn_x :: real
  gn_xVel :: real
  gn_xAccel :: real
  gn_svHealth :: int
  gn_p2 :: int
  gn_tb :: int
  gn_y :: real
  gn_yVel :: real
  gn_yAccel :: real
  gn_p3 :: int
  gn_gammaN :: real
  gn_z :: real
  gn_zVel :: real
  gn_zAccel :: real
  gn_nt :: int
  gn_tauN :: real
  gn_deltaTauN :: real
  gn_age :: int
  gn_p4 :: int
  gn_svURA :: real
  gn_svType :: int
  gn_n4 :: int
  gn_tkSeconds :: int

record gnss_measurement =
  gm_svId :: int
  gm_pseudorange :: bytes
  gm_carrierCycles :: bytes
  gm_doppler :: bytes
  gm_gnssId :: int
  gm_glonassFrequencyIndex :: int
  gm_locktime :: int
  gm_cno :: int
  gm_pseudorangeStdev :: real
  gm_carrierPhaseStdev :: real
  gm_dopplerStdev :: real
  gm_pseudorangeValid :: bool
  gm_carrierPhaseValid :: bool
  gm_halfCycleValid :: bool
  gm_halfCycleSubtracted :: bool

record measurement_report =
  mt_rcvTow :: bytes
  mt_gpsWeek :: int
  mt_leapSeconds :: int
  mt_measurements :: "gnss_measurement list"
  mt_numMeas :: int
  mt_leapSecValid :: bool
  mt_clkReset :: bool

record sat_info =
  st_svId :: int
  st_gnssId :: int
  st_flagsBitfield :: int
  st_cno :: int
  st_elevationDeg :: int
  st_azimuthDeg :: int
  st_pseudorangeResidual :: real

datatype gnss_msg = Gps_location gps_location | Ephemeris gps_eph | Glonass_ephemeris glonass_eph
  | Measurement_report measurement_report
  | Sat_report int "sat_info list"
  | Hw_status int int int int int int
  | Hw_status2 int int int int int int int

section \<open>The position\<close>

text \<open>\<open>calendar.timegm\<close>, whose \<open>datetime.date\<close> raises for a year or month out of range.\<close>

definition is_leap :: "int \<Rightarrow> bool" where
  "is_leap year \<longleftrightarrow> year mod 4 = 0 \<and> (year mod 100 \<noteq> 0 \<or> year mod 400 = 0)"

definition days_before_year :: "int \<Rightarrow> int" where
  "days_before_year year = (let y = year - 1 in y * 365 + y div 4 - y div 100 + y div 400)"

definition days_before_month :: "int \<Rightarrow> int \<Rightarrow> int" where
  "days_before_month year month = sum_list (take (nat (month - 1)) [31, if is_leap year then 29 else 28, 31, 30, 31, 30, 31, 31, 30, 31, 30, 31])"

definition timegm :: "int \<Rightarrow> int \<Rightarrow> int \<Rightarrow> int \<Rightarrow> int \<Rightarrow> int \<Rightarrow> int result" where
  "timegm year month day hour minute second =
     (if 1 \<le> year \<and> year \<le> 9999 \<and> 1 \<le> month \<and> month \<le> 12
      then let days = days_before_year year + days_before_month year month + 1 - 719163 + day - 1;
               hours = days * 24 + hour; minutes = hours * 60 + minute
           in Inr (minutes * 60 + second)
      else Inl ValueError)"

definition utc_seconds :: "bs_value \<Rightarrow> int" where
  "utc_seconds m = (case timegm (num ''year'' m) (num ''month'' m) (num ''day'' m) (num ''hour'' m) (num ''min'' m) (num ''sec'' m) of
     Inr t \<Rightarrow> t | Inl e \<Rightarrow> 0)"

definition gen_nav_pvt :: "bs_value \<Rightarrow> gnss_msg" where
  "gen_nav_pvt m = Gps_location
     \<lparr>gl_flags = num ''flags'' m, gl_hasFix = (num ''flags'' m mod 2 = 1),
      gl_latitude = of_int (num ''lat'' m) / 10^7, gl_longitude = of_int (num ''lon'' m) / 10^7,
      gl_altitude = of_int (num ''height'' m) / 10^3, gl_speed = of_int (num ''g_speed'' m) / 10^3,
      gl_bearingDeg = of_int (num ''head_mot'' m) / 10^5, gl_horizontalAccuracy = of_int (num ''h_acc'' m) / 10^3,
      gl_satelliteCount = num ''num_sv'' m,
      gl_unixTimestampMillis = py_int (of_int (utc_seconds m) * 10^3 + of_int (num ''nano'' m) / 10^6),
      gl_vNED = map (\<lambda>f. of_int (num f m) / 10^3) [''vel_n'', ''vel_e'', ''vel_d''],
      gl_verticalAccuracy = of_int (num ''v_acc'' m) / 10^3, gl_speedAccuracy = of_int (num ''s_acc'' m) / 10^3,
      gl_bearingAccuracyDeg = of_int (num ''head_acc'' m) / 10^5\<rparr>"

section \<open>Subframes\<close>

record sfrbx =
  sb_gnss_id :: int
  sb_sv_id :: int
  sb_freq_id :: int
  sb_body :: "int list"

text \<open>The result of an operation that may raise after it has changed the caches.\<close>

type_synonym ('a, 'c) cached = "'a option result \<times> 'c eph_caches_scheme"

definition word_bytes :: "nat list \<Rightarrow> int \<Rightarrow> bytes" where
  "word_bytes shifts w = map (\<lambda>s. word_of_int (drop_bit s w)) shifts"

definition gps_subframe_data :: "int list \<Rightarrow> bytes" where
  "gps_subframe_data body = concat (map (\<lambda>w. word_bytes [16, 8, 0] (drop_bit 6 w)) body)"

definition gps_week :: "bs_value \<Rightarrow> bs_value \<Rightarrow> int" where
  "gps_week sf1 sf2 =
     (let w0 = num ''week_no'' (get ''body'' sf1) + 1024;
          w = (if w0 < 1877 then w0 + 1024 else w0)
      in if num ''t_oe'' (get ''body'' sf2) = 0 \<and> num ''tow_count'' (get ''how'' sf2) * 6 \<ge> SECS_IN_WEEK - 2 * SECS_IN_HR then w + 1 else w)"

definition gps_eph_of :: "int \<Rightarrow> bs_value \<Rightarrow> bs_value \<Rightarrow> bs_value \<Rightarrow> gps_eph" where
  "gps_eph_of sv_id sf1 sf2 sf3 =
     (let s1 = get ''body'' sf1; s2 = get ''body'' sf2; s3 = get ''body'' sf3; week = gps_week sf1 sf2; r = (\<lambda>f v. real_of_int (num f v))
      in \<lparr>ge_svId = sv_id, ge_tgd = r ''t_gd'' s1 / 2^31, ge_toc = r ''t_oc'' s1 * 2^4, ge_af2 = r ''af_2'' s1 / 2^55,
          ge_af1 = r ''af_1'' s1 / 2^43, ge_af0 = of_int (af_0 s1) / 2^31, ge_svHealth = num ''sv_health'' s1,
          ge_towCount = num ''tow_count'' (get ''how'' sf1),
          ge_crs = r ''c_rs'' s2 / 2^5, ge_deltaN = r ''delta_n'' s2 / 2^43 * gpsPi, ge_m0 = r ''m_0'' s2 / 2^31 * gpsPi,
          ge_cuc = r ''c_uc'' s2 / 2^29, ge_ecc = r ''e'' s2 / 2^33, ge_cus = r ''c_us'' s2 / 2^29, ge_a = (r ''sqrt_a'' s2 / 2^19)^2,
          ge_toe = r ''t_oe'' s2 * 2^4,
          ge_cic = r ''c_ic'' s3 / 2^29, ge_omega0 = r ''omega_0'' s3 / 2^31 * gpsPi, ge_cis = r ''c_is'' s3 / 2^29,
          ge_i0 = r ''i_0'' s3 / 2^31 * gpsPi, ge_crc = r ''c_rc'' s3 / 2^5, ge_omega = r ''omega'' s3 / 2^31 * gpsPi,
          ge_omegaDot = of_int (omega_dot s3) / 2^43 * gpsPi, ge_iode = num ''iode'' s3, ge_iDot = of_int (idot s3) / 2^43 * gpsPi,
          ge_toeWeek = week, ge_tocWeek = week\<rparr>)"

text \<open>A cached subframe, parsed again, with the assertion on its class.\<close>

definition cached_subframe :: "(int \<times> bytes) list \<Rightarrow> int \<Rightarrow> string \<Rightarrow> bs_value result" where
  "cached_subframe d k cls =
     (case map_of d k of
        None \<Rightarrow> Inl (KeyError k)
      | Some bs \<Rightarrow> bind_result (from_bytes ''Gps'' Gps_fields bs) (\<lambda>sf. if is_instance cls (get ''body'' sf) then Inr sf else Inl AssertionError))"

definition gps_complete :: "int \<Rightarrow> (int \<times> bytes) list \<Rightarrow> (gps_eph \<times> bool) result" where
  "gps_complete sv_id d =
     bind_result (cached_subframe d 1 ''Subframe1'') (\<lambda>sf1.
     bind_result (cached_subframe d 2 ''Subframe2'') (\<lambda>sf2.
     bind_result (cached_subframe d 3 ''Subframe3'') (\<lambda>sf3.
       let iodc_lsb = num ''iodc_lsb'' (get ''body'' sf1); iode_s2 = num ''iode'' (get ''body'' sf2); iode_s3 = num ''iode'' (get ''body'' sf3)
       in Inr (gps_eph_of sv_id sf1 sf2 sf3, iodc_lsb = iode_s2 \<and> iode_s2 = iode_s3))))"

definition parse_gps_ephemeris :: "sfrbx \<Rightarrow> 'c eph_caches_scheme \<Rightarrow> (gnss_msg, 'c) cached" where
  "parse_gps_ephemeris m c =
     (if length (sb_body m) \<noteq> 10 then (Inr None, c)
      else
        let data = gps_subframe_data (sb_body m); sv = sb_sv_id m
        in case from_bytes ''Gps'' Gps_fields data of
             Inl e \<Rightarrow> (Inl e, c)
           | Inr sf \<Rightarrow>
               if gps_id sf < 1 \<or> gps_id sf > 3 then (Inr None, c)
               else
                 let d = AList.update (gps_id sf) data (ec_gps_subframes c sv);
                     c1 = c\<lparr>ec_gps_subframes := (ec_gps_subframes c)(sv := d)\<rparr>
                 in if length d \<noteq> 3 then (Inr None, c1)
                    else case gps_complete sv d of
                        Inl e \<Rightarrow> (Inl e, c1)
                      | Inr (eph, consistent) \<Rightarrow>
                          (Inr (if consistent then Some (Ephemeris eph) else None), c1\<lparr>ec_gps_subframes := (ec_gps_subframes c1)(sv := [])\<rparr>))"

section \<open>GLONASS strings\<close>

definition glonass_string_data :: "int list \<Rightarrow> bytes" where
  "glonass_string_data body = concat (map (word_bytes [24, 16, 8, 0]) body)"

text \<open>
  Whether the cached strings belong to another superframe, or came at another time: once a
  superframe number has been unknown, the time is checked for the strings after it as well.
\<close>

definition glonass_check :: "real \<Rightarrow> int \<Rightarrow> int \<Rightarrow> int \<Rightarrow> 'c eph_caches_scheme \<Rightarrow> int \<Rightarrow> bool \<times> bool \<Rightarrow> bool \<times> bool" where
  "glonass_check log_time string_number superframe freq_id c i = (\<lambda>(unknown, needs_clear).
     if map_of (ec_glonass_strings c freq_id) i = None then (unknown, needs_clear)
     else
       let sf_prev = (case map_of (ec_glonass_string_superframes c freq_id) i of Some v \<Rightarrow> v | None \<Rightarrow> 0);
           none = (sf_prev = 0 \<or> superframe = 0);
           unknown' = (unknown \<or> none);
           prev_time = (case map_of (ec_glonass_string_times c freq_id) i of Some t \<Rightarrow> t | None \<Rightarrow> 0)
       in (unknown', needs_clear \<or> (\<not> none \<and> sf_prev \<noteq> superframe)
             \<or> (unknown' \<and> \<bar>(prev_time - 2 * of_int i) - (log_time - 2 * of_int string_number)\<bar> > 10)))"

definition glonass_needs_clear :: "real \<Rightarrow> int \<Rightarrow> int \<Rightarrow> int \<Rightarrow> 'c eph_caches_scheme \<Rightarrow> bool" where
  "glonass_needs_clear log_time string_number superframe freq_id c =
     snd (fold (glonass_check log_time string_number superframe freq_id c) [1, 2, 3, 4, 5] (False, False))"

definition glonass_clear :: "int \<Rightarrow> 'c eph_caches_scheme \<Rightarrow> 'c eph_caches_scheme" where
  "glonass_clear f c = c\<lparr>ec_glonass_strings := (ec_glonass_strings c)(f := []),
     ec_glonass_string_superframes := (ec_glonass_string_superframes c)(f := []), ec_glonass_string_times := (ec_glonass_string_times c)(f := [])\<rparr>"

definition glonass_store :: "int \<Rightarrow> int \<Rightarrow> bytes \<Rightarrow> int \<Rightarrow> real \<Rightarrow> 'c eph_caches_scheme \<Rightarrow> 'c eph_caches_scheme" where
  "glonass_store f k data superframe log_time c =
     c\<lparr>ec_glonass_strings := (ec_glonass_strings c)(f := AList.update k data (ec_glonass_strings c f)),
       ec_glonass_string_superframes := (ec_glonass_string_superframes c)(f := AList.update k superframe (ec_glonass_string_superframes c f)),
       ec_glonass_string_times := (ec_glonass_string_times c)(f := AList.update k log_time (ec_glonass_string_times c f))\<rparr>"

text \<open>A cached string, parsed again: any exception of the parser ends the attempt with no message.\<close>

definition cached_string :: "(int \<times> bytes) list \<Rightarrow> int \<Rightarrow> string \<Rightarrow> bs_value option result" where
  "cached_string d k cls =
     (case (case map_of d k of None \<Rightarrow> Inl (KeyError k) | Some bs \<Rightarrow> from_bytes ''Glonass'' Glonass_fields bs) of
        Inl e \<Rightarrow> Inr None
      | Inr g \<Rightarrow> if is_instance cls (get ''data'' g) then Inr (Some (get ''data'' g)) else Inl AssertionError)"

definition glonass_tk_seconds :: "int \<Rightarrow> int" where
  "glonass_tk_seconds tk = SECS_IN_HR * (drop_bit 7 tk AND 0x1F) + SECS_IN_MIN * (drop_bit 1 tk AND 0x3F) + (tk AND 1) * 30"

definition glonass_eph_of :: "sfrbx \<Rightarrow> bs_value \<Rightarrow> bs_value \<Rightarrow> bs_value \<Rightarrow> bs_value \<Rightarrow> bs_value \<Rightarrow> glonass_eph" where
  "glonass_eph_of m s1 s2 s3 s4 s5 =
     (let r = (\<lambda>f v. real_of_int (sign_attr f v))
      in \<lparr>gn_svId = sb_sv_id m, gn_freqNum = sb_freq_id m - 7,
          gn_p1 = num ''p1'' s1, gn_tk = num ''t_k'' s1, gn_x = r ''x'' s1 / 2^11, gn_xVel = r ''x_vel'' s1 / 2^20, gn_xAccel = r ''x_accel'' s1 / 2^30,
          gn_svHealth = (drop_bit 2 (num ''b_n'' s2) OR (if flag ''l_n'' s3 then 1 else 0)),
          gn_p2 = num ''p2'' s2, gn_tb = num ''t_b'' s2, gn_y = r ''y'' s2 / 2^11, gn_yVel = r ''y_vel'' s2 / 2^20, gn_yAccel = r ''y_accel'' s2 / 2^30,
          gn_p3 = num ''p3'' s3, gn_gammaN = r ''gamma_n'' s3 / 2^40,
          gn_z = r ''z'' s3 / 2^11, gn_zVel = r ''z_vel'' s3 / 2^20, gn_zAccel = r ''z_accel'' s3 / 2^30,
          gn_nt = num ''n_t'' s4, gn_tauN = r ''tau_n'' s4 / 2^30, gn_deltaTauN = r ''delta_tau_n'' s4 / 2^30, gn_age = num ''e_n'' s4,
          gn_p4 = num ''p4'' s4, gn_svURA = (case map_of glonass_URA_lookup (num ''f_t'' s4) of Some v \<Rightarrow> v | None \<Rightarrow> 0),
          gn_svType = num ''m'' s4, gn_n4 = num ''n_4'' s5, gn_tkSeconds = glonass_tk_seconds (num ''t_k'' s1)\<rparr>)"

text \<open>\<open>then_string r f\<close>: go on with the string, unless there is none.\<close>

definition then_string :: "bs_value option result \<Rightarrow> (bs_value \<Rightarrow> 'a option result) \<Rightarrow> 'a option result" where
  "then_string r f = bind_result r (\<lambda>x. case x of None \<Rightarrow> Inr None | Some v \<Rightarrow> f v)"

definition glonass_complete :: "sfrbx \<Rightarrow> (int \<times> bytes) list \<Rightarrow> glonass_eph option result" where
  "glonass_complete m d =
     then_string (cached_string d 1 ''String1'') (\<lambda>s1. then_string (cached_string d 2 ''String2'') (\<lambda>s2.
     then_string (cached_string d 3 ''String3'') (\<lambda>s3. then_string (cached_string d 4 ''String4'') (\<lambda>s4.
     then_string (cached_string d 5 ''String5'') (\<lambda>s5. Inr (Some (glonass_eph_of m s1 s2 s3 s4 s5)))))))"

definition parse_glonass_ephemeris :: "real \<Rightarrow> sfrbx \<Rightarrow> 'c eph_caches_scheme \<Rightarrow> (gnss_msg, 'c) cached" where
  "parse_glonass_ephemeris log_time m c =
     (if length (sb_body m) \<noteq> 4 then (Inr None, c)
      else
        let data = glonass_string_data (sb_body m)
        in case from_bytes ''Glonass'' Glonass_fields data of
             Inl e \<Rightarrow> (Inl e, c)
           | Inr gl \<Rightarrow>
               let k = num ''string_number'' gl; superframe = num ''superframe_number'' gl; f = sb_freq_id m
               in if k < 1 \<or> k > 5 \<or> flag ''idle_chip'' gl then (Inr None, c)
                  else
                    let c1 = (if glonass_needs_clear log_time k superframe f c then glonass_clear f c else c);
                        c2 = glonass_store f k data superframe log_time c1
                    in if sb_sv_id m = 255 \<or> length (ec_glonass_strings c2 f) \<noteq> 5 then (Inr None, c2)
                       else case glonass_complete m (ec_glonass_strings c2 f) of
                           Inl e \<Rightarrow> (Inl e, c2)
                         | Inr None \<Rightarrow> (Inr None, c2)
                         | Inr (Some eph) \<Rightarrow> (Inr (Some (Glonass_ephemeris eph)), c2\<lparr>ec_glonass_strings := (ec_glonass_strings c2)(f := [])\<rparr>))"

section \<open>Reports\<close>

fun map_results :: "('a \<Rightarrow> 'b result) \<Rightarrow> 'a list \<Rightarrow> 'b list result" where
  "map_results f [] = Inr []"
| "map_results f (x # xs) = bind_result (f x) (\<lambda>y. bind_result (map_results f xs) (\<lambda>ys. Inr (y # ys)))"

definition measurement_of :: "bs_value \<Rightarrow> gnss_measurement result" where
  "measurement_of m = bind_result (enum_value ''gnss_id'' m) (\<lambda>gid.
     let trk = num ''trk_stat'' m
     in Inr \<lparr>gm_svId = num ''sv_id'' m, gm_pseudorange = float_bytes ''pr_mes'' m, gm_carrierCycles = float_bytes ''cp_mes'' m,
             gm_doppler = float_bytes ''do_mes'' m, gm_gnssId = gid, gm_glonassFrequencyIndex = num ''freq_id'' m,
             gm_locktime = num ''lock_time'' m, gm_cno = num ''cno'' m,
             gm_pseudorangeStdev = 1/100 * 2 ^ nat (num ''pr_stdev'' m AND 15),
             gm_carrierPhaseStdev = 4/1000 * of_int (num ''cp_stdev'' m AND 15),
             gm_dopplerStdev = 2/1000 * 2 ^ nat (num ''do_stdev'' m AND 15),
             gm_pseudorangeValid = test_bit trk 0, gm_carrierPhaseValid = test_bit trk 1,
             gm_halfCycleValid = test_bit trk 2, gm_halfCycleSubtracted = test_bit trk 3\<rparr>)"

definition gen_rxm_rawx :: "bs_value \<Rightarrow> gnss_msg result" where
  "gen_rxm_rawx m = bind_result (map_results measurement_of (elements ''meas'' m)) (\<lambda>ms.
     Inr (Measurement_report \<lparr>mt_rcvTow = float_bytes ''rcv_tow'' m, mt_gpsWeek = num ''week'' m, mt_leapSeconds = num ''leap_s'' m,
       mt_measurements = ms, mt_numMeas = num ''num_meas'' m, mt_leapSecValid = test_bit (num ''rec_stat'' m) 0,
       mt_clkReset = test_bit (num ''rec_stat'' m) 2\<rparr>))"

definition sat_info_of :: "bs_value \<Rightarrow> sat_info result" where
  "sat_info_of v = bind_result (enum_value ''gnss_id'' v) (\<lambda>gid.
     Inr \<lparr>st_svId = num ''sv_id'' v, st_gnssId = gid, st_flagsBitfield = num ''flags'' v, st_cno = num ''cno'' v,
          st_elevationDeg = num ''elev'' v, st_azimuthDeg = num ''azim'' v, st_pseudorangeResidual = of_int (num ''pr_res'' v) * (1/10)\<rparr>)"

definition gen_nav_sat :: "bs_value \<Rightarrow> gnss_msg result" where
  "gen_nav_sat m = bind_result (map_results sat_info_of (elements ''svs'' m)) (\<lambda>svs. Inr (Sat_report (num ''itow'' m) svs))"

definition gen_mon_hw :: "bs_value \<Rightarrow> gnss_msg result" where
  "gen_mon_hw m = bind_result (enum_value ''a_status'' m) (\<lambda>a_status. bind_result (enum_value ''a_power'' m) (\<lambda>a_power.
     Inr (Hw_status (num ''noise_per_ms'' m) (num ''flags'' m) (num ''agc_cnt'' m) a_status a_power (num ''jam_ind'' m))))"

definition cfg_map :: "(int \<times> int) list" where
  "cfg_map = [(113, 1), (111, 2), (112, 3), (102, 4)]"

definition gen_mon_hw2 :: "bs_value \<Rightarrow> gnss_msg" where
  "gen_mon_hw2 m = Hw_status2 (num ''ofs_i'' m) (num ''mag_i'' m) (num ''ofs_q'' m) (num ''mag_q'' m)
     (case map_of cfg_map (num ''cfg_source'' m) of Some k \<Rightarrow> k | None \<Rightarrow> 0) (num ''low_lev_cfg'' m) (num ''post_status'' m)"

section \<open>Frames\<close>

definition byte_at :: "bytes \<Rightarrow> nat \<Rightarrow> int" where
  "byte_at bs i = uint (bs ! i)"

definition sfrbx_words :: "nat \<Rightarrow> bytes \<Rightarrow> int list" where
  "sfrbx_words n payload = map (\<lambda>i. int (le_nat (take 4 (drop (8 + 4 * i) payload)))) [0..<n]"

text \<open>The words of a subframe; a system the code does not know raises.\<close>

definition sfrbx_view :: "bytes \<Rightarrow> sfrbx option result" where
  "sfrbx_view payload =
     (if length payload < 8 then Inr None
      else let num_words = unat (payload ! 4)
           in if 8 + 4 * num_words \<noteq> length payload then Inr None
              else if byte_at payload 0 \<notin> set GnssType then Inl ValueError
              else Inr (Some \<lparr>sb_gnss_id = byte_at payload 0, sb_sv_id = byte_at payload 1, sb_freq_id = byte_at payload 3,
                              sb_body = sfrbx_words num_words payload\<rparr>))"

definition gen_rxm_sfrbx :: "real \<Rightarrow> sfrbx \<Rightarrow> 'c eph_caches_scheme \<Rightarrow> (gnss_msg, 'c) cached" where
  "gen_rxm_sfrbx log_time m c =
     (if sb_gnss_id m = 0 then parse_gps_ephemeris m c
      else if sb_gnss_id m = 6 then parse_glonass_ephemeris log_time m c
      else (Inr None, c))"

definition parse_body :: "string \<Rightarrow> (string \<times> field_type) list \<Rightarrow> (bs_value \<Rightarrow> gnss_msg result) \<Rightarrow> bytes \<Rightarrow> gnss_msg option result" where
  "parse_body cls fs gen payload = bind_result (from_bytes cls fs payload) (\<lambda>m. bind_result (gen m) (\<lambda>x. Inr (Some x)))"

definition parse_frame :: "real \<Rightarrow> bytes \<Rightarrow> 'c eph_caches_scheme \<Rightarrow> (gnss_msg, 'c) cached" where
  "parse_frame log_time frame c =
     (let msg_type = 256 * byte_at frame 2 + byte_at frame 3; payload = drop 6 (take (length frame - 2) frame)
      in if msg_type = 0x0107 then (parse_body ''NavPvt'' NavPvt_fields (\<lambda>m. Inr (gen_nav_pvt m)) payload, c)
         else if msg_type = 0x0213 then
           (case sfrbx_view payload of Inl e \<Rightarrow> (Inl e, c) | Inr None \<Rightarrow> (Inr None, c) | Inr (Some m) \<Rightarrow> gen_rxm_sfrbx log_time m c)
         else if msg_type = 0x0215 then (parse_body ''RxmRawx'' RxmRawx_fields gen_rxm_rawx payload, c)
         else if msg_type = 0x0A09 then (parse_body ''MonHw'' MonHw_fields gen_mon_hw payload, c)
         else if msg_type = 0x0A0B then (parse_body ''MonHw2'' MonHw2_fields (\<lambda>m. Inr (gen_mon_hw2 m)) payload, c)
         else if msg_type = 0x0135 then (parse_body ''NavSat'' NavSat_fields gen_nav_sat payload, c)
         else (Inr None, c))"

text \<open>A round of \<open>main\<close>: the messages sent, and every exception ignored.\<close>

definition parse_frames :: "real \<Rightarrow> bytes list \<Rightarrow> msg_parser \<Rightarrow> gnss_msg list \<times> msg_parser" where
  "parse_frames log_time frames s = fold (\<lambda>frame (out, s). case parse_frame log_time frame s of
       (Inr (Some m), s') \<Rightarrow> (out @ [m], s') | (r, s') \<Rightarrow> (out, s')) frames ([], s)"

definition ubloxd_round :: "real \<Rightarrow> bytes \<Rightarrow> msg_parser \<Rightarrow> gnss_msg list \<times> msg_parser" where
  "ubloxd_round log_time data s =
     (let (frames, fr) = add_data log_time data (mq_framer s) in parse_frames log_time frames (s\<lparr>mq_framer := fr\<rparr>))"

section \<open>Facts\<close>

text \<open>The body of a parsed GPS subframe has the class of its id.\<close>

lemma parse_third:
  assumes "parse_struct cls ((n1, t1) # (n2, t2) # (n3, t3) # fs) [] r = Inr (v, r')"
  shows "\<exists>v1 v2 v3 vs r2 r3. v = VObj cls ([(n1, v1), (n2, v2), (n3, v3)] @ vs)
    \<and> parse_field t3 (VObj cls [(n1, v1), (n2, v2)]) r2 = Inr (v3, r3)"
proof -
  from assms obtain v1 v2 v3 r2 r3 where "parse_field t3 (VObj cls [(n1, v1), (n2, v2)]) r2 = Inr (v3, r3)"
    "parse_struct cls fs [(n1, v1), (n2, v2), (n3, v3)] r3 = Inr (v, r')" by (auto simp: bind_result_Inr_iff)
  with parse_struct_names [OF this(2)] show ?thesis by blast
qed

lemma struct_class: "parse_struct cls fs [] r = Inr (v, r') \<Longrightarrow> is_instance cls v"
  using parse_struct_names [of cls fs "[]" r v r'] by (auto simp: is_instance_def)

lemma gps_body_class:
  assumes "from_bytes ''Gps'' Gps_fields bs = Inr sf" "gps_id sf = k" "k \<in> {1, 2, 3}"
  shows "is_instance (if k = 1 then ''Subframe1'' else if k = 2 then ''Subframe2'' else ''Subframe3'') (get ''body'' sf)"
proof -
  obtain r' where "parse_struct ''Gps'' Gps_fields [] (reader_of bs) = Inr (sf, r')" using assms(1) by (auto simp: from_bytes_def bind_result_Inr_iff)
  from parse_third [OF this [unfolded Gps_fields_def]] obtain v1 v2 v3 vs r2 r3 where
    v: "sf = VObj ''Gps'' ([(''tlm'', v1), (''how'', v2), (''body'', v3)] @ vs)"
      "parse_field (SwitchType [''how'', ''subframe_id'']
         [(1, StructType ''Subframe1'' Subframe1_fields), (2, StructType ''Subframe2'' Subframe2_fields),
          (3, StructType ''Subframe3'' Subframe3_fields), (4, StructType ''Subframe4'' Subframe4_fields)] None)
         (VObj ''Gps'' [(''tlm'', v1), (''how'', v2)]) r2 = Inr (v3, r3)" by blast
  from v(2) obtain key where key: "attr ''subframe_id'' v2 = Inr key" "parse_cases
         [(1, StructType ''Subframe1'' Subframe1_fields), (2, StructType ''Subframe2'' Subframe2_fields),
          (3, StructType ''Subframe3'' Subframe3_fields), (4, StructType ''Subframe4'' Subframe4_fields)] None (as_int key)
         (VObj ''Gps'' [(''tlm'', v1), (''how'', v2)]) r2 = Inr (v3, r3)" by (auto simp: bind_result_Inr_iff attr_def)
  have "num ''subframe_id'' v2 = k" using assms(2) v(1) by (simp add: gps_id_def get_def attr_def)
  with key(1) assms(3) have "as_int key = Some k" by (auto simp: num_def get_def split: option.splits)
  with key(2) assms(3) have "is_instance (if k = 1 then ''Subframe1'' else if k = 2 then ''Subframe2'' else ''Subframe3'') v3"
    by (auto dest: struct_class)
  then show ?thesis by (simp add: v(1) get_def attr_def)
qed

text \<open>
  The cache of a satellite: at most two subframes between messages, each under its own id.
\<close>

definition gps_cache_ok :: "(int \<times> bytes) list \<Rightarrow> bool" where
  "gps_cache_ok d \<longleftrightarrow> distinct (map fst d) \<and> fst ` set d \<subseteq> {1, 2, 3}
     \<and> (\<forall>(k, bs) \<in> set d. \<exists>sf. from_bytes ''Gps'' Gps_fields bs = Inr sf \<and> gps_id sf = k)"

definition gps_caches_ok :: "'c eph_caches_scheme \<Rightarrow> bool" where
  "gps_caches_ok c \<longleftrightarrow> (\<forall>sv. gps_cache_ok (ec_gps_subframes c sv) \<and> length (ec_gps_subframes c sv) < 3)"

lemma gps_cache_Nil [simp]: "gps_cache_ok []"
  by (simp add: gps_cache_ok_def)

lemma gps_cache_update:
  assumes "gps_cache_ok d" "from_bytes ''Gps'' Gps_fields bs = Inr sf" "gps_id sf \<in> {1, 2, 3}"
  shows "gps_cache_ok (AList.update (gps_id sf) bs d)"
proof -
  let ?k = "gps_id sf"
  have mem: "x \<in> set d" if "x \<in> set (AList.update ?k bs d)" "x \<noteq> (?k, bs)" for x
    using that by (induction d) (auto split: if_splits)
  have "distinct (map fst (AList.update ?k bs d))" using assms(1) by (simp add: gps_cache_ok_def distinct_update)
  with mem assms show ?thesis unfolding gps_cache_ok_def by fastforce
qed

lemma update_length: "length (AList.update k v d) \<le> Suc (length d)"
  by (induction d) auto

text \<open>A full cache holds the three subframes, and none of the assertions on them fails.\<close>

lemma gps_cache_full:
  assumes "gps_cache_ok d" "length d = 3" "k \<in> {1, 2, 3}"
  shows "\<exists>bs sf. map_of d k = Some bs \<and> from_bytes ''Gps'' Gps_fields bs = Inr sf \<and> gps_id sf = k"
proof -
  have sub: "fst ` set d \<subseteq> {1, 2, 3}" using assms(1) by (simp add: gps_cache_ok_def)
  have "card (fst ` set d) = 3" using assms(1,2) distinct_card [of "map fst d"] by (simp add: gps_cache_ok_def)
  then have "card {1, 2, 3 :: int} \<le> card (fst ` set d)" by simp
  from card_seteq [OF _ sub this] have "k \<in> fst ` set d" using assms(3) by simp
  then obtain bs where "map_of d k = Some bs" by (metis map_of_eq_None_iff not_None_eq)
  moreover from map_of_SomeD [OF this] assms(1) obtain sf where "from_bytes ''Gps'' Gps_fields bs = Inr sf" "gps_id sf = k"
    by (auto simp: gps_cache_ok_def)
  ultimately show ?thesis by blast
qed

lemma cached_subframe_ok:
  assumes "gps_cache_ok d" "length d = 3" "k \<in> {1, 2, 3}"
  shows "\<exists>sf. cached_subframe d k (if k = 1 then ''Subframe1'' else if k = 2 then ''Subframe2'' else ''Subframe3'') = Inr sf"
proof -
  from gps_cache_full [OF assms] obtain bs sf where
    "map_of d k = Some bs" "from_bytes ''Gps'' Gps_fields bs = Inr sf" "gps_id sf = k" by blast
  with gps_body_class [OF this(2,3) assms(3)] show ?thesis by (simp add: cached_subframe_def)
qed

lemma gps_complete_ok:
  assumes "gps_cache_ok d" "length d = 3" shows "\<exists>r. gps_complete sv d = Inr r"
  using cached_subframe_ok [OF assms, of 1] cached_subframe_ok [OF assms, of 2] cached_subframe_ok [OF assms, of 3]
  by (auto simp: gps_complete_def Let_def)

lemma parse_gps_ok:
  assumes "gps_caches_ok c" "parse_gps_ephemeris m c = (r, c')"
  shows "gps_caches_ok c' \<and> (\<forall>e. r = Inl e \<longrightarrow> c' = c \<and> from_bytes ''Gps'' Gps_fields (gps_subframe_data (sb_body m)) = Inl e)
    \<and> ec_glonass_strings c' = ec_glonass_strings c"
proof (cases "from_bytes ''Gps'' Gps_fields (gps_subframe_data (sb_body m))")
  case (Inl e)
  with assms show ?thesis by (auto simp: parse_gps_ephemeris_def Let_def split: if_splits)
next
  case (Inr sf)
  show ?thesis
  proof (cases "length (sb_body m) \<noteq> 10 \<or> gps_id sf < 1 \<or> gps_id sf > 3")
    case True
    with assms Inr show ?thesis by (auto simp: parse_gps_ephemeris_def Let_def split: if_splits)
  next
    case False
    let ?sv = "sb_sv_id m" and ?bs = "gps_subframe_data (sb_body m)"
    let ?d = "AList.update (gps_id sf) ?bs (ec_gps_subframes c ?sv)"
    have id: "gps_id sf \<in> {1, 2, 3}" using False by auto
    have d: "gps_cache_ok ?d" "length ?d \<le> 3"
      using gps_cache_update [OF _ Inr id, of "ec_gps_subframes c ?sv"] update_length [of "gps_id sf" ?bs "ec_gps_subframes c ?sv"] assms(1)
      by (auto simp: gps_caches_ok_def less_Suc_eq_le dest!: spec [of _ ?sv])
    show ?thesis
    proof (cases "length ?d = 3")
      case True
      from gps_complete_ok [OF d(1) True] obtain eph b where "gps_complete ?sv ?d = Inr (eph, b)" by fastforce
      with assms Inr False True show ?thesis
        by (auto simp: parse_gps_ephemeris_def Let_def gps_caches_ok_def)
    next
      case notfull: False
      with assms Inr False d show ?thesis
        by (auto simp: parse_gps_ephemeris_def Let_def gps_caches_ok_def)
    qed
  qed
qed

text \<open>The same for the strings of GLONASS, of which five stay when the satellite is not known.\<close>

lemma glonass_body_class:
  assumes "from_bytes ''Glonass'' Glonass_fields bs = Inr g" "num ''string_number'' g = k" "k \<in> {1, 2, 3, 4, 5}"
  shows "is_instance (if k = 1 then ''String1'' else if k = 2 then ''String2'' else if k = 3 then ''String3'' else if k = 4 then ''String4'' else ''String5'')
    (get ''data'' g)"
proof -
  let ?cs = "[(1, StructType ''String1'' String1_fields), (2, StructType ''String2'' String2_fields), (3, StructType ''String3'' String3_fields),
          (4, StructType ''String4'' String4_fields), (5, StructType ''String5'' String5_fields)]"
  obtain r' where "parse_struct ''Glonass'' Glonass_fields [] (reader_of bs) = Inr (g, r')" using assms(1) by (auto simp: from_bytes_def bind_result_Inr_iff)
  from parse_third [OF this [unfolded Glonass_fields_def]] obtain v1 v2 v3 vs r2 r3 where
    v: "g = VObj ''Glonass'' ([(''idle_chip'', v1), (''string_number'', v2), (''data'', v3)] @ vs)"
      "parse_field (SwitchType [''string_number''] ?cs (Some (StructType ''StringNonImmediate'' StringNonImmediate_fields)))
         (VObj ''Glonass'' [(''idle_chip'', v1), (''string_number'', v2)]) r2 = Inr (v3, r3)" by blast
  have "as_int v2 = Some k" using assms(2,3) v(1) by (auto simp: num_def get_def attr_def split: option.splits)
  with v(2) assms(3) have "is_instance (if k = 1 then ''String1'' else if k = 2 then ''String2'' else if k = 3 then ''String3'' else if k = 4 then ''String4'' else ''String5'') v3"
    by (auto simp: attr_def dest: struct_class)
  then show ?thesis by (simp add: v(1) get_def attr_def)
qed

definition glonass_cache_ok :: "(int \<times> bytes) list \<Rightarrow> bool" where
  "glonass_cache_ok d \<longleftrightarrow> (\<forall>(k, bs) \<in> set d. \<exists>g. from_bytes ''Glonass'' Glonass_fields bs = Inr g \<and> num ''string_number'' g = k)"

definition glonass_caches_ok :: "'c eph_caches_scheme \<Rightarrow> bool" where
  "glonass_caches_ok c \<longleftrightarrow> (\<forall>f. glonass_cache_ok (ec_glonass_strings c f))"

lemma glonass_cache_Nil [simp]: "glonass_cache_ok []"
  by (simp add: glonass_cache_ok_def)

lemma glonass_cache_update:
  assumes "glonass_cache_ok d" "from_bytes ''Glonass'' Glonass_fields bs = Inr g"
  shows "glonass_cache_ok (AList.update (num ''string_number'' g) bs d)"
proof -
  have mem: "x \<in> set d" if "x \<in> set (AList.update k bs d)" "x \<noteq> (k, bs)" for x k
    using that by (induction d) (auto split: if_splits)
  with assms show ?thesis unfolding glonass_cache_ok_def by fastforce
qed

lemma cached_string_ok:
  assumes "glonass_cache_ok d" "k \<in> {1, 2, 3, 4, 5}"
  shows "\<exists>x. cached_string d k (if k = 1 then ''String1'' else if k = 2 then ''String2'' else if k = 3 then ''String3''
    else if k = 4 then ''String4'' else ''String5'') = Inr x"
proof (cases "map_of d k")
  case None
  then show ?thesis by (simp add: cached_string_def)
next
  case (Some bs)
  from map_of_SomeD [OF this] assms(1) obtain g where g: "from_bytes ''Glonass'' Glonass_fields bs = Inr g" "num ''string_number'' g = k"
    by (auto simp: glonass_cache_ok_def)
  from glonass_body_class [OF g assms(2)] Some g(1) show ?thesis by (simp add: cached_string_def)
qed

lemma then_string_ok: "(\<exists>x. r = Inr x) \<Longrightarrow> (\<And>v. \<exists>y. f v = Inr y) \<Longrightarrow> \<exists>y. then_string r f = Inr y"
  by (auto simp: then_string_def split: option.split)

lemma glonass_complete_ok:
  assumes "glonass_cache_ok d" shows "\<exists>r. glonass_complete m d = Inr r"
  using cached_string_ok [OF assms, of 1] cached_string_ok [OF assms, of 2] cached_string_ok [OF assms, of 3]
    cached_string_ok [OF assms, of 4] cached_string_ok [OF assms, of 5]
  unfolding glonass_complete_def by (intro then_string_ok) simp_all

lemma glonass_store_ok:
  "glonass_caches_ok c \<Longrightarrow> from_bytes ''Glonass'' Glonass_fields bs = Inr g \<Longrightarrow>
    glonass_caches_ok (glonass_store f (num ''string_number'' g) bs sn t c) \<and> ec_gps_subframes (glonass_store f k bs sn t c) = ec_gps_subframes c"
  using glonass_cache_update by (auto simp: glonass_caches_ok_def glonass_store_def)

lemma parse_glonass_ok:
  assumes "glonass_caches_ok c" "parse_glonass_ephemeris t m c = (r, c')"
  shows "glonass_caches_ok c' \<and> (\<forall>e. r = Inl e \<longrightarrow> from_bytes ''Glonass'' Glonass_fields (glonass_string_data (sb_body m)) = Inl e)
    \<and> ec_gps_subframes c' = ec_gps_subframes c"
proof (cases "from_bytes ''Glonass'' Glonass_fields (glonass_string_data (sb_body m))")
  case (Inl e)
  with assms show ?thesis by (auto simp: parse_glonass_ephemeris_def split: if_splits)
next
  case (Inr g)
  let ?k = "num ''string_number'' g" and ?f = "sb_freq_id m" and ?bs = "glonass_string_data (sb_body m)"
  let ?c1 = "if glonass_needs_clear t ?k (num ''superframe_number'' g) ?f c then glonass_clear ?f c else c"
  let ?c2 = "glonass_store ?f ?k ?bs (num ''superframe_number'' g) t ?c1"
  have c1: "glonass_caches_ok ?c1" "ec_gps_subframes ?c1 = ec_gps_subframes c"
    using assms(1) by (simp_all add: glonass_caches_ok_def glonass_clear_def)
  from glonass_store_ok [OF c1(1) Inr] c1(2) have c2: "glonass_caches_ok ?c2" "ec_gps_subframes ?c2 = ec_gps_subframes c" by simp_all
  from c2(1) have "glonass_cache_ok (ec_glonass_strings ?c2 ?f)" by (simp add: glonass_caches_ok_def)
  from glonass_complete_ok [OF this] obtain x where x: "glonass_complete m (ec_glonass_strings ?c2 ?f) = Inr x" by blast
  have "(r, c') \<in> {(Inr None, c), (Inr None, ?c2)} \<or> (\<exists>y. (r, c') = (Inr (Some y), ?c2\<lparr>ec_glonass_strings := (ec_glonass_strings ?c2)(?f := [])\<rparr>))"
    using assms(2) Inr x by (auto simp: parse_glonass_ephemeris_def Let_def split: if_splits option.splits)
  then show ?thesis using assms(1) c2 by (auto simp: glonass_caches_ok_def)
qed

text \<open>The errors of the parser: data that end too early, constants, attributes and counts.\<close>

definition parser_errors :: "py_error set" where
  "parser_errors = {EOFError, ValueError, AttributeError, TypeError}"

lemma bind_error: "bind_result m f = Inl e \<Longrightarrow> m = Inl e \<or> (\<exists>a. m = Inr a \<and> f a = Inl e)"
  by (cases m) auto

lemma read_bits_loop_error: "read_bits_loop n a r = Inl e \<Longrightarrow> e = EOFError"
proof (induction n a r rule: read_bits_loop.induct)
  case (1 n a r)
  from 1(2) show ?case using 1(1) [OF _ _ refl refl refl refl refl refl refl refl]
    by (subst (asm) read_bits_loop.simps) (auto simp: Let_def split: if_splits)
qed

lemma reader_errors:
  "read_bytes n r = Inl e \<Longrightarrow> e \<in> parser_errors" "read_int b sg be r = Inl e \<Longrightarrow> e \<in> parser_errors"
  "read_float b r = Inl e \<Longrightarrow> e \<in> parser_errors" "read_bits n r = Inl e \<Longrightarrow> e \<in> parser_errors"
  by (auto simp: read_bytes_def read_int_def read_float_def read_bits_def read_bits_int_be_def parser_errors_def Let_def
      dest!: bind_error read_bits_loop_error split: if_splits)

lemma resolve_errors: "resolve_path v ps = Inl e \<Longrightarrow> e \<in> parser_errors"
  by (induction ps arbitrary: v) (auto simp: attr_def parser_errors_def dest!: bind_error split: bs_value.splits option.splits)

lemma int_value_errors: "int_value v = Inl e \<Longrightarrow> e \<in> parser_errors"
  by (auto simp: int_value_def parser_errors_def split: option.splits)

lemma repeat_parse_errors:
  "repeat_parse n f r = Inl e \<Longrightarrow> (\<And>r. f r = Inl e \<Longrightarrow> e \<in> E) \<Longrightarrow> e \<in> E"
  by (induction n arbitrary: r) (auto dest!: bind_error)

lemma parse_errors:
  "parse_field t obj r = Inl e \<Longrightarrow> e \<in> parser_errors"
  "parse_cases cs d k obj r = Inl e \<Longrightarrow> e \<in> parser_errors"
  "parse_struct cls fs done r = Inl e \<Longrightarrow> e \<in> parser_errors"
proof (induction t obj r and cs d k obj r and cls fs "done" r arbitrary: e and e and e rule: parse_field_parse_cases_parse_struct.induct)
  case (4 t path obj r)
  then show ?case by (auto dest!: bind_error resolve_errors int_value_errors intro: repeat_parse_errors)
next
  case (1 t x obj r)
  then show ?case by (auto simp: parser_errors_def dest!: bind_error split: if_splits)
qed (auto dest!: bind_error resolve_errors int_value_errors reader_errors split: if_splits)

lemma from_bytes_error: "from_bytes cls fs bs = Inl e \<Longrightarrow> e \<in> parser_errors"
  by (auto simp: from_bytes_def dest!: bind_error parse_errors(3))

lemma map_results_errors: "map_results f xs = Inl e \<Longrightarrow> (\<And>x. f x = Inl e \<Longrightarrow> e \<in> E) \<Longrightarrow> e \<in> E"
  by (induction xs) (auto dest!: bind_error)

lemma gen_errors:
  "gen_rxm_rawx m = Inl e \<Longrightarrow> e \<in> parser_errors" "gen_mon_hw m = Inl e \<Longrightarrow> e \<in> parser_errors" "gen_nav_sat m = Inl e \<Longrightarrow> e \<in> parser_errors"
proof -
  have en: "enum_value n v = Inl e \<Longrightarrow> e \<in> parser_errors" for n v e
    by (auto simp: enum_value_def parser_errors_def split: bs_value.splits)
  show "gen_rxm_rawx m = Inl e \<Longrightarrow> e \<in> parser_errors"
    by (auto simp: gen_rxm_rawx_def measurement_of_def Let_def dest!: bind_error en intro: map_results_errors)
  show "gen_mon_hw m = Inl e \<Longrightarrow> e \<in> parser_errors"
    by (auto simp: gen_mon_hw_def dest!: bind_error en)
  show "gen_nav_sat m = Inl e \<Longrightarrow> e \<in> parser_errors"
    by (auto simp: gen_nav_sat_def sat_info_of_def dest!: bind_error en intro: map_results_errors)
qed

lemma parse_body_error:
  "parse_body cls fs gen bs = Inl e \<Longrightarrow> (\<And>m. gen m = Inl e \<Longrightarrow> e \<in> parser_errors) \<Longrightarrow> e \<in> parser_errors"
  by (auto simp: parse_body_def dest!: bind_error from_bytes_error)

definition caches_ok :: "'c eph_caches_scheme \<Rightarrow> bool" where
  "caches_ok c \<longleftrightarrow> gps_caches_ok c \<and> glonass_caches_ok c"

lemma gen_rxm_sfrbx_ok:
  assumes "caches_ok c" "gen_rxm_sfrbx t m c = (r, c')"
  shows "caches_ok c' \<and> (\<forall>e. r = Inl e \<longrightarrow> e \<in> parser_errors)"
  using assms parse_gps_ok [of c m r c'] parse_glonass_ok [of c t m r c'] from_bytes_error
  by (auto simp: gen_rxm_sfrbx_def caches_ok_def gps_caches_ok_def glonass_caches_ok_def split: if_splits)

lemma sfrbx_view_error: "sfrbx_view p = Inl e \<Longrightarrow> e \<in> parser_errors"
  by (auto simp: sfrbx_view_def parser_errors_def Let_def split: if_splits)

lemma parse_frame_ok:
  assumes "caches_ok c" "parse_frame t frame c = (r, c')"
  shows "caches_ok c' \<and> (\<forall>e. r = Inl e \<longrightarrow> e \<in> parser_errors)"
proof (cases "256 * byte_at frame 2 + byte_at frame 3 = 0x0213")
  case True
  with assms sfrbx_view_error gen_rxm_sfrbx_ok [OF assms(1)] show ?thesis
    by (auto simp: parse_frame_def Let_def split: sum.splits option.splits)
next
  case False
  with assms(2) have "c' = c" by (auto simp: parse_frame_def Let_def split: if_splits)
  moreover have "e \<in> parser_errors" if "r = Inl e" for e
    using that assms(2) False gen_errors by (auto simp: parse_frame_def Let_def split: if_splits intro: parse_body_error)
  ultimately show ?thesis using assms(1) by simp
qed

lemma parse_frames_ok:
  assumes "caches_ok s" shows "caches_ok (snd (parse_frames t frames s))"
proof -
  have "caches_ok (snd (fold (\<lambda>frame (out, s). case parse_frame t frame s of
       (Inr (Some m), s') \<Rightarrow> (out @ [m], s') | (r, s') \<Rightarrow> (out, s')) frames (out, s)))" if "caches_ok s" for out s
    using that
  proof (induction frames arbitrary: out s)
    case (Cons frame frames)
    obtain r s' where r: "parse_frame t frame s = (r, s')" by (rule prod.exhaust)
    with parse_frame_ok [OF Cons.prems r] Cons.IH show ?case by (auto split: sum.splits option.splits)
  qed simp
  with assms show ?thesis by (simp add: parse_frames_def)
qed

definition ubloxd_run :: "(real \<times> bytes) list \<Rightarrow> msg_parser \<Rightarrow> msg_parser" where
  "ubloxd_run ms s = fold (\<lambda>(t, d) s. snd (ubloxd_round t d s)) ms s"

lemma ubloxd_run_ok: "caches_ok s \<Longrightarrow> caches_ok (ubloxd_run ms s)"
proof (induction ms arbitrary: s)
  case (Cons m ms)
  obtain t d where m: "m = (t, d)" by (rule prod.exhaust)
  obtain frames fr where d: "add_data t d (mq_framer s) = (frames, fr)" by (rule prod.exhaust)
  have "caches_ok (s\<lparr>mq_framer := fr\<rparr>)" using Cons.prems by (simp add: caches_ok_def gps_caches_ok_def glonass_caches_ok_def)
  from Cons.IH [OF parse_frames_ok [OF this]] show ?case by (simp add: ubloxd_run_def m ubloxd_round_def d)
qed (simp add: ubloxd_run_def)

text \<open>
  C9. The caches of the ephemerides are consistent: after any messages of the receiver, noise and
  broken frames included, every GPS satellite has fewer than three cached subframes, each parsing
  as the subframe its key says, and likewise the GLONASS strings. So on any further frame neither
  an assertion on the class of a cached subframe nor a lookup fails: the only exceptions are the
  parser's own on the data of that frame, all of which \<open>main\<close> survives.
\<close>

theorem gnss_caches_consistent:
  assumes "parse_frame t frame (ubloxd_run ms msg_parser_init) = (r, c)"
  shows "caches_ok c \<and> r \<notin> {Inl AssertionError, Inl (KeyError k)}"
proof -
  have "caches_ok msg_parser_init"
    by (simp add: caches_ok_def gps_caches_ok_def glonass_caches_ok_def msg_parser_init_def)
  from parse_frame_ok [OF ubloxd_run_ok [OF this] assms] show ?thesis by (auto simp: parser_errors_def)
qed

theorem gnss_caches_consistent_witness:
  "\<exists>r c. parse_frame 1 test_frame (ubloxd_run [(0, test_frame)] msg_parser_init) = (r, c) \<and> caches_ok c
     \<and> r \<notin> {Inl AssertionError, Inl (KeyError 1)}"
  using gnss_caches_consistent [where k = 1] by (metis prod.exhaust)

end
