(* ===== verification/Processes.thy ===== *)
theory Processes
  imports Car_Types Params
begin

text \<open>
  The processes that the manager starts and stops (\<open>system/manager/process.py\<close>). A running child is its
  pid and, once it has ended, its exit code. What the operating system does is input: which children
  have ended before the round, which end while they are waited for, and which daemon processes live.
  Exit codes are sampled once a round, at its start and after a wait. Launching and logging are left out.
\<close>

section \<open>State\<close>

record child =
  ch_pid :: int
  ch_exitcode :: "int option"

datatype signal = SIGINT | SIGKILL

text \<open>The kinds are the subclasses; a daemon keeps its pid in a parameter.\<close>

datatype process_kind = NativeProcess | PythonProcess | DaemonProcess string

record proc_env =
  en_PC :: bool
  en_TICI :: bool
  en_WEBCAM :: bool
  en_Darwin :: bool
  en_ublox_available :: bool
  en_active_bundle :: "(int \<times> int) option"
  en_mapd_exists :: bool
  en_runner_script :: bool
  en_uploader_script :: bool
  en_copyparty :: bool

type_synonym should_run = "proc_env \<Rightarrow> bool \<Rightarrow> car_params \<Rightarrow> params \<Rightarrow> bool \<times> params"

record process =
  mp_kind :: process_kind
  mp_name :: string
  mp_module :: string
  mp_should_run :: should_run
  mp_enabled :: bool
  mp_sigkill :: bool
  mp_restart_if_crash :: bool
  mp_proc :: "child option"
  mp_shutting_down :: bool

text \<open>The next pid and the signals sent, the newest last.\<close>

record world =
  wo_next_pid :: int
  wo_signals :: "(int \<times> signal) list"

record os_in =
  oi_exited :: "int \<Rightarrow> int option"
  oi_dies_in_join :: "int \<Rightarrow> int option"
  oi_daemon_runs :: "int \<Rightarrow> string \<Rightarrow> bool"

definition is_alive :: "child \<Rightarrow> bool" where
  "is_alive c = (ch_exitcode c = None)"

text \<open>What happened to the children before a round.\<close>

definition reap :: "os_in \<Rightarrow> process \<Rightarrow> process" where
  "reap oi p = (case mp_proc p of
     Some c \<Rightarrow> if ch_exitcode c = None then p\<lparr>mp_proc := Some (c\<lparr>ch_exitcode := oi_exited oi (ch_pid c)\<rparr>)\<rparr> else p
   | None \<Rightarrow> p)"

section \<open>Stopping and starting\<close>

definition send_signal :: "child \<Rightarrow> signal \<Rightarrow> world \<Rightarrow> world" where
  "send_signal c sig w = (if ch_exitcode c \<noteq> None then w else w\<lparr>wo_signals := wo_signals w @ [(ch_pid c, sig)]\<rparr>)"

definition forget_child :: "process \<Rightarrow> process" where
  "forget_child p = p\<lparr>mp_shutting_down := False, mp_proc := None\<rparr>"

text \<open>A child that does not end within five seconds of a wait is killed, and then waited for without a limit.\<close>

definition wait_and_kill :: "os_in \<Rightarrow> bool \<Rightarrow> child \<Rightarrow> process \<Rightarrow> world \<Rightarrow> process \<times> world" where
  "wait_and_kill oi retry c p w =
     (case oi_dies_in_join oi (ch_pid c) of
        Some e \<Rightarrow> (forget_child p, w)
      | None \<Rightarrow> if retry then (forget_child p, send_signal c SIGKILL w) else (p, w))"

definition process_stop :: "os_in \<Rightarrow> bool \<Rightarrow> bool \<Rightarrow> signal option \<Rightarrow> process \<Rightarrow> world \<Rightarrow> process \<times> world" where
  "process_stop oi retry block sig p w =
     (case mp_kind p of
        DaemonProcess _ \<Rightarrow> (p, w)
      | _ \<Rightarrow>
        (case mp_proc p of
           None \<Rightarrow> (p, w)
         | Some c \<Rightarrow>
             if ch_exitcode c \<noteq> None then (forget_child p, w)
             else if mp_shutting_down p then wait_and_kill oi retry c p w
             else let w1 = send_signal c (case sig of Some s \<Rightarrow> s | None \<Rightarrow> if mp_sigkill p then SIGKILL else SIGINT) w;
                      p1 = p\<lparr>mp_shutting_down := True\<rparr>
                  in if block then wait_and_kill oi retry c p1 w1 else (p1, w1)))"

definition launch :: "process \<Rightarrow> world \<Rightarrow> process \<times> world" where
  "launch p w =
     (if mp_proc p \<noteq> None then (p, w)
      else (p\<lparr>mp_proc := Some \<lparr>ch_pid = wo_next_pid w, ch_exitcode = None\<rparr>, mp_shutting_down := False\<rparr>, w\<lparr>wo_next_pid := wo_next_pid w + 1\<rparr>))"

text \<open>A daemon outlives the manager: it is started when the pid in its parameter is not that of a live process of its module.\<close>

definition start_daemon :: "os_in \<Rightarrow> string \<Rightarrow> process \<Rightarrow> params \<times> world \<Rightarrow> params \<times> world" where
  "start_daemon oi key p pw =
     (let (pm, w) = pw
      in if (case pm key of Some (PInt pid) \<Rightarrow> oi_daemon_runs oi pid (mp_module p) | _ \<Rightarrow> False) then (pm, w)
         else (pm(key \<mapsto> PInt (wo_next_pid w)), w\<lparr>wo_next_pid := wo_next_pid w + 1\<rparr>))"

definition process_start :: "os_in \<Rightarrow> process \<Rightarrow> params \<times> world \<Rightarrow> process \<times> params \<times> world" where
  "process_start oi p0 pw =
     (case mp_kind p0 of
        DaemonProcess key \<Rightarrow> (p0, start_daemon oi key p0 pw)
      | _ \<Rightarrow>
        (let (pm, w0) = pw;
             (p1, w1) = (if mp_shutting_down p0 then process_stop oi True True None p0 w0 else (p0, w0));
             (p2, w2) = launch p1 w1
         in (p2, pm, w2)))"

definition process_restart :: "os_in \<Rightarrow> process \<Rightarrow> params \<times> world \<Rightarrow> process \<times> params \<times> world" where
  "process_restart oi p pw = (let (p1, w1) = process_stop oi True True (Some SIGKILL) p (snd pw) in process_start oi p1 (fst pw, w1))"

record process_msg =
  st_name :: string
  st_running :: bool
  st_shouldBeRunning :: bool
  st_pid :: int
  st_exitCode :: int

definition get_process_state_msg :: "process \<Rightarrow> process_msg" where
  "get_process_state_msg p =
     (case mp_proc p of
        None \<Rightarrow> \<lparr>st_name = mp_name p, st_running = False, st_shouldBeRunning = False, st_pid = 0, st_exitCode = 0\<rparr>
      | Some c \<Rightarrow> \<lparr>st_name = mp_name p, st_running = is_alive c, st_shouldBeRunning = (\<not> mp_shutting_down p), st_pid = ch_pid c,
          st_exitCode = (case ch_exitcode c of Some e \<Rightarrow> e | None \<Rightarrow> 0)\<rparr>)"

section \<open>Keeping the right processes running\<close>

text \<open>The first pass stops what is not to run and notes the others, the second starts those.\<close>

definition wanted :: "proc_env \<Rightarrow> bool \<Rightarrow> car_params \<Rightarrow> string list \<Rightarrow> process \<Rightarrow> params \<Rightarrow> bool \<times> params" where
  "wanted env started CP not_run p pm =
     (if mp_enabled p \<and> mp_name p \<notin> set not_run then mp_should_run p env started CP pm else (False, pm))"

definition crashed :: "process \<Rightarrow> bool" where
  "crashed p = (mp_restart_if_crash p \<and> (case mp_proc p of Some c \<Rightarrow> \<not> is_alive c | None \<Rightarrow> False))"

fun select_running :: "os_in \<Rightarrow> proc_env \<Rightarrow> bool \<Rightarrow> car_params \<Rightarrow> string list \<Rightarrow> process list \<Rightarrow> params \<times> world
    \<Rightarrow> (process \<times> bool) list \<times> params \<times> world" where
  "select_running oi env started CP not_run [] pw = ([], pw)"
| "select_running oi env started CP not_run (p # ps) (pm, w) =
     (let (run, pm1) = wanted env started CP not_run p pm;
          (p1, pw1) = (if run then if crashed p then process_restart oi p (pm1, w) else (p, pm1, w)
                       else let (q, w1) = process_stop oi True False None p w in (q, pm1, w1));
          (ps', pw2) = select_running oi env started CP not_run ps pw1
      in ((p1, run) # ps', pw2))"

fun start_running :: "os_in \<Rightarrow> (process \<times> bool) list \<Rightarrow> params \<times> world \<Rightarrow> process list \<times> params \<times> world" where
  "start_running oi [] pw = ([], pw)"
| "start_running oi ((p, run) # ps) pw =
     (let (p1, pw1) = (if run then process_start oi p pw else (p, pw));
          (ps', pw2) = start_running oi ps pw1
      in (p1 # ps', pw2))"

definition ensure_running :: "os_in \<Rightarrow> proc_env \<Rightarrow> bool \<Rightarrow> car_params \<Rightarrow> string list \<Rightarrow> process list \<Rightarrow> params \<times> world
    \<Rightarrow> process list \<times> params \<times> world" where
  "ensure_running oi env started CP not_run ps pw =
     (let (sel, pw1) = select_running oi env started CP not_run ps pw in start_running oi sel pw1)"

end
