(* ===== verification/Process_Config.thy ===== *)
theory Process_Config
  imports Processes
begin

text \<open>
  Which process runs when: the predicates and the table of \<open>system/manager/process_config.py\<close>, with
  the parts of \<open>sunnypilot/sunnylink/utils.py\<close> and \<open>sunnypilot/models/helpers.py\<close> they use. A predicate
  may write the parameter store. The active model bundle, a JSON parameter, is given decoded: its
  selector version and its runner. Working directories and command lines are left out.
\<close>

section \<open>Predicates\<close>

definition pure_run :: "(proc_env \<Rightarrow> bool \<Rightarrow> car_params \<Rightarrow> params \<Rightarrow> bool) \<Rightarrow> should_run" where
  "pure_run f env started CP p = (f env started CP p, p)"

definition driverview :: should_run where
  "driverview = pure_run (\<lambda>env started CP p. started \<or> get_bool p ''IsDriverViewEnabled'')"

definition notcar :: should_run where
  "notcar = pure_run (\<lambda>env started CP p. started \<and> cp_notCar CP)"

definition iscar :: should_run where
  "iscar = pure_run (\<lambda>env started CP p. started \<and> \<not> cp_notCar CP)"

definition logging :: should_run where
  "logging = pure_run (\<lambda>env started CP p. started \<and> (\<not> cp_notCar CP \<or> \<not> get_bool p ''DisableLogging''))"

definition ublox :: should_run where
  "ublox env started CP p =
     (started \<and> en_ublox_available env,
      if en_ublox_available env \<noteq> get_bool p ''UbloxAvailable'' then p(''UbloxAvailable'' \<mapsto> PBool (en_ublox_available env)) else p)"

definition joystick :: should_run where
  "joystick = pure_run (\<lambda>env started CP p. started \<and> get_bool p ''JoystickDebugMode'')"

definition not_joystick :: should_run where
  "not_joystick = pure_run (\<lambda>env started CP p. started \<and> \<not> get_bool p ''JoystickDebugMode'')"

definition long_maneuver :: should_run where
  "long_maneuver = pure_run (\<lambda>env started CP p. started \<and> get_bool p ''LongitudinalManeuverMode'')"

definition not_long_maneuver :: should_run where
  "not_long_maneuver = pure_run (\<lambda>env started CP p. started \<and> \<not> get_bool p ''LongitudinalManeuverMode'')"

definition qcomgps :: should_run where
  "qcomgps = pure_run (\<lambda>env started CP p. started \<and> \<not> en_ublox_available env)"

definition always_run :: should_run where
  "always_run = pure_run (\<lambda>env started CP p. True)"

definition only_onroad :: should_run where
  "only_onroad = pure_run (\<lambda>env started CP p. started)"

definition only_offroad :: should_run where
  "only_offroad = pure_run (\<lambda>env started CP p. \<not> started)"

definition use_github_runner :: should_run where
  "use_github_runner = pure_run (\<lambda>env started CP p. \<not> en_PC env \<and> get_bool p ''EnableGithubRunner''
     \<and> (\<not> get_bool p ''NetworkMetered'' \<and> \<not> get_bool p ''GithubRunnerSufficientVoltage''))"

definition use_copyparty :: should_run where
  "use_copyparty = pure_run (\<lambda>env started CP p. get_bool p ''EnableCopyparty'')"

definition mapd_ready :: should_run where
  "mapd_ready = pure_run (\<lambda>env started CP p. en_mapd_exists env)"

definition uploader_ready :: should_run where
  "uploader_ready env started CP p =
     (if \<not> get_bool p ''OnroadUploads'' then only_offroad env started CP p else always_run env started CP p)"

section \<open>Sunnylink\<close>

definition UNREGISTERED_SUNNYLINK_DONGLE_ID :: string where "UNREGISTERED_SUNNYLINK_DONGLE_ID = ''UnregisteredDevice''"

definition get_sunnylink_status :: "params \<Rightarrow> bool \<times> bool \<times> bool" where
  "get_sunnylink_status p = (get_bool p ''SunnylinkEnabled'',
     p ''SunnylinkDongleId'' \<notin> {None, Some (PString UNREGISTERED_SUNNYLINK_DONGLE_ID)}, get_bool p ''SunnylinkTempFault'')"

definition sunnylink_ready :: "params \<Rightarrow> bool" where
  "sunnylink_ready p = (let (en, registered, fault) = get_sunnylink_status p in en \<and> registered \<and> \<not> fault)"

definition use_sunnylink_uploader :: "params \<Rightarrow> bool" where
  "use_sunnylink_uploader p = (\<not> get_bool p ''NetworkMetered'' \<and> sunnylink_ready p \<and> get_bool p ''EnableSunnylinkUploader'')"

definition sunnylink_need_register :: "params \<Rightarrow> bool" where
  "sunnylink_need_register p = (let (en, registered, fault) = get_sunnylink_status p in en \<and> \<not> registered \<and> \<not> fault)"

definition sunnylink_ready_shim :: should_run where
  "sunnylink_ready_shim = pure_run (\<lambda>env started CP p. sunnylink_ready p)"

definition sunnylink_need_register_shim :: should_run where
  "sunnylink_need_register_shim = pure_run (\<lambda>env started CP p. sunnylink_need_register p)"

definition use_sunnylink_uploader_shim :: should_run where
  "use_sunnylink_uploader_shim = pure_run (\<lambda>env started CP p. use_sunnylink_uploader p)"

section \<open>The runner of the driving model\<close>

definition REQUIRED_MIN_SELECTOR_VERSION :: int where "REQUIRED_MIN_SELECTOR_VERSION = 14"
definition CURRENT_SELECTOR_VERSION :: int where "CURRENT_SELECTOR_VERSION = 14"

definition runner_snpe :: int where "runner_snpe = 0"
definition runner_tinygrad :: int where "runner_tinygrad = 1"
definition runner_stock :: int where "runner_stock = 2"

definition is_bundle_version_compatible :: "int \<Rightarrow> bool" where
  "is_bundle_version_compatible v = (REQUIRED_MIN_SELECTOR_VERSION \<le> v \<and> v \<le> CURRENT_SELECTOR_VERSION)"

definition get_active_bundle :: "proc_env \<Rightarrow> int option" where
  "get_active_bundle env = (case en_active_bundle env of Some (v, runner) \<Rightarrow> if is_bundle_version_compatible v then Some runner else None | None \<Rightarrow> None)"

definition is_digit :: "char \<Rightarrow> bool" where
  "is_digit c = (c \<in> set ''0123456789'')"

definition digits_value :: "string \<Rightarrow> int" where
  "digits_value s = fold (\<lambda>c n. 10 * n + int (length (takeWhile (\<lambda>d. d \<noteq> c) ''0123456789''))) s 0"

text \<open>The cached runner is only used when it is a string of digits.\<close>

definition get_active_model_runner :: "proc_env \<Rightarrow> bool \<Rightarrow> params \<Rightarrow> int \<times> params" where
  "get_active_model_runner env force_check p =
     (let cached = p ''ModelRunnerTypeCache'';
          runner = (case get_active_bundle env of Some r \<Rightarrow> r | None \<Rightarrow> runner_stock);
          fresh = (runner, if cached = Some (PInt runner) then p else p(''ModelRunnerTypeCache'' \<mapsto> PInt runner))
      in case cached of
           Some (PString s) \<Rightarrow> if s \<noteq> [] \<and> list_all is_digit s \<and> \<not> force_check then (digits_value s, p) else fresh
         | _ \<Rightarrow> fresh)"

definition is_runner :: "int \<Rightarrow> should_run" where
  "is_runner r env started CP p = (let (runner, p') = get_active_model_runner env (\<not> started) p in (runner = r, p'))"

definition is_snpe_model :: should_run where "is_snpe_model = is_runner runner_snpe"
definition is_tinygrad_model :: should_run where "is_tinygrad_model = is_runner runner_tinygrad"
definition is_stock_model :: should_run where "is_stock_model = is_runner runner_stock"

text \<open>Both predicates are evaluated, whatever the first says.\<close>

definition both_run :: "(bool \<Rightarrow> bool \<Rightarrow> bool) \<Rightarrow> should_run \<Rightarrow> should_run \<Rightarrow> should_run" where
  "both_run op f g env started CP p = (let (a, p1) = f env started CP p; (b, p2) = g env started CP p1 in (op a b, p2))"

definition or_run :: "should_run \<Rightarrow> should_run \<Rightarrow> should_run" where "or_run = both_run (\<or>)"
definition and_run :: "should_run \<Rightarrow> should_run \<Rightarrow> should_run" where "and_run = both_run (\<and>)"

section \<open>The table\<close>

definition python_process :: "string \<Rightarrow> string \<Rightarrow> should_run \<Rightarrow> bool \<Rightarrow> bool \<Rightarrow> process" where
  "python_process name modl run enabled restart_if_crash =
     \<lparr>mp_kind = PythonProcess, mp_name = name, mp_module = modl, mp_should_run = run, mp_enabled = enabled, mp_sigkill = False,
      mp_restart_if_crash = restart_if_crash, mp_proc = None, mp_shutting_down = False\<rparr>"

definition native_process :: "string \<Rightarrow> should_run \<Rightarrow> bool \<Rightarrow> process" where
  "native_process name run enabled =
     \<lparr>mp_kind = NativeProcess, mp_name = name, mp_module = '''', mp_should_run = run, mp_enabled = enabled, mp_sigkill = False,
      mp_restart_if_crash = False, mp_proc = None, mp_shutting_down = False\<rparr>"

definition daemon_process :: "string \<Rightarrow> string \<Rightarrow> string \<Rightarrow> process" where
  "daemon_process name modl param_name =
     \<lparr>mp_kind = DaemonProcess param_name, mp_name = name, mp_module = modl, mp_should_run = always_run, mp_enabled = True, mp_sigkill = False,
      mp_restart_if_crash = False, mp_proc = None, mp_shutting_down = False\<rparr>"

definition procs_openpilot :: "proc_env \<Rightarrow> process list" where
  "procs_openpilot env = [
     daemon_process ''manage_athenad'' ''system.athena.manage_athenad'' ''AthenadPid'',
     native_process ''loggerd'' logging True,
     native_process ''encoderd'' only_onroad True,
     native_process ''stream_encoderd'' notcar True,
     python_process ''logmessaged'' ''system.logmessaged'' always_run True False,
     native_process ''camerad'' driverview (\<not> en_WEBCAM env),
     python_process ''webcamerad'' ''tools.webcam.camerad'' driverview (en_WEBCAM env) False,
     python_process ''proclogd'' ''system.proclogd'' only_onroad (\<not> en_Darwin env) False,
     python_process ''journald'' ''system.journald'' only_onroad (\<not> en_Darwin env) False,
     python_process ''micd'' ''system.micd'' iscar True False,
     python_process ''timed'' ''system.timed'' always_run (\<not> en_PC env) False,
     python_process ''modeld'' ''selfdrive.modeld.modeld'' (and_run only_onroad is_stock_model) True False,
     python_process ''dmonitoringmodeld'' ''selfdrive.modeld.dmonitoringmodeld'' driverview (en_WEBCAM env \<or> \<not> en_PC env) False,
     python_process ''sensord'' ''system.sensord.sensord'' only_onroad (\<not> en_PC env) False,
     python_process ''ui'' ''selfdrive.ui.ui'' always_run True True,
     python_process ''soundd'' ''selfdrive.ui.soundd'' driverview True False,
     python_process ''locationd'' ''selfdrive.locationd.locationd'' only_onroad True False,
     native_process ''_pandad'' always_run False,
     python_process ''calibrationd'' ''selfdrive.locationd.calibrationd'' only_onroad True False,
     python_process ''torqued'' ''selfdrive.locationd.torqued'' only_onroad True False,
     python_process ''controlsd'' ''selfdrive.controls.controlsd'' (and_run not_joystick iscar) True False,
     python_process ''joystickd'' ''tools.joystick.joystickd'' (or_run joystick notcar) True False,
     python_process ''selfdrived'' ''selfdrive.selfdrived.selfdrived'' only_onroad True False,
     python_process ''card'' ''selfdrive.car.card'' only_onroad True False,
     python_process ''deleter'' ''system.loggerd.deleter'' always_run True False,
     python_process ''dmonitoringd'' ''selfdrive.monitoring.dmonitoringd'' driverview (en_WEBCAM env \<or> \<not> en_PC env) False,
     python_process ''qcomgpsd'' ''system.qcomgpsd.qcomgpsd'' qcomgps (en_TICI env) False,
     python_process ''pandad'' ''selfdrive.pandad.pandad'' always_run True False,
     python_process ''paramsd'' ''selfdrive.locationd.paramsd'' only_onroad True False,
     python_process ''lagd'' ''selfdrive.locationd.lagd'' only_onroad True False,
     python_process ''ubloxd'' ''system.ubloxd.ubloxd'' ublox (en_TICI env) False,
     python_process ''pigeond'' ''system.ubloxd.pigeond'' ublox (en_TICI env) False,
     python_process ''plannerd'' ''selfdrive.controls.plannerd'' not_long_maneuver True False,
     python_process ''maneuversd'' ''tools.longitudinal_maneuvers.maneuversd'' long_maneuver True False,
     python_process ''radard'' ''selfdrive.controls.radard'' only_onroad True False,
     python_process ''hardwared'' ''system.hardware.hardwared'' always_run True False,
     python_process ''tombstoned'' ''system.tombstoned'' always_run (\<not> en_PC env) False,
     python_process ''updated'' ''system.updated.updated'' only_offroad (\<not> en_PC env) False,
     python_process ''uploader'' ''system.loggerd.uploader'' uploader_ready True False,
     python_process ''statsd'' ''system.statsd'' always_run True False,
     python_process ''feedbackd'' ''selfdrive.ui.feedback.feedbackd'' only_onroad True False,
     native_process ''bridge'' notcar True,
     python_process ''webrtcd'' ''system.webrtc.webrtcd'' notcar True False,
     python_process ''webjoystick'' ''tools.bodyteleop.web'' notcar True False,
     python_process ''joystick'' ''tools.joystick.joystick_control'' (and_run joystick iscar) True False,
     daemon_process ''manage_sunnylinkd'' ''sunnypilot.sunnylink.athena.manage_sunnylinkd'' ''SunnylinkdPid'',
     python_process ''sunnylink_registration_manager'' ''sunnypilot.sunnylink.registration_manager'' sunnylink_need_register_shim True False,
     python_process ''statsd_sp'' ''sunnypilot.sunnylink.statsd'' (and_run always_run sunnylink_ready_shim) True False]"

definition procs_sunnypilot :: "process list" where
  "procs_sunnypilot = [
     python_process ''models_manager'' ''sunnypilot.models.manager'' only_offroad True False,
     native_process ''modeld_snpe'' (and_run only_onroad is_snpe_model) True,
     native_process ''modeld_tinygrad'' (and_run only_onroad is_tinygrad_model) True,
     python_process ''backup_manager'' ''sunnypilot.sunnylink.backups.manager'' (and_run only_offroad sunnylink_ready_shim) True False,
     native_process ''mapd'' mapd_ready True,
     python_process ''mapd_manager'' ''sunnypilot.mapd.mapd_manager'' always_run True False,
     native_process ''locationd_llk'' only_onroad True]"

definition procs_optional :: "proc_env \<Rightarrow> process list" where
  "procs_optional env =
     (if en_runner_script env then [native_process ''github_runner_start'' (and_run only_offroad use_github_runner) True] else [])
     @ (if en_uploader_script env then [python_process ''sunnylink_uploader'' ''sunnypilot.sunnylink.uploader'' use_sunnylink_uploader_shim True False] else [])
     @ (if en_copyparty env then [native_process ''copyparty-sfx'' (and_run only_offroad use_copyparty) True] else [])"

definition procs :: "proc_env \<Rightarrow> process list" where
  "procs env = procs_openpilot env @ procs_sunnypilot @ procs_optional env"

end
