(* ===== verification/Power_Monitoring.thy ===== *)
theory Power_Monitoring
  imports Filters Params
begin

text \<open>
  The car battery and the fan: \<open>system/hardware/power_monitoring.py\<close> and
  \<open>system/hardware/fan_controller.py\<close>. The clock and the power drawn by the device are arguments;
  an exception in the middle of a calculation is logged by the code and keeps what was assigned
  before it. The lock orders threads, and one thread runs the calculation.
\<close>

section \<open>Power monitoring\<close>

definition CAR_VOLTAGE_LOW_PASS_K :: real where "CAR_VOLTAGE_LOW_PASS_K = 11/1000"
definition CAR_BATTERY_CAPACITY_uWh :: real where "CAR_BATTERY_CAPACITY_uWh = 30 * 10^6"
definition CAR_CHARGING_RATE_W :: real where "CAR_CHARGING_RATE_W = 45"
definition VBATT_PAUSE_CHARGING :: real where "VBATT_PAUSE_CHARGING = 118/10"
definition MAX_TIME_OFFROAD_S :: real where "MAX_TIME_OFFROAD_S = 30 * 3600"
definition MIN_ON_TIME_S :: real where "MIN_ON_TIME_S = 3600"
definition DELAY_SHUTDOWN_TIME_S :: real where "DELAY_SHUTDOWN_TIME_S = 300"
definition VOLTAGE_SHUTDOWN_MIN_OFFROAD_TIME_S :: real where "VOLTAGE_SHUTDOWN_MIN_OFFROAD_TIME_S = 60"

record power_monitoring =
  pw_last_measurement_time :: "real option"
  pw_last_save_time :: real
  pw_power_used_uWh :: real
  pw_car_voltage_mV :: real
  pw_car_voltage_instant_mV :: real
  pw_car_battery_capacity_uWh :: real

definition PowerMonitoring_init :: "params \<Rightarrow> power_monitoring" where
  "PowerMonitoring_init p =
     \<lparr>pw_last_measurement_time = None, pw_last_save_time = 0, pw_power_used_uWh = 0, pw_car_voltage_mV = 12000,
      pw_car_voltage_instant_mV = 12000,
      pw_car_battery_capacity_uWh = max (CAR_BATTERY_CAPACITY_uWh / 10) (case p ''CarBatteryCapacity'' of Some (PInt v) \<Rightarrow> of_int v | _ \<Rightarrow> 0)\<rparr>"

text \<open>Nothing is integrated before the first measurement, at time zero, or for negative power.\<close>

definition perform_integration :: "real \<Rightarrow> real \<Rightarrow> power_monitoring \<Rightarrow> power_monitoring" where
  "perform_integration t current_power s =
     (case pw_last_measurement_time s of
        None \<Rightarrow> s
      | Some prev \<Rightarrow>
          if prev = 0 then s
          else let power_used = current_power * 1000000 * ((t - prev) / 3600)
               in if power_used < 0 then s
                  else s\<lparr>pw_power_used_uWh := pw_power_used_uWh s + power_used,
                         pw_car_battery_capacity_uWh := pw_car_battery_capacity_uWh s - power_used,
                         pw_last_measurement_time := Some t\<rparr>)"

definition integrate_charging :: "real \<Rightarrow> real \<Rightarrow> power_monitoring \<Rightarrow> power_monitoring" where
  "integrate_charging now prev s0 =
     (let s = s0\<lparr>pw_power_used_uWh := 0\<rparr>; h = (now - prev) / 3600
      in if h < 0 then s
         else s\<lparr>pw_car_battery_capacity_uWh := pw_car_battery_capacity_uWh s + CAR_CHARGING_RATE_W * 10^6 * h,
                pw_last_measurement_time := Some now\<rparr>)"

text \<open>The filtered voltage and the capped capacity, which is saved every ten seconds.\<close>

definition note_voltage :: "real \<Rightarrow> power_monitoring \<Rightarrow> power_monitoring" where
  "note_voltage voltage s = s\<lparr>pw_car_voltage_instant_mV := voltage,
     pw_car_voltage_mV := voltage * CAR_VOLTAGE_LOW_PASS_K + pw_car_voltage_mV s * (1 - CAR_VOLTAGE_LOW_PASS_K),
     pw_car_battery_capacity_uWh := min (max (pw_car_battery_capacity_uWh s) 0) CAR_BATTERY_CAPACITY_uWh\<rparr>"

definition save_capacity :: "real \<Rightarrow> power_monitoring \<Rightarrow> params \<Rightarrow> power_monitoring \<times> params" where
  "save_capacity now s p =
     (if now - pw_last_save_time s \<ge> 10
      then (s\<lparr>pw_last_save_time := now\<rparr>, p(''CarBatteryCapacity'' \<mapsto> PInt (py_int (pw_car_battery_capacity_uWh s))))
      else (s, p))"

definition power_calculate :: "real \<Rightarrow> real \<Rightarrow> real option \<Rightarrow> bool \<Rightarrow> power_monitoring \<Rightarrow> params \<Rightarrow> power_monitoring \<times> params" where
  "power_calculate now current_power voltage ignition s0 p0 =
     (case voltage of
        None \<Rightarrow> (s0\<lparr>pw_last_measurement_time := None, pw_power_used_uWh := 0\<rparr>, p0)
      | Some v \<Rightarrow>
          let (s, p) = save_capacity now (note_voltage v s0) p0
          in case pw_last_measurement_time s of
               None \<Rightarrow> (s\<lparr>pw_last_measurement_time := Some now\<rparr>, p)
             | Some prev \<Rightarrow> (if ignition then integrate_charging now prev s else perform_integration now current_power s, p))"

definition get_power_used :: "power_monitoring \<Rightarrow> int" where
  "get_power_used s = py_int (pw_power_used_uWh s)"

definition get_car_battery_capacity :: "power_monitoring \<Rightarrow> int" where
  "get_car_battery_capacity s = py_int (pw_car_battery_capacity_uWh s)"

text \<open>A stored time of 0 means no limit, a negative or missing one the default.\<close>

definition max_time_offroad_exceeded :: "params \<Rightarrow> real \<Rightarrow> bool" where
  "max_time_offroad_exceeded p offroad_time =
     (let limit = (case p ''MaxTimeOffroad'' of Some (PInt v) \<Rightarrow> if v \<ge> 0 then of_int v * 60 else MAX_TIME_OFFROAD_S | _ \<Rightarrow> MAX_TIME_OFFROAD_S)
      in 0 < limit \<and> limit \<le> offroad_time)"

definition should_shutdown :: "real \<Rightarrow> params \<Rightarrow> bool \<Rightarrow> bool \<Rightarrow> real option \<Rightarrow> bool \<Rightarrow> power_monitoring \<Rightarrow> bool" where
  "should_shutdown now p ignition in_car offroad_timestamp started_seen s =
     (case offroad_timestamp of
        None \<Rightarrow> False
      | Some ts \<Rightarrow>
          let offroad_time = now - ts;
              low_voltage = (pw_car_voltage_mV s < VBATT_PAUSE_CHARGING * 1000 \<and> offroad_time > VOLTAGE_SHUTDOWN_MIN_OFFROAD_TIME_S);
              cause = (max_time_offroad_exceeded p offroad_time \<or> low_voltage \<or> pw_car_battery_capacity_uWh s \<le> 0);
              allowed = (cause \<and> \<not> ignition \<and> \<not> get_bool p ''DisablePowerDown'' \<and> in_car \<and> offroad_time > DELAY_SHUTDOWN_TIME_S)
          in (allowed \<or> get_bool p ''ForcePowerDown'') \<and> (started_seen \<or> now > MIN_ON_TIME_S))"

section \<open>The fan\<close>

record fan_controller =
  fc_last_ignition :: bool
  fc_pid :: pid

definition FanController_init :: "real \<Rightarrow> fan_controller" where
  "FanController_init rate = \<lparr>fc_last_ignition = False,
     fc_pid = pid_init (const_gain 0) (const_gain (4/1000)) (const_gain 0) (10^308) (- (10^308)) rate\<rparr>"

definition FAN_FEEDFORWARD :: "(real \<times> real) list" where "FAN_FEEDFORWARD = [(60, 0), (100, 100)]"

definition fan_update :: "real \<Rightarrow> bool \<Rightarrow> fan_controller \<Rightarrow> int \<times> fan_controller" where
  "fan_update cur_temp ignition s =
     (let q0 = set_limits (if ignition then 100 else 30) (if ignition then 30 else 0) (fc_pid s);
          q1 = (if ignition \<noteq> fc_last_ignition s then pid_reset q0 else q0);
          q = pid_update \<lparr>pi_error = cur_temp - 75, pi_error_rate = 0, pi_speed = 0, pi_feedforward = interp cur_temp FAN_FEEDFORWARD, pi_freeze = False\<rparr> q1
      in (py_int (pid_control q), \<lparr>fc_last_ignition = ignition, fc_pid = q\<rparr>))"

section \<open>Facts\<close>

text \<open>The speed of the fan is within the range of the state of the ignition: never off while the car is on.\<close>

lemma py_int_between: "of_int a \<le> x \<Longrightarrow> x \<le> of_int b \<Longrightarrow> 0 \<le> a \<Longrightarrow> a \<le> py_int x \<and> py_int x \<le> b"
  by (auto simp: py_int_def le_floor_iff floor_le_iff)

lemma pid_update_clipped:
  assumes "pid_neg_limit q \<le> pid_pos_limit q"
  shows "pid_neg_limit q \<le> pid_control (pid_update a q) \<and> pid_control (pid_update a q) \<le> pid_pos_limit q"
  using assms by (simp add: pid_update_def Let_def clip_bounds)

lemma fan_in_range:
  assumes "fan_update t ignition s = (speed, s')"
  shows "(if ignition then 30 else 0) \<le> speed \<and> speed \<le> (if ignition then 100 else 30)"
proof -
  let ?q0 = "set_limits (if ignition then 100 else 30) (if ignition then 30 else 0) (fc_pid s)"
  let ?q1 = "if ignition \<noteq> fc_last_ignition s then pid_reset ?q0 else ?q0"
  have lim: "pid_pos_limit ?q1 = (if ignition then 100 else 30)" "pid_neg_limit ?q1 = (if ignition then 30 else 0)"
    by (simp_all add: set_limits_def pid_reset_def)
  let ?c = "pid_control (fc_pid s')"
  have speed: "speed = py_int ?c" and q: "fc_pid s' = pid_update \<lparr>pi_error = t - 75, pi_error_rate = 0, pi_speed = 0,
      pi_feedforward = interp t FAN_FEEDFORWARD, pi_freeze = False\<rparr> ?q1"
    using assms by (simp_all add: fan_update_def Let_def split: prod.splits) auto
  from pid_update_clipped [of ?q1] lim have "(if ignition then 30 else 0) \<le> ?c \<and> ?c \<le> (if ignition then 100 else 30)" by (simp add: q)
  then show ?thesis using py_int_between [of 30 ?c 100] py_int_between [of 0 ?c 30] by (auto simp: speed split: if_splits)
qed

text \<open>A shutdown that is not forced: the car is off, and has been for five minutes, and a reason is present.\<close>

lemma should_shutdown_conditions:
  assumes "should_shutdown now p ignition in_car ts started_seen s" "\<not> get_bool p ''ForcePowerDown''"
  shows "\<not> ignition \<and> in_car \<and> \<not> get_bool p ''DisablePowerDown'' \<and> (\<exists>t. ts = Some t \<and> now - t > 300
    \<and> (max_time_offroad_exceeded p (now - t) \<or> pw_car_voltage_mV s < 11800 \<or> pw_car_battery_capacity_uWh s \<le> 0))"
  using assms by (auto simp: should_shutdown_def Let_def DELAY_SHUTDOWN_TIME_S_def VBATT_PAUSE_CHARGING_def split: option.splits)

end
