(* ===== verification/Hardwared.thy ===== *)
theory Hardwared
  imports Power_Monitoring Alert_Manager "HOL-Library.AList"
begin

text \<open>
  The process that decides whether the device is on the road: \<open>hardware_thread\<close> of
  \<open>system/hardware/hardwared.py\<close>. What the sensors, the network and the operating system report is
  the input of a round; fields of the message that only forward such a report, and records for
  the logs, are left out. The two dictionaries of conditions are association lists.
\<close>

section \<open>Thermal bands\<close>

datatype thermal_status = Therm_green | Therm_yellow | Therm_red | Therm_danger

fun thermal_index :: "thermal_status \<Rightarrow> nat" where
  "thermal_index Therm_green = 0"
| "thermal_index Therm_yellow = 1"
| "thermal_index Therm_red = 2"
| "thermal_index Therm_danger = 3"

lemma thermal_index_inj: "thermal_index a = thermal_index b \<Longrightarrow> a = b"
  by (cases a; cases b) simp_all

instantiation thermal_status :: linorder
begin

definition less_eq_thermal_status :: "thermal_status \<Rightarrow> thermal_status \<Rightarrow> bool" where
  "less_eq_thermal_status a b \<longleftrightarrow> thermal_index a \<le> thermal_index b"

definition less_thermal_status :: "thermal_status \<Rightarrow> thermal_status \<Rightarrow> bool" where
  "less_thermal_status a b \<longleftrightarrow> thermal_index a < thermal_index b"

instance
  by standard (auto simp: less_eq_thermal_status_def less_thermal_status_def dest: thermal_index_inj)

end

text \<open>The least and the greatest temperature of a band, in the order of the bands.\<close>

definition THERMAL_BANDS :: "(thermal_status \<times> real option \<times> real option) list" where
  "THERMAL_BANDS = [(Therm_green, None, Some 80), (Therm_yellow, Some 75, Some 96), (Therm_red, Some 88, Some 107), (Therm_danger, Some 94, None)]"

definition OFFROAD_DANGER_TEMP :: real where "OFFROAD_DANGER_TEMP = 75"

text \<open>An index before the start counts from the end, one past the end raises.\<close>

definition py_index :: "'a list \<Rightarrow> int \<Rightarrow> 'a result" where
  "py_index xs i = (let k = (if i < 0 then i + int (length xs) else i)
     in if 0 \<le> k \<and> k < int (length xs) then Inr (xs ! nat k) else Inl IndexError)"

definition band_neighbour :: "thermal_status \<Rightarrow> int \<Rightarrow> thermal_status result" where
  "band_neighbour t d = py_index (map fst THERMAL_BANDS) (int (length (takeWhile (\<lambda>b. fst b \<noteq> t) THERMAL_BANDS)) + d)"

definition thermal_step :: "real \<Rightarrow> thermal_status \<Rightarrow> thermal_status result" where
  "thermal_step temp t =
     (case map_of THERMAL_BANDS t of
        None \<Rightarrow> Inl (KeyError 0)
      | Some (lo, hi) \<Rightarrow>
          if (case lo of Some m \<Rightarrow> temp < m | None \<Rightarrow> False) then band_neighbour t (-1)
          else if (case hi of Some m \<Rightarrow> temp > m | None \<Rightarrow> False) then band_neighbour t 1
          else Inr t)"

section \<open>State and input\<close>

type_synonym conditions = "(string \<times> bool) list"

definition all_true :: "conditions \<Rightarrow> bool" where
  "all_true c = list_all snd c"

definition cond :: "string \<Rightarrow> conditions \<Rightarrow> bool" where
  "cond k c \<longleftrightarrow> map_of c k = Some True"

record hw =
  hd_onroad :: conditions
  hd_startup :: conditions
  hd_off_ts :: "real option"
  hd_started_ts :: "real option"
  hd_started_seen :: bool
  hd_thermal :: thermal_status
  hd_all_temp :: fof
  hd_offroad_temp :: fof
  hd_should_start_prev :: bool
  hd_in_car :: bool
  hd_engaged_prev :: bool
  hd_pwrsave :: bool
  hd_offroad_cycle_count :: int
  hd_params :: params
  hd_offroad_alerts :: "string \<rightharpoonup> offroad_alert"
  hd_prev_offroad_states :: "string \<rightharpoonup> bool \<times> string option"
  hd_power :: power_monitoring
  hd_fan :: fan_controller
  hd_uptime_offroad :: real
  hd_uptime_onroad :: real
  hd_last_uptime_ts :: real
  hd_count :: int

record panda_report =
  pr_ignition :: bool
  pr_known :: bool
  pr_harness_connected :: bool

text \<open>The input of a round, with what the other processes do to the two parts of the parameter store before it.\<close>

record hw_in =
  hi_others_params :: "params \<Rightarrow> params"
  hi_others_alerts :: "(string \<rightharpoonup> offroad_alert) \<Rightarrow> (string \<rightharpoonup> offroad_alert)"
  hi_frame :: int
  hi_now :: real
  hi_pandas_updated :: bool
  hi_pandas :: "panda_report list"
  hi_pandas_recv_time :: real
  hi_voltage :: "real option"
  hi_freeSpacePercent :: real
  hi_memoryTempC :: real
  hi_cpuTempC :: "real list"
  hi_gpuTempC :: "real list"
  hi_pmicTempC :: "real list"
  hi_screenBrightnessPercent :: real
  hi_current_power_draw :: real
  hi_booted :: bool
  hi_unsupported_combo :: bool
  hi_channel :: string
  hi_selfdrive_updated :: bool
  hi_selfdrive_enabled :: bool
  hi_networkMetered :: bool

record device_state =
  dv_maxTempC :: real
  dv_fanSpeedPercentDesired :: int
  dv_offroadPowerUsageUwh :: int
  dv_carBatteryCapacityUwh :: int
  dv_started :: bool
  dv_startedMonoTime :: int
  dv_thermalStatus :: thermal_status

definition DT_HW :: real where "DT_HW = 1/2"
definition PANDA_STATES_FREQUENCY :: real where "PANDA_STATES_FREQUENCY = 10"
definition TEMP_TAU :: real where "TEMP_TAU = 5"
definition DISCONNECT_TIMEOUT :: real where "DISCONNECT_TIMEOUT = 5"
definition ONROAD_CYCLE_TIME :: real where "ONROAD_CYCLE_TIME = 1"
definition terms_version :: string where "terms_version = ''2''"
definition terms_version_sp :: string where "terms_version_sp = ''1.0''"
definition training_version :: string where "training_version = ''0.2.0''"

definition hw_init :: "params \<Rightarrow> (string \<rightharpoonup> offroad_alert) \<Rightarrow> (string \<Rightarrow> real) \<Rightarrow> real \<Rightarrow> hw" where
  "hw_init p alerts dflt now =
     \<lparr>hd_onroad = [(''ignition'', False), (''not_onroad_cycle'', True), (''device_temp_good'', True)], hd_startup = [],
      hd_off_ts = None, hd_started_ts = None, hd_started_seen = False, hd_thermal = Therm_yellow,
      hd_all_temp = fof_init 0 TEMP_TAU DT_HW False, hd_offroad_temp = fof_init 0 TEMP_TAU DT_HW False,
      hd_should_start_prev = False, hd_in_car = False, hd_engaged_prev = False, hd_pwrsave = False, hd_offroad_cycle_count = 0,
      hd_params = p, hd_offroad_alerts = alerts, hd_prev_offroad_states = Map.empty, hd_power = PowerMonitoring_init p,
      hd_fan = FanController_init 2, hd_uptime_offroad = get_float dflt p ''UptimeOffroad'', hd_uptime_onroad = get_float dflt p ''UptimeOnroad'',
      hd_last_uptime_ts = now, hd_count = 0\<rparr>"

definition others_act :: "hw_in \<Rightarrow> hw \<Rightarrow> hw" where
  "others_act i s = s\<lparr>hd_params := hi_others_params i (hd_params s), hd_offroad_alerts := hi_others_alerts i (hd_offroad_alerts s)\<rparr>"

section \<open>Ignition\<close>

definition set_onroad :: "string \<Rightarrow> bool \<Rightarrow> hw \<Rightarrow> hw" where
  "set_onroad k b s = s\<lparr>hd_onroad := AList.update k b (hd_onroad s)\<rparr>"

definition put_bool :: "string \<Rightarrow> bool \<Rightarrow> hw \<Rightarrow> hw" where
  "put_bool k b s = s\<lparr>hd_params := (hd_params s)(k \<mapsto> PBool b)\<rparr>"

text \<open>A request to cycle the started state, and the condition that holds again a second after it.\<close>

definition handle_cycle_request :: "hw_in \<Rightarrow> hw \<Rightarrow> hw" where
  "handle_cycle_request i s0 =
     (let s = (if get_bool (hd_params s0) ''OnroadCycleRequested''
               then (put_bool ''OnroadCycleRequested'' False s0)\<lparr>hd_offroad_cycle_count := hi_frame i\<rparr> else s0)
      in set_onroad ''not_onroad_cycle'' (of_int (hi_frame i - hd_offroad_cycle_count s) \<ge> ONROAD_CYCLE_TIME * PANDA_STATES_FREQUENCY) s)"

definition handle_ignition :: "hw_in \<Rightarrow> hw \<Rightarrow> hw" where
  "handle_ignition i s =
     (case hi_pandas i of
        p # ps \<Rightarrow>
          if hi_pandas_updated i
          then (set_onroad ''ignition'' (\<exists>q\<in>set (filter pr_known (p # ps)). pr_ignition q) s)\<lparr>hd_in_car := pr_harness_connected p\<rparr>
          else if hi_now i - hi_pandas_recv_time i > DISCONNECT_TIMEOUT then set_onroad ''ignition'' False s else s
      | [] \<Rightarrow> if hi_now i - hi_pandas_recv_time i > DISCONNECT_TIMEOUT then set_onroad ''ignition'' False s else s)"

text \<open>A round is worked through at 2 Hz, and on either edge of the conditions.\<close>

definition ign_edge :: "hw \<Rightarrow> bool" where
  "ign_edge s \<longleftrightarrow> (hd_started_ts s \<noteq> None) \<noteq> all_true (hd_onroad s)"

definition round_skipped :: "hw_in \<Rightarrow> hw \<Rightarrow> bool" where
  "round_skipped i s \<longleftrightarrow> hi_frame i mod py_round (PANDA_STATES_FREQUENCY * DT_HW) \<noteq> 0 \<and> \<not> ign_edge s"

section \<open>Temperature\<close>

definition max_or_0 :: "real list \<Rightarrow> real" where
  "max_or_0 xs = (case xs of [] \<Rightarrow> 0 | y # ys \<Rightarrow> fold max ys y)"

definition offroad_temp :: "hw_in \<Rightarrow> real" where
  "offroad_temp i = max_or_0 [hi_memoryTempC i, max_or_0 (hi_cpuTempC i), max_or_0 (hi_gpuTempC i)]"

definition handle_temperature :: "hw_in \<Rightarrow> hw \<Rightarrow> int \<times> hw" where
  "handle_temperature i s =
     (let off = fof_update (offroad_temp i) (hd_offroad_temp s);
          al = fof_update (max_or_0 [hi_memoryTempC i, max_or_0 (hi_cpuTempC i), max_or_0 (hi_gpuTempC i), max_or_0 (hi_pmicTempC i)]) (hd_all_temp s);
          (speed, fan) = fan_update (ff_x al) (cond ''ignition'' (hd_onroad s)) (hd_fan s)
      in (speed, s\<lparr>hd_offroad_temp := off, hd_all_temp := al, hd_fan := fan\<rparr>))"

definition offroad_for_5_min :: "hw_in \<Rightarrow> hw \<Rightarrow> bool" where
  "offroad_for_5_min i s \<longleftrightarrow> hd_started_ts s = None \<and> (\<not> hd_started_seen s
     \<or> (case hd_off_ts s of None \<Rightarrow> True | Some t \<Rightarrow> hi_now i - t > 60 * 5))"

definition handle_thermal :: "hw_in \<Rightarrow> hw \<Rightarrow> hw result" where
  "handle_thermal i s =
     (if offroad_for_5_min i s \<and> ff_x (hd_offroad_temp s) > OFFROAD_DANGER_TEMP then Inr (s\<lparr>hd_thermal := Therm_danger\<rparr>)
      else bind_result (thermal_step (ff_x (hd_all_temp s)) (hd_thermal s)) (\<lambda>t. Inr (s\<lparr>hd_thermal := t\<rparr>)))"

section \<open>Starting\<close>

definition startup_conditions :: "hw_in \<Rightarrow> hw \<Rightarrow> conditions" where
  "startup_conditions i s =
     (let p = hd_params s; al = hd_offroad_alerts s; st = hd_startup s
      in fold (\<lambda>(k, v). AList.update k v)
         [(''up_to_date'', al ''Offroad_ConnectivityNeeded'' = None \<or> get_bool p ''DisableUpdates'' \<or> get_bool p ''SnoozeUpdate''),
          (''no_excessive_actuation'', al ''Offroad_ExcessiveActuation'' = None),
          (''not_uninstalling'', \<not> get_bool p ''DoUninstall''),
          (''accepted_terms'', p ''HasAcceptedTerms'' = Some (PString terms_version)),
          (''accepted_terms_sp'', p ''HasAcceptedTermsSP'' = Some (PString terms_version_sp)),
          (''free_space'', hi_freeSpacePercent i > 2),
          (''completed_training'', p ''CompletedTrainingVersion'' = Some (PString training_version)),
          (''not_driver_view'', \<not> get_bool p ''IsDriverViewEnabled''),
          (''not_taking_snapshot'', \<not> get_bool p ''IsTakingSnapshot''),
          (''device_temp_engageable'', hd_thermal s < Therm_red),
          (''device_booted'', cond ''device_booted'' st \<or> hi_booted i),
          (''not_always_offroad'', \<not> get_bool p ''OffroadMode''),
          (''not_tici'', \<not> hi_unsupported_combo i)] st)"

definition handle_conditions :: "hw_in \<Rightarrow> hw \<Rightarrow> hw" where
  "handle_conditions i s0 =
     (let s = s0\<lparr>hd_startup := startup_conditions i s0\<rparr>
      in set_onroad ''device_temp_good'' (hd_thermal s < Therm_danger)
           (set_onroad ''not_tici'' (\<not> hi_unsupported_combo i)
             (set_onroad ''not_always_offroad'' (\<not> get_bool (hd_params s) ''OffroadMode'') s)))"

definition set_offroad_alert_if_changed :: "(string \<rightharpoonup> offroad_alert) \<Rightarrow> string \<Rightarrow> bool \<Rightarrow> string option \<Rightarrow> hw \<Rightarrow> hw result" where
  "set_offroad_alert_if_changed table a show_alert extra_text s =
     (if hd_prev_offroad_states s a = Some (show_alert, extra_text) then Inr s
      else bind_result (set_offroad_alert table a show_alert extra_text (hd_offroad_alerts s)) (\<lambda>al.
        Inr (s\<lparr>hd_prev_offroad_states := (hd_prev_offroad_states s)(a \<mapsto> (show_alert, extra_text)), hd_offroad_alerts := al\<rparr>)))"

definition handle_alerts :: "(string \<rightharpoonup> offroad_alert) \<Rightarrow> hw_in \<Rightarrow> hw \<Rightarrow> hw result" where
  "handle_alerts table i s0 =
     bind_result (set_offroad_alert table ''Offroad_TiciSupport'' (hi_unsupported_combo i) (Some (hi_channel i)) (hd_offroad_alerts s0)) (\<lambda>al.
       let s = s0\<lparr>hd_offroad_alerts := al\<rparr>;
           show_alert = ((\<not> cond ''device_temp_good'' (hd_onroad s) \<or> \<not> cond ''device_temp_engageable'' (hd_startup s)) \<and> cond ''ignition'' (hd_onroad s))
       in set_offroad_alert_if_changed table ''Offroad_TemperatureTooHigh'' show_alert (Some (show_fixed1 (ff_x (hd_offroad_temp s)) @ ''C'')) s)"

definition should_start :: "hw \<Rightarrow> bool" where
  "should_start s \<longleftrightarrow> all_true (hd_onroad s) \<and> (hd_started_ts s = None \<longrightarrow> all_true (hd_startup s))"

definition handle_engaged :: "hw_in \<Rightarrow> bool \<Rightarrow> hw \<Rightarrow> hw" where
  "handle_engaged i start s0 =
     (let s = (if start \<noteq> hd_should_start_prev s0 \<or> hd_count s0 = 0 then (put_bool ''IsEngaged'' False s0)\<lparr>hd_engaged_prev := False\<rparr> else s0)
      in if hi_selfdrive_updated i \<and> hi_selfdrive_enabled i \<noteq> hd_engaged_prev s
         then (put_bool ''IsEngaged'' (hi_selfdrive_enabled i) s)\<lparr>hd_engaged_prev := hi_selfdrive_enabled i\<rparr> else s)"

definition handle_transition :: "hw_in \<Rightarrow> bool \<Rightarrow> hw \<Rightarrow> hw" where
  "handle_transition i start s0 =
     (let s = s0\<lparr>hd_pwrsave := \<not> cond ''ignition'' (hd_onroad s0) \<and> hi_screenBrightnessPercent i < 1/1000\<rparr>
      in if start
         then s\<lparr>hd_off_ts := None, hd_started_ts := (case hd_started_ts s of None \<Rightarrow> Some (hi_now i) | t \<Rightarrow> t),
                hd_started_seen := (hd_started_ts s = None \<or> hd_started_seen s)\<rparr>
         else s\<lparr>hd_started_ts := None, hd_off_ts := (case hd_off_ts s of None \<Rightarrow> Some (hi_now i) | t \<Rightarrow> t)\<rparr>)"

section \<open>Power and the message\<close>

definition handle_power :: "hw_in \<Rightarrow> hw \<Rightarrow> hw" where
  "handle_power i s0 =
     (let s1 = put_bool ''GithubRunnerSufficientVoltage'' (case hi_voltage i of None \<Rightarrow> False | Some v \<Rightarrow> v > 9000) s0;
          ign = cond ''ignition'' (hd_onroad s1);
          (pw, p) = power_calculate (hi_now i) (hi_current_power_draw i) (hi_voltage i) ign (hd_power s1) (hd_params s1);
          s = s1\<lparr>hd_power := pw, hd_params := p\<rparr>
      in if should_shutdown (hi_now i) (hd_params s) ign (hd_in_car s) (hd_off_ts s) (hd_started_seen s) (hd_power s)
         then put_bool ''DoShutdown'' True s else s)"

definition device_state_of :: "int \<Rightarrow> hw \<Rightarrow> device_state" where
  "device_state_of speed s = \<lparr>dv_maxTempC = ff_x (hd_all_temp s), dv_fanSpeedPercentDesired = speed,
     dv_offroadPowerUsageUwh = get_power_used (hd_power s), dv_carBatteryCapacityUwh = max 0 (get_car_battery_capacity (hd_power s)),
     dv_started = (hd_started_ts s \<noteq> None \<and> \<not> get_bool (hd_params s) ''OffroadMode''),
     dv_startedMonoTime = py_int (10^9 * (case hd_started_ts s of None \<Rightarrow> 0 | Some t \<Rightarrow> t)), dv_thermalStatus = hd_thermal s\<rparr>"

text \<open>A timestamp of zero counts as none.\<close>

definition handle_uptime :: "hw_in \<Rightarrow> hw \<Rightarrow> hw" where
  "handle_uptime i s0 =
     (let now = hi_now i; prev = hd_last_uptime_ts s0;
          off = (case hd_off_ts s0 of None \<Rightarrow> 0 | Some t \<Rightarrow> t); on = (case hd_started_ts s0 of None \<Rightarrow> 0 | Some t \<Rightarrow> t);
          s1 = (if off \<noteq> 0 then s0\<lparr>hd_uptime_offroad := hd_uptime_offroad s0 + (now - max prev off)\<rparr>
                else if on \<noteq> 0 then s0\<lparr>hd_uptime_onroad := hd_uptime_onroad s0 + (now - max prev on)\<rparr> else s0);
          s = s1\<lparr>hd_last_uptime_ts := now\<rparr>
      in if hd_count s mod 120 = 0
         then s\<lparr>hd_params := (hd_params s)(''UptimeOffroad'' \<mapsto> PFloat (hd_uptime_offroad s), ''UptimeOnroad'' \<mapsto> PFloat (hd_uptime_onroad s))\<rparr>
         else s)"

definition hw_finish :: "hw_in \<Rightarrow> bool \<Rightarrow> int \<Rightarrow> hw \<Rightarrow> device_state \<times> hw" where
  "hw_finish i start speed s0 =
     (let s1 = handle_power i (handle_transition i start (handle_engaged i start s0));
          s2 = handle_uptime i (put_bool ''NetworkMetered'' (hi_networkMetered i) s1)
      in (device_state_of speed s1, s2\<lparr>hd_count := hd_count s2 + 1, hd_should_start_prev := start\<rparr>))"

text \<open>A round of the loop: the message, or none when the round is skipped.\<close>

definition hw_round :: "(string \<rightharpoonup> offroad_alert) \<Rightarrow> hw_in \<Rightarrow> hw \<Rightarrow> (device_state option \<times> hw) result" where
  "hw_round table i s0 =
     (let s1 = handle_ignition i (handle_cycle_request i (others_act i s0))
      in if round_skipped i s1 then Inr (None, s1)
         else
           let (speed, s2) = handle_temperature i s1
           in bind_result (handle_thermal i s2) (\<lambda>s3.
              bind_result (handle_alerts table i (handle_conditions i s3)) (\<lambda>s4.
                let (m, s5) = hw_finish i (should_start s4) speed s4 in Inr (Some m, s5))))"

fun hw_run :: "(string \<rightharpoonup> offroad_alert) \<Rightarrow> hw_in list \<Rightarrow> hw \<Rightarrow> hw result" where
  "hw_run table [] s = Inr s"
| "hw_run table (i # is) s = bind_result (hw_round table i s) (\<lambda>(m, s'). hw_run table is s')"

section \<open>Facts\<close>

text \<open>The outermost bands have no neighbour to go to, so that the index is never out of range.\<close>

lemma thermal_step_returns: "\<exists>t'. thermal_step temp t = Inr t' \<and> (thermal_index t' \<le> thermal_index t + 1 \<and> thermal_index t \<le> thermal_index t' + 1)"
  by (cases t) (simp_all add: thermal_step_def THERMAL_BANDS_def band_neighbour_def py_index_def)

lemma thermal_hysteresis:
  assumes "thermal_step temp t = Inr t'" "t' \<noteq> t"
  shows "\<exists>lo hi. map_of THERMAL_BANDS t = Some (lo, hi) \<and> (t' < t \<and> (\<exists>m. lo = Some m \<and> temp < m) \<or> t < t' \<and> (\<exists>m. hi = Some m \<and> temp > m))"
  using assms by (cases t) (auto simp: thermal_step_def THERMAL_BANDS_def band_neighbour_def py_index_def less_thermal_status_def split: if_splits)

lemma all_true_cond: "all_true c \<Longrightarrow> map_of c k \<noteq> None \<Longrightarrow> cond k c"
  by (fastforce simp: all_true_def cond_def list_all_iff dest: map_of_SomeD)

lemma map_of_update: "map_of (AList.update k b c) k' = (if k' = k then Some b else map_of c k')"
  by (simp add: update_conv')

lemma cond_update [simp]: "cond k (AList.update k' b c) = (if k = k' then b else cond k c)"
  by (simp add: cond_def map_of_update)

lemma all_true_lookup: "all_true c \<Longrightarrow> map_of c k = Some b \<Longrightarrow> b"
  using all_true_cond [of c k] by (simp add: cond_def)

text \<open>What the conditions of starting say.\<close>

lemma startup_lookup:
  "map_of (startup_conditions i s) ''device_temp_engageable'' = Some (hd_thermal s < Therm_red)"
  "map_of (startup_conditions i s) ''no_excessive_actuation'' = Some (hd_offroad_alerts s ''Offroad_ExcessiveActuation'' = None)"
  "map_of (startup_conditions i s) ''free_space'' = Some (hi_freeSpacePercent i > 2)"
  "map_of (startup_conditions i s) ''accepted_terms'' = Some (hd_params s ''HasAcceptedTerms'' = Some (PString terms_version))"
  "map_of (startup_conditions i s) ''not_uninstalling'' = Some (\<not> get_bool (hd_params s) ''DoUninstall'')"
  by (simp_all add: startup_conditions_def Let_def map_of_update)

lemma set_onroad_frame [simp]:
  "hd_thermal (set_onroad k b s) = hd_thermal s" "hd_startup (set_onroad k b s) = hd_startup s" "hd_params (set_onroad k b s) = hd_params s"
  "hd_offroad_alerts (set_onroad k b s) = hd_offroad_alerts s" "hd_started_ts (set_onroad k b s) = hd_started_ts s"
  "hd_onroad (set_onroad k b s) = AList.update k b (hd_onroad s)"
  by (simp_all add: set_onroad_def)

lemma put_bool_frame [simp]:
  "hd_thermal (put_bool k b s) = hd_thermal s" "hd_startup (put_bool k b s) = hd_startup s" "hd_onroad (put_bool k b s) = hd_onroad s"
  "hd_offroad_alerts (put_bool k b s) = hd_offroad_alerts s" "hd_started_ts (put_bool k b s) = hd_started_ts s" "hd_off_ts (put_bool k b s) = hd_off_ts s"
  "hd_in_car (put_bool k b s) = hd_in_car s" "hd_power (put_bool k b s) = hd_power s" "hd_started_seen (put_bool k b s) = hd_started_seen s"
  "hd_params (put_bool k b s) = (hd_params s)(k \<mapsto> PBool b)"
  by (simp_all add: put_bool_def)

text \<open>The two steps before the temperatures: they only touch the conditions they are about.\<close>

lemma cycle_frame [simp]:
  "hd_started_ts (handle_cycle_request i s) = hd_started_ts s" "hd_offroad_alerts (handle_cycle_request i s) = hd_offroad_alerts s"
  "k \<noteq> ''OnroadCycleRequested'' \<Longrightarrow> hd_params (handle_cycle_request i s) k = hd_params s k"
  "map_of (hd_onroad (handle_cycle_request i s)) ''ignition'' = map_of (hd_onroad s) ''ignition''"
  by (simp_all add: handle_cycle_request_def Let_def map_of_update)

lemma ignition_frame [simp]:
  "hd_started_ts (handle_ignition i s) = hd_started_ts s" "hd_offroad_alerts (handle_ignition i s) = hd_offroad_alerts s"
  "hd_params (handle_ignition i s) = hd_params s"
  by (simp_all add: handle_ignition_def split: list.splits)

text \<open>
  The ignition on record, from the history of inputs alone: what the last report of the pandas says (whether one that is
  known has its ignition on), and off again once they have been silent for more than five seconds.
\<close>

definition ignition_after :: "hw_in \<Rightarrow> bool \<Rightarrow> bool" where
  "ignition_after i b \<longleftrightarrow> (if hi_pandas_updated i \<and> hi_pandas i \<noteq> [] then \<exists>q\<in>set (hi_pandas i). pr_known q \<and> pr_ignition q
     else b \<and> hi_now i - hi_pandas_recv_time i \<le> DISCONNECT_TIMEOUT)"

definition ignition_on_record :: "hw_in list \<Rightarrow> bool" where
  "ignition_on_record is = fold ignition_after is False"

lemma ignition_tracked: "map_of (hd_onroad s) ''ignition'' = Some b \<Longrightarrow> map_of (hd_onroad (handle_ignition i s)) ''ignition'' = Some (ignition_after i b)"
  by (auto simp: handle_ignition_def ignition_after_def map_of_update split: list.splits)

section \<open>A round\<close>

lemma temperature_frame:
  "handle_temperature i s = (speed, s') \<Longrightarrow> \<exists>a b c. s' = s\<lparr>hd_offroad_temp := a, hd_all_temp := b, hd_fan := c\<rparr>"
  by (auto simp: handle_temperature_def Let_def split: prod.splits)

lemma handle_thermal_returns: "\<exists>t. handle_thermal i s = Inr (s\<lparr>hd_thermal := t\<rparr>)"
  using thermal_step_returns [of "ff_x (hd_all_temp s)" "hd_thermal s"] by (auto simp: handle_thermal_def)

text \<open>An alert is set when the table has it.\<close>

lemma set_alert_returns: "table a \<noteq> None \<Longrightarrow> \<exists>al. set_offroad_alert table a show_alert extra al0 = Inr al"
  by (auto simp: set_offroad_alert_def)

lemma set_if_changed_returns:
  assumes "table a \<noteq> None"
  shows "\<exists>al st. set_offroad_alert_if_changed table a b x s = Inr (s\<lparr>hd_offroad_alerts := al, hd_prev_offroad_states := st\<rparr>)"
proof (cases "hd_prev_offroad_states s a = Some (b, x)")
  case True
  then have "set_offroad_alert_if_changed table a b x s = Inr (s\<lparr>hd_offroad_alerts := hd_offroad_alerts s, hd_prev_offroad_states := hd_prev_offroad_states s\<rparr>)"
    by (simp add: set_offroad_alert_if_changed_def)
  then show ?thesis by blast
next
  case False
  obtain al where "set_offroad_alert table a b x (hd_offroad_alerts s) = Inr al" using set_alert_returns [of table a b x] assms by blast
  with False have "set_offroad_alert_if_changed table a b x s = Inr (s\<lparr>hd_offroad_alerts := al, hd_prev_offroad_states := (hd_prev_offroad_states s)(a \<mapsto> (b, x))\<rparr>)"
    by (simp add: set_offroad_alert_if_changed_def)
  then show ?thesis by blast
qed

lemma handle_alerts_returns:
  assumes "table ''Offroad_TiciSupport'' \<noteq> None" "table ''Offroad_TemperatureTooHigh'' \<noteq> None"
  shows "\<exists>al st. handle_alerts table i s = Inr (s\<lparr>hd_offroad_alerts := al, hd_prev_offroad_states := st\<rparr>)"
proof -
  obtain al where al: "set_offroad_alert table ''Offroad_TiciSupport'' (hi_unsupported_combo i) (Some (hi_channel i)) (hd_offroad_alerts s) = Inr al"
    using set_alert_returns [of table "''Offroad_TiciSupport''"] assms(1) by blast
  have "\<exists>al' st. handle_alerts table i s = Inr (s\<lparr>hd_offroad_alerts := al, hd_offroad_alerts := al', hd_prev_offroad_states := st\<rparr>)"
    unfolding handle_alerts_def al bind_result_simps Let_def by (rule set_if_changed_returns [of table "''Offroad_TemperatureTooHigh''", OF assms(2)])
  then show ?thesis by simp
qed

text \<open>The state a round decides on, and what the rest of the round keeps of it.\<close>

definition before_start :: "hw_in \<Rightarrow> hw \<Rightarrow> hw" where
  "before_start i s = handle_ignition i (handle_cycle_request i (others_act i s))"

lemma round_decides:
  assumes "table ''Offroad_TiciSupport'' \<noteq> None" "table ''Offroad_TemperatureTooHigh'' \<noteq> None"
  shows "round_skipped i (before_start i s) \<and> hw_round table i s = Inr (None, before_start i s)
    \<or> (\<exists>a b c t al st speed s3 s4. s3 = (before_start i s)\<lparr>hd_offroad_temp := a, hd_all_temp := b, hd_fan := c, hd_thermal := t\<rparr>
         \<and> s4 = (handle_conditions i s3)\<lparr>hd_offroad_alerts := al, hd_prev_offroad_states := st\<rparr>
         \<and> hw_round table i s = (let (m, s5) = hw_finish i (should_start s4) speed s4 in Inr (Some m, s5)))"
proof (cases "round_skipped i (before_start i s)")
  case True
  then show ?thesis by (simp add: hw_round_def before_start_def [symmetric] Let_def)
next
  case False
  obtain speed s2 where tp: "handle_temperature i (before_start i s) = (speed, s2)" by (cases "handle_temperature i (before_start i s)")
  obtain a b c where s2: "s2 = (before_start i s)\<lparr>hd_offroad_temp := a, hd_all_temp := b, hd_fan := c\<rparr>" using temperature_frame [OF tp] by blast
  obtain t where th: "handle_thermal i s2 = Inr (s2\<lparr>hd_thermal := t\<rparr>)" using handle_thermal_returns by blast
  obtain al st where al: "handle_alerts table i (handle_conditions i (s2\<lparr>hd_thermal := t\<rparr>))
      = Inr ((handle_conditions i (s2\<lparr>hd_thermal := t\<rparr>))\<lparr>hd_offroad_alerts := al, hd_prev_offroad_states := st\<rparr>)"
    using handle_alerts_returns [OF assms] by blast
  from False have "hw_round table i s = (let s4 = (handle_conditions i (s2\<lparr>hd_thermal := t\<rparr>))\<lparr>hd_offroad_alerts := al, hd_prev_offroad_states := st\<rparr>;
      (m, s5) = hw_finish i (should_start s4) speed s4 in Inr (Some m, s5))"
    by (simp add: hw_round_def before_start_def [symmetric] tp th al Let_def)
  then show ?thesis unfolding s2 Let_def by (intro disjI2 exI conjI) (rule refl, rule refl, assumption)
qed

lemma before_start_frame [simp]:
  "hd_started_ts (before_start i s) = hd_started_ts s" "hd_offroad_alerts (before_start i s) = hi_others_alerts i (hd_offroad_alerts s)"
  "k \<noteq> ''OnroadCycleRequested'' \<Longrightarrow> hd_params (before_start i s) k = hi_others_params i (hd_params s) k"
  by (simp_all add: before_start_def others_act_def)

lemma conditions_frame [simp]:
  "hd_started_ts (handle_conditions i s) = hd_started_ts s" "hd_params (handle_conditions i s) = hd_params s" "hd_thermal (handle_conditions i s) = hd_thermal s"
  "hd_startup (handle_conditions i s) = startup_conditions i s"
  "map_of (hd_onroad (handle_conditions i s)) ''ignition'' = map_of (hd_onroad s) ''ignition''"
  "map_of (hd_onroad (handle_conditions i s)) ''device_temp_good'' = Some (hd_thermal s < Therm_danger)"
  "map_of (hd_onroad (handle_conditions i s)) ''not_tici'' = Some (\<not> hi_unsupported_combo i)"
  "map_of (hd_onroad (handle_conditions i s)) ''not_always_offroad'' = Some (\<not> get_bool (hd_params s) ''OffroadMode'')"
  by (simp_all add: handle_conditions_def Let_def map_of_update)

section \<open>The end of a round\<close>

lemma engaged_frame [simp]:
  "hd_thermal (handle_engaged i b s) = hd_thermal s" "hd_onroad (handle_engaged i b s) = hd_onroad s" "hd_started_ts (handle_engaged i b s) = hd_started_ts s"
  "hd_off_ts (handle_engaged i b s) = hd_off_ts s" "hd_in_car (handle_engaged i b s) = hd_in_car s"
  "k \<noteq> ''IsEngaged'' \<Longrightarrow> hd_params (handle_engaged i b s) k = hd_params s k"
  by (simp_all add: handle_engaged_def Let_def)

lemma hw_transition_frame [simp]:
  "hd_thermal (handle_transition i b s) = hd_thermal s" "hd_onroad (handle_transition i b s) = hd_onroad s" "hd_params (handle_transition i b s) = hd_params s"
  "hd_in_car (handle_transition i b s) = hd_in_car s" "hd_started_ts (handle_transition i b s) = None \<longleftrightarrow> \<not> b" "hd_off_ts (handle_transition i b s) = None \<longleftrightarrow> b"
  by (simp_all add: handle_transition_def Let_def split: option.splits)

lemma calculate_params: "power_calculate now w v ign pw p = (pw', p') \<Longrightarrow> k \<noteq> ''CarBatteryCapacity'' \<Longrightarrow> p' k = p k"
  by (auto simp: power_calculate_def save_capacity_def Let_def split: option.splits if_splits)

lemma power_frame [simp]:
  "hd_thermal (handle_power i s) = hd_thermal s" "hd_onroad (handle_power i s) = hd_onroad s" "hd_started_ts (handle_power i s) = hd_started_ts s"
  "hd_off_ts (handle_power i s) = hd_off_ts s" "hd_in_car (handle_power i s) = hd_in_car s"
  "k \<notin> {''GithubRunnerSufficientVoltage'', ''CarBatteryCapacity'', ''DoShutdown''} \<Longrightarrow> hd_params (handle_power i s) k = hd_params s k"
  by (auto simp: handle_power_def Let_def dest: calculate_params split: prod.splits)

lemma uptime_frame [simp]:
  "hd_thermal (handle_uptime i s) = hd_thermal s" "hd_onroad (handle_uptime i s) = hd_onroad s" "hd_started_ts (handle_uptime i s) = hd_started_ts s"
  "hd_off_ts (handle_uptime i s) = hd_off_ts s" "k \<notin> {''UptimeOffroad'', ''UptimeOnroad''} \<Longrightarrow> hd_params (handle_uptime i s) k = hd_params s k"
  by (simp_all add: handle_uptime_def Let_def)

lemma get_bool_cong: "p k = q k \<Longrightarrow> get_bool p k = get_bool q k"
  by (simp add: get_bool_def)

lemma finish_frame:
  assumes "hw_finish i start speed s = (m, s')"
  shows "dv_thermalStatus m = hd_thermal s" "dv_started m = (start \<and> \<not> get_bool (hd_params s) ''OffroadMode'')" "hd_onroad s' = hd_onroad s"
    "hd_thermal s' = hd_thermal s" "hd_started_ts s' = None \<longleftrightarrow> \<not> start"
  using assms by (auto simp add: hw_finish_def Let_def device_state_of_def get_bool_def simp del: not_None_eq split: if_splits)

text \<open>A shutdown is only asked for while the device is not started, and, unless it is forced, after five minutes off the road in a car whose
  ignition is off.\<close>

definition shutdown_justified :: "hw_in \<Rightarrow> hw \<Rightarrow> bool" where
  "shutdown_justified i s \<longleftrightarrow> hd_started_ts s = None
     \<and> (get_bool (hd_params s) ''ForcePowerDown'' \<or> \<not> cond ''ignition'' (hd_onroad s) \<and> hd_in_car s \<and> \<not> get_bool (hd_params s) ''DisablePowerDown''
        \<and> (\<exists>t. hd_off_ts s = Some t \<and> hi_now i - t > DELAY_SHUTDOWN_TIME_S))"

lemma power_shutdown:
  assumes "get_bool (hd_params (handle_power i s)) ''DoShutdown''" "\<not> get_bool (hd_params s) ''DoShutdown''" "hd_started_ts s \<noteq> None \<longrightarrow> hd_off_ts s = None"
  shows "shutdown_justified i (handle_power i s)"
proof -
  define s1 where "s1 = put_bool ''GithubRunnerSufficientVoltage'' (case hi_voltage i of None \<Rightarrow> False | Some v \<Rightarrow> v > 9000) s"
  define ign where "ign = cond ''ignition'' (hd_onroad s1)"
  obtain pw p where c: "power_calculate (hi_now i) (hi_current_power_draw i) (hi_voltage i) ign (hd_power s1) (hd_params s1) = (pw, p)"
    by (cases "power_calculate (hi_now i) (hi_current_power_draw i) (hi_voltage i) ign (hd_power s1) (hd_params s1)")
  define s2 where "s2 = s1\<lparr>hd_power := pw, hd_params := p\<rparr>"
  have h: "handle_power i s = (if should_shutdown (hi_now i) p ign (hd_in_car s) (hd_off_ts s) (hd_started_seen s) pw then put_bool ''DoShutdown'' True s2 else s2)"
    using c by (simp add: handle_power_def Let_def s1_def ign_def s2_def)
  have p: "p k = hd_params s k" if "k \<notin> {''GithubRunnerSufficientVoltage'', ''CarBatteryCapacity''}" for k
    using calculate_params [OF c, of k] that by (simp add: s1_def)
  have "\<not> get_bool p ''DoShutdown''" using assms(2) by (simp add: get_bool_def p)
  with assms(1) h have sh: "should_shutdown (hi_now i) p ign (hd_in_car s) (hd_off_ts s) (hd_started_seen s) pw"
    by (auto simp: s2_def split: if_splits)
  then obtain t where "hd_off_ts s = Some t" "get_bool p ''ForcePowerDown'' \<or> \<not> ign \<and> hd_in_car s \<and> \<not> get_bool p ''DisablePowerDown'' \<and> hi_now i - t > DELAY_SHUTDOWN_TIME_S"
    by (auto simp: should_shutdown_def Let_def split: option.splits)
  then show ?thesis using assms(3) by (auto simp: shutdown_justified_def h sh s2_def s1_def ign_def get_bool_def)
qed

lemma finish_shutdown:
  assumes "hw_finish i start speed s = (m, s')" "get_bool (hd_params s') ''DoShutdown''" "\<not> get_bool (hd_params s) ''DoShutdown''"
  shows "shutdown_justified i (handle_power i (handle_transition i start (handle_engaged i start s)))"
proof (rule power_shutdown)
  show "get_bool (hd_params (handle_power i (handle_transition i start (handle_engaged i start s)))) ''DoShutdown''"
    using assms(1,2) by (auto simp: hw_finish_def Let_def get_bool_def)
qed (use assms(3) in \<open>auto simp: get_bool_def simp del: not_None_eq\<close>)

text \<open>Every round returns, and its entry of the ignition is the one on record.\<close>

definition hw_inv :: "bool \<Rightarrow> hw \<Rightarrow> bool" where
  "hw_inv b s \<longleftrightarrow> map_of (hd_onroad s) ''ignition'' = Some b"

lemma before_start_inv: "hw_inv b s \<Longrightarrow> hw_inv (ignition_after i b) (before_start i s)"
  unfolding hw_inv_def before_start_def by (rule ignition_tracked) (simp add: others_act_def)

lemma round_keeps:
  assumes "table ''Offroad_TiciSupport'' \<noteq> None" "table ''Offroad_TemperatureTooHigh'' \<noteq> None" "hw_inv g s"
  shows "\<exists>m s'. hw_round table i s = Inr (m, s') \<and> hw_inv (ignition_after i g) s'"
  using round_decides [of table i s, OF assms(1,2)]
proof (elim disjE exE conjE)
  assume "hw_round table i s = Inr (None, before_start i s)" "round_skipped i (before_start i s)"
  then show ?thesis using before_start_inv [OF assms(3)] by simp
next
  fix a b c t al st speed s3 s4
  assume s3: "s3 = (before_start i s)\<lparr>hd_offroad_temp := a, hd_all_temp := b, hd_fan := c, hd_thermal := t\<rparr>"
    and s4: "s4 = (handle_conditions i s3)\<lparr>hd_offroad_alerts := al, hd_prev_offroad_states := st\<rparr>"
    and r: "hw_round table i s = (let (m, s5) = hw_finish i (should_start s4) speed s4 in Inr (Some m, s5))"
  obtain m s5 where f: "hw_finish i (should_start s4) speed s4 = (m, s5)" by (cases "hw_finish i (should_start s4) speed s4")
  have "hw_inv (ignition_after i g) s5" using before_start_inv [OF assms(3), of i] by (simp add: hw_inv_def finish_frame [OF f] s4 s3)
  then show ?thesis using r f by simp
qed

lemma run_keeps:
  assumes "table ''Offroad_TiciSupport'' \<noteq> None" "table ''Offroad_TemperatureTooHigh'' \<noteq> None"
  shows "hw_inv b s \<Longrightarrow> \<exists>s'. hw_run table is s = Inr s' \<and> hw_inv (fold ignition_after is b) s'"
proof (induction "is" arbitrary: s b)
  case (Cons i "is")
  from round_keeps [of table b s i, OF assms Cons.prems] obtain m s' where "hw_round table i s = Inr (m, s')" "hw_inv (ignition_after i b) s'" by blast
  with Cons.IH [of "ignition_after i b" s'] show ?case by simp
qed simp

lemma hw_init_inv: "hw_inv False (hw_init p al dflt now)"
  by (simp add: hw_inv_def hw_init_def)

lemma run_on_record:
  assumes "table ''Offroad_TiciSupport'' \<noteq> None" "table ''Offroad_TemperatureTooHigh'' \<noteq> None"
  shows "\<exists>s. hw_run table is (hw_init p al dflt now) = Inr s \<and> hw_inv (ignition_on_record is) s"
  using run_keeps [of table, OF assms hw_init_inv] by (simp add: ignition_on_record_def)

text \<open>What holds when the conditions let the device be on the road, with the ignition on record.\<close>

definition onroad_safe :: "bool \<Rightarrow> hw_in \<Rightarrow> hw \<Rightarrow> device_state \<Rightarrow> bool" where
  "onroad_safe ign i s m \<longleftrightarrow> ign \<and> dv_thermalStatus m < Therm_danger \<and> \<not> hi_unsupported_combo i
     \<and> \<not> get_bool (hi_others_params i (hd_params s)) ''OffroadMode''"

definition start_safe :: "hw_in \<Rightarrow> hw \<Rightarrow> device_state \<Rightarrow> bool" where
  "start_safe i s m \<longleftrightarrow> dv_thermalStatus m < Therm_red \<and> hi_freeSpacePercent i > 2
     \<and> hi_others_alerts i (hd_offroad_alerts s) ''Offroad_ExcessiveActuation'' = None
     \<and> hi_others_params i (hd_params s) ''HasAcceptedTerms'' = Some (PString terms_version)
     \<and> \<not> get_bool (hi_others_params i (hd_params s)) ''DoUninstall''"

lemma should_start_safe:
  assumes s3: "s3 = (before_start i s)\<lparr>hd_offroad_temp := a, hd_all_temp := b, hd_fan := c, hd_thermal := t\<rparr>"
    and s4: "s4 = (handle_conditions i s3)\<lparr>hd_offroad_alerts := al, hd_prev_offroad_states := st\<rparr>"
    and f: "hw_finish i (should_start s4) speed s4 = (m, s')" and inv: "hw_inv g s" and d: "dv_started m"
  shows "onroad_safe (ignition_after i g) i s m \<and> (hd_started_ts s = None \<longrightarrow> start_safe i s m)"
proof (intro conjI impI)
  from d have start: "should_start s4" by (simp add: finish_frame [OF f])
  then have all: "all_true (hd_onroad s4)" by (simp add: should_start_def)
  have "hw_inv (ignition_after i g) s4" using before_start_inv [OF inv, of i] by (simp add: hw_inv_def s4 s3)
  then have "ignition_after i g" using all_true_lookup [OF all] by (simp add: hw_inv_def)
  moreover have "t < Therm_danger" "\<not> hi_unsupported_combo i" "\<not> get_bool (hd_params (before_start i s)) ''OffroadMode''"
    using all_true_lookup [OF all, of "''device_temp_good''"] all_true_lookup [OF all, of "''not_tici''"] all_true_lookup [OF all, of "''not_always_offroad''"]
    by (simp_all add: s4 s3)
  ultimately show "onroad_safe (ignition_after i g) i s m" by (simp add: onroad_safe_def finish_frame [OF f] s4 s3 get_bool_def)
  assume "hd_started_ts s = None"
  with start have all': "all_true (startup_conditions i s3)" by (simp add: should_start_def s4 s3)
  note lookup = startup_lookup [of i s3, THEN all_true_lookup [OF all']]
  show "start_safe i s m" using lookup by (simp add: start_safe_def finish_frame [OF f] s4 s3 get_bool_def)
qed

text \<open>A round from any reachable state: it returns, and its message is safe.\<close>

lemma round_safe:
  assumes "table ''Offroad_TiciSupport'' \<noteq> None" "table ''Offroad_TemperatureTooHigh'' \<noteq> None" and inv: "hw_inv g s"
  shows "\<exists>m s'. hw_round table i s = Inr (m, s') \<and> (m = None \<longleftrightarrow> round_skipped i (before_start i s))
    \<and> (\<forall>d. m = Some d \<and> dv_started d \<longrightarrow> onroad_safe (ignition_after i g) i s d \<and> (hd_started_ts s = None \<longrightarrow> start_safe i s d))"
proof (cases "round_skipped i (before_start i s)")
  case True
  then show ?thesis by (simp add: hw_round_def before_start_def [symmetric] Let_def)
next
  case False
  with round_decides [of table i s, OF assms(1,2)] obtain a b c t al st speed s3 s4 where
    s3: "s3 = (before_start i s)\<lparr>hd_offroad_temp := a, hd_all_temp := b, hd_fan := c, hd_thermal := t\<rparr>"
    and s4: "s4 = (handle_conditions i s3)\<lparr>hd_offroad_alerts := al, hd_prev_offroad_states := st\<rparr>"
    and r: "hw_round table i s = (let (m, s5) = hw_finish i (should_start s4) speed s4 in Inr (Some m, s5))" by blast
  obtain m s5 where f: "hw_finish i (should_start s4) speed s4 = (m, s5)" by (cases "hw_finish i (should_start s4) speed s4")
  then show ?thesis using r False should_start_safe [OF s3 s4 f inv] by simp
qed

text \<open>C5. Whatever the sensors report and the other processes write, no round of the hardware daemon fails (given that the table has
  the two alerts it raises), and when its message says that the device is started, the ignition is on record: the last report the pandas have made in
  the whole history says that a known one has it on, and in no round since have they been silent for more than five seconds. The device is supported, below
  the danger band and not forced off the road; and if the round is the one that starts it, it is also below the red band, with free space,
  with the terms accepted, with no report of excessive actuation pending and not being uninstalled.\<close>

theorem hardware_goes_onroad_safely:
  assumes "table ''Offroad_TiciSupport'' \<noteq> None" "table ''Offroad_TemperatureTooHigh'' \<noteq> None"
  shows "\<exists>s m s'. hw_run table is (hw_init p al dflt now) = Inr s \<and> hw_round table i s = Inr (m, s')
    \<and> (\<forall>d. m = Some d \<and> dv_started d \<longrightarrow> onroad_safe (ignition_on_record (is @ [i])) i s d \<and> (hd_started_ts s = None \<longrightarrow> start_safe i s d))"
proof -
  from run_on_record [of table, OF assms] obtain s where s: "hw_run table is (hw_init p al dflt now) = Inr s" "hw_inv (ignition_on_record is) s" by blast
  from round_safe [of table, OF assms s(2), of i] s(1) show ?thesis by (auto simp: ignition_on_record_def)
qed

text \<open>A car that is switched on in front of a device that is ready.\<close>

definition ready_table :: "string \<rightharpoonup> offroad_alert" where
  "ready_table = [''Offroad_TiciSupport'' \<mapsto> \<lparr>oa_text = '''', oa_severity = 0, oa_extra = ''''\<rparr>,
                  ''Offroad_TemperatureTooHigh'' \<mapsto> \<lparr>oa_text = '''', oa_severity = 1, oa_extra = ''''\<rparr>]"

definition ready_params :: params where
  "ready_params = [''HasAcceptedTerms'' \<mapsto> PString terms_version, ''HasAcceptedTermsSP'' \<mapsto> PString terms_version_sp,
                   ''CompletedTrainingVersion'' \<mapsto> PString training_version]"

definition ready_in :: hw_in where
  "ready_in = \<lparr>hi_others_params = (\<lambda>p. p), hi_others_alerts = (\<lambda>a. a), hi_frame = 10, hi_now = 5, hi_pandas_updated = True,
     hi_pandas = [\<lparr>pr_ignition = True, pr_known = True, pr_harness_connected = True\<rparr>], hi_pandas_recv_time = 5, hi_voltage = Some 12000,
     hi_freeSpacePercent = 50, hi_memoryTempC = 40, hi_cpuTempC = [45], hi_gpuTempC = [], hi_pmicTempC = [], hi_screenBrightnessPercent = 50,
     hi_current_power_draw = 5, hi_booted = True, hi_unsupported_combo = False, hi_channel = ''release'', hi_selfdrive_updated = False,
     hi_selfdrive_enabled = False, hi_networkMetered = False\<rparr>"

lemmas ready_defs = ready_table_def ready_params_def ready_in_def

lemma ready_fields:
  "hi_memoryTempC ready_in = 40" "hi_cpuTempC ready_in = [45]" "hi_gpuTempC ready_in = []" "hi_pmicTempC ready_in = []" "hi_frame ready_in = 10"
  "hi_freeSpacePercent ready_in = 50" "hi_booted ready_in" "\<not> hi_unsupported_combo ready_in"
  by (simp_all add: ready_in_def)

lemma first_update: "ff_x (fof_update x (fof_init y a b False)) = x"
  by (simp add: fof_update_def fof_init_def fof_update_alpha_def)

lemma ready_starts: "\<exists>d s'. hw_round ready_table ready_in (hw_init ready_params Map.empty (\<lambda>_. 0) 0) = Inr (Some d, s') \<and> dv_started d"
proof -
  let ?s = "hw_init ready_params Map.empty (\<lambda>_. 0) 0"
  define bs where "bs = before_start ready_in ?s"
  have b: "hd_onroad bs = [(''ignition'', True), (''not_onroad_cycle'', True), (''device_temp_good'', True)]"
    "hd_params bs = ready_params" "hd_offroad_alerts bs = Map.empty"
    "hd_startup bs = []" "hd_started_ts bs = None"
    by (simp_all add: bs_def before_start_def ready_defs others_act_def handle_cycle_request_def handle_ignition_def hw_init_def get_bool_def
        Let_def set_onroad_def put_bool_def ONROAD_CYCLE_TIME_def PANDA_STATES_FREQUENCY_def)
  have f: "hd_all_temp bs = fof_init 0 TEMP_TAU DT_HW False" "hd_offroad_temp bs = fof_init 0 TEMP_TAU DT_HW False"
     "hd_thermal bs = Therm_yellow" "hd_started_seen bs = False"
    by (simp_all add: bs_def before_start_def ready_defs others_act_def handle_cycle_request_def handle_ignition_def hw_init_def get_bool_def
        Let_def set_onroad_def put_bool_def)
  obtain speed s2 where tp: "handle_temperature ready_in (bs) = (speed, s2)"
    by (cases "handle_temperature ready_in (bs)")
  obtain x y z where s2: "s2 = (bs)\<lparr>hd_offroad_temp := x, hd_all_temp := y, hd_fan := z\<rparr>" using temperature_frame [OF tp] by blast
  have temps: "ff_x (hd_offroad_temp s2) = 45" "ff_x (hd_all_temp s2) = 45"
    using tp by (auto simp: handle_temperature_def f first_update Let_def offroad_temp_def max_or_0_def ready_fields split: prod.splits)
  have th: "handle_thermal ready_in s2 = Inr (s2\<lparr>hd_thermal := Therm_green\<rparr>)"
    unfolding handle_thermal_def temps by (simp add: s2 f OFFROAD_DANGER_TEMP_def thermal_step_def THERMAL_BANDS_def band_neighbour_def py_index_def)
  let ?c = "handle_conditions ready_in (s2\<lparr>hd_thermal := Therm_green\<rparr>)"
  obtain al st where al: "handle_alerts ready_table ready_in ?c = Inr (?c\<lparr>hd_offroad_alerts := al, hd_prev_offroad_states := st\<rparr>)"
    using handle_alerts_returns [of ready_table ready_in ?c] by (auto simp: ready_table_def)
  let ?s4 = "?c\<lparr>hd_offroad_alerts := al, hd_prev_offroad_states := st\<rparr>"
  have on: "should_start ?s4"
    by (simp add: should_start_def handle_conditions_def startup_conditions_def Let_def s2 b all_true_def ready_params_def ready_fields get_bool_def
        less_thermal_status_def cond_def)
  obtain d s5 where fin: "hw_finish ready_in (should_start ?s4) speed ?s4 = (d, s5)" by (cases "hw_finish ready_in (should_start ?s4) speed ?s4")
  have "dv_started d" by (simp add: finish_frame [OF fin] on) (simp add: s2 b get_bool_def ready_params_def)
  moreover have "\<not> round_skipped ready_in (bs)"
    by (simp add: round_skipped_def ready_fields PANDA_STATES_FREQUENCY_def DT_HW_def py_round_def)
  ultimately show ?thesis by (simp add: hw_round_def before_start_def [symmetric] bs_def [symmetric] tp th al fin )
qed

theorem hardware_goes_onroad_safely_witness:
  "\<exists>d s'. hw_round ready_table ready_in (hw_init ready_params Map.empty (\<lambda>_. 0) 0) = Inr (Some d, s') \<and> dv_started d
     \<and> onroad_safe (ignition_on_record [ready_in]) ready_in (hw_init ready_params Map.empty (\<lambda>_. 0) 0) d \<and> start_safe ready_in (hw_init ready_params Map.empty (\<lambda>_. 0) 0) d"
proof -
  obtain d s' where d: "hw_round ready_table ready_in (hw_init ready_params Map.empty (\<lambda>_. 0) 0) = Inr (Some d, s')" "dv_started d"
    using ready_starts by blast
  have "ready_table ''Offroad_TiciSupport'' \<noteq> None" "ready_table ''Offroad_TemperatureTooHigh'' \<noteq> None" by (simp_all add: ready_table_def)
  from hardware_goes_onroad_safely [OF this, of "[]" ready_params Map.empty "\<lambda>_. 0" 0 ready_in] d show ?thesis
    by (auto simp: hw_init_def)
qed

end
