(* ===== verification/Manager.thy ===== *)
theory Manager
  imports Process_Config Hardwared
begin

text \<open>
  The manager (\<open>system/manager/manager.py\<close>): the parameters it clears and sets, and the rounds in which
  it keeps the right processes running until a shutdown is asked for. The table of keys with their flags
  and defaults (\<open>common/params_keys.h\<close>) is an argument. Registration gives the dongle id or fails; folders,
  environment variables and logging are left out.
\<close>

section \<open>Parameters\<close>

datatype param_flag = CLEAR_ON_MANAGER_START | CLEAR_ON_ONROAD_TRANSITION | CLEAR_ON_OFFROAD_TRANSITION | CLEAR_ON_IGNITION_ON | DEVELOPMENT_ONLY

record param_keys =
  pk_keys :: "string list"
  pk_flags :: "string \<Rightarrow> param_flag list"
  pk_default :: "string \<Rightarrow> param_value option"

definition clear_all :: "param_keys \<Rightarrow> param_flag \<Rightarrow> params \<Rightarrow> params" where
  "clear_all pk f p = (\<lambda>k. if k \<notin> set (pk_keys pk) \<or> f \<in> set (pk_flags pk k) then None else p k)"

definition write_onroad_params :: "bool \<Rightarrow> params \<Rightarrow> params" where
  "write_onroad_params started p = p(''IsOnroad'' \<mapsto> PBool started, ''IsOffroad'' \<mapsto> PBool (\<not> started))"

record build_metadata =
  bm_version :: string
  bm_git_commit :: string
  bm_git_commit_date :: string
  bm_channel :: string
  bm_git_origin :: string
  bm_development_channel :: bool
  bm_tested_channel :: bool
  bm_release_channel :: bool
  bm_release_sp_channel :: bool

definition set_default :: "param_keys \<Rightarrow> string \<Rightarrow> params \<Rightarrow> params" where
  "set_default pk k p = (case pk_default pk k of Some v \<Rightarrow> if p k = None then p(k \<mapsto> v) else p | None \<Rightarrow> p)"

definition put_metadata :: "build_metadata \<Rightarrow> string \<Rightarrow> params \<Rightarrow> params" where
  "put_metadata bm serial p = p(''Version'' \<mapsto> PString (bm_version bm), ''GitCommit'' \<mapsto> PString (bm_git_commit bm),
     ''GitCommitDate'' \<mapsto> PString (bm_git_commit_date bm), ''GitBranch'' \<mapsto> PString (bm_channel bm), ''GitRemote'' \<mapsto> PString (bm_git_origin bm),
     ''IsDevelopmentBranch'' \<mapsto> PBool (bm_development_channel bm), ''IsTestedBranch'' \<mapsto> PBool (bm_tested_channel bm),
     ''IsReleaseBranch'' \<mapsto> PBool (bm_release_channel bm), ''IsReleaseSpBranch'' \<mapsto> PBool (bm_release_sp_channel bm), ''HardwareSerial'' \<mapsto> PString serial)"

text \<open>\<open>register\<close>, the result of the registration, is an argument; without one the start fails (\<open>None\<close>).\<close>

definition manager_init :: "param_keys \<Rightarrow> build_metadata \<Rightarrow> string \<Rightarrow> string option \<Rightarrow> params \<Rightarrow> params option" where
  "manager_init pk bm serial dongle p0 =
     (let p1 = fold (clear_all pk) [CLEAR_ON_MANAGER_START, CLEAR_ON_ONROAD_TRANSITION, CLEAR_ON_OFFROAD_TRANSITION, CLEAR_ON_IGNITION_ON] p0;
          p2 = (if bm_release_channel bm then clear_all pk DEVELOPMENT_ONLY p1 else p1);
          p3 = (if p2 ''DeviceBootMode'' = Some (PInt 1) then p2(''OffroadMode'' \<mapsto> PBool True) else p2);
          p4 = (if get_bool p3 ''RecordFrontLock'' then p3(''RecordFront'' \<mapsto> PBool True) else p3);
          p5 = put_metadata bm serial (fold (set_default pk) (pk_keys pk) p4)
      in case dongle of Some d \<Rightarrow> if d = [] then None else Some p5 | None \<Rightarrow> None)"

section \<open>Rounds\<close>

record manager =
  mn_processes :: "process list"
  mn_params :: params
  mn_world :: world
  mn_ignore :: "string list"
  mn_started_prev :: bool
  mn_ignition_prev :: bool

record manager_in =
  mi_os :: os_in
  mi_env :: proc_env
  mi_others_params :: "params \<Rightarrow> params"
  mi_started :: bool
  mi_pandas :: "panda_report list"
  mi_CP :: car_params

definition UNREGISTERED_DONGLE_ID :: string where "UNREGISTERED_DONGLE_ID = ''UnregisteredDevice''"

text \<open>The processes not to run: those that need a registration, and what the environment says.\<close>

definition ignored :: "params \<Rightarrow> bool \<Rightarrow> string list \<Rightarrow> string list" where
  "ignored p noboard blocked =
     (if p ''DongleId'' \<in> {None, Some (PString UNREGISTERED_DONGLE_ID)} then [''manage_athenad'', ''uploader''] else [])
     @ (if noboard then [''pandad''] else []) @ filter (\<lambda>x. x \<noteq> []) blocked"

definition run_processes :: "manager_in \<Rightarrow> bool \<Rightarrow> manager \<Rightarrow> manager" where
  "run_processes i started s =
     (let (ps, p, w) = ensure_running (mi_os i) (mi_env i) started (mi_CP i) (mn_ignore s) (mn_processes s) (mn_params s, mn_world s)
      in s\<lparr>mn_processes := ps, mn_params := p, mn_world := w\<rparr>)"

definition manager_start :: "manager_in \<Rightarrow> bool \<Rightarrow> string list \<Rightarrow> params \<Rightarrow> world \<Rightarrow> manager" where
  "manager_start i noboard blocked p w =
     run_processes i False \<lparr>mn_processes = procs (mi_env i), mn_params = write_onroad_params False p, mn_world = w,
       mn_ignore = ignored p noboard blocked, mn_started_prev = False, mn_ignition_prev = False\<rparr>"

definition panda_ignition :: "panda_report list \<Rightarrow> bool" where
  "panda_ignition ps \<longleftrightarrow> (\<exists>q\<in>set (filter pr_known ps). pr_ignition q)"

text \<open>The parameters that end with a transition, and the two that tell the others about it.\<close>

definition clear_on_transition :: "param_keys \<Rightarrow> bool \<Rightarrow> bool \<Rightarrow> manager \<Rightarrow> params \<Rightarrow> params" where
  "clear_on_transition pk started ignition s p0 =
     (let p1 = (if started \<and> \<not> mn_started_prev s then clear_all pk CLEAR_ON_ONROAD_TRANSITION p0
                else if \<not> started \<and> mn_started_prev s then clear_all pk CLEAR_ON_OFFROAD_TRANSITION p0 else p0);
          p2 = (if ignition \<and> \<not> mn_ignition_prev s then clear_all pk CLEAR_ON_IGNITION_ON p1 else p1)
      in if started \<noteq> mn_started_prev s then write_onroad_params started p2 else p2)"

definition shutdown_requested :: "params \<Rightarrow> bool" where
  "shutdown_requested p \<longleftrightarrow> (\<exists>k\<in>set [''DoUninstall'', ''DoShutdown'', ''DoReboot'']. get_bool p k)"

text \<open>A round: the message, whether the loop is left, and the new state. The reason is kept without its date.\<close>

definition note_reason :: "params \<Rightarrow> params" where
  "note_reason p = fold (\<lambda>k q. if get_bool p k then q(''LastManagerExitReason'' \<mapsto> PString k) else q) [''DoUninstall'', ''DoShutdown'', ''DoReboot''] p"

definition manager_round :: "param_keys \<Rightarrow> manager_in \<Rightarrow> manager \<Rightarrow> process_msg list \<times> bool \<times> manager" where
  "manager_round pk i s0 =
     (let ignition = panda_ignition (mi_pandas i);
          s1 = s0\<lparr>mn_processes := map (reap (mi_os i)) (mn_processes s0),
                  mn_params := clear_on_transition pk (mi_started i) ignition s0 (mi_others_params i (mn_params s0)),
                  mn_started_prev := mi_started i, mn_ignition_prev := ignition\<rparr>;
          s2 = run_processes i (mi_started i) s1
      in (map get_process_state_msg (mn_processes s2), shutdown_requested (mn_params s2), s2\<lparr>mn_params := note_reason (mn_params s2)\<rparr>))"

fun manager_run :: "param_keys \<Rightarrow> manager_in list \<Rightarrow> manager \<Rightarrow> manager" where
  "manager_run pk [] s = s"
| "manager_run pk (i # is) s = (let (msgs, leave, s') = manager_round pk i s in manager_run pk is s')"

fun stop_all :: "os_in \<Rightarrow> bool \<Rightarrow> process list \<Rightarrow> world \<Rightarrow> process list \<times> world" where
  "stop_all oi block [] w = ([], w)"
| "stop_all oi block (p # ps) w =
     (let (p1, w1) = process_stop oi True block None p w; (ps', w2) = stop_all oi block ps w1 in (p1 # ps', w2))"

definition manager_cleanup :: "os_in \<Rightarrow> manager \<Rightarrow> manager" where
  "manager_cleanup oi s =
     (let (ps, w) = stop_all oi False (mn_processes s) (mn_world s); (ps', w') = stop_all oi True ps w
      in s\<lparr>mn_processes := ps', mn_world := w'\<rparr>)"

end
