(* ===== verification/Manager_Facts.thy ===== *)
theory Manager_Facts
  imports Manager
begin

text \<open>
  What the manager guarantees: a process that is not to run is told to stop in the round that sees it and is
  gone in the next one, one that is to run has been started, at most one driving model runs, and when the
  manager is left no child is.
\<close>

section \<open>Single processes\<close>

definition same_process :: "process \<Rightarrow> process \<Rightarrow> bool" where
  "same_process p q \<longleftrightarrow> mp_kind q = mp_kind p \<and> mp_name q = mp_name p \<and> mp_should_run q = mp_should_run p \<and> mp_enabled q = mp_enabled p
     \<and> mp_restart_if_crash q = mp_restart_if_crash p"

definition supervised :: "process \<Rightarrow> bool" where
  "supervised p \<longleftrightarrow> (\<forall>key. mp_kind p \<noteq> DaemonProcess key)"

definition stopping :: "process \<Rightarrow> bool" where
  "stopping p \<longleftrightarrow> mp_proc p = None \<or> mp_shutting_down p"

lemma same_process_refl [simp]: "same_process p p"
  by (simp add: same_process_def)

lemma same_process_trans: "same_process p q \<Longrightarrow> same_process q r \<Longrightarrow> same_process p r"
  by (simp add: same_process_def)

lemma reap_same [simp]: "same_process p (reap oi p)" "mp_shutting_down (reap oi p) = mp_shutting_down p" "(mp_proc (reap oi p) = None) = (mp_proc p = None)"
  by (simp_all add: reap_def same_process_def split: option.split)

lemma forget_same [simp]: "same_process p (forget_child p)" "mp_proc (forget_child p) = None"
  by (simp_all add: forget_child_def same_process_def)

lemma wait_same: "wait_and_kill oi retry c p w = (q, w') \<Longrightarrow> same_process p q"
  by (auto simp: wait_and_kill_def split: option.splits if_splits)

lemma wait_gone: "wait_and_kill oi True c p w = (q, w') \<Longrightarrow> mp_proc q = None"
  by (auto simp: wait_and_kill_def split: option.splits)

lemma stop_same:
  assumes "process_stop oi retry block sig p w = (q, w')" shows "same_process p q"
proof -
  have "same_process (p\<lparr>mp_shutting_down := True\<rparr>) r \<Longrightarrow> same_process p r" for r by (simp add: same_process_def)
  with assms show ?thesis
    by (auto simp: process_stop_def Let_def dest: wait_same split: process_kind.splits option.splits if_splits)
qed

text \<open>A wait with the right to kill ends the child; without waiting it has at least been told.\<close>

lemma stop_gone:
  assumes "process_stop oi True block sig p w = (q, w')" "supervised p" "block \<or> stopping p"
  shows "mp_proc q = None"
  using assms by (auto simp: process_stop_def Let_def supervised_def stopping_def dest: wait_gone split: process_kind.splits option.splits if_splits)

lemma stop_stopping:
  assumes "process_stop oi True block sig p w = (q, w')" "supervised p" shows "stopping q"
  using assms by (auto simp: process_stop_def Let_def supervised_def stopping_def dest: wait_gone split: process_kind.splits option.splits if_splits)

lemma stop_idle: "mp_proc p = None \<Longrightarrow> process_stop oi retry block sig p w = (p, w)"
  by (simp add: process_stop_def split: process_kind.split)

definition started_ok :: "process \<Rightarrow> bool" where
  "started_ok p \<longleftrightarrow> mp_proc p \<noteq> None \<and> \<not> mp_shutting_down p"

lemma launch_ok: "launch p w = (q, w') \<Longrightarrow> mp_shutting_down p \<longrightarrow> mp_proc p = None \<Longrightarrow> same_process p q \<and> started_ok q"
  by (auto simp: launch_def started_ok_def same_process_def split: if_splits)

lemma start_ok:
  assumes "process_start oi p pw = (q, pw')" "supervised p"
  shows "same_process p q \<and> started_ok q \<and> fst pw' = fst pw"
proof -
  obtain p1 w1 where 1: "(if mp_shutting_down p then process_stop oi True True None p (snd pw) else (p, snd pw)) = (p1, w1)" by force
  obtain p2 w2 where 2: "launch p1 w1 = (p2, w2)" by force
  have s: "same_process p p1" "mp_shutting_down p1 \<longrightarrow> mp_proc p1 = None"
    using 1 assms(2) by (auto dest: stop_same stop_gone split: if_splits)
  have "q = p2 \<and> pw' = (fst pw, w2)"
    using assms 1 2 by (auto simp: process_start_def supervised_def split_beta Let_def split: process_kind.splits)
  then show ?thesis using launch_ok [OF 2 s(2)] s(1) same_process_trans by auto
qed

lemma start_same: "process_start oi p pw = (q, pw') \<Longrightarrow> same_process p q"
proof (cases "supervised p")
  case False
  assume "process_start oi p pw = (q, pw')"
  with False show ?thesis by (auto simp: supervised_def process_start_def)
qed (use start_ok in blast)

lemma restart_same:
  assumes "process_restart oi p pw = (q, pw')" shows "same_process p q"
proof -
  obtain p1 w1 where 1: "process_stop oi True True (Some SIGKILL) p (snd pw) = (p1, w1)" by force
  then have "process_start oi p1 (fst pw, w1) = (q, pw')" using assms by (simp add: process_restart_def)
  then show ?thesis using stop_same [OF 1] start_same same_process_trans by blast
qed

lemma restart_params:
  assumes "process_restart oi p pw = (q, pw')" "supervised p" shows "fst pw' = fst pw"
proof -
  obtain p1 w1 where 1: "process_stop oi True True (Some SIGKILL) p (snd pw) = (p1, w1)" by force
  then have "process_start oi p1 (fst pw, w1) = (q, pw')" using assms by (simp add: process_restart_def)
  moreover have "supervised p1" using assms(2) stop_same [OF 1] by (simp add: supervised_def same_process_def)
  ultimately show ?thesis using start_ok by fastforce
qed

section \<open>The two passes\<close>

text \<open>What the first pass does with one process: whether it runs is its predicate at the parameters of that moment.\<close>

definition selected :: "(params \<Rightarrow> bool) \<Rightarrow> os_in \<Rightarrow> proc_env \<Rightarrow> bool \<Rightarrow> car_params \<Rightarrow> string list \<Rightarrow> process \<Rightarrow> process \<times> bool \<Rightarrow> bool" where
  "selected I oi env started CP not_run p r \<longleftrightarrow> same_process p (fst r)
     \<and> (\<exists>pm. I pm \<and> snd r = fst (wanted env started CP not_run p pm))
     \<and> (\<not> snd r \<longrightarrow> (\<exists>w w'. process_stop oi True False None p w = (fst r, w')))"

text \<open>An invariant of the parameters that every predicate keeps holds whenever one is asked.\<close>

definition keeps_params :: "(params \<Rightarrow> bool) \<Rightarrow> proc_env \<Rightarrow> bool \<Rightarrow> process \<Rightarrow> bool" where
  "keeps_params I env started p \<longleftrightarrow> (\<forall>CP pm. I pm \<longrightarrow> I (snd (mp_should_run p env started CP pm))) \<and> (mp_restart_if_crash p \<longrightarrow> supervised p)"

lemma select_selected:
  "select_running oi env started CP not_run ps pw = (sel, pw') \<Longrightarrow> \<forall>p\<in>set ps. keeps_params I env started p \<Longrightarrow> I (fst pw)
    \<Longrightarrow> list_all2 (selected I oi env started CP not_run) ps sel"
proof (induction ps arbitrary: pw sel pw')
  case (Cons p ps)
  have keep: "keeps_params I env started p" and keeps: "\<forall>p\<in>set ps. keeps_params I env started p" using Cons.prems(2) by auto
  obtain pm w where pw: "pw = (pm, w)" by force
  obtain run pm1 where r: "wanted env started CP not_run p pm = (run, pm1)" by force
  obtain p1 pw1 where p1: "(if run then if crashed p then process_restart oi p (pm1, w) else (p, pm1, w)
      else let (q, w1) = process_stop oi True False None p w in (q, pm1, w1)) = (p1, pw1)" by (metis prod.exhaust)
  obtain ps' pw2 where ps: "select_running oi env started CP not_run ps pw1 = (ps', pw2)" by (cases "select_running oi env started CP not_run ps pw1")
  have sel: "sel = (p1, run) # ps'" using Cons.prems(1) pw r p1 ps by simp
  have "same_process p p1" using p1 by (auto dest: restart_same stop_same split: if_splits prod.splits)
  moreover have "\<not> run \<longrightarrow> (\<exists>w w'. process_stop oi True False None p w = (p1, w'))" using p1 by (fastforce split: prod.splits if_splits)
  moreover have I1: "I pm" using Cons.prems(3) pw by simp
  moreover have "I (snd (mp_should_run p env started CP pm))" using keep I1 by (simp add: keeps_params_def)
  then have I2: "I pm1" using r I1 by (auto simp: wanted_def split: if_splits)
  moreover have "run = fst (wanted env started CP not_run p pm)" using r by simp
  moreover have "I (fst pw1)" using p1 I2 keep restart_params [of oi p "(pm1, w)" p1 pw1]
    by (auto simp: crashed_def keeps_params_def split: prod.splits if_splits)
  ultimately show ?case using Cons.IH [OF ps keeps] sel by (auto simp: selected_def)
qed simp

text \<open>The second pass leaves what is not to run alone and starts the rest.\<close>

definition after_start :: "process \<times> bool \<Rightarrow> process \<Rightarrow> bool" where
  "after_start r q \<longleftrightarrow> same_process (fst r) q \<and> (\<not> snd r \<longrightarrow> q = fst r) \<and> (snd r \<and> supervised (fst r) \<longrightarrow> started_ok q)"

lemma start_after: "start_running oi sel pw = (qs, pw') \<Longrightarrow> list_all2 after_start sel qs"
proof (induction sel arbitrary: pw qs pw')
  case (Cons r sel)
  obtain p run where r: "r = (p, run)" by force
  obtain p1 pw1 where p1: "(if run then process_start oi p pw else (p, pw)) = (p1, pw1)" by (metis prod.exhaust)
  obtain ps' pw2 where ps: "start_running oi sel pw1 = (ps', pw2)" by (cases "start_running oi sel pw1")
  have "qs = p1 # ps'" using Cons.prems r p1 ps by simp
  moreover have "after_start (p, run) p1" using p1 start_ok [of oi p pw p1 pw1] start_same [of oi p pw p1 pw1] by (auto simp: after_start_def split: if_splits)
  ultimately show ?case using Cons.IH [OF ps] r by simp
qed simp

text \<open>Both: a process that is wanted at no parameters is stopping, and gone when it was stopping before.\<close>

definition round_effect :: "(params \<Rightarrow> bool) \<Rightarrow> proc_env \<Rightarrow> bool \<Rightarrow> car_params \<Rightarrow> string list \<Rightarrow> process \<Rightarrow> process \<Rightarrow> bool" where
  "round_effect I env started CP not_run p q \<longleftrightarrow> same_process p q
     \<and> (supervised p \<longrightarrow>
          started_ok q \<and> (\<exists>pm. I pm \<and> fst (wanted env started CP not_run p pm))
        \<or> stopping q \<and> (\<exists>pm. I pm \<and> \<not> fst (wanted env started CP not_run p pm)) \<and> (stopping p \<longrightarrow> mp_proc q = None))"

lemma ensure_running_effect:
  assumes "ensure_running oi env started CP not_run ps pw = (qs, pw')" "\<forall>p\<in>set ps. keeps_params I env started p" "I (fst pw)"
  shows "list_all2 (round_effect I env started CP not_run) ps qs"
proof -
  obtain sel pw1 where sel: "select_running oi env started CP not_run ps pw = (sel, pw1)" by (cases "select_running oi env started CP not_run ps pw")
  with assms(1) have st: "start_running oi sel pw1 = (qs, pw')" by (simp add: ensure_running_def)
  have eff: "round_effect I env started CP not_run p q" if "selected I oi env started CP not_run p r" "after_start r q" for p r q
  proof (cases "snd r")
    case True
    with that show ?thesis by (auto simp: round_effect_def selected_def after_start_def supervised_def same_process_def)
  next
    case False
    with that obtain w w' where s: "process_stop oi True False None p w = (q, w')" "same_process p q" "\<exists>pm. I pm \<and> \<not> fst (wanted env started CP not_run p pm)"
      by (auto simp: selected_def after_start_def)
    then show ?thesis using stop_stopping [OF s(1)] stop_gone [OF s(1)] by (auto simp: round_effect_def)
  qed
  show ?thesis by (rule list_all2_trans [OF _ select_selected [OF sel assms(2,3)] start_after [OF st]]) (rule eff)
qed

section \<open>The table\<close>

text \<open>The names are different, and a process that is restarted after a crash is not a daemon.\<close>

lemma procs_distinct: "distinct (map mp_name (procs env))"
  by (simp add: procs_def procs_openpilot_def procs_sunnypilot_def procs_optional_def daemon_process_def native_process_def python_process_def)

definition onroad_only :: "process \<Rightarrow> bool" where
  "onroad_only p \<longleftrightarrow> supervised p \<and> (\<forall>env CP pm. \<not> fst (mp_should_run p env False CP pm))"

text \<open>The processes of driving: the models, localisation, the controllers and the connection to the car.\<close>

definition driving :: "string list" where
  "driving = [''controlsd'', ''joystickd'', ''selfdrived'', ''card'', ''plannerd'', ''maneuversd'', ''radard'', ''modeld'', ''modeld_snpe'', ''modeld_tinygrad'',
     ''locationd'', ''locationd_llk'', ''calibrationd'', ''torqued'', ''paramsd'', ''lagd'', ''sensord'']"

lemmas run_defs = pure_run_def and_run_def or_run_def both_run_def only_onroad_def only_offroad_def notcar_def iscar_def joystick_def not_joystick_def
  long_maneuver_def not_long_maneuver_def always_run_def driverview_def logging_def qcomgps_def use_copyparty_def use_github_runner_def mapd_ready_def
  sunnylink_ready_shim_def sunnylink_need_register_shim_def use_sunnylink_uploader_shim_def

lemmas process_defs = daemon_process_def native_process_def python_process_def

lemma procs_all: "(\<forall>p\<in>set (procs_openpilot env). P p) \<Longrightarrow> (\<forall>p\<in>set procs_sunnypilot. P p) \<Longrightarrow> (\<forall>p\<in>set (procs_optional env). P p) \<Longrightarrow> \<forall>p\<in>set (procs env). P p"
  by (auto simp: procs_def)

lemma driving_onroad_only: "\<forall>p\<in>set (procs env). mp_name p \<in> set driving \<longrightarrow> onroad_only p"
proof (rule procs_all)
  show "\<forall>p\<in>set (procs_optional env). mp_name p \<in> set driving \<longrightarrow> onroad_only p"
    by (auto simp: procs_optional_def process_defs driving_def)
qed (simp_all add: procs_openpilot_def procs_sunnypilot_def process_defs driving_def onroad_only_def supervised_def run_defs split_beta Let_def)

text \<open>No predicate changes which driving model is the active one.\<close>

definition model_runner :: "proc_env \<Rightarrow> bool \<Rightarrow> params \<Rightarrow> int" where
  "model_runner env started pm = fst (get_active_model_runner env (\<not> started) pm)"

definition keeps_runner :: "should_run \<Rightarrow> bool" where
  "keeps_runner f \<longleftrightarrow> (\<forall>env started CP pm. model_runner env started (snd (f env started CP pm)) = model_runner env started pm)"

lemma runner_other_key: "k \<noteq> ''ModelRunnerTypeCache'' \<Longrightarrow> model_runner env started (pm(k \<mapsto> v)) = model_runner env started pm"
  by (simp add: model_runner_def get_active_model_runner_def Let_def split: option.split param_value.split)

lemma keeps_runner_pure [simp]: "keeps_runner (pure_run f)"
  by (simp add: keeps_runner_def pure_run_def)

lemma keeps_runner_is [simp]: "keeps_runner (is_runner r)"
  by (auto simp: keeps_runner_def is_runner_def model_runner_def get_active_model_runner_def Let_def split: option.splits param_value.splits)

lemma keeps_runner_both [simp]: "keeps_runner f \<Longrightarrow> keeps_runner g \<Longrightarrow> keeps_runner (both_run op f g)"
  by (simp add: keeps_runner_def both_run_def split_beta Let_def)

lemma keeps_runner_ublox [simp]: "keeps_runner ublox"
  by (simp add: keeps_runner_def ublox_def runner_other_key)

lemma keeps_runner_uploader [simp]: "keeps_runner uploader_ready"
  by (simp add: keeps_runner_def uploader_ready_def only_offroad_def always_run_def pure_run_def)

lemmas pure_defs = and_run_def or_run_def only_onroad_def only_offroad_def notcar_def iscar_def joystick_def not_joystick_def
  long_maneuver_def not_long_maneuver_def always_run_def driverview_def logging_def qcomgps_def use_copyparty_def use_github_runner_def mapd_ready_def
  sunnylink_ready_shim_def sunnylink_need_register_shim_def use_sunnylink_uploader_shim_def is_snpe_model_def is_tinygrad_model_def is_stock_model_def

definition table_ok :: "process \<Rightarrow> bool" where
  "table_ok p \<longleftrightarrow> keeps_runner (mp_should_run p) \<and> (mp_restart_if_crash p \<longrightarrow> supervised p)"

lemma procs_table_ok: "\<forall>p\<in>set (procs env). table_ok p"
proof (rule procs_all)
  show "\<forall>p\<in>set (procs_optional env). table_ok p"
    by (auto simp: procs_optional_def process_defs table_ok_def pure_defs)
qed (simp_all add: procs_openpilot_def procs_sunnypilot_def process_defs table_ok_def supervised_def pure_defs)

text \<open>The names of the models and the runner each is for.\<close>

definition model_of :: "(string \<times> int) list" where
  "model_of = [(''modeld'', runner_stock), (''modeld_snpe'', runner_snpe), (''modeld_tinygrad'', runner_tinygrad)]"

lemma models_run_by_runner:
  "\<forall>p\<in>set (procs env). \<forall>r. map_of model_of (mp_name p) = Some r \<longrightarrow>
     supervised p \<and> (\<forall>env started CP pm. fst (mp_should_run p env started CP pm) \<longrightarrow> started \<and> model_runner env started pm = r)"
proof (rule procs_all)
  show "\<forall>p\<in>set (procs_optional env). \<forall>r. map_of model_of (mp_name p) = Some r \<longrightarrow>
     supervised p \<and> (\<forall>env started CP pm. fst (mp_should_run p env started CP pm) \<longrightarrow> started \<and> model_runner env started pm = r)"
    by (auto simp: procs_optional_def process_defs model_of_def)
qed (simp_all add: procs_openpilot_def procs_sunnypilot_def process_defs model_of_def supervised_def and_run_def both_run_def only_onroad_def pure_run_def
    is_snpe_model_def is_tinygrad_model_def is_stock_model_def is_runner_def model_runner_def split_beta Let_def cong: conj_cong)

section \<open>Rounds\<close>

definition managed :: "proc_env \<Rightarrow> manager \<Rightarrow> bool" where
  "managed env s \<longleftrightarrow> list_all2 same_process (procs env) (mn_processes s)"

lemma list_all2_member: "list_all2 P xs ys \<Longrightarrow> y \<in> set ys \<Longrightarrow> \<exists>x\<in>set xs. P x y"
  by (induction rule: list_all2_induct) auto

lemma managed_member:
  assumes "managed env s" "q \<in> set (mn_processes s)" shows "\<exists>p\<in>set (procs env). same_process p q"
  using assms unfolding managed_def by (rule list_all2_member)

lemma same_table_ok: "same_process p q \<Longrightarrow> table_ok p = table_ok q"
  by (simp add: same_process_def table_ok_def supervised_def)

lemma managed_table_ok: "managed env s \<Longrightarrow> q \<in> set (mn_processes s) \<Longrightarrow> table_ok q"
  using managed_member procs_table_ok same_table_ok by blast

lemma table_keeps: "table_ok p \<Longrightarrow> keeps_params (\<lambda>pm. model_runner env started pm = r) env started p"
  by (auto simp: table_ok_def keeps_params_def keeps_runner_def)

lemma reap_table_ok: "table_ok (reap oi p) = table_ok p"
  by (rule same_table_ok [OF reap_same(1), symmetric])

lemma manager_round_effect:
  assumes m: "managed env s" and r: "manager_round pk i s = (msgs, leave, s')"
  shows "\<exists>r. list_all2 (round_effect (\<lambda>pm. model_runner (mi_env i) (mi_started i) pm = r) (mi_env i) (mi_started i) (mi_CP i) (mn_ignore s))
    (map (reap (mi_os i)) (mn_processes s)) (mn_processes s')"
proof -
  define p1 where "p1 = clear_on_transition pk (mi_started i) (panda_ignition (mi_pandas i)) s (mi_others_params i (mn_params s))"
  obtain qs pw where e: "ensure_running (mi_os i) (mi_env i) (mi_started i) (mi_CP i) (mn_ignore s) (map (reap (mi_os i)) (mn_processes s)) (p1, mn_world s) = (qs, pw)"
    by (cases "ensure_running (mi_os i) (mi_env i) (mi_started i) (mi_CP i) (mn_ignore s) (map (reap (mi_os i)) (mn_processes s)) (p1, mn_world s)")
  have qs: "mn_processes s' = qs" using r e by (auto simp: manager_round_def run_processes_def Let_def p1_def split_beta)
  have k: "\<forall>p\<in>set (map (reap (mi_os i)) (mn_processes s)). keeps_params (\<lambda>pm. model_runner (mi_env i) (mi_started i) pm = r) (mi_env i) (mi_started i) p" for r
    using managed_table_ok [OF m] by (auto intro!: table_keeps simp: reap_table_ok)
  show ?thesis using ensure_running_effect [OF e k [of "model_runner (mi_env i) (mi_started i) p1"]] qs by auto
qed

lemma manager_round_managed:
  assumes m: "managed env s" and r: "manager_round pk i s = (msgs, leave, s')" shows "managed env s'"
proof -
  obtain I where e: "list_all2 (round_effect I (mi_env i) (mi_started i) (mi_CP i) (mn_ignore s)) (map (reap (mi_os i)) (mn_processes s)) (mn_processes s')"
    using manager_round_effect [OF m r] by blast
  have st: "list_all2 same_process (mn_processes s) (mn_processes s')"
    using e by (auto simp: list_all2_conv_all_nth round_effect_def intro: same_process_trans [OF reap_same(1)])
  show ?thesis using list_all2_trans [of same_process same_process same_process, OF same_process_trans _ st] m by (simp add: managed_def)
qed

text \<open>The state the manager starts with.\<close>

lemma manager_start_managed: "managed (mi_env i) (manager_start i noboard blocked p w)"
proof -
  let ?s0 = "\<lparr>mn_processes = procs (mi_env i), mn_params = write_onroad_params False p, mn_world = w,
       mn_ignore = ignored p noboard blocked, mn_started_prev = False, mn_ignition_prev = False\<rparr>"
  obtain qs pw where e: "ensure_running (mi_os i) (mi_env i) False (mi_CP i) (mn_ignore ?s0) (procs (mi_env i)) (mn_params ?s0, w) = (qs, pw)"
    by (cases "ensure_running (mi_os i) (mi_env i) False (mi_CP i) (mn_ignore ?s0) (procs (mi_env i)) (mn_params ?s0, w)")
  have "\<forall>p\<in>set (procs (mi_env i)). keeps_params (\<lambda>pm. model_runner (mi_env i) False pm = r) (mi_env i) False p" for r
    using procs_table_ok table_keeps by blast
  from ensure_running_effect [OF e this [of "model_runner (mi_env i) False (mn_params ?s0)"]]
  have "list_all2 same_process (procs (mi_env i)) qs" by (auto simp: round_effect_def elim: list_all2_mono)
  then show ?thesis using e by (cases pw) (simp add: managed_def manager_start_def run_processes_def)
qed

text \<open>A process of driving that is off the road is stopping after one round and gone after the second.\<close>

lemma offroad_effect:
  assumes e: "round_effect I env False CP not_run p q" and o: "onroad_only p"
  shows "stopping q \<and> (stopping p \<longrightarrow> mp_proc q = None)"
  using e o by (auto simp: round_effect_def onroad_only_def wanted_def split: if_splits)

lemma onroad_only_same: "same_process p q \<Longrightarrow> onroad_only p = onroad_only q"
  by (simp add: same_process_def onroad_only_def supervised_def)

lemma managed_driving: "managed env s \<Longrightarrow> q \<in> set (mn_processes s) \<Longrightarrow> mp_name q \<in> set driving \<Longrightarrow> onroad_only q"
  using managed_member [of env s q] driving_onroad_only [of env] onroad_only_same by (metis same_process_def)

lemma reap_onroad: "onroad_only (reap oi p) = onroad_only p" "stopping (reap oi p) = stopping p" "mp_name (reap oi p) = mp_name p"
  using onroad_only_same [OF reap_same(1)] reap_same(1) [of p oi] by (simp_all add: stopping_def same_process_def)

lemma offroad_round:
  assumes m: "managed env s" and off: "\<not> mi_started i" and r: "manager_round pk i s = (msgs, leave, s')" and q: "q \<in> set (mn_processes s')" "mp_name q \<in> set driving"
  shows "\<exists>p\<in>set (mn_processes s). mp_name p = mp_name q \<and> stopping q \<and> (stopping p \<longrightarrow> mp_proc q = None)"
proof -
  obtain I where e: "list_all2 (round_effect I (mi_env i) False (mi_CP i) (mn_ignore s)) (map (reap (mi_os i)) (mn_processes s)) (mn_processes s')"
    using manager_round_effect [OF m r] off by auto
  from list_all2_member [OF e q(1)] obtain p where p: "p \<in> set (mn_processes s)" "round_effect I (mi_env i) False (mi_CP i) (mn_ignore s) (reap (mi_os i) p) q" by auto
  then have n: "mp_name p = mp_name q" using reap_onroad(3) [of "mi_os i" p] by (simp add: round_effect_def same_process_def)
  then have "onroad_only (reap (mi_os i) p)" using managed_driving [OF m p(1)] q(2) by (simp add: reap_onroad)
  from offroad_effect [OF p(2) this] show ?thesis using p(1) n by (auto simp: reap_onroad)
qed

text \<open>Only one of the models is kept running, the one for the active runner.\<close>

lemma models_started:
  assumes e: "round_effect (\<lambda>pm. model_runner env started pm = r) env started CP not_run p q" and t: "p0 \<in> set (procs env0)" "same_process p0 p"
    and n: "map_of model_of (mp_name q) = Some k" and run: "\<not> stopping q"
  shows "k = r"
proof -
  have "mp_name q = mp_name p0" "mp_should_run p0 = mp_should_run p" using e t by (auto simp: round_effect_def same_process_def)
  with n models_run_by_runner [of env0] t have "supervised p0" "\<And>pm. fst (mp_should_run p env started CP pm) \<Longrightarrow> model_runner env started pm = k" by auto
  moreover have "supervised p" using \<open>supervised p0\<close> t(2) by (simp add: supervised_def same_process_def)
  ultimately show ?thesis using e run by (auto simp: round_effect_def wanted_def split: if_splits)
qed

lemma one_model:
  assumes m: "managed env s" and r: "manager_round pk i s = (msgs, leave, s')"
  shows "\<exists>k. \<forall>q\<in>set (mn_processes s'). \<forall>k'. map_of model_of (mp_name q) = Some k' \<and> \<not> stopping q \<longrightarrow> k' = k"
proof -
  obtain k where e: "list_all2 (round_effect (\<lambda>pm. model_runner (mi_env i) (mi_started i) pm = k) (mi_env i) (mi_started i) (mi_CP i) (mn_ignore s))
     (map (reap (mi_os i)) (mn_processes s)) (mn_processes s')" using manager_round_effect [OF m r] by blast
  have "k' = k" if q: "q \<in> set (mn_processes s')" "map_of model_of (mp_name q) = Some k'" "\<not> stopping q" for q k'
  proof -
    from list_all2_member [OF e q(1)] obtain p where p: "p \<in> set (mn_processes s)"
      "round_effect (\<lambda>pm. model_runner (mi_env i) (mi_started i) pm = k) (mi_env i) (mi_started i) (mi_CP i) (mn_ignore s) (reap (mi_os i) p) q" by auto
    obtain p0 where p0: "p0 \<in> set (procs env)" "same_process p0 p" using managed_member [OF m p(1)] by blast
    show ?thesis by (rule models_started [OF p(2) p0(1) same_process_trans [OF p0(2) reap_same(1)] q(2,3)])
  qed
  then show ?thesis by blast
qed

text \<open>After the manager is left no child it supervises is.\<close>

lemma stop_all_effect:
  "stop_all oi block ps w = (qs, w') \<Longrightarrow> list_all2 (\<lambda>p q. same_process p q \<and> (supervised p \<longrightarrow> stopping q \<and> (block \<or> stopping p \<longrightarrow> mp_proc q = None))) ps qs"
proof (induction ps arbitrary: w qs w')
  case (Cons p ps)
  obtain p1 w1 where p1: "process_stop oi True block None p w = (p1, w1)" by force
  obtain ps' w2 where ps: "stop_all oi block ps w1 = (ps', w2)" by force
  have "qs = p1 # ps'" using Cons.prems p1 ps by simp
  then show ?case using Cons.IH [OF ps] stop_same [OF p1] stop_stopping [OF p1] stop_gone [OF p1] by simp
qed simp

lemma cleanup_stops_all: "\<forall>q\<in>set (mn_processes (manager_cleanup oi s)). supervised q \<longrightarrow> mp_proc q = None"
proof -
  obtain ps w where 1: "stop_all oi False (mn_processes s) (mn_world s) = (ps, w)" by force
  obtain qs w' where 2: "stop_all oi True ps w = (qs, w')" by force
  have "mn_processes (manager_cleanup oi s) = qs" using 1 2 by (simp add: manager_cleanup_def)
  moreover have "mp_proc q = None" if "q \<in> set qs" "supervised q" for q
    using list_all2_member [OF stop_all_effect [OF 2] that(1)] that(2) by (auto simp: supervised_def same_process_def)
  ultimately show ?thesis by blast
qed

section \<open>What the manager guarantees\<close>

lemma manager_run_managed: "managed env s \<Longrightarrow> managed env (manager_run pk is s)"
proof (induction "is" arbitrary: s)
  case (Cons i "is")
  obtain msgs leave s' where r: "manager_round pk i s = (msgs, leave, s')" by (cases "manager_round pk i s")
  show ?case using Cons.IH [OF manager_round_managed [OF Cons.prems r]] r by simp
qed simp

lemma reachable_managed: "managed (mi_env i) (manager_run pk is (manager_start i noboard blocked p w))"
  by (intro manager_run_managed manager_start_managed)

lemma managed_distinct: "managed env s \<Longrightarrow> distinct (map mp_name (mn_processes s))"
proof -
  assume "managed env s"
  then have "map mp_name (procs env) = map mp_name (mn_processes s)"
    unfolding managed_def by (induction rule: list_all2_induct) (simp_all add: same_process_def)
  with procs_distinct [of env] show ?thesis by simp
qed

lemma at_most_one:
  assumes "distinct (map g xs)" "\<And>x y. x \<in> set xs \<Longrightarrow> y \<in> set xs \<Longrightarrow> P x \<Longrightarrow> P y \<Longrightarrow> g x = g y"
  shows "length (filter P xs) \<le> 1"
  using assms by (induction xs) (auto simp: filter_empty_conv)

text \<open>C36. At most one of the three driving models is kept running: in whatever order cars are switched on and off, the active
  bundle changes and other processes write parameters, after every round of the manager at most one of \<open>modeld\<close>, \<open>modeld_snpe\<close>
  and \<open>modeld_tinygrad\<close> has a child that has not been told to stop.\<close>

theorem one_model_runs:
  "length (filter (\<lambda>q. mp_name q \<in> set (map fst model_of) \<and> \<not> stopping q)
     (mn_processes (snd (snd (manager_round pk i (manager_run pk is (manager_start i0 noboard blocked p w))))))) \<le> 1"
proof -
  define s where "s = manager_run pk is (manager_start i0 noboard blocked p w)"
  obtain msgs leave s' where r: "manager_round pk i s = (msgs, leave, s')" by (cases "manager_round pk i s")
  have m: "managed (mi_env i0) s" unfolding s_def by (rule reachable_managed)
  from one_model [OF m r] obtain k where k: "\<And>q k'. q \<in> set (mn_processes s') \<Longrightarrow> map_of model_of (mp_name q) = Some k' \<Longrightarrow> \<not> stopping q \<Longrightarrow> k' = k" by blast
  have inj: "x = y" if "map_of model_of x = Some k" "map_of model_of y = Some k" for x y
    using that by (auto simp: model_of_def runner_stock_def runner_snpe_def runner_tinygrad_def split: if_splits)
  have some: "\<exists>k'. map_of model_of x = Some k'" if "x \<in> set (map fst model_of)" for x
    using that map_of_eq_None_iff [of model_of x] by (cases "map_of model_of x") auto
  have "length (filter (\<lambda>q. mp_name q \<in> set (map fst model_of) \<and> \<not> stopping q) (mn_processes s')) \<le> 1"
    by (rule at_most_one [OF managed_distinct [OF manager_round_managed [OF m r]]]) (use k inj some in blast)
  then show ?thesis using r by (simp add: s_def)
qed

text \<open>C6. From the sensors to the processes: when a round of the hardware daemon sees a reason not to be on the road (no ignition, the danger
  band, unsupported hardware, a forced offroad mode), the next round of the manager with its message has told every process of driving to stop,
  and after the round that follows none of them is left, killed if need be.\<close>

theorem unsafe_device_stops_driving:
  assumes t: "table ''Offroad_TiciSupport'' \<noteq> None" "table ''Offroad_TemperatureTooHigh'' \<noteq> None"
    and hs: "hw_run table his (hw_init hp al dflt now) = Inr hs" "hw_round table hi hs = Inr (Some d, hs')" and unsafe: "\<not> onroad_safe (ignition_on_record (his @ [hi])) hi hs d"
    and i: "mi_started i1 = dv_started d" "mi_started i2 = dv_started d"
    and r: "manager_round pk i1 (manager_run pk is (manager_start i0 noboard blocked p w)) = (m1, x1, s1)" "manager_round pk i2 s1 = (m2, x2, s2)"
  shows "filter (\<lambda>q. mp_name q \<in> set driving \<and> \<not> stopping q) (mn_processes s1) = []
    \<and> filter (\<lambda>q. mp_name q \<in> set driving \<and> mp_proc q \<noteq> None) (mn_processes s2) = []"
proof -
  have "hw_inv (ignition_on_record his) hs" using run_on_record [of table his hp al dflt now, OF t] hs(1) by auto
  from round_safe [of table, OF t this, of hi] hs(2) unsafe have "\<not> dv_started d" by (auto simp: ignition_on_record_def)
  with i have off: "\<not> mi_started i1" "\<not> mi_started i2" by simp_all
  note m = reachable_managed [of i0 pk "is" noboard blocked p w]
  have s1: "stopping q" if "q \<in> set (mn_processes s1)" "mp_name q \<in> set driving" for q using offroad_round [OF m off(1) r(1) that] by blast
  have "mp_proc q = None" if "q \<in> set (mn_processes s2)" "mp_name q \<in> set driving" for q
    using offroad_round [OF manager_round_managed [OF m r(1)] off(2) r(2) that] s1 that by metis
  with s1 show ?thesis by (auto simp: filter_empty_conv)
qed

text \<open>A device whose hardware the branch does not support.\<close>

definition unsupported_in :: hw_in where
  "unsupported_in = ready_in\<lparr>hi_unsupported_combo := True\<rparr>"

definition example_in :: manager_in where
  "example_in = \<lparr>mi_os = \<lparr>oi_exited = (\<lambda>_. None), oi_dies_in_join = (\<lambda>_. None), oi_daemon_runs = (\<lambda>_ _. False)\<rparr>,
     mi_env = \<lparr>en_PC = False, en_TICI = True, en_WEBCAM = False, en_Darwin = False, en_ublox_available = True, en_active_bundle = None,
       en_mapd_exists = True, en_runner_script = False, en_uploader_script = True, en_copyparty = False\<rparr>,
     mi_others_params = (\<lambda>p. p), mi_started = True, mi_pandas = [], mi_CP = default_cp\<rparr>"

definition example_manager :: "manager_in list \<Rightarrow> manager" where
  "example_manager is = manager_run \<lparr>pk_keys = [], pk_flags = (\<lambda>_. []), pk_default = (\<lambda>_. None)\<rparr> is
     (manager_start example_in False [] Map.empty \<lparr>wo_next_pid = 1, wo_signals = []\<rparr>)"

lemma unsupported_message:
  "\<exists>d hs'. hw_round ready_table unsupported_in (hw_init ready_params Map.empty (\<lambda>_. 0) 0) = Inr (Some d, hs') \<and> \<not> dv_started d"
proof -
  have "\<not> round_skipped unsupported_in (before_start unsupported_in (hw_init ready_params Map.empty (\<lambda>_. 0) 0))"
    by (simp add: round_skipped_def unsupported_in_def ready_fields PANDA_STATES_FREQUENCY_def DT_HW_def py_round_def)
  moreover have "ready_table ''Offroad_TiciSupport'' \<noteq> None" "ready_table ''Offroad_TemperatureTooHigh'' \<noteq> None" by (simp_all add: ready_table_def)
  note round_safe [of ready_table, OF this hw_init_inv, of unsupported_in]
  ultimately show ?thesis by (fastforce simp: onroad_safe_def unsupported_in_def)
qed

theorem unsafe_device_stops_driving_witness:
  "filter (\<lambda>q. mp_name q \<in> set driving \<and> mp_proc q \<noteq> None)
     (mn_processes (example_manager [example_in, example_in\<lparr>mi_started := False\<rparr>, example_in\<lparr>mi_started := False\<rparr>])) = []"
proof -
  let ?pk = "\<lparr>pk_keys = [], pk_flags = (\<lambda>_. []), pk_default = (\<lambda>_. None)\<rparr>"
  let ?off = "example_in\<lparr>mi_started := False\<rparr>"
  obtain d hs' where d: "hw_round ready_table unsupported_in (hw_init ready_params Map.empty (\<lambda>_. 0) 0) = Inr (Some d, hs')" "\<not> dv_started d"
    using unsupported_message by blast
  have t: "ready_table ''Offroad_TiciSupport'' \<noteq> None" "ready_table ''Offroad_TemperatureTooHigh'' \<noteq> None" by (simp_all add: ready_table_def)
  have u: "\<not> onroad_safe (ignition_on_record ([] @ [unsupported_in])) unsupported_in (hw_init ready_params Map.empty (\<lambda>_. 0) 0) d" by (simp add: onroad_safe_def unsupported_in_def)
  obtain m1 x1 s1 where r1: "manager_round ?pk ?off (example_manager [example_in]) = (m1, x1, s1)" by (cases "manager_round ?pk ?off (example_manager [example_in])")
  obtain m2 x2 s2 where r2: "manager_round ?pk ?off s1 = (m2, x2, s2)" by (cases "manager_round ?pk ?off s1")
  have run: "hw_run ready_table [] (hw_init ready_params Map.empty (\<lambda>_. 0) 0) = Inr (hw_init ready_params Map.empty (\<lambda>_. 0) 0)" by simp
  have "mn_processes s2 = mn_processes (example_manager [example_in, ?off, ?off])"
    using r1 r2 by (simp add: example_manager_def split_beta)
  then show ?thesis
    using unsafe_device_stops_driving [OF t run d(1) u _ _ r1 [unfolded example_manager_def] r2] d(2) by simp
qed

end
