(* ===== verification/Calibrationd.thy ===== *)
theory Calibrationd
  imports Transformations Car_Types
begin

text \<open>
  The calibration of the camera, \<open>selfdrive/locationd/calibrationd.py\<close>: blocks of observed angles are averaged,
  and the calibration is the mean of the blocks that are valid. The stored calibration is given decoded, and
  arrays of three floats are tuples. Values that are not finite are not represented, so the branches
  for them are left out. \<open>mici\<close>, the type of the device, decides the limits.
\<close>

section \<open>Constants\<close>

definition CALIB_MIN_SPEED_FILTER :: real where "CALIB_MIN_SPEED_FILTER = 15 * MPH_TO_MS"
definition MAX_VEL_ANGLE_STD :: real where "MAX_VEL_ANGLE_STD = radians (1/4)"
definition MAX_YAW_RATE_FILTER :: real where "MAX_YAW_RATE_FILTER = radians 2"
definition MAX_HEIGHT_STD :: real where "MAX_HEIGHT_STD = exp (-(7/2))"
definition SMOOTH_CYCLES :: int where "SMOOTH_CYCLES = 10"
definition BLOCK_SIZE :: int where "BLOCK_SIZE = 100"
definition INPUTS_NEEDED :: int where "INPUTS_NEEDED = 5"
definition INPUTS_WANTED :: int where "INPUTS_WANTED = 50"
definition MAX_ALLOWED_YAW_SPREAD :: real where "MAX_ALLOWED_YAW_SPREAD = radians 2"
definition MAX_ALLOWED_PITCH_SPREAD :: real where "MAX_ALLOWED_PITCH_SPREAD = radians 4"
definition RPY_INIT :: vec3 where "RPY_INIT = (0, 0, 0)"
definition WIDE_FROM_DEVICE_EULER_INIT :: vec3 where "WIDE_FROM_DEVICE_EULER_INIT = (0, 0, 0)"
definition HEIGHT_INIT :: real where "HEIGHT_INIT = 122/100"

definition PITCH_LIMITS :: "bool \<Rightarrow> real \<times> real" where
  "PITCH_LIMITS mici = (if mici then (- (143101 / 10^6), 22235988 / 10^8) else (- (9074112085129739 / 10^17), 17/100))"

definition YAW_LIMITS :: "real \<times> real" where
  "YAW_LIMITS = (- (6912048084718224 / 10^17), 6912048084718235 / 10^17)"

section \<open>Angles\<close>

fun pitch_of :: "vec3 \<Rightarrow> real" where "pitch_of (r, p, y) = p"
fun yaw_of :: "vec3 \<Rightarrow> real" where "yaw_of (r, p, y) = y"

definition is_calibration_valid :: "bool \<Rightarrow> vec3 \<Rightarrow> bool" where
  "is_calibration_valid mici rpy \<longleftrightarrow> fst (PITCH_LIMITS mici) < pitch_of rpy \<and> pitch_of rpy < snd (PITCH_LIMITS mici)
     \<and> fst YAW_LIMITS < yaw_of rpy \<and> yaw_of rpy < snd YAW_LIMITS"

fun sanity_clip :: "bool \<Rightarrow> vec3 \<Rightarrow> vec3" where
  "sanity_clip mici (r, p, y) = (r, clip p (fst (PITCH_LIMITS mici) - 5/1000) (snd (PITCH_LIMITS mici) + 5/1000),
     clip y (fst YAW_LIMITS - 5/1000) (snd YAW_LIMITS + 5/1000))"

text \<open>A linear combination of two values, and its lifting to angles.\<close>

definition moving_avg_with_linear_decay :: "real \<Rightarrow> real \<Rightarrow> int \<Rightarrow> real" where
  "moving_avg_with_linear_decay prev_mean new_val idx = (of_int idx * prev_mean + (of_int BLOCK_SIZE - of_int idx) * new_val) / of_int BLOCK_SIZE"

fun map2_vec3 :: "(real \<Rightarrow> real \<Rightarrow> real) \<Rightarrow> vec3 \<Rightarrow> vec3 \<Rightarrow> vec3" where
  "map2_vec3 f (a, b, c) (x, y, z) = (f a x, f b y, f c z)"

definition mean :: "real list \<Rightarrow> real" where
  "mean xs = sum_list xs / of_nat (length xs)"

definition column :: "(real list \<Rightarrow> real) \<Rightarrow> vec3 list \<Rightarrow> vec3" where
  "column f vs = (f (map fst vs), f (map pitch_of vs), f (map yaw_of vs))"

definition list_max :: "real list \<Rightarrow> real" where "list_max xs = fold max (tl xs) (hd xs)"
definition list_min :: "real list \<Rightarrow> real" where "list_min xs = fold min (tl xs) (hd xs)"

section \<open>State\<close>

record live_calibration =
  cl_validBlocks :: int
  cl_calStatus :: cal_status
  cl_calPerc :: int
  cl_rpyCalib :: vec3
  cl_rpyCalibSpread :: vec3
  cl_wideFromDeviceEuler :: vec3
  cl_height :: real
  cl_valid :: bool

record stored_calibration =
  sc_rpyCalib :: vec3
  sc_validBlocks :: int
  sc_wideFromDeviceEuler :: "real list"
  sc_height :: "real list"

record calibrator =
  cb_param_put :: bool
  cb_not_car :: bool
  cb_cal_status :: cal_status
  cb_rpy :: vec3
  cb_height :: real
  cb_wide_from_device_euler :: vec3
  cb_valid_blocks :: int
  cb_rpys :: "vec3 list"
  cb_wide_from_device_eulers :: "vec3 list"
  cb_heights :: "real list"
  cb_idx :: int
  cb_block_idx :: int
  cb_v_ego :: real
  cb_old_rpy :: vec3
  cb_old_rpy_weight :: real
  cb_calib_spread :: vec3
  cb_saved :: "live_calibration option"

definition calibrator_reset :: "vec3 \<Rightarrow> int \<Rightarrow> vec3 \<Rightarrow> real \<Rightarrow> vec3 option \<Rightarrow> calibrator \<Rightarrow> calibrator" where
  "calibrator_reset rpy_init valid_blocks wide_init height_init smooth_from s =
     s\<lparr>cb_rpy := rpy_init, cb_height := height_init, cb_wide_from_device_euler := wide_init,
       cb_valid_blocks := (if valid_blocks < 0 then 0 else valid_blocks),
       cb_rpys := replicate (nat INPUTS_WANTED) rpy_init, cb_wide_from_device_eulers := replicate (nat INPUTS_WANTED) wide_init,
       cb_heights := replicate (nat INPUTS_WANTED) height_init, cb_idx := 0, cb_block_idx := 0, cb_v_ego := 0,
       cb_old_rpy := (case smooth_from of None \<Rightarrow> RPY_INIT | Some v \<Rightarrow> v), cb_old_rpy_weight := (case smooth_from of None \<Rightarrow> 0 | Some v \<Rightarrow> 1)\<rparr>"

text \<open>Stored arrays of the wrong length are replaced by the initial values.\<close>

definition wide_or_init :: "real list \<Rightarrow> vec3" where
  "wide_or_init xs = (case xs of [a, b, c] \<Rightarrow> (a, b, c) | _ \<Rightarrow> WIDE_FROM_DEVICE_EULER_INIT)"

definition height_or_init :: "real list \<Rightarrow> real" where
  "height_or_init xs = (case xs of [h] \<Rightarrow> h | _ \<Rightarrow> HEIGHT_INIT)"

text \<open>\<open>range\<close>, and the blocks that count: all valid ones but the one being filled.\<close>

definition get_valid_idxs :: "calibrator \<Rightarrow> int list" where
  "get_valid_idxs s = [0..cb_block_idx s - 1] @ [min (cb_valid_blocks s) (cb_block_idx s + 1)..cb_valid_blocks s - 1]"

definition select_rows :: "'a list \<Rightarrow> int list \<Rightarrow> 'a list result" where
  "select_rows xs is = (if list_all (\<lambda>i. 0 \<le> i \<and> i < int (length xs)) is then Inr (map (\<lambda>i. xs ! nat i) is) else Inl IndexError)"

definition get_smooth_rpy :: "calibrator \<Rightarrow> vec3" where
  "get_smooth_rpy s = (if cb_old_rpy_weight s > 0
     then map2_vec3 (\<lambda>a b. cb_old_rpy_weight s * a + (1 - cb_old_rpy_weight s) * b) (cb_old_rpy s) (cb_rpy s) else cb_rpy s)"

definition calibrator_get_msg :: "bool \<Rightarrow> calibrator \<Rightarrow> live_calibration" where
  "calibrator_get_msg valid s =
     \<lparr>cl_validBlocks = (if cb_not_car s then INPUTS_NEEDED else cb_valid_blocks s),
      cl_calStatus = (if cb_not_car s then Cal_calibrated else cb_cal_status s),
      cl_calPerc = (if cb_not_car s then 100 else min (100 * (cb_valid_blocks s * BLOCK_SIZE + cb_idx s) div (INPUTS_NEEDED * BLOCK_SIZE)) 100),
      cl_rpyCalib = (if cb_not_car s then (0, 0, 0) else get_smooth_rpy s), cl_rpyCalibSpread = cb_calib_spread s,
      cl_wideFromDeviceEuler = cb_wide_from_device_euler s, cl_height = cb_height s, cl_valid = valid\<rparr>"

section \<open>Status\<close>

definition update_means :: "calibrator \<Rightarrow> calibrator result" where
  "update_means s =
     (let idxs = get_valid_idxs s
      in if idxs = [] then Inr (s\<lparr>cb_calib_spread := (0, 0, 0)\<rparr>)
         else bind_result (select_rows (cb_wide_from_device_eulers s) idxs) (\<lambda>wides.
              bind_result (select_rows (cb_heights s) idxs) (\<lambda>heights.
              bind_result (select_rows (cb_rpys s) idxs) (\<lambda>rpys.
                Inr (s\<lparr>cb_wide_from_device_euler := column mean wides, cb_height := mean heights, cb_rpy := column mean rpys,
                       cb_calib_spread := map2_vec3 (\<lambda>a b. \<bar>a - b\<bar>) (column list_max rpys) (column list_min rpys)\<rparr>)))))"

definition next_status :: "bool \<Rightarrow> calibrator \<Rightarrow> cal_status" where
  "next_status mici s =
     (if cb_valid_blocks s < INPUTS_NEEDED then (if cb_cal_status s = Cal_recalibrating then Cal_recalibrating else Cal_uncalibrated)
      else if is_calibration_valid mici (cb_rpy s) then Cal_calibrated else Cal_invalid)"

definition spread_too_high :: "calibrator \<Rightarrow> bool" where
  "spread_too_high s \<longleftrightarrow> pitch_of (cb_calib_spread s) > MAX_ALLOWED_PITCH_SPREAD \<or> yaw_of (cb_calib_spread s) > MAX_ALLOWED_YAW_SPREAD"

text \<open>The block before the current one; index -1 is the last block.\<close>

definition last_block :: "calibrator \<Rightarrow> vec3" where
  "last_block s = cb_rpys s ! (if cb_block_idx s = 0 then length (cb_rpys s) - 1 else nat (cb_block_idx s - 1))"

definition restart_if_moved :: "calibrator \<Rightarrow> calibrator" where
  "restart_if_moved s =
     (if spread_too_high s \<and> cb_cal_status s = Cal_calibrated
      then (calibrator_reset (last_block s) 1 WIDE_FROM_DEVICE_EULER_INIT HEIGHT_INIT (Some (cb_rpy s)) s)\<lparr>cb_cal_status := Cal_recalibrating\<rparr>
      else s)"

definition save_calibration :: "calibrator \<Rightarrow> calibrator" where
  "save_calibration s =
     (if cb_param_put s \<and> cb_idx s = 0 \<and> cb_block_idx s mod (INPUTS_WANTED div 5) = 5
      then s\<lparr>cb_saved := Some (calibrator_get_msg True s)\<rparr> else s)"

definition update_status :: "bool \<Rightarrow> calibrator \<Rightarrow> calibrator result" where
  "update_status mici s0 =
     bind_result (update_means s0) (\<lambda>s1.
       Inr (save_calibration (restart_if_moved (s1\<lparr>cb_cal_status := next_status mici s1\<rparr>))))"

definition Calibrator_init :: "bool \<Rightarrow> bool \<Rightarrow> stored_calibration option \<Rightarrow> calibrator result" where
  "Calibrator_init mici param_put stored =
     (let s = \<lparr>cb_param_put = param_put, cb_not_car = False, cb_cal_status = Cal_uncalibrated, cb_rpy = RPY_INIT, cb_height = HEIGHT_INIT,
               cb_wide_from_device_euler = WIDE_FROM_DEVICE_EULER_INIT, cb_valid_blocks = 0, cb_rpys = [], cb_wide_from_device_eulers = [],
               cb_heights = [], cb_idx = 0, cb_block_idx = 0, cb_v_ego = 0, cb_old_rpy = RPY_INIT, cb_old_rpy_weight = 0,
               cb_calib_spread = (0, 0, 0), cb_saved = None\<rparr>
      in update_status mici
           (case (param_put, stored) of
              (True, Some c) \<Rightarrow> calibrator_reset (sc_rpyCalib c) (sc_validBlocks c) (wide_or_init (sc_wideFromDeviceEuler c)) (height_or_init (sc_height c)) None s
            | _ \<Rightarrow> calibrator_reset RPY_INIT 0 WIDE_FROM_DEVICE_EULER_INIT HEIGHT_INIT None s))"

section \<open>Observations\<close>

record camera_odometry =
  co_trans :: vec3
  co_rot :: vec3
  co_wideFromDeviceEuler :: "real list"
  co_transStd :: vec3
  co_roadTransformTrans :: "real list"
  co_roadTransformTransStd :: "real list"

definition handle_v_ego :: "real \<Rightarrow> calibrator \<Rightarrow> calibrator" where
  "handle_v_ego v s = s\<lparr>cb_v_ego := v\<rparr>"

definition straight_and_fast :: "camera_odometry \<Rightarrow> calibrator \<Rightarrow> bool" where
  "straight_and_fast od s \<longleftrightarrow> cb_v_ego s > CALIB_MIN_SPEED_FILTER \<and> fst (co_trans od) > CALIB_MIN_SPEED_FILTER \<and> \<bar>yaw_of (co_rot od)\<bar> < MAX_YAW_RATE_FILTER"

definition certain_if_calib :: "camera_odometry \<Rightarrow> calibrator \<Rightarrow> bool" where
  "certain_if_calib od s \<longleftrightarrow>
     (arctan2 (pitch_of (co_transStd od)) (fst (co_trans od)) < MAX_VEL_ANGLE_STD
       \<and> (case co_roadTransformTransStd od of [a, b, c] \<Rightarrow> c < MAX_HEIGHT_STD | _ \<Rightarrow> True))
     \<or> cb_valid_blocks s < INPUTS_NEEDED"

definition observed_rpy :: "camera_odometry \<Rightarrow> vec3" where
  "observed_rpy od = (0, - arctan2 (yaw_of (co_trans od)) (fst (co_trans od)), arctan2 (pitch_of (co_trans od)) (fst (co_trans od)))"

definition new_rpy :: "bool \<Rightarrow> camera_odometry \<Rightarrow> calibrator \<Rightarrow> vec3" where
  "new_rpy mici od s = sanity_clip mici (rot2euler_single (mat_mul (euler2rot_single (get_smooth_rpy s)) (euler2rot_single (observed_rpy od))))"

definition new_height :: "camera_odometry \<Rightarrow> real" where
  "new_height od = (case co_roadTransformTrans od of [a, b, c] \<Rightarrow> c | _ \<Rightarrow> HEIGHT_INIT)"

text \<open>The current block takes the new values in, and the next block comes after a hundred.\<close>

definition fill_block :: "vec3 \<Rightarrow> vec3 \<Rightarrow> real \<Rightarrow> calibrator \<Rightarrow> calibrator" where
  "fill_block rpy wide height s =
     (let b = nat (cb_block_idx s); avg = (\<lambda>m v. moving_avg_with_linear_decay m v (cb_idx s))
      in s\<lparr>cb_rpys := (cb_rpys s)[b := map2_vec3 avg (cb_rpys s ! b) rpy],
           cb_wide_from_device_eulers := (cb_wide_from_device_eulers s)[b := map2_vec3 avg (cb_wide_from_device_eulers s ! b) wide],
           cb_heights := (cb_heights s)[b := avg (cb_heights s ! b) height]\<rparr>)"

definition next_block :: "calibrator \<Rightarrow> calibrator" where
  "next_block s0 =
     (let s = s0\<lparr>cb_idx := (cb_idx s0 + 1) mod BLOCK_SIZE\<rparr>
      in if cb_idx s = 0
         then s\<lparr>cb_block_idx := (cb_block_idx s + 1) mod INPUTS_WANTED, cb_valid_blocks := max (cb_block_idx s + 1) (cb_valid_blocks s)\<rparr>
         else s)"

definition handle_cam_odom :: "bool \<Rightarrow> camera_odometry \<Rightarrow> calibrator \<Rightarrow> (vec3 option \<times> calibrator) result" where
  "handle_cam_odom mici od s0 =
     (let s = s0\<lparr>cb_old_rpy_weight := max 0 (cb_old_rpy_weight s0 - 1 / of_int SMOOTH_CYCLES)\<rparr>
      in if \<not> (straight_and_fast od s \<and> certain_if_calib od s) then Inr (None, s)
         else bind_result (update_status mici (next_block (fill_block (new_rpy mici od s) (wide_or_init (co_wideFromDeviceEuler od)) (new_height od) s)))
                (\<lambda>s'. Inr (Some (new_rpy mici od s), s')))"

text \<open>A round of the process: the message is sent at a fifth of the rate of the camera.\<close>

record calibration_in =
  ci_frame :: int
  ci_odometry :: "camera_odometry option"
  ci_v_ego :: real
  ci_valid :: bool

definition calibration_round :: "bool \<Rightarrow> calibration_in \<Rightarrow> calibrator \<Rightarrow> (live_calibration option \<times> calibrator) result" where
  "calibration_round mici i s0 =
     bind_result (case ci_odometry i of
                    None \<Rightarrow> Inr s0
                  | Some od \<Rightarrow> bind_result (handle_cam_odom mici od (handle_v_ego (ci_v_ego i) s0)) (\<lambda>(r, s). Inr s)) (\<lambda>s.
       Inr (if ci_frame i mod 5 = 0 then Some (calibrator_get_msg (ci_valid i) s) else None, s))"

definition calibration_start :: "bool \<Rightarrow> stored_calibration option \<Rightarrow> bool \<Rightarrow> calibrator result" where
  "calibration_start mici stored notCar = bind_result (Calibrator_init mici True stored) (\<lambda>s. Inr (s\<lparr>cb_not_car := notCar\<rparr>))"

fun calibration_run :: "bool \<Rightarrow> calibration_in list \<Rightarrow> calibrator \<Rightarrow> calibrator result" where
  "calibration_run mici [] s = Inr s"
| "calibration_run mici (i # is) s = bind_result (calibration_round mici i s) (\<lambda>(m, s'). calibration_run mici is s')"

section \<open>Facts\<close>

text \<open>The limits with their margin, and the operations that stay within them.\<close>

definition between :: "real \<Rightarrow> real \<Rightarrow> real \<Rightarrow> bool" where
  "between lo hi x \<longleftrightarrow> lo \<le> x \<and> x \<le> hi"

definition rpy_in_range :: "bool \<Rightarrow> vec3 \<Rightarrow> bool" where
  "rpy_in_range mici v \<longleftrightarrow> between (fst (PITCH_LIMITS mici) - 5/1000) (snd (PITCH_LIMITS mici) + 5/1000) (pitch_of v)
     \<and> between (fst YAW_LIMITS - 5/1000) (snd YAW_LIMITS + 5/1000) (yaw_of v)"

lemma between_convex:
  assumes "between lo hi x" "between lo hi y" "0 \<le> w" "w \<le> 1" shows "between lo hi (w * x + (1 - w) * y)"
proof -
  have "w * lo + (1 - w) * lo \<le> w * x + (1 - w) * y" "w * x + (1 - w) * y \<le> w * hi + (1 - w) * hi"
    using assms by (auto simp: between_def intro!: add_mono mult_left_mono)
  then show ?thesis by (simp add: between_def algebra_simps)
qed

lemma between_decay:
  assumes "between lo hi x" "between lo hi y" "0 \<le> i" "i \<le> BLOCK_SIZE" shows "between lo hi (moving_avg_with_linear_decay x y i)"
proof -
  have "moving_avg_with_linear_decay x y i = of_int i / 100 * x + (1 - of_int i / 100) * y"
    by (simp add: moving_avg_with_linear_decay_def BLOCK_SIZE_def field_simps)
  then show ?thesis using between_convex [OF assms(1,2), of "of_int i / 100"] assms(3,4) by (simp add: BLOCK_SIZE_def)
qed

lemma sum_between: "list_all (between lo hi) xs \<Longrightarrow> of_nat (length xs) * lo \<le> sum_list xs \<and> sum_list xs \<le> of_nat (length xs) * hi"
  by (induction xs) (auto simp: between_def algebra_simps)

lemma between_mean: "list_all (between lo hi) xs \<Longrightarrow> xs \<noteq> [] \<Longrightarrow> between lo hi (mean xs)"
  using sum_between [of lo hi xs] by (auto simp: between_def mean_def field_simps)

lemma map2_proj [simp]: "pitch_of (map2_vec3 f u v) = f (pitch_of u) (pitch_of v)" "yaw_of (map2_vec3 f u v) = f (yaw_of u) (yaw_of v)"
  by (cases u; cases v; simp)+

lemma column_proj [simp]: "pitch_of (column f vs) = f (map pitch_of vs)" "yaw_of (column f vs) = f (map yaw_of vs)"
  by (simp_all add: column_def)

lemma between_clip: "lo \<le> hi \<Longrightarrow> between lo hi (clip x lo hi)"
  by (simp add: between_def clip_bounds)

lemma clip_in_range: "rpy_in_range mici (sanity_clip mici v)"
proof (cases v)
  case (fields r p y)
  have "fst (PITCH_LIMITS mici) - 5/1000 \<le> snd (PITCH_LIMITS mici) + 5/1000" "fst YAW_LIMITS - 5/1000 \<le> snd YAW_LIMITS + 5/1000"
    by (simp_all add: PITCH_LIMITS_def YAW_LIMITS_def)
  then show ?thesis unfolding fields sanity_clip.simps rpy_in_range_def pitch_of.simps yaw_of.simps by (intro conjI between_clip)
qed

lemma init_in_range: "rpy_in_range mici RPY_INIT"
  by (simp add: rpy_in_range_def between_def RPY_INIT_def PITCH_LIMITS_def YAW_LIMITS_def)

lemma decay_in_range: "rpy_in_range mici u \<Longrightarrow> rpy_in_range mici v \<Longrightarrow> 0 \<le> i \<Longrightarrow> i \<le> BLOCK_SIZE
    \<Longrightarrow> rpy_in_range mici (map2_vec3 (\<lambda>m n. moving_avg_with_linear_decay m n i) u v)"
  by (simp add: rpy_in_range_def between_decay)

lemma mean_in_range:
  assumes "list_all (rpy_in_range mici) vs" "vs \<noteq> []" shows "rpy_in_range mici (column mean vs)"
  using assms by (auto simp: rpy_in_range_def list_all_iff intro!: between_mean)

text \<open>The state of a calibrator that works: its histories have a row per block, and its indices are in range.\<close>

definition calibrator_ok :: "bool \<Rightarrow> calibrator \<Rightarrow> bool" where
  "calibrator_ok mici s \<longleftrightarrow> length (cb_rpys s) = 50 \<and> length (cb_wide_from_device_eulers s) = 50 \<and> length (cb_heights s) = 50
     \<and> list_all (rpy_in_range mici) (cb_rpys s) \<and> rpy_in_range mici (cb_rpy s) \<and> rpy_in_range mici (cb_old_rpy s)
     \<and> 0 \<le> cb_old_rpy_weight s \<and> cb_old_rpy_weight s \<le> 1 \<and> 0 \<le> cb_idx s \<and> cb_idx s < 100 \<and> 0 \<le> cb_block_idx s \<and> cb_block_idx s < 50
     \<and> 0 \<le> cb_valid_blocks s \<and> cb_valid_blocks s \<le> 50"

text \<open>The status says calibrated only for enough blocks with a mean within the limits.\<close>

definition status_sound :: "bool \<Rightarrow> calibrator \<Rightarrow> bool" where
  "status_sound mici s \<longleftrightarrow> (cb_cal_status s = Cal_calibrated \<longrightarrow> cb_valid_blocks s \<ge> INPUTS_NEEDED \<and> is_calibration_valid mici (cb_rpy s))"

lemma valid_idxs_range: "calibrator_ok mici s \<Longrightarrow> i \<in> set (get_valid_idxs s) \<Longrightarrow> 0 \<le> i \<and> i < 50"
  by (auto simp: calibrator_ok_def get_valid_idxs_def)

lemma select_rows_ok: "calibrator_ok mici s \<Longrightarrow> length xs = 50 \<Longrightarrow> select_rows xs (get_valid_idxs s) = Inr (map (\<lambda>i. xs ! nat i) (get_valid_idxs s))"
  by (auto simp: select_rows_def list_all_iff dest: valid_idxs_range)

lemma calib_update_means_ok:
  assumes "calibrator_ok mici s"
  shows "\<exists>w h r sp. update_means s = Inr (s\<lparr>cb_wide_from_device_euler := w, cb_height := h, cb_rpy := r, cb_calib_spread := sp\<rparr>) \<and> rpy_in_range mici r"
proof (cases "get_valid_idxs s = []")
  case True
  then have "update_means s = Inr (s\<lparr>cb_wide_from_device_euler := cb_wide_from_device_euler s, cb_height := cb_height s, cb_rpy := cb_rpy s, cb_calib_spread := (0, 0, 0)\<rparr>)"
    by (simp add: update_means_def)
  moreover have "rpy_in_range mici (cb_rpy s)" using assms by (simp add: calibrator_ok_def)
  ultimately show ?thesis by blast
next
  case False
  let ?rows = "map (\<lambda>i. cb_rpys s ! nat i) (get_valid_idxs s)"
  have "list_all (rpy_in_range mici) ?rows"
  proof (simp add: list_all_iff, intro ballI)
    fix i assume "i \<in> set (get_valid_idxs s)"
    from valid_idxs_range [OF assms this] have "nat i < length (cb_rpys s)" using assms by (simp add: calibrator_ok_def nat_less_iff)
    then show "rpy_in_range mici (cb_rpys s ! nat i)" using assms by (simp add: calibrator_ok_def list_all_length)
  qed
  then have "rpy_in_range mici (column mean ?rows)" using False by (intro mean_in_range) simp_all
  moreover have "length (cb_rpys s) = 50" "length (cb_heights s) = 50" "length (cb_wide_from_device_eulers s) = 50" using assms by (simp_all add: calibrator_ok_def)
  then have "update_means s = Inr (s\<lparr>cb_wide_from_device_euler := column mean (map (\<lambda>i. cb_wide_from_device_eulers s ! nat i) (get_valid_idxs s)),
      cb_height := mean (map (\<lambda>i. cb_heights s ! nat i) (get_valid_idxs s)), cb_rpy := column mean ?rows,
      cb_calib_spread := map2_vec3 (\<lambda>a b. \<bar>a - b\<bar>) (column list_max ?rows) (column list_min ?rows)\<rparr>)"
    using False by (simp add: update_means_def Let_def select_rows_ok [OF assms])
  ultimately show ?thesis by blast
qed

lemma last_block_in_range: "calibrator_ok mici s \<Longrightarrow> rpy_in_range mici (last_block s)"
  by (auto simp: calibrator_ok_def last_block_def list_all_length)

lemma calib_reset_ok:
  assumes "rpy_in_range mici r" "v \<le> 50" "case smooth of None \<Rightarrow> True | Some u \<Rightarrow> rpy_in_range mici u"
  shows "calibrator_ok mici (calibrator_reset r v w h smooth s)"
  using assms init_in_range by (cases smooth) (simp_all add: calibrator_ok_def calibrator_reset_def INPUTS_WANTED_def list_all_iff)

lemma calib_restart_ok: "calibrator_ok mici s \<Longrightarrow> status_sound mici s \<Longrightarrow> calibrator_ok mici (restart_if_moved s) \<and> status_sound mici (restart_if_moved s)"
  using calib_reset_ok [of mici "last_block s" 1 "Some (cb_rpy s)"] last_block_in_range [of mici s]
  by (simp add: restart_if_moved_def status_sound_def calibrator_ok_def)

lemma save_same [simp]:
  "calibrator_ok mici (save_calibration s) = calibrator_ok mici s" "status_sound mici (save_calibration s) = status_sound mici s"
  by (simp_all add: save_calibration_def calibrator_ok_def status_sound_def)

lemma calib_update_status_ok:
  assumes "calibrator_ok mici s" shows "\<exists>s'. update_status mici s = Inr s' \<and> calibrator_ok mici s' \<and> status_sound mici s'"
proof -
  obtain w h r sp where m: "update_means s = Inr (s\<lparr>cb_wide_from_device_euler := w, cb_height := h, cb_rpy := r, cb_calib_spread := sp\<rparr>)" "rpy_in_range mici r"
    using calib_update_means_ok [OF assms] by blast
  let ?s1 = "s\<lparr>cb_wide_from_device_euler := w, cb_height := h, cb_rpy := r, cb_calib_spread := sp\<rparr>"
  let ?s2 = "?s1\<lparr>cb_cal_status := next_status mici ?s1\<rparr>"
  have "calibrator_ok mici ?s2" using assms m(2) by (simp add: calibrator_ok_def)
  moreover have "status_sound mici ?s2" by (simp add: status_sound_def next_status_def)
  ultimately show ?thesis using m(1) calib_restart_ok [of mici ?s2] by (simp add: update_status_def)
qed

lemma calib_init_ok:
  assumes "case stored of None \<Rightarrow> True | Some c \<Rightarrow> rpy_in_range mici (sc_rpyCalib c) \<and> sc_validBlocks c \<le> 50"
  shows "\<exists>s. Calibrator_init mici pp stored = Inr s \<and> calibrator_ok mici s \<and> status_sound mici s"
proof -
  have ok0: "calibrator_ok mici (calibrator_reset RPY_INIT 0 w h None s)" for w h s using init_in_range by (intro calib_reset_ok) simp_all
  show ?thesis
  proof (cases "pp \<and> stored \<noteq> None")
    case True
    then obtain c where c: "pp" "stored = Some c" by auto
    then have "calibrator_ok mici (calibrator_reset (sc_rpyCalib c) (sc_validBlocks c) w h None s)" for w h s using assms by (intro calib_reset_ok) simp_all
    from calib_update_status_ok [OF this] show ?thesis using c by (simp add: Calibrator_init_def Let_def)
  next
    case False
    then show ?thesis using calib_update_status_ok [OF ok0] by (cases pp; cases stored) (simp_all add: Calibrator_init_def Let_def)
  qed
qed

text \<open>An observation.\<close>

lemma calib_fill_ok:
  assumes "calibrator_ok mici s" "rpy_in_range mici v" shows "calibrator_ok mici (fill_block v w h s)"
proof -
  have "rpy_in_range mici (cb_rpys s ! nat (cb_block_idx s))" using assms(1) by (auto simp: calibrator_ok_def list_all_length)
  then have "rpy_in_range mici (map2_vec3 (\<lambda>m n. moving_avg_with_linear_decay m n (cb_idx s)) (cb_rpys s ! nat (cb_block_idx s)) v)"
    using assms by (intro decay_in_range) (auto simp: calibrator_ok_def BLOCK_SIZE_def)
  then show ?thesis using assms(1) by (auto simp: calibrator_ok_def fill_block_def Let_def list_all_length nth_list_update)
qed

lemma next_block_ok: "calibrator_ok mici s \<Longrightarrow> calibrator_ok mici (next_block s)"
  by (auto simp: calibrator_ok_def next_block_def Let_def BLOCK_SIZE_def INPUTS_WANTED_def le_max_iff_disj)

lemma calib_weight_ok: "calibrator_ok mici s \<Longrightarrow> calibrator_ok mici (s\<lparr>cb_old_rpy_weight := max 0 (cb_old_rpy_weight s - 1 / of_int SMOOTH_CYCLES)\<rparr>)"
  by (auto simp: calibrator_ok_def SMOOTH_CYCLES_def)

lemma handle_cam_odom_ok:
  assumes "calibrator_ok mici s" "status_sound mici s"
  shows "\<exists>r s'. handle_cam_odom mici od s = Inr (r, s') \<and> calibrator_ok mici s' \<and> status_sound mici s'"
proof -
  let ?s = "s\<lparr>cb_old_rpy_weight := max 0 (cb_old_rpy_weight s - 1 / of_int SMOOTH_CYCLES)\<rparr>"
  have ok: "calibrator_ok mici ?s" "status_sound mici ?s" using calib_weight_ok [OF assms(1)] assms(2) by (simp_all add: status_sound_def)
  have "rpy_in_range mici (new_rpy mici od ?s)" by (simp add: new_rpy_def clip_in_range)
  from calib_update_status_ok [OF next_block_ok [OF calib_fill_ok [OF ok(1) this]]] obtain s' where
    u: "update_status mici (next_block (fill_block (new_rpy mici od ?s) (wide_or_init (co_wideFromDeviceEuler od)) (new_height od) ?s)) = Inr s'"
    "calibrator_ok mici s'" "status_sound mici s'" by blast
  show ?thesis
  proof (cases "straight_and_fast od ?s \<and> certain_if_calib od ?s")
    case True
    then show ?thesis using u by (simp add: handle_cam_odom_def Let_def)
  next
    case False
    then have "handle_cam_odom mici od s = Inr (None, ?s)" by (simp add: handle_cam_odom_def Let_def)
    with ok show ?thesis by blast
  qed
qed

lemma smooth_in_range: "calibrator_ok mici s \<Longrightarrow> rpy_in_range mici (get_smooth_rpy s)"
  by (simp add: calibrator_ok_def get_smooth_rpy_def rpy_in_range_def between_convex)

lemma v_ego_same: "calibrator_ok mici (handle_v_ego v s) = calibrator_ok mici s" "status_sound mici (handle_v_ego v s) = status_sound mici s"
  by (simp_all add: handle_v_ego_def calibrator_ok_def status_sound_def)

lemma calib_round_ok:
  assumes "calibrator_ok mici s" "status_sound mici s"
  shows "\<exists>m s'. calibration_round mici i s = Inr (m, s') \<and> calibrator_ok mici s' \<and> status_sound mici s' \<and> (m = None \<or> m = Some (calibrator_get_msg (ci_valid i) s'))"
proof (cases "ci_odometry i")
  case None
  then show ?thesis using assms by (simp add: calibration_round_def)
next
  case (Some od)
  obtain r s' where "handle_cam_odom mici od (handle_v_ego (ci_v_ego i) s) = Inr (r, s')" "calibrator_ok mici s'" "status_sound mici s'"
    using handle_cam_odom_ok [of mici "handle_v_ego (ci_v_ego i) s" od] assms by (auto simp: v_ego_same)
  then show ?thesis using Some by (simp add: calibration_round_def)
qed

lemma calib_run_ok: "calibrator_ok mici s \<Longrightarrow> status_sound mici s \<Longrightarrow> \<exists>s'. calibration_run mici is s = Inr s' \<and> calibrator_ok mici s' \<and> status_sound mici s'"
proof (induction "is" arbitrary: s)
  case (Cons i "is")
  from calib_round_ok [OF Cons.prems, of i] obtain m s' where "calibration_round mici i s = Inr (m, s')" "calibrator_ok mici s'" "status_sound mici s'" by blast
  with Cons.IH show ?case by simp
qed simp

text \<open>The published angles do not jump when the calibration starts over.\<close>

lemma restart_smooth: "spread_too_high s \<and> cb_cal_status s = Cal_calibrated \<Longrightarrow> get_smooth_rpy (restart_if_moved s) = cb_rpy s"
proof -
  assume a: "spread_too_high s \<and> cb_cal_status s = Cal_calibrated"
  have "map2_vec3 (\<lambda>a b. 1 * a + (1 - 1) * b) u v = u" for u v by (cases u; cases v) simp
  with a show ?thesis by (simp add: restart_if_moved_def get_smooth_rpy_def calibrator_reset_def)
qed

text \<open>
  C37. The calibration stays plausible: started without a stored calibration, or with a stored one
  whose pitch and yaw are in the range below and that has at most fifty blocks, no observations make
  a round of calibrationd fail. Every message it sends has pitch and yaw within the limits of the
  device widened by 0.005 rad on either side, which is where \<open>sanity_clip\<close> clips, and between none
  and fifty blocks; and it says calibrated only with at least five blocks whose mean is strictly
  within the limits themselves, or for a robot (\<open>notCar\<close>), which is always said to be calibrated.
\<close>

theorem calibration_in_range:
  assumes "case stored of None \<Rightarrow> True | Some c \<Rightarrow> rpy_in_range mici (sc_rpyCalib c) \<and> sc_validBlocks c \<le> 50"
  shows "\<exists>s0 s m s'. calibration_start mici stored notCar = Inr s0 \<and> calibration_run mici is s0 = Inr s \<and> calibration_round mici i s = Inr (m, s')
    \<and> (case m of None \<Rightarrow> True | Some c \<Rightarrow> rpy_in_range mici (cl_rpyCalib c) \<and> 0 \<le> cl_validBlocks c \<and> cl_validBlocks c \<le> 50
         \<and> (cb_not_car s' \<or> cl_calStatus c \<noteq> Cal_calibrated \<or> cl_validBlocks c \<ge> 5 \<and> is_calibration_valid mici (cb_rpy s')))"
proof -
  from calib_init_ok [OF assms, of True] obtain s0' where "Calibrator_init mici True stored = Inr s0'" "calibrator_ok mici s0'" "status_sound mici s0'" by blast
  then have s0: "calibration_start mici stored notCar = Inr (s0'\<lparr>cb_not_car := notCar\<rparr>)" "calibrator_ok mici (s0'\<lparr>cb_not_car := notCar\<rparr>)" "status_sound mici (s0'\<lparr>cb_not_car := notCar\<rparr>)"
    by (simp_all add: calibration_start_def calibrator_ok_def status_sound_def)
  from calib_run_ok [OF s0(2,3), of "is"] obtain s where s: "calibration_run mici is (s0'\<lparr>cb_not_car := notCar\<rparr>) = Inr s" "calibrator_ok mici s" "status_sound mici s" by blast
  from calib_round_ok [OF s(2,3), of i] obtain m s' where m: "calibration_round mici i s = Inr (m, s')" "calibrator_ok mici s'" "status_sound mici s'"
    "m = None \<or> m = Some (calibrator_get_msg (ci_valid i) s')" by blast
  have "rpy_in_range mici (0, 0, 0)" using init_in_range [of mici] by (simp add: RPY_INIT_def)
  then have "case m of None \<Rightarrow> True | Some c \<Rightarrow> rpy_in_range mici (cl_rpyCalib c) \<and> 0 \<le> cl_validBlocks c \<and> cl_validBlocks c \<le> 50
         \<and> (cb_not_car s' \<or> cl_calStatus c \<noteq> Cal_calibrated \<or> cl_validBlocks c \<ge> 5 \<and> is_calibration_valid mici (cb_rpy s'))"
    using m(2,3,4) smooth_in_range [OF m(2)] by (auto simp: calibrator_get_msg_def INPUTS_NEEDED_def calibrator_ok_def status_sound_def)
  with s0(1) s(1) m(1) show ?thesis by blast
qed

theorem calibration_in_range_witness:
  "\<exists>s0 s m s'. calibration_start False (Some \<lparr>sc_rpyCalib = (0, 1/100, 2/100), sc_validBlocks = 20, sc_wideFromDeviceEuler = [0, 0, 0], sc_height = [1]\<rparr>) False = Inr s0
    \<and> calibration_run False [] s0 = Inr s
    \<and> calibration_round False \<lparr>ci_frame = 5, ci_odometry = None, ci_v_ego = 20, ci_valid = True\<rparr> s = Inr (m, s')
    \<and> (case m of None \<Rightarrow> True | Some c \<Rightarrow> rpy_in_range False (cl_rpyCalib c) \<and> 0 \<le> cl_validBlocks c \<and> cl_validBlocks c \<le> 50
         \<and> (cb_not_car s' \<or> cl_calStatus c \<noteq> Cal_calibrated \<or> cl_validBlocks c \<ge> 5 \<and> is_calibration_valid False (cb_rpy s')))"
  by (rule calibration_in_range) (simp add: rpy_in_range_def between_def PITCH_LIMITS_def YAW_LIMITS_def)

end
