(* ===== verification/Torqued.thy ===== *)
theory Torqued
  imports Controls
begin

text \<open>
  The estimator of the torque a car needs for a lateral acceleration, \<open>selfdrive/locationd/torqued.py\<close> with
  \<open>sunnypilot/selfdrive/locationd/torqued_ext.py\<close>. The singular value decomposition and the random choice of
  points are numpy's and are given as functions; a decomposition that fails, or whose last component is zero
  (where numpy divides by it), gives no estimate. \<open>numpy.interp\<close> is used on samples in the order of time. The
  cached messages are given decoded. Points kept for offline analysis are left out.
\<close>

section \<open>Constants\<close>

definition TQ_HISTORY :: real where "TQ_HISTORY = 5"
definition POINTS_PER_BUCKET :: nat where "POINTS_PER_BUCKET = 1500"
definition MIN_POINTS_TOTAL :: nat where "MIN_POINTS_TOTAL = 4000"
definition MIN_POINTS_TOTAL_QLOG :: nat where "MIN_POINTS_TOTAL_QLOG = 600"
definition FIT_POINTS_TOTAL :: nat where "FIT_POINTS_TOTAL = 2000"
definition FIT_POINTS_TOTAL_QLOG :: nat where "FIT_POINTS_TOTAL_QLOG = 600"
definition TQ_MIN_VEL :: real where "TQ_MIN_VEL = 15"
definition FRICTION_FACTOR :: real where "FRICTION_FACTOR = 15/10"
definition FACTOR_SANITY :: real where "FACTOR_SANITY = 3/10"
definition FACTOR_SANITY_QLOG :: real where "FACTOR_SANITY_QLOG = 5/10"
definition FRICTION_SANITY :: real where "FRICTION_SANITY = 5/10"
definition FRICTION_SANITY_QLOG :: real where "FRICTION_SANITY_QLOG = 8/10"
definition STEER_MIN_THRESHOLD :: real where "STEER_MIN_THRESHOLD = 2/100"
definition MIN_FILTER_DECAY :: real where "MIN_FILTER_DECAY = 50"
definition MAX_FILTER_DECAY :: real where "MAX_FILTER_DECAY = 250"
definition LAT_ACC_THRESHOLD :: real where "LAT_ACC_THRESHOLD = 1"
definition STEER_BUCKET_BOUNDS :: "(real \<times> real) list" where
  "STEER_BUCKET_BOUNDS = [(-5/10, -3/10), (-3/10, -2/10), (-2/10, -1/10), (-1/10, 0), (0, 1/10), (1/10, 2/10), (2/10, 3/10), (3/10, 5/10)]"
definition MIN_BUCKET_POINTS :: "real list" where "MIN_BUCKET_POINTS = [100, 300, 500, 500, 500, 500, 300, 100]"
definition RELAXED_MIN_BUCKET_POINTS :: "real list" where "RELAXED_MIN_BUCKET_POINTS = [1, 200, 300, 500, 500, 300, 200, 1]"
definition MIN_ENGAGE_BUFFER :: real where "MIN_ENGAGE_BUFFER = 2"
definition TQ_VERSION :: int where "TQ_VERSION = 1"
definition TQ_ALLOWED_CARS :: "string list" where "TQ_ALLOWED_CARS = [''toyota'', ''hyundai'', ''rivian'', ''honda'', ''volkswagen'']"

section \<open>Points\<close>

type_synonym point = "real \<times> real \<times> real"

text \<open>The first bucket whose bounds hold the torque.\<close>

fun add_to_bucket :: "real \<Rightarrow> real \<Rightarrow> ((real \<times> real) \<times> point np_queue) list \<Rightarrow> ((real \<times> real) \<times> point np_queue) list result" where
  "add_to_bucket x y [] = Inr []"
| "add_to_bucket x y (((lo, hi), q) # bs) =
     (if lo \<le> x \<and> x < hi then bind_result (nq_append (x, 1, y) q) (\<lambda>q'. Inr (((lo, hi), q') # bs))
      else bind_result (add_to_bucket x y bs) (\<lambda>bs'. Inr (((lo, hi), q) # bs')))"

definition torque_add_point :: "real \<Rightarrow> real \<Rightarrow> point point_buckets \<Rightarrow> point point_buckets result" where
  "torque_add_point x y b = bind_result (add_to_bucket x y (pb_buckets b)) (\<lambda>bs. Inr (b\<lparr>pb_buckets := bs\<rparr>))"

fun load_points :: "(real \<times> real) list \<Rightarrow> point point_buckets \<Rightarrow> point point_buckets result" where
  "load_points [] b = Inr b"
| "load_points ((x, y) # ps) b = bind_result (torque_add_point x y b) (load_points ps)"

definition get_valid_percent :: "point point_buckets \<Rightarrow> int" where
  "get_valid_percent b =
     (let points = min (real (pb_len b) / real (pb_min_points_total b) * 100) 100;
          percents = map2 (\<lambda>(_, q) m. real (length (nq_arr q)) / m * 100) (pb_buckets b) (pb_min_points b);
          individual = min (fold min (tl percents) (hd percents)) 100
      in py_int ((points + individual) / 2))"

definition slope2rot :: "real \<Rightarrow> (real \<times> real) \<times> (real \<times> real)" where
  "slope2rot slope = (let s = sqrt (slope\<^sup>2 / (slope\<^sup>2 + 1)); c = sqrt (1 / (slope\<^sup>2 + 1)) in ((c, - s), (s, c)))"

definition list_mean :: "real list \<Rightarrow> real" where
  "list_mean xs = sum_list xs / real (length xs)"

definition list_std :: "real list \<Rightarrow> real" where
  "list_std xs = sqrt (list_mean (map (\<lambda>x. (x - list_mean xs)\<^sup>2) xs))"

section \<open>State\<close>

record torque_env =
  te_svd :: "point list \<Rightarrow> vec3 option"
  te_choose :: "nat \<Rightarrow> point list \<Rightarrow> point list"

record torque_filters =
  tf_latAccelFactor :: fof
  tf_latAccelOffset :: fof
  tf_frictionCoefficient :: fof

record torque_history =
  rp_carControl_t :: "real list"
  rp_lat_active :: "bool list"
  rp_steer_t :: "real list"
  rp_steer_torque :: "real list"
  rp_carState_t :: "real list"
  rp_vego :: "real list"
  rp_steer_override :: "bool list"

record torque_estimator =
  tq_CP :: car_params
  tq_frame :: int
  tq_enforce :: bool
  tq_use_live :: bool
  tq_override :: bool
  tq_use_params :: bool
  tq_lag :: real
  tq_min_bucket_points :: "real list"
  tq_min_points_total :: nat
  tq_fit_points :: nat
  tq_factor_sanity :: real
  tq_friction_sanity :: real
  tq_offline_friction :: real
  tq_offline_latAccelFactor :: real
  tq_resets :: real
  tq_calibrator :: pose_calibrator
  tq_decay :: real
  tq_min_lataccel_factor :: real
  tq_max_lataccel_factor :: real
  tq_min_friction :: real
  tq_max_friction :: real
  tq_raw :: torque_history
  tq_points :: "point point_buckets"
  tq_filters :: torque_filters

definition tq_hist_len :: nat where
  "tq_hist_len = nat (py_int (TQ_HISTORY / DT_MDL))"

definition empty_history :: torque_history where
  "empty_history = \<lparr>rp_carControl_t = [], rp_lat_active = [], rp_steer_t = [], rp_steer_torque = [], rp_carState_t = [], rp_vego = [], rp_steer_override = []\<rparr>"

text \<open>The numbers of minimal points and of bounds are the same, so the constructor of the buckets does not raise.\<close>

definition torque_buckets :: "real list \<Rightarrow> nat \<Rightarrow> point point_buckets result" where
  "torque_buckets min_points n = pb_init STEER_BUCKET_BOUNDS min_points n POINTS_PER_BUCKET"

definition torque_estimator_reset :: "torque_estimator \<Rightarrow> torque_estimator result" where
  "torque_estimator_reset s =
     bind_result (torque_buckets (tq_min_bucket_points s) (tq_min_points_total s)) (\<lambda>b.
       Inr (s\<lparr>tq_resets := tq_resets s + 1, tq_decay := MIN_FILTER_DECAY, tq_raw := empty_history, tq_points := b\<rparr>))"

section \<open>sunnypilot's settings\<close>

definition torque_update_settings :: "params \<Rightarrow> torque_estimator \<Rightarrow> torque_estimator" where
  "torque_update_settings p s =
     (if tq_frame s mod py_int (PARAMS_UPDATE_PERIOD / DT_MDL) = 0
      then s\<lparr>tq_use_live := get_bool p ''LiveTorqueParamsToggle'', tq_override := get_bool p ''TorqueParamsOverrideEnabled''\<rparr> else s)"

definition update_use_params :: "params \<Rightarrow> torque_estimator \<Rightarrow> torque_estimator" where
  "update_use_params p s0 =
     (let s = torque_update_settings p s0
      in s\<lparr>tq_use_params := (if tq_enforce s then (\<not> tq_override s \<and> tq_use_live s) else tq_use_params s), tq_frame := tq_frame s + 1\<rparr>)"

definition initialize_custom_params :: "(string \<Rightarrow> real) \<Rightarrow> params \<Rightarrow> bool \<Rightarrow> torque_estimator \<Rightarrow> torque_estimator" where
  "initialize_custom_params dflt p decimated s0 =
     (let s1 = update_use_params p s0;
          s2 = (if tq_enforce s1 \<and> get_bool p ''LiveTorqueParamsRelaxedToggle''
                then s1\<lparr>tq_min_bucket_points := map (\<lambda>x. x / (if decimated then 10 else 1)) RELAXED_MIN_BUCKET_POINTS,
                        tq_factor_sanity := (if decimated then 5/10 else 1), tq_friction_sanity := (if decimated then 8/10 else 1)\<rparr> else s1)
      in if tq_enforce s2 \<and> get_bool p ''CustomTorqueParams''
         then s2\<lparr>tq_offline_latAccelFactor := get_float dflt p ''TorqueParamsOverrideLatAccelFactor'', tq_offline_friction := get_float dflt p ''TorqueParamsOverrideFriction''\<rparr>
         else s2)"

section \<open>Construction\<close>

record torque_cache =
  tc_CP :: car_params
  tc_version :: int
  tc_liveValid :: bool
  tc_latAccelFactorFiltered :: real
  tc_latAccelOffsetFiltered :: real
  tc_frictionCoefficientFiltered :: real
  tc_points :: "(real \<times> real) list"
  tc_decay :: real

text \<open>The kind of the tuning is compared by name.\<close>

definition tuning_which :: "car_params \<Rightarrow> string" where
  "tuning_which CP = (case cp_lateralTuning CP of LT_pid _ _ _ \<Rightarrow> ''pid'' | LT_torque _ \<Rightarrow> ''torque'' | LT_other \<Rightarrow> ''other'')"

definition get_restore_key :: "car_params \<Rightarrow> int \<Rightarrow> string \<times> string \<times> (real \<times> real) option \<times> int" where
  "get_restore_key CP version = (cp_carFingerprint CP, tuning_which CP,
     (case cp_lateralTuning CP of LT_torque t \<Rightarrow> Some (tt_friction t, tt_latAccelFactor t) | _ \<Rightarrow> None), version)"

definition offline_params :: "car_params \<Rightarrow> torque_estimator \<Rightarrow> torque_estimator" where
  "offline_params CP s = (case cp_lateralTuning CP of
     LT_torque t \<Rightarrow> s\<lparr>tq_offline_friction := tt_friction t, tq_offline_latAccelFactor := tt_latAccelFactor t\<rparr> | _ \<Rightarrow> s)"

definition torque_limits :: "torque_estimator \<Rightarrow> torque_estimator" where
  "torque_limits s = s\<lparr>tq_decay := MIN_FILTER_DECAY,
     tq_min_lataccel_factor := (1 - tq_factor_sanity s) * tq_offline_latAccelFactor s, tq_max_lataccel_factor := (1 + tq_factor_sanity s) * tq_offline_latAccelFactor s,
     tq_min_friction := (1 - tq_friction_sanity s) * tq_offline_friction s, tq_max_friction := (1 + tq_friction_sanity s) * tq_offline_friction s\<rparr>"

definition torque_filters_of :: "real \<Rightarrow> real \<Rightarrow> real \<Rightarrow> real \<Rightarrow> torque_filters" where
  "torque_filters_of factor offset friction decay = \<lparr>tf_latAccelFactor = fof_init factor decay DT_MDL True,
     tf_latAccelOffset = fof_init offset decay DT_MDL True, tf_frictionCoefficient = fof_init friction decay DT_MDL True\<rparr>"

text \<open>A cache of the same car and version gives points and decay, and when it was valid also the values.\<close>

definition restore_cache :: "torque_cache option \<Rightarrow> torque_estimator \<Rightarrow> torque_estimator result" where
  "restore_cache cache s =
     (case cache of
        Some c \<Rightarrow>
          if get_restore_key (tc_CP c) (tc_version c) = get_restore_key (tq_CP s) TQ_VERSION
          then bind_result (load_points (tc_points c) (tq_points s)) (\<lambda>b.
            Inr (s\<lparr>tq_points := b, tq_decay := tc_decay c,
                   tq_filters := (if tc_liveValid c then torque_filters_of (tc_latAccelFactorFiltered c) (tc_latAccelOffsetFiltered c) (tc_frictionCoefficientFiltered c) (tc_decay c)
                                  else torque_filters_of (tq_offline_latAccelFactor s) 0 (tq_offline_friction s) (tc_decay c))\<rparr>))
          else Inr (s\<lparr>tq_filters := torque_filters_of (tq_offline_latAccelFactor s) 0 (tq_offline_friction s) (tq_decay s)\<rparr>)
      | None \<Rightarrow> Inr (s\<lparr>tq_filters := torque_filters_of (tq_offline_latAccelFactor s) 0 (tq_offline_friction s) (tq_decay s)\<rparr>))"

definition torque_estimator_blank :: "car_params \<Rightarrow> params \<Rightarrow> bool \<Rightarrow> torque_estimator" where
  "torque_estimator_blank CP p decimated =
     \<lparr>tq_CP = CP, tq_frame = -1, tq_enforce = get_bool p ''EnforceTorqueControl'', tq_use_live = get_bool p ''LiveTorqueParamsToggle'',
      tq_override = get_bool p ''TorqueParamsOverrideEnabled'',
      tq_use_params = (cp_brand CP \<in> set TQ_ALLOWED_CARS \<and> tuning_which CP = ''torque''), tq_lag = 0,
      tq_min_bucket_points = (if decimated then map (\<lambda>x. x / 10) MIN_BUCKET_POINTS else MIN_BUCKET_POINTS),
      tq_min_points_total = (if decimated then MIN_POINTS_TOTAL_QLOG else MIN_POINTS_TOTAL), tq_fit_points = (if decimated then FIT_POINTS_TOTAL_QLOG else FIT_POINTS_TOTAL),
      tq_factor_sanity = (if decimated then FACTOR_SANITY_QLOG else FACTOR_SANITY), tq_friction_sanity = (if decimated then FRICTION_SANITY_QLOG else FRICTION_SANITY),
      tq_offline_friction = 0, tq_offline_latAccelFactor = 0, tq_resets = 0, tq_calibrator = pose_calibrator_init, tq_decay = MIN_FILTER_DECAY,
      tq_min_lataccel_factor = 0, tq_max_lataccel_factor = 0, tq_min_friction = 0, tq_max_friction = 0, tq_raw = empty_history,
      tq_points = \<lparr>pb_buckets = [], pb_min_points = [], pb_min_points_total = 0\<rparr>, tq_filters = torque_filters_of 0 0 0 MIN_FILTER_DECAY\<rparr>"

definition TorqueEstimator_init :: "(string \<Rightarrow> real) \<Rightarrow> car_params \<Rightarrow> params \<Rightarrow> bool \<Rightarrow> torque_cache option \<Rightarrow> torque_estimator result" where
  "TorqueEstimator_init dflt CP p decimated cache =
     bind_result (torque_estimator_reset (initialize_custom_params dflt p decimated (offline_params CP (torque_estimator_blank CP p decimated)))) (\<lambda>s.
       restore_cache cache (torque_limits s))"

section \<open>Logs\<close>

datatype torqued_log =
  TL_carControl bool
| TL_carOutput real
| TL_carState real bool
| TL_liveCalibration sd_msgs
| TL_liveDelay real
| TL_livePose sd_msgs

definition of_bool_real :: "bool \<Rightarrow> real" where "of_bool_real b = (if b then 1 else 0)"

text \<open>\<open>numpy.arange\<close> with a positive step, and \<open>numpy.interp\<close>, which raises without samples.\<close>

definition arange :: "real \<Rightarrow> real \<Rightarrow> real \<Rightarrow> real list" where
  "arange start stop step = map (\<lambda>i. start + real i * step) [0..<nat \<lceil>(stop - start) / step\<rceil>]"

definition interp_samples :: "real \<Rightarrow> real list \<Rightarrow> real list \<Rightarrow> real result" where
  "interp_samples x ts vs = (if ts = [] \<or> length ts \<noteq> length vs then Inl ValueError else Inr (interp x (zip ts vs)))"

definition interp_bools :: "real list \<Rightarrow> real list \<Rightarrow> bool list \<Rightarrow> bool list result" where
  "interp_bools xs ts bs = (if ts = [] \<or> length ts \<noteq> length bs then Inl ValueError
     else Inr (map (\<lambda>x. interp x (zip ts (map of_bool_real bs)) \<noteq> 0) xs))"

text \<open>A point is taken while steering has been active and not overridden for two seconds and until the torque takes effect.\<close>

definition torque_point :: "real \<Rightarrow> real \<Rightarrow> real \<Rightarrow> torque_estimator \<Rightarrow> (real \<times> real) option result" where
  "torque_point t yaw_rate roll s =
     (let r = tq_raw s; window = arange (t - MIN_ENGAGE_BUFFER) (t + tq_lag s) DT_MDL
      in bind_result (interp_bools window (rp_carControl_t r) (rp_lat_active r)) (\<lambda>active.
         bind_result (interp_bools window (rp_carState_t r) (rp_steer_override r)) (\<lambda>override.
         bind_result (interp_samples t (rp_carState_t r) (rp_vego r)) (\<lambda>vego.
         bind_result (interp_samples t (rp_steer_t r) (rp_steer_torque r)) (\<lambda>steer.
           let lateral_acc = vego * yaw_rate - sin roll * ACCELERATION_DUE_TO_GRAVITY
           in Inr (if list_all id active \<and> \<not> list_ex id override \<and> vego > TQ_MIN_VEL \<and> \<bar>steer\<bar> > STEER_MIN_THRESHOLD \<and> \<bar>lateral_acc\<bar> \<le> LAT_ACC_THRESHOLD
                   then Some (steer, lateral_acc) else None))))))"

definition torque_handle_log :: "(string \<Rightarrow> real) \<Rightarrow> params \<Rightarrow> real \<Rightarrow> torqued_log \<Rightarrow> torque_estimator \<Rightarrow> torque_estimator result" where
  "torque_handle_log dflt p t l s =
     (let r = tq_raw s; n = tq_hist_len
      in case l of
        TL_carControl active \<Rightarrow> Inr (s\<lparr>tq_raw := r\<lparr>rp_carControl_t := deque_append n (t + tq_lag s) (rp_carControl_t r), rp_lat_active := deque_append n active (rp_lat_active r)\<rparr>\<rparr>)
      | TL_carOutput torque \<Rightarrow> Inr (s\<lparr>tq_raw := r\<lparr>rp_steer_t := deque_append n (t + tq_lag s) (rp_steer_t r), rp_steer_torque := deque_append n (- torque) (rp_steer_torque r)\<rparr>\<rparr>)
      | TL_carState vego pressed \<Rightarrow> Inr (s\<lparr>tq_raw := r\<lparr>rp_carState_t := deque_append n (t + tq_lag s) (rp_carState_t r),
            rp_vego := deque_append n vego (rp_vego r), rp_steer_override := deque_append n pressed (rp_steer_override r)\<rparr>\<rparr>)
      | TL_liveCalibration m \<Rightarrow> bind_result (feed_live_calib m (tq_calibrator s)) (\<lambda>c. Inr (s\<lparr>tq_calibrator := c\<rparr>))
      | TL_liveDelay d \<Rightarrow> Inr (s\<lparr>tq_lag := get_lat_delay dflt p d\<rparr>)
      | TL_livePose m \<Rightarrow>
          if length (rp_steer_torque r) = n
          then let device_pose = from_live_pose m
               in bind_result (torque_point t (po_angular_velocity_yaw (build_calibrated_pose (tq_calibrator s) device_pose)) (fst (me_xyz (po_orientation device_pose))) s) (\<lambda>pt.
                    case pt of None \<Rightarrow> Inr s
                    | Some (x, y) \<Rightarrow> bind_result (torque_add_point x y (tq_points s)) (\<lambda>b. Inr (s\<lparr>tq_points := b\<rparr>)))
          else Inr s)"

fun torque_handle_logs :: "(string \<Rightarrow> real) \<Rightarrow> params \<Rightarrow> (real \<times> torqued_log) list \<Rightarrow> torque_estimator \<Rightarrow> torque_estimator result" where
  "torque_handle_logs dflt p [] s = Inr s"
| "torque_handle_logs dflt p ((t, l) # ls) s = bind_result (torque_handle_log dflt p t l s) (torque_handle_logs dflt p ls)"

section \<open>Estimates\<close>

text \<open>Slope and offset of the total least squares line, and the friction from the spread around it.\<close>

definition estimate_params :: "torque_env \<Rightarrow> torque_estimator \<Rightarrow> vec3 option" where
  "estimate_params env s =
     (let points = te_choose env (tq_fit_points s) (pb_get_points (tq_points s))
      in case te_svd env points of
           None \<Rightarrow> None
         | Some (v0, v1, v2) \<Rightarrow>
             if v2 = 0 then None
             else let slope = - v0 / v2; offset = - v1 / v2; ((c, ms), (sn, c')) = slope2rot slope;
                      spread = map (\<lambda>(x, _, y). x * ms + y * c') points
                  in Some (slope, offset, list_std spread * FRICTION_FACTOR))"

definition update_filter :: "real \<Rightarrow> real \<Rightarrow> fof \<Rightarrow> fof" where
  "update_filter decay v f = fof_update_alpha decay (fof_update v f)"

definition torque_update_params :: "real \<Rightarrow> real \<Rightarrow> real \<Rightarrow> torque_estimator \<Rightarrow> torque_estimator" where
  "torque_update_params factor offset friction s =
     (let d = min (tq_decay s + DT_MDL) MAX_FILTER_DECAY; f = tq_filters s
      in s\<lparr>tq_decay := d, tq_filters := \<lparr>tf_latAccelFactor = update_filter d factor (tf_latAccelFactor f),
             tf_latAccelOffset = update_filter d offset (tf_latAccelOffset f), tf_frictionCoefficient = update_filter d friction (tf_frictionCoefficient f)\<rparr>\<rparr>)"

record live_torque_parameters =
  lt_valid :: bool
  lt_useParams :: bool
  lt_liveValid :: bool
  lt_raw :: "vec3 option"
  lt_points :: "(real \<times> real) list"
  lt_latAccelFactorFiltered :: real
  lt_latAccelOffsetFiltered :: real
  lt_frictionCoefficientFiltered :: real
  lt_totalBucketPoints :: nat
  lt_calPerc :: int
  lt_decay :: real
  lt_maxResets :: real

definition torque_estimate :: "torque_env \<Rightarrow> torque_estimator \<Rightarrow> (vec3 option \<times> bool \<times> torque_estimator) result" where
  "torque_estimate env s =
     (if pb_is_calculable (tq_points s)
      then let e = estimate_params env s
           in if pb_is_valid (tq_points s)
              then case e of
                     None \<Rightarrow> bind_result (torque_estimator_reset s) (\<lambda>s'. Inr (e, False, s'))
                   | Some (factor, offset, friction) \<Rightarrow>
                       Inr (e, True, torque_update_params (clip factor (tq_min_lataccel_factor s) (tq_max_lataccel_factor s)) offset
                                       (clip friction (tq_min_friction s) (tq_max_friction s)) s)
              else Inr (e, False, s)
      else Inr (None, False, s))"

definition torque_get_msg :: "torque_env \<Rightarrow> bool \<Rightarrow> bool \<Rightarrow> torque_estimator \<Rightarrow> (live_torque_parameters \<times> torque_estimator) result" where
  "torque_get_msg env valid with_points s0 =
     bind_result (torque_estimate env s0) (\<lambda>(e, live_valid, s).
       Inr (\<lparr>lt_valid = valid, lt_useParams = tq_use_params s, lt_liveValid = live_valid, lt_raw = e,
             lt_points = (if with_points then map (\<lambda>(x, _, y). (x, y)) (pb_get_points (tq_points s)) else []),
             lt_latAccelFactorFiltered = ff_x (tf_latAccelFactor (tq_filters s)), lt_latAccelOffsetFiltered = ff_x (tf_latAccelOffset (tq_filters s)),
             lt_frictionCoefficientFiltered = ff_x (tf_frictionCoefficient (tq_filters s)), lt_totalBucketPoints = pb_len (tq_points s),
             lt_calPerc = get_valid_percent (tq_points s), lt_decay = tq_decay s, lt_maxResets = tq_resets s\<rparr>, s))"

text \<open>What was received since the last round, at most one message of each kind with its time, worked through in the order of the subscriptions.\<close>

record torque_received =
  tr_carControl :: "(real \<times> bool) option"
  tr_carOutput :: "(real \<times> real) option"
  tr_carState :: "(real \<times> real \<times> bool) option"
  tr_liveCalibration :: "(real \<times> sd_msgs) option"
  tr_livePose :: "(real \<times> sd_msgs) option"
  tr_liveDelay :: "(real \<times> real) option"

definition logs_of :: "torque_received \<Rightarrow> (real \<times> torqued_log) list" where
  "logs_of r =
     (case tr_carControl r of Some (t, a) \<Rightarrow> [(t, TL_carControl a)] | None \<Rightarrow> [])
     @ (case tr_carOutput r of Some (t, u) \<Rightarrow> [(t, TL_carOutput u)] | None \<Rightarrow> [])
     @ (case tr_carState r of Some (t, v, b) \<Rightarrow> [(t, TL_carState v b)] | None \<Rightarrow> [])
     @ (case tr_liveCalibration r of Some (t, m) \<Rightarrow> [(t, TL_liveCalibration m)] | None \<Rightarrow> [])
     @ (case tr_livePose r of Some (t, m) \<Rightarrow> [(t, TL_livePose m)] | None \<Rightarrow> [])
     @ (case tr_liveDelay r of Some (t, d) \<Rightarrow> [(t, TL_liveDelay d)] | None \<Rightarrow> [])"

text \<open>A round of the process: the message of a fifth of the rounds, and the one that is saved once a minute.\<close>

record torqued_in =
  ti_frame :: int
  ti_all_checks :: bool
  ti_received :: torque_received
  ti_params :: params

definition torqued_round :: "torque_env \<Rightarrow> (string \<Rightarrow> real) \<Rightarrow> torqued_in \<Rightarrow> torque_estimator
    \<Rightarrow> (live_torque_parameters option \<times> live_torque_parameters option \<times> torque_estimator) result" where
  "torqued_round env dflt i s0 =
     bind_result (if ti_all_checks i then torque_handle_logs dflt (ti_params i) (logs_of (ti_received i)) s0 else Inr s0) (\<lambda>s1.
       let s2 = update_use_params (ti_params i) s1
       in bind_result (if ti_frame i mod 5 = 0 then bind_result (torque_get_msg env (ti_all_checks i) False s2) (\<lambda>(m, s). Inr (Some m, s)) else Inr (None, s2)) (\<lambda>(m, s3).
          bind_result (if ti_frame i mod 240 = 0 then bind_result (torque_get_msg env (ti_all_checks i) True s3) (\<lambda>(m', s). Inr (Some m', s)) else Inr (None, s3)) (\<lambda>(saved, s4).
            Inr (m, saved, s4))))"

fun torqued_run :: "torque_env \<Rightarrow> (string \<Rightarrow> real) \<Rightarrow> torqued_in list \<Rightarrow> torque_estimator
    \<Rightarrow> ((live_torque_parameters option \<times> live_torque_parameters option) list \<times> torque_estimator) result" where
  "torqued_run env dflt [] s = Inr ([], s)"
| "torqued_run env dflt (i # is) s =
     bind_result (torqued_round env dflt i s) (\<lambda>(m, saved, s').
       bind_result (torqued_run env dflt is s') (\<lambda>(ms, s''). Inr ((m, saved) # ms, s'')))"

section \<open>Facts\<close>

text \<open>A filter within its limits, and its update.\<close>

definition filter_ok :: "real \<Rightarrow> real \<Rightarrow> fof \<Rightarrow> bool" where
  "filter_ok lo hi f \<longleftrightarrow> lo \<le> ff_x f \<and> ff_x f \<le> hi \<and> 0 \<le> ff_alpha f \<and> ff_alpha f \<le> 1 \<and> ff_dt f = DT_MDL"

lemma update_filter_ok:
  assumes "filter_ok lo hi f" "lo \<le> v" "v \<le> hi" "0 \<le> d" shows "filter_ok lo hi (update_filter d v f)"
  using assms fof_between [of f lo hi v] by (simp add: filter_ok_def update_filter_def fof_update_alpha_def DT_MDL_def)

lemma filter_init_ok: "lo \<le> x \<Longrightarrow> x \<le> hi \<Longrightarrow> 0 \<le> d \<Longrightarrow> filter_ok lo hi (fof_init x d DT_MDL True)"
  by (simp add: filter_ok_def fof_init_def fof_update_alpha_def DT_MDL_def)

text \<open>The histories: a torque is only there with a sample of the control and of the car for it.\<close>

definition history_ok :: "torque_history \<Rightarrow> bool" where
  "history_ok r \<longleftrightarrow> length (rp_lat_active r) = length (rp_carControl_t r) \<and> length (rp_steer_torque r) = length (rp_steer_t r)
     \<and> length (rp_vego r) = length (rp_carState_t r) \<and> length (rp_steer_override r) = length (rp_carState_t r)
     \<and> length (rp_steer_t r) \<le> length (rp_carControl_t r) \<and> length (rp_steer_t r) \<le> length (rp_carState_t r)
     \<and> length (rp_carControl_t r) \<le> tq_hist_len \<and> length (rp_carState_t r) \<le> tq_hist_len"

definition buckets_ok :: "point point_buckets \<Rightarrow> bool" where
  "buckets_ok b \<longleftrightarrow> list_all (\<lambda>(_, q). nq_maxlen q = POINTS_PER_BUCKET) (pb_buckets b)"

definition limits_of :: "torque_estimator \<Rightarrow> (real \<times> real) \<times> (real \<times> real)" where
  "limits_of s = ((tq_min_lataccel_factor s, tq_max_lataccel_factor s), (tq_min_friction s, tq_max_friction s))"

text \<open>
  The estimator with its filters in a range \<open>L\<close> around its limits. The range is wider than the
  limits when a cache was restored whose values are outside of them.
\<close>

definition range_of_limits :: "(real \<times> real) \<times> (real \<times> real) \<Rightarrow> (real \<times> real) \<times> (real \<times> real) \<Rightarrow> bool" where
  "range_of_limits L l \<longleftrightarrow> fst (fst L) \<le> fst (fst l) \<and> snd (fst l) \<le> snd (fst L) \<and> fst (snd L) \<le> fst (snd l) \<and> snd (snd l) \<le> snd (snd L)"

definition estimator_ok :: "(real \<times> real) \<times> (real \<times> real) \<Rightarrow> torque_estimator \<Rightarrow> bool" where
  "estimator_ok L s \<longleftrightarrow> range_of_limits L (limits_of s) \<and> history_ok (tq_raw s) \<and> buckets_ok (tq_points s) \<and> length (tq_min_bucket_points s) = 8 \<and> 0 \<le> tq_decay s
     \<and> tq_min_lataccel_factor s \<le> tq_max_lataccel_factor s \<and> tq_min_friction s \<le> tq_max_friction s
     \<and> filter_ok (fst (fst L)) (snd (fst L)) (tf_latAccelFactor (tq_filters s))
     \<and> filter_ok (fst (snd L)) (snd (snd L)) (tf_frictionCoefficient (tq_filters s))"

lemma hist_len: "tq_hist_len = 100"
  by (simp add: tq_hist_len_def TQ_HISTORY_def DT_MDL_def py_int_def)

lemma length_deque_append: "0 < n \<Longrightarrow> length xs \<le> n \<Longrightarrow> length (deque_append n x xs) = min n (length xs + 1)"
  by (auto simp: deque_append_def)

lemma nq_append_returns: "nq_maxlen q = POINTS_PER_BUCKET \<Longrightarrow> \<exists>q'. nq_append x q = Inr q' \<and> nq_maxlen q' = POINTS_PER_BUCKET"
  by (auto simp: nq_append_def POINTS_PER_BUCKET_def)

lemma add_to_bucket_returns:
  "list_all (\<lambda>(_, q). nq_maxlen q = POINTS_PER_BUCKET) bs \<Longrightarrow> \<exists>bs'. add_to_bucket x y bs = Inr bs' \<and> list_all (\<lambda>(_, q). nq_maxlen q = POINTS_PER_BUCKET) bs'"
proof (induction bs)
  case (Cons b bs)
  obtain lo hi q where b: "b = ((lo, hi), q)" by (metis prod.exhaust)
  with Cons show ?case using nq_append_returns [of q "(x, 1, y)"] by fastforce
qed simp

lemma add_point_returns: "buckets_ok b \<Longrightarrow> \<exists>b'. torque_add_point x y b = Inr b' \<and> buckets_ok b'"
  using add_to_bucket_returns [of "pb_buckets b" x y] by (auto simp: buckets_ok_def torque_add_point_def)

lemma load_points_returns: "buckets_ok b \<Longrightarrow> \<exists>b'. load_points ps b = Inr b' \<and> buckets_ok b'"
proof (induction ps arbitrary: b)
  case (Cons p ps)
  obtain x y where p: "p = (x, y)" by force
  from add_point_returns [OF Cons.prems, of x y] obtain b' where "torque_add_point x y b = Inr b'" "buckets_ok b'" by blast
  with Cons.IH p show ?case by simp
qed simp

lemma torque_buckets_return: "length ms = 8 \<Longrightarrow> \<exists>b. torque_buckets ms n = Inr b \<and> buckets_ok b"
  by (simp add: torque_buckets_def pb_init_def STEER_BUCKET_BOUNDS_def buckets_ok_def nq_init_def)

lemma reset_returns:
  assumes "length (tq_min_bucket_points s) = 8"
  shows "\<exists>b. torque_estimator_reset s = Inr (s\<lparr>tq_resets := tq_resets s + 1, tq_decay := MIN_FILTER_DECAY, tq_raw := empty_history, tq_points := b\<rparr>) \<and> buckets_ok b"
  using torque_buckets_return [OF assms, of "tq_min_points_total s"] by (auto simp: torque_estimator_reset_def)

lemma reset_estimator_ok: "estimator_ok L s \<Longrightarrow> \<exists>s'. torque_estimator_reset s = Inr s' \<and> estimator_ok L s'"
  using reset_returns [of s] by (auto simp: estimator_ok_def limits_of_def history_ok_def empty_history_def MIN_FILTER_DECAY_def)

section \<open>A round\<close>

text \<open>The messages of a round in order: no torque without the messages it belongs to, calibrations of three angles.\<close>

definition received_ok :: "torque_received \<Rightarrow> bool" where
  "received_ok r \<longleftrightarrow> (tr_carOutput r \<noteq> None \<longrightarrow> tr_carControl r \<noteq> None \<and> tr_carState r \<noteq> None)
     \<and> (case tr_liveCalibration r of Some (t, m) \<Rightarrow> length (lc_rpyCalib m) = 3 | None \<Rightarrow> True)"

lemma handle_logs_append:
  "torque_handle_logs dflt p (xs @ ys) s = bind_result (torque_handle_logs dflt p xs s) (torque_handle_logs dflt p ys)"
  by (induction xs arbitrary: s) (auto simp: bind_result_def split: sum.splits)

definition samples_of :: "torque_received \<Rightarrow> (real \<times> torqued_log) list" where
  "samples_of r =
     (case tr_carControl r of Some (t, a) \<Rightarrow> [(t, TL_carControl a)] | None \<Rightarrow> [])
     @ (case tr_carOutput r of Some (t, u) \<Rightarrow> [(t, TL_carOutput u)] | None \<Rightarrow> [])
     @ (case tr_carState r of Some (t, v, b) \<Rightarrow> [(t, TL_carState v b)] | None \<Rightarrow> [])"

text \<open>The lengths of the three groups of samples.\<close>

definition hist_lens :: "torque_history \<Rightarrow> nat \<Rightarrow> nat \<Rightarrow> nat \<Rightarrow> bool" where
  "hist_lens r a b c \<longleftrightarrow> length (rp_carControl_t r) = a \<and> length (rp_lat_active r) = a \<and> length (rp_steer_t r) = b \<and> length (rp_steer_torque r) = b
     \<and> length (rp_carState_t r) = c \<and> length (rp_vego r) = c \<and> length (rp_steer_override r) = c"

lemma history_ok_lens: "history_ok r \<longleftrightarrow> (\<exists>a b c. hist_lens r a b c \<and> b \<le> a \<and> b \<le> c \<and> a \<le> 100 \<and> c \<le> 100)"
  by (auto simp: history_ok_def hist_lens_def hist_len)

lemma control_sample:
  "hist_lens (tq_raw s) a b c \<Longrightarrow> a \<le> 100 \<Longrightarrow> \<exists>h. torque_handle_log dflt p t (TL_carControl x) s = Inr (s\<lparr>tq_raw := h\<rparr>) \<and> hist_lens h (min 100 (a + 1)) b c"
  by (intro exI [of _ "(tq_raw s)\<lparr>rp_carControl_t := deque_append 100 (t + tq_lag s) (rp_carControl_t (tq_raw s)), rp_lat_active := deque_append 100 x (rp_lat_active (tq_raw s))\<rparr>"])
    (simp add: torque_handle_log_def Let_def hist_lens_def hist_len length_deque_append)

lemma output_sample:
  "hist_lens (tq_raw s) a b c \<Longrightarrow> b \<le> 100 \<Longrightarrow> \<exists>h. torque_handle_log dflt p t (TL_carOutput x) s = Inr (s\<lparr>tq_raw := h\<rparr>) \<and> hist_lens h a (min 100 (b + 1)) c"
  by (intro exI [of _ "(tq_raw s)\<lparr>rp_steer_t := deque_append 100 (t + tq_lag s) (rp_steer_t (tq_raw s)), rp_steer_torque := deque_append 100 (- x) (rp_steer_torque (tq_raw s))\<rparr>"])
    (simp add: torque_handle_log_def Let_def hist_lens_def hist_len length_deque_append)

lemma state_sample:
  "hist_lens (tq_raw s) a b c \<Longrightarrow> c \<le> 100 \<Longrightarrow> \<exists>h. torque_handle_log dflt p t (TL_carState x y) s = Inr (s\<lparr>tq_raw := h\<rparr>) \<and> hist_lens h a b (min 100 (c + 1))"
  by (intro exI [of _ "(tq_raw s)\<lparr>rp_carState_t := deque_append 100 (t + tq_lag s) (rp_carState_t (tq_raw s)), rp_vego := deque_append 100 x (rp_vego (tq_raw s)), rp_steer_override := deque_append 100 y (rp_steer_override (tq_raw s))\<rparr>"])
    (simp add: torque_handle_log_def Let_def hist_lens_def hist_len length_deque_append)

definition grown :: "bool \<Rightarrow> nat \<Rightarrow> nat" where
  "grown b n = (if b then min 100 (n + 1) else n)"

lemma control_part:
  assumes "hist_lens (tq_raw s) a b c" "a \<le> 100"
  shows "\<exists>h. torque_handle_logs dflt p (case tr_carControl r of Some (t, a) \<Rightarrow> [(t, TL_carControl a)] | None \<Rightarrow> []) s = Inr (s\<lparr>tq_raw := h\<rparr>)
    \<and> hist_lens h (grown (tr_carControl r \<noteq> None) a) b c"
proof (cases "tr_carControl r")
  case None
  then show ?thesis using assms by (intro exI [of _ "tq_raw s"]) (simp add: grown_def)
next
  case (Some q)
  obtain t x where q: "q = (t, x)" by force
  from control_sample [OF assms, of dflt p t x] obtain h where "torque_handle_log dflt p t (TL_carControl x) s = Inr (s\<lparr>tq_raw := h\<rparr>)" "hist_lens h (min 100 (a + 1)) b c" by blast
  then show ?thesis using Some q by (intro exI [of _ h]) (simp add: grown_def)
qed

lemma output_part:
  assumes "hist_lens (tq_raw s) a b c" "b \<le> 100"
  shows "\<exists>h. torque_handle_logs dflt p (case tr_carOutput r of Some (t, u) \<Rightarrow> [(t, TL_carOutput u)] | None \<Rightarrow> []) s = Inr (s\<lparr>tq_raw := h\<rparr>)
    \<and> hist_lens h a (grown (tr_carOutput r \<noteq> None) b) c"
proof (cases "tr_carOutput r")
  case None
  then show ?thesis using assms by (intro exI [of _ "tq_raw s"]) (simp add: grown_def)
next
  case (Some q)
  obtain t x where q: "q = (t, x)" by force
  from output_sample [OF assms, of dflt p t x] obtain h where "torque_handle_log dflt p t (TL_carOutput x) s = Inr (s\<lparr>tq_raw := h\<rparr>)" "hist_lens h a (min 100 (b + 1)) c" by blast
  then show ?thesis using Some q by (intro exI [of _ h]) (simp add: grown_def)
qed

lemma state_part:
  assumes "hist_lens (tq_raw s) a b c" "c \<le> 100"
  shows "\<exists>h. torque_handle_logs dflt p (case tr_carState r of Some (t, v, b) \<Rightarrow> [(t, TL_carState v b)] | None \<Rightarrow> []) s = Inr (s\<lparr>tq_raw := h\<rparr>)
    \<and> hist_lens h a b (grown (tr_carState r \<noteq> None) c)"
proof (cases "tr_carState r")
  case None
  then show ?thesis using assms by (intro exI [of _ "tq_raw s"]) (simp add: grown_def)
next
  case (Some q)
  obtain t x y where q: "q = (t, x, y)" by (metis prod.exhaust)
  from state_sample [OF assms, of dflt p t x y] obtain h where "torque_handle_log dflt p t (TL_carState x y) s = Inr (s\<lparr>tq_raw := h\<rparr>)" "hist_lens h a b (min 100 (c + 1))" by blast
  then show ?thesis using Some q by (intro exI [of _ h]) (simp add: grown_def)
qed

lemma samples_ok:
  assumes "estimator_ok L s" "received_ok r"
  shows "\<exists>h. torque_handle_logs dflt p (samples_of r) s = Inr (s\<lparr>tq_raw := h\<rparr>) \<and> history_ok h"
proof -
  obtain a b c where l: "hist_lens (tq_raw s) a b c" "b \<le> a" "b \<le> c" "a \<le> 100" "c \<le> 100" using assms(1) by (auto simp: estimator_ok_def history_ok_lens)
  obtain h1 where h1: "torque_handle_logs dflt p (case tr_carControl r of Some (t, a) \<Rightarrow> [(t, TL_carControl a)] | None \<Rightarrow> []) s = Inr (s\<lparr>tq_raw := h1\<rparr>)"
    "hist_lens h1 (grown (tr_carControl r \<noteq> None) a) b c" using control_part [OF l(1,4)] by blast
  have l1: "hist_lens (tq_raw (s\<lparr>tq_raw := h1\<rparr>)) (grown (tr_carControl r \<noteq> None) a) b c" "b \<le> 100" using h1(2) l by simp_all
  from output_part [OF l1, of dflt p r] obtain h2 where h2: "torque_handle_logs dflt p (case tr_carOutput r of Some (t, u) \<Rightarrow> [(t, TL_carOutput u)] | None \<Rightarrow> []) (s\<lparr>tq_raw := h1\<rparr>)
      = Inr (s\<lparr>tq_raw := h1, tq_raw := h2\<rparr>)"
    "hist_lens h2 (grown (tr_carControl r \<noteq> None) a) (grown (tr_carOutput r \<noteq> None) b) c" by blast
  have l2: "hist_lens (tq_raw (s\<lparr>tq_raw := h2\<rparr>)) (grown (tr_carControl r \<noteq> None) a) (grown (tr_carOutput r \<noteq> None) b) c" using h2(2) by simp
  from state_part [OF l2 l(5), of dflt p r] obtain h3 where h3: "torque_handle_logs dflt p (case tr_carState r of Some (t, v, b) \<Rightarrow> [(t, TL_carState v b)] | None \<Rightarrow> []) (s\<lparr>tq_raw := h2\<rparr>)
      = Inr (s\<lparr>tq_raw := h2, tq_raw := h3\<rparr>)"
    "hist_lens h3 (grown (tr_carControl r \<noteq> None) a) (grown (tr_carOutput r \<noteq> None) b) (grown (tr_carState r \<noteq> None) c)" by blast
  have "tr_carOutput r \<noteq> None \<longrightarrow> tr_carControl r \<noteq> None \<and> tr_carState r \<noteq> None" using assms(2) by (simp add: received_ok_def)
  then have "history_ok h3" unfolding history_ok_lens using l
    by (intro exI conjI) (rule h3(2), auto simp: grown_def simp del: not_None_eq)
  then show ?thesis using h1(1) h2(1) h3(1) by (auto simp: samples_of_def handle_logs_append)
qed

lemma estimator_history: "estimator_ok L s \<Longrightarrow> history_ok h \<Longrightarrow> estimator_ok L (s\<lparr>tq_raw := h\<rparr>)"
  by (simp add: estimator_ok_def limits_of_def)

lemma torque_point_returns:
  assumes "history_ok (tq_raw s)" "length (rp_steer_torque (tq_raw s)) = tq_hist_len" shows "\<exists>pt. torque_point t y r s = Inr pt"
proof -
  have "rp_carControl_t (tq_raw s) \<noteq> []" "rp_carState_t (tq_raw s) \<noteq> []" "rp_steer_t (tq_raw s) \<noteq> []" using assms by (auto simp: history_ok_def hist_len)
  then show ?thesis using assms(1) by (simp add: torque_point_def Let_def interp_bools_def interp_samples_def history_ok_def)
qed

lemma other_log_ok:
  assumes ok: "estimator_ok L s" and l: "case l of TL_liveCalibration m \<Rightarrow> length (lc_rpyCalib m) = 3 | TL_liveDelay d \<Rightarrow> True | TL_livePose m \<Rightarrow> True | _ \<Rightarrow> False"
  shows "\<exists>s'. torque_handle_log dflt p t l s = Inr s' \<and> estimator_ok L s'"
proof (cases l)
  case (TL_liveCalibration m)
  with l obtain a b c where "lc_rpyCalib m = [a, b, c]" by (auto simp: length_Suc_conv eval_nat_numeral)
  then show ?thesis using ok TL_liveCalibration by (simp add: torque_handle_log_def feed_live_calib_def estimator_ok_def limits_of_def)
next
  case (TL_livePose m)
  show ?thesis
  proof (cases "length (rp_steer_torque (tq_raw s)) = tq_hist_len")
    case True
    let ?y = "po_angular_velocity_yaw (build_calibrated_pose (tq_calibrator s) (from_live_pose m))"
    let ?r = "fst (me_xyz (po_orientation (from_live_pose m)))"
    have "history_ok (tq_raw s)" using ok by (simp add: estimator_ok_def limits_of_def)
    from torque_point_returns [OF this True, of t ?y ?r] obtain pt where pt: "torque_point t ?y ?r s = Inr pt" by blast
    show ?thesis
    proof (cases pt)
      case None
      then show ?thesis using TL_livePose True pt ok by (simp add: torque_handle_log_def Let_def)
    next
      case (Some xy)
      obtain x y where xy: "xy = (x, y)" by force
      have "buckets_ok (tq_points s)" using ok by (simp add: estimator_ok_def limits_of_def)
      from add_point_returns [OF this, of x y] obtain b where "torque_add_point x y (tq_points s) = Inr b" "buckets_ok b" by blast
      then show ?thesis using TL_livePose True pt Some xy ok by (simp add: torque_handle_log_def Let_def estimator_ok_def limits_of_def)
    qed
  next
    case False
    then show ?thesis using TL_livePose ok by (simp add: torque_handle_log_def Let_def)
  qed
qed (use ok l in \<open>simp_all add: torque_handle_log_def estimator_ok_def limits_of_def\<close>)

definition others_of :: "torque_received \<Rightarrow> (real \<times> torqued_log) list" where
  "others_of r =
     (case tr_liveCalibration r of Some (t, m) \<Rightarrow> [(t, TL_liveCalibration m)] | None \<Rightarrow> [])
     @ (case tr_livePose r of Some (t, m) \<Rightarrow> [(t, TL_livePose m)] | None \<Rightarrow> [])
     @ (case tr_liveDelay r of Some (t, d) \<Rightarrow> [(t, TL_liveDelay d)] | None \<Rightarrow> [])"

lemma other_logs_ok:
  "estimator_ok L s \<Longrightarrow> \<forall>(t, l)\<in>set ls. case l of TL_liveCalibration m \<Rightarrow> length (lc_rpyCalib m) = 3 | TL_liveDelay d \<Rightarrow> True | TL_livePose m \<Rightarrow> True | _ \<Rightarrow> False
    \<Longrightarrow> \<exists>s'. torque_handle_logs dflt p ls s = Inr s' \<and> estimator_ok L s'"
proof (induction ls arbitrary: s)
  case (Cons x ls)
  obtain t l where x: "x = (t, l)" by force
  from other_log_ok [OF Cons.prems(1), of l dflt p t] Cons.prems(2) x obtain s' where "torque_handle_log dflt p t l s = Inr s'" "estimator_ok L s'" by auto
  with Cons.IH [of s'] Cons.prems(2) x show ?case by auto
qed simp

lemma logs_ok:
  assumes "estimator_ok L s" "received_ok r" shows "\<exists>s'. torque_handle_logs dflt p (logs_of r) s = Inr s' \<and> estimator_ok L s'"
proof -
  have split: "logs_of r = samples_of r @ others_of r" by (simp add: logs_of_def samples_of_def others_of_def)
  from samples_ok [OF assms] obtain h where h: "torque_handle_logs dflt p (samples_of r) s = Inr (s\<lparr>tq_raw := h\<rparr>)" "history_ok h" by blast
  have "\<forall>(t, l)\<in>set (others_of r). case l of TL_liveCalibration m \<Rightarrow> length (lc_rpyCalib m) = 3 | TL_liveDelay d \<Rightarrow> True | TL_livePose m \<Rightarrow> True | _ \<Rightarrow> False"
    using assms(2) by (auto simp: others_of_def received_ok_def split: option.splits)
  from other_logs_ok [OF estimator_history [OF assms(1) h(2)] this] show ?thesis unfolding split handle_logs_append h(1) bind_result_simps .
qed

lemma torque_estimate_ok:
  assumes ok: "estimator_ok L s" shows "\<exists>e v s'. torque_estimate env s = Inr (e, v, s') \<and> estimator_ok L s'"
proof (cases "pb_is_calculable (tq_points s) \<and> pb_is_valid (tq_points s)")
  case True
  show ?thesis
  proof (cases "estimate_params env s")
    case None
    from reset_estimator_ok [OF ok] obtain s' where "torque_estimator_reset s = Inr s'" "estimator_ok L s'" by blast
    then have "torque_estimate env s = Inr (None, False, s')" using True None by (simp add: torque_estimate_def Let_def)
    with \<open>estimator_ok L s'\<close> show ?thesis by blast
  next
    case (Some v)
    obtain factor offset friction where v: "v = (factor, offset, friction)" by (metis prod.exhaust)
    have "0 \<le> min (tq_decay s + DT_MDL) MAX_FILTER_DECAY" using ok by (simp add: estimator_ok_def DT_MDL_def MAX_FILTER_DECAY_def)
    moreover have "fst (fst L) \<le> clip factor (tq_min_lataccel_factor s) (tq_max_lataccel_factor s)" "clip factor (tq_min_lataccel_factor s) (tq_max_lataccel_factor s) \<le> snd (fst L)"
      "fst (snd L) \<le> clip friction (tq_min_friction s) (tq_max_friction s)" "clip friction (tq_min_friction s) (tq_max_friction s) \<le> snd (snd L)"
      using ok clip_bounds(1) [of "tq_min_lataccel_factor s" "tq_max_lataccel_factor s" factor] clip_bounds(2) [of factor "tq_min_lataccel_factor s" "tq_max_lataccel_factor s"]
        clip_bounds(1) [of "tq_min_friction s" "tq_max_friction s" friction] clip_bounds(2) [of friction "tq_min_friction s" "tq_max_friction s"]
      by (simp_all add: estimator_ok_def range_of_limits_def limits_of_def)
    ultimately have "estimator_ok L (torque_update_params (clip factor (tq_min_lataccel_factor s) (tq_max_lataccel_factor s)) offset (clip friction (tq_min_friction s) (tq_max_friction s)) s)"
      using ok by (simp add: estimator_ok_def limits_of_def torque_update_params_def Let_def update_filter_ok)
    moreover from True Some v have "torque_estimate env s = Inr (Some v, True,
        torque_update_params (clip factor (tq_min_lataccel_factor s) (tq_max_lataccel_factor s)) offset (clip friction (tq_min_friction s) (tq_max_friction s)) s)"
      by (simp add: torque_estimate_def Let_def)
    ultimately show ?thesis by blast
  qed
next
  case False
  then show ?thesis using ok by (auto simp: torque_estimate_def Let_def)
qed

lemma torque_get_msg_ok:
  assumes "estimator_ok L s"
  shows "\<exists>m s'. torque_get_msg env valid wp s = Inr (m, s') \<and> estimator_ok L s'
    \<and> lt_latAccelFactorFiltered m = ff_x (tf_latAccelFactor (tq_filters s')) \<and> lt_frictionCoefficientFiltered m = ff_x (tf_frictionCoefficient (tq_filters s'))"
  using torque_estimate_ok [OF assms, of env] by (auto simp: torque_get_msg_def)

lemma use_params_ok: "estimator_ok L (update_use_params p s) = estimator_ok L s"
  by (simp add: estimator_ok_def limits_of_def update_use_params_def torque_update_settings_def Let_def)

section \<open>Rounds\<close>

text \<open>A message with values within the range \<open>L\<close>.\<close>

definition msg_within :: "(real \<times> real) \<times> (real \<times> real) \<Rightarrow> live_torque_parameters \<Rightarrow> bool" where
  "msg_within L m \<longleftrightarrow> fst (fst L) \<le> lt_latAccelFactorFiltered m \<and> lt_latAccelFactorFiltered m \<le> snd (fst L)
     \<and> fst (snd L) \<le> lt_frictionCoefficientFiltered m \<and> lt_frictionCoefficientFiltered m \<le> snd (snd L)"

definition sent_within :: "(real \<times> real) \<times> (real \<times> real) \<Rightarrow> live_torque_parameters option \<Rightarrow> bool" where
  "sent_within L m = (case m of Some x \<Rightarrow> msg_within L x | None \<Rightarrow> True)"

lemma sent_simps [simp]: "sent_within L None" "sent_within L (Some m) = msg_within L m"
  by (simp_all add: sent_within_def)

lemma ok_msg_within:
  "estimator_ok L s \<Longrightarrow> lt_latAccelFactorFiltered m = ff_x (tf_latAccelFactor (tq_filters s)) \<Longrightarrow> lt_frictionCoefficientFiltered m = ff_x (tf_frictionCoefficient (tq_filters s))
    \<Longrightarrow> msg_within L m"
  by (auto simp: estimator_ok_def limits_of_def filter_ok_def msg_within_def)

lemma get_msg_within:
  assumes "estimator_ok L s" shows "\<exists>m s'. torque_get_msg env valid wp s = Inr (m, s') \<and> estimator_ok L s' \<and> msg_within L m"
  using torque_get_msg_ok [OF assms, of env valid wp] ok_msg_within by metis

text \<open>The part of a round that sends, if it is its turn.\<close>

lemma send_part:
  assumes "estimator_ok L s"
  shows "\<exists>m s'. (if c then bind_result (torque_get_msg env valid wp s) (\<lambda>(m, s). Inr (Some m, s)) else Inr (None, s)) = Inr (m, s') \<and> estimator_ok L s' \<and> sent_within L m"
proof (cases c)
  case True
  from get_msg_within [OF assms] obtain m s' where "torque_get_msg env valid wp s = Inr (m, s')" "estimator_ok L s'" "msg_within L m" by blast
  with True show ?thesis by (intro exI [of _ "Some m"] exI [of _ s']) simp
next
  case False
  with assms show ?thesis by (intro exI [of _ None] exI [of _ s]) simp
qed

lemma torqued_round_ok:
  assumes ok: "estimator_ok L s" and r: "received_ok (ti_received i)"
  shows "\<exists>m saved s'. torqued_round env dflt i s = Inr (m, saved, s') \<and> estimator_ok L s' \<and> sent_within L m \<and> sent_within L saved"
proof -
  have "\<exists>s1. (if ti_all_checks i then torque_handle_logs dflt (ti_params i) (logs_of (ti_received i)) s else Inr s) = Inr s1 \<and> estimator_ok L s1"
    using logs_ok [OF ok r, of dflt "ti_params i"] ok by simp
  then obtain s1 where s1: "(if ti_all_checks i then torque_handle_logs dflt (ti_params i) (logs_of (ti_received i)) s else Inr s) = Inr s1" "estimator_ok L s1" by blast
  from s1(2) have ok2: "estimator_ok L (update_use_params (ti_params i) s1)" by (simp add: use_params_ok)
  from send_part [OF ok2, of "ti_frame i mod 5 = 0" env "ti_all_checks i" False] obtain m s3 where
    s3: "(if ti_frame i mod 5 = 0 then bind_result (torque_get_msg env (ti_all_checks i) False (update_use_params (ti_params i) s1)) (\<lambda>(m, s). Inr (Some m, s))
          else Inr (None, update_use_params (ti_params i) s1)) = Inr (m, s3)" "estimator_ok L s3" "sent_within L m" by blast
  from send_part [OF s3(2), of "ti_frame i mod 240 = 0" env "ti_all_checks i" True] obtain saved s4 where
    s4: "(if ti_frame i mod 240 = 0 then bind_result (torque_get_msg env (ti_all_checks i) True s3) (\<lambda>(m, s). Inr (Some m, s)) else Inr (None, s3)) = Inr (saved, s4)"
    "estimator_ok L s4" "sent_within L saved" by blast
  have "torqued_round env dflt i s = Inr (m, saved, s4)" unfolding torqued_round_def Let_def s1(1) bind_result_simps s3(1) prod.case s4(1) ..
  with s3(3) s4(2,3) show ?thesis by blast
qed

text \<open>A run collects what is sent and what is saved.\<close>

lemma torqued_run_ok:
  "estimator_ok L s \<Longrightarrow> list_all (\<lambda>i. received_ok (ti_received i)) is
    \<Longrightarrow> \<exists>ms s'. torqued_run env dflt is s = Inr (ms, s') \<and> estimator_ok L s' \<and> length ms = length is \<and> list_all (\<lambda>(m, saved). sent_within L m \<and> sent_within L saved) ms"
proof (induction "is" arbitrary: s)
  case (Cons i "is")
  from torqued_round_ok [OF Cons.prems(1), of i env dflt] Cons.prems(2) obtain m saved s1 where
    s1: "torqued_round env dflt i s = Inr (m, saved, s1)" "estimator_ok L s1" "sent_within L m" "sent_within L saved" by auto
  from Cons.IH [OF s1(2)] Cons.prems(2) obtain ms s2 where
    "torqued_run env dflt is s1 = Inr (ms, s2)" "estimator_ok L s2" "length ms = length is" "list_all (\<lambda>(m, saved). sent_within L m \<and> sent_within L saved) ms" by auto
  with s1 show ?case by simp
qed simp

section \<open>The start\<close>

text \<open>The values the car's tuning gives are not negative, and neither is a sanity factor.\<close>

definition start_ok :: "torque_estimator \<Rightarrow> bool" where
  "start_ok s \<longleftrightarrow> length (tq_min_bucket_points s) = 8 \<and> 0 \<le> tq_offline_latAccelFactor s \<and> 0 \<le> tq_offline_friction s \<and> 0 \<le> tq_factor_sanity s \<and> 0 \<le> tq_friction_sanity s"

definition tuning_nonneg :: "car_params \<Rightarrow> bool" where
  "tuning_nonneg CP = (case cp_lateralTuning CP of LT_torque t \<Rightarrow> 0 \<le> tt_friction t \<and> 0 \<le> tt_latAccelFactor t | _ \<Rightarrow> True)"

lemma blank_ok: "tuning_nonneg CP \<Longrightarrow> start_ok (offline_params CP (torque_estimator_blank CP p d))"
  by (simp add: start_ok_def offline_params_def torque_estimator_blank_def tuning_nonneg_def MIN_BUCKET_POINTS_def FACTOR_SANITY_def FACTOR_SANITY_QLOG_def
      FRICTION_SANITY_def FRICTION_SANITY_QLOG_def split: lateral_tuning.splits)

lemma use_params_start: "start_ok (update_use_params p s) = start_ok s"
  by (simp add: start_ok_def update_use_params_def torque_update_settings_def Let_def)

lemma custom_params_ok:
  assumes "start_ok s" "0 \<le> get_float dflt p ''TorqueParamsOverrideLatAccelFactor''" "0 \<le> get_float dflt p ''TorqueParamsOverrideFriction''"
  shows "start_ok (initialize_custom_params dflt p d s)"
proof -
  have "start_ok (update_use_params p s)" using assms(1) by (simp add: use_params_start)
  with assms(2,3) show ?thesis by (simp add: initialize_custom_params_def Let_def start_ok_def RELAXED_MIN_BUCKET_POINTS_def)
qed

text \<open>
  The cache whose values the constructor takes over, that of the same car and version that was
  valid, and the smallest range that has them and the limits.
\<close>

definition restored :: "car_params \<Rightarrow> torque_cache option \<Rightarrow> torque_cache option" where
  "restored CP cache = (case cache of None \<Rightarrow> None
     | Some c \<Rightarrow> if get_restore_key (tc_CP c) (tc_version c) = get_restore_key CP TQ_VERSION \<and> tc_liveValid c then Some c else None)"

definition widened :: "(real \<times> real) \<times> (real \<times> real) \<Rightarrow> torque_cache option \<Rightarrow> (real \<times> real) \<times> (real \<times> real)" where
  "widened L cache = (case cache of None \<Rightarrow> L
     | Some c \<Rightarrow> ((min (fst (fst L)) (tc_latAccelFactorFiltered c), max (snd (fst L)) (tc_latAccelFactorFiltered c)),
                 (min (fst (snd L)) (tc_frictionCoefficientFiltered c), max (snd (snd L)) (tc_frictionCoefficientFiltered c))))"

definition cache_within :: "(real \<times> real) \<times> (real \<times> real) \<Rightarrow> torque_cache option \<Rightarrow> bool" where
  "cache_within L cache = (case cache of
     Some c \<Rightarrow> fst (fst L) \<le> tc_latAccelFactorFiltered c \<and> tc_latAccelFactorFiltered c \<le> snd (fst L)
       \<and> fst (snd L) \<le> tc_frictionCoefficientFiltered c \<and> tc_frictionCoefficientFiltered c \<le> snd (snd L)
   | None \<Rightarrow> True)"

lemma widened_id: "cache_within L cache \<Longrightarrow> widened L cache = L"
  by (cases L) (auto simp: cache_within_def widened_def split: option.splits prod.splits)

lemma widened_range: "range_of_limits (widened L cache) L"
  by (simp add: range_of_limits_def widened_def split: option.split)

lemma widened_values:
  "fst (fst (widened L (Some c))) \<le> tc_latAccelFactorFiltered c" "tc_latAccelFactorFiltered c \<le> snd (fst (widened L (Some c)))"
  "fst (snd (widened L (Some c))) \<le> tc_frictionCoefficientFiltered c" "tc_frictionCoefficientFiltered c \<le> snd (snd (widened L (Some c)))"
  by (simp_all add: widened_def)

lemma around: "0 \<le> (x::real) \<Longrightarrow> 0 \<le> k \<Longrightarrow> (1 - k) * x \<le> x \<and> x \<le> (1 + k) * x"
  by (simp add: algebra_simps)

lemma filters_of_ok:
  "lo \<le> factor \<Longrightarrow> factor \<le> hi \<Longrightarrow> lo' \<le> friction \<Longrightarrow> friction \<le> hi' \<Longrightarrow> 0 \<le> d
    \<Longrightarrow> filter_ok lo hi (tf_latAccelFactor (torque_filters_of factor ofs friction d)) \<and> filter_ok lo' hi' (tf_frictionCoefficient (torque_filters_of factor ofs friction d))"
  by (simp add: torque_filters_of_def filter_init_ok)

text \<open>Before the cache is looked at, everything but the filters is as it should be.\<close>

definition bare_ok :: "torque_estimator \<Rightarrow> bool" where
  "bare_ok s \<longleftrightarrow> history_ok (tq_raw s) \<and> buckets_ok (tq_points s) \<and> length (tq_min_bucket_points s) = 8 \<and> 0 \<le> tq_decay s
     \<and> tq_min_lataccel_factor s \<le> tq_offline_latAccelFactor s \<and> tq_offline_latAccelFactor s \<le> tq_max_lataccel_factor s
     \<and> tq_min_friction s \<le> tq_offline_friction s \<and> tq_offline_friction s \<le> tq_max_friction s"

lemma bare_filters:
  assumes "bare_ok s" "range_of_limits L (limits_of s)" "buckets_ok b" "0 \<le> d" "fst (fst L) \<le> factor" "factor \<le> snd (fst L)"
    "fst (snd L) \<le> friction" "friction \<le> snd (snd L)"
  shows "estimator_ok L (s\<lparr>tq_points := b, tq_decay := d, tq_filters := torque_filters_of factor ofs friction d\<rparr>)"
  using assms filters_of_ok [of "fst (fst L)" factor "snd (fst L)" "fst (snd L)" friction "snd (snd L)" d ofs]
  by (simp add: estimator_ok_def bare_ok_def limits_of_def)

lemma bare_offline:
  assumes "bare_ok s" "range_of_limits L (limits_of s)" "buckets_ok b" "0 \<le> d"
  shows "estimator_ok L (s\<lparr>tq_points := b, tq_decay := d, tq_filters := torque_filters_of (tq_offline_latAccelFactor s) ofs (tq_offline_friction s) d\<rparr>)"
  using assms by (intro bare_filters [OF assms]) (auto simp: bare_ok_def range_of_limits_def limits_of_def)

lemma restore_ok:
  assumes bare: "bare_ok s" and c: "\<forall>c. cache = Some c \<longrightarrow> 0 \<le> tc_decay c"
  shows "\<exists>s'. restore_cache cache s = Inr s' \<and> estimator_ok (widened (limits_of s) (restored (tq_CP s) cache)) s'"
proof -
  let ?L = "widened (limits_of s) (restored (tq_CP s) cache)"
  note off = bare_offline [OF bare widened_range]
  have fresh: "estimator_ok ?L (s\<lparr>tq_filters := torque_filters_of (tq_offline_latAccelFactor s) 0 (tq_offline_friction s) (tq_decay s)\<rparr>)"
    using off [of "tq_points s" "tq_decay s" "restored (tq_CP s) cache" 0] bare by (simp add: bare_ok_def)
  show ?thesis
  proof (cases cache)
    case None
    with fresh show ?thesis by (simp add: restore_cache_def)
  next
    case (Some x)
    show ?thesis
    proof (cases "get_restore_key (tc_CP x) (tc_version x) = get_restore_key (tq_CP s) TQ_VERSION")
      case False
      with Some fresh show ?thesis by (simp add: restore_cache_def)
    next
      case True
      have "buckets_ok (tq_points s)" using bare by (simp add: bare_ok_def)
      from load_points_returns [OF this, of "tc_points x"] obtain b where b: "load_points (tc_points x) (tq_points s) = Inr b" "buckets_ok b" by blast
      have d: "0 \<le> tc_decay x" using c Some by simp
      show ?thesis
      proof (cases "tc_liveValid x")
        case True': True
        have r: "restored (tq_CP s) cache = Some x" using Some True True' by (simp add: restored_def)
        have "estimator_ok ?L (s\<lparr>tq_points := b, tq_decay := tc_decay x, tq_filters := torque_filters_of (tc_latAccelFactorFiltered x) (tc_latAccelOffsetFiltered x) (tc_frictionCoefficientFiltered x) (tc_decay x)\<rparr>)"
          unfolding r by (rule bare_filters [OF bare widened_range b(2) d widened_values])
        with Some True True' b show ?thesis by (simp add: restore_cache_def)
      next
        case False
        from off [OF b(2) d, of "restored (tq_CP s) cache" 0] Some True False b show ?thesis by (simp add: restore_cache_def)
      qed
    qed
  qed
qed

definition torque_start :: "(string \<Rightarrow> real) \<Rightarrow> car_params \<Rightarrow> params \<Rightarrow> bool \<Rightarrow> torque_estimator" where
  "torque_start dflt CP p d = torque_limits (initialize_custom_params dflt p d (offline_params CP (torque_estimator_blank CP p d)))"

lemma CP_frame:
  "tq_CP (update_use_params p s) = tq_CP s" "tq_CP (initialize_custom_params dflt p d s) = tq_CP s"
  "tq_CP (offline_params CP s) = tq_CP s" "tq_CP (torque_estimator_blank CP p d) = CP"
proof -
  show use: "tq_CP (update_use_params p s) = tq_CP s" for s
    by (simp add: update_use_params_def torque_update_settings_def Let_def)
  show "tq_CP (initialize_custom_params dflt p d s) = tq_CP s" by (simp add: initialize_custom_params_def use Let_def)
  show "tq_CP (offline_params CP s) = tq_CP s" by (cases "cp_lateralTuning CP") (simp_all add: offline_params_def)
  show "tq_CP (torque_estimator_blank CP p d) = CP" by (simp add: torque_estimator_blank_def)
qed

lemma estimator_init_ok:
  assumes "tuning_nonneg CP" "0 \<le> get_float dflt p ''TorqueParamsOverrideLatAccelFactor''" "0 \<le> get_float dflt p ''TorqueParamsOverrideFriction''"
    "\<forall>c. cache = Some c \<longrightarrow> 0 \<le> tc_decay c"
  shows "\<exists>s. TorqueEstimator_init dflt CP p d cache = Inr s \<and> estimator_ok (widened (limits_of (torque_start dflt CP p d)) (restored CP cache)) s"
proof -
  let ?i = "initialize_custom_params dflt p d (offline_params CP (torque_estimator_blank CP p d))"
  have st: "start_ok ?i" using assms by (intro custom_params_ok blank_ok)
  then have "length (tq_min_bucket_points ?i) = 8" by (simp add: start_ok_def)
  from reset_returns [OF this] obtain b where
    b: "torque_estimator_reset ?i = Inr (?i\<lparr>tq_resets := tq_resets ?i + 1, tq_decay := MIN_FILTER_DECAY, tq_raw := empty_history, tq_points := b\<rparr>)" "buckets_ok b" by blast
  let ?s = "torque_limits (?i\<lparr>tq_resets := tq_resets ?i + 1, tq_decay := MIN_FILTER_DECAY, tq_raw := empty_history, tq_points := b\<rparr>)"
  have lim: "limits_of ?s = limits_of (torque_start dflt CP p d)" by (simp add: torque_start_def torque_limits_def limits_of_def)
  have "bare_ok ?s" using st b(2) around [of "tq_offline_latAccelFactor ?i" "tq_factor_sanity ?i"] around [of "tq_offline_friction ?i" "tq_friction_sanity ?i"]
    by (simp add: bare_ok_def torque_limits_def start_ok_def history_ok_def empty_history_def MIN_FILTER_DECAY_def)
  moreover have "tq_CP ?s = CP"
    by (simp add: torque_limits_def CP_frame)
  ultimately obtain s where "restore_cache cache ?s = Inr s" "estimator_ok (widened (limits_of (torque_start dflt CP p d)) (restored CP cache)) s"
    using restore_ok [of ?s cache] assms(4) unfolding lim by auto
  then show ?thesis using b(1) by (simp add: TorqueEstimator_init_def)
qed

text \<open>
  C38. Whatever is measured and whatever numpy returns for the fit, torqued starts and no round of it fails; every message it sends or saves has
  a filtered lateral acceleration factor and a friction in the smallest range that has the limits around the offline values and the values it
  has restored from its cache. So they are within the limits when no cache is restored or the restored values are; the constructor does not
  clip them to the limits of this drive. Needed are offline values that are not negative, a cache whose decay is not, calibrations of three
  angles, and no torque received without the messages of control and car.
\<close>

theorem torque_params_in_range:
  assumes "tuning_nonneg CP" "0 \<le> get_float dflt p ''TorqueParamsOverrideLatAccelFactor''" "0 \<le> get_float dflt p ''TorqueParamsOverrideFriction''"
    and "\<forall>c. cache = Some c \<longrightarrow> 0 \<le> tc_decay c" and "list_all (\<lambda>i. received_ok (ti_received i)) is"
  shows "\<exists>s ms s'. TorqueEstimator_init dflt CP p d cache = Inr s \<and> torqued_run env dflt is s = Inr (ms, s') \<and> length ms = length is
    \<and> list_all (\<lambda>(m, saved). sent_within (widened (limits_of (torque_start dflt CP p d)) (restored CP cache)) m
         \<and> sent_within (widened (limits_of (torque_start dflt CP p d)) (restored CP cache)) saved) ms
    \<and> (cache_within (limits_of (torque_start dflt CP p d)) (restored CP cache) \<longrightarrow>
         list_all (\<lambda>(m, saved). sent_within (limits_of (torque_start dflt CP p d)) m \<and> sent_within (limits_of (torque_start dflt CP p d)) saved) ms)"
proof -
  from estimator_init_ok [OF assms(1-4)] obtain s where
    s: "TorqueEstimator_init dflt CP p d cache = Inr s" "estimator_ok (widened (limits_of (torque_start dflt CP p d)) (restored CP cache)) s" by blast
  from torqued_run_ok [OF s(2) assms(5), of env dflt] s(1) widened_id [of "limits_of (torque_start dflt CP p d)" "restored CP cache"] show ?thesis by auto
qed

text \<open>A car with factor 2 and friction 0.1, whose cache says 2.2 and 0.12, and two rounds.\<close>

definition test_torque_cache :: torque_cache where
  "test_torque_cache = \<lparr>tc_CP = torque_cp, tc_version = 1, tc_liveValid = True, tc_latAccelFactorFiltered = 22/10, tc_latAccelOffsetFiltered = 0,
     tc_frictionCoefficientFiltered = 12/100, tc_points = [(1/20, 1/10), (- 1/20, - 1/10)], tc_decay = 60\<rparr>"

definition test_received :: torque_received where
  "test_received = \<lparr>tr_carControl = Some (1, True), tr_carOutput = Some (1, 1/10), tr_carState = Some (1, 20, False),
     tr_liveCalibration = Some (1, default_sd_msgs\<lparr>lc_rpyCalib := [0, 0, 0]\<rparr>), tr_livePose = Some (1, default_sd_msgs), tr_liveDelay = Some (1, 2/10)\<rparr>"

lemma test_torque_limits: "limits_of (torque_start (\<lambda>_. 1) torque_cp Map.empty False) = ((14/10, 26/10), (5/100, 15/100))"
  by (simp add: torque_start_def torque_limits_def limits_of_def initialize_custom_params_def update_use_params_def torque_update_settings_def Let_def get_bool_def
      offline_params_def torque_estimator_blank_def torque_cp_def FACTOR_SANITY_def FRICTION_SANITY_def)

definition test_torque_rounds :: "torqued_in list" where
  "test_torque_rounds = [\<lparr>ti_frame = 0, ti_all_checks = True, ti_received = test_received, ti_params = Map.empty\<rparr>,
     \<lparr>ti_frame = 1, ti_all_checks = True, ti_received = test_received, ti_params = Map.empty\<rparr>]"

lemma test_torque_ok:
  "tuning_nonneg torque_cp" "0 \<le> get_float (\<lambda>_. 1) Map.empty k" "\<forall>c. Some test_torque_cache = Some c \<longrightarrow> 0 \<le> tc_decay c"
  "cache_within (limits_of (torque_start (\<lambda>_. 1) torque_cp Map.empty False)) (restored torque_cp (Some test_torque_cache))"
  "list_all (\<lambda>i. received_ok (ti_received i)) test_torque_rounds"
  unfolding test_torque_limits
  by (simp_all add: tuning_nonneg_def torque_cp_def get_float_def cache_within_def restored_def test_torque_cache_def received_ok_def test_received_def test_torque_rounds_def del: not_None_eq)

theorem torque_params_in_range_witness:
  "\<exists>s ms s'. TorqueEstimator_init (\<lambda>_. 1) torque_cp Map.empty False (Some test_torque_cache) = Inr s
    \<and> torqued_run \<lparr>te_svd = (\<lambda>_. Some (-2, 0, 1)), te_choose = take\<rparr> (\<lambda>_. 1) test_torque_rounds s = Inr (ms, s') \<and> length ms = length test_torque_rounds
    \<and> list_all (\<lambda>(m, saved). sent_within ((14/10, 26/10), (5/100, 15/100)) m \<and> sent_within ((14/10, 26/10), (5/100, 15/100)) saved) ms"
  using torque_params_in_range [OF test_torque_ok(1,2,2,3,5), of False "\<lparr>te_svd = (\<lambda>_. Some (-2, 0, 1)), te_choose = take\<rparr>"] test_torque_ok(4)
  unfolding test_torque_limits by blast

end
