(* ===== verification/Lagd.thy ===== *)
theory Lagd
  imports Controls Fft_Size
begin

text \<open>
  The estimator of the delay of the steering, \<open>selfdrive/locationd/lagd.py\<close>, with the setting of sunnypilot in
  \<open>sunnypilot/livedelay\<close>. The discrete Fourier transform is numpy's and is given as two functions; everything
  around it is as in the code. Of the constructor's arguments the default values are used, as in \<open>main\<close>. A mean of
  no values (NaN) is \<open>None\<close>; a cached message is given decoded.
\<close>

section \<open>Constants\<close>

definition LAG_BLOCK_SIZE :: nat where "LAG_BLOCK_SIZE = 100"
definition BLOCK_NUM :: nat where "BLOCK_NUM = 50"
definition BLOCK_NUM_NEEDED :: int where "BLOCK_NUM_NEEDED = 5"
definition MOVING_WINDOW_SEC :: real where "MOVING_WINDOW_SEC = 60"
definition MIN_OKAY_WINDOW_SEC :: real where "MIN_OKAY_WINDOW_SEC = 25"
definition MIN_RECOVERY_BUFFER_SEC :: real where "MIN_RECOVERY_BUFFER_SEC = 2"
definition MIN_VEGO :: real where "MIN_VEGO = 15"
definition MIN_ABS_YAW_RATE :: real where "MIN_ABS_YAW_RATE = 0"
definition MAX_YAW_RATE_SANITY_CHECK :: real where "MAX_YAW_RATE_SANITY_CHECK = 1"
definition MIN_NCC :: real where "MIN_NCC = 95/100"
definition MAX_LAG :: real where "MAX_LAG = 1"
definition MAX_LAG_STD :: real where "MAX_LAG_STD = 1/10"
definition MAX_LAT_ACCEL :: real where "MAX_LAT_ACCEL = 2"
definition MAX_LAT_ACCEL_DIFF :: real where "MAX_LAT_ACCEL_DIFF = 6/10"
definition MIN_CONFIDENCE :: real where "MIN_CONFIDENCE = 7/10"
definition CORR_BORDER_OFFSET :: nat where "CORR_BORDER_OFFSET = 5"
definition LAG_CANDIDATE_CORR_THRESHOLD :: real where "LAG_CANDIDATE_CORR_THRESHOLD = 9/10"

text \<open>The period of \<open>livePose\<close>.\<close>

definition LAG_DT :: real where "LAG_DT = 1/20"

section \<open>Correlation\<close>

record np_fft =
  nf_fft :: "nat \<Rightarrow> real list \<Rightarrow> complex list"
  nf_ifft :: "complex list \<Rightarrow> complex list"

definition masked :: "bool list \<Rightarrow> real list \<Rightarrow> real list" where
  "masked msk xs = map2 (\<lambda>m x. if m then x else 0) msk xs"

definition mask_floats :: "bool list \<Rightarrow> real list" where
  "mask_floats = map (\<lambda>b. if b then 1 else 0)"

text \<open>The real part of the inverse transform of a product.\<close>

definition conv :: "np_fft \<Rightarrow> complex list \<Rightarrow> complex list \<Rightarrow> real list" where
  "conv F xs ys = map Re (nf_ifft F (map2 (*) xs ys))"

definition float_eps :: real where "float_eps = 1 / 2 ^ 52"

definition np_max :: "real list \<Rightarrow> real" where "np_max xs = fold max (tl xs) (hd xs)"
definition np_min :: "real list \<Rightarrow> real" where "np_min xs = fold min (tl xs) (hd xs)"

definition masked_normalized_cross_correlation :: "np_fft \<Rightarrow> real list \<Rightarrow> real list \<Rightarrow> bool list \<Rightarrow> nat \<Rightarrow> real list" where
  "masked_normalized_cross_correlation F expected_sig actual_sig msk n =
     (let expected = masked msk expected_sig; actual = masked msk actual_sig;
          rotated_expected = rev expected; rotated_mask = mask_floats (rev msk);
          actual_fft = nf_fft F n actual; rotated_expected_fft = nf_fft F n rotated_expected;
          actual_mask_fft = nf_fft F n (mask_floats msk); rotated_mask_fft = nf_fft F n rotated_mask;
          overlap = map (\<lambda>x. max (of_int (py_round x)) float_eps) (conv F rotated_mask_fft actual_mask_fft);
          ca = conv F rotated_mask_fft actual_fft; ce = conv F actual_mask_fft rotated_expected_fft;
          numerator = map (\<lambda>(((x, a), e), w). x - a * e / w) (zip (zip (zip (conv F rotated_expected_fft actual_fft) ca) ce) overlap);
          actual_denom = map (\<lambda>((x, a), w). max (x - a\<^sup>2 / w) 0) (zip (zip (conv F rotated_mask_fft (nf_fft F n (map (\<lambda>x. x\<^sup>2) actual))) ca) overlap);
          expected_denom = map (\<lambda>((x, e), w). max (x - e\<^sup>2 / w) 0) (zip (zip (conv F actual_mask_fft (nf_fft F n (map (\<lambda>x. x\<^sup>2) rotated_expected))) ce) overlap);
          denom = map2 (\<lambda>a e. sqrt (a * e)) actual_denom expected_denom;
          tol = 1000 * float_eps * np_max (map abs denom)
      in map2 (\<lambda>x d. clip (if d > tol then x / d else 0) (-1) 1) numerator denom)"

text \<open>The first position of the largest value, and the top of the parabola through it and its neighbours.\<close>

definition np_argmax :: "real list \<Rightarrow> nat" where
  "np_argmax xs = length (takeWhile (\<lambda>x. x < np_max xs) xs)"

definition parabolic_peak_interp :: "real list \<Rightarrow> nat \<Rightarrow> real" where
  "parabolic_peak_interp R i =
     (if i = 0 \<or> i + 1 = length R then real i
      else let y_m1 = R ! (i - 1); y_0 = R ! i; y_p1 = R ! (i + 1) in real i + 1/2 * (y_p1 - y_m1) / (2 * y_0 - y_p1 - y_m1))"

definition py_slice :: "nat \<Rightarrow> nat \<Rightarrow> 'a list \<Rightarrow> 'a list" where
  "py_slice i j xs = take (j - i) (drop i xs)"

text \<open>The first and last positions of the runs of candidates, from the differences of the mask with a border of zeros.\<close>

definition edges :: "bool list \<Rightarrow> int list" where
  "edges m = (let k = map (\<lambda>b. if b then 1 else 0) m in map2 (\<lambda>a b. b - a) (0 # k) (k @ [0]))"

definition edge_at :: "'a \<Rightarrow> 'a list \<Rightarrow> int list" where
  "edge_at x xs = map int (filter (\<lambda>i. xs ! i = x) [0..<length xs])"

definition run_starts :: "bool list \<Rightarrow> int list" where
  "run_starts m = edge_at 1 (edges m)"

definition run_ends :: "bool list \<Rightarrow> int list" where
  "run_ends m = map (\<lambda>i. i - 1) (edge_at (-1) (edges m))"

text \<open>\<open>numpy.searchsorted\<close> from the right on a sorted list, and an index that may be negative.\<close>

definition searchsorted_right :: "int list \<Rightarrow> int \<Rightarrow> int" where
  "searchsorted_right xs v = int (length (filter (\<lambda>x. x \<le> v) xs))"

definition np_index :: "'a list \<Rightarrow> int \<Rightarrow> 'a result" where
  "np_index xs i = (let k = (if i < 0 then i + int (length xs) else i) in if 0 \<le> k \<and> k < int (length xs) then Inr (xs ! nat k) else Inl IndexError)"

definition peak_width :: "bool list \<Rightarrow> int \<Rightarrow> int result" where
  "peak_width cands i =
     (let run_idx = searchsorted_right (run_starts cands) i - 1
      in bind_result (np_index (run_ends cands) run_idx) (\<lambda>e. bind_result (np_index (run_starts cands) run_idx) (\<lambda>s. Inr (e - s + 1))))"

text \<open>The size of the transform is found by a loop: \<open>None\<close> if it did not end.\<close>

definition actuator_delay :: "np_fft \<Rightarrow> real list \<Rightarrow> real list \<Rightarrow> bool list \<Rightarrow> real \<Rightarrow> real \<Rightarrow> (real \<times> real \<times> real) result option" where
  "actuator_delay F expected_sig actual_sig msk dt max_lag =
     (if length expected_sig \<noteq> length actual_sig then Some (Inl AssertionError)
      else let max_lag_samples = nat (py_int (max_lag / dt))
       in case fft_next_good_size (int (length expected_sig + max_lag_samples)) of
            None \<Rightarrow> None
          | Some padded_size \<Rightarrow> Some (
              let ncc = masked_normalized_cross_correlation F expected_sig actual_sig msk (nat padded_size);
                  start = length expected_sig - 1; stop = start + max_lag_samples;
                  roi_ncc = py_slice start stop ncc;
                  extended_roi_ncc = py_slice (start - CORR_BORDER_OFFSET) (stop + CORR_BORDER_OFFSET) ncc
              in if roi_ncc = [] then Inl ValueError
                 else let i = np_argmax roi_ncc; corr = roi_ncc ! i; lag = parabolic_peak_interp roi_ncc i * dt;
                          thresh = (np_max roi_ncc - np_min roi_ncc) * LAG_CANDIDATE_CORR_THRESHOLD + np_min roi_ncc
                      in bind_result (peak_width (map (\<lambda>x. x \<ge> thresh) extended_roi_ncc) (int (i + CORR_BORDER_OFFSET))) (\<lambda>width.
                           Inr (lag, corr, clip (1 - of_int width * dt) 0 1))))"

section \<open>Points and averages of blocks\<close>

record lag_points =
  lgp_times :: "real list"
  lgp_okay :: "bool list"
  lgp_desired :: "real list"
  lgp_actual :: "real list"

definition Points_init :: "nat \<Rightarrow> lag_points" where
  "Points_init n = \<lparr>lgp_times = replicate n 0, lgp_okay = replicate n False, lgp_desired = replicate n 0, lgp_actual = replicate n 0\<rparr>"

definition points_update :: "nat \<Rightarrow> real \<Rightarrow> real \<Rightarrow> real \<Rightarrow> bool \<Rightarrow> lag_points \<Rightarrow> lag_points" where
  "points_update n t desired actual okay p = \<lparr>lgp_times = deque_append n t (lgp_times p), lgp_okay = deque_append n okay (lgp_okay p),
     lgp_desired = deque_append n desired (lgp_desired p), lgp_actual = deque_append n actual (lgp_actual p)\<rparr>"

definition num_points :: "lag_points \<Rightarrow> nat" where "num_points p = length (lgp_desired p)"
definition num_okay :: "lag_points \<Rightarrow> nat" where "num_okay p = length (filter id (lgp_okay p))"

record block_average =
  bk_num_blocks :: nat
  bk_block_size :: nat
  bk_block_idx :: nat
  bk_idx :: nat
  bk_values :: "real list"
  bk_valid_blocks :: int

definition BlockAverage_init :: "nat \<Rightarrow> nat \<Rightarrow> int \<Rightarrow> real \<Rightarrow> block_average" where
  "BlockAverage_init num_blocks block_size valid_blocks initial_value =
     \<lparr>bk_num_blocks = num_blocks, bk_block_size = block_size, bk_block_idx = nat (valid_blocks mod int num_blocks), bk_idx = 0,
      bk_values = replicate num_blocks initial_value, bk_valid_blocks = valid_blocks\<rparr>"

definition block_update :: "real \<Rightarrow> block_average \<Rightarrow> block_average" where
  "block_update value b =
     (let k = bk_block_idx b; i = bk_idx b; i' = (i + 1) mod bk_block_size b;
          b1 = b\<lparr>bk_values := (bk_values b)[k := (real i * bk_values b ! k + value) / (real i + 1)], bk_idx := i'\<rparr>
      in if i' = 0 then b1\<lparr>bk_block_idx := (k + 1) mod bk_num_blocks b, bk_valid_blocks := min (bk_valid_blocks b + 1) (int (bk_num_blocks b))\<rparr> else b1)"

definition lag_mean :: "real list \<Rightarrow> real option" where
  "lag_mean xs = (if xs = [] then None else Some (sum_list xs / real (length xs)))"

definition lag_std :: "real list \<Rightarrow> real option" where
  "lag_std xs = map_option (\<lambda>m. sqrt (sum_list (map (\<lambda>x. (x - m)\<^sup>2) xs) / real (length xs))) (lag_mean xs)"

definition valid_block_idx :: "block_average \<Rightarrow> nat list" where
  "valid_block_idx b = filter (\<lambda>i. i \<noteq> bk_block_idx b) [0..<nat (bk_valid_blocks b)]"

definition valid_values :: "block_average \<Rightarrow> real list" where
  "valid_values b = map ((!) (bk_values b)) (valid_block_idx b)"

definition current_values :: "block_average \<Rightarrow> real list" where
  "current_values b = map ((!) (bk_values b)) (valid_block_idx b @ (if bk_idx b > 0 then [bk_block_idx b] else []))"

definition block_get :: "block_average \<Rightarrow> real option \<times> real option \<times> real option \<times> real option" where
  "block_get b = (lag_mean (valid_values b), lag_std (valid_values b), lag_mean (current_values b), lag_std (current_values b))"

section \<open>State\<close>

record lag_estimator =
  le_initial_lag :: real
  le_t :: real
  le_lat_active :: bool
  le_steering_pressed :: bool
  le_steering_saturated :: bool
  le_desired_curvature :: real
  le_v_ego :: real
  le_yaw_rate :: real
  le_yaw_rate_std :: "real option"
  le_pose_valid :: bool
  le_last_lat_inactive_t :: real
  le_last_steering_pressed_t :: real
  le_last_steering_saturated_t :: real
  le_last_pose_invalid_t :: real
  le_last_estimate_t :: real
  le_calibrator :: pose_calibrator
  le_points :: lag_points
  le_block_avg :: block_average

definition lag_window :: nat where "lag_window = nat (py_int (MOVING_WINDOW_SEC / LAG_DT))"
definition okay_window :: nat where "okay_window = nat (py_int (MIN_OKAY_WINDOW_SEC / LAG_DT))"

definition lag_reset :: "real \<Rightarrow> int \<Rightarrow> lag_estimator \<Rightarrow> lag_estimator" where
  "lag_reset initial_lag valid_blocks s =
     s\<lparr>le_points := Points_init lag_window, le_block_avg := BlockAverage_init BLOCK_NUM LAG_BLOCK_SIZE valid_blocks initial_lag\<rparr>"

definition LateralLagEstimator_init :: "car_params \<Rightarrow> lag_estimator" where
  "LateralLagEstimator_init CP =
     (let lag = cp_steerActuatorDelay CP + 2/10
      in lag_reset lag 0 \<lparr>le_initial_lag = lag, le_t = 0, le_lat_active = False, le_steering_pressed = False, le_steering_saturated = False,
           le_desired_curvature = 0, le_v_ego = 0, le_yaw_rate = 0, le_yaw_rate_std = Some 0, le_pose_valid = False,
           le_last_lat_inactive_t = 0, le_last_steering_pressed_t = 0, le_last_steering_saturated_t = 0, le_last_pose_invalid_t = 0,
           le_last_estimate_t = 0, le_calibrator = pose_calibrator_init, le_points = Points_init 0, le_block_avg = BlockAverage_init 0 0 0 0\<rparr>)"

section \<open>Messages\<close>

datatype lag_status = Lag_unestimated | Lag_estimated | Lag_invalid

record live_delay =
  ld_valid :: bool
  ld_status :: lag_status
  ld_lateralDelay :: real
  ld_lateralDelayEstimate :: real
  ld_lateralDelayEstimateStd :: real
  ld_validBlocks :: int
  ld_calPerc :: int
  ld_points :: "real list"

definition delay_status :: "block_average \<Rightarrow> lag_status" where
  "delay_status b = (case block_get b of
     (Some m, Some std, _, _) \<Rightarrow> if bk_valid_blocks b \<ge> BLOCK_NUM_NEEDED then if std > MAX_LAG_STD then Lag_invalid else Lag_estimated else Lag_unestimated
   | _ \<Rightarrow> Lag_unestimated)"

definition lag_get_msg :: "bool \<Rightarrow> bool \<Rightarrow> lag_estimator \<Rightarrow> live_delay" where
  "lag_get_msg valid debug s =
     (let b = le_block_avg s; (valid_mean, _, current_mean, current_std) = block_get b; status = delay_status b;
          (estimate, estimate_std) = (case (current_mean, current_std) of (Some m, Some sd) \<Rightarrow> (m, sd) | _ \<Rightarrow> (le_initial_lag s, 0))
      in \<lparr>ld_valid = valid, ld_status = status,
          ld_lateralDelay = (case (status, valid_mean) of (Lag_estimated, Some m) \<Rightarrow> m | _ \<Rightarrow> le_initial_lag s),
          ld_lateralDelayEstimate = estimate, ld_lateralDelayEstimateStd = estimate_std, ld_validBlocks = bk_valid_blocks b,
          ld_calPerc = min (100 * (bk_valid_blocks b * int (bk_block_size b) + int (bk_idx b)) div (BLOCK_NUM_NEEDED * int (bk_block_size b))) 100,
          ld_points = (if debug then bk_values b else [])\<rparr>)"

datatype lag_log =
  LL_carControl bool
| LL_carState bool real
| LL_controlsState bool real
| LL_liveCalibration sd_msgs
| LL_livePose sd_msgs bool

definition lag_handle_log :: "real \<Rightarrow> lag_log \<Rightarrow> lag_estimator \<Rightarrow> lag_estimator result" where
  "lag_handle_log t l s =
     bind_result (case l of
         LL_carControl active \<Rightarrow> Inr (s\<lparr>le_lat_active := active\<rparr>)
       | LL_carState pressed v \<Rightarrow> Inr (s\<lparr>le_steering_pressed := pressed, le_v_ego := v\<rparr>)
       | LL_controlsState saturated curvature \<Rightarrow> Inr (s\<lparr>le_steering_saturated := saturated, le_desired_curvature := curvature\<rparr>)
       | LL_liveCalibration m \<Rightarrow> bind_result (feed_live_calib m (le_calibrator s)) (\<lambda>c. Inr (s\<lparr>le_calibrator := c\<rparr>))
       | LL_livePose m angular_velocity_valid \<Rightarrow>
           let p = build_calibrated_pose (le_calibrator s) (from_live_pose m)
           in Inr (s\<lparr>le_yaw_rate := po_angular_velocity_yaw p, le_yaw_rate_std := map_option (\<lambda>(_, _, z). z) (me_xyz_std (po_angular_velocity p)),
                     le_pose_valid := angular_velocity_valid \<and> lv_posenetOK m \<and> lv_inputsOK m\<rparr>))
       (\<lambda>s'. Inr (s'\<lparr>le_t := t\<rparr>))"

fun lag_handle_logs :: "(real \<times> lag_log) list \<Rightarrow> lag_estimator \<Rightarrow> lag_estimator result" where
  "lag_handle_logs [] s = Inr s"
| "lag_handle_logs ((t, l) # ls) s = bind_result (lag_handle_log t l s) (lag_handle_logs ls)"

section \<open>Updates\<close>

definition points_enough :: "lag_estimator \<Rightarrow> bool" where "points_enough s \<longleftrightarrow> num_points (le_points s) \<ge> okay_window"
definition points_valid :: "lag_estimator \<Rightarrow> bool" where "points_valid s \<longleftrightarrow> num_okay (le_points s) \<ge> okay_window"

definition lag_sensors_valid :: "lag_estimator \<Rightarrow> bool" where
  "lag_sensors_valid s \<longleftrightarrow> le_pose_valid s \<and> \<bar>le_yaw_rate s\<bar> < MAX_YAW_RATE_SANITY_CHECK
     \<and> (case le_yaw_rate_std s of Some sd \<Rightarrow> sd < MAX_YAW_RATE_SANITY_CHECK | None \<Rightarrow> False)"

definition la_desired :: "lag_estimator \<Rightarrow> real" where "la_desired s = le_desired_curvature s * le_v_ego s * le_v_ego s"
definition la_actual_pose :: "lag_estimator \<Rightarrow> real" where "la_actual_pose s = le_yaw_rate s * le_v_ego s"

definition la_valid :: "lag_estimator \<Rightarrow> bool" where
  "la_valid s \<longleftrightarrow> \<bar>la_actual_pose s\<bar> \<le> MAX_LAT_ACCEL \<and> \<bar>la_desired s - la_actual_pose s\<bar> \<le> MAX_LAT_ACCEL_DIFF"

text \<open>Times of the last reasons not to trust a point.\<close>

definition note_reasons :: "lag_estimator \<Rightarrow> lag_estimator" where
  "note_reasons s =
     (let s1 = (if \<not> le_lat_active s then s\<lparr>le_last_lat_inactive_t := le_t s\<rparr> else s);
          s2 = (if le_steering_pressed s1 then s1\<lparr>le_last_steering_pressed_t := le_t s1\<rparr> else s1);
          s3 = (if le_steering_saturated s2 then s2\<lparr>le_last_steering_saturated_t := le_t s2\<rparr> else s2)
      in if \<not> lag_sensors_valid s \<or> \<not> la_valid s then s3\<lparr>le_last_pose_invalid_t := le_t s3\<rparr> else s3)"

definition has_recovered :: "lag_estimator \<Rightarrow> bool" where
  "has_recovered s \<longleftrightarrow> list_all (\<lambda>last_t. le_t s - last_t \<ge> MIN_RECOVERY_BUFFER_SEC)
     [le_last_lat_inactive_t s, le_last_steering_pressed_t s, le_last_steering_saturated_t s, le_last_pose_invalid_t s]"

definition point_okay :: "lag_estimator \<Rightarrow> bool" where
  "point_okay s \<longleftrightarrow> le_lat_active s \<and> \<not> le_steering_pressed s \<and> \<not> le_steering_saturated s \<and> le_v_ego s > MIN_VEGO \<and> \<bar>le_yaw_rate s\<bar> \<ge> MIN_ABS_YAW_RATE
     \<and> has_recovered s \<and> pc_calib_valid (le_calibrator s) \<and> lag_sensors_valid s \<and> la_valid s"

definition update_points :: "lag_estimator \<Rightarrow> lag_estimator" where
  "update_points s0 =
     (let s = note_reasons s0
      in s\<lparr>le_points := points_update lag_window (le_t s) (la_desired s) (la_actual_pose s) (point_okay s) (le_points s)\<rparr>)"

text \<open>New points since the last estimate: the code counts from the end; the oldest time is not after the last estimate, so the count ends.\<close>

definition new_points_okay :: "lag_estimator \<Rightarrow> bool" where
  "new_points_okay s =
     (let p = le_points s
      in if le_last_estimate_t s \<noteq> 0 \<and> hd (lgp_times p) \<le> le_last_estimate_t s
         then let i = length (takeWhile (\<lambda>t. \<not> t \<le> le_last_estimate_t s) (rev (lgp_times p)))
              in \<not> (i = 0 \<or> \<not> list_ex id (drop (length (lgp_okay p) - i) (lgp_okay p)))
         else True)"

definition update_estimate :: "np_fft \<Rightarrow> lag_estimator \<Rightarrow> lag_estimator result option" where
  "update_estimate F s =
     (if \<not> points_enough s then Some (Inr s)
      else let p = le_points s; is_valid = points_valid s \<and> new_points_okay s
       in case actuator_delay F (lgp_desired p) (lgp_actual p) (lgp_okay p) LAG_DT MAX_LAG of
            None \<Rightarrow> None
          | Some (Inl e) \<Rightarrow> Some (Inl e)
          | Some (Inr (delay, corr, confidence)) \<Rightarrow>
              Some (Inr (if corr < MIN_NCC \<or> confidence < MIN_CONFIDENCE \<or> \<not> is_valid then s
                         else s\<lparr>le_block_avg := block_update delay (le_block_avg s), le_last_estimate_t := le_t s\<rparr>)))"

section \<open>The setting of sunnypilot\<close>

definition lagd_toggle_update :: "(string \<Rightarrow> real) \<Rightarrow> car_params \<Rightarrow> live_delay \<Rightarrow> params \<Rightarrow> params" where
  "lagd_toggle_update dflt CP m p =
     (if \<not> get_bool p ''LagdToggle'' then p(''LagdValueCache'' \<mapsto> PFloat (cp_steerActuatorDelay CP + get_float dflt p ''LagdToggleDelay''))
      else p(''LagdValueCache'' \<mapsto> PFloat (ld_lateralDelay m)))"

section \<open>The process\<close>

text \<open>The cached message with the fingerprint of its car; anything wrong with it raises, is caught, and leaves no cache.\<close>

definition retrieve_initial_lag :: "(live_delay \<times> string option) option \<Rightarrow> car_params \<Rightarrow> (real \<times> int) option" where
  "retrieve_initial_lag cache CP = (case cache of
     Some (d, Some fingerprint) \<Rightarrow>
       if fingerprint = cp_carFingerprint CP \<and> ld_validBlocks d \<le> int BLOCK_NUM \<and> ld_status d \<noteq> Lag_invalid
       then Some (ld_lateralDelayEstimate d, ld_validBlocks d) else None
   | _ \<Rightarrow> None)"

definition lagd_start :: "(live_delay \<times> string option) option \<Rightarrow> car_params \<Rightarrow> lag_estimator" where
  "lagd_start cache CP = (case retrieve_initial_lag cache CP of
     Some (lag, valid_blocks) \<Rightarrow> lag_reset lag valid_blocks (LateralLagEstimator_init CP) | None \<Rightarrow> LateralLagEstimator_init CP)"

text \<open>The messages of a round in the order of the subscriptions; they are worked through in the order of their times.\<close>

record lagd_in =
  lg_frame :: int
  lg_all_checks :: bool
  lg_received :: "(real \<times> lag_log) list"
  lg_params :: params

record lagd_out =
  lgo_sent :: "live_delay option"
  lgo_cached :: bool
  lgo_params :: params

definition lagd_round :: "np_fft \<Rightarrow> (string \<Rightarrow> real) \<Rightarrow> car_params \<Rightarrow> lagd_in \<Rightarrow> lag_estimator \<Rightarrow> (lagd_out \<times> lag_estimator) result option" where
  "lagd_round F dflt CP i s0 =
     (case (if lg_all_checks i then bind_result (lag_handle_logs (sort_key fst (lg_received i)) s0) (\<lambda>s. Inr (update_points s)) else Inr s0) of
        Inl e \<Rightarrow> Some (Inl e)
      | Inr s1 \<Rightarrow>
          if lg_frame i mod 5 = 0
          then case update_estimate F s1 of
                 None \<Rightarrow> None
               | Some (Inl e) \<Rightarrow> Some (Inl e)
               | Some (Inr s2) \<Rightarrow>
                   let m = lag_get_msg (lg_all_checks i) False s2
                   in Some (Inr (\<lparr>lgo_sent = Some m, lgo_cached = (lg_frame i mod 1200 = 0),
                        lgo_params = (if lg_frame i mod 60 = 0 then lagd_toggle_update dflt CP m (lg_params i) else lg_params i)\<rparr>, s2))
          else Some (Inr (\<lparr>lgo_sent = None, lgo_cached = False, lgo_params = lg_params i\<rparr>, s1)))"

fun lagd_run :: "np_fft \<Rightarrow> (string \<Rightarrow> real) \<Rightarrow> car_params \<Rightarrow> lagd_in list \<Rightarrow> lag_estimator \<Rightarrow> (lagd_out list \<times> lag_estimator) result option" where
  "lagd_run F dflt CP [] s = Some (Inr ([], s))"
| "lagd_run F dflt CP (i # is) s =
     (case lagd_round F dflt CP i s of
        Some (Inr (m, s')) \<Rightarrow>
          (case lagd_run F dflt CP is s' of Some (Inr (ms, s'')) \<Rightarrow> Some (Inr (m # ms, s'')) | x \<Rightarrow> x)
      | Some (Inl e) \<Rightarrow> Some (Inl e)
      | None \<Rightarrow> None)"

section \<open>Facts: the correlation and its peak\<close>

text \<open>What is used of the transforms: the one of size \<open>n\<close> has \<open>n\<close> values, and so has its inverse.\<close>

definition fft_laws :: "np_fft \<Rightarrow> bool" where
  "fft_laws F \<longleftrightarrow> (\<forall>n xs. length (nf_fft F n xs) = n) \<and> (\<forall>xs. length (nf_ifft F xs) = length xs)"

lemma length_conv: "fft_laws F \<Longrightarrow> length (conv F xs ys) = min (length xs) (length ys)"
  by (simp add: fft_laws_def conv_def)

lemma length_ncc: "fft_laws F \<Longrightarrow> length (masked_normalized_cross_correlation F e a msk n) = n"
  by (simp add: masked_normalized_cross_correlation_def Let_def length_conv) (simp add: fft_laws_def)

lemma np_max_Max: "xs \<noteq> [] \<Longrightarrow> np_max xs = Max (set xs)"
  by (cases xs) (simp_all add: np_max_def Max.set_eq_fold [symmetric])

lemma np_min_Min: "xs \<noteq> [] \<Longrightarrow> np_min xs = Min (set xs)"
  by (cases xs) (simp_all add: np_min_def Min.set_eq_fold [symmetric])

lemma argmax_spec:
  assumes "xs \<noteq> []"
  shows "np_argmax xs < length xs" "xs ! np_argmax xs = np_max xs" "j < np_argmax xs \<Longrightarrow> xs ! j < np_max xs"
proof -
  let ?P = "\<lambda>x. x < np_max xs"
  have "np_max xs \<in> set xs" using assms by (simp add: np_max_Max)
  then have "takeWhile ?P xs \<noteq> xs" by (metis less_irrefl set_takeWhileD)
  then show len: "np_argmax xs < length xs" unfolding np_argmax_def
    by (metis length_takeWhile_le nat_less_le takeWhile_eq_take take_all_iff linorder_le_less_linear)
  have "\<not> ?P (xs ! np_argmax xs)" using len unfolding np_argmax_def by (rule nth_length_takeWhile)
  moreover have "xs ! np_argmax xs \<le> np_max xs" using assms len by (simp add: np_max_Max)
  ultimately show "xs ! np_argmax xs = np_max xs" by simp
  show "xs ! j < np_max xs" if "j < np_argmax xs"
  proof -
    from that have j: "j < length (takeWhile ?P xs)" by (simp add: np_argmax_def)
    then have "takeWhile ?P xs ! j \<in> set (takeWhile ?P xs)" by simp
    then have "?P (takeWhile ?P xs ! j)" by (auto dest: set_takeWhileD)
    with j show ?thesis by (simp add: takeWhile_nth)
  qed
qed

text \<open>The peak of the parabola is less than half a sample away from the largest value.\<close>

lemma parabola_offset:
  assumes "(a::real) < b" "c \<le> b" shows "-1/2 \<le> 1/2 * (c - a) / (2 * b - c - a)" "1/2 * (c - a) / (2 * b - c - a) \<le> 1/2"
  using assms by (simp_all add: field_simps)

lemma peak_in_window:
  assumes "R \<noteq> []" shows "0 \<le> parabolic_peak_interp R (np_argmax R)" "parabolic_peak_interp R (np_argmax R) \<le> real (length R - 1)"
proof -
  let ?i = "np_argmax R"
  note s = argmax_spec [OF assms]
  have "0 \<le> parabolic_peak_interp R ?i \<and> parabolic_peak_interp R ?i \<le> real (length R - 1)"
  proof (cases "?i = 0 \<or> ?i + 1 = length R")
    case True
    with s(1) show ?thesis by (auto simp: parabolic_peak_interp_def)
  next
    case False
    with s(1) have i: "1 \<le> ?i" "?i + 1 < length R" by auto
    then have l: "R ! (?i - 1) < R ! ?i" using s(2) s(3) [of "?i - 1"] by simp
    have "R ! (?i + 1) \<le> Max (set R)" using i(2) by simp
    then have r: "R ! (?i + 1) \<le> R ! ?i" using s(2) assms by (simp add: np_max_Max)
    note o = parabola_offset [OF l r]
    have "1 \<le> real ?i" "real ?i + 1 \<le> real (length R - 1)" using i by linarith+
    moreover from False have "parabolic_peak_interp R ?i = real ?i + 1/2 * (R ! (?i + 1) - R ! (?i - 1)) / (2 * R ! ?i - R ! (?i + 1) - R ! (?i - 1))"
      unfolding parabolic_peak_interp_def Let_def by presburger
    ultimately show ?thesis using o by linarith
  qed
  then show "0 \<le> parabolic_peak_interp R ?i" "parabolic_peak_interp R ?i \<le> real (length R - 1)" by simp_all
qed

text \<open>Runs: as many ends as starts, and a start at or before every candidate.\<close>

lemma diff_sum: "sum_list (map2 (\<lambda>a b. b - a) (x # k) (k @ [z])) = z - (x :: int)"
  by (induction k arbitrary: x) simp_all

lemma unit_diffs:
  assumes "set xs \<subseteq> {0, 1}" "set ys \<subseteq> {0, 1}" shows "set (map2 (\<lambda>a b. b - a) xs ys) \<subseteq> {-1, 0, 1 :: int}"
proof
  fix d assume "d \<in> set (map2 (\<lambda>a b. b - a) xs ys)"
  then obtain a b where ab: "(a, b) \<in> set (zip xs ys)" "d = b - a" by auto
  then have "a \<in> {0, 1}" "b \<in> {0, 1}" using assms by (auto dest: set_zip_leftD set_zip_rightD)
  with ab(2) show "d \<in> {-1, 0, 1}" by auto
qed

lemma edges_range: "set (edges m) \<subseteq> {-1, 0, 1}"
  unfolding edges_def Let_def by (rule unit_diffs) auto

lemma length_edges: "length (edges m) = length m + 1"
  by (simp add: edges_def Let_def)

lemma sum_unit: "set xs \<subseteq> {-1, 0, 1 :: int} \<Longrightarrow> sum_list xs = int (length (filter (\<lambda>x. x = 1) xs)) - int (length (filter (\<lambda>x. x = -1) xs))"
  by (induction xs) auto

lemma length_edge_at: "length (edge_at x xs) = length (filter (\<lambda>y. y = x) xs)"
proof -
  have "length (filter (\<lambda>i. xs ! i = x) [0..<length xs]) = card (set (filter (\<lambda>i. xs ! i = x) [0..<length xs]))" by (rule distinct_card [symmetric]) simp
  also have "set (filter (\<lambda>i. xs ! i = x) [0..<length xs]) = {i. i < length xs \<and> xs ! i = x}" by auto
  finally show ?thesis unfolding edge_at_def length_map length_filter_conv_card .
qed

lemma starts_are_ends: "length (run_ends m) = length (run_starts m)"
proof -
  have "sum_list (edges m) = 0" by (simp add: edges_def Let_def diff_sum)
  with sum_unit [OF edges_range [of m]] show ?thesis by (simp add: run_starts_def run_ends_def length_edge_at)
qed

lemma prefix_sum: "j < length m \<Longrightarrow> sum_list (take (j + 1) (edges m)) = (if m ! j then 1 else 0)"
proof -
  let ?k = "map (\<lambda>b. if b then 1 else (0::int)) m"
  assume j: "j < length m"
  have "take (j + 1) (edges m) = map2 (\<lambda>a b. b - a) (0 # take j ?k) (take j ?k @ [?k ! j])"
    using j by (simp add: edges_def Let_def take_map take_zip take_Suc_conv_app_nth)
  then show ?thesis using j by (simp add: diff_sum)
qed

lemma start_before:
  assumes "j < length m" "m ! j" shows "\<exists>i \<le> j. int i \<in> set (run_starts m)"
proof -
  have "1 \<in> set (take (j + 1) (edges m))"
  proof (rule ccontr)
    assume no: "1 \<notin> set (take (j + 1) (edges m))"
    have "x \<le> 0" if "x \<in> set (take (j + 1) (edges m))" for x
      using that no edges_range [of m] by (force dest: in_set_takeD)
    then have "sum_list (take (j + 1) (edges m)) \<le> 0" by (rule sum_list_nonpos)
    with prefix_sum [OF assms(1)] assms(2) show False by simp
  qed
  then obtain i where "i < j + 1" "i < length (edges m)" "edges m ! i = 1" by (auto simp: in_set_conv_nth)
  then show ?thesis by (intro exI [of _ i]) (auto simp: run_starts_def edge_at_def)
qed

lemma peak_width_returns:
  assumes "j < length m" "m ! j" shows "\<exists>w. peak_width m (int j) = Inr w"
proof -
  obtain i where i: "i \<le> j" "int i \<in> set (run_starts m)" using start_before [OF assms] by blast
  have "filter (\<lambda>x. x \<le> int j) (run_starts m) \<noteq> []" using i by (auto simp: filter_empty_conv intro: bexI [of _ "int i"])
  then have "0 < length (filter (\<lambda>x. x \<le> int j) (run_starts m))" by simp
  moreover have "length (filter (\<lambda>x. x \<le> int j) (run_starts m)) \<le> length (run_starts m)" by (rule length_filter_le)
  ultimately have "0 \<le> searchsorted_right (run_starts m) (int j) - 1" "searchsorted_right (run_starts m) (int j) - 1 < int (length (run_starts m))"
    unfolding searchsorted_right_def by linarith+
  then show ?thesis by (simp add: peak_width_def Let_def np_index_def starts_are_ends)
qed

text \<open>The delay of a window is between zero and a second.\<close>

lemma length_py_slice: "length (py_slice i j xs) = min (j - i) (length xs - i)"
  by (simp add: py_slice_def min.commute)

lemma nth_py_slice: "k < j - i \<Longrightarrow> i + k < length xs \<Longrightarrow> py_slice i j xs ! k = xs ! (i + k)"
  by (simp add: py_slice_def)

lemma lag_samples: "nat (py_int (MAX_LAG / LAG_DT)) = 20" "lag_window = 1200" "okay_window = 500"
  by (simp_all add: MAX_LAG_def LAG_DT_def py_int_def lag_window_def okay_window_def MOVING_WINDOW_SEC_def MIN_OKAY_WINDOW_SEC_def)

lemma fft_size_found:
  assumes "7 \<le> n" shows "\<exists>r. fft_next_good_size n = Some r \<and> n \<le> r"
proof -
  have "1 < 2 * n" using assms by simp
  with loop_2_least [of n] obtain r where r: "loop_2 n 1 (2 * n) = Some r" "r = 2 * n \<or> n \<le> r \<and> smooth r" unfolding finds_least_def by (force simp: smooth_set_iff)
  with assms show ?thesis by (auto simp: fft_next_good_size_def)
qed

lemma actuator_delay_in_range:
  assumes F: "fft_laws F" and len: "length e = 1200" "length a = 1200"
  shows "\<exists>lag corr conf. actuator_delay F e a msk LAG_DT MAX_LAG = Some (Inr (lag, corr, conf)) \<and> 0 \<le> lag \<and> lag \<le> 1"
proof -
  obtain size where size: "fft_next_good_size 1220 = Some size" "1220 \<le> size" using fft_size_found [of 1220] by auto
  let ?ncc = "masked_normalized_cross_correlation F e a msk (nat size)"
  let ?roi = "py_slice 1199 1219 ?ncc" and ?ext = "py_slice 1194 1224 ?ncc"
  let ?i = "np_argmax ?roi"
  let ?th = "(np_max ?roi - np_min ?roi) * LAG_CANDIDATE_CORR_THRESHOLD + np_min ?roi"
  have n: "1220 \<le> length ?ncc" using size F by (simp add: length_ncc)
  then have roi: "length ?roi = 20" by (simp add: length_py_slice)
  then have ne: "?roi \<noteq> []" by auto
  note s = argmax_spec [OF ne]
  have i: "?i < 20" using s(1) roi by simp
  have e1: "?ext ! (?i + 5) = ?ncc ! (1199 + ?i)" using i n by (simp add: nth_py_slice add.commute)
  have e2: "?roi ! ?i = ?ncc ! (1199 + ?i)" using i n by (simp add: nth_py_slice)
  have "np_min ?roi \<le> np_max ?roi" using ne by (simp add: np_max_Max np_min_Min)
  then have "?th \<le> np_max ?roi" unfolding LAG_CANDIDATE_CORR_THRESHOLD_def by argo
  with s(2) e1 e2 have c: "?th \<le> ?ext ! (?i + 5)" by simp
  have l: "?i + 5 < length ?ext" using i n by (simp add: length_py_slice)
  have "\<exists>w. peak_width (map (\<lambda>x. x \<ge> ?th) ?ext) (int (?i + 5)) = Inr w" using l c by (intro peak_width_returns) simp_all
  then obtain w where w: "peak_width (map (\<lambda>x. x \<ge> ?th) ?ext) (int (?i + 5)) = Inr w" by blast
  have "0 \<le> parabolic_peak_interp ?roi ?i" "parabolic_peak_interp ?roi ?i \<le> 19" using peak_in_window [OF ne] roi by simp_all
  then have "0 \<le> parabolic_peak_interp ?roi ?i * LAG_DT \<and> parabolic_peak_interp ?roi ?i * LAG_DT \<le> 1" by (simp add: LAG_DT_def)
  moreover have "actuator_delay F e a msk LAG_DT MAX_LAG
      = Some (Inr (parabolic_peak_interp ?roi ?i * LAG_DT, ?roi ! ?i, clip (1 - of_int w * LAG_DT) 0 1))"
    using ne w unfolding actuator_delay_def Let_def lag_samples len CORR_BORDER_OFFSET_def by (simp add: size(1))
  ultimately show ?thesis by blast
qed

section \<open>Facts: the averages\<close>

definition unit_range :: "real \<Rightarrow> bool" where
  "unit_range x \<longleftrightarrow> 0 \<le> x \<and> x \<le> 1"

definition average_ok :: "block_average \<Rightarrow> bool" where
  "average_ok b \<longleftrightarrow> bk_num_blocks b = BLOCK_NUM \<and> bk_block_size b = LAG_BLOCK_SIZE \<and> bk_block_idx b < BLOCK_NUM \<and> bk_idx b < LAG_BLOCK_SIZE
     \<and> length (bk_values b) = BLOCK_NUM \<and> 0 \<le> bk_valid_blocks b \<and> bk_valid_blocks b \<le> int BLOCK_NUM \<and> list_all unit_range (bk_values b)"

lemma average_init_ok: "0 \<le> v \<Longrightarrow> v \<le> int BLOCK_NUM \<Longrightarrow> unit_range x \<Longrightarrow> average_ok (BlockAverage_init BLOCK_NUM LAG_BLOCK_SIZE v x)"
  by (simp add: average_ok_def BlockAverage_init_def BLOCK_NUM_def LAG_BLOCK_SIZE_def list_all_length nat_less_iff)

lemma running_mean_range: "unit_range m \<Longrightarrow> unit_range v \<Longrightarrow> unit_range ((real i * m + v) / (real i + 1))"
proof -
  assume m: "unit_range m" "unit_range v"
  then have "real i * m \<le> real i * 1" unfolding unit_range_def by (intro mult_left_mono) simp_all
  with m show ?thesis by (simp add: unit_range_def divide_le_eq)
qed

lemma block_update_ok:
  assumes ok: "average_ok b" and v: "unit_range v" shows "average_ok (block_update v b)"
proof -
  have "unit_range (bk_values b ! bk_block_idx b)" using ok by (simp add: average_ok_def list_all_length)
  from running_mean_range [OF this v, of "bk_idx b"] ok
  have "list_all unit_range ((bk_values b)[bk_block_idx b := (real (bk_idx b) * bk_values b ! bk_block_idx b + v) / (real (bk_idx b) + 1)])"
    by (auto simp: average_ok_def list_all_length nth_list_update)
  with ok show ?thesis by (auto simp: average_ok_def block_update_def Let_def BLOCK_NUM_def LAG_BLOCK_SIZE_def)
qed

lemma mean_range:
  assumes "list_all unit_range xs" "lag_mean xs = Some m" shows "unit_range m"
proof -
  from assms(2) have ne: "xs \<noteq> []" and m: "m = sum_list xs / real (length xs)" by (auto simp: lag_mean_def split: if_splits)
  have "0 \<le> sum_list xs" "sum_list xs \<le> real (length xs)" using assms(1) by (induction xs) (auto simp: unit_range_def)
  with ne show ?thesis by (simp add: m unit_range_def divide_le_eq)
qed

lemma picked_range:
  assumes "average_ok b" "set is \<subseteq> {0..<BLOCK_NUM}" shows "list_all unit_range (map ((!) (bk_values b)) is)"
  using assms by (auto simp: average_ok_def list_all_iff list_all_length subset_iff)

lemma values_range: "average_ok b \<Longrightarrow> list_all unit_range (valid_values b)" "average_ok b \<Longrightarrow> list_all unit_range (current_values b)"
  unfolding valid_values_def current_values_def by (rule picked_range, simp, force simp: average_ok_def valid_block_idx_def)+

section \<open>Facts: the process\<close>

definition points_ok :: "lag_points \<Rightarrow> bool" where
  "points_ok p \<longleftrightarrow> length (lgp_times p) = 1200 \<and> length (lgp_okay p) = 1200 \<and> length (lgp_desired p) = 1200 \<and> length (lgp_actual p) = 1200"

definition lag_ok :: "lag_estimator \<Rightarrow> bool" where
  "lag_ok s \<longleftrightarrow> unit_range (le_initial_lag s) \<and> points_ok (le_points s) \<and> average_ok (le_block_avg s)"

lemma lag_ok_frame:
  "le_initial_lag s' = le_initial_lag s \<Longrightarrow> le_points s' = le_points s \<Longrightarrow> le_block_avg s' = le_block_avg s \<Longrightarrow> lag_ok s \<Longrightarrow> lag_ok s'"
  by (simp add: lag_ok_def)

lemma length_full_append: "length xs = n \<Longrightarrow> 0 < n \<Longrightarrow> length (deque_append n x xs) = n"
  by (simp add: deque_append_def)

lemma points_update_ok: "points_ok p \<Longrightarrow> points_ok (points_update lag_window t d a okay p)"
  by (simp add: points_ok_def points_update_def lag_samples length_full_append)

lemma lag_reset_ok: "unit_range (le_initial_lag s) \<Longrightarrow> unit_range lag \<Longrightarrow> 0 \<le> v \<Longrightarrow> v \<le> int BLOCK_NUM \<Longrightarrow> lag_ok (lag_reset lag v s)"
  by (simp add: lag_ok_def lag_reset_def average_init_ok points_ok_def Points_init_def lag_samples)

lemma note_reasons_frame [frame_simps]:
  "le_initial_lag (note_reasons s) = le_initial_lag s" "le_points (note_reasons s) = le_points s" "le_block_avg (note_reasons s) = le_block_avg s"
  by (simp_all add: note_reasons_def Let_def)

lemma update_points_ok: "lag_ok s \<Longrightarrow> lag_ok (update_points s)"
  by (simp add: lag_ok_def update_points_def Let_def frame_simps points_update_ok)

text \<open>A calibration has three angles.\<close>

definition lag_log_ok :: "lag_log \<Rightarrow> bool" where
  "lag_log_ok l = (case l of LL_liveCalibration m \<Rightarrow> length (lc_rpyCalib m) = 3 | _ \<Rightarrow> True)"

lemma lag_handle_log_ok:
  assumes "lag_ok s" "lag_log_ok l" shows "\<exists>s'. lag_handle_log t l s = Inr s' \<and> lag_ok s'"
proof (cases l)
  case (LL_liveCalibration m)
  with assms(2) obtain a b c where "lc_rpyCalib m = [a, b, c]" by (auto simp: lag_log_ok_def length_Suc_conv eval_nat_numeral)
  with LL_liveCalibration assms(1) show ?thesis by (simp add: lag_handle_log_def feed_live_calib_def lag_ok_def)
qed (use assms in \<open>simp_all add: lag_handle_log_def lag_ok_def Let_def\<close>)

lemma lag_handle_logs_ok:
  "lag_ok s \<Longrightarrow> list_all (lag_log_ok \<circ> snd) ls \<Longrightarrow> \<exists>s'. lag_handle_logs ls s = Inr s' \<and> lag_ok s'"
proof (induction ls arbitrary: s)
  case (Cons x ls)
  obtain t l where x: "x = (t, l)" by force
  from lag_handle_log_ok [OF Cons.prems(1), of l t] Cons.prems(2) x obtain s' where "lag_handle_log t l s = Inr s'" "lag_ok s'" by auto
  with Cons.IH [of s'] Cons.prems(2) x show ?case by auto
qed simp

lemma update_estimate_ok:
  assumes F: "fft_laws F" and ok: "lag_ok s" shows "\<exists>s'. update_estimate F s = Some (Inr s') \<and> lag_ok s'"
proof -
  have len: "length (lgp_desired (le_points s)) = 1200" "length (lgp_actual (le_points s)) = 1200" using ok by (simp_all add: lag_ok_def points_ok_def)
  then obtain lag corr conf where d: "actuator_delay F (lgp_desired (le_points s)) (lgp_actual (le_points s)) (lgp_okay (le_points s)) LAG_DT MAX_LAG = Some (Inr (lag, corr, conf))"
    "unit_range lag" using actuator_delay_in_range [OF F len, of "lgp_okay (le_points s)"] unfolding unit_range_def by blast
  then show ?thesis using ok by (simp add: update_estimate_def Let_def lag_ok_def block_update_ok)
qed

text \<open>A message in the ranges.\<close>

definition delay_msg_ok :: "live_delay \<Rightarrow> bool" where
  "delay_msg_ok m \<longleftrightarrow> 0 \<le> ld_lateralDelay m \<and> ld_lateralDelay m \<le> 1 \<and> 0 \<le> ld_lateralDelayEstimate m \<and> ld_lateralDelayEstimate m \<le> 1
     \<and> 0 \<le> ld_validBlocks m \<and> ld_validBlocks m \<le> int BLOCK_NUM \<and> 0 \<le> ld_calPerc m \<and> ld_calPerc m \<le> 100
     \<and> (ld_status m = Lag_unestimated \<or> BLOCK_NUM_NEEDED \<le> ld_validBlocks m)"

lemma lag_msg_parts:
  assumes "lag_ok s"
  shows "unit_range (ld_lateralDelay (lag_get_msg v d s))" "unit_range (ld_lateralDelayEstimate (lag_get_msg v d s))"
    "ld_validBlocks (lag_get_msg v d s) = bk_valid_blocks (le_block_avg s)" "ld_status (lag_get_msg v d s) = delay_status (le_block_avg s)"
    "ld_calPerc (lag_get_msg v d s) = min (100 * (bk_valid_blocks (le_block_avg s) * 100 + int (bk_idx (le_block_avg s))) div 500) 100"
  using assms mean_range [OF values_range(1)] mean_range [OF values_range(2)]
  by (auto simp: lag_get_msg_def lag_ok_def Let_def block_get_def average_ok_def LAG_BLOCK_SIZE_def BLOCK_NUM_NEEDED_def split: option.splits lag_status.splits)

lemma delay_status_blocks: "delay_status b \<noteq> Lag_unestimated \<Longrightarrow> BLOCK_NUM_NEEDED \<le> bk_valid_blocks b"
  by (auto simp: delay_status_def split: prod.splits option.splits if_splits)

lemma lag_msg_ok: "lag_ok s \<Longrightarrow> delay_msg_ok (lag_get_msg v d s)"
  using lag_msg_parts [of s v d] delay_status_blocks [of "le_block_avg s"]
  by (auto simp: delay_msg_ok_def unit_range_def lag_ok_def average_ok_def)

definition lagd_out_ok :: "lagd_out \<Rightarrow> bool" where
  "lagd_out_ok r = (case lgo_sent r of Some m \<Rightarrow> delay_msg_ok m | None \<Rightarrow> True)"

lemma lagd_round_ok:
  assumes F: "fft_laws F" and ok: "lag_ok s" and i: "list_all (lag_log_ok \<circ> snd) (lg_received i)"
  shows "\<exists>r s'. lagd_round F dflt CP i s = Some (Inr (r, s')) \<and> lag_ok s' \<and> lagd_out_ok r"
proof -
  have "list_all (lag_log_ok \<circ> snd) (sort_key fst (lg_received i))" using i by (simp add: list_all_iff)
  from lag_handle_logs_ok [OF ok this] obtain s0 where s0: "lag_handle_logs (sort_key fst (lg_received i)) s = Inr s0" "lag_ok s0" by blast
  obtain s1 where s1: "(if lg_all_checks i then bind_result (lag_handle_logs (sort_key fst (lg_received i)) s) (\<lambda>s. Inr (update_points s)) else Inr s) = (Inr s1 :: lag_estimator result)" "lag_ok s1"
    using s0 ok update_points_ok [OF s0(2)] by (cases "lg_all_checks i") auto
  show ?thesis
  proof (cases "lg_frame i mod 5 = 0")
    case True
    from update_estimate_ok [OF F s1(2)] obtain s2 where s2: "update_estimate F s1 = Some (Inr s2)" "lag_ok s2" by blast
    with True s1(1) show ?thesis unfolding lagd_round_def s1(1) by (simp add: Let_def lagd_out_ok_def lag_msg_ok)
  next
    case False
    with s1 show ?thesis unfolding lagd_round_def s1(1) by (simp add: lagd_out_ok_def)
  qed
qed

lemma lagd_run_ok:
  "fft_laws F \<Longrightarrow> lag_ok s \<Longrightarrow> list_all (\<lambda>i. list_all (lag_log_ok \<circ> snd) (lg_received i)) is
    \<Longrightarrow> \<exists>rs s'. lagd_run F dflt CP is s = Some (Inr (rs, s')) \<and> lag_ok s' \<and> length rs = length is \<and> list_all lagd_out_ok rs"
proof (induction "is" arbitrary: s)
  case (Cons i "is")
  have i: "list_all (lag_log_ok \<circ> snd) (lg_received i)" using Cons.prems(3) by (simp add: comp_def)
  from lagd_round_ok [OF Cons.prems(1,2) i, of dflt CP] obtain r s1 where
    r: "lagd_round F dflt CP i s = Some (Inr (r, s1))" "lag_ok s1" "lagd_out_ok r" by blast
  from Cons.IH [OF Cons.prems(1) r(2)] Cons.prems(3) obtain rs s2 where
    "lagd_run F dflt CP is s1 = Some (Inr (rs, s2))" "lag_ok s2" "length rs = length is" "list_all lagd_out_ok rs" by auto
  with r show ?case by simp
qed simp

lemma lagd_start_ok:
  assumes CP: "0 \<le> cp_steerActuatorDelay CP" "cp_steerActuatorDelay CP \<le> 8/10"
    and c: "case cache of Some (d, _) \<Rightarrow> delay_msg_ok d | None \<Rightarrow> True"
  shows "lag_ok (lagd_start cache CP)"
proof -
  have l: "unit_range (cp_steerActuatorDelay CP + 2/10)" using CP by (simp add: unit_range_def)
  then have i: "lag_ok (LateralLagEstimator_init CP)" unfolding LateralLagEstimator_init_def Let_def by (intro lag_reset_ok) (simp_all add: BLOCK_NUM_def)
  show ?thesis
  proof (cases "retrieve_initial_lag cache CP")
    case None
    with i show ?thesis by (simp add: lagd_start_def)
  next
    case (Some x)
    obtain lag v where x: "x = (lag, v)" by force
    from Some x c have "unit_range lag" "0 \<le> v" "v \<le> int BLOCK_NUM"
      by (auto simp: retrieve_initial_lag_def delay_msg_ok_def unit_range_def split: option.splits if_splits)
    with i Some x show ?thesis by (simp add: lagd_start_def) (intro lag_reset_ok, simp_all add: lag_ok_def)
  qed
qed

section \<open>Properties\<close>

text \<open>
  C39. Whatever is measured, lagd starts, its loops end and no round fails, provided the transforms have the documented sizes, the actuator
  delay of the car is at most 0.8 s, calibrations have three angles and the cached message is one lagd sends: every message
  has a delay and an estimate between 0 and 1 s, a progress between 0 and 100, and has left the state
  of no estimate only with at least five blocks.
\<close>

theorem steer_delay_in_range:
  assumes "fft_laws F" "0 \<le> cp_steerActuatorDelay CP" "cp_steerActuatorDelay CP \<le> 8/10"
    and "case cache of Some (d, _) \<Rightarrow> delay_msg_ok d | None \<Rightarrow> True" and "list_all (\<lambda>i. list_all (lag_log_ok \<circ> snd) (lg_received i)) is"
  shows "\<exists>rs s'. lagd_run F dflt CP is (lagd_start cache CP) = Some (Inr (rs, s')) \<and> length rs = length is \<and> list_all lagd_out_ok rs"
  using lagd_run_ok [OF assms(1) lagd_start_ok [OF assms(2,3,4)] assms(5), of dflt CP] by blast

text \<open>The discrete Fourier transform of the first \<open>n\<close> values, padded with zeros, and its inverse.\<close>

definition dft :: "nat \<Rightarrow> real list \<Rightarrow> complex list" where
  "dft n xs = map (\<lambda>k. \<Sum>j<n. complex_of_real (if j < length xs then xs ! j else 0) * cis (- 2 * pi * real j * real k / real n)) [0..<n]"

definition idft :: "complex list \<Rightarrow> complex list" where
  "idft xs = map (\<lambda>k. (\<Sum>j<length xs. xs ! j * cis (2 * pi * real j * real k / real (length xs))) / complex_of_real (real (length xs))) [0..<length xs]"

lemma dft_laws: "fft_laws \<lparr>nf_fft = dft, nf_ifft = idft\<rparr>"
  by (simp add: fft_laws_def dft_def idft_def)

definition test_delay :: live_delay where
  "test_delay = \<lparr>ld_valid = True, ld_status = Lag_estimated, ld_lateralDelay = 3/10, ld_lateralDelayEstimate = 3/10, ld_lateralDelayEstimateStd = 0,
     ld_validBlocks = 50, ld_calPerc = 100, ld_points = []\<rparr>"

definition test_lagd_in :: "int \<Rightarrow> lagd_in" where
  "test_lagd_in k = \<lparr>lg_frame = k, lg_all_checks = True, lg_received = [(2, LL_livePose default_sd_msgs True),
     (1, LL_liveCalibration (default_sd_msgs\<lparr>lc_rpyCalib := [0, 0, 0]\<rparr>)), (1, LL_carState False 20), (1, LL_carControl True)], lg_params = Map.empty\<rparr>"

lemma test_lagd_ok:
  "0 \<le> cp_steerActuatorDelay default_cp" "cp_steerActuatorDelay default_cp \<le> 8/10"
  "case Some (test_delay, Some '''') of Some (d, _) \<Rightarrow> delay_msg_ok d | None \<Rightarrow> True"
  "list_all (\<lambda>i. list_all (lag_log_ok \<circ> snd) (lg_received i)) [test_lagd_in 0, test_lagd_in 1]"
  by (simp_all add: default_cp_def delay_msg_ok_def test_delay_def BLOCK_NUM_def BLOCK_NUM_NEEDED_def test_lagd_in_def lag_log_ok_def)

theorem steer_delay_in_range_witness:
  "\<exists>rs s'. lagd_run \<lparr>nf_fft = dft, nf_ifft = idft\<rparr> (\<lambda>_. 2/10) default_cp [test_lagd_in 0, test_lagd_in 1] (lagd_start (Some (test_delay, Some '''')) default_cp) = Some (Inr (rs, s'))
    \<and> length rs = length [test_lagd_in 0, test_lagd_in 1] \<and> list_all lagd_out_ok rs"
  by (rule steer_delay_in_range [OF dft_laws test_lagd_ok])

text \<open>A message that lagd has sent fulfils what is assumed of a cached one.\<close>

lemma sent_is_cacheable: "lagd_out_ok r \<Longrightarrow> lgo_sent r = Some d \<Longrightarrow> case Some (d, fp) of Some (d, _) \<Rightarrow> delay_msg_ok d | None \<Rightarrow> True"
  by (simp add: lagd_out_ok_def)

text \<open>
  The fixed delay of the settings: with live learning off lagd stores it, but \<open>get_lat_delay\<close>, which the extension of controlsd, the models
  and torqued read the delay with, looks at what is stored only with live learning on; so the learned delay is used either way.
\<close>

lemma fixed_delay_not_read:
  "get_lat_delay dflt (lagd_toggle_update dflt CP m p) (ld_lateralDelay m) = ld_lateralDelay m"
  by (simp add: get_lat_delay_def lagd_toggle_update_def get_bool_def get_float_def)

end
