(* ===== verification/Locationd.thy ===== *)
theory Locationd
  imports Locationd_Helpers
begin

text \<open>
  The localiser, \<open>selfdrive/locationd/locationd.py\<close>: which readings of the sensors and the camera reach the Kalman filter, when the
  filter is reset, and what is published. The filter itself is rednose's (\<open>models/pose_kf.py\<close> generates its equations) and is given as
  functions on a state of its own; a number that is not finite is \<open>None\<close>. The observations that only a debug message
  shows are left out; lists of three numbers in the message of the camera are given as triples.
\<close>

section \<open>Constants\<close>

definition ACCEL_SANITY_CHECK :: real where "ACCEL_SANITY_CHECK = 100"
definition ROTATION_SANITY_CHECK :: real where "ROTATION_SANITY_CHECK = 10"
definition TRANS_SANITY_CHECK :: real where "TRANS_SANITY_CHECK = 200"
definition CALIB_RPY_SANITY_CHECK :: real where "CALIB_RPY_SANITY_CHECK = 5/10"
definition MIN_STD_SANITY_CHECK :: real where "MIN_STD_SANITY_CHECK = 1/100000"
definition MAX_FILTER_REWIND_TIME :: real where "MAX_FILTER_REWIND_TIME = 8/10"
definition MAX_SENSOR_TIME_DIFF :: real where "MAX_SENSOR_TIME_DIFF = 1/10"
definition YAWRATE_CROSS_ERR_CHECK_FACTOR :: real where "YAWRATE_CROSS_ERR_CHECK_FACTOR = 30"
definition INPUT_INVALID_LIMIT :: real where "INPUT_INVALID_LIMIT = 2"
definition INPUT_INVALID_RECOVERY :: real where "INPUT_INVALID_RECOVERY = 10"
definition POSENET_STD_INITIAL_VALUE :: real where "POSENET_STD_INITIAL_VALUE = 10"
definition POSENET_STD_HIST_HALF :: nat where "POSENET_STD_HIST_HALF = 20"

definition calculate_invalid_input_decay :: "real \<Rightarrow> real \<Rightarrow> real \<Rightarrow> real" where
  "calculate_invalid_input_decay invalid_limit recovery_time frequency = (1 - 1 / (2 * invalid_limit)) powr (1 / (recovery_time * frequency))"

section \<open>The filter\<close>

text \<open>The kinds of observations.\<close>

definition PHONE_GYRO :: int where "PHONE_GYRO = 4"
definition PHONE_ACCEL :: int where "PHONE_ACCEL = 10"
definition CAMERA_ODO_TRANSLATION :: int where "CAMERA_ODO_TRANSLATION = 13"
definition CAMERA_ODO_ROTATION :: int where "CAMERA_ODO_ROTATION = 14"

type_synonym floats = "real option list"

record 'k pose_filter =
  pf_init_state :: "floats \<Rightarrow> floats list \<Rightarrow> real option \<Rightarrow> 'k"
  pf_t :: "'k \<Rightarrow> real option"
  pf_x :: "'k \<Rightarrow> floats"
  pf_P :: "'k \<Rightarrow> floats list"
  pf_predict_and_observe :: "real \<Rightarrow> int \<Rightarrow> vec3 \<Rightarrow> vec3 option \<Rightarrow> 'k \<Rightarrow> (floats \<times> floats list) option \<times> 'k"

text \<open>A diagonal matrix, and the start of the filter.\<close>

definition np_diag :: "real list \<Rightarrow> floats list" where
  "np_diag ds = map (\<lambda>i. map (\<lambda>j. Some (if i = j then ds ! i else 0)) [0..<length ds]) [0..<length ds]"

definition pose_initial_x :: floats where
  "pose_initial_x = replicate 18 (Some 0)"

definition pose_initial_P :: "floats list" where
  "pose_initial_P = np_diag (replicate 3 ((1/100)\<^sup>2) @ replicate 3 (10\<^sup>2) @ replicate 3 (1\<^sup>2) @ replicate 3 (1\<^sup>2) @ replicate 3 (100\<^sup>2) @ replicate 3 ((1/100)\<^sup>2))"

text \<open>The parts of the state.\<close>

definition NED_ORIENTATION :: nat where "NED_ORIENTATION = 0"
definition DEVICE_VELOCITY :: nat where "DEVICE_VELOCITY = 3"
definition ANGULAR_VELOCITY :: nat where "ANGULAR_VELOCITY = 6"
definition GYRO_BIAS :: nat where "GYRO_BIAS = 9"
definition ACCELERATION :: nat where "ACCELERATION = 12"

definition state_part :: "nat \<Rightarrow> 'a list \<Rightarrow> 'a list" where
  "state_part i xs = take 3 (drop i xs)"

section \<open>Messages\<close>

datatype imu_source = IMU_bmx055 | IMU_other int
datatype imu_reading = IMU_acceleration "real list" | IMU_gyroUncalibrated "real list" | IMU_empty

record sensor_event =
  se_reading :: imu_reading
  se_timestamp :: int
  se_source :: imu_source

record camera_motion =
  cm_rot :: vec3
  cm_trans :: vec3
  cm_rotStd :: vec3
  cm_transStd :: vec3

datatype loc_log =
  LO_accelerometer sensor_event
| LO_gyroscope sensor_event
| LO_carState real
| LO_liveCalibration "real list"
| LO_cameraOdometry camera_motion

record xyz_estimate =
  xe_xyz :: floats
  xe_std :: floats
  xe_valid :: bool

definition init_xyz_measurement :: "floats \<Rightarrow> floats \<Rightarrow> bool \<Rightarrow> xyz_estimate result" where
  "init_xyz_measurement values stds valid =
     (if length values = 3 \<and> length stds = 3 then Inr \<lparr>xe_xyz = values, xe_std = stds, xe_valid = valid\<rparr> else Inl AssertionError)"

record live_pose =
  lpo_valid :: bool
  lpo_orientationNED :: xyz_estimate
  lpo_velocityDevice :: xyz_estimate
  lpo_angularVelocityDevice :: xyz_estimate
  lpo_accelerationDevice :: xyz_estimate
  lpo_inputsOK :: bool
  lpo_posenetOK :: bool
  lpo_sensorsOK :: bool

section \<open>The estimator\<close>

datatype handle_log_result = HL_SUCCESS | HL_TIMING_INVALID | HL_INPUT_INVALID | HL_SENSOR_SOURCE_INVALID

record 'k loc_estimator =
  lc_kf :: 'k
  lc_posenet_stds :: "real list"
  lc_car_speed :: real
  lc_camodo_yawrate :: "real \<times> real"
  lc_device_from_calib :: mat3

definition LocationEstimator_init :: "'k pose_filter \<Rightarrow> 'k loc_estimator" where
  "LocationEstimator_init K = \<lparr>lc_kf = pf_init_state K pose_initial_x pose_initial_P None,
     lc_posenet_stds = replicate (POSENET_STD_HIST_HALF * 2) POSENET_STD_INITIAL_VALUE, lc_car_speed = 0, lc_camodo_yawrate = (0, 10), lc_device_from_calib = eye3\<rparr>"

definition loc_reset :: "'k pose_filter \<Rightarrow> real option \<Rightarrow> floats \<Rightarrow> floats list \<Rightarrow> 'k loc_estimator \<Rightarrow> 'k loc_estimator" where
  "loc_reset K t x_initial P_initial s = s\<lparr>lc_kf := pf_init_state K x_initial P_initial t\<rparr>"

definition validate_sensor_source :: "imu_source \<Rightarrow> bool" where
  "validate_sensor_source src \<longleftrightarrow> src \<noteq> IMU_bmx055"

definition validate_sensor_time :: "real \<Rightarrow> real \<Rightarrow> bool" where
  "validate_sensor_time sensor_time t = (if sensor_time = 0 then False else \<not> \<bar>sensor_time - t\<bar> > MAX_SENSOR_TIME_DIFF)"

definition validate_timestamp :: "'k pose_filter \<Rightarrow> real \<Rightarrow> 'k loc_estimator \<Rightarrow> bool" where
  "validate_timestamp K t s = (case pf_t K (lc_kf s) of None \<Rightarrow> True | Some kf_t \<Rightarrow> \<not> kf_t - t > MAX_FILTER_REWIND_TIME)"

definition all_finite :: "floats \<Rightarrow> bool" where
  "all_finite xs \<longleftrightarrow> list_all (\<lambda>x. x \<noteq> None) xs"

definition finite_check :: "'k pose_filter \<Rightarrow> real \<Rightarrow> (floats \<times> floats list) option \<Rightarrow> 'k loc_estimator \<Rightarrow> 'k loc_estimator" where
  "finite_check K t new s = (case new of
     Some (new_x, new_P) \<Rightarrow> if all_finite new_x \<and> list_all all_finite new_P then s else loc_reset K (Some t) pose_initial_x pose_initial_P s
   | None \<Rightarrow> s)"

definition norm3 :: "vec3 \<Rightarrow> real" where
  "norm3 v = sqrt (dot3 v v)"

fun min_entry :: "vec3 \<Rightarrow> real" where
  "min_entry (a, b, c) = min a (min b c)"

text \<open>The axes of the sensor in the frame of the device.\<close>

definition sensor_meas :: "real list \<Rightarrow> vec3 result" where
  "sensor_meas v = bind_result (py_nth v 2) (\<lambda>z. bind_result (py_nth v 1) (\<lambda>y. bind_result (py_nth v 0) (\<lambda>x. Inr (- z, - y, - x))))"

definition sensor_time_of :: "sensor_event \<Rightarrow> real" where
  "sensor_time_of m = of_int (se_timestamp m) / 10 ^ 9"

definition observe_sensor :: "'k pose_filter \<Rightarrow> real \<Rightarrow> real \<Rightarrow> int \<Rightarrow> vec3 \<Rightarrow> 'k loc_estimator \<Rightarrow> 'k loc_estimator" where
  "observe_sensor K t sensor_time kind meas s =
     (let (res, k) = pf_predict_and_observe K sensor_time kind meas None (lc_kf s) in finite_check K t res (s\<lparr>lc_kf := k\<rparr>))"

definition handle_accelerometer :: "'k pose_filter \<Rightarrow> real \<Rightarrow> sensor_event \<Rightarrow> 'k loc_estimator \<Rightarrow> (handle_log_result \<times> 'k loc_estimator) result" where
  "handle_accelerometer K t m s = (case se_reading m of
     IMU_acceleration v \<Rightarrow>
       let sensor_time = sensor_time_of m
       in if \<not> validate_sensor_time sensor_time t \<or> \<not> validate_timestamp K sensor_time s then Inr (HL_TIMING_INVALID, s)
          else if \<not> validate_sensor_source (se_source m) then Inr (HL_SENSOR_SOURCE_INVALID, s)
          else bind_result (sensor_meas v) (\<lambda>meas.
            if norm3 meas \<ge> ACCEL_SANITY_CHECK then Inr (HL_INPUT_INVALID, s)
            else Inr (HL_SUCCESS, observe_sensor K t sensor_time PHONE_ACCEL meas s))
   | _ \<Rightarrow> Inr (HL_SUCCESS, s))"

text \<open>The yaw rate of the gyroscope has to agree with that of the camera; with a bias that is not finite it does not.\<close>

definition gyro_agrees :: "real option \<Rightarrow> real \<Rightarrow> real \<times> real \<Rightarrow> bool" where
  "gyro_agrees bias yaw d = (case bias of Some b \<Rightarrow> \<bar>(yaw - b) - fst d\<bar> < YAWRATE_CROSS_ERR_CHECK_FACTOR * snd d | None \<Rightarrow> False)"

definition handle_gyroscope :: "'k pose_filter \<Rightarrow> real \<Rightarrow> sensor_event \<Rightarrow> 'k loc_estimator \<Rightarrow> (handle_log_result \<times> 'k loc_estimator) result" where
  "handle_gyroscope K t m s = (case se_reading m of
     IMU_gyroUncalibrated v \<Rightarrow>
       let sensor_time = sensor_time_of m
       in if \<not> validate_sensor_time sensor_time t \<or> \<not> validate_timestamp K sensor_time s then Inr (HL_TIMING_INVALID, s)
          else if \<not> validate_sensor_source (se_source m) then Inr (HL_SENSOR_SOURCE_INVALID, s)
          else bind_result (sensor_meas v) (\<lambda>meas.
            bind_result (py_nth (state_part GYRO_BIAS (pf_x K (lc_kf s))) 2) (\<lambda>bias.
              if norm3 meas \<ge> ROTATION_SANITY_CHECK \<or> \<not> gyro_agrees bias (snd (snd meas)) (lc_camodo_yawrate s) then Inr (HL_INPUT_INVALID, s)
              else Inr (HL_SUCCESS, observe_sensor K t sensor_time PHONE_GYRO meas s)))
   | _ \<Rightarrow> Inr (HL_SUCCESS, s))"

definition handle_calibration :: "real list \<Rightarrow> 'k loc_estimator \<Rightarrow> (handle_log_result \<times> 'k loc_estimator) result" where
  "handle_calibration rpy s =
     (if rpy = [] then Inr (HL_SUCCESS, s)
      else if list_ex (\<lambda>x. x < - CALIB_RPY_SANITY_CHECK) rpy \<or> list_ex (\<lambda>x. x > CALIB_RPY_SANITY_CHECK) rpy then Inr (HL_INPUT_INVALID, s)
      else case rpy of [r, p, y] \<Rightarrow> Inr (HL_SUCCESS, s\<lparr>lc_device_from_calib := euler2rot_single (r, p, y)\<rparr>) | _ \<Rightarrow> Inl ValueError)"

definition camera_sane :: "mat3 \<Rightarrow> camera_motion \<Rightarrow> bool" where
  "camera_sane R m \<longleftrightarrow> \<not> (norm3 (mat_vec R (cm_rot m)) > ROTATION_SANITY_CHECK \<or> norm3 (mat_vec R (cm_trans m)) > TRANS_SANITY_CHECK)
     \<and> \<not> (min_entry (cm_rotStd m) \<le> MIN_STD_SANITY_CHECK \<or> min_entry (cm_transStd m) \<le> MIN_STD_SANITY_CHECK)
     \<and> \<not> (norm3 (cm_rotStd m) > 10 * ROTATION_SANITY_CHECK \<or> norm3 (cm_transStd m) > 10 * TRANS_SANITY_CHECK)"

text \<open>The result of the translation replaces that of the rotation, unless the filter gave none.\<close>

definition handle_camera_odometry :: "'k pose_filter \<Rightarrow> real \<Rightarrow> camera_motion \<Rightarrow> 'k loc_estimator \<Rightarrow> handle_log_result \<times> 'k loc_estimator" where
  "handle_camera_odometry K t m s =
     (if \<not> validate_timestamp K t s then (HL_TIMING_INVALID, s)
      else if \<not> camera_sane (lc_device_from_calib s) m then (HL_INPUT_INVALID, s)
      else let R = lc_device_from_calib s; rot_device = mat_vec R (cm_rot m); trans_device = mat_vec R (cm_trans m);
               rot_device_std = rotate_std R (map3 (\<lambda>x. x * 10) (cm_rotStd m)); trans_device_std = rotate_std R (map3 (\<lambda>x. x * 2) (cm_transStd m));
               (rot_res, k1) = pf_predict_and_observe K t CAMERA_ODO_ROTATION rot_device (Some (map3 (\<lambda>x. x\<^sup>2) rot_device_std)) (lc_kf s);
               (trans_res, k2) = pf_predict_and_observe K t CAMERA_ODO_TRANSLATION trans_device (Some (map3 (\<lambda>x. x\<^sup>2) trans_device_std)) k1;
               new = (case trans_res of Some r \<Rightarrow> Some r | None \<Rightarrow> rot_res)
           in (HL_SUCCESS, finite_check K t new (s\<lparr>lc_posenet_stds := tl (lc_posenet_stds s) @ [fst (cm_transStd m)],
                 lc_kf := k2, lc_camodo_yawrate := (snd (snd rot_device), snd (snd rot_device_std))\<rparr>)))"

definition loc_handle_log :: "'k pose_filter \<Rightarrow> real \<Rightarrow> loc_log \<Rightarrow> 'k loc_estimator \<Rightarrow> (handle_log_result \<times> 'k loc_estimator) result" where
  "loc_handle_log K t l s = (case l of
     LO_accelerometer m \<Rightarrow> handle_accelerometer K t m s
   | LO_gyroscope m \<Rightarrow> handle_gyroscope K t m s
   | LO_carState v \<Rightarrow> Inr (HL_SUCCESS, s\<lparr>lc_car_speed := \<bar>v\<bar>\<rparr>)
   | LO_liveCalibration rpy \<Rightarrow> handle_calibration rpy s
   | LO_cameraOdometry m \<Rightarrow> Inr (handle_camera_odometry K t m s))"

text \<open>Standard deviations are the roots of the diagonal; a negative variance gives none.\<close>

definition np_sqrt :: "real option \<Rightarrow> real option" where
  "np_sqrt v = (case v of Some x \<Rightarrow> if x < 0 then None else Some (sqrt x) | None \<Rightarrow> None)"

definition diagonal :: "floats list \<Rightarrow> floats" where
  "diagonal P = map (\<lambda>i. P ! i ! i) [0..<length P]"

definition posenet_mean :: "real list \<Rightarrow> real" where
  "posenet_mean xs = sum_list xs / real (length xs)"

definition posenet_ok :: "'k loc_estimator \<Rightarrow> bool" where
  "posenet_ok s \<longleftrightarrow>
     (let old_mean = posenet_mean (take POSENET_STD_HIST_HALF (lc_posenet_stds s)); new_mean = posenet_mean (drop POSENET_STD_HIST_HALF (lc_posenet_stds s));
          std_spike = (new_mean / old_mean > 4 \<and> new_mean > 7)
      in \<not> std_spike \<or> lc_car_speed s \<le> 5)"

definition loc_get_msg :: "'k pose_filter \<Rightarrow> bool \<Rightarrow> bool \<Rightarrow> bool \<Rightarrow> 'k loc_estimator \<Rightarrow> live_pose result" where
  "loc_get_msg K sensors_valid inputs_valid filter_valid s =
     (let state = pf_x K (lc_kf s); std = map np_sqrt (diagonal (pf_P K (lc_kf s)))
      in bind_result (init_xyz_measurement (state_part NED_ORIENTATION state) (state_part NED_ORIENTATION std) filter_valid) (\<lambda>orientation.
         bind_result (init_xyz_measurement (state_part DEVICE_VELOCITY state) (state_part DEVICE_VELOCITY std) filter_valid) (\<lambda>velocity.
         bind_result (init_xyz_measurement (state_part ANGULAR_VELOCITY state) (state_part ANGULAR_VELOCITY std) filter_valid) (\<lambda>angular_velocity.
         bind_result (init_xyz_measurement (state_part ACCELERATION state) (state_part ACCELERATION std) filter_valid) (\<lambda>acceleration.
           Inr \<lparr>lpo_valid = filter_valid, lpo_orientationNED = orientation, lpo_velocityDevice = velocity, lpo_angularVelocityDevice = angular_velocity,
                lpo_accelerationDevice = acceleration, lpo_inputsOK = inputs_valid, lpo_posenetOK = posenet_ok s, lpo_sensorsOK = sensors_valid\<rparr>)))))"

section \<open>The process\<close>

datatype critical_service = CS_accelerometer | CS_gyroscope | CS_cameraOdometry

definition service_frequency :: "critical_service \<Rightarrow> real" where
  "service_frequency c = (case c of CS_cameraOdometry \<Rightarrow> 20 | _ \<Rightarrow> 104)"

definition input_invalid_limit :: "critical_service \<Rightarrow> int" where
  "input_invalid_limit c = py_round (INPUT_INVALID_LIMIT * (service_frequency c / 20))"

definition input_invalid_threshold :: "critical_service \<Rightarrow> real" where
  "input_invalid_threshold c = of_int (input_invalid_limit c) - 5/10"

definition input_invalid_decay :: "critical_service \<Rightarrow> real" where
  "input_invalid_decay c = calculate_invalid_input_decay (of_int (input_invalid_limit c)) INPUT_INVALID_RECOVERY (service_frequency c)"

definition critical :: "loc_log \<Rightarrow> critical_service option" where
  "critical l = (case l of LO_accelerometer _ \<Rightarrow> Some CS_accelerometer | LO_gyroscope _ \<Rightarrow> Some CS_gyroscope | LO_cameraOdometry _ \<Rightarrow> Some CS_cameraOdometry | _ \<Rightarrow> None)"

text \<open>The count of invalid inputs after a result.\<close>

definition count_invalid :: "critical_service \<Rightarrow> handle_log_result \<Rightarrow> real \<Rightarrow> real" where
  "count_invalid c res n = (case res of HL_TIMING_INVALID \<Rightarrow> n + 1 | HL_INPUT_INVALID \<Rightarrow> n + 1 | HL_SUCCESS \<Rightarrow> n * input_invalid_decay c | HL_SENSOR_SOURCE_INVALID \<Rightarrow> n)"

datatype sensor_name = SN_accelerometer | SN_gyroscope

text \<open>The dictionaries of the sensors: validity is absent until the first message.\<close>

record sensor_status =
  sn_valid :: "sensor_name \<Rightarrow> bool option"
  sn_recv_time :: "sensor_name \<Rightarrow> real"
  sn_alive :: "sensor_name \<Rightarrow> bool"

definition check_sensor :: "real \<Rightarrow> bool \<Rightarrow> sensor_name \<Rightarrow> (int \<times> bool \<times> sensor_event) list \<Rightarrow> sensor_status \<Rightarrow> sensor_status" where
  "check_sensor cur_time simulation n msgs s =
     (let s1 = (if msgs \<noteq> [] then s\<lparr>sn_valid := (sn_valid s)(n \<mapsto> fst (snd (last msgs))), sn_recv_time := (sn_recv_time s)(n := cur_time)\<rparr> else s)
      in s1\<lparr>sn_alive := (sn_alive s1)(n := (if \<not> simulation then cur_time - sn_recv_time s1 n < 1/10 else msgs \<noteq> []))\<rparr>)"

definition sensor_all_checks :: "real \<Rightarrow> bool \<Rightarrow> (int \<times> bool \<times> sensor_event) list \<Rightarrow> (int \<times> bool \<times> sensor_event) list \<Rightarrow> sensor_status \<Rightarrow> bool \<times> sensor_status" where
  "sensor_all_checks cur_time simulation acc_msgs gyro_msgs s0 =
     (let s = check_sensor cur_time simulation SN_gyroscope gyro_msgs (check_sensor cur_time simulation SN_accelerometer acc_msgs s0)
      in (list_all (sn_alive s) [SN_accelerometer, SN_gyroscope] \<and> list_all (\<lambda>n. sn_valid s n \<noteq> Some False) [SN_accelerometer, SN_gyroscope], s))"

record 'k locationd =
  lo_estimator :: "'k loc_estimator"
  lo_filter_initialized :: bool
  lo_input_invalid :: "critical_service \<Rightarrow> real"
  lo_sensors :: sensor_status

record locationd_in =
  loi_acc_msgs :: "(int \<times> bool \<times> sensor_event) list"
  loi_gyro_msgs :: "(int \<times> bool \<times> sensor_event) list"
  loi_updated :: "(int \<times> bool \<times> loc_log) list"
  loi_all_checks :: bool
  loi_all_valid :: bool
  loi_monotonic :: real

definition locationd_start :: "'k pose_filter \<Rightarrow> (real list \<times> real list) option \<Rightarrow> 'k locationd" where
  "locationd_start K initial_pose =
     (let e = LocationEstimator_init K
      in \<lparr>lo_estimator = (case initial_pose of
            Some (x, std) \<Rightarrow> loc_reset K None (if x \<noteq> [] then map Some x else pose_initial_x) (if std \<noteq> [] then np_diag std else pose_initial_P) e
          | None \<Rightarrow> e),
          lo_filter_initialized = False, lo_input_invalid = (\<lambda>_. 0), lo_sensors = \<lparr>sn_valid = Map.empty, sn_recv_time = (\<lambda>_. 0), sn_alive = (\<lambda>_. False)\<rparr>\<rparr>)"

definition round_msgs :: "locationd_in \<Rightarrow> (int \<times> bool \<times> loc_log) list" where
  "round_msgs i = sort_key fst (map (\<lambda>(t, v, m). (t, v, LO_accelerometer m)) (loi_acc_msgs i) @ map (\<lambda>(t, v, m). (t, v, LO_gyroscope m)) (loi_gyro_msgs i) @ loi_updated i)"

fun handle_msgs :: "'k pose_filter \<Rightarrow> (int \<times> bool \<times> loc_log) list \<Rightarrow> 'k locationd \<Rightarrow> 'k locationd result" where
  "handle_msgs K [] s = Inr s"
| "handle_msgs K ((t, valid, l) # ms) s =
     (if valid
      then bind_result (loc_handle_log K (of_int t / 10 ^ 9) l (lo_estimator s)) (\<lambda>(res, e).
             let s1 = s\<lparr>lo_estimator := e\<rparr>
             in handle_msgs K ms (case critical l of None \<Rightarrow> s1
                  | Some c \<Rightarrow> s1\<lparr>lo_input_invalid := (lo_input_invalid s)(c := count_invalid c res (lo_input_invalid s c))\<rparr>))
      else handle_msgs K ms s)"

definition critical_inputs_valid :: "'k locationd \<Rightarrow> bool" where
  "critical_inputs_valid s \<longleftrightarrow> list_all (\<lambda>c. lo_input_invalid s c < input_invalid_threshold c) [CS_accelerometer, CS_gyroscope, CS_cameraOdometry]"

definition locationd_round :: "'k pose_filter \<Rightarrow> bool \<Rightarrow> locationd_in \<Rightarrow> 'k locationd \<Rightarrow> (live_pose option \<times> 'k locationd) result" where
  "locationd_round K simulation i s0 =
     bind_result
       (if lo_filter_initialized s0 then handle_msgs K (round_msgs i) s0
        else if loi_all_checks i
             then let (ok, st) = sensor_all_checks (loi_monotonic i) simulation (loi_acc_msgs i) (loi_gyro_msgs i) (lo_sensors s0)
                  in Inr (s0\<lparr>lo_filter_initialized := ok, lo_sensors := st\<rparr>)
             else Inr s0)
       (\<lambda>s1. if list_ex (\<lambda>(_, _, l). critical l = Some CS_cameraOdometry) (loi_updated i)
             then let inputs_valid = (loi_all_valid i \<and> critical_inputs_valid s1);
                      (sensors_valid, st) = sensor_all_checks (loi_monotonic i) simulation (loi_acc_msgs i) (loi_gyro_msgs i) (lo_sensors s1)
                  in bind_result (loc_get_msg K sensors_valid inputs_valid (lo_filter_initialized s1) (lo_estimator s1)) (\<lambda>m.
                       Inr (Some m, s1\<lparr>lo_sensors := st\<rparr>))
             else Inr (None, s1))"

fun locationd_run :: "'k pose_filter \<Rightarrow> bool \<Rightarrow> locationd_in list \<Rightarrow> 'k locationd \<Rightarrow> (live_pose option list \<times> 'k locationd) result" where
  "locationd_run K simulation [] s = Inr ([], s)"
| "locationd_run K simulation (i # is) s =
     bind_result (locationd_round K simulation i s) (\<lambda>(m, s').
       bind_result (locationd_run K simulation is s') (\<lambda>(ms, s''). Inr (m # ms, s'')))"

section \<open>Facts: the state between two rounds\<close>

text \<open>What is used of the filter: its dimensions, from the start on and kept by observations.\<close>

definition dims :: "'k pose_filter \<Rightarrow> 'k \<Rightarrow> bool" where
  "dims K k \<longleftrightarrow> length (pf_x K k) = 18 \<and> length (pf_P K k) = 18"

definition filter_dims :: "'k pose_filter \<Rightarrow> bool" where
  "filter_dims K \<longleftrightarrow> (\<forall>x P t. length x = 18 \<longrightarrow> length P = 18 \<longrightarrow> dims K (pf_init_state K x P t))
     \<and> (\<forall>t kind z R k. dims K k \<longrightarrow> dims K (snd (pf_predict_and_observe K t kind z R k)))"

definition loc_log_ok :: "loc_log \<Rightarrow> bool" where
  "loc_log_ok l = (case l of
     LO_accelerometer m \<Rightarrow> (case se_reading m of IMU_acceleration v \<Rightarrow> 3 \<le> length v | _ \<Rightarrow> True)
   | LO_gyroscope m \<Rightarrow> (case se_reading m of IMU_gyroUncalibrated v \<Rightarrow> 3 \<le> length v | _ \<Rightarrow> True)
   | LO_liveCalibration rpy \<Rightarrow> rpy = [] \<or> length rpy = 3
   | _ \<Rightarrow> True)"

text \<open>The rotation from the frame of the calibration is one: it keeps lengths.\<close>

definition isometry :: "mat3 \<Rightarrow> bool" where
  "isometry R \<longleftrightarrow> (\<forall>v. norm3 (mat_vec R v) = norm3 v)"

lemma eye_isometry: "isometry eye3"
  by (simp add: isometry_def eye3_def)

lemma rotation_keeps_dot:
  fixes c1 s1 c2 s2 c3 s3 x y z :: real
  assumes "c1^2 + s1^2 = 1" "c2^2 + s2^2 = 1" "c3^2 + s3^2 = 1"
  shows "(c3*c2*x + (c3*s2*s1 - s3*c1)*y + (c3*s2*c1 + s3*s1)*z)^2 + (s3*c2*x + (s3*s2*s1 + c3*c1)*y + (s3*s2*c1 - c3*s1)*z)^2
    + (- s2*x + c2*s1*y + c2*c1*z)^2 = x^2 + y^2 + z^2"
  using assms by algebra

lemma rotation_isometry: "isometry (euler2rot_single e)"
proof -
  obtain p t q where e: "e = (p, t, q)" by (cases e)
  have "dot3 (mat_vec (euler2rot_single e) v) (mat_vec (euler2rot_single e) v) = dot3 v v" for v
  proof (cases v)
    case (fields x y z)
    show ?thesis unfolding fields e euler2rot_entries
      using rotation_keeps_dot [of "cos p" "sin p" "cos t" "sin t" "cos q" "sin q" x y z] by (simp add: power2_eq_square mult.assoc)
  qed
  then show ?thesis by (simp add: isometry_def norm3_def)
qed

definition loc_ok :: "'k pose_filter \<Rightarrow> 'k loc_estimator \<Rightarrow> bool" where
  "loc_ok K e \<longleftrightarrow> dims K (lc_kf e) \<and> isometry (lc_device_from_calib e)"

lemma initial_dims: "length pose_initial_x = 18" "length pose_initial_P = 18"
  by (simp_all add: pose_initial_x_def pose_initial_P_def np_diag_def)

lemma finite_check_ok: "filter_dims K \<Longrightarrow> loc_ok K e \<Longrightarrow> loc_ok K (finite_check K t new e)"
  by (auto simp: finite_check_def loc_reset_def filter_dims_def initial_dims loc_ok_def split: option.splits)

lemma observe_dims: "filter_dims K \<Longrightarrow> dims K k \<Longrightarrow> pf_predict_and_observe K t kind z R k = (r, k') \<Longrightarrow> dims K k'"
  unfolding filter_dims_def by (metis snd_conv)

lemma observe_sensor_ok: "filter_dims K \<Longrightarrow> loc_ok K e \<Longrightarrow> loc_ok K (observe_sensor K t st kind z e)"
  by (auto simp: observe_sensor_def loc_ok_def intro!: finite_check_ok [unfolded loc_ok_def] intro: observe_dims split: prod.splits)

lemma camera_ok: "filter_dims K \<Longrightarrow> loc_ok K e \<Longrightarrow> loc_ok K (snd (handle_camera_odometry K t m e))"
  by (auto simp: handle_camera_odometry_def loc_ok_def Let_def intro!: finite_check_ok [unfolded loc_ok_def] intro: observe_dims split: prod.splits)

lemma sensor_meas_returns: "3 \<le> length v \<Longrightarrow> \<exists>m. sensor_meas v = Inr m"
  by (auto simp: sensor_meas_def py_nth_def)

lemma bias_there: "length xs = 18 \<Longrightarrow> py_nth (state_part GYRO_BIAS xs) 2 = Inr (xs ! 11)"
  by (simp add: py_nth_def state_part_def GYRO_BIAS_def)

lemma accelerometer_returns:
  assumes "filter_dims K" "loc_ok K e" "loc_log_ok (LO_accelerometer m)"
  shows "\<exists>r e'. handle_accelerometer K t m e = Inr (r, e') \<and> loc_ok K e'"
proof (cases "se_reading m")
  case (IMU_acceleration v)
  with assms(3) sensor_meas_returns [of v] obtain w where "sensor_meas v = Inr w" by (auto simp: loc_log_ok_def)
  with IMU_acceleration assms show ?thesis by (simp add: handle_accelerometer_def Let_def observe_sensor_ok)
qed (use assms in \<open>simp_all add: handle_accelerometer_def\<close>)

lemma gyroscope_returns:
  assumes "filter_dims K" "loc_ok K e" "loc_log_ok (LO_gyroscope m)"
  shows "\<exists>r e'. handle_gyroscope K t m e = Inr (r, e') \<and> loc_ok K e'"
proof (cases "se_reading m")
  case (IMU_gyroUncalibrated v)
  with assms(3) sensor_meas_returns [of v] obtain w where "sensor_meas v = Inr w" by (auto simp: loc_log_ok_def)
  moreover have "length (pf_x K (lc_kf e)) = 18" using assms(2) by (simp add: loc_ok_def dims_def)
  ultimately show ?thesis using IMU_gyroUncalibrated assms by (simp add: handle_gyroscope_def Let_def observe_sensor_ok bias_there)
qed (use assms in \<open>simp_all add: handle_gyroscope_def\<close>)

lemma calibration_returns:
  assumes "loc_ok K e" "rpy = [] \<or> length rpy = 3" shows "\<exists>r e'. handle_calibration rpy e = Inr (r, e') \<and> loc_ok K e'"
  using assms rotation_isometry by (auto simp: handle_calibration_def loc_ok_def length_Suc_conv eval_nat_numeral)

lemma loc_handle_log_returns:
  assumes K: "filter_dims K" "loc_ok K e" and l: "loc_log_ok l" shows "\<exists>r e'. loc_handle_log K t l e = Inr (r, e') \<and> loc_ok K e'"
proof (cases l)
  case (LO_accelerometer m)
  with accelerometer_returns [OF K] l show ?thesis by (simp add: loc_handle_log_def)
next
  case (LO_gyroscope m)
  with gyroscope_returns [OF K] l show ?thesis by (simp add: loc_handle_log_def)
next
  case (LO_liveCalibration rpy)
  with calibration_returns [OF K(2), of rpy] l show ?thesis by (simp add: loc_handle_log_def loc_log_ok_def)
next
  case (LO_cameraOdometry m)
  with camera_ok [OF K, of t m] show ?thesis by (cases "handle_camera_odometry K t m e") (simp add: loc_handle_log_def)
qed (use K in \<open>simp add: loc_handle_log_def loc_ok_def\<close>)

section \<open>Facts: what reaches the filter\<close>

text \<open>
  A bad input: a sensor that has no time, or one more than 0.1 s off, or whose reading is too large (of the first unit), a motion of
  the camera that is too large, too certain or too uncertain.
\<close>

definition bad_input :: "real \<Rightarrow> loc_log \<Rightarrow> bool" where
  "bad_input t l = (case l of
     LO_accelerometer m \<Rightarrow> (case se_reading m of
       IMU_acceleration [x, y, z] \<Rightarrow> \<not> validate_sensor_time (sensor_time_of m) t \<or> se_source m \<noteq> IMU_bmx055 \<and> norm3 (x, y, z) \<ge> 100 | _ \<Rightarrow> False)
   | LO_gyroscope m \<Rightarrow> (case se_reading m of
       IMU_gyroUncalibrated [x, y, z] \<Rightarrow> \<not> validate_sensor_time (sensor_time_of m) t \<or> se_source m \<noteq> IMU_bmx055 \<and> norm3 (x, y, z) \<ge> 10 | _ \<Rightarrow> False)
   | LO_cameraOdometry m \<Rightarrow> norm3 (cm_rot m) > 10 \<or> norm3 (cm_trans m) > 200 \<or> min_entry (cm_rotStd m) \<le> 1/100000 \<or> min_entry (cm_transStd m) \<le> 1/100000
       \<or> norm3 (cm_rotStd m) > 100 \<or> norm3 (cm_transStd m) > 2000
   | _ \<Rightarrow> False)"

lemma norm3_mirror: "norm3 (- z, - y, - x) = norm3 (x, y, z)"
  by (simp add: norm3_def algebra_simps)

lemma sensor_meas_three: "sensor_meas [x, y, z] = Inr (- z, - y, - x)"
  by (simp add: sensor_meas_def py_nth_def)

lemma isometryD: "isometry R \<Longrightarrow> norm3 (mat_vec R v) = norm3 v"
  unfolding isometry_def by blast

lemma bad_camera: "isometry R \<Longrightarrow> bad_input t (LO_cameraOdometry m) \<Longrightarrow> \<not> camera_sane R m"
  by (simp add: bad_input_def camera_sane_def isometryD ROTATION_SANITY_CHECK_def TRANS_SANITY_CHECK_def MIN_STD_SANITY_CHECK_def)

lemma bad_input_rejected:
  assumes K: "loc_ok K e" and bad: "bad_input t l"
  shows "\<exists>res. loc_handle_log K t l e = Inr (res, e) \<and> (res = HL_TIMING_INVALID \<or> res = HL_INPUT_INVALID)"
proof (cases l)
  case (LO_accelerometer m)
  with bad show ?thesis by (auto simp: bad_input_def loc_handle_log_def handle_accelerometer_def Let_def validate_sensor_source_def sensor_meas_three norm3_mirror
      ACCEL_SANITY_CHECK_def split: imu_reading.splits list.splits)
next
  case (LO_gyroscope m)
  have "length (pf_x K (lc_kf e)) = 18" using K by (simp add: loc_ok_def dims_def)
  with LO_gyroscope bad show ?thesis by (auto simp: bad_input_def loc_handle_log_def handle_gyroscope_def Let_def validate_sensor_source_def sensor_meas_three
      norm3_mirror bias_there ROTATION_SANITY_CHECK_def split: imu_reading.splits list.splits)
next
  case (LO_cameraOdometry m)
  with bad_camera [of "lc_device_from_calib e" t m] K bad show ?thesis by (simp add: loc_handle_log_def handle_camera_odometry_def loc_ok_def)
qed (use bad in \<open>simp_all add: bad_input_def\<close>)

text \<open>Messages of a service, all of them bad, and all the others.\<close>

definition from_service :: "critical_service \<Rightarrow> int \<times> bool \<times> loc_log \<Rightarrow> bool" where
  "from_service c m = (case m of (t, valid, l) \<Rightarrow> valid \<and> critical l = Some c)"

definition service_bad :: "critical_service \<Rightarrow> (int \<times> bool \<times> loc_log) list \<Rightarrow> bool" where
  "service_bad c ms \<longleftrightarrow> list_all (\<lambda>m. from_service c m \<longrightarrow> (case m of (t, _, l) \<Rightarrow> bad_input (of_int t / 10 ^ 9) l)) ms"

definition others :: "critical_service \<Rightarrow> (int \<times> bool \<times> loc_log) list \<Rightarrow> (int \<times> bool \<times> loc_log) list" where
  "others c ms = filter (\<lambda>m. \<not> from_service c m) ms"

definition how_many :: "critical_service \<Rightarrow> (int \<times> bool \<times> loc_log) list \<Rightarrow> nat" where
  "how_many c ms = length (filter (from_service c) ms)"

text \<open>
  Two localisers with the same estimator, one of which does not get the bad messages: the estimators stay the same, and the other
  one has counted them.
\<close>

lemma bad_msgs_ignored:
  assumes "filter_dims K" "loc_ok K (lo_estimator s)" "lo_estimator s2 = lo_estimator s" "list_all (\<lambda>(_, _, l). loc_log_ok l) ms" "service_bad c ms"
  shows "\<exists>s' s2'. handle_msgs K ms s = Inr s' \<and> handle_msgs K (others c ms) s2 = Inr s2' \<and> lo_estimator s2' = lo_estimator s' \<and> loc_ok K (lo_estimator s')
    \<and> lo_input_invalid s' c = lo_input_invalid s c + real (how_many c ms) \<and> lo_filter_initialized s' = lo_filter_initialized s \<and> lo_sensors s' = lo_sensors s"
  using assms(2-5)
proof (induction ms arbitrary: s s2)
  case (Cons m ms)
  obtain t v l where m: "m = (t, v, l)" by (metis prod.exhaust)
  from Cons.prems m have l: "loc_log_ok l" "list_all (\<lambda>(_, _, l). loc_log_ok l) ms" "service_bad c ms" by (simp_all add: service_bad_def)
  show ?case
  proof (cases v)
    case False
    with Cons.IH [OF Cons.prems(1,2) l(2,3)] m show ?thesis by (simp add: others_def how_many_def from_service_def)
  next
    case v: True
    from loc_handle_log_returns [OF assms(1) Cons.prems(1) l(1), of "of_int t / 10 ^ 9"] obtain r e where
      r: "loc_handle_log K (of_int t / 10 ^ 9) l (lo_estimator s) = Inr (r, e)" "loc_ok K e" by blast
    let ?n = "\<lambda>s c. s\<lparr>lo_estimator := e, lo_input_invalid := (lo_input_invalid s)(c := count_invalid c r (lo_input_invalid s c))\<rparr>"
    let ?next = "\<lambda>s. case critical l of None \<Rightarrow> s\<lparr>lo_estimator := e\<rparr> | Some c \<Rightarrow> ?n s c"
    have step: "handle_msgs K (m # xs) s = handle_msgs K xs (?next s)" "handle_msgs K (m # xs) s2 = handle_msgs K xs (?next s2)" for xs
      using m v r(1) Cons.prems(2) by (simp_all add: Let_def split: option.split)
    have nx: "lo_estimator (?next s) = e" "lo_estimator (?next s2) = e" "lo_filter_initialized (?next s) = lo_filter_initialized s" "lo_sensors (?next s) = lo_sensors s"
      by (simp_all split: option.split)
    show ?thesis
    proof (cases "critical l = Some c")
      case True
      have "bad_input (of_int t / 10 ^ 9) l" using Cons.prems(4) m v True by (simp add: service_bad_def from_service_def)
      from bad_input_rejected [OF Cons.prems(1) this] r(1) have "e = lo_estimator s" "r = HL_TIMING_INVALID \<or> r = HL_INPUT_INVALID" by auto
      then have "lo_estimator s2 = lo_estimator (?next s)" "lo_input_invalid (?next s) c = lo_input_invalid s c + 1"
        using Cons.prems(2) True by (auto simp: count_invalid_def)
      with Cons.IH [of "?next s" s2] step(1) [of ms] nx r(2) l m v True show ?thesis
        by (simp add: others_def how_many_def from_service_def add.assoc)
    next
      case False
      have "lo_input_invalid (?next s) c = lo_input_invalid s c" using False by (simp split: option.split)
      with Cons.IH [of "?next s" "?next s2"] step(1) [of ms] step(2) [of "others c ms"] nx r(2) l m v False show ?thesis
        by (simp add: others_def how_many_def from_service_def)
    qed
  qed
qed (simp add: others_def how_many_def)

lemma handle_msgs_append: "handle_msgs K (xs @ ys) s = bind_result (handle_msgs K xs s) (handle_msgs K ys)"
  by (induction K xs s rule: handle_msgs.induct) (auto simp: bind_result_def Let_def split: sum.splits)

section \<open>Facts: recovery\<close>

lemma limits: "input_invalid_limit CS_cameraOdometry = 2" "input_invalid_limit CS_accelerometer = 10" "input_invalid_limit CS_gyroscope = 10"
  by (simp_all add: input_invalid_limit_def INPUT_INVALID_LIMIT_def service_frequency_def py_round_def Let_def floor_eq_iff)

lemma limit_pos: "1 \<le> input_invalid_limit c"
  by (cases c) (simp_all add: limits)

lemma frequency_pos: "0 < service_frequency c"
  by (cases c) (simp_all add: service_frequency_def)

lemma successes: "(count_invalid c HL_SUCCESS ^^ n) x = x * input_invalid_decay c ^ n"
  by (induction n) (simp_all add: count_invalid_def)

lemma root_power: "0 < b \<Longrightarrow> (b powr (1 / m)) ^ n = b powr (real n / m)" for b :: real
  using powr_realpow [of "b powr (1 / m)" n] by (simp add: powr_powr)

lemma decay_power:
  "input_invalid_decay c ^ n = (1 - 1 / (2 * of_int (input_invalid_limit c))) powr (real n / (10 * service_frequency c))"
proof -
  have "0 < 1 - 1 / (2 * real_of_int (input_invalid_limit c))" using limit_pos [of c] by (simp add: field_simps)
  then show ?thesis unfolding input_invalid_decay_def calculate_invalid_input_decay_def INPUT_INVALID_RECOVERY_def by (rule root_power)
qed

lemma decay_base: "0 < 1 - 1 / (2 * real_of_int (input_invalid_limit c))" "1 - 1 / (2 * real_of_int (input_invalid_limit c)) < 1"
  "real_of_int (input_invalid_limit c) * (1 - 1 / (2 * real_of_int (input_invalid_limit c))) = input_invalid_threshold c"
  using limit_pos [of c] by (simp_all add: field_simps input_invalid_threshold_def)

lemma recovers_after:
  assumes x: "0 \<le> x" "x \<le> of_int (input_invalid_limit c)" and n: "10 * service_frequency c < real n"
  shows "(count_invalid c HL_SUCCESS ^^ n) x < input_invalid_threshold c"
proof -
  let ?b = "1 - 1 / (2 * real_of_int (input_invalid_limit c))"
  have "1 < real n / (10 * service_frequency c)" using n frequency_pos [of c] by (simp add: field_simps)
  then have "?b powr (real n / (10 * service_frequency c)) < ?b powr 1" using decay_base [of c] by (intro powr_less_mono') simp_all
  then have less: "input_invalid_decay c ^ n < ?b" using decay_base(1) [of c] by (simp add: decay_power)
  have "x * input_invalid_decay c ^ n \<le> of_int (input_invalid_limit c) * input_invalid_decay c ^ n"
    using x by (intro mult_right_mono) (simp_all add: decay_power)
  also have "\<dots> < of_int (input_invalid_limit c) * ?b" using less limit_pos [of c] by (intro mult_strict_left_mono) simp_all
  finally show ?thesis unfolding successes decay_base(3) .
qed

lemma not_before:
  assumes n: "real n \<le> 10 * service_frequency c"
  shows "input_invalid_threshold c \<le> (count_invalid c HL_SUCCESS ^^ n) (of_int (input_invalid_limit c))"
proof -
  let ?b = "1 - 1 / (2 * real_of_int (input_invalid_limit c))"
  have "real n / (10 * service_frequency c) \<le> 1" using n frequency_pos [of c] by (simp add: field_simps)
  then have "?b powr 1 \<le> ?b powr (real n / (10 * service_frequency c))" using decay_base [of c] by (intro powr_mono') simp_all
  then have "?b \<le> input_invalid_decay c ^ n" using decay_base(1) [of c] by (simp add: decay_power)
  then have "of_int (input_invalid_limit c) * ?b \<le> of_int (input_invalid_limit c) * input_invalid_decay c ^ n" using limit_pos [of c] by (intro mult_left_mono) simp_all
  then show ?thesis unfolding successes decay_base(3) .
qed

section \<open>Facts: rounds\<close>

lemma get_msg_returns:
  assumes "loc_ok K e" shows "\<exists>m. loc_get_msg K sv iv fv e = Inr m \<and> lpo_valid m = fv \<and> lpo_inputsOK m = iv \<and> lpo_sensorsOK m = sv"
  using assms by (simp add: loc_get_msg_def Let_def init_xyz_measurement_def state_part_def loc_ok_def dims_def diagonal_def
      NED_ORIENTATION_def DEVICE_VELOCITY_def ANGULAR_VELOCITY_def ACCELERATION_def)

definition locationd_in_ok :: "locationd_in \<Rightarrow> bool" where
  "locationd_in_ok i \<longleftrightarrow> list_all (\<lambda>(_, _, l). loc_log_ok l) (round_msgs i)"

text \<open>The state between two rounds.\<close>

definition locationd_ok :: "'k pose_filter \<Rightarrow> 'k locationd \<Rightarrow> bool" where
  "locationd_ok K s \<longleftrightarrow> loc_ok K (lo_estimator s) \<and> (\<forall>c. 0 \<le> lo_input_invalid s c)"

lemma decay_nonneg: "0 \<le> input_invalid_decay c"
  by (simp add: input_invalid_decay_def calculate_invalid_input_decay_def)

lemma count_nonneg: "0 \<le> n \<Longrightarrow> 0 \<le> count_invalid c r n"
  by (cases r) (simp_all add: count_invalid_def decay_nonneg)

lemma handle_msgs_ok:
  "filter_dims K \<Longrightarrow> locationd_ok K s \<Longrightarrow> list_all (\<lambda>(_, _, l). loc_log_ok l) ms \<Longrightarrow> \<exists>s'. handle_msgs K ms s = Inr s' \<and> locationd_ok K s'"
proof (induction ms arbitrary: s)
  case (Cons m ms)
  obtain t v l where m: "m = (t, v, l)" by (metis prod.exhaust)
  with Cons.prems have l: "loc_log_ok l" "loc_ok K (lo_estimator s)" by (simp_all add: locationd_ok_def)
  show ?case
  proof (cases v)
    case True
    from loc_handle_log_returns [OF Cons.prems(1) l(2,1), of "of_int t / 10 ^ 9"] obtain r e where
      r: "loc_handle_log K (of_int t / 10 ^ 9) l (lo_estimator s) = Inr (r, e)" "loc_ok K e" by blast
    let ?next = "case critical l of None \<Rightarrow> s\<lparr>lo_estimator := e\<rparr>
      | Some c \<Rightarrow> s\<lparr>lo_estimator := e, lo_input_invalid := (lo_input_invalid s)(c := count_invalid c r (lo_input_invalid s c))\<rparr>"
    have "locationd_ok K ?next" using r(2) Cons.prems(2) count_nonneg by (auto simp: locationd_ok_def split: option.split)
    moreover have "handle_msgs K (m # ms) s = handle_msgs K ms ?next" using m True r(1) by (simp add: Let_def split: option.split)
    ultimately show ?thesis using Cons.IH [of ?next] Cons.prems by simp
  next
    case False
    with Cons m show ?thesis by simp
  qed
qed simp

text \<open>The first part of a round, and what the second part does with its state.\<close>

definition round_first :: "'k pose_filter \<Rightarrow> bool \<Rightarrow> locationd_in \<Rightarrow> 'k locationd \<Rightarrow> 'k locationd result" where
  "round_first K simulation i s =
     (if lo_filter_initialized s then handle_msgs K (round_msgs i) s
      else if loi_all_checks i
           then let (ok, st) = sensor_all_checks (loi_monotonic i) simulation (loi_acc_msgs i) (loi_gyro_msgs i) (lo_sensors s)
                in Inr (s\<lparr>lo_filter_initialized := ok, lo_sensors := st\<rparr>)
           else Inr s)"

lemma round_second:
  assumes "round_first K simulation i s = Inr s1" "loc_ok K (lo_estimator s1)"
  shows "\<exists>m st. locationd_round K simulation i s = Inr (m, s1\<lparr>lo_sensors := st\<rparr>)
    \<and> (case m of Some x \<Rightarrow> lpo_inputsOK x \<longrightarrow> critical_inputs_valid s1 | None \<Rightarrow> True)"
proof (cases "list_ex (\<lambda>(_, _, l). critical l = Some CS_cameraOdometry) (loi_updated i)")
  case True
  obtain sv st where sv: "sensor_all_checks (loi_monotonic i) simulation (loi_acc_msgs i) (loi_gyro_msgs i) (lo_sensors s1) = (sv, st)" by force
  from get_msg_returns [OF assms(2), of sv "loi_all_valid i \<and> critical_inputs_valid s1" "lo_filter_initialized s1"] obtain m where
    m: "loc_get_msg K sv (loi_all_valid i \<and> critical_inputs_valid s1) (lo_filter_initialized s1) (lo_estimator s1) = Inr m"
    "lpo_inputsOK m = (loi_all_valid i \<and> critical_inputs_valid s1)" by blast
  have "locationd_round K simulation i s = Inr (Some m, s1\<lparr>lo_sensors := st\<rparr>)"
    unfolding locationd_round_def round_first_def [symmetric] assms(1) bind_result_simps if_P [OF True] by (simp only: Let_def sv prod.case m(1) bind_result_simps)
  with m(2) show ?thesis by (intro exI [of _ "Some m"] exI [of _ st]) simp
next
  case False
  then have "locationd_round K simulation i s = Inr (None, s1\<lparr>lo_sensors := lo_sensors s1\<rparr>)"
    unfolding locationd_round_def round_first_def [symmetric] assms(1) bind_result_simps if_not_P [OF False] by simp
  then show ?thesis by (intro exI [of _ None] exI [of _ "lo_sensors s1"]) simp
qed

lemma locationd_round_ok:
  assumes K: "filter_dims K" "locationd_ok K s" and i: "locationd_in_ok i"
  shows "\<exists>m s'. locationd_round K simulation i s = Inr (m, s') \<and> locationd_ok K s'"
proof -
  have "\<exists>s1. round_first K simulation i s = Inr s1 \<and> locationd_ok K s1"
    using handle_msgs_ok [OF K, of "round_msgs i"] i K(2) by (auto simp: round_first_def locationd_in_ok_def locationd_ok_def split: prod.splits)
  then obtain s1 where s1: "round_first K simulation i s = Inr s1" "locationd_ok K s1" by blast
  then have "loc_ok K (lo_estimator s1)" by (simp add: locationd_ok_def)
  from round_second [OF s1(1) this] obtain m st where "locationd_round K simulation i s = Inr (m, s1\<lparr>lo_sensors := st\<rparr>)" by blast
  moreover have "locationd_ok K (s1\<lparr>lo_sensors := st\<rparr>)" using s1(2) by (simp add: locationd_ok_def)
  ultimately show ?thesis by blast
qed

lemma locationd_run_ok:
  "filter_dims K \<Longrightarrow> locationd_ok K s \<Longrightarrow> list_all locationd_in_ok is
    \<Longrightarrow> \<exists>ms s'. locationd_run K simulation is s = Inr (ms, s') \<and> length ms = length is \<and> locationd_ok K s'"
proof (induction "is" arbitrary: s)
  case (Cons i "is")
  from Cons.prems(3) have i: "locationd_in_ok i" "list_all locationd_in_ok is" by simp_all
  from locationd_round_ok [OF Cons.prems(1,2) i(1), of simulation] obtain m s1 where
    m: "locationd_round K simulation i s = Inr (m, s1)" "locationd_ok K s1" by blast
  from Cons.IH [OF Cons.prems(1) m(2) i(2)] m(1) show ?case by auto
qed simp

definition stored_pose_ok :: "(real list \<times> real list) option \<Rightarrow> bool" where
  "stored_pose_ok initial = (case initial of Some (x, std) \<Rightarrow> (x = [] \<or> length x = 18) \<and> (std = [] \<or> length std = 18) | None \<Rightarrow> True)"

lemma locationd_start_ok:
  assumes "filter_dims K" "stored_pose_ok initial" shows "locationd_ok K (locationd_start K initial)"
  using assms eye_isometry by (auto simp: locationd_start_def locationd_ok_def loc_ok_def stored_pose_ok_def Let_def LocationEstimator_init_def loc_reset_def filter_dims_def
      initial_dims np_diag_def split: option.splits)

text \<open>Rounds of a running localiser in which every message of one service is bad.\<close>

lemma bad_run:
  assumes "filter_dims K" "loc_ok K (lo_estimator s)" "lo_filter_initialized s" "lo_estimator s2 = lo_estimator s"
    "list_all locationd_in_ok is" "list_all (\<lambda>i. service_bad c (round_msgs i)) is"
  shows "\<exists>ms s' s2'. locationd_run K simulation is s = Inr (ms, s') \<and> handle_msgs K (others c (concat (map round_msgs is))) s2 = Inr s2'
    \<and> lo_estimator s2' = lo_estimator s' \<and> lo_input_invalid s' c = lo_input_invalid s c + real (how_many c (concat (map round_msgs is)))
    \<and> length ms = length is
    \<and> (\<forall>m. is \<noteq> [] \<and> last ms = Some m \<and> lpo_inputsOK m \<longrightarrow> lo_input_invalid s' c < input_invalid_threshold c)"
  using assms(2-6)
proof (induction "is" arbitrary: s s2)
  case (Cons i "is")
  from Cons.prems have i: "list_all (\<lambda>(_, _, l). loc_log_ok l) (round_msgs i)" "service_bad c (round_msgs i)" by (simp_all add: locationd_in_ok_def)
  from bad_msgs_ignored [OF assms(1) Cons.prems(1,3) i] obtain s1 s3 where
    s1: "handle_msgs K (round_msgs i) s = Inr s1" "handle_msgs K (others c (round_msgs i)) s2 = Inr s3" "lo_estimator s3 = lo_estimator s1" "loc_ok K (lo_estimator s1)"
      "lo_input_invalid s1 c = lo_input_invalid s c + real (how_many c (round_msgs i))" "lo_filter_initialized s1" using Cons.prems(2) by auto
  have "round_first K simulation i s = Inr s1" using s1(1) Cons.prems(2) by (simp add: round_first_def)
  from round_second [OF this s1(4)] obtain m st where
    m: "locationd_round K simulation i s = Inr (m, s1\<lparr>lo_sensors := st\<rparr>)" "case m of Some x \<Rightarrow> lpo_inputsOK x \<longrightarrow> critical_inputs_valid s1 | None \<Rightarrow> True" by blast
  let ?t = "s1\<lparr>lo_sensors := st\<rparr>"
  from Cons.IH [of ?t s3] s1 Cons.prems obtain ms s' s2' where
    IH: "locationd_run K simulation is ?t = Inr (ms, s')" "handle_msgs K (others c (concat (map round_msgs is))) s3 = Inr s2'"
      "lo_estimator s2' = lo_estimator s'" "lo_input_invalid s' c = lo_input_invalid s1 c + real (how_many c (concat (map round_msgs is)))" "length ms = length is"
      "\<forall>m. is \<noteq> [] \<and> last ms = Some m \<and> lpo_inputsOK m \<longrightarrow> lo_input_invalid s' c < input_invalid_threshold c" by auto
  have run: "locationd_run K simulation (i # is) s = Inr (m # ms, s')" using m(1) IH(1) by simp
  have rest: "handle_msgs K (others c (concat (map round_msgs (i # is)))) s2 = Inr s2'"
    using s1(2) IH(2) by (simp add: others_def handle_msgs_append)
  have count: "lo_input_invalid s' c = lo_input_invalid s c + real (how_many c (concat (map round_msgs (i # is))))"
    using IH(4) s1(5) by (simp add: how_many_def)
  have "lo_input_invalid s' c < input_invalid_threshold c" if "last (m # ms) = Some x" "lpo_inputsOK x" for x
  proof (cases "is = []")
    case True
    with IH(1,5) that m(2) have "critical_inputs_valid s1" "s' = ?t" by auto
    then show ?thesis by (cases c) (simp_all add: critical_inputs_valid_def)
  next
    case False
    with IH(5) have "ms \<noteq> []" by auto
    with False IH(6) that show ?thesis by auto
  qed
  with run rest count IH(3,5) show ?case by auto
qed (simp add: others_def how_many_def)

section \<open>Properties\<close>

text \<open>
  C40. Bad inputs do not reach the filter and do not stay unnoticed. From any state the localiser reaches with its filter running, take any
  further rounds in which every message that one of the sensors or the camera delivers is bad: no time or a time more than 0.1 s off, a
  reading or a motion that is too large, a motion that is too certain or too uncertain. The estimator is then the one it would be without
  these messages, and once they are as many as the limit of the service (2 of the camera, 10 of a sensor), a pose published in the last
  of these rounds says that its inputs are not in order. Readings have three axes, calibrations none or three angles, and of the filter
  only its dimensions are used.
\<close>

theorem bad_inputs_reported:
  assumes "filter_dims K" "stored_pose_ok initial" "list_all locationd_in_ok (js @ is)"
    and "locationd_run K simulation js (locationd_start K initial) = Inr (ms0, s)" "lo_filter_initialized s"
    and "list_all (\<lambda>i. service_bad c (round_msgs i)) is" "input_invalid_limit c \<le> int (how_many c (concat (map round_msgs is)))"
  shows "\<exists>ms s' s''. locationd_run K simulation is s = Inr (ms, s') \<and> handle_msgs K (others c (concat (map round_msgs is))) s = Inr s''
    \<and> lo_estimator s' = lo_estimator s'' \<and> ms \<noteq> [] \<and> (case last ms of Some m \<Rightarrow> \<not> lpo_inputsOK m | None \<Rightarrow> True)"
proof -
  have "list_all locationd_in_ok js" "list_all locationd_in_ok is" using assms(3) by simp_all
  from locationd_run_ok [OF assms(1) locationd_start_ok [OF assms(1,2)] this(1), of simulation] assms(4) have s: "locationd_ok K s" by auto
  then have e: "loc_ok K (lo_estimator s)" "0 \<le> lo_input_invalid s c" by (simp_all add: locationd_ok_def)
  from bad_run [OF assms(1) e(1) assms(5) refl \<open>list_all locationd_in_ok is\<close> assms(6), of simulation] obtain ms s' s'' where
    r: "locationd_run K simulation is s = Inr (ms, s')" "handle_msgs K (others c (concat (map round_msgs is))) s = Inr s''" "lo_estimator s'' = lo_estimator s'"
      "lo_input_invalid s' c = lo_input_invalid s c + real (how_many c (concat (map round_msgs is)))" "length ms = length is"
      "\<forall>m. is \<noteq> [] \<and> last ms = Some m \<and> lpo_inputsOK m \<longrightarrow> lo_input_invalid s' c < input_invalid_threshold c" by blast
  have "is \<noteq> []" using assms(7) limit_pos [of c] by (auto simp: how_many_def)
  moreover have "\<not> lo_input_invalid s' c < input_invalid_threshold c" using r(4) e(2) assms(7) by (simp add: input_invalid_threshold_def)
  ultimately show ?thesis using r by (auto split: option.split)
qed

text \<open>A filter that keeps what it is initialised with.\<close>

definition test_filter :: "(floats \<times> floats list \<times> real option) pose_filter" where
  "test_filter = \<lparr>pf_init_state = (\<lambda>x P t. (x, P, t)), pf_t = (\<lambda>(x, P, t). t), pf_x = (\<lambda>(x, P, t). x), pf_P = (\<lambda>(x, P, t). P),
     pf_predict_and_observe = (\<lambda>t kind z R (x, P, t'). (Some (x, P), (x, P, Some t)))\<rparr>"

lemma test_filter_dims: "filter_dims test_filter"
  by (auto simp: filter_dims_def dims_def test_filter_def split: prod.splits)

text \<open>A start with both sensors alive, then two motions of the camera at 20 rad/s, each with a sound calibration.\<close>

definition still :: sensor_event where
  "still = \<lparr>se_reading = IMU_empty, se_timestamp = 0, se_source = IMU_other 0\<rparr>"

definition alive :: locationd_in where
  "alive = \<lparr>loi_acc_msgs = [(0, True, still)], loi_gyro_msgs = [(0, True, still)], loi_updated = [], loi_all_checks = True, loi_all_valid = True, loi_monotonic = 0\<rparr>"

definition shaken :: "int \<Rightarrow> locationd_in" where
  "shaken t = alive\<lparr>loi_updated := [(t, True, LO_liveCalibration [0, 1/10, 0]),
     (t + 1, True, LO_cameraOdometry \<lparr>cm_rot = (20, 0, 0), cm_trans = (0, 0, 0), cm_rotStd = (1, 1, 1), cm_transStd = (1, 1, 1)\<rparr>)]\<rparr>"

lemma shaken_msgs:
  "list_all locationd_in_ok ([alive] @ [shaken 5, shaken 9])" "list_all (\<lambda>i. service_bad CS_cameraOdometry (round_msgs i)) [shaken 5, shaken 9]"
  "how_many CS_cameraOdometry (concat (map round_msgs [shaken 5, shaken 9])) = 2"
proof -
  have "\<not> sqrt 400 \<le> 10" using real_sqrt_abs [of 20] by simp
  then show "list_all (\<lambda>i. service_bad CS_cameraOdometry (round_msgs i)) [shaken 5, shaken 9]"
    by (simp add: service_bad_def from_service_def round_msgs_def shaken_def alive_def still_def critical_def bad_input_def norm3_def)
qed (simp_all add: locationd_in_ok_def loc_log_ok_def how_many_def from_service_def round_msgs_def shaken_def alive_def still_def critical_def)

theorem bad_inputs_reported_witness:
  "\<exists>ms0 s ms s' s''. locationd_run test_filter False [alive] (locationd_start test_filter None) = Inr (ms0, s) \<and> locationd_run test_filter False [shaken 5, shaken 9] s = Inr (ms, s')
    \<and> handle_msgs test_filter (others CS_cameraOdometry (concat (map round_msgs [shaken 5, shaken 9]))) s = Inr s''
    \<and> lo_estimator s' = lo_estimator s'' \<and> ms \<noteq> [] \<and> (case last ms of Some m \<Rightarrow> \<not> lpo_inputsOK m | None \<Rightarrow> True)"
proof -
  have start: "\<exists>s. locationd_run test_filter False [alive] (locationd_start test_filter None) = Inr ([None], s) \<and> lo_filter_initialized s"
    by (simp add: locationd_round_def alive_def still_def locationd_start_def sensor_all_checks_def check_sensor_def Let_def)
  then obtain s where s: "locationd_run test_filter False [alive] (locationd_start test_filter None) = Inr ([None], s)" "lo_filter_initialized s" by blast
  have "stored_pose_ok None" "input_invalid_limit CS_cameraOdometry \<le> int (how_many CS_cameraOdometry (concat (map round_msgs [shaken 5, shaken 9])))"
    by (simp_all only: stored_pose_ok_def option.case shaken_msgs(3) limits)
  from bad_inputs_reported [OF test_filter_dims this(1) shaken_msgs(1) s shaken_msgs(2) this(2)] s(1) show ?thesis by blast
qed

text \<open>
  The localiser recovers in ten seconds and not before: at a count of invalid inputs of at most the limit, any number of good inputs that
  takes more than ten seconds at the rate of the service brings the count below the threshold, and from the limit itself no number of
  good inputs that takes at most ten seconds does.
\<close>

lemma inputs_recover_in_ten_seconds:
  assumes "0 \<le> x" "x \<le> of_int (input_invalid_limit c)" "10 * service_frequency c < real n" "real m \<le> 10 * service_frequency c"
  shows "(count_invalid c HL_SUCCESS ^^ n) x < input_invalid_threshold c
    \<and> input_invalid_threshold c \<le> (count_invalid c HL_SUCCESS ^^ m) (of_int (input_invalid_limit c))"
  using recovers_after [OF assms(1,2,3)] not_before [OF assms(4)] by simp

text \<open>No sequence of rounds fails, from any stored state of the filter of the right dimensions on.\<close>

lemma locationd_never_raises:
  assumes "filter_dims K" "stored_pose_ok initial" "list_all locationd_in_ok is"
  shows "\<exists>ms s'. locationd_run K simulation is (locationd_start K initial) = Inr (ms, s') \<and> length ms = length is"
  using locationd_run_ok [OF assms(1) locationd_start_ok [OF assms(1,2)] assms(3), of simulation] by blast

end
