(* ===== verification/Spec2Isabelle.thy ===== *)
theory Spec2Isabelle
  imports Alert_Manager Mads_Facts Cruise Icbm Cruise_Helper Car_Events Speed_Limit_Resolver Speed_Limit_Assist Excessive_Actuation
    Transformations Locationd_Helpers Selfdrived_Safety Driver_Monitoring_Facts Drive_Helpers
    Desire_Helper Filters Fft_Size Long_Planner Long_Control Lat_Control Controls Ubloxd Manager_Facts Calibrationd Torqued Lagd
    Locationd
begin

text \<open>
  A verification development for sunnypilot, a driver assistance system in Python: the decisions that
  end in a command to the car, an alert for the driver, or the device going on or off the road.

  \<^bold>\<open>The program.\<close> Every process of the system reads messages, keeps a state and publishes messages. The camera
  models, the radar and the car are its senses. \<open>calibrationd\<close> estimates how the camera is mounted, \<open>locationd\<close> how the device moves. \<open>radard\<close>
  joins radar and camera to leads. \<open>plannerd\<close> plans the acceleration. \<open>dmonitoringd\<close> watches the driver. \<open>selfdrived\<close> collects events
  from all of them, runs the state machine of openpilot and, for steering on its own, that of MADS, and publishes state and
  alerts. \<open>controlsd\<close> turns plan and state into commands. \<open>ubloxd\<close> parses the satellite receiver. Around them, \<open>hardwared\<close> decides
  whether the device is on the road, and the manager starts and stops the processes accordingly. The development models each of these
  as a function from a state and the messages of a cycle to a new state and the messages sent, in the order the code works them through.

  \<^bold>\<open>Conventions.\<close> A class is a record, a method a function on it; names are those of the source, with a prefix where
  fields would clash. A raised exception is \<open>Inl\<close> of an error, and the theorems on a whole process say that it does not raise. Floats are
  exact reals and ints are \<open>int\<close> (rounding, signed zeros and single precision are not modelled); where the code computes with infinity or NaN
  the model has a datatype for it (\<open>flt\<close> in Scc) or says that the branch is left out. The satellite parser works on bytes and fixed-width integers, and forwards IEEE
  numbers as their bytes. An index out of range raises as in Python. Clocks are arguments. The parameter store is a map; its
  offroad alerts are a map of their own; what other processes write to it between two rounds is an input where it matters. Shared \<open>Alert\<close>
  objects of the tables are values: the code writes them only idempotently. Log output, statistics and attributes that only logs read are left out. Code outside the repository is a parameter:
  values and functions of opendbc (flags, limits, the car interface, the vehicle model) and the acados solver are records the definitions take,
  with what the theorems need of them as hypotheses that their witnesses discharge. JSON and network files are given decoded. There is no fuel: loops are structural, or have a
  proved measure, and the two nested loops of \<open>fft_next_good_size\<close> are partial functions proved to end.

  \<^bold>\<open>Shared.\<close> Prelude (numerics of Python and numpy, units of \<open>common/constants.py\<close>, errors, blocks of statements and what they keep), Windows (the locale \<open>bounded_history\<close>, interpreted
  on the moving averages of Messaging, the point queue of Locationd_Helpers, the history of Radard and the filter of Dec), Params (\<open>common/params_pyx.pyx\<close>), Messaging (\<open>cereal/messaging\<close>: SubMaster and
  its health checks; the ring buffer refines the list of the last values), Car_Types and Sd_Messages (messages), Filters (\<open>common/filter_simple.py\<close>, \<open>stat_live.py\<close>, \<open>pid.py\<close>: limits and
  exactness of the running statistics), Transformations (\<open>common/transformations\<close>: rotations by Euler angles, matrices and quaternions agree, round trips).

  \<^bold>\<open>Events and alerts.\<close> Event_Names, Events_Base (\<open>selfdrive/selfdrived/events.py\<close> and its base class in \<open>sunnypilot\<close>), Events_Table and Events_SP_Table (every entry), Event_Facts (the locale
  \<open>event_source\<close>, interpreted on both tables: which alerts come out, in order), Alert_Manager (\<open>alertmanager.py\<close>: the alert shown is one none outranks).

  \<^bold>\<open>Engagement.\<close> Selfdrive_State (\<open>selfdrived/state.py\<close>; the locale \<open>engagement\<close>, interpreted on it and on Mads_State: who becomes engaged was asked to), Mads_State, Mads and Mads_Facts (\<open>sunnypilot/mads\<close>),
  Car_Events (\<open>car_specific.py\<close> of both), Excessive_Actuation (\<open>selfdrived/helpers.py\<close>), Cruise_Helper, Selfdrived (\<open>selfdrived.py\<close>: every check of \<open>update_events\<close> in order, \<open>step\<close>, the parameter thread), Selfdrived_Facts (which events a cycle is sure to have, or sure not to have)
  and Selfdrived_Safety (whole cycles: pedals, panda and bus failures disengage at once, nothing engages by itself, no sequence of cycles raises but for one division by zero, \<open>saturation_raises\<close>).

  \<^bold>\<open>Speed.\<close> Cruise_Buttons, Cruise (\<open>selfdrive/car/cruise.py\<close>, \<open>cruise_ext.py\<close>, \<open>card.py\<close>: set speed), Icbm (\<open>intelligent_cruise_button_management\<close>), Speed_Limit, Speed_Limit_Resolver, Speed_Limit_Assist, Scc (\<open>smart_cruise_control\<close>), Dec (\<open>dec.py\<close>), E2e_Alerts, Radard
  (\<open>radard.py\<close>), Long_Mpc (\<open>long_mpc.py\<close> without the solver), Planner_Sp and Long_Planner (\<open>longitudinal_planner.py\<close> of both, \<open>plannerd.py\<close>: the target stays within the limits of the car and below every target speed),
  Long_Control (\<open>longcontrol.py\<close>).

  \<^bold>\<open>Steering.\<close> Drive_Helpers (\<open>drive_helpers.py\<close>, \<open>latcontrol.py\<close>, \<open>ldw.py\<close>, \<open>blinker_pause_lateral.py\<close>), Desire_Helper (lane changes), Locationd_Helpers and Fft_Size (\<open>locationd/helpers.py\<close>), Lat_Control (angle and PID), Nn_Model, Torque_Ext and
  Lat_Torque (\<open>latcontrol_torque.py\<close> with the neural controller of \<open>nnlc\<close>), Controls (\<open>controlsd.py\<close>, \<open>controlsd_ext.py\<close>: commands within the limits, those on the torque while the neural controller is off; a brake press in selfdrived releases wheel and accelerator in the next cycle of controlsd), Calibrationd
  (\<open>calibrationd.py\<close>: the calibration stays plausible), Torqued (\<open>torqued.py\<close>, \<open>torqued_ext.py\<close>: what is learned about the steering stays near the car's own values; the fit of a line is a parameter),
  Lagd (\<open>lagd.py\<close>, \<open>livedelay\<close>: the delay of the steering is learned within a second; the Fourier transform is a parameter),
  Locationd (\<open>locationd.py\<close>: bad readings do not reach the Kalman filter and are reported; the filter is a parameter).

  \<^bold>\<open>The driver.\<close> Driver_Monitoring and Driver_Monitoring_Facts (\<open>selfdrive/monitoring\<close>: the terminal alert comes in time, the lockout stays).

  \<^bold>\<open>The receiver.\<close> Ubx_Framer, Binary_Struct, Gnss_Schemas and Ubloxd (\<open>system/ubloxd\<close>: frames cut anywhere come back, bits are read as the slice they are, the caches of half-received ephemerides
  are consistent).

  \<^bold>\<open>The device.\<close> Power_Monitoring (\<open>power_monitoring.py\<close>, \<open>fan_controller.py\<close>), Hardwared (\<open>hardwared.py\<close>: when the device starts, by the ignition on record; thermal bands are an instance of \<open>linorder\<close>, as are the alert priorities), Processes (\<open>manager/process.py\<close>), Process_Config (\<open>process_config.py\<close>:
  the table and its predicates), Manager and Manager_Facts (\<open>manager.py\<close>: a device that is not fit for the road has no driving process left after two rounds, and one driving model runs at most).

  \<^bold>\<open>How the theorems are built.\<close> Every process has an invariant on its state, a lemma that each step returns and keeps it, and from these a theorem on all runs from the constructor on; properties that
  span processes compose the steps. Numbers in statements are those of the code: 225 cycles until the terminal alert, 201 cycles of a lane change, fifteen cycles of a driving mode.

  \<^bold>\<open>Not modelled.\<close> The user interface (\<open>selfdrive/ui\<close>, \<open>system/ui\<close>), which draws what is published; the models and their inference (\<open>modeld\<close>, \<open>sunnypilot/modeld\<close>), whose weights and runtime are not in the sources; the
  filter of the vehicle's parameters (\<open>paramsd.py\<close>), which rests on the rednose submodule; the lateral MPC and the generation of the solvers; logging, upload and remote access (\<open>loggerd\<close>, \<open>athenad\<close>,
  sunnylink), the updater and the map daemon, which move files and call services; the drivers of sensors and modem; tools and tests. Within modelled parts: sockets and their timing, time stamps of messages, locks, and \<open>get_kalman_gain\<close>, which nothing calls.
\<close>

end
